(* ===== verification/Prelude.thy ===== *)
theory Prelude
  imports Main "HOL-Library.Word"
begin

text \<open>
  Shared vocabulary of the development: Python exceptions as one datatype, results as
  sums, byte strings as lists of 8-bit words, big-endian integers, decimal rendering,
  and the generic lemmas that carry the component proofs.

  Every exception class of the sources is a constructor of \<open>exn\<close>, so that an
  \<^verbatim>\<open>except WireError\<close> clause of the code is a case distinction that lets every
  other exception through.
\<close>

unbundle bit_operations_syntax

named_theorems res_simps \<open>inversion of results\<close>
named_theorems byte_simps \<open>bytes, widths and big-endian integers\<close>

section \<open>Exceptions and results\<close>

datatype exn =
    WireError string string
  | CryptoError string
  | AuthError string
  | StoreError string
  | RecoveryError string
  | ConnectivityError string
  | FileError string
  | EventError string
  | KeeperError string
  | FetchError string
  | ExchangeError string
  | InboxError string
  | SubscriptionError string
  | ContractError string
  | SharedChangeError string
  | LifecycleError string
  | ServiceError string
  | ValueError
  | TypeError
  | KeyError
  | IndexError
  | AttributeError
  | UnicodeError
  | OSError

type_synonym 'a res = "exn + 'a"

definition bindE :: "'a res \<Rightarrow> ('a \<Rightarrow> 'b res) \<Rightarrow> 'b res" where
  "bindE m f = (case m of Inl e \<Rightarrow> Inl e | Inr x \<Rightarrow> f x)"

lemma bindE_Inl [simp]: "bindE (Inl e) f = Inl e"
  by (simp add: bindE_def)

lemma bindE_Inr [simp]: "bindE (Inr x) f = f x"
  by (simp add: bindE_def)

lemma bindE_eq_Inr [res_simps]: "bindE m f = Inr y \<longleftrightarrow> (\<exists>x. m = Inr x \<and> f x = Inr y)"
  by (simp add: bindE_def split: sum.splits)

lemma bindE_eq_Inl [res_simps]:
  "bindE m f = Inl e \<longleftrightarrow> m = Inl e \<or> (\<exists>x. m = Inr x \<and> f x = Inl e)"
  by (auto simp: bindE_def split: sum.splits)

lemma bindE_cong [fundef_cong]:
  "m = m' \<Longrightarrow> (\<And>x. m' = Inr x \<Longrightarrow> f x = f' x) \<Longrightarrow> bindE m f = bindE m' f'"
  by (simp add: bindE_def split: sum.splits)

lemma bindE_assoc: "bindE (bindE m f) g = bindE m (\<lambda>x. bindE (f x) g)"
  by (simp add: bindE_def split: sum.splits)

text \<open>A guard that raises: \<^verbatim>\<open>if not c: raise e\<close>.\<close>

definition need :: "bool \<Rightarrow> exn \<Rightarrow> unit res" where
  "need c e = (if c then Inr () else Inl e)"

lemma need_eq_Inr [simp]: "need c e = Inr u \<longleftrightarrow> c"
  by (simp add: need_def)

lemma need_eq_Inl [simp]: "need c e = Inl e' \<longleftrightarrow> \<not> c \<and> e' = e"
  by (auto simp: need_def)

lemma need_True [simp]: "need True e = Inr ()"
  by (simp add: need_def)

lemma need_False [simp]: "need False e = Inl e"
  by (simp add: need_def)

text \<open>Loops over a list with a state, and element-wise checks.\<close>

primrec foldE :: "('a \<Rightarrow> 's \<Rightarrow> 's res) \<Rightarrow> 'a list \<Rightarrow> 's \<Rightarrow> 's res" where
  "foldE f [] s = Inr s"
| "foldE f (x # xs) s = bindE (f x s) (foldE f xs)"

primrec mapE :: "('a \<Rightarrow> 'b res) \<Rightarrow> 'a list \<Rightarrow> 'b list res" where
  "mapE f [] = Inr []"
| "mapE f (x # xs) = bindE (f x) (\<lambda>y. bindE (mapE f xs) (\<lambda>ys. Inr (y # ys)))"

primrec allE :: "('a \<Rightarrow> unit res) \<Rightarrow> 'a list \<Rightarrow> unit res" where
  "allE f [] = Inr ()"
| "allE f (x # xs) = bindE (f x) (\<lambda>_. allE f xs)"

lemma foldE_append: "foldE f (xs @ ys) s = bindE (foldE f xs s) (foldE f ys)"
proof (induction xs arbitrary: s)
  case (Cons x xs)
  then have "foldE f (xs @ ys) = (\<lambda>s. bindE (foldE f xs s) (foldE f ys))"
    by (simp add: fun_eq_iff)
  then show ?case by (simp add: bindE_assoc)
qed simp

lemma allE_eq_Inr [res_simps]: "allE f xs = Inr u \<longleftrightarrow> (\<forall>x \<in> set xs. f x = Inr ())"
  by (induction xs) (auto simp: res_simps)

lemma allE_cong [fundef_cong]:
  "xs = ys \<Longrightarrow> (\<And>x. x \<in> set ys \<Longrightarrow> f x = g x) \<Longrightarrow> allE f xs = allE g ys"
  by (induction xs arbitrary: ys) auto

lemma mapE_cong [fundef_cong]:
  "xs = ys \<Longrightarrow> (\<And>x. x \<in> set ys \<Longrightarrow> f x = g x) \<Longrightarrow> mapE f xs = mapE g ys"
  by (induction xs arbitrary: ys) auto

lemma mapE_eq_Inr [res_simps]: "mapE f xs = Inr ys \<longleftrightarrow> list_all2 (\<lambda>x y. f x = Inr y) xs ys"
  by (induction xs arbitrary: ys) (auto simp: res_simps list_all2_Cons1)

lemma foldE_cong [fundef_cong]:
  "xs = ys \<Longrightarrow> s = t \<Longrightarrow> (\<And>x u. x \<in> set ys \<Longrightarrow> f x u = g x u) \<Longrightarrow> foldE f xs s = foldE g ys t"
proof (induction xs arbitrary: ys s t)
  case Nil
  then show ?case by simp
next
  case (Cons x xs)
  then show ?case by (auto intro!: bindE_cong)
qed

text \<open>An invariant of the state that every iteration keeps holds after the loop.\<close>

lemma foldE_invariant:
  assumes "foldE f xs s = Inr t" and "P s"
    and "\<And>x u v. x \<in> set xs \<Longrightarrow> P u \<Longrightarrow> f x u = Inr v \<Longrightarrow> P v"
  shows "P t"
  using assms by (induction xs arbitrary: s) (auto simp: res_simps)

text \<open>
  \<open>raises P m\<close>: if \<open>m\<close> raises, its exception satisfies \<open>P\<close>. The rules follow the
  structure of the models, so that "this handler raises only its own error class" is
  proved by \<open>intro\<close> alone.
\<close>

named_theorems raises_intros \<open>structural rules for the exceptions a computation can raise\<close>

definition raises :: "(exn \<Rightarrow> bool) \<Rightarrow> 'a res \<Rightarrow> bool" where
  "raises P m \<longleftrightarrow> (\<forall>e. m = Inl e \<longrightarrow> P e)"

lemma raises_Inr [raises_intros]: "raises P (Inr x)"
  by (simp add: raises_def)

lemma raises_Inl [raises_intros]: "P e \<Longrightarrow> raises P (Inl e)"
  by (simp add: raises_def)

lemma raises_need [raises_intros]: "P e \<Longrightarrow> raises P (need c e)"
  by (simp add: raises_def)

lemma raises_bindE [raises_intros]:
  "raises P m \<Longrightarrow> (\<And>x. m = Inr x \<Longrightarrow> raises P (f x)) \<Longrightarrow> raises P (bindE m f)"
  by (auto simp: raises_def res_simps)

lemma raises_if [raises_intros]:
  "(c \<Longrightarrow> raises P m) \<Longrightarrow> (\<not> c \<Longrightarrow> raises P m') \<Longrightarrow> raises P (if c then m else m')"
  by simp

lemma raises_option [raises_intros]:
  "(x = None \<Longrightarrow> raises P m) \<Longrightarrow> (\<And>y. x = Some y \<Longrightarrow> raises P (f y)) \<Longrightarrow> raises P (case x of None \<Rightarrow> m | Some y \<Rightarrow> f y)"
  by (cases x) auto

lemma raises_prod [raises_intros]:
  "(\<And>a b. x = (a, b) \<Longrightarrow> raises P (f a b)) \<Longrightarrow> raises P (case x of (a, b) \<Rightarrow> f a b)"
  by (cases x) auto

lemma raises_Let [raises_intros]: "raises P (f x) \<Longrightarrow> raises P (let y = x in f y)"
  by (simp add: Let_def)

lemma raises_foldE [raises_intros]:
  "(\<And>x s. x \<in> set xs \<Longrightarrow> raises P (f x s)) \<Longrightarrow> raises P (foldE f xs s)"
  by (induction xs arbitrary: s) (auto intro!: raises_intros)

lemma raises_mapE [raises_intros]: "(\<And>x. x \<in> set xs \<Longrightarrow> raises P (f x)) \<Longrightarrow> raises P (mapE f xs)"
  by (induction xs) (auto intro!: raises_intros)

lemma raises_allE [raises_intros]: "(\<And>x. x \<in> set xs \<Longrightarrow> raises P (f x)) \<Longrightarrow> raises P (allE f xs)"
  by (induction xs) (auto intro!: raises_intros)

lemma raisesD: "raises P m \<Longrightarrow> m = Inl e \<Longrightarrow> P e"
  by (simp add: raises_def)

section \<open>Byte strings\<close>

type_synonym byte = "8 word"
type_synonym bytes = "byte list"

text \<open>\<^verbatim>\<open>bytes([n])\<close> for a value below 256 and \<^verbatim>\<open>b[i]\<close> as an integer.\<close>

definition byte :: "nat \<Rightarrow> byte" where
  "byte n = word_of_nat n"

lemma unat_byte [byte_simps]: "n < 256 \<Longrightarrow> unat (byte n) = n"
  by (simp add: byte_def unat_of_nat)

lemma byte_unat [simp]: "byte (unat b) = b"
  by (simp add: byte_def)

lemma unat_byte_lt [simp]: "unat (b :: byte) < 256"
  using unsigned_less [of b] by simp

lemma byte_eq_iff: "(a :: byte) = b \<longleftrightarrow> unat a = unat b"
  by (simp add: word_unat_eq_iff)

text \<open>\<^verbatim>\<open>n.to_bytes(w, 'big')\<close> for \<open>n < 256 ^ w\<close>, and \<^verbatim>\<open>int.from_bytes(b, 'big')\<close>.\<close>

primrec to_bytes :: "nat \<Rightarrow> nat \<Rightarrow> bytes" where
  "to_bytes 0 n = []"
| "to_bytes (Suc w) n = to_bytes w (n div 256) @ [byte (n mod 256)]"

definition from_bytes :: "bytes \<Rightarrow> nat" where
  "from_bytes bs = foldl (\<lambda>n b. n * 256 + unat b) 0 bs"

lemma to_bytes_numeral:
  "to_bytes (numeral k) n = to_bytes (pred_numeral k) (n div 256) @ [byte (n mod 256)]"
  by (simp only: numeral_eq_Suc to_bytes.simps)

lemma length_to_bytes [simp]: "length (to_bytes w n) = w"
  by (induction w arbitrary: n) auto

lemma from_bytes_Nil [simp]: "from_bytes [] = 0"
  by (simp add: from_bytes_def)

lemma from_bytes_snoc [simp]: "from_bytes (bs @ [b]) = from_bytes bs * 256 + unat b"
  by (simp add: from_bytes_def)

lemma from_to_bytes [byte_simps]: "n < 256 ^ w \<Longrightarrow> from_bytes (to_bytes w n) = n"
proof (induction w arbitrary: n)
  case 0
  then show ?case by simp
next
  case (Suc w)
  then have "n div 256 < 256 ^ w"
    by (simp add: less_mult_imp_div_less mult.commute)
  with Suc.IH show ?case by (simp add: unat_byte)
qed

lemma from_bytes_bound: "from_bytes bs < 256 ^ length bs"
proof (induction bs rule: rev_induct)
  case Nil
  then show ?case by simp
next
  case (snoc b bs)
  have "unat b < 256" by simp
  with snoc have "from_bytes bs * 256 + unat b < 256 ^ length bs * 256"
    by linarith
  then show ?case by simp
qed

lemma to_from_bytes [byte_simps]: "length bs = w \<Longrightarrow> to_bytes w (from_bytes bs) = bs"
proof (induction bs arbitrary: w rule: rev_induct)
  case Nil
  then show ?case by simp
next
  case (snoc b bs)
  have b: "unat b < 256" by simp
  have "(from_bytes bs * 256 + unat b) div 256 = from_bytes bs"
    using b by simp
  moreover have "(from_bytes bs * 256 + unat b) mod 256 = unat b"
    using b by simp
  ultimately show ?case using snoc.prems snoc.IH [of "length bs"] by auto
qed

text \<open>Python compares byte strings lexicographically on unsigned bytes.\<close>

fun bytes_less :: "bytes \<Rightarrow> bytes \<Rightarrow> bool" where
  "bytes_less [] [] = False"
| "bytes_less [] (b # bs) = True"
| "bytes_less (a # as) [] = False"
| "bytes_less (a # as) (b # bs) = (unat a < unat b \<or> (a = b \<and> bytes_less as bs))"

definition bytes_le :: "bytes \<Rightarrow> bytes \<Rightarrow> bool" where
  "bytes_le a b \<longleftrightarrow> a = b \<or> bytes_less a b"

lemma bytes_less_irrefl [simp]: "\<not> bytes_less a a"
  by (induction a) auto

lemma bytes_less_trans: "bytes_less a b \<Longrightarrow> bytes_less b c \<Longrightarrow> bytes_less a c"
proof (induction a b arbitrary: c rule: bytes_less.induct)
  case (2 b bs)
  then show ?case by (cases c) auto
next
  case (4 a as b bs)
  then show ?case by (cases c) auto
qed auto

lemma bytes_less_linear: "bytes_less a b \<or> a = b \<or> bytes_less b a"
  by (induction a b rule: bytes_less.induct) (auto simp: byte_eq_iff)

lemma bytes_le_refl [simp]: "bytes_le a a"
  by (simp add: bytes_le_def)

lemma bytes_le_trans: "bytes_le a b \<Longrightarrow> bytes_le b c \<Longrightarrow> bytes_le a c"
  by (auto simp: bytes_le_def intro: bytes_less_trans)

lemma bytes_le_antisym: "bytes_le a b \<Longrightarrow> bytes_le b a \<Longrightarrow> a = b"
  by (auto simp: bytes_le_def dest: bytes_less_trans)

lemma bytes_le_total: "bytes_le a b \<or> bytes_le b a"
  using bytes_less_linear by (auto simp: bytes_le_def)

lemma bytes_less_le: "bytes_less a b \<longleftrightarrow> bytes_le a b \<and> a \<noteq> b"
  by (auto simp: bytes_le_def)

text \<open>\<^verbatim>\<open>sorted(xs, key=f)\<close> on byte-string keys: a stable insertion sort.\<close>

primrec insort_bytes :: "('a \<Rightarrow> bytes) \<Rightarrow> 'a \<Rightarrow> 'a list \<Rightarrow> 'a list" where
  "insort_bytes f x [] = [x]"
| "insort_bytes f x (y # ys) =
     (if bytes_le (f x) (f y) then x # y # ys else y # insort_bytes f x ys)"

definition sort_bytes :: "('a \<Rightarrow> bytes) \<Rightarrow> 'a list \<Rightarrow> 'a list" where
  "sort_bytes f xs = foldr (insort_bytes f) xs []"

lemma set_insort_bytes [simp]: "set (insort_bytes f x xs) = insert x (set xs)"
  by (induction xs) auto

lemma set_sort_bytes [simp]: "set (sort_bytes f xs) = set xs"
  by (induction xs) (auto simp: sort_bytes_def)

lemma length_insort_bytes [simp]: "length (insort_bytes f x xs) = Suc (length xs)"
  by (induction xs) auto

lemma length_sort_bytes [simp]: "length (sort_bytes f xs) = length xs"
  by (induction xs) (auto simp: sort_bytes_def)

lemma sorted_insort_bytes:
  "sorted_wrt bytes_le (map f xs) \<Longrightarrow> sorted_wrt bytes_le (map f (insort_bytes f x xs))"
proof (induction xs)
  case Nil
  then show ?case by simp
next
  case (Cons y ys)
  then show ?case
    using bytes_le_total [of "f x" "f y"] by (auto intro: bytes_le_trans)
qed

lemma sorted_sort_bytes: "sorted_wrt bytes_le (map f (sort_bytes f xs))"
  by (induction xs) (simp_all add: sort_bytes_def sorted_insort_bytes)

lemma sort_bytes_sorted: "sorted_wrt bytes_le (map f xs) \<Longrightarrow> sort_bytes f xs = xs"
proof (induction xs)
  case Nil
  then show ?case by (simp add: sort_bytes_def)
next
  case (Cons x xs)
  then have "sort_bytes f xs = xs" by simp
  then have "sort_bytes f (x # xs) = insort_bytes f x xs"
    by (simp add: sort_bytes_def)
  also have "\<dots> = x # xs"
    using Cons.prems by (cases xs) auto
  finally show ?case .
qed

section \<open>Decimal rendering\<close>

text \<open>\<^verbatim>\<open>str(n)\<close> for a non-negative integer, used in error paths and version keys.\<close>

fun str_nat :: "nat \<Rightarrow> string" where
  "str_nat n =
     (if n < 10 then [char_of (48 + n)] else str_nat (n div 10) @ [char_of (48 + n mod 10)])"

declare str_nat.simps [simp del]

end
