(* ===== verification/PyValue.thy ===== *)
theory PyValue
  imports Prelude
begin

text \<open>
  The Python values that cross the interfaces of the program: what the codec encodes and
  decodes, what the schema interpreter checks and what the object layers index. A
  dictionary is the association list of its items in insertion order; a \<^verbatim>\<open>str\<close> is the
  list of its code points, so that \<^verbatim>\<open>len\<close> counts what Python counts. \<open>POther\<close> stands for a
  value of any class not listed (floats, tuples, sets, user objects).

  The second half models strict UTF-8, the codec behind \<^verbatim>\<open>str.encode\<close> and
  \<^verbatim>\<open>bytes.decode\<close>, and shows that the two are inverse to each other.
\<close>

section \<open>Values\<close>

type_synonym pystr = "nat list"

datatype pyval =
    PNone
  | PBool bool
  | PInt int
  | PBytes bytes
  | PStr pystr
  | PList "pyval list"
  | PDict "(pyval \<times> pyval) list"
  | POther nat

text \<open>A Python string literal of the sources.\<close>

definition cps :: "string \<Rightarrow> pystr" where
  "cps s = map of_char s"

lemma length_cps [simp]: "length (cps s) = length s"
  by (simp add: cps_def)

lemma cps_inject [simp]: "cps s = cps t \<longleftrightarrow> s = t"
  by (simp add: cps_def inj_map_eq_map inj_def)

text \<open>\<^verbatim>\<open>d[k]\<close> and \<^verbatim>\<open>d.get(k)\<close> for an integer key, \<^verbatim>\<open>xs[i]\<close> for a list.\<close>

definition dict_get :: "(pyval \<times> pyval) list \<Rightarrow> int \<Rightarrow> pyval option" where
  "dict_get kvs k = map_of kvs (PInt k)"

definition item_at :: "pyval \<Rightarrow> int \<Rightarrow> pyval res" where
  "item_at v k = (case v of
     PDict kvs \<Rightarrow> (case dict_get kvs k of None \<Rightarrow> Inl KeyError | Some x \<Rightarrow> Inr x)
   | PList xs \<Rightarrow> (let j = (if k < 0 then int (length xs) + k else k) in
       if 0 \<le> j \<and> j < int (length xs) then Inr (xs ! nat j) else Inl IndexError)
   | _ \<Rightarrow> Inl TypeError)"

definition is_int :: "pyval \<Rightarrow> bool" where
  "is_int v = (case v of PInt _ \<Rightarrow> True | _ \<Rightarrow> False)"

definition is_bytes :: "pyval \<Rightarrow> bool" where
  "is_bytes v = (case v of PBytes _ \<Rightarrow> True | _ \<Rightarrow> False)"

lemma is_int_conv: "is_int v \<longleftrightarrow> (\<exists>i. v = PInt i)"
  by (cases v) (simp_all add: is_int_def)

lemma is_bytes_conv: "is_bytes v \<longleftrightarrow> (\<exists>b. v = PBytes b)"
  by (cases v) (simp_all add: is_bytes_def)

text \<open>A dictionary built by a literal or by the decoder: integer keys.\<close>

definition mk_dict :: "(int \<times> pyval) list \<Rightarrow> pyval" where
  "mk_dict kvs = PDict (map (\<lambda>(k, v). (PInt k, v)) kvs)"

lemma dict_get_mk [simp]:
  "dict_get (map (\<lambda>(k, v). (PInt k, v)) kvs) k = map_of kvs k"
  by (induction kvs) (auto simp: dict_get_def)

section \<open>Strict UTF-8\<close>

text \<open>One code point: \<open>None\<close> for surrogates, which \<^verbatim>\<open>errors='strict'\<close> refuses.\<close>

definition utf8_cp :: "nat \<Rightarrow> bytes option" where
  "utf8_cp c =
     (if c < 128 then Some [byte c]
      else if c < 2048 then Some [byte (192 + c div 64), byte (128 + c mod 64)]
      else if 55296 \<le> c \<and> c < 57344 then None
      else if c < 65536 then
        Some [byte (224 + c div 4096), byte (128 + c div 64 mod 64), byte (128 + c mod 64)]
      else if c < 1114112 then
        Some [byte (240 + c div 262144), byte (128 + c div 4096 mod 64),
              byte (128 + c div 64 mod 64), byte (128 + c mod 64)]
      else None)"

primrec utf8_encode :: "pystr \<Rightarrow> bytes option" where
  "utf8_encode [] = Some []"
| "utf8_encode (c # cs) = (case utf8_cp c of None \<Rightarrow> None
     | Some b \<Rightarrow> (case utf8_encode cs of None \<Rightarrow> None | Some bs \<Rightarrow> Some (b @ bs)))"

text \<open>The decoder reads one sequence at a time: lead byte, continuation bytes, and the
  range of the code point (no overlong form, no surrogate, at most U+10FFFF).\<close>

definition cont :: "byte \<Rightarrow> bool" where
  "cont b \<longleftrightarrow> 128 \<le> unat b \<and> unat b < 192"

fun utf8_decode :: "bytes \<Rightarrow> pystr option" where
  "utf8_decode [] = Some []"
| "utf8_decode (a # bs) =
     (if unat a < 128 then map_option (Cons (unat a)) (utf8_decode bs)
      else if unat a < 192 then None
      else if unat a < 224 then (case bs of
        b # r \<Rightarrow> (let c = (unat a - 192) * 64 + (unat b - 128) in
          if cont b \<and> 128 \<le> c then map_option (Cons c) (utf8_decode r) else None)
        | [] \<Rightarrow> None)
      else if unat a < 240 then (case bs of
        b # b' # r \<Rightarrow>
          (let c = (unat a - 224) * 4096 + (unat b - 128) * 64 + (unat b' - 128) in
          if cont b \<and> cont b' \<and> 2048 \<le> c \<and> \<not> (55296 \<le> c \<and> c < 57344)
          then map_option (Cons c) (utf8_decode r) else None)
        | _ \<Rightarrow> None)
      else if unat a < 248 then (case bs of
        b # b' # b'' # r \<Rightarrow>
          (let c = (unat a - 240) * 262144 + (unat b - 128) * 4096 + (unat b' - 128) * 64
                   + (unat b'' - 128) in
          if cont b \<and> cont b' \<and> cont b'' \<and> 65536 \<le> c \<and> c < 1114112
          then map_option (Cons c) (utf8_decode r) else None)
        | _ \<Rightarrow> None)
      else None)"

declare utf8_decode.simps(2) [simp del]

lemma utf8_cp_length: "utf8_cp c = Some b \<Longrightarrow> 1 \<le> length b \<and> length b \<le> 4"
  by (auto simp: utf8_cp_def split: if_splits)

lemma utf8_encode_length: "utf8_encode s = Some b \<Longrightarrow> length s \<le> length b"
  by (induction s arbitrary: b)
    (auto split: option.splits dest!: utf8_cp_length simp: add_mono le_Suc_eq)

lemma recompose_3: "c div 4096 * 4096 + c div 64 mod 64 * 64 + c mod 64 = (c :: nat)"
proof -
  have "c div 64 div 64 = c div 4096" by (simp flip: div_mult2_eq)
  then show ?thesis
    using div_mult_mod_eq [of c 64] div_mult_mod_eq [of "c div 64" 64] by linarith
qed

lemma recompose_4:
  "c div 262144 * 262144 + c div 4096 mod 64 * 4096 + c div 64 mod 64 * 64 + c mod 64 = (c :: nat)"
proof -
  have "c div 4096 div 64 = c div 262144" by (simp flip: div_mult2_eq)
  then show ?thesis
    using recompose_3 [of c] div_mult_mod_eq [of "c div 4096" 64] by linarith
qed

text \<open>Decoding one encoded code point gives it back and continues with the rest.\<close>

lemma utf8_decode_cp:
  assumes "utf8_cp c = Some b"
  shows "utf8_decode (b @ bs) = map_option (Cons c) (utf8_decode bs)"
proof -
  consider "c < 128" | "128 \<le> c" "c < 2048"
    | "2048 \<le> c" "c < 65536" "\<not> (55296 \<le> c \<and> c < 57344)"
    | "65536 \<le> c" "c < 1114112"
    using assms by (fastforce simp: utf8_cp_def split: if_splits)
  then show ?thesis
  proof cases
    case 1
    with assms show ?thesis
      by (auto simp: utf8_cp_def utf8_decode.simps(2) unat_byte)
  next
    case 2
    then have "c div 64 < 32" by auto
    with 2 assms show ?thesis
      by (auto simp: utf8_cp_def utf8_decode.simps(2) unat_byte cont_def Let_def)
  next
    case 3
    then have "c div 4096 < 16" by auto
    moreover have "c div 64 mod 64 < 64" "c mod 64 < 64" by simp_all
    moreover have "b = [byte (224 + c div 4096), byte (128 + c div 64 mod 64), byte (128 + c mod 64)]"
      using 3 assms by (simp add: utf8_cp_def split: if_splits)
    ultimately show ?thesis using 3 recompose_3 [of c]
      by (simp add: utf8_decode.simps(2) unat_byte cont_def Let_def)
  next
    case 4
    then have "c div 262144 < 5" by auto
    moreover have "c div 4096 mod 64 < 64" "c div 64 mod 64 < 64" "c mod 64 < 64" by simp_all
    ultimately show ?thesis using 4 assms recompose_4 [of c]
      by (clarsimp simp: utf8_cp_def utf8_decode.simps(2) unat_byte cont_def Let_def)
  qed
qed

lemma utf8_decode_encode: "utf8_encode s = Some b \<Longrightarrow> utf8_decode b = Some s"
  by (induction s arbitrary: b) (auto simp: utf8_decode_cp split: option.splits)

text \<open>What the decoder accepts is exactly what the encoder produces.\<close>

lemma byte_offset:
  assumes "k \<le> unat a" "unat a < k + m"
  obtains x where "a = byte (k + x)" "unat a = k + x" "x < m"
proof -
  from assms(1) obtain x where "unat a = k + x" using le_Suc_ex by blast
  with assms(2) that [of x] show ?thesis by (metis byte_unat nat_add_left_cancel_less)
qed

lemma cont_offset:
  assumes "cont b"
  obtains x where "b = byte (128 + x)" "unat b = 128 + x" "x < 64"
  using byte_offset [of 128 b 64] assms by (auto simp: cont_def)

text \<open>Positional digits in bases 64 and 4096, kept small for the arithmetic.\<close>

lemma digits_64:
  fixes y z :: nat
  assumes "z < 64"
  shows "(y * 64 + z) div 64 = y" and "(y * 64 + z) mod 64 = z"
  using assms
  by simp_all

lemma utf8_cp_2:
  assumes "192 \<le> unat a" "unat a < 224" "cont b"
    and "128 \<le> (unat a - 192) * 64 + (unat b - 128)"
  shows "utf8_cp ((unat a - 192) * 64 + (unat b - 128)) = Some [a, b]"
proof -
  obtain x where a: "a = byte (192 + x)" "unat a = 192 + x" "x < 32"
    using byte_offset [of 192 a 32] assms(1,2) by auto
  obtain y where b: "b = byte (128 + y)" "unat b = 128 + y" "y < 64"
    using assms(3) by (rule cont_offset)
  from assms(4) a(3) b(3) show ?thesis
    unfolding a(2) b(2) by (simp add: utf8_cp_def digits_64 flip: a(1) b(1))
qed

lemma utf8_cp_3:
  assumes "224 \<le> unat a" "unat a < 240" "cont b" "cont b'"
    and c: "c = (unat a - 224) * 4096 + (unat b - 128) * 64 + (unat b' - 128)"
    and "2048 \<le> c" "\<not> (55296 \<le> c \<and> c < 57344)"
  shows "utf8_cp c = Some [a, b, b']"
proof -
  obtain x where a: "a = byte (224 + x)" "unat a = 224 + x" "x < 16"
    using byte_offset [of 224 a 16] assms(1,2) by auto
  obtain y where b: "b = byte (128 + y)" "unat b = 128 + y" "y < 64"
    using assms(3) by (rule cont_offset)
  obtain z where b': "b' = byte (128 + z)" "unat b' = 128 + z" "z < 64"
    using assms(4) by (rule cont_offset)
  have c': "c = (x * 64 + y) * 64 + z" by (simp add: c a(2) b(2) b'(2))
  have d: "c div 64 = x * 64 + y" "c mod 64 = z" unfolding c' using b'(3) by (rule digits_64)+
  then have "c div 4096 = x"
    using b(3) div_mult2_eq [of c 64 64] by simp
  moreover have "c div 64 mod 64 = y" using d b(3) by simp
  moreover have "c < 65536" using a(3) b(3) b'(3) by (simp add: c')
  ultimately show ?thesis
    using assms(6,7) d(2) by (simp add: utf8_cp_def flip: a(1) b(1) b'(1))
qed

lemma utf8_cp_4:
  assumes "240 \<le> unat a" "unat a < 248" "cont b" "cont b'" "cont b''"
    and c: "c = (unat a - 240) * 262144 + (unat b - 128) * 4096 + (unat b' - 128) * 64
            + (unat b'' - 128)"
    and "65536 \<le> c" "c < 1114112"
  shows "utf8_cp c = Some [a, b, b', b'']"
proof -
  obtain x where a: "a = byte (240 + x)" "unat a = 240 + x" "x < 8"
    using byte_offset [of 240 a 8] assms(1,2) by auto
  obtain y where b: "b = byte (128 + y)" "unat b = 128 + y" "y < 64"
    using assms(3) by (rule cont_offset)
  obtain z where b': "b' = byte (128 + z)" "unat b' = 128 + z" "z < 64"
    using assms(4) by (rule cont_offset)
  obtain u where b'': "b'' = byte (128 + u)" "unat b'' = 128 + u" "u < 64"
    using assms(5) by (rule cont_offset)
  have c': "c = ((x * 64 + y) * 64 + z) * 64 + u" by (simp add: c a(2) b(2) b'(2) b''(2))
  have d: "c div 64 = (x * 64 + y) * 64 + z" "c mod 64 = u" unfolding c' using b''(3) by (rule digits_64)+
  then have d2: "c div 4096 = x * 64 + y"
    using b'(3) div_mult2_eq [of c 64 64] by simp
  then have "c div 262144 = x"
    using b(3) div_mult2_eq [of c 4096 64] by simp
  moreover have "c div 4096 mod 64 = y" using d2 b(3) by simp
  moreover have "c div 64 mod 64 = z"
    unfolding d(1) using b'(3) by (rule digits_64(2))
  ultimately show ?thesis
    using assms(7,8) d(2) by (simp add: utf8_cp_def flip: a(1) b(1) b'(1) b''(1))
qed

lemma utf8_encode_decode: "utf8_decode b = Some s \<Longrightarrow> utf8_encode s = Some b"
proof (induction b arbitrary: s rule: utf8_decode.induct)
  case 1
  then show ?case by simp
next
  case (2 a bs)
  from "2.prems" consider
      (one) "unat a < 128" | (two) "192 \<le> unat a" "unat a < 224"
    | (three) "224 \<le> unat a" "unat a < 240" | (four) "240 \<le> unat a" "unat a < 248"
    by (auto simp: utf8_decode.simps(2) not_less split: if_splits)
  then show ?case
  proof cases
    case one
    with "2.prems" "2.IH"(1) show ?thesis
      by (auto simp: utf8_decode.simps(2) utf8_cp_def)
  next
    case two
    with "2.prems" "2.IH"(2) show ?thesis
      by (auto simp: utf8_decode.simps(2) Let_def utf8_cp_2 split: list.splits if_splits)
  next
    case three
    with "2.prems" "2.IH"(3) show ?thesis
      by (auto simp: utf8_decode.simps(2) Let_def utf8_cp_3 [OF _ _ _ _ refl]
          split: list.splits if_splits)
  next
    case four
    with "2.prems" "2.IH"(4) show ?thesis
      by (auto simp: utf8_decode.simps(2) Let_def utf8_cp_4 [OF _ _ _ _ _ refl]
          split: list.splits if_splits)
  qed
qed

end
