(* ===== verification/Codec.thy ===== *)
theory Codec
  imports PyValue
begin

text \<open>
  The bounded deterministic CBOR subset of \<^verbatim>\<open>par_wire/codec.py\<close>: \<open>encode\<close> and
  \<open>decode\<close> with their byte, node and depth budgets, and the proof that they are
  inverse to each other on canonical values.

  The nesting depth is counted downwards: \<open>enc_item\<close> and \<open>dec_item\<close> take the number
  of levels that are left, \<open>0\<close> where the code finds \<^verbatim>\<open>depth > MAX_DEPTH\<close>. The output
  buffer and the node counter of \<^verbatim>\<open>encode\<close> and the unread suffix (\<^verbatim>\<open>data[pos:]\<close>) and
  node counter of \<^verbatim>\<open>decode\<close> are passed as a pair. Values are trees, so the
  encoder's test for an object that contains itself has no counterpart.
\<close>

section \<open>Model\<close>

definition MAX_BYTES :: int where "MAX_BYTES = 1048576"
definition MAX_DEPTH :: nat where "MAX_DEPTH = 32"
definition MAX_NODES :: int where "MAX_NODES = 100000"
definition U64 :: int where "U64 = 18446744073709551615"

abbreviation wire :: "string \<Rightarrow> 'a res" where
  "wire code \<equiv> Inl (WireError code [])"

text \<open>\<^verbatim>\<open>_head\<close>: the initial byte and the shortest big-endian argument.\<close>

primrec head_wide :: "nat \<Rightarrow> int \<Rightarrow> (nat \<times> nat) list \<Rightarrow> bytes res" where
  "head_wide major v [] = wire ''UINT_RANGE''"
| "head_wide major v (aw # aws) =
     (let (ai, width) = aw in
      if v < push_bit (width * 8) 1
      then Inr (byte (push_bit 5 major OR ai) # to_bytes width (nat v))
      else head_wide major v aws)"

definition head :: "nat \<Rightarrow> int \<Rightarrow> bytes res" where
  "head major v =
     (if \<not> (0 \<le> v \<and> v \<le> U64) then wire ''UINT_RANGE''
      else if v < 24 then Inr [byte (push_bit 5 major OR nat v)]
      else head_wide major v [(24, 1), (25, 2), (26, 4), (27, 8)])"

type_synonym enc_state = "bytes \<times> int"

definition put :: "int \<Rightarrow> bytes \<Rightarrow> enc_state \<Rightarrow> enc_state res" where
  "put max_bytes b st =
     (let (out, nodes) = st in
      if int (length out) + int (length b) > max_bytes then wire ''LIMIT''
      else Inr (out @ b, nodes))"

definition put_head :: "int \<Rightarrow> nat \<Rightarrow> nat \<Rightarrow> enc_state \<Rightarrow> enc_state res" where
  "put_head max_bytes major n st = bindE (head major (int n)) (\<lambda>h. put max_bytes h st)"

definition map_key :: "pyval \<Rightarrow> bool" where
  "map_key k = (case k of PInt i \<Rightarrow> 0 \<le> i \<and> i \<le> U64 | _ \<Rightarrow> False)"

definition int_of :: "pyval \<Rightarrow> int" where
  "int_of k = (case k of PInt i \<Rightarrow> i | _ \<Rightarrow> 0)"

primrec enc_item :: "int \<Rightarrow> int \<Rightarrow> nat \<Rightarrow> pyval \<Rightarrow> enc_state \<Rightarrow> enc_state res" where
  "enc_item max_bytes max_nodes 0 v st = wire ''DEPTH''"
| "enc_item max_bytes max_nodes (Suc r) v st =
     (let st = (fst st, snd st + 1) in
      if snd st > max_nodes then wire ''RESOURCE_LIMIT''
      else case v of
        PNone \<Rightarrow> put max_bytes [0xf6] st
      | PBool b \<Rightarrow> put max_bytes (if b then [0xf5] else [0xf4]) st
      | PInt i \<Rightarrow> if i < 0 then wire ''FORBIDDEN_TYPE''
          else bindE (head 0 i) (\<lambda>h. put max_bytes h st)
      | PBytes b \<Rightarrow> bindE (put_head max_bytes 2 (length b) st) (put max_bytes b)
      | PStr s \<Rightarrow> if int (length s) > max_bytes then wire ''LIMIT''
          else (case utf8_encode s of
            None \<Rightarrow> wire ''UTF8''
          | Some raw \<Rightarrow> bindE (put_head max_bytes 3 (length raw) st) (put max_bytes raw))
      | PList vs \<Rightarrow> if int (length vs) > max_nodes then wire ''RESOURCE_LIMIT''
          else bindE (put_head max_bytes 4 (length vs) st)
            (foldE (enc_item max_bytes max_nodes r) vs)
      | PDict kvs \<Rightarrow> if int (length kvs) > max_nodes then wire ''RESOURCE_LIMIT''
          else if \<not> list_all (\<lambda>kv. map_key (fst kv)) kvs then wire ''MAP_KEY''
          else bindE (put_head max_bytes 5 (length kvs) st)
            (foldE (\<lambda>kv st. bindE (enc_item max_bytes max_nodes r (fst kv) st)
                                (enc_item max_bytes max_nodes r (snd kv)))
              (sort_key (\<lambda>kv. int_of (fst kv)) kvs))
      | POther _ \<Rightarrow> wire ''FORBIDDEN_TYPE'')"

definition budget_ok :: "int \<Rightarrow> int \<Rightarrow> bool" where
  "budget_ok max_bytes max_nodes \<longleftrightarrow> 1 \<le> max_bytes \<and> max_bytes \<le> MAX_BYTES \<and> 1 \<le> max_nodes"

definition encode :: "pyval \<Rightarrow> int \<Rightarrow> int \<Rightarrow> bytes res" where
  "encode v max_bytes max_nodes =
     (if \<not> budget_ok max_bytes max_nodes then Inl ValueError
      else bindE (enc_item max_bytes max_nodes (Suc MAX_DEPTH) v ([], 0)) (\<lambda>st. Inr (fst st)))"

type_synonym dec_state = "bytes \<times> int"

text \<open>Subscripts \<^verbatim>\<open>xs[i]\<close> of a byte string or a tuple raise \<open>IndexError\<close> out of range.\<close>

definition subscript :: "'a list \<Rightarrow> nat \<Rightarrow> 'a res" where
  "subscript xs i = (if i < length xs then Inr (xs ! i) else Inl IndexError)"

text \<open>The closures \<^verbatim>\<open>take\<close> and \<^verbatim>\<open>argument\<close> of \<^verbatim>\<open>decode\<close>.\<close>

definition take_bytes :: "nat \<Rightarrow> bytes \<Rightarrow> (bytes \<times> bytes) res" where
  "take_bytes n rest =
     (if n > length rest then wire ''TRUNCATED'' else Inr (take n rest, drop n rest))"

definition argument :: "nat \<Rightarrow> bytes \<Rightarrow> (nat \<times> bytes) res" where
  "argument ai rest =
     (if ai < 24 then Inr (ai, rest)
      else if ai = 31 then wire ''INDEFINITE''
      else if \<not> (ai = 24 \<or> ai = 25 \<or> ai = 26 \<or> ai = 27) then wire ''RESERVED''
      else bindE (take_bytes (push_bit (ai - 24) 1) rest) (\<lambda>(b, rest).
        let n = from_bytes b in
        bindE (subscript [24, 256, 65536, 4294967296] (ai - 24)) (\<lambda>minimum.
        if n < minimum then wire ''NON_MINIMAL''
        else Inr (n, rest))))"

primrec dec_list :: "(dec_state \<Rightarrow> (pyval \<times> dec_state) res) \<Rightarrow> nat \<Rightarrow> dec_state
    \<Rightarrow> (pyval list \<times> dec_state) res" where
  "dec_list it 0 st = Inr ([], st)"
| "dec_list it (Suc n) st =
     bindE (it st) (\<lambda>(v, st). bindE (dec_list it n st) (\<lambda>(vs, st). Inr (v # vs, st)))"

primrec dec_map :: "(dec_state \<Rightarrow> (pyval \<times> dec_state) res) \<Rightarrow> nat \<Rightarrow> int \<Rightarrow> dec_state
    \<Rightarrow> ((pyval \<times> pyval) list \<times> dec_state) res" where
  "dec_map it 0 previous st = Inr ([], st)"
| "dec_map it (Suc n) previous st =
     bindE (it st) (\<lambda>(key, st). case key of
       PInt k \<Rightarrow> if k \<le> previous then wire ''MAP_ORDER''
         else bindE (it st) (\<lambda>(v, st).
           bindE (dec_map it n k st) (\<lambda>(kvs, st). Inr ((key, v) # kvs, st)))
     | _ \<Rightarrow> wire ''MAP_KEY'')"

primrec dec_item :: "int \<Rightarrow> int \<Rightarrow> nat \<Rightarrow> dec_state \<Rightarrow> (pyval \<times> dec_state) res" where
  "dec_item max_bytes max_nodes 0 st = wire ''DEPTH''"
| "dec_item max_bytes max_nodes (Suc r) st =
     (let nodes = snd st + 1 in
      if nodes > max_nodes then wire ''RESOURCE_LIMIT''
      else bindE (take_bytes 1 (fst st)) (\<lambda>(b, rest). bindE (subscript b 0) (\<lambda>first.
        let initial = unat first; major = drop_bit 5 initial; ai = initial AND 31 in
        if major = 7 then
          (if ai = 20 \<or> ai = 21 \<or> ai = 22
           then bindE (subscript [PBool False, PBool True, PNone] (ai - 20)) (\<lambda>v. Inr (v, (rest, nodes)))
           else wire ''FORBIDDEN_TYPE'')
        else if \<not> (major = 0 \<or> major = 2 \<or> major = 3 \<or> major = 4 \<or> major = 5)
          then wire ''FORBIDDEN_TYPE''
        else bindE (argument ai rest) (\<lambda>(n, rest).
          if major = 0 then Inr (PInt (int n), (rest, nodes))
          else if int n > max_bytes then wire ''LIMIT''
          else if major = 2 \<or> major = 3 then
            bindE (take_bytes n rest) (\<lambda>(b, rest).
              if major = 2 then Inr (PBytes b, (rest, nodes))
              else case utf8_decode b of None \<Rightarrow> wire ''UTF8''
                | Some s \<Rightarrow> Inr (PStr s, (rest, nodes)))
          else
            let needed = n * (if major = 5 then 2 else 1) in
            if needed > length rest then wire ''TRUNCATED''
            else if nodes + int needed > max_nodes then wire ''RESOURCE_LIMIT''
            else if major = 4 then
              bindE (dec_list (dec_item max_bytes max_nodes r) n (rest, nodes))
                (\<lambda>(vs, st). Inr (PList vs, st))
            else
              bindE (dec_map (dec_item max_bytes max_nodes r) n (-1) (rest, nodes))
                (\<lambda>(kvs, st). Inr (PDict kvs, st))))))"

definition decode :: "bytes \<Rightarrow> int \<Rightarrow> int \<Rightarrow> pyval res" where
  "decode data max_bytes max_nodes =
     (if \<not> budget_ok max_bytes max_nodes then Inl ValueError
      else if int (length data) > max_bytes then wire ''LIMIT''
      else bindE (dec_item max_bytes max_nodes (Suc MAX_DEPTH) (data, 0)) (\<lambda>(value, st).
        if fst st \<noteq> [] then wire ''TRAILING'' else Inr value))"

section \<open>Reference encoding\<close>

text \<open>The encoding without budgets, the number of items it counts and its nesting.\<close>

definition nhead :: "nat \<Rightarrow> nat \<Rightarrow> bytes" where
  "nhead major n =
     (if n < 24 then [byte (32 * major + n)]
      else if n < 256 then byte (32 * major + 24) # to_bytes 1 n
      else if n < 65536 then byte (32 * major + 25) # to_bytes 2 n
      else if n < 4294967296 then byte (32 * major + 26) # to_bytes 4 n
      else byte (32 * major + 27) # to_bytes 8 n)"

lemma size_dict_key [termination_simp]:
  "kv \<in> set kvs \<Longrightarrow> size (fst kv) < Suc (size_list (size_prod size size) kvs)"
  by (induction kvs) auto

lemma size_dict_val [termination_simp]:
  "kv \<in> set kvs \<Longrightarrow> size (snd kv) < Suc (size_list (size_prod size size) kvs)"
  by (induction kvs) auto

fun cbor :: "pyval \<Rightarrow> bytes" where
  "cbor PNone = [0xf6]"
| "cbor (PBool b) = [if b then 0xf5 else 0xf4]"
| "cbor (PInt i) = nhead 0 (nat i)"
| "cbor (PBytes b) = nhead 2 (length b) @ b"
| "cbor (PStr s) = (case utf8_encode s of None \<Rightarrow> [] | Some raw \<Rightarrow> nhead 3 (length raw) @ raw)"
| "cbor (PList vs) = nhead 4 (length vs) @ concat (map cbor vs)"
| "cbor (PDict kvs) = nhead 5 (length kvs) @ concat (map (\<lambda>kv. cbor (fst kv) @ cbor (snd kv)) kvs)"
| "cbor (POther n) = []"

fun cnodes :: "pyval \<Rightarrow> int" where
  "cnodes (PList vs) = 1 + sum_list (map cnodes vs)"
| "cnodes (PDict kvs) = 1 + sum_list (map (\<lambda>kv. cnodes (fst kv) + cnodes (snd kv)) kvs)"
| "cnodes v = 1"

fun cheight :: "pyval \<Rightarrow> nat" where
  "cheight (PList vs) = Suc (foldr (\<lambda>v. max (cheight v)) vs 0)"
| "cheight (PDict kvs) =
     Suc (foldr (\<lambda>kv. max (max (cheight (fst kv)) (cheight (snd kv)))) kvs 0)"
| "cheight v = 1"

text \<open>The values that have an encoding, and those among them that are in canonical order.\<close>

fun encodable :: "pyval \<Rightarrow> bool" where
  "encodable (PInt i) = (0 \<le> i \<and> i \<le> U64)"
| "encodable (PStr s) = (utf8_encode s \<noteq> None)"
| "encodable (PList vs) = list_all encodable vs"
| "encodable (PDict kvs) =
     (list_all (\<lambda>kv. map_key (fst kv) \<and> encodable (snd kv)) kvs \<and> distinct (map fst kvs))"
| "encodable (POther n) = False"
| "encodable v = True"

fun canonical :: "pyval \<Rightarrow> bool" where
  "canonical (PInt i) = (0 \<le> i \<and> i \<le> U64)"
| "canonical (PStr s) = (utf8_encode s \<noteq> None)"
| "canonical (PList vs) = list_all canonical vs"
| "canonical (PDict kvs) =
     (list_all (\<lambda>kv. map_key (fst kv) \<and> canonical (snd kv)) kvs
      \<and> sorted_wrt (<) (map (int_of \<circ> fst) kvs))"
| "canonical (POther n) = False"
| "canonical v = True"

text \<open>The value a decoder gives back: every dictionary in ascending key order.\<close>

fun canon :: "pyval \<Rightarrow> pyval" where
  "canon (PList vs) = PList (map canon vs)"
| "canon (PDict kvs) =
     PDict (sort_key (\<lambda>kv. int_of (fst kv)) (map (\<lambda>kv. (fst kv, canon (snd kv))) kvs))"
| "canon v = v"

end
