(* ===== verification/CodecRoundtrip.thy ===== *)
theory CodecRoundtrip
  imports Codec "HOL-Library.Multiset"
begin

text \<open>
  The codec is exact. \<open>enc_item_iff\<close> and \<open>dec_item_iff\<close> say, in both directions, when
  the two recursive workers succeed and with what result, in terms of the budget-free
  reference encoding \<open>cbor\<close>. The loops over array elements and map entries are treated
  once, in the locales \<open>item_encoder\<close> and \<open>item_decoder\<close>: what one level of nesting
  needs from the level below it. Both are interpreted on the code's own workers.
\<close>

section \<open>Headers\<close>

lemma subscript_in [simp]: "i < length xs \<Longrightarrow> subscript xs i = Inr (xs ! i)"
  by (simp add: subscript_def)

lemma push_or: "n < 32 \<Longrightarrow> push_bit 5 m OR n = 32 * m + (n :: nat)"
proof -
  assume "n < 32"
  have "push_bit 5 m AND n = 0"
  proof (rule bit_eqI)
    fix i
    from \<open>n < 32\<close> have "take_bit 5 n = n" by (simp add: take_bit_nat_eq_self)
    then have "\<not> bit n i" if "5 \<le> i" using that by (metis bit_take_bit_iff not_le)
    then show "bit (push_bit 5 m AND n) i = bit 0 i" by (auto simp: bit_simps)
  qed
  then have "push_bit 5 m OR n = push_bit 5 m + n"
    by (simp add: disjunctive_add_eq_or)
  then show ?thesis by (simp add: push_bit_eq_mult)
qed

definition ai_of :: "nat \<Rightarrow> nat" where
  "ai_of n = (if n < 24 then n else if n < 256 then 24 else if n < 65536 then 25
     else if n < 4294967296 then 26 else 27)"

definition ext_of :: "nat \<Rightarrow> bytes" where
  "ext_of n = (if n < 24 then [] else if n < 256 then to_bytes 1 n
     else if n < 65536 then to_bytes 2 n else if n < 4294967296 then to_bytes 4 n
     else to_bytes 8 n)"

lemma nhead_conv: "nhead m n = byte (32 * m + ai_of n) # ext_of n"
  by (simp add: nhead_def ai_of_def ext_of_def)

lemma ai_of_lt [simp]: "ai_of n < 28"
  by (simp add: ai_of_def)

lemma head_nhead:
  assumes "0 \<le> v" "v \<le> U64"
  shows "head m v = Inr (nhead m (nat v))"
proof -
  have "(v < 256) = (nat v < 256)" "(v < 65536) = (nat v < 65536)" "(v < 24) = (nat v < 24)"
    "(v < 4294967296) = (nat v < 4294967296)" using assms(1) by auto
  with assms show ?thesis
    by (auto simp: head_def nhead_def push_or U64_def)
qed

lemma head_Inr: "head m v = Inr h \<longleftrightarrow> 0 \<le> v \<and> v \<le> U64 \<and> h = nhead m (nat v)"
proof (cases "0 \<le> v \<and> v \<le> U64")
  case True
  then show ?thesis by (auto simp: head_nhead)
next
  case False
  then show ?thesis by (auto simp: head_def)
qed

lemma argument_ext:
  assumes "int n \<le> U64"
  shows "argument (ai_of n) (ext_of n @ rest) = Inr (n, rest)"
proof -
  consider "n < 24" | "24 \<le> n" "n < 256" | "256 \<le> n" "n < 65536"
    | "65536 \<le> n" "n < 4294967296" | "4294967296 \<le> n" "n < 256 ^ 8"
    using assms unfolding U64_def by fastforce
  then show ?thesis
    by cases (simp_all add: argument_def ai_of_def ext_of_def take_bytes_def from_to_bytes
        del: to_bytes.simps)
qed

lemma argument_inv:
  assumes "argument ai rest = Inr (n, rest')"
  shows "ai = ai_of n \<and> rest = ext_of n @ rest' \<and> int n \<le> U64"
proof (cases "ai < 24")
  case True
  with assms show ?thesis by (simp add: argument_def ai_of_def ext_of_def U64_def)
next
  case False
  define w where "w = (push_bit (ai - 24) 1 :: nat)"
  from False assms have ai: "ai = 24 \<or> ai = 25 \<or> ai = 26 \<or> ai = 27"
    and "take_bytes w rest = Inr (take w rest, drop w rest)" "rest' = drop w rest"
    and n: "n = from_bytes (take w rest)" "[24, 256, 65536, 4294967296] ! (ai - 24) \<le> n"
    by (auto simp: argument_def w_def take_bytes_def Let_def res_simps split: if_splits)
  then have len: "length (take w rest) = w" and rest: "rest = take w rest @ rest'"
    by (auto simp: take_bytes_def split: if_splits)
  have tb: "take w rest = to_bytes w n" using len n(1) by (simp add: to_from_bytes)
  have bound: "n < 256 ^ w" using from_bytes_bound [of "take w rest"] len n(1) by simp
  from ai have "(ai = 24 \<and> w = 1) \<or> (ai = 25 \<and> w = 2) \<or> (ai = 26 \<and> w = 4) \<or> (ai = 27 \<and> w = 8)"
    by (auto simp: w_def)
  then have "ai = ai_of n \<and> take w rest = ext_of n \<and> int n \<le> U64"
    using n(2) bound unfolding tb
    by (auto simp: ai_of_def ext_of_def U64_def simp del: to_bytes.simps)
  with rest show ?thesis by metis
qed

lemma initial_split:
  assumes "m < 8" "ai < 32"
  shows "drop_bit 5 (unat (byte (32 * m + ai))) = m"
    and "unat (byte (32 * m + ai)) AND 31 = ai"
proof -
  have f: "unat (byte (32 * m + ai)) = 32 * m + ai"
    using assms by (simp add: unat_byte)
  show "drop_bit 5 (unat (byte (32 * m + ai))) = m"
    using assms by (simp add: f drop_bit_eq_div)
  have "(32 * m + ai) AND 31 = take_bit 5 (32 * m + ai)"
    by (simp add: take_bit_eq_mask mask_eq_exp_minus_1)
  then show "unat (byte (32 * m + ai)) AND 31 = ai"
    using assms by (simp add: f take_bit_eq_mod)
qed

lemma initial_join: "byte (32 * drop_bit 5 (unat b) + (unat b AND 31)) = b"
proof -
  have "unat b AND 31 = take_bit 5 (unat b)"
    by (simp add: take_bit_eq_mask mask_eq_exp_minus_1)
  then have "32 * drop_bit 5 (unat b) + (unat b AND 31) = unat b"
    by (simp add: drop_bit_eq_div take_bit_eq_mod)
  then show ?thesis by simp
qed

lemma nhead_Cons: "nhead m n \<noteq> []"
  by (simp add: nhead_conv)

section \<open>The encoder computes the reference encoding\<close>

text \<open>Python guarantees that the keys of a dictionary are distinct.\<close>

fun wf_py :: "pyval \<Rightarrow> bool" where
  "wf_py (PList vs) = list_all wf_py vs"
| "wf_py (PDict kvs) =
     (distinct (map fst kvs) \<and> list_all (\<lambda>kv. wf_py (fst kv) \<and> wf_py (snd kv)) kvs)"
| "wf_py v = True"

lemma foldr_max_le: "foldr (\<lambda>x. max (f x)) xs 0 \<le> (n::nat) \<longleftrightarrow> (\<forall>x \<in> set xs. f x \<le> n)"
  by (induction xs) auto

lemma cheight_list [simp]: "cheight (PList vs) \<le> Suc r \<longleftrightarrow> (\<forall>v \<in> set vs. cheight v \<le> r)"
  by (simp add: foldr_max_le)

lemma cheight_dict [simp]:
  "cheight (PDict kvs) \<le> Suc r \<longleftrightarrow> (\<forall>kv \<in> set kvs. cheight (fst kv) \<le> r \<and> cheight (snd kv) \<le> r)"
  by (simp add: foldr_max_le)

lemma cheight_pos [simp]: "0 < cheight v"
  by (cases v) auto

lemma sum_list_ge_length:
  fixes f :: "'a \<Rightarrow> int"
  shows "(\<And>x. x \<in> set xs \<Longrightarrow> c \<le> f x) \<Longrightarrow> c * int (length xs) \<le> sum_list (map f xs)"
proof (induction xs)
  case (Cons x xs)
  then have "c \<le> f x" "c * int (length xs) \<le> sum_list (map f xs)" by auto
  then show ?case by (simp add: algebra_simps)
qed simp

lemma cnodes_pos: "1 \<le> cnodes v"
proof (induction v rule: cnodes.induct)
  case (1 vs)
  then show ?case using sum_list_ge_length [of vs 1 cnodes] by fastforce
next
  case (2 kvs)
  then show ?case
    using sum_list_ge_length [of kvs 1 "\<lambda>kv. cnodes (fst kv) + cnodes (snd kv)"] by fastforce
qed auto

lemma cnodes_list_ge: "1 + int (length vs) \<le> cnodes (PList vs)"
  using sum_list_ge_length [of vs 1 cnodes] cnodes_pos by fastforce

lemma cnodes_dict_ge: "1 + 2 * int (length kvs) \<le> cnodes (PDict kvs)"
proof -
  have "2 \<le> cnodes (fst kv) + cnodes (snd kv)" for kv :: "pyval \<times> pyval"
    using cnodes_pos [of "fst kv"] cnodes_pos [of "snd kv"] by simp
  then show ?thesis
    using sum_list_ge_length [of kvs 2 "\<lambda>kv. cnodes (fst kv) + cnodes (snd kv)"] by simp
qed

lemma sort_key_map:
  "(\<And>x. f (h x) = f x) \<Longrightarrow> sort_key f (map h xs) = map h (sort_key f xs)"
proof (induction xs)
  case (Cons x xs)
  moreover have "insort_key f (h x) (map h ys) = map h (insort_key f x ys)" for ys
    by (induction ys) (auto simp: Cons.prems)
  ultimately show ?case by simp
qed simp

lemma sum_list_sort_key:
  fixes g :: "'a \<Rightarrow> int"
  shows "sum_list (map g (sort_key f xs)) = sum_list (map g xs)"
  by (metis mset_map mset_sort sum_mset_sum_list)

lemma put_Inr: "put mb b (out, k) = Inr st \<longleftrightarrow>
    int (length out) + int (length b) \<le> mb \<and> st = (out @ b, k)"
  by (auto simp: put_def)

lemma put_head_Inr: "put_head mb m n (out, k) = Inr st \<longleftrightarrow> int n \<le> U64
    \<and> int (length out) + int (length (nhead m n)) \<le> mb \<and> st = (out @ nhead m n, k)"
  by (auto simp: put_head_def res_simps head_Inr put_Inr)

text \<open>A loop whose body appends \<open>g x\<close> and counts \<open>c x\<close> items.\<close>

lemma foldE_append_iff:
  fixes c :: "'a \<Rightarrow> int" and mb :: int
  assumes body: "\<And>x out k st. x \<in> set xs \<Longrightarrow> 0 \<le> k \<Longrightarrow> k \<le> mn \<Longrightarrow> int (length out) \<le> mb \<Longrightarrow>
      f x (out, k) = Inr st \<longleftrightarrow> P x \<and> k + c x \<le> mn \<and> int (length out) + int (length (g x)) \<le> mb
        \<and> st = (out @ g x, k + c x)"
    and pos: "\<And>x. 0 \<le> c x"
    and "0 \<le> k" "k \<le> mn" "int (length out) \<le> mb"
  shows "foldE f xs (out, k) = Inr st \<longleftrightarrow> (\<forall>x \<in> set xs. P x) \<and> k + sum_list (map c xs) \<le> mn
      \<and> int (length out) + int (length (concat (map g xs))) \<le> mb
      \<and> st = (out @ concat (map g xs), k + sum_list (map c xs))"
  using assms(1,3-5)
proof (induction xs arbitrary: out k)
  case Nil
  then show ?case by auto
next
  case (Cons x xs)
  have tail: "0 \<le> sum_list (map c xs)" by (rule sum_list_nonneg) (auto simp: pos)
  show ?case
  proof (cases "P x \<and> k + c x \<le> mn \<and> int (length out) + int (length (g x)) \<le> mb")
    case True
    with Cons.prems have step: "f x (out, k) = Inr (out @ g x, k + c x)" by simp
    have "foldE f xs (out @ g x, k + c x) = Inr st \<longleftrightarrow> (\<forall>x \<in> set xs. P x)
        \<and> (k + c x) + sum_list (map c xs) \<le> mn
        \<and> int (length (out @ g x)) + int (length (concat (map g xs))) \<le> mb
        \<and> st = ((out @ g x) @ concat (map g xs), (k + c x) + sum_list (map c xs))"
      using True Cons.prems pos [of x] by (intro Cons.IH) auto
    with True step show ?thesis by (auto simp: algebra_simps)
  next
    case False
    with Cons.prems have "f x (out, k) \<noteq> Inr st'" for st' by auto
    then obtain e where "f x (out, k) = Inl e" by (cases "f x (out, k)") auto
    with False tail show ?thesis by auto
  qed
qed

lemma cbor_nonempty: "encodable v \<Longrightarrow> cbor v \<noteq> []"
  by (cases v) (auto simp: nhead_Cons)

lemma length_concat_ge:
  "(\<And>x. x \<in> set xs \<Longrightarrow> c \<le> length (g x)) \<Longrightarrow> c * length xs \<le> length (concat (map g xs))"
  by (induction xs) (auto simp: add_mono)

lemma encodable_canon [simp]: "encodable v \<Longrightarrow> encodable (canon v)"
proof (induction v rule: canon.induct)
  case (1 vs)
  then show ?case by (auto simp: list_all_iff)
next
  case (2 kvs)
  let ?s = "sort_key (\<lambda>kv. int_of (fst kv)) (map (\<lambda>kv. (fst kv, canon (snd kv))) kvs)"
  from 2 have "list_all (\<lambda>kv. map_key (fst kv) \<and> encodable (snd kv)) ?s"
    by (auto simp: list_all_iff)
  moreover have "mset (map fst ?s) = mset (map fst kvs)"
    by (simp add: multiset.map_comp comp_def)
  then have "distinct (map fst ?s) = distinct (map fst kvs)"
    by (rule mset_eq_imp_distinct_iff)
  ultimately show ?case using 2 by simp
qed auto

lemma cnodes_canon [simp]: "cnodes (canon v) = cnodes v"
proof (induction v rule: canon.induct)
  case (1 vs)
  then show ?case by (simp add: comp_def cong: map_cong)
next
  case (2 kvs)
  then show ?case by (simp add: sum_list_sort_key comp_def cong: map_cong)
qed auto

lemma map_key_conv: "map_key k \<longleftrightarrow> (\<exists>i. k = PInt i \<and> 0 \<le> i \<and> i \<le> U64)"
  by (cases k) (auto simp: map_key_def)

lemma nhead_len: "1 \<le> length (nhead m n)"
  by (simp add: nhead_conv)

lemma bytes_le_U64: "int n \<le> mb \<Longrightarrow> mb \<le> MAX_BYTES \<Longrightarrow> int n \<le> U64"
  by (simp add: MAX_BYTES_def U64_def)

lemma concat_dict_ge:
  assumes "list_all (\<lambda>kv. map_key (fst kv) \<and> encodable (snd kv)) kvs"
  shows "2 * length kvs \<le> length (concat (map (\<lambda>kv. cbor (fst kv) @ cbor (canon (snd kv))) kvs))"
proof (rule length_concat_ge)
  fix kv assume "kv \<in> set kvs"
  with assms have "encodable (fst kv)" "encodable (canon (snd kv))"
    by (auto simp: list_all_iff map_key_conv)
  then have "1 \<le> length (cbor (fst kv))" "1 \<le> length (cbor (canon (snd kv)))"
    using cbor_nonempty by (simp_all add: Suc_le_eq)
  then show "2 \<le> length (cbor (fst kv) @ cbor (canon (snd kv)))" by simp
qed

lemma concat_list_ge:
  assumes "list_all encodable vs"
  shows "length vs \<le> length (concat (map (\<lambda>v. cbor (canon v)) vs))"
proof -
  have "1 * length vs \<le> length (concat (map (\<lambda>v. cbor (canon v)) vs))"
    using assms cbor_nonempty by (intro length_concat_ge) (simp add: list_all_iff Suc_le_eq)
  then show ?thesis by simp
qed

text \<open>What the loops of \<^verbatim>\<open>encode\<close> need from the encoder of the elements.\<close>

locale item_encoder =
  fixes mb mn :: int and r :: nat and it :: "pyval \<Rightarrow> enc_state \<Rightarrow> enc_state res"
  assumes item_iff: "mb \<le> MAX_BYTES \<Longrightarrow> wf_py v \<Longrightarrow> 0 \<le> k \<Longrightarrow> int (length out) \<le> mb \<Longrightarrow>
    it v (out, k) = Inr st \<longleftrightarrow> encodable v \<and> cheight v \<le> r \<and> k + cnodes v \<le> mn
      \<and> int (length out) + int (length (cbor (canon v))) \<le> mb
      \<and> st = (out @ cbor (canon v), k + cnodes v)"
begin

lemma elements_iff:
  assumes "mb \<le> MAX_BYTES" "list_all wf_py vs" "0 \<le> k" "k \<le> mn" "int (length out) \<le> mb"
  shows "foldE it vs (out, k) = Inr st \<longleftrightarrow>
    (\<forall>v \<in> set vs. encodable v \<and> cheight v \<le> r) \<and> k + sum_list (map cnodes vs) \<le> mn
    \<and> int (length out) + int (length (concat (map (\<lambda>v. cbor (canon v)) vs))) \<le> mb
    \<and> st = (out @ concat (map (\<lambda>v. cbor (canon v)) vs), k + sum_list (map cnodes vs))"
proof (rule foldE_append_iff)
  fix v :: pyval and out' :: bytes and k' :: int and st'
  assume "v \<in> set vs" "0 \<le> k'" "int (length out') \<le> mb"
  with assms show "it v (out', k') = Inr st' \<longleftrightarrow> (encodable v \<and> cheight v \<le> r)
      \<and> k' + cnodes v \<le> mn \<and> int (length out') + int (length (cbor (canon v))) \<le> mb
      \<and> st' = (out' @ cbor (canon v), k' + cnodes v)"
    using item_iff [of v k' out' st'] by (auto simp: list_all_iff)
next
  show "0 \<le> cnodes v" for v using cnodes_pos [of v] by simp
qed (use assms in auto)

abbreviation entry :: "pyval \<times> pyval \<Rightarrow> enc_state \<Rightarrow> enc_state res" where
  "entry kv st \<equiv> bindE (it (fst kv) st) (it (snd kv))"

lemma entry_iff:
  assumes "mb \<le> MAX_BYTES" "map_key (fst kv)" "wf_py (snd kv)" "0 \<le> k" "int (length out) \<le> mb"
  shows "entry kv (out, k) = Inr st \<longleftrightarrow>
    (encodable (snd kv) \<and> cheight (fst kv) \<le> r \<and> cheight (snd kv) \<le> r)
    \<and> k + (cnodes (fst kv) + cnodes (snd kv)) \<le> mn
    \<and> int (length out) + int (length (cbor (fst kv) @ cbor (canon (snd kv)))) \<le> mb
    \<and> st = (out @ cbor (fst kv) @ cbor (canon (snd kv)), k + (cnodes (fst kv) + cnodes (snd kv)))"
proof -
  from assms(2) obtain i where i: "fst kv = PInt i" "0 \<le> i" "i \<le> U64"
    by (auto simp: map_key_conv)
  show ?thesis
    using item_iff [OF assms(1) _ assms(4,5), of "fst kv"] assms(1,3-5) i cnodes_pos [of "snd kv"]
      item_iff [of "snd kv" "k + cnodes (fst kv)" "out @ cbor (fst kv)" st]
    by (auto simp: res_simps algebra_simps)
qed

lemma entries_iff:
  assumes "mb \<le> MAX_BYTES" "list_all (\<lambda>kv. map_key (fst kv) \<and> wf_py (snd kv)) kvs"
    and "0 \<le> k" "k \<le> mn" "int (length out) \<le> mb"
  shows "foldE entry kvs (out, k) = Inr st \<longleftrightarrow>
    (\<forall>kv \<in> set kvs. encodable (snd kv) \<and> cheight (fst kv) \<le> r \<and> cheight (snd kv) \<le> r)
    \<and> k + sum_list (map (\<lambda>kv. cnodes (fst kv) + cnodes (snd kv)) kvs) \<le> mn
    \<and> int (length out) + int (length (concat (map (\<lambda>kv. cbor (fst kv) @ cbor (canon (snd kv))) kvs))) \<le> mb
    \<and> st = (out @ concat (map (\<lambda>kv. cbor (fst kv) @ cbor (canon (snd kv))) kvs),
            k + sum_list (map (\<lambda>kv. cnodes (fst kv) + cnodes (snd kv)) kvs))"
proof (rule foldE_append_iff)
  fix kv :: "pyval \<times> pyval" and out' :: bytes and k' :: int and st'
  assume "kv \<in> set kvs" "0 \<le> k'" "int (length out') \<le> mb"
  with assms(1,2) show "entry kv (out', k') = Inr st' \<longleftrightarrow>
      (encodable (snd kv) \<and> cheight (fst kv) \<le> r \<and> cheight (snd kv) \<le> r)
      \<and> k' + (cnodes (fst kv) + cnodes (snd kv)) \<le> mn
      \<and> int (length out') + int (length (cbor (fst kv) @ cbor (canon (snd kv)))) \<le> mb
      \<and> st' = (out' @ cbor (fst kv) @ cbor (canon (snd kv)), k' + (cnodes (fst kv) + cnodes (snd kv)))"
    by (intro entry_iff) (auto simp: list_all_iff)
next
  show "0 \<le> cnodes (fst kv) + cnodes (snd kv)" for kv :: "pyval \<times> pyval"
    using cnodes_pos [of "fst kv"] cnodes_pos [of "snd kv"] by simp
qed (use assms in auto)

end

text \<open>One level more: arrays and maps of the encoder with one level of nesting added.\<close>

lemma enc_list_iff:
  assumes it: "item_encoder mb mn r (enc_item mb mn r)"
    and "mb \<le> MAX_BYTES" "list_all wf_py vs" "0 \<le> k" "int (length out) \<le> mb"
  shows "enc_item mb mn (Suc r) (PList vs) (out, k) = Inr st \<longleftrightarrow>
    encodable (PList vs) \<and> cheight (PList vs) \<le> Suc r \<and> k + cnodes (PList vs) \<le> mn
    \<and> int (length out) + int (length (cbor (canon (PList vs)))) \<le> mb
    \<and> st = (out @ cbor (canon (PList vs)), k + cnodes (PList vs))"
proof (cases "k + 1 \<le> mn")
  case False
  with cnodes_pos [of "PList vs"] show ?thesis by simp
next
  case True
  have body: "foldE (enc_item mb mn r) vs (out @ nhead 4 (length vs), k + 1) = Inr st \<longleftrightarrow>
      (\<forall>v \<in> set vs. encodable v \<and> cheight v \<le> r) \<and> k + 1 + sum_list (map cnodes vs) \<le> mn
      \<and> int (length (out @ nhead 4 (length vs))) + int (length (concat (map (\<lambda>v. cbor (canon v)) vs))) \<le> mb
      \<and> st = ((out @ nhead 4 (length vs)) @ concat (map (\<lambda>v. cbor (canon v)) vs),
              k + 1 + sum_list (map cnodes vs))"
    if "int (length (out @ nhead 4 (length vs))) \<le> mb"
    using that True assms(2-4) by (intro item_encoder.elements_iff [OF it]) auto
  have len: "int (length vs) \<le> mn" "int (length vs) \<le> U64"
    if "list_all encodable vs" "k + cnodes (PList vs) \<le> mn"
      "int (length out) + int (length (nhead 4 (length vs))
        + length (concat (map (\<lambda>v. cbor (canon v)) vs))) \<le> mb"
    using that concat_list_ge [OF that(1)] cnodes_list_ge [of vs] assms(4)
    by (auto intro!: bytes_le_U64 [OF _ assms(2)])
  show ?thesis
    using body len True
    by (auto simp: res_simps put_head_Inr list_all_iff comp_def simp del: cheight.simps)
qed

lemma enc_dict_iff:
  assumes it: "item_encoder mb mn r (enc_item mb mn r)"
    and "mb \<le> MAX_BYTES" "wf_py (PDict kvs)" "0 \<le> k" "int (length out) \<le> mb"
  shows "enc_item mb mn (Suc r) (PDict kvs) (out, k) = Inr st \<longleftrightarrow>
    encodable (PDict kvs) \<and> cheight (PDict kvs) \<le> Suc r \<and> k + cnodes (PDict kvs) \<le> mn
    \<and> int (length out) + int (length (cbor (canon (PDict kvs)))) \<le> mb
    \<and> st = (out @ cbor (canon (PDict kvs)), k + cnodes (PDict kvs))"
proof (cases "k + 1 \<le> mn")
  case False
  with cnodes_pos [of "PDict kvs"] show ?thesis by simp
next
  case True
  let ?s = "sort_key (\<lambda>kv. int_of (fst kv)) kvs"
  let ?g = "\<lambda>kv. cbor (fst kv) @ cbor (canon (snd kv))"
  let ?c = "\<lambda>kv. cnodes (fst kv) + cnodes (snd kv)"
  let ?h = "nhead 5 (length kvs)"
  have sums: "sum_list (map ?c ?s) = sum_list (map ?c kvs)" by (rule sum_list_sort_key)
  have body: "foldE (\<lambda>kv st. bindE (enc_item mb mn r (fst kv) st) (enc_item mb mn r (snd kv)))
        ?s (out @ ?h, k + 1) = Inr st \<longleftrightarrow>
      (\<forall>kv \<in> set ?s. encodable (snd kv) \<and> cheight (fst kv) \<le> r \<and> cheight (snd kv) \<le> r)
      \<and> k + 1 + sum_list (map ?c ?s) \<le> mn
      \<and> int (length (out @ ?h)) + int (length (concat (map ?g ?s))) \<le> mb
      \<and> st = ((out @ ?h) @ concat (map ?g ?s), k + 1 + sum_list (map ?c ?s))"
    if "int (length (out @ ?h)) \<le> mb" "list_all (\<lambda>kv. map_key (fst kv)) kvs"
    using that True assms(2-4)
    by (intro item_encoder.entries_iff [OF it]) (auto simp: list_all_iff)
  have canon_concat: "concat (map (\<lambda>kv. cbor (fst kv) @ cbor (snd kv))
      (sort_key (\<lambda>kv. int_of (fst kv)) (map (\<lambda>kv. (fst kv, canon (snd kv))) kvs)))
      = concat (map ?g ?s)"
    by (simp add: sort_key_map comp_def)
  have lens: "int (length kvs) \<le> mn" "int (length kvs) \<le> U64"
    if "list_all (\<lambda>kv. map_key (fst kv) \<and> encodable (snd kv)) kvs" "k + cnodes (PDict kvs) \<le> mn"
      "int (length out) + (int (length ?h) + int (length (concat (map ?g ?s)))) \<le> mb"
    using that concat_dict_ge [of ?s] cnodes_dict_ge [of kvs] assms(4)
    by (auto simp: list_all_iff intro!: bytes_le_U64 [OF _ assms(2)])
  show ?thesis
    using body lens True assms(3)
    by (auto simp: res_simps put_head_Inr list_all_iff canon_concat sums simp del: cheight.simps)
qed

lemma enc_item_encoder: "item_encoder mb mn r (enc_item mb mn r)"
proof (induction r)
  case 0
  show ?case
  proof
    show "enc_item mb mn 0 v (out, k) = Inr st \<longleftrightarrow> encodable v \<and> cheight v \<le> 0 \<and> k + cnodes v \<le> mn
      \<and> int (length out) + int (length (cbor (canon v))) \<le> mb
      \<and> st = (out @ cbor (canon v), k + cnodes v)" for v k out st
      using cheight_pos [of v] by simp
  qed
next
  case (Suc r)
  show ?case
  proof
    fix v :: pyval and k :: int and out :: bytes and st
    assume mb: "mb \<le> MAX_BYTES" and wf: "wf_py v" and k: "0 \<le> k" and out: "int (length out) \<le> mb"
    then show "enc_item mb mn (Suc r) v (out, k) = Inr st \<longleftrightarrow> encodable v \<and> cheight v \<le> Suc r
      \<and> k + cnodes v \<le> mn \<and> int (length out) + int (length (cbor (canon v))) \<le> mb
      \<and> st = (out @ cbor (canon v), k + cnodes v)"
    proof (cases v)
      case (PList vs)
      with wf mb k out show ?thesis by (simp only: wf_py.simps enc_list_iff [OF Suc])
    next
      case (PDict kvs)
      with wf mb k out show ?thesis by (simp only: enc_dict_iff [OF Suc])
    qed (use mb k out in \<open>auto simp: res_simps put_Inr put_head_Inr head_Inr
        Let_def dest: utf8_encode_length intro!: bytes_le_U64 [OF _ mb]
        split: option.splits if_splits\<close>)
  qed
qed

interpretation enc: item_encoder mb mn r "enc_item mb mn r" for mb mn r
  by (rule enc_item_encoder)

lemma int_of_PInt [simp]: "int_of (PInt i) = i"
  by (simp add: int_of_def)

lemma map_key_PInt [simp]: "map_key (PInt i) \<longleftrightarrow> 0 \<le> i \<and> i \<le> U64"
  by (simp add: map_key_def)

section \<open>The decoder accepts exactly the canonical encodings\<close>

lemma dec_list_SucE:
  assumes "dec_list it (Suc n) st = Inr (vs, st')"
  obtains v st1 xs where "vs = v # xs" "it st = Inr (v, st1)" "dec_list it n st1 = Inr (xs, st')"
proof -
  from assms obtain x where x: "it st = Inr x"
      "bindE (dec_list it n (snd x)) (\<lambda>(vs, st). Inr (fst x # vs, st)) = Inr (vs, st')"
    by (auto simp: res_simps case_prod_unfold)
  from x(2) obtain y where "dec_list it n (snd x) = Inr y" "vs = fst x # fst y" "st' = snd y"
    by (auto simp: res_simps case_prod_unfold)
  with x(1) that [of "fst x" "fst y" "snd x"] show ?thesis by simp
qed

lemma dec_map_SucE:
  assumes "dec_map it (Suc n) p st = Inr (kvs, st')"
  obtains i v st1 st2 xs where "kvs = (PInt i, v) # xs" "p < i" "it st = Inr (PInt i, st1)"
    "it st1 = Inr (v, st2)" "dec_map it n i st2 = Inr (xs, st')"
proof -
  from assms obtain x where x: "it st = Inr x" and rest: "(case fst x of
      PInt k \<Rightarrow> if k \<le> p then wire ''MAP_ORDER'' else bindE (it (snd x)) (\<lambda>(v, st).
        bindE (dec_map it n k st) (\<lambda>(kvs, st). Inr ((fst x, v) # kvs, st)))
      | _ \<Rightarrow> wire ''MAP_KEY'') = Inr (kvs, st')"
    by (auto simp: bindE_eq_Inr [of "it st"] case_prod_unfold)
  from rest obtain i where i: "fst x = PInt i" "p < i"
      "bindE (it (snd x)) (\<lambda>y. bindE (dec_map it n i (snd y))
        (\<lambda>z. Inr ((PInt i, fst y) # fst z, snd z))) = Inr (kvs, st')"
    by (cases "fst x") (auto simp: case_prod_unfold split: if_splits)
  then obtain y z where "it (snd x) = Inr y" "dec_map it n i (snd y) = Inr z"
    "kvs = (PInt i, fst y) # fst z" "st' = snd z"
    by (auto simp: res_simps)
  with x i that [of i "fst y" "fst z" "snd x" "snd y"] show ?thesis by (cases x) simp
qed

text \<open>What the loops of \<^verbatim>\<open>decode\<close> need from the decoder of the elements.\<close>

locale item_decoder =
  fixes mb mn :: int and r :: nat and it :: "dec_state \<Rightarrow> (pyval \<times> dec_state) res"
  assumes item_iff: "mb \<le> MAX_BYTES \<Longrightarrow> 0 \<le> k \<Longrightarrow> int (length bs) \<le> mb \<Longrightarrow>
    it (bs, k) = Inr (v, (rest, k')) \<longleftrightarrow> canonical v \<and> cheight v \<le> r \<and> k + cnodes v \<le> mn
      \<and> bs = cbor v @ rest \<and> k' = k + cnodes v"
begin

lemma item_sound:
  assumes "mb \<le> MAX_BYTES" "0 \<le> k" "int (length bs) \<le> mb" "it (bs, k) = Inr (v, st)"
  shows "canonical v" "cheight v \<le> r" "k + cnodes v \<le> mn" "bs = cbor v @ fst st" "snd st = k + cnodes v"
  using item_iff [OF assms(1-3), of v "fst st" "snd st"] assms(4) by auto

lemma item_complete:
  assumes "mb \<le> MAX_BYTES" "0 \<le> k" "int (length (cbor v @ rest)) \<le> mb" "canonical v"
    and "cheight v \<le> r" "k + cnodes v \<le> mn"
  shows "it (cbor v @ rest, k) = Inr (v, (rest, k + cnodes v))"
  using item_iff [OF assms(1-3)] assms(4-6) by blast

lemma elements_sound:
  assumes "mb \<le> MAX_BYTES" "0 \<le> k" "k \<le> mn" "int (length bs) \<le> mb"
    and "dec_list it n (bs, k) = Inr (vs, st)"
  shows "length vs = n \<and> (\<forall>v \<in> set vs. canonical v \<and> cheight v \<le> r)
    \<and> k + sum_list (map cnodes vs) \<le> mn \<and> bs = concat (map cbor vs) @ fst st
    \<and> snd st = k + sum_list (map cnodes vs)"
  using assms(2-5)
proof (induction n arbitrary: bs k vs)
  case 0
  then show ?case by auto
next
  case (Suc n)
  from Suc.prems(4) obtain v st1 xs where vs: "vs = v # xs"
    and it: "it (bs, k) = Inr (v, st1)" and tail: "dec_list it n st1 = Inr (xs, st)"
    by (rule dec_list_SucE)
  note i = item_sound [OF assms(1) Suc.prems(1,3) it]
  have "dec_list it n (fst st1, k + cnodes v) = Inr (xs, st)" using tail i(5) by (metis prod.collapse)
  moreover have "int (length (fst st1)) \<le> mb" using Suc.prems(3) i(4) by simp
  ultimately show ?case
    using Suc.IH [of "k + cnodes v" "fst st1" xs] i Suc.prems(1) cnodes_pos [of v]
    by (auto simp: vs algebra_simps)
qed

lemma elements_complete:
  assumes "mb \<le> MAX_BYTES" "0 \<le> k" "int (length (concat (map cbor vs) @ rest)) \<le> mb"
    and "\<forall>v \<in> set vs. canonical v \<and> cheight v \<le> r" "k + sum_list (map cnodes vs) \<le> mn"
  shows "dec_list it (length vs) (concat (map cbor vs) @ rest, k)
    = Inr (vs, (rest, k + sum_list (map cnodes vs)))"
  using assms(2-5)
proof (induction vs arbitrary: k)
  case Nil
  then show ?case by simp
next
  case (Cons v vs)
  have "0 \<le> sum_list (map cnodes vs)"
    using sum_list_ge_length [of vs 1 cnodes] cnodes_pos by fastforce
  with Cons.prems have "it (cbor v @ concat (map cbor vs) @ rest, k)
      = Inr (v, (concat (map cbor vs) @ rest, k + cnodes v))"
    by (intro item_complete assms(1)) auto
  moreover have "dec_list it (length vs) (concat (map cbor vs) @ rest, k + cnodes v)
      = Inr (vs, (rest, k + cnodes v + sum_list (map cnodes vs)))"
    using Cons.prems cnodes_pos [of v] by (intro Cons.IH) (auto simp: algebra_simps)
  ultimately show ?case by (simp add: algebra_simps)
qed

lemma entries_sound:
  assumes "mb \<le> MAX_BYTES" "0 \<le> k" "k \<le> mn" "int (length bs) \<le> mb"
    and "dec_map it n p (bs, k) = Inr (kvs, st)"
  shows "length kvs = n \<and> (\<forall>kv \<in> set kvs. map_key (fst kv) \<and> canonical (snd kv)
      \<and> cheight (fst kv) \<le> r \<and> cheight (snd kv) \<le> r)
    \<and> sorted_wrt (<) (p # map (int_of \<circ> fst) kvs)
    \<and> k + sum_list (map (\<lambda>kv. cnodes (fst kv) + cnodes (snd kv)) kvs) \<le> mn
    \<and> bs = concat (map (\<lambda>kv. cbor (fst kv) @ cbor (snd kv)) kvs) @ fst st
    \<and> snd st = k + sum_list (map (\<lambda>kv. cnodes (fst kv) + cnodes (snd kv)) kvs)"
  using assms(2-5)
proof (induction n arbitrary: bs k p kvs)
  case 0
  then show ?case by auto
next
  case (Suc n)
  from Suc.prems(4) obtain i v st1 st2 xs where kvs: "kvs = (PInt i, v) # xs" "p < i"
    and key: "it (bs, k) = Inr (PInt i, st1)" and val: "it st1 = Inr (v, st2)"
    and tail: "dec_map it n i st2 = Inr (xs, st)"
    by (rule dec_map_SucE)
  note i1 = item_sound [OF assms(1) Suc.prems(1,3) key]
  have "it (fst st1, k + 1) = Inr (v, st2)" using val i1(5) by (metis cnodes.simps(5) prod.collapse)
  note i2 = item_sound [OF assms(1) _ _ this]
  have len: "int (length (fst st1)) \<le> mb" using Suc.prems(3) i1(4) by simp
  with i2 Suc.prems(1) have v: "canonical v" "cheight v \<le> r" "k + 1 + cnodes v \<le> mn"
    "fst st1 = cbor v @ fst st2" "snd st2 = k + 1 + cnodes v"
    by auto
  have "dec_map it n i (fst st2, k + 1 + cnodes v) = Inr (xs, st)"
    using tail v(5) by (metis prod.collapse)
  with Suc.IH [of "k + 1 + cnodes v" "fst st2" i xs] v len Suc.prems(1) cnodes_pos [of v]
  have tl: "length xs = n \<and> (\<forall>kv \<in> set xs. map_key (fst kv) \<and> canonical (snd kv)
      \<and> cheight (fst kv) \<le> r \<and> cheight (snd kv) \<le> r)
    \<and> sorted_wrt (<) (i # map (int_of \<circ> fst) xs)
    \<and> k + 1 + cnodes v + sum_list (map (\<lambda>kv. cnodes (fst kv) + cnodes (snd kv)) xs) \<le> mn
    \<and> fst st2 = concat (map (\<lambda>kv. cbor (fst kv) @ cbor (snd kv)) xs) @ fst st
    \<and> snd st = k + 1 + cnodes v + sum_list (map (\<lambda>kv. cnodes (fst kv) + cnodes (snd kv)) xs)"
    by (auto simp: comp_def)
  with kvs v i1 show ?case by (auto simp: comp_def)
qed

lemma entries_complete:
  assumes "mb \<le> MAX_BYTES" "0 \<le> k"
    and "int (length (concat (map (\<lambda>kv. cbor (fst kv) @ cbor (snd kv)) kvs) @ rest)) \<le> mb"
    and "\<forall>kv \<in> set kvs. map_key (fst kv) \<and> canonical (snd kv) \<and> cheight (fst kv) \<le> r \<and> cheight (snd kv) \<le> r"
    and "sorted_wrt (<) (p # map (int_of \<circ> fst) kvs)"
    and "k + sum_list (map (\<lambda>kv. cnodes (fst kv) + cnodes (snd kv)) kvs) \<le> mn"
  shows "dec_map it (length kvs) p (concat (map (\<lambda>kv. cbor (fst kv) @ cbor (snd kv)) kvs) @ rest, k)
    = Inr (kvs, (rest, k + sum_list (map (\<lambda>kv. cnodes (fst kv) + cnodes (snd kv)) kvs)))"
  using assms(2-6)
proof (induction kvs arbitrary: k p)
  case Nil
  then show ?case by simp
next
  case (Cons kv kvs)
  let ?c = "concat (map (\<lambda>kv. cbor (fst kv) @ cbor (snd kv)) kvs)"
  let ?sum = "sum_list (map (\<lambda>kv. cnodes (fst kv) + cnodes (snd kv)) kvs)"
  obtain i v where kv: "kv = (PInt i, v)" and i: "0 \<le> i" "i \<le> U64"
    using Cons.prems(3) by (cases kv) (auto simp: map_key_conv)
  have "0 \<le> ?sum" using cnodes_dict_ge [of kvs] by simp
  with Cons.prems i kv cnodes_pos [of v]
  have "it (cbor (PInt i) @ cbor v @ ?c @ rest, k) = Inr (PInt i, (cbor v @ ?c @ rest, k + cnodes (PInt i)))"
    and "it (cbor v @ ?c @ rest, k + 1) = Inr (v, (?c @ rest, k + 1 + cnodes v))"
    by (intro item_complete assms(1); auto)+
  moreover have "dec_map it (length kvs) i (?c @ rest, k + 1 + cnodes v)
      = Inr (kvs, (rest, k + 1 + cnodes v + ?sum))"
    using Cons.prems kv cnodes_pos [of v] by (intro Cons.IH) (auto simp: algebra_simps algebra_simps)
  moreover have "p < i" using Cons.prems(4) kv by simp
  ultimately show ?case by (simp add: kv algebra_simps del: cbor.simps)
qed

end

text \<open>The decoder's view of a header: initial byte, major type and argument.\<close>

lemma take_bytes_1 [simp]: "take_bytes (Suc 0) (b # rest) = Inr ([b], rest)"
  by (simp add: take_bytes_def)

lemma dec_item_head:
  assumes "k + 1 \<le> mn" "m < 7" "m \<noteq> 1" "m \<noteq> 6" "int n \<le> U64"
  shows "dec_item mb mn (Suc r) (nhead m n @ rest, k) =
    (if m = 0 then Inr (PInt (int n), (rest, k + 1))
     else if int n > mb then wire ''LIMIT''
     else if m = 2 \<or> m = 3 then
       bindE (take_bytes n rest) (\<lambda>(b, rest).
         if m = 2 then Inr (PBytes b, (rest, k + 1))
         else case utf8_decode b of None \<Rightarrow> wire ''UTF8'' | Some s \<Rightarrow> Inr (PStr s, (rest, k + 1)))
     else if n * (if m = 5 then 2 else 1) > length rest then wire ''TRUNCATED''
     else if k + 1 + int (n * (if m = 5 then 2 else 1)) > mn then wire ''RESOURCE_LIMIT''
     else if m = 4 then bindE (dec_list (dec_item mb mn r) n (rest, k + 1)) (\<lambda>(vs, st). Inr (PList vs, st))
     else bindE (dec_map (dec_item mb mn r) n (-1) (rest, k + 1)) (\<lambda>(kvs, st). Inr (PDict kvs, st)))"
proof -
  have ai: "ai_of n < 32" by (rule less_trans [OF ai_of_lt]) simp
  have m: "m < 8" "m = 0 \<or> m = 2 \<or> m = 3 \<or> m = 4 \<or> m = 5" using assms by auto
  note i = initial_split [OF m(1) ai]
  have "nhead m n @ rest = byte (32 * m + ai_of n) # (ext_of n @ rest)"
    by (simp add: nhead_conv)
  then show ?thesis
    using assms m(2) i
    by (simp add: Let_def argument_ext [OF assms(5)] cong: if_cong)
qed

lemma dec_item_simple:
  assumes "k + 1 \<le> mn"
  shows "dec_item mb mn (Suc r) (0xf6 # rest, k) = Inr (PNone, (rest, k + 1))"
    and "dec_item mb mn (Suc r) (0xf5 # rest, k) = Inr (PBool True, (rest, k + 1))"
    and "dec_item mb mn (Suc r) (0xf4 # rest, k) = Inr (PBool False, (rest, k + 1))"
proof -
  have b: "0xf6 = byte (32 * 7 + 22)" "0xf5 = byte (32 * 7 + 21)" "0xf4 = byte (32 * 7 + 20)"
    by (simp_all add: byte_def)
  note i = initial_split [of 7 22] initial_split [of 7 21] initial_split [of 7 20]
  show "dec_item mb mn (Suc r) (0xf6 # rest, k) = Inr (PNone, (rest, k + 1))"
    "dec_item mb mn (Suc r) (0xf5 # rest, k) = Inr (PBool True, (rest, k + 1))"
    "dec_item mb mn (Suc r) (0xf4 # rest, k) = Inr (PBool False, (rest, k + 1))"
    unfolding b using assms i by (simp_all add: Let_def)
qed

text \<open>Every accepted item starts with a simple value or a shortest-form header.\<close>

lemma dec_item_cases:
  assumes "dec_item mb mn (Suc r) (bs, k) = Inr res"
  obtains (simple) b rest where "bs = b # rest" "b = 0xf4 \<or> b = 0xf5 \<or> b = 0xf6" "k + 1 \<le> mn"
    | (headed) m n rest where "bs = nhead m n @ rest" "m < 7" "m \<noteq> 1" "m \<noteq> 6" "int n \<le> U64" "k + 1 \<le> mn"
proof -
  from assms have k: "k + 1 \<le> mn" by (auto simp: Let_def split: if_splits)
  from assms k obtain b rest where bs: "bs = b # rest"
    by (cases bs) (auto simp: take_bytes_def Let_def)
  define m where "m = drop_bit 5 (unat b)"
  define ai where "ai = unat b AND 31"
  have b: "b = byte (32 * m + ai)" by (simp add: m_def ai_def initial_join)
  have simple7: "m = 7 \<Longrightarrow> ai = 20 \<or> ai = 21 \<or> ai = 22"
    using assms k by (auto simp: bs m_def ai_def Let_def split: if_splits)
  have major: "m \<noteq> 7 \<Longrightarrow> m = 0 \<or> m = 2 \<or> m = 3 \<or> m = 4 \<or> m = 5"
    using assms k by (auto simp: bs m_def Let_def split: if_splits)
  have arg: "m \<noteq> 7 \<Longrightarrow> argument ai rest \<noteq> Inl e" for e
    using assms k major by (auto simp: bs m_def ai_def Let_def)
  show ?thesis
  proof (cases "m = 7")
    case True
    with simple7 b have "b = 0xf4 \<or> b = 0xf5 \<or> b = 0xf6" by (auto simp: byte_def)
    with bs k show ?thesis by (intro simple)
  next
    case False
    with arg obtain n rest' where "argument ai rest = Inr (n, rest')"
      by (cases "argument ai rest") auto
    from argument_inv [OF this] have "bs = nhead m n @ rest'" "int n \<le> U64"
      by (simp_all add: bs b nhead_conv)
    with major [OF False] k show ?thesis by (intro headed) auto
  qed
qed

lemma canonical_encodable: "canonical v \<Longrightarrow> encodable v"
proof (induction v rule: canonical.induct)
  case (4 kvs)
  from "4.prems" have "sorted_wrt (<) (map (int_of \<circ> fst) kvs)" by simp
  then have "distinct (map (int_of \<circ> fst) kvs)"
    by (simp add: strict_sorted_iff)
  then have "distinct (map fst kvs)"
    by (metis distinct_map map_map)
  with 4 show ?case by (auto simp: list_all_iff)
qed (auto simp: list_all_iff)

lemma canonical_canon [simp]: "canonical v \<Longrightarrow> canon v = v"
proof (induction v rule: canonical.induct)
  case (3 vs)
  then show ?case by (auto simp: list_all_iff map_idI)
next
  case (4 kvs)
  have "map (\<lambda>kv. (fst kv, canon (snd kv))) kvs = kvs"
    using 4 by (intro map_idI) (auto simp: list_all_iff)
  moreover have "sorted (map (\<lambda>kv. int_of (fst kv)) kvs)"
    using "4.prems" by (simp add: comp_def strict_sorted_imp_sorted)
  ultimately show ?case by (simp add: sorted_sort_id sort_key_id_if_sorted)
qed auto

lemma canonical_wf [simp]: "canonical v \<Longrightarrow> wf_py v"
proof (induction v rule: canonical.induct)
  case (4 kvs)
  then show ?case
    using canonical_encodable [OF "4.prems"] by (auto simp: list_all_iff map_key_conv)
qed (auto simp: list_all_iff)

lemma concat_canonical_list_ge:
  "\<forall>v \<in> set vs. canonical v \<Longrightarrow> length vs \<le> length (concat (map cbor vs))"
  using concat_list_ge [of vs] by (simp add: list_all_iff canonical_encodable cong: map_cong)

lemma concat_canonical_dict_ge:
  "\<forall>kv \<in> set kvs. map_key (fst kv) \<and> canonical (snd kv) \<Longrightarrow>
    2 * length kvs \<le> length (concat (map (\<lambda>kv. cbor (fst kv) @ cbor (snd kv)) kvs))"
  using concat_dict_ge [of kvs] by (simp add: list_all_iff canonical_encodable cong: map_cong)

lemma dec_item_complete:
  assumes it: "item_decoder mb mn r (dec_item mb mn r)"
    and mb: "mb \<le> MAX_BYTES" and k: "0 \<le> k" and len: "int (length (cbor v @ rest)) \<le> mb"
    and v: "canonical v" "cheight v \<le> Suc r" "k + cnodes v \<le> mn"
  shows "dec_item mb mn (Suc r) (cbor v @ rest, k) = Inr (v, (rest, k + cnodes v))"
proof -
  have k1: "k + 1 \<le> mn" using v(3) cnodes_pos [of v] by simp
  note head = dec_item_head [OF k1, where mb = mb and r = r]
  note u64 = bytes_le_U64 [OF _ mb]
  show ?thesis
  proof (cases v)
    case (PInt i)
    with v k1 head [of 0 "nat i" rest] show ?thesis by simp
  next
    case (PBytes b)
    with len have "int (length b) \<le> mb" by simp
    then show ?thesis using head [of 2 "length b" "b @ rest"] u64 [of "length b"] PBytes
      by (simp add: take_bytes_def)
  next
    case (PStr s)
    with v obtain raw where raw: "utf8_encode s = Some raw" by auto
    with PStr len have "int (length raw) \<le> mb" by simp
    then show ?thesis
      using head [of 3 "length raw" "raw @ rest"] u64 [of "length raw"] PStr raw utf8_decode_encode [OF raw]
      by (simp add: take_bytes_def)
  next
    case (PList vs)
    have c: "\<forall>v \<in> set vs. canonical v \<and> cheight v \<le> r"
      using v PList by (auto simp: list_all_iff simp del: cheight.simps)
    with concat_canonical_list_ge [of vs] have n: "length vs \<le> length (concat (map cbor vs))" by simp
    have body: "dec_list (dec_item mb mn r) (length vs) (concat (map cbor vs) @ rest, k + 1)
        = Inr (vs, (rest, k + 1 + sum_list (map cnodes vs)))"
      using c len v(3) k PList by (intro item_decoder.elements_complete [OF it mb]) auto
    have "int (length vs) \<le> mb" "k + 1 + int (length vs) \<le> mn"
      using n len v(3) cnodes_list_ge [of vs] PList by simp_all
    then show ?thesis
      using head [of 4 "length vs" "concat (map cbor vs) @ rest"] u64 [of "length vs"] n body PList by simp
  next
    case (PDict kvs)
    let ?c = "concat (map (\<lambda>kv. cbor (fst kv) @ cbor (snd kv)) kvs)"
    have c: "\<forall>kv \<in> set kvs. map_key (fst kv) \<and> canonical (snd kv) \<and> cheight (fst kv) \<le> r \<and> cheight (snd kv) \<le> r"
      using v PDict by (auto simp: list_all_iff simp del: cheight.simps)
    with concat_canonical_dict_ge [of kvs] have n: "2 * length kvs \<le> length ?c" by simp
    have "sorted_wrt (<) (- 1 # map (int_of \<circ> fst) kvs)"
      using v(1) PDict by (auto simp: list_all_iff map_key_conv)
    then have body: "dec_map (dec_item mb mn r) (length kvs) (-1) (?c @ rest, k + 1)
        = Inr (kvs, (rest, k + 1 + sum_list (map (\<lambda>kv. cnodes (fst kv) + cnodes (snd kv)) kvs)))"
      using c len v(3) k PDict by (intro item_decoder.entries_complete [OF it mb]) auto
    have "int (length kvs) \<le> mb" "k + 1 + 2 * int (length kvs) \<le> mn"
      using n len v(3) cnodes_dict_ge [of kvs] PDict by simp_all
    then show ?thesis
      using head [of 5 "length kvs" "?c @ rest"] u64 [of "length kvs"] n body PDict by simp
  qed (use v dec_item_simple [OF k1] in auto)
qed

lemma dec_item_sound:
  assumes it: "item_decoder mb mn r (dec_item mb mn r)"
    and mb: "mb \<le> MAX_BYTES" and k: "0 \<le> k" and len: "int (length bs) \<le> mb"
    and res: "dec_item mb mn (Suc r) (bs, k) = Inr (v, st)"
  shows "canonical v \<and> cheight v \<le> Suc r \<and> k + cnodes v \<le> mn \<and> bs = cbor v @ fst st
    \<and> snd st = k + cnodes v"
  using res
proof (cases rule: dec_item_cases)
  case (simple b rest)
  with res dec_item_simple [of k mn mb r rest] show ?thesis by auto
next
  case (headed m n rest)
  have lr: "int (length rest) \<le> mb" using len headed(1) by simp
  note h = res [unfolded headed(1) dec_item_head [OF headed(6,2-5)]]
  from headed(2-4) consider "m = 0" | "m = 2" | "m = 3" | "m = 4" | "m = 5" by linarith
  then show ?thesis
  proof cases
    case 1
    with h headed show ?thesis by auto
  next
    case 2
    with h headed show ?thesis by (auto simp: res_simps take_bytes_def split: if_splits)
  next
    case 3
    with h headed show ?thesis
      by (auto simp: res_simps take_bytes_def dest!: utf8_encode_decode split: if_splits option.splits)
  next
    case 4
    with h obtain vs where v: "v = PList vs"
      and "dec_list (dec_item mb mn r) n (rest, k + 1) = Inr (vs, st)"
      by (auto simp: res_simps split: if_splits)
    from item_decoder.elements_sound [OF it mb _ headed(6) lr this(2)] k headed(1) 4
    show ?thesis by (auto simp: v list_all_iff simp del: cheight.simps)
  next
    case 5
    with h obtain kvs where v: "v = PDict kvs"
      and "dec_map (dec_item mb mn r) n (-1) (rest, k + 1) = Inr (kvs, st)"
      by (auto simp: res_simps split: if_splits)
    from item_decoder.entries_sound [OF it mb _ headed(6) lr this(2)] k headed(1) 5
    show ?thesis by (auto simp: v list_all_iff simp del: cheight.simps)
  qed
qed

lemma dec_item_decoder: "item_decoder mb mn r (dec_item mb mn r)"
proof (induction r)
  case 0
  show ?case
  proof
    show "dec_item mb mn 0 (bs, k) = Inr (v, (rest, k')) \<longleftrightarrow> canonical v \<and> cheight v \<le> 0
      \<and> k + cnodes v \<le> mn \<and> bs = cbor v @ rest \<and> k' = k + cnodes v" for bs k v rest k'
      using cheight_pos [of v] by simp
  qed
next
  case (Suc r)
  show ?case
  proof
    fix bs :: bytes and k :: int and v rest k'
    assume "mb \<le> MAX_BYTES" "0 \<le> k" "int (length bs) \<le> mb"
    then show "dec_item mb mn (Suc r) (bs, k) = Inr (v, (rest, k')) \<longleftrightarrow> canonical v \<and> cheight v \<le> Suc r
      \<and> k + cnodes v \<le> mn \<and> bs = cbor v @ rest \<and> k' = k + cnodes v"
      using dec_item_sound [OF Suc, of k bs v "(rest, k')"] dec_item_complete [OF Suc, of k v rest]
      by auto
  qed
qed

interpretation dec: item_decoder mb mn r "dec_item mb mn r" for mb mn r
  by (rule dec_item_decoder)

section \<open>Encoder and decoder as a whole\<close>

text \<open>The exact success conditions of the two entry points.\<close>

lemma encode_iff:
  assumes "wf_py v"
  shows "encode v mb mn = Inr bs \<longleftrightarrow> budget_ok mb mn \<and> encodable v \<and> cheight v \<le> Suc MAX_DEPTH
    \<and> cnodes v \<le> mn \<and> int (length (cbor (canon v))) \<le> mb \<and> bs = cbor (canon v)"
proof (cases "budget_ok mb mn")
  case True
  then have "mb \<le> MAX_BYTES" "0 \<le> mb" by (simp_all add: budget_ok_def)
  with True enc.item_iff [OF _ assms, of mb 0 "[]" mn "Suc MAX_DEPTH"] show ?thesis
    by (auto simp: encode_def res_simps simp del: enc_item.simps)
next
  case False
  then show ?thesis by (simp add: encode_def)
qed

lemma decode_iff:
  "decode data mb mn = Inr v \<longleftrightarrow> budget_ok mb mn \<and> canonical v \<and> cheight v \<le> Suc MAX_DEPTH
    \<and> cnodes v \<le> mn \<and> int (length (cbor v)) \<le> mb \<and> data = cbor v"
proof (cases "budget_ok mb mn \<and> int (length data) \<le> mb")
  case True
  then have mb: "mb \<le> MAX_BYTES" by (simp add: budget_ok_def)
  have item: "dec_item mb mn (Suc MAX_DEPTH) (data, 0) = Inr (v, (rest, k')) \<longleftrightarrow> canonical v
      \<and> cheight v \<le> Suc MAX_DEPTH \<and> cnodes v \<le> mn \<and> data = cbor v @ rest \<and> k' = cnodes v" for v rest k'
    using dec.item_iff [OF mb, of 0 data mn "Suc MAX_DEPTH" v rest k'] True by simp
  have "decode data mb mn = Inr v \<longleftrightarrow>
      (\<exists>k'. dec_item mb mn (Suc MAX_DEPTH) (data, 0) = Inr (v, ([], k')))"
    using True by (auto simp: decode_def res_simps simp del: dec_item.simps split: if_splits prod.splits)
  then show ?thesis using True item by auto
next
  case False
  then show ?thesis by (auto simp: decode_def)
qed

lemma canonical_canon_enc: "encodable v \<Longrightarrow> canonical (canon v)"
proof (induction v rule: canon.induct)
  case (1 vs)
  then show ?case by (auto simp: list_all_iff)
next
  case (2 kvs)
  let ?xs = "map (\<lambda>kv. (fst kv, canon (snd kv))) kvs"
  let ?s = "sort_key (\<lambda>kv. int_of (fst kv)) ?xs"
  have "inj_on int_of (set (map fst kvs))"
  proof (rule inj_onI)
    fix a b assume "a \<in> set (map fst kvs)" "b \<in> set (map fst kvs)" "int_of a = int_of b"
    moreover from this "2.prems" have "map_key a" "map_key b" by (auto simp: list_all_iff)
    ultimately show "a = b" by (auto simp: map_key_conv)
  qed
  then have "distinct (map int_of (map fst ?xs))"
    using "2.prems" by (simp add: distinct_map comp_def) (simp add: inj_on_def)
  moreover have "mset (map (int_of \<circ> fst) ?s) = mset (map int_of (map fst ?xs))"
    by (simp add: multiset.map_comp comp_def)
  then have "distinct (map (int_of \<circ> fst) ?s) = distinct (map int_of (map fst ?xs))"
    by (rule mset_eq_imp_distinct_iff)
  ultimately have "distinct (map (int_of \<circ> fst) ?s)" by simp
  moreover have "sorted (map (int_of \<circ> fst) ?s)"
    by (simp add: comp_def)
  ultimately have "sorted_wrt (<) (map (int_of \<circ> fst) ?s)"
    by (simp only: strict_sorted_iff)
  with 2 show ?case by (auto simp: list_all_iff)
qed auto

lemma cheight_canon_le: "cheight (canon v) \<le> n \<longleftrightarrow> cheight v \<le> n"
proof (induction v arbitrary: n rule: canon.induct)
  case (1 vs)
  then show ?case by (cases n) (simp_all add: foldr_max_le)
next
  case (2 kvs)
  then show ?case by (cases n) (simp_all add: foldr_max_le)
qed auto

lemma cheight_canon [simp]: "cheight (canon v) = cheight v"
  using cheight_canon_le [of v "cheight v"] cheight_canon_le [of v "cheight (canon v)"] by simp

text \<open>C1. Decoding what the encoder produced gives the value back, with every dictionary
  in ascending key order, under the same budgets.\<close>

theorem decode_encode:
  assumes "wf_py v" and "encode v max_bytes max_nodes = Inr bs"
  shows "decode bs max_bytes max_nodes = Inr (canon v)"
  using assms by (simp add: encode_iff decode_iff canonical_canon_enc)

theorem decode_encode_witness:
  "decode [byte 0xa2, byte 1, byte 0xf5, byte 2, byte 0x41, byte 7] MAX_BYTES MAX_NODES
    = Inr (PDict [(PInt 1, PBool True), (PInt 2, PBytes [7])])"
proof -
  let ?v = "PDict [(PInt 2, PBytes [7]), (PInt 1, PBool True)]"
  have e: "encode ?v MAX_BYTES MAX_NODES
      = Inr [byte 0xa2, byte 1, byte 0xf5, byte 2, byte 0x41, byte 7]"
    by (simp add: encode_iff budget_ok_def MAX_BYTES_def MAX_NODES_def MAX_DEPTH_def U64_def
        nhead_def byte_def)
  have "canon ?v = PDict [(PInt 1, PBool True), (PInt 2, PBytes [7])]" by simp
  with decode_encode [OF _ e] show ?thesis by simp
qed

text \<open>C2. The decoder accepts only canonical bytes: re-encoding an accepted value gives
  exactly the bytes that were read.\<close>

theorem encode_decode:
  assumes "decode bs max_bytes max_nodes = Inr v"
  shows "encode v max_bytes max_nodes = Inr bs \<and> canonical v"
  using assms by (auto simp: decode_iff encode_iff canonical_encodable)

theorem encode_decode_witness:
  "encode (PList [PInt 500, PNone]) 64 9 = Inr [byte 0x82, byte 0x19, byte 1, byte 0xf4, byte 0xf6]"
proof -
  have d: "decode [byte 0x82, byte 0x19, byte 1, byte 0xf4, byte 0xf6] 64 9 = Inr (PList [PInt 500, PNone])"
    by (simp add: decode_iff budget_ok_def MAX_BYTES_def MAX_DEPTH_def U64_def nhead_def byte_def
        to_bytes_numeral)
  from encode_decode [OF d] show ?thesis by simp
qed

text \<open>No two byte strings decode to the same value, whatever the budgets.\<close>

theorem decode_injective:
  assumes "decode a mb mn = Inr v" and "decode b mb' mn' = Inr v"
  shows "a = b"
  using assms by (simp add: decode_iff)

theorem decode_injective_witness: "[byte 0x18, byte 24] = [byte 0x18, byte 24]"
proof -
  have "decode [byte 0x18, byte 24] 10 5 = Inr (PInt 24)" "decode [byte 0x18, byte 24] 20 9 = Inr (PInt 24)"
    by (simp_all add: decode_iff budget_ok_def MAX_BYTES_def MAX_DEPTH_def U64_def nhead_def byte_def)
  then show ?thesis by (rule decode_injective)
qed

text \<open>Budgets are enforced.\<close>

theorem decode_bounds:
  assumes "decode data mb mn = Inr v"
  shows "int (length data) \<le> mb \<and> mb \<le> MAX_BYTES \<and> cnodes v \<le> mn \<and> cheight v \<le> Suc MAX_DEPTH"
  using assms by (auto simp: decode_iff budget_ok_def)

theorem decode_bounds_witness: "int (length [byte 0xf6]) \<le> 3 \<and> cnodes PNone \<le> 2"
proof -
  have "decode [byte 0xf6] 3 2 = Inr PNone"
    by (simp add: decode_iff budget_ok_def MAX_BYTES_def MAX_DEPTH_def byte_def)
  from decode_bounds [OF this] show ?thesis by simp
qed

section \<open>Truncated input\<close>

text \<open>A cut inside a concatenation is a cut inside the first part or inside the second.\<close>

lemma cut_append:
  assumes "xs @ ys = p @ b # q"
  obtains us where "xs = p @ b # us" | p' where "p = xs @ p'" "ys = p' @ b # q"
  using assms by (auto simp: append_eq_append_conv2 append_eq_Cons_conv)

text \<open>What the loops of \<^verbatim>\<open>decode\<close> need to know of an element that is cut off.\<close>

locale cut_decoder = item_decoder +
  assumes item_cut: "mb \<le> MAX_BYTES \<Longrightarrow> 0 \<le> k \<Longrightarrow> int (length (cbor v)) \<le> mb \<Longrightarrow> canonical v \<Longrightarrow>
    cheight v \<le> r \<Longrightarrow> k + cnodes v \<le> mn \<Longrightarrow> cbor v = p @ b # q \<Longrightarrow> it (p, k) = wire ''TRUNCATED''"
begin

lemma elements_cut:
  assumes "mb \<le> MAX_BYTES" "0 \<le> k" "int (length (concat (map cbor vs))) \<le> mb"
    and "\<forall>v \<in> set vs. canonical v \<and> cheight v \<le> r" "k + sum_list (map cnodes vs) \<le> mn"
    and "concat (map cbor vs) = p @ b # q"
  shows "dec_list it (length vs) (p, k) = wire ''TRUNCATED''"
  using assms(2-6)
proof (induction vs arbitrary: k p)
  case (Cons v vs)
  have sum: "0 \<le> sum_list (map cnodes vs)"
    using sum_list_ge_length [of vs 1 cnodes] cnodes_pos by fastforce
  from Cons.prems(5) have "cbor v @ concat (map cbor vs) = p @ b # q" by simp
  then show ?case
  proof (cases rule: cut_append)
    case (1 us)
    then show ?thesis using Cons.prems sum item_cut [OF assms(1), of k v p b us] by simp
  next
    case (2 p')
    then have "it (p, k) = Inr (v, (p', k + cnodes v))"
      using Cons.prems sum item_complete [OF assms(1), of k v p'] by simp
    moreover have "dec_list it (length vs) (p', k + cnodes v) = wire ''TRUNCATED''"
      using Cons.prems 2 cnodes_pos [of v] by (intro Cons.IH) auto
    ultimately show ?thesis by simp
  qed
qed simp

lemma entries_cut:
  assumes "mb \<le> MAX_BYTES" "0 \<le> k"
    and "int (length (concat (map (\<lambda>kv. cbor (fst kv) @ cbor (snd kv)) kvs))) \<le> mb"
    and "\<forall>kv \<in> set kvs. map_key (fst kv) \<and> canonical (snd kv) \<and> cheight (fst kv) \<le> r \<and> cheight (snd kv) \<le> r"
    and "sorted_wrt (<) (m # map (int_of \<circ> fst) kvs)"
    and "k + sum_list (map (\<lambda>kv. cnodes (fst kv) + cnodes (snd kv)) kvs) \<le> mn"
    and "concat (map (\<lambda>kv. cbor (fst kv) @ cbor (snd kv)) kvs) = p @ b # q"
  shows "dec_map it (length kvs) m (p, k) = wire ''TRUNCATED''"
  using assms(2-7)
proof (induction kvs arbitrary: k m p)
  case (Cons kv kvs)
  let ?c = "concat (map (\<lambda>kv. cbor (fst kv) @ cbor (snd kv)) kvs)"
  obtain i v where kv: "kv = (PInt i, v)" and i: "0 \<le> i" "i \<le> U64"
    using Cons.prems(3) by (cases kv) (auto simp: map_key_conv)
  note prems = Cons.prems [unfolded kv]
  have sum: "0 \<le> sum_list (map (\<lambda>kv. cnodes (fst kv) + cnodes (snd kv)) kvs)" "1 \<le> cnodes v"
    using cnodes_dict_ge [of kvs] cnodes_pos [of v] by simp_all
  have "m < i" using prems(4) by simp
  from prems(6) have "cbor (PInt i) @ cbor v @ ?c = p @ b # q" by simp
  then show ?case
  proof (cases rule: cut_append)
    case (1 us)
    then show ?thesis
      using prems sum i item_cut [OF assms(1), of k "PInt i" p b us] by (simp add: kv)
  next
    case (2 p1)
    have key: "it (p, k) = Inr (PInt i, (p1, k + 1))"
      using prems sum i 2 item_complete [OF assms(1), of k "PInt i" p1] by simp
    from 2(2) show ?thesis
    proof (cases rule: cut_append)
      case (1 us)
      then have "it (p1, k + 1) = wire ''TRUNCATED''"
        using prems sum item_cut [OF assms(1), of "k + 1" v p1 b us] by simp
      with key show ?thesis using \<open>m < i\<close> by (simp add: kv)
    next
      case (2 p2)
      have "length p1 = length (cbor v) + length p2" using 2(1) by simp
      then have "it (p1, k + 1) = Inr (v, (p2, k + 1 + cnodes v))"
        using prems sum 2 item_complete [OF assms(1), of "k + 1" v p2] by simp
      moreover have "dec_map it (length kvs) i (p2, k + 1 + cnodes v) = wire ''TRUNCATED''"
        using prems sum 2 by (intro Cons.IH) auto
      ultimately show ?thesis using key \<open>m < i\<close> by (simp add: kv)
    qed
  qed
qed simp

end

lemma argument_cut:
  assumes "ext_of n = p @ b # us"
  shows "argument (ai_of n) p = wire ''TRUNCATED''"
proof -
  have "length (ext_of n) = Suc (length p + length us)" by (simp add: assms)
  then show ?thesis by (auto simp: argument_def ai_of_def ext_of_def take_bytes_def split: if_splits)
qed

lemma dec_item_cut_empty: "k + 1 \<le> mn \<Longrightarrow> dec_item mb mn (Suc r) ([], k) = wire ''TRUNCATED''"
  by (simp add: take_bytes_def)

lemma dec_item_cut_head:
  assumes "k + 1 \<le> mn" "m = 0 \<or> m = 2 \<or> m = 3 \<or> m = 4 \<or> m = 5" "nhead m n = p @ b # us"
  shows "dec_item mb mn (Suc r) (p, k) = wire ''TRUNCATED''"
proof (cases p)
  case Nil
  then show ?thesis using assms(1) dec_item_cut_empty by blast
next
  case (Cons x p')
  then have x: "x = byte (32 * m + ai_of n)" and "ext_of n = p' @ b # us"
    using assms(3) by (simp_all add: nhead_conv)
  moreover have "m < 8" "ai_of n < 32" using assms(2) less_trans [OF ai_of_lt] by auto
  ultimately show ?thesis
    using assms(1,2) argument_cut [of n p' b us] initial_split [of m "ai_of n"]
    by (auto simp: Cons Let_def)
qed

lemma dec_item_cut:
  assumes it: "cut_decoder mb mn r (dec_item mb mn r)"
    and mb: "mb \<le> MAX_BYTES" and k: "0 \<le> k" and len: "int (length (cbor v)) \<le> mb"
    and v: "canonical v" "cheight v \<le> Suc r" "k + cnodes v \<le> mn" and cut: "cbor v = p @ b # q"
  shows "dec_item mb mn (Suc r) (p, k) = wire ''TRUNCATED''"
proof -
  have k1: "k + 1 \<le> mn" using v(3) cnodes_pos [of v] by simp
  note u64 = bytes_le_U64 [OF _ mb]
  have single: ?thesis if "cbor v = [x]" for x
    using that cut k1 dec_item_cut_empty by (cases p) auto
  have headed: ?thesis if "cbor v = nhead m n @ body" "m = 0 \<or> m = 2 \<or> m = 3 \<or> m = 4 \<or> m = 5" "int n \<le> U64"
    and rest: "\<And>p'. body = p' @ b # q \<Longrightarrow> dec_item mb mn (Suc r) (nhead m n @ p', k) = wire ''TRUNCATED''" for m n body
  proof -
    have "nhead m n @ body = p @ b # q" using that(1) cut by simp
    then show ?thesis
      by (cases rule: cut_append) (use dec_item_cut_head [OF k1 that(2)] rest in auto)
  qed
  note head = dec_item_head [OF k1, where mb = mb and r = r]
  show ?thesis
  proof (cases v)
    case (PInt i)
    then show ?thesis using v by (intro headed [of 0 "nat i" "[]"]) auto
  next
    case (PBytes bs)
    then have "int (length bs) \<le> mb" using len by simp
    then show ?thesis using PBytes u64 [of "length bs"]
      by (intro headed [of 2 "length bs" bs]) (auto simp: head take_bytes_def simp del: dec_item.simps)
  next
    case (PStr s)
    with v obtain raw where raw: "utf8_encode s = Some raw" by auto
    then have "int (length raw) \<le> mb" using len PStr by simp
    then show ?thesis using PStr raw u64 [of "length raw"]
      by (intro headed [of 3 "length raw" raw]) (auto simp: head take_bytes_def simp del: dec_item.simps)
  next
    case (PList vs)
    have c: "\<forall>v \<in> set vs. canonical v \<and> cheight v \<le> r"
      using v PList by (auto simp: list_all_iff simp del: cheight.simps)
    have n: "int (length vs) \<le> mb" "k + 1 + int (length vs) \<le> mn"
      using concat_canonical_list_ge [of vs] c len v(3) cnodes_list_ge [of vs] PList by auto
    have "dec_list (dec_item mb mn r) (length vs) (p', k + 1) = wire ''TRUNCATED''"
      if "concat (map cbor vs) = p' @ b # q" for p'
      using c len v(3) k PList that by (intro cut_decoder.elements_cut [OF it mb]) auto
    then show ?thesis using PList n u64 [of "length vs"]
      by (intro headed [of 4 "length vs" "concat (map cbor vs)"]) (auto simp: head simp del: dec_item.simps)
  next
    case (PDict kvs)
    let ?c = "concat (map (\<lambda>kv. cbor (fst kv) @ cbor (snd kv)) kvs)"
    have c: "\<forall>kv \<in> set kvs. map_key (fst kv) \<and> canonical (snd kv) \<and> cheight (fst kv) \<le> r \<and> cheight (snd kv) \<le> r"
      using v PDict by (auto simp: list_all_iff simp del: cheight.simps)
    have n: "int (length kvs) \<le> mb" "k + 1 + 2 * int (length kvs) \<le> mn"
      using concat_canonical_dict_ge [of kvs] c len v(3) cnodes_dict_ge [of kvs] PDict by auto
    have "sorted_wrt (<) (- 1 # map (int_of \<circ> fst) kvs)"
      using v(1) PDict by (auto simp: list_all_iff map_key_conv)
    then have "dec_map (dec_item mb mn r) (length kvs) (-1) (p', k + 1) = wire ''TRUNCATED''"
      if "?c = p' @ b # q" for p'
      using c len v(3) k PDict that by (intro cut_decoder.entries_cut [OF it mb]) auto
    then show ?thesis using PDict n u64 [of "length kvs"]
      by (intro headed [of 5 "length kvs" ?c]) (auto simp: head simp del: dec_item.simps)
  qed (use single v in auto)
qed

lemma dec_cut_decoder: "cut_decoder mb mn r (dec_item mb mn r)"
proof (induction r)
  case 0
  show ?case
  proof
    show "dec_item mb mn 0 (p, k) = wire ''TRUNCATED''" if "cheight v \<le> 0" for p k v
      using that cheight_pos [of v] by simp
  qed
next
  case (Suc r)
  show ?case by unfold_locales (rule dec_item_cut [OF Suc])
qed

interpretation cut: cut_decoder mb mn r "dec_item mb mn r" for mb mn r
  by (rule dec_cut_decoder)

lemma decode_cut:
  assumes "decode (p @ b # q) mb mn = Inr v"
  shows "decode p mb mn = wire ''TRUNCATED''"
proof -
  have ok: "budget_ok mb mn" and v: "canonical v" "cheight v \<le> Suc MAX_DEPTH" "cnodes v \<le> mn"
      "int (length (cbor v)) \<le> mb" "cbor v = p @ b # q"
    using assms by (auto simp: decode_iff)
  have "int (length p) \<le> mb" using v(4,5) by simp
  moreover have "mb \<le> MAX_BYTES" using ok by (simp add: budget_ok_def)
  then have "dec_item mb mn (Suc MAX_DEPTH) (p, 0) = wire ''TRUNCATED''"
    using v by (intro cut.item_cut) simp_all
  ultimately show ?thesis
    using ok by (simp add: decode_def del: dec_item.simps)
qed

section \<open>Errors\<close>

definition wire_error :: "exn \<Rightarrow> bool" where
  "wire_error e = (case e of WireError _ _ \<Rightarrow> True | _ \<Rightarrow> False)"

lemma wire_error_WireError [simp, raises_intros]: "wire_error (WireError c p)"
  by (simp add: wire_error_def)

lemma wire_error_conv: "wire_error e \<longleftrightarrow> (\<exists>c p. e = WireError c p)"
  by (cases e) (simp_all add: wire_error_def)

lemma head_raises [raises_intros]: "raises wire_error (head m v)"
  by (auto simp: head_def intro!: raises_intros)

lemma put_raises [raises_intros]: "raises wire_error (put mb b st)"
  by (auto simp: put_def intro!: raises_intros)

lemma put_head_raises [raises_intros]: "raises wire_error (put_head mb m n st)"
  by (auto simp: put_head_def intro!: raises_intros)

lemma enc_item_raises: "raises wire_error (enc_item mb mn r v st)"
proof (induction r arbitrary: v st)
  case (Suc r)
  then show ?case
    by (cases v) (auto simp: Let_def intro!: raises_intros)
qed (simp add: raises_intros)

lemma encode_raises [raises_intros]: "budget_ok mb mn \<Longrightarrow> raises wire_error (encode v mb mn)"
  by (auto simp: encode_def simp del: enc_item.simps intro!: raises_intros enc_item_raises)

text \<open>The codes the decoder raises, in the order of \<^verbatim>\<open>decode\<close>. A subscript out of range would be an
  \<open>IndexError\<close>, which is not among them.\<close>

definition DECODE_CODES :: "string list" where
  "DECODE_CODES = [''LIMIT'', ''TRUNCATED'', ''INDEFINITE'', ''RESERVED'', ''NON_MINIMAL'', ''DEPTH'',
     ''RESOURCE_LIMIT'', ''FORBIDDEN_TYPE'', ''UTF8'', ''MAP_KEY'', ''MAP_ORDER'', ''TRAILING'']"

definition decoder_error :: "exn \<Rightarrow> bool" where
  "decoder_error e \<longleftrightarrow> (\<exists>c \<in> set DECODE_CODES. e = WireError c [])"

lemma decoder_error_code [simp]: "decoder_error (WireError c []) \<longleftrightarrow> c \<in> set DECODE_CODES"
  by (auto simp: decoder_error_def)

lemma decoder_error_wire: "decoder_error e \<Longrightarrow> wire_error e"
  by (auto simp: decoder_error_def)

lemma subscript_raises [raises_intros]: "i < length xs \<Longrightarrow> raises P (subscript xs i)"
  by (simp add: raises_intros)

lemma take_bytes_length: "take_bytes n rest = Inr (b, rest') \<Longrightarrow> length b = n"
  by (auto simp: take_bytes_def split: if_splits)

lemma take_bytes_raises [raises_intros]: "raises decoder_error (take_bytes n rest)"
  by (auto simp: take_bytes_def DECODE_CODES_def intro!: raises_intros)

lemma argument_raises [raises_intros]: "raises decoder_error (argument ai rest)"
  by (auto simp: argument_def DECODE_CODES_def intro!: raises_intros)

lemma dec_list_raises [raises_intros]:
  "(\<And>st. raises decoder_error (it st)) \<Longrightarrow> raises decoder_error (dec_list it n st)"
  by (induction n arbitrary: st) (auto intro!: raises_intros)

lemma raises_pyval:
  "(\<And>k. v = PInt k \<Longrightarrow> raises P (f k)) \<Longrightarrow> raises P m \<Longrightarrow> raises P (case v of PInt k \<Rightarrow> f k | _ \<Rightarrow> m)"
  by (cases v) auto

lemma dec_map_raises [raises_intros]:
  "(\<And>st. raises decoder_error (it st)) \<Longrightarrow> raises decoder_error (dec_map it n p st)"
  by (induction n arbitrary: st p) (auto simp: DECODE_CODES_def intro!: raises_intros raises_pyval)

lemma dec_item_raises: "raises decoder_error (dec_item mb mn r st)"
proof (induction r arbitrary: st)
  case (Suc r)
  then show ?case by (auto simp: DECODE_CODES_def intro!: raises_intros dest!: take_bytes_length)
qed (simp add: raises_intros DECODE_CODES_def)

lemma decode_raises_code: "budget_ok mb mn \<Longrightarrow> raises decoder_error (decode data mb mn)"
  by (auto simp: decode_def DECODE_CODES_def simp del: dec_item.simps intro!: raises_intros dec_item_raises)

lemma decode_raises [raises_intros]: "budget_ok mb mn \<Longrightarrow> raises wire_error (decode data mb mn)"
  using decode_raises_code [of mb mn data] by (simp add: raises_def decoder_error_wire)

text \<open>C7. With valid budgets the decoder raises nothing but a \<open>WireError\<close> with one of its twelve codes
  (no subscript is out of range, no integer or tuple access fails), and input that stops early is
  reported as what it is: every strict prefix of accepted bytes is refused as TRUNCATED.\<close>

theorem decode_error:
  assumes "budget_ok max_bytes max_nodes"
  shows "(decode data max_bytes max_nodes = Inl e \<longrightarrow> (\<exists>c \<in> set DECODE_CODES. e = WireError c []))
    \<and> (decode (data @ b # more) max_bytes max_nodes = Inr v
         \<longrightarrow> decode data max_bytes max_nodes = wire ''TRUNCATED'')"
  using raisesD [OF decode_raises_code [OF assms]] decode_cut by (auto simp: decoder_error_def)

theorem decode_error_witness:
  "decode [byte 0x82, byte 1] 16 4 = wire ''TRUNCATED''
   \<and> (\<exists>e. decode [byte 0x18, byte 3] 16 4 = Inl e \<and> (\<exists>c \<in> set DECODE_CODES. e = WireError c []))"
proof -
  have ok: "budget_ok 16 4" by (simp add: budget_ok_def MAX_BYTES_def)
  have "decode ([byte 0x82, byte 1] @ byte 2 # []) 16 4 = Inr (PList [PInt 1, PInt 2])"
    by (simp add: decode_iff budget_ok_def MAX_BYTES_def MAX_DEPTH_def U64_def nhead_def byte_def)
  moreover have "decode [byte 0x18, byte 3] 16 4 \<noteq> Inr v" for v
    by (simp add: decode_def budget_ok_def MAX_BYTES_def argument_def take_bytes_def
        Let_def from_bytes_def byte_def)
  then obtain e where "decode [byte 0x18, byte 3] 16 4 = Inl e" by (metis sum.exhaust)
  ultimately show ?thesis using decode_error [OF ok] by blast
qed

end
