(* ===== verification/Schema.thy ===== *)
theory Schema
  imports CodecRoundtrip
begin

text \<open>
  The CDDL interpreter of \<^verbatim>\<open>par_wire/schema.py\<close>: the node types that \<^verbatim>\<open>parse_cddl\<close>
  builds, \<^verbatim>\<open>Schema.validate\<close>/\<^verbatim>\<open>_validate\<close> with their error paths, and a
  declarative conformance relation.

  \<open>validate_node\<close> counts the levels that are left (the code refuses \<^verbatim>\<open>depth > 128\<close>).
  The executable check \<open>fits\<close> says that a node can be validated within a number of levels:
  every reference resolves, and no \<^verbatim>\<open>app-id\<close> (the one rule with a check of its own)
  is below a union. On such a node the interpreter decides conformance, and raises nothing
  but \<^verbatim>\<open>SCHEMA\<close> and \<^verbatim>\<open>IDENTIFIER\<close>.
\<close>

section \<open>Model\<close>

datatype node =
    NRef string
  | NLiteral int
  | NRange int int
  | NSize node int int
  | NUnion "node list"
  | NArray int int node
  | NMap "(int \<times> bool \<times> node) list"

type_synonym rules = "(string \<times> node) list"

definition str_int :: "int \<Rightarrow> string" where
  "str_int k = (if k < 0 then ''-'' @ str_nat (nat (- k)) else str_nat (nat k))"

definition primitive :: "string \<Rightarrow> bool" where
  "primitive name \<longleftrightarrow> name \<in> {''uint'', ''bstr'', ''tstr'', ''bool'', ''null''}"

definition prim_ok :: "string \<Rightarrow> pyval \<Rightarrow> bool" where
  "prim_ok name v = (case v of
     PInt i \<Rightarrow> name = ''uint'' \<and> 0 \<le> i \<and> i \<le> U64
   | PBytes b \<Rightarrow> name = ''bstr''
   | PStr s \<Rightarrow> name = ''tstr''
   | PBool b \<Rightarrow> name = ''bool''
   | PNone \<Rightarrow> name = ''null''
   | _ \<Rightarrow> False)"

definition has_nul :: "pyval \<Rightarrow> bool" where
  "has_nul v = (case v of PStr s \<Rightarrow> 0 \<in> set s | _ \<Rightarrow> False)"

text \<open>\<^verbatim>\<open>len\<close> as the size check takes it: UTF-8 bytes of a string, \<open>None\<close> where Python raises.\<close>

definition py_size :: "pyval \<Rightarrow> int option" where
  "py_size v = (case v of
     PStr s \<Rightarrow> map_option (\<lambda>b. int (length b)) (utf8_encode s)
   | PBytes b \<Rightarrow> Some (int (length b))
   | PList xs \<Rightarrow> Some (int (length xs))
   | PDict kvs \<Rightarrow> Some (int (length kvs))
   | _ \<Rightarrow> None)"

text \<open>The dictionary \<^verbatim>\<open>fields\<close> of a map node: a later entry for a key wins.\<close>

definition field_of :: "(int \<times> bool \<times> node) list \<Rightarrow> int \<Rightarrow> (bool \<times> node) option" where
  "field_of fs k = map_of (rev fs) k"

definition key_field :: "(int \<times> bool \<times> node) list \<Rightarrow> pyval \<Rightarrow> (bool \<times> node) option" where
  "key_field fs k = (case k of PInt i \<Rightarrow> field_of fs i | _ \<Rightarrow> None)"

definition map_shape :: "(int \<times> bool \<times> node) list \<Rightarrow> (pyval \<times> pyval) list \<Rightarrow> bool" where
  "map_shape fs kvs \<longleftrightarrow> list_all (\<lambda>kv. is_int (fst kv)) kvs
     \<and> list_all (\<lambda>kv. key_field fs (fst kv) \<noteq> None) kvs
     \<and> list_all (\<lambda>f. (case field_of fs (fst f) of
          Some (opt, _) \<Rightarrow> opt \<or> dict_get kvs (fst f) \<noteq> None
        | None \<Rightarrow> True)) fs"

abbreviation schema_error :: "string \<Rightarrow> 'a res" where
  "schema_error path \<equiv> Inl (WireError ''SCHEMA'' path)"

text \<open>The loop of a union: the first child that validates ends it, an error other than
  \<^verbatim>\<open>SCHEMA\<close> leaves it.\<close>

primrec try_union :: "(node \<Rightarrow> unit res) \<Rightarrow> string \<Rightarrow> node list \<Rightarrow> unit res" where
  "try_union f path [] = schema_error path"
| "try_union f path (c # cs) = (case f c of
     Inr _ \<Rightarrow> Inr ()
   | Inl (WireError code p) \<Rightarrow>
       if code \<noteq> ''SCHEMA'' then Inl (WireError code p) else try_union f path cs
   | Inl e \<Rightarrow> Inl e)"

primrec validate_node :: "rules \<Rightarrow> nat \<Rightarrow> node \<Rightarrow> pyval \<Rightarrow> string \<Rightarrow> unit res" where
  "validate_node rules 0 node v path = wire ''RESOURCE_LIMIT''"
| "validate_node rules (Suc r) node v path = (case node of
     NRef name \<Rightarrow>
       if primitive name then need (prim_ok name v) (WireError ''SCHEMA'' path)
       else (case map_of rules name of
         None \<Rightarrow> Inl (WireError ''CDDL_REFERENCE'' name)
       | Some node' \<Rightarrow>
           if name = ''app-id'' \<and> has_nul v then Inl (WireError ''IDENTIFIER'' path)
           else validate_node rules r node' v path)
   | NLiteral n \<Rightarrow> need (v = PInt n) (WireError ''SCHEMA'' path)
   | NRange lo hi \<Rightarrow>
       need (case v of PInt i \<Rightarrow> lo \<le> i \<and> i \<le> hi | _ \<Rightarrow> False) (WireError ''SCHEMA'' path)
   | NSize node' lo hi \<Rightarrow>
       bindE (validate_node rules r node' v path) (\<lambda>_.
         case py_size v of
           None \<Rightarrow> schema_error path
         | Some n \<Rightarrow> need (lo \<le> n \<and> n \<le> hi) (WireError ''SCHEMA'' path))
   | NUnion children \<Rightarrow> try_union (\<lambda>c. validate_node rules r c v path) path children
   | NArray lo hi child \<Rightarrow> (case v of
       PList xs \<Rightarrow>
         bindE (need (lo \<le> int (length xs) \<and> int (length xs) \<le> hi) (WireError ''SCHEMA'' path)) (\<lambda>_.
           allE (\<lambda>ix. validate_node rules r child (snd ix) (path @ ''['' @ str_nat (fst ix) @ '']''))
             (List.enumerate 0 xs))
     | _ \<Rightarrow> schema_error path)
   | NMap fields \<Rightarrow> (case v of
       PDict kvs \<Rightarrow>
         bindE (need (map_shape fields kvs) (WireError ''SCHEMA'' path)) (\<lambda>_.
           allE (\<lambda>kv. case key_field fields (fst kv) of
               None \<Rightarrow> Inl KeyError
             | Some (_, child) \<Rightarrow>
                 validate_node rules r child (snd kv) (path @ ''.'' @ str_int (int_of (fst kv))))
             kvs)
     | _ \<Rightarrow> schema_error path))"

definition schema_validate :: "rules \<Rightarrow> string \<Rightarrow> pyval \<Rightarrow> unit res" where
  "schema_validate rules rule v = (case map_of rules rule of
     None \<Rightarrow> Inl (WireError ''CDDL_REFERENCE'' rule)
   | Some node \<Rightarrow> validate_node rules 129 node v rule)"

section \<open>Conformance\<close>

inductive conforms :: "rules \<Rightarrow> node \<Rightarrow> pyval \<Rightarrow> bool" for rules where
  prim: "primitive name \<Longrightarrow> prim_ok name v \<Longrightarrow> conforms rules (NRef name) v"
| ref: "\<not> primitive name \<Longrightarrow> map_of rules name = Some node \<Longrightarrow> conforms rules node v
    \<Longrightarrow> \<not> (name = ''app-id'' \<and> has_nul v) \<Longrightarrow> conforms rules (NRef name) v"
| literal: "conforms rules (NLiteral n) (PInt n)"
| range: "lo \<le> i \<Longrightarrow> i \<le> hi \<Longrightarrow> conforms rules (NRange lo hi) (PInt i)"
| size: "conforms rules node v \<Longrightarrow> py_size v = Some n \<Longrightarrow> lo \<le> n \<Longrightarrow> n \<le> hi
    \<Longrightarrow> conforms rules (NSize node lo hi) v"
| union: "child \<in> set children \<Longrightarrow> conforms rules child v \<Longrightarrow> conforms rules (NUnion children) v"
| array: "lo \<le> int (length xs) \<Longrightarrow> int (length xs) \<le> hi \<Longrightarrow> (\<And>x. x \<in> set xs \<Longrightarrow> conforms rules child x)
    \<Longrightarrow> conforms rules (NArray lo hi child) (PList xs)"
| map: "map_shape fields kvs
    \<Longrightarrow> (\<And>kv opt child. kv \<in> set kvs \<Longrightarrow> key_field fields (fst kv) = Some (opt, child)
          \<Longrightarrow> conforms rules child (snd kv))
    \<Longrightarrow> conforms rules (NMap fields) (PDict kvs)"

inductive_simps conforms_ref: "conforms rules (NRef name) v"
inductive_simps conforms_literal: "conforms rules (NLiteral n) v"
inductive_simps conforms_range: "conforms rules (NRange lo hi) v"
inductive_simps conforms_size: "conforms rules (NSize node lo hi) v"
inductive_simps conforms_union: "conforms rules (NUnion children) v"
inductive_simps conforms_array: "conforms rules (NArray lo hi child) v"
inductive_simps conforms_map: "conforms rules (NMap fields) v"

lemmas conforms_simps = conforms_ref conforms_literal conforms_range conforms_size conforms_union
  conforms_array conforms_map

primrec fits :: "rules \<Rightarrow> nat \<Rightarrow> bool \<Rightarrow> node \<Rightarrow> bool" where
  "fits rules 0 inside node = False"
| "fits rules (Suc r) inside node = (case node of
     NRef name \<Rightarrow> primitive name \<or> (case map_of rules name of
         None \<Rightarrow> False
       | Some node' \<Rightarrow> \<not> (name = ''app-id'' \<and> inside) \<and> fits rules r inside node')
   | NLiteral n \<Rightarrow> True
   | NRange lo hi \<Rightarrow> True
   | NSize node' lo hi \<Rightarrow> fits rules r inside node'
   | NUnion children \<Rightarrow> list_all (fits rules r True) children
   | NArray lo hi child \<Rightarrow> fits rules r inside child
   | NMap fields \<Rightarrow> list_all (\<lambda>f. fits rules r inside (snd (snd f))) fields)"

lemma key_field_in: "key_field fs k = Some (opt, child) \<Longrightarrow> \<exists>i. (i, opt, child) \<in> set fs"
  by (force simp: key_field_def field_of_def split: pyval.splits dest: map_of_SomeD)

lemma key_field_total:
  "map_shape fs kvs \<Longrightarrow> kv \<in> set kvs \<Longrightarrow> \<exists>opt child. key_field fs (fst kv) = Some (opt, child)"
  by (simp add: map_shape_def list_all_iff)

lemma enumerate_mem: "(i, x) \<in> set (List.enumerate n xs) \<Longrightarrow> x \<in> set xs"
  by (induction xs arbitrary: n) auto

lemma mem_enumerate: "x \<in> set xs \<Longrightarrow> \<exists>i. (i, x) \<in> set (List.enumerate n xs)"
proof (induction xs arbitrary: n)
  case (Cons y ys)
  then show ?case using Cons.IH [of "Suc n"] by auto
qed simp

lemma try_union_sound: "try_union f path cs = Inr u \<Longrightarrow> \<exists>c \<in> set cs. f c = Inr ()"
  by (induction cs) (auto split: sum.splits exn.splits if_splits)

text \<open>The errors a conforming schema can raise; below a union only \<^verbatim>\<open>SCHEMA\<close>.\<close>

definition shape_error :: "bool \<Rightarrow> exn \<Rightarrow> bool" where
  "shape_error inside e \<longleftrightarrow> (\<exists>p. e = WireError ''SCHEMA'' p \<or> (\<not> inside \<and> e = WireError ''IDENTIFIER'' p))"

lemma shape_error_SCHEMA [simp]: "shape_error b (WireError ''SCHEMA'' p)"
  by (simp add: shape_error_def)

lemma shape_error_IDENTIFIER [simp]: "shape_error False (WireError ''IDENTIFIER'' p)"
  by (simp add: shape_error_def)

lemma try_union_raises:
  "(\<And>c. c \<in> set cs \<Longrightarrow> raises (shape_error True) (f c)) \<Longrightarrow> raises (shape_error b) (try_union f path cs)"
  by (induction cs) (auto simp: raises_def shape_error_def split: sum.splits exn.splits)

lemma try_union_complete:
  "(\<And>c. c \<in> set cs \<Longrightarrow> raises (shape_error True) (f c)) \<Longrightarrow> c \<in> set cs \<Longrightarrow> f c = Inr ()
    \<Longrightarrow> try_union f path cs = Inr ()"
  by (induction cs) (auto simp: raises_def shape_error_def split: sum.splits exn.splits)

lemma validate_sound: "validate_node rules r node v path = Inr u \<Longrightarrow> conforms rules node v"
proof (induction r arbitrary: node v path)
  case 0
  then show ?case by simp
next
  case (Suc r)
  show ?case
  proof (cases node)
    case (NUnion cs)
    then show ?thesis using Suc by (auto simp: conforms_simps dest!: try_union_sound)
  next
    case (NArray lo hi child)
    then obtain xs where v: "v = PList xs" using Suc.prems by (cases v) auto
    have "conforms rules child x" if x: "x \<in> set xs" for x
    proof -
      obtain i where "(i, x) \<in> set (List.enumerate 0 xs)" using mem_enumerate [OF x] by blast
      then show ?thesis using Suc.prems NArray v by (auto simp: res_simps intro!: Suc.IH)
    qed
    then show ?thesis using Suc.prems NArray v by (auto simp: conforms_simps res_simps)
  next
    case (NMap fs)
    then obtain kvs where v: "v = PDict kvs" using Suc.prems by (cases v) auto
    have "conforms rules child (snd kv)"
      if "kv \<in> set kvs" "key_field fs (fst kv) = Some (opt, child)" for kv opt child
      using Suc.prems NMap v that by (auto simp: res_simps intro!: Suc.IH)
    then show ?thesis using Suc.prems NMap v by (auto simp: conforms_simps res_simps)
  qed (use Suc in \<open>auto simp: conforms_simps res_simps split: pyval.splits option.splits if_splits\<close>)
qed

lemma validate_raises:
  "fits rules r b node \<Longrightarrow> raises (shape_error b) (validate_node rules r node v path)"
proof (induction r arbitrary: node b v path)
  case 0
  then show ?case by simp
next
  case (Suc r)
  note IH = Suc.IH
  show ?case
  proof (cases node)
    case (NUnion cs)
    then show ?thesis using Suc.prems
      by (auto simp: list_all_iff intro!: try_union_raises IH)
  next
    case (NMap fs)
    have "raises (shape_error b) (validate_node rules r child x p)"
      if "key_field fs k = Some (opt, child)" for k opt child x p
      using NMap key_field_in [OF that] Suc.prems by (auto simp: list_all_iff intro!: IH)
    then have "raises (shape_error b) (case key_field fs (fst kv) of None \<Rightarrow> Inl KeyError
      | Some (_, child) \<Rightarrow> validate_node rules r child (snd kv) (path @ ''.'' @ str_int (int_of (fst kv))))"
      if "map_shape fs kvs" "kv \<in> set kvs" for kv kvs
      using key_field_total [OF that] by auto
    then have "raises (shape_error b) (validate_node rules (Suc r) node (PDict kvs) path)" for kvs
      unfolding NMap validate_node.simps node.case pyval.case
      by (intro raises_bindE raises_need raises_allE) auto
    then show ?thesis using NMap
      by (cases v) (auto intro: raises_intros)
  qed (use Suc.prems in \<open>auto intro!: raises_intros IH split: pyval.split option.splits\<close>)
qed

lemma validate_complete:
  "conforms rules node v \<Longrightarrow> fits rules r b node \<Longrightarrow> validate_node rules r node v path = Inr ()"
proof (induction arbitrary: r b path rule: conforms.induct)
  case (union child children v)
  then obtain r' where r: "r = Suc r'" by (cases r) auto
  show ?case unfolding r validate_node.simps node.case
    by (rule try_union_complete [of _ _ child])
      (use union r in \<open>auto simp: list_all_iff intro!: validate_raises\<close>)
next
  case (array lo xs hi child)
  then obtain r' where r: "r = Suc r'" by (cases r) auto
  show ?case using array r by (auto simp: res_simps dest!: enumerate_mem intro!: array.IH)
next
  case (map fields kvs)
  then obtain r' where r: "r = Suc r'" by (cases r) auto
  have "\<exists>opt child. key_field fields (fst kv) = Some (opt, child)
      \<and> fits rules r' b child \<and> conforms rules child (snd kv)" if mem: "kv \<in> set kvs" for kv
  proof -
    obtain opt child where kf: "key_field fields (fst kv) = Some (opt, child)"
      using key_field_total [OF map.hyps(1) mem] by blast
    moreover have "fits rules r' b child"
      using key_field_in [OF kf] map.prems r by (auto simp: list_all_iff)
    ultimately show ?thesis using map.hyps(2) mem by blast
  qed
  then show ?case using map r by (fastforce simp: res_simps)
qed (case_tac r; auto split: option.splits)+

text \<open>Whatever the schema, the interpreter raises nothing but a \<^verbatim>\<open>WireError\<close>.\<close>

lemma try_union_wire [raises_intros]:
  "(\<And>c. c \<in> set cs \<Longrightarrow> raises wire_error (f c)) \<Longrightarrow> raises wire_error (try_union f path cs)"
proof (induction cs)
  case (Cons c cs)
  then have "raises wire_error (f c)" "raises wire_error (try_union f path cs)" by simp_all
  then show ?case by (cases "f c") (auto simp: raises_def wire_error_def split: exn.splits)
qed (simp add: raises_intros)

lemma map_children_wire:
  assumes "\<And>child x p. raises wire_error (f child x p)" and "map_shape fs kvs" and "kv \<in> set kvs"
  shows "raises wire_error (case key_field fs (fst kv) of None \<Rightarrow> Inl KeyError
    | Some (_, child) \<Rightarrow> f child (snd kv) (g kv))"
  using key_field_total [OF assms(2,3)] assms(1) by auto

lemma validate_node_wire [raises_intros]: "raises wire_error (validate_node rules r node v path)"
proof (induction r arbitrary: node v path)
  case 0
  then show ?case by (simp add: raises_intros)
next
  case (Suc r)
  show ?case
  proof (cases node)
    case (NMap fs)
    have "raises wire_error (validate_node rules (Suc r) node (PDict kvs) path)" for kvs
      unfolding NMap validate_node.simps node.case pyval.case
      by (intro raises_bindE raises_need raises_allE map_children_wire Suc.IH) simp_all
    then show ?thesis using NMap by (cases v) (auto intro: raises_intros)
  qed (auto intro!: raises_intros Suc.IH split: pyval.split option.splits)
qed

lemma schema_validate_wire [raises_intros]: "raises wire_error (schema_validate rules rule v)"
  unfolding schema_validate_def by (auto intro!: raises_intros split: option.splits)

end
