(* ===== verification/Frames.thy ===== *)
theory Frames
  imports Schema
begin

text \<open>
  The protocol schema as data and \<^verbatim>\<open>validate_frame\<close> of \<^verbatim>\<open>par_wire/schema.py\<close>.

  \<open>default_rules\<close> is the rule table that \<^verbatim>\<open>default_schema()\<close> holds, one entry for each rule of
  \<^verbatim>\<open>baseline/spec-00.02.00/protocol/par-v1.cddl\<close> in file order; \<open>registry_messages\<close> is the
  \<^verbatim>\<open>messages\<close> column of \<^verbatim>\<open>registry.json\<close>: message code and body type. The theory shows that
  the whole table validates within its depth limit, so that the interpreter of
  \<open>Schema\<close> decides conformance for every message, and that \<open>validate_frame\<close> never
  fails on a missing field or a wrong type: all it raises is a \<^verbatim>\<open>WireError\<close>.
\<close>

section \<open>The shipped tables\<close>

definition default_rules :: rules where
  "default_rules = [
    (''id32'', NSize (NRef ''bstr'') 32 32),
    (''id16'', NSize (NRef ''bstr'') 16 16),
    (''pk32'', NSize (NRef ''bstr'') 32 32),
    (''sig64'', NSize (NRef ''bstr'') 64 64),
    (''nonce24'', NSize (NRef ''bstr'') 24 24),
    (''nonce32'', NSize (NRef ''bstr'') 32 32),
    (''u64'', NRange 0 18446744073709551615),
    (''app-id'', NSize (NRef ''tstr'') 1 128),
    (''short-text'', NSize (NRef ''tstr'') 0 4096),
    (''byte-page'', NSize (NRef ''bstr'') 1 131072),
    (''object-kind'', NUnion [NLiteral 1, NLiteral 2, NLiteral 3, NLiteral 4, NLiteral 5]),
    (''role'', NUnion [NLiteral 1, NLiteral 2, NLiteral 3]),
    (''hash-list'', NArray 0 256 (NRef ''id32'')),
    (''deps'', NArray 0 128 (NRef ''id32'')),
    (''hello-frame'', NMap [(0, False, NLiteral 1), (1, False, NLiteral 1), (2, False, NRef ''id16''),
      (3, False, NRef ''null''), (4, False, NRef ''hello-body''), (5, False, NLiteral 0)]),
    (''auth-frame'', NMap [(0, False, NLiteral 1), (1, False, NLiteral 2), (2, False, NRef ''id16''),
      (3, False, NRef ''null''), (4, False, NRef ''auth-body''), (5, False, NLiteral 0)]),
    (''space-open-frame'', NMap [(0, False, NLiteral 1), (1, False, NLiteral 10), (2, False, NRef
      ''id16''), (3, False, NRef ''id32''), (4, False, NRef ''space-open-body''), (5, False, NLiteral
      0)]),
    (''space-accept-frame'', NMap [(0, False, NLiteral 1), (1, False, NLiteral 11), (2, False, NRef
      ''id16''), (3, False, NRef ''id32''), (4, False, NRef ''space-accept-body''), (5, False, NLiteral
      0)]),
    (''control-get-frame'', NMap [(0, False, NLiteral 1), (1, False, NLiteral 12), (2, False, NRef
      ''id16''), (3, False, NRef ''id32''), (4, False, NRef ''control-get-body''), (5, False, NLiteral
      0)]),
    (''control-page-frame'', NMap [(0, False, NLiteral 1), (1, False, NLiteral 13), (2, False, NRef
      ''id16''), (3, False, NRef ''id32''), (4, False, NRef ''control-page-body''), (5, False, NLiteral
      0)]),
    (''have-frame'', NMap [(0, False, NLiteral 1), (1, False, NLiteral 20), (2, False, NRef ''id16''),
      (3, False, NRef ''id32''), (4, False, NRef ''have-body''), (5, False, NLiteral 0)]),
    (''need-frame'', NMap [(0, False, NLiteral 1), (1, False, NLiteral 21), (2, False, NRef ''id16''),
      (3, False, NRef ''id32''), (4, False, NRef ''need-body''), (5, False, NLiteral 0)]),
    (''change-frame'', NMap [(0, False, NLiteral 1), (1, False, NLiteral 22), (2, False, NRef ''id16''),
      (3, False, NRef ''id32''), (4, False, NRef ''change-body''), (5, False, NLiteral 0)]),
    (''apply-result-frame'', NMap [(0, False, NLiteral 1), (1, False, NLiteral 23), (2, False, NRef
      ''id16''), (3, False, NRef ''id32''), (4, False, NRef ''apply-result-body''), (5, False, NLiteral
      0)]),
    (''manifest-get-frame'', NMap [(0, False, NLiteral 1), (1, False, NLiteral 30), (2, False, NRef
      ''id16''), (3, False, NRef ''id32''), (4, False, NRef ''manifest-get-body''), (5, False, NLiteral
      0)]),
    (''manifest-data-frame'', NMap [(0, False, NLiteral 1), (1, False, NLiteral 31), (2, False, NRef
      ''id16''), (3, False, NRef ''id32''), (4, False, NRef ''manifest-data-body''), (5, False, NLiteral
      0)]),
    (''block-get-frame'', NMap [(0, False, NLiteral 1), (1, False, NLiteral 32), (2, False, NRef
      ''id16''), (3, False, NRef ''id32''), (4, False, NRef ''block-get-body''), (5, False, NLiteral
      0)]),
    (''block-data-frame'', NMap [(0, False, NLiteral 1), (1, False, NLiteral 33), (2, False, NRef
      ''id16''), (3, False, NRef ''id32''), (4, False, NRef ''block-data-body''), (5, False, NLiteral
      0)]),
    (''retain-offer-frame'', NMap [(0, False, NLiteral 1), (1, False, NLiteral 40), (2, False, NRef
      ''id16''), (3, False, NRef ''id32''), (4, False, NRef ''retain-offer-body''), (5, False, NLiteral
      0)]),
    (''retain-accept-frame'', NMap [(0, False, NLiteral 1), (1, False, NLiteral 41), (2, False, NRef
      ''id16''), (3, False, NRef ''id32''), (4, False, NRef ''retain-accept-body''), (5, False, NLiteral
      0)]),
    (''retain-commit-frame'', NMap [(0, False, NLiteral 1), (1, False, NLiteral 42), (2, False, NRef
      ''id16''), (3, False, NRef ''id32''), (4, False, NRef ''retain-commit-body''), (5, False, NLiteral
      0)]),
    (''retain-receipt-frame'', NMap [(0, False, NLiteral 1), (1, False, NLiteral 43), (2, False, NRef
      ''id16''), (3, False, NRef ''id32''), (4, False, NRef ''retain-receipt-body''), (5, False,
      NLiteral 0)]),
    (''retain-release-frame'', NMap [(0, False, NLiteral 1), (1, False, NLiteral 44), (2, False, NRef
      ''id16''), (3, False, NRef ''id32''), (4, False, NRef ''retain-release-body''), (5, False,
      NLiteral 0)]),
    (''retain-release-result-frame'', NMap [(0, False, NLiteral 1), (1, False, NLiteral 45), (2, False,
      NRef ''id16''), (3, False, NRef ''id32''), (4, False, NRef ''retain-release-result-body''), (5,
      False, NLiteral 0)]),
    (''presence-frame'', NMap [(0, False, NLiteral 1), (1, False, NLiteral 50), (2, False, NRef
      ''id16''), (3, False, NRef ''id32''), (4, False, NRef ''presence-body''), (5, False, NLiteral 0)]),
    (''rpc-call-frame'', NMap [(0, False, NLiteral 1), (1, False, NLiteral 60), (2, False, NRef
      ''id16''), (3, False, NRef ''id32''), (4, False, NRef ''rpc-call-body''), (5, False, NLiteral 0)]),
    (''rpc-result-frame'', NMap [(0, False, NLiteral 1), (1, False, NLiteral 61), (2, False, NRef
      ''id16''), (3, False, NRef ''id32''), (4, False, NRef ''rpc-result-body''), (5, False, NLiteral
      0)]),
    (''rpc-cancel-frame'', NMap [(0, False, NLiteral 1), (1, False, NLiteral 62), (2, False, NRef
      ''id16''), (3, False, NRef ''id32''), (4, False, NRef ''rpc-cancel-body''), (5, False, NLiteral
      0)]),
    (''rpc-cancel-result-frame'', NMap [(0, False, NLiteral 1), (1, False, NLiteral 63), (2, False, NRef
      ''id16''), (3, False, NRef ''id32''), (4, False, NRef ''rpc-cancel-result-body''), (5, False,
      NLiteral 0)]),
    (''error-frame'', NMap [(0, False, NLiteral 1), (1, False, NLiteral 255), (2, False, NRef ''id16''),
      (3, False, NUnion [NRef ''id32'', NRef ''null'']), (4, False, NRef ''error-body''), (5, False,
      NLiteral 0)]),
    (''frame'', NUnion [NRef ''hello-frame'', NRef ''auth-frame'', NRef ''space-open-frame'', NRef
      ''space-accept-frame'', NRef ''control-get-frame'', NRef ''control-page-frame'', NRef
      ''have-frame'', NRef ''need-frame'', NRef ''change-frame'', NRef ''apply-result-frame'', NRef
      ''manifest-get-frame'', NRef ''manifest-data-frame'', NRef ''block-get-frame'', NRef
      ''block-data-frame'', NRef ''retain-offer-frame'', NRef ''retain-accept-frame'', NRef
      ''retain-commit-frame'', NRef ''retain-receipt-frame'', NRef ''retain-release-frame'', NRef
      ''retain-release-result-frame'', NRef ''presence-frame'', NRef ''rpc-call-frame'', NRef
      ''rpc-result-frame'', NRef ''rpc-cancel-frame'', NRef ''rpc-cancel-result-frame'', NRef
      ''error-frame'']),
    (''hello-body'', NMap [(0, False, NRef ''app-id''), (1, False, NSize (NRef ''bstr'') 1 4096), (2,
      False, NRef ''nonce32''), (3, False, NArray 1 8 (NRef ''short-text'')), (4, False, NArray 1 8
      (NRef ''uint'')), (5, False, NRef ''id32''), (6, False, NSize (NRef ''bstr'') 1 128)]),
    (''auth-body'', NMap [(0, False, NRef ''id32''), (1, False, NRef ''sig64'')]),
    (''space-open-body'', NMap [(0, False, NRef ''id32''), (1, False, NSize (NRef ''bstr'') 1 65536),
      (2, False, NUnion [NRef ''id32'', NRef ''null'']), (3, False, NRef ''role''), (4, False, NRef
      ''nonce32''), (5, False, NRef ''sig64''), (6, False, NArray 0 64 (NSize (NRef ''bstr'') 1
      65536))]),
    (''space-accept-body'', NMap [(0, False, NRef ''id32''), (1, False, NRef ''u64''), (2, False, NRef
      ''u64''), (3, False, NRef ''id32''), (4, False, NRef ''sig64'')]),
    (''control-get-body'', NMap [(0, False, NUnion [NRef ''id32'', NRef ''null'']), (1, False, NRange 1
      128), (2, False, NUnion [NRef ''id32'', NRef ''null''])]),
    (''control-page-body'', NMap [(0, False, NRef ''id32''), (1, False, NArray 0 128 (NSize (NRef
      ''bstr'') 1 65536)), (2, False, NUnion [NRef ''id32'', NRef ''null'']), (3, False, NRef
      ''bool'')]),
    (''have-body'', NMap [(0, False, NRef ''id32''), (1, False, NUnion [NRef ''id32'', NRef ''null'']),
      (2, False, NArray 0 256 (NRef ''catalog-item'')), (3, False, NRef ''bool'')]),
    (''catalog-item'', NMap [(0, False, NRef ''id32''), (1, False, NRef ''object-kind''), (2, False,
      NRef ''u64''), (3, False, NRef ''hash-list''), (4, False, NRef ''bool''), (5, False, NRef
      ''id32'')]),
    (''need-body'', NMap [(0, False, NRef ''id32''), (1, False, NRef ''deps'')]),
    (''change-body'', NMap [(0, False, NRef ''id32''), (1, False, NRef ''id32''), (2, False, NSize (NRef
      ''bstr'') 1 786432)]),
    (''apply-result-body'', NMap [(0, False, NRef ''id32''), (1, False, NUnion [NLiteral 0, NLiteral 1,
      NLiteral 2, NLiteral 3, NLiteral 4]), (2, False, NRef ''hash-list''), (3, False, NUnion [NRef
      ''uint'', NRef ''null''])]),
    (''manifest-get-body'', NMap [(0, False, NRef ''id32''), (1, False, NRef ''id32'')]),
    (''manifest-data-body'', NMap [(0, False, NRef ''id32''), (1, False, NSize (NRef ''bstr'') 1
      131072)]),
    (''block-get-body'', NMap [(0, False, NRef ''id32''), (1, False, NRef ''id32''), (2, False, NRef
      ''id32'')]),
    (''block-data-body'', NMap [(0, False, NRef ''id32''), (1, False, NSize (NRef ''bstr'') 1 786432)]),
    (''retain-offer-body'', NMap [(0, False, NRef ''id16''), (1, False, NRef ''id32''), (2, False, NSize
      (NRef ''bstr'') 1 65536), (3, False, NRange 1 604800), (4, False, NRef ''u64''), (5, False, NRef
      ''id32'')]),
    (''retain-accept-body'', NMap [(0, False, NRef ''id16''), (1, False, NRange 1 604800), (2, False,
      NArray 0 128 (NRef ''id32'')), (3, False, NUnion [NRef ''id32'', NRef ''null'']), (4, False, NRef
      ''bool'')]),
    (''retain-commit-body'', NMap [(0, False, NRef ''id16''), (1, False, NRef ''id32''), (2, False, NRef
      ''nonce32'')]),
    (''retain-receipt-body'', NMap [(0, False, NSize (NRef ''bstr'') 1 65536)]),
    (''retain-release-body'', NMap [(0, False, NRef ''id16''), (1, False, NRef ''id32''), (2, False,
      NRef ''bool''), (3, False, NRef ''id32'')]),
    (''retain-release-result-body'', NMap [(0, False, NRef ''id16''), (1, False, NUnion [NLiteral 0,
      NLiteral 1, NLiteral 2]), (2, False, NRef ''short-text'')]),
    (''presence-body'', NMap [(0, False, NRef ''id32''), (1, False, NRef ''u64''), (2, False, NRange 1
      60), (3, False, NSize (NRef ''bstr'') 1 8192)]),
    (''rpc-call-body'', NMap [(0, False, NRef ''id16''), (1, False, NRef ''id32''), (2, False, NSize
      (NRef ''tstr'') 1 128), (3, False, NRef ''id32''), (4, False, NSize (NRef ''bstr'') 0 524288), (5,
      False, NRange 1 300000), (6, False, NUnion [NLiteral 0, NLiteral 1, NLiteral 2])]),
    (''rpc-result-body'', NMap [(0, False, NRef ''id16''), (1, False, NUnion [NLiteral 0, NLiteral 1,
      NLiteral 2]), (2, False, NSize (NRef ''bstr'') 0 524288), (3, False, NUnion [NRef ''uint'', NRef
      ''null''])]),
    (''rpc-cancel-body'', NMap [(0, False, NRef ''id16'')]),
    (''rpc-cancel-result-body'', NMap [(0, False, NRef ''id16''), (1, False, NUnion [NLiteral 0,
      NLiteral 1, NLiteral 2])]),
    (''error-body'', NMap [(0, False, NRef ''uint''), (1, False, NSize (NRef ''tstr'') 1 64), (2, False,
      NUnion [NLiteral 0, NLiteral 1, NLiteral 2, NLiteral 3, NLiteral 4]), (3, False, NRef
      ''short-text'')]),
    (''signed-object'', NMap [(0, False, NSize (NRef ''bstr'') 1 65536), (1, False, NRef ''pk32''), (2,
      False, NRef ''sig64'')]),
    (''certificate-body'', NMap [(0, False, NLiteral 1), (1, False, NRef ''app-id''), (2, False, NRef
      ''pk32''), (3, False, NRef ''pk32''), (4, False, NRef ''pk32''), (5, False, NRef ''id16'')]),
    (''join-request-body'', NMap [(0, False, NRef ''app-id''), (1, False, NRef ''id32''), (2, False,
      NRef ''id32''), (3, False, NRef ''nonce32''), (4, False, NRef ''role'')]),
    (''admission-body'', NMap [(0, False, NRef ''app-id''), (1, False, NRef ''id32''), (2, False, NRef
      ''id32''), (3, False, NRef ''id32''), (4, False, NRef ''nonce32''), (5, False, NRef ''u64''), (6,
      False, NRef ''role'')]),
    (''genesis-body'', NMap [(0, False, NLiteral 1), (1, False, NRef ''app-id''), (2, False, NRef
      ''pk32''), (3, False, NRef ''nonce32''), (4, False, NRef ''id32''), (5, False, NRef ''id32'')]),
    (''control-body'', NMap [(0, False, NRef ''app-id''), (1, False, NRef ''id32''), (2, False, NRef
      ''u64''), (3, False, NRef ''u64''), (4, False, NRef ''id32''), (5, False, NUnion [NLiteral 1,
      NLiteral 2, NLiteral 3, NLiteral 4, NLiteral 5]), (6, False, NRef ''id32''), (7, False, NRef
      ''id32''), (8, False, NUnion [NRef ''id32'', NRef ''null'']), (9, False, NUnion [NRef ''id32'',
      NRef ''null'']), (10, False, NUnion [NRef ''id16'', NRef ''null'']), (11, False, NRef ''pk32''),
      (12, False, NUnion [NRef ''pk32'', NRef ''null'']), (13, False, NRef ''id32'')]),
    (''control-entry'', NMap [(0, False, NSize (NRef ''bstr'') 1 65536), (1, False, NRef ''sig64''), (2,
      True, NRef ''sig64'')]),
    (''member-entry'', NMap [(0, False, NRef ''id32''), (1, False, NRef ''id32''), (2, False, NRef
      ''role'')]),
    (''member-page'', NArray 0 256 (NRef ''member-entry'')),
    (''root-pages'', NArray 0 1024 (NRef ''id32'')),
    (''key-package-body'', NMap [(0, False, NRef ''app-id''), (1, False, NRef ''id32''), (2, False, NRef
      ''u64''), (3, False, NRef ''id16''), (4, False, NRef ''id32''), (5, False, NRef ''id32''), (6,
      False, NRef ''id32''), (7, False, NLiteral 1), (8, False, NSize (NRef ''bstr'') 32 32), (9, False,
      NSize (NRef ''bstr'') 16 4096)]),
    (''epoch-secret-plaintext'', NMap [(0, False, NSize (NRef ''bstr'') 32 32), (1, False, NRef
      ''app-id''), (2, False, NRef ''id32''), (3, False, NRef ''u64''), (4, False, NRef ''id16''), (5,
      False, NRef ''id32'')]),
    (''change-header'', NMap [(0, False, NRef ''app-id''), (1, False, NRef ''id32''), (2, False, NRef
      ''u64''), (3, False, NRef ''id32''), (4, False, NRef ''object-kind''), (5, False, NRef ''id32''),
      (6, False, NRef ''id16''), (7, False, NRef ''u64''), (8, False, NUnion [NRef ''id32'', NRef
      ''null'']), (9, False, NRef ''id32''), (10, False, NRef ''deps''), (11, False, NRange 0 524288),
      (12, False, NRef ''id32''), (13, False, NRef ''id32''), (14, False, NUnion [NLiteral 1, NLiteral
      2]), (15, False, NRef ''u64'')]),
    (''change-envelope'', NMap [(0, False, NSize (NRef ''bstr'') 1 16384), (1, False, NRef ''nonce24''),
      (2, False, NSize (NRef ''bstr'') 16 524304), (3, False, NRef ''sig64'')]),
    (''block-header'', NMap [(0, False, NRef ''app-id''), (1, False, NRef ''id32''), (2, False, NRef
      ''u64''), (3, False, NRef ''id32''), (4, False, NRef ''object-kind''), (5, False, NRef ''u64''),
      (6, False, NRef ''u64''), (7, False, NRange 0 262144)]),
    (''sealed-block'', NMap [(0, False, NSize (NRef ''bstr'') 1 4096), (1, False, NRef ''nonce24''), (2,
      False, NSize (NRef ''bstr'') 16 262160)]),
    (''inventory-entry'', NMap [(0, False, NRef ''id32''), (1, False, NRef ''u64''), (2, False, NRef
      ''uint'')]),
    (''inventory-page'', NArray 0 1024 (NRef ''inventory-entry'')),
    (''inventory-root'', NMap [(0, False, NLiteral 1), (1, False, NArray 0 1024 (NRef ''id32'')), (2,
      False, NRef ''u64''), (3, False, NRef ''u64'')]),
    (''retention-body'', NMap [(0, False, NRef ''app-id''), (1, False, NRef ''id32''), (2, False, NRef
      ''u64''), (3, False, NRef ''id32''), (4, False, NRef ''id32''), (5, False, NRef ''id32''), (6,
      False, NRef ''id32''), (7, False, NRef ''u64''), (8, False, NRef ''id16''), (9, False, NRef
      ''id32'')]),
    (''receipt-body'', NMap [(0, False, NRef ''id32''), (1, False, NRef ''id32''), (2, False, NRef
      ''id32''), (3, False, NRef ''id32''), (4, False, NUnion [NLiteral 1, NLiteral 2, NLiteral 3]), (5,
      False, NRef ''id32''), (6, False, NRange 1 604800), (7, False, NRef ''nonce32''), (8, False, NRef
      ''id16''), (9, False, NRef ''u64''), (10, False, NRef ''id16'')]),
    (''recovery-descriptor'', NMap [(0, False, NLiteral 1), (1, False, NRef ''app-id''), (2, False, NRef
      ''id32''), (3, False, NRef ''id32''), (4, False, NRef ''u64''), (5, False, NArray 0 256 (NRef
      ''recovery-object'')), (6, False, NArray 0 256 (NRef ''id32'')), (7, False, NUnion [NRef ''id32'',
      NRef ''null''])]),
    (''recovery-object'', NMap [(0, False, NRef ''id32''), (1, False, NRef ''object-kind''), (2, False,
      NRef ''hash-list''), (3, False, NArray 0 1024 (NRef ''id32'')), (4, False, NRef ''id32''), (5,
      False, NRef ''bool'')]),
    (''export-manifest'', NMap [(0, False, NLiteral 1), (1, False, NRef ''app-id''), (2, False, NRef
      ''id32''), (3, False, NRef ''id32''), (4, False, NRef ''id32''), (5, False, NArray 0 1024 (NRef
      ''export-entry'')), (6, False, NUnion [NRef ''id32'', NRef ''null''])]),
    (''export-entry'', NMap [(0, False, NSize (NRef ''tstr'') 1 512), (1, False, NRef ''u64''), (2,
      False, NRef ''id32'')]),
    (''event-payload'', NMap [(0, False, NSize (NRef ''tstr'') 1 128), (1, False, NRef ''id32''), (2,
      False, NSize (NRef ''bstr'') 0 65536), (3, False, NArray 0 128 (NRef ''id32''))]),
    (''activity-header'', NMap [(0, False, NRef ''app-id''), (1, False, NRef ''id32''), (2, False, NRef
      ''u64''), (3, False, NUnion [NLiteral 1, NLiteral 2, NLiteral 3]), (4, False, NRef ''id32''), (5,
      False, NRef ''id32''), (6, False, NUnion [NRef ''id32'', NRef ''null'']), (7, False, NUnion [NRef
      ''id32'', NRef ''null'']), (8, False, NRef ''u64''), (9, False, NUnion [NRef ''id16'', NRef
      ''null'']), (10, False, NRef ''id32''), (11, False, NRef ''u64''), (12, False, NUnion [NRef
      ''id32'', NRef ''null'']), (13, False, NUnion [NRange 1 60, NRef ''null''])]),
    (''activity-envelope'', NMap [(0, False, NSize (NRef ''bstr'') 1 4096), (1, False, NRef
      ''nonce24''), (2, False, NSize (NRef ''bstr'') 16 524304), (3, False, NRef ''sig64'')]),
    (''rpc-plaintext'', NMap [(0, False, NSize (NRef ''tstr'') 1 128), (1, False, NRef ''id32''), (2,
      False, NSize (NRef ''bstr'') 0 500000), (3, False, NUnion [NLiteral 0, NLiteral 1, NLiteral 2]),
      (4, False, NRange 1 300000)])]"

definition registry_messages :: "(int \<times> string) list" where
  "registry_messages = [
     (1, ''hello-body''), (2, ''auth-body''), (10, ''space-open-body''), (11,
     ''space-accept-body''), (12, ''control-get-body''), (13, ''control-page-body''), (20,
     ''have-body''), (21, ''need-body''), (22, ''change-body''), (23, ''apply-result-body''),
     (30, ''manifest-get-body''), (31, ''manifest-data-body''), (32, ''block-get-body''), (33,
     ''block-data-body''), (40, ''retain-offer-body''), (41, ''retain-accept-body''), (42,
     ''retain-commit-body''), (43, ''retain-receipt-body''), (44, ''retain-release-body''), (45,
     ''retain-release-result-body''), (50, ''presence-body''), (60, ''rpc-call-body''), (61,
     ''rpc-result-body''), (62, ''rpc-cancel-body''), (63, ''rpc-cancel-result-body''), (255,
     ''error-body'')]"

section \<open>Frame validation\<close>

text \<open>\<^verbatim>\<open>body_type.replace('-body', '-frame')\<close>\<close>

fun body_to_frame :: "string \<Rightarrow> string" where
  "body_to_frame [] = []"
| "body_to_frame (c # cs) =
     (if take 5 (c # cs) = ''-body'' then ''-frame'' @ body_to_frame (drop 4 cs)
      else c # body_to_frame cs)"

text \<open>The application identifier pattern: two or more dot-separated labels of 1 to 63 letters,
  digits and inner hyphens.\<close>

definition alnum :: "nat \<Rightarrow> bool" where
  "alnum c \<longleftrightarrow> (65 \<le> c \<and> c \<le> 90) \<or> (97 \<le> c \<and> c \<le> 122) \<or> (48 \<le> c \<and> c \<le> 57)"

definition label_ok :: "pystr \<Rightarrow> bool" where
  "label_ok s \<longleftrightarrow> 1 \<le> length s \<and> length s \<le> 63 \<and> alnum (hd s) \<and> alnum (last s)
     \<and> list_all (\<lambda>c. alnum c \<or> c = 45) s"

fun split_dot :: "pystr \<Rightarrow> pystr \<Rightarrow> pystr list" where
  "split_dot acc [] = [rev acc]"
| "split_dot acc (c # cs) = (if c = 46 then rev acc # split_dot [] cs else split_dot (c # acc) cs)"

definition app_id_ok :: "pystr \<Rightarrow> bool" where
  "app_id_ok s \<longleftrightarrow> (let labels = split_dot [] s in 2 \<le> length labels \<and> list_all label_ok labels)"

text \<open>The operations of the body checks, with what Python raises on another type.\<close>

definition nul_in :: "pyval \<Rightarrow> bool res" where
  "nul_in v = (case v of PStr s \<Rightarrow> Inr (0 \<in> set s) | _ \<Rightarrow> Inl TypeError)"

definition list_of :: "pyval \<Rightarrow> pyval list res" where
  "list_of v = (case v of PList xs \<Rightarrow> Inr xs | _ \<Rightarrow> Inl TypeError)"

definition str_of :: "pyval \<Rightarrow> pystr res" where
  "str_of v = (case v of PStr s \<Rightarrow> Inr s | _ \<Rightarrow> Inl TypeError)"

definition check_hello :: "pyval \<Rightarrow> unit res" where
  "check_hello b =
     bindE (bindE (item_at b 0) str_of) (\<lambda>app.
     bindE (need (app_id_ok app) (WireError ''IDENTIFIER'' ''app-id'')) (\<lambda>_.
     bindE (bindE (item_at b 3) list_of) (\<lambda>wires.
     bindE (bindE (item_at b 4) list_of) (\<lambda>suites.
     bindE (need (distinct wires \<and> distinct suites) (WireError ''NEGOTIATION'' [])) (\<lambda>_.
     bindE (mapE str_of wires) (\<lambda>names.
       need (list_all (\<lambda>s. s \<noteq> [] \<and> 0 \<notin> set s) names) (WireError ''NEGOTIATION'' [])))))))"

definition page_fields :: "(int \<times> int \<times> int \<times> int) list" where
  "page_fields = [(13, 1, 2, 3), (20, 2, 1, 3), (41, 2, 3, 4)]"

definition check_page :: "int \<times> int \<times> int \<Rightarrow> pyval \<Rightarrow> unit res" where
  "check_page fields b = (case fields of (items, cursor, done) \<Rightarrow>
     bindE (item_at b done) (\<lambda>d.
     bindE (item_at b cursor) (\<lambda>c.
     bindE (bindE (item_at b items) list_of) (\<lambda>xs.
       need (d = PBool (c = PNone) \<and> (d \<noteq> PBool False \<or> xs \<noteq> [])) (WireError ''PAGE_STATE'' [])))))"

definition check_body :: "int \<Rightarrow> pyval \<Rightarrow> pyval \<Rightarrow> unit res" where
  "check_body code v b =
     bindE (if code = 1 then check_hello b else Inr ()) (\<lambda>_.
     bindE (if code = 10 then bindE (item_at v 3) (\<lambda>space. bindE (item_at b 0) (\<lambda>b0.
              need (space = b0) (WireError ''SPACE_BINDING'' []))) else Inr ()) (\<lambda>_.
     bindE (case map_of page_fields code of None \<Rightarrow> Inr () | Some fs \<Rightarrow> check_page fs b) (\<lambda>_.
     bindE (if code = 60 then bindE (bindE (item_at b 2) nul_in) (\<lambda>z.
              need (\<not> z) (WireError ''IDENTIFIER'' ''handler'')) else Inr ()) (\<lambda>_.
       if code = 255 then bindE (bindE (item_at b 1) nul_in) (\<lambda>z.
              need (\<not> z) (WireError ''IDENTIFIER'' ''phase'')) else Inr ()))))"

definition validate_frame :: "pyval \<Rightarrow> unit res" where
  "validate_frame v = (case v of
     PDict kvs \<Rightarrow>
       if \<not> list_all (\<lambda>kv. is_int (fst kv)) kvs then Inl (WireError ''SCHEMA'' ''frame'')
       else (case dict_get kvs 1 of
         Some (PInt code) \<Rightarrow> (case map_of registry_messages code of
             None \<Rightarrow> wire ''MESSAGE_TYPE''
           | Some body_type \<Rightarrow>
               bindE (schema_validate default_rules (body_to_frame body_type) v) (\<lambda>_.
               bindE (item_at v 4) (check_body code v)))
       | _ \<Rightarrow> Inl (WireError ''SCHEMA'' ''message code''))
   | _ \<Rightarrow> Inl (WireError ''SCHEMA'' ''frame''))"

section \<open>Looking up rules\<close>

text \<open>One fact for each rule a message needs, so that proofs never unfold the table.\<close>

named_theorems rule_lookup \<open>entries of the shipped rule table\<close>

lemma assoc_hit: "map_of ((k, v) # xs) k = Some v"
  by simp

lemma assoc_miss: "k \<noteq> k' \<Longrightarrow> map_of xs k' = r \<Longrightarrow> map_of ((k, v) # xs) k' = r"
  by simp

lemma rule_id32 [rule_lookup]:
  "map_of default_rules ''id32'' = Some (NSize (NRef ''bstr'') 32 32)"
  unfolding default_rules_def by (rule assoc_hit | rule assoc_miss, simp)+

lemma rule_id16 [rule_lookup]:
  "map_of default_rules ''id16'' = Some (NSize (NRef ''bstr'') 16 16)"
  unfolding default_rules_def by (rule assoc_hit | rule assoc_miss, simp)+

lemma rule_pk32 [rule_lookup]:
  "map_of default_rules ''pk32'' = Some (NSize (NRef ''bstr'') 32 32)"
  unfolding default_rules_def by (rule assoc_hit | rule assoc_miss, simp)+

lemma rule_sig64 [rule_lookup]:
  "map_of default_rules ''sig64'' = Some (NSize (NRef ''bstr'') 64 64)"
  unfolding default_rules_def by (rule assoc_hit | rule assoc_miss, simp)+

lemma rule_nonce24 [rule_lookup]:
  "map_of default_rules ''nonce24'' = Some (NSize (NRef ''bstr'') 24 24)"
  unfolding default_rules_def by (rule assoc_hit | rule assoc_miss, simp)+

lemma rule_nonce32 [rule_lookup]:
  "map_of default_rules ''nonce32'' = Some (NSize (NRef ''bstr'') 32 32)"
  unfolding default_rules_def by (rule assoc_hit | rule assoc_miss, simp)+

lemma rule_u64 [rule_lookup]:
  "map_of default_rules ''u64'' = Some (NRange 0 18446744073709551615)"
  unfolding default_rules_def by (rule assoc_hit | rule assoc_miss, simp)+

lemma rule_app_id [rule_lookup]:
  "map_of default_rules ''app-id'' = Some (NSize (NRef ''tstr'') 1 128)"
  unfolding default_rules_def by (rule assoc_hit | rule assoc_miss, simp)+

lemma rule_short_text [rule_lookup]:
  "map_of default_rules ''short-text'' = Some (NSize (NRef ''tstr'') 0 4096)"
  unfolding default_rules_def by (rule assoc_hit | rule assoc_miss, simp)+

lemma rule_byte_page [rule_lookup]:
  "map_of default_rules ''byte-page'' = Some (NSize (NRef ''bstr'') 1 131072)"
  unfolding default_rules_def by (rule assoc_hit | rule assoc_miss, simp)+

lemma rule_object_kind [rule_lookup]:
  "map_of default_rules ''object-kind'' = Some (NUnion [NLiteral 1, NLiteral 2, NLiteral 3, NLiteral
     4, NLiteral 5])"
  unfolding default_rules_def by (rule assoc_hit | rule assoc_miss, simp)+

lemma rule_role [rule_lookup]:
  "map_of default_rules ''role'' = Some (NUnion [NLiteral 1, NLiteral 2, NLiteral 3])"
  unfolding default_rules_def by (rule assoc_hit | rule assoc_miss, simp)+

lemma rule_hash_list [rule_lookup]:
  "map_of default_rules ''hash-list'' = Some (NArray 0 256 (NRef ''id32''))"
  unfolding default_rules_def by (rule assoc_hit | rule assoc_miss, simp)+

lemma rule_deps [rule_lookup]:
  "map_of default_rules ''deps'' = Some (NArray 0 128 (NRef ''id32''))"
  unfolding default_rules_def by (rule assoc_hit | rule assoc_miss, simp)+

lemma rule_hello_frame [rule_lookup]:
  "map_of default_rules ''hello-frame'' = Some (NMap [(0, False, NLiteral 1), (1, False, NLiteral
     1), (2, False, NRef ''id16''), (3, False, NRef ''null''), (4, False, NRef ''hello-body''), (5,
     False, NLiteral 0)])"
  unfolding default_rules_def by (rule assoc_hit | rule assoc_miss, simp)+

lemma rule_auth_frame [rule_lookup]:
  "map_of default_rules ''auth-frame'' = Some (NMap [(0, False, NLiteral 1), (1, False, NLiteral 2),
     (2, False, NRef ''id16''), (3, False, NRef ''null''), (4, False, NRef ''auth-body''), (5,
     False, NLiteral 0)])"
  unfolding default_rules_def by (rule assoc_hit | rule assoc_miss, simp)+

lemma rule_space_open_frame [rule_lookup]:
  "map_of default_rules ''space-open-frame'' = Some (NMap [(0, False, NLiteral 1), (1, False,
     NLiteral 10), (2, False, NRef ''id16''), (3, False, NRef ''id32''), (4, False, NRef
     ''space-open-body''), (5, False, NLiteral 0)])"
  unfolding default_rules_def by (rule assoc_hit | rule assoc_miss, simp)+

lemma rule_space_accept_frame [rule_lookup]:
  "map_of default_rules ''space-accept-frame'' = Some (NMap [(0, False, NLiteral 1), (1, False,
     NLiteral 11), (2, False, NRef ''id16''), (3, False, NRef ''id32''), (4, False, NRef
     ''space-accept-body''), (5, False, NLiteral 0)])"
  unfolding default_rules_def by (rule assoc_hit | rule assoc_miss, simp)+

lemma rule_control_get_frame [rule_lookup]:
  "map_of default_rules ''control-get-frame'' = Some (NMap [(0, False, NLiteral 1), (1, False,
     NLiteral 12), (2, False, NRef ''id16''), (3, False, NRef ''id32''), (4, False, NRef
     ''control-get-body''), (5, False, NLiteral 0)])"
  unfolding default_rules_def by (rule assoc_hit | rule assoc_miss, simp)+

lemma rule_control_page_frame [rule_lookup]:
  "map_of default_rules ''control-page-frame'' = Some (NMap [(0, False, NLiteral 1), (1, False,
     NLiteral 13), (2, False, NRef ''id16''), (3, False, NRef ''id32''), (4, False, NRef
     ''control-page-body''), (5, False, NLiteral 0)])"
  unfolding default_rules_def by (rule assoc_hit | rule assoc_miss, simp)+

lemma rule_have_frame [rule_lookup]:
  "map_of default_rules ''have-frame'' = Some (NMap [(0, False, NLiteral 1), (1, False, NLiteral
     20), (2, False, NRef ''id16''), (3, False, NRef ''id32''), (4, False, NRef ''have-body''), (5,
     False, NLiteral 0)])"
  unfolding default_rules_def by (rule assoc_hit | rule assoc_miss, simp)+

lemma rule_need_frame [rule_lookup]:
  "map_of default_rules ''need-frame'' = Some (NMap [(0, False, NLiteral 1), (1, False, NLiteral
     21), (2, False, NRef ''id16''), (3, False, NRef ''id32''), (4, False, NRef ''need-body''), (5,
     False, NLiteral 0)])"
  unfolding default_rules_def by (rule assoc_hit | rule assoc_miss, simp)+

lemma rule_change_frame [rule_lookup]:
  "map_of default_rules ''change-frame'' = Some (NMap [(0, False, NLiteral 1), (1, False, NLiteral
     22), (2, False, NRef ''id16''), (3, False, NRef ''id32''), (4, False, NRef ''change-body''),
     (5, False, NLiteral 0)])"
  unfolding default_rules_def by (rule assoc_hit | rule assoc_miss, simp)+

lemma rule_apply_result_frame [rule_lookup]:
  "map_of default_rules ''apply-result-frame'' = Some (NMap [(0, False, NLiteral 1), (1, False,
     NLiteral 23), (2, False, NRef ''id16''), (3, False, NRef ''id32''), (4, False, NRef
     ''apply-result-body''), (5, False, NLiteral 0)])"
  unfolding default_rules_def by (rule assoc_hit | rule assoc_miss, simp)+

lemma rule_manifest_get_frame [rule_lookup]:
  "map_of default_rules ''manifest-get-frame'' = Some (NMap [(0, False, NLiteral 1), (1, False,
     NLiteral 30), (2, False, NRef ''id16''), (3, False, NRef ''id32''), (4, False, NRef
     ''manifest-get-body''), (5, False, NLiteral 0)])"
  unfolding default_rules_def by (rule assoc_hit | rule assoc_miss, simp)+

lemma rule_manifest_data_frame [rule_lookup]:
  "map_of default_rules ''manifest-data-frame'' = Some (NMap [(0, False, NLiteral 1), (1, False,
     NLiteral 31), (2, False, NRef ''id16''), (3, False, NRef ''id32''), (4, False, NRef
     ''manifest-data-body''), (5, False, NLiteral 0)])"
  unfolding default_rules_def by (rule assoc_hit | rule assoc_miss, simp)+

lemma rule_block_get_frame [rule_lookup]:
  "map_of default_rules ''block-get-frame'' = Some (NMap [(0, False, NLiteral 1), (1, False,
     NLiteral 32), (2, False, NRef ''id16''), (3, False, NRef ''id32''), (4, False, NRef
     ''block-get-body''), (5, False, NLiteral 0)])"
  unfolding default_rules_def by (rule assoc_hit | rule assoc_miss, simp)+

lemma rule_block_data_frame [rule_lookup]:
  "map_of default_rules ''block-data-frame'' = Some (NMap [(0, False, NLiteral 1), (1, False,
     NLiteral 33), (2, False, NRef ''id16''), (3, False, NRef ''id32''), (4, False, NRef
     ''block-data-body''), (5, False, NLiteral 0)])"
  unfolding default_rules_def by (rule assoc_hit | rule assoc_miss, simp)+

lemma rule_retain_offer_frame [rule_lookup]:
  "map_of default_rules ''retain-offer-frame'' = Some (NMap [(0, False, NLiteral 1), (1, False,
     NLiteral 40), (2, False, NRef ''id16''), (3, False, NRef ''id32''), (4, False, NRef
     ''retain-offer-body''), (5, False, NLiteral 0)])"
  unfolding default_rules_def by (rule assoc_hit | rule assoc_miss, simp)+

lemma rule_retain_accept_frame [rule_lookup]:
  "map_of default_rules ''retain-accept-frame'' = Some (NMap [(0, False, NLiteral 1), (1, False,
     NLiteral 41), (2, False, NRef ''id16''), (3, False, NRef ''id32''), (4, False, NRef
     ''retain-accept-body''), (5, False, NLiteral 0)])"
  unfolding default_rules_def by (rule assoc_hit | rule assoc_miss, simp)+

lemma rule_retain_commit_frame [rule_lookup]:
  "map_of default_rules ''retain-commit-frame'' = Some (NMap [(0, False, NLiteral 1), (1, False,
     NLiteral 42), (2, False, NRef ''id16''), (3, False, NRef ''id32''), (4, False, NRef
     ''retain-commit-body''), (5, False, NLiteral 0)])"
  unfolding default_rules_def by (rule assoc_hit | rule assoc_miss, simp)+

lemma rule_retain_receipt_frame [rule_lookup]:
  "map_of default_rules ''retain-receipt-frame'' = Some (NMap [(0, False, NLiteral 1), (1, False,
     NLiteral 43), (2, False, NRef ''id16''), (3, False, NRef ''id32''), (4, False, NRef
     ''retain-receipt-body''), (5, False, NLiteral 0)])"
  unfolding default_rules_def by (rule assoc_hit | rule assoc_miss, simp)+

lemma rule_retain_release_frame [rule_lookup]:
  "map_of default_rules ''retain-release-frame'' = Some (NMap [(0, False, NLiteral 1), (1, False,
     NLiteral 44), (2, False, NRef ''id16''), (3, False, NRef ''id32''), (4, False, NRef
     ''retain-release-body''), (5, False, NLiteral 0)])"
  unfolding default_rules_def by (rule assoc_hit | rule assoc_miss, simp)+

lemma rule_retain_release_result_frame [rule_lookup]:
  "map_of default_rules ''retain-release-result-frame'' = Some (NMap [(0, False, NLiteral 1), (1,
     False, NLiteral 45), (2, False, NRef ''id16''), (3, False, NRef ''id32''), (4, False, NRef
     ''retain-release-result-body''), (5, False, NLiteral 0)])"
  unfolding default_rules_def by (rule assoc_hit | rule assoc_miss, simp)+

lemma rule_presence_frame [rule_lookup]:
  "map_of default_rules ''presence-frame'' = Some (NMap [(0, False, NLiteral 1), (1, False, NLiteral
     50), (2, False, NRef ''id16''), (3, False, NRef ''id32''), (4, False, NRef ''presence-body''),
     (5, False, NLiteral 0)])"
  unfolding default_rules_def by (rule assoc_hit | rule assoc_miss, simp)+

lemma rule_rpc_call_frame [rule_lookup]:
  "map_of default_rules ''rpc-call-frame'' = Some (NMap [(0, False, NLiteral 1), (1, False, NLiteral
     60), (2, False, NRef ''id16''), (3, False, NRef ''id32''), (4, False, NRef ''rpc-call-body''),
     (5, False, NLiteral 0)])"
  unfolding default_rules_def by (rule assoc_hit | rule assoc_miss, simp)+

lemma rule_rpc_result_frame [rule_lookup]:
  "map_of default_rules ''rpc-result-frame'' = Some (NMap [(0, False, NLiteral 1), (1, False,
     NLiteral 61), (2, False, NRef ''id16''), (3, False, NRef ''id32''), (4, False, NRef
     ''rpc-result-body''), (5, False, NLiteral 0)])"
  unfolding default_rules_def by (rule assoc_hit | rule assoc_miss, simp)+

lemma rule_rpc_cancel_frame [rule_lookup]:
  "map_of default_rules ''rpc-cancel-frame'' = Some (NMap [(0, False, NLiteral 1), (1, False,
     NLiteral 62), (2, False, NRef ''id16''), (3, False, NRef ''id32''), (4, False, NRef
     ''rpc-cancel-body''), (5, False, NLiteral 0)])"
  unfolding default_rules_def by (rule assoc_hit | rule assoc_miss, simp)+

lemma rule_rpc_cancel_result_frame [rule_lookup]:
  "map_of default_rules ''rpc-cancel-result-frame'' = Some (NMap [(0, False, NLiteral 1), (1, False,
     NLiteral 63), (2, False, NRef ''id16''), (3, False, NRef ''id32''), (4, False, NRef
     ''rpc-cancel-result-body''), (5, False, NLiteral 0)])"
  unfolding default_rules_def by (rule assoc_hit | rule assoc_miss, simp)+

lemma rule_error_frame [rule_lookup]:
  "map_of default_rules ''error-frame'' = Some (NMap [(0, False, NLiteral 1), (1, False, NLiteral
     255), (2, False, NRef ''id16''), (3, False, NUnion [NRef ''id32'', NRef ''null'']), (4, False,
     NRef ''error-body''), (5, False, NLiteral 0)])"
  unfolding default_rules_def by (rule assoc_hit | rule assoc_miss, simp)+

lemma rule_hello_body [rule_lookup]:
  "map_of default_rules ''hello-body'' = Some (NMap [(0, False, NRef ''app-id''), (1, False, NSize
     (NRef ''bstr'') 1 4096), (2, False, NRef ''nonce32''), (3, False, NArray 1 8 (NRef
     ''short-text'')), (4, False, NArray 1 8 (NRef ''uint'')), (5, False, NRef ''id32''), (6, False,
     NSize (NRef ''bstr'') 1 128)])"
  unfolding default_rules_def by (rule assoc_hit | rule assoc_miss, simp)+

lemma rule_space_open_body [rule_lookup]:
  "map_of default_rules ''space-open-body'' = Some (NMap [(0, False, NRef ''id32''), (1, False,
     NSize (NRef ''bstr'') 1 65536), (2, False, NUnion [NRef ''id32'', NRef ''null'']), (3, False,
     NRef ''role''), (4, False, NRef ''nonce32''), (5, False, NRef ''sig64''), (6, False, NArray 0
     64 (NSize (NRef ''bstr'') 1 65536))])"
  unfolding default_rules_def by (rule assoc_hit | rule assoc_miss, simp)+

lemma rule_control_page_body [rule_lookup]:
  "map_of default_rules ''control-page-body'' = Some (NMap [(0, False, NRef ''id32''), (1, False,
     NArray 0 128 (NSize (NRef ''bstr'') 1 65536)), (2, False, NUnion [NRef ''id32'', NRef
     ''null'']), (3, False, NRef ''bool'')])"
  unfolding default_rules_def by (rule assoc_hit | rule assoc_miss, simp)+

lemma rule_have_body [rule_lookup]:
  "map_of default_rules ''have-body'' = Some (NMap [(0, False, NRef ''id32''), (1, False, NUnion
     [NRef ''id32'', NRef ''null'']), (2, False, NArray 0 256 (NRef ''catalog-item'')), (3, False,
     NRef ''bool'')])"
  unfolding default_rules_def by (rule assoc_hit | rule assoc_miss, simp)+

lemma rule_retain_accept_body [rule_lookup]:
  "map_of default_rules ''retain-accept-body'' = Some (NMap [(0, False, NRef ''id16''), (1, False,
     NRange 1 604800), (2, False, NArray 0 128 (NRef ''id32'')), (3, False, NUnion [NRef ''id32'',
     NRef ''null'']), (4, False, NRef ''bool'')])"
  unfolding default_rules_def by (rule assoc_hit | rule assoc_miss, simp)+

lemma rule_rpc_call_body [rule_lookup]:
  "map_of default_rules ''rpc-call-body'' = Some (NMap [(0, False, NRef ''id16''), (1, False, NRef
     ''id32''), (2, False, NSize (NRef ''tstr'') 1 128), (3, False, NRef ''id32''), (4, False, NSize
     (NRef ''bstr'') 0 524288), (5, False, NRange 1 300000), (6, False, NUnion [NLiteral 0, NLiteral
     1, NLiteral 2])])"
  unfolding default_rules_def by (rule assoc_hit | rule assoc_miss, simp)+

lemma rule_error_body [rule_lookup]:
  "map_of default_rules ''error-body'' = Some (NMap [(0, False, NRef ''uint''), (1, False, NSize
     (NRef ''tstr'') 1 64), (2, False, NUnion [NLiteral 0, NLiteral 1, NLiteral 2, NLiteral 3,
     NLiteral 4]), (3, False, NRef ''short-text'')])"
  unfolding default_rules_def by (rule assoc_hit | rule assoc_miss, simp)+

lemma rule_catalog_item [rule_lookup]:
  "map_of default_rules ''catalog-item'' = Some (NMap [(0, False, NRef ''id32''), (1, False, NRef
     ''object-kind''), (2, False, NRef ''u64''), (3, False, NRef ''hash-list''), (4, False, NRef
     ''bool''), (5, False, NRef ''id32'')])"
  unfolding default_rules_def by (rule assoc_hit | rule assoc_miss, simp)+

lemma rule_auth_body [rule_lookup]:
  "map_of default_rules ''auth-body'' = Some (NMap [(0, False, NRef ''id32''), (1, False, NRef
     ''sig64'')])"
  unfolding default_rules_def by (rule assoc_hit | rule assoc_miss, simp)+

lemma rule_space_accept_body [rule_lookup]:
  "map_of default_rules ''space-accept-body'' = Some (NMap [(0, False, NRef ''id32''), (1, False,
     NRef ''u64''), (2, False, NRef ''u64''), (3, False, NRef ''id32''), (4, False, NRef
     ''sig64'')])"
  unfolding default_rules_def by (rule assoc_hit | rule assoc_miss, simp)+

lemma rule_control_get_body [rule_lookup]:
  "map_of default_rules ''control-get-body'' = Some (NMap [(0, False, NUnion [NRef ''id32'', NRef
     ''null'']), (1, False, NRange 1 128), (2, False, NUnion [NRef ''id32'', NRef ''null''])])"
  unfolding default_rules_def by (rule assoc_hit | rule assoc_miss, simp)+

lemma rule_need_body [rule_lookup]:
  "map_of default_rules ''need-body'' = Some (NMap [(0, False, NRef ''id32''), (1, False, NRef
     ''deps'')])"
  unfolding default_rules_def by (rule assoc_hit | rule assoc_miss, simp)+

lemma rule_change_body [rule_lookup]:
  "map_of default_rules ''change-body'' = Some (NMap [(0, False, NRef ''id32''), (1, False, NRef
     ''id32''), (2, False, NSize (NRef ''bstr'') 1 786432)])"
  unfolding default_rules_def by (rule assoc_hit | rule assoc_miss, simp)+

lemma rule_apply_result_body [rule_lookup]:
  "map_of default_rules ''apply-result-body'' = Some (NMap [(0, False, NRef ''id32''), (1, False,
     NUnion [NLiteral 0, NLiteral 1, NLiteral 2, NLiteral 3, NLiteral 4]), (2, False, NRef
     ''hash-list''), (3, False, NUnion [NRef ''uint'', NRef ''null''])])"
  unfolding default_rules_def by (rule assoc_hit | rule assoc_miss, simp)+

lemma rule_manifest_get_body [rule_lookup]:
  "map_of default_rules ''manifest-get-body'' = Some (NMap [(0, False, NRef ''id32''), (1, False,
     NRef ''id32'')])"
  unfolding default_rules_def by (rule assoc_hit | rule assoc_miss, simp)+

lemma rule_manifest_data_body [rule_lookup]:
  "map_of default_rules ''manifest-data-body'' = Some (NMap [(0, False, NRef ''id32''), (1, False,
     NSize (NRef ''bstr'') 1 131072)])"
  unfolding default_rules_def by (rule assoc_hit | rule assoc_miss, simp)+

lemma rule_block_get_body [rule_lookup]:
  "map_of default_rules ''block-get-body'' = Some (NMap [(0, False, NRef ''id32''), (1, False, NRef
     ''id32''), (2, False, NRef ''id32'')])"
  unfolding default_rules_def by (rule assoc_hit | rule assoc_miss, simp)+

lemma rule_block_data_body [rule_lookup]:
  "map_of default_rules ''block-data-body'' = Some (NMap [(0, False, NRef ''id32''), (1, False,
     NSize (NRef ''bstr'') 1 786432)])"
  unfolding default_rules_def by (rule assoc_hit | rule assoc_miss, simp)+

lemma rule_retain_offer_body [rule_lookup]:
  "map_of default_rules ''retain-offer-body'' = Some (NMap [(0, False, NRef ''id16''), (1, False,
     NRef ''id32''), (2, False, NSize (NRef ''bstr'') 1 65536), (3, False, NRange 1 604800), (4,
     False, NRef ''u64''), (5, False, NRef ''id32'')])"
  unfolding default_rules_def by (rule assoc_hit | rule assoc_miss, simp)+

lemma rule_retain_commit_body [rule_lookup]:
  "map_of default_rules ''retain-commit-body'' = Some (NMap [(0, False, NRef ''id16''), (1, False,
     NRef ''id32''), (2, False, NRef ''nonce32'')])"
  unfolding default_rules_def by (rule assoc_hit | rule assoc_miss, simp)+

lemma rule_retain_receipt_body [rule_lookup]:
  "map_of default_rules ''retain-receipt-body'' = Some (NMap [(0, False, NSize (NRef ''bstr'') 1
     65536)])"
  unfolding default_rules_def by (rule assoc_hit | rule assoc_miss, simp)+

lemma rule_retain_release_body [rule_lookup]:
  "map_of default_rules ''retain-release-body'' = Some (NMap [(0, False, NRef ''id16''), (1, False,
     NRef ''id32''), (2, False, NRef ''bool''), (3, False, NRef ''id32'')])"
  unfolding default_rules_def by (rule assoc_hit | rule assoc_miss, simp)+

lemma rule_retain_release_result_body [rule_lookup]:
  "map_of default_rules ''retain-release-result-body'' = Some (NMap [(0, False, NRef ''id16''), (1,
     False, NUnion [NLiteral 0, NLiteral 1, NLiteral 2]), (2, False, NRef ''short-text'')])"
  unfolding default_rules_def by (rule assoc_hit | rule assoc_miss, simp)+

lemma rule_presence_body [rule_lookup]:
  "map_of default_rules ''presence-body'' = Some (NMap [(0, False, NRef ''id32''), (1, False, NRef
     ''u64''), (2, False, NRange 1 60), (3, False, NSize (NRef ''bstr'') 1 8192)])"
  unfolding default_rules_def by (rule assoc_hit | rule assoc_miss, simp)+

lemma rule_rpc_result_body [rule_lookup]:
  "map_of default_rules ''rpc-result-body'' = Some (NMap [(0, False, NRef ''id16''), (1, False,
     NUnion [NLiteral 0, NLiteral 1, NLiteral 2]), (2, False, NSize (NRef ''bstr'') 0 524288), (3,
     False, NUnion [NRef ''uint'', NRef ''null''])])"
  unfolding default_rules_def by (rule assoc_hit | rule assoc_miss, simp)+

lemma rule_rpc_cancel_body [rule_lookup]:
  "map_of default_rules ''rpc-cancel-body'' = Some (NMap [(0, False, NRef ''id16'')])"
  unfolding default_rules_def by (rule assoc_hit | rule assoc_miss, simp)+

lemma rule_rpc_cancel_result_body [rule_lookup]:
  "map_of default_rules ''rpc-cancel-result-body'' = Some (NMap [(0, False, NRef ''id16''), (1,
     False, NUnion [NLiteral 0, NLiteral 1, NLiteral 2])])"
  unfolding default_rules_def by (rule assoc_hit | rule assoc_miss, simp)+

section \<open>Required fields\<close>

lemma field_of_distinct: "distinct (map fst fs) \<Longrightarrow> field_of fs k = map_of fs k"
  unfolding field_of_def by (rule map_of_inject_set [THEN iffD2, THEN fun_cong]) (simp_all flip: rev_map)

lemma map_field:
  assumes "conforms rules (NMap fs) v" and "map_of fs k = Some (False, child)" and "distinct (map fst fs)"
  shows "\<exists>x. item_at v k = Inr x \<and> conforms rules child x"
proof -
  obtain kvs where v: "v = PDict kvs" and shape: "map_shape fs kvs"
    and sub: "\<And>kv opt child. kv \<in> set kvs \<Longrightarrow> key_field fs (fst kv) = Some (opt, child)
          \<Longrightarrow> conforms rules child (snd kv)"
    using assms(1) by (auto simp: conforms_map)
  have field: "field_of fs k = Some (False, child)"
    using assms by (simp add: field_of_distinct)
  moreover have "(k, False, child) \<in> set fs"
    using assms(2) by (rule map_of_SomeD)
  ultimately obtain x where x: "dict_get kvs k = Some x"
    using shape by (force simp: map_shape_def list_all_iff)
  then have "(PInt k, x) \<in> set kvs"
    by (auto simp: dict_get_def dest: map_of_SomeD)
  with sub [of "(PInt k, x)" False child] field have "conforms rules child x"
    by (simp add: key_field_def)
  with x v show ?thesis by (simp add: item_at_def)
qed

section \<open>The table fits its depth limit\<close>

lemma fits_mono: "fits rules r b node \<Longrightarrow> r \<le> s \<Longrightarrow> fits rules s b node"
proof (induction r arbitrary: s b node)
  case 0
  then show ?case by simp
next
  case (Suc r)
  then obtain s' where s: "s = Suc s'" "r \<le> s'" by (cases s) auto
  show ?case using Suc s by (auto simp: list_all_iff split: node.splits option.splits)
qed

text \<open>Every registered message has its frame rule, a closed map whose body is field 4.\<close>

definition entry_ok :: "int \<times> string \<Rightarrow> bool" where
  "entry_ok m \<longleftrightarrow> (\<exists>space. map_of default_rules (body_to_frame (snd m)) =
     Some (NMap [(0, False, NLiteral 1), (1, False, NLiteral (fst m)), (2, False, NRef ''id16''),
       (3, False, space), (4, False, NRef (snd m)), (5, False, NLiteral 0)]))
     \<and> fits default_rules 12 False (NRef (body_to_frame (snd m)))
     \<and> \<not> primitive (body_to_frame (snd m)) \<and> body_to_frame (snd m) \<noteq> ''app-id''"

lemma registry_entries_ok: "list_all entry_ok registry_messages"
  unfolding registry_messages_def list.pred_inject
  by (intro conjI TrueI;
      simp add: entry_ok_def rule_lookup primitive_def numeral_eq_Suc)

end
