(* ===== verification/FrameRules.thy ===== *)
theory FrameRules
  imports Frames
begin

text \<open>
  What \<open>validate_frame\<close> accepts, as a declarative predicate \<open>frame_ok\<close> over the protocol schema,
  and what it can raise.
\<close>

section \<open>What validation accepts and raises\<close>

text \<open>The rules of the specification's candidate overlay, one conjunct for each message type.\<close>

definition hello_ok :: "pyval \<Rightarrow> bool" where
  "hello_ok b \<longleftrightarrow> (\<exists>app wires suites. item_at b 0 = Inr (PStr app) \<and> app_id_ok app
     \<and> item_at b 3 = Inr (PList (map PStr wires)) \<and> distinct wires
     \<and> (\<forall>w \<in> set wires. w \<noteq> [] \<and> 0 \<notin> set w)
     \<and> item_at b 4 = Inr (PList (map PInt suites)) \<and> distinct suites)"

definition page_ok :: "pyval \<Rightarrow> int \<Rightarrow> int \<Rightarrow> int \<Rightarrow> bool" where
  "page_ok b items cursor fin \<longleftrightarrow> (\<exists>xs c. item_at b items = Inr (PList xs) \<and> item_at b cursor = Inr c
     \<and> item_at b fin = Inr (PBool (c = PNone)) \<and> (xs = [] \<longrightarrow> c = PNone))"

definition overlay_ok :: "int \<Rightarrow> pyval \<Rightarrow> pyval \<Rightarrow> bool" where
  "overlay_ok code v b \<longleftrightarrow>
     (code = 1 \<longrightarrow> hello_ok b)
   \<and> (code = 10 \<longrightarrow> item_at v 3 = item_at b 0)
   \<and> (code = 13 \<longrightarrow> page_ok b 1 2 3) \<and> (code = 20 \<longrightarrow> page_ok b 2 1 3) \<and> (code = 41 \<longrightarrow> page_ok b 2 3 4)
   \<and> (code = 60 \<longrightarrow> (\<exists>s. item_at b 2 = Inr (PStr s) \<and> 0 \<notin> set s))
   \<and> (code = 255 \<longrightarrow> (\<exists>s. item_at b 1 = Inr (PStr s) \<and> 0 \<notin> set s))"

definition frame_ok :: "pyval \<Rightarrow> bool" where
  "frame_ok v \<longleftrightarrow> (\<exists>code body b. item_at v 1 = Inr (PInt code) \<and> map_of registry_messages code = Some body
     \<and> conforms default_rules (NRef (body_to_frame body)) v
     \<and> item_at v 4 = Inr b \<and> overlay_ok code v b)"

lemma registry_entry: "map_of registry_messages code = Some body \<Longrightarrow> entry_ok (code, body)"
  using registry_entries_ok by (auto simp: list_all_iff dest: map_of_SomeD)

text \<open>On the shipped table the interpreter decides conformance.\<close>

lemma frame_rule:
  assumes "map_of registry_messages code = Some body"
  obtains fs where "map_of default_rules (body_to_frame body) = Some (NMap fs)"
    and "distinct (map fst fs)" and "map_of fs 1 = Some (False, NLiteral code)"
    and "map_of fs 4 = Some (False, NRef body)" and "\<exists>n. map_of fs 3 = Some (False, n)"
    and "fits default_rules 129 False (NMap fs)"
    and "\<And>v. conforms default_rules (NRef (body_to_frame body)) v \<longleftrightarrow> conforms default_rules (NMap fs) v"
proof -
  obtain space where lookup: "map_of default_rules (body_to_frame body) =
      Some (NMap [(0, False, NLiteral 1), (1, False, NLiteral code), (2, False, NRef ''id16''),
       (3, False, space), (4, False, NRef body), (5, False, NLiteral 0)])"
    and fits: "fits default_rules (Suc 11) False (NRef (body_to_frame body))"
    and plain: "\<not> primitive (body_to_frame body)" "body_to_frame body \<noteq> ''app-id''"
    using registry_entry [OF assms] by (auto simp: entry_ok_def)
  let ?fs = "[(0, False, NLiteral 1), (1, False, NLiteral code), (2, False, NRef ''id16''),
       (3, False, space), (4, False, NRef body), (5, False, NLiteral 0)]"
  have "fits default_rules 11 False (NMap ?fs)"
    using fits [unfolded fits.simps node.case] plain lookup by simp
  then have "fits default_rules 129 False (NMap ?fs)" by (rule fits_mono) simp
  then show ?thesis using that [of ?fs] lookup plain by (simp add: conforms_ref)
qed

lemma schema_validate_decides:
  assumes "map_of registry_messages code = Some body"
  shows "schema_validate default_rules (body_to_frame body) v = Inr u
    \<longleftrightarrow> conforms default_rules (NRef (body_to_frame body)) v"
proof -
  obtain fs where "map_of default_rules (body_to_frame body) = Some (NMap fs)"
    "fits default_rules 129 False (NMap fs)"
    "conforms default_rules (NRef (body_to_frame body)) v \<longleftrightarrow> conforms default_rules (NMap fs) v"
    using frame_rule [OF assms] by metis
  then show ?thesis
    by (auto simp: schema_validate_def intro: validate_sound validate_complete)
qed

lemma schema_validate_errors:
  assumes "map_of registry_messages code = Some body"
  shows "raises (shape_error False) (schema_validate default_rules (body_to_frame body) v)"
proof -
  obtain fs where "map_of default_rules (body_to_frame body) = Some (NMap fs)"
    "fits default_rules 129 False (NMap fs)"
    using frame_rule [OF assms] by metis
  then show ?thesis by (simp add: schema_validate_def validate_raises)
qed

text \<open>The primitive rules, and the fields the overlay reads.\<close>

lemma conforms_tstr: "conforms rules (NRef ''tstr'') x \<longleftrightarrow> (\<exists>s. x = PStr s)"
  by (cases x) (auto simp: conforms_ref primitive_def prim_ok_def)

lemma conforms_bstr: "conforms rules (NRef ''bstr'') x \<longleftrightarrow> (\<exists>b. x = PBytes b)"
  by (cases x) (auto simp: conforms_ref primitive_def prim_ok_def)

lemma conforms_bool: "conforms rules (NRef ''bool'') x \<longleftrightarrow> (\<exists>b. x = PBool b)"
  by (cases x) (auto simp: conforms_ref primitive_def prim_ok_def)

lemma conforms_null: "conforms rules (NRef ''null'') x \<longleftrightarrow> x = PNone"
  by (cases x) (auto simp: conforms_ref primitive_def prim_ok_def)

lemma conforms_uint: "conforms rules (NRef ''uint'') x \<longleftrightarrow> (\<exists>i. x = PInt i \<and> 0 \<le> i \<and> i \<le> U64)"
  by (cases x) (auto simp: conforms_ref primitive_def prim_ok_def)

lemma conforms_rule:
  "\<not> primitive name \<Longrightarrow> map_of rules name = Some node \<Longrightarrow> name \<noteq> ''app-id''
    \<Longrightarrow> conforms rules (NRef name) x \<longleftrightarrow> conforms rules node x"
  by (simp add: conforms_ref)

lemmas conforms_prims = conforms_tstr conforms_bstr conforms_bool conforms_null conforms_uint

lemma body_field:
  assumes "conforms default_rules (NRef body) b" and "map_of default_rules body = Some (NMap fs)"
    and "\<not> primitive body" and "map_of fs k = Some (False, child)" and "distinct (map fst fs)"
  shows "\<exists>x. item_at b k = Inr x \<and> conforms default_rules child x"
  using assms by (intro map_field [of _ fs]) (simp_all add: conforms_ref)

lemmas body_fields =
  body_field [of "''hello-body''", OF _ rule_hello_body]
  body_field [of "''space-open-body''", OF _ rule_space_open_body]
  body_field [of "''control-page-body''", OF _ rule_control_page_body]
  body_field [of "''have-body''", OF _ rule_have_body]
  body_field [of "''retain-accept-body''", OF _ rule_retain_accept_body]
  body_field [of "''rpc-call-body''", OF _ rule_rpc_call_body]
  body_field [of "''error-body''", OF _ rule_error_body]

lemma list_of_image: "(\<And>x. x \<in> set xs \<Longrightarrow> \<exists>s. x = f s) \<Longrightarrow> \<exists>ss. xs = map f ss"
proof (induction xs)
  case (Cons x xs)
  then obtain s ss where "x = f s" "xs = map f ss" by force
  then show ?case by (intro exI [of _ "s # ss"]) simp
qed simp

lemma hello_types:
  assumes "conforms default_rules (NRef ''hello-body'') b"
  shows "\<exists>app. item_at b 0 = Inr (PStr app)" and "\<exists>wires. item_at b 3 = Inr (PList (map PStr wires))"
    and "\<exists>suites. item_at b 4 = Inr (PList (map PInt suites))"
proof -
  show "\<exists>app. item_at b 0 = Inr (PStr app)"
    using body_fields(1) [OF assms, of 0 "NRef ''app-id''"]
    by (auto simp: primitive_def conforms_ref [of _ "''app-id''"] rule_app_id conforms_size conforms_prims)
  obtain x where x: "item_at b 3 = Inr x" "conforms default_rules (NArray 1 8 (NRef ''short-text'')) x"
    using body_fields(1) [OF assms, of 3 "NArray 1 8 (NRef ''short-text'')"] by (auto simp: primitive_def)
  then obtain xs where "x = PList xs" "\<And>y. y \<in> set xs \<Longrightarrow> \<exists>s. y = PStr s"
    by (auto simp: conforms_array conforms_ref [of _ "''short-text''"] rule_short_text conforms_size
        conforms_prims primitive_def)
  with x(1) list_of_image show "\<exists>wires. item_at b 3 = Inr (PList (map PStr wires))" by metis
  obtain y where y: "item_at b 4 = Inr y" "conforms default_rules (NArray 1 8 (NRef ''uint'')) y"
    using body_fields(1) [OF assms, of 4 "NArray 1 8 (NRef ''uint'')"] by (auto simp: primitive_def)
  then obtain ys where "y = PList ys" "\<And>z. z \<in> set ys \<Longrightarrow> \<exists>s. z = PInt s"
    by (auto simp: conforms_array conforms_uint)
  with y(1) list_of_image show "\<exists>suites. item_at b 4 = Inr (PList (map PInt suites))" by metis
qed

lemma page_types:
  assumes "conforms default_rules (NRef body) b" and "map_of default_rules body = Some (NMap fs)"
    and "\<not> primitive body" and "distinct (map fst fs)"
    and "map_of fs items = Some (False, NArray lo hi child)" and "map_of fs cursor = Some (False, n)"
    and "map_of fs fin = Some (False, NRef ''bool'')"
  shows "\<exists>xs c d. item_at b items = Inr (PList xs) \<and> item_at b cursor = Inr c \<and> item_at b fin = Inr (PBool d)"
  using body_field [OF assms(1-3,5,4)] body_field [OF assms(1-3,6,4)] body_field [OF assms(1-3,7,4)]
  by (auto simp: conforms_array conforms_prims)

lemma check_page_types:
  assumes "item_at b items = Inr (PList xs)" "item_at b cursor = Inr c" "item_at b fin = Inr (PBool d)"
  shows "check_page (items, cursor, fin) b = Inr () \<longleftrightarrow> page_ok b items cursor fin"
    and "raises wire_error (check_page (items, cursor, fin) b)"
  using assms by (auto simp: check_page_def page_ok_def list_of_def intro: raises_intros)

lemma check_hello_types:
  assumes "item_at b 0 = Inr (PStr app)" "item_at b 3 = Inr (PList (map PStr wires))"
    and "item_at b 4 = Inr (PList (map PInt suites))"
  shows "check_hello b = Inr () \<longleftrightarrow> hello_ok b" and "raises wire_error (check_hello b)"
proof -
  have strs: "mapE str_of (map PStr ws) = Inr ws" for ws
    by (induction ws) (simp_all add: str_of_def)
  have inj: "distinct (map PStr ws) \<longleftrightarrow> distinct ws" "distinct (map PInt ns) \<longleftrightarrow> distinct ns" for ws ns
    by (simp_all add: distinct_map inj_on_def)
  have "map PStr ws = map PStr ws' \<longleftrightarrow> ws = ws'" "map PInt ns = map PInt ns' \<longleftrightarrow> ns = ns'" for ws ws' ns ns'
    by (simp_all add: inj_map_eq_map inj_def)
  then show "check_hello b = Inr () \<longleftrightarrow> hello_ok b"
    using assms by (auto simp: check_hello_def hello_ok_def str_of_def list_of_def strs inj list_all_iff
        res_simps)
  show "raises wire_error (check_hello b)"
    using assms by (simp add: check_hello_def str_of_def list_of_def strs inj raises_intros)
qed

lemma text_field:
  assumes "conforms default_rules (NRef body) b" and "map_of default_rules body = Some (NMap fs)"
    and "\<not> primitive body" and "distinct (map fst fs)" and "map_of fs k = Some (False, NSize (NRef ''tstr'') lo hi)"
  shows "\<exists>s. item_at b k = Inr (PStr s)"
  using body_field [OF assms(1-3,5,4)] by (auto simp: conforms_size conforms_prims)

lemma registry_code_body:
  assumes "map_of registry_messages code = Some body"
  shows "code = 1 \<Longrightarrow> body = ''hello-body''" "code = 10 \<Longrightarrow> body = ''space-open-body''"
    and "code = 13 \<Longrightarrow> body = ''control-page-body''" "code = 20 \<Longrightarrow> body = ''have-body''"
    and "code = 41 \<Longrightarrow> body = ''retain-accept-body''" "code = 60 \<Longrightarrow> body = ''rpc-call-body''"
    and "code = 255 \<Longrightarrow> body = ''error-body''"
  using assms by (simp_all add: registry_messages_def)

text \<open>The overlay checks on a body that conforms to its rule.\<close>

lemma check_body_types:
  assumes reg: "map_of registry_messages code = Some body"
    and b: "conforms default_rules (NRef body) b" and space: "item_at v 3 = Inr s"
  shows "(check_body code v b = Inr () \<longleftrightarrow> overlay_ok code v b) \<and> raises wire_error (check_body code v b)"
proof -
  note bodies = registry_code_body [OF reg]
  consider "code = 1" | "code = 10" | "code = 13" | "code = 20" | "code = 41" | "code = 60" | "code = 255"
    | "code \<notin> {1, 10, 13, 20, 41, 60, 255}" by auto
  then show ?thesis
  proof cases
    case 1
    with b bodies have "conforms default_rules (NRef ''hello-body'') b" by simp
    from hello_types [OF this] show ?thesis using 1
      by (auto simp: check_body_def overlay_ok_def page_fields_def res_simps check_hello_types
          intro!: raises_intros)
  next
    case 2
    then have "\<exists>x. item_at b 0 = Inr x"
      using body_fields(2) [of b 0 "NRef ''id32''"] b bodies by (auto simp: primitive_def)
    then show ?thesis using 2 space
      by (auto simp: check_body_def overlay_ok_def page_fields_def res_simps intro!: raises_intros)
  next
    case 3
    with b bodies have "conforms default_rules (NRef ''control-page-body'') b" by simp
    then have "\<exists>xs c d. item_at b 1 = Inr (PList xs) \<and> item_at b 2 = Inr c \<and> item_at b 3 = Inr (PBool d)"
      by (rule page_types [OF _ rule_control_page_body]) (simp_all add: primitive_def)
    then show ?thesis using 3
      by (auto simp: check_body_def overlay_ok_def page_fields_def check_page_types res_simps
          intro!: raises_intros)
  next
    case 4
    with b bodies have "conforms default_rules (NRef ''have-body'') b" by simp
    then have "\<exists>xs c d. item_at b 2 = Inr (PList xs) \<and> item_at b 1 = Inr c \<and> item_at b 3 = Inr (PBool d)"
      by (rule page_types [OF _ rule_have_body]) (simp_all add: primitive_def)
    then show ?thesis using 4
      by (auto simp: check_body_def overlay_ok_def page_fields_def check_page_types res_simps
          intro!: raises_intros)
  next
    case 5
    with b bodies have "conforms default_rules (NRef ''retain-accept-body'') b" by simp
    then have "\<exists>xs c d. item_at b 2 = Inr (PList xs) \<and> item_at b 3 = Inr c \<and> item_at b 4 = Inr (PBool d)"
      by (rule page_types [OF _ rule_retain_accept_body]) (simp_all add: primitive_def)
    then show ?thesis using 5
      by (auto simp: check_body_def overlay_ok_def page_fields_def check_page_types res_simps
          intro!: raises_intros)
  next
    case 6
    with b bodies have "conforms default_rules (NRef ''rpc-call-body'') b" by simp
    from text_field [OF this rule_rpc_call_body, of 2] show ?thesis using 6
      by (auto simp: check_body_def overlay_ok_def page_fields_def primitive_def nul_in_def res_simps
          intro!: raises_intros)
  next
    case 7
    with b bodies have "conforms default_rules (NRef ''error-body'') b" by simp
    from text_field [OF this rule_error_body, of 1] show ?thesis using 7
      by (auto simp: check_body_def overlay_ok_def page_fields_def primitive_def nul_in_def res_simps
          intro!: raises_intros)
  next
    case 8
    then show ?thesis
      by (auto simp: check_body_def overlay_ok_def page_fields_def intro!: raises_intros)
  qed
qed

lemma dict_get_item: "item_at v k = Inr x \<longleftrightarrow> (\<exists>kvs. v = PDict kvs \<and> dict_get kvs k = Some x)
    \<or> (\<exists>xs. v = PList xs \<and> item_at (PList xs) k = Inr x)"
  by (cases v) (auto simp: item_at_def split: option.splits)

lemma validate_frame_known:
  assumes "v = PDict kvs" "list_all (\<lambda>kv. is_int (fst kv)) kvs" "dict_get kvs 1 = Some (PInt code)"
    and reg: "map_of registry_messages code = Some body"
  shows "(validate_frame v = Inr () \<longleftrightarrow> frame_ok v) \<and> raises wire_error (validate_frame v)"
proof -
  have vf: "validate_frame v = bindE (schema_validate default_rules (body_to_frame body) v) (\<lambda>_.
      bindE (item_at v 4) (check_body code v))"
    using assms by (simp add: validate_frame_def)
  have ok: "frame_ok v \<longleftrightarrow> conforms default_rules (NRef (body_to_frame body)) v
     \<and> (\<exists>b. item_at v 4 = Inr b \<and> overlay_ok code v b)"
    using assms by (auto simp: frame_ok_def item_at_def)
  obtain fs where fs: "distinct (map fst fs)" "map_of fs 4 = Some (False, NRef body)"
      "\<exists>n. map_of fs 3 = Some (False, n)"
      "conforms default_rules (NRef (body_to_frame body)) v \<longleftrightarrow> conforms default_rules (NMap fs) v"
    using frame_rule [OF reg] by metis
  show ?thesis
  proof (cases "conforms default_rules (NRef (body_to_frame body)) v")
    case True
    with fs have "\<exists>s. item_at v 3 = Inr s" "\<exists>b. item_at v 4 = Inr b \<and> conforms default_rules (NRef body) b"
      by (auto dest: map_field)
    then obtain s b where "item_at v 3 = Inr s" and b: "item_at v 4 = Inr b" "conforms default_rules (NRef body) b"
      by blast
    moreover have "schema_validate default_rules (body_to_frame body) v = Inr ()"
      using True by (simp add: schema_validate_decides [OF reg])
    ultimately show ?thesis
      using True check_body_types [OF reg] by (simp add: vf ok)
  next
    case False
    with schema_validate_decides [OF reg] obtain e where "schema_validate default_rules (body_to_frame body) v = Inl e"
      by (metis old.sum.exhaust)
    with False show ?thesis
      using raisesD [OF schema_validate_wire] by (auto simp: vf ok intro!: raises_intros)
  qed
qed

lemma frame_ok_shape:
  assumes "frame_ok v"
  shows "\<exists>kvs code body. v = PDict kvs \<and> list_all (\<lambda>kv. is_int (fst kv)) kvs
    \<and> dict_get kvs 1 = Some (PInt code) \<and> map_of registry_messages code = Some body"
proof -
  obtain code body where one: "item_at v 1 = Inr (PInt code)" and reg: "map_of registry_messages code = Some body"
    and conf: "conforms default_rules (NRef (body_to_frame body)) v"
    using assms by (auto simp: frame_ok_def)
  obtain fs where "conforms default_rules (NMap fs) v"
    using frame_rule [OF reg] conf by metis
  then obtain kvs where "v = PDict kvs" "map_shape fs kvs" by (auto simp: conforms_map)
  with one reg show ?thesis by (auto simp: map_shape_def item_at_def split: option.splits)
qed

lemma validate_frame_cases: "(validate_frame v = Inr () \<longleftrightarrow> frame_ok v) \<and> raises wire_error (validate_frame v)"
proof (cases "\<exists>kvs code body. v = PDict kvs \<and> list_all (\<lambda>kv. is_int (fst kv)) kvs
    \<and> dict_get kvs 1 = Some (PInt code) \<and> map_of registry_messages code = Some body")
  case True
  then show ?thesis using validate_frame_known by blast
next
  case False
  then have "\<not> frame_ok v" using frame_ok_shape by blast
  moreover have "\<exists>c p. validate_frame v = Inl (WireError c p)"
    using False by (auto simp: validate_frame_def split: pyval.split option.split)
  ultimately show ?thesis by (auto simp: raises_Inl)
qed

lemma validate_frame_raises [raises_intros]: "raises wire_error (validate_frame v)"
  using validate_frame_cases by blast

section \<open>Key order is irrelevant\<close>

text \<open>Validation does not depend on the order of a dictionary's items, so that a frame and the
  value a decoder gives back for it are accepted together.\<close>

lemma map_of_sort_key:
  "distinct (map fst kvs) \<Longrightarrow> map_of (sort_key f kvs) = map_of kvs"
  by (intro map_of_inject_set [THEN iffD2]) (simp_all add: distinct_map)

lemma item_at_canon:
  assumes "encodable v" and "item_at v k = Inr x"
  shows "item_at (canon v) k = Inr (canon x)"
proof (cases v)
  case (PDict kvs)
  let ?m = "map (\<lambda>kv. (fst kv, canon (snd kv))) kvs"
  have "distinct (map fst ?m)" using assms(1) PDict by (simp add: comp_def)
  then have "map_of (sort_key (\<lambda>kv. int_of (fst kv)) ?m) = map_of ?m"
    by (rule map_of_sort_key)
  moreover have "map_of ?m (PInt k) = map_option canon (map_of kvs (PInt k))"
    by (induction kvs) auto
  ultimately show ?thesis using assms(2) PDict
    by (auto simp: item_at_def dict_get_def split: option.splits)
next
  case (PList vs)
  then show ?thesis using assms(2)
    by (auto simp: item_at_def Let_def nth_map split: if_splits)
qed (use assms in \<open>auto simp: item_at_def\<close>)

lemma prim_ok_canon [simp]: "prim_ok name (canon v) = prim_ok name v"
  by (cases v) (auto simp: prim_ok_def)

lemma has_nul_canon [simp]: "has_nul (canon v) = has_nul v"
  by (cases v) (auto simp: has_nul_def)

lemma py_size_canon [simp]: "py_size (canon v) = py_size v"
  by (cases v) (auto simp: py_size_def)

lemma canon_PNone [simp]: "canon v = PNone \<longleftrightarrow> v = PNone"
  by (cases v) auto

lemma dict_get_None: "dict_get kvs k = None \<longleftrightarrow> PInt k \<notin> fst ` set kvs"
  by (auto simp: dict_get_def map_of_eq_None_iff)

lemma map_shape_keys:
  assumes "fst ` set kvs = fst ` set kvs'"
  shows "map_shape fs kvs \<longleftrightarrow> map_shape fs kvs'"
proof -
  have keys: "list_all (\<lambda>kv. P (fst kv)) kvs \<longleftrightarrow> list_all (\<lambda>kv. P (fst kv)) kvs'" for P
    using arg_cong [OF assms, of "\<lambda>S. \<forall>x \<in> S. P x"] by (simp add: list_all_iff)
  show ?thesis
    by (simp only: map_shape_def keys [of is_int] keys [of "\<lambda>k. key_field fs k \<noteq> None"] dict_get_None assms)
qed

lemma conforms_canon: "conforms rules node v \<Longrightarrow> encodable v \<Longrightarrow> conforms rules node (canon v)"
proof (induction rule: conforms.induct)
  case (map fields kvs)
  have "map_shape fields (sort_key (\<lambda>kv. int_of (fst kv)) (map (\<lambda>kv. (fst kv, canon (snd kv))) kvs))"
    using map.hyps(1) by (subst map_shape_keys [of _ kvs]) (auto simp: image_image)
  with map show ?case by (auto intro!: conforms.map simp: list_all_iff)
next
  case (array lo xs hi child)
  then show ?case by (auto intro!: conforms.array simp: list_all_iff)
qed (auto intro: conforms.intros)

lemma encodable_item:
  assumes "encodable v" and "item_at v k = Inr x"
  shows "encodable x"
proof (cases v)
  case (PDict kvs)
  with assms(2) have "(PInt k, x) \<in> set kvs"
    by (auto simp: item_at_def dict_get_def split: option.splits dest: map_of_SomeD)
  with assms(1) PDict show ?thesis by (auto simp: list_all_iff)
next
  case (PList vs)
  with assms show ?thesis by (auto simp: item_at_def Let_def list_all_iff split: if_splits)
qed (use assms in \<open>auto simp: item_at_def\<close>)

lemma hello_ok_canon:
  assumes "encodable b" and "hello_ok b"
  shows "hello_ok (canon b)"
proof -
  obtain app wires suites where h: "item_at b 0 = Inr (PStr app)" "app_id_ok app"
     "item_at b 3 = Inr (PList (map PStr wires))" "distinct wires" "\<forall>w \<in> set wires. w \<noteq> [] \<and> 0 \<notin> set w"
     "item_at b 4 = Inr (PList (map PInt suites))" "distinct suites"
    using assms(2) by (auto simp: hello_ok_def)
  note c = item_at_canon [OF assms(1)]
  from c [OF h(1)] c [OF h(3)] c [OF h(6)] h show ?thesis
    unfolding hello_ok_def by (simp add: comp_def) blast
qed

lemma page_ok_canon:
  assumes "encodable b" and "page_ok b i c d"
  shows "page_ok (canon b) i c d"
proof -
  obtain xs y where p: "item_at b i = Inr (PList xs)" "item_at b c = Inr y"
     "item_at b d = Inr (PBool (y = PNone))" "xs = [] \<longrightarrow> y = PNone"
    using assms(2) by (auto simp: page_ok_def)
  note c = item_at_canon [OF assms(1)]
  from c [OF p(1)] c [OF p(2)] c [OF p(3)] p(4) show ?thesis
    by (simp add: page_ok_def)
qed

lemma overlay_ok_canon:
  assumes "encodable v" "encodable b" and "overlay_ok code v b"
    and "code = 10 \<Longrightarrow> \<exists>s. item_at b 0 = Inr s"
  shows "overlay_ok code (canon v) (canon b)"
  using assms item_at_canon [OF assms(1)] item_at_canon [OF assms(2)]
  by (auto simp: overlay_ok_def hello_ok_canon page_ok_canon)

lemma frame_ok_canon:
  assumes "encodable v" and "frame_ok v"
  shows "frame_ok (canon v)"
proof -
  obtain code body b where fr: "item_at v 1 = Inr (PInt code)" "map_of registry_messages code = Some body"
    "conforms default_rules (NRef (body_to_frame body)) v" "item_at v 4 = Inr b" "overlay_ok code v b"
    using assms(2) by (auto simp: frame_ok_def)
  obtain fs where "conforms default_rules (NMap fs) v" "distinct (map fst fs)"
      "map_of fs 4 = Some (False, NRef body)" using frame_rule [OF fr(2)] fr(3) by metis
  then have "conforms default_rules (NRef body) b" using map_field fr(4) by fastforce
  then have "\<exists>s. item_at b 0 = Inr s" if "code = 10"
    using body_fields(2) [of b 0 "NRef ''id32''"] registry_code_body [OF fr(2)] that
    by (auto simp: primitive_def)
  with fr assms(1) have "overlay_ok code (canon v) (canon b)"
    by (intro overlay_ok_canon) (auto intro: encodable_item)
  moreover have "item_at (canon v) 1 = Inr (PInt code)"
    using item_at_canon [OF assms(1) fr(1)] by simp
  ultimately show ?thesis
    using fr conforms_canon [OF fr(3) assms(1)] item_at_canon [OF assms(1) fr(4)]
    unfolding frame_ok_def by blast
qed

lemma frame_body:
  assumes "frame_ok v" and "item_at v 1 = Inr (PInt code)"
  obtains body b where "map_of registry_messages code = Some body" "item_at v 4 = Inr b"
    "conforms default_rules (NRef body) b" "overlay_ok code v b" "\<exists>s. item_at v 3 = Inr s"
proof -
  obtain body b where fr: "map_of registry_messages code = Some body" "item_at v 4 = Inr b"
      "conforms default_rules (NRef (body_to_frame body)) v" "overlay_ok code v b"
    using assms by (auto simp: frame_ok_def)
  obtain fs where fs: "conforms default_rules (NMap fs) v" "distinct (map fst fs)"
      "map_of fs 4 = Some (False, NRef body)" "\<exists>n. map_of fs 3 = Some (False, n)"
    using frame_rule [OF fr(1)] fr(3) by metis
  have "conforms default_rules (NRef body) b" using map_field [OF fs(1,3,2)] fr(2) by simp
  moreover have "\<exists>s. item_at v 3 = Inr s" using map_field [OF fs(1) _ fs(2)] fs(4) by blast
  ultimately show ?thesis using that fr by blast
qed

text \<open>C6. A frame is accepted exactly if it is a map with a registered message code that conforms to the
  protocol schema's rule for that message and satisfies the overlay (well-formed application identifier,
  no duplicate offers, Space binding, consistent page state, no NUL in handler and phase). On any other
  value, of whatever shape, validation ends with a WireError: it never fails with a missing key, an index
  or a type error.\<close>

theorem validate_frame_spec:
  "(validate_frame v = Inr () \<longleftrightarrow> frame_ok v)
   \<and> (validate_frame v = Inr () \<or> (\<exists>code path. validate_frame v = Inl (WireError code path)))"
  using validate_frame_cases [of v]
  by (cases "validate_frame v") (auto simp: raises_def wire_error_def split: exn.splits)

end
