(* ===== verification/Framing.thy ===== *)
theory Framing
  imports FrameRules
begin

text \<open>
  Frame boundaries, \<^verbatim>\<open>par_wire/framing.py\<close>: \<open>encode_frame\<close>, \<open>decode_frame\<close> and the
  incremental \<open>FrameReader\<close> with its buffer, partial-frame deadline and closed state.

  A clock reading is \<open>Some t\<close> for an integer number of time units and \<open>None\<close> for a value that the
  type and finiteness test of \<^verbatim>\<open>feed\<close> refuses (rounding of float readings is not modelled). \<open>feed\<close>
  returns the reader together with its result, so that what an exception leaves behind is
  part of the model.
\<close>

section \<open>Model\<close>

definition MAX_FRAME :: nat where "MAX_FRAME = 1048576"

definition encode_frame :: "pyval \<Rightarrow> bytes res" where
  "encode_frame frame =
     bindE (validate_frame frame) (\<lambda>_.
     bindE (encode frame MAX_BYTES MAX_NODES) (\<lambda>body.
       Inr (to_bytes 4 (length body) @ body)))"

definition decode_frame :: "bytes \<Rightarrow> pyval res" where
  "decode_frame w =
     (if length w < 4 then wire ''TRUNCATED''
      else let n = from_bytes (take 4 w) in
        if \<not> (1 \<le> n \<and> n \<le> MAX_FRAME) \<or> length w \<noteq> 4 + n then wire ''LENGTH''
        else bindE (decode (drop 4 w) MAX_BYTES MAX_NODES) (\<lambda>v.
             bindE (validate_frame v) (\<lambda>_. Inr v)))"

record reader =
  timeout :: int
  max_frames :: nat
  buffer :: bytes
  len :: "nat option"
  started :: "int option"
  last_now :: "int option"
  closed :: bool

definition new_reader :: "int \<Rightarrow> int \<Rightarrow> reader res" where
  "new_reader t mf =
     (if t \<le> 0 then Inl ValueError
      else if \<not> (1 \<le> mf \<and> mf \<le> 1024) then Inl ValueError
      else Inr \<lparr>timeout = t, max_frames = nat mf, buffer = [], len = None, started = None,
                last_now = None, closed = False\<rparr>)"

definition close_reader :: "reader \<Rightarrow> reader" where
  "close_reader r = r\<lparr>closed := True, buffer := [], len := None, started := None\<rparr>"

text \<open>The bytes the current header or body waits for.\<close>

definition target :: "nat option \<Rightarrow> nat" where
  "target n = (case n of None \<Rightarrow> 4 | Some k \<Rightarrow> k)"

type_synonym stream = "bytes \<times> nat option \<times> int option"

text \<open>The loop over a chunk: buffer, expected length and start time, the frames so far, and the
  unread rest of the chunk.\<close>

function (sequential) feed_loop :: "nat \<Rightarrow> int \<Rightarrow> stream \<Rightarrow> pyval list \<Rightarrow> bytes
    \<Rightarrow> (stream \<times> pyval list) res" where
  "feed_loop mf now st out [] = Inr (st, out)"
| "feed_loop mf now (buf, n, start) out (d # ds) =
     (if length out \<ge> mf then wire ''RESOURCE_LIMIT''
      else
        let data = d # ds;
            start = (case start of None \<Rightarrow> Some now | Some s \<Rightarrow> Some s);
            count = min (target n - length buf) (length data);
            buf = buf @ take count data;
            rest = drop count data in
        if length buf < target n then Inr ((buf, n, start), out)
        else (case n of
          None \<Rightarrow>
            let k = from_bytes buf in
            if \<not> (1 \<le> k \<and> k \<le> MAX_FRAME) then wire ''LENGTH''
            else feed_loop mf now ([], Some k, start) out rest
        | Some _ \<Rightarrow>
            bindE (decode buf MAX_BYTES MAX_NODES) (\<lambda>v.
            bindE (validate_frame v) (\<lambda>_.
              feed_loop mf now ([], None, None) (out @ [v]) rest))))"
  by pat_completeness auto

termination
proof (relation "measure (\<lambda>(mf, now, (buf, n, start), out, rest).
    2 * length rest + (if target n \<le> length buf then 1 else 0))", goal_cases)
  case 1
  then show ?case by simp
next
  case (2 mf now buf n start out d ds)
  then show ?case by (cases "4 \<le> length buf") (auto simp: target_def min_def)
next
  case (3 mf now buf n start out d ds)
  then show ?case by (auto simp: target_def min_def split: if_splits)
qed

definition feed :: "reader \<Rightarrow> bytes \<Rightarrow> int option \<Rightarrow> reader \<times> pyval list res" where
  "feed r data now =
     (if closed r then (r, wire ''CLOSED'')
      else case now of
        None \<Rightarrow> (close_reader r, wire ''CLOCK'')
      | Some t \<Rightarrow>
          if (case last_now r of None \<Rightarrow> False | Some l \<Rightarrow> t < l) then (close_reader r, wire ''CLOCK'')
          else
            let r = r\<lparr>last_now := Some t\<rparr> in
            if (case started r of None \<Rightarrow> False | Some s \<Rightarrow> t - s \<ge> timeout r)
              then (close_reader r, wire ''TIMEOUT'')
            else if length data > MAX_FRAME + 4 then (close_reader r, wire ''RESOURCE_LIMIT'')
            else case feed_loop (max_frames r) t (buffer r, len r, started r) [] data of
              Inl e \<Rightarrow> (close_reader r, Inl e)
            | Inr ((buf, n, start), out) \<Rightarrow> (r\<lparr>buffer := buf, len := n, started := start\<rparr>, Inr out))"

definition finish :: "reader \<Rightarrow> reader \<times> unit res" where
  "finish r =
     (if closed r then (r, wire ''CLOSED'')
      else (close_reader r,
        if buffer r \<noteq> [] \<or> len r \<noteq> None then wire ''TRUNCATED'' else Inr ()))"

section \<open>Whole frames\<close>

definition frame_wire :: "pyval \<Rightarrow> bytes" where
  "frame_wire v = to_bytes 4 (length (cbor v)) @ cbor v"

definition frame_value :: "pyval \<Rightarrow> bool" where
  "frame_value v \<longleftrightarrow> frame_ok v \<and> encodable v \<and> cheight v \<le> Suc MAX_DEPTH \<and> cnodes v \<le> MAX_NODES
     \<and> int (length (cbor (canon v))) \<le> MAX_BYTES"

lemma default_budget [simp]: "budget_ok MAX_BYTES MAX_NODES"
  by (simp add: budget_ok_def MAX_BYTES_def MAX_NODES_def)

lemma validate_frame_ok: "validate_frame v = Inr u \<longleftrightarrow> frame_ok v"
  using validate_frame_cases [of v] by simp

lemma encode_frame_iff:
  "wf_py v \<Longrightarrow> encode_frame v = Inr w \<longleftrightarrow> frame_value v \<and> w = frame_wire (canon v)"
  by (auto simp: encode_frame_def frame_value_def frame_wire_def encode_iff validate_frame_ok res_simps)

lemma length_cbor_pos: "canonical v \<Longrightarrow> 1 \<le> length (cbor v)"
  using cbor_nonempty [OF canonical_encodable, of v] by (cases "cbor v") auto

lemma frame_length:
  assumes "int (length (cbor v)) \<le> MAX_BYTES"
  shows "from_bytes (to_bytes 4 (length (cbor v))) = length (cbor v)" and "length (cbor v) \<le> MAX_FRAME"
  using assms by (simp_all add: MAX_BYTES_def MAX_FRAME_def from_to_bytes)

lemma decode_frame_iff:
  "decode_frame w = Inr v \<longleftrightarrow> canonical v \<and> frame_value v \<and> w = frame_wire v"
proof
  assume d: "decode_frame w = Inr v"
  let ?n = "from_bytes (take 4 w)"
  from d have "4 \<le> length w" "length w = 4 + ?n" "decode (drop 4 w) MAX_BYTES MAX_NODES = Inr v" "frame_ok v"
    by (auto simp: decode_frame_def Let_def res_simps validate_frame_ok split: if_splits)
  moreover from this have "take 4 w = to_bytes 4 (length (drop 4 w))"
    by (simp add: to_from_bytes)
  then have "w = to_bytes 4 (length (drop 4 w)) @ drop 4 w"
    by (metis append_take_drop_id)
  ultimately show "canonical v \<and> frame_value v \<and> w = frame_wire v"
    by (simp add: decode_iff frame_value_def frame_wire_def canonical_encodable)
next
  assume r: "canonical v \<and> frame_value v \<and> w = frame_wire v"
  then have "int (length (cbor v)) \<le> MAX_BYTES" by (auto simp: frame_value_def)
  moreover have "decode (cbor v) MAX_BYTES MAX_NODES = Inr v" "validate_frame v = Inr ()"
    using r by (auto simp: frame_value_def validate_frame_ok decode_iff)
  ultimately show "decode_frame w = Inr v"
    using frame_length [of v] length_cbor_pos [of v] r
    by (simp add: decode_frame_def frame_wire_def Let_def)
qed

lemma frame_value_canon: "frame_value v \<Longrightarrow> frame_value (canon v) \<and> canonical (canon v)"
  by (simp add: frame_value_def frame_ok_canon canonical_canon_enc)

text \<open>A concrete frame, the cancellation of an RPC, on which the theorems are exercised.\<close>

definition cancel_frame :: pyval where
  "cancel_frame = PDict [(PInt 0, PInt 1), (PInt 1, PInt 62), (PInt 2, PBytes (replicate 16 1)),
     (PInt 3, PBytes (replicate 32 2)), (PInt 4, PDict [(PInt 0, PBytes (replicate 16 3))]), (PInt 5, PInt 0)]"

lemma cancel_frame_canonical: "canonical cancel_frame"
  by (simp add: cancel_frame_def U64_def)

lemma cancel_frame_valid: "validate_frame cancel_frame = Inr ()"
  by (simp add: validate_frame_def cancel_frame_def is_int_def dict_get_def registry_messages_def
      schema_validate_def rule_lookup numeral_eq_Suc primitive_def prim_ok_def map_shape_def key_field_def
      field_of_def py_size_def item_at_def check_body_def page_fields_def ex_bool_eq)

lemma length_cancel_frame: "length (cbor cancel_frame) = 81"
  by (simp add: cancel_frame_def nhead_def)

lemma cancel_frame_value: "frame_value cancel_frame"
proof -
  have "cheight cancel_frame \<le> Suc MAX_DEPTH" "cnodes cancel_frame \<le> MAX_NODES"
    by (simp_all add: cancel_frame_def MAX_DEPTH_def MAX_NODES_def)
  then show ?thesis
    using cancel_frame_canonical cancel_frame_valid length_cancel_frame
    by (simp add: frame_value_def canonical_encodable validate_frame_ok MAX_BYTES_def)
qed

lemma encode_cancel_frame: "encode_frame cancel_frame = Inr (frame_wire cancel_frame)"
  using cancel_frame_value cancel_frame_canonical by (simp add: encode_frame_iff)

definition two_chunks :: "(bytes \<times> int) list" where
  "two_chunks = [(take 10 (frame_wire cancel_frame), 100), (drop 10 (frame_wire cancel_frame), 104)]"

text \<open>A frame that the encoder accepts is decoded to the same frame (dictionaries in
  ascending key order), and a frame that the decoder accepts is the encoding of its value: frame
  boundaries, length prefix and validation agree in both directions.\<close>

theorem frame_roundtrip:
  "(wf_py v \<and> encode_frame v = Inr w \<longrightarrow> decode_frame w = Inr (canon v))
   \<and> (decode_frame w = Inr u \<longrightarrow> encode_frame u = Inr w)"
  using frame_value_canon by (auto simp: encode_frame_iff decode_frame_iff)

theorem frame_roundtrip_witness: "decode_frame (frame_wire cancel_frame) = Inr cancel_frame"
  using frame_roundtrip [of cancel_frame "frame_wire cancel_frame" cancel_frame] encode_cancel_frame
    cancel_frame_canonical by simp

section \<open>Reading a whole stream\<close>

text \<open>The reference for the incremental reader: the one-shot \<open>decode_frame\<close> applied frame after
  frame to a complete byte string, without buffer, clock or budgets. The result is the frames
  before the first error or before the incomplete frame at the end, and that error or rest.\<close>

function parse_frames :: "bytes \<Rightarrow> pyval list \<times> bytes res" where
  "parse_frames bs =
     (if length bs < 4 then ([], Inr bs)
      else let n = from_bytes (take 4 bs) in
        if \<not> (1 \<le> n \<and> n \<le> MAX_FRAME) then ([], wire ''LENGTH'')
        else if length bs < 4 + n then ([], Inr bs)
        else case decode_frame (take (4 + n) bs) of
          Inl e \<Rightarrow> ([], Inl e)
        | Inr v \<Rightarrow> apfst (Cons v) (parse_frames (drop (4 + n) bs)))"
  by pat_completeness auto

termination
  by (relation "measure length") auto

declare parse_frames.simps [simp del]

abbreviation frames_in :: "bytes \<Rightarrow> nat" where
  "frames_in bs \<equiv> length (fst (parse_frames bs))"

lemma parse_empty [simp]: "parse_frames [] = ([], Inr [])"
  by (simp add: parse_frames.simps)

lemma apfst_append_Nil [simp]: "apfst ((@) []) p = p"
  by (cases p) simp

lemma parse_more:
  "parse_frames (bs @ ys) = (case parse_frames bs of
      (fs, Inl e) \<Rightarrow> (fs, Inl e)
    | (fs, Inr rest) \<Rightarrow> apfst ((@) fs) (parse_frames (rest @ ys)))"
proof (induction bs rule: parse_frames.induct)
  case (1 bs)
  let ?n = "from_bytes (take 4 bs)"
  consider "length bs < 4" | "4 \<le> length bs" "\<not> (1 \<le> ?n \<and> ?n \<le> MAX_FRAME)"
    | "4 \<le> length bs" "1 \<le> ?n \<and> ?n \<le> MAX_FRAME" "length bs < 4 + ?n"
    | "4 \<le> length bs" "1 \<le> ?n \<and> ?n \<le> MAX_FRAME" "4 + ?n \<le> length bs" by linarith
  then show ?case
  proof cases
    case 4
    then have f: "parse_frames (bs @ x) = (case decode_frame (take (4 + ?n) bs) of
        Inl e \<Rightarrow> ([], Inl e) | Inr v \<Rightarrow> apfst (Cons v) (parse_frames (drop (4 + ?n) bs @ x)))" for x
      by (subst parse_frames.simps) (simp add: Let_def cong: sum.case_cong)
    show ?thesis
    proof (cases "decode_frame (take (4 + ?n) bs)")
      case (Inl e)
      then show ?thesis using f [of ys] f [of "[]"] by simp
    next
      case (Inr v)
      with 4 have "parse_frames (drop (4 + ?n) bs @ ys) = (case parse_frames (drop (4 + ?n) bs) of
          (fs, Inl e) \<Rightarrow> (fs, Inl e) | (fs, Inr rest) \<Rightarrow> apfst ((@) fs) (parse_frames (rest @ ys)))"
        using 1 [OF _ refl, of v] by (simp del: parse_frames.simps)
      then show ?thesis using f [of ys] f [of "[]"] Inr
        by (simp add: apfst_def map_prod_def split: prod.split sum.split)
    qed
  next
    case 1
    then show ?thesis by (simp add: parse_frames.simps [of bs])
  next
    case 2
    then show ?thesis by (subst (1 2) parse_frames.simps) (simp add: Let_def)
  next
    case 3
    then show ?thesis by (simp add: parse_frames.simps [of bs] Let_def)
  qed
qed

section \<open>The incremental reader\<close>

text \<open>The bytes of a frame that is not complete yet, and the invariant of the reader's stream state.\<close>

definition pending :: "stream \<Rightarrow> bytes" where
  "pending st = (case st of (buf, n, _) \<Rightarrow> (case n of None \<Rightarrow> buf | Some k \<Rightarrow> to_bytes 4 k @ buf))"

definition stream_ok :: "stream \<Rightarrow> bool" where
  "stream_ok st \<longleftrightarrow> (case st of (buf, n, start) \<Rightarrow> length buf < target n
     \<and> (case n of None \<Rightarrow> True | Some k \<Rightarrow> 1 \<le> k \<and> k \<le> MAX_FRAME)
     \<and> (start = None \<longleftrightarrow> buf = [] \<and> n = None))"

definition frame_seq :: "pyval list \<Rightarrow> bool" where
  "frame_seq fs \<longleftrightarrow> (\<forall>v \<in> set fs. canonical v \<and> frame_value v)"

abbreviation frames_wire :: "pyval list \<Rightarrow> bytes" where
  "frames_wire fs \<equiv> concat (map frame_wire fs)"

text \<open>One round of the loop, by what the chunk completes: nothing, a header, or a frame.\<close>

abbreviation start_at :: "int option \<Rightarrow> int \<Rightarrow> int option" where
  "start_at start now \<equiv> (case start of None \<Rightarrow> Some now | Some s \<Rightarrow> Some s)"

lemma take_fill:
  assumes "length buf < t" and "t \<le> length (buf @ rest)"
  shows "buf @ take (min (t - length buf) (length rest)) rest = take t (buf @ rest)"
    and "drop (min (t - length buf) (length rest)) rest = drop t (buf @ rest)"
proof -
  have "min (t - length buf) (length rest) = t - length buf" using assms by simp
  then show "buf @ take (min (t - length buf) (length rest)) rest = take t (buf @ rest)"
    and "drop (min (t - length buf) (length rest)) rest = drop t (buf @ rest)"
    using assms(1) by simp_all
qed

lemma loop_budget: "rest \<noteq> [] \<Longrightarrow> mf \<le> length out \<Longrightarrow> feed_loop mf now st out rest = wire ''RESOURCE_LIMIT''"
  by (cases st; cases rest) auto

lemma loop_short:
  assumes "rest \<noteq> []" "length out < mf" "length (buf @ rest) < target n"
  shows "feed_loop mf now (buf, n, start) out rest = Inr ((buf @ rest, n, start_at start now), out)"
  using assms by (cases rest) (simp_all add: Let_def min_def)

lemma loop_header:
  assumes "rest \<noteq> []" "length out < mf" "length buf < 4" "4 \<le> length (buf @ rest)"
  shows "feed_loop mf now (buf, None, start) out rest =
    (let k = from_bytes (take 4 (buf @ rest)) in
     if \<not> (1 \<le> k \<and> k \<le> MAX_FRAME) then wire ''LENGTH''
     else feed_loop mf now ([], Some k, start_at start now) out (drop 4 (buf @ rest)))"
proof -
  obtain d ds where rest: "rest = d # ds" using assms(1) by (cases rest) auto
  have "target None = 4" by (simp add: target_def)
  moreover have "\<not> length (take 4 (buf @ rest)) < 4" using assms(4) by simp
  ultimately show ?thesis
    unfolding rest feed_loop.simps(2)
    using assms(2) take_fill [OF assms(3,4), unfolded rest] rest
    by (simp only: Let_def option.case if_False linorder_not_less [symmetric] not_True_eq_False)
qed

lemma loop_frame:
  assumes "rest \<noteq> []" "length out < mf" "length buf < k" "k \<le> length (buf @ rest)"
  shows "feed_loop mf now (buf, Some k, start) out rest =
    bindE (decode (take k (buf @ rest)) MAX_BYTES MAX_NODES) (\<lambda>v.
    bindE (validate_frame v) (\<lambda>_. feed_loop mf now ([], None, None) (out @ [v]) (drop k (buf @ rest))))"
proof -
  obtain d ds where rest: "rest = d # ds" using assms(1) by (cases rest) auto
  have "target (Some k) = k" by (simp add: target_def)
  moreover have "\<not> length (take k (buf @ rest)) < k" using assms(4) by simp
  ultimately show ?thesis
    unfolding rest feed_loop.simps(2)
    using assms(2) take_fill [OF assms(3,4), unfolded rest] rest
    by (simp only: Let_def option.case if_False linorder_not_less [symmetric] not_True_eq_False)
qed

declare feed_loop.simps(2) [simp del]

lemma stream_ok_idle [simp]: "stream_ok ([], None, None)"
  by (simp add: stream_ok_def target_def)

lemma pending_idle [simp]: "pending ([], None, start) = []"
  by (simp add: pending_def)

lemma to_bytes_eq_Nil [simp]: "to_bytes w n = [] \<longleftrightarrow> w = 0"
  by (metis length_to_bytes length_0_conv)

lemma pending_Nil: "stream_ok (buf, n, start) \<Longrightarrow> pending (buf, n, start) = [] \<longleftrightarrow> buf = [] \<and> n = None"
  by (auto simp: pending_def split: option.splits)

lemma pending_bound: "stream_ok st \<Longrightarrow> length (pending st) < MAX_FRAME + 4"
  by (auto simp: pending_def stream_ok_def target_def MAX_FRAME_def split: option.splits)

text \<open>The reference on the bytes of an incomplete frame and on a complete one.\<close>

lemma length_prefix: "k \<le> MAX_FRAME \<Longrightarrow> from_bytes (to_bytes 4 k) = k"
  by (simp add: from_to_bytes MAX_FRAME_def)

lemma parse_pending: "stream_ok st \<Longrightarrow> parse_frames (pending st) = ([], Inr (pending st))"
  by (subst parse_frames.simps)
    (auto simp: stream_ok_def pending_def target_def length_prefix Let_def split: option.splits)

lemma parse_frame:
  assumes "1 \<le> k" "k \<le> MAX_FRAME" "length body = k"
  shows "parse_frames (to_bytes 4 k @ body @ rest) =
    (case bindE (decode body MAX_BYTES MAX_NODES) (\<lambda>v. bindE (validate_frame v) (\<lambda>_. Inr v)) of
       Inl e \<Rightarrow> ([], Inl e) | Inr v \<Rightarrow> apfst (Cons v) (parse_frames rest))"
  using assms by (subst parse_frames.simps) (simp add: Let_def length_prefix decode_frame_def cong: sum.case_cong)

lemma parse_wire: "canonical v \<Longrightarrow> frame_value v \<Longrightarrow> parse_frames (frame_wire v @ rest) = apfst (Cons v) (parse_frames rest)"
proof -
  assume v: "canonical v" "frame_value v"
  then have "decode (cbor v) MAX_BYTES MAX_NODES = Inr v" "validate_frame v = Inr ()"
    by (auto simp: frame_value_def validate_frame_ok decode_iff)
  moreover have "1 \<le> length (cbor v)" "length (cbor v) \<le> MAX_FRAME"
    using v length_cbor_pos frame_length(2) [of v] by (simp_all add: frame_value_def)
  ultimately show ?thesis
    using parse_frame [of "length (cbor v)" "cbor v" rest] by (simp add: frame_wire_def)
qed

lemma parse_wires: "frame_seq fs \<Longrightarrow> parse_frames (frames_wire fs) = (fs, Inr [])"
  by (induction fs) (simp_all add: frame_seq_def parse_wire)

text \<open>The loop over one chunk reads what the reference reads, except that it stops when the
  batch is full.\<close>

lemma loop_parse:
  assumes "stream_ok st"
  shows "case feed_loop mf now st out data of
      Inr (st', out') \<Rightarrow> stream_ok st' \<and> (snd (snd st') = None \<or> snd (snd st') = Some now \<or> snd (snd st') = snd (snd st))
        \<and> (\<exists>vs. out' = out @ vs \<and> parse_frames (pending st @ data) = (vs, Inr (pending st')))
    | Inl e \<Rightarrow> snd (parse_frames (pending st @ data)) = Inl e
        \<or> e = WireError ''RESOURCE_LIMIT'' [] \<and> mf \<le> length out + frames_in (pending st @ data)"
  using assms
proof (induction "length data" arbitrary: st out data rule: less_induct)
  case less
  obtain buf n start where st: "st = (buf, n, start)" by (cases st)
  have ok: "length buf < target n" using less.prems st by (simp add: stream_ok_def)
  consider "data = []" | "data \<noteq> []" "mf \<le> length out"
    | "data \<noteq> []" "length out < mf" "length (buf @ data) < target n"
    | "data \<noteq> []" "length out < mf" "n = None" "4 \<le> length (buf @ data)"
    | k where "data \<noteq> []" "length out < mf" "n = Some k" "k \<le> length (buf @ data)"
    by (cases n; cases "length (buf @ data) < target n"; cases "length out < mf") (auto simp: target_def)
  then show ?case
  proof cases
    case 1
    then show ?thesis using less.prems by (simp add: parse_pending)
  next
    case 2
    then show ?thesis by (simp add: loop_budget)
  next
    case 3
    let ?st = "(buf @ data, n, start_at start now)"
    have "stream_ok ?st" "pending st @ data = pending ?st"
      using less.prems 3 st by (auto simp: stream_ok_def pending_def split: option.splits)
    then show ?thesis using loop_short [OF 3] st by (auto simp: parse_pending split: option.splits)
  next
    case 4
    let ?k = "from_bytes (take 4 (buf @ data))" and ?rest = "drop 4 (buf @ data)"
    have short: "length buf < 4" using ok 4 by (simp add: target_def)
    note loop = loop_header [OF 4(1,2) short 4(4), of now start, folded st [unfolded 4(3)]]
    have whole: "pending st @ data = buf @ data" using st 4 by (simp add: pending_def)
    show ?thesis
    proof (cases "1 \<le> ?k \<and> ?k \<le> MAX_FRAME")
      case True
      let ?st = "([], Some ?k, start_at start now)"
      have "to_bytes 4 ?k = take 4 (buf @ data)" using 4(4) by (intro to_from_bytes) simp
      then have "pending ?st @ ?rest = pending st @ data"
        unfolding whole by (simp only: pending_def prod.case option.case append_Nil2 append_take_drop_id)
      moreover have "stream_ok ?st"
        using True by (simp add: stream_ok_def target_def split: option.split)
      moreover have "length ?rest < length data" using short 4(4) by simp
      ultimately show ?thesis
        using less.hyps [of ?rest ?st out] loop True st by (auto simp: Let_def split: sum.splits option.splits)
    next
      case False
      then have "parse_frames (buf @ data) = ([], wire ''LENGTH'')"
        using 4(4) by (subst parse_frames.simps) (auto simp: Let_def)
      then show ?thesis using loop False whole by (simp add: Let_def)
    qed
  next
    case (5 k)
    let ?buf = "take k (buf @ data)" and ?rest = "drop k (buf @ data)"
    have short: "length buf < k" "1 \<le> k" "k \<le> MAX_FRAME"
      using less.prems 5 st by (simp_all add: target_def stream_ok_def)
    note loop = loop_frame [OF 5(1,2) short(1) 5(4), of now start, folded st [unfolded 5(3)]]
    have "pending st @ data = to_bytes 4 k @ ?buf @ ?rest"
      unfolding append_take_drop_id using st 5(3) by (simp add: pending_def)
    moreover have "length ?buf = k" using 5(4) by simp
    ultimately have parse: "parse_frames (pending st @ data) =
        (case bindE (decode ?buf MAX_BYTES MAX_NODES) (\<lambda>v. bindE (validate_frame v) (\<lambda>_. Inr v)) of
           Inl e \<Rightarrow> ([], Inl e) | Inr v \<Rightarrow> apfst (Cons v) (parse_frames ?rest))"
      using parse_frame [OF short(2,3), of ?buf ?rest] by metis
    have rest: "length ?rest < length data" using short 5(4) by simp
    show ?thesis
    proof (cases "bindE (decode ?buf MAX_BYTES MAX_NODES) (\<lambda>v. bindE (validate_frame v) (\<lambda>_. Inr v))")
      case (Inl e)
      then show ?thesis using loop parse by (auto simp: res_simps)
    next
      case (Inr v)
      then have "feed_loop mf now st out data = feed_loop mf now ([], None, None) (out @ [v]) ?rest"
        using loop by (auto simp: res_simps)
      then show ?thesis
        using less.hyps [OF rest stream_ok_idle, of "out @ [v]"] parse Inr
        by (auto simp: apfst_def map_prod_def split: sum.splits prod.splits)
    qed
  qed
qed

section \<open>Runs of a reader\<close>

abbreviation stream_of :: "reader \<Rightarrow> stream" where
  "stream_of r \<equiv> (buffer r, len r, started r)"

definition reader_ok :: "reader \<Rightarrow> bool" where
  "reader_ok r \<longleftrightarrow> \<not> closed r \<and> stream_ok (stream_of r)"

text \<open>A sequence of chunks with their arrival times; the first error ends it.\<close>

primrec feed_all :: "reader \<Rightarrow> (bytes \<times> int) list \<Rightarrow> reader \<times> pyval list res" where
  "feed_all r [] = (r, Inr [])"
| "feed_all r (c # cs) = (case feed r (fst c) (Some (snd c)) of
     (r', Inl e) \<Rightarrow> (r', Inl e)
   | (r', Inr out) \<Rightarrow> (case feed_all r' cs of
       (r'', Inl e) \<Rightarrow> (r'', Inl e)
     | (r'', Inr out2) \<Rightarrow> (r'', Inr (out @ out2))))"

lemma new_reader_ok: "new_reader t mf = Inr r \<Longrightarrow> reader_ok r \<and> stream_of r = ([], None, None)
    \<and> timeout r = t \<and> max_frames r = nat mf \<and> last_now r = None"
  by (auto simp: new_reader_def reader_ok_def split: if_splits)

text \<open>Chunks that arrive in order, within the deadline of the first one and not longer than a
  frame with its header.\<close>

definition timely :: "int \<Rightarrow> int \<Rightarrow> (bytes \<times> int) list \<Rightarrow> bool" where
  "timely base limit chunks \<longleftrightarrow> sorted (map snd chunks)
     \<and> list_all (\<lambda>c. base \<le> snd c \<and> snd c < base + limit \<and> length (fst c) \<le> MAX_FRAME + 4) chunks"

text \<open>No chunk completes as many frames as a batch may hold; \<open>seen\<close> are the bytes before them.\<close>

primrec small_batches :: "nat \<Rightarrow> bytes \<Rightarrow> (bytes \<times> int) list \<Rightarrow> bool" where
  "small_batches mf seen [] = True"
| "small_batches mf seen (c # cs) = (frames_in (seen @ fst c) < frames_in seen + mf \<and> small_batches mf (seen @ fst c) cs)"

lemma feed_parse:
  assumes "reader_ok r" "length data \<le> MAX_FRAME + 4" "base \<le> t" "t < base + timeout r"
    and "\<And>l. last_now r = Some l \<Longrightarrow> l \<le> t" "\<And>s. started r = Some s \<Longrightarrow> base \<le> s"
  shows "case feed r data (Some t) of
      (r', Inr out) \<Rightarrow> reader_ok r' \<and> last_now r' = Some t \<and> timeout r' = timeout r \<and> max_frames r' = max_frames r
        \<and> (\<forall>s. started r' = Some s \<longrightarrow> base \<le> s)
        \<and> parse_frames (pending (stream_of r) @ data) = (out, Inr (pending (stream_of r')))
    | (r', Inl e) \<Rightarrow> closed r' \<and> (snd (parse_frames (pending (stream_of r) @ data)) = Inl e
        \<or> e = WireError ''RESOURCE_LIMIT'' [] \<and> max_frames r \<le> frames_in (pending (stream_of r) @ data))"
proof -
  have clock: "(case last_now r of None \<Rightarrow> False | Some l \<Rightarrow> t < l) = False"
    using assms(5) by (auto split: option.splits)
  have deadline: "(case started r of None \<Rightarrow> False | Some s \<Rightarrow> timeout (r\<lparr>last_now := Some t\<rparr>) \<le> t - s) = False"
    using assms(4,6) by (auto split: option.splits)
  have loop: "case feed_loop (max_frames r) t (stream_of r) [] data of
      Inr (st', out') \<Rightarrow> stream_ok st' \<and> (snd (snd st') = None \<or> snd (snd st') = Some t \<or> snd (snd st') = started r)
        \<and> parse_frames (pending (stream_of r) @ data) = (out', Inr (pending st'))
    | Inl e \<Rightarrow> snd (parse_frames (pending (stream_of r) @ data)) = Inl e
        \<or> e = WireError ''RESOURCE_LIMIT'' [] \<and> max_frames r \<le> frames_in (pending (stream_of r) @ data)"
    using loop_parse [where st = "stream_of r" and mf = "max_frames r" and now = t and out = "[]" and data = data] assms(1)
    by (auto simp: reader_ok_def split: sum.splits)
  show ?thesis
  proof (cases "feed_loop (max_frames r) t (stream_of r) [] data")
    case (Inl e)
    then show ?thesis using loop clock deadline assms(1,2)
      by (simp add: feed_def reader_ok_def Let_def close_reader_def)
  next
    case (Inr p)
    then show ?thesis using loop clock deadline assms(1,2,3,6)
      by (cases p) (auto simp: feed_def reader_ok_def Let_def)
  qed
qed

lemma feed_all_parse:
  assumes "feed_all r chunks = (r', res)" and "reader_ok r" and "timely base (timeout r) chunks"
    and "\<And>l c. last_now r = Some l \<Longrightarrow> c \<in> set chunks \<Longrightarrow> l \<le> snd c" and "\<And>s. started r = Some s \<Longrightarrow> base \<le> s"
    and "parse_frames seen = (fs, Inr (pending (stream_of r)))"
  shows "case res of
      Inr out \<Rightarrow> reader_ok r' \<and> parse_frames (seen @ concat (map fst chunks)) = (fs @ out, Inr (pending (stream_of r')))
    | Inl e \<Rightarrow> closed r' \<and> (snd (parse_frames (seen @ concat (map fst chunks))) = Inl e
        \<or> e = WireError ''RESOURCE_LIMIT'' [] \<and> \<not> small_batches (max_frames r) seen chunks)"
  using assms
proof (induction chunks arbitrary: r res seen fs)
  case (Cons c cs)
  let ?p = "pending (stream_of r) @ fst c"
  have c: "length (fst c) \<le> MAX_FRAME + 4" "base \<le> snd c" "snd c < base + timeout r"
    and cs: "timely base (timeout r) cs" "\<And>d. d \<in> set cs \<Longrightarrow> snd c \<le> snd d"
    using Cons.prems(3) by (auto simp: timely_def)
  have seen: "parse_frames (seen @ fst c) = apfst ((@) fs) (parse_frames ?p)"
    using parse_more [of seen "fst c"] Cons.prems(6) by simp
  note step = feed_parse [OF Cons.prems(2) c Cons.prems(4) Cons.prems(5), simplified]
  obtain r1 res1 where r1: "feed r (fst c) (Some (snd c)) = (r1, res1)" by fastforce
  show ?case
  proof (cases res1)
    case (Inl e)
    with r1 Cons.prems(1) have "res = Inl e" "r' = r1" by simp_all
    moreover have "closed r1 \<and> (snd (parse_frames (seen @ fst c)) = Inl e
        \<or> e = WireError ''RESOURCE_LIMIT'' [] \<and> \<not> small_batches (max_frames r) seen (c # cs))"
      using step r1 Inl seen Cons.prems(6) by (auto split: prod.splits sum.splits)
    ultimately show ?thesis
      using parse_more [of "seen @ fst c" "concat (map fst cs)"] by (auto split: prod.splits)
  next
    case (Inr out1)
    with step r1 have s1: "reader_ok r1" "last_now r1 = Some (snd c)" "timeout r1 = timeout r" "max_frames r1 = max_frames r"
        "\<And>s. started r1 = Some s \<Longrightarrow> base \<le> s" "parse_frames ?p = (out1, Inr (pending (stream_of r1)))"
      by auto
    obtain res2 where all: "feed_all r1 cs = (r', res2)" "res = (case res2 of Inl e \<Rightarrow> Inl e | Inr o2 \<Rightarrow> Inr (out1 @ o2))"
      using Cons.prems(1) r1 Inr by (auto split: prod.splits sum.splits)
    have "parse_frames (seen @ fst c) = (fs @ out1, Inr (pending (stream_of r1)))" using seen s1(6) by simp
    from Cons.IH [OF all(1) s1(1) cs(1) [folded s1(3)] _ s1(5) this] s1(2,4) cs(2) all(2)
    show ?thesis by (cases res2) (auto simp: Cons.prems(6))
  qed
qed simp

lemma finish_spec:
  "reader_ok r \<Longrightarrow> snd (finish r) = (if pending (stream_of r) = [] then Inr () else wire ''TRUNCATED'')"
  by (auto simp: finish_def reader_ok_def pending_Nil)

text \<open>Every frame of the reference is one that the encoder produces.\<close>

lemma parse_sound: "parse_frames bs = (fs, Inr rest) \<Longrightarrow> frame_seq fs \<and> bs = frames_wire fs @ rest"
proof (induction bs arbitrary: fs rule: parse_frames.induct)
  case (1 bs)
  let ?n = "from_bytes (take 4 bs)"
  show ?case
  proof (cases "length bs < 4 \<or> \<not> (1 \<le> ?n \<and> ?n \<le> MAX_FRAME) \<or> length bs < 4 + ?n")
    case True
    then have "fs = [] \<and> rest = bs"
      using 1(2) parse_frames.simps [of bs] by (auto simp: Let_def split: if_splits)
    then show ?thesis by (simp add: frame_seq_def)
  next
    case False
    then have "parse_frames bs = (case decode_frame (take (4 + ?n) bs) of
        Inl e \<Rightarrow> ([], Inl e) | Inr v \<Rightarrow> apfst (Cons v) (parse_frames (drop (4 + ?n) bs)))"
      using parse_frames.simps [of bs] by (simp add: Let_def)
    then obtain v vs where v: "decode_frame (take (4 + ?n) bs) = Inr v" "fs = v # vs"
        "parse_frames (drop (4 + ?n) bs) = (vs, Inr rest)"
      using 1(2) by (cases "parse_frames (drop (4 + ?n) bs)") (auto split: sum.splits)
    then have "frame_seq vs \<and> drop (4 + ?n) bs = frames_wire vs @ rest"
      using 1(1) [OF _ refl] False by auto
    then show ?thesis using v append_take_drop_id [of "4 + ?n" bs]
      by (auto simp: frame_seq_def decode_frame_iff)
  qed
qed

lemma mapE_encode_frame: "frame_seq fs \<Longrightarrow> mapE encode_frame fs = Inr (map frame_wire fs)"
  by (induction fs) (simp_all add: encode_frame_iff res_simps frame_seq_def)

lemma parse_encoded:
  "parse_frames bs = (fs, Inr rest) \<Longrightarrow> \<exists>ws. mapE encode_frame fs = Inr ws \<and> bs = concat ws @ rest"
  using parse_sound [of bs fs rest] mapE_encode_frame [of fs] by auto

text \<open>C3. The incremental reader is the one-shot decoder applied to the whole stream. For chunks that
  arrive in order, within one timeout of a base time and at most \<open>MAX_FRAME + 4\<close> bytes long each, wherever the stream is
  cut: if the concatenated bytes are frames followed by an incomplete frame, the reader returns exactly these frames in order
  (each the value of its own encoding), buffers exactly the incomplete one (less than a whole frame) and \<open>finish\<close> succeeds exactly if there is none;
  if the stream is malformed, the reader raises the error of the first malformed frame and is closed. The only
  other outcome is RESOURCE_LIMIT, and only if some chunk completes at least \<open>max_frames_per_feed\<close> frames.\<close>

theorem feed_exact:
  assumes "new_reader t mf = Inr r" and "timely base t chunks" and "feed_all r chunks = (r', res)"
  shows "(case parse_frames (concat (map fst chunks)) of
        (fs, Inr rest) \<Rightarrow> res = Inr fs \<and> pending (stream_of r') = rest \<and> length rest < MAX_FRAME + 4
          \<and> (\<exists>ws. mapE encode_frame fs = Inr ws \<and> concat (map fst chunks) = concat ws @ rest)
          \<and> snd (finish r') = (if rest = [] then Inr () else wire ''TRUNCATED'')
      | (fs, Inl e) \<Rightarrow> res = Inl e \<and> closed r')
    \<or> res = wire ''RESOURCE_LIMIT'' \<and> closed r' \<and> \<not> small_batches (nat mf) [] chunks"
proof -
  have r: "reader_ok r" "stream_of r = ([], None, None)" "timeout r = t" "max_frames r = nat mf" "last_now r = None"
    using new_reader_ok [OF assms(1)] by simp_all
  have "timely base (timeout r) chunks" using assms(2) r(3) by simp
  from feed_all_parse [OF assms(3) r(1) this, of "[]" "[]"] r show ?thesis
    by (cases res) (auto simp: finish_spec pending_bound reader_ok_def dest: parse_encoded split: prod.splits)
qed

theorem feed_exact_witness:
  "\<exists>r r' res. new_reader 30 64 = Inr r \<and> feed_all r [([0, 0], 7), ([0, 200], 9)] = (r', res)
    \<and> res = Inr [] \<and> pending (stream_of r') = [0, 0, 0, 200] \<and> snd (finish r') = wire ''TRUNCATED''"
proof -
  let ?chunks = "[([0, 0], 7), ([0, 200], 9)] :: (bytes \<times> int) list"
  obtain r where r: "new_reader 30 64 = Inr r" by (simp add: new_reader_def)
  obtain r' res where all: "feed_all r ?chunks = (r', res)" by fastforce
  have "timely 7 30 ?chunks" by (simp add: timely_def MAX_FRAME_def)
  moreover have "parse_frames [0, 0, 0, 200] = ([], Inr [0, 0, 0, 200])" "parse_frames [0, 0] = ([], Inr [0, 0])"
    by (simp_all add: parse_frames.simps from_bytes_def MAX_FRAME_def)
  ultimately have "res = Inr [] \<and> pending (stream_of r') = [0, 0, 0, 200] \<and> snd (finish r') = wire ''TRUNCATED''"
    using feed_exact [OF r _ all, of 7] by simp
  then show ?thesis using r all by (intro exI [of _ r] exI [of _ r'] exI [of _ res]) (simp only: simp_thms)
qed

text \<open>C8. Every stream of frames is delivered: the encodings of well-formed frames, cut into chunks at arbitrary positions,
  arriving in order and within one timeout of a base time in chunks of at most \<open>MAX_FRAME + 4\<close> bytes, none of
  which completes \<open>max_frames_per_feed\<close> frames or more, make a new reader return exactly these
  frames in order (dictionaries in key order) and end on a frame boundary.\<close>

theorem feed_delivers:
  assumes "new_reader t mf = Inr r" and "\<forall>f \<in> set frames. wf_py f" and "mapE encode_frame frames = Inr ws"
    and "concat (map fst chunks) = concat ws" and "timely base t chunks" and "small_batches (nat mf) [] chunks"
  shows "\<exists>r'. feed_all r chunks = (r', Inr (map canon frames)) \<and> snd (finish r') = Inr ()"
proof -
  have r: "reader_ok r" "stream_of r = ([], None, None)" "timeout r = t" "max_frames r = nat mf" "last_now r = None"
    using new_reader_ok [OF assms(1)] by simp_all
  have "list_all2 (\<lambda>f w. frame_value f \<and> w = frame_wire (canon f)) frames ws"
    using assms(3) by (rule list.rel_mono_strong [OF mapE_eq_Inr [THEN iffD1]])
      (use assms(2) in \<open>simp add: encode_frame_iff\<close>)
  then have "ws = map frame_wire (map canon frames) \<and> (\<forall>f \<in> set frames. frame_value f)"
    by (induction rule: list_all2_induct) auto
  moreover from this have "frame_seq (map canon frames)"
    using frame_value_canon by (auto simp: frame_seq_def)
  ultimately have parse: "parse_frames (concat (map fst chunks)) = (map canon frames, Inr [])"
    using parse_wires [of "map canon frames"] assms(4) by simp
  obtain r' res where all: "feed_all r chunks = (r', res)" by fastforce
  have "timely base (timeout r) chunks" using assms(5) r(3) by simp
  from feed_all_parse [OF all r(1) this, of "[]" "[]"] r parse assms(6) all show ?thesis
    by (cases res) (auto simp: finish_spec)
qed

lemma two_chunks_timely: "timely 100 30 two_chunks"
  by (simp add: timely_def two_chunks_def frame_wire_def length_cancel_frame MAX_FRAME_def)

theorem feed_delivers_witness:
  "\<exists>r r'. new_reader 30 64 = Inr r \<and> feed_all r two_chunks = (r', Inr [cancel_frame]) \<and> snd (finish r') = Inr ()"
proof -
  obtain r where r: "new_reader 30 64 = Inr r" by (simp add: new_reader_def)
  have "frame_seq [cancel_frame]" by (simp add: frame_seq_def cancel_frame_canonical cancel_frame_value)
  then have all: "parse_frames (frame_wire cancel_frame) = ([cancel_frame], Inr [])" using parse_wires by fastforce
  then have "frames_in (take 10 (frame_wire cancel_frame)) \<le> 1"
    using parse_more [of "take 10 (frame_wire cancel_frame)" "drop 10 (frame_wire cancel_frame)"]
    by (auto simp: apfst_def map_prod_def Cons_eq_append_conv split: prod.splits sum.splits)
  with all have "small_batches (nat 64) [] two_chunks" by (simp add: two_chunks_def)
  then have "\<exists>r'. feed_all r two_chunks = (r', Inr (map canon [cancel_frame])) \<and> snd (finish r') = Inr ()"
    by (intro feed_delivers [OF r _ _ _ two_chunks_timely, where ws = "[frame_wire cancel_frame]"])
      (simp_all add: cancel_frame_canonical encode_cancel_frame two_chunks_def)
  then show ?thesis using r cancel_frame_canonical by simp
qed

lemma loop_raises: "raises wire_error (feed_loop mf now st out rest)"
proof (induction mf now st out rest rule: feed_loop.induct)
  case (2 mf now buf n start out d ds)
  then show ?case unfolding feed_loop.simps
    by (auto simp: Let_def intro!: raises_intros split: option.split simp del: feed_loop.simps)
qed (simp add: raises_intros)

text \<open>Errors close the reader for good: a failed \<open>feed\<close> raises a WireError, leaves no buffered
  byte behind and every later call raises CLOSED without changing the reader.\<close>

theorem feed_fails_closed:
  assumes "feed r data now = (r', Inl e)" and "\<not> closed r"
  shows "wire_error e \<and> closed r' \<and> buffer r' = [] \<and> len r' = None
    \<and> feed r' data' now' = (r', wire ''CLOSED'') \<and> finish r' = (r', wire ''CLOSED'')"
proof -
  have "wire_error e \<and> closed r' \<and> buffer r' = [] \<and> len r' = None"
    using assms raisesD [OF loop_raises]
    by (auto simp: feed_def close_reader_def Let_def split: if_splits option.splits sum.splits)
  then show ?thesis by (simp add: feed_def finish_def)
qed

theorem feed_fails_closed_witness:
  "\<exists>r r'. feed r (to_bytes 4 0) (Some 5) = (r', wire ''LENGTH'') \<and> closed r'
    \<and> feed r' [] (Some 6) = (r', wire ''CLOSED'')"
proof -
  define r where "r = \<lparr>timeout = 30, max_frames = 64, buffer = [], len = None, started = None,
                last_now = None, closed = False\<rparr>"
  have f: "feed r (to_bytes 4 0) (Some 5) = (close_reader (r\<lparr>last_now := Some 5\<rparr>), wire ''LENGTH'')"
    by (simp add: feed_def r_def loop_header from_to_bytes MAX_FRAME_def Let_def)
  from feed_fails_closed [OF f, of "[]" "Some 6"] f show ?thesis
    by (intro exI [of _ r] exI [of _ "close_reader (r\<lparr>last_now := Some 5\<rparr>)"]) (simp add: r_def)
qed

end
