(* ===== verification/Paging.thy ===== *)
theory Paging
  imports Framing
begin

text \<open>
  The inventory walk of \<^verbatim>\<open>par_wire/paging.py\<close>: pages of a peer's catalogue are accepted only in cursor order, within
  budgets and without duplicates, and any error discards the snapshot.

  A cursor is the Python value the frame carries, \<open>PNone\<close> or a byte string; \<^verbatim>\<open>_items\<close> is the
  association list of rows by identifier in insertion order.
\<close>

section \<open>Model\<close>

datatype coverage = INCOMPLETE | PEER_SNAPSHOT_COMPLETE | INVALIDATED

record walk =
  space :: bytes
  token :: bytes
  max_items :: int
  max_pages :: int
  max_bytes :: int
  used_bytes :: int
  cursor :: pyval
  seen_cursors :: "pyval list"
  items :: "(pyval \<times> pyval) list"
  pages :: int
  coverage :: coverage

definition new_walk :: "bytes \<Rightarrow> bytes \<Rightarrow> int \<Rightarrow> int \<Rightarrow> int \<Rightarrow> walk res" where
  "new_walk sp tok mi mp mb =
     (if length sp \<noteq> 32 \<or> length tok \<noteq> 32 then Inl ValueError
      else if mi < 1 \<or> mp < 1 \<or> mb < 1 then Inl ValueError
      else Inr \<lparr>space = sp, token = tok, max_items = mi, max_pages = mp, max_bytes = mb, used_bytes = 0,
                cursor = PNone, seen_cursors = [], items = [], pages = 0, coverage = INCOMPLETE\<rparr>)"

text \<open>The body of the \<^verbatim>\<open>try\<close> block; \<open>walk_append\<close> adds the \<^verbatim>\<open>except WireError\<close> clause.\<close>

definition append_page :: "walk \<Rightarrow> pyval \<Rightarrow> pyval \<Rightarrow> walk res" where
  "append_page w page requested_cursor =
     bindE (validate_frame page) (\<lambda>_.
     bindE (item_at page 1) (\<lambda>code.
     bindE (need (code = PInt 20) (WireError ''MESSAGE_TYPE'' [])) (\<lambda>_.
     bindE (item_at page 3) (\<lambda>sp.
     bindE (need (sp = PBytes (space w)) (WireError ''SPACE_BINDING'' [])) (\<lambda>_.
     bindE (item_at page 4) (\<lambda>b.
     bindE (item_at b 0) (\<lambda>tok.
     bindE (need (tok = PBytes (token w)) (WireError ''SNAPSHOT_CHANGED'' [])) (\<lambda>_.
     bindE (need (requested_cursor = cursor w) (WireError ''CURSOR'' [])) (\<lambda>_.
     bindE (item_at b 1) (\<lambda>next_cursor.
     bindE (need (\<not> (next_cursor \<noteq> PNone \<and> next_cursor \<in> set (seen_cursors w))) (WireError ''CURSOR_REPLAY'' [])) (\<lambda>_.
     bindE (bindE (item_at b 2) list_of) (\<lambda>rows.
     bindE (need (pages w + 1 \<le> max_pages w \<and> int (length (items w)) + int (length rows) \<le> max_items w)
       (WireError ''RESOURCE_LIMIT'' [])) (\<lambda>_.
     bindE (encode page MAX_BYTES MAX_NODES) (\<lambda>body.
     let page_size = 4 + int (length body) in
     bindE (need (used_bytes w + page_size \<le> max_bytes w) (WireError ''RESOURCE_LIMIT'' [])) (\<lambda>_.
     bindE (mapE (\<lambda>x. item_at x 0) rows) (\<lambda>new_ids.
     bindE (need (distinct new_ids \<and> fst ` set (items w) \<inter> set new_ids = {}) (WireError ''DUPLICATE_ITEM'' [])) (\<lambda>_.
     bindE (item_at b 3) (\<lambda>fin.
       Inr (w\<lparr>items := items w @ zip new_ids rows, pages := pages w + 1, used_bytes := used_bytes w + page_size,
              cursor := next_cursor,
              seen_cursors := (if next_cursor \<noteq> PNone then next_cursor # seen_cursors w else seen_cursors w),
              coverage := (if fin = PBool True then PEER_SNAPSHOT_COMPLETE else coverage w)\<rparr>)))))))))))))))))))"

definition walk_append :: "walk \<Rightarrow> pyval \<Rightarrow> pyval \<Rightarrow> walk \<times> unit res" where
  "walk_append w page requested_cursor =
     (if coverage w \<noteq> INCOMPLETE then (w, wire ''CLOSED'')
      else case append_page w page requested_cursor of
        Inl (WireError c p) \<Rightarrow> (w\<lparr>items := [], coverage := INVALIDATED\<rparr>, Inl (WireError c p))
      | Inl e \<Rightarrow> (w, Inl e)
      | Inr w' \<Rightarrow> (w', Inr ()))"

definition snapshot :: "walk \<Rightarrow> bytes \<times> bytes \<times> coverage \<times> int \<times> int \<times> pyval \<times> pyval list \<times> bool \<times> bool" where
  "snapshot w = (space w, token w, coverage w, pages w, used_bytes w, cursor w, map snd (items w), False, False)"

section \<open>Pages\<close>

text \<open>What a page contributes, and the cursors it links.\<close>

definition page_rows :: "pyval \<Rightarrow> pyval list" where
  "page_rows page = (case bindE (item_at page 4) (\<lambda>b. bindE (item_at b 2) list_of) of Inl e \<Rightarrow> [] | Inr rows \<Rightarrow> rows)"

definition page_next :: "pyval \<Rightarrow> pyval" where
  "page_next page = (case bindE (item_at page 4) (\<lambda>b. item_at b 1) of Inl e \<Rightarrow> PNone | Inr c \<Rightarrow> c)"

lemma have_page:
  assumes "frame_ok page" and "item_at page 1 = Inr (PInt 20)"
  shows "\<exists>b tok rows ids. item_at page 4 = Inr b \<and> item_at b 0 = Inr tok \<and> item_at b 1 = Inr (page_next page)
    \<and> item_at b 2 = Inr (PList rows) \<and> page_rows page = rows \<and> mapE (\<lambda>x. item_at x 0) rows = Inr ids
    \<and> item_at b 3 = Inr (PBool (page_next page = PNone)) \<and> (rows = [] \<longrightarrow> page_next page = PNone)
    \<and> (\<exists>s. item_at page 3 = Inr s)"
proof -
  obtain body b where reg: "map_of registry_messages 20 = Some body" and b: "item_at page 4 = Inr b"
      "conforms default_rules (NRef body) b" "overlay_ok 20 page b" and s: "\<exists>s. item_at page 3 = Inr s"
    using frame_body [OF assms] by metis
  have body: "conforms default_rules (NRef ''have-body'') b" using b registry_code_body(4) [OF reg] by simp
  obtain rows c where pg: "item_at b 2 = Inr (PList rows)" "item_at b 1 = Inr c" "item_at b 3 = Inr (PBool (c = PNone))"
      "rows = [] \<longrightarrow> c = PNone"
    using b(3) by (auto simp: overlay_ok_def page_ok_def)
  obtain tok where tok: "item_at b 0 = Inr tok"
    using body_fields(4) [OF body, of 0 "NRef ''id32''"] by (auto simp: primitive_def)
  have "conforms default_rules (NArray 0 256 (NRef ''catalog-item'')) (PList rows)"
    using body_fields(4) [OF body, of 2 "NArray 0 256 (NRef ''catalog-item'')"] pg(1) by (auto simp: primitive_def)
  then have "\<exists>i. item_at x 0 = Inr i" if "x \<in> set rows" for x
    using that body_field [OF _ rule_catalog_item, of x 0 "NRef ''id32''"] by (auto simp: conforms_array primitive_def)
  then have "\<exists>ids. mapE (\<lambda>x. item_at x 0) rows = Inr ids"
    by (induction rows) (auto, metis bindE_Inr)
  then show ?thesis using b pg tok s by (auto simp: page_rows_def page_next_def list_of_def)
qed

lemma append_page_raises: "raises wire_error (append_page w page c)"
proof (cases "frame_ok page \<and> item_at page 1 = Inr (PInt 20)")
  case True
  then obtain b tok rows ids where "item_at page 4 = Inr b" "item_at b 0 = Inr tok" "item_at b 1 = Inr (page_next page)"
      "item_at b 2 = Inr (PList rows)" "mapE (\<lambda>x. item_at x 0) rows = Inr ids"
      "item_at b 3 = Inr (PBool (page_next page = PNone))" "\<exists>s. item_at page 3 = Inr s"
    using have_page by blast
  then show ?thesis using True
    by (auto simp: append_page_def list_of_def Let_def intro!: raises_intros)
next
  case False
  show ?thesis
  proof (cases "frame_ok page")
    case True
    then obtain c' where "item_at page 1 = Inr (PInt c')" "c' \<noteq> 20"
      using False by (auto simp: frame_ok_def)
    then show ?thesis unfolding append_page_def by (auto intro!: raises_intros)
  next
    case False
    then obtain e where "validate_frame page = Inl e" "wire_error e"
      using validate_frame_ok [of page] raisesD [OF validate_frame_raises]
      by (cases "validate_frame page") auto
    then show ?thesis unfolding append_page_def by (auto intro!: raises_intros)
  qed
qed

text \<open>An accepted page, as one description of everything it changes.\<close>

lemma append_page_ok:
  assumes "append_page w page c = Inr w'"
  shows "\<exists>ids size. c = cursor w \<and> (page_next page \<noteq> PNone \<longrightarrow> page_next page \<notin> set (seen_cursors w))
    \<and> length ids = length (page_rows page) \<and> distinct ids \<and> fst ` set (items w) \<inter> set ids = {}
    \<and> list_all2 (\<lambda>x i. item_at x 0 = Inr i) (page_rows page) ids
    \<and> pages w + 1 \<le> max_pages w \<and> int (length (items w)) + int (length ids) \<le> max_items w
    \<and> used_bytes w + size \<le> max_bytes w \<and> 0 \<le> size
    \<and> w' = w\<lparr>items := items w @ zip ids (page_rows page), pages := pages w + 1, used_bytes := used_bytes w + size,
         cursor := page_next page,
         seen_cursors := (if page_next page \<noteq> PNone then page_next page # seen_cursors w else seen_cursors w),
         coverage := (if page_next page = PNone then PEER_SNAPSHOT_COMPLETE else coverage w)\<rparr>"
proof -
  have pg: "frame_ok page" "item_at page 1 = Inr (PInt 20)"
    using assms by (auto simp: append_page_def res_simps validate_frame_ok)
  obtain b tok rows ids where b: "item_at page 4 = Inr b" "item_at b 0 = Inr tok" "item_at b 1 = Inr (page_next page)"
      "item_at b 2 = Inr (PList rows)" "page_rows page = rows" and ids: "mapE (\<lambda>x. item_at x 0) rows = Inr ids"
      and fin: "item_at b 3 = Inr (PBool (page_next page = PNone))"
    using have_page [OF pg] by blast
  have "list_all2 (\<lambda>x i. item_at x 0 = Inr i) rows ids" using ids by (simp add: mapE_eq_Inr)
  moreover from this have "length ids = length rows" by (simp add: list_all2_lengthD)
  moreover obtain body where "encode page MAX_BYTES MAX_NODES = Inr body"
    using assms by (auto simp: append_page_def res_simps Let_def)
  ultimately show ?thesis
    using assms b fin ids
    by (intro exI [of _ ids] exI [of _ "4 + int (length body)"])
      (auto simp: append_page_def list_of_def Let_def res_simps)
qed

section \<open>Walks\<close>

primrec walk_all :: "walk \<Rightarrow> (pyval \<times> pyval) list \<Rightarrow> walk \<times> unit res" where
  "walk_all w [] = (w, Inr ())"
| "walk_all w (p # ps) = (case walk_append w (fst p) (snd p) of
     (w', Inl e) \<Rightarrow> (w', Inl e)
   | (w', Inr _) \<Rightarrow> walk_all w' ps)"

definition walk_ok :: "walk \<Rightarrow> pyval list \<Rightarrow> bool" where
  "walk_ok w ps \<longleftrightarrow> map snd (items w) = concat (map page_rows ps) \<and> distinct (map fst (items w))
     \<and> (\<forall>(i, x) \<in> set (items w). item_at x 0 = Inr i)
     \<and> int (length (items w)) \<le> max_items w \<and> pages w = int (length ps) \<and> pages w \<le> max_pages w
     \<and> used_bytes w \<le> max_bytes w
     \<and> seen_cursors w = rev (filter (\<lambda>c. c \<noteq> PNone) (map page_next ps)) \<and> distinct (seen_cursors w)
     \<and> (ps = [] \<longrightarrow> cursor w = PNone \<and> coverage w = INCOMPLETE)
     \<and> (ps \<noteq> [] \<longrightarrow> cursor w = page_next (last ps)
         \<and> (coverage w = PEER_SNAPSHOT_COMPLETE \<longleftrightarrow> page_next (last ps) = PNone))
     \<and> coverage w \<noteq> INVALIDATED"

lemma walk_append_cases:
  assumes "walk_append w page c = (w', r)"
  obtains (refused) "coverage w \<noteq> INCOMPLETE" "w' = w" "r = wire ''CLOSED''"
  | (failed) k p where "coverage w = INCOMPLETE" "w' = w\<lparr>items := [], coverage := INVALIDATED\<rparr>" "r = Inl (WireError k p)"
  | (accepted) "coverage w = INCOMPLETE" "append_page w page c = Inr w'" "r = Inr ()"
proof (cases "append_page w page c")
  case (Inl e)
  then obtain k p where "e = WireError k p"
    using raisesD [OF append_page_raises Inl] by (auto simp: wire_error_conv)
  with Inl assms that show ?thesis by (auto simp: walk_append_def split: if_splits)
next
  case (Inr x)
  with assms that show ?thesis by (auto simp: walk_append_def split: if_splits)
qed

lemma accepted_ok:
  assumes "append_page w page c = Inr w'" and "walk_ok w ps" and "coverage w = INCOMPLETE"
  shows "walk_ok w' (ps @ [page]) \<and> c = cursor w"
proof -
  obtain ids size where c: "c = cursor w" "page_next page \<noteq> PNone \<longrightarrow> page_next page \<notin> set (seen_cursors w)"
    and ids: "length ids = length (page_rows page)" "distinct ids" "fst ` set (items w) \<inter> set ids = {}"
      "list_all2 (\<lambda>x i. item_at x 0 = Inr i) (page_rows page) ids"
    and lim: "pages w + 1 \<le> max_pages w" "int (length (items w)) + int (length ids) \<le> max_items w"
      "used_bytes w + size \<le> max_bytes w"
    and w': "w' = w\<lparr>items := items w @ zip ids (page_rows page), pages := pages w + 1, used_bytes := used_bytes w + size,
         cursor := page_next page,
         seen_cursors := (if page_next page \<noteq> PNone then page_next page # seen_cursors w else seen_cursors w),
         coverage := (if page_next page = PNone then PEER_SNAPSHOT_COMPLETE else coverage w)\<rparr>"
    using append_page_ok [OF assms(1)] by blast
  have rows: "item_at x 0 = Inr i" if "(i, x) \<in> set (zip ids (page_rows page))" for i x
    using that ids(4) by (auto simp: in_set_zip list_all2_conv_all_nth)
  show ?thesis
    using assms(2,3) c ids lim rows unfolding w' by (auto simp: walk_ok_def)
qed

lemma walk_all_ok:
  "walk_all w calls = (w', Inr u) \<Longrightarrow> walk_ok w ps
   \<Longrightarrow> walk_ok w' (ps @ map fst calls)
     \<and> list_all2 (\<lambda>c prev. snd c = prev) calls (take (length calls) (cursor w # map (page_next \<circ> fst) calls))"
proof (induction calls arbitrary: w ps)
  case Nil
  then show ?case by simp
next
  case (Cons c cs)
  then obtain w1 where w1: "walk_append w (fst c) (snd c) = (w1, Inr ())" "walk_all w1 cs = (w', Inr u)"
    by (auto split: prod.splits sum.splits)
  then have acc: "coverage w = INCOMPLETE" "append_page w (fst c) (snd c) = Inr w1"
    by (auto elim: walk_append_cases)
  note ok = accepted_ok [OF acc(2) Cons.prems(2) acc(1)]
  moreover have "cursor w1 = page_next (fst c)" using ok by (simp add: walk_ok_def)
  ultimately show ?case using Cons.IH [OF w1(2), of "ps @ [fst c]"] by (cases cs) auto
qed

lemma walk_append_budgets:
  "max_items (fst (walk_append w page c)) = max_items w \<and> max_pages (fst (walk_append w page c)) = max_pages w
    \<and> max_bytes (fst (walk_append w page c)) = max_bytes w"
proof (cases "walk_append w page c")
  case (Pair w' r)
  show ?thesis unfolding Pair fst_conv
    by (rule walk_append_cases [OF Pair]) (auto dest: append_page_ok)
qed

lemma walk_all_budgets:
  "max_items (fst (walk_all w cs)) = max_items w \<and> max_pages (fst (walk_all w cs)) = max_pages w
    \<and> max_bytes (fst (walk_all w cs)) = max_bytes w"
proof (induction cs arbitrary: w)
  case (Cons c cs)
  then show ?case using walk_append_budgets [of w "fst c" "snd c"] by (auto split: prod.splits sum.splits)
qed simp

text \<open>C10. A walk that accepts a sequence of pages holds exactly their rows, in order and without a
  duplicate identifier; every page was requested with the cursor its predecessor returned and no cursor
  repeats; the budgets hold; and the snapshot is complete exactly if the last page ends the listing.\<close>

theorem walk_collects:
  assumes "new_walk sp tok mi mp mb = Inr w" and "walk_all w calls = (w', Inr u)" and "calls \<noteq> []"
  shows "map snd (items w') = concat (map (page_rows \<circ> fst) calls) \<and> distinct (map fst (items w'))
    \<and> (\<forall>(i, x) \<in> set (items w'). item_at x 0 = Inr i)
    \<and> list_all2 (\<lambda>c prev. snd c = prev) calls (PNone # map (page_next \<circ> fst) (butlast calls))
    \<and> distinct (filter (\<lambda>c. c \<noteq> PNone) (map (page_next \<circ> fst) calls))
    \<and> int (length (items w')) \<le> mi \<and> int (length calls) \<le> mp \<and> used_bytes w' \<le> mb
    \<and> (coverage w' = PEER_SNAPSHOT_COMPLETE \<longleftrightarrow> page_next (fst (last calls)) = PNone)"
proof -
  have w: "walk_ok w []" "cursor w = PNone" using assms(1) by (auto simp: new_walk_def walk_ok_def split: if_splits)
  have lim: "max_items w' = mi \<and> max_pages w' = mp \<and> max_bytes w' = mb"
    using assms(1) walk_all_budgets [of w calls] assms(2) by (auto simp: new_walk_def split: if_splits)
  note ok = walk_all_ok [OF assms(2) w(1)]
  have take: "take (length calls) (cursor w # map (page_next \<circ> fst) calls)
      = PNone # map (page_next \<circ> fst) (butlast calls)"
    using assms(3) w(2) by (cases calls) (simp_all add: butlast_conv_take take_map flip: list.map)
  have "distinct (filter (\<lambda>c. c \<noteq> PNone) (map (page_next \<circ> fst) calls))"
    using ok by (metis append_Nil distinct_rev map_map walk_ok_def)
  then show ?thesis
    using ok [unfolded take] lim assms(3) by (auto simp: walk_ok_def last_map)
qed

text \<open>A page of one row that ends the listing, and a walk over it.\<close>

definition item_row :: pyval where
  "item_row = mk_dict [(0, PBytes (replicate 32 5)), (1, PInt 1), (2, PInt 0), (3, PList []), (4, PBool False),
     (5, PBytes (replicate 32 6))]"

definition last_page :: pyval where
  "last_page = mk_dict [(0, PInt 1), (1, PInt 20), (2, PBytes (replicate 16 1)), (3, PBytes (replicate 32 2)),
     (4, mk_dict [(0, PBytes (replicate 32 3)), (1, PNone), (2, PList [item_row]), (3, PBool True)]), (5, PInt 0)]"

lemma last_page_valid: "validate_frame last_page = Inr ()"
  by (simp add: validate_frame_def last_page_def item_row_def mk_dict_def is_int_def dict_get_def registry_messages_def
      schema_validate_def rule_lookup numeral_eq_Suc primitive_def prim_ok_def map_shape_def key_field_def
      field_of_def py_size_def item_at_def check_body_def page_fields_def check_page_def list_of_def ex_bool_eq)

lemma last_page_encode: "\<exists>b. encode last_page MAX_BYTES MAX_NODES = Inr b \<and> length b < 1000"
  by (simp add: encode_iff last_page_def item_row_def mk_dict_def budget_ok_def MAX_BYTES_def
      MAX_NODES_def MAX_DEPTH_def U64_def nhead_def)

lemma last_page_walk:
  "\<exists>w w'. new_walk (replicate 32 2) (replicate 32 3) 10 10 4096 = Inr w \<and> walk_all w [(last_page, PNone)] = (w', Inr ())"
proof -
  obtain b where "encode last_page MAX_BYTES MAX_NODES = Inr b" "length b < 1000" using last_page_encode by blast
  then show ?thesis
    by (simp add: new_walk_def walk_append_def append_page_def last_page_valid)
      (simp add: last_page_def item_row_def mk_dict_def item_at_def dict_get_def list_of_def)
qed

theorem walk_collects_witness:
  "\<exists>w w'. new_walk (replicate 32 2) (replicate 32 3) 10 10 4096 = Inr w
    \<and> walk_all w [(last_page, PNone)] = (w', Inr ()) \<and> map snd (items w') = [item_row] \<and> coverage w' = PEER_SNAPSHOT_COMPLETE"
proof -
  obtain w w' where w: "new_walk (replicate 32 2) (replicate 32 3) 10 10 4096 = Inr w"
    "walk_all w [(last_page, PNone)] = (w', Inr ())" using last_page_walk by blast
  have "page_rows last_page = [item_row]" "page_next last_page = PNone"
    by (simp_all add: page_rows_def page_next_def last_page_def mk_dict_def item_at_def dict_get_def list_of_def)
  with walk_collects [OF w] w show ?thesis by auto
qed

text \<open>A page that is refused invalidates the walk: the error is a WireError, no item is kept and every later page
  is refused with CLOSED; a page that is accepted changes neither the scope nor the budgets.\<close>

theorem walk_fails_closed:
  assumes "walk_append w page c = (w', Inl e)" and "coverage w = INCOMPLETE"
  shows "wire_error e \<and> items w' = [] \<and> coverage w' = INVALIDATED
    \<and> walk_append w' page' c' = (w', wire ''CLOSED'')"
  using assms(1)
proof (cases rule: walk_append_cases)
  case (failed k p)
  then show ?thesis by (simp add: walk_append_def)
qed (use assms(2) in simp_all)

theorem walk_fails_closed_witness:
  "\<exists>w w'. walk_append w last_page (PBytes [1]) = (w', wire ''CURSOR'') \<and> coverage w' = INVALIDATED \<and> items w' = []"
proof -
  define w where "w = \<lparr>space = replicate 32 2, token = replicate 32 3, max_items = 9, max_pages = 9, max_bytes = 999,
    used_bytes = 0, cursor = PNone, seen_cursors = [], items = [(PNone, PNone)], pages = 0, coverage = INCOMPLETE\<rparr>"
  have "append_page w last_page (PBytes [1]) = wire ''CURSOR''"
    by (simp add: append_page_def last_page_valid)
      (simp add: last_page_def w_def mk_dict_def item_at_def dict_get_def)
  then have f: "walk_append w last_page (PBytes [1]) = (w\<lparr>items := [], coverage := INVALIDATED\<rparr>, wire ''CURSOR'')"
    by (simp add: walk_append_def w_def)
  have "coverage w = INCOMPLETE" by (simp add: w_def)
  from walk_fails_closed [OF f this] f show ?thesis by blast
qed

end
