(* ===== verification/Negotiation.thy ===== *)
theory Negotiation
  imports Framing Sha256
begin

text \<open>
  The handshake transcript and the local replay filter of \<^verbatim>\<open>par_wire/negotiation.py\<close>. Arguments whose Python type the
  code tests (the expected profile, the peer identifiers, the selected wire name and suite) are
  \<open>pyval\<close>s; the two frames are byte strings.
\<close>

section \<open>Transcript\<close>

definition domain :: "pystr \<Rightarrow> pyval list \<Rightarrow> bytes res" where
  "domain label parts =
     (if label \<noteq> cps ''session-auth'' \<and> label \<noteq> cps ''session-id'' then wire ''DOMAIN''
      else encode (PList [PStr (cps ''PAR''), PInt 1, PStr label, PList parts]) MAX_BYTES MAX_NODES)"

record transcript =
  t_canonical :: bytes
  candidate_session_id :: bytes
  authenticated :: bool

definition signing_bytes :: "transcript \<Rightarrow> pystr \<Rightarrow> bytes res" where
  "signing_bytes t role =
     (if role \<noteq> cps ''initiator'' \<and> role \<noteq> cps ''responder'' then wire ''ROLE''
      else domain (cps ''session-auth'') [PBytes (t_canonical t), PStr role])"

definition auth_digest :: "transcript \<Rightarrow> pystr \<Rightarrow> bytes res" where
  "auth_digest t role = bindE (signing_bytes t role) (\<lambda>b. Inr (sha256 b))"

definition peer_ok :: "pyval \<Rightarrow> bool" where
  "peer_ok p = (case p of PBytes b \<Rightarrow> 1 \<le> length b \<and> length b \<le> 128 | _ \<Rightarrow> False)"

definition profile_ok :: "pyval \<Rightarrow> bool" where
  "profile_ok p = (case p of PBytes b \<Rightarrow> length b = 32 | _ \<Rightarrow> False)"

definition offers :: "pyval \<Rightarrow> pyval \<Rightarrow> pyval \<Rightarrow> bool res" where
  "offers body selected_wire selected_suite =
     bindE (bindE (item_at body 3) list_of) (\<lambda>wires.
     bindE (bindE (item_at body 4) list_of) (\<lambda>suites.
       Inr (selected_wire \<in> set wires \<and> selected_suite \<in> set suites)))"

text \<open>The payload; when it is built, the selected wire name and suite are the only admitted ones.\<close>

definition transcript_payload :: "bytes \<Rightarrow> bytes \<Rightarrow> pyval \<Rightarrow> pyval \<Rightarrow> pyval \<Rightarrow> pyval \<Rightarrow> pyval \<Rightarrow> pyval \<Rightarrow> pyval" where
  "transcript_payload initiator responder app profile n m ipeer rpeer =
     mk_dict [(0, PInt 1), (1, app), (2, PStr (cps ''par/1-draft-2'')), (3, PInt 1), (4, profile),
       (5, PBytes (sha256 initiator)), (6, PBytes (sha256 responder)), (7, n), (8, m), (9, ipeer), (10, rpeer),
       (11, PStr (cps ''initiator'')), (12, PStr (cps ''responder''))]"

definition build_transcript :: "bytes \<Rightarrow> bytes \<Rightarrow> pyval \<Rightarrow> pyval \<Rightarrow> pyval \<Rightarrow> pyval \<Rightarrow> pyval \<Rightarrow> transcript res" where
  "build_transcript initiator responder profile ipeer rpeer selected_wire selected_suite =
     bindE (need (profile_ok profile) (WireError ''PROFILE'' [])) (\<lambda>_.
     bindE (need (peer_ok ipeer \<and> peer_ok rpeer) (WireError ''TRANSPORT_BINDING'' [])) (\<lambda>_.
     bindE (decode_frame initiator) (\<lambda>a.
     bindE (decode_frame responder) (\<lambda>b.
     bindE (item_at a 1) (\<lambda>a1. bindE (item_at b 1) (\<lambda>b1.
     bindE (need (a1 = PInt 1 \<and> b1 = PInt 1) (WireError ''MESSAGE_TYPE'' [])) (\<lambda>_.
     bindE (item_at a 4) (\<lambda>aa. bindE (item_at b 4) (\<lambda>bb.
     bindE (item_at aa 0) (\<lambda>a0. bindE (item_at bb 0) (\<lambda>b0.
     bindE (need (a0 = b0) (WireError ''APP_BINDING'' [])) (\<lambda>_.
     bindE (item_at aa 5) (\<lambda>a5. bindE (item_at bb 5) (\<lambda>b5.
     bindE (need (a5 = profile \<and> b5 = profile) (WireError ''PROFILE'' [])) (\<lambda>_.
     bindE (item_at aa 6) (\<lambda>a6. bindE (item_at bb 6) (\<lambda>b6.
     bindE (need (a6 = ipeer \<and> b6 = rpeer) (WireError ''TRANSPORT_BINDING'' [])) (\<lambda>_.
     bindE (item_at aa 2) (\<lambda>a2. bindE (item_at bb 2) (\<lambda>b2.
     bindE (need (a6 \<noteq> b6 \<and> a2 \<noteq> b2) (WireError ''REFLECTION'' [])) (\<lambda>_.
     bindE (need (selected_wire = PStr (cps ''par/1-draft-2'') \<and> selected_suite = PInt 1)
       (WireError ''NEGOTIATION'' [])) (\<lambda>_.
     bindE (offers aa selected_wire selected_suite) (\<lambda>oa.
     bindE (offers bb selected_wire selected_suite) (\<lambda>ob.
     bindE (need (oa \<and> ob) (WireError ''NEGOTIATION'' [])) (\<lambda>_.
     bindE (encode (transcript_payload initiator responder a0 profile a2 b2 a6 b6) MAX_BYTES MAX_NODES) (\<lambda>canonical.
     bindE (domain (cps ''session-id'') [PBytes canonical]) (\<lambda>d.
       Inr \<lparr>t_canonical = canonical, candidate_session_id = sha256 d, authenticated = False\<rparr>)))))))))))))))))))))))))))"

section \<open>Replay window\<close>

record replay_window =
  capacity :: nat
  ttl :: int
  entries :: "(bytes \<times> int) list"
  clock :: "int option"

definition new_window :: "int \<Rightarrow> int \<Rightarrow> replay_window res" where
  "new_window cap t =
     (if \<not> (1 \<le> cap \<and> cap \<le> 1000000) then Inl ValueError
      else if t \<le> 0 then Inl ValueError
      else Inr \<lparr>capacity = nat cap, ttl = t, entries = [], clock = None\<rparr>)"

definition remember :: "replay_window \<Rightarrow> bytes \<Rightarrow> int option \<Rightarrow> replay_window \<times> unit res" where
  "remember w digest now =
     (if length digest \<noteq> 32 then (w, wire ''SCHEMA'')
      else case now of
        None \<Rightarrow> (w, wire ''CLOCK'')
      | Some t \<Rightarrow>
          if (case clock w of None \<Rightarrow> False | Some c \<Rightarrow> t < c) then (w, wire ''CLOCK'')
          else
            let w = w\<lparr>clock := Some t, entries := filter (\<lambda>e. snd e > t) (entries w)\<rparr> in
            if digest \<in> fst ` set (entries w) then (w, wire ''REPLAY'')
            else if length (entries w) \<ge> capacity w then (w, wire ''RESOURCE_LIMIT'')
            else (w\<lparr>entries := entries w @ [(digest, t + ttl w)]\<rparr>, Inr ()))"

text \<open>A sequence of calls, with the calls that were accepted.\<close>

primrec remember_all :: "replay_window \<Rightarrow> (bytes \<times> int option) list
    \<Rightarrow> replay_window \<times> (bytes \<times> int) list" where
  "remember_all w [] = (w, [])"
| "remember_all w (c # cs) = (case remember w (fst c) (snd c) of
     (w', r) \<Rightarrow> (case remember_all w' cs of (w'', acc) \<Rightarrow>
       (w'', (case (r, snd c) of (Inr _, Some t) \<Rightarrow> (fst c, t) # acc | _ \<Rightarrow> acc))))"

section \<open>What a transcript binds\<close>

lemma encode_injective:
  assumes "encode v mb mn = Inr b" "encode v' mb' mn' = Inr b" "wf_py v" "wf_py v'"
  shows "canon v = canon v'"
proof -
  have c: "canonical (canon v)" "canonical (canon v')" "cbor (canon v) = cbor (canon v')"
    and lim: "cheight v \<le> Suc MAX_DEPTH" "cheight v' \<le> Suc MAX_DEPTH" "int (length (cbor (canon v))) \<le> MAX_BYTES"
    using assms by (auto simp: encode_iff canonical_canon_enc budget_ok_def)
  have "1 \<le> cnodes v" "1 \<le> cnodes v'" by (rule cnodes_pos)+
  then have "decode (cbor (canon v)) MAX_BYTES (max (cnodes v) (cnodes v')) = Inr (canon v)"
    and "decode (cbor (canon v)) MAX_BYTES (max (cnodes v) (cnodes v')) = Inr (canon v')"
    using c lim by (simp_all add: decode_iff budget_ok_def MAX_BYTES_def)
  then show ?thesis by simp
qed

lemma decode_encode_canon:
  "encode v mb mn = Inr b \<Longrightarrow> canon v = v \<Longrightarrow> wf_py v \<Longrightarrow> decode b mb mn = Inr v"
  using canonical_canon_enc [of v] by (simp add: encode_iff decode_iff)

text \<open>A signature covers the transcript and the role: equal signing bytes mean equal canonical
  transcripts and equal roles, so that an initiator's proof cannot be reflected as a responder's.\<close>

theorem signing_bytes_injective:
  assumes "signing_bytes t role = Inr b" and "signing_bytes t' role' = Inr b"
  shows "t_canonical t = t_canonical t' \<and> role = role'"
proof -
  let ?v = "\<lambda>c r. PList [PStr (cps ''PAR''), PInt 1, PStr (cps ''session-auth''), PList [PBytes c, PStr r]]"
  have "encode (?v (t_canonical t) role) MAX_BYTES MAX_NODES = Inr b"
    and "encode (?v (t_canonical t') role') MAX_BYTES MAX_NODES = Inr b"
    using assms by (simp_all add: signing_bytes_def domain_def split: if_splits)
  from encode_injective [OF this] show ?thesis by simp
qed

lemma signing_bytes_sample:
  "signing_bytes \<lparr>t_canonical = [1], candidate_session_id = [], authenticated = False\<rparr> (cps ''initiator'')
    = Inr (cbor (PList [PStr (cps ''PAR''), PInt 1, PStr (cps ''session-auth''), PList [PBytes [1], PStr (cps ''initiator'')]]))"
  by (simp add: signing_bytes_def domain_def encode_iff cps_def utf8_cp_def nhead_def MAX_BYTES_def MAX_NODES_def
      MAX_DEPTH_def U64_def budget_ok_def)

theorem signing_bytes_injective_witness:
  "\<not> (\<exists>t'. signing_bytes t' (cps ''responder'')
     = signing_bytes \<lparr>t_canonical = [1], candidate_session_id = [], authenticated = False\<rparr> (cps ''initiator''))"
  using signing_bytes_injective [OF signing_bytes_sample, of _ "cps ''responder''"] signing_bytes_sample by auto

lemma frame_code:
  assumes "decode_frame w = Inr a"
  shows "\<exists>c. item_at a 1 = Inr (PInt c)"
  using assms by (auto simp: decode_frame_iff frame_value_def frame_ok_def)

lemma hello_body:
  assumes "decode_frame w = Inr a" and "item_at a 1 = Inr (PInt 1)"
  shows "\<exists>aa. item_at a 4 = Inr aa \<and> conforms default_rules (NRef ''hello-body'') aa \<and> canonical aa"
proof -
  have ok: "frame_ok a" and c: "canonical a"
    using assms(1) by (simp_all add: decode_frame_iff frame_value_def)
  obtain body aa where fr: "map_of registry_messages 1 = Some body" "item_at a 4 = Inr aa"
      "conforms default_rules (NRef body) aa"
    using frame_body [OF ok assms(2)] by metis
  have "canonical aa"
    using c fr(2) by (cases a) (auto simp: item_at_def dict_get_def list_all_iff split: option.splits if_splits dest!: map_of_SomeD)
  then show ?thesis using registry_code_body(1) [OF fr(1)] fr(2,3) by simp
qed

lemma hello_items:
  assumes "conforms default_rules (NRef ''hello-body'') b"
  shows "\<exists>app. item_at b 0 = Inr (PStr app)" and "\<exists>n. item_at b 2 = Inr (PBytes n)"
    and "\<exists>w. item_at b 3 = Inr (PList w)" and "\<exists>s. item_at b 4 = Inr (PList s)"
    and "\<exists>p. item_at b 5 = Inr (PBytes p)" and "\<exists>p. item_at b 6 = Inr (PBytes p)"
  using hello_types [OF assms] body_fields(1) [OF assms, of 2 "NRef ''nonce32''"]
    body_fields(1) [OF assms, of 5 "NRef ''id32''"] body_fields(1) [OF assms, of 6 "NSize (NRef ''bstr'') 1 128"]
  by (auto simp: primitive_def conforms_ref [of _ "''nonce32''"] conforms_ref [of _ "''id32''"] rule_nonce32 rule_id32
      conforms_size conforms_prims)

text \<open>One transcript: both frames are hello messages for the same application, with the expected profile and the
  expected, different transport peers and different nonces; the canonical bytes decode to exactly these fields and the
  digests of both frames.\<close>

lemma build_transcript_fields:
  assumes "build_transcript initiator responder profile ipeer rpeer w s = Inr t"
  shows "\<exists>a b aa bb app n m. decode_frame initiator = Inr a \<and> decode_frame responder = Inr b
    \<and> item_at a 1 = Inr (PInt 1) \<and> item_at b 1 = Inr (PInt 1)
    \<and> item_at a 4 = Inr aa \<and> item_at b 4 = Inr bb
    \<and> item_at aa 0 = Inr app \<and> item_at bb 0 = Inr app
    \<and> item_at aa 5 = Inr profile \<and> item_at bb 5 = Inr profile
    \<and> item_at aa 6 = Inr ipeer \<and> item_at bb 6 = Inr rpeer \<and> ipeer \<noteq> rpeer
    \<and> item_at aa 2 = Inr n \<and> item_at bb 2 = Inr m \<and> n \<noteq> m
    \<and> decode (t_canonical t) MAX_BYTES MAX_NODES
        = Inr (transcript_payload initiator responder app profile n m ipeer rpeer)
    \<and> (\<exists>d. domain (cps ''session-id'') [PBytes (t_canonical t)] = Inr d \<and> candidate_session_id t = sha256 d)
    \<and> \<not> authenticated t"
proof -
  obtain a b aa bb app n m c d where
    dec: "decode_frame initiator = Inr a" "decode_frame responder = Inr b"
    and hello: "item_at a 1 = Inr (PInt 1)" "item_at b 1 = Inr (PInt 1)" "item_at a 4 = Inr aa" "item_at b 4 = Inr bb"
    and fields: "item_at aa 0 = Inr app" "item_at bb 0 = Inr app" "item_at aa 5 = Inr profile" "item_at bb 5 = Inr profile"
      "item_at aa 6 = Inr ipeer" "item_at bb 6 = Inr rpeer" "ipeer \<noteq> rpeer"
      "item_at aa 2 = Inr n" "item_at bb 2 = Inr m" "n \<noteq> m"
    and enc: "encode (transcript_payload initiator responder app profile n m ipeer rpeer) MAX_BYTES MAX_NODES = Inr c"
    and sid: "domain (cps ''session-id'') [PBytes c] = Inr d"
    and t: "t = \<lparr>t_canonical = c, candidate_session_id = sha256 d, authenticated = False\<rparr>"
    using assms by (auto simp: build_transcript_def res_simps)
  obtain aa' where "item_at a 4 = Inr aa'" "conforms default_rules (NRef ''hello-body'') aa'"
    using hello_body [OF dec(1) hello(1)] by blast
  with hello(3) have aa: "conforms default_rules (NRef ''hello-body'') aa" by simp
  obtain bb' where "item_at b 4 = Inr bb'" "conforms default_rules (NRef ''hello-body'') bb'"
    using hello_body [OF dec(2) hello(2)] by blast
  with hello(4) have bb: "conforms default_rules (NRef ''hello-body'') bb" by simp
  have "\<exists>x. app = PStr x" "\<exists>x. n = PBytes x" "\<exists>x. m = PBytes x" "\<exists>x. profile = PBytes x"
      "\<exists>x. ipeer = PBytes x" "\<exists>x. rpeer = PBytes x"
    using hello_items(1,2,5,6) [OF aa] hello_items(2,6) [OF bb] fields by simp_all
  then have "canon (transcript_payload initiator responder app profile n m ipeer rpeer)
      = transcript_payload initiator responder app profile n m ipeer rpeer"
    and "wf_py (transcript_payload initiator responder app profile n m ipeer rpeer)"
    unfolding transcript_payload_def mk_dict_def by auto
  then have "decode c MAX_BYTES MAX_NODES = Inr (transcript_payload initiator responder app profile n m ipeer rpeer)"
    using enc by (intro decode_encode_canon)
  then show ?thesis using dec hello fields sid t by auto
qed

text \<open>Two different byte strings with the same digest.\<close>

definition same_digest :: "bytes \<Rightarrow> bytes \<Rightarrow> bool" where
  "same_digest x y \<longleftrightarrow> x \<noteq> y \<and> sha256 x = sha256 y"

lemma transcript_payload_inject:
  assumes "transcript_payload i r app p n m ip rp = transcript_payload i' r' app' p' n' m' ip' rp'"
  shows "same_digest i i' \<or> same_digest r r' \<or> i = i' \<and> r = r' \<and> p = p' \<and> ip = ip' \<and> rp = rp'"
  using assms by (auto simp: transcript_payload_def mk_dict_def same_digest_def)

lemma transcripts_inject:
  assumes "build_transcript i r p ip rp w s = Inr t" and "build_transcript i' r' p' ip' rp' w' s' = Inr t'"
    and eq: "t_canonical t = t_canonical t'"
  shows "same_digest i i' \<or> same_digest r r' \<or> i = i' \<and> r = r' \<and> p = p' \<and> ip = ip' \<and> rp = rp' \<and> t = t'"
proof -
  obtain app n m where c: "decode (t_canonical t) MAX_BYTES MAX_NODES = Inr (transcript_payload i r app p n m ip rp)"
      "\<exists>d. domain (cps ''session-id'') [PBytes (t_canonical t)] = Inr d \<and> candidate_session_id t = sha256 d" "\<not> authenticated t"
    using build_transcript_fields [OF assms(1)] by blast
  obtain app' n' m' where c': "decode (t_canonical t') MAX_BYTES MAX_NODES = Inr (transcript_payload i' r' app' p' n' m' ip' rp')"
      "\<exists>d. domain (cps ''session-id'') [PBytes (t_canonical t')] = Inr d \<and> candidate_session_id t' = sha256 d" "\<not> authenticated t'"
    using build_transcript_fields [OF assms(2)] by blast
  have "t = t'" using c(2,3) c'(2,3) eq by (auto intro!: transcript.equality)
  moreover have "transcript_payload i r app p n m ip rp = transcript_payload i' r' app' p' n' m' ip' rp'"
    using c(1) c'(1) eq by simp
  ultimately show ?thesis using transcript_payload_inject by blast
qed

lemma domain_inject:
  assumes "domain l [PBytes c] = Inr d" and "domain l [PBytes c'] = Inr d"
  shows "c = c'"
proof -
  let ?v = "\<lambda>c. PList [PStr (cps ''PAR''), PInt 1, PStr l, PList [PBytes c]]"
  have "encode (?v c) MAX_BYTES MAX_NODES = Inr d" "encode (?v c') MAX_BYTES MAX_NODES = Inr d"
    using assms by (simp_all add: domain_def split: if_splits)
  from encode_injective [OF this] show ?thesis by simp
qed

lemma same_session:
  assumes "build_transcript i r p ip rp w s = Inr t" and "build_transcript i' r' p' ip' rp' w' s' = Inr t'"
    and "candidate_session_id t = candidate_session_id t'"
  shows "t_canonical t = t_canonical t' \<or> (\<exists>d d'. domain (cps ''session-id'') [PBytes (t_canonical t)] = Inr d
    \<and> domain (cps ''session-id'') [PBytes (t_canonical t')] = Inr d' \<and> same_digest d d')"
proof -
  obtain d where d: "domain (cps ''session-id'') [PBytes (t_canonical t)] = Inr d" "candidate_session_id t = sha256 d"
    using build_transcript_fields [OF assms(1)] by blast
  obtain d' where d': "domain (cps ''session-id'') [PBytes (t_canonical t')] = Inr d'" "candidate_session_id t' = sha256 d'"
    using build_transcript_fields [OF assms(2)] by blast
  show ?thesis
  proof (cases "d = d'")
    case True
    then show ?thesis using domain_inject [OF d(1)] d'(1) by blast
  next
    case False
    then have "same_digest d d'" using assms(3) d(2) d'(2) by (simp add: same_digest_def)
    then show ?thesis using d(1) d'(1) by blast
  qed
qed

lemma same_signed:
  assumes "auth_digest t role = Inr h" "auth_digest t' role' = Inr h"
  shows "t_canonical t = t_canonical t' \<and> role = role'
    \<or> (\<exists>d d'. signing_bytes t role = Inr d \<and> signing_bytes t' role' = Inr d' \<and> same_digest d d')"
proof -
  obtain x y where xy: "signing_bytes t role = Inr x" "signing_bytes t' role' = Inr y" "sha256 x = h" "sha256 y = h"
    using assms by (auto simp: auth_digest_def res_simps)
  show ?thesis
  proof (cases "x = y")
    case True
    then show ?thesis using signing_bytes_injective [OF xy(1)] xy(2) by blast
  next
    case False
    then show ?thesis using xy by (auto simp: same_digest_def)
  qed
qed

text \<open>C5. A transcript binds what it is built from, up to a collision of SHA-256 between named strings. Let two transcripts be
  built, each from two frames, a profile and two transport peers. The frames of a transcript are hello messages for
  the same application, with the given profile and the given, different peers and with different nonces, and the
  transcript is not marked authenticated. If the candidate session identifiers of both transcripts are equal, or the digests that the parties
  sign in some roles are, then either two different strings out of the pairs of hashed session (or signing) bytes,
  initiator frames and responder frames have the same digest, or both transcripts were built from the same
  initiator frame, responder frame, profile and peers (and, for the signed digests, in the same role).\<close>

theorem build_transcript_binds:
  assumes "build_transcript i r p ip rp w s = Inr t" and "build_transcript i' r' p' ip' rp' w' s' = Inr t'"
  shows "(\<exists>a b aa bb app n m. decode_frame i = Inr a \<and> decode_frame r = Inr b
      \<and> item_at a 1 = Inr (PInt 1) \<and> item_at b 1 = Inr (PInt 1) \<and> item_at a 4 = Inr aa \<and> item_at b 4 = Inr bb
      \<and> item_at aa 0 = Inr app \<and> item_at bb 0 = Inr app \<and> item_at aa 5 = Inr p \<and> item_at bb 5 = Inr p
      \<and> item_at aa 6 = Inr ip \<and> item_at bb 6 = Inr rp \<and> ip \<noteq> rp
      \<and> item_at aa 2 = Inr n \<and> item_at bb 2 = Inr m \<and> n \<noteq> m) \<and> \<not> authenticated t
    \<and> (candidate_session_id t = candidate_session_id t' \<longrightarrow>
        (\<exists>d d'. domain (cps ''session-id'') [PBytes (t_canonical t)] = Inr d
           \<and> domain (cps ''session-id'') [PBytes (t_canonical t')] = Inr d' \<and> same_digest d d')
        \<or> same_digest i i' \<or> same_digest r r' \<or> i = i' \<and> r = r' \<and> p = p' \<and> ip = ip' \<and> rp = rp' \<and> t = t')
    \<and> (auth_digest t role = Inr h \<and> auth_digest t' role' = Inr h \<longrightarrow>
        (\<exists>d d'. signing_bytes t role = Inr d \<and> signing_bytes t' role' = Inr d' \<and> same_digest d d')
        \<or> same_digest i i' \<or> same_digest r r'
        \<or> i = i' \<and> r = r' \<and> p = p' \<and> ip = ip' \<and> rp = rp' \<and> t = t' \<and> role = role')"
proof -
  have fields: "\<exists>a b aa bb app n m. decode_frame i = Inr a \<and> decode_frame r = Inr b
      \<and> item_at a 1 = Inr (PInt 1) \<and> item_at b 1 = Inr (PInt 1) \<and> item_at a 4 = Inr aa \<and> item_at b 4 = Inr bb
      \<and> item_at aa 0 = Inr app \<and> item_at bb 0 = Inr app \<and> item_at aa 5 = Inr p \<and> item_at bb 5 = Inr p
      \<and> item_at aa 6 = Inr ip \<and> item_at bb 6 = Inr rp \<and> ip \<noteq> rp
      \<and> item_at aa 2 = Inr n \<and> item_at bb 2 = Inr m \<and> n \<noteq> m" "\<not> authenticated t"
    using build_transcript_fields [OF assms(1)] by blast+
  show ?thesis
  proof (intro conjI impI)
    assume "candidate_session_id t = candidate_session_id t'"
    then show "(\<exists>d d'. domain (cps ''session-id'') [PBytes (t_canonical t)] = Inr d
           \<and> domain (cps ''session-id'') [PBytes (t_canonical t')] = Inr d' \<and> same_digest d d')
        \<or> same_digest i i' \<or> same_digest r r' \<or> i = i' \<and> r = r' \<and> p = p' \<and> ip = ip' \<and> rp = rp' \<and> t = t'"
      using same_session [OF assms] transcripts_inject [OF assms] by blast
  next
    assume "auth_digest t role = Inr h \<and> auth_digest t' role' = Inr h"
    then show "(\<exists>d d'. signing_bytes t role = Inr d \<and> signing_bytes t' role' = Inr d' \<and> same_digest d d')
        \<or> same_digest i i' \<or> same_digest r r'
        \<or> i = i' \<and> r = r' \<and> p = p' \<and> ip = ip' \<and> rp = rp' \<and> t = t' \<and> role = role'"
      using same_signed [of t role h t' role'] transcripts_inject [OF assms] by blast
  qed (rule fields)+
qed

lemma item_at_raises: "item_at v k = Inr x \<Longrightarrow> raises P (item_at v k)"
  by (simp add: raises_Inr)

lemma decode_frame_raises [raises_intros]: "raises wire_error (decode_frame w)"
  by (auto simp: decode_frame_def Let_def intro!: raises_intros)

lemma domain_raises [raises_intros]: "raises wire_error (domain label parts)"
  by (auto simp: domain_def intro!: raises_intros)

lemma build_transcript_raises:
  "raises wire_error (build_transcript initiator responder profile ipeer rpeer w s)"
proof (cases "\<exists>a b. decode_frame initiator = Inr a \<and> decode_frame responder = Inr b")
  case False
  then show ?thesis
    using raisesD [OF decode_frame_raises [of initiator]] raisesD [OF decode_frame_raises [of responder]]
    by (cases "decode_frame initiator"; cases "decode_frame responder")
      (auto simp: build_transcript_def intro!: raises_intros)
next
  case True
  then obtain a b where dec: "decode_frame initiator = Inr a" "decode_frame responder = Inr b" by blast
  obtain c c' where code: "item_at a 1 = Inr (PInt c)" "item_at b 1 = Inr (PInt c')"
    using frame_code [OF dec(1)] frame_code [OF dec(2)] by blast
  show ?thesis
  proof (cases "c = 1 \<and> c' = 1")
    case False
    then show ?thesis using dec code by (auto simp: build_transcript_def intro!: raises_intros)
  next
    case True
    then obtain aa bb where "item_at a 4 = Inr aa" "item_at b 4 = Inr bb"
      and hello: "conforms default_rules (NRef ''hello-body'') aa" "conforms default_rules (NRef ''hello-body'') bb"
      using hello_body dec code by blast
    then show ?thesis using dec code hello_items [OF hello(1)] hello_items [OF hello(2)]
      by (auto simp: build_transcript_def offers_def list_of_def intro!: raises_intros)
  qed
qed

text \<open>Two hello frames that agree on application, profile, wire name and suite.\<close>

definition hello_sample :: "byte \<Rightarrow> pyval" where
  "hello_sample p = mk_dict [(0, PInt 1), (1, PInt 1), (2, PBytes (replicate 16 p)), (3, PNone),
     (4, mk_dict [(0, PStr (cps ''app.example'')), (1, PBytes [1]), (2, PBytes (replicate 32 p)),
        (3, PList [PStr (cps ''par/1-draft-2'')]), (4, PList [PInt 1]), (5, PBytes (replicate 32 9)), (6, PBytes [p])]),
     (5, PInt 0)]"

lemma utf8_wire_name: "utf8_encode (cps ''par/1-draft-2'') = Some (map byte (cps ''par/1-draft-2''))"
  by (simp add: cps_def utf8_cp_def)

lemma utf8_app_name: "utf8_encode (cps ''app.example'') = Some (map byte (cps ''app.example''))"
  by (simp add: cps_def utf8_cp_def)

lemma hello_sample_nul: "0 \<notin> set (cps ''app.example'')"
  by (simp add: cps_def)

lemma hello_sample_canonical: "canonical (hello_sample p)"
  by (simp add: hello_sample_def mk_dict_def U64_def utf8_wire_name utf8_app_name)

lemma hello_sample_body: "check_hello (mk_dict [(0, PStr (cps ''app.example'')), (1, PBytes [1]), (2, PBytes (replicate 32 p)),
        (3, PList [PStr (cps ''par/1-draft-2'')]), (4, PList [PInt 1]), (5, PBytes (replicate 32 9)), (6, PBytes [p])]) = Inr ()"
  by (simp add: check_hello_def mk_dict_def item_at_def dict_get_def str_of_def list_of_def app_id_ok_def cps_def
      label_ok_def alnum_def)

lemma hello_sample_valid: "validate_frame (hello_sample p) = Inr ()"
  using hello_sample_body [of p] hello_sample_nul
  by (simp add: U64_def validate_frame_def hello_sample_def mk_dict_def is_int_def dict_get_def registry_messages_def
      schema_validate_def rule_lookup numeral_eq_Suc primitive_def prim_ok_def map_shape_def key_field_def has_nul_def
      field_of_def py_size_def item_at_def check_body_def page_fields_def ex_bool_eq utf8_wire_name utf8_app_name)

lemma hello_sample_decode: "decode_frame (frame_wire (hello_sample p)) = Inr (hello_sample p)"
proof -
  have "cheight (hello_sample p) \<le> Suc MAX_DEPTH" "cnodes (hello_sample p) \<le> MAX_NODES"
    by (simp_all add: hello_sample_def mk_dict_def MAX_DEPTH_def MAX_NODES_def)
  moreover have "int (length (cbor (hello_sample p))) \<le> MAX_BYTES"
    by (simp add: hello_sample_def mk_dict_def nhead_def utf8_wire_name utf8_app_name MAX_BYTES_def)
  ultimately show ?thesis
    using hello_sample_canonical [of p] hello_sample_valid [of p]
    by (simp add: decode_frame_iff frame_value_def canonical_encodable validate_frame_ok)
qed

lemma payload_sample: "\<exists>b. encode (transcript_payload (frame_wire x) (frame_wire y) (PStr (cps ''app.example''))
    (PBytes (replicate 32 9)) (PBytes (replicate 32 1)) (PBytes (replicate 32 2)) (PBytes [1]) (PBytes [2]))
    MAX_BYTES MAX_NODES = Inr b \<and> length b < 1000"
  by (simp add: encode_iff transcript_payload_def mk_dict_def utf8_wire_name utf8_app_name budget_ok_def MAX_BYTES_def
      MAX_NODES_def MAX_DEPTH_def U64_def nhead_def) (simp add: cps_def utf8_cp_def nhead_def)

lemma session_id_sample: "length b < 1000 \<Longrightarrow> \<exists>d. domain (cps ''session-id'') [PBytes b] = Inr d"
  by (simp add: domain_def encode_iff MAX_BYTES_def MAX_NODES_def budget_ok_def MAX_DEPTH_def U64_def nhead_def)
    (simp add: cps_def utf8_cp_def nhead_def)

lemma session_auth_sample: "length b < 1000 \<Longrightarrow> \<exists>d. domain (cps ''session-auth'') [PBytes b, PStr (cps ''initiator'')] = Inr d"
  by (simp add: domain_def encode_iff MAX_BYTES_def MAX_NODES_def budget_ok_def MAX_DEPTH_def U64_def nhead_def)
    (simp add: cps_def utf8_cp_def nhead_def)

theorem build_transcript_binds_witness:
  "\<exists>t h. build_transcript (frame_wire (hello_sample 1)) (frame_wire (hello_sample 2)) (PBytes (replicate 32 9))
      (PBytes [1]) (PBytes [2]) (PStr (cps ''par/1-draft-2'')) (PInt 1) = Inr t \<and> \<not> authenticated t
    \<and> auth_digest t (cps ''initiator'') = Inr h
    \<and> (auth_digest t (cps ''responder'') = Inr h \<longrightarrow>
        (\<exists>d d'. signing_bytes t (cps ''initiator'') = Inr d \<and> signing_bytes t (cps ''responder'') = Inr d' \<and> same_digest d d'))"
proof -
  obtain b where b: "encode (transcript_payload (frame_wire (hello_sample 1)) (frame_wire (hello_sample 2))
    (PStr (cps ''app.example'')) (PBytes (replicate 32 9)) (PBytes (replicate 32 1)) (PBytes (replicate 32 2))
    (PBytes [1]) (PBytes [2])) MAX_BYTES MAX_NODES = Inr b" "length b < 1000"
    using payload_sample by blast
  obtain d where d: "domain (cps ''session-id'') [PBytes b] = Inr d" using session_id_sample [OF b(2)] by blast
  let ?t = "\<lparr>t_canonical = b, candidate_session_id = sha256 d, authenticated = False\<rparr>"
  have t: "build_transcript (frame_wire (hello_sample 1)) (frame_wire (hello_sample 2)) (PBytes (replicate 32 9))
      (PBytes [1]) (PBytes [2]) (PStr (cps ''par/1-draft-2'')) (PInt 1) = Inr ?t"
    using b(1) d by (simp add: build_transcript_def profile_ok_def peer_ok_def hello_sample_decode)
      (simp add: hello_sample_def mk_dict_def item_at_def dict_get_def offers_def list_of_def)
  obtain x where x: "domain (cps ''session-auth'') [PBytes b, PStr (cps ''initiator'')] = Inr x"
    using session_auth_sample [OF b(2)] by blast
  have h: "auth_digest ?t (cps ''initiator'') = Inr (sha256 x)"
    using x by (simp add: auth_digest_def signing_bytes_def)
  have "\<not> same_digest y y" for y by (simp add: same_digest_def)
  then show ?thesis
    using build_transcript_binds [OF t t, of "cps ''initiator''" "sha256 x" "cps ''responder''"] t h by auto
qed

section \<open>The replay window\<close>

text \<open>The window remembers every accepted digest until it expires, never more than its capacity, and its
  clock never runs backwards.\<close>

definition window_ok :: "replay_window \<Rightarrow> (bytes \<times> int) list \<Rightarrow> bool" where
  "window_ok w acc \<longleftrightarrow> length (entries w) \<le> capacity w \<and> distinct (map fst (entries w)) \<and> 0 < ttl w
     \<and> (\<forall>c. clock w = Some c \<longrightarrow> (\<forall>(d, t) \<in> set acc. t \<le> c \<and> (c < t + ttl w \<longrightarrow> (d, t + ttl w) \<in> set (entries w))))
     \<and> (clock w = None \<longrightarrow> acc = [] \<and> entries w = [])"

lemma remember_effect:
  assumes "remember w d now = (w', r)"
  shows "capacity w' = capacity w" "ttl w' = ttl w"
  using assms by (auto simp: remember_def Let_def split: if_splits option.splits)

lemma prune_ok:
  assumes "window_ok w acc" and "case clock w of None \<Rightarrow> True | Some c \<Rightarrow> c \<le> t"
  shows "window_ok (w\<lparr>clock := Some t, entries := filter (\<lambda>e. snd e > t) (entries w)\<rparr>) acc"
proof -
  have "length (filter (\<lambda>e. snd e > t) (entries w)) \<le> capacity w"
    using assms(1) le_trans [OF length_filter_le] by (auto simp: window_ok_def)
  then show ?thesis
    using assms by (fastforce simp: window_ok_def distinct_map_filter split: option.splits)
qed

lemma remember_cases:
  assumes "remember w d now = (w', r)"
  obtains (unchanged) e where "w' = w" "r = Inl e"
  | (pruned) t e where "now = Some t" "case clock w of None \<Rightarrow> True | Some c \<Rightarrow> c \<le> t" "r = Inl e"
      "w' = w\<lparr>clock := Some t, entries := filter (\<lambda>e. snd e > t) (entries w)\<rparr>"
  | (added) t w1 where "now = Some t" "case clock w of None \<Rightarrow> True | Some c \<Rightarrow> c \<le> t" "r = Inr ()"
      "w1 = w\<lparr>clock := Some t, entries := filter (\<lambda>e. snd e > t) (entries w)\<rparr>"
      "d \<notin> fst ` set (entries w1)" "length (entries w1) < capacity w1"
      "w' = w1\<lparr>entries := entries w1 @ [(d, t + ttl w1)]\<rparr>"
proof (cases "length d = 32 \<and> (\<exists>t. now = Some t \<and> (case clock w of None \<Rightarrow> True | Some c \<Rightarrow> c \<le> t))")
  case False
  then have "\<exists>e. w' = w \<and> r = Inl e"
    using assms by (auto simp: remember_def split: if_splits option.splits)
  then show ?thesis using unchanged by blast
next
  case True
  then obtain t where t: "length d = 32" "now = Some t" "case clock w of None \<Rightarrow> True | Some c \<Rightarrow> c \<le> t" by blast
  let ?w1 = "w\<lparr>clock := Some t, entries := filter (\<lambda>e. snd e > t) (entries w)\<rparr>"
  from t(3) have "\<not> (case clock w of None \<Rightarrow> False | Some c \<Rightarrow> t < c)" by (auto split: option.splits)
  with t assms have res: "(w', r) = (if d \<in> fst ` set (entries ?w1) then (?w1, wire ''REPLAY'')
      else if length (entries ?w1) \<ge> capacity ?w1 then (?w1, wire ''RESOURCE_LIMIT'')
      else (?w1\<lparr>entries := entries ?w1 @ [(d, t + ttl ?w1)]\<rparr>, Inr ()))"
    by (simp add: remember_def Let_def)
  show ?thesis
  proof (cases "d \<in> fst ` set (entries ?w1) \<or> length (entries ?w1) \<ge> capacity ?w1")
    case True
    then have "w' = ?w1 \<and> (\<exists>e. r = Inl e)" using res by (auto split: if_splits)
    then show ?thesis using pruned [of t] t by blast
  next
    case False
    then show ?thesis using added [of t ?w1] res t by (simp add: not_le)
  qed
qed

lemma remember_accepts:
  assumes "remember w d (Some t) = (w', Inr u)" and "window_ok w acc"
  shows "window_ok w' (acc @ [(d, t)]) \<and> (\<forall>t'. (d, t') \<in> set acc \<longrightarrow> t' + ttl w \<le> t)"
  using assms(1)
proof (cases rule: remember_cases)
  case (added t1 w1)
  then have ok: "window_ok w1 acc" "t1 = t" "clock w1 = Some t" "ttl w1 = ttl w"
    using prune_ok [OF assms(2)] by simp_all
  have old: "t' + ttl w \<le> t" if "(d, t') \<in> set acc" for t'
  proof (rule ccontr)
    assume "\<not> t' + ttl w \<le> t"
    with ok that have "(d, t' + ttl w) \<in> set (entries w1)" by (fastforce simp: window_ok_def)
    with added(5) show False by force
  qed
  moreover have "window_ok w' (acc @ [(d, t)])"
    using added ok by (fastforce simp: window_ok_def)
  ultimately show ?thesis by blast
qed simp_all

lemma remember_all_spaced:
  "remember_all w calls = (w', acc') \<Longrightarrow> window_ok w acc
   \<Longrightarrow> window_ok w' (acc @ acc') \<and> ttl w' = ttl w \<and> capacity w' = capacity w
     \<and> (\<forall>i < length acc'. \<forall>t. (fst (acc' ! i), t) \<in> set (acc @ take i acc') \<longrightarrow> t + ttl w \<le> snd (acc' ! i))"
proof (induction calls arbitrary: w acc acc')
  case Nil
  then show ?case by simp
next
  case (Cons c cs)
  obtain w1 r where r: "remember w (fst c) (snd c) = (w1, r)" by force
  obtain acc2 where rest: "remember_all w1 cs = (w', acc2)" using Cons.prems(1) r by (auto split: prod.splits)
  have eff: "ttl w1 = ttl w" "capacity w1 = capacity w" using remember_effect [OF r] by simp_all
  show ?case
  proof (cases r)
    case (Inl e)
    then have "window_ok w1 acc"
      by (cases rule: remember_cases [OF r]) (use Cons.prems(2) prune_ok in \<open>simp_all\<close>)
    from Cons.IH [OF rest this] show ?thesis using Cons.prems(1) r rest Inl eff by simp
  next
    case (Inr u)
    then obtain t where t: "snd c = Some t" by (cases rule: remember_cases [OF r]) auto
    with r Inr have acc: "remember w (fst c) (Some t) = (w1, Inr u)" by simp
    note step = remember_accepts [OF acc Cons.prems(2)]
    from Cons.IH [OF rest, of "acc @ [(fst c, t)]"] step
    have IH: "window_ok w' ((acc @ [(fst c, t)]) @ acc2)" "ttl w' = ttl w1" "capacity w' = capacity w1"
      "\<forall>i < length acc2. \<forall>s. (fst (acc2 ! i), s) \<in> set ((acc @ [(fst c, t)]) @ take i acc2) \<longrightarrow> s + ttl w1 \<le> snd (acc2 ! i)"
      by blast+
    have res: "acc' = (fst c, t) # acc2" using Cons.prems(1) r rest t Inr by auto
    have "s + ttl w \<le> snd (acc' ! i)" if "i < length acc'" "(fst (acc' ! i), s) \<in> set (acc @ take i acc')" for i s
      using that IH(4) step eff res by (cases i) auto
    then show ?thesis using IH(1-3) eff res by simp
  qed
qed

text \<open>C9. No replay within the lifetime: in any sequence of calls to a new window, with any clock
  readings, a digest is accepted again only when its previous acceptance has expired, and the window never holds more
  entries than its capacity.\<close>

theorem replay_window_spaced:
  assumes "new_window cap lifetime = Inr w" and "remember_all w calls = (w', acc)"
    and "i < j" and "j < length acc" and "fst (acc ! i) = fst (acc ! j)"
  shows "snd (acc ! i) + lifetime \<le> snd (acc ! j) \<and> int (length (entries w')) \<le> cap"
proof -
  have w: "window_ok w []" "ttl w = lifetime" "int (capacity w) = cap"
    using assms(1) by (auto simp: new_window_def window_ok_def split: if_splits)
  note run = remember_all_spaced [OF assms(2) w(1)]
  have "(fst (acc ! j), snd (acc ! i)) \<in> set (take j acc)"
    using assms(3-5) by (auto simp: in_set_conv_nth prod_eq_iff intro!: exI [of _ i])
  then have "snd (acc ! i) + lifetime \<le> snd (acc ! j)" using run assms(4) w(2) by simp
  moreover have "length (entries w') \<le> capacity w" using run by (simp add: window_ok_def)
  ultimately show ?thesis using w(3) by linarith
qed

theorem replay_window_spaced_witness:
  "\<exists>w w'. new_window 2 10 = Inr w
    \<and> remember_all w [(replicate 32 7, Some 1), (replicate 32 7, Some 5), (replicate 32 7, Some 11)]
      = (w', [(replicate 32 7, 1), (replicate 32 7, 11)]) \<and> (1::int) + 10 \<le> 11 \<and> length (entries w') \<le> 2"
proof -
  let ?d = "replicate 32 (7 :: byte)"
  let ?w = "\<lparr>capacity = 2, ttl = 10, entries = [], clock = None\<rparr>"
  let ?w' = "\<lparr>capacity = 2, ttl = 10, entries = [(?d, 21)], clock = Some 11\<rparr>"
  have n: "new_window 2 10 = Inr ?w" by (simp add: new_window_def)
  have r: "remember_all ?w [(?d, Some 1), (?d, Some 5), (?d, Some 11)] = (?w', [(?d, 1), (?d, 11)])"
    by (simp add: remember_def)
  from replay_window_spaced [OF n r, of 0 1] n r show ?thesis by auto
qed

end
