(* ===== verification/Provider.thy ===== *)
theory Provider
  imports Sha256 Negotiation
begin

text \<open>
  The cryptographic provider boundary: \<^verbatim>\<open>par_crypto/provider.py\<close> (argument checks and result handling of
  the native calls), \<^verbatim>\<open>par_crypto/primitives.py\<close> (HKDF, typed domains, key derivation), \<^verbatim>\<open>par_crypto/hpke.py\<close>
  and \<^verbatim>\<open>par_crypto/admission.py\<close>.

  libsodium itself is the record \<open>sodium\<close>: one function for each C entry point the adapter binds, \<open>None\<close> for a
  non-zero return code. \<open>sodium_ok\<close> states its documented behaviour: key and signature sizes, that a signature made
  with a seed verifies under the seed's public key, that the two sides of an exchange agree and
  that authenticated decryption inverts encryption. Nothing else is assumed of it. Random bytes come from a source that may fail.
\<close>

section \<open>Native library\<close>

record sodium =
  n_keypair :: "bytes \<Rightarrow> bytes option"
  n_sign :: "bytes \<Rightarrow> bytes \<Rightarrow> bytes option"
  n_verify :: "bytes \<Rightarrow> bytes \<Rightarrow> bytes \<Rightarrow> bool"
  n_base :: "bytes \<Rightarrow> bytes option"
  n_dh :: "bytes \<Rightarrow> bytes \<Rightarrow> bytes option"
  n_encrypt :: "bool \<Rightarrow> bytes \<Rightarrow> bytes \<Rightarrow> bytes \<Rightarrow> bytes \<Rightarrow> bytes option"
  n_decrypt :: "bool \<Rightarrow> bytes \<Rightarrow> bytes \<Rightarrow> bytes \<Rightarrow> bytes \<Rightarrow> bytes option"

definition from_bytes_little :: "bytes \<Rightarrow> nat" where
  "from_bytes_little b = from_bytes (rev b)"

definition group_order :: nat where
  "group_order = 2 ^ 252 + 27742317777372353535851937790883648493"

definition sodium_ok :: "sodium \<Rightarrow> bool" where
  "sodium_ok n \<longleftrightarrow>
     (\<forall>s pk. n_keypair n s = Some pk \<longrightarrow> length pk = 32)
   \<and> (\<forall>s pk m sig. n_keypair n s = Some pk \<longrightarrow> n_sign n s m = Some sig \<longrightarrow>
        length sig = 64 \<and> from_bytes_little (drop 32 sig) < group_order \<and> n_verify n sig m pk)
   \<and> (\<forall>s p. n_base n s = Some p \<longrightarrow> length p = 32)
   \<and> (\<forall>s p x. n_dh n s p = Some x \<longrightarrow> length x = 32)
   \<and> (\<forall>a b pa pb. n_base n a = Some pa \<longrightarrow> n_base n b = Some pb \<longrightarrow> n_dh n a pb = n_dh n b pa)
   \<and> (\<forall>i k u a d c. n_encrypt n i k u a d = Some c \<longrightarrow> length c = length d + 16 \<and> n_decrypt n i k u a c = Some d)"

section \<open>Provider adapter\<close>

abbreviation crypto_fail :: "string \<Rightarrow> 'a res" where
  "crypto_fail code \<equiv> Inl (CryptoError code)"

definition MAX_INPUT :: nat where "MAX_INPUT = 1048576"

definition fixed :: "bytes \<Rightarrow> nat \<Rightarrow> unit res" where
  "fixed v sz = need (length v = sz) (CryptoError ''INVALID_INPUT'')"

definition bounded :: "bytes \<Rightarrow> nat \<Rightarrow> nat \<Rightarrow> unit res" where
  "bounded v limit minimum = need (minimum \<le> length v \<and> length v \<le> limit) (CryptoError ''INVALID_INPUT'')"

text \<open>The type test of \<^verbatim>\<open>fixed\<close> and \<^verbatim>\<open>bounded\<close> on a value taken from a decoded object.\<close>

definition as_bytes :: "pyval \<Rightarrow> bytes res" where
  "as_bytes v = (case v of PBytes b \<Rightarrow> Inr b | _ \<Rightarrow> crypto_fail ''INVALID_INPUT'')"

definition p_sign_public :: "sodium \<Rightarrow> bytes \<Rightarrow> bytes res" where
  "p_sign_public n seed =
     bindE (fixed seed 32) (\<lambda>_.
       case n_keypair n seed of None \<Rightarrow> crypto_fail ''PROVIDER_FAILURE'' | Some pk \<Rightarrow> Inr pk)"

definition p_sign :: "sodium \<Rightarrow> bytes \<Rightarrow> bytes \<Rightarrow> bytes res" where
  "p_sign n seed message =
     bindE (fixed seed 32) (\<lambda>_.
     bindE (bounded message MAX_INPUT 0) (\<lambda>_.
       case (n_keypair n seed, n_sign n seed message) of
         (Some _, Some sig) \<Rightarrow> if length sig \<noteq> 64 then crypto_fail ''PROVIDER_FAILURE'' else Inr sig
       | _ \<Rightarrow> crypto_fail ''PROVIDER_FAILURE''))"

definition p_verify :: "sodium \<Rightarrow> bytes \<Rightarrow> bytes \<Rightarrow> bytes \<Rightarrow> unit res" where
  "p_verify n public_key message signature =
     bindE (fixed public_key 32) (\<lambda>_.
     bindE (fixed signature 64) (\<lambda>_.
     bindE (bounded message MAX_INPUT 0) (\<lambda>_.
       if from_bytes_little (drop 32 signature) \<ge> group_order then crypto_fail ''SIGNATURE_INVALID''
       else need (n_verify n signature message public_key) (CryptoError ''SIGNATURE_INVALID''))))"

definition p_dh_public :: "sodium \<Rightarrow> bytes \<Rightarrow> bytes res" where
  "p_dh_public n secret =
     bindE (fixed secret 32) (\<lambda>_.
       case n_base n secret of None \<Rightarrow> crypto_fail ''KEM_INVALID'' | Some p \<Rightarrow> Inr p)"

definition p_dh :: "sodium \<Rightarrow> bytes \<Rightarrow> bytes \<Rightarrow> bytes res" where
  "p_dh n secret public_key =
     bindE (fixed secret 32) (\<lambda>_.
     bindE (fixed public_key 32) (\<lambda>_.
       case n_dh n secret public_key of None \<Rightarrow> crypto_fail ''KEM_INVALID'' | Some x \<Rightarrow> Inr x))"

definition crypt :: "sodium \<Rightarrow> bytes \<Rightarrow> bytes \<Rightarrow> bytes \<Rightarrow> bytes \<Rightarrow> bool \<Rightarrow> bool \<Rightarrow> bytes res" where
  "crypt n key nonce aad data dec ietf =
     bindE (fixed key 32) (\<lambda>_.
     bindE (fixed nonce (if ietf then 12 else 24)) (\<lambda>_.
     bindE (bounded aad MAX_INPUT 0) (\<lambda>_.
     bindE (bounded data MAX_INPUT (if dec then 16 else 0)) (\<lambda>_.
       let out_size = (if dec then length data - 16 else length data + 16) in
       case (if dec then n_decrypt n ietf key nonce aad data else n_encrypt n ietf key nonce aad data) of
         None \<Rightarrow> crypto_fail (if dec then ''AEAD_INVALID'' else ''PROVIDER_FAILURE'')
       | Some out \<Rightarrow> if length out \<noteq> out_size then crypto_fail ''PROVIDER_FAILURE'' else Inr out))))"

definition p_seal :: "sodium \<Rightarrow> bytes \<Rightarrow> bytes \<Rightarrow> bytes \<Rightarrow> bytes \<Rightarrow> bytes res" where
  "p_seal n key nonce aad plaintext = crypt n key nonce aad plaintext False False"

definition p_open :: "sodium \<Rightarrow> bytes \<Rightarrow> bytes \<Rightarrow> bytes \<Rightarrow> bytes \<Rightarrow> bytes res" where
  "p_open n key nonce aad ciphertext = crypt n key nonce aad ciphertext True False"

definition p_seal_ietf :: "sodium \<Rightarrow> bytes \<Rightarrow> bytes \<Rightarrow> bytes \<Rightarrow> bytes \<Rightarrow> bytes res" where
  "p_seal_ietf n key nonce aad plaintext = crypt n key nonce aad plaintext False True"

definition p_open_ietf :: "sodium \<Rightarrow> bytes \<Rightarrow> bytes \<Rightarrow> bytes \<Rightarrow> bytes \<Rightarrow> bytes res" where
  "p_open_ietf n key nonce aad ciphertext = crypt n key nonce aad ciphertext True True"

section \<open>Primitives\<close>

type_synonym random_source = "nat \<Rightarrow> bytes option"

definition random_bytes :: "int \<Rightarrow> random_source \<Rightarrow> bytes res" where
  "random_bytes sz source =
     (if \<not> (1 \<le> sz \<and> sz \<le> 1024) then crypto_fail ''INVALID_INPUT''
      else case source (nat sz) of
        None \<Rightarrow> crypto_fail ''RNG_FAILURE''
      | Some v \<Rightarrow> if int (length v) \<noteq> sz then crypto_fail ''RNG_FAILURE'' else Inr v)"

definition hkdf_extract :: "bytes \<Rightarrow> bytes \<Rightarrow> bytes res" where
  "hkdf_extract salt ikm =
     bindE (bounded salt MAX_INPUT 0) (\<lambda>_.
     bindE (bounded ikm MAX_INPUT 0) (\<lambda>_.
       Inr (hmac_sha256 (if salt = [] then replicate 32 0 else salt) ikm)))"

text \<open>The loop of \<^verbatim>\<open>hkdf_expand\<close>: round \<open>i\<close>, the rounds left and the previous block.\<close>

primrec hkdf_blocks :: "bytes \<Rightarrow> bytes \<Rightarrow> nat \<Rightarrow> nat \<Rightarrow> bytes \<Rightarrow> bytes" where
  "hkdf_blocks prk info i 0 prev = []"
| "hkdf_blocks prk info i (Suc k) prev =
     (let block = hmac_sha256 prk (prev @ info @ [byte i]) in block @ hkdf_blocks prk info (Suc i) k block)"

definition hkdf_expand :: "bytes \<Rightarrow> bytes \<Rightarrow> int \<Rightarrow> bytes res" where
  "hkdf_expand prk info sz =
     bindE (fixed prk 32) (\<lambda>_.
     bindE (bounded info MAX_INPUT 0) (\<lambda>_.
       if \<not> (0 \<le> sz \<and> sz \<le> 255 * 32) then crypto_fail ''INVALID_INPUT''
       else Inr (take (nat sz) (hkdf_blocks prk info 1 (nat ((sz + 31) div 32)) []))))"

definition lower_digit :: "nat \<Rightarrow> bool" where
  "lower_digit c \<longleftrightarrow> (97 \<le> c \<and> c \<le> 122) \<or> (48 \<le> c \<and> c \<le> 57)"

text \<open>\<^verbatim>\<open>[a-z][a-z0-9/-]{0,63}\<close>\<close>

definition label_pattern :: "pystr \<Rightarrow> bool" where
  "label_pattern s \<longleftrightarrow> s \<noteq> [] \<and> length s \<le> 64 \<and> 97 \<le> hd s \<and> hd s \<le> 122
     \<and> list_all (\<lambda>c. lower_digit c \<or> c = 47 \<or> c = 45) s"

definition wire_to :: "exn \<Rightarrow> 'a res \<Rightarrow> 'a res" where
  "wire_to e m = (case m of Inl (WireError c p) \<Rightarrow> Inl e | _ \<Rightarrow> m)"

definition c_domain :: "pystr \<Rightarrow> pyval list \<Rightarrow> bytes res" where
  "c_domain label parts =
     (if \<not> label_pattern label then crypto_fail ''INVALID_INPUT''
      else wire_to (CryptoError ''INVALID_INPUT'')
        (encode (PList [PStr (cps ''PAR''), PInt 1, PStr label, PList parts]) MAX_BYTES MAX_NODES))"

definition hashed :: "string \<Rightarrow> pyval list \<Rightarrow> bytes res" where
  "hashed label parts = bindE (c_domain (cps label) parts) (\<lambda>b. Inr (sha256 b))"

text \<open>\<^verbatim>\<open>[a-z0-9][a-z0-9.-]{0,127}\<close>\<close>

definition key_app_pattern :: "pystr \<Rightarrow> bool" where
  "key_app_pattern s \<longleftrightarrow> s \<noteq> [] \<and> length s \<le> 128 \<and> lower_digit (hd s)
     \<and> list_all (\<lambda>c. lower_digit c \<or> c = 46 \<or> c = 45) s"

definition is_u64 :: "pyval \<Rightarrow> bool" where
  "is_u64 v = (case v of PInt i \<Rightarrow> 0 \<le> i \<and> i < 2 ^ 64 | _ \<Rightarrow> False)"

definition object_key :: "bytes \<Rightarrow> pyval \<Rightarrow> pyval \<Rightarrow> pyval \<Rightarrow> pyval \<Rightarrow> pyval \<Rightarrow> pyval \<Rightarrow> bytes res" where
  "object_key epoch_secret app_id space_id epoch kind object_id key_generation =
     bindE (fixed epoch_secret 32) (\<lambda>_.
     bindE (bindE (as_bytes space_id) (\<lambda>b. fixed b 32)) (\<lambda>_.
     bindE (bindE (as_bytes object_id) (\<lambda>b. fixed b 32)) (\<lambda>_.
     bindE (need (case app_id of PStr s \<Rightarrow> key_app_pattern s | _ \<Rightarrow> False) (CryptoError ''INVALID_INPUT'')) (\<lambda>_.
     bindE (need (is_u64 epoch \<and> is_u64 key_generation) (CryptoError ''INVALID_INPUT'')) (\<lambda>_.
     bindE (need (case kind of PInt i \<Rightarrow> 1 \<le> i \<and> i \<le> 7 | _ \<Rightarrow> False) (CryptoError ''INVALID_INPUT'')) (\<lambda>_.
     bindE (hashed ''epoch-salt'' [app_id, space_id, epoch]) (\<lambda>salt.
     bindE (hkdf_extract salt epoch_secret) (\<lambda>prk.
     bindE (c_domain (cps ''object-key'') [kind, object_id, key_generation]) (\<lambda>info.
       hkdf_expand prk info 32)))))))))"

section \<open>HPKE\<close>

definition KEM :: bytes where "KEM = map byte (cps ''KEM'' @ [0, 32])"
definition SUITE :: bytes where "SUITE = map byte (cps ''HPKE'' @ [0, 32, 0, 1, 0, 3])"

definition ascii :: "string \<Rightarrow> bytes" where
  "ascii s = map byte (cps s)"

definition hpke_extract :: "bytes \<Rightarrow> bytes \<Rightarrow> bytes \<Rightarrow> bytes \<Rightarrow> bytes res" where
  "hpke_extract suite salt label ikm = hkdf_extract salt (ascii ''HPKE-v1'' @ suite @ label @ ikm)"

definition hpke_expand :: "bytes \<Rightarrow> bytes \<Rightarrow> bytes \<Rightarrow> bytes \<Rightarrow> nat \<Rightarrow> bytes res" where
  "hpke_expand suite prk label info sz =
     hkdf_expand prk (to_bytes 2 sz @ ascii ''HPKE-v1'' @ suite @ label @ info) (int sz)"

definition derive_keypair :: "sodium \<Rightarrow> bytes \<Rightarrow> (bytes \<times> bytes) res" where
  "derive_keypair n ikm =
     bindE (bounded ikm 1024 32) (\<lambda>_.
     bindE (hpke_extract KEM [] (ascii ''dkp_prk'') ikm) (\<lambda>prk.
     bindE (hpke_expand KEM prk (ascii ''sk'') [] 32) (\<lambda>sk.
     bindE (p_dh_public n sk) (\<lambda>pk. Inr (sk, pk)))))"

definition hpke_shared :: "bytes \<Rightarrow> bytes \<Rightarrow> bytes res" where
  "hpke_shared dh context =
     bindE (hpke_extract KEM [] (ascii ''eae_prk'') dh) (\<lambda>prk. hpke_expand KEM prk (ascii ''shared_secret'') context 32)"

definition hpke_schedule :: "bytes \<Rightarrow> bytes \<Rightarrow> (bytes \<times> bytes) res" where
  "hpke_schedule shared info =
     bindE (fixed shared 32) (\<lambda>_.
     bindE (bounded info 65536 0) (\<lambda>_.
     bindE (hpke_extract SUITE [] (ascii ''psk_id_hash'') []) (\<lambda>a.
     bindE (hpke_extract SUITE [] (ascii ''info_hash'') info) (\<lambda>b.
     let context = [0] @ a @ b in
     bindE (hpke_extract SUITE shared (ascii ''secret'') []) (\<lambda>secret.
     bindE (hpke_expand SUITE secret (ascii ''key'') context 32) (\<lambda>key.
     bindE (hpke_expand SUITE secret (ascii ''base_nonce'') context 12) (\<lambda>nonce.
       Inr (key, nonce))))))))"

definition hpke_seal :: "sodium \<Rightarrow> bytes \<Rightarrow> bytes \<Rightarrow> bytes \<Rightarrow> bytes \<Rightarrow> random_source \<Rightarrow> (bytes \<times> bytes) res" where
  "hpke_seal n recipient_public info aad plaintext source =
     bindE (fixed recipient_public 32) (\<lambda>_.
     bindE (bounded info 65536 0) (\<lambda>_.
     bindE (bounded aad 65536 0) (\<lambda>_.
     bindE (bounded plaintext 4080 0) (\<lambda>_.
     bindE (random_bytes 32 source) (\<lambda>ikm.
     bindE (derive_keypair n ikm) (\<lambda>(sk, enc).
     bindE (p_dh n sk recipient_public) (\<lambda>dh.
     bindE (hpke_shared dh (enc @ recipient_public)) (\<lambda>shared.
     bindE (hpke_schedule shared info) (\<lambda>(key, nonce).
     bindE (p_seal_ietf n key nonce aad plaintext) (\<lambda>ct. Inr (enc, ct)))))))))))"

definition hpke_open :: "sodium \<Rightarrow> bytes \<Rightarrow> bytes \<Rightarrow> bytes \<Rightarrow> bytes \<Rightarrow> bytes \<Rightarrow> bytes res" where
  "hpke_open n recipient_secret enc info aad ciphertext =
     bindE (fixed recipient_secret 32) (\<lambda>_.
     bindE (fixed enc 32) (\<lambda>_.
     bindE (bounded info 65536 0) (\<lambda>_.
     bindE (bounded aad 65536 0) (\<lambda>_.
     bindE (bounded ciphertext 4096 16) (\<lambda>_.
     bindE (p_dh_public n recipient_secret) (\<lambda>recipient_public.
     bindE (p_dh n recipient_secret enc) (\<lambda>dh.
     bindE (hpke_shared dh (enc @ recipient_public)) (\<lambda>shared.
     bindE (hpke_schedule shared info) (\<lambda>(key, nonce).
       p_open_ietf n key nonce aad ciphertext)))))))))"

end
