(* ===== verification/Objects.thy ===== *)
theory Objects
  imports Provider
begin

text \<open>
  The typed cryptographic objects of \<^verbatim>\<open>par_crypto/objects.py\<close>: change envelopes, sealed blocks, signed
  objects, device certificates and epoch key packages, and the provider admission of \<^verbatim>\<open>par_crypto/admission.py\<close>.

  \<open>lower_app_ok\<close> is the lower-case identifier pattern of \<^verbatim>\<open>APP\<close>. \<open>obj_parse\<close> turns every \<^verbatim>\<open>WireError\<close> of decoding and
  schema validation into the one code \<^verbatim>\<open>OBJECT_SCHEMA\<close>, as the code does.
\<close>

section \<open>Parsing\<close>

definition lower_label :: "pystr \<Rightarrow> bool" where
  "lower_label s \<longleftrightarrow> s \<noteq> [] \<and> lower_digit (hd s) \<and> lower_digit (last s)
     \<and> list_all (\<lambda>c. lower_digit c \<or> c = 45) s"

definition lower_app_ok :: "pystr \<Rightarrow> bool" where
  "lower_app_ok s \<longleftrightarrow> length s \<le> 128 \<and>
     (let labels = split_dot [] s in 2 \<le> length labels \<and> list_all lower_label labels)"

definition check_app_id :: "pyval \<Rightarrow> unit res" where
  "check_app_id v = need (case v of PStr s \<Rightarrow> lower_app_ok s | _ \<Rightarrow> False) (CryptoError ''OBJECT_SCHEMA'')"

definition checked :: "string \<Rightarrow> pyval \<Rightarrow> pyval res" where
  "checked rule v = bindE (wire_to (CryptoError ''OBJECT_SCHEMA'') (schema_validate default_rules rule v)) (\<lambda>_. Inr v)"

definition obj_parse :: "string \<Rightarrow> bytes \<Rightarrow> nat \<Rightarrow> pyval res" where
  "obj_parse rule raw limit =
     bindE (bounded raw limit 1) (\<lambda>_.
     bindE (wire_to (CryptoError ''OBJECT_SCHEMA'') (decode raw (int limit) MAX_NODES)) (checked rule))"

definition change_header :: "pyval \<Rightarrow> bytes res" where
  "change_header v =
     bindE (checked ''change-header'' v) (\<lambda>_.
     bindE (bindE (item_at v 0) check_app_id) (\<lambda>_.
     bindE (item_at v 7) (\<lambda>seq. bindE (bindE (item_at v 10) list_of) (\<lambda>deps.
     bindE (need (\<not> int_of seq < 1 \<and> distinct deps) (CryptoError ''OBJECT_SCHEMA'')) (\<lambda>_.
       encode v MAX_BYTES MAX_NODES)))))"

definition change_key :: "bytes \<Rightarrow> pyval \<Rightarrow> bool \<Rightarrow> bytes res" where
  "change_key secret h block =
     bindE (item_at h 0) (\<lambda>h0. bindE (item_at h 1) (\<lambda>h1. bindE (item_at h 2) (\<lambda>h2.
     bindE (item_at h 4) (\<lambda>h4. bindE (item_at h 3) (\<lambda>h3. bindE (item_at h (if block then 6 else 15)) (\<lambda>g.
       object_key secret h0 h1 h2 h4 h3 g))))))"

definition object_id :: "string \<Rightarrow> nat \<Rightarrow> bytes \<Rightarrow> bytes res" where
  "object_id label limit raw = bindE (bounded raw limit 1) (\<lambda>_. hashed label [PBytes raw])"

definition envelope_id :: "bytes \<Rightarrow> bytes res" where "envelope_id = object_id ''envelope-id'' 786432"
definition block_id :: "bytes \<Rightarrow> bytes res" where "block_id = object_id ''block-id'' 270336"
definition package_id :: "bytes \<Rightarrow> bytes res" where "package_id = object_id ''key-package-id'' 65536"
definition certificate_id :: "bytes \<Rightarrow> bytes res" where "certificate_id = object_id ''certificate-id'' 65536"

definition check_author :: "bytes \<Rightarrow> pyval \<Rightarrow> unit res" where
  "check_author pk h =
     bindE (fixed pk 32) (\<lambda>_.
     bindE (item_at h 5) (\<lambda>h5. bindE (item_at h 0) (\<lambda>h0.
     bindE (hashed ''device-id'' [h0, PBytes pk]) (\<lambda>d.
       need (h5 = PBytes d) (CryptoError ''AUTHOR_MISMATCH'')))))"

section \<open>Change envelopes\<close>

definition seal_change :: "sodium \<Rightarrow> bytes \<Rightarrow> bytes \<Rightarrow> pyval \<Rightarrow> bytes \<Rightarrow> bytes \<Rightarrow> bytes res" where
  "seal_change n epoch_secret signing_seed header payload nonce =
     bindE (change_header header) (\<lambda>hb.
     bindE (decode hb MAX_BYTES MAX_NODES) (\<lambda>header.
     bindE (bounded payload 524288 0) (\<lambda>_.
     bindE (fixed nonce 24) (\<lambda>_.
     bindE (item_at header 11) (\<lambda>sz.
     bindE (need (sz = PInt (int (length payload))) (CryptoError ''LENGTH_MISMATCH'')) (\<lambda>_.
     bindE (p_sign_public n signing_seed) (\<lambda>pk.
     bindE (check_author pk header) (\<lambda>_.
     bindE (change_key epoch_secret header False) (\<lambda>key.
     bindE (c_domain (cps ''envelope-aad'') [PBytes hb]) (\<lambda>aad.
     bindE (p_seal n key nonce aad payload) (\<lambda>ct.
     bindE (c_domain (cps ''envelope-sign'') [PBytes hb, PBytes nonce, PBytes ct]) (\<lambda>msg.
     bindE (p_sign n signing_seed msg) (\<lambda>sig.
       encode (mk_dict [(0, PBytes hb), (1, PBytes nonce), (2, PBytes ct), (3, PBytes sig)])
         MAX_BYTES MAX_NODES)))))))))))))"

definition open_change :: "sodium \<Rightarrow> bytes \<Rightarrow> bytes \<Rightarrow> pyval \<Rightarrow> bytes \<Rightarrow> bytes res" where
  "open_change n epoch_secret signer_public expected_header raw =
     bindE (change_header expected_header) (\<lambda>expected.
     bindE (obj_parse ''change-envelope'' raw 786432) (\<lambda>o'.
     bindE (item_at o' 0) (\<lambda>o0. bindE (as_bytes o0) (\<lambda>hb.
     bindE (obj_parse ''change-header'' hb 16384) (\<lambda>h.
     bindE (change_header h) (\<lambda>_.
     bindE (need (hb = expected) (CryptoError ''CONTEXT_MISMATCH'')) (\<lambda>_.
     bindE (check_author signer_public h) (\<lambda>_.
     bindE (item_at o' 1) (\<lambda>o1. bindE (item_at o' 2) (\<lambda>o2. bindE (item_at o' 3) (\<lambda>o3.
     bindE (c_domain (cps ''envelope-sign'') [o0, o1, o2]) (\<lambda>msg.
     bindE (as_bytes o3) (\<lambda>sig.
     bindE (p_verify n signer_public msg sig) (\<lambda>_.
     bindE (as_bytes o2) (\<lambda>ct. bindE (item_at h 11) (\<lambda>sz.
     bindE (need (int (length ct) = int_of sz + 16) (CryptoError ''LENGTH_MISMATCH'')) (\<lambda>_.
     bindE (change_key epoch_secret h False) (\<lambda>key.
     bindE (as_bytes o1) (\<lambda>nonce.
     bindE (c_domain (cps ''envelope-aad'') [o0]) (\<lambda>aad.
     bindE (p_open n key nonce aad ct) (\<lambda>plain.
     bindE (need (int (length plain) = int_of sz) (CryptoError ''LENGTH_MISMATCH'')) (\<lambda>_.
       Inr plain))))))))))))))))))))))"

section \<open>Sealed blocks\<close>

definition block_header :: "pyval \<Rightarrow> bytes res" where
  "block_header h =
     bindE (checked ''block-header'' h) (\<lambda>_.
     bindE (bindE (item_at h 0) check_app_id) (\<lambda>_. encode h MAX_BYTES MAX_NODES))"

definition seal_block :: "sodium \<Rightarrow> bytes \<Rightarrow> pyval \<Rightarrow> bytes \<Rightarrow> bytes \<Rightarrow> bytes res" where
  "seal_block n epoch_secret header payload nonce =
     bindE (block_header header) (\<lambda>hb.
     bindE (decode hb MAX_BYTES MAX_NODES) (\<lambda>header.
     bindE (bounded payload 262144 0) (\<lambda>_.
     bindE (fixed nonce 24) (\<lambda>_.
     bindE (item_at header 7) (\<lambda>sz.
     bindE (need (sz = PInt (int (length payload))) (CryptoError ''LENGTH_MISMATCH'')) (\<lambda>_.
     bindE (change_key epoch_secret header True) (\<lambda>key.
     bindE (c_domain (cps ''block-aad'') [PBytes hb]) (\<lambda>aad.
     bindE (p_seal n key nonce aad payload) (\<lambda>ct.
       encode (mk_dict [(0, PBytes hb), (1, PBytes nonce), (2, PBytes ct)]) MAX_BYTES MAX_NODES)))))))))"

definition open_block :: "sodium \<Rightarrow> bytes \<Rightarrow> pyval \<Rightarrow> bytes \<Rightarrow> bytes res" where
  "open_block n epoch_secret expected_header raw =
     bindE (block_header expected_header) (\<lambda>hb.
     bindE (obj_parse ''sealed-block'' raw 270336) (\<lambda>o'.
     bindE (item_at o' 0) (\<lambda>o0. bindE (as_bytes o0) (\<lambda>b0.
     bindE (obj_parse ''block-header'' b0 4096) (\<lambda>h.
     bindE (block_header h) (\<lambda>_.
     bindE (need (b0 = hb) (CryptoError ''CONTEXT_MISMATCH'')) (\<lambda>_.
     bindE (change_key epoch_secret h True) (\<lambda>key.
     bindE (item_at o' 1) (\<lambda>o1. bindE (as_bytes o1) (\<lambda>nonce.
     bindE (item_at o' 2) (\<lambda>o2. bindE (as_bytes o2) (\<lambda>ct.
     bindE (c_domain (cps ''block-aad'') [o0]) (\<lambda>aad.
     bindE (p_open n key nonce aad ct) (\<lambda>plain.
     bindE (item_at h 7) (\<lambda>sz.
     bindE (need (int (length plain) = int_of sz) (CryptoError ''LENGTH_MISMATCH'')) (\<lambda>_.
       Inr plain))))))))))))))))"

section \<open>Signed objects and certificates\<close>

definition signed :: "sodium \<Rightarrow> bytes \<Rightarrow> string \<Rightarrow> pyval \<Rightarrow> bytes res" where
  "signed n seed label body =
     bindE (encode body MAX_BYTES MAX_NODES) (\<lambda>raw.
     bindE (bounded raw 65536 1) (\<lambda>_.
     bindE (p_sign_public n seed) (\<lambda>pk.
     bindE (c_domain (cps label) [PBytes raw]) (\<lambda>msg.
     bindE (p_sign n seed msg) (\<lambda>sig.
       encode (mk_dict [(0, PBytes raw), (1, PBytes pk), (2, PBytes sig)]) MAX_BYTES MAX_NODES)))))"

definition verify_signed :: "sodium \<Rightarrow> bytes \<Rightarrow> string \<Rightarrow> string \<Rightarrow> bytes \<Rightarrow> pyval res" where
  "verify_signed n pk label rule raw =
     bindE (fixed pk 32) (\<lambda>_.
     bindE (obj_parse ''signed-object'' raw 66000) (\<lambda>o'.
     bindE (item_at o' 1) (\<lambda>o1.
     bindE (need (o1 = PBytes pk) (CryptoError ''SIGNER_MISMATCH'')) (\<lambda>_.
     bindE (item_at o' 0) (\<lambda>o0. bindE (c_domain (cps label) [o0]) (\<lambda>msg.
     bindE (bindE (item_at o' 2) as_bytes) (\<lambda>sig.
     bindE (p_verify n pk msg sig) (\<lambda>_.
     bindE (as_bytes o0) (\<lambda>b. obj_parse rule b 65536)))))))))"

definition create_certificate :: "sodium \<Rightarrow> bytes \<Rightarrow> pyval \<Rightarrow> pyval \<Rightarrow> pyval \<Rightarrow> pyval \<Rightarrow> bytes res" where
  "create_certificate n account_seed app device_public recipient_public serial =
     bindE (check_app_id app) (\<lambda>_.
     bindE (p_sign_public n account_seed) (\<lambda>pk.
     let body = mk_dict [(0, PInt 1), (1, app), (2, PBytes pk), (3, device_public), (4, recipient_public), (5, serial)] in
     bindE (checked ''certificate-body'' body) (\<lambda>_.
     bindE (need (PBytes pk \<noteq> device_public \<and> PBytes pk \<noteq> recipient_public \<and> device_public \<noteq> recipient_public)
       (CryptoError ''KEY_ROLE_REUSE'')) (\<lambda>_.
       signed n account_seed ''certificate-sign'' body))))"

definition verify_certificate :: "sodium \<Rightarrow> pyval \<Rightarrow> bytes \<Rightarrow> bytes \<Rightarrow> pyval res" where
  "verify_certificate n app expected_account_public raw =
     bindE (check_app_id app) (\<lambda>_.
     bindE (verify_signed n expected_account_public ''certificate-sign'' ''certificate-body'' raw) (\<lambda>body.
     bindE (item_at body 1) (\<lambda>b1. bindE (item_at body 2) (\<lambda>b2.
     bindE (need (b1 = app \<and> b2 = PBytes expected_account_public) (CryptoError ''CONTEXT_MISMATCH'')) (\<lambda>_.
     bindE (item_at body 3) (\<lambda>b3. bindE (item_at body 4) (\<lambda>b4.
     bindE (need (distinct [b2, b3, b4]) (CryptoError ''KEY_ROLE_REUSE'')) (\<lambda>_.
       Inr body))))))))"

section \<open>Epoch key packages\<close>

definition package_context :: "pyval \<Rightarrow> pyval res" where
  "package_context c = (case c of
     PDict kvs \<Rightarrow>
       bindE (need (set (map fst kvs) = set (map PInt [0, 1, 2, 3, 4, 5, 6])) (CryptoError ''OBJECT_SCHEMA'')) (\<lambda>_.
       bindE (checked ''key-package-body''
         (PDict (kvs @ [(PInt 7, PInt 1), (PInt 8, PBytes (replicate 32 48)), (PInt 9, PBytes (replicate 16 48))]))) (\<lambda>_.
       bindE (bindE (item_at c 0) check_app_id) (\<lambda>_.
       bindE (encode c MAX_BYTES MAX_NODES) (\<lambda>b. decode b MAX_BYTES MAX_NODES))))
   | _ \<Rightarrow> crypto_fail ''OBJECT_SCHEMA'')"

definition items_at :: "pyval \<Rightarrow> int list \<Rightarrow> pyval list res" where
  "items_at v ks = mapE (item_at v) ks"

definition package_info :: "pyval \<Rightarrow> bytes res" where
  "package_info c = bindE (items_at c [0, 1, 2, 3, 5]) (c_domain (cps ''key-package-info''))"

definition package_aad :: "pyval \<Rightarrow> bytes res" where
  "package_aad c = bindE (items_at c [4, 6]) (\<lambda>xs. c_domain (cps ''key-package-aad'') (PInt 1 # xs))"

definition secret_body :: "pyval \<Rightarrow> pyval \<Rightarrow> pyval res" where
  "secret_body secret c = bindE (items_at c [0, 1, 2, 3, 4]) (\<lambda>xs. Inr (mk_dict (zip [0, 1, 2, 3, 4, 5] (secret # xs))))"

definition dict_extend :: "pyval \<Rightarrow> (int \<times> pyval) list \<Rightarrow> pyval" where
  "dict_extend c new = (case c of PDict kvs \<Rightarrow> PDict (kvs @ map (\<lambda>(k, v). (PInt k, v)) new) | _ \<Rightarrow> c)"

definition seal_package :: "sodium \<Rightarrow> bytes \<Rightarrow> bytes \<Rightarrow> pyval \<Rightarrow> bytes \<Rightarrow> random_source \<Rightarrow> bytes res" where
  "seal_package n authority_seed recipient_public context epoch_secret source =
     bindE (package_context context) (\<lambda>c.
     bindE (fixed epoch_secret 32) (\<lambda>_.
     bindE (package_info c) (\<lambda>info.
     bindE (package_aad c) (\<lambda>aad.
     bindE (secret_body (PBytes epoch_secret) c) (\<lambda>sb.
     bindE (encode sb MAX_BYTES MAX_NODES) (\<lambda>plain.
     bindE (hpke_seal n recipient_public info aad plain source) (\<lambda>(enc, ct).
     let body = dict_extend c [(7, PInt 1), (8, PBytes enc), (9, PBytes ct)] in
     bindE (checked ''key-package-body'' body) (\<lambda>_.
       signed n authority_seed ''key-package-sign'' body))))))))"

definition package_root :: "bytes list \<Rightarrow> bytes res" where
  "package_root ids =
     bindE (need (1 \<le> length ids \<and> length ids \<le> 1024) (CryptoError ''PACKAGE_ROOT_INVALID'')) (\<lambda>_.
     bindE (need (list_all (\<lambda>i. length i = 32) ids \<and> distinct ids) (CryptoError ''PACKAGE_ROOT_INVALID'')) (\<lambda>_.
       hashed ''package-root'' [PList (map PBytes (sort_bytes (\<lambda>x. x) ids))]))"

definition open_package :: "sodium \<Rightarrow> bytes \<Rightarrow> bytes \<Rightarrow> pyval \<Rightarrow> bytes \<Rightarrow> bytes list \<Rightarrow> bytes \<Rightarrow> pyval res" where
  "open_package n recipient_secret authority_public expected_context raw package_ids trusted_package_root =
     bindE (package_context expected_context) (\<lambda>c.
     bindE (fixed trusted_package_root 32) (\<lambda>_.
     bindE (package_root package_ids) (\<lambda>root.
     bindE (need (root = trusted_package_root) (CryptoError ''PACKAGE_ROOT_INVALID'')) (\<lambda>_.
     bindE (package_id raw) (\<lambda>pid.
     bindE (need (pid \<in> set package_ids) (CryptoError ''PACKAGE_ROOT_INVALID'')) (\<lambda>_.
     bindE (verify_signed n authority_public ''key-package-sign'' ''key-package-body'' raw) (\<lambda>body.
     bindE (items_at body [0, 1, 2, 3, 4, 5, 6]) (\<lambda>bs.
     bindE (items_at c [0, 1, 2, 3, 4, 5, 6]) (\<lambda>cs.
     bindE (need (bs = cs) (CryptoError ''CONTEXT_MISMATCH'')) (\<lambda>_.
     bindE (bindE (item_at body 8) as_bytes) (\<lambda>enc.
     bindE (package_info c) (\<lambda>info.
     bindE (package_aad c) (\<lambda>aad.
     bindE (bindE (item_at body 9) as_bytes) (\<lambda>ct.
     bindE (hpke_open n recipient_secret enc info aad ct) (\<lambda>plain.
     bindE (obj_parse ''epoch-secret-plaintext'' plain 4096) (\<lambda>result.
     bindE (item_at result 0) (\<lambda>secret.
     bindE (secret_body secret c) (\<lambda>expected.
     bindE (need (result = expected) (CryptoError ''CONTEXT_MISMATCH'')) (\<lambda>_.
       Inr secret)))))))))))))))))))"

end
