(* ===== verification/ObjectRules.thy ===== *)
theory ObjectRules
  imports Objects
begin

text \<open>
  The schema rules of the portable signed and sealed objects, in the form the proofs use: table lookups, the fact that every
  one of them is decided by the interpreter, that validation does not depend on key order, and an upper bound on
  the encoded size of a conforming value.
\<close>

section \<open>Lookups\<close>

lemma rule_signed_object [rule_lookup]:
  "map_of default_rules ''signed-object'' = Some (NMap [(0, False, NSize (NRef ''bstr'') 1 65536),
     (1, False, NRef ''pk32''), (2, False, NRef ''sig64'')])"
  unfolding default_rules_def by (rule assoc_hit | rule assoc_miss, simp)+

lemma rule_certificate_body [rule_lookup]:
  "map_of default_rules ''certificate-body'' = Some (NMap [(0, False, NLiteral 1), (1, False, NRef
     ''app-id''), (2, False, NRef ''pk32''), (3, False, NRef ''pk32''), (4, False, NRef ''pk32''),
     (5, False, NRef ''id16'')])"
  unfolding default_rules_def by (rule assoc_hit | rule assoc_miss, simp)+

lemma rule_join_request_body [rule_lookup]:
  "map_of default_rules ''join-request-body'' = Some (NMap [(0, False, NRef ''app-id''), (1, False,
     NRef ''id32''), (2, False, NRef ''id32''), (3, False, NRef ''nonce32''), (4, False, NRef
     ''role'')])"
  unfolding default_rules_def by (rule assoc_hit | rule assoc_miss, simp)+

lemma rule_admission_body [rule_lookup]:
  "map_of default_rules ''admission-body'' = Some (NMap [(0, False, NRef ''app-id''), (1, False,
     NRef ''id32''), (2, False, NRef ''id32''), (3, False, NRef ''id32''), (4, False, NRef
     ''nonce32''), (5, False, NRef ''u64''), (6, False, NRef ''role'')])"
  unfolding default_rules_def by (rule assoc_hit | rule assoc_miss, simp)+

lemma rule_genesis_body [rule_lookup]:
  "map_of default_rules ''genesis-body'' = Some (NMap [(0, False, NLiteral 1), (1, False, NRef
     ''app-id''), (2, False, NRef ''pk32''), (3, False, NRef ''nonce32''), (4, False, NRef
     ''id32''), (5, False, NRef ''id32'')])"
  unfolding default_rules_def by (rule assoc_hit | rule assoc_miss, simp)+

lemma rule_control_body [rule_lookup]:
  "map_of default_rules ''control-body'' = Some (NMap [(0, False, NRef ''app-id''), (1, False, NRef
     ''id32''), (2, False, NRef ''u64''), (3, False, NRef ''u64''), (4, False, NRef ''id32''), (5,
     False, NUnion [NLiteral 1, NLiteral 2, NLiteral 3, NLiteral 4, NLiteral 5]), (6, False, NRef
     ''id32''), (7, False, NRef ''id32''), (8, False, NUnion [NRef ''id32'', NRef ''null'']), (9,
     False, NUnion [NRef ''id32'', NRef ''null'']), (10, False, NUnion [NRef ''id16'', NRef
     ''null'']), (11, False, NRef ''pk32''), (12, False, NUnion [NRef ''pk32'', NRef ''null'']),
     (13, False, NRef ''id32'')])"
  unfolding default_rules_def by (rule assoc_hit | rule assoc_miss, simp)+

lemma rule_control_entry [rule_lookup]:
  "map_of default_rules ''control-entry'' = Some (NMap [(0, False, NSize (NRef ''bstr'') 1 65536),
     (1, False, NRef ''sig64''), (2, True, NRef ''sig64'')])"
  unfolding default_rules_def by (rule assoc_hit | rule assoc_miss, simp)+

lemma rule_member_entry [rule_lookup]:
  "map_of default_rules ''member-entry'' = Some (NMap [(0, False, NRef ''id32''), (1, False, NRef
     ''id32''), (2, False, NRef ''role'')])"
  unfolding default_rules_def by (rule assoc_hit | rule assoc_miss, simp)+

lemma rule_member_page [rule_lookup]:
  "map_of default_rules ''member-page'' = Some (NArray 0 256 (NRef ''member-entry''))"
  unfolding default_rules_def by (rule assoc_hit | rule assoc_miss, simp)+

lemma rule_key_package_body [rule_lookup]:
  "map_of default_rules ''key-package-body'' = Some (NMap [(0, False, NRef ''app-id''), (1, False,
     NRef ''id32''), (2, False, NRef ''u64''), (3, False, NRef ''id16''), (4, False, NRef ''id32''),
     (5, False, NRef ''id32''), (6, False, NRef ''id32''), (7, False, NLiteral 1), (8, False, NSize
     (NRef ''bstr'') 32 32), (9, False, NSize (NRef ''bstr'') 16 4096)])"
  unfolding default_rules_def by (rule assoc_hit | rule assoc_miss, simp)+

lemma rule_epoch_secret_plaintext [rule_lookup]:
  "map_of default_rules ''epoch-secret-plaintext'' = Some (NMap [(0, False, NSize (NRef ''bstr'') 32
     32), (1, False, NRef ''app-id''), (2, False, NRef ''id32''), (3, False, NRef ''u64''), (4,
     False, NRef ''id16''), (5, False, NRef ''id32'')])"
  unfolding default_rules_def by (rule assoc_hit | rule assoc_miss, simp)+

lemma rule_change_header [rule_lookup]:
  "map_of default_rules ''change-header'' = Some (NMap [(0, False, NRef ''app-id''), (1, False, NRef
     ''id32''), (2, False, NRef ''u64''), (3, False, NRef ''id32''), (4, False, NRef
     ''object-kind''), (5, False, NRef ''id32''), (6, False, NRef ''id16''), (7, False, NRef
     ''u64''), (8, False, NUnion [NRef ''id32'', NRef ''null'']), (9, False, NRef ''id32''), (10,
     False, NRef ''deps''), (11, False, NRange 0 524288), (12, False, NRef ''id32''), (13, False,
     NRef ''id32''), (14, False, NUnion [NLiteral 1, NLiteral 2]), (15, False, NRef ''u64'')])"
  unfolding default_rules_def by (rule assoc_hit | rule assoc_miss, simp)+

lemma rule_change_envelope [rule_lookup]:
  "map_of default_rules ''change-envelope'' = Some (NMap [(0, False, NSize (NRef ''bstr'') 1 16384),
     (1, False, NRef ''nonce24''), (2, False, NSize (NRef ''bstr'') 16 524304), (3, False, NRef
     ''sig64'')])"
  unfolding default_rules_def by (rule assoc_hit | rule assoc_miss, simp)+

lemma rule_block_header [rule_lookup]:
  "map_of default_rules ''block-header'' = Some (NMap [(0, False, NRef ''app-id''), (1, False, NRef
     ''id32''), (2, False, NRef ''u64''), (3, False, NRef ''id32''), (4, False, NRef
     ''object-kind''), (5, False, NRef ''u64''), (6, False, NRef ''u64''), (7, False, NRange 0
     262144)])"
  unfolding default_rules_def by (rule assoc_hit | rule assoc_miss, simp)+

lemma rule_sealed_block [rule_lookup]:
  "map_of default_rules ''sealed-block'' = Some (NMap [(0, False, NSize (NRef ''bstr'') 1 4096), (1,
     False, NRef ''nonce24''), (2, False, NSize (NRef ''bstr'') 16 262160)])"
  unfolding default_rules_def by (rule assoc_hit | rule assoc_miss, simp)+

definition object_rules :: "string list" where
  "object_rules = [''signed-object'', ''certificate-body'', ''join-request-body'', ''admission-body'',
     ''genesis-body'', ''control-body'', ''control-entry'', ''member-entry'', ''member-page'',
     ''key-package-body'', ''epoch-secret-plaintext'', ''change-header'', ''change-envelope'',
     ''block-header'', ''sealed-block'']"

definition plain_rule :: "string \<Rightarrow> bool" where
  "plain_rule rule \<longleftrightarrow> \<not> primitive rule \<and> rule \<noteq> ''app-id'' \<and> fits default_rules 12 False (NRef rule)"

lemma object_rules_plain: "list_all plain_rule object_rules"
  unfolding object_rules_def list.pred_inject
  by (intro conjI TrueI; simp add: plain_rule_def rule_lookup primitive_def numeral_eq_Suc)

lemma plain_object_rule [simp]: "rule \<in> set object_rules \<Longrightarrow> plain_rule rule"
  using object_rules_plain by (simp add: list_all_iff)

text \<open>For such a rule the interpreter decides conformance.\<close>

lemma plain_rule_validate:
  assumes "plain_rule rule"
  shows "schema_validate default_rules rule v = Inr u \<longleftrightarrow> conforms default_rules (NRef rule) v"
proof -
  have plain: "\<not> primitive rule" "rule \<noteq> ''app-id''" and fits: "fits default_rules (Suc 11) False (NRef rule)"
    using assms by (simp_all add: plain_rule_def)
  obtain node where node: "map_of default_rules rule = Some node" "fits default_rules 11 False node"
    using fits [unfolded fits.simps node.case] plain by (auto split: option.splits)
  from node(2) have "fits default_rules 129 False node" by (rule fits_mono) simp
  then show ?thesis using node plain
    by (auto simp: schema_validate_def conforms_ref intro: validate_sound validate_complete)
qed

lemma wire_to_Inr [simp]: "wire_to e m = Inr x \<longleftrightarrow> m = Inr x"
  by (cases m) (auto simp: wire_to_def split: exn.splits)

lemma checked_iff: "plain_rule rule \<Longrightarrow> checked rule v = Inr w \<longleftrightarrow> w = v \<and> conforms default_rules (NRef rule) v"
  by (auto simp: checked_def res_simps plain_rule_validate)

lemma obj_parse_iff:
  "plain_rule rule \<Longrightarrow> obj_parse rule raw limit = Inr v \<longleftrightarrow>
    length raw \<le> limit \<and> decode raw (int limit) MAX_NODES = Inr v \<and> conforms default_rules (NRef rule) v"
  using decode_iff [of raw "int limit" MAX_NODES v] length_cbor_pos [of v]
  by (auto simp: obj_parse_def bounded_def res_simps checked_iff)

text \<open>A value decoded within one limit is decoded within any other limit that its bytes respect.\<close>

lemma decode_limit:
  "decode raw mb mn = Inr v \<Longrightarrow> int (length raw) \<le> mb' \<Longrightarrow> mb' \<le> MAX_BYTES \<Longrightarrow> decode raw mb' mn = Inr v"
  using length_cbor_pos [of v] by (auto simp: decode_iff budget_ok_def)

section \<open>Encoded size of a conforming value\<close>

text \<open>An upper bound on the length of the encoding, \<open>None\<close> where the schema gives none.\<close>

definition omax :: "nat option \<Rightarrow> nat option \<Rightarrow> nat option" where
  "omax a b = (case (a, b) of (Some x, Some y) \<Rightarrow> Some (max x y) | _ \<Rightarrow> None)"

definition oadd :: "nat option \<Rightarrow> nat option \<Rightarrow> nat option" where
  "oadd a b = (case (a, b) of (Some x, Some y) \<Rightarrow> Some (x + y) | _ \<Rightarrow> None)"

primrec cbor_bound :: "rules \<Rightarrow> nat \<Rightarrow> node \<Rightarrow> nat option" where
  "cbor_bound rules 0 node = None"
| "cbor_bound rules (Suc r) node = (case node of
     NRef name \<Rightarrow>
       if name = ''uint'' then Some 9 else if name = ''bool'' \<or> name = ''null'' then Some 1
       else if primitive name then None
       else (case map_of rules name of None \<Rightarrow> None | Some node' \<Rightarrow> cbor_bound rules r node')
   | NLiteral n \<Rightarrow> Some 9
   | NRange lo hi \<Rightarrow> Some 9
   | NSize node' lo hi \<Rightarrow>
       if node' = NRef ''bstr'' \<or> node' = NRef ''tstr'' then Some (9 + nat hi) else cbor_bound rules r node'
   | NUnion cs \<Rightarrow> foldr (\<lambda>c. omax (cbor_bound rules r c)) cs (Some 0)
   | NArray lo hi child \<Rightarrow> map_option (\<lambda>b. 9 + nat hi * b) (cbor_bound rules r child)
   | NMap fs \<Rightarrow> if distinct (map fst fs)
       then foldr (\<lambda>f. oadd (map_option ((+) 9) (cbor_bound rules r (snd (snd f))))) fs (Some 9) else None)"

lemma nhead_bound: "length (nhead m n) \<le> 9"
  by (simp add: nhead_def)

lemma foldr_omax:
  "foldr (\<lambda>c. omax (g c)) cs (Some 0) = Some t \<Longrightarrow> c \<in> set cs \<Longrightarrow> \<exists>b. g c = Some b \<and> b \<le> t"
proof (induction cs arbitrary: t)
  case (Cons d ds)
  then show ?case by (force simp: omax_def split: option.splits)
qed simp

lemma foldr_oadd:
  "foldr (\<lambda>c. oadd (g c)) cs (Some k) = Some t
   \<Longrightarrow> (\<forall>c \<in> set cs. \<exists>b. g c = Some b) \<and> t = k + sum_list (map (the \<circ> g) cs)"
  by (induction cs arbitrary: t) (auto simp: oadd_def split: option.splits)

lemma length_concat_le:
  "(\<And>x. x \<in> set xs \<Longrightarrow> length (f x) \<le> b) \<Longrightarrow> length (concat (map f xs)) \<le> length xs * b"
  by (induction xs) (auto simp: add_mono)

text \<open>Entries of a dictionary with different keys take at most the sum over the fields.\<close>

lemma entries_bound:
  assumes "distinct (map fst kvs)" and "distinct (map fst fs)"
    and "\<And>kv. kv \<in> set kvs \<Longrightarrow> \<exists>i f. fst kv = PInt i \<and> (i, f) \<in> set fs \<and> h kv \<le> (g (i, f) :: nat)"
  shows "sum_list (map h kvs) \<le> sum_list (map g fs)"
  using assms
proof (induction kvs arbitrary: fs)
  case (Cons kv kvs)
  have "\<exists>i f. fst kv = PInt i \<and> (i, f) \<in> set fs \<and> h kv \<le> g (i, f)"
    by (rule Cons.prems(3)) simp
  then obtain i f where f: "fst kv = PInt i" "(i, f) \<in> set fs" "h kv \<le> g (i, f)" by blast
  have "sum_list (map h kvs) \<le> sum_list (map g (remove1 (i, f) fs))"
  proof (rule Cons.IH)
    show "distinct (map fst (remove1 (i, f) fs))"
      using Cons.prems(2) by (meson distinct_remove1 distinct_map inj_on_subset set_remove1_subset)
    fix kv' assume kv': "kv' \<in> set kvs"
    with Cons.prems(3) obtain j f' where j: "fst kv' = PInt j" "(j, f') \<in> set fs" "h kv' \<le> g (j, f')"
      by (meson list.set_intros(2))
    moreover have "j \<noteq> i" using Cons.prems(1) kv' f(1) j(1) by force
    ultimately show "\<exists>i' f''. fst kv' = PInt i' \<and> (i', f'') \<in> set (remove1 (i, f) fs) \<and> h kv' \<le> g (i', f'')"
      by (metis in_set_remove1 prod.inject)
  qed (use Cons.prems(1) in simp)
  then show ?case using f sum_list_map_remove1 [OF f(2), of g] by simp
qed simp

lemma cbor_bound_sound:
  "conforms rules node v \<Longrightarrow> encodable v \<Longrightarrow> cbor_bound rules r node = Some b \<Longrightarrow> length (cbor v) \<le> b"
proof (induction arbitrary: r b rule: conforms.induct)
  case (prim name v)
  then obtain r' where "r = Suc r'" by (cases r) auto
  with prim show ?case
    by (cases v) (auto simp: prim_ok_def nhead_bound split: if_splits)
next
  case (ref name node v)
  then obtain r' where r: "r = Suc r'" by (cases r) auto
  have "name \<noteq> ''uint''" "name \<noteq> ''bool''" "name \<noteq> ''null''" using ref.hyps(1) by (auto simp: primitive_def)
  with ref r show ?case by simp
next
  case (size node v n lo hi)
  then obtain r' where r: "r = Suc r'" by (cases r) auto
  show ?case
  proof (cases "node = NRef ''bstr'' \<or> node = NRef ''tstr''")
    case True
    then have "(\<exists>x. v = PBytes x) \<or> (\<exists>s. v = PStr s)"
      using size.hyps(1) by (auto simp: conforms_prims)
    moreover have "b = 9 + nat hi" using True size.prems(2) r by auto
    moreover have "length (nhead k m) + m \<le> 9 + nat hi" if "n = int m" for k m
      using nhead_bound [of k m] size.hyps(4) that by linarith
    ultimately show ?thesis using size.hyps(2) by (auto simp: py_size_def)
  next
    case False
    then show ?thesis using size r by simp
  qed
next
  case (union child children v)
  then obtain r' where r: "r = Suc r'" by (cases r) auto
  then obtain b' where "cbor_bound rules r' child = Some b'" "b' \<le> b"
    using foldr_omax [of "cbor_bound rules r'" children b child] union by auto
  then show ?case using union.IH union.prems(1) by fastforce
next
  case (array lo xs hi child)
  then obtain r' where r: "r = Suc r'" by (cases r) auto
  then obtain b' where b': "cbor_bound rules r' child = Some b'" "b = 9 + nat hi * b'" using array by auto
  have "length (concat (map cbor xs)) \<le> length xs * b'"
    by (rule length_concat_le) (use array b' in \<open>auto simp: list_all_iff\<close>)
  also have "\<dots> \<le> nat hi * b'" using array.hyps(2) by (intro mult_le_mono1) linarith
  finally show ?case using b' nhead_bound [of 4 "length xs"] by simp
next
  case (map fields kvs)
  then obtain r' where r: "r = Suc r'" by (cases r) auto
  let ?g = "\<lambda>f. map_option ((+) 9) (cbor_bound rules r' (snd (snd f)))"
  have dist: "distinct (map fst fields)" and all: "foldr (\<lambda>f. oadd (?g f)) fields (Some 9) = Some b"
    using map.prems(2) r by (auto split: if_splits)
  note bounds = foldr_oadd [OF all]
  have "sum_list (map (\<lambda>kv. length (cbor (fst kv)) + length (cbor (snd kv))) kvs) \<le> sum_list (map (the \<circ> ?g) fields)"
  proof (rule entries_bound)
    show "distinct (map fst kvs)" using map.prems(1) by simp
    show "distinct (map fst fields)" by (rule dist)
    fix kv assume kv: "kv \<in> set kvs"
    obtain opt child where kf: "key_field fields (fst kv) = Some (opt, child)"
      using key_field_total [OF map.hyps(1) kv] by blast
    then obtain i where i: "fst kv = PInt i" "field_of fields i = Some (opt, child)"
      by (auto simp: key_field_def split: pyval.splits)
    from i(2) have "map_of fields i = Some (opt, child)" by (simp only: field_of_distinct [OF dist])
    then have mem: "(i, opt, child) \<in> set fields" by (rule map_of_SomeD)
    with bounds have "\<exists>b. ?g (i, opt, child) = Some b" by blast
    then obtain c where c: "cbor_bound rules r' child = Some c" by auto
    have "encodable (snd kv)" using map.prems(1) kv by (auto simp: list_all_iff)
    then have "length (cbor (snd kv)) \<le> c" using map.IH [OF kv kf _ c] by blast
    moreover have "length (cbor (fst kv)) \<le> 9" using i nhead_bound by simp
    ultimately show "\<exists>i f. fst kv = PInt i \<and> (i, f) \<in> set fields
        \<and> length (cbor (fst kv)) + length (cbor (snd kv)) \<le> (the \<circ> ?g) (i, f)"
      using i(1) mem c by (intro exI [of _ i] exI [of _ "(opt, child)"]) simp
  qed
  moreover have "length (concat (map (\<lambda>kv. cbor (fst kv) @ cbor (snd kv)) kvs))
      = sum_list (map (\<lambda>kv. length (cbor (fst kv)) + length (cbor (snd kv))) kvs)"
    by (induction kvs) simp_all
  ultimately show ?case using bounds nhead_bound [of 5 "length kvs"] by simp
qed (case_tac r; simp add: nhead_bound)+

section \<open>Types of fields\<close>

lemma conforms_sized_bytes:
  "conforms rules (NSize (NRef ''bstr'') lo hi) x \<longleftrightarrow> (\<exists>b. x = PBytes b \<and> lo \<le> int (length b) \<and> int (length b) \<le> hi)"
  by (auto simp: conforms_size conforms_prims py_size_def)

lemma conforms_sized_text:
  "conforms rules (NSize (NRef ''tstr'') lo hi) x
    \<longleftrightarrow> (\<exists>s b. x = PStr s \<and> utf8_encode s = Some b \<and> lo \<le> int (length b) \<and> int (length b) \<le> hi)"
  by (auto simp: conforms_size conforms_prims py_size_def)

lemma conforms_exact_bytes:
  "conforms rules (NSize (NRef ''bstr'') k k) x \<longleftrightarrow> (\<exists>b. x = PBytes b \<and> int (length b) = k)"
  by (auto simp: conforms_sized_bytes)

lemma conforms_bytes_rules:
  "conforms default_rules (NRef ''id32'') x \<longleftrightarrow> (\<exists>b. x = PBytes b \<and> length b = 32)"
  "conforms default_rules (NRef ''pk32'') x \<longleftrightarrow> (\<exists>b. x = PBytes b \<and> length b = 32)"
  "conforms default_rules (NRef ''nonce32'') x \<longleftrightarrow> (\<exists>b. x = PBytes b \<and> length b = 32)"
  "conforms default_rules (NRef ''nonce24'') x \<longleftrightarrow> (\<exists>b. x = PBytes b \<and> length b = 24)"
  "conforms default_rules (NRef ''id16'') x \<longleftrightarrow> (\<exists>b. x = PBytes b \<and> length b = 16)"
  "conforms default_rules (NRef ''sig64'') x \<longleftrightarrow> (\<exists>b. x = PBytes b \<and> length b = 64)"
  by (simp_all add: conforms_rule [OF _ rule_id32] conforms_rule [OF _ rule_pk32] conforms_rule [OF _ rule_nonce32]
      conforms_rule [OF _ rule_nonce24] conforms_rule [OF _ rule_id16] conforms_rule [OF _ rule_sig64] primitive_def
      conforms_exact_bytes)

lemma conforms_u64: "conforms default_rules (NRef ''u64'') x \<longleftrightarrow> (\<exists>i. x = PInt i \<and> 0 \<le> i \<and> i \<le> U64)"
  by (auto simp: conforms_rule [OF _ rule_u64] primitive_def conforms_range U64_def)

lemma conforms_app_id:
  "conforms default_rules (NRef ''app-id'') x
    \<longleftrightarrow> (\<exists>s b. x = PStr s \<and> 0 \<notin> set s \<and> utf8_encode s = Some b \<and> 1 \<le> length b \<and> length b \<le> 128)"
proof -
  have "conforms default_rules (NRef ''app-id'') x
      \<longleftrightarrow> \<not> has_nul x \<and> conforms default_rules (NSize (NRef ''tstr'') 1 128) x"
    by (auto simp: conforms_ref [of _ "''app-id''"] primitive_def rule_app_id)
  also have "\<dots> \<longleftrightarrow> (\<exists>s b. x = PStr s \<and> 0 \<notin> set s \<and> utf8_encode s = Some b \<and> 1 \<le> length b \<and> length b \<le> 128)"
    unfolding conforms_sized_text by (cases x) (auto simp: has_nul_def)
  finally show ?thesis .
qed

lemma conforms_union_ex: "conforms rules (NUnion cs) v \<longleftrightarrow> (\<exists>c \<in> set cs. conforms rules c v)"
  by (auto simp: conforms_union)

lemma conforms_lit: "conforms rules (NLiteral n) v \<longleftrightarrow> v = PInt n"
  by (auto simp: conforms_literal)

lemma conforms_role: "conforms default_rules (NRef ''role'') x \<longleftrightarrow> x \<in> {PInt 1, PInt 2, PInt 3}"
  by (simp add: conforms_rule [OF _ rule_role] primitive_def conforms_union_ex conforms_lit)

lemma conforms_kind: "conforms default_rules (NRef ''object-kind'') x \<longleftrightarrow> x \<in> {PInt 1, PInt 2, PInt 3, PInt 4, PInt 5}"
  by (simp add: conforms_rule [OF _ rule_object_kind] primitive_def conforms_union_ex conforms_lit)

lemma conforms_or_null: "conforms rules (NUnion [n, NRef ''null'']) x \<longleftrightarrow> conforms rules n x \<or> x = PNone"
  by (simp add: conforms_union_ex conforms_prims)

lemma conforms_deps:
  "conforms default_rules (NRef ''deps'') x
    \<longleftrightarrow> (\<exists>bs. x = PList (map PBytes bs) \<and> length bs \<le> 128 \<and> (\<forall>b \<in> set bs. length b = 32))"
proof
  assume "conforms default_rules (NRef ''deps'') x"
  then obtain xs where xs: "x = PList xs" "length xs \<le> 128" "\<And>y. y \<in> set xs \<Longrightarrow> \<exists>b. y = PBytes b \<and> length b = 32"
    by (auto simp: conforms_rule [OF _ rule_deps] primitive_def conforms_array conforms_bytes_rules)
  then obtain bs where "xs = map PBytes bs" using list_of_image [of xs PBytes] by blast
  moreover have "\<forall>b \<in> set bs. length b = 32"
  proof
    fix b assume "b \<in> set bs"
    then have "\<exists>b'. PBytes b = PBytes b' \<and> length b' = 32" using xs(3) \<open>xs = map PBytes bs\<close> by auto
    then show "length b = 32" by simp
  qed
  ultimately show "\<exists>bs. x = PList (map PBytes bs) \<and> length bs \<le> 128 \<and> (\<forall>b \<in> set bs. length b = 32)"
    using xs(1,2) by auto
next
  assume "\<exists>bs. x = PList (map PBytes bs) \<and> length bs \<le> 128 \<and> (\<forall>b \<in> set bs. length b = 32)"
  then show "conforms default_rules (NRef ''deps'') x"
    by (auto simp: conforms_rule [OF _ rule_deps] primitive_def conforms_array conforms_bytes_rules)
qed

lemmas conforms_types = conforms_bytes_rules conforms_u64 conforms_app_id conforms_role conforms_kind
  conforms_or_null conforms_deps conforms_sized_bytes conforms_sized_text conforms_prims conforms_lit conforms_range

end
