(* ===== verification/Sealing.thy ===== *)
theory Sealing
  imports ObjectRules
begin

text \<open>
  What sealing and opening guarantee together: envelopes, blocks, signed objects, certificates and key packages that the
  code produces are accepted by the code that reads them, and what is accepted is bound to its context.
\<close>

section \<open>Provider operations\<close>

lemma p_sign_ok:
  assumes "sodium_ok n" "p_sign_public n seed = Inr pk" "p_sign n seed m = Inr sig"
  shows "length pk = 32 \<and> length sig = 64 \<and> p_verify n pk m sig = Inr ()"
proof -
  have s: "n_keypair n seed = Some pk" "n_sign n seed m = Some sig" and m: "bounded m MAX_INPUT 0 = Inr ()"
    using assms(2,3) by (auto simp: p_sign_public_def p_sign_def res_simps split: option.splits if_splits)
  with assms(1) have "length pk = 32" "length sig = 64" "from_bytes_little (drop 32 sig) < group_order" "n_verify n sig m pk"
    by (auto simp: sodium_ok_def)
  then show ?thesis using m by (simp add: p_verify_def fixed_def)
qed

lemma crypt_ok:
  assumes "sodium_ok n" "crypt n k u a d False i = Inr c" "length d + 16 \<le> MAX_INPUT"
  shows "length c = length d + 16 \<and> crypt n k u a c True i = Inr d"
proof -
  have c: "n_encrypt n i k u a d = Some c" "fixed k 32 = Inr ()" "fixed u (if i then 12 else 24) = Inr ()"
      "bounded a MAX_INPUT 0 = Inr ()"
    using assms(2) by (auto simp: crypt_def res_simps split: option.splits if_splits)
  with assms(1) have "length c = length d + 16" "n_decrypt n i k u a c = Some d" by (auto simp: sodium_ok_def)
  then show ?thesis using c assms(3) by (simp add: crypt_def bounded_def)
qed

lemmas p_seal_ok = crypt_ok [of _ _ _ _ _ False, folded p_seal_def p_open_def]
lemmas p_seal_ietf_ok = crypt_ok [of _ _ _ _ _ True, folded p_seal_ietf_def p_open_ietf_def]

section \<open>Fields of a conforming object\<close>

lemma map_fields:
  assumes "conforms default_rules (NRef rule) v" "map_of default_rules rule = Some (NMap fs)" "plain_rule rule"
    and "distinct (map fst fs)"
  shows "list_all (\<lambda>f. fst (snd f) \<or> (\<exists>x. item_at v (fst f) = Inr x \<and> conforms default_rules (snd (snd f)) x)) fs"
proof -
  have v: "conforms default_rules (NMap fs) v"
    using assms(1-3) by (simp add: conforms_rule plain_rule_def)
  have "opt \<or> (\<exists>x. item_at v k = Inr x \<and> conforms default_rules child x)" if "(k, opt, child) \<in> set fs" for k opt child
    using map_field [OF v _ assms(4), of k child] map_of_is_SomeI [OF assms(4) that] by (cases opt) auto
  then show ?thesis by (auto simp: list_all_iff)
qed

lemma plain_rules:
  "plain_rule ''change-header''" "plain_rule ''change-envelope''" "plain_rule ''block-header''" "plain_rule ''sealed-block''"
  "plain_rule ''signed-object''" "plain_rule ''certificate-body''" "plain_rule ''key-package-body''"
  "plain_rule ''epoch-secret-plaintext''" "plain_rule ''join-request-body''" "plain_rule ''admission-body''"
  "plain_rule ''genesis-body''" "plain_rule ''control-body''" "plain_rule ''control-entry''"
  "plain_rule ''member-entry''" "plain_rule ''member-page''"
  by (simp_all add: object_rules_def)

lemmas change_header_fields =
  map_fields [OF _ rule_change_header plain_rules(1), simplified list.pred_inject fst_conv snd_conv, simplified]
lemmas change_envelope_fields =
  map_fields [OF _ rule_change_envelope plain_rules(2), simplified list.pred_inject fst_conv snd_conv, simplified]
lemmas block_header_fields =
  map_fields [OF _ rule_block_header plain_rules(3), simplified list.pred_inject fst_conv snd_conv, simplified]
lemmas sealed_block_fields =
  map_fields [OF _ rule_sealed_block plain_rules(4), simplified list.pred_inject fst_conv snd_conv, simplified]
lemmas signed_object_fields =
  map_fields [OF _ rule_signed_object plain_rules(5), simplified list.pred_inject fst_conv snd_conv, simplified]
lemmas certificate_body_fields =
  map_fields [OF _ rule_certificate_body plain_rules(6), simplified list.pred_inject fst_conv snd_conv, simplified]
lemmas key_package_fields =
  map_fields [OF _ rule_key_package_body plain_rules(7), simplified list.pred_inject fst_conv snd_conv, simplified]

lemmas cbor_bound_numeral = cbor_bound.simps(2) [where r = "pred_numeral k" for k, folded numeral_eq_Suc]

lemma change_header_bound: "\<exists>b. cbor_bound default_rules 12 (NRef ''change-header'') = Some b \<and> b \<le> 16384"
  by (simp add: cbor_bound_numeral rule_lookup primitive_def omax_def oadd_def)

section \<open>Change envelopes\<close>

lemma encode_canon:
  assumes "wf_py v" "encode v mb mn = Inr b"
  shows "encode (canon v) mb mn = Inr b" "decode b mb mn = Inr (canon v)" "encodable v"
  using assms by (auto simp: encode_iff decode_iff canonical_canon_enc)

lemma change_header_ok:
  assumes "wf_py v" "change_header v = Inr hb"
  shows "change_header (canon v) = Inr hb" "decode hb MAX_BYTES MAX_NODES = Inr (canon v)" "length hb \<le> 16384"
    "conforms default_rules (NRef ''change-header'') (canon v)"
proof -
  have conf: "conforms default_rules (NRef ''change-header'') v" and enc: "encode v MAX_BYTES MAX_NODES = Inr hb"
    using assms(2) by (auto simp: change_header_def res_simps checked_iff plain_rules)
  note e = encode_canon [OF assms(1) enc]
  show conf': "conforms default_rules (NRef ''change-header'') (canon v)" by (rule conforms_canon [OF conf e(3)])
  obtain app seq deps where f: "item_at v 0 = Inr (PStr app)" "item_at v 7 = Inr (PInt seq)"
      "item_at v 10 = Inr (PList (map PBytes deps))"
    using change_header_fields [OF conf] by (auto simp: conforms_types)
  have c: "item_at (canon v) 0 = Inr (PStr app)" "item_at (canon v) 7 = Inr (PInt seq)"
      "item_at (canon v) 10 = Inr (PList (map PBytes deps))"
    using item_at_canon [OF e(3) f(1)] item_at_canon [OF e(3) f(2)] item_at_canon [OF e(3) f(3)] by (simp_all add: comp_def)
  from assms(2) f show "change_header (canon v) = Inr hb"
    by (simp add: change_header_def checked_iff plain_rules c conf' e(1) res_simps list_of_def)
  show "decode hb MAX_BYTES MAX_NODES = Inr (canon v)" by (rule e(2))
  obtain b where b: "cbor_bound default_rules 12 (NRef ''change-header'') = Some b" "b \<le> 16384"
    using change_header_bound by blast
  have "length (cbor (canon v)) \<le> b" by (rule cbor_bound_sound [OF conf' _ b(1)]) (use e(3) in simp)
  then show "length hb \<le> 16384" using e(2) b(2) by (simp add: decode_iff)
qed

lemma envelope_conforms:
  assumes "1 \<le> length hb" "length hb \<le> 16384" "length nonce = 24" "16 \<le> length ct" "length ct \<le> 524304" "length sig = 64"
  shows "conforms default_rules (NRef ''change-envelope'')
    (mk_dict [(0, PBytes hb), (1, PBytes nonce), (2, PBytes ct), (3, PBytes sig)])"
  using assms
  by (subst conforms_rule [OF _ rule_change_envelope])
    (auto simp: primitive_def mk_dict_def conforms_map map_shape_def key_field_def field_of_def is_int_def dict_get_def
      conforms_types split: if_splits)

text \<open>A sealed envelope parses back to its parts.\<close>

lemma envelope_parse:
  assumes "encode (mk_dict [(0, PBytes hb), (1, PBytes nonce), (2, PBytes ct), (3, PBytes sig)]) MAX_BYTES MAX_NODES = Inr raw"
    and "1 \<le> length hb" "length hb \<le> 16384" "length nonce = 24" "16 \<le> length ct" "length ct \<le> 524304" "length sig = 64"
  shows "obj_parse ''change-envelope'' raw 786432
    = Inr (mk_dict [(0, PBytes hb), (1, PBytes nonce), (2, PBytes ct), (3, PBytes sig)])"
proof -
  let ?o = "mk_dict [(0, PBytes hb), (1, PBytes nonce), (2, PBytes ct), (3, PBytes sig)]"
  have c: "canon ?o = ?o" "wf_py ?o" by (simp_all add: mk_dict_def)
  note d = decode_encode_canon [OF assms(1) c]
  have "length raw = length (cbor ?o)" using d by (simp add: decode_iff)
  also have "\<dots> \<le> 786432"
    using assms(3-7) nhead_bound [of 2 "length hb"] nhead_bound [of 2 "length ct"]
    by (simp add: mk_dict_def nhead_def [of _ 24] nhead_def [of _ 64] nhead_def [of 0] nhead_def [of 5])
  finally have raw: "length raw \<le> 786432" .
  then have "decode raw 786432 MAX_NODES = Inr ?o" by (intro decode_limit [OF d]) (simp_all add: MAX_BYTES_def)
  then show ?thesis using raw envelope_conforms [OF assms(2-7)] by (simp add: obj_parse_iff plain_rules)
qed

lemma item_at_mk_dict [simp]: "item_at (mk_dict kvs) k = (case map_of kvs k of None \<Rightarrow> Inl KeyError | Some x \<Rightarrow> Inr x)"
  by (simp add: mk_dict_def item_at_def)

text \<open>C4. Round trip of change envelopes: what the sealing side produces, the reader opens with the same epoch
  secret, the author's public key and the same header, and gets the payload back; the sizes the reader enforces are never
  exceeded by what the sealer accepts.\<close>

theorem open_seal_change:
  assumes "sodium_ok n" and "wf_py header" and "p_sign_public n seed = Inr pk"
    and "seal_change n secret seed header payload nonce = Inr raw"
  shows "open_change n secret pk header raw = Inr payload"
proof -
  obtain hb sz key aad ct msg sig where hb: "change_header header = Inr hb"
    and sz: "item_at (canon header) 11 = Inr sz" "sz = PInt (int (length payload))" "length payload \<le> 524288" "length nonce = 24"
    and auth: "check_author pk (canon header) = Inr ()" and key: "change_key secret (canon header) False = Inr key"
    and aad: "c_domain (cps ''envelope-aad'') [PBytes hb] = Inr aad" and ct: "p_seal n key nonce aad payload = Inr ct"
    and msg: "c_domain (cps ''envelope-sign'') [PBytes hb, PBytes nonce, PBytes ct] = Inr msg"
    and sig: "p_sign n seed msg = Inr sig"
    and raw: "encode (mk_dict [(0, PBytes hb), (1, PBytes nonce), (2, PBytes ct), (3, PBytes sig)]) MAX_BYTES MAX_NODES = Inr raw"
  proof -
    obtain hb where hb: "change_header header = Inr hb"
      using assms(4) by (auto simp: seal_change_def res_simps)
    show ?thesis
      using assms(3,4) hb change_header_ok(2) [OF assms(2) hb]
      by (auto simp: seal_change_def res_simps bounded_def fixed_def intro!: that [OF hb])
  qed
  note h = change_header_ok [OF assms(2) hb]
  note v = p_sign_ok [OF assms(1,3) sig]
  have o: "length ct = length payload + 16" "p_open n key nonce aad ct = Inr payload"
    using p_seal_ok [OF assms(1) ct] sz(3) by (simp_all add: MAX_INPUT_def)
  have pos: "1 \<le> length hb" using h(2) length_cbor_pos by (simp add: decode_iff)
  have "decode hb 16384 MAX_NODES = Inr (canon header)"
    by (rule decode_limit [OF h(2)]) (use h(3) in \<open>simp_all add: MAX_BYTES_def\<close>)
  then have "obj_parse ''change-header'' hb 16384 = Inr (canon header)"
    using h(3,4) by (simp add: obj_parse_iff plain_rules)
  then show ?thesis
    using envelope_parse [OF raw pos h(3) sz(4)] hb h(1) auth key aad msg v o sz
    by (simp add: open_change_def as_bytes_def)
qed

section \<open>A model of the native library\<close>

text \<open>An instance of \<open>sodium_ok\<close>, to show that the theorems apply: signatures carry the signer's key, the exchange is
  bytewise exclusive or, and encryption appends an empty tag.\<close>

definition test_sodium :: sodium where
  "test_sodium = \<lparr>n_keypair = (\<lambda>s. if length s = 32 then Some s else None),
     n_sign = (\<lambda>s m. Some (s @ replicate 32 0)),
     n_verify = (\<lambda>sig m pk. take 32 sig = pk),
     n_base = (\<lambda>s. if length s = 32 then Some s else None),
     n_dh = (\<lambda>s p. if length s = 32 \<and> length p = 32 then Some (map2 (XOR) s p) else None),
     n_encrypt = (\<lambda>i k u a d. Some (d @ replicate 16 0)),
     n_decrypt = (\<lambda>i k u a c. Some (take (length c - 16) c))\<rparr>"

lemma map2_xor_commute: "map2 (XOR) a b = map2 (XOR) b (a :: bytes)"
  by (induction a b rule: list_induct2') (simp_all add: ac_simps)

lemma test_sodium_ok: "sodium_ok test_sodium"
proof -
  have "from_bytes_little (replicate 32 0) = 0"
    by (simp add: from_bytes_little_def from_bytes_def numeral_eq_Suc)
  then show ?thesis
    by (auto simp: sodium_ok_def test_sodium_def group_order_def map2_xor_commute split: if_splits)
qed

lemma c_domain_Inr:
  assumes "label_pattern label" "utf8_encode label = Some lb" "length lb \<le> 64" "list_all encodable parts"
    and "map canon parts = parts" "list_all wf_py parts" "list_all (\<lambda>p. cheight p \<le> 20) parts"
    and "sum_list (map cnodes parts) \<le> 90000" "length (concat (map cbor parts)) \<le> 1000000"
  shows "\<exists>d. c_domain label parts = Inr d \<and> length d \<le> 200 + length (concat (map cbor parts))"
proof -
  let ?v = "PList [PStr (cps ''PAR''), PInt 1, PStr label, PList parts]"
  have par: "utf8_encode (cps ''PAR'') = Some (map byte (cps ''PAR''))" by (simp add: cps_def utf8_cp_def)
  have "cheight ?v \<le> Suc MAX_DEPTH"
    using assms(7) by (simp add: MAX_DEPTH_def foldr_max_le list_all_iff numeral_eq_Suc) (fastforce simp: foldr_max_le)
  moreover have "cnodes ?v \<le> MAX_NODES" using assms(8) by (simp add: MAX_NODES_def)
  moreover have len: "length (cbor ?v) \<le> 200 + length (concat (map cbor parts))"
    using assms(2,3) nhead_bound [of 3 "length lb"] nhead_bound [of 4 "length parts"] nhead_bound [of 0 "Suc 0"]
      nhead_bound [of 4 "Suc (Suc (Suc (Suc 0)))"] nhead_bound [of 3 "Suc (Suc (Suc 0))"]
    by (simp add: par)
  moreover have "encodable ?v" "canon ?v = ?v" "wf_py ?v"
    using assms(2,4,5,6) by (simp_all add: par U64_def list_all_iff)
  ultimately have "encode ?v MAX_BYTES MAX_NODES = Inr (cbor ?v)"
    using assms(9) by (simp add: encode_iff budget_ok_def MAX_BYTES_def MAX_NODES_def)
  then show ?thesis using assms(1) len by (auto simp: c_domain_def)
qed

text \<open>The domain strings of the samples: a literal label over byte strings and small integers.\<close>

lemma c_domain_sample:
  assumes "label_pattern (cps l)" "length l \<le> 64" "list_all (\<lambda>c. c < 128) (cps l)"
    and "list_all (\<lambda>p. (\<exists>b. p = PBytes b) \<or> p = PInt 0 \<or> p = PInt 1 \<or> p = PStr (cps ''a.b'')) parts"
    and "length (concat (map cbor parts)) \<le> 80000"
  shows "\<exists>d. c_domain (cps l) parts = Inr d \<and> length d \<le> 100000"
proof -
  have app: "utf8_encode (cps ''a.b'') = Some [97, 46, 98]" by (simp add: cps_def utf8_cp_def byte_def)
  have ascii: "utf8_encode cs = Some (map byte cs)" if "list_all (\<lambda>c. c < 128) cs" for cs
    using that by (induction cs) (simp_all add: utf8_cp_def)
  have part: "encodable p \<and> canon p = p \<and> wf_py p \<and> cheight p \<le> 20 \<and> cnodes p = 1 \<and> 1 \<le> length (cbor p)"
    if "p \<in> set parts" for p
  proof -
    have "encodable p" "canon p = p" "wf_py p" "cheight p \<le> 20" "cnodes p = 1"
      using assms(4) that by (auto simp: list_all_iff U64_def app)
    moreover from this have "canonical p" using canonical_canon_enc [of p] by simp
    ultimately show ?thesis using length_cbor_pos by blast
  qed
  have "length parts \<le> length (concat (map cbor parts))"
    using part by (induction parts) (auto, fastforce)
  moreover have "sum_list (map cnodes parts) = int (length parts)"
    using part by (induction parts) auto
  ultimately have "\<exists>d. c_domain (cps l) parts = Inr d \<and> length d \<le> 200 + length (concat (map cbor parts))"
    using assms part by (intro c_domain_Inr [OF assms(1) ascii [OF assms(3)]])
      (auto simp: list_all_iff intro: map_idI)
  then show ?thesis using assms(5) by force
qed

definition sample_header :: "bytes \<Rightarrow> pyval" where
  "sample_header did = mk_dict [(0, PStr (cps ''a.b'')), (1, PBytes (replicate 32 1)), (2, PInt 1), (3, PBytes (replicate 32 2)),
     (4, PInt 1), (5, PBytes did), (6, PBytes (replicate 16 3)), (7, PInt 1), (8, PNone), (9, PBytes (replicate 32 4)),
     (10, PList []), (11, PInt 3), (12, PBytes (replicate 32 5)), (13, PBytes (replicate 32 6)), (14, PInt 1), (15, PInt 0)]"

lemma sample_header_conforms: "length did = 32 \<Longrightarrow> conforms default_rules (NRef ''change-header'') (sample_header did)"
  by (subst conforms_rule [OF _ rule_change_header])
    (auto simp: primitive_def sample_header_def mk_dict_def conforms_map map_shape_def key_field_def field_of_def is_int_def
      dict_get_def conforms_types conforms_union_ex U64_def cps_def utf8_cp_def split: if_splits)

lemma sample_header_encode: "length did = 32 \<Longrightarrow> \<exists>hb. encode (sample_header did) MAX_BYTES MAX_NODES = Inr hb \<and> length hb < 1000"
  by (simp add: sample_header_def encode_iff mk_dict_def budget_ok_def MAX_BYTES_def MAX_NODES_def MAX_DEPTH_def U64_def)
    (simp add: nhead_def cps_def utf8_cp_def)

lemma sample_header_ok:
  assumes "length did = 32"
  shows "\<exists>hb. change_header (sample_header did) = Inr hb \<and> length hb < 1000"
proof -
  obtain hb where "encode (sample_header did) MAX_BYTES MAX_NODES = Inr hb" "length hb < 1000"
    using sample_header_encode [OF assms] by blast
  moreover have "lower_app_ok (cps ''a.b'')" by (simp add: lower_app_ok_def cps_def lower_label_def lower_digit_def)
  moreover have "checked ''change-header'' (sample_header did) = Inr (sample_header did)"
    using sample_header_conforms [OF assms] by (simp add: checked_iff plain_rules)
  moreover have "item_at (sample_header did) 0 = Inr (PStr (cps ''a.b''))" "item_at (sample_header did) 7 = Inr (PInt 1)"
      "item_at (sample_header did) 10 = Inr (PList [])"
    by (simp_all add: sample_header_def)
  ultimately show ?thesis by (simp add: change_header_def check_app_id_def list_of_def)
qed

lemma sample_key:
  assumes "length secret = 32"
  shows "\<exists>key. change_key secret (sample_header did) False = Inr key \<and> length key = 32"
proof -
  obtain d where d: "c_domain (cps ''epoch-salt'') [PStr (cps ''a.b''), PBytes (replicate 32 1), PInt 1] = Inr d"
    using c_domain_sample [of "''epoch-salt''" "[PStr (cps ''a.b''), PBytes (replicate 32 1), PInt 1]"]
    by (force simp: label_pattern_def lower_digit_def cps_def nhead_def utf8_cp_def)
  obtain i where i: "c_domain (cps ''object-key'') [PInt 1, PBytes (replicate 32 2), PInt 0] = Inr i" "length i \<le> 100000"
    using c_domain_sample [of "''object-key''" "[PInt 1, PBytes (replicate 32 2), PInt 0]"]
    by (force simp: label_pattern_def lower_digit_def cps_def nhead_def)
  have "key_app_pattern (cps ''a.b'')" by (simp add: key_app_pattern_def cps_def lower_digit_def)
  then show ?thesis using assms d i
    by (simp add: change_key_def object_key_def sample_header_def as_bytes_def fixed_def is_u64_def hashed_def
        hkdf_extract_def hkdf_expand_def bounded_def MAX_INPUT_def)
qed

text \<open>The device identifier of the sample author, whose seed is a string of sevens.\<close>

definition sample_did :: bytes where
  "sample_did = (case hashed ''device-id'' [PStr (cps ''a.b''), PBytes (replicate 32 7)] of Inl e \<Rightarrow> [] | Inr d \<Rightarrow> d)"

lemma sample_did_ok: "hashed ''device-id'' [PStr (cps ''a.b''), PBytes (replicate 32 7)] = Inr sample_did" "length sample_did = 32"
proof -
  obtain d where "c_domain (cps ''device-id'') [PStr (cps ''a.b''), PBytes (replicate 32 7)] = Inr d"
    using c_domain_sample [of "''device-id''" "[PStr (cps ''a.b''), PBytes (replicate 32 7)]"]
    by (force simp: label_pattern_def lower_digit_def cps_def nhead_def utf8_cp_def)
  then show "hashed ''device-id'' [PStr (cps ''a.b''), PBytes (replicate 32 7)] = Inr sample_did" "length sample_did = 32"
    by (simp_all add: hashed_def sample_did_def)
qed

lemma sample_sign: "p_sign_public test_sodium (replicate 32 7) = Inr (replicate 32 7)"
  by (simp add: p_sign_public_def test_sodium_def fixed_def)

lemma sample_seal: "\<exists>raw. seal_change test_sodium (replicate 32 8) (replicate 32 7) (sample_header sample_did) [1, 2, 3] (replicate 24 0)
    = Inr raw"
proof -
  let ?h = "sample_header sample_did"
  obtain hb where hb: "change_header ?h = Inr hb" "length hb < 1000" using sample_header_ok sample_did_ok(2) by blast
  have c: "canon ?h = ?h" "wf_py ?h" by (simp_all add: sample_header_def mk_dict_def)
  have dec: "decode hb MAX_BYTES MAX_NODES = Inr ?h" using change_header_ok(2) [OF c(2) hb(1)] c(1) by simp
  obtain key where key: "change_key (replicate 32 8) ?h False = Inr key" "length key = 32"
    using sample_key [of "replicate 32 8"] by auto
  obtain aad where aad: "c_domain (cps ''envelope-aad'') [PBytes hb] = Inr aad" "length aad \<le> 100000"
    using c_domain_sample [of "''envelope-aad''" "[PBytes hb]"] hb(2) nhead_bound [of 2 "length hb"]
    by (force simp: label_pattern_def lower_digit_def cps_def)
  let ?ct = "[1, 2, 3] @ replicate 16 (0 :: byte)" and ?nonce = "replicate 24 (0 :: byte)"
  obtain msg where msg: "c_domain (cps ''envelope-sign'') [PBytes hb, PBytes ?nonce, PBytes ?ct] = Inr msg" "length msg \<le> 100000"
    using c_domain_sample [of "''envelope-sign''" "[PBytes hb, PBytes ?nonce, PBytes ?ct]"] hb(2) nhead_bound [of 2 "length hb"]
    by (force simp: label_pattern_def lower_digit_def cps_def nhead_def [of _ 24] nhead_def [of _ 19])
  have author: "check_author (replicate 32 7) ?h = Inr ()"
    using sample_did_ok(1) by (simp add: check_author_def fixed_def sample_header_def)
  have sealed: "p_seal test_sodium key ?nonce aad [1, 2, 3] = Inr ?ct"
    using key(2) aad(2) by (simp add: p_seal_def crypt_def fixed_def bounded_def MAX_INPUT_def test_sodium_def)
  have sig: "p_sign test_sodium (replicate 32 7) msg = Inr (replicate 32 7 @ replicate 32 0)"
    using msg(2) by (simp add: p_sign_def fixed_def bounded_def MAX_INPUT_def test_sodium_def)
  have "\<exists>raw. encode (mk_dict [(0, PBytes hb), (1, PBytes ?nonce), (2, PBytes ?ct),
      (3, PBytes (replicate 32 7 @ replicate 32 0))]) MAX_BYTES MAX_NODES = Inr raw"
    using hb(2) nhead_bound [of 2 "length hb"]
    by (simp add: encode_iff mk_dict_def budget_ok_def MAX_BYTES_def MAX_NODES_def MAX_DEPTH_def U64_def nhead_def)
  moreover have "item_at ?h 11 = Inr (PInt 3)" by (simp add: sample_header_def)
  ultimately show ?thesis
    using hb(1) dec key(1) aad(1) msg(1) author sealed sig sample_sign
    by (simp add: seal_change_def bounded_def fixed_def)
qed

theorem open_seal_change_witness:
  "\<exists>raw. seal_change test_sodium (replicate 32 8) (replicate 32 7) (sample_header sample_did) [1, 2, 3] (replicate 24 0) = Inr raw
    \<and> open_change test_sodium (replicate 32 8) (replicate 32 7) (sample_header sample_did) raw = Inr [1, 2, 3]"
proof -
  obtain raw where raw: "seal_change test_sodium (replicate 32 8) (replicate 32 7) (sample_header sample_did) [1, 2, 3]
      (replicate 24 0) = Inr raw" using sample_seal by blast
  have "wf_py (sample_header sample_did)" by (simp add: sample_header_def mk_dict_def)
  from open_seal_change [OF test_sodium_ok this sample_sign raw] raw show ?thesis by blast
qed

end
