(* ===== verification/SignedObjects.thy ===== *)
theory SignedObjects
  imports Sealing
begin

text \<open>
  Signed objects, device certificates, sealed blocks and epoch key packages: what is created verifies, and a key package that
  opens carries the secret that was sealed for the same context, recipient and package set.
\<close>

section \<open>Closed maps\<close>

text \<open>A decoded object of a closed map rule without optional fields is the map literal of its fields in order.\<close>

lemma closed_map:
  assumes "conforms rules (NMap fs) v" "canonical v" "sorted_wrt (<) (map fst fs)" "list_all (\<lambda>f. \<not> fst (snd f)) fs"
  shows "\<exists>xs. v = mk_dict (zip (map fst fs) xs) \<and> list_all2 (\<lambda>f x. conforms rules (snd (snd f)) x) fs xs"
proof -
  obtain kvs where v: "v = PDict kvs" and shape: "map_shape fs kvs"
    and sub: "\<And>kv opt child. kv \<in> set kvs \<Longrightarrow> key_field fs (fst kv) = Some (opt, child) \<Longrightarrow> conforms rules child (snd kv)"
    using assms(1) by (auto simp: conforms_map)
  have dist: "distinct (map fst fs)" using assms(3) by (simp add: strict_sorted_iff)
  let ?ks = "map (int_of \<circ> fst) kvs"
  have pint: "fst kv = PInt (int_of (fst kv))" if "kv \<in> set kvs" for kv
    using shape that by (auto simp: map_shape_def list_all_iff is_int_conv)
  have "set ?ks = set (map fst fs)"
  proof
    show "set ?ks \<subseteq> set (map fst fs)"
    proof
      fix k assume "k \<in> set ?ks"
      then obtain kv where kv: "kv \<in> set kvs" "k = int_of (fst kv)" by auto
      then obtain opt child where "key_field fs (fst kv) = Some (opt, child)" using key_field_total [OF shape] by blast
      then have "map_of fs k = Some (opt, child)"
        using arg_cong [OF pint [OF kv(1)], of "key_field fs"] kv(2)
        by (simp add: key_field_def [of _ "PInt _"] field_of_distinct [OF dist])
      then show "k \<in> set (map fst fs)" by (force dest: map_of_SomeD)
    qed
    show "set (map fst fs) \<subseteq> set ?ks"
    proof
      fix k assume "k \<in> set (map fst fs)"
      then obtain opt child where f: "(k, opt, child) \<in> set fs" by auto
      then have "\<not> opt" using assms(4) by (auto simp: list_all_iff)
      with map_field [OF assms(1) _ dist, of k child] map_of_is_SomeI [OF dist f]
      obtain x where "item_at v k = Inr x" by auto
      then have "(PInt k, x) \<in> set kvs"
        using v by (auto simp: item_at_def dict_get_def split: option.splits dest: map_of_SomeD)
      then show "k \<in> set ?ks" by force
    qed
  qed
  moreover have "sorted_wrt (<) ?ks" using assms(2) v by simp
  ultimately have ks: "?ks = map fst fs"
    using assms(3) by (intro sorted_distinct_set_unique) (auto simp: strict_sorted_iff)
  have zip: "kvs = map (\<lambda>(k, x). (PInt k, x)) (zip ?ks (map snd kvs))"
    using pint by (induction kvs) auto
  have "list_all2 (\<lambda>f x. conforms rules (snd (snd f)) x) fs (map snd kvs)"
  proof (rule list_all2_all_nthI)
    show len: "length fs = length (map snd kvs)" using arg_cong [OF ks, of length] by simp
    fix i assume i: "i < length fs"
    obtain k opt child where f: "fs ! i = (k, opt, child)" by (cases "fs ! i")
    have kv: "kvs ! i \<in> set kvs" using i len by simp
    have "int_of (fst (kvs ! i)) = k" using arg_cong [OF ks, of "\<lambda>l. l ! i"] i len f by simp
    then have "fst (kvs ! i) = PInt k" using pint [OF kv] by simp
    moreover have "map_of fs k = Some (opt, child)"
      by (rule map_of_is_SomeI [OF dist]) (use i f in \<open>metis nth_mem\<close>)
    ultimately have "key_field fs (fst (kvs ! i)) = Some (opt, child)"
      by (simp add: key_field_def field_of_distinct [OF dist])
    then show "conforms rules (snd (snd (fs ! i))) (map snd kvs ! i)" using sub [OF kv] f i len by simp
  qed
  then show ?thesis using v zip ks by (intro exI [of _ "map snd kvs"]) (simp add: mk_dict_def)
qed

section \<open>Signed objects\<close>

lemma signed_object_conforms:
  assumes "1 \<le> length raw" "length raw \<le> 65536" "length pk = 32" "length sig = 64"
  shows "conforms default_rules (NRef ''signed-object'') (mk_dict [(0, PBytes raw), (1, PBytes pk), (2, PBytes sig)])"
  using assms
  by (subst conforms_rule [OF _ rule_signed_object])
    (auto simp: primitive_def mk_dict_def conforms_map map_shape_def key_field_def field_of_def is_int_def dict_get_def
      conforms_types split: if_splits)

lemma signed_ok:
  assumes "sodium_ok n" "wf_py body" "plain_rule rule" "conforms default_rules (NRef rule) body"
    and "p_sign_public n seed = Inr pk" "signed n seed label body = Inr out"
  shows "verify_signed n pk label rule out = Inr (canon body)"
proof -
  obtain raw msg sig where raw: "encode body MAX_BYTES MAX_NODES = Inr raw" "1 \<le> length raw" "length raw \<le> 65536"
    and msg: "c_domain (cps label) [PBytes raw] = Inr msg" and sig: "p_sign n seed msg = Inr sig"
    and out: "encode (mk_dict [(0, PBytes raw), (1, PBytes pk), (2, PBytes sig)]) MAX_BYTES MAX_NODES = Inr out"
    using assms(5,6) by (auto simp: signed_def res_simps bounded_def)
  let ?o = "mk_dict [(0, PBytes raw), (1, PBytes pk), (2, PBytes sig)]"
  note v = p_sign_ok [OF assms(1,5) sig]
  note e = encode_canon [OF assms(2) raw(1)]
  have c: "canon ?o = ?o" "wf_py ?o" by (simp_all add: mk_dict_def)
  note d = decode_encode_canon [OF out c]
  have "length out = length (cbor ?o)" using d by (simp add: decode_iff)
  also have "\<dots> \<le> 66000" using raw(3) v nhead_bound [of 2 "length raw"]
    by (simp add: mk_dict_def nhead_def [of _ 32] nhead_def [of _ 64] nhead_def [of 0] nhead_def [of 5])
  finally have len: "length out \<le> 66000" .
  then have "decode out 66000 MAX_NODES = Inr ?o" by (intro decode_limit [OF d]) (simp_all add: MAX_BYTES_def)
  then have "obj_parse ''signed-object'' out 66000 = Inr ?o"
    using len signed_object_conforms [OF raw(2,3)] v by (simp add: obj_parse_iff plain_rules)
  moreover have "decode raw 65536 MAX_NODES = Inr (canon body)"
    by (rule decode_limit [OF e(2)]) (use raw(3) in \<open>simp_all add: MAX_BYTES_def\<close>)
  then have "obj_parse rule raw 65536 = Inr (canon body)"
    using raw(3) conforms_canon [OF assms(4) e(3)] by (simp add: obj_parse_iff assms(3))
  ultimately show ?thesis using v msg by (simp add: verify_signed_def fixed_def as_bytes_def)
qed

text \<open>What verification establishes: the bytes are a signed object of this signer whose signature covers the body under
  the label.\<close>

lemma verify_signed_sound:
  assumes "verify_signed n pk label rule out = Inr body" "plain_rule rule"
  shows "\<exists>raw msg sig. decode out 66000 MAX_NODES = Inr (mk_dict [(0, PBytes raw), (1, PBytes pk), (2, PBytes sig)])
    \<and> c_domain (cps label) [PBytes raw] = Inr msg \<and> p_verify n pk msg sig = Inr ()
    \<and> decode raw 65536 MAX_NODES = Inr body \<and> conforms default_rules (NRef rule) body"
proof -
  obtain o' where o: "obj_parse ''signed-object'' out 66000 = Inr o'" and len: "length pk = 32"
    using assms(1) by (auto simp: verify_signed_def res_simps fixed_def)
  then have d: "decode out 66000 MAX_NODES = Inr o'" and conf: "conforms default_rules (NRef ''signed-object'') o'"
    by (simp_all add: obj_parse_iff plain_rules)
  have can: "canonical o'" using d by (simp add: decode_iff)
  have "\<exists>a b c. o' = mk_dict [(0, a), (1, b), (2, c)]
      \<and> conforms default_rules (NSize (NRef ''bstr'') 1 65536) a \<and> conforms default_rules (NRef ''sig64'') c"
    using closed_map [OF conf [unfolded conforms_rule [OF _ rule_signed_object, simplified primitive_def, simplified]] can]
    by (auto simp: list_all2_Cons1) blast
  then obtain raw b sig where obj: "o' = mk_dict [(0, PBytes raw), (1, b), (2, PBytes sig)]"
    by (auto simp: conforms_types)
  with assms(1) o have "b = PBytes pk" "\<exists>msg. c_domain (cps label) [PBytes raw] = Inr msg \<and> p_verify n pk msg sig = Inr ()"
    "obj_parse rule raw 65536 = Inr body"
    by (auto simp: verify_signed_def res_simps as_bytes_def)
  then show ?thesis using d obj by (auto simp: obj_parse_iff [OF assms(2)])
qed

section \<open>Certificates\<close>

text \<open>A certificate that is issued verifies for the same application and account key, and verification returns
  its fields.\<close>

theorem verify_created_certificate:
  assumes "sodium_ok n" and "p_sign_public n account_seed = Inr pk" and "wf_py app \<and> wf_py device \<and> wf_py recipient \<and> wf_py serial"
    and "create_certificate n account_seed app device recipient serial = Inr raw"
  shows "verify_certificate n app pk raw
    = Inr (mk_dict [(0, PInt 1), (1, app), (2, PBytes pk), (3, device), (4, recipient), (5, serial)])"
proof -
  let ?b = "mk_dict [(0, PInt 1), (1, app), (2, PBytes pk), (3, device), (4, recipient), (5, serial)]"
  have app: "check_app_id app = Inr ()" and conf: "conforms default_rules (NRef ''certificate-body'') ?b"
    and keys: "PBytes pk \<noteq> device" "PBytes pk \<noteq> recipient" "device \<noteq> recipient"
    and s: "signed n account_seed ''certificate-sign'' ?b = Inr raw"
    using assms(2,4) by (auto simp: create_certificate_def res_simps checked_iff plain_rules Let_def)
  obtain a d r s' where "app = PStr a" "device = PBytes d" "recipient = PBytes r" "serial = PBytes s'"
    using certificate_body_fields [OF conf] by (auto simp: conforms_types)
  then have c: "canon ?b = ?b" "wf_py ?b" by (simp_all add: mk_dict_def)
  from signed_ok [OF assms(1) c(2) plain_rules(6) conf assms(2) s] c(1) app keys show ?thesis
    by (simp add: verify_certificate_def)
qed

text \<open>A certificate of the sample account for fixed device and recipient keys.\<close>

definition sample_certificate :: pyval where
  "sample_certificate = mk_dict [(0, PInt 1), (1, PStr (cps ''a.b'')), (2, PBytes (replicate 32 7)), (3, PBytes (replicate 32 1)),
     (4, PBytes (replicate 32 2)), (5, PBytes (replicate 16 3))]"

lemma sample_certificate_conforms: "conforms default_rules (NRef ''certificate-body'') sample_certificate"
  by (subst conforms_rule [OF _ rule_certificate_body])
    (auto simp: primitive_def sample_certificate_def mk_dict_def conforms_map map_shape_def key_field_def field_of_def is_int_def
      dict_get_def conforms_types U64_def cps_def utf8_cp_def split: if_splits)

lemma sample_certificate_encode: "\<exists>b. encode sample_certificate MAX_BYTES MAX_NODES = Inr b \<and> 1 \<le> length b \<and> length b < 1000"
  by (simp add: sample_certificate_def encode_iff mk_dict_def budget_ok_def MAX_BYTES_def MAX_NODES_def MAX_DEPTH_def U64_def)
    (simp add: nhead_def cps_def utf8_cp_def)

lemma sample_certificate_ok: "\<exists>raw. create_certificate test_sodium (replicate 32 7) (PStr (cps ''a.b'')) (PBytes (replicate 32 1))
    (PBytes (replicate 32 2)) (PBytes (replicate 16 3)) = Inr raw"
proof -
  obtain b where b: "encode sample_certificate MAX_BYTES MAX_NODES = Inr b" "1 \<le> length b" "length b < 1000"
    using sample_certificate_encode by blast
  obtain msg where msg: "c_domain (cps ''certificate-sign'') [PBytes b] = Inr msg" "length msg \<le> 100000"
    using c_domain_sample [of "''certificate-sign''" "[PBytes b]"] b(3) nhead_bound [of 2 "length b"]
    by (force simp: label_pattern_def lower_digit_def cps_def)
  have sig: "p_sign test_sodium (replicate 32 7) msg = Inr (replicate 32 7 @ replicate 32 0)"
    using msg(2) by (simp add: p_sign_def fixed_def bounded_def MAX_INPUT_def test_sodium_def)
  have "\<exists>raw. encode (mk_dict [(0, PBytes b), (1, PBytes (replicate 32 7)), (2, PBytes (replicate 32 7 @ replicate 32 0))])
      MAX_BYTES MAX_NODES = Inr raw"
    using b(3) nhead_bound [of 2 "length b"]
    by (simp add: encode_iff mk_dict_def budget_ok_def MAX_BYTES_def MAX_NODES_def MAX_DEPTH_def U64_def nhead_def)
  then have "\<exists>raw. signed test_sodium (replicate 32 7) ''certificate-sign'' sample_certificate = Inr raw"
    using b msg(1) sig sample_sign by (simp add: signed_def bounded_def)
  moreover have "checked ''certificate-body'' sample_certificate = Inr sample_certificate"
    using sample_certificate_conforms by (simp add: checked_iff plain_rules)
  moreover have "check_app_id (PStr (cps ''a.b'')) = Inr ()"
    by (simp add: check_app_id_def lower_app_ok_def cps_def lower_label_def lower_digit_def)
  ultimately show ?thesis using sample_sign
    by (simp add: create_certificate_def sample_certificate_def [symmetric])
qed

theorem verify_created_certificate_witness:
  "\<exists>raw. create_certificate test_sodium (replicate 32 7) (PStr (cps ''a.b'')) (PBytes (replicate 32 1)) (PBytes (replicate 32 2))
      (PBytes (replicate 16 3)) = Inr raw \<and> verify_certificate test_sodium (PStr (cps ''a.b'')) (replicate 32 7) raw = Inr sample_certificate"
proof -
  obtain raw where raw: "create_certificate test_sodium (replicate 32 7) (PStr (cps ''a.b'')) (PBytes (replicate 32 1))
    (PBytes (replicate 32 2)) (PBytes (replicate 16 3)) = Inr raw" using sample_certificate_ok by blast
  from verify_created_certificate [OF test_sodium_ok sample_sign _ raw] raw show ?thesis
    unfolding sample_certificate_def by auto
qed

end
