(* ===== verification/Membership.thy ===== *)
theory Membership
  imports SignedObjects "HOL-Library.AList"
begin

text \<open>
  Space membership (\<^verbatim>\<open>par_auth/common.py\<close> and \<^verbatim>\<open>membership.py\<close>): bounded parsing with translated errors, the member
  pages an authority commits to, their verification against the committed root, and the certificate check that accepts an
  account key only after the pinned certificate digest matches. Inputs that the code receives untyped stay Python values, so
  every type check is a branch.
\<close>

section \<open>Bounded parsing\<close>

abbreviation auth_fail :: "string \<Rightarrow> 'a res" where
  "auth_fail code \<equiv> Inl (AuthError code)"

definition a_fixed :: "pyval \<Rightarrow> nat \<Rightarrow> unit res" where
  "a_fixed v n = need (case v of PBytes b \<Rightarrow> length b = n | _ \<Rightarrow> False) (AuthError ''SCHEMA_INVALID'')"

definition blob :: "pyval \<Rightarrow> nat \<Rightarrow> nat \<Rightarrow> unit res" where
  "blob v maximum minimum =
     need (case v of PBytes b \<Rightarrow> minimum \<le> length b \<and> length b \<le> maximum | _ \<Rightarrow> False) (AuthError ''SCHEMA_INVALID'')"

definition a_schema :: "string \<Rightarrow> pyval \<Rightarrow> pyval res" where
  "a_schema rule v = bindE (wire_to (AuthError ''SCHEMA_INVALID'') (schema_validate default_rules rule v)) (\<lambda>_. Inr v)"

definition a_parse :: "string \<Rightarrow> pyval \<Rightarrow> nat \<Rightarrow> pyval res" where
  "a_parse rule raw limit =
     bindE (blob raw limit 1) (\<lambda>_.
     bindE (as_bytes raw) (\<lambda>b.
     bindE (wire_to (AuthError ''SCHEMA_INVALID'') (decode b (int limit) MAX_NODES)) (a_schema rule)))"

definition crypto_to :: "exn \<Rightarrow> 'a res \<Rightarrow> 'a res" where
  "crypto_to e m = (case m of Inl (CryptoError _) \<Rightarrow> Inl e | _ \<Rightarrow> m)"

definition a_app :: "pyval \<Rightarrow> unit res" where
  "a_app v = crypto_to (AuthError ''SCHEMA_INVALID'') (check_app_id v)"

definition a_canonical :: "pyval \<Rightarrow> nat \<Rightarrow> bytes res" where
  "a_canonical v limit = wire_to (AuthError ''RESOURCE_BLOCKED'') (encode v (int limit) MAX_NODES)"

definition crypto :: "'a res \<Rightarrow> 'a res" where
  "crypto m = crypto_to (AuthError ''CRYPTO_INVALID'') m"

definition as_int :: "pyval \<Rightarrow> int res" where
  "as_int v = (case v of PInt i \<Rightarrow> Inr i | _ \<Rightarrow> Inl TypeError)"

abbreviation int_at :: "pyval \<Rightarrow> int \<Rightarrow> int res" where
  "int_at v k \<equiv> bindE (item_at v k) as_int"

abbreviation bytes_at :: "pyval \<Rightarrow> int \<Rightarrow> bytes res" where
  "bytes_at v k \<equiv> bindE (item_at v k) as_bytes"

lemma as_bytes_eq [simp]: "as_bytes v = Inr b \<longleftrightarrow> v = PBytes b"
  by (auto simp: as_bytes_def split: pyval.splits)

lemma as_int_eq [simp]: "as_int v = Inr i \<longleftrightarrow> v = PInt i"
  by (auto simp: as_int_def split: pyval.splits)

lemma as_conv [simp]: "as_bytes (PBytes b) = Inr b" "as_int (PInt i) = Inr i"
  by (simp_all add: as_int_def as_bytes_def)

lemma crypto_eq [simp]: "crypto m = Inr x \<longleftrightarrow> m = Inr x"
  by (auto simp: crypto_def crypto_to_def split: sum.splits exn.splits)

lemma a_app_eq [simp]: "a_app v = Inr u \<longleftrightarrow> check_app_id v = Inr ()"
  by (auto simp: a_app_def crypto_to_def split: sum.splits exn.splits)

section \<open>Member pages\<close>

definition PAGE_ENTRIES :: nat where "PAGE_ENTRIES = 64"
definition MAX_MEMBERS :: nat where "MAX_MEMBERS = 256"

record member =
  m_device :: bytes
  m_certificate :: bytes
  m_role :: int

record membership =
  ms_root :: bytes
  ms_pages :: "bytes list"
  ms_members :: "member list"

definition ms_get :: "membership \<Rightarrow> bytes \<Rightarrow> member option" where
  "ms_get ms did = find (\<lambda>m. m_device m = did) (ms_members ms)"

definition content_members :: "membership \<Rightarrow> member list" where
  "content_members ms = filter (\<lambda>m. m_role m \<in> {1, 2}) (ms_members ms)"

text \<open>\<^verbatim>\<open>[values[i:i+n] for i in range(0,len(values),n)]\<close>\<close>

fun slices :: "nat \<Rightarrow> 'a list \<Rightarrow> 'a list list" where
  "slices n [] = []"
| "slices n (x # xs) = take (max 1 n) (x # xs) # slices n (drop (max 1 n - 1) xs)"

definition build_membership :: "pyval \<Rightarrow> bytes list res" where
  "build_membership rows = (case rows of
     PList es \<Rightarrow>
       bindE (need (length es \<le> MAX_MEMBERS) (AuthError ''RESOURCE_BLOCKED'')) (\<lambda>_.
       bindE (allE (\<lambda>e. bindE (a_schema ''member-entry'' e) (\<lambda>_. Inr ())) es) (\<lambda>_.
       bindE (mapE (\<lambda>e. bindE (bytes_at e 0) (\<lambda>k. Inr (k, e))) es) (\<lambda>keyed.
       let values = sort_bytes fst keyed in
       bindE (need (distinct (map fst values)) (AuthError ''MEMBERSHIP_ORDER'')) (\<lambda>_.
         mapE (\<lambda>page. a_canonical (PList page) 1048576) (slices PAGE_ENTRIES (map snd values))))))
   | _ \<Rightarrow> auth_fail ''SCHEMA_INVALID'')"

text \<open>One entry of a page: strictly after the previous device, in page order and across pages.\<close>

definition take_member :: "pyval \<Rightarrow> bytes option \<times> member list \<Rightarrow> (bytes option \<times> member list) res" where
  "take_member m = (\<lambda>(previous, rows).
     bindE (bytes_at m 0) (\<lambda>did.
     bindE (need (case previous of None \<Rightarrow> True | Some p \<Rightarrow> \<not> bytes_le did p) (AuthError ''MEMBERSHIP_ORDER'')) (\<lambda>_.
     bindE (bytes_at m 1) (\<lambda>cid.
     bindE (int_at m 2) (\<lambda>role.
       Inr (Some did, rows @ [\<lparr>m_device = did, m_certificate = cid, m_role = role\<rparr>]))))))"

definition take_page :: "nat \<Rightarrow> nat \<times> pyval \<Rightarrow> bytes option \<times> member list \<Rightarrow> (bytes option \<times> member list) res" where
  "take_page amount = (\<lambda>(i, raw) acc.
     bindE (bindE (a_parse ''member-page'' raw 32768) list_of) (\<lambda>page.
     bindE (need (1 \<le> length page \<and> length page \<le> PAGE_ENTRIES \<and> (Suc i < amount \<longrightarrow> length page = PAGE_ENTRIES))
       (AuthError ''MEMBERSHIP_LAYOUT'')) (\<lambda>_.
       foldE take_member page acc)))"

definition membership_root :: "pyval list \<Rightarrow> bytes res" where
  "membership_root raws =
     bindE (mapE (\<lambda>p. hashed ''member-page-id'' [p]) raws) (\<lambda>ids. hashed ''membership-root'' [PList (map PBytes ids)])"

definition verify_membership :: "pyval \<Rightarrow> pyval \<Rightarrow> membership res" where
  "verify_membership expected_root raws =
     bindE (a_fixed expected_root 32) (\<lambda>_. case raws of
       PList owned \<Rightarrow>
         bindE (need (length owned \<le> MAX_MEMBERS div PAGE_ENTRIES) (AuthError ''RESOURCE_BLOCKED'')) (\<lambda>_.
         bindE (foldE (take_page (length owned)) (zip [0..<length owned] owned) (None, [])) (\<lambda>(_, rows).
         bindE (membership_root owned) (\<lambda>root.
         bindE (need (PBytes root = expected_root) (AuthError ''MEMBERSHIP_ROOT'')) (\<lambda>_.
         bindE (mapE as_bytes owned) (\<lambda>bs.
           Inr \<lparr>ms_root = root, ms_pages = bs, ms_members = rows\<rparr>)))))
     | _ \<Rightarrow> auth_fail ''SCHEMA_INVALID'')"

definition device_id :: "pyval \<Rightarrow> pyval \<Rightarrow> bytes res" where
  "device_id app key = hashed ''device-id'' [app, key]"

definition member_certificate :: "sodium \<Rightarrow> pyval \<Rightarrow> membership \<Rightarrow> pyval \<Rightarrow> pyval res" where
  "member_certificate n app ms raw =
     bindE (a_app app) (\<lambda>_.
     bindE (a_parse ''signed-object'' raw 66000) (\<lambda>outer.
     bindE (item_at outer 0) (\<lambda>o0.
     bindE (a_parse ''certificate-body'' o0 66000) (\<lambda>body.
     bindE (item_at body 1) (\<lambda>b1.
     bindE (need (b1 = app) (AuthError ''CONTEXT_MISMATCH'')) (\<lambda>_.
     bindE (item_at body 3) (\<lambda>b3.
     bindE (device_id app b3) (\<lambda>did. case ms_get ms did of
         None \<Rightarrow> auth_fail ''NOT_AUTHORIZED''
       | Some member \<Rightarrow>
           bindE (as_bytes raw) (\<lambda>rb.
           bindE (certificate_id rb) (\<lambda>cid.
           bindE (need (cid = m_certificate member) (AuthError ''CERTIFICATE_BINDING'')) (\<lambda>_.
           bindE (bytes_at body 2) (\<lambda>account.
             crypto (verify_certificate n app account rb)))))))))))))"

end
