(* ===== verification/Authority.thy ===== *)
theory Authority
  imports Membership
begin

text \<open>
  The authority state of a space (\<^verbatim>\<open>par_auth/chain.py\<close>, \<^verbatim>\<open>activation.py\<close>, \<^verbatim>\<open>receiver.py\<close>): an append-only chain of
  signed control entries under a pinned genesis, the membership each entry commits to, activation of an epoch, local permits
  and the receive preflight. Every operation takes the calling thread; object identities (the state itself and its stamp) are
  numbers, a fresh stamp per change. An operation that changes state returns the new state together with its result, so the
  state after a raise is explicit.
\<close>

definition MAX_HISTORY_BYTES :: nat where "MAX_HISTORY_BYTES = 786432"

record control =
  c_raw :: bytes
  c_body_bytes :: bytes
  c_id :: bytes
  c_after :: bytes
  c_anchor :: bytes

definition c_body :: "control \<Rightarrow> pyval res" where
  "c_body c = decode (c_body_bytes c) MAX_BYTES MAX_NODES"

record permit =
  pm_device :: bytes
  pm_role :: int
  pm_operation :: string
  pm_head :: bytes
  pm_epoch :: int
  pm_revision :: nat
  pm_owner :: nat
  pm_stamp :: nat
  pm_seal :: bytes

record active_material =
  am_epoch :: int
  am_anchor :: bytes
  am_recipient :: bytes
  am_secret :: bytes
  am_seeds :: "(bytes \<times> bytes) list"
  am_cut :: "pyval list"

datatype event = EControl bytes | EMembers "bytes list"

record authority =
  au_self :: nat
  au_app :: pyval
  au_space :: bytes
  au_genesis :: bytes
  au_genesis_body :: bytes
  au_thread :: nat
  au_max :: nat
  au_busy :: bool
  au_nodes :: "(bytes \<times> control) list"
  au_sequences :: "(int \<times> bytes) list"
  au_memberships :: "(bytes \<times> membership) list"
  au_resolved :: "bytes list"
  au_head :: bytes
  au_revision :: nat
  au_stamp :: nat
  au_events :: "event list"
  au_event_bytes :: nat
  au_fork :: "(bytes \<times> bytes) option"
  au_invalid :: bool
  au_active :: "active_material option"
  au_key_checks :: "(int \<times> bytes) list"
  au_permit_key :: bytes

section \<open>Construction and reading\<close>

definition new_authority ::
  "sodium \<Rightarrow> random_source \<Rightarrow> nat \<Rightarrow> nat \<Rightarrow> pyval \<Rightarrow> pyval \<Rightarrow> pyval \<Rightarrow> int \<Rightarrow> authority res" where
  "new_authority n source self caller expected_app expected_space genesis max_controls =
     bindE (a_app expected_app) (\<lambda>_.
     bindE (a_fixed expected_space 32) (\<lambda>_.
     bindE (need (1 \<le> max_controls \<and> max_controls \<le> 1024) (AuthError ''SCHEMA_INVALID'')) (\<lambda>_.
     bindE (a_parse ''signed-object'' genesis 66000) (\<lambda>o'.
     bindE (item_at o' 0) (\<lambda>o0.
     bindE (a_parse ''genesis-body'' o0 66000) (\<lambda>b.
     bindE (item_at b 1) (\<lambda>b1.
     bindE (hashed ''space-id'' [o0]) (\<lambda>sid.
     bindE (item_at o' 1) (\<lambda>o1.
     bindE (item_at b 2) (\<lambda>b2.
     bindE (need (b1 = expected_app \<and> PBytes sid = expected_space \<and> o1 = b2) (AuthError ''TRUST_ANCHOR'')) (\<lambda>_.
     bindE (c_domain (cps ''genesis-sign'') [o0]) (\<lambda>msg.
     bindE (as_bytes b2) (\<lambda>pk. bindE (bytes_at o' 2) (\<lambda>sig.
     bindE (crypto (p_verify n pk msg sig)) (\<lambda>_.
     bindE (as_bytes genesis) (\<lambda>graw. bindE (as_bytes o0) (\<lambda>gbody.
     bindE (crypto (random_bytes 32 source)) (\<lambda>key.
       Inr \<lparr>au_self = self, au_app = expected_app, au_space = sid, au_genesis = graw, au_genesis_body = gbody,
         au_thread = caller, au_max = nat max_controls, au_busy = False, au_nodes = [], au_sequences = [],
         au_memberships = [], au_resolved = [], au_head = sid, au_revision = 0, au_stamp = 0, au_events = [],
         au_event_bytes = length graw, au_fork = None, au_invalid = False, au_active = None, au_key_checks = [],
         au_permit_key = key\<rparr>))))))))))))))))))"

definition thread_check :: "authority \<Rightarrow> nat \<Rightarrow> unit res" where
  "thread_check st caller =
     bindE (need (caller = au_thread st) (AuthError ''WRONG_THREAD'')) (\<lambda>_.
       need (\<not> au_busy st) (AuthError ''REENTRANT_OPERATION''))"

definition bump :: "authority \<Rightarrow> authority" where
  "bump st = st\<lparr>au_revision := Suc (au_revision st), au_stamp := Suc (au_stamp st)\<rparr>"

definition au_capacity :: "authority \<Rightarrow> nat \<Rightarrow> unit res" where
  "au_capacity st weight = need (au_event_bytes st + weight \<le> MAX_HISTORY_BYTES) (AuthError ''RESOURCE_BLOCKED'')"

definition au_record :: "event \<Rightarrow> nat \<Rightarrow> authority \<Rightarrow> authority" where
  "au_record e weight st = st\<lparr>au_events := au_events st @ [e], au_event_bytes := au_event_bytes st + weight\<rparr>"

definition au_sequence :: "authority \<Rightarrow> nat" where
  "au_sequence st = length (au_sequences st)"

definition node_at :: "authority \<Rightarrow> bytes \<Rightarrow> control res" where
  "node_at st i = (case map_of (au_nodes st) i of None \<Rightarrow> Inl KeyError | Some c \<Rightarrow> Inr c)"

definition au_epoch :: "authority \<Rightarrow> int res" where
  "au_epoch st = (if au_nodes st = [] then Inr 0
     else bindE (node_at st (au_head st)) (\<lambda>c. bindE (c_body c) (\<lambda>b. int_at b 3)))"

definition genesis_at :: "authority \<Rightarrow> int \<Rightarrow> pyval res" where
  "genesis_at st k = bindE (decode (au_genesis_body st) MAX_BYTES MAX_NODES) (\<lambda>g. item_at g k)"

definition authority_public :: "authority \<Rightarrow> pyval res" where
  "authority_public st = (if au_nodes st = [] then genesis_at st 2
     else bindE (node_at st (au_head st)) (\<lambda>c. Inr (PBytes (c_after c))))"

definition membership_of :: "authority \<Rightarrow> control \<Rightarrow> membership res" where
  "membership_of st c = bindE (c_body c) (\<lambda>b. bindE (bytes_at b 6) (\<lambda>root.
     case map_of (au_memberships st) root of None \<Rightarrow> Inl KeyError | Some m \<Rightarrow> Inr m))"

definition au_membership :: "authority \<Rightarrow> membership res" where
  "au_membership st =
     bindE (need (au_head st \<in> set (au_resolved st)) (AuthError ''MEMBERSHIP_REQUIRED'')) (\<lambda>_.
     bindE (node_at st (au_head st)) (membership_of st))"

definition epoch_anchor :: "authority \<Rightarrow> control res" where
  "epoch_anchor st =
     bindE (need (au_nodes st \<noteq> []) (AuthError ''CONTROL_REQUIRED'')) (\<lambda>_.
     bindE (node_at st (au_head st)) (\<lambda>c. node_at st (c_anchor c)))"

definition control_at :: "authority \<Rightarrow> pyval \<Rightarrow> control res" where
  "control_at st hd_id =
     bindE (a_fixed hd_id 32) (\<lambda>_. bindE (as_bytes hd_id) (\<lambda>h.
       case map_of (au_nodes st) h of None \<Rightarrow> auth_fail ''CONTROL_REQUIRED'' | Some c \<Rightarrow> Inr c))"

definition membership_at :: "authority \<Rightarrow> pyval \<Rightarrow> membership res" where
  "membership_at st hd_id =
     bindE (control_at st hd_id) (\<lambda>node. bindE (as_bytes hd_id) (\<lambda>h.
     bindE (need (h \<in> set (au_resolved st)) (AuthError ''MEMBERSHIP_REQUIRED'')) (\<lambda>_.
       membership_of st node)))"

definition blocked :: "authority \<Rightarrow> unit res" where
  "blocked st =
     bindE (need (au_fork st = None) (AuthError ''CONTROL_FORK'')) (\<lambda>_.
       need (\<not> au_invalid st) (AuthError ''CONTROL_INVALID''))"

section \<open>Control entries\<close>

text \<open>The epoch rules: the first entry opens epoch 1 on the genesis roots, action 3 starts the next epoch with fresh
  material, every other action keeps the epoch and its roots.\<close>

definition check_first :: "authority \<Rightarrow> pyval \<Rightarrow> unit res" where
  "check_first st b =
     bindE (item_at b 5) (\<lambda>action. bindE (item_at b 3) (\<lambda>epoch.
     bindE (need (action = PInt 1) (AuthError ''ACTION_INVALID'')) (\<lambda>_.
     bindE (need (epoch = PInt 1) (AuthError ''EPOCH_SEQUENCE'')) (\<lambda>_.
     bindE (items_at b [6, 7]) (\<lambda>roots.
     bindE (genesis_at st 4) (\<lambda>g4. bindE (genesis_at st 5) (\<lambda>g5.
       need (roots = [g4, g5]) (AuthError ''GENESIS_ROOT''))))))))"

definition history :: "authority \<Rightarrow> int \<Rightarrow> pyval list res" where
  "history st seq = mapE (\<lambda>i. case map_of (au_sequences st) i of
       None \<Rightarrow> Inl KeyError
     | Some h \<Rightarrow> bindE (node_at st h) c_body) [1..seq - 1]"

definition reuses :: "pyval \<Rightarrow> pyval \<Rightarrow> bool res" where
  "reuses b p = bindE (items_at b [8, 9, 10]) (\<lambda>xs. bindE (items_at p [8, 9, 10]) (\<lambda>ys.
     Inr (list_ex (\<lambda>(x, y). x = y) (zip xs ys))))"

definition check_next :: "authority \<Rightarrow> int \<Rightarrow> pyval \<Rightarrow> pyval \<Rightarrow> unit res" where
  "check_next st seq old b =
     bindE (item_at b 5) (\<lambda>action. bindE (int_at b 3) (\<lambda>epoch.
     bindE (need (action \<noteq> PInt 1) (AuthError ''ACTION_INVALID'')) (\<lambda>_.
     bindE (int_at old 3) (\<lambda>previous.
     bindE (need (epoch = previous + (if action = PInt 3 then 1 else 0)) (AuthError ''EPOCH_SEQUENCE'')) (\<lambda>_.
     if action = PInt 3 then
       bindE (history st seq) (\<lambda>ps.
       bindE (mapE (reuses b) ps) (\<lambda>hits.
         need (\<not> list_ex id hits) (AuthError ''EPOCH_MATERIAL_REUSED'')))
     else
       let keys = [8, 9, 10, 13] @ (if action \<in> {PInt 4, PInt 5} then [6, 7] else []) in
       bindE (items_at b keys) (\<lambda>xs. bindE (items_at old keys) (\<lambda>ys.
         need (xs = ys) (AuthError ''ROOT_CHANGED''))))))))"

definition has_key :: "pyval \<Rightarrow> int \<Rightarrow> bool" where
  "has_key v k = (case v of PDict kvs \<Rightarrow> dict_get kvs k \<noteq> None | _ \<Rightarrow> False)"

text \<open>The key in force after the entry: action 4 rotates to a new key that proves possession.\<close>

definition key_after :: "sodium \<Rightarrow> pyval \<Rightarrow> pyval \<Rightarrow> pyval \<Rightarrow> bytes \<Rightarrow> bytes res" where
  "key_after n o' o0 b pk =
     bindE (item_at b 5) (\<lambda>action. bindE (item_at b 12) (\<lambda>next.
     if action = PInt 4 then
       bindE (need (next \<noteq> PNone \<and> next \<noteq> PBytes pk \<and> has_key o' 2) (AuthError ''ROTATION_PROOF'')) (\<lambda>_.
       bindE (c_domain (cps ''authority-possession'') [o0]) (\<lambda>msg.
       bindE (as_bytes next) (\<lambda>nb. bindE (bytes_at o' 2) (\<lambda>sig.
       bindE (crypto (p_verify n nb msg sig)) (\<lambda>_. Inr nb)))))
     else
       bindE (need (next = PNone \<and> \<not> has_key o' 2) (AuthError ''ROTATION_PROOF'')) (\<lambda>_. Inr pk)))"

definition inspect :: "sodium \<Rightarrow> authority \<Rightarrow> pyval \<Rightarrow> control res" where
  "inspect n st raw =
     bindE (a_parse ''control-entry'' raw 66000) (\<lambda>o'.
     bindE (item_at o' 0) (\<lambda>o0.
     bindE (a_parse ''control-body'' o0 66000) (\<lambda>b.
     bindE (items_at b [0, 1]) (\<lambda>ctx.
     bindE (need (ctx = [au_app st, PBytes (au_space st)]) (AuthError ''CONTEXT_MISMATCH'')) (\<lambda>_.
     bindE (int_at b 2) (\<lambda>seq.
     bindE (need (\<not> seq < 1) (AuthError ''CONTROL_SEQUENCE'')) (\<lambda>_.
     bindE (need (\<not> seq > int (au_sequence st) + 1) (AuthError ''CONTROL_GAP'')) (\<lambda>_.
     let parent_id = (if seq = 1 then Some (au_space st) else map_of (au_sequences st) (seq - 1)) in
     bindE (item_at b 4) (\<lambda>b4.
     bindE (need (b4 = (case parent_id of None \<Rightarrow> PNone | Some p \<Rightarrow> PBytes p)) (AuthError ''CONTROL_PARENT'')) (\<lambda>_.
     let parent = Option.bind parent_id (map_of (au_nodes st)) in
     bindE (case parent of None \<Rightarrow> Inr PNone | Some c \<Rightarrow> c_body c) (\<lambda>old.
     bindE (case parent of None \<Rightarrow> genesis_at st 2 | Some c \<Rightarrow> Inr (PBytes (c_after c))) (\<lambda>pk.
     bindE (item_at b 11) (\<lambda>b11.
     bindE (need (b11 = pk) (AuthError ''AUTHORITY_MISMATCH'')) (\<lambda>_.
     bindE (c_domain (cps ''control-sign'') [o0]) (\<lambda>msg.
     bindE (as_bytes pk) (\<lambda>pkb. bindE (bytes_at o' 1) (\<lambda>sig.
     bindE (crypto (p_verify n pkb msg sig)) (\<lambda>_.
     bindE (items_at b [8, 9, 10]) (\<lambda>material.
     bindE (need (PNone \<notin> set material) (AuthError ''MISSING_EPOCH_MATERIAL'')) (\<lambda>_.
     bindE (if seq = 1 then check_first st b else check_next st seq old b) (\<lambda>_.
     bindE (key_after n o' o0 b pkb) (\<lambda>after.
     bindE (hashed ''control-id'' [raw]) (\<lambda>cid.
     bindE (item_at b 5) (\<lambda>action.
     bindE (if action \<in> {PInt 1, PInt 3} then Inr cid
            else case parent of None \<Rightarrow> Inl AttributeError | Some c \<Rightarrow> Inr (c_anchor c)) (\<lambda>anchor.
     bindE (as_bytes raw) (\<lambda>rb. bindE (as_bytes o0) (\<lambda>bb.
       Inr \<lparr>c_raw = rb, c_body_bytes = bb, c_id = cid, c_after = after, c_anchor = anchor\<rparr>)))))))))))))))))))))))))))"

text \<open>The body of \<^verbatim>\<open>observe\<close> after its guards; a competing entry at a known position freezes the state.\<close>

definition observe_entry :: "sodium \<Rightarrow> authority \<Rightarrow> pyval \<Rightarrow> authority \<times> string res" where
  "observe_entry n st raw = (case inspect n st raw of
     Inl e \<Rightarrow> (st, Inl e)
   | Inr node \<Rightarrow> (case bindE (c_body node) (\<lambda>b. int_at b 2) of
       Inl e \<Rightarrow> (st, Inl e)
     | Inr seq \<Rightarrow> (case map_of (au_sequences st) seq of
         Some known \<Rightarrow> (case node_at st known of
             Inl e \<Rightarrow> (st, Inl e)
           | Inr c \<Rightarrow> (bump (au_record (EControl (c_raw node)) (length (c_raw node)) (st\<lparr>au_fork := Some (c_raw c, c_raw node)\<rparr>)),
               auth_fail ''CONTROL_FORK''))
       | None \<Rightarrow> (case bindE (au_capacity st (length (c_raw node))) (\<lambda>_.
             bindE (need (au_nodes st = [] \<or> au_head st \<in> set (au_resolved st)) (AuthError ''MEMBERSHIP_REQUIRED'')) (\<lambda>_.
               need (length (au_nodes st) < au_max st) (AuthError ''RESOURCE_BLOCKED''))) of
             Inl e \<Rightarrow> (st, Inl e)
           | Inr _ \<Rightarrow> (bump (au_record (EControl (c_raw node)) (length (c_raw node))
               (st\<lparr>au_nodes := AList.update (c_id node) node (au_nodes st),
                  au_sequences := AList.update seq (c_id node) (au_sequences st), au_head := c_id node\<rparr>)),
               Inr ''OBSERVED'')))))"

definition known_raw :: "authority \<Rightarrow> pyval \<Rightarrow> bool" where
  "known_raw st raw = (case raw of PBytes b \<Rightarrow> list_ex (\<lambda>(_, c). c_raw c = b) (au_nodes st) | _ \<Rightarrow> False)"

definition observe :: "sodium \<Rightarrow> authority \<Rightarrow> nat \<Rightarrow> pyval \<Rightarrow> authority \<times> string res" where
  "observe n st caller raw = (case thread_check st caller of
     Inl e \<Rightarrow> (st, Inl e)
   | Inr _ \<Rightarrow> if known_raw st raw then (st, Inr ''DUPLICATE'')
     else case blocked st of
       Inl e \<Rightarrow> (st, Inl e)
     | Inr _ \<Rightarrow> observe_entry n st raw)"

section \<open>Membership of the head\<close>

definition provide_pages :: "authority \<Rightarrow> pyval \<Rightarrow> authority \<times> string res" where
  "provide_pages st pgs = (case bindE (node_at st (au_head st)) (\<lambda>c. bindE (c_body c) (\<lambda>b.
       bindE (item_at b 6) (\<lambda>root. bindE (verify_membership root pgs) (\<lambda>view. Inr (b, view))))) of
     Inl e \<Rightarrow> (st, Inl e)
   | Inr (b, view) \<Rightarrow>
       if au_head st \<in> set (au_resolved st) then (st, Inr ''DUPLICATE'')
       else let weight = sum_list (map length (ms_pages view)) in
         case au_capacity st weight of
           Inl e \<Rightarrow> (st, Inl e)
         | Inr _ \<Rightarrow>
           let kept = (au_record (EMembers (ms_pages view)) weight st)
                 \<lparr>au_memberships := AList.update (ms_root view) view (au_memberships st)\<rparr> in
           case bindE (item_at b 5) (\<lambda>action.
                if action \<in> {PInt 1, PInt 3} \<and> content_members view = [] then Inr (Some ''NO_CONTENT_RECIPIENT'')
                else if action = PInt 2 then
                  bindE (bindE (item_at b 4) (membership_at kept)) (\<lambda>previous.
                    Inr (if content_members view \<noteq> content_members previous then Some ''CONTENT_MEMBERSHIP_CHANGED'' else None))
                else Inr None) of
             Inl e \<Rightarrow> (kept, Inl e)
           | Inr (Some code) \<Rightarrow> (bump (kept\<lparr>au_invalid := True\<rparr>), auth_fail code)
           | Inr None \<Rightarrow> (bump (kept\<lparr>au_resolved := List.insert (au_head st) (au_resolved st)\<rparr>), Inr ''VERIFIED''))"

definition provide_membership :: "authority \<Rightarrow> nat \<Rightarrow> pyval \<Rightarrow> authority \<times> string res" where
  "provide_membership st caller pgs = (case bindE (thread_check st caller) (\<lambda>_. bindE (blocked st) (\<lambda>_.
       need (au_nodes st \<noteq> []) (AuthError ''CONTROL_REQUIRED''))) of
     Inl e \<Rightarrow> (st, Inl e)
   | Inr _ \<Rightarrow> provide_pages st pgs)"

section \<open>Decisions\<close>

definition hex_digit :: "nat \<Rightarrow> char" where
  "hex_digit d = (if d < 10 then char_of (48 + d) else char_of (87 + d))"

definition hex :: "bytes \<Rightarrow> string" where
  "hex bs = concat (map (\<lambda>b. [hex_digit (unat b div 16), hex_digit (unat b mod 16)]) bs)"

definition epoch_pending :: "authority \<Rightarrow> bool res" where
  "epoch_pending st = (case au_active st of
     None \<Rightarrow> Inr True
   | Some a \<Rightarrow> bindE (epoch_anchor st) (\<lambda>c. Inr (am_anchor a \<noteq> c_id c)))"

definition auth_state :: "authority \<Rightarrow> string res" where
  "auth_state st =
     (if au_fork st \<noteq> None then Inr ''CONTROL_FORK''
      else if au_invalid st then Inr ''CONTROL_INVALID''
      else if au_nodes st = [] then Inr ''CONTROL_REQUIRED''
      else if au_head st \<notin> set (au_resolved st) then Inr ''MEMBERSHIP_PENDING''
      else bindE (epoch_pending st) (\<lambda>p. Inr (if p then ''EPOCH_PENDING'' else ''ACTIVE'')))"

record auth_status =
  as_state :: string
  as_head :: string
  as_sequence :: nat
  as_epoch :: int
  as_active_epoch :: "int option"
  as_authority :: string
  as_revision :: nat

definition status :: "authority \<Rightarrow> nat \<Rightarrow> auth_status res" where
  "status st caller =
     bindE (thread_check st caller) (\<lambda>_.
     bindE (auth_state st) (\<lambda>s.
     bindE (au_epoch st) (\<lambda>e.
     bindE (bindE (authority_public st) as_bytes) (\<lambda>pk.
       Inr \<lparr>as_state = s, as_head = hex (au_head st), as_sequence = au_sequence st, as_epoch = e,
            as_active_epoch = map_option am_epoch (au_active st), as_authority = hex pk, as_revision = au_revision st\<rparr>))))"

definition permit_seal :: "authority \<Rightarrow> bytes \<Rightarrow> int \<Rightarrow> string \<Rightarrow> bytes \<Rightarrow> int \<Rightarrow> nat \<Rightarrow> bytes res" where
  "permit_seal st device role operation hd_id epoch revision =
     bindE (encode (PList [PBytes device, PInt role, PStr (cps operation), PBytes hd_id, PInt epoch, PInt (int revision)])
       MAX_BYTES MAX_NODES) (\<lambda>b. Inr (hmac_sha256 (au_permit_key st) b))"

definition allowed_roles :: "string \<Rightarrow> int list" where
  "allowed_roles operation =
     (if operation = ''read'' then [1, 2] else if operation = ''write'' then [2] else [3])"

definition authorize :: "sodium \<Rightarrow> authority \<Rightarrow> nat \<Rightarrow> pyval \<Rightarrow> string \<Rightarrow> permit res" where
  "authorize n st caller certificate operation =
     bindE (thread_check st caller) (\<lambda>_.
     bindE (blocked st) (\<lambda>_.
     bindE (need (operation \<in> {''read'', ''write'', ''retain''}) (AuthError ''OPERATION_INVALID'')) (\<lambda>_.
     bindE (au_membership st) (\<lambda>view.
     bindE (member_certificate n (au_app st) view certificate) (\<lambda>body.
     bindE (item_at body 3) (\<lambda>key.
     bindE (device_id (au_app st) key) (\<lambda>did. case ms_get view did of
         None \<Rightarrow> Inl AttributeError
       | Some member \<Rightarrow>
           bindE (need (m_role member \<in> set (allowed_roles operation)) (AuthError ''NOT_AUTHORIZED'')) (\<lambda>_.
           bindE (if operation = ''retain'' then Inr False else epoch_pending st) (\<lambda>pending.
           bindE (need (\<not> pending) (AuthError ''EPOCH_PENDING'')) (\<lambda>_.
           bindE (au_epoch st) (\<lambda>epoch.
           bindE (permit_seal st did (m_role member) operation (au_head st) epoch (au_revision st)) (\<lambda>seal.
             Inr \<lparr>pm_device = did, pm_role = m_role member, pm_operation = operation, pm_head = au_head st, pm_epoch = epoch,
                  pm_revision = au_revision st, pm_owner = au_self st, pm_stamp = au_stamp st, pm_seal = seal\<rparr>))))))))))))"

definition validate_permit :: "authority \<Rightarrow> nat \<Rightarrow> permit \<Rightarrow> unit res" where
  "validate_permit st caller p =
     bindE (thread_check st caller) (\<lambda>_.
     bindE (blocked st) (\<lambda>_.
     bindE (au_epoch st) (\<lambda>epoch.
     bindE (need (pm_owner p = au_self st \<and> pm_stamp p = au_stamp st \<and> pm_head p = au_head st \<and> pm_epoch p = epoch
         \<and> pm_revision p = au_revision st) (AuthError ''STALE_DECISION'')) (\<lambda>_.
     case permit_seal st (pm_device p) (pm_role p) (pm_operation p) (pm_head p) (pm_epoch p) (pm_revision p) of
       Inl _ \<Rightarrow> auth_fail ''STALE_DECISION''
     | Inr expected \<Rightarrow> need (expected = pm_seal p) (AuthError ''STALE_DECISION'')))))"

section \<open>Activation of an epoch\<close>

definition keys_are :: "pyval \<Rightarrow> nat \<Rightarrow> unit res" where
  "keys_are v m = need (case v of PDict kvs \<Rightarrow> set (map fst kvs) = set (map (\<lambda>i. PInt (int i)) [0..<m]) | _ \<Rightarrow> False)
     (AuthError ''SCHEMA_INVALID'')"

definition a_uint :: "pyval \<Rightarrow> int \<Rightarrow> unit res" where
  "a_uint v maximum = need (case v of PInt i \<Rightarrow> 0 \<le> i \<and> i \<le> maximum | _ \<Rightarrow> False) (AuthError ''SCHEMA_INVALID'')"

definition seed_item :: "pyval \<Rightarrow> bytes option \<times> bytes list \<times> int \<Rightarrow> (bytes option \<times> bytes list \<times> int) res" where
  "seed_item item = (\<lambda>(previous, blocks, sum).
     bindE (keys_are item 5) (\<lambda>_.
     bindE (bindE (item_at item 0) (\<lambda>v. a_fixed v 32)) (\<lambda>_.
     bindE (bindE (item_at item 1) (\<lambda>v. a_fixed v 32)) (\<lambda>_.
     bindE (bindE (item_at item 2) (\<lambda>v. a_uint v (2 ^ 64 - 1))) (\<lambda>_.
     bindE (bindE (item_at item 3) (\<lambda>v. a_uint v 262144)) (\<lambda>_.
     bindE (bindE (item_at item 4) (\<lambda>v. a_fixed v 32)) (\<lambda>_.
     bindE (bytes_at item 0) (\<lambda>oid. bindE (bytes_at item 1) (\<lambda>bid. bindE (int_at item 3) (\<lambda>weight.
     bindE (need ((case previous of None \<Rightarrow> True | Some p \<Rightarrow> \<not> bytes_le oid p) \<and> bid \<notin> set blocks) (AuthError ''SEED_LAYOUT'')) (\<lambda>_.
       Inr (Some oid, bid # blocks, sum + weight))))))))))))"

definition parse_seed_manifest :: "pyval \<Rightarrow> pyval res" where
  "parse_seed_manifest raw =
     bindE (blob raw 65536 1) (\<lambda>_. bindE (as_bytes raw) (\<lambda>rb.
     bindE (wire_to (AuthError ''SCHEMA_INVALID'') (decode rb 65536 MAX_NODES)) (\<lambda>m.
     bindE (keys_are m 7) (\<lambda>_.
     bindE (item_at m 0) (\<lambda>m0. bindE (item_at m 1) (\<lambda>m1.
     bindE (need (m0 = PInt 1 \<and> (case m1 of PStr _ \<Rightarrow> True | _ \<Rightarrow> False)) (AuthError ''SCHEMA_INVALID'')) (\<lambda>_.
     bindE (bindE (item_at m 2) (\<lambda>v. a_fixed v 32)) (\<lambda>_.
     bindE (bindE (item_at m 3) (\<lambda>v. a_uint v (2 ^ 64 - 1))) (\<lambda>_.
     bindE (bindE (item_at m 4) (\<lambda>v. a_fixed v 16)) (\<lambda>_.
     bindE (item_at m 5) (\<lambda>m5. bindE (item_at m 6) (\<lambda>m6. case (m5, m6) of
         (PList seeds, PList cids) \<Rightarrow>
           bindE (need (length seeds \<le> 256 \<and> length cids \<le> 256) (AuthError ''RESOURCE_BLOCKED'')) (\<lambda>_.
           bindE (foldE seed_item seeds (None, [], 0)) (\<lambda>(_, _, sum).
           bindE (need (sum \<le> 4194304) (AuthError ''RESOURCE_BLOCKED'')) (\<lambda>_.
           bindE (allE (\<lambda>c. a_fixed c 32) cids) (\<lambda>_.
           bindE (mapE as_bytes cids) (\<lambda>cs.
           bindE (need (cs = sort_bytes (\<lambda>x. x) (remdups cs)) (AuthError ''SEED_LAYOUT'')) (\<lambda>_.
             Inr m))))))
       | _ \<Rightarrow> auth_fail ''SCHEMA_INVALID''))))))))))))"

definition open_seed :: "sodium \<Rightarrow> authority \<Rightarrow> pyval \<Rightarrow> bytes \<Rightarrow> (pyval \<times> pyval) list \<Rightarrow> pyval \<Rightarrow> (bytes \<times> bytes) res" where
  "open_seed n st epoch secret supplied e =
     bindE (item_at e 1) (\<lambda>bid.
     bindE (case map_of supplied bid of None \<Rightarrow> Inl KeyError | Some raw \<Rightarrow> Inr raw) (\<lambda>raw.
     bindE (blob raw 270336 1) (\<lambda>_. bindE (as_bytes raw) (\<lambda>rb.
     bindE (block_id rb) (\<lambda>i.
     bindE (need (PBytes i = bid) (AuthError ''SEED_DIGEST'')) (\<lambda>_.
     bindE (items_at e [0, 2, 3, 4]) (\<lambda>es.
     let header = mk_dict [(0, au_app st), (1, PBytes (au_space st)), (2, epoch), (3, es ! 0), (4, PInt 5), (5, PInt 0),
                    (6, es ! 1), (7, es ! 2)] in
     bindE (crypto (open_block n secret header rb)) (\<lambda>plain.
     bindE (need (PBytes (sha256 plain) = es ! 3) (AuthError ''SEED_PLAINTEXT'')) (\<lambda>_.
     bindE (bytes_at e 0) (\<lambda>oid. Inr (oid, plain)))))))))))"

text \<open>The recipient of an epoch: a content member now and when the epoch began, under the same certificate.\<close>

definition activation_member :: "sodium \<Rightarrow> authority \<Rightarrow> pyval \<Rightarrow> (control \<times> pyval \<times> pyval \<times> bytes \<times> bytes) res" where
  "activation_member n st certificate =
     bindE (au_membership st) (\<lambda>current.
     bindE (epoch_anchor st) (\<lambda>anchor.
     bindE (c_body anchor) (\<lambda>a.
     bindE (member_certificate n (au_app st) current certificate) (\<lambda>cert.
     bindE (item_at cert 3) (\<lambda>key.
     bindE (device_id (au_app st) key) (\<lambda>did. case ms_get current did of
         None \<Rightarrow> Inl AttributeError
       | Some now \<Rightarrow>
         bindE (need (m_role now \<in> {1, 2}) (AuthError ''NOT_AUTHORIZED'')) (\<lambda>_.
         bindE (membership_at st (PBytes (c_id anchor))) (\<lambda>historical.
         bindE (case ms_get historical did of
             None \<Rightarrow> auth_fail ''CERTIFICATE_BINDING''
           | Some old \<Rightarrow> need (m_role old \<in> {1, 2} \<and> m_certificate old = m_certificate now) (AuthError ''CERTIFICATE_BINDING'')) (\<lambda>_.
           Inr (anchor, a, cert, did, m_certificate now))))))))))"

definition verify_activation ::
  "sodium \<Rightarrow> authority \<Rightarrow> pyval \<Rightarrow> pyval \<Rightarrow> bytes \<Rightarrow> bytes list \<Rightarrow> pyval \<Rightarrow> pyval \<Rightarrow> active_material res" where
  "verify_activation n st certificate recipient_secret package package_ids manifest seeds =
     bindE (activation_member n st certificate) (\<lambda>(anchor, a, cert, did, cid).
     bindE (a_fixed recipient_secret 32) (\<lambda>_. bindE (as_bytes recipient_secret) (\<lambda>rs.
     bindE (crypto (p_dh_public n rs)) (\<lambda>rp.
     bindE (item_at cert 4) (\<lambda>c4.
     bindE (need (PBytes rp = c4) (AuthError ''CRYPTO_INVALID'')) (\<lambda>_.
     bindE (items_at a [3, 10, 6]) (\<lambda>as.
     let ctx = mk_dict [(0, au_app st), (1, PBytes (au_space st)), (2, as ! 0), (3, as ! 1), (4, PBytes did), (5, PBytes cid),
                 (6, as ! 2)] in
     bindE (bytes_at a 11) (\<lambda>pk. bindE (bytes_at a 8) (\<lambda>root.
     bindE (bindE (crypto (open_package n rs pk ctx package package_ids root)) as_bytes) (\<lambda>secret.
     bindE (blob manifest 65536 1) (\<lambda>_.
     bindE (hashed ''auth-local/seed-root'' [manifest]) (\<lambda>sr.
     bindE (item_at a 9) (\<lambda>a9.
     bindE (need (PBytes sr = a9) (AuthError ''SEED_ROOT'')) (\<lambda>_.
     bindE (parse_seed_manifest manifest) (\<lambda>m.
     bindE (items_at m [1, 2, 3, 4]) (\<lambda>ms.
     bindE (need (ms = [au_app st, PBytes (au_space st), as ! 0, as ! 1]) (AuthError ''CONTEXT_MISMATCH'')) (\<lambda>_.
     case seeds of
       PDict supplied \<Rightarrow>
         bindE (need (length supplied \<le> 256) (AuthError ''SEED_SET'')) (\<lambda>_.
         bindE (bindE (item_at m 5) list_of) (\<lambda>rows.
         bindE (mapE (\<lambda>e. item_at e 1) rows) (\<lambda>bids.
         bindE (need (set (map fst supplied) = set bids) (AuthError ''SEED_SET'')) (\<lambda>_.
         bindE (mapE (open_seed n st (as ! 0) secret supplied) rows) (\<lambda>plains.
         bindE (bindE (item_at m 6) list_of) (\<lambda>cids.
         bindE (as_int (as ! 0)) (\<lambda>epoch.
           Inr \<lparr>am_epoch = epoch, am_anchor = c_id anchor, am_recipient = did, am_secret = secret, am_seeds = plains,
                am_cut = cids\<rparr>)))))))
     | _ \<Rightarrow> auth_fail ''SEED_SET'')))))))))))))))))"

definition activate ::
  "sodium \<Rightarrow> authority \<Rightarrow> nat \<Rightarrow> pyval \<Rightarrow> pyval \<Rightarrow> bytes \<Rightarrow> bytes list \<Rightarrow> pyval \<Rightarrow> pyval \<Rightarrow> authority \<times> (int \<times> nat) res" where
  "activate n st caller certificate recipient_secret package package_ids manifest seeds =
     (case bindE (thread_check st caller) (\<lambda>_. bindE (blocked st) (\<lambda>_.
        bindE (verify_activation n st certificate recipient_secret package package_ids manifest seeds) (\<lambda>candidate.
        bindE (hashed ''auth-local/epoch-key-check'' [PBytes (am_secret candidate)]) (\<lambda>check.
        bindE (need (map_of (au_key_checks st) (am_epoch candidate) \<in> {None, Some check}) (AuthError ''EPOCH_SECRET_CONFLICT'')) (\<lambda>_.
        bindE (need (\<not> list_ex (\<lambda>(epoch, other). epoch \<noteq> am_epoch candidate \<and> other = check) (au_key_checks st))
          (AuthError ''EPOCH_SECRET_REUSED'')) (\<lambda>_.
          Inr (candidate, check))))))) of
      Inl e \<Rightarrow> (st, Inl e)
    | Inr (candidate, check) \<Rightarrow>
        (bump (st\<lparr>au_key_checks := AList.update (am_epoch candidate) check (au_key_checks st), au_active := Some candidate\<rparr>),
         Inr (am_epoch candidate, length (am_seeds candidate))))"

end
