(* ===== verification/AuthFlows.thy ===== *)
theory AuthFlows
  imports Authority
begin

text \<open>
  The flows over an authority state: the receive preflight (\<^verbatim>\<open>par_auth/receiver.py\<close>), join requests and retrieval admissions
  (\<^verbatim>\<open>admission.py\<close>), and the export and replay of the public signed history (\<^verbatim>\<open>replay.py\<close>).
\<close>

section \<open>Receive preflight\<close>

record received =
  rc_envelope :: bytes
  rc_device :: bytes
  rc_object :: pyval
  rc_epoch :: int
  rc_payload :: bytes
  rc_permit :: permit

definition receive_change ::
  "sodium \<Rightarrow> authority \<Rightarrow> nat \<Rightarrow> pyval \<Rightarrow> pyval \<Rightarrow> pyval \<Rightarrow> pyval \<Rightarrow> received res" where
  "receive_change n st caller raw certificate expected_object expected_schema =
     bindE (thread_check st caller) (\<lambda>_. bindE (blocked st) (\<lambda>_.
     bindE (a_fixed expected_object 32) (\<lambda>_. bindE (a_fixed expected_schema 32) (\<lambda>_.
     bindE (au_membership st) (\<lambda>_.
     bindE (a_parse ''change-envelope'' raw 786432) (\<lambda>o'.
     bindE (item_at o' 0) (\<lambda>o0.
     bindE (a_parse ''change-header'' o0 16384) (\<lambda>h.
     bindE (crypto (change_header h)) (\<lambda>_.
     bindE (items_at h [0, 1, 3, 9]) (\<lambda>ctx.
     bindE (need (ctx = [au_app st, PBytes (au_space st), expected_object, expected_schema]) (AuthError ''CONTEXT_MISMATCH'')) (\<lambda>_.
     bindE (item_at h 13) (\<lambda>h13.
     bindE (control_at st h13) (\<lambda>at.
     bindE (membership_at st (PBytes (c_id at))) (\<lambda>historical.
     bindE (member_certificate n (au_app st) historical certificate) (\<lambda>cert.
     bindE (item_at cert 3) (\<lambda>key.
     bindE (device_id (au_app st) key) (\<lambda>did.
     bindE (item_at h 5) (\<lambda>h5.
     bindE (need (PBytes did = h5) (AuthError ''CERTIFICATE_BINDING'')) (\<lambda>_.
     bindE (case ms_get historical did of
         None \<Rightarrow> Inl AttributeError
       | Some m \<Rightarrow> need (m_role m = 2) (AuthError ''NOT_AUTHORIZED'')) (\<lambda>_.
     bindE (item_at h 2) (\<lambda>h2.
     bindE (bindE (c_body at) (\<lambda>b. item_at b 3)) (\<lambda>e.
     bindE (need (h2 = e) (AuthError ''CONTEXT_MISMATCH'')) (\<lambda>_.
     bindE (items_at o' [0, 1, 2]) (\<lambda>parts.
     bindE (c_domain (cps ''envelope-sign'') parts) (\<lambda>msg.
     bindE (as_bytes key) (\<lambda>pk. bindE (bytes_at o' 3) (\<lambda>sig.
     bindE (crypto (p_verify n pk msg sig)) (\<lambda>_.
     bindE (as_int h2) (\<lambda>epoch. bindE (au_epoch st) (\<lambda>current.
     bindE (need (\<not> epoch < current) (AuthError ''REBASE_REQUIRED'')) (\<lambda>_.
     bindE (need (epoch = current) (AuthError ''CONTROL_REQUIRED'')) (\<lambda>_.
     bindE (authorize n st caller certificate ''write'') (\<lambda>permit.
     bindE (case au_active st of None \<Rightarrow> Inl AttributeError | Some a \<Rightarrow> Inr (am_secret a)) (\<lambda>secret.
     bindE (as_bytes raw) (\<lambda>rb.
     bindE (crypto (open_change n secret pk h rb)) (\<lambda>plain.
     bindE (validate_permit st caller permit) (\<lambda>_.
     bindE (envelope_id rb) (\<lambda>eid.
       Inr \<lparr>rc_envelope = eid, rc_device = did, rc_object = expected_object, rc_epoch = epoch, rc_payload = plain,
            rc_permit = permit\<rparr>))))))))))))))))))))))))))))))))))))))"

definition recheck :: "received \<Rightarrow> authority \<Rightarrow> nat \<Rightarrow> unit res" where
  "recheck r st caller = validate_permit st caller (rc_permit r)"

section \<open>Join requests and admissions\<close>

record verified_join =
  vj_app :: pyval
  vj_space :: pyval
  vj_device :: bytes
  vj_certificate :: bytes
  vj_nonce :: pyval
  vj_role :: pyval
  vj_raw :: bytes

record retrieval =
  ra_device :: pyval
  ra_minimum :: int
  ra_role :: pyval

definition self_certificate :: "sodium \<Rightarrow> pyval \<Rightarrow> pyval \<Rightarrow> pyval res" where
  "self_certificate n app raw =
     bindE (a_parse ''signed-object'' raw 66000) (\<lambda>outer.
     bindE (item_at outer 0) (\<lambda>o0.
     bindE (a_parse ''certificate-body'' o0 66000) (\<lambda>body.
     bindE (item_at body 1) (\<lambda>b1.
     bindE (need (b1 = app) (AuthError ''JOIN_CONTEXT'')) (\<lambda>_.
     bindE (bytes_at body 2) (\<lambda>account. bindE (as_bytes raw) (\<lambda>rb.
       crypto (verify_certificate n app account rb))))))))"

definition join_body :: "pyval \<Rightarrow> pyval \<Rightarrow> bytes \<Rightarrow> pyval \<Rightarrow> pyval \<Rightarrow> pyval" where
  "join_body app sp cid nonce role = mk_dict [(0, app), (1, sp), (2, PBytes cid), (3, nonce), (4, role)]"

definition create_join :: "sodium \<Rightarrow> bytes \<Rightarrow> pyval \<Rightarrow> pyval \<Rightarrow> pyval \<Rightarrow> pyval \<Rightarrow> pyval \<Rightarrow> bytes res" where
  "create_join n device_seed app sp certificate nonce role =
     bindE (a_app app) (\<lambda>_. bindE (a_fixed sp 32) (\<lambda>_. bindE (a_fixed nonce 32) (\<lambda>_.
     bindE (self_certificate n app certificate) (\<lambda>body.
     bindE (crypto (p_sign_public n device_seed)) (\<lambda>pk.
     bindE (item_at body 3) (\<lambda>b3.
     bindE (need (PBytes pk = b3) (AuthError ''JOIN_CONTEXT'')) (\<lambda>_.
     bindE (as_bytes certificate) (\<lambda>rb.
     bindE (certificate_id rb) (\<lambda>cid.
     bindE (a_schema ''join-request-body'' (join_body app sp cid nonce role)) (\<lambda>request.
       crypto (signed n device_seed ''join-request'' request)))))))))))"

definition verify_join :: "sodium \<Rightarrow> pyval \<Rightarrow> pyval \<Rightarrow> pyval \<Rightarrow> pyval \<Rightarrow> pyval \<Rightarrow> pyval \<Rightarrow> verified_join res" where
  "verify_join n app sp certificate raw expected_nonce expected_role =
     bindE (a_app app) (\<lambda>_. bindE (a_fixed sp 32) (\<lambda>_. bindE (a_fixed expected_nonce 32) (\<lambda>_.
     bindE (self_certificate n app certificate) (\<lambda>cert.
     bindE (a_parse ''signed-object'' raw 66000) (\<lambda>o'.
     bindE (item_at o' 0) (\<lambda>o0.
     bindE (a_parse ''join-request-body'' o0 66000) (\<lambda>b.
     bindE (as_bytes certificate) (\<lambda>cb.
     bindE (certificate_id cb) (\<lambda>cid.
     bindE (a_schema ''join-request-body'' (join_body app sp cid expected_nonce expected_role)) (\<lambda>expected.
     bindE (item_at o' 1) (\<lambda>o1. bindE (item_at cert 3) (\<lambda>key.
     bindE (need (b = expected \<and> o1 = key) (AuthError ''JOIN_CONTEXT'')) (\<lambda>_.
     bindE (c_domain (cps ''join-request'') [o0]) (\<lambda>msg.
     bindE (as_bytes key) (\<lambda>pk. bindE (bytes_at o' 2) (\<lambda>sig.
     bindE (crypto (p_verify n pk msg sig)) (\<lambda>_.
     bindE (device_id app key) (\<lambda>did. bindE (as_bytes raw) (\<lambda>rb.
       Inr \<lparr>vj_app = app, vj_space = sp, vj_device = did, vj_certificate = cid, vj_nonce = expected_nonce,
            vj_role = expected_role, vj_raw = rb\<rparr>)))))))))))))))))))"

definition admission_body :: "verified_join \<Rightarrow> int \<Rightarrow> pyval" where
  "admission_body req minimum = mk_dict [(0, vj_app req), (1, vj_space req), (2, PBytes (vj_device req)),
     (3, PBytes (vj_certificate req)), (4, vj_nonce req), (5, PInt minimum), (6, vj_role req)]"

definition issue_admission ::
  "sodium \<Rightarrow> authority \<Rightarrow> nat \<Rightarrow> bytes \<Rightarrow> pyval \<Rightarrow> pyval \<Rightarrow> pyval \<Rightarrow> pyval \<Rightarrow> int \<Rightarrow> bytes res" where
  "issue_admission n st caller authority_seed certificate request expected_nonce expected_role minimum =
     bindE (thread_check st caller) (\<lambda>_. bindE (blocked st) (\<lambda>_.
     bindE (crypto (p_sign_public n authority_seed)) (\<lambda>pk.
     bindE (authority_public st) (\<lambda>current.
     bindE (need (PBytes pk = current) (AuthError ''AUTHORITY_MISMATCH'')) (\<lambda>_.
     bindE (need (max 1 (int (au_sequence st)) \<le> minimum \<and> minimum < 2 ^ 64) (AuthError ''ADMISSION_SEQUENCE'')) (\<lambda>_.
     bindE (verify_join n (au_app st) (PBytes (au_space st)) certificate request expected_nonce expected_role) (\<lambda>req.
     bindE (a_schema ''admission-body'' (admission_body req minimum)) (\<lambda>body.
       crypto (signed n authority_seed ''admission-sign'' body)))))))))"

definition verify_admission :: "sodium \<Rightarrow> pyval \<Rightarrow> verified_join \<Rightarrow> pyval \<Rightarrow> retrieval res" where
  "verify_admission n trusted_authority request raw =
     bindE (a_fixed trusted_authority 32) (\<lambda>_.
     bindE (a_parse ''signed-object'' raw 66000) (\<lambda>o'.
     bindE (item_at o' 0) (\<lambda>o0.
     bindE (a_parse ''admission-body'' o0 66000) (\<lambda>b.
     bindE (item_at o' 1) (\<lambda>o1.
     bindE (need (o1 = trusted_authority) (AuthError ''AUTHORITY_MISMATCH'')) (\<lambda>_.
     bindE (c_domain (cps ''admission-sign'') [o0]) (\<lambda>msg.
     bindE (as_bytes trusted_authority) (\<lambda>pk. bindE (bytes_at o' 2) (\<lambda>sig.
     bindE (crypto (p_verify n pk msg sig)) (\<lambda>_.
     bindE (items_at b [0, 1, 2, 3, 4, 6]) (\<lambda>bs.
     bindE (need (bs = [vj_app request, vj_space request, PBytes (vj_device request), PBytes (vj_certificate request),
         vj_nonce request, vj_role request]) (AuthError ''ADMISSION_CONTEXT'')) (\<lambda>_.
     bindE (int_at b 5) (\<lambda>minimum.
     bindE (need (\<not> minimum < 1) (AuthError ''ADMISSION_SEQUENCE'')) (\<lambda>_.
       Inr \<lparr>ra_device = bs ! 2, ra_minimum = minimum, ra_role = bs ! 5\<rparr>))))))))))))))"

section \<open>Export and replay\<close>

definition MAX_EXPORT :: nat where "MAX_EXPORT = 900000"

definition event_value :: "event \<Rightarrow> pyval" where
  "event_value e = (case e of
     EControl raw \<Rightarrow> PList [PInt 1, PBytes raw]
   | EMembers raws \<Rightarrow> PList [PInt 2, PList (map PBytes raws)])"

definition export_public_replay :: "authority \<Rightarrow> nat \<Rightarrow> bytes res" where
  "export_public_replay st caller =
     bindE (thread_check st caller) (\<lambda>_.
       a_canonical (mk_dict [(0, PInt 1), (1, au_app st), (2, PBytes (au_space st)), (3, PBytes (au_genesis st)),
         (4, PList (map event_value (au_events st)))]) MAX_EXPORT)"

definition replay_item :: "sodium \<Rightarrow> authority \<Rightarrow> nat \<Rightarrow> int \<Rightarrow> pyval \<Rightarrow> authority \<times> string res" where
  "replay_item n st caller code v = (if code = 1 then observe n st caller v else provide_membership st caller v)"

definition terminal_codes :: "string list" where
  "terminal_codes = [''CONTROL_FORK'', ''CONTENT_MEMBERSHIP_CHANGED'', ''NO_CONTENT_RECIPIENT'']"

primrec replay_items :: "sodium \<Rightarrow> nat \<Rightarrow> authority \<Rightarrow> pyval list \<Rightarrow> authority res" where
  "replay_items n caller st [] = Inr st"
| "replay_items n caller st (item # rest) = (case item of
     PList [PInt code, v] \<Rightarrow>
       if code \<in> {1, 2} then
         (case replay_item n st caller code v of
            (st', Inr _) \<Rightarrow> replay_items n caller st' rest
          | (st', Inl (AuthError c)) \<Rightarrow> if c \<in> set terminal_codes \<and> rest = [] then Inr st' else auth_fail c
          | (_, Inl e) \<Rightarrow> Inl e)
       else auth_fail ''REPLAY_SCHEMA''
   | _ \<Rightarrow> auth_fail ''REPLAY_SCHEMA'')"

definition restore_public_replay ::
  "sodium \<Rightarrow> random_source \<Rightarrow> nat \<Rightarrow> nat \<Rightarrow> pyval \<Rightarrow> pyval \<Rightarrow> pyval \<Rightarrow> pyval \<Rightarrow> pyval \<Rightarrow> int \<Rightarrow> authority res" where
  "restore_public_replay n source self caller expected_app expected_space expected_head expected_digest raw minimum =
     bindE (a_fixed expected_head 32) (\<lambda>_. bindE (a_fixed expected_digest 32) (\<lambda>_. bindE (blob raw MAX_EXPORT 1) (\<lambda>_.
     bindE (need (0 \<le> minimum \<and> minimum < 2 ^ 64) (AuthError ''REPLAY_SCHEMA'')) (\<lambda>_.
     bindE (hashed ''auth-local/replay'' [raw]) (\<lambda>d.
     bindE (need (PBytes d = expected_digest) (AuthError ''REPLAY_DIGEST'')) (\<lambda>_.
     bindE (as_bytes raw) (\<lambda>rb.
     bindE (wire_to (AuthError ''REPLAY_SCHEMA'') (decode rb (int MAX_EXPORT) MAX_NODES)) (\<lambda>v.
     bindE (case v of PDict kvs \<Rightarrow> need (set (map fst kvs) = set (map PInt [0, 1, 2, 3, 4])) (AuthError ''REPLAY_SCHEMA'')
            | _ \<Rightarrow> auth_fail ''REPLAY_SCHEMA'') (\<lambda>_.
     bindE (item_at v 0) (\<lambda>v0.
     bindE (need (v0 = PInt 1) (AuthError ''REPLAY_SCHEMA'')) (\<lambda>_.
     bindE (items_at v [1, 2]) (\<lambda>ctx.
     bindE (need (ctx = [expected_app, expected_space]) (AuthError ''TRUST_ANCHOR'')) (\<lambda>_.
     bindE (item_at v 4) (\<lambda>v4. case v4 of
         PList items' \<Rightarrow>
           bindE (need (length items' \<le> 2049) (AuthError ''RESOURCE_BLOCKED'')) (\<lambda>_.
           bindE (item_at v 3) (\<lambda>genesis.
           bindE (new_authority n source self caller expected_app expected_space genesis 1024) (\<lambda>st.
           bindE (replay_items n caller st items') (\<lambda>result.
           bindE (need (PBytes (au_head result) = expected_head \<and> minimum \<le> int (au_sequence result)) (AuthError ''REPLAY_STALE'')) (\<lambda>_.
             Inr result)))))
       | _ \<Rightarrow> auth_fail ''RESOURCE_BLOCKED''))))))))))))))"

end
