(* ===== verification/AuthSamples.thy ===== *)
theory AuthSamples
  imports AuthFlows
begin

text \<open>
  Concrete authority states over the model of the native library, at which the theorems about the chain are applied: a signed
  genesis, the first control entry under it, and a state with one member who may retain.
\<close>

section \<open>Parsing of encoded values\<close>

lemma a_schema_iff: "plain_rule rule \<Longrightarrow> a_schema rule v = Inr w \<longleftrightarrow> w = v \<and> conforms default_rules (NRef rule) v"
  by (auto simp: a_schema_def res_simps plain_rule_validate)

lemma a_parse_iff:
  assumes "plain_rule rule"
  shows "a_parse rule (PBytes raw) limit = Inr v \<longleftrightarrow>
    length raw \<le> limit \<and> decode raw (int limit) MAX_NODES = Inr v \<and> conforms default_rules (NRef rule) v"
  using decode_iff [of raw "int limit" MAX_NODES v] length_cbor_pos [of v] assms
  by (auto simp: a_parse_def blob_def res_simps a_schema_iff wire_to_def split: sum.splits exn.splits)

text \<open>A value that fits: its encoding and the parse of its encoding.\<close>

definition small :: "pyval \<Rightarrow> bool" where
  "small v \<longleftrightarrow> wf_py v \<and> canon v = v \<and> encodable v \<and> cheight v \<le> 20 \<and> cnodes v \<le> 100 \<and> length (cbor v) \<le> 2000"

lemma small_encode: "small v \<Longrightarrow> encode v MAX_BYTES MAX_NODES = Inr (cbor v)"
  by (simp add: small_def encode_iff budget_ok_def MAX_BYTES_def MAX_NODES_def MAX_DEPTH_def)

lemma small_canonical: "small v \<Longrightarrow> canonical v"
  using canonical_canon_enc [of v] by (simp add: small_def)

lemma small_parse:
  assumes "small v" "plain_rule rule" "conforms default_rules (NRef rule) v"
  shows "a_parse rule (PBytes (cbor v)) 66000 = Inr v" and "decode (cbor v) MAX_BYTES MAX_NODES = Inr v"
  using assms small_canonical [OF assms(1)] length_cbor_pos [OF small_canonical [OF assms(1)]]
  by (simp_all add: a_parse_iff decode_iff budget_ok_def small_def MAX_BYTES_def MAX_NODES_def MAX_DEPTH_def)

lemma small_domain:
  assumes "label_pattern (cps l)" "length l \<le> 64" "list_all (\<lambda>c. c < 128) (cps l)" "length b \<le> 70000"
  shows "\<exists>d. c_domain (cps l) [PBytes b] = Inr d \<and> length d \<le> 100000"
  using c_domain_sample [OF assms(1-3), of "[PBytes b]"] assms(4) nhead_bound [of 2 "length b"] by simp

lemma test_verify: "length m \<le> 100000 \<Longrightarrow> p_verify test_sodium (replicate 32 7) m (replicate 32 7 @ replicate 32 0) = Inr ()"
proof -
  have "from_bytes_little (replicate 32 0) = 0" by (simp add: from_bytes_little_def from_bytes_def numeral_eq_Suc)
  then show "length m \<le> 100000 \<Longrightarrow> ?thesis"
    by (simp add: p_verify_def fixed_def bounded_def MAX_INPUT_def test_sodium_def group_order_def)
qed

section \<open>Genesis and first entry\<close>

definition sample_genesis :: pyval where
  "sample_genesis = mk_dict [(0, PInt 1), (1, PStr (cps ''a.b'')), (2, PBytes (replicate 32 7)), (3, PBytes (replicate 32 1)),
     (4, PBytes (replicate 32 2)), (5, PBytes (replicate 32 3))]"

definition sample_sig :: bytes where "sample_sig = replicate 32 7 @ replicate 32 0"

definition sample_genesis_object :: pyval where
  "sample_genesis_object = mk_dict [(0, PBytes (cbor sample_genesis)), (1, PBytes (replicate 32 7)), (2, PBytes sample_sig)]"

definition sample_space :: bytes where
  "sample_space = (case hashed ''space-id'' [PBytes (cbor sample_genesis)] of Inl e \<Rightarrow> [] | Inr d \<Rightarrow> d)"

definition sample_control :: pyval where
  "sample_control = mk_dict [(0, PStr (cps ''a.b'')), (1, PBytes sample_space), (2, PInt 1), (3, PInt 1), (4, PBytes sample_space),
     (5, PInt 1), (6, PBytes (replicate 32 2)), (7, PBytes (replicate 32 3)), (8, PBytes (replicate 32 4)),
     (9, PBytes (replicate 32 5)), (10, PBytes (replicate 16 6)), (11, PBytes (replicate 32 7)), (12, PNone),
     (13, PBytes (replicate 32 8))]"

definition sample_entry :: pyval where
  "sample_entry = mk_dict [(0, PBytes (cbor sample_control)), (1, PBytes sample_sig)]"

lemma length_sample_sig [simp]: "length sample_sig = 64"
  by (simp add: sample_sig_def)

lemma small_genesis: "small sample_genesis"
  by (simp add: small_def sample_genesis_def mk_dict_def U64_def) (simp add: nhead_def cps_def utf8_cp_def)

lemma length_genesis: "length (cbor sample_genesis) < 400"
  by (simp add: sample_genesis_def mk_dict_def) (simp add: nhead_def cps_def utf8_cp_def)

lemma genesis_pos: "1 \<le> length (cbor sample_genesis)"
  by (rule length_cbor_pos [OF small_canonical [OF small_genesis]])

lemma small_genesis_object: "small sample_genesis_object"
  using length_genesis nhead_bound [of 2 "length (cbor sample_genesis)"]
  by (simp add: small_def sample_genesis_object_def mk_dict_def U64_def) (simp add: nhead_def [of _ 32] nhead_def [of _ 64] nhead_def [of 0] nhead_def [of 5])

lemma conforms_genesis: "conforms default_rules (NRef ''genesis-body'') sample_genesis"
  by (subst conforms_rule [OF _ rule_genesis_body])
    (auto simp: primitive_def sample_genesis_def mk_dict_def conforms_map map_shape_def key_field_def field_of_def is_int_def
      dict_get_def conforms_types U64_def cps_def utf8_cp_def split: if_splits)

lemma conforms_genesis_object: "conforms default_rules (NRef ''signed-object'') sample_genesis_object"
  using signed_object_conforms [OF genesis_pos] length_genesis by (simp add: sample_genesis_object_def)

lemma sample_space_ok: "hashed ''space-id'' [PBytes (cbor sample_genesis)] = Inr sample_space" "length sample_space = 32"
proof -
  obtain d where "c_domain (cps ''space-id'') [PBytes (cbor sample_genesis)] = Inr d"
    using small_domain [of "''space-id''" "cbor sample_genesis"] length_genesis
    by (auto simp: label_pattern_def lower_digit_def cps_def)
  then show "hashed ''space-id'' [PBytes (cbor sample_genesis)] = Inr sample_space" "length sample_space = 32"
    by (simp_all add: hashed_def sample_space_def)
qed

lemma small_control: "small sample_control"
  using sample_space_ok(2)
  by (simp add: small_def sample_control_def mk_dict_def U64_def) (simp add: nhead_def cps_def utf8_cp_def)

lemma length_control: "length (cbor sample_control) < 600"
  using sample_space_ok(2) by (simp add: sample_control_def mk_dict_def) (simp add: nhead_def cps_def utf8_cp_def)

lemma conforms_control: "conforms default_rules (NRef ''control-body'') sample_control"
  using sample_space_ok(2)
  by (subst conforms_rule [OF _ rule_control_body])
    (auto simp: primitive_def sample_control_def mk_dict_def conforms_map map_shape_def key_field_def field_of_def is_int_def
      dict_get_def conforms_types conforms_union_ex U64_def cps_def utf8_cp_def split: if_splits)

lemma small_entry: "small sample_entry"
  using length_control nhead_bound [of 2 "length (cbor sample_control)"]
  by (simp add: small_def sample_entry_def mk_dict_def U64_def) (simp add: nhead_def [of _ 64] nhead_def [of 0] nhead_def [of 5])

lemma conforms_entry: "conforms default_rules (NRef ''control-entry'') sample_entry"
  using length_control length_cbor_pos [OF small_canonical [OF small_control]]
  by (subst conforms_rule [OF _ rule_control_entry])
    (auto simp: primitive_def sample_entry_def mk_dict_def conforms_map map_shape_def key_field_def field_of_def is_int_def
      dict_get_def conforms_types split: if_splits)

definition sample_authority :: authority where
  "sample_authority = \<lparr>au_self = 1, au_app = PStr (cps ''a.b''), au_space = sample_space, au_genesis = cbor sample_genesis_object,
     au_genesis_body = cbor sample_genesis, au_thread = 5, au_max = 4, au_busy = False, au_nodes = [], au_sequences = [],
     au_memberships = [], au_resolved = [], au_head = sample_space, au_revision = 0, au_stamp = 0, au_events = [],
     au_event_bytes = length (cbor sample_genesis_object), au_fork = None, au_invalid = False, au_active = None,
     au_key_checks = [], au_permit_key = replicate 32 9\<rparr>"

lemma sample_app: "check_app_id (PStr (cps ''a.b'')) = Inr ()"
  by (simp add: check_app_id_def lower_app_ok_def cps_def lower_label_def lower_digit_def)

lemma sample_authority_ok: "new_authority test_sodium (\<lambda>k. Some (replicate k 9)) 1 5 (PStr (cps ''a.b'')) (PBytes sample_space)
    (PBytes (cbor sample_genesis_object)) 4 = Inr sample_authority"
proof -
  obtain msg where msg: "c_domain (cps ''genesis-sign'') [PBytes (cbor sample_genesis)] = Inr msg" "length msg \<le> 100000"
    using small_domain [of "''genesis-sign''" "cbor sample_genesis"] length_genesis
    by (auto simp: label_pattern_def lower_digit_def cps_def)
  have o: "item_at sample_genesis_object 0 = Inr (PBytes (cbor sample_genesis))"
      "item_at sample_genesis_object 1 = Inr (PBytes (replicate 32 7))" "item_at sample_genesis_object 2 = Inr (PBytes sample_sig)"
    by (simp_all add: sample_genesis_object_def)
  have g: "item_at sample_genesis 1 = Inr (PStr (cps ''a.b''))" "item_at sample_genesis 2 = Inr (PBytes (replicate 32 7))"
    by (simp_all add: sample_genesis_def)
  have rnd: "random_bytes 32 (\<lambda>k. Some (replicate k 9)) = Inr (replicate 32 9)" by (simp add: random_bytes_def)
  show ?thesis
    using small_parse(1) [OF small_genesis_object plain_rules(5) conforms_genesis_object]
      small_parse(1) [OF small_genesis plain_rules(11) conforms_genesis] sample_space_ok sample_app
      test_verify [OF msg(2)] msg(1) o g rnd
    by (simp add: new_authority_def a_app_def crypto_to_def crypto_def a_fixed_def sample_sig_def sample_authority_def)
qed

lemma sample_observe: "\<exists>st'. observe test_sodium sample_authority 5 (PBytes (cbor sample_entry)) = (st', Inr ''OBSERVED'')"
proof -
  obtain msg where msg: "c_domain (cps ''control-sign'') [PBytes (cbor sample_control)] = Inr msg" "length msg \<le> 100000"
    using small_domain [of "''control-sign''" "cbor sample_control"] length_control
    by (auto simp: label_pattern_def lower_digit_def cps_def)
  have len: "length (cbor sample_entry) \<le> 2000" "length (cbor sample_genesis_object) \<le> 2000"
    using small_entry small_genesis_object by (simp_all add: small_def)
  obtain cid where cid: "hashed ''control-id'' [PBytes (cbor sample_entry)] = Inr cid"
    using small_domain [of "''control-id''" "cbor sample_entry"] len
    by (auto simp: label_pattern_def lower_digit_def cps_def hashed_def)
  have e: "item_at sample_entry 0 = Inr (PBytes (cbor sample_control))" "item_at sample_entry 1 = Inr (PBytes sample_sig)"
      "\<not> has_key sample_entry 2"
    by (simp_all add: sample_entry_def has_key_def mk_dict_def dict_get_def item_at_def)
  have b: "items_at sample_control [0, 1] = Inr [PStr (cps ''a.b''), PBytes sample_space]" "item_at sample_control 2 = Inr (PInt 1)"
      "item_at sample_control 3 = Inr (PInt 1)" "item_at sample_control 4 = Inr (PBytes sample_space)" "item_at sample_control 5 = Inr (PInt 1)"
      "items_at sample_control [6, 7] = Inr [PBytes (replicate 32 2), PBytes (replicate 32 3)]"
      "items_at sample_control [8, 9, 10] = Inr [PBytes (replicate 32 4), PBytes (replicate 32 5), PBytes (replicate 16 6)]"
      "item_at sample_control 11 = Inr (PBytes (replicate 32 7))" "item_at sample_control 12 = Inr PNone"
    by (simp_all add: sample_control_def items_at_def)
  have g: "genesis_at sample_authority 2 = Inr (PBytes (replicate 32 7))" "genesis_at sample_authority 4 = Inr (PBytes (replicate 32 2))"
      "genesis_at sample_authority 5 = Inr (PBytes (replicate 32 3))"
    using small_parse(2) [OF small_genesis plain_rules(11) conforms_genesis]
    by (simp_all add: genesis_at_def sample_authority_def sample_genesis_def)
  have first: "check_first sample_authority sample_control = Inr ()" using b g by (simp add: check_first_def)
  have after: "key_after test_sodium sample_entry (PBytes (cbor sample_control)) sample_control (replicate 32 7) = Inr (replicate 32 7)"
    using b e by (simp add: key_after_def)
  let ?node = "\<lparr>c_raw = cbor sample_entry, c_body_bytes = cbor sample_control, c_id = cid, c_after = replicate 32 7, c_anchor = cid\<rparr>"
  have st: "au_app sample_authority = PStr (cps ''a.b'')" "au_space sample_authority = sample_space" "au_sequence sample_authority = 0"
      "au_sequences sample_authority = []" "au_nodes sample_authority = []"
    by (simp_all add: sample_authority_def au_sequence_def)
  have "inspect test_sodium sample_authority (PBytes (cbor sample_entry)) = Inr ?node"
    using small_parse(1) [OF small_entry plain_rules(13) conforms_entry]
      small_parse(1) [OF small_control plain_rules(12) conforms_control] b e g(1) first after cid msg(1) test_verify [OF msg(2)]
    by (simp add: inspect_def st crypto_def crypto_to_def sample_sig_def)
  moreover have "c_body ?node = Inr sample_control"
    using small_parse(2) [OF small_control plain_rules(12) conforms_control] by (simp add: c_body_def)
  moreover have "au_event_bytes sample_authority + length (cbor sample_entry) \<le> MAX_HISTORY_BYTES"
    using len by (simp add: sample_authority_def MAX_HISTORY_BYTES_def)
  moreover have "thread_check sample_authority 5 = Inr ()" "blocked sample_authority = Inr ()" "au_max sample_authority = 4"
    by (simp_all add: sample_authority_def thread_check_def blocked_def)
  ultimately show ?thesis using b(2)
    by (simp add: observe_def known_raw_def st observe_entry_def au_capacity_def)
qed

section \<open>A state with one retaining member\<close>

text \<open>The certificate of the sample account, the member it makes and a resolved head that commits to it.\<close>

lemma certificate_length:
  assumes "create_certificate test_sodium (replicate 32 7) (PStr (cps ''a.b'')) (PBytes (replicate 32 1)) (PBytes (replicate 32 2))
      (PBytes (replicate 16 3)) = Inr raw"
  shows "1 \<le> length raw \<and> length raw \<le> 65536"
proof -
  obtain b where b: "encode sample_certificate MAX_BYTES MAX_NODES = Inr b" "1 \<le> length b" "length b < 1000"
    using sample_certificate_encode by blast
  have "signed test_sodium (replicate 32 7) ''certificate-sign'' sample_certificate = Inr raw"
    using assms sample_sign by (auto simp: create_certificate_def res_simps sample_certificate_def Let_def)
  then obtain sig where "encode (mk_dict [(0, PBytes b), (1, PBytes (replicate 32 7)), (2, PBytes sig)]) MAX_BYTES MAX_NODES = Inr raw"
      and "length sig = 64"
    using b(1) sample_sign p_sign_ok [OF test_sodium_ok sample_sign] by (auto simp: signed_def res_simps)
  then have "raw = cbor (mk_dict [(0, PBytes b), (1, PBytes (replicate 32 7)), (2, PBytes sig)])"
    by (simp add: encode_iff mk_dict_def)
  then show ?thesis using b(3) \<open>length sig = 64\<close> nhead_bound [of 2 "length b"]
    by (simp add: mk_dict_def nhead_def [of _ 32] nhead_def [of _ 64] nhead_def [of 0] nhead_def [of 5])
qed

lemma sample_certificate_parse:
  assumes "create_certificate test_sodium (replicate 32 7) (PStr (cps ''a.b'')) (PBytes (replicate 32 1)) (PBytes (replicate 32 2))
      (PBytes (replicate 16 3)) = Inr raw"
  shows "verify_certificate test_sodium (PStr (cps ''a.b'')) (replicate 32 7) raw = Inr sample_certificate"
    and "\<exists>outer bs. a_parse ''signed-object'' (PBytes raw) 66000 = Inr outer \<and> item_at outer 0 = Inr (PBytes bs)
      \<and> a_parse ''certificate-body'' (PBytes bs) 66000 = Inr sample_certificate"
proof -
  have s: "signed test_sodium (replicate 32 7) ''certificate-sign'' sample_certificate = Inr raw"
    using assms sample_sign by (auto simp: create_certificate_def res_simps sample_certificate_def Let_def)
  have c: "canon sample_certificate = sample_certificate" "wf_py sample_certificate"
    by (simp_all add: sample_certificate_def mk_dict_def)
  have v: "verify_signed test_sodium (replicate 32 7) ''certificate-sign'' ''certificate-body'' raw = Inr sample_certificate"
    using signed_ok [OF test_sodium_ok c(2) plain_rules(6) sample_certificate_conforms sample_sign s] c(1) by simp
  then show "verify_certificate test_sodium (PStr (cps ''a.b'')) (replicate 32 7) raw = Inr sample_certificate"
    using sample_app by (simp add: verify_certificate_def) (simp add: sample_certificate_def)
  obtain outer where o: "obj_parse ''signed-object'' raw 66000 = Inr outer"
    using v by (auto simp: verify_signed_def res_simps)
  obtain bs where bs: "item_at outer 0 = Inr (PBytes bs)" "obj_parse ''certificate-body'' bs 65536 = Inr sample_certificate"
    using v o by (auto simp: verify_signed_def res_simps)
  from bs(2) have len: "length bs \<le> 65536" and dec: "decode bs 65536 MAX_NODES = Inr sample_certificate"
    by (simp_all add: obj_parse_iff plain_rules)
  have "decode bs 66000 MAX_NODES = Inr sample_certificate"
    by (rule decode_limit [OF dec]) (use len in \<open>simp_all add: MAX_BYTES_def\<close>)
  with len have "a_parse ''certificate-body'' (PBytes bs) 66000 = Inr sample_certificate"
    using sample_certificate_conforms by (simp add: a_parse_iff plain_rules)
  moreover have "a_parse ''signed-object'' (PBytes raw) 66000 = Inr outer"
    using o by (simp add: a_parse_iff obj_parse_iff plain_rules)
  ultimately show "\<exists>outer bs. a_parse ''signed-object'' (PBytes raw) 66000 = Inr outer \<and> item_at outer 0 = Inr (PBytes bs)
      \<and> a_parse ''certificate-body'' (PBytes bs) 66000 = Inr sample_certificate" using bs(1) by blast
qed

definition head_body :: pyval where
  "head_body = mk_dict [(3, PInt 1), (6, PBytes (replicate 32 2))]"

definition member_state :: "bytes \<Rightarrow> bytes \<Rightarrow> authority" where
  "member_state did cid = sample_authority\<lparr>au_head := replicate 32 4, au_resolved := [replicate 32 4],
     au_nodes := [(replicate 32 4, \<lparr>c_raw = [], c_body_bytes = cbor head_body, c_id = replicate 32 4, c_after = replicate 32 7,
        c_anchor = replicate 32 4\<rparr>)],
     au_memberships := [(replicate 32 2, \<lparr>ms_root = replicate 32 2, ms_pages = [],
        ms_members = [\<lparr>m_device = did, m_certificate = cid, m_role = 3\<rparr>]\<rparr>)]\<rparr>"

lemma small_head_body: "small head_body"
  by (simp add: small_def head_body_def mk_dict_def U64_def) (simp add: nhead_def)

lemma head_body_decode: "decode (cbor head_body) MAX_BYTES MAX_NODES = Inr head_body"
  using small_head_body small_canonical [OF small_head_body]
  by (simp add: decode_iff budget_ok_def small_def MAX_BYTES_def MAX_NODES_def MAX_DEPTH_def)

lemma sample_permit: "\<exists>did cid raw p. authorize test_sodium (member_state did cid) 5 (PBytes raw) ''retain'' = Inr p"
proof -
  obtain raw where raw: "create_certificate test_sodium (replicate 32 7) (PStr (cps ''a.b'')) (PBytes (replicate 32 1))
      (PBytes (replicate 32 2)) (PBytes (replicate 16 3)) = Inr raw"
    using sample_certificate_ok by blast
  note cert = sample_certificate_parse [OF raw]
  obtain outer bs where o: "a_parse ''signed-object'' (PBytes raw) 66000 = Inr outer" "item_at outer 0 = Inr (PBytes bs)"
      "a_parse ''certificate-body'' (PBytes bs) 66000 = Inr sample_certificate" using cert(2) by blast
  obtain did where did: "device_id (PStr (cps ''a.b'')) (PBytes (replicate 32 1)) = Inr did" "length did = 32"
  proof -
    obtain d where "c_domain (cps ''device-id'') [PStr (cps ''a.b''), PBytes (replicate 32 1)] = Inr d"
      using c_domain_sample [of "''device-id''" "[PStr (cps ''a.b''), PBytes (replicate 32 1)]"]
      by (force simp: label_pattern_def lower_digit_def cps_def nhead_def utf8_cp_def)
    then show thesis using that by (simp add: device_id_def hashed_def)
  qed
  have "\<exists>cid. certificate_id raw = Inr cid"
  proof -
    have "length raw \<le> 65536" "1 \<le> length raw"
      using certificate_length [OF raw] by simp_all
    then show ?thesis using small_domain [of "''certificate-id''" raw]
      by (force simp: certificate_id_def object_id_def bounded_def label_pattern_def lower_digit_def cps_def hashed_def)
  qed
  then obtain cid where cid: "certificate_id raw = Inr cid" by blast
  let ?st = "member_state did cid" and ?ms = "\<lparr>ms_root = replicate 32 2, ms_pages = [],
        ms_members = [\<lparr>m_device = did, m_certificate = cid, m_role = 3\<rparr>]\<rparr>"
  have b: "item_at sample_certificate 1 = Inr (PStr (cps ''a.b''))" "item_at sample_certificate 2 = Inr (PBytes (replicate 32 7))"
      "item_at sample_certificate 3 = Inr (PBytes (replicate 32 1))" by (simp_all add: sample_certificate_def)
  have mc: "member_certificate test_sodium (PStr (cps ''a.b'')) ?ms (PBytes raw) = Inr sample_certificate"
    using o did cid cert(1) b sample_app by (simp add: member_certificate_def ms_get_def crypto_def crypto_to_def a_app_def)
  have st: "thread_check ?st 5 = Inr ()" "blocked ?st = Inr ()" "au_app ?st = PStr (cps ''a.b'')" "au_revision ?st = 0"
      "au_head ?st = replicate 32 4"
    by (simp_all add: member_state_def sample_authority_def thread_check_def blocked_def)
  have mem: "au_membership ?st = Inr ?ms" and ep: "au_epoch ?st = Inr 1"
    using head_body_decode
    by (simp_all add: au_membership_def au_epoch_def member_state_def node_at_def membership_of_def c_body_def head_body_def)
  have "\<exists>seal. permit_seal ?st did 3 ''retain'' (replicate 32 4) 1 0 = Inr seal"
  proof -
    have "small (PList [PBytes did, PInt 3, PStr (cps ''retain''), PBytes (replicate 32 4), PInt 1, PInt 0])"
      using did(2) by (simp add: small_def U64_def) (simp add: cps_def utf8_cp_def nhead_def)
    from small_encode [OF this] show ?thesis by (simp add: permit_seal_def)
  qed
  then have "\<exists>p. authorize test_sodium ?st 5 (PBytes raw) ''retain'' = Inr p"
    using mc mem ep st b did by (auto simp: authorize_def ms_get_def allowed_roles_def)
  then show ?thesis by blast
qed

end
