(* ===== verification/Machines.thy ===== *)
theory Machines
  imports Main "HOL-Library.AList"
begin

text \<open>
  Contracts of state machines that several components share: an invariant that every step keeps, a latch that no step leaves,
  and a version that fences what a decision was based on.
\<close>

locale keeps =
  fixes step :: "'a \<Rightarrow> 'a \<Rightarrow> bool" and inv :: "'a \<Rightarrow> bool"
  assumes step_keeps: "inv s \<Longrightarrow> step s t \<Longrightarrow> inv t"
begin

lemma reachable_keeps: "step\<^sup>*\<^sup>* s t \<Longrightarrow> inv s \<Longrightarrow> inv t"
  by (induction rule: rtranclp_induct) (auto intro: step_keeps)

end

locale latch =
  fixes step :: "'a \<Rightarrow> 'a \<Rightarrow> bool" and stuck :: "'a \<Rightarrow> bool"
  assumes step_stuck: "stuck s \<Longrightarrow> step s t \<Longrightarrow> t = s"
begin

lemma reachable_stuck: "step\<^sup>*\<^sup>* s t \<Longrightarrow> stuck s \<Longrightarrow> t = s"
  by (induction rule: rtranclp_induct) (auto intro: step_stuck)

end

locale fence =
  fixes step :: "'a \<Rightarrow> 'a \<Rightarrow> bool" and version :: "'a \<Rightarrow> nat" and view :: "'a \<Rightarrow> 'b"
  assumes step_fence: "step s t \<Longrightarrow> version s < version t \<or> version t = version s \<and> view t = view s"
begin

lemma version_mono: "step\<^sup>*\<^sup>* s t \<Longrightarrow> version s \<le> version t"
  by (induction rule: rtranclp_induct) (use step_fence in fastforce)+

lemma view_fenced: "step\<^sup>*\<^sup>* s t \<Longrightarrow> version t = version s \<Longrightarrow> view t = view s"
proof (induction rule: rtranclp_induct)
  case (step y z)
  then show ?case using step_fence [OF step(2)] version_mono [OF step(1)] by auto
qed simp

end

section \<open>Association lists as dictionaries\<close>

lemma update_fresh: "map_of xs k = None \<Longrightarrow> AList.update k v xs = xs @ [(k, v)]"
  by (induction xs) (auto split: if_splits)

lemma update_pairs: "x \<in> set (AList.update k v xs) \<Longrightarrow> x = (k, v) \<or> x \<in> set xs"
  by (induction xs) (auto split: if_splits)

end
