(* ===== verification/AuthProps.thy ===== *)
theory AuthProps
  imports AuthSamples Machines
begin

text \<open>
  What the authority state guarantees: a fork or an invalid membership latches it, a permit is valid exactly while the state it
  was issued on is current, and every accepted entry extends one signed chain.
\<close>

inductive auth_step :: "sodium \<Rightarrow> authority \<Rightarrow> authority \<Rightarrow> bool" for n where
  observed: "auth_step n st (fst (observe n st caller raw))"
| provided: "auth_step n st (fst (provide_membership st caller pgs))"
| activated: "auth_step n st (fst (activate n st caller certificate secret package ids manifest seeds))"

section \<open>Frozen states\<close>

definition frozen :: "authority \<Rightarrow> bool" where
  "frozen st \<longleftrightarrow> au_fork st \<noteq> None \<or> au_invalid st"

lemma blocked_iff: "blocked st = Inr () \<longleftrightarrow> \<not> frozen st"
  by (auto simp: blocked_def frozen_def need_def)

lemma frozen_blocked: "frozen st \<Longrightarrow> \<exists>c \<in> {''CONTROL_FORK'', ''CONTROL_INVALID''}. blocked st = auth_fail c"
  by (auto simp: blocked_def frozen_def need_def)

lemma observe_frozen: "frozen st \<Longrightarrow> fst (observe n st caller raw) = st"
  using frozen_blocked [of st] by (auto simp: observe_def split: sum.splits)

lemma provide_frozen: "frozen st \<Longrightarrow> fst (provide_membership st caller pgs) = st"
  using frozen_blocked [of st] by (cases "thread_check st caller") (auto simp: provide_membership_def)

lemma activate_frozen: "frozen st \<Longrightarrow> fst (activate n st caller c s p i m d) = st"
  using frozen_blocked [of st] by (cases "thread_check st caller") (auto simp: activate_def)

interpretation auth_latch: latch "auth_step n" frozen for n
  by unfold_locales (auto elim!: auth_step.cases simp: observe_frozen provide_frozen activate_frozen)

section \<open>Versions\<close>

definition decision_view ::
  "authority \<Rightarrow> (bytes \<times> control) list \<times> bytes \<times> bytes list \<times> active_material option \<times> (bytes \<times> bytes) option \<times> bool \<times> nat" where
  "decision_view st = (au_nodes st, au_head st, au_resolved st, au_active st, au_fork st, au_invalid st, au_stamp st)"

lemma observe_entry_fence:
  "fst (observe_entry n st raw) = st \<or> au_revision (fst (observe_entry n st raw)) = Suc (au_revision st)"
  by (auto simp: observe_entry_def bump_def au_record_def split: sum.splits option.splits)

lemma provide_pages_fence:
  "au_revision (fst (provide_pages st pgs)) = Suc (au_revision st)
   \<or> au_revision (fst (provide_pages st pgs)) = au_revision st \<and> decision_view (fst (provide_pages st pgs)) = decision_view st"
  by (auto simp: provide_pages_def bump_def au_record_def decision_view_def Let_def split: sum.splits option.splits)

lemma observe_fence:
  "fst (observe n st caller raw) = st \<or> au_revision (fst (observe n st caller raw)) = Suc (au_revision st)"
  using observe_entry_fence [of n st raw] by (auto simp: observe_def split: sum.splits)

lemma provide_fence:
  "au_revision (fst (provide_membership st caller pgs)) = Suc (au_revision st)
   \<or> au_revision (fst (provide_membership st caller pgs)) = au_revision st
     \<and> decision_view (fst (provide_membership st caller pgs)) = decision_view st"
  using provide_pages_fence [of st pgs] by (auto simp: provide_membership_def split: sum.splits)

lemma activate_fence:
  "fst (activate n st caller c s p i m d) = st \<or> au_revision (fst (activate n st caller c s p i m d)) = Suc (au_revision st)"
  by (auto simp: activate_def bump_def split: sum.splits)

interpretation auth_fence: fence "auth_step n" au_revision decision_view for n
proof
  fix s t assume "auth_step n s t"
  then show "au_revision s < au_revision t \<or> au_revision t = au_revision s \<and> decision_view t = decision_view s"
  proof cases
    case (observed caller raw) then show ?thesis using observe_fence [of n s caller raw] by auto
  next
    case (provided caller pgs) then show ?thesis using provide_fence [of s caller pgs] by auto
  next
    case (activated caller c sec p i m d) then show ?thesis using activate_fence [of n s caller c sec p i m d] by auto
  qed
qed

lemma authorize_permit:
  assumes "authorize n st caller cert op = Inr p"
  shows "thread_check st caller = Inr () \<and> \<not> frozen st \<and> pm_owner p = au_self st \<and> pm_stamp p = au_stamp st
    \<and> pm_head p = au_head st \<and> au_epoch st = Inr (pm_epoch p) \<and> pm_revision p = au_revision st \<and> pm_operation p = op
    \<and> permit_seal st (pm_device p) (pm_role p) op (pm_head p) (pm_epoch p) (pm_revision p) = Inr (pm_seal p)"
  using assms by (auto simp: authorize_def res_simps blocked_iff [symmetric] split: option.splits)

text \<open>C11. A permit is valid exactly as long as nothing it was decided on has changed: it validates on the state that issued it,
  and it validates after further operations only if no entry, membership, activation or freeze has been accepted in between.\<close>

theorem permit_current:
  assumes "authorize n st caller cert op = Inr p" and "(auth_step n)\<^sup>*\<^sup>* st st'"
  shows "validate_permit st caller p = Inr () \<and> (validate_permit st' caller p = Inr () \<longrightarrow> decision_view st' = decision_view st)"
proof -
  note p = authorize_permit [OF assms(1)]
  have "validate_permit st caller p = Inr ()"
    using p blocked_iff [of st] by (auto simp: validate_permit_def)
  moreover have "decision_view st' = decision_view st" if "validate_permit st' caller p = Inr ()"
  proof -
    have "au_revision st' = au_revision st" using p that by (auto simp: validate_permit_def res_simps)
    with auth_fence.view_fenced [OF assms(2)] show ?thesis by simp
  qed
  ultimately show ?thesis by blast
qed

theorem permit_current_witness:
  "\<exists>did cid raw p. authorize test_sodium (member_state did cid) 5 (PBytes raw) ''retain'' = Inr p
    \<and> validate_permit (member_state did cid) 5 p = Inr ()"
proof -
  obtain did cid raw p where p: "authorize test_sodium (member_state did cid) 5 (PBytes raw) ''retain'' = Inr p"
    using sample_permit by blast
  from permit_current [OF p, of "member_state did cid"] p show ?thesis by blast
qed

text \<open>C12. A fork is final: once two entries compete for a position, no operation changes the state and no permit, reception or
  admission is granted.\<close>

theorem fork_freezes:
  assumes "au_fork st \<noteq> None" and "(auth_step n)\<^sup>*\<^sup>* st st'"
  shows "st' = st \<and> authorize n st' caller cert op \<noteq> Inr p \<and> receive_change n st' caller raw cert obj schema \<noteq> Inr r
    \<and> issue_admission n st' caller seed cert raw nonce role minimum \<noteq> Inr a"
proof -
  have f: "frozen st" using assms(1) by (simp add: frozen_def)
  then have "blocked st \<noteq> Inr ()" by (simp add: blocked_iff)
  then show ?thesis using auth_latch.reachable_stuck [OF assms(2) f]
    by (auto simp: authorize_def receive_change_def issue_admission_def res_simps)
qed

theorem fork_freezes_witness:
  "\<nexists>p. authorize test_sodium (sample_authority\<lparr>au_fork := Some ([1], [2])\<rparr>) 5 PNone ''read'' = Inr p"
  using fork_freezes [of "sample_authority\<lparr>au_fork := Some ([1], [2])\<rparr>" test_sodium "sample_authority\<lparr>au_fork := Some ([1], [2])\<rparr>"
      5 PNone "''read''"] by simp

section \<open>The chain\<close>

text \<open>Positions 1 to the sequence, each with its entry; the head is the last one.\<close>

definition chain_ok :: "authority \<Rightarrow> bool" where
  "chain_ok st \<longleftrightarrow> map fst (au_sequences st) = [1..int (au_sequence st)]
     \<and> au_head st = (if au_sequences st = [] then au_space st else snd (last (au_sequences st)))
     \<and> (au_nodes st = [] \<longleftrightarrow> au_sequences st = [])
     \<and> (\<forall>h \<in> set (map snd (au_sequences st)). map_of (au_nodes st) h \<noteq> None)"

lemma inspect_Inr:
  assumes "inspect n st raw = Inr node"
  obtains o' o0 b seq pk msg sig parent old where
    "a_parse ''control-entry'' raw 66000 = Inr o'" "item_at o' 0 = Inr o0" "a_parse ''control-body'' o0 66000 = Inr b"
    "items_at b [0, 1] = Inr [au_app st, PBytes (au_space st)]"
    "item_at b 2 = Inr (PInt seq)" "1 \<le> seq" "seq \<le> int (au_sequence st) + 1"
    "item_at b 4 = Inr (case (if seq = 1 then Some (au_space st) else map_of (au_sequences st) (seq - 1)) of
       None \<Rightarrow> PNone | Some p \<Rightarrow> PBytes p)"
    "parent = Option.bind (if seq = 1 then Some (au_space st) else map_of (au_sequences st) (seq - 1)) (map_of (au_nodes st))"
    "(case parent of None \<Rightarrow> Inr PNone | Some c \<Rightarrow> c_body c) = Inr old"
    "(case parent of None \<Rightarrow> genesis_at st 2 | Some c \<Rightarrow> Inr (PBytes (c_after c))) = Inr (PBytes pk)"
    "item_at b 11 = Inr (PBytes pk)" "c_domain (cps ''control-sign'') [o0] = Inr msg" "item_at o' 1 = Inr (PBytes sig)"
    "p_verify n pk msg sig = Inr ()"
    "(if seq = 1 then check_first st b else check_next st seq old b) = Inr ()"
    "key_after n o' o0 b pk = Inr (c_after node)"
    "hashed ''control-id'' [raw] = Inr (c_id node)" "raw = PBytes (c_raw node)" "o0 = PBytes (c_body_bytes node)"
  using assms unfolding inspect_def Let_def bindE_eq_Inr need_eq_Inr crypto_eq as_bytes_eq as_int_eq
  apply (elim exE conjE)
  apply hypsubst
  apply (rule that)
  apply (assumption | simp only: simp_thms not_less sum.inject | simp | auto)+
  done

lemma chain_position:
  assumes "chain_ok st"
  shows "map_of (au_sequences st) k \<noteq> None \<longleftrightarrow> 1 \<le> k \<and> k \<le> int (au_sequence st)"
proof -
  have "fst ` set (au_sequences st) = {1..int (au_sequence st)}"
    using assms by (simp add: chain_ok_def flip: set_map)
  then show ?thesis by (simp add: map_of_eq_None_iff)
qed

lemma chain_head:
  assumes "chain_ok st" "au_sequences st \<noteq> []"
  shows "map_of (au_sequences st) (int (au_sequence st)) = Some (au_head st)" and "map_of (au_nodes st) (au_head st) \<noteq> None"
proof -
  obtain xs k h where seqs: "au_sequences st = xs @ [(k, h)]" using assms(2) by (metis rev_exhaust surj_pair)
  have len: "au_sequence st = Suc (length xs)" by (simp add: au_sequence_def seqs)
  have ks: "map fst xs @ [k] = [1..int (length xs)] @ [int (Suc (length xs))]"
    using assms(1) by (simp add: chain_ok_def seqs len upto_rec2)
  have head: "au_head st = h" using assms(1) by (simp add: chain_ok_def seqs)
  have "distinct (map fst (au_sequences st))" using assms(1) by (simp add: chain_ok_def)
  then show "map_of (au_sequences st) (int (au_sequence st)) = Some (au_head st)"
    using ks len head by (intro map_of_is_SomeI) (simp_all add: seqs)
  show "map_of (au_nodes st) (au_head st) \<noteq> None" using assms(1) head by (simp add: chain_ok_def seqs)
qed

text \<open>The body a control entry carries parses under the default budgets as it did on inspection.\<close>

lemma a_parse_body: "a_parse rule (PBytes bs) 66000 = Inr b \<Longrightarrow> decode bs MAX_BYTES MAX_NODES = Inr b"
proof -
  assume p: "a_parse rule (PBytes bs) 66000 = Inr b"
  then have d: "decode bs 66000 MAX_NODES = Inr b"
    by (auto simp: a_parse_def a_schema_def as_bytes_def res_simps wire_to_def split: sum.splits exn.splits)
  then have "int (length bs) \<le> 66000" by (auto simp: decode_iff budget_ok_def)
  then show ?thesis by (intro decode_limit [OF d]) (simp_all add: MAX_BYTES_def)
qed

lemma observe_entry_cases:
  assumes "chain_ok st" and "observe_entry n st raw = (st', Inr r)"
  obtains node b where "inspect n st raw = Inr node" "c_body node = Inr b"
    "item_at b 2 = Inr (PInt (int (au_sequence st) + 1))" "r = ''OBSERVED''"
    "st' = bump (au_record (EControl (c_raw node)) (length (c_raw node))
       (st\<lparr>au_nodes := AList.update (c_id node) node (au_nodes st),
          au_sequences := au_sequences st @ [(int (au_sequence st) + 1, c_id node)], au_head := c_id node\<rparr>))"
proof -
  obtain node where node: "inspect n st raw = Inr node"
    using assms(2) by (auto simp: observe_entry_def split: sum.splits)
  then obtain o0 b seq where i: "a_parse ''control-body'' o0 66000 = Inr b" "item_at b 2 = Inr (PInt seq)" "1 \<le> seq"
      "seq \<le> int (au_sequence st) + 1" "o0 = PBytes (c_body_bytes node)"
    by (rule inspect_Inr) blast
  have body: "c_body node = Inr b" using a_parse_body i(1,5) by (simp add: c_body_def)
  have none: "map_of (au_sequences st) seq = None"
    using assms(2) node body i(2)
    by (auto simp: observe_entry_def as_int_def split: option.splits sum.splits)
  then have seq: "seq = int (au_sequence st) + 1" using chain_position [OF assms(1), of seq] i(3,4) by auto
  have "st' = bump (au_record (EControl (c_raw node)) (length (c_raw node))
       (st\<lparr>au_nodes := AList.update (c_id node) node (au_nodes st),
          au_sequences := au_sequences st @ [(int (au_sequence st) + 1, c_id node)], au_head := c_id node\<rparr>)) \<and> r = ''OBSERVED''"
    using assms(2) node body i(2) none seq
    by (auto simp: observe_entry_def as_int_def update_fresh split: sum.splits)
  with node body i(2) seq show thesis by (intro that [of node b]) auto
qed

lemma chain_extend:
  assumes "chain_ok st"
  shows "chain_ok (st\<lparr>au_nodes := AList.update i c (au_nodes st), au_sequences := au_sequences st @ [(int (au_sequence st) + 1, i)],
    au_head := i\<rparr>)"
  using assms by (auto simp: chain_ok_def au_sequence_def upto_rec2 update_conv' image_iff)

lemma chain_ok_frame [simp]:
  "chain_ok (bump st) \<longleftrightarrow> chain_ok st" "chain_ok (au_record e w st) \<longleftrightarrow> chain_ok st"
  "chain_ok (st\<lparr>au_fork := f\<rparr>) \<longleftrightarrow> chain_ok st" "chain_ok (st\<lparr>au_invalid := i\<rparr>) \<longleftrightarrow> chain_ok st"
  "chain_ok (st\<lparr>au_memberships := m\<rparr>) \<longleftrightarrow> chain_ok st" "chain_ok (st\<lparr>au_resolved := r\<rparr>) \<longleftrightarrow> chain_ok st"
  "chain_ok (st\<lparr>au_key_checks := k, au_active := a\<rparr>) \<longleftrightarrow> chain_ok st"
  by (simp_all add: chain_ok_def bump_def au_record_def au_sequence_def)

lemma observe_entry_chain: "chain_ok st \<Longrightarrow> chain_ok (fst (observe_entry n st raw))"
proof (cases "observe_entry n st raw")
  case (Pair st' r)
  assume ok: "chain_ok st"
  show ?thesis
  proof (cases r)
    case Inl
    with ok Pair show ?thesis
      by (auto simp: observe_entry_def split: sum.splits option.splits)
  next
    case (Inr x)
    with Pair observe_entry_cases [OF ok, of n raw st' x] show ?thesis by (metis chain_extend chain_ok_frame(1,2) fst_conv ok)
  qed
qed

lemma provide_pages_chain: "chain_ok st \<Longrightarrow> chain_ok (fst (provide_pages st pgs))"
  by (auto simp: provide_pages_def Let_def split: sum.splits option.splits)

interpretation auth_chain: keeps "auth_step n" chain_ok for n
proof
  fix s t assume ok: "chain_ok s" and "auth_step n s t"
  from this(2) show "chain_ok t"
  proof cases
    case observed then show ?thesis using ok observe_entry_chain by (auto simp: observe_def split: sum.splits)
  next
    case provided then show ?thesis using ok provide_pages_chain by (auto simp: provide_membership_def split: sum.splits)
  next
    case activated then show ?thesis using ok by (auto simp: activate_def split: sum.splits)
  qed
qed

lemma new_authority_chain: "new_authority n src self caller app sp g m = Inr st \<Longrightarrow> chain_ok st"
  by (auto simp: new_authority_def res_simps chain_ok_def au_sequence_def)

text \<open>The parent an entry at the next position names is the head, and its key is the authority in force.\<close>

lemma next_parent:
  assumes "chain_ok st" "seq = int (au_sequence st) + 1"
    and "parent = Option.bind (if seq = 1 then Some (au_space st) else map_of (au_sequences st) (seq - 1)) (map_of (au_nodes st))"
  shows "(if seq = 1 then Some (au_space st) else map_of (au_sequences st) (seq - 1)) = Some (au_head st)"
    and "parent = map_of (au_nodes st) (au_head st)" and "parent = None \<longleftrightarrow> au_nodes st = []"
proof -
  have one: "seq = 1 \<longleftrightarrow> au_sequences st = []" using assms(2) by (simp add: au_sequence_def)
  show first: "(if seq = 1 then Some (au_space st) else map_of (au_sequences st) (seq - 1)) = Some (au_head st)"
  proof (cases "au_sequences st = []")
    case True then show ?thesis using one assms(1) by (simp add: chain_ok_def)
  next
    case False then show ?thesis using one assms(1,2) chain_head(1) [OF assms(1)] by simp
  qed
  then show p: "parent = map_of (au_nodes st) (au_head st)" using assms(3) by simp
  show "parent = None \<longleftrightarrow> au_nodes st = []"
    using p assms(1) chain_head(2) [OF assms(1)] by (cases "au_sequences st = []") (auto simp: chain_ok_def)
qed

lemma next_epoch:
  assumes "chain_ok st" "(if au_nodes st = [] then check_first st b else check_next st seq old b) = Inr ()"
    and "(case map_of (au_nodes st) (au_head st) of None \<Rightarrow> Inr PNone | Some c \<Rightarrow> c_body c) = Inr old"
    and "au_nodes st \<noteq> [] \<longrightarrow> map_of (au_nodes st) (au_head st) \<noteq> None"
  shows "\<exists>e d. au_epoch st = Inr e \<and> item_at b 3 = Inr (PInt (e + d)) \<and> d \<in> {0, 1}"
proof (cases "au_nodes st = []")
  case True
  then show ?thesis using assms(2) by (auto simp: au_epoch_def check_first_def res_simps)
next
  case False
  then obtain c where "map_of (au_nodes st) (au_head st) = Some c" using assms(4) by auto
  then show ?thesis using False assms(2,3)
    by (auto simp: au_epoch_def node_at_def check_next_def res_simps split: if_splits)
qed

text \<open>C13. Every entry that a state built from its pinned genesis observes extends the one chain: its position is the next one,
  its parent is the head, it is signed by the authority key in force, its epoch is the current one or the next, and its digest
  is the new head.\<close>

theorem observed_extends:
  assumes "new_authority n source self owner app sp genesis max_controls = Inr st0" and "(auth_step n)\<^sup>*\<^sup>* st0 st"
    and "observe n st caller (PBytes raw) = (st', Inr ''OBSERVED'')"
  shows "\<exists>entry bb b pk msg sig e d.
      decode raw MAX_BYTES MAX_NODES = Inr entry \<and> item_at entry 0 = Inr (PBytes bb) \<and> item_at entry 1 = Inr (PBytes sig)
    \<and> decode bb MAX_BYTES MAX_NODES = Inr b \<and> item_at b 2 = Inr (PInt (int (au_sequence st) + 1))
    \<and> item_at b 4 = Inr (PBytes (au_head st)) \<and> authority_public st = Inr (PBytes pk)
    \<and> c_domain (cps ''control-sign'') [PBytes bb] = Inr msg \<and> p_verify n pk msg sig = Inr ()
    \<and> au_epoch st = Inr e \<and> au_epoch st' = Inr (e + d) \<and> d \<in> {0, 1}
    \<and> au_sequence st' = Suc (au_sequence st) \<and> hashed ''control-id'' [PBytes raw] = Inr (au_head st')"
proof -
  have ok: "chain_ok st" using auth_chain.reachable_keeps [OF assms(2)] new_authority_chain [OF assms(1)] by blast
  have "observe_entry n st (PBytes raw) = (st', Inr ''OBSERVED'')"
    using assms(3) by (auto simp: observe_def split: sum.splits if_splits)
  then obtain node b where node: "inspect n st (PBytes raw) = Inr node" "c_body node = Inr b"
      "item_at b 2 = Inr (PInt (int (au_sequence st) + 1))"
    and st': "st' = bump (au_record (EControl (c_raw node)) (length (c_raw node))
       (st\<lparr>au_nodes := AList.update (c_id node) node (au_nodes st),
          au_sequences := au_sequences st @ [(int (au_sequence st) + 1, c_id node)], au_head := c_id node\<rparr>))"
    by (rule observe_entry_cases [OF ok])
  from node(1) show ?thesis
  proof (rule inspect_Inr)
    fix o' o0 b' seq pk msg sig parent old
    assume i: "a_parse ''control-entry'' (PBytes raw) 66000 = Inr o'" "item_at o' 0 = Inr o0"
        "a_parse ''control-body'' o0 66000 = Inr b'" "item_at b' 2 = Inr (PInt seq)"
        "item_at b' 4 = Inr (case (if seq = 1 then Some (au_space st) else map_of (au_sequences st) (seq - 1)) of
           None \<Rightarrow> PNone | Some p \<Rightarrow> PBytes p)"
        "c_domain (cps ''control-sign'') [o0] = Inr msg" "item_at o' 1 = Inr (PBytes sig)" "p_verify n pk msg sig = Inr ()"
        "hashed ''control-id'' [PBytes raw] = Inr (c_id node)" "o0 = PBytes (c_body_bytes node)"
      and par: "parent = Option.bind (if seq = 1 then Some (au_space st) else map_of (au_sequences st) (seq - 1)) (map_of (au_nodes st))"
      and old: "(case parent of None \<Rightarrow> Inr PNone | Some c \<Rightarrow> c_body c) = Inr old"
      and pk: "(case parent of None \<Rightarrow> genesis_at st 2 | Some c \<Rightarrow> Inr (PBytes (c_after c))) = Inr (PBytes pk)"
      and epoch: "(if seq = 1 then check_first st b' else check_next st seq old b') = Inr ()"
    have b': "b' = b" using a_parse_body i(3,10) node(2) by (simp add: c_body_def)
    have seq: "seq = int (au_sequence st) + 1" using i(4) node(3) b' by simp
    note np = next_parent [OF ok seq par]
    have "au_nodes st = [] \<longleftrightarrow> seq = 1" using seq ok by (auto simp: chain_ok_def au_sequence_def)
    then obtain e d where e: "au_epoch st = Inr e" "item_at b 3 = Inr (PInt (e + d))" "d \<in> {0, 1}"
      using next_epoch [OF ok, of b seq old] epoch old np b' by auto
    have "authority_public st = Inr (PBytes pk)"
      using pk np by (auto simp: authority_public_def node_at_def split: option.splits)
    moreover have "au_epoch st' = Inr (e + d)"
      using e(2) node(2) by (simp add: st' au_epoch_def bump_def au_record_def node_at_def update_conv')
    moreover have "decode raw MAX_BYTES MAX_NODES = Inr o'" using a_parse_body [OF i(1)] .
    moreover have "item_at b 4 = Inr (PBytes (au_head st))" using i(5) np(1) b' by simp
    moreover have "au_sequence st' = Suc (au_sequence st)" "au_head st' = c_id node"
      by (simp_all add: st' bump_def au_record_def au_sequence_def)
    moreover have "item_at o' 0 = Inr (PBytes (c_body_bytes node))" "decode (c_body_bytes node) MAX_BYTES MAX_NODES = Inr b"
      "c_domain (cps ''control-sign'') [PBytes (c_body_bytes node)] = Inr msg"
      using i(2,6,10) node(2) by (simp_all add: c_body_def)
    ultimately show ?thesis
      using i(7,8,9) e(1,3) node(3)
      by (intro exI [of _ o'] exI [of _ "c_body_bytes node"] exI [of _ b] exI [of _ pk] exI [of _ msg]
          exI [of _ sig] exI [of _ e] exI [of _ d]) simp
  qed
qed

theorem observed_extends_witness:
  "\<exists>st' e d. observe test_sodium sample_authority 5 (PBytes (cbor sample_entry)) = (st', Inr ''OBSERVED'')
    \<and> au_epoch sample_authority = Inr e \<and> au_epoch st' = Inr (e + d) \<and> au_sequence st' = 1"
proof -
  obtain st' where st': "observe test_sodium sample_authority 5 (PBytes (cbor sample_entry)) = (st', Inr ''OBSERVED'')"
    using sample_observe by blast
  from observed_extends [OF sample_authority_ok rtranclp.rtrancl_refl st'] st' show ?thesis
    by (auto simp: sample_authority_def au_sequence_def)
qed

end
