(* ===== verification/Subscriptions.thy ===== *)
theory Subscriptions
  imports Prelude PyValue Machines
begin

text \<open>
  Coalescing snapshots and volatile presence hints (\<^verbatim>\<open>product/wp10/subscriptions.py\<close>). The owner is the pair of process and
  thread; every operation takes the calling one. A callback is a parameter that may raise; the clock is the value it returns,
  \<open>None\<close> when it raises or gives no natural number.
\<close>

type_synonym owner = "nat \<times> nat"

definition s_need :: "bool \<Rightarrow> string \<Rightarrow> unit res" where
  "s_need ok code = need ok (SubscriptionError code)"

definition s_fixed :: "pyval \<Rightarrow> nat \<Rightarrow> unit res" where
  "s_fixed v n = s_need (case v of PBytes b \<Rightarrow> length b = n | _ \<Rightarrow> False) ''INVALID_INPUT''"

definition s_uint :: "pyval \<Rightarrow> unit res" where
  "s_uint v = s_need (case v of PInt i \<Rightarrow> 0 \<le> i \<and> i < 2 ^ 64 | _ \<Rightarrow> False) ''INVALID_INPUT''"

definition owner_check :: "owner \<Rightarrow> owner \<Rightarrow> unit res" where
  "owner_check o' caller = s_need (o' = caller) ''WRONG_OWNER''"

section \<open>Latest snapshot\<close>

type_synonym snap = "int \<times> bytes"

record latest =
  la_owner :: owner
  la_closed :: bool
  la_dispatching :: bool
  la_last :: "snap option"
  la_pending :: "snap option"

definition sized :: "pyval \<Rightarrow> nat \<Rightarrow> unit res" where
  "sized v maximum = s_need (case v of PBytes b \<Rightarrow> length b \<le> maximum | _ \<Rightarrow> False) ''RESOURCE_LIMIT''"

definition la_publish :: "latest \<Rightarrow> owner \<Rightarrow> pyval \<Rightarrow> pyval \<Rightarrow> latest res" where
  "la_publish s caller revision v =
     bindE (owner_check (la_owner s) caller) (\<lambda>_.
     bindE (s_need (\<not> la_closed s) ''CLOSED'') (\<lambda>_.
     bindE (s_uint revision) (\<lambda>_.
     bindE (sized v 65536) (\<lambda>_.
     case (revision, v) of
       (PInt r, PBytes b) \<Rightarrow> (case la_last s of
           None \<Rightarrow> Inr (s\<lparr>la_last := Some (r, b), la_pending := Some (r, b)\<rparr>)
         | Some (r0, b0) \<Rightarrow>
             bindE (s_need (r0 \<le> r) ''STALE_SNAPSHOT'') (\<lambda>_.
             if r = r0 then bindE (s_need (b = b0) ''SNAPSHOT_CONFLICT'') (\<lambda>_. Inr s)
             else Inr (s\<lparr>la_last := Some (r, b), la_pending := Some (r, b)\<rparr>)))
     | _ \<Rightarrow> Inl TypeError))))"

definition new_latest :: "owner \<Rightarrow> pyval \<Rightarrow> pyval \<Rightarrow> latest res" where
  "new_latest caller revision v =
     la_publish \<lparr>la_owner = caller, la_closed = False, la_dispatching = False, la_last = None, la_pending = None\<rparr> caller revision v"

text \<open>\<^verbatim>\<open>dispatch\<close> hands the pending snapshot to the callback, which may itself publish or close on the object before it returns
  or raises; what was handed over is part of the result.\<close>

definition la_dispatch :: "latest \<Rightarrow> owner \<Rightarrow> (snap \<Rightarrow> latest \<Rightarrow> latest \<times> bool) \<Rightarrow> latest \<times> (string \<times> snap option) res" where
  "la_dispatch s caller callback = (case bindE (owner_check (la_owner s) caller) (\<lambda>_.
       s_need (\<not> la_dispatching s) ''REENTRANT_DISPATCH'') of
     Inl e \<Rightarrow> (s, Inl e)
   | Inr _ \<Rightarrow>
       if la_closed s then (s, Inr (''CLOSED'', None))
       else (case la_pending s of
         None \<Rightarrow> (s, Inr (''IDLE'', None))
       | Some item \<Rightarrow> (case callback item (s\<lparr>la_pending := None, la_dispatching := True\<rparr>) of
           (s', ok) \<Rightarrow> (s'\<lparr>la_dispatching := False\<rparr>,
              Inr (if ok then ''DELIVERED'' else ''CALLBACK_FAILED'', Some item)))))"

definition la_close :: "latest \<Rightarrow> owner \<Rightarrow> latest res" where
  "la_close s caller =
     bindE (owner_check (la_owner s) caller) (\<lambda>_. Inr (s\<lparr>la_closed := True, la_pending := None, la_last := None\<rparr>))"

section \<open>Presence hints\<close>

text \<open>A row: session, sequence, value, deadline and time to live of the last hint.\<close>

record hint =
  hi_session :: bytes
  hi_sequence :: "int option"
  hi_value :: bytes
  hi_deadline :: int
  hi_ttl :: int

record presence =
  pr_owner :: owner
  pr_limit :: nat
  pr_peers :: "(bytes \<times> hint) list"
  pr_now :: "int option"
  pr_uncertain :: bool

datatype presence_view = RECENT_STATE_UNKNOWN | RECENT_HINT bytes int

definition new_presence :: "owner \<Rightarrow> int \<Rightarrow> presence res" where
  "new_presence caller max_peers =
     bindE (s_need (1 \<le> max_peers \<and> max_peers \<le> 1024) ''INVALID_INPUT'') (\<lambda>_.
       Inr \<lparr>pr_owner = caller, pr_limit = nat max_peers, pr_peers = [], pr_now = None, pr_uncertain = False\<rparr>)"

definition pr_time :: "presence \<Rightarrow> owner \<Rightarrow> int option \<Rightarrow> presence \<times> int res" where
  "pr_time s caller reading = (case bindE (owner_check (pr_owner s) caller) (\<lambda>_.
       s_need (\<not> pr_uncertain s) ''CLOCK_UNCERTAIN'') of
     Inl e \<Rightarrow> (s, Inl e)
   | Inr _ \<Rightarrow> (case reading of
       None \<Rightarrow> (s\<lparr>pr_uncertain := True\<rparr>, Inl (SubscriptionError ''CLOCK_UNCERTAIN''))
     | Some n \<Rightarrow>
         if n < 0 then (s\<lparr>pr_uncertain := True\<rparr>, Inl (SubscriptionError ''CLOCK_UNCERTAIN''))
         else if (case pr_now s of None \<Rightarrow> False | Some m \<Rightarrow> n < m) then
           (s\<lparr>pr_uncertain := True, pr_peers := []\<rparr>, Inl (SubscriptionError ''CLOCK_UNCERTAIN''))
         else (s\<lparr>pr_now := Some n\<rparr>, Inr n)))"

definition pr_put :: "bytes \<Rightarrow> hint \<Rightarrow> (bytes \<times> hint) list \<Rightarrow> (bytes \<times> hint) list" where
  "pr_put peer row rows = (if map_of rows peer = None then rows @ [(peer, row)]
     else map (\<lambda>(p, r). if p = peer then (p, row) else (p, r)) rows)"

definition pr_activate :: "presence \<Rightarrow> owner \<Rightarrow> pyval \<Rightarrow> pyval \<Rightarrow> int option \<Rightarrow> presence \<times> unit res" where
  "pr_activate s caller peer session reading = (case bindE (owner_check (pr_owner s) caller) (\<lambda>_.
       bindE (s_fixed peer 32) (\<lambda>_. s_fixed session 16)) of
     Inl e \<Rightarrow> (s, Inl e)
   | Inr _ \<Rightarrow> (case pr_time s caller reading of
       (s1, Inl e) \<Rightarrow> (s1, Inl e)
     | (s1, Inr _) \<Rightarrow> (case (peer, session) of
         (PBytes p, PBytes x) \<Rightarrow>
           if map_of (pr_peers s1) p = None \<and> \<not> length (pr_peers s1) < pr_limit s1
           then (s1, Inl (SubscriptionError ''RESOURCE_LIMIT''))
           else (case map_of (pr_peers s1) p of
             Some old \<Rightarrow> if hi_session old = x then (s1, Inr ())
               else (s1\<lparr>pr_peers := pr_put p \<lparr>hi_session = x, hi_sequence = None, hi_value = [], hi_deadline = 0, hi_ttl = 0\<rparr> (pr_peers s1)\<rparr>, Inr ())
           | None \<Rightarrow> (s1\<lparr>pr_peers := pr_put p \<lparr>hi_session = x, hi_sequence = None, hi_value = [], hi_deadline = 0, hi_ttl = 0\<rparr> (pr_peers s1)\<rparr>, Inr ()))
       | _ \<Rightarrow> (s1, Inl TypeError))))"

definition pr_update :: "presence \<Rightarrow> owner \<Rightarrow> pyval \<Rightarrow> pyval \<Rightarrow> pyval \<Rightarrow> pyval \<Rightarrow> pyval \<Rightarrow> int option \<Rightarrow> presence \<times> unit res" where
  "pr_update s caller peer session sequence v ttl_ns reading = (case bindE (owner_check (pr_owner s) caller) (\<lambda>_.
       bindE (s_fixed peer 32) (\<lambda>_. bindE (s_fixed session 16) (\<lambda>_. bindE (s_uint sequence) (\<lambda>_.
       bindE (sized v 4096) (\<lambda>_.
         s_need (case ttl_ns of PInt t \<Rightarrow> 1 \<le> t \<and> t \<le> 60000000000 | _ \<Rightarrow> False) ''INVALID_INPUT''))))) of
     Inl e \<Rightarrow> (s, Inl e)
   | Inr _ \<Rightarrow> (case pr_time s caller reading of
       (s1, Inl e) \<Rightarrow> (s1, Inl e)
     | (s1, Inr now) \<Rightarrow> (case (peer, session, sequence, v, ttl_ns) of
         (PBytes p, PBytes x, PInt q, PBytes b, PInt t) \<Rightarrow> (case map_of (pr_peers s1) p of
             None \<Rightarrow> (s1, Inl (SubscriptionError ''SESSION_MISMATCH''))
           | Some old \<Rightarrow>
               if hi_session old \<noteq> x then (s1, Inl (SubscriptionError ''SESSION_MISMATCH''))
               else (let fresh = (s1\<lparr>pr_peers := pr_put p \<lparr>hi_session = x, hi_sequence = Some q, hi_value = b,
                           hi_deadline = now + t, hi_ttl = t\<rparr> (pr_peers s1)\<rparr>, Inr ()) in
                 case hi_sequence old of
                   None \<Rightarrow> fresh
                 | Some q0 \<Rightarrow>
                     if q < q0 then (s1, Inl (SubscriptionError ''STALE_HINT''))
                     else if q = q0 then
                       (if b = hi_value old \<and> t = hi_ttl old then (s1, Inr ()) else (s1, Inl (SubscriptionError ''HINT_CONFLICT'')))
                     else fresh))
       | _ \<Rightarrow> (s1, Inl TypeError))))"

definition pr_get :: "presence \<Rightarrow> owner \<Rightarrow> pyval \<Rightarrow> int option \<Rightarrow> presence \<times> presence_view res" where
  "pr_get s caller peer reading = (case bindE (owner_check (pr_owner s) caller) (\<lambda>_. s_fixed peer 32) of
     Inl e \<Rightarrow> (s, Inl e)
   | Inr _ \<Rightarrow> (case pr_time s caller reading of
       (s1, Inl e) \<Rightarrow> (s1, Inl e)
     | (s1, Inr now) \<Rightarrow> (case peer of
         PBytes p \<Rightarrow> (case map_of (pr_peers s1) p of
             None \<Rightarrow> (s1, Inr RECENT_STATE_UNKNOWN)
           | Some row \<Rightarrow> (case hi_sequence row of
               None \<Rightarrow> (s1, Inr RECENT_STATE_UNKNOWN)
             | Some q \<Rightarrow> if hi_deadline row \<le> now then (s1, Inr RECENT_STATE_UNKNOWN)
                 else (s1, Inr (RECENT_HINT (hi_value row) q))))
       | _ \<Rightarrow> (s1, Inl TypeError))))"

definition pr_forget :: "presence \<Rightarrow> owner \<Rightarrow> pyval \<Rightarrow> presence res" where
  "pr_forget s caller peer =
     bindE (owner_check (pr_owner s) caller) (\<lambda>_. bindE (s_fixed peer 32) (\<lambda>_.
       Inr (case peer of PBytes p \<Rightarrow> s\<lparr>pr_peers := filter (\<lambda>(q, _). q \<noteq> p) (pr_peers s)\<rparr> | _ \<Rightarrow> s)))"

section \<open>What is delivered\<close>

text \<open>The operations other than dispatch, and runs with the snapshots they hand over. A callback acts on the object through
  these operations only.\<close>

inductive la_step :: "latest \<Rightarrow> latest \<Rightarrow> bool" where
  published: "la_publish s caller r v = Inr s' \<Longrightarrow> la_step s s'"
| closed: "la_close s caller = Inr s' \<Longrightarrow> la_step s s'"

definition by_calls :: "(snap \<Rightarrow> latest \<Rightarrow> latest \<times> bool) \<Rightarrow> bool" where
  "by_calls callback \<longleftrightarrow> (\<forall>item s. la_step\<^sup>*\<^sup>* s (fst (callback item s)))"

inductive la_run :: "latest \<Rightarrow> snap list \<Rightarrow> latest \<Rightarrow> bool" for s0 where
  start: "la_run s0 [] s0"
| call: "la_run s0 ds s \<Longrightarrow> la_step s s' \<Longrightarrow> la_run s0 ds s'"
| dispatch: "la_run s0 ds s \<Longrightarrow> by_calls callback \<Longrightarrow> la_dispatch s caller callback = (s', Inr (code, given))
    \<Longrightarrow> la_run s0 (ds @ (case given of None \<Rightarrow> [] | Some d \<Rightarrow> [d])) s'"

text \<open>Everything delivered so far is older than what is pending and not newer than the last accepted revision.\<close>

definition la_inv :: "int option \<Rightarrow> latest \<Rightarrow> bool" where
  "la_inv m s \<longleftrightarrow> (\<forall>p. la_pending s = Some p \<longrightarrow> la_last s = Some p \<and> (\<forall>d. m = Some d \<longrightarrow> d < fst p))
     \<and> (\<forall>l d. la_last s = Some l \<longrightarrow> m = Some d \<longrightarrow> d \<le> fst l)
     \<and> (\<not> la_closed s \<longrightarrow> m \<noteq> None \<longrightarrow> la_last s \<noteq> None) \<and> (la_closed s \<longrightarrow> la_pending s = None)"

interpretation la_calls: keeps la_step "la_inv m" for m
proof
  fix s t assume inv: "la_inv m s" and "la_step s t"
  from this(2) show "la_inv m t"
  proof cases
    case (published caller r v)
    then show ?thesis using inv
      by (auto simp: la_publish_def la_inv_def res_simps s_need_def split: pyval.splits option.splits if_splits; force)
  next
    case (closed caller)
    then show ?thesis using inv by (auto simp: la_close_def la_inv_def res_simps)
  qed
qed

lemma la_run_inv:
  assumes "la_run s0 ds s" "la_inv None s0"
  shows "la_inv (if ds = [] then None else Some (fst (last ds))) s \<and> sorted_wrt (<) (map fst ds)"
  using assms
proof induction
  case (call ds s s')
  then show ?case using la_calls.step_keeps by blast
next
  case (dispatch ds s callback caller s' code given)
  let ?m = "if ds = [] then None else Some (fst (last ds))"
  have inv: "la_inv ?m s" and sorted: "sorted_wrt (<) (map fst ds)" using dispatch by auto
  show ?case
  proof (cases given)
    case None
    then have "s' = s" using dispatch(3) by (auto simp: la_dispatch_def split: sum.splits if_splits option.splits prod.splits)
    then show ?thesis using None inv sorted by (auto split: if_splits)
  next
    case (Some item)
    let ?s1 = "s\<lparr>la_pending := None, la_dispatching := True\<rparr>"
    have p: "la_pending s = Some item" "\<not> la_closed s" "s' = (fst (callback item ?s1))\<lparr>la_dispatching := False\<rparr>"
      using dispatch(3) Some by (auto simp: la_dispatch_def split: sum.splits if_splits option.splits prod.splits)
    have "la_inv (Some (fst item)) ?s1" using inv p(1,2) by (auto simp: la_inv_def)
    moreover have "la_step\<^sup>*\<^sup>* ?s1 (fst (callback item ?s1))" using dispatch(2) unfolding by_calls_def by blast
    ultimately have "la_inv (Some (fst item)) (fst (callback item ?s1))" using la_calls.reachable_keeps by blast
    then have "la_inv (Some (fst item)) s'" using p(3) by (simp add: la_inv_def)
    moreover have "\<forall>d \<in> set ds. fst d < fst item"
      using inv p(1) sorted by (cases ds rule: rev_cases) (auto simp: la_inv_def sorted_wrt_append split: if_splits)
    ultimately show ?thesis using Some sorted by (auto simp: sorted_wrt_append)
  qed
qed simp

text \<open>C14. Snapshots coalesce forward only: whatever the owner and the callbacks do, the revisions handed over are strictly
  increasing, so no snapshot is delivered twice or after a newer one.\<close>

theorem deliveries_increase:
  assumes "new_latest owner revision v = Inr s0" and "la_run s0 delivered s"
  shows "sorted_wrt (<) (map fst delivered)"
proof -
  have "la_inv None s0"
    using assms(1) by (auto simp: new_latest_def la_publish_def la_inv_def res_simps s_need_def split: pyval.splits)
  then show ?thesis using la_run_inv [OF assms(2)] by blast
qed

theorem deliveries_increase_witness:
  "\<exists>s0 s. new_latest (1, 1) (PInt 3) (PBytes [7]) = Inr s0 \<and> la_run s0 [(3, [7])] s \<and> sorted_wrt (<) (map fst [(3 :: int, [7 :: byte])])"
proof -
  let ?s0 = "\<lparr>la_owner = (1, 1), la_closed = False, la_dispatching = False, la_last = Some (3, [7]), la_pending = Some (3, [7])\<rparr>"
  have new: "new_latest (1, 1) (PInt 3) (PBytes [7]) = Inr ?s0"
    by (simp add: new_latest_def la_publish_def owner_check_def s_need_def s_uint_def sized_def)
  have "la_run ?s0 ([] @ (case Some (3, [7]) of None \<Rightarrow> [] | Some d \<Rightarrow> [d])) (?s0\<lparr>la_pending := None\<rparr>)"
    by (rule la_run.dispatch [OF la_run.start, of "\<lambda>item s. (s, True)" _ "(1, 1)"])
      (simp_all add: by_calls_def la_dispatch_def owner_check_def s_need_def)
  then have run: "la_run ?s0 [(3, [7])] (?s0\<lparr>la_pending := None\<rparr>)" by simp
  show ?thesis using new run deliveries_increase [OF new run] by blast
qed

section \<open>What a hint says\<close>

text \<open>A run with the hints that were accepted: peer, session, sequence, value, receiving time and time to live.\<close>

type_synonym accepted = "bytes \<times> bytes \<times> int \<times> bytes \<times> int \<times> int"

definition takes :: "presence \<Rightarrow> pyval \<Rightarrow> pyval \<Rightarrow> pyval \<Rightarrow> pyval \<Rightarrow> pyval \<Rightarrow> accepted list" where
  "takes s' peer session sequence v ttl = (case (peer, session, sequence, v, ttl, pr_now s') of
     (PBytes p, PBytes x, PInt q, PBytes b, PInt t, Some now) \<Rightarrow> [(p, x, q, b, now, t)]
   | _ \<Rightarrow> [])"

inductive pr_run :: "presence \<Rightarrow> accepted list \<Rightarrow> presence \<Rightarrow> bool" for s0 where
  start: "pr_run s0 [] s0"
| activate: "pr_run s0 as s \<Longrightarrow> pr_run s0 as (fst (pr_activate s caller peer session reading))"
| update: "pr_run s0 as s \<Longrightarrow> pr_update s caller peer session sequence v ttl reading = (s', Inr ())
    \<Longrightarrow> pr_run s0 (as @ takes s' peer session sequence v ttl) s'"
| refused: "pr_run s0 as s \<Longrightarrow> pr_update s caller peer session sequence v ttl reading = (s', Inl e) \<Longrightarrow> pr_run s0 as s'"
| get: "pr_run s0 as s \<Longrightarrow> pr_run s0 as (fst (pr_get s caller peer reading))"
| forget: "pr_run s0 as s \<Longrightarrow> pr_forget s caller peer = Inr s' \<Longrightarrow> pr_run s0 as s'"

definition pr_inv :: "accepted list \<Rightarrow> presence \<Rightarrow> bool" where
  "pr_inv as s \<longleftrightarrow> (\<forall>(p, row) \<in> set (pr_peers s). \<forall>q. hi_sequence row = Some q \<longrightarrow>
     (\<exists>t now. (p, hi_session row, q, hi_value row, t, hi_ttl row) \<in> set as \<and> hi_deadline row = t + hi_ttl row
        \<and> pr_now s = Some now \<and> t \<le> now))"

lemma set_pr_put: "set (pr_put p row rows) \<subseteq> insert (p, row) (set rows)"
  by (auto simp: pr_put_def split: if_splits)

lemma map_of_pr_put [simp]: "map_of (pr_put p row rows) p = Some row"
  by (induction rows) (auto simp: pr_put_def split: if_splits)

lemma pr_inv_mono:
  assumes "pr_inv as s" "set (pr_peers s') \<subseteq> set (pr_peers s)" "\<And>n. pr_now s = Some n \<Longrightarrow> \<exists>m. pr_now s' = Some m \<and> n \<le> m"
  shows "pr_inv (as @ bs) s'"
proof -
  have "\<exists>t now. (p, hi_session row, q, hi_value row, t, hi_ttl row) \<in> set (as @ bs) \<and> hi_deadline row = t + hi_ttl row
        \<and> pr_now s' = Some now \<and> t \<le> now" if r: "(p, row) \<in> set (pr_peers s')" "hi_sequence row = Some q" for p row q
  proof -
    have "(p, row) \<in> set (pr_peers s)" using r(1) assms(2) by blast
    then obtain t now where "(p, hi_session row, q, hi_value row, t, hi_ttl row) \<in> set as" "hi_deadline row = t + hi_ttl row"
        "pr_now s = Some now" "t \<le> now" using assms(1) r(2) by (fastforce simp: pr_inv_def)
    then show ?thesis using assms(3) [of now] by fastforce
  qed
  then show ?thesis by (auto simp: pr_inv_def)
qed

lemma pr_time_peers: "pr_time s caller reading = (s', r) \<Longrightarrow>
    set (pr_peers s') \<subseteq> set (pr_peers s) \<and> (\<forall>n. pr_now s = Some n \<longrightarrow> (\<exists>m. pr_now s' = Some m \<and> n \<le> m))
    \<and> (\<forall>n. r = Inr n \<longrightarrow> pr_now s' = Some n)"
  by (auto simp: pr_time_def split: sum.splits option.splits if_splits)

lemma pr_time_inv: "pr_time s caller reading = (s', r) \<Longrightarrow> pr_inv as s \<Longrightarrow> pr_inv (as @ bs) s'"
  using pr_inv_mono [of as s s' bs] pr_time_peers [of s caller reading s' r] by auto

text \<open>Putting a row that is justified, or that holds no hint, keeps the invariant.\<close>

lemma pr_put_inv:
  assumes "pr_inv as s"
    and "\<And>q. hi_sequence row = Some q \<Longrightarrow> \<exists>t now. (p, hi_session row, q, hi_value row, t, hi_ttl row) \<in> set as
      \<and> hi_deadline row = t + hi_ttl row \<and> pr_now s = Some now \<and> t \<le> now"
  shows "pr_inv as (s\<lparr>pr_peers := pr_put p row (pr_peers s)\<rparr>)"
  using assms set_pr_put [of p row "pr_peers s"] unfolding pr_inv_def by fastforce

lemma pr_activate_inv: "pr_inv as s \<Longrightarrow> pr_inv as (fst (pr_activate s caller peer session reading))"
  using pr_time_inv [of s caller reading _ _ as "[]"]
  by (auto simp: pr_activate_def intro!: pr_put_inv split: sum.splits prod.splits pyval.splits option.splits if_splits)

lemma pr_get_inv: "pr_inv as s \<Longrightarrow> pr_inv as (fst (pr_get s caller peer reading))"
  using pr_time_inv [of s caller reading _ _ as "[]"]
  by (auto simp: pr_get_def split: sum.splits prod.splits pyval.splits option.splits if_splits)

lemma pr_update_refused:
  "pr_inv as s \<Longrightarrow> pr_update s caller peer session sequence v ttl reading = (s', Inl e) \<Longrightarrow> pr_inv as s'"
  using pr_time_inv [of s caller reading _ _ as "[]"]
  by (auto simp: pr_update_def Let_def split: sum.splits prod.splits pyval.splits option.splits if_splits)

lemma pr_update_inv:
  assumes "pr_inv as s" "pr_update s caller peer session sequence v ttl reading = (s', Inr ())"
  shows "pr_inv (as @ takes s' peer session sequence v ttl) s'"
proof -
  obtain s1 now where t: "pr_time s caller reading = (s1, Inr now)"
    using assms(2) by (auto simp: pr_update_def split: sum.splits prod.splits)
  obtain p x q b tt where a: "peer = PBytes p" "session = PBytes x" "sequence = PInt q" "v = PBytes b" "ttl = PInt tt"
    using assms(2) t by (auto simp: pr_update_def split: sum.splits pyval.splits)
  let ?row = "\<lparr>hi_session = x, hi_sequence = Some q, hi_value = b, hi_deadline = now + tt, hi_ttl = tt\<rparr>"
  have "s' = s1 \<or> s' = s1\<lparr>pr_peers := pr_put p ?row (pr_peers s1)\<rparr>"
    using assms(2) t a by (auto simp: pr_update_def Let_def split: sum.splits option.splits if_splits)
  moreover have now: "pr_now s1 = Some now" using pr_time_peers [OF t] by simp
  moreover have "pr_inv (as @ [(p, x, q, b, now, tt)]) s1" by (rule pr_time_inv [OF t assms(1)])
  ultimately show ?thesis using a by (auto simp: takes_def intro!: pr_put_inv)
qed

lemma pr_run_inv: "pr_run s0 as s \<Longrightarrow> pr_peers s0 = [] \<Longrightarrow> pr_inv as s"
proof (induction rule: pr_run.induct)
  case start
  then show ?case by (simp add: pr_inv_def)
next
  case (forget as s caller peer s')
  then show ?case
    using pr_inv_mono [of as s s' "[]"] by (auto simp: pr_forget_def res_simps split: pyval.splits)
qed (auto intro: pr_activate_inv pr_get_inv pr_update_refused pr_update_inv)

text \<open>A presence hint is only ever reported while it is fresh: it was accepted from the peer with exactly this value and
  sequence, at a time from which its time to live has not yet passed.\<close>

theorem presence_fresh:
  assumes "new_presence owner max_peers = Inr s0" and "pr_run s0 accepted s"
    and "pr_get s caller (PBytes peer) reading = (s', Inr (RECENT_HINT v q))"
  shows "\<exists>session t ttl now. (peer, session, q, v, t, ttl) \<in> set accepted \<and> reading = Some now \<and> t \<le> now \<and> now < t + ttl"
proof -
  have "pr_inv accepted s" using pr_run_inv [OF assms(2)] assms(1) by (auto simp: new_presence_def res_simps)
  obtain s1 now where t: "pr_time s caller reading = (s1, Inr now)"
    using assms(3) by (auto simp: pr_get_def split: sum.splits prod.splits)
  then obtain row where row: "map_of (pr_peers s1) peer = Some row" "hi_sequence row = Some q" "hi_value row = v" "now < hi_deadline row"
    using assms(3) by (auto simp: pr_get_def split: sum.splits option.splits if_splits)
  have "pr_inv accepted s1" using pr_time_inv [OF t \<open>pr_inv accepted s\<close>, of "[]"] by simp
  moreover have "(peer, row) \<in> set (pr_peers s1)" using row(1) by (rule map_of_SomeD)
  ultimately obtain t0 n where "(peer, hi_session row, q, v, t0, hi_ttl row) \<in> set accepted" "hi_deadline row = t0 + hi_ttl row"
      "pr_now s1 = Some n" "t0 \<le> n" using row(2,3) by (fastforce simp: pr_inv_def)
  moreover have "pr_now s1 = Some now" using pr_time_peers [OF t] by simp
  moreover have "reading = Some now" using t by (auto simp: pr_time_def split: sum.splits option.splits if_splits)
  ultimately have "(peer, hi_session row, q, v, t0, hi_ttl row) \<in> set accepted \<and> reading = Some now \<and> t0 \<le> now
      \<and> now < t0 + hi_ttl row" using row(4) by simp
  then show ?thesis by blast
qed

theorem presence_fresh_witness:
  "\<exists>s0 s1 s2 s3. new_presence (1, 1) 4 = Inr s0
    \<and> pr_activate s0 (1, 1) (PBytes (replicate 32 1)) (PBytes (replicate 16 2)) (Some 10) = (s1, Inr ())
    \<and> pr_update s1 (1, 1) (PBytes (replicate 32 1)) (PBytes (replicate 16 2)) (PInt 5) (PBytes [9]) (PInt 100) (Some 20) = (s2, Inr ())
    \<and> pr_get s2 (1, 1) (PBytes (replicate 32 1)) (Some 119) = (s3, Inr (RECENT_HINT [9] 5))
    \<and> (\<exists>session t ttl now. (replicate 32 1, session, 5, [9], t, ttl)
         \<in> set [(replicate 32 1 :: bytes, replicate 16 2 :: bytes, 5 :: int, [9 :: byte], 20 :: int, 100 :: int)]
         \<and> Some 119 = Some now \<and> t \<le> now \<and> now < t + ttl)"
proof -
  let ?s0 = "\<lparr>pr_owner = (1, 1), pr_limit = 4, pr_peers = [], pr_now = None, pr_uncertain = False\<rparr>"
  let ?r0 = "\<lparr>hi_session = replicate 16 2, hi_sequence = None, hi_value = [], hi_deadline = 0, hi_ttl = 0\<rparr>"
  let ?r1 = "\<lparr>hi_session = replicate 16 2, hi_sequence = Some 5, hi_value = [9], hi_deadline = 120, hi_ttl = 100\<rparr>"
  let ?s1 = "?s0\<lparr>pr_peers := [(replicate 32 1, ?r0)], pr_now := Some 10\<rparr>"
  let ?s2 = "?s0\<lparr>pr_peers := [(replicate 32 1, ?r1)], pr_now := Some 20\<rparr>"
  let ?s3 = "?s2\<lparr>pr_now := Some 119\<rparr>"
  note defs = owner_check_def s_need_def s_fixed_def s_uint_def sized_def pr_time_def pr_put_def
  have new: "new_presence (1, 1) 4 = Inr ?s0" by (simp add: new_presence_def s_need_def)
  have act: "pr_activate ?s0 (1, 1) (PBytes (replicate 32 1)) (PBytes (replicate 16 2)) (Some 10) = (?s1, Inr ())"
    by (simp add: pr_activate_def defs)
  have upd: "pr_update ?s1 (1, 1) (PBytes (replicate 32 1)) (PBytes (replicate 16 2)) (PInt 5) (PBytes [9]) (PInt 100) (Some 20)
      = (?s2, Inr ())" by (simp add: pr_update_def defs)
  have get: "pr_get ?s2 (1, 1) (PBytes (replicate 32 1)) (Some 119) = (?s3, Inr (RECENT_HINT [9] 5))"
    by (simp add: pr_get_def defs)
  have "pr_run ?s0 [] ?s1"
    using pr_run.activate [OF pr_run.start, of "?s0" "(1, 1)" "PBytes (replicate 32 1)" "PBytes (replicate 16 2)" "Some 10"] act by simp
  from pr_run.update [OF this upd] have run: "pr_run ?s0 [(replicate 32 1, replicate 16 2, 5, [9], 20, 100)] ?s2"
    by (simp add: takes_def)
  show ?thesis using new act upd get presence_fresh [OF new run get] by blast
qed

end
