(* ===== verification/EventHost.thy ===== *)
theory EventHost
  imports PyValue Machines "HOL-Library.AList"
begin

text \<open>
  The bounded cooperative event host (\<^verbatim>\<open>product/wp10/host.py\<close>): channels with at most one ordinary and one cleanup request,
  two queues drained with a turn budget, waiters that a change wakes, and a fault latch. The event journal and the owner port of
  a channel are other components: what an observation of the journal, a port method or a session check returns is an argument of
  the operation that calls it. A request object is a numbered record in a store, as the code shares it between queue, channel
  and waiter table; timers and loop callbacks are flags, and the loop runs them as separate steps.
\<close>

section \<open>Bounded plain values\<close>

datatype json =
    JNull
  | JBool bool
  | JInt int
  | JStr pystr
  | JList "json list"
  | JObj "(json \<times> json) list"
  | JOther

abbreviation event_fail :: "string \<Rightarrow> 'a res" where
  "event_fail code \<equiv> Inl (EventError code)"

definition e_need :: "bool \<Rightarrow> string \<Rightarrow> unit res" where
  "e_need ok code = need ok (EventError code)"

definition MAX_REQUEST :: nat where "MAX_REQUEST = 65536"

definition OPERATIONS :: "string list" where
  "OPERATIONS = [''open'', ''poll'', ''ack'', ''cursor'', ''cancel'', ''wait'']"

text \<open>The walk counts every node and the encoded size of every string; it carries both counters.\<close>

primrec visit :: "nat \<Rightarrow> nat \<Rightarrow> json \<Rightarrow> nat \<times> nat \<Rightarrow> (nat \<times> nat) res" where
  "visit limit 0 v st = event_fail ''HOST_INPUT_INVALID''"
| "visit limit (Suc room) v st = (case st of (c, z) \<Rightarrow>
     bindE (e_need (Suc c \<le> 12000) ''HOST_INPUT_INVALID'') (\<lambda>_. case v of
       JNull \<Rightarrow> Inr (Suc c, z)
     | JBool _ \<Rightarrow> Inr (Suc c, z)
     | JInt i \<Rightarrow> bindE (e_need (- (2 ^ 53 - 1) \<le> i \<and> i \<le> 2 ^ 53 - 1) ''HOST_INPUT_INVALID'') (\<lambda>_. Inr (Suc c, z))
     | JStr s \<Rightarrow> (case utf8_encode s of
           None \<Rightarrow> event_fail ''HOST_INPUT_INVALID''
         | Some b \<Rightarrow> bindE (e_need (z + length b \<le> limit) ''HOST_INPUT_INVALID'') (\<lambda>_. Inr (Suc c, z + length b)))
     | JList xs \<Rightarrow> bindE (e_need (length xs \<le> 4096) ''HOST_INPUT_INVALID'') (\<lambda>_. foldE (visit limit room) xs (Suc c, z))
     | JObj kvs \<Rightarrow> bindE (e_need (length kvs \<le> 4096) ''HOST_INPUT_INVALID'') (\<lambda>_.
         foldE (\<lambda>(k, x) acc.
           bindE (e_need (case k of JStr _ \<Rightarrow> True | _ \<Rightarrow> False) ''HOST_INPUT_INVALID'') (\<lambda>_.
           bindE (visit limit room k acc) (visit limit room x))) kvs (Suc c, z))
     | JOther \<Rightarrow> event_fail ''HOST_INPUT_INVALID''))"

text \<open>\<^verbatim>\<open>json.dumps(v, ensure_ascii=False, separators=(',', ':'))\<close>\<close>

definition hex4 :: "nat \<Rightarrow> pystr" where
  "hex4 n = map (\<lambda>d. if d < 10 then 48 + d else 87 + d) [0, 0, n div 16, n mod 16]"

definition escape_char :: "nat \<Rightarrow> pystr" where
  "escape_char c =
     (if c = 34 then [92, 34] else if c = 92 then [92, 92] else if c = 10 then [92, 110] else if c = 13 then [92, 114]
      else if c = 9 then [92, 116] else if c = 12 then [92, 102] else if c = 8 then [92, 98]
      else if c < 32 then [92, 117] @ hex4 c else [c])"

definition quoted :: "pystr \<Rightarrow> pystr" where
  "quoted s = [34] @ concat (map escape_char s) @ [34]"

fun joined :: "pystr list \<Rightarrow> pystr" where
  "joined [] = []"
| "joined [x] = x"
| "joined (x # y # xs) = x @ [44] @ joined (y # xs)"

definition dumps_int :: "int \<Rightarrow> pystr" where
  "dumps_int i = (if i < 0 then [45] @ cps (str_nat (nat (- i))) else cps (str_nat (nat i)))"

primrec dumps :: "nat \<Rightarrow> json \<Rightarrow> pystr" where
  "dumps 0 v = []"
| "dumps (Suc room) v = (case v of
     JNull \<Rightarrow> cps ''null''
   | JBool b \<Rightarrow> cps (if b then ''true'' else ''false'')
   | JInt i \<Rightarrow> dumps_int i
   | JStr s \<Rightarrow> quoted s
   | JList xs \<Rightarrow> [91] @ joined (map (dumps room) xs) @ [93]
   | JObj kvs \<Rightarrow> [123] @ joined (map (\<lambda>(k, x). dumps room k @ [58] @ dumps room x) kvs) @ [125]
   | JOther \<Rightarrow> [])"

definition plain :: "json \<Rightarrow> (json \<times> nat) res" where
  "plain v =
     bindE (visit MAX_REQUEST 13 v (0, 0)) (\<lambda>_.
     case utf8_encode (dumps 13 v) of
       None \<Rightarrow> Inl UnicodeError
     | Some raw \<Rightarrow> bindE (e_need (length raw \<le> MAX_REQUEST) ''HOST_INPUT_INVALID'') (\<lambda>_. Inr (v, length raw)))"

section \<open>Requests, channels and the host\<close>

text \<open>What a request answers: the payload of \<^verbatim>\<open>_wrap\<close> with its ticket revision, or an error code.\<close>

datatype answer = AOk json int | AWake string int | ACancelled int | AError string

datatype future = Pending | Settled answer | FCancelled

record pending_request =
  rq_channel :: nat
  rq_operation :: string
  rq_args :: json
  rq_size :: nat
  rq_future :: future
  rq_released :: bool
  rq_timer :: bool

text \<open>A channel: its port as the host uses it (the session, whether a subscription exists and whether it is closed), the two
  request slots and the revision of the ticket of the last empty poll.\<close>

record channel =
  ch_session :: "pystr option"
  ch_sub :: bool
  ch_closed :: bool
  ch_ordinary :: "nat option"
  ch_cleanup :: "nat option"
  ch_ticket :: "int option"

datatype hstate = HOpen | HFailed | HClosed

record host =
  ho_identity :: nat
  ho_id :: pystr
  ho_max_channels :: nat
  ho_max_requests :: nat
  ho_max_bytes :: nat
  ho_budget :: nat
  ho_revision :: int
  ho_store :: "(nat \<times> pending_request) list"
  ho_channels :: "(nat \<times> channel) list"
  ho_queue :: "nat list"
  ho_cleanups :: "nat list"
  ho_waiters :: "(nat \<times> nat) list"
  ho_requests :: int
  ho_bytes :: int
  ho_observations :: nat
  ho_peak_requests :: int
  ho_peak_bytes :: int
  ho_scheduled :: bool
  ho_heartbeat :: bool
  ho_state :: hstate
  ho_fault :: "string option"
  ho_stamp :: bytes

definition new_host :: "nat \<Rightarrow> pystr \<Rightarrow> int \<Rightarrow> int \<Rightarrow> int \<Rightarrow> int \<Rightarrow> bytes res \<Rightarrow> host res" where
  "new_host identity host_id max_channels max_requests max_request_bytes turn_budget observed =
     bindE (e_need (1 \<le> max_channels \<and> max_channels \<le> 64 \<and> 1 \<le> max_requests \<and> max_requests \<le> 128
       \<and> 1024 \<le> max_request_bytes \<and> max_request_bytes \<le> 1048576 \<and> 1 \<le> turn_budget \<and> turn_budget \<le> 16) ''HOST_OPTIONS_INVALID'') (\<lambda>_.
     bindE observed (\<lambda>stamp.
       Inr \<lparr>ho_identity = identity, ho_id = host_id, ho_max_channels = nat max_channels, ho_max_requests = nat max_requests,
         ho_max_bytes = nat max_request_bytes, ho_budget = nat turn_budget, ho_revision = 0, ho_store = [], ho_channels = [],
         ho_queue = [], ho_cleanups = [], ho_waiters = [], ho_requests = 0, ho_bytes = 0, ho_observations = 1,
         ho_peak_requests = 0, ho_peak_bytes = 0, ho_scheduled = False, ho_heartbeat = False, ho_state = HOpen,
         ho_fault = None, ho_stamp = stamp\<rparr>))"

definition ho_owner :: "host \<Rightarrow> nat \<Rightarrow> unit res" where
  "ho_owner h caller = e_need (caller = ho_identity h) ''WRONG_OWNER''"

definition ho_enter :: "host \<Rightarrow> nat \<Rightarrow> unit res" where
  "ho_enter h caller =
     bindE (ho_owner h caller) (\<lambda>_.
     bindE (e_need (ho_state h \<noteq> HClosed) ''HOST_CLOSED'') (\<lambda>_.
       case ho_fault h of None \<Rightarrow> Inr () | Some code \<Rightarrow> event_fail code))"

definition ho_channel :: "host \<Rightarrow> nat \<Rightarrow> channel res" where
  "ho_channel h cid = (case map_of (ho_channels h) cid of None \<Rightarrow> event_fail ''HOST_CHANNEL_CLOSED'' | Some c \<Rightarrow> Inr c)"

text \<open>\<^verbatim>\<open>attach\<close>: \<open>cid\<close> is the fresh random identifier, \<open>port\<close> the result of the journal's check when the owner port is made.\<close>

definition attach :: "host \<Rightarrow> nat \<Rightarrow> bytes \<Rightarrow> nat \<Rightarrow> unit res \<Rightarrow> (host \<times> nat) res" where
  "attach h caller consumer_id cid port =
     bindE (ho_enter h caller) (\<lambda>_.
     bindE (e_need (length consumer_id = 16) ''INVALID_INPUT'') (\<lambda>_.
     bindE (e_need (length (ho_channels h) < ho_max_channels h) ''HOST_CHANNEL_LIMIT'') (\<lambda>_.
     bindE port (\<lambda>_.
       Inr (h\<lparr>ho_channels := AList.update cid \<lparr>ch_session = None, ch_sub = False, ch_closed = False, ch_ordinary = None, ch_cleanup = None,
              ch_ticket = None\<rparr> (ho_channels h)\<rparr>, cid)))))"

definition edit_request :: "nat \<Rightarrow> (pending_request \<Rightarrow> pending_request) \<Rightarrow> host \<Rightarrow> host" where
  "edit_request i f h = h\<lparr>ho_store := map (\<lambda>(j, r). (j, if j = i then f r else r)) (ho_store h)\<rparr>"

definition edit_channel :: "nat \<Rightarrow> (channel \<Rightarrow> channel) \<Rightarrow> host \<Rightarrow> host" where
  "edit_channel i f h = h\<lparr>ho_channels := map (\<lambda>(j, c). (j, if j = i then f c else c)) (ho_channels h)\<rparr>"

definition release :: "nat \<Rightarrow> host \<Rightarrow> host" where
  "release i h = (case map_of (ho_store h) i of
     None \<Rightarrow> h
   | Some r \<Rightarrow> if rq_released r then h else
       let h1 = edit_request i (\<lambda>r. r\<lparr>rq_released := True, rq_timer := False\<rparr>) h;
           h2 = (if map_of (ho_waiters h1) (rq_channel r) = Some i
                 then h1\<lparr>ho_waiters := filter (\<lambda>(c, _). c \<noteq> rq_channel r) (ho_waiters h1)\<rparr> else h1);
           h3 = (if rq_operation r = ''cancel''
                 then edit_channel (rq_channel r) (\<lambda>c. if ch_cleanup c = Some i then c\<lparr>ch_cleanup := None\<rparr> else c) h2
                 else edit_channel (rq_channel r) (\<lambda>c. if ch_ordinary c = Some i then c\<lparr>ch_ordinary := None\<rparr> else c)
                   (h2\<lparr>ho_requests := ho_requests h2 - 1, ho_bytes := ho_bytes h2 - int (rq_size r)\<rparr>))
       in if ho_waiters h3 = [] then h3\<lparr>ho_heartbeat := False\<rparr> else h3)"

definition finish_request :: "nat \<Rightarrow> answer \<Rightarrow> host \<Rightarrow> host" where
  "finish_request i a h =
     edit_request i (\<lambda>r. if rq_future r = Pending then r\<lparr>rq_future := Settled a\<rparr> else r) (release i h)"

definition finish_all :: "nat list \<Rightarrow> answer \<Rightarrow> host \<Rightarrow> host" where
  "finish_all is a h = fold (\<lambda>i. finish_request i a) is h"

text \<open>\<^verbatim>\<open>e.code if isinstance(e, EventError) else default\<close>\<close>

definition event_code :: "string \<Rightarrow> exn \<Rightarrow> string" where
  "event_code other e = (case e of EventError code \<Rightarrow> code | _ \<Rightarrow> other)"

text \<open>An observation of the journal: a new stamp advances the revision and wakes every waiter; a failure latches the host.\<close>

definition refresh :: "bytes res \<Rightarrow> host \<Rightarrow> host \<times> unit res" where
  "refresh observed h0 =
     (let h = h0\<lparr>ho_observations := Suc (ho_observations h0)\<rparr>;
          fault = (\<lambda>code h. (finish_all (map snd (ho_waiters h)) (AError code) (h\<lparr>ho_state := HFailed, ho_fault := Some code\<rparr>),
                             event_fail code)) in
      case observed of
        Inl e \<Rightarrow> fault (event_code ''HOST_OBSERVATION_FAILED'' e) h
      | Inr stamp \<Rightarrow>
          if stamp = ho_stamp h then (h, Inr ())
          else if \<not> ho_revision h < 2 ^ 64 - 1 then fault ''HOST_GENERATION_EXHAUSTED'' h
          else let h1 = h\<lparr>ho_revision := ho_revision h + 1, ho_stamp := stamp\<rparr> in
               (finish_all (map snd (ho_waiters h1)) (AWake ''changed'' (ho_revision h1)) h1, Inr ()))"

definition notify :: "host \<Rightarrow> nat \<Rightarrow> bytes res \<Rightarrow> host \<times> unit res" where
  "notify h caller observed = (case ho_enter h caller of Inl e \<Rightarrow> (h, Inl e) | Inr _ \<Rightarrow> refresh observed h)"

text \<open>\<^verbatim>\<open>publish\<close>: \<open>written\<close> is what the journal did; a failed observation after a write makes the outcome unknown.\<close>

definition publish :: "host \<Rightarrow> nat \<Rightarrow> 'r res \<Rightarrow> bytes res \<Rightarrow> host \<times> 'r res" where
  "publish h caller written observed = (case ho_enter h caller of
     Inl e \<Rightarrow> (h, Inl e)
   | Inr _ \<Rightarrow> (case refresh observed h of (h1, seen) \<Rightarrow> (case written of
       Inl e \<Rightarrow> (h1, Inl e)
     | Inr receipt \<Rightarrow> (case seen of
         Inl _ \<Rightarrow> (h1, event_fail ''EVENT_OUTCOME_UNKNOWN'')
       | Inr _ \<Rightarrow> (h1, Inr receipt)))))"

definition schedule_drain :: "host \<Rightarrow> host" where
  "schedule_drain h = (if \<not> ho_scheduled h \<and> ho_state h \<noteq> HClosed then h\<lparr>ho_scheduled := True\<rparr> else h)"

definition fresh_id :: "host \<Rightarrow> nat" where
  "fresh_id h = Suc (foldr max (map fst (ho_store h)) 0)"

definition request :: "host \<Rightarrow> nat \<Rightarrow> nat \<Rightarrow> string \<Rightarrow> json \<Rightarrow> (host \<times> nat) res" where
  "request h caller cid operation args =
     bindE (ho_owner h caller) (\<lambda>_.
     bindE (e_need (ho_state h \<noteq> HClosed) ''HOST_CLOSED'') (\<lambda>_.
     bindE (e_need (operation \<in> set OPERATIONS) ''HOST_OPERATION_DENIED'') (\<lambda>_.
     bindE (if operation = ''cancel'' then Inr () else ho_enter h caller) (\<lambda>_.
     bindE (ho_channel h cid) (\<lambda>c.
     bindE (plain args) (\<lambda>(copied, n).
     bindE (e_need (case copied of JObj _ \<Rightarrow> True | _ \<Rightarrow> False) ''HOST_INPUT_INVALID'') (\<lambda>_.
     let i = fresh_id h;
         r = \<lparr>rq_channel = cid, rq_operation = operation, rq_args = copied, rq_size = n, rq_future = Pending,
              rq_released = False, rq_timer = False\<rparr>;
         stored = h\<lparr>ho_store := ho_store h @ [(i, r)]\<rparr> in
     if operation = ''cancel'' then
       bindE (e_need (ch_cleanup c = None) ''HOST_CHANNEL_BUSY'') (\<lambda>_.
         Inr (schedule_drain ((edit_channel cid (\<lambda>c. c\<lparr>ch_cleanup := Some i\<rparr>) stored)\<lparr>ho_cleanups := ho_cleanups h @ [i]\<rparr>), i))
     else
       bindE (e_need (ch_ordinary c = None) ''HOST_CHANNEL_BUSY'') (\<lambda>_.
       bindE (e_need (ho_requests h < int (ho_max_requests h) \<and> ho_bytes h + int n \<le> int (ho_max_bytes h)) ''HOST_QUEUE_FULL'') (\<lambda>_.
         Inr (schedule_drain ((edit_channel cid (\<lambda>c. c\<lparr>ch_ordinary := Some i\<rparr>) stored)
            \<lparr>ho_queue := ho_queue h @ [i], ho_requests := ho_requests h + 1, ho_bytes := ho_bytes h + int n,
             ho_peak_requests := max (ho_peak_requests h) (ho_requests h + 1),
             ho_peak_bytes := max (ho_peak_bytes h) (ho_bytes h + int n)\<rparr>), i))))))))))"

text \<open>The caller cancels the future: the callback releases a queued request and removes it from its queue.\<close>

definition cancelled :: "nat \<Rightarrow> host \<Rightarrow> host" where
  "cancelled i h = (case map_of (ho_store h) i of
     None \<Rightarrow> h
   | Some r \<Rightarrow> if rq_future r \<noteq> Pending then h else
       let h1 = edit_request i (\<lambda>r. r\<lparr>rq_future := FCancelled\<rparr>) h in
       if rq_released r then h1
       else let h2 = release i h1 in
         if rq_operation r = ''cancel'' then h2\<lparr>ho_cleanups := remove1 i (ho_cleanups h2)\<rparr>
         else h2\<lparr>ho_queue := remove1 i (ho_queue h2)\<rparr>)"

section \<open>Dispatch\<close>

text \<open>What the journal and the port return during one dispatch: the observation before the call, the owner check of the port, the
  value of the port method with the session it leaves, and the observation after the call.\<close>

record turn =
  tn_first :: "bytes res"
  tn_entered :: "unit res"
  tn_value :: "json res"
  tn_session :: "pystr option"
  tn_sub :: bool
  tn_second :: "bytes res"

definition json_field :: "json \<Rightarrow> string \<Rightarrow> json option" where
  "json_field v k = (case v of JObj kvs \<Rightarrow> map_of kvs (JStr (cps k)) | _ \<Rightarrow> None)"

definition record_keys :: "json \<Rightarrow> string list \<Rightarrow> unit res" where
  "record_keys v ks = e_need (case v of JObj kvs \<Rightarrow> fst ` set kvs = set (map (\<lambda>k. JStr (cps k)) ks) | _ \<Rightarrow> False) ''SDK_INPUT_INVALID''"

definition session_matches :: "json \<Rightarrow> channel \<Rightarrow> unit res" where
  "session_matches args c = e_need (case (json_field args ''sessionId'', ch_session c) of
     (Some (JStr s), Some t) \<Rightarrow> s = t | _ \<Rightarrow> False) ''SDK_SESSION_MISMATCH''"

text \<open>The wake ticket of a revision, and the comparison of two dictionaries.\<close>

definition ticket :: "host \<Rightarrow> int \<Rightarrow> json" where
  "ticket h revision = JObj [(JStr (cps ''hostId''), JStr (ho_id h)), (JStr (cps ''revision''), JStr (dumps_int revision))]"

definition same_dict :: "json \<Rightarrow> json \<Rightarrow> bool" where
  "same_dict a b = (case (a, b) of (JObj x, JObj y) \<Rightarrow> set x = set y | _ \<Rightarrow> False)"

definition dispatch_cancel :: "nat \<Rightarrow> pending_request \<Rightarrow> channel \<Rightarrow> host \<Rightarrow> host \<times> unit res" where
  "dispatch_cancel i r c h = (case bindE (record_keys (rq_args r) [''sessionId'']) (\<lambda>_.
       bindE (session_matches (rq_args r) c) (\<lambda>_. e_need (ch_sub c) ''SUBSCRIPTION_CLOSED'')) of
     Inl e \<Rightarrow> (h, Inl e)
   | Inr _ \<Rightarrow>
       let h1 = edit_channel (rq_channel r) (\<lambda>c. c\<lparr>ch_closed := True, ch_ticket := None\<rparr>) h;
           h2 = (case ch_ordinary c of None \<Rightarrow> h1 | Some j \<Rightarrow> finish_request j (AError ''SUBSCRIPTION_CLOSED'') h1) in
       (finish_request i (ACancelled (ho_revision h2)) h2, Inr ()))"

definition wait_ticket :: "turn \<Rightarrow> pending_request \<Rightarrow> channel \<Rightarrow> host \<Rightarrow> int res" where
  "wait_ticket env r c h =
     bindE (tn_entered env) (\<lambda>_.
     bindE (record_keys (rq_args r) [''sessionId'', ''ticket'']) (\<lambda>_.
     bindE (e_need (ch_sub c \<and> \<not> ch_closed c) ''SUBSCRIPTION_CLOSED'') (\<lambda>_.
     bindE (session_matches (rq_args r) c) (\<lambda>_.
     case (json_field (rq_args r) ''ticket'', ch_ticket c) of
       (Some t, Some v) \<Rightarrow>
         bindE (e_need (same_dict t (ticket h v) \<and> v \<le> ho_revision h) ''WAKE_TICKET_INVALID'') (\<lambda>_. Inr v)
     | _ \<Rightarrow> event_fail ''WAKE_TICKET_INVALID''))))"

definition arm_heartbeat :: "host \<Rightarrow> host" where
  "arm_heartbeat h = (if ho_waiters h \<noteq> [] \<and> \<not> ho_heartbeat h \<and> ho_state h = HOpen then h\<lparr>ho_heartbeat := True\<rparr> else h)"

definition dispatch_wait :: "turn \<Rightarrow> nat \<Rightarrow> pending_request \<Rightarrow> channel \<Rightarrow> host \<Rightarrow> host \<times> unit res" where
  "dispatch_wait env i r c h = (case wait_ticket env r c h of
     Inl e \<Rightarrow> (h, Inl e)
   | Inr v \<Rightarrow>
       let h1 = edit_channel (rq_channel r) (\<lambda>c. c\<lparr>ch_ticket := None\<rparr>) h in
       if v < ho_revision h1 then (finish_request i (AWake ''changed'' (ho_revision h1)) h1, Inr ())
       else let h2 = edit_request i (\<lambda>r. r\<lparr>rq_timer := True\<rparr>) (h1\<lparr>ho_waiters := AList.update (rq_channel r) i (ho_waiters h1)\<rparr>) in
         (case refresh (tn_second env) h2 of
            (h3, Inl e) \<Rightarrow> (h3, Inl e)
          | (h3, Inr _) \<Rightarrow> (arm_heartbeat h3, Inr ())))"

definition dispatch_port :: "turn \<Rightarrow> nat \<Rightarrow> pending_request \<Rightarrow> host \<Rightarrow> host \<times> unit res" where
  "dispatch_port env i r h =
     (let before = ho_revision h;
          h1 = edit_channel (rq_channel r) (\<lambda>c. c\<lparr>ch_session := tn_session env, ch_sub := tn_sub env\<rparr>) h in
      case tn_value env of
        Inl e \<Rightarrow> (h1, Inl e)
      | Inr value \<Rightarrow> (case refresh (tn_second env) h1 of
          (h2, Inl e) \<Rightarrow> (h2, Inl e)
        | (h2, Inr _) \<Rightarrow>
            if rq_operation r = ''poll'' then
              (case json_field value ''events'' of
                 None \<Rightarrow> (h2, Inl KeyError)
               | Some events \<Rightarrow>
                   if events = JList []
                   then (finish_request i (AOk value before) (edit_channel (rq_channel r) (\<lambda>c. c\<lparr>ch_ticket := Some before\<rparr>) h2), Inr ())
                   else (finish_request i (AOk value (ho_revision h2)) (edit_channel (rq_channel r) (\<lambda>c. c\<lparr>ch_ticket := None\<rparr>) h2), Inr ()))
            else (finish_request i (AOk value (ho_revision h2)) h2, Inr ())))"

definition dispatch :: "turn \<Rightarrow> nat \<Rightarrow> pending_request \<Rightarrow> host \<Rightarrow> host \<times> unit res" where
  "dispatch env i r h = (case ho_channel h (rq_channel r) of
     Inl e \<Rightarrow> (h, Inl e)
   | Inr c \<Rightarrow>
       if rq_operation r = ''cancel'' then dispatch_cancel i r c h
       else (case ho_enter h (ho_identity h) of
         Inl e \<Rightarrow> (h, Inl e)
       | Inr _ \<Rightarrow> (case refresh (tn_first env) h of
           (h1, Inl e) \<Rightarrow> (h1, Inl e)
         | (h1, Inr _) \<Rightarrow>
             if rq_operation r = ''wait'' then dispatch_wait env i r c h1 else dispatch_port env i r h1)))"

text \<open>An exception of a dispatch answers the request with its code.\<close>

definition dispatch_safely :: "turn \<Rightarrow> nat \<Rightarrow> pending_request \<Rightarrow> host \<Rightarrow> host" where
  "dispatch_safely env i r h = (case dispatch env i r h of
     (h1, Inr _) \<Rightarrow> h1
   | (h1, Inl e) \<Rightarrow> finish_request i (AError (event_code ''HOST_OPERATION_FAILED'' e)) h1)"

primrec drain_loop :: "nat \<Rightarrow> (nat \<Rightarrow> turn) \<Rightarrow> host \<Rightarrow> host" where
  "drain_loop 0 env h = h"
| "drain_loop (Suc k) env h =
     (case (if ho_cleanups h \<noteq> [] then ho_cleanups h else ho_queue h) of
        [] \<Rightarrow> h
      | i # rest \<Rightarrow>
          let h1 = (if ho_cleanups h \<noteq> [] then h\<lparr>ho_cleanups := rest\<rparr> else h\<lparr>ho_queue := rest\<rparr>) in
          drain_loop k env (case map_of (ho_store h1) i of
              None \<Rightarrow> h1
            | Some r \<Rightarrow> if rq_future r = FCancelled \<or> rq_released r then release i h1 else dispatch_safely (env k) i r h1))"

definition drain :: "(nat \<Rightarrow> turn) \<Rightarrow> host \<Rightarrow> host" where
  "drain env h0 =
     (let h = h0\<lparr>ho_scheduled := False\<rparr> in
      if ho_state h = HClosed then h
      else let h1 = drain_loop (ho_budget h) env h in
        if ho_queue h1 \<noteq> [] \<or> ho_cleanups h1 \<noteq> [] then schedule_drain h1 else h1)"

section \<open>Timers and shutdown\<close>

definition beat :: "bytes res \<Rightarrow> host \<Rightarrow> host" where
  "beat observed h0 =
     (let h = h0\<lparr>ho_heartbeat := False\<rparr> in
      if ho_state h \<noteq> HOpen \<or> ho_waiters h = [] then h
      else case refresh observed h of (h1, Inl _) \<Rightarrow> h1 | (h1, Inr _) \<Rightarrow> arm_heartbeat h1)"

definition wait_deadline :: "nat \<Rightarrow> bytes res \<Rightarrow> host \<Rightarrow> host" where
  "wait_deadline i observed h = (case map_of (ho_store h) i of
     None \<Rightarrow> h
   | Some r \<Rightarrow> if rq_released r then h else (case refresh observed h of
       (h1, Inl _) \<Rightarrow> h1
     | (h1, Inr _) \<Rightarrow> (case map_of (ho_store h1) i of
         None \<Rightarrow> h1
       | Some r1 \<Rightarrow> if rq_released r1 then h1 else finish_request i (AWake ''deadline'' (ho_revision h1)) h1)))"

definition of_channel :: "host \<Rightarrow> nat \<Rightarrow> nat \<Rightarrow> bool" where
  "of_channel h cid i = (case map_of (ho_store h) i of None \<Rightarrow> False | Some r \<Rightarrow> rq_channel r = cid)"

definition detach_channel :: "nat \<Rightarrow> host \<Rightarrow> host" where
  "detach_channel cid h = (case map_of (ho_channels h) cid of
     None \<Rightarrow> h
   | Some c \<Rightarrow>
       let h1 = finish_all (List.map_filter id [ch_ordinary c, ch_cleanup c]) (AError ''HOST_CHANNEL_CLOSED'') h in
       h1\<lparr>ho_queue := filter (\<lambda>i. \<not> of_channel h1 cid i) (ho_queue h1),
          ho_cleanups := filter (\<lambda>i. \<not> of_channel h1 cid i) (ho_cleanups h1),
          ho_channels := filter (\<lambda>(j, _). j \<noteq> cid) (ho_channels h1)\<rparr>)"

definition detach :: "host \<Rightarrow> nat \<Rightarrow> nat \<Rightarrow> host \<times> unit res" where
  "detach h caller cid = (case ho_owner h caller of Inl e \<Rightarrow> (h, Inl e) | Inr _ \<Rightarrow> (detach_channel cid h, Inr ()))"

definition close :: "host \<Rightarrow> nat \<Rightarrow> host \<times> unit res" where
  "close h caller = (case ho_owner h caller of
     Inl e \<Rightarrow> (h, Inl e)
   | Inr _ \<Rightarrow> if ho_state h = HClosed then (h, Inr ())
     else ((fold detach_channel (map fst (ho_channels h)) h)\<lparr>ho_state := HClosed, ho_scheduled := False, ho_heartbeat := False\<rparr>, Inr ()))"

end
