(* ===== verification/HostProps.thy ===== *)
theory HostProps
  imports EventHost "HOL-Library.Code_Target_Nat"
begin

text \<open>
  What the event host guarantees in every reachable state: its counters are the live requests and stay within the limits, every
  live request occupies exactly the slot of its channel, a changed observation answers every waiter, and shutdown answers every
  request.
\<close>

section \<open>Invariant\<close>

definition slot :: "pending_request \<Rightarrow> channel \<Rightarrow> nat option" where
  "slot r c = (if rq_operation r = ''cancel'' then ch_cleanup c else ch_ordinary c)"

definition ordinary :: "pending_request \<Rightarrow> bool" where
  "ordinary r \<longleftrightarrow> \<not> rq_released r \<and> rq_operation r \<noteq> ''cancel''"

definition total_of :: "(pending_request \<Rightarrow> int) \<Rightarrow> (nat \<times> pending_request) list \<Rightarrow> int" where
  "total_of w rs = sum_list (map (\<lambda>(j, r). if ordinary r then w r else 0) rs)"

definition keys_ok :: "host \<Rightarrow> bool" where
  "keys_ok h \<longleftrightarrow> distinct (map fst (ho_store h)) \<and> distinct (map fst (ho_channels h))"

definition slots_ok :: "host \<Rightarrow> bool" where
  "slots_ok h \<longleftrightarrow> (\<forall>i r. map_of (ho_store h) i = Some r \<longrightarrow> \<not> rq_released r \<longrightarrow>
     (\<exists>c. map_of (ho_channels h) (rq_channel r) = Some c \<and> slot r c = Some i))"

definition holds :: "host \<Rightarrow> nat \<Rightarrow> bool \<Rightarrow> nat \<Rightarrow> bool" where
  "holds h cid cleanup i \<longleftrightarrow> (\<exists>r. map_of (ho_store h) i = Some r \<and> \<not> rq_released r \<and> rq_channel r = cid
     \<and> (rq_operation r = ''cancel'') = cleanup)"

definition holders_ok :: "host \<Rightarrow> bool" where
  "holders_ok h \<longleftrightarrow> (\<forall>cid c i. map_of (ho_channels h) cid = Some c \<longrightarrow>
     (ch_ordinary c = Some i \<longrightarrow> holds h cid False i) \<and> (ch_cleanup c = Some i \<longrightarrow> holds h cid True i))"

definition waiters_ok :: "host \<Rightarrow> bool" where
  "waiters_ok h \<longleftrightarrow> distinct (map fst (ho_waiters h)) \<and> (\<forall>(cid, i) \<in> set (ho_waiters h).
     \<exists>r. map_of (ho_store h) i = Some r \<and> ordinary r \<and> rq_channel r = cid)"

definition counts_ok :: "host \<Rightarrow> bool" where
  "counts_ok h \<longleftrightarrow> ho_requests h = total_of (\<lambda>_. 1) (ho_store h) \<and> ho_bytes h = total_of (\<lambda>r. int (rq_size r)) (ho_store h)
     \<and> ho_requests h \<le> int (ho_max_requests h) \<and> ho_bytes h \<le> int (ho_max_bytes h)
     \<and> length (ho_channels h) \<le> ho_max_channels h"

definition core_ok :: "host \<Rightarrow> bool" where
  "core_ok h \<longleftrightarrow> keys_ok h \<and> slots_ok h \<and> holders_ok h \<and> waiters_ok h \<and> counts_ok h"

text \<open>A request is released exactly when its future is done.\<close>

definition futures_ok :: "host \<Rightarrow> bool" where
  "futures_ok h \<longleftrightarrow> (\<forall>(i, r) \<in> set (ho_store h). rq_released r \<longleftrightarrow> rq_future r \<noteq> Pending)"

lemma slots_at:
  "slots_ok h \<Longrightarrow> map_of (ho_store h) i = Some r \<Longrightarrow> \<not> rq_released r \<Longrightarrow>
    \<exists>c. map_of (ho_channels h) (rq_channel r) = Some c \<and> slot r c = Some i"
  unfolding slots_ok_def by blast

lemma map_of_edit: "map_of (map (\<lambda>(j, r). (j, if j = i then f r else r)) xs) k = map_option (if k = i then f else id) (map_of xs k)"
  by (induction xs) (auto simp: option.map_id0)

lemma fst_edit [simp]: "fst \<circ> (\<lambda>(j, r). (j, if j = i then f r else r)) = fst"
  by auto

lemma total_edit:
  assumes "distinct (map fst xs)" "map_of xs i = Some r"
  shows "total_of w (map (\<lambda>(j, r). (j, if j = i then f r else r)) xs)
    = total_of w xs - (if ordinary r then w r else 0) + (if ordinary (f r) then w (f r) else 0)"
  using assms
proof (induction xs)
  case (Cons x xs)
  have "total_of w (map (\<lambda>(j, r). (j, if j = i then f r else r)) ys) = total_of w ys" if "i \<notin> fst ` set ys" for ys
    using that by (induction ys) (auto simp: total_of_def)
  then show ?case using Cons by (cases x) (auto simp: total_of_def)
qed simp

lemma edit_request_fields [simp]:
  "ho_channels (edit_request i f h) = ho_channels h" "ho_queue (edit_request i f h) = ho_queue h"
  "ho_cleanups (edit_request i f h) = ho_cleanups h" "ho_waiters (edit_request i f h) = ho_waiters h"
  "ho_requests (edit_request i f h) = ho_requests h" "ho_bytes (edit_request i f h) = ho_bytes h"
  "ho_max_requests (edit_request i f h) = ho_max_requests h" "ho_max_bytes (edit_request i f h) = ho_max_bytes h"
  "ho_max_channels (edit_request i f h) = ho_max_channels h" "ho_state (edit_request i f h) = ho_state h"
  "ho_revision (edit_request i f h) = ho_revision h" "ho_identity (edit_request i f h) = ho_identity h"
  by (simp_all add: edit_request_def)

lemma edit_channel_fields [simp]:
  "ho_store (edit_channel i g h) = ho_store h" "ho_queue (edit_channel i g h) = ho_queue h"
  "ho_cleanups (edit_channel i g h) = ho_cleanups h" "ho_waiters (edit_channel i g h) = ho_waiters h"
  "ho_requests (edit_channel i g h) = ho_requests h" "ho_bytes (edit_channel i g h) = ho_bytes h"
  "ho_max_requests (edit_channel i g h) = ho_max_requests h" "ho_max_bytes (edit_channel i g h) = ho_max_bytes h"
  "ho_max_channels (edit_channel i g h) = ho_max_channels h" "ho_state (edit_channel i g h) = ho_state h"
  "ho_revision (edit_channel i g h) = ho_revision h" "ho_identity (edit_channel i g h) = ho_identity h"
  by (simp_all add: edit_channel_def)

lemma store_edit: "map_of (ho_store (edit_request i f h)) k = map_option (if k = i then f else id) (map_of (ho_store h) k)"
  by (simp add: edit_request_def map_of_edit)

lemma channels_edit: "map_of (ho_channels (edit_channel i g h)) k = map_option (if k = i then g else id) (map_of (ho_channels h) k)"
  by (simp add: edit_channel_def map_of_edit)

section \<open>Release\<close>

text \<open>The effect of releasing a live request.\<close>

lemma release_live:
  assumes "map_of (ho_store h) i = Some r" "\<not> rq_released r"
  shows "ho_store (release i h) = ho_store (edit_request i (\<lambda>r. r\<lparr>rq_released := True, rq_timer := False\<rparr>) h)"
    and "ho_channels (release i h) = ho_channels (edit_channel (rq_channel r) (\<lambda>c. if rq_operation r = ''cancel''
      then (if ch_cleanup c = Some i then c\<lparr>ch_cleanup := None\<rparr> else c)
      else (if ch_ordinary c = Some i then c\<lparr>ch_ordinary := None\<rparr> else c)) h)"
    and "ho_waiters (release i h) = (if map_of (ho_waiters h) (rq_channel r) = Some i
      then filter (\<lambda>(c, _). c \<noteq> rq_channel r) (ho_waiters h) else ho_waiters h)"
    and "ho_requests (release i h) = ho_requests h - (if ordinary r then 1 else 0)"
    and "ho_bytes (release i h) = ho_bytes h - (if ordinary r then int (rq_size r) else 0)"
  using assms by (auto simp: release_def Let_def ordinary_def edit_request_def edit_channel_def)

lemma release_same [simp]:
  "ho_max_requests (release i h) = ho_max_requests h" "ho_max_bytes (release i h) = ho_max_bytes h"
  "ho_max_channels (release i h) = ho_max_channels h" "ho_state (release i h) = ho_state h"
  "ho_revision (release i h) = ho_revision h" "ho_identity (release i h) = ho_identity h"
  "ho_queue (release i h) = ho_queue h" "ho_cleanups (release i h) = ho_cleanups h"
  by (auto simp: release_def Let_def edit_request_def edit_channel_def split: option.splits)

lemma release_idle: "map_of (ho_store h) i = None \<or> (\<exists>r. map_of (ho_store h) i = Some r \<and> rq_released r) \<Longrightarrow> release i h = h"
  by (auto simp: release_def)

lemma total_released: "\<forall>(i, r) \<in> set xs. rq_released r \<Longrightarrow> total_of w xs = 0"
  by (induction xs) (auto simp: total_of_def ordinary_def)

lemma total_nonneg: "(\<And>r. 0 \<le> w r) \<Longrightarrow> 0 \<le> total_of w xs"
  unfolding total_of_def by (rule sum_list_nonneg) auto

definition clear_slot :: "nat \<Rightarrow> pending_request \<Rightarrow> channel \<Rightarrow> channel" where
  "clear_slot i r c = (if rq_operation r = ''cancel''
      then (if ch_cleanup c = Some i then c\<lparr>ch_cleanup := None\<rparr> else c)
      else (if ch_ordinary c = Some i then c\<lparr>ch_ordinary := None\<rparr> else c))"

lemma clear_slot_other: "slot r' c = Some k \<Longrightarrow> k \<noteq> i \<Longrightarrow> slot r' (clear_slot i r c) = Some k"
  by (auto simp: slot_def clear_slot_def split: if_splits)

lemma release_slots:
  assumes "slots_ok h" "map_of (ho_store h) i = Some r" "\<not> rq_released r"
  shows "slots_ok (release i h)"
  unfolding slots_ok_def
proof (intro allI impI)
  note e = release_live [OF assms(2,3), folded clear_slot_def]
  fix k r' assume r': "map_of (ho_store (release i h)) k = Some r'" "\<not> rq_released r'"
  then have k: "k \<noteq> i" "map_of (ho_store h) k = Some r'" by (auto simp: e store_edit split: if_splits)
  then obtain c where c: "map_of (ho_channels h) (rq_channel r') = Some c" "slot r' c = Some k"
    using assms(1) r'(2) by (auto simp: slots_ok_def)
  show "\<exists>c. map_of (ho_channels (release i h)) (rq_channel r') = Some c \<and> slot r' c = Some k"
    using c clear_slot_other [OF c(2) k(1), of r] by (auto simp: e channels_edit)
qed

lemma release_holders:
  assumes "holders_ok h" "map_of (ho_store h) i = Some r" "\<not> rq_released r"
  shows "holders_ok (release i h)"
  unfolding holders_ok_def
proof (intro allI impI)
  note e = release_live [OF assms(2,3), folded clear_slot_def]
  have keep: "holds (release i h) cid b k" if "holds h cid b k" "k \<noteq> i" for cid b k
    using that by (auto simp: holds_def e store_edit)
  fix cid c' k assume "map_of (ho_channels (release i h)) cid = Some c'"
  then obtain c where c: "map_of (ho_channels h) cid = Some c" "c' = (if cid = rq_channel r then clear_slot i r c else c)"
    by (auto simp: e channels_edit split: if_splits)
  have hold: "ch_ordinary c = Some k \<Longrightarrow> holds h cid False k" "ch_cleanup c = Some k \<Longrightarrow> holds h cid True k"
    using assms(1) c(1) by (auto simp: holders_ok_def)
  have i: "holds h cid b i \<Longrightarrow> cid = rq_channel r \<and> b = (rq_operation r = ''cancel'')" for b
    using assms(2) by (auto simp: holds_def)
  show "(ch_ordinary c' = Some k \<longrightarrow> holds (release i h) cid False k) \<and> (ch_cleanup c' = Some k \<longrightarrow> holds (release i h) cid True k)"
    using c(2) hold i keep by (auto simp: clear_slot_def split: if_splits)
qed

lemma release_waiters:
  assumes "waiters_ok h" "map_of (ho_store h) i = Some r" "\<not> rq_released r"
  shows "waiters_ok (release i h)"
proof -
  note e = release_live [OF assms(2,3)]
  have "distinct (map fst (ho_waiters (release i h)))"
    using assms(1) by (simp add: e waiters_ok_def distinct_map_filter)
  moreover have "\<exists>r'. map_of (ho_store (release i h)) k = Some r' \<and> ordinary r' \<and> rq_channel r' = cid"
    if w: "(cid, k) \<in> set (ho_waiters (release i h))" for cid k
  proof -
    have kin: "(cid, k) \<in> set (ho_waiters h)" using w by (auto simp: e split: if_splits)
    then obtain r' where r': "map_of (ho_store h) k = Some r'" "ordinary r'" "rq_channel r' = cid"
      using assms(1) by (fastforce simp: waiters_ok_def)
    have "k \<noteq> i"
    proof
      assume "k = i"
      then have "map_of (ho_waiters h) (rq_channel r) = Some i" "cid = rq_channel r"
        using r' kin assms(1,2) by (auto simp: waiters_ok_def)
      then show False using w by (auto simp: e)
    qed
    then show ?thesis using r' by (auto simp: e store_edit)
  qed
  ultimately show ?thesis by (auto simp: waiters_ok_def)
qed

lemma release_counts:
  assumes "counts_ok h" "keys_ok h" "map_of (ho_store h) i = Some r" "\<not> rq_released r"
  shows "counts_ok (release i h)"
proof -
  note e = release_live [OF assms(3,4)]
  have t: "total_of w (ho_store (release i h)) = total_of w (ho_store h) - (if ordinary r then w r else 0)" for w
    using total_edit [OF _ assms(3)] assms(2) by (simp add: e edit_request_def keys_ok_def ordinary_def)
  have len: "length (ho_channels (release i h)) = length (ho_channels h)" by (simp add: e edit_channel_def)
  show ?thesis using assms(1) len by (auto simp: counts_ok_def t e(4,5))
qed

lemma release_core: "core_ok h \<Longrightarrow> core_ok (release i h)"
proof (cases "map_of (ho_store h) i = None \<or> (\<exists>r. map_of (ho_store h) i = Some r \<and> rq_released r)")
  case False
  assume ok: "core_ok h"
  obtain r where r: "map_of (ho_store h) i = Some r" "\<not> rq_released r" using False by auto
  have "keys_ok (release i h)"
    using ok by (simp add: core_ok_def keys_ok_def release_live [OF r] edit_request_def edit_channel_def)
  then show "core_ok (release i h)"
    using ok r by (simp add: core_ok_def release_slots release_holders release_waiters release_counts)
qed (simp add: release_idle)

text \<open>Editing the future, the timer, or a channel outside its slots keeps the invariant.\<close>

lemma edit_request_core:
  assumes "core_ok h" "\<And>r. rq_released (f r) = rq_released r \<and> rq_operation (f r) = rq_operation r \<and> rq_channel (f r) = rq_channel r
    \<and> rq_size (f r) = rq_size r"
  shows "core_ok (edit_request i f h)"
proof -
  have same: "slot (f r) c = slot r c" "ordinary (f r) = ordinary r" for r c using assms(2) by (simp_all add: slot_def ordinary_def)
  have t: "total_of (\<lambda>_. 1) (ho_store (edit_request i f h)) = total_of (\<lambda>_. 1) (ho_store h)"
    "total_of (\<lambda>r. int (rq_size r)) (ho_store (edit_request i f h)) = total_of (\<lambda>r. int (rq_size r)) (ho_store h)"
    unfolding total_of_def edit_request_def
    by (auto simp: assms(2) same comp_def split_beta intro!: arg_cong [where f = sum_list])
  have h: "holds (edit_request i f h) cid b k \<longleftrightarrow> holds h cid b k" for cid b k
    by (auto simp: holds_def store_edit assms(2) split: if_splits)
  have "keys_ok (edit_request i f h)" using assms(1) by (simp add: core_ok_def keys_ok_def edit_request_def)
  moreover have "slots_ok (edit_request i f h)"
    using assms(1) by (fastforce simp: core_ok_def slots_ok_def store_edit assms(2) same split: if_splits)
  moreover have "holders_ok (edit_request i f h)" using assms(1) by (simp add: core_ok_def holders_ok_def h)
  moreover have "waiters_ok (edit_request i f h)"
    using assms(1) by (fastforce simp: core_ok_def waiters_ok_def store_edit assms(2) same split: if_splits)
  moreover have "counts_ok (edit_request i f h)" using assms(1) by (simp add: core_ok_def counts_ok_def t)
  ultimately show ?thesis by (simp add: core_ok_def)
qed

lemma edit_channel_core:
  assumes "core_ok h" "\<And>c. ch_ordinary (g c) = ch_ordinary c \<and> ch_cleanup (g c) = ch_cleanup c"
  shows "core_ok (edit_channel i g h)"
proof -
  have same: "slot r (g c) = slot r c" for r c using assms(2) by (simp add: slot_def)
  have h: "holds (edit_channel i g h) cid b k \<longleftrightarrow> holds h cid b k" for cid b k by (simp add: holds_def)
  have "keys_ok (edit_channel i g h)" using assms(1) by (simp add: core_ok_def keys_ok_def edit_channel_def)
  moreover have "slots_ok (edit_channel i g h)"
    using assms(1) by (fastforce simp: core_ok_def slots_ok_def channels_edit same)
  moreover have "holders_ok (edit_channel i g h)"
    using assms(1) unfolding core_ok_def holders_ok_def h channels_edit by (auto simp: assms(2) split: if_splits)
  moreover have "waiters_ok (edit_channel i g h)" using assms(1) by (simp add: core_ok_def waiters_ok_def)
  moreover have "counts_ok (edit_channel i g h)" using assms(1) by (simp add: core_ok_def counts_ok_def edit_channel_def)
  ultimately show ?thesis by (simp add: core_ok_def)
qed

section \<open>Operations\<close>

definition host_ok :: "host \<Rightarrow> bool" where
  "host_ok h \<longleftrightarrow> core_ok h \<and> futures_ok h"

lemma futures_map_of: "distinct (map fst (ho_store h)) \<Longrightarrow>
    futures_ok h \<longleftrightarrow> (\<forall>i r. map_of (ho_store h) i = Some r \<longrightarrow> (rq_released r \<longleftrightarrow> rq_future r \<noteq> Pending))"
  by (auto simp: futures_ok_def map_of_eq_Some_iff)

lemma host_ok_frame:
  assumes "host_ok h" "ho_store h' = ho_store h" "ho_channels h' = ho_channels h" "ho_waiters h' = ho_waiters h"
    and "ho_requests h' = ho_requests h" "ho_bytes h' = ho_bytes h" "ho_max_requests h' = ho_max_requests h"
    and "ho_max_bytes h' = ho_max_bytes h" "ho_max_channels h' = ho_max_channels h"
  shows "host_ok h'"
  using assms(1)
  unfolding host_ok_def core_ok_def keys_ok_def slots_ok_def holders_ok_def holds_def waiters_ok_def counts_ok_def futures_ok_def
    assms(2-)
  by assumption

lemma release_store: "map_of (ho_store (release i h)) k =
    map_option (if k = i then \<lambda>r. if rq_released r then r else r\<lparr>rq_released := True, rq_timer := False\<rparr> else id) (map_of (ho_store h) k)"
proof (cases "map_of (ho_store h) i = None \<or> (\<exists>r. map_of (ho_store h) i = Some r \<and> rq_released r)")
  case True then show ?thesis by (auto simp: release_idle option.map_id0 map_option_case split: option.splits)
next
  case False
  then obtain r where "map_of (ho_store h) i = Some r" "\<not> rq_released r" by auto
  then show ?thesis by (auto simp: release_live store_edit)
qed

definition answered :: "answer \<Rightarrow> pending_request \<Rightarrow> pending_request" where
  "answered a r = (let r1 = (if rq_released r then r else r\<lparr>rq_released := True, rq_timer := False\<rparr>) in
     if rq_future r = Pending then r1\<lparr>rq_future := Settled a\<rparr> else r1)"

lemma answered_done [simp]: "rq_released (answered a r)" "rq_future (answered a r) \<noteq> Pending"
  by (simp_all add: answered_def Let_def)

lemma finish_store: "map_of (ho_store (finish_request i a h)) k = map_option (if k = i then answered a else id) (map_of (ho_store h) k)"
  by (cases "map_of (ho_store h) k") (auto simp: finish_request_def store_edit release_store answered_def Let_def)

lemma core_keys: "core_ok h \<Longrightarrow> distinct (map fst (ho_store h))"
  by (simp add: core_ok_def keys_ok_def)

lemma finish_request_ok: "host_ok h \<Longrightarrow> host_ok (finish_request i a h)"
proof -
  assume ok: "host_ok h"
  have core: "core_ok (finish_request i a h)"
    unfolding finish_request_def using ok by (intro edit_request_core release_core) (auto simp: host_ok_def)
  have fut: "\<forall>i r. map_of (ho_store h) i = Some r \<longrightarrow> (rq_released r \<longleftrightarrow> rq_future r \<noteq> Pending)"
    using ok futures_map_of [of h] core_keys [of h] by (simp add: host_ok_def)
  have "futures_ok (finish_request i a h)"
    unfolding futures_map_of [OF core_keys [OF core]] finish_store using fut by (auto split: if_splits)
  then show ?thesis using core by (simp add: host_ok_def)
qed

lemma finish_all_ok: "host_ok h \<Longrightarrow> host_ok (finish_all is a h)"
  unfolding finish_all_def by (induction "is" arbitrary: h) (auto intro: finish_request_ok)

lemma refresh_cases:
  obtains (same) "refresh observed h = (h\<lparr>ho_observations := Suc (ho_observations h)\<rparr>, Inr ())" "observed = Inr (ho_stamp h)"
  | (woke) stamp where "refresh observed h = (finish_all (map snd (ho_waiters h)) (AWake ''changed'' (ho_revision h + 1))
      (h\<lparr>ho_observations := Suc (ho_observations h), ho_revision := ho_revision h + 1, ho_stamp := stamp\<rparr>), Inr ())"
      "observed = Inr stamp" "stamp \<noteq> ho_stamp h"
  | (failed) code where "refresh observed h = (finish_all (map snd (ho_waiters h)) (AError code)
      (h\<lparr>ho_observations := Suc (ho_observations h), ho_state := HFailed, ho_fault := Some code\<rparr>), event_fail code)"
proof (cases observed)
  case (Inl e) then show thesis by (intro failed) (simp add: refresh_def Let_def)
next
  case (Inr b)
  show thesis
  proof (cases "b = ho_stamp h")
    case True then show thesis using Inr by (intro same) (simp_all add: refresh_def Let_def)
  next
    case new: False
    show thesis
    proof (cases "ho_revision h < 2 ^ 64 - 1")
      case True then show thesis using Inr new by (intro woke) (simp_all add: refresh_def Let_def)
    next
      case False then show thesis using Inr new by (intro failed) (simp add: refresh_def Let_def)
    qed
  qed
qed

lemma refresh_ok: "host_ok h \<Longrightarrow> host_ok (fst (refresh observed h))"
  by (cases rule: refresh_cases [of observed h]) (auto intro!: finish_all_ok elim!: host_ok_frame)

lemma edit_channel_ok:
  "host_ok h \<Longrightarrow> (\<And>c. ch_ordinary (g c) = ch_ordinary c \<and> ch_cleanup (g c) = ch_cleanup c) \<Longrightarrow> host_ok (edit_channel i g h)"
  using edit_channel_core [of h g i] by (simp add: host_ok_def futures_ok_def)

text \<open>Sub-steps of a dispatch.\<close>

lemma edit_timer_ok: "host_ok h \<Longrightarrow> host_ok (edit_request i (\<lambda>r. r\<lparr>rq_timer := b\<rparr>) h)"
proof -
  assume ok: "host_ok h"
  have core: "core_ok (edit_request i (\<lambda>r. r\<lparr>rq_timer := b\<rparr>) h)" using ok by (intro edit_request_core) (auto simp: host_ok_def)
  have "futures_ok (edit_request i (\<lambda>r. r\<lparr>rq_timer := b\<rparr>) h)"
    using ok futures_map_of [of h] core_keys [of h] unfolding futures_map_of [OF core_keys [OF core]] store_edit host_ok_def
    by (auto split: if_splits)
  then show ?thesis using core by (simp add: host_ok_def)
qed

lemma arm_ok: "host_ok h \<Longrightarrow> host_ok (arm_heartbeat h)"
  by (auto simp: arm_heartbeat_def elim!: host_ok_frame)

lemma schedule_ok: "host_ok h \<Longrightarrow> host_ok (schedule_drain h)"
  by (auto simp: schedule_drain_def elim!: host_ok_frame)

lemma add_waiter_ok:
  assumes "host_ok h" "map_of (ho_store h) i = Some r" "ordinary r"
  shows "host_ok (h\<lparr>ho_waiters := AList.update (rq_channel r) i (ho_waiters h)\<rparr>)"
proof -
  let ?h = "h\<lparr>ho_waiters := AList.update (rq_channel r) i (ho_waiters h)\<rparr>"
  have "waiters_ok h" using assms(1) by (simp add: host_ok_def core_ok_def)
  moreover have "(cid, k) \<in> set (AList.update (rq_channel r) i (ho_waiters h)) \<Longrightarrow> (cid, k) = (rq_channel r, i) \<or> (cid, k) \<in> set (ho_waiters h)" for cid k
    using update_pairs by fastforce
  ultimately have "waiters_ok ?h" using assms(2,3) unfolding waiters_ok_def by (auto simp: distinct_update) blast
  then show ?thesis using assms(1)
    by (auto simp: host_ok_def core_ok_def keys_ok_def slots_ok_def holders_ok_def holds_def counts_ok_def futures_ok_def)
qed

section \<open>Queues\<close>

definition queue_ok :: "host \<Rightarrow> bool" where
  "queue_ok h \<longleftrightarrow> distinct (ho_queue h) \<and> (\<forall>i \<in> set (ho_queue h). map_of (ho_store h) i \<noteq> None)
     \<and> (\<forall>i \<in> set (ho_queue h). i \<notin> snd ` set (ho_waiters h))
     \<and> (\<forall>i \<in> set (ho_cleanups h). map_option rq_operation (map_of (ho_store h) i) = Some ''cancel'')"

definition full_ok :: "host \<Rightarrow> bool" where
  "full_ok h \<longleftrightarrow> host_ok h \<and> queue_ok h"

text \<open>What the answering operations leave as it was: the queues, the known requests and every request they do not name; the
  waiters only become fewer.\<close>

definition calm :: "nat set \<Rightarrow> host \<Rightarrow> host \<Rightarrow> bool" where
  "calm I h h' \<longleftrightarrow> ho_queue h' = ho_queue h \<and> ho_cleanups h' = ho_cleanups h \<and> set (ho_waiters h') \<subseteq> set (ho_waiters h)
     \<and> (\<forall>k. map_option rq_operation (map_of (ho_store h') k) = map_option rq_operation (map_of (ho_store h) k))
     \<and> (\<forall>k. k \<notin> I \<longrightarrow> map_of (ho_store h') k = map_of (ho_store h) k)"

lemma calm_refl [simp]: "calm I h h"
  by (simp add: calm_def)

lemma calm_trans: "calm I h h' \<Longrightarrow> calm I h' h'' \<Longrightarrow> calm I h h''"
  by (auto simp: calm_def)

lemma calm_mono: "calm I h h' \<Longrightarrow> I \<subseteq> J \<Longrightarrow> calm J h h'"
  by (auto simp: calm_def)

lemma calm_queue:
  assumes "queue_ok h" "calm I h h'"
  shows "queue_ok h'"
proof -
  have c: "map_option rq_operation (map_of (ho_store h') k) = map_option rq_operation (map_of (ho_store h) k)" for k
    using assms(2) by (simp add: calm_def)
  then have n: "map_of (ho_store h') k = None \<longleftrightarrow> map_of (ho_store h) k = None" for k
    by (metis option.map_disc_iff)
  have q: "ho_queue h' = ho_queue h" "ho_cleanups h' = ho_cleanups h" and w: "set (ho_waiters h') \<subseteq> set (ho_waiters h)"
    using assms(2) by (simp_all add: calm_def)
  have "i \<notin> snd ` set (ho_waiters h')" if "i \<in> set (ho_queue h)" for i
    using that assms(1) image_mono [OF w, of snd] unfolding queue_ok_def by fast
  then show ?thesis using assms(1) unfolding queue_ok_def q c n by fast
qed

lemma release_waiters_subset: "set (ho_waiters (release i h)) \<subseteq> set (ho_waiters h)"
  by (auto simp: release_def Let_def edit_request_def edit_channel_def split: option.splits if_splits)

lemma answered_operation [simp]: "rq_operation (answered a r) = rq_operation r" "rq_channel (answered a r) = rq_channel r"
  by (simp_all add: answered_def Let_def)

lemma finish_calm: "calm {i} h (finish_request i a h)"
  using release_waiters_subset [of i h] unfolding calm_def finish_store by (auto simp: finish_request_def option.map_id option.map_comp comp_def)

lemma finish_all_calm: "calm (set is) h (finish_all is a h)"
proof (induction "is" arbitrary: h)
  case (Cons i "is")
  have "calm (insert i (set is)) h (finish_request i a h)" by (rule calm_mono [OF finish_calm]) simp
  moreover have "calm (insert i (set is)) (finish_request i a h) (finish_all is a (finish_request i a h))"
    by (rule calm_mono [OF Cons]) auto
  ultimately show ?case by (auto simp: finish_all_def intro: calm_trans)
qed (simp add: finish_all_def)

lemma refresh_calm: "calm (snd ` set (ho_waiters h)) h (fst (refresh observed h))"
proof (cases rule: refresh_cases [of observed h])
  case same then show ?thesis by (simp add: calm_def)
next
  case (woke stamp)
  then show ?thesis
    using finish_all_calm [of "map snd (ho_waiters h)" "h\<lparr>ho_observations := Suc (ho_observations h), ho_revision := ho_revision h + 1,
        ho_stamp := stamp\<rparr>" "AWake ''changed'' (ho_revision h + 1)"] by (simp add: calm_def)
next
  case (failed code)
  then show ?thesis
    using finish_all_calm [of "map snd (ho_waiters h)" "h\<lparr>ho_observations := Suc (ho_observations h), ho_state := HFailed,
        ho_fault := Some code\<rparr>" "AError code"] by (simp add: calm_def)
qed

section \<open>Dispatch keeps the invariant\<close>

lemma full_ok_frame:
  assumes "full_ok h" "host_ok h'" "calm I h h'"
  shows "full_ok h'"
  using assms calm_queue by (auto simp: full_ok_def)

lemma finish_full: "full_ok h \<Longrightarrow> full_ok (finish_request i a h)"
  using full_ok_frame [OF _ _ finish_calm] finish_request_ok by (auto simp: full_ok_def)

lemma finish_all_full: "full_ok h \<Longrightarrow> full_ok (finish_all is a h)"
  using full_ok_frame [OF _ _ finish_all_calm] finish_all_ok by (auto simp: full_ok_def)

lemma refresh_full: "full_ok h \<Longrightarrow> full_ok (fst (refresh observed h))"
  using full_ok_frame [OF _ _ refresh_calm] refresh_ok by (auto simp: full_ok_def)

lemma edit_channel_full:
  "full_ok h \<Longrightarrow> (\<And>c. ch_ordinary (g c) = ch_ordinary c \<and> ch_cleanup (g c) = ch_cleanup c) \<Longrightarrow> full_ok (edit_channel i g h)"
  using edit_channel_ok [of h g i] by (simp add: full_ok_def queue_ok_def)

lemma arm_full: "full_ok h \<Longrightarrow> full_ok (arm_heartbeat h)"
  using arm_ok [of h] by (simp add: full_ok_def queue_ok_def arm_heartbeat_def)

lemma schedule_full: "full_ok h \<Longrightarrow> full_ok (schedule_drain h)"
  using schedule_ok [of h] by (simp add: full_ok_def queue_ok_def schedule_drain_def)

lemma dispatch_cancel_full: "full_ok h \<Longrightarrow> full_ok (fst (dispatch_cancel i r c h))"
  by (auto simp: dispatch_cancel_def Let_def intro!: finish_full edit_channel_full split: sum.splits option.splits)

lemma dispatch_port_full: "full_ok h \<Longrightarrow> full_ok (fst (dispatch_port env i r h))"
proof -
  let ?h1 = "edit_channel (rq_channel r) (\<lambda>c. c\<lparr>ch_session := tn_session env, ch_sub := tn_sub env\<rparr>) h"
  assume "full_ok h"
  then have h1: "full_ok ?h1" by (intro edit_channel_full) auto
  then have "full_ok (fst (refresh (tn_second env) ?h1))" by (rule refresh_full)
  then show ?thesis using h1
    by (auto simp: dispatch_port_def Let_def intro!: finish_full edit_channel_full split: sum.splits prod.splits option.splits)
qed

lemma dispatch_wait_full:
  assumes "full_ok h" "map_of (ho_store h) i = Some r" "ordinary r" "i \<notin> set (ho_queue h)"
  shows "full_ok (fst (dispatch_wait env i r c h))"
proof -
  let ?h1 = "edit_channel (rq_channel r) (\<lambda>c. c\<lparr>ch_ticket := None\<rparr>) h"
  let ?w = "?h1\<lparr>ho_waiters := AList.update (rq_channel r) i (ho_waiters ?h1)\<rparr>"
  let ?h2 = "edit_request i (\<lambda>r. r\<lparr>rq_timer := True\<rparr>) ?w"
  have h1: "full_ok ?h1" using assms(1) by (intro edit_channel_full) auto
  then have "host_ok ?w" using assms(2,3) by (intro add_waiter_ok) (auto simp: full_ok_def)
  then have "host_ok ?h2" by (rule edit_timer_ok)
  moreover have "queue_ok ?h2"
    using assms(1,4) unfolding queue_ok_def store_edit full_ok_def
    by (auto dest!: update_pairs split: if_splits)
  ultimately have "full_ok (fst (refresh (tn_second env) ?h2))" by (intro refresh_full) (simp add: full_ok_def)
  then show ?thesis using assms(1) h1
    by (auto simp: dispatch_wait_def Let_def intro!: finish_full arm_full split: sum.splits prod.splits)
qed

lemma dispatch_full:
  assumes "full_ok h" "map_of (ho_store h) i = Some r" "\<not> rq_released r"
    and "rq_operation r \<noteq> ''cancel'' \<Longrightarrow> i \<notin> set (ho_queue h) \<and> i \<notin> snd ` set (ho_waiters h)"
  shows "full_ok (dispatch_safely env i r h)"
proof -
  have h1: "full_ok (fst (refresh (tn_first env) h))" by (rule refresh_full [OF assms(1)])
  have c: "calm (snd ` set (ho_waiters h)) h (fst (refresh (tn_first env) h))" by (rule refresh_calm)
  have "full_ok (fst (dispatch env i r h))"
  proof (cases "rq_operation r = ''cancel''")
    case True
    then show ?thesis using assms(1) dispatch_cancel_full
      by (auto simp: dispatch_def split: sum.splits)
  next
    case False
    then have o: "ordinary r" using assms(3) by (simp add: ordinary_def)
    have "full_ok (fst (dispatch_wait env i r x (fst (refresh (tn_first env) h))))" for x
      using c assms(2) assms(4) [OF False] by (intro dispatch_wait_full h1 o) (simp_all add: calm_def)
    then show ?thesis using False assms(1) h1 dispatch_port_full [OF h1]
      by (auto simp: dispatch_def split: sum.splits prod.splits)
  qed
  then show ?thesis by (auto simp: dispatch_safely_def intro: finish_full split: prod.splits sum.splits)
qed

lemma pop_full:
  "full_ok h \<Longrightarrow> ho_queue h = i # rest \<Longrightarrow> full_ok (h\<lparr>ho_queue := rest\<rparr>) \<and> i \<notin> set rest \<and> i \<notin> snd ` set (ho_waiters h)"
  using host_ok_frame [of h "h\<lparr>ho_queue := rest\<rparr>"] by (auto simp: full_ok_def queue_ok_def)

lemma cleanup_full: "full_ok h \<Longrightarrow> set rest \<subseteq> set (ho_cleanups h) \<Longrightarrow> full_ok (h\<lparr>ho_cleanups := rest\<rparr>)"
  using host_ok_frame [of h "h\<lparr>ho_cleanups := rest\<rparr>"] by (auto simp: full_ok_def queue_ok_def)

lemma drain_loop_full: "full_ok h \<Longrightarrow> full_ok (drain_loop k env h)"
proof (induction k arbitrary: h)
  case (Suc k)
  show ?case
  proof (cases "if ho_cleanups h \<noteq> [] then ho_cleanups h else ho_queue h")
    case (Cons i rest)
    define h1 where "h1 = (if ho_cleanups h \<noteq> [] then h\<lparr>ho_cleanups := rest\<rparr> else h\<lparr>ho_queue := rest\<rparr>)"
    have ok: "full_ok h1" using Suc(2) Cons pop_full [of h i rest] cleanup_full [of h rest] by (auto simp: h1_def split: if_splits)
    have out: "i \<notin> set (ho_queue h1) \<and> i \<notin> snd ` set (ho_waiters h1)"
      if "map_of (ho_store h1) i = Some r" "rq_operation r \<noteq> ''cancel''" for r
      using that Cons Suc(2) pop_full [of h i rest] by (auto simp: h1_def full_ok_def queue_ok_def split: if_splits)
    have idle: "release i h1 = h1" if "map_of (ho_store h1) i = Some r" "rq_future r = FCancelled \<or> rq_released r" for r
    proof (rule release_idle)
      have "futures_ok h1" "distinct (map fst (ho_store h1))" using ok by (auto simp: full_ok_def host_ok_def core_keys)
      then show "map_of (ho_store h1) i = None \<or> (\<exists>r. map_of (ho_store h1) i = Some r \<and> rq_released r)"
        using that futures_map_of [of h1] by auto
    qed
    have "full_ok (case map_of (ho_store h1) i of None \<Rightarrow> h1
        | Some r \<Rightarrow> if rq_future r = FCancelled \<or> rq_released r then release i h1 else dispatch_safely (env k) i r h1)"
    proof (cases "map_of (ho_store h1) i")
      case (Some r)
      show ?thesis
      proof (cases "rq_future r = FCancelled \<or> rq_released r")
        case True then show ?thesis using Some idle [OF Some] ok by simp
      next
        case False then show ?thesis using Some dispatch_full [OF ok Some _ out [OF Some]] by simp
      qed
    qed (simp add: ok)
    then show ?thesis unfolding drain_loop.simps Cons list.case Let_def h1_def [symmetric] by (rule Suc(1))
  qed (use Suc(2) in simp)
qed simp

lemma drain_full: "full_ok h \<Longrightarrow> full_ok (drain env h)"
proof -
  assume "full_ok h"
  then have "full_ok (h\<lparr>ho_scheduled := False\<rparr>)"
    using host_ok_frame [of h "h\<lparr>ho_scheduled := False\<rparr>"] by (simp add: full_ok_def queue_ok_def)
  then show ?thesis using drain_loop_full [of "h\<lparr>ho_scheduled := False\<rparr>"] by (auto simp: drain_def Let_def intro: schedule_full)
qed

section \<open>Admission keeps the invariant\<close>

lemma fresh_id_new: "fresh_id h \<notin> fst ` set (ho_store h)"
proof -
  have "k \<in> set ks \<Longrightarrow> k \<le> foldr max ks 0" for k and ks :: "nat list" by (induction ks) auto
  then show ?thesis by (metis fresh_id_def not_less_eq_eq order_refl set_map)
qed

text \<open>A new request in a free slot of its channel.\<close>

lemma enqueue_core:
  assumes "core_ok h" "i \<notin> fst ` set (ho_store h)" "map_of (ho_channels h) (rq_channel r) = Some c" "slot r c = None" "\<not> rq_released r"
    and "g = (\<lambda>c. if rq_operation r = ''cancel'' then c\<lparr>ch_cleanup := Some i\<rparr> else c\<lparr>ch_ordinary := Some i\<rparr>)"
    and "ordinary r \<Longrightarrow> ho_requests h < int (ho_max_requests h) \<and> ho_bytes h + int (rq_size r) \<le> int (ho_max_bytes h)"
  shows "core_ok ((edit_channel (rq_channel r) g (h\<lparr>ho_store := ho_store h @ [(i, r)]\<rparr>))
    \<lparr>ho_requests := ho_requests h + (if ordinary r then 1 else 0), ho_bytes := ho_bytes h + (if ordinary r then int (rq_size r) else 0)\<rparr>)"
    (is "core_ok ?h")
proof -
  have new: "map_of (ho_store h) i = None" using assms(2) by (simp add: map_of_eq_None_iff)
  have store: "map_of (ho_store ?h) k = (if k = i then Some r else map_of (ho_store h) k)" for k
    using new by (simp add: map_add_def split: option.splits)
  have chans: "map_of (ho_channels ?h) k = map_option (if k = rq_channel r then g else id) (map_of (ho_channels h) k)" for k
    by (simp add: edit_channel_def map_of_edit)
  have keys: "keys_ok ?h" using assms(1,2) by (simp add: core_ok_def keys_ok_def edit_channel_def)
  have slots: "slots_ok ?h" unfolding slots_ok_def
  proof (intro allI impI)
    fix k r' assume r': "map_of (ho_store ?h) k = Some r'" "\<not> rq_released r'"
    show "\<exists>c. map_of (ho_channels ?h) (rq_channel r') = Some c \<and> slot r' c = Some k"
    proof (cases "k = i")
      case True
      then have "r' = r" using r'(1) unfolding store by simp
      then show ?thesis using True assms(3) unfolding chans by (simp add: assms(6) slot_def)
    next
      case False
      then have "map_of (ho_store h) k = Some r'" using r'(1) unfolding store by simp
      then obtain c' where c': "map_of (ho_channels h) (rq_channel r') = Some c'" "slot r' c' = Some k"
        using r'(2) assms(1) by (auto simp: core_ok_def slots_ok_def)
      moreover have "slot r' (g c') = Some k" if "rq_channel r' = rq_channel r"
        using that c' assms(3,4) by (auto simp: assms(6) slot_def split: if_splits)
      ultimately show ?thesis unfolding chans by auto
    qed
  qed
  have keep: "holds ?h cid b k" if "holds h cid b k" for cid b k
    using that new unfolding holds_def store by auto
  have self: "holds ?h (rq_channel r) (rq_operation r = ''cancel'') i" using assms(5) unfolding holds_def store by auto
  have "holders_ok ?h" unfolding holders_ok_def
  proof (intro allI impI)
    fix cid c' k assume "map_of (ho_channels ?h) cid = Some c'"
    then obtain c0 where c0: "map_of (ho_channels h) cid = Some c0" "c' = (if cid = rq_channel r then g c0 else c0)"
      unfolding chans by (auto split: if_splits)
    have "ch_ordinary c0 = Some k \<Longrightarrow> holds h cid False k" "ch_cleanup c0 = Some k \<Longrightarrow> holds h cid True k"
      using assms(1) c0(1) by (auto simp: core_ok_def holders_ok_def)
    then show "(ch_ordinary c' = Some k \<longrightarrow> holds ?h cid False k) \<and> (ch_cleanup c' = Some k \<longrightarrow> holds ?h cid True k)"
      using c0(2) keep self by (auto simp: assms(6) split: if_splits)
  qed
  moreover have "waiters_ok ?h" using assms(1) new unfolding core_ok_def waiters_ok_def store by (fastforce split: if_splits)
  moreover have "counts_ok ?h"
    using assms(1,7) by (auto simp: core_ok_def counts_ok_def total_of_def edit_channel_def)
  ultimately show ?thesis using keys slots by (simp add: core_ok_def)
qed

lemma enqueue_ok:
  assumes "host_ok h" "i \<notin> fst ` set (ho_store h)" "map_of (ho_channels h) (rq_channel r) = Some c" "slot r c = None" "\<not> rq_released r"
    and "rq_future r = Pending"
    and "g = (\<lambda>c. if rq_operation r = ''cancel'' then c\<lparr>ch_cleanup := Some i\<rparr> else c\<lparr>ch_ordinary := Some i\<rparr>)"
    and "ordinary r \<Longrightarrow> ho_requests h < int (ho_max_requests h) \<and> ho_bytes h + int (rq_size r) \<le> int (ho_max_bytes h)"
  shows "host_ok ((edit_channel (rq_channel r) g (h\<lparr>ho_store := ho_store h @ [(i, r)]\<rparr>))
    \<lparr>ho_requests := ho_requests h + (if ordinary r then 1 else 0), ho_bytes := ho_bytes h + (if ordinary r then int (rq_size r) else 0)\<rparr>)"
  using enqueue_core [OF _ assms(2-5,7,8)] assms(1,5,6) by (simp add: host_ok_def futures_ok_def)

lemma request_full:
  assumes "full_ok h" "request h caller cid op args = Inr (h', i)"
  shows "full_ok h'"
proof -
  obtain c copied k where c: "map_of (ho_channels h) cid = Some c" and i: "i = fresh_id h"
    and busy: "if op = ''cancel'' then ch_cleanup c = None else ch_ordinary c = None \<and> ho_requests h < int (ho_max_requests h)
      \<and> ho_bytes h + int k \<le> int (ho_max_bytes h)"
    and h': "h' = schedule_drain (if op = ''cancel''
      then (edit_channel cid (\<lambda>c. c\<lparr>ch_cleanup := Some i\<rparr>) (h\<lparr>ho_store := ho_store h @ [(i, \<lparr>rq_channel = cid, rq_operation = op,
          rq_args = copied, rq_size = k, rq_future = Pending, rq_released = False, rq_timer = False\<rparr>)]\<rparr>))\<lparr>ho_cleanups := ho_cleanups h @ [i]\<rparr>
      else (edit_channel cid (\<lambda>c. c\<lparr>ch_ordinary := Some i\<rparr>) (h\<lparr>ho_store := ho_store h @ [(i, \<lparr>rq_channel = cid, rq_operation = op,
          rq_args = copied, rq_size = k, rq_future = Pending, rq_released = False, rq_timer = False\<rparr>)]\<rparr>))
        \<lparr>ho_queue := ho_queue h @ [i], ho_requests := ho_requests h + 1, ho_bytes := ho_bytes h + int k,
             ho_peak_requests := max (ho_peak_requests h) (ho_requests h + 1), ho_peak_bytes := max (ho_peak_bytes h) (ho_bytes h + int k)\<rparr>)"
    using assms(2) by (auto simp: request_def res_simps Let_def e_need_def ho_channel_def split: option.splits if_splits prod.splits)
  let ?r = "\<lparr>rq_channel = cid, rq_operation = op, rq_args = copied, rq_size = k, rq_future = Pending, rq_released = False,
    rq_timer = False\<rparr>"
  let ?g = "\<lambda>c. if rq_operation ?r = ''cancel'' then c\<lparr>ch_cleanup := Some i\<rparr> else c\<lparr>ch_ordinary := Some i\<rparr>"
  have new: "i \<notin> fst ` set (ho_store h)" using fresh_id_new [of h] i by simp
  have ok: "host_ok h" "queue_ok h" using assms(1) by (simp_all add: full_ok_def)
  have slot: "slot ?r c = None" using busy by (simp add: slot_def split: if_splits)
  have room: "ordinary ?r \<Longrightarrow> ho_requests h < int (ho_max_requests h) \<and> ho_bytes h + int (rq_size ?r) \<le> int (ho_max_bytes h)"
    using busy by (simp add: ordinary_def)
  have h1: "host_ok ((edit_channel (rq_channel ?r) ?g (h\<lparr>ho_store := ho_store h @ [(i, ?r)]\<rparr>))
    \<lparr>ho_requests := ho_requests h + (if ordinary ?r then 1 else 0), ho_bytes := ho_bytes h + (if ordinary ?r then int (rq_size ?r) else 0)\<rparr>)"
    by (rule enqueue_ok [OF ok(1) new _ slot _ _ refl room]) (simp_all add: c)
  have none: "map_of (ho_store h) i = None" using new by (simp add: map_of_eq_None_iff)
  have w: "i \<notin> snd ` set (ho_waiters h)"
  proof
    assume "i \<in> snd ` set (ho_waiters h)"
    then obtain cid' where "(cid', i) \<in> set (ho_waiters h)" by auto
    then show False using ok(1) none by (fastforce simp: host_ok_def core_ok_def waiters_ok_def)
  qed
  have q: "i \<notin> set (ho_queue h)" "i \<notin> set (ho_cleanups h)"
    using ok(2) none by (auto simp: queue_ok_def)
  show ?thesis
  proof (cases "op = ''cancel''")
    case True
    then have h2: "host_ok ((edit_channel cid (\<lambda>c. c\<lparr>ch_cleanup := Some i\<rparr>) (h\<lparr>ho_store := ho_store h @ [(i, ?r)]\<rparr>))
        \<lparr>ho_cleanups := ho_cleanups h @ [i]\<rparr>)" (is "host_ok ?h")
      by (intro host_ok_frame [OF h1]) (simp_all add: ordinary_def)
    moreover have "queue_ok ?h" using ok(2) q True none unfolding queue_ok_def by (auto simp: map_add_def split: option.splits)
    ultimately have "full_ok ?h" by (simp add: full_ok_def)
    then show ?thesis using h' True schedule_full by simp
  next
    case False
    then have h2: "host_ok ((edit_channel cid (\<lambda>c. c\<lparr>ch_ordinary := Some i\<rparr>) (h\<lparr>ho_store := ho_store h @ [(i, ?r)]\<rparr>))
        \<lparr>ho_queue := ho_queue h @ [i], ho_requests := ho_requests h + 1, ho_bytes := ho_bytes h + int k,
             ho_peak_requests := max (ho_peak_requests h) (ho_requests h + 1), ho_peak_bytes := max (ho_peak_bytes h) (ho_bytes h + int k)\<rparr>)"
        (is "host_ok ?h")
      by (intro host_ok_frame [OF h1]) (simp_all add: ordinary_def)
    moreover have "queue_ok ?h" using ok(2) q w False none unfolding queue_ok_def by (auto simp: map_add_def split: option.splits)
    ultimately have "full_ok ?h" by (simp add: full_ok_def)
    then show ?thesis using h' False schedule_full by simp
  qed
qed

lemma attach_full:
  assumes "full_ok h" "attach h caller consumer_id cid port = Inr (h', k)" "cid \<notin> fst ` set (ho_channels h)"
  shows "full_ok h'"
proof -
  let ?c = "\<lparr>ch_session = None, ch_sub = False, ch_closed = False, ch_ordinary = None, ch_cleanup = None, ch_ticket = None\<rparr>"
  have none: "map_of (ho_channels h) cid = None" using assms(3) by (simp add: map_of_eq_None_iff)
  have upd: "AList.update cid ?c (ho_channels h) = ho_channels h @ [(cid, ?c)]"
    by (rule update_fresh [OF none])
  have h': "h' = h\<lparr>ho_channels := ho_channels h @ [(cid, ?c)]\<rparr>" and room: "length (ho_channels h) < ho_max_channels h"
    using assms(2) upd by (auto simp: attach_def res_simps e_need_def)
  have ch: "map_of (ho_channels h @ [(cid, ?c)]) k = (if k = cid then Some ?c else map_of (ho_channels h) k)" for k
    using none by (simp add: map_add_def split: option.splits)
  have ok: "core_ok h" "futures_ok h" "queue_ok h" using assms(1) by (simp_all add: full_ok_def host_ok_def)
  have "slots_ok h'" unfolding slots_ok_def
  proof (intro allI impI)
    fix i r assume r: "map_of (ho_store h') i = Some r" "\<not> rq_released r"
    then have "map_of (ho_store h) i = Some r" by (simp add: h')
    then obtain c where c: "map_of (ho_channels h) (rq_channel r) = Some c" "slot r c = Some i"
      using slots_at [of h i r] ok(1) r(2) by (auto simp: core_ok_def)
    have "rq_channel r \<noteq> cid" using c none by auto
    then have "map_of (ho_channels h @ [(cid, ?c)]) (rq_channel r) = Some c" unfolding ch using c by simp
    then show "\<exists>c. map_of (ho_channels h') (rq_channel r) = Some c \<and> slot r c = Some i" using c(2) by (simp add: h')
  qed
  moreover have "holders_ok h'" using ok(1) unfolding core_ok_def holders_ok_def holds_def h' by (auto simp: ch split: if_splits)
  moreover have "keys_ok h'" "waiters_ok h'" "counts_ok h'"
    using ok(1) assms(3) room by (auto simp: core_ok_def keys_ok_def waiters_ok_def counts_ok_def h')
  ultimately show ?thesis using ok(2,3) by (simp add: full_ok_def host_ok_def core_ok_def futures_ok_def queue_ok_def h')
qed

lemma cancelled_full: "full_ok h \<Longrightarrow> full_ok (cancelled i h)"
proof (cases "\<exists>r. map_of (ho_store h) i = Some r \<and> rq_future r = Pending")
  case True
  assume full: "full_ok h"
  then obtain r where r: "map_of (ho_store h) i = Some r" "rq_future r = Pending" using True by blast
  have ok: "core_ok h" and fut: "\<forall>i r. map_of (ho_store h) i = Some r \<longrightarrow> (rq_released r \<longleftrightarrow> rq_future r \<noteq> Pending)"
    using full futures_map_of [of h] core_keys [of h] by (auto simp: full_ok_def host_ok_def)
  let ?h1 = "edit_request i (\<lambda>r. r\<lparr>rq_future := FCancelled\<rparr>) h"
  let ?h2 = "release i ?h1"
  have core: "core_ok ?h2" by (intro release_core edit_request_core ok) simp
  have st: "map_of (ho_store ?h2) k = map_option (if k = i then \<lambda>r. if rq_released r then r\<lparr>rq_future := FCancelled\<rparr>
      else r\<lparr>rq_future := FCancelled, rq_released := True, rq_timer := False\<rparr> else id) (map_of (ho_store h) k)" for k
    by (cases "map_of (ho_store h) k") (auto simp: release_store store_edit)
  have "rq_released x \<longleftrightarrow> rq_future x \<noteq> Pending" if "map_of (ho_store ?h2) k = Some x" for k x
  proof (cases "k = i")
    case True
    then have "x = r\<lparr>rq_future := FCancelled, rq_released := True, rq_timer := False\<rparr>" using that r fut unfolding st by auto
    then show ?thesis by simp
  next
    case False then show ?thesis using that fut unfolding st by (simp add: option.map_id)
  qed
  then have "futures_ok ?h2" unfolding futures_map_of [OF core_keys [OF core]] by blast
  then have h2: "host_ok ?h2" using core by (simp add: host_ok_def)
  have "calm {i} h ?h2"
    using release_waiters_subset [of i ?h1] unfolding calm_def st by (auto simp: option.map_comp comp_def option.map_id r)
  then have "full_ok ?h2" by (rule full_ok_frame [OF full h2])
  moreover have "\<not> rq_released r" using fut r by blast
  ultimately show ?thesis using r
    by (auto simp: cancelled_def Let_def full_ok_def queue_ok_def distinct_remove1 elim!: host_ok_frame dest: notin_set_remove1)
next
  case False
  then show "full_ok h \<Longrightarrow> ?thesis" by (auto simp: cancelled_def split: option.splits)
qed

section \<open>Detachment and shutdown\<close>

lemma finish_released: "map_of (ho_store (finish_all is a h)) k = Some r \<Longrightarrow> k \<in> set is \<Longrightarrow> rq_released r"
proof (induction "is" arbitrary: h)
  case (Cons i "is")
  show ?case
  proof (cases "k \<in> set is")
    case True then show ?thesis using Cons by (simp add: finish_all_def)
  next
    case False
    then have "map_of (ho_store (finish_request i a h)) k = Some r" and "k = i"
      using Cons(2,3) finish_all_calm [of "is" "finish_request i a h" a] by (auto simp: finish_all_def calm_def)
    then show ?thesis by (auto simp: finish_store)
  qed
qed simp

lemma finish_all_channels: "map fst (ho_channels (finish_all is a h)) = map fst (ho_channels h)"
  by (induction "is" arbitrary: h)
    (auto simp: finish_all_def finish_request_def release_def Let_def edit_channel_def edit_request_def split: option.splits)

lemma finish_request_back: "map_of (ho_store (finish_request i a h)) k = Some r \<Longrightarrow> \<not> rq_released r \<Longrightarrow> map_of (ho_store h) k = Some r"
  by (auto simp: finish_store split: if_splits)

lemma finish_all_back: "map_of (ho_store (finish_all is a h)) k = Some r \<Longrightarrow> \<not> rq_released r \<Longrightarrow> map_of (ho_store h) k = Some r"
  by (induction "is" arbitrary: h) (auto simp: finish_all_def dest: finish_request_back)

lemma detach_full: "full_ok h \<Longrightarrow> full_ok (detach_channel cid h)"
proof (cases "map_of (ho_channels h) cid")
  case (Some c)
  assume full: "full_ok h"
  let ?is = "List.map_filter id [ch_ordinary c, ch_cleanup c]"
  define h1 where "h1 = finish_all ?is (AError ''HOST_CHANNEL_CLOSED'') h"
  have ok: "full_ok h1" unfolding h1_def by (rule finish_all_full [OF full])
  have gone: "rq_channel r \<noteq> cid" if r: "map_of (ho_store h1) k = Some r" "\<not> rq_released r" for k r
  proof
    assume "rq_channel r = cid"
    moreover have "map_of (ho_store h) k = Some r" using finish_all_back r unfolding h1_def by blast
    ultimately have "slot r c = Some k"
      using slots_at [of h k r] full Some r(2) by (auto simp: full_ok_def host_ok_def core_ok_def)
    then have "k \<in> set ?is" by (auto simp: slot_def map_filter_def split: if_splits)
    then show False using finish_released r unfolding h1_def by blast
  qed
  let ?h2 = "h1\<lparr>ho_queue := filter (\<lambda>i. \<not> of_channel h1 cid i) (ho_queue h1),
          ho_cleanups := filter (\<lambda>i. \<not> of_channel h1 cid i) (ho_cleanups h1),
          ho_channels := filter (\<lambda>(j, _). j \<noteq> cid) (ho_channels h1)\<rparr>"
  have ch: "map_of (filter (\<lambda>(j, _). j \<noteq> cid) xs) k = (if k = cid then None else map_of xs k)" for xs :: "(nat \<times> channel) list" and k
    by (induction xs) auto
  have o: "core_ok h1" "futures_ok h1" "queue_ok h1" using ok by (simp_all add: full_ok_def host_ok_def)
  have "slots_ok ?h2" using o(1) gone unfolding core_ok_def slots_ok_def by (auto simp: ch)
  moreover have "holders_ok ?h2" using o(1) unfolding core_ok_def holders_ok_def holds_def by (auto simp: ch split: if_splits)
  moreover have "keys_ok ?h2" using o(1) by (simp add: core_ok_def keys_ok_def distinct_map_filter)
  moreover have "waiters_ok ?h2" using o(1) unfolding core_ok_def waiters_ok_def by simp
  moreover have "counts_ok ?h2"
    using o(1) order_trans [OF length_filter_le [of "\<lambda>(j, _). j \<noteq> cid" "ho_channels h1"]] by (simp add: core_ok_def counts_ok_def)
  ultimately have "core_ok ?h2" by (simp add: core_ok_def)
  moreover have "queue_ok ?h2" using o(3) by (auto simp: queue_ok_def)
  ultimately have "full_ok ?h2" using o(2) by (simp add: full_ok_def host_ok_def futures_ok_def)
  then show ?thesis using Some by (simp add: detach_channel_def Let_def h1_def)
qed (simp add: detach_channel_def)

lemma detach_channels: "map fst (ho_channels (detach_channel cid h)) = filter (\<lambda>j. j \<noteq> cid) (map fst (ho_channels h))"
proof (cases "map_of (ho_channels h) cid")
  case None
  then have "cid \<notin> set (map fst (ho_channels h))" by (simp add: map_of_eq_None_iff)
  then have "filter (\<lambda>j. j \<noteq> cid) (map fst (ho_channels h)) = map fst (ho_channels h)" by (intro filter_True) auto
  then show ?thesis using None by (simp add: detach_channel_def)
next
  case (Some c)
  have "map fst (filter (\<lambda>(j, _). j \<noteq> cid) xs) = filter (\<lambda>j. j \<noteq> cid) (map fst xs)" for xs :: "(nat \<times> channel) list"
    by (induction xs) auto
  then show ?thesis using Some by (simp add: detach_channel_def Let_def finish_all_channels)
qed

lemma detach_all_full: "full_ok h \<Longrightarrow> full_ok (fold detach_channel cids h)"
  by (induction cids arbitrary: h) (auto intro: detach_full)

lemma detach_all_channels: "set (map fst (ho_channels (fold detach_channel cids h))) = set (map fst (ho_channels h)) - set cids"
  by (induction cids arbitrary: h) (auto simp: detach_channels [simplified] simp del: set_map)

section \<open>Reachable hosts\<close>

inductive host_step :: "host \<Rightarrow> host \<Rightarrow> bool" where
  "attach h caller consumer_id cid port = Inr (h', k) \<Longrightarrow> cid \<notin> fst ` set (ho_channels h) \<Longrightarrow> host_step h h'"
| "request h caller cid operation args = Inr (h', i) \<Longrightarrow> host_step h h'"
| "host_step h (cancelled i h)"
| "host_step h (drain env h)"
| "host_step h (fst (notify h caller observed))"
| "host_step h (fst (publish h caller (written :: nat res) observed))"
| "host_step h (beat observed h)"
| "host_step h (wait_deadline i observed h)"
| "host_step h (fst (detach h caller cid))"
| "host_step h (fst (close h caller))"

lemma notify_full: "full_ok h \<Longrightarrow> full_ok (fst (notify h caller observed))"
  by (auto simp: notify_def refresh_full split: sum.splits)

lemma publish_full: "full_ok h \<Longrightarrow> full_ok (fst (publish h caller written observed))"
  using refresh_full [of h observed] by (auto simp: publish_def split: sum.splits prod.splits)

lemma timers_full: "full_ok h \<Longrightarrow> full_ok (h\<lparr>ho_heartbeat := b\<rparr>)" "full_ok h \<Longrightarrow> full_ok (h\<lparr>ho_scheduled := b\<rparr>)"
  "full_ok h \<Longrightarrow> full_ok (h\<lparr>ho_state := st\<rparr>)"
  by (auto simp: full_ok_def queue_ok_def elim!: host_ok_frame)

lemma beat_full: "full_ok h \<Longrightarrow> full_ok (beat observed h)"
  using refresh_full [OF timers_full(1) [of h False], of observed] timers_full(1) [of h False]
  by (auto simp: beat_def Let_def arm_full split: sum.splits prod.splits)

lemma deadline_full: "full_ok h \<Longrightarrow> full_ok (wait_deadline i observed h)"
  using refresh_full [of h observed]
  by (auto simp: wait_deadline_def finish_full split: sum.splits prod.splits option.splits)

lemma close_full: "full_ok h \<Longrightarrow> full_ok (fst (close h caller))"
  using timers_full(1) [OF timers_full(2) [OF timers_full(3) [OF detach_all_full]]]
  by (auto simp: close_def split: sum.splits)

lemma host_step_full: "full_ok h \<Longrightarrow> host_step h h' \<Longrightarrow> full_ok h'"
  by (erule host_step.cases)
    (auto intro: attach_full request_full cancelled_full drain_full notify_full publish_full beat_full deadline_full detach_full close_full
      simp: detach_def split: sum.splits)

interpretation host: keeps host_step full_ok
  by unfold_locales (rule host_step_full)

lemma new_host_full: "new_host identity host_id cs rs bs budget observed = Inr h \<Longrightarrow> full_ok h"
  by (auto simp: new_host_def res_simps e_need_def full_ok_def host_ok_def core_ok_def keys_ok_def slots_ok_def holders_ok_def
      waiters_ok_def counts_ok_def futures_ok_def queue_ok_def total_of_def)

lemmas reachable_full = host.reachable_keeps [OF _ new_host_full]

text \<open>C15. Bounded mailbox: in every state the host reaches, the two counters are the number and the total size of the ordinary requests that
  are still live, they and the number of channels stay within the limits given at construction, and a channel has at most one live
  request of each kind.\<close>

theorem mailbox_bounded:
  assumes "new_host identity host_id cs rs bs budget observed = Inr h0" "host_step\<^sup>*\<^sup>* h0 h"
  shows "ho_requests h = total_of (\<lambda>_. 1) (ho_store h) \<and> ho_bytes h = total_of (\<lambda>r. int (rq_size r)) (ho_store h)
    \<and> ho_requests h \<le> int (ho_max_requests h) \<and> ho_bytes h \<le> int (ho_max_bytes h) \<and> length (ho_channels h) \<le> ho_max_channels h
    \<and> (\<forall>i j r q. map_of (ho_store h) i = Some r \<and> map_of (ho_store h) j = Some q \<and> \<not> rq_released r \<and> \<not> rq_released q
         \<and> rq_channel r = rq_channel q \<and> (rq_operation r = ''cancel'') = (rq_operation q = ''cancel'') \<longrightarrow> i = j)"
proof -
  have full: "full_ok h" by (rule reachable_full [OF assms(2,1)])
  have "i = j" if "map_of (ho_store h) i = Some r" "map_of (ho_store h) j = Some q" "\<not> rq_released r" "\<not> rq_released q"
    "rq_channel r = rq_channel q" "(rq_operation r = ''cancel'') = (rq_operation q = ''cancel'')" for i j r q
    using slots_at [of h i r] slots_at [of h j q] full that by (auto simp: full_ok_def host_ok_def core_ok_def slot_def)
  then show ?thesis using full by (auto simp: full_ok_def host_ok_def core_ok_def counts_ok_def)
qed

text \<open>C16. Shutdown answers everybody: after \<^verbatim>\<open>close\<close> by the owner no request is pending, no channel and no waiter is left, and the
  counters are zero.\<close>

theorem close_settles:
  assumes "new_host identity host_id cs rs bs budget observed = Inr h0" "host_step\<^sup>*\<^sup>* h0 h" "ho_state h \<noteq> HClosed"
    "close h caller = (h', Inr ())"
  shows "(\<forall>(i, r) \<in> set (ho_store h'). rq_future r \<noteq> Pending) \<and> ho_channels h' = [] \<and> ho_waiters h' = []
    \<and> ho_requests h' = 0 \<and> ho_bytes h' = 0 \<and> ho_state h' = HClosed"
proof -
  have full: "full_ok h'" using close_full [OF reachable_full [OF assms(2,1)], of caller] assms(4) by simp
  have h': "h' = (fold detach_channel (map fst (ho_channels h)) h)\<lparr>ho_state := HClosed, ho_scheduled := False, ho_heartbeat := False\<rparr>"
    using assms(3,4) by (auto simp: close_def split: sum.splits)
  have none: "ho_channels h' = []" using detach_all_channels [of "map fst (ho_channels h)" h] by (simp add: h')
  have released: "rq_released r" if "(i, r) \<in> set (ho_store h')" for i r
    using slots_at [of h' i r] full that none by (auto simp: full_ok_def host_ok_def core_ok_def keys_ok_def)
  have "total_of w (ho_store h') = 0" for w
    by (rule total_released) (use released in blast)
  moreover have "ho_waiters h' = []"
  proof (rule ccontr)
    assume "ho_waiters h' \<noteq> []"
    then obtain cid i ws where "ho_waiters h' = (cid, i) # ws" by (metis list.exhaust surj_pair)
    then show False using full released map_of_SomeD [of "ho_store h'" i]
      by (fastforce simp: full_ok_def host_ok_def core_ok_def waiters_ok_def ordinary_def)
  qed
  ultimately show ?thesis using full released none
    by (auto simp: full_ok_def host_ok_def core_ok_def counts_ok_def futures_ok_def h')
qed

lemma finish_all_revision: "ho_revision (finish_all is a h) = ho_revision h"
  by (induction "is" arbitrary: h) (auto simp: finish_all_def finish_request_def)

lemma finish_all_store:
  "map_of (ho_store (finish_all is a h)) k = map_option (if k \<in> set is then answered a else id) (map_of (ho_store h) k)"
proof (induction "is" arbitrary: h)
  case (Cons i "is")
  then show ?case by (cases "map_of (ho_store h) k") (auto simp: finish_all_def finish_store answered_def)
qed (simp add: finish_all_def option.map_id)

text \<open>No lost wakeup: when an observation finds a new stamp, every waiter of a reachable host is answered with the new revision, which
  is one more than before, and no waiter stays registered.\<close>

theorem refresh_wakes:
  assumes "new_host identity host_id cs rs bs budget observed = Inr h0" "host_step\<^sup>*\<^sup>* h0 h"
    "refresh (Inr stamp) h = (h', Inr ())" "stamp \<noteq> ho_stamp h"
  shows "ho_waiters h' = [] \<and> ho_revision h' = ho_revision h + 1
    \<and> (\<forall>(cid, i) \<in> set (ho_waiters h). \<exists>r. map_of (ho_store h') i = Some r \<and> rq_future r = Settled (AWake ''changed'' (ho_revision h')))"
proof -
  have full: "full_ok h" by (rule reachable_full [OF assms(2,1)])
  have full': "full_ok h'" using refresh_full [OF full, of "Inr stamp"] assms(3) by simp
  let ?h = "h\<lparr>ho_observations := Suc (ho_observations h), ho_revision := ho_revision h + 1, ho_stamp := stamp\<rparr>"
  let ?a = "AWake ''changed'' (ho_revision h + 1)"
  have h': "h' = finish_all (map snd (ho_waiters h)) ?a ?h"
    using assms(3,4) by (auto simp: refresh_def Let_def split: if_splits)
  have store: "map_of (ho_store h') k = map_option (if k \<in> snd ` set (ho_waiters h) then answered ?a else id) (map_of (ho_store h) k)" for k
    unfolding h' by (simp add: finish_all_store)
  have woken: "\<exists>r. map_of (ho_store h') i = Some r \<and> rq_future r = Settled ?a \<and> rq_released r" if w: "(cid, i) \<in> set (ho_waiters h)" for cid i
  proof -
    obtain r where r: "map_of (ho_store h) i = Some r" "\<not> rq_released r"
      using full w by (fastforce simp: full_ok_def host_ok_def core_ok_def waiters_ok_def ordinary_def)
    then have "rq_future r = Pending" using full map_of_SomeD [OF r(1)] by (auto simp: full_ok_def host_ok_def futures_ok_def)
    moreover have "i \<in> snd ` set (ho_waiters h)" using w by force
    ultimately show ?thesis using r by (simp add: store answered_def)
  qed
  have sub: "set (ho_waiters h') \<subseteq> set (ho_waiters h)" using refresh_calm [of h "Inr stamp"] assms(3) by (simp add: calm_def)
  have "ho_waiters h' = []"
  proof (rule ccontr)
    assume "ho_waiters h' \<noteq> []"
    then obtain cid i where w: "(cid, i) \<in> set (ho_waiters h')" by (metis list.set_intros(1) list.exhaust surj_pair)
    then show False using woken [of cid i] sub full' by (fastforce simp: full_ok_def host_ok_def core_ok_def waiters_ok_def ordinary_def)
  qed
  moreover have "ho_revision h' = ho_revision h + 1" unfolding h' by (simp add: finish_all_revision)
  ultimately show ?thesis using woken by fastforce
qed

section \<open>A sample run\<close>

text \<open>A channel polls an empty page, waits with the ticket it got, and the journal changes.\<close>

definition sample_turn :: turn where
  "sample_turn = \<lparr>tn_first = Inr [1], tn_entered = Inr (), tn_value = Inr (JObj [(JStr (cps ''events''), JList [])]),
     tn_session = Some [115], tn_sub = True, tn_second = Inr [1]\<rparr>"

definition sample_wait :: json where
  "sample_wait = JObj [(JStr (cps ''sessionId''), JStr [115]),
     (JStr (cps ''ticket''), JObj [(JStr (cps ''hostId''), JStr [104]), (JStr (cps ''revision''), JStr [48])])]"

definition right :: "'a res \<Rightarrow> 'a \<Rightarrow> 'a" where
  "right r other = (case r of Inl _ \<Rightarrow> other | Inr x \<Rightarrow> x)"

definition sample_opened :: host where
  "sample_opened = \<lparr>ho_identity = 7, ho_id = [104], ho_max_channels = 2, ho_max_requests = 2, ho_max_bytes = 1024, ho_budget = 4,
     ho_revision = 0, ho_store = [], ho_channels = [], ho_queue = [], ho_cleanups = [], ho_waiters = [], ho_requests = 0, ho_bytes = 0,
     ho_observations = 1, ho_peak_requests = 0, ho_peak_bytes = 0, ho_scheduled = False, ho_heartbeat = False, ho_state = HOpen,
     ho_fault = None, ho_stamp = [1]\<rparr>"

definition sample_attached :: host where
  "sample_attached = fst (right (attach sample_opened 7 (replicate 16 0) 5 (Inr ())) (sample_opened, 0))"

definition sample_polled :: host where
  "sample_polled = drain (\<lambda>_. sample_turn) (fst (right (request sample_attached 7 5 ''poll'' (JObj [])) (sample_attached, 0)))"

definition sample_waiting :: host where
  "sample_waiting = drain (\<lambda>_. sample_turn) (fst (right (request sample_polled 7 5 ''wait'' sample_wait) (sample_polled, 0)))"

lemma sample_opened: "new_host 7 [104] 2 2 1024 4 (Inr [1]) = Inr sample_opened"
  by (simp add: new_host_def sample_opened_def e_need_def)

lemma right_step:
  assumes "\<And>h' k. r = Inr (h', k) \<Longrightarrow> host_step h h'"
  shows "host_step\<^sup>*\<^sup>* h (fst (right r (h, j)))"
  using assms by (cases r) (auto simp: right_def)

lemma sample_attached: "host_step\<^sup>*\<^sup>* sample_opened sample_attached"
  unfolding sample_attached_def by (rule right_step) (auto intro: host_step.intros(1) simp: sample_opened_def)

lemma sample_turns: "host_step\<^sup>*\<^sup>* h (drain env (fst (right (request h caller cid op args) (h, j))))"
  by (rule rtranclp.rtrancl_into_rtrancl [OF right_step host_step.intros(4)]) (rule host_step.intros(2))

lemma sample_waiting: "host_step\<^sup>*\<^sup>* sample_opened sample_waiting"
  using sample_attached sample_turns unfolding sample_polled_def sample_waiting_def by (meson rtranclp_trans)

theorem mailbox_bounded_witness:
  "ho_requests sample_waiting = total_of (\<lambda>_. 1) (ho_store sample_waiting) \<and> ho_requests sample_waiting = 1
    \<and> ho_requests sample_waiting \<le> int (ho_max_requests sample_waiting)"
proof -
  have "ho_requests sample_waiting = 1" by code_simp
  then show ?thesis using mailbox_bounded [OF sample_opened sample_waiting] by blast
qed

theorem close_settles_witness:
  "ho_waiters sample_waiting = [(5, 2)] \<and> ho_waiters (fst (close sample_waiting 7)) = [] \<and> ho_requests (fst (close sample_waiting 7)) = 0"
proof -
  have "ho_waiters sample_waiting = [(5, 2)]" by code_simp
  moreover have "ho_state sample_waiting \<noteq> HClosed" by code_simp
  moreover have "close sample_waiting 7 = (fst (close sample_waiting 7), Inr ())" by code_simp
  ultimately show ?thesis using close_settles [OF sample_opened sample_waiting, of 7 "fst (close sample_waiting 7)"] by blast
qed

theorem refresh_wakes_witness:
  "ho_waiters (fst (refresh (Inr [2]) sample_waiting)) = [] \<and> ho_revision (fst (refresh (Inr [2]) sample_waiting)) = ho_revision sample_waiting + 1"
proof -
  have "refresh (Inr [2]) sample_waiting = (fst (refresh (Inr [2]) sample_waiting), Inr ())" by code_simp
  moreover have "[2] \<noteq> ho_stamp sample_waiting" by code_simp
  ultimately show ?thesis using refresh_wakes [OF sample_opened sample_waiting, of "[2]" "fst (refresh (Inr [2]) sample_waiting)"] by blast
qed

end
