(* ===== verification/IpText.thy ===== *)
theory IpText
  imports PyValue
begin

text \<open>
  The part of Python's text and \<^verbatim>\<open>ipaddress\<close> handling that the connectivity policy uses: splitting and joining, decimal and
  hexadecimal digits, the readers of IPv4 and IPv6 addresses and networks, and their canonical text. An address is its version
  with the integer the library keeps.
\<close>

section \<open>Text\<close>

text \<open>\<^verbatim>\<open>s.split(sep)\<close> for a one-character separator, and \<^verbatim>\<open>sep.join(parts)\<close>.\<close>

fun split_on :: "nat \<Rightarrow> pystr \<Rightarrow> pystr list" where
  "split_on x [] = [[]]"
| "split_on x (c # cs) = (if c = x then [] # split_on x cs
     else case split_on x cs of [] \<Rightarrow> [[c]] | p # ps \<Rightarrow> (c # p) # ps)"

fun join_on :: "nat \<Rightarrow> pystr list \<Rightarrow> pystr" where
  "join_on x [] = []"
| "join_on x [p] = p"
| "join_on x (p # q # ps) = p @ x # join_on x (q # ps)"

lemma split_on_nonempty [simp]: "split_on x s \<noteq> []"
  by (cases s) (auto split: list.splits)

lemma split_on_free: "x \<notin> set p \<Longrightarrow> split_on x p = [p]"
  by (induction p) auto

lemma split_on_part: "x \<notin> set p \<Longrightarrow> split_on x (p @ x # s) = p # split_on x s"
  by (induction p) auto

lemma split_join: "ps \<noteq> [] \<Longrightarrow> \<forall>p \<in> set ps. x \<notin> set p \<Longrightarrow> split_on x (join_on x ps) = ps"
  by (induction x ps rule: join_on.induct) (auto simp: split_on_free split_on_part)

definition digit :: "nat \<Rightarrow> bool" where
  "digit c \<longleftrightarrow> 48 \<le> c \<and> c \<le> 57"

definition hex_char :: "nat \<Rightarrow> bool" where
  "hex_char c \<longleftrightarrow> digit c \<or> 65 \<le> c \<and> c \<le> 70 \<or> 97 \<le> c \<and> c \<le> 102"

definition digit_value :: "nat \<Rightarrow> nat" where
  "digit_value c = (if digit c then c - 48 else if c \<le> 70 then c - 55 else c - 87)"

definition digit_text :: "nat \<Rightarrow> nat" where
  "digit_text d = (if d < 10 then 48 + d else 87 + d)"

text \<open>\<^verbatim>\<open>int(s, base)\<close> on digits of the base, and the digits of a number without leading zeros.\<close>

definition read_digits :: "nat \<Rightarrow> pystr \<Rightarrow> nat" where
  "read_digits b s = foldl (\<lambda>n c. n * b + digit_value c) 0 s"

fun digits :: "nat \<Rightarrow> nat \<Rightarrow> nat list" where
  "digits b n = (if b < 2 \<or> n < b then [n] else digits b (n div b) @ [n mod b])"

declare digits.simps [simp del]

definition text_of :: "nat \<Rightarrow> nat \<Rightarrow> pystr" where
  "text_of b n = map digit_text (digits b n)"

lemma digit_value_text: "d < 16 \<Longrightarrow> digit_value (digit_text d) = d"
  by (auto simp: digit_value_def digit_text_def digit_def)

lemma digits_bound: "2 \<le> b \<Longrightarrow> d \<in> set (digits b n) \<Longrightarrow> d < b"
proof (induction b n rule: digits.induct)
  case (1 b n)
  then show ?case by (cases "n < b") (auto simp: digits.simps [of b n])
qed

lemma foldl_digits: "2 \<le> b \<Longrightarrow> foldl (\<lambda>n d. n * b + d) 0 (digits b n) = n"
proof (induction b n rule: digits.induct)
  case (1 b n)
  then show ?case by (cases "n < b") (auto simp: digits.simps [of b n])
qed

lemma read_text: "2 \<le> b \<Longrightarrow> b \<le> 16 \<Longrightarrow> read_digits b (text_of b n) = n"
proof -
  assume b: "2 \<le> b" "b \<le> 16"
  have "foldl (\<lambda>n c. n * b + digit_value c) m (map digit_text ds) = foldl (\<lambda>n d. n * b + d) m ds"
    if "\<forall>d \<in> set ds. d < b" for ds m
    using that b by (induction ds arbitrary: m) (auto simp: digit_value_text)
  then show ?thesis using digits_bound [OF b(1)] foldl_digits [OF b(1)] by (simp add: read_digits_def text_of_def)
qed

lemma text_of_chars: "2 \<le> b \<Longrightarrow> b \<le> 16 \<Longrightarrow> c \<in> set (text_of b n) \<Longrightarrow> hex_char c"
  using digits_bound [of b _ n] by (fastforce simp: text_of_def hex_char_def digit_text_def digit_def)

lemma text_of_decimal: "c \<in> set (text_of 10 n) \<Longrightarrow> digit c"
  using digits_bound [of 10 _ n] by (fastforce simp: text_of_def digit_text_def digit_def)

lemma digits_length: "2 \<le> b \<Longrightarrow> n < b ^ k \<Longrightarrow> 0 < k \<Longrightarrow> length (digits b n) \<le> k"
proof (induction k arbitrary: n)
  case (Suc k)
  show ?case
  proof (cases "n < b")
    case True then show ?thesis by (simp add: digits.simps)
  next
    case False
    then have "0 < k" using Suc(3) by (cases k) auto
    have "n div b < b ^ k" using Suc(2,3) by (simp add: less_mult_imp_div_less mult.commute)
    then show ?thesis using Suc(1) [of "n div b"] \<open>0 < k\<close> Suc(2) False by (simp add: digits.simps [of b n])
  qed
qed simp

lemma digits_lead: "2 \<le> b \<Longrightarrow> 0 < n \<Longrightarrow> hd (digits b n) \<noteq> 0"
proof (induction b n rule: digits.induct)
  case (1 b n)
  show ?case
  proof (cases "n < b")
    case True then show ?thesis using 1 by (simp add: digits.simps)
  next
    case False
    then have "0 < n div b" using 1(2) by (simp add: div_greater_zero_iff)
    moreover have "digits b (n div b) \<noteq> []" using digits.simps [of b "n div b"] by simp
    ultimately show ?thesis using 1 False by (simp add: digits.simps [of b n])
  qed
qed

lemma digits_nonempty [simp]: "digits b n \<noteq> []"
  using digits.simps [of b n] by simp

section \<open>Addresses\<close>

datatype ip = V4 nat | V6 nat

text \<open>The groups of an address, most significant first, and the integer they make.\<close>

primrec groups :: "nat \<Rightarrow> nat \<Rightarrow> nat \<Rightarrow> nat list" where
  "groups b 0 v = []"
| "groups b (Suc k) v = groups b k (v div b) @ [v mod b]"

definition of_groups :: "nat \<Rightarrow> nat list \<Rightarrow> nat" where
  "of_groups b gs = foldl (\<lambda>n g. n * b + g) 0 gs"

lemma length_groups [simp]: "length (groups b k v) = k"
  by (induction k arbitrary: v) auto

lemma groups_bound: "0 < b \<Longrightarrow> g \<in> set (groups b k v) \<Longrightarrow> g < b"
  by (induction k arbitrary: v) auto

lemma of_groups_groups: "v < b ^ k \<Longrightarrow> of_groups b (groups b k v) = v"
proof (induction k arbitrary: v)
  case (Suc k)
  then have "v div b < b ^ k" by (simp add: less_mult_imp_div_less mult.commute)
  then show ?case using Suc by (simp add: of_groups_def)
qed (simp add: of_groups_def)

definition octet :: "pystr \<Rightarrow> nat option" where
  "octet s = (if s \<noteq> [] \<and> list_all digit s \<and> length s \<le> 3 \<and> (s = [48] \<or> hd s \<noteq> 48) \<and> read_digits 10 s \<le> 255
     then Some (read_digits 10 s) else None)"

definition read_v4 :: "pystr \<Rightarrow> nat option" where
  "read_v4 s = (case map octet (split_on 46 s) of
     [Some a, Some b, Some c, Some d] \<Rightarrow> Some (of_groups 256 [a, b, c, d])
   | _ \<Rightarrow> None)"

definition hextet :: "pystr \<Rightarrow> nat option" where
  "hextet s = (if s \<noteq> [] \<and> list_all hex_char s \<and> length s \<le> 4 then Some (read_digits 16 s) else None)"

text \<open>\<^verbatim>\<open>ip_int <<= 16; ip_int |= hextet\<close> over a slice of the parts.\<close>

fun hextets :: "pystr list \<Rightarrow> nat list option" where
  "hextets [] = Some []"
| "hextets (p # ps) = (case (hextet p, hextets ps) of (Some h, Some hs) \<Rightarrow> Some (h # hs) | _ \<Rightarrow> None)"

text \<open>A dotted tail is replaced by its two groups.\<close>

definition v6_parts :: "pystr list \<Rightarrow> pystr list option" where
  "v6_parts ps = (if 46 \<in> set (last ps)
     then map_option (\<lambda>v. butlast ps @ [text_of 16 (v div 65536), text_of 16 (v mod 65536)]) (read_v4 (last ps))
     else Some ps)"

text \<open>The positions of the empty inner groups: at most one, where the zeros are left out.\<close>

definition inner_empty :: "pystr list \<Rightarrow> nat list" where
  "inner_empty ps = filter (\<lambda>i. ps ! i = []) [1..<length ps - 1]"

definition fill_groups :: "pystr list \<Rightarrow> pystr list \<Rightarrow> nat list option" where
  "fill_groups hi lo =
     (let hi' = (if hi \<noteq> [] \<and> hd hi = [] then tl hi else hi); lo' = (if lo \<noteq> [] \<and> last lo = [] then butlast lo else lo) in
      if (hi \<noteq> [] \<and> hd hi = [] \<and> hi' \<noteq> []) \<or> (lo \<noteq> [] \<and> last lo = [] \<and> lo' \<noteq> []) \<or> 8 \<le> length hi' + length lo' then None
      else case (hextets hi', hextets lo') of
        (Some a, Some b) \<Rightarrow> Some (a @ replicate (8 - length a - length b) 0 @ b)
      | _ \<Rightarrow> None)"

definition read_v6 :: "pystr \<Rightarrow> nat option" where
  "read_v6 s =
     (let ps0 = split_on 58 s in
      if s = [] \<or> length ps0 < 3 then None
      else case v6_parts ps0 of None \<Rightarrow> None | Some ps \<Rightarrow>
        if 9 < length ps then None
        else case inner_empty ps of
          [] \<Rightarrow> if length ps = 8 then map_option (of_groups 65536) (hextets ps) else None
        | [i] \<Rightarrow> map_option (of_groups 65536) (fill_groups (take i ps) (drop (Suc i) ps))
        | _ \<Rightarrow> None)"

definition read_ip :: "pystr \<Rightarrow> ip option" where
  "read_ip s = (case read_v4 s of Some v \<Rightarrow> Some (V4 v) | None \<Rightarrow> map_option V6 (read_v6 s))"

section \<open>Canonical text\<close>

definition v4_text :: "nat \<Rightarrow> pystr" where
  "v4_text v = join_on 46 (map (text_of 10) (groups 256 4 v))"

definition zero_run :: "nat list \<Rightarrow> nat" where
  "zero_run hs = length (takeWhile (\<lambda>h. h = 0) hs)"

text \<open>\<^verbatim>\<open>_compress_hextets\<close>: the first longest run of at least two zero groups becomes an empty group.\<close>

definition best_run :: "nat list \<Rightarrow> nat \<times> nat" where
  "best_run hs = fold (\<lambda>i (s, n). if n < zero_run (drop i hs) then (i, zero_run (drop i hs)) else (s, n)) [0..<length hs] (0, 0)"

definition compress :: "nat list \<Rightarrow> pystr list" where
  "compress hs = (case best_run hs of (s, n) \<Rightarrow>
     if n \<le> 1 then map (text_of 16) hs
     else (if s = 0 then [[]] else []) @ map (text_of 16) (take s hs) @ [[]] @ map (text_of 16) (drop (s + n) hs)
       @ (if s + n = length hs then [[]] else []))"

definition v6_text :: "nat \<Rightarrow> pystr" where
  "v6_text v = join_on 58 (compress (groups 65536 8 v))"

definition ip_text :: "ip \<Rightarrow> pystr" where
  "ip_text a = (case a of V4 v \<Rightarrow> v4_text v | V6 v \<Rightarrow> v6_text v)"

section \<open>Reading canonical text\<close>

lemma octet_text: "n < 256 \<Longrightarrow> octet (text_of 10 n) = Some n"
proof -
  assume n: "n < 256"
  have "length (text_of 10 n) \<le> 3" using digits_length [of 10 n 3] n by (simp add: text_of_def)
  moreover have "hd (text_of 10 n) \<noteq> 48 \<or> text_of 10 n = [48]"
  proof (cases "n = 0")
    case True then show ?thesis by (simp add: text_of_def digits.simps digit_text_def)
  next
    case False
    then have "hd (digits 10 n) \<noteq> 0" by (intro digits_lead) auto
    then have "hd (text_of 10 n) \<noteq> 48" by (simp add: text_of_def hd_map digit_text_def)
    then show ?thesis by blast
  qed
  ultimately show ?thesis
    using n read_text [of 10 n] text_of_decimal [of _ n] by (auto simp: octet_def list_all_iff text_of_def)
qed

lemma decimal_free: "\<not> digit c \<Longrightarrow> c \<notin> set (text_of 10 n)"
  using text_of_decimal by blast

lemma read_v4_text: "v < 2 ^ 32 \<Longrightarrow> read_v4 (v4_text v) = Some v"
proof -
  assume v: "v < 2 ^ 32"
  define gs where "gs = groups 256 4 v"
  have "length gs = Suc (Suc (Suc (Suc 0)))" by (simp add: gs_def)
  then obtain a b c d where "gs = [a, b, c, d]" by (auto simp: length_Suc_conv)
  then have g: "groups 256 4 v = [a, b, c, d]" by (simp add: gs_def)
  have "split_on 46 (v4_text v) = map (text_of 10) [a, b, c, d]"
    unfolding v4_text_def g by (rule split_join) (auto simp: decimal_free digit_def)
  moreover have "of_groups 256 [a, b, c, d] = v" using of_groups_groups [of v 256 4] v g by simp
  moreover have "octet (text_of 10 h) = Some h" if "h \<in> {a, b, c, d}" for h
    using groups_bound [of 256 h 4 v] g that by (intro octet_text) auto
  ultimately show ?thesis by (simp add: read_v4_def)
qed

lemma text_of_nonempty [simp]: "text_of b n \<noteq> []"
  by (simp add: text_of_def)

lemma hextet_text: "n < 65536 \<Longrightarrow> hextet (text_of 16 n) = Some n"
  using digits_length [of 16 n 4] text_of_chars [of 16 _ n] read_text [of 16 n]
  by (auto simp: hextet_def list_all_iff text_of_def)

lemma hextets_text: "\<forall>h \<in> set hs. h < 65536 \<Longrightarrow> hextets (map (text_of 16) hs) = Some hs"
  by (induction hs) (auto simp: hextet_text)

lemma zero_run_take: "take (zero_run hs) hs = replicate (zero_run hs) 0" "zero_run hs \<le> length hs"
  by (induction hs) (auto simp: zero_run_def)

lemma best_run_zeros:
  assumes "best_run hs = (s, n)"
  shows "s + n \<le> length hs \<and> take n (drop s hs) = replicate n 0"
proof -
  have inv: "fst p + snd p \<le> length hs \<and> take (snd p) (drop (fst p) hs) = replicate (snd p) 0 \<Longrightarrow> set is \<subseteq> {0..<length hs} \<Longrightarrow>
    p' = fold (\<lambda>i (s, n). if n < zero_run (drop i hs) then (i, zero_run (drop i hs)) else (s, n)) is p \<Longrightarrow>
    fst p' + snd p' \<le> length hs \<and> take (snd p') (drop (fst p') hs) = replicate (snd p') 0" for p p' "is"
  proof (induction "is" arbitrary: p)
    case (Cons i "is")
    have "i + zero_run (drop i hs) \<le> length hs" using zero_run_take(2) [of "drop i hs"] Cons(3) by auto
    then show ?case using Cons zero_run_take(1) [of "drop i hs"] by (cases p) (auto split: if_splits)
  qed simp
  show ?thesis using inv [of "(0, 0)" "[0..<length hs]" "(s, n)"] assms unfolding best_run_def by auto
qed

lemma inner_empty_one:
  assumes "xs \<noteq> []" "ys \<noteq> []" "\<forall>p \<in> set (tl xs). p \<noteq> []" "\<forall>p \<in> set (butlast ys). p \<noteq> []"
  shows "inner_empty (xs @ [[]] @ ys) = [length xs]"
proof -
  let ?ps = "xs @ [[]] @ ys"
  have "[1..<length xs + length ys] = [1..<length xs] @ [length xs..<length xs + length ys]"
    using assms(1) by (intro upt_add_eq_append) (cases xs; simp)
  moreover have "[length xs..<length xs + length ys] = length xs # [Suc (length xs)..<length xs + length ys]"
    using assms(2) by (intro upt_conv_Cons) simp
  ultimately have up: "[1..<length ?ps - 1] = [1..<length xs] @ [length xs] @ [Suc (length xs)..<length xs + length ys]" by simp
  have "?ps ! i \<noteq> []" if "i \<in> set [1..<length xs]" for i
  proof -
    have "?ps ! i = tl xs ! (i - 1)" "i - 1 < length (tl xs)" using that assms(1) by (auto simp: nth_append nth_tl)
    then show ?thesis using assms(3) nth_mem by metis
  qed
  moreover have "?ps ! i \<noteq> []" if "i \<in> set [Suc (length xs)..<length xs + length ys]" for i
  proof -
    have "?ps ! i = butlast ys ! (i - Suc (length xs))" "i - Suc (length xs) < length (butlast ys)"
      using that assms(2) by (auto simp: nth_append nth_butlast)
    then show ?thesis using assms(4) nth_mem by metis
  qed
  ultimately have "filter (\<lambda>i. ?ps ! i = []) [1..<length xs] = []" "filter (\<lambda>i. ?ps ! i = []) [Suc (length xs)..<length xs + length ys] = []"
    by (auto simp: filter_empty_conv)
  then show ?thesis unfolding inner_empty_def up by simp
qed

lemma inner_empty_none: "\<forall>p \<in> set ps. p \<noteq> [] \<Longrightarrow> inner_empty ps = []"
  by (auto simp: inner_empty_def filter_empty_conv)

lemma fill_groups_text:
  assumes "\<forall>h \<in> set a. h < 65536" "\<forall>h \<in> set b. h < 65536" "length a + length b < 8"
  shows "fill_groups ((if a = [] then [[]] else []) @ map (text_of 16) a) (map (text_of 16) b @ (if b = [] then [[]] else []))
    = Some (a @ replicate (8 - length a - length b) 0 @ b)"
  using assms hextets_text [of a] hextets_text [of b] by (auto simp: fill_groups_def hd_map last_map Let_def)

lemma hex_free: "\<not> hex_char c \<Longrightarrow> c \<notin> set (text_of 16 n)"
  using text_of_chars [of 16] by auto

lemma compress_parts:
  assumes "hs \<noteq> []" "p \<in> set (compress hs)"
  shows "58 \<notin> set p \<and> 46 \<notin> set p"
  using assms by (auto simp: compress_def hex_free hex_char_def digit_def split: prod.splits if_splits)

lemma read_compressed:
  assumes "length hs = 8" "\<forall>h \<in> set hs. h < 65536"
  shows "read_v6 (join_on 58 (compress hs)) = Some (of_groups 65536 hs)"
proof -
  obtain s n where run: "best_run hs = (s, n)" by fastforce
  let ?ps = "compress hs"
  have ne: "hs \<noteq> []" using assms(1) by auto
  have len: "3 \<le> length ?ps \<and> length ?ps \<le> 9"
    using assms(1) best_run_zeros [OF run] by (auto simp: compress_def run)
  then have ps: "?ps \<noteq> []" by auto
  have split: "split_on 58 (join_on 58 ?ps) = ?ps" using compress_parts [OF ne] ps by (intro split_join) auto
  have full: "join_on 58 ?ps \<noteq> []" 
  proof
    assume "join_on 58 ?ps = []"
    then have "?ps = [[]]" using split by simp
    then show False using len by simp
  qed
  have parts: "v6_parts ?ps = Some ?ps" using compress_parts [OF ne last_in_set [OF ps]] by (simp add: v6_parts_def)
  have "map_option (of_groups 65536) (case inner_empty ?ps of
      [] \<Rightarrow> if length ?ps = 8 then hextets ?ps else None | [i] \<Rightarrow> fill_groups (take i ?ps) (drop (Suc i) ?ps) | _ \<Rightarrow> None)
    = Some (of_groups 65536 hs)"
  proof (cases "n \<le> 1")
    case True
    then have "?ps = map (text_of 16) hs" by (simp add: compress_def run)
    then show ?thesis using assms hextets_text by (simp add: inner_empty_none)
  next
    case False
    define a b where "a = take s hs" and "b = drop (s + n) hs"
    let ?xs = "(if a = [] then [[]] else []) @ map (text_of 16) a" and ?ys = "map (text_of 16) b @ (if b = [] then [[]] else [])"
    have z: "s + n \<le> 8" "take n (drop s hs) = replicate n 0" using best_run_zeros [OF run] assms(1) by auto
    have "hs = a @ take n (drop s hs) @ b" unfolding a_def b_def by (metis append_take_drop_id drop_drop add.commute)
    then have hs: "hs = a @ replicate n 0 @ b" using z(2) by simp
    have la: "length a = s" "length b = 8 - s - n" using z assms(1) by (auto simp: a_def b_def)
    have shape: "?ps = ?xs @ [[]] @ ?ys" using False la z assms(1) by (auto simp: compress_def run a_def b_def)
    have inner: "inner_empty ?ps = [length ?xs]" unfolding shape by (rule inner_empty_one) (auto simp: map_tl [symmetric] map_butlast [symmetric])
    have "fill_groups ?xs ?ys = Some (a @ replicate (8 - length a - length b) 0 @ b)"
      using assms(2) False la z by (intro fill_groups_text) (auto simp: hs)
    also have "8 - length a - length b = n" using la z by simp
    finally have "fill_groups ?xs ?ys = Some hs" using hs by simp
    moreover have "take (length ?xs) ?ps = ?xs" "drop (Suc (length ?xs)) ?ps = ?ys" unfolding shape by simp_all
    ultimately show ?thesis by (simp only: inner list.case option.map)
  qed
  moreover have "length ?ps \<le> 9" "\<not> length ?ps < 3" using len by auto
  ultimately show ?thesis unfolding read_v6_def split parts Let_def using full
    by (auto split: list.splits if_splits)
qed

lemma read_v6_text: "v < 2 ^ 128 \<Longrightarrow> read_v6 (v6_text v) = Some v"
  using read_compressed [of "groups 65536 8 v"] of_groups_groups [of v 65536 8] groups_bound [of 65536 _ 8 v]
  by (simp add: v6_text_def)

lemma join_length: "length (join_on x ps) \<le> sum_list (map length ps) + length ps"
  by (induction x ps rule: join_on.induct) auto

lemma parts_length: "\<forall>p \<in> set ps. length p \<le> k \<Longrightarrow> length (join_on x ps) \<le> Suc k * length ps"
  using join_length [of x ps] sum_list_mono [of ps length "\<lambda>_. k"] by (simp add: sum_list_triv mult.commute)

lemma join_chars: "c \<in> set (join_on x ps) \<Longrightarrow> c = x \<or> (\<exists>p \<in> set ps. c \<in> set p)"
  by (induction x ps rule: join_on.induct) auto

lemma join_dots: "2 \<le> length ps \<Longrightarrow> x \<in> set (join_on x ps)"
  by (induction x ps rule: join_on.induct) auto

definition ip_valid :: "ip \<Rightarrow> bool" where
  "ip_valid a = (case a of V4 v \<Rightarrow> v < 2 ^ 32 | V6 v \<Rightarrow> v < 2 ^ 128)"

lemma compress_length: "length hs = 8 \<Longrightarrow> 3 \<le> length (compress hs) \<and> length (compress hs) \<le> 9"
  using best_run_zeros [of hs "fst (best_run hs)" "snd (best_run hs)"] by (auto simp: compress_def split: prod.splits)

lemma v6_text_chars: "c \<in> set (v6_text v) \<Longrightarrow> hex_char c \<or> c = 58"
  using join_chars [of c 58 "compress (groups 65536 8 v)"] text_of_chars [of 16 c]
  by (auto simp: v6_text_def compress_def split: prod.splits if_splits)

lemma v6_text_colon: "58 \<in> set (v6_text v)"
  using compress_length [of "groups 65536 8 v"] unfolding v6_text_def by (intro join_dots) simp

lemma v6_text_length: "length (v6_text v) \<le> 45"
proof -
  have "length (text_of 16 h) \<le> 4" if "h < 65536" for h using digits_length [of 16 h 4] that by (simp add: text_of_def)
  then have "\<forall>p \<in> set (compress (groups 65536 8 v)). length p \<le> 4"
    using groups_bound [of 65536 _ 8 v] by (auto simp: compress_def dest: in_set_takeD in_set_dropD split: prod.splits if_splits)
  from parts_length [OF this, of 58] compress_length [of "groups 65536 8 v"] show ?thesis by (simp add: v6_text_def)
qed

lemma v4_text_chars: "c \<in> set (v4_text v) \<Longrightarrow> digit c \<or> c = 46"
  using join_chars [of c 46 "map (text_of 10) (groups 256 4 v)"] text_of_decimal by (auto simp: v4_text_def)

lemma v4_text_length: "length (v4_text v) \<le> 16"
proof -
  have "length (text_of 10 h) \<le> 3" if "h < 256" for h using digits_length [of 10 h 3] that by (simp add: text_of_def)
  then have "\<forall>p \<in> set (map (text_of 10) (groups 256 4 v)). length p \<le> 3" using groups_bound [of 256 _ 4 v] by auto
  from parts_length [OF this, of 46] show ?thesis by (simp add: v4_text_def)
qed

lemma read_v4_dots: "46 \<notin> set s \<Longrightarrow> read_v4 s = None"
  by (simp add: read_v4_def split_on_free split: option.splits)

lemma read_v6_colons: "58 \<notin> set s \<Longrightarrow> read_v6 s = None"
  by (simp add: read_v6_def split_on_free)

lemma read_ip_text: "ip_valid a \<Longrightarrow> read_ip (ip_text a) = Some a"
proof (cases a)
  case (V6 v)
  assume "ip_valid a"
  moreover have "46 \<notin> set (v6_text v)" using v6_text_chars by (fastforce simp: hex_char_def digit_def)
  ultimately show ?thesis using V6 read_v4_dots by (simp add: read_ip_def ip_text_def ip_valid_def read_v6_text)
qed (simp add: read_ip_def ip_text_def ip_valid_def read_v4_text)

lemma of_groups_bound: "\<forall>g \<in> set gs. g < b \<Longrightarrow> of_groups b gs < b ^ length gs"
proof (induction gs rule: rev_induct)
  case (snoc g gs)
  then have "Suc (of_groups b gs) * b \<le> b ^ length gs * b" by (intro mult_le_mono1) auto
  then show ?case using snoc by (simp add: of_groups_def mult.commute)
qed (simp add: of_groups_def)

lemma octet_bound: "octet s = Some n \<Longrightarrow> n < 256"
  by (auto simp: octet_def split: if_splits)

lemma read_v4_bound: "read_v4 s = Some v \<Longrightarrow> v < 2 ^ 32"
proof -
  assume "read_v4 s = Some v"
  then obtain a b c d where v: "map octet (split_on 46 s) = [Some a, Some b, Some c, Some d]" "v = of_groups 256 [a, b, c, d]"
    by (auto simp: read_v4_def split: list.splits option.splits)
  then have "\<forall>g \<in> set [a, b, c, d]. g < 256" by (auto simp: map_eq_Cons_conv octet_bound)
  from of_groups_bound [OF this] show ?thesis by (simp add: v(2))
qed

lemma hextet_bound: "hextet s = Some n \<Longrightarrow> n < 65536"
proof -
  assume h: "hextet s = Some n"
  have "read_digits 16 s < 16 ^ length s" if "list_all hex_char s" for s
    using that
  proof (induction s rule: rev_induct)
    case (snoc c s)
    have "digit_value c < 16" using snoc(2) by (auto simp: digit_value_def hex_char_def digit_def)
    moreover have "Suc (read_digits 16 s) * 16 \<le> 16 ^ length s * 16" using snoc by (intro mult_le_mono1) auto
    ultimately show ?case by (simp add: read_digits_def)
  qed (simp add: read_digits_def)
  moreover have "16 ^ length s \<le> (16 :: nat) ^ 4" using h by (intro power_increasing) (auto simp: hextet_def split: if_splits)
  ultimately show ?thesis using h by (fastforce simp: hextet_def split: if_splits)
qed

lemma hextets_bound: "hextets ps = Some hs \<Longrightarrow> length hs = length ps \<and> (\<forall>h \<in> set hs. h < 65536)"
  by (induction ps arbitrary: hs) (auto simp: hextet_bound split: option.splits)

lemma fill_groups_bound: "fill_groups hi lo = Some hs \<Longrightarrow> length hs = 8 \<and> (\<forall>h \<in> set hs. h < 65536)"
proof -
  assume f: "fill_groups hi lo = Some hs"
  then obtain a b hi' lo' where "hextets hi' = Some a" "hextets lo' = Some b" "length hi' + length lo' < 8"
    "hs = a @ replicate (8 - length a - length b) 0 @ b"
    unfolding fill_groups_def Let_def by (auto split: option.splits if_splits)
  then show ?thesis using hextets_bound [of hi' a] hextets_bound [of lo' b] by auto
qed

lemma read_v6_bound: "read_v6 s = Some v \<Longrightarrow> v < 2 ^ 128"
proof -
  assume "read_v6 s = Some v"
  then obtain hs where v: "v = of_groups 65536 hs" and "(\<exists>ps. length ps = 8 \<and> hextets ps = Some hs) \<or> (\<exists>hi lo. fill_groups hi lo = Some hs)"
    unfolding read_v6_def Let_def by (auto split: option.splits list.splits if_splits)
  then have "length hs = 8 \<and> (\<forall>h \<in> set hs. h < 65536)" using hextets_bound fill_groups_bound by metis
  then show ?thesis using of_groups_bound [of hs 65536] v by simp
qed

lemma read_ip_valid: "read_ip s = Some a \<Longrightarrow> ip_valid a"
  using read_v4_bound read_v6_bound by (auto simp: read_ip_def ip_valid_def split: option.splits)

section \<open>Networks\<close>

record network =
  nt_address :: ip
  nt_prefix :: nat

text \<open>\<^verbatim>\<open>address & netmask\<close> for a prefix of \<open>p\<close> of \<open>w\<close> bits.\<close>

definition masked :: "nat \<Rightarrow> nat \<Rightarrow> nat \<Rightarrow> nat" where
  "masked w p v = push_bit (w - p) (drop_bit (w - p) v)"

text \<open>The prefix of an IPv4 network may also be written as a netmask or as a host mask.\<close>

definition mask_prefix :: "nat \<Rightarrow> nat option" where
  "mask_prefix v = find (\<lambda>p. v = 2 ^ 32 - 2 ^ (32 - p)) [0..<33]"

definition read_prefix :: "nat \<Rightarrow> pystr \<Rightarrow> nat option" where
  "read_prefix w s = (if s \<noteq> [] \<and> list_all digit s \<and> read_digits 10 s \<le> w then Some (read_digits 10 s) else None)"

definition read_v4_prefix :: "pystr \<Rightarrow> nat option" where
  "read_v4_prefix s = (case read_prefix 32 s of
     Some p \<Rightarrow> Some p
   | None \<Rightarrow> (case read_v4 s of
       None \<Rightarrow> None
     | Some v \<Rightarrow> (case mask_prefix v of Some p \<Rightarrow> Some p | None \<Rightarrow> mask_prefix (2 ^ 32 - 1 - v))))"

definition read_network :: "pystr \<Rightarrow> network option" where
  "read_network s = (case split_on 47 s of
     [a, m] \<Rightarrow> (case (read_v4 a, read_v4_prefix m) of
         (Some v, Some p) \<Rightarrow> if masked 32 p v = v then Some \<lparr>nt_address = V4 v, nt_prefix = p\<rparr> else None
       | _ \<Rightarrow> (case (read_v6 a, read_prefix 128 m) of
           (Some v, Some p) \<Rightarrow> if masked 128 p v = v then Some \<lparr>nt_address = V6 v, nt_prefix = p\<rparr> else None
         | _ \<Rightarrow> None))
   | _ \<Rightarrow> None)"

definition network_text :: "network \<Rightarrow> pystr" where
  "network_text n = ip_text (nt_address n) @ [47] @ text_of 10 (nt_prefix n)"

text \<open>\<^verbatim>\<open>ip.version == n.version and ip in n\<close>\<close>

definition in_network :: "ip \<Rightarrow> network \<Rightarrow> bool" where
  "in_network a n = (case (a, nt_address n) of
     (V4 v, V4 w) \<Rightarrow> masked 32 (nt_prefix n) v = w
   | (V6 v, V6 w) \<Rightarrow> masked 128 (nt_prefix n) v = w
   | _ \<Rightarrow> False)"

definition in_any :: "ip \<Rightarrow> network list \<Rightarrow> bool" where
  "in_any a ns = list_ex (in_network a) ns"

end
