(* ===== verification/Connectivity.thy ===== *)
theory Connectivity
  imports IpText Complex_Main
begin

text \<open>
  The owner's connectivity policy (\<^verbatim>\<open>product/wp09/par_connectivity/model.py\<close> and \<^verbatim>\<open>policy.py\<close>): validated endpoints,
  candidates, grants and budgets, the selection of granted routes, and the all-or-nothing check of resolved addresses.
  A frozen dataclass is a record, and its \<^verbatim>\<open>__post_init__\<close> is the checked constructor \<open>mk_\<dots>\<close>. Arguments have their declared
  types; a time span is a rational, as the code compares it.
\<close>

section \<open>Model\<close>

abbreviation conn_fail :: "string \<Rightarrow> 'a res" where
  "conn_fail code \<equiv> Inl (ConnectivityError code)"

definition c_need :: "bool \<Rightarrow> string \<Rightarrow> unit res" where
  "c_need ok code = need ok (ConnectivityError code)"

definition SOURCES :: "pystr list" where
  "SOURCES = map cps [''peer-cache'', ''manual'', ''lan'', ''helper'', ''relay'']"

definition lower_char :: "nat \<Rightarrow> bool" where
  "lower_char c \<longleftrightarrow> 97 \<le> c \<and> c \<le> 122"

definition letter :: "nat \<Rightarrow> bool" where
  "letter c \<longleftrightarrow> lower_char c \<or> 65 \<le> c \<and> c \<le> 90"

definition c_identifier :: "pystr \<Rightarrow> string \<Rightarrow> pystr res" where
  "c_identifier v code = bindE (c_need (1 \<le> length v \<and> length v \<le> 128
     \<and> list_all (\<lambda>c. letter c \<or> digit c \<or> c \<in> {95, 46, 58, 45}) v) code) (\<lambda>_. Inr v)"

definition bounded_tuple :: "'a list \<Rightarrow> int \<Rightarrow> string \<Rightarrow> 'a list res" where
  "bounded_tuple v limit code = bindE (c_need (int (length v) \<le> limit) code) (\<lambda>_. Inr v)"

record endpoint =
  en_scheme :: pystr
  en_host :: pystr
  en_port :: nat
  en_literal :: "pystr option"

definition endpoint_key :: "endpoint \<Rightarrow> pystr" where
  "endpoint_key e = en_scheme e @ cps ''://'' @ (if 58 \<in> set (en_host e) then [91] @ en_host e @ [93] else en_host e)
     @ [58] @ text_of 10 (en_port e)"

section \<open>Addresses and endpoints\<close>

definition numeric_ip :: "pystr \<Rightarrow> ip res" where
  "numeric_ip s =
     bindE (c_need (s \<noteq> [] \<and> length s \<le> 45 \<and> 37 \<notin> set s) ''INVALID_ADDRESS'') (\<lambda>_.
     case read_ip s of
       None \<Rightarrow> conn_fail ''INVALID_ADDRESS''
     | Some (V4 v) \<Rightarrow> Inr (V4 v)
     | Some (V6 v) \<Rightarrow> Inr (if v div 2 ^ 32 = 65535 then V4 (v mod 2 ^ 32) else V6 v))"

definition lower_text :: "pystr \<Rightarrow> pystr" where
  "lower_text = map (\<lambda>c. if 65 \<le> c \<and> c \<le> 90 then c + 32 else c)"

text \<open>A label that system resolvers read as a number: decimal, or hexadecimal after \<^verbatim>\<open>0x\<close>.\<close>

definition number_label :: "pystr \<Rightarrow> bool" where
  "number_label s \<longleftrightarrow> (s \<noteq> [] \<and> list_all digit s)
     \<or> (take 2 s = [48, 120] \<and> drop 2 s \<noteq> [] \<and> list_all (\<lambda>c. digit c \<or> 97 \<le> c \<and> c \<le> 102) (drop 2 s))"

definition dns_label :: "pystr \<Rightarrow> bool" where
  "dns_label s \<longleftrightarrow> 1 \<le> length s \<and> length s \<le> 63 \<and> (lower_char (hd s) \<or> digit (hd s)) \<and> (lower_char (last s) \<or> digit (last s))
     \<and> list_all (\<lambda>c. lower_char c \<or> digit c \<or> c = 45) s"

definition dns_name :: "pystr \<Rightarrow> pystr res" where
  "dns_name s =
     bindE (c_need (list_all (\<lambda>c. c < 128) s \<and> length s \<le> 253) ''INVALID_ENDPOINT'') (\<lambda>_.
     let name = lower_text s; labels = split_on 46 name in
     bindE (c_need (\<not> (length labels \<le> 4 \<and> list_all number_label labels)) ''INVALID_ENDPOINT'') (\<lambda>_.
     bindE (c_need (2 \<le> length labels \<and> list_ex lower_char (last labels) \<and> list_all dns_label labels) ''INVALID_ENDPOINT'') (\<lambda>_.
       Inr name)))"

text \<open>The endpoint pattern: a scheme, a bracketed or plain host, and a port after the last colon.\<close>

definition schemes :: "pystr list" where
  "schemes = map cps [''tcp'', ''quic'', ''wss'']"

definition host_part :: "pystr \<Rightarrow> bool" where
  "host_part s \<longleftrightarrow>
     (if take 1 s = [91] then 3 \<le> length s \<and> last s = 93 \<and> list_all (\<lambda>c. hex_char c \<or> c = 58 \<or> c = 46) (butlast (tl s))
      else s \<noteq> [] \<and> list_all (\<lambda>c. letter c \<or> digit c \<or> c = 46 \<or> c = 45) s)"

definition port_part :: "pystr \<Rightarrow> bool" where
  "port_part s \<longleftrightarrow> s \<noteq> [] \<and> length s \<le> 5 \<and> list_all digit s \<and> hd s \<noteq> 48"

definition match_endpoint :: "pystr \<Rightarrow> (pystr \<times> pystr \<times> pystr) option" where
  "match_endpoint s = (case find (\<lambda>k. take (length k + 3) s = k @ cps ''://'') schemes of
     None \<Rightarrow> None
   | Some k \<Rightarrow>
       let parts = split_on 58 (drop (length k + 3) s); host = join_on 58 (butlast parts) in
       if 2 \<le> length parts \<and> host_part host \<and> port_part (last parts) then Some (k, host, last parts) else None)"

definition endpoint_host :: "pystr \<Rightarrow> (pystr \<times> pystr option) res" where
  "endpoint_host raw =
     (let bracketed = (take 1 raw = [91]); host = (if bracketed then butlast (tl raw) else raw) in
      case bindE (numeric_ip host) (\<lambda>a.
             bindE (c_need (\<not> (bracketed \<and> 58 \<notin> set host)) ''INVALID_ENDPOINT'') (\<lambda>_. Inr (ip_text a))) of
        Inr text \<Rightarrow> Inr (text, Some text)
      | Inl (ConnectivityError _) \<Rightarrow>
          if bracketed then conn_fail ''INVALID_ENDPOINT'' else bindE (dns_name host) (\<lambda>name. Inr (name, None))
      | Inl e \<Rightarrow> Inl e)"

definition parse_endpoint :: "pystr \<Rightarrow> endpoint res" where
  "parse_endpoint s =
     bindE (c_need (list_all (\<lambda>c. c < 128) s \<and> length s \<le> 320) ''INVALID_ENDPOINT'') (\<lambda>_.
     case match_endpoint s of
       None \<Rightarrow> conn_fail ''INVALID_ENDPOINT''
     | Some (scheme, raw, port) \<Rightarrow>
         bindE (c_need (1 \<le> read_digits 10 port \<and> read_digits 10 port \<le> 65535) ''INVALID_ENDPOINT'') (\<lambda>_.
         bindE (endpoint_host raw) (\<lambda>(host, literal).
           Inr \<lparr>en_scheme = scheme, en_host = host, en_port = read_digits 10 port, en_literal = literal\<rparr>)))"

definition parse_network :: "pystr \<Rightarrow> network res" where
  "parse_network s =
     bindE (c_need (length s \<le> 49 \<and> 37 \<notin> set s \<and> 47 \<in> set s) ''INVALID_NETWORK'') (\<lambda>_.
     case read_network s of None \<Rightarrow> conn_fail ''INVALID_NETWORK'' | Some n \<Rightarrow> Inr n)"

section \<open>Candidates, grants and budgets\<close>

record candidate =
  ca_endpoint :: pystr
  ca_peer_id :: pystr
  ca_source :: pystr

definition mk_candidate :: "pystr \<Rightarrow> pystr \<Rightarrow> pystr \<Rightarrow> candidate res" where
  "mk_candidate text peer source =
     bindE (parse_endpoint text) (\<lambda>e.
     bindE (c_identifier peer ''INVALID_ID'') (\<lambda>_.
     bindE (c_need (source \<in> set SOURCES) ''INVALID_SOURCE'') (\<lambda>_.
       Inr \<lparr>ca_endpoint = endpoint_key e, ca_peer_id = peer, ca_source = source\<rparr>)))"

record route_grant =
  gr_endpoint :: pystr
  gr_peer_id :: pystr
  gr_source :: pystr
  gr_networks :: "pystr list"
  gr_allow_local :: bool
  gr_resolver_id :: "pystr option"
  gr_aliases :: "pystr list"

definition mk_grant :: "pystr \<Rightarrow> pystr \<Rightarrow> pystr \<Rightarrow> pystr list \<Rightarrow> bool \<Rightarrow> pystr option \<Rightarrow> pystr list \<Rightarrow> route_grant res" where
  "mk_grant text peer source networks allow_local resolver aliases =
     bindE (mk_candidate text peer source) (\<lambda>c.
     bindE (case resolver of None \<Rightarrow> Inr [] | Some r \<Rightarrow> c_identifier r ''INVALID_RESOLVER'') (\<lambda>_.
     bindE (bounded_tuple networks 32 ''INVALID_NETWORK'') (\<lambda>_.
     bindE (mapE parse_network networks) (\<lambda>ns.
     bindE (bounded_tuple aliases 16 ''INVALID_ALIAS'') (\<lambda>_.
     bindE (mapE dns_name aliases) (\<lambda>as.
       Inr \<lparr>gr_endpoint = ca_endpoint c, gr_peer_id = peer, gr_source = source, gr_networks = map network_text ns,
         gr_allow_local = allow_local, gr_resolver_id = resolver, gr_aliases = as\<rparr>))))))"

record policy =
  po_grants :: "route_grant list"
  po_allow_egress :: bool
  po_allow_metered_user :: bool
  po_allow_metered_background :: bool
  po_max_candidates :: int
  po_max_candidate_bytes :: int
  po_max_addresses :: int
  po_max_total_addresses :: int
  po_max_aliases :: int
  po_max_attempts :: int
  po_max_inflight :: int
  po_max_connections :: int
  po_timeout :: rat
  po_cleanup_timeout :: rat

definition grant_key :: "route_grant \<Rightarrow> pystr \<times> pystr \<times> pystr" where
  "grant_key g = (gr_source g, gr_peer_id g, gr_endpoint g)"

text \<open>The float \<^verbatim>\<open>0.001\<close> is this fraction.\<close>

definition span_ok :: "rat \<Rightarrow> bool" where
  "span_ok v \<longleftrightarrow> 1152921504606847 / 1152921504606846976 \<le> v \<and> v \<le> 60"

definition check_policy :: "policy \<Rightarrow> policy res" where
  "check_policy p =
     bindE (bounded_tuple (po_grants p) 128 ''INVALID_POLICY'') (\<lambda>gs.
     bindE (c_need (distinct (map grant_key gs)) ''DUPLICATE_GRANT'') (\<lambda>_.
     bindE (c_need (list_all (\<lambda>(v, maximum). 1 \<le> v \<and> v \<le> maximum)
       [(po_max_candidates p, 128), (po_max_candidate_bytes p, 65536), (po_max_addresses p, 64), (po_max_total_addresses p, 256),
        (po_max_aliases p, 16), (po_max_attempts p, 64), (po_max_inflight p, 16), (po_max_connections p, 64)]) ''INVALID_BUDGET'') (\<lambda>_.
     bindE (c_need (span_ok (po_timeout p) \<and> span_ok (po_cleanup_timeout p)) ''INVALID_BUDGET'') (\<lambda>_. Inr p))))"

record resolution =
  re_query :: pystr
  re_resolver_id :: pystr
  re_addresses :: "pystr list"
  re_aliases :: "pystr list"

record dial_target =
  dt_scheme :: pystr
  dt_ip :: pystr
  dt_port :: nat
  dt_server_name :: "pystr option"
  dt_peer_id :: pystr
  dt_source :: pystr
  dt_generation :: int

section \<open>Special ranges\<close>

definition net4 :: "nat \<Rightarrow> nat \<Rightarrow> nat \<Rightarrow> nat \<Rightarrow> nat \<Rightarrow> network" where
  "net4 a b c d p = \<lparr>nt_address = V4 (of_groups 256 [a, b, c, d]), nt_prefix = p\<rparr>"

definition net6 :: "nat list \<Rightarrow> nat \<Rightarrow> network" where
  "net6 hs p = \<lparr>nt_address = V6 (of_groups 65536 (take 8 (hs @ replicate 8 0))), nt_prefix = p\<rparr>"

definition SPECIAL_V4 :: "network list" where
  "SPECIAL_V4 = [net4 0 0 0 0 8, net4 100 64 0 0 10, net4 169 254 0 0 16, net4 192 0 0 0 24, net4 192 0 2 0 24, net4 192 31 196 0 24,
     net4 192 52 193 0 24, net4 192 88 99 0 24, net4 192 175 48 0 24, net4 198 18 0 0 15, net4 198 51 100 0 24, net4 203 0 113 0 24,
     net4 224 0 0 0 4, net4 240 0 0 0 4]"

definition SPECIAL_V6 :: "network list" where
  "SPECIAL_V6 = [net6 [8193] 23, net6 [8193, 3512] 32, net6 [8194] 16, net6 [9760, 79, 32768] 48, net6 [16383] 20]"

definition LOCAL :: "network list" where
  "LOCAL = [net4 10 0 0 0 8, net4 172 16 0 0 12, net4 192 168 0 0 16, net4 127 0 0 0 8,
     \<lparr>nt_address = V6 1, nt_prefix = 128\<rparr>, net6 [64512] 7]"

definition GLOBAL_V6 :: network where
  "GLOBAL_V6 = net6 [8192] 3"

definition METADATA_V6 :: ip where
  "METADATA_V6 = V6 (of_groups 65536 [64768, 3778, 0, 0, 0, 0, 0, 596])"

section \<open>Admission of routes and addresses\<close>

definition address_allowed :: "pystr \<Rightarrow> route_grant \<Rightarrow> pystr res" where
  "address_allowed text g =
     bindE (numeric_ip text) (\<lambda>a.
     bindE (c_need (a \<noteq> METADATA_V6) ''METADATA_DENIED'') (\<lambda>_.
     bindE (if in_any a LOCAL then c_need (gr_allow_local g) ''LOCAL_ADDRESS_DENIED''
            else c_need (case a of V4 _ \<Rightarrow> \<not> in_any a SPECIAL_V4 | V6 _ \<Rightarrow> in_network a GLOBAL_V6 \<and> \<not> in_any a SPECIAL_V6)
              ''SPECIAL_ADDRESS_DENIED'') (\<lambda>_.
     bindE (mapE parse_network (gr_networks g)) (\<lambda>ns.
     bindE (c_need (in_any a ns) ''ADDRESS_NOT_GRANTED'') (\<lambda>_. Inr (ip_text a))))))"

definition candidate_key :: "candidate \<Rightarrow> pystr \<times> pystr \<times> pystr" where
  "candidate_key c = (ca_source c, ca_peer_id c, ca_endpoint c)"

definition candidate_size :: "candidate \<Rightarrow> nat" where
  "candidate_size c = length (ca_endpoint c) + length (ca_peer_id c) + length (ca_source c)"

definition select_candidates :: "candidate list \<Rightarrow> policy \<Rightarrow> route_grant list res" where
  "select_candidates rows p =
     bindE (c_need (po_allow_egress p) ''EGRESS_DENIED'') (\<lambda>_.
     bindE (bounded_tuple rows (po_max_candidates p) ''CANDIDATE_BUDGET'') (\<lambda>_.
     bindE (c_need (int (sum_list (map candidate_size rows)) \<le> po_max_candidate_bytes p) ''CANDIDATE_BYTES'') (\<lambda>_.
     bindE (foldE (\<lambda>c (seen, selected).
         case find (\<lambda>g. grant_key g = candidate_key c) (rev (po_grants p)) of
           None \<Rightarrow> conn_fail ''ROUTE_NOT_GRANTED''
         | Some g \<Rightarrow> Inr (if candidate_key c \<in> set seen then (seen, selected) else (seen @ [candidate_key c], selected @ [g])))
       rows ([], [])) (\<lambda>(_, selected). Inr selected))))"

text \<open>\<^verbatim>\<open>dict.fromkeys\<close>: first occurrences, in order.\<close>

definition from_keys :: "'a list \<Rightarrow> 'a list" where
  "from_keys xs = rev (remdups (rev xs))"

definition check_aliases :: "route_grant \<Rightarrow> pystr \<Rightarrow> pystr list \<Rightarrow> unit res" where
  "check_aliases g host aliases =
     bindE (foldE (\<lambda>alias seen.
         bindE (dns_name alias) (\<lambda>name.
         bindE (c_need (name \<notin> set seen) ''DNS_ALIAS_CYCLE'') (\<lambda>_.
         bindE (c_need (name \<in> set (gr_aliases g)) ''DNS_ALIAS_DENIED'') (\<lambda>_. Inr (seen @ [name])))))
       aliases [host]) (\<lambda>_. Inr ())"

definition route_addresses :: "route_grant \<Rightarrow> endpoint \<Rightarrow> resolution option \<Rightarrow> policy \<Rightarrow> pystr list res" where
  "route_addresses g e resolved p = (case en_literal e of
     Some literal \<Rightarrow> bindE (c_need (resolved = None) ''RESOLUTION_MISMATCH'') (\<lambda>_. Inr [literal])
   | None \<Rightarrow>
       bindE (c_need (gr_resolver_id g \<noteq> None) ''DNS_NOT_GRANTED'') (\<lambda>_.
       case resolved of
         None \<Rightarrow> conn_fail ''RESOLUTION_REQUIRED''
       | Some r \<Rightarrow>
           bindE (c_need (re_query r = en_host e \<and> Some (re_resolver_id r) = gr_resolver_id g) ''RESOLUTION_MISMATCH'') (\<lambda>_.
           bindE (bounded_tuple (re_aliases r) (po_max_aliases p) ''DNS_ALIAS_BUDGET'') (\<lambda>aliases.
           bindE (check_aliases g (en_host e) aliases) (\<lambda>_.
           bindE (bounded_tuple (re_addresses r) (po_max_addresses p) ''ADDRESS_BUDGET'') (\<lambda>addresses.
           bindE (c_need (addresses \<noteq> []) ''NO_ADDRESSES'') (\<lambda>_. Inr addresses)))))))"

definition authorize_addresses :: "route_grant \<Rightarrow> resolution option \<Rightarrow> policy \<Rightarrow> int \<Rightarrow> dial_target list res" where
  "authorize_addresses g resolved p generation =
     bindE (parse_endpoint (gr_endpoint g)) (\<lambda>e.
     bindE (route_addresses g e resolved p) (\<lambda>addresses.
     bindE (mapE (\<lambda>a. address_allowed a g) addresses) (\<lambda>ips.
       Inr (map (\<lambda>a. \<lparr>dt_scheme = en_scheme e, dt_ip = a, dt_port = en_port e,
           dt_server_name = (if en_literal e = None then Some (en_host e) else None), dt_peer_id = gr_peer_id g,
           dt_source = gr_source g, dt_generation = generation\<rparr>) (from_keys ips)))))"

end
