(* ===== verification/Connector.thy ===== *)
theory Connector
  imports Connectivity Machines
begin

text \<open>
  The connection controller (\<^verbatim>\<open>product/wp09/par_connectivity/controller.py\<close>). An operation runs between its awaits; at each await the
  other tasks of the loop may do anything to the connector. A \<open>moment\<close> is what one await brings: the work of the other tasks, the
  loop's clock, whether the caller's event is set, and what the port did. The operation's own stop event lives in the connector,
  because a network change or a close sets it. Cancellation of the task itself is not modelled.
\<close>

section \<open>State\<close>

record connector =
  co_policy :: policy
  co_scope :: pystr
  co_metered :: bool
  co_dialer :: "pystr list option"
  co_resolver :: bool
  co_auth :: bool
  co_generation :: int
  co_closed :: bool
  co_operations :: "(nat \<times> bool) list"
  co_active :: "(int \<times> nat) list"
  co_closing :: "nat list"
  co_lingering :: "(nat \<times> bool) list"
  co_cleanup_failures :: nat
  co_failed_resources :: "nat list"
  co_next_id :: int

record operation =
  op_id :: nat
  op_generation :: int
  op_deadline :: rat

record attempt =
  at_candidate_index :: nat
  at_stage :: string
  at_reason :: string

record connect_result =
  cr_state :: string
  cr_reason :: string
  cr_generation :: int
  cr_attempts :: "attempt list"
  cr_connection_id :: "int option"
  cr_observed_path :: "pystr option"

record moment =
  mo_world :: "connector \<Rightarrow> connector"
  mo_time :: rat
  mo_caller :: bool
  mo_done :: bool
  mo_ok :: bool
  mo_resolution :: "resolution option"
  mo_connection :: nat
  mo_proof :: "(pystr \<times> pystr) option"
  mo_peer :: "(pystr \<times> int) option"
  mo_path :: "pystr option"

text \<open>A running operation: the connector, the moments used so far, and what the last one showed.\<close>

record run =
  rn_connector :: connector
  rn_tick :: nat
  rn_now :: rat
  rn_caller :: bool
  rn_peer :: "(pystr \<times> int) option"
  rn_path :: "pystr option"
  rn_attempts :: "attempt list"

definition TERMINAL :: "string list" where
  "TERMINAL = [''CLOSED'', ''STALE_GENERATION'', ''CANCELLED'', ''DEADLINE'', ''ATTEMPT_BUDGET'', ''TOTAL_ADDRESS_BUDGET'', ''CLEANUP_PENDING'',
     ''CLEANUP_FAILED'']"

definition new_connector :: "policy \<Rightarrow> bool \<Rightarrow> pystr list option \<Rightarrow> bool \<Rightarrow> pystr \<Rightarrow> bool \<Rightarrow> connector res" where
  "new_connector p resolver dialer auth scope metered =
     bindE (c_identifier scope ''INVALID_ID'') (\<lambda>s.
       Inr \<lparr>co_policy = p, co_scope = s, co_metered = metered, co_dialer = dialer, co_resolver = resolver, co_auth = auth,
         co_generation = 0, co_closed = False, co_operations = [], co_active = [], co_closing = [], co_lingering = [],
         co_cleanup_failures = 0, co_failed_resources = [], co_next_id = 1\<rparr>)"

definition connection :: "connector \<Rightarrow> int \<Rightarrow> nat res" where
  "connection c i = (case map_of (co_active c) i of None \<Rightarrow> conn_fail ''CONNECTION_NOT_CURRENT'' | Some k \<Rightarrow> Inr k)"

definition cleanup_complete :: "connector \<Rightarrow> bool" where
  "cleanup_complete c \<longleftrightarrow> co_active c = [] \<and> co_operations c = [] \<and> co_closing c = [] \<and> co_lingering c = [] \<and> co_cleanup_failures c = 0"

section \<open>Fence, disposal and stages\<close>

definition stopped :: "connector \<Rightarrow> nat \<Rightarrow> bool" where
  "stopped c i \<longleftrightarrow> map_of (co_operations c) i = Some True"

definition set_stop :: "nat \<Rightarrow> bool \<Rightarrow> connector \<Rightarrow> connector" where
  "set_stop i b c = c\<lparr>co_operations := map (\<lambda>(j, s). (j, if j = i then b else s)) (co_operations c)\<rparr>"

definition op_fence :: "operation \<Rightarrow> run \<Rightarrow> unit res" where
  "op_fence op r = (let c = rn_connector r in
     bindE (c_need (\<not> co_closed c) ''CLOSED'') (\<lambda>_.
     bindE (c_need (op_generation op = co_generation c) ''STALE_GENERATION'') (\<lambda>_.
     bindE (c_need (\<not> rn_caller r) ''CANCELLED'') (\<lambda>_.
     bindE (c_need (rn_now r < op_deadline op) ''DEADLINE'') (\<lambda>_.
       c_need (\<not> stopped c (op_id op)) ''CANCELLED'')))))"

definition schedule_close :: "nat \<Rightarrow> connector \<Rightarrow> connector" where
  "schedule_close k c = (if k \<in> set (co_closing c) then c else c\<lparr>co_closing := co_closing c @ [k]\<rparr>)"

text \<open>The close task of a connection completes, with or without an error.\<close>

definition close_completed :: "nat \<Rightarrow> bool \<Rightarrow> connector \<Rightarrow> connector" where
  "close_completed k ok c = (let c1 = c\<lparr>co_closing := filter (\<lambda>j. j \<noteq> k) (co_closing c)\<rparr> in
     if ok then c1 else c1\<lparr>co_cleanup_failures := Suc (co_cleanup_failures c1),
       co_failed_resources := (if k \<in> set (co_failed_resources c1) then co_failed_resources c1 else co_failed_resources c1 @ [k])\<rparr>)"

text \<open>\<^verbatim>\<open>_abandon\<close> keeps the port's task until it completes; a connection it then returns is closed.\<close>

definition abandon :: "nat \<Rightarrow> bool \<Rightarrow> connector \<Rightarrow> connector" where
  "abandon t dispose c = c\<lparr>co_lingering := co_lingering c @ [(t, dispose)]\<rparr>"

definition abandoned_completed :: "nat \<Rightarrow> nat option \<Rightarrow> connector \<Rightarrow> connector" where
  "abandoned_completed t result c = (case map_of (co_lingering c) t of
     None \<Rightarrow> c
   | Some dispose \<Rightarrow>
       let c1 = c\<lparr>co_lingering := filter (\<lambda>(u, _). u \<noteq> t) (co_lingering c)\<rparr> in
       case result of Some k \<Rightarrow> (if dispose then schedule_close k c1 else c1) | None \<Rightarrow> c1)"

definition await :: "(nat \<Rightarrow> moment) \<Rightarrow> run \<Rightarrow> run" where
  "await env r = (let m = env (rn_tick r) in
     r\<lparr>rn_connector := mo_world m (rn_connector r), rn_tick := Suc (rn_tick r), rn_now := mo_time m, rn_caller := mo_caller m,
       rn_peer := mo_peer m, rn_path := mo_path m\<rparr>)"

definition retire :: "(nat \<Rightarrow> moment) \<Rightarrow> nat \<Rightarrow> run \<Rightarrow> run" where
  "retire env k r = await env (r\<lparr>rn_connector := schedule_close k (rn_connector r)\<rparr>)"

text \<open>One stage: the port's task against the stop and cancel events and the deadline, then the clean-up of the watchers. The
  result is the moment in which the port answered.\<close>

definition upper :: "string \<Rightarrow> string" where
  "upper s = map (\<lambda>c. if 97 \<le> (of_char c :: nat) \<and> (of_char c :: nat) \<le> 122 then char_of ((of_char c :: nat) - 32) else c) s"

definition stage_answer :: "operation \<Rightarrow> string \<Rightarrow> moment \<Rightarrow> run \<Rightarrow> unit res" where
  "stage_answer op name m r =
     bindE (op_fence op r) (\<lambda>_.
     bindE (c_need (mo_done m) ''DEADLINE'') (\<lambda>_.
       c_need (mo_ok m) (upper name @ ''_FAILED'')))"

definition stage :: "(nat \<Rightarrow> moment) \<Rightarrow> operation \<Rightarrow> string \<Rightarrow> bool \<Rightarrow> run \<Rightarrow> run \<times> moment res" where
  "stage env op name dispose r = (case op_fence op r of
     Inl e \<Rightarrow> (r, Inl e)
   | Inr _ \<Rightarrow>
       let m = env (rn_tick r); r1 = await env r; r2 = await env r1 in
       case stage_answer op name m r1 of
         Inr _ \<Rightarrow> (r2, Inr m)
       | Inl e \<Rightarrow> (r2\<lparr>rn_connector := abandon (rn_tick r) dispose (set_stop (op_id op) True (rn_connector r2))\<rparr>, Inl e))"

definition check_peer :: "(pystr \<times> int) option \<Rightarrow> dial_target \<Rightarrow> unit res" where
  "check_peer pair t = c_need (case pair of
       None \<Rightarrow> False
     | Some (text, port) \<Rightarrow> (case numeric_ip text of Inl _ \<Rightarrow> False | Inr a \<Rightarrow> ip_text a = dt_ip t \<and> port = int (dt_port t)))
     ''PEER_ADDRESS_MISMATCH''"

section \<open>Dialling\<close>

definition conn_code :: "exn \<Rightarrow> string" where
  "conn_code e = (case e of ConnectivityError code \<Rightarrow> code | _ \<Rightarrow> [])"

text \<open>The checks after authentication, with no await between them and the registration of the connection.\<close>

definition accept :: "operation \<Rightarrow> dial_target \<Rightarrow> moment \<Rightarrow> run \<Rightarrow> pystr res" where
  "accept op t m r =
     bindE (op_fence op r) (\<lambda>_.
     bindE (check_peer (rn_peer r) t) (\<lambda>_.
     bindE (c_need (mo_proof m = Some (dt_peer_id t, co_scope (rn_connector r))) ''AUTH_MISMATCH'') (\<lambda>_.
       case rn_path r of
         Some path \<Rightarrow> bindE (c_need (path \<in> {cps ''direct'', cps ''local-fixture''}) ''PATH_UNVERIFIED'') (\<lambda>_. Inr path)
       | None \<Rightarrow> conn_fail ''PATH_UNVERIFIED'')))"

definition register :: "operation \<Rightarrow> nat \<Rightarrow> nat \<Rightarrow> pystr \<Rightarrow> run \<Rightarrow> run \<times> connect_result" where
  "register op index k path r =
     (let c = rn_connector r; i = co_next_id c; attempts = rn_attempts r @ [\<lparr>at_candidate_index = index, at_stage = ''auth'', at_reason = ''AUTHENTICATED''\<rparr>] in
      (r\<lparr>rn_connector := c\<lparr>co_next_id := i + 1, co_active := AList.update i k (co_active c)\<rparr>, rn_attempts := attempts\<rparr>,
       \<lparr>cr_state = ''CONNECTED'', cr_reason = ''AUTHENTICATED'', cr_generation = op_generation op, cr_attempts = attempts,
        cr_connection_id = Some i, cr_observed_path = Some path\<rparr>))"

text \<open>One target: the result, or the stage and the exception; a connection that is not handed over is retired.\<close>

definition dial_one :: "(nat \<Rightarrow> moment) \<Rightarrow> operation \<Rightarrow> nat \<Rightarrow> dial_target \<Rightarrow> run \<Rightarrow> run \<times> (string \<times> exn + connect_result)" where
  "dial_one env op index t r = (case stage env op ''dial'' True r of
     (r1, Inl e) \<Rightarrow> (r1, Inl (''dial'', e))
   | (r1, Inr dialled) \<Rightarrow>
       let k = mo_connection dialled in
       (case check_peer (rn_peer r1) t of
         Inl e \<Rightarrow> (retire env k r1, Inl (''dial'', e))
       | Inr _ \<Rightarrow> (case stage env op ''auth'' False r1 of
           (r2, Inl e) \<Rightarrow> (retire env k r2, Inl (''auth'', e))
         | (r2, Inr proved) \<Rightarrow> (case accept op t proved r2 of
             Inl e \<Rightarrow> (retire env k r2, Inl (''auth'', e))
           | Inr path \<Rightarrow> (case register op index k path r2 of (r3, result) \<Rightarrow> (r3, Inr result))))))"

definition note_attempt :: "nat \<Rightarrow> string \<Rightarrow> string \<Rightarrow> run \<Rightarrow> run" where
  "note_attempt index name code r = r\<lparr>rn_attempts := rn_attempts r @ [\<lparr>at_candidate_index = index, at_stage = name, at_reason = code\<rparr>]\<rparr>"

text \<open>What a loop ends with: an exception that leaves it, a result, or the counters and the last reason.\<close>

datatype loop_end = Raised string | Done connect_result | Next nat string

fun dial_targets :: "(nat \<Rightarrow> moment) \<Rightarrow> operation \<Rightarrow> policy \<Rightarrow> nat \<Rightarrow> dial_target list \<Rightarrow> nat \<Rightarrow> string \<Rightarrow> run \<Rightarrow> run \<times> loop_end" where
  "dial_targets env op p index [] dials reason r = (r, Next dials reason)"
| "dial_targets env op p index (t # ts) dials reason r = (case op_fence op r of
     Inl e \<Rightarrow> (r, Raised (conn_code e))
   | Inr _ \<Rightarrow>
       if po_max_attempts p \<le> int dials then (r, Raised ''ATTEMPT_BUDGET'')
       else (case dial_one env op index t r of
         (r1, Inr result) \<Rightarrow> (r1, Done result)
       | (r1, Inl (name, e)) \<Rightarrow>
           let code = conn_code e; r2 = note_attempt index name code r1 in
           if code \<in> set TERMINAL then (r2, Raised code)
           else if co_cleanup_failures (rn_connector r2) \<noteq> 0 then (r2, Raised ''CLEANUP_FAILED'')
           else if co_closing (rn_connector r2) \<noteq> [] then (r2, Raised ''CLEANUP_PENDING'')
           else dial_targets env op p index ts (Suc dials) code
             (r2\<lparr>rn_connector := set_stop (op_id op) False (rn_connector r2)\<rparr>)))"

text \<open>The preparation of one route: its targets and the number of addresses it counts for.\<close>

definition prepare :: "(nat \<Rightarrow> moment) \<Rightarrow> operation \<Rightarrow> policy \<Rightarrow> route_grant \<Rightarrow> nat \<Rightarrow> run \<Rightarrow> run \<times> (dial_target list \<times> nat) res" where
  "prepare env op p g addresses r =
     (let c = rn_connector r in
      case bindE (c_need (gr_source g \<noteq> cps ''relay'') ''RELAY_UNAVAILABLE'') (\<lambda>_.
           bindE (parse_endpoint (gr_endpoint g)) (\<lambda>e.
           bindE (c_need (case co_dialer c of None \<Rightarrow> False | Some ss \<Rightarrow> en_scheme e \<in> set ss) ''ADAPTER_UNAVAILABLE'') (\<lambda>_.
           bindE (c_need (co_auth c) ''AUTHENTICATOR_UNAVAILABLE'') (\<lambda>_.
           bindE (c_need (en_literal e \<noteq> None \<or> gr_resolver_id g \<noteq> None) ''DNS_NOT_GRANTED'') (\<lambda>_.
           bindE (c_need (en_literal e \<noteq> None \<or> co_resolver c) ''RESOLVER_UNAVAILABLE'') (\<lambda>_. Inr e)))))) of
        Inl e \<Rightarrow> (r, Inl e)
      | Inr e \<Rightarrow>
          (case (if en_literal e = None
                 then (case stage env op ''resolve'' False r of (r1, Inl x) \<Rightarrow> (r1, Inl x) | (r1, Inr m) \<Rightarrow> (r1, Inr (mo_resolution m)))
                 else (r, Inr None)) of
            (r1, Inl x) \<Rightarrow> (r1, Inl x)
          | (r1, Inr resolved) \<Rightarrow>
              (r1, bindE (authorize_addresses g resolved p (op_generation op)) (\<lambda>ts.
                 let counted = addresses + (case resolved of Some s \<Rightarrow> length (re_addresses s) | None \<Rightarrow> 1) in
                 bindE (c_need (int counted \<le> po_max_total_addresses p) ''TOTAL_ADDRESS_BUDGET'') (\<lambda>_. Inr (ts, counted))))))"

fun connect_routes :: "(nat \<Rightarrow> moment) \<Rightarrow> operation \<Rightarrow> policy \<Rightarrow> nat \<Rightarrow> route_grant list \<Rightarrow> nat \<Rightarrow> nat \<Rightarrow> string \<Rightarrow> run \<Rightarrow> run \<times> loop_end" where
  "connect_routes env op p index [] dials addresses reason r = (r, Raised reason)"
| "connect_routes env op p index (g # gs) dials addresses reason r = (case op_fence op r of
     Inl e \<Rightarrow> (r, Raised (conn_code e))
   | Inr _ \<Rightarrow> (case prepare env op p g addresses r of
       (r1, Inl e) \<Rightarrow>
         let code = conn_code e; r2 = note_attempt index ''policy'' code r1 in
         if code \<in> set TERMINAL then (r2, Raised code)
         else connect_routes env op p (Suc index) gs dials addresses code
           (r2\<lparr>rn_connector := set_stop (op_id op) False (rn_connector r2)\<rparr>)
     | (r1, Inr (ts, counted)) \<Rightarrow> (case dial_targets env op p index ts dials reason r1 of
         (r2, Next dials' reason') \<Rightarrow> connect_routes env op p (Suc index) gs dials' counted reason' r2
       | (r2, finished) \<Rightarrow> (r2, finished))))"

section \<open>Operations\<close>

definition admit :: "connector \<Rightarrow> candidate list \<Rightarrow> string \<Rightarrow> bool \<Rightarrow> route_grant list res" where
  "admit c candidates purpose cancelled =
     (let p = co_policy c; busy = length (co_operations c) + length (co_lingering c) in
      bindE (c_need (\<not> co_closed c) ''CLOSED'') (\<lambda>_.
      bindE (c_need (purpose \<in> {''user'', ''background''}) ''INVALID_PURPOSE'') (\<lambda>_.
      bindE (c_need (\<not> cancelled) ''CANCELLED'') (\<lambda>_.
      bindE (c_need (co_cleanup_failures c = 0) ''CLEANUP_FAILED'') (\<lambda>_.
      bindE (c_need (int busy < po_max_inflight p) ''INFLIGHT_BUDGET'') (\<lambda>_.
      bindE (c_need (int (length (co_active c) + length (co_closing c) + busy) < po_max_connections p) ''CONNECTION_BUDGET'') (\<lambda>_.
      bindE (c_need (\<not> co_metered c \<or> (if purpose = ''user'' then po_allow_metered_user p else po_allow_metered_background p)) ''METERED_DENIED'') (\<lambda>_.
      bindE (select_candidates candidates p) (\<lambda>grants.
      bindE (c_need (grants \<noteq> []) ''NO_CANDIDATES'') (\<lambda>_. Inr grants))))))))))"

definition local_only :: "string \<Rightarrow> int \<Rightarrow> attempt list \<Rightarrow> connect_result" where
  "local_only code generation attempts = \<lparr>cr_state = ''LOCAL_ONLY'', cr_reason = code, cr_generation = generation, cr_attempts = attempts,
     cr_connection_id = None, cr_observed_path = None\<rparr>"

text \<open>\<^verbatim>\<open>connect\<close>: \<open>fresh\<close> identifies the operation, \<open>now\<close> and \<open>cancelled\<close> are the clock and the caller's event at the call.\<close>

definition connect :: "(nat \<Rightarrow> moment) \<Rightarrow> nat \<Rightarrow> rat \<Rightarrow> candidate list \<Rightarrow> string \<Rightarrow> bool \<Rightarrow> connector \<Rightarrow> connector \<times> connect_result" where
  "connect env fresh now candidates purpose cancelled c =
     (let generation = co_generation c in
      case admit c candidates purpose cancelled of
        Inl e \<Rightarrow> (c, local_only (conn_code e) generation [])
      | Inr grants \<Rightarrow>
          let op = \<lparr>op_id = fresh, op_generation = generation, op_deadline = now + po_timeout (co_policy c)\<rparr>;
              r = \<lparr>rn_connector = c\<lparr>co_operations := co_operations c @ [(fresh, False)]\<rparr>, rn_tick = 0, rn_now = now, rn_caller = cancelled,
                   rn_peer = None, rn_path = None, rn_attempts = []\<rparr> in
          (case connect_routes env op (co_policy c) 0 grants 0 0 ''NO_ROUTE'' r of
             (r1, finished) \<Rightarrow>
               ((rn_connector r1)\<lparr>co_operations := filter (\<lambda>(j, _). j \<noteq> fresh) (co_operations (rn_connector r1))\<rparr>,
                case finished of Done result \<Rightarrow> result | Raised code \<Rightarrow> local_only code generation (rn_attempts r1)
                | Next _ code \<Rightarrow> local_only code generation (rn_attempts r1))))"

definition disconnect :: "int \<Rightarrow> connector \<Rightarrow> connector res" where
  "disconnect i c = bindE (connection c i) (\<lambda>k.
     Inr (schedule_close k (c\<lparr>co_active := filter (\<lambda>(j, _). j \<noteq> i) (co_active c)\<rparr>)))"

definition drain_active :: "connector \<Rightarrow> connector" where
  "drain_active c = fold (\<lambda>(_, k). schedule_close k) (co_active c) (c\<lparr>co_active := []\<rparr>)"

definition stop_all :: "connector \<Rightarrow> connector" where
  "stop_all c = c\<lparr>co_operations := map (\<lambda>(j, _). (j, True)) (co_operations c)\<rparr>"

definition change_network :: "bool \<Rightarrow> policy option \<Rightarrow> connector \<Rightarrow> connector res" where
  "change_network metered p c =
     bindE (c_need (\<not> co_closed c) ''CLOSED'') (\<lambda>_.
       let c1 = c\<lparr>co_generation := co_generation c + 1, co_metered := metered\<rparr>;
           c2 = (case p of None \<Rightarrow> c1 | Some q \<Rightarrow> c1\<lparr>co_policy := q\<rparr>) in
       Inr (drain_active (stop_all c2)))"

definition close_connector :: "connector \<Rightarrow> connector" where
  "close_connector c = drain_active (if co_closed c then c
     else stop_all (c\<lparr>co_closed := True, co_generation := co_generation c + 1\<rparr>))"

end
