(* ===== verification/ConnectivityProps.thy ===== *)
theory ConnectivityProps
  imports Connectivity "HOL-Library.Code_Target_Nat"
begin

text \<open>
  The stored text of an endpoint denotes the endpoint it came from, and every address that is handed to a dialer denotes an
  address the owner's grant admits.
\<close>

section \<open>Endpoint text\<close>

lemma numeric_ip_valid: "numeric_ip s = Inr a \<Longrightarrow> ip_valid a \<and> (\<forall>v. a = V6 v \<longrightarrow> v div 2 ^ 32 \<noteq> 65535)"
  using read_ip_valid [of s] by (auto simp: numeric_ip_def c_need_def res_simps ip_valid_def split: option.splits ip.splits if_splits)

lemma ip_text_shape: "ip_text a \<noteq> [] \<and> length (ip_text a) \<le> 45 \<and> 37 \<notin> set (ip_text a) \<and> (\<forall>c \<in> set (ip_text a). c < 128)"
proof (cases a)
  case (V4 v)
  have "v4_text v \<noteq> []" using join_dots [of "map (text_of 10) (groups 256 4 v)" 46] by (auto simp: v4_text_def)
  then show ?thesis using V4 v4_text_chars [of _ v] v4_text_length [of v] by (fastforce simp: ip_text_def digit_def)
next
  case (V6 v)
  then show ?thesis using v6_text_chars [of _ v] v6_text_length [of v] v6_text_colon [of v]
    by (fastforce simp: ip_text_def hex_char_def digit_def)
qed

lemma numeric_ip_text: "ip_valid a \<Longrightarrow> (\<forall>v. a = V6 v \<longrightarrow> v div 2 ^ 32 \<noteq> 65535) \<Longrightarrow> numeric_ip (ip_text a) = Inr a"
  using ip_text_shape [of a] read_ip_text [of a] by (cases a) (auto simp: numeric_ip_def c_need_def)

lemma lower_text_fixed: "list_all (\<lambda>c. lower_char c \<or> digit c \<or> c = 45 \<or> c = 46) s \<Longrightarrow> lower_text s = s"
  by (induction s) (auto simp: lower_text_def lower_char_def digit_def)

lemma split_on_chars: "(\<forall>p \<in> set (split_on x s). list_all P p) \<Longrightarrow> list_all (\<lambda>c. P c \<or> c = x) s"
proof (induction s)
  case (Cons c s)
  then show ?case by (cases "split_on x s") (auto split: if_splits)
qed simp

lemma length_lower_text [simp]: "length (lower_text s) = length s"
  by (simp add: lower_text_def)

text \<open>A DNS name is its own normal form, and is no numeric address.\<close>

lemma dns_name_fixed:
  assumes "dns_name s = Inr name"
  shows "dns_name name = Inr name" "list_all (\<lambda>c. lower_char c \<or> digit c \<or> c = 45 \<or> c = 46) name" "name \<noteq> []" "length name \<le> 253"
    "numeric_ip name = conn_fail ''INVALID_ADDRESS''"
proof -
  let ?labels = "split_on 46 name"
  have l: "name = lower_text s" "length s \<le> 253" "\<not> (length ?labels \<le> 4 \<and> list_all number_label ?labels)" "2 \<le> length ?labels"
    "list_ex lower_char (last ?labels)" "list_all dns_label ?labels"
    using assms by (auto simp: dns_name_def Let_def c_need_def res_simps)
  have "list_all (\<lambda>c. (lower_char c \<or> digit c \<or> c = 45) \<or> c = 46) name"
    using l(6) by (intro split_on_chars) (auto simp: list_all_iff dns_label_def)
  then show chars: "list_all (\<lambda>c. lower_char c \<or> digit c \<or> c = 45 \<or> c = 46) name" by (auto simp: list_all_iff)
  show "name \<noteq> []" using l(4) by auto
  show len: "length name \<le> 253" using l(1,2) by simp
  have "list_all (\<lambda>c. c < 128) name" using chars by (auto simp: list_all_iff lower_char_def digit_def)
  then show "dns_name name = Inr name" using l(3-6) len by (simp add: dns_name_def lower_text_fixed [OF chars] c_need_def)
  have "read_v4 name = None"
  proof (rule ccontr)
    assume "read_v4 name \<noteq> None"
    then obtain a b c d where "map octet ?labels = [Some a, Some b, Some c, Some d]"
      by (auto simp: read_v4_def split: list.splits option.splits)
    then have "length ?labels = 4" "\<forall>p \<in> set ?labels. octet p \<noteq> None" by (auto simp: map_eq_Cons_conv)
    then show False using l(3) by (auto simp: list_all_iff octet_def number_label_def split: if_splits)
  qed
  moreover have "read_v6 name = None" using chars by (intro read_v6_colons) (auto simp: list_all_iff lower_char_def digit_def)
  ultimately show "numeric_ip name = conn_fail ''INVALID_ADDRESS''" by (auto simp: numeric_ip_def c_need_def read_ip_def need_def)
qed

lemma port_text: "1 \<le> n \<Longrightarrow> n \<le> 65535 \<Longrightarrow> port_part (text_of 10 n)"
  using digits_length [of 10 n 5] digits_lead [of 10 n] text_of_decimal [of _ n]
  by (auto simp: port_part_def text_of_def list_all_iff hd_map digit_text_def)

lemma join_split: "join_on x (split_on x s) = s"
proof (induction s)
  case (Cons c s)
  then show ?case by (cases "split_on x s"; cases "tl (split_on x s)") auto
qed simp

lemma split_last: "x \<notin> set p \<Longrightarrow> split_on x (s @ x # p) = split_on x s @ [p]"
  by (induction s) (auto simp: split_on_free split: list.splits)

lemma match_text:
  assumes "scheme \<in> set schemes" "host_part host" "port_part port"
  shows "match_endpoint (scheme @ cps ''://'' @ host @ [58] @ port) = Some (scheme, host, port)"
proof -
  have k: "find (\<lambda>k. take (length k + 3) (scheme @ cps ''://'' @ rest) = k @ cps ''://'') schemes = Some scheme" for rest
    using assms(1) by (auto simp: schemes_def cps_def)
  have "58 \<notin> set port" using assms(3) by (auto simp: port_part_def list_all_iff digit_def)
  then have "split_on 58 (host @ [58] @ port) = split_on 58 host @ [port]" using split_last [of 58 port host] by simp
  then show ?thesis using assms(2,3) k [of "host @ [58] @ port"]
    by (simp add: match_endpoint_def Let_def join_split cps_def Suc_le_eq)
qed

text \<open>What a parsed host is.\<close>

lemma endpoint_host_cases:
  assumes "endpoint_host raw = Inr (host, literal)"
  obtains a where "literal = Some host" "host = ip_text a" "ip_valid a" "\<forall>v. a = V6 v \<longrightarrow> v div 2 ^ 32 \<noteq> 65535"
  | "literal = None" "dns_name raw = Inr host"
  using assms numeric_ip_valid
  by (auto simp: endpoint_host_def Let_def res_simps split: sum.splits exn.splits if_splits)

lemma host_text:
  assumes "endpoint_host raw = Inr (host, literal)"
  defines "shown \<equiv> if 58 \<in> set host then [91] @ host @ [93] else host"
  shows "host_part shown \<and> endpoint_host shown = Inr (host, literal) \<and> list_all (\<lambda>c. c < 128) shown \<and> length shown \<le> 253"
  using assms(1)
proof (cases rule: endpoint_host_cases)
  case (1 a)
  note num = numeric_ip_text [OF 1(3,4)] and shape = ip_text_shape [of a]
  show ?thesis
  proof (cases a)
    case (V4 v)
    have c: "\<forall>c \<in> set host. digit c \<or> c = 46" using 1(2) V4 v4_text_chars by (auto simp: ip_text_def)
    then have "shown = host" "take 1 host \<noteq> [91]" by (auto simp: shown_def digit_def) (cases host; auto simp: digit_def)+
    then show ?thesis using num shape 1 c by (auto simp: host_part_def endpoint_host_def Let_def list_all_iff c_need_def)
  next
    case (V6 v)
    have c: "\<forall>c \<in> set host. hex_char c \<or> c = 58" "58 \<in> set host" using 1(2) V6 v6_text_chars v6_text_colon by (auto simp: ip_text_def)
    then have "shown = [91] @ host @ [93]" by (simp add: shown_def)
    then show ?thesis using num shape 1 c
      by (auto simp: host_part_def endpoint_host_def Let_def list_all_iff c_need_def Suc_le_eq butlast_append)
  qed
next
  case 2
  note d = dns_name_fixed [OF 2(2)]
  have c: "\<forall>c \<in> set host. lower_char c \<or> digit c \<or> c = 45 \<or> c = 46" using d(2) by (simp add: list_all_iff)
  then have "shown = host" "take 1 host \<noteq> [91]" by (auto simp: shown_def digit_def lower_char_def) (cases host; auto simp: digit_def lower_char_def)+
  then show ?thesis using d 2(1) c
    by (auto simp: host_part_def endpoint_host_def Let_def list_all_iff letter_def lower_char_def digit_def)
qed

text \<open>The text that a candidate or a grant stores for its endpoint denotes that endpoint: reading the key again gives the same scheme,
  host, port and literal, so routes compare by their stored text.\<close>

theorem endpoint_key_roundtrip:
  assumes "parse_endpoint s = Inr e"
  shows "parse_endpoint (endpoint_key e) = Inr e"
proof -
  obtain scheme raw port where m: "match_endpoint s = Some (scheme, raw, port)" and p: "1 \<le> read_digits 10 port" "read_digits 10 port \<le> 65535"
    and h: "endpoint_host raw = Inr (en_host e, en_literal e)" and e: "en_scheme e = scheme" "en_port e = read_digits 10 port"
    using assms by (auto simp: parse_endpoint_def res_simps c_need_def split: option.splits)
  have scheme: "scheme \<in> set schemes" using m by (auto simp: match_endpoint_def Let_def find_Some_iff split: option.splits if_splits)
  let ?shown = "if 58 \<in> set (en_host e) then [91] @ en_host e @ [93] else en_host e" and ?port = "text_of 10 (en_port e)"
  note t = host_text [OF h]
  have port: "port_part ?port" using port_text p e by simp
  have key: "endpoint_key e = scheme @ cps ''://'' @ ?shown @ [58] @ ?port" by (simp add: endpoint_key_def e(1))
  have "length scheme \<le> 4 \<and> list_all (\<lambda>c. c < 128) scheme" using scheme by (auto simp: schemes_def cps_def)
  moreover have "length ?port \<le> 5" "list_all (\<lambda>c. c < 128) ?port" using port by (auto simp: port_part_def list_all_iff digit_def)
  ultimately have "list_all (\<lambda>c. c < 128) (endpoint_key e) \<and> length (endpoint_key e) \<le> 320"
    using t by (simp add: key cps_def)
  moreover have "match_endpoint (endpoint_key e) = Some (scheme, ?shown, ?port)" unfolding key using scheme port t by (intro match_text) auto
  ultimately show ?thesis using t p e read_text [of 10 "en_port e"] by (simp add: parse_endpoint_def c_need_def)
qed

theorem endpoint_key_roundtrip_witness:
  "\<exists>e. parse_endpoint (cps ''wss://[2001:DB8:0:0::1]:443'') = Inr e \<and> endpoint_key e = cps ''wss://[2001:db8::1]:443''
    \<and> parse_endpoint (endpoint_key e) = Inr e"
proof -
  let ?e = "\<lparr>en_scheme = cps ''wss'', en_host = cps ''2001:db8::1'', en_port = 443, en_literal = Some (cps ''2001:db8::1'')\<rparr>"
  have "parse_endpoint (cps ''wss://[2001:DB8:0:0::1]:443'') = Inr ?e" by code_simp
  moreover have "endpoint_key ?e = cps ''wss://[2001:db8::1]:443''" by code_simp
  ultimately show ?thesis using endpoint_key_roundtrip [of "cps ''wss://[2001:DB8:0:0::1]:443''" ?e] by blast
qed

section \<open>Admitted addresses\<close>

text \<open>What a grant admits: an address in one of its networks that is not the metadata service, not in a special range, and local only
  when the grant says so.\<close>

definition admits :: "route_grant \<Rightarrow> ip \<Rightarrow> bool" where
  "admits g a \<longleftrightarrow> a \<noteq> METADATA_V6 \<and> (if in_any a LOCAL then gr_allow_local g else \<not> in_any a (SPECIAL_V4 @ SPECIAL_V6)
      \<and> (\<forall>v. a = V6 v \<longrightarrow> in_network a GLOBAL_V6))
     \<and> (\<exists>text \<in> set (gr_networks g). \<exists>n. parse_network text = Inr n \<and> in_network a n)"

lemma version_apart: "in_any (V4 v) SPECIAL_V6 = False" "in_any (V6 v) SPECIAL_V4 = False"
  by (auto simp: in_any_def SPECIAL_V6_def SPECIAL_V4_def net4_def net6_def in_network_def)

lemma in_any_append: "in_any a (ms @ ns) = (in_any a ms \<or> in_any a ns)"
  by (simp add: in_any_def)

lemma in_any_parsed: "list_all2 (\<lambda>t n. parse_network t = Inr n) ts ns \<Longrightarrow> in_any a ns \<Longrightarrow> \<exists>t \<in> set ts. \<exists>n. parse_network t = Inr n \<and> in_network a n"
  by (induction rule: list_all2_induct) (auto simp: in_any_def)

lemma address_allowed_sound:
  assumes "address_allowed text g = Inr shown"
  shows "\<exists>a. numeric_ip text = Inr a \<and> admits g a \<and> shown = ip_text a \<and> numeric_ip shown = Inr a"
proof -
  obtain a ns where a: "numeric_ip text = Inr a" "a \<noteq> METADATA_V6" "shown = ip_text a" "in_any a ns"
    "list_all2 (\<lambda>t n. parse_network t = Inr n) (gr_networks g) ns"
    "if in_any a LOCAL then gr_allow_local g
     else case a of V4 _ \<Rightarrow> \<not> in_any a SPECIAL_V4 | V6 _ \<Rightarrow> in_network a GLOBAL_V6 \<and> \<not> in_any a SPECIAL_V6"
    using assms by (auto simp: address_allowed_def c_need_def res_simps split: if_splits)
  have "admits g a" unfolding admits_def using a(2,6) in_any_parsed [OF a(5,4)]
    by (cases a) (auto simp: in_any_append version_apart split: if_splits)
  then show ?thesis using a numeric_ip_text numeric_ip_valid by blast
qed

lemma set_from_keys [simp]: "set (from_keys xs) = set xs"
  by (simp add: from_keys_def)

lemma length_from_keys: "length (from_keys xs) \<le> length xs"
  using length_remdups_leq [of "rev xs"] by (simp add: from_keys_def)

lemma distinct_from_keys [simp]: "distinct (from_keys xs)"
  by (simp add: from_keys_def)

lemma authorized_targets:
  assumes "authorize_addresses g resolved p generation = Inr targets"
  shows "(\<forall>r. resolved = Some r \<longrightarrow> (\<forall>text \<in> set (re_addresses r). \<exists>a. numeric_ip text = Inr a \<and> admits g a)
      \<and> int (length targets) \<le> po_max_addresses p)
    \<and> (\<forall>t \<in> set targets. (\<exists>a. numeric_ip (dt_ip t) = Inr a \<and> admits g a) \<and> dt_peer_id t = gr_peer_id g \<and> dt_source t = gr_source g
      \<and> dt_generation t = generation)
    \<and> distinct (map dt_ip targets) \<and> targets \<noteq> []"
proof -
  obtain e addresses ips where e: "parse_endpoint (gr_endpoint g) = Inr e" "route_addresses g e resolved p = Inr addresses"
    and ips: "list_all2 (\<lambda>a i. address_allowed a g = Inr i) addresses ips"
    and t: "targets = map (\<lambda>a. \<lparr>dt_scheme = en_scheme e, dt_ip = a, dt_port = en_port e,
           dt_server_name = (if en_literal e = None then Some (en_host e) else None), dt_peer_id = gr_peer_id g,
           dt_source = gr_source g, dt_generation = generation\<rparr>) (from_keys ips)"
    using assms by (auto simp: authorize_addresses_def res_simps)
  have all: "\<exists>i \<in> set ips. address_allowed a g = Inr i" if "a \<in> set addresses" for a
    using ips that by (induction rule: list_all2_induct) auto
  have origin: "\<exists>a \<in> set addresses. address_allowed a g = Inr i" if "i \<in> set ips" for i
    using ips that by (induction rule: list_all2_induct) auto
  have route: "(\<forall>r. resolved = Some r \<longrightarrow> addresses = re_addresses r \<and> int (length addresses) \<le> po_max_addresses p) \<and> addresses \<noteq> []"
    using e(2) by (auto simp: route_addresses_def bounded_tuple_def c_need_def res_simps split: option.splits)
  have "length targets \<le> length addresses" using length_from_keys [of ips] list_all2_lengthD [OF ips] by (simp add: t)
  moreover have "ips \<noteq> []" using route list_all2_lengthD [OF ips] by auto
  then have "from_keys ips \<noteq> []" using set_from_keys [of ips] by (metis set_empty)
  ultimately show ?thesis using route all origin address_allowed_sound by (auto simp: t comp_def) (blast | fastforce)+
qed

text \<open>C18. All answers or none: when a route is authorized, every address the resolver returned (or the literal of the endpoint) is admitted
  by the grant, and the dial targets are distinct, no more than the answers, carry the grant's peer and source, and each names by its
  text an address the grant admits.\<close>

theorem targets_admitted:
  assumes "authorize_addresses g resolved p generation = Inr targets"
  shows "(\<forall>r. resolved = Some r \<longrightarrow> (\<forall>text \<in> set (re_addresses r). \<exists>a. numeric_ip text = Inr a \<and> admits g a)
      \<and> int (length targets) \<le> po_max_addresses p)
    \<and> (\<forall>t \<in> set targets. (\<exists>a. numeric_ip (dt_ip t) = Inr a \<and> admits g a) \<and> dt_peer_id t = gr_peer_id g \<and> dt_source t = gr_source g
      \<and> dt_generation t = generation)
    \<and> distinct (map dt_ip targets) \<and> targets \<noteq> []"
  by (rule authorized_targets [OF assms])

definition sample_grant :: route_grant where
  "sample_grant = \<lparr>gr_endpoint = cps ''tcp://peer.example:7000'', gr_peer_id = cps ''peer-1'', gr_source = cps ''manual'',
     gr_networks = [cps ''8.8.0.0/16''], gr_allow_local = False, gr_resolver_id = Some (cps ''dns-1''), gr_aliases = []\<rparr>"

definition sample_policy :: policy where
  "sample_policy = \<lparr>po_grants = [sample_grant], po_allow_egress = True, po_allow_metered_user = False, po_allow_metered_background = False,
     po_max_candidates = 16, po_max_candidate_bytes = 8192, po_max_addresses = 8, po_max_total_addresses = 32, po_max_aliases = 4,
     po_max_attempts = 4, po_max_inflight = 2, po_max_connections = 4, po_timeout = 5, po_cleanup_timeout = 1\<rparr>"

definition sample_answer :: resolution where
  "sample_answer = \<lparr>re_query = cps ''peer.example'', re_resolver_id = cps ''dns-1'',
     re_addresses = [cps ''8.8.4.4'', cps ''::ffff:8.8.4.4''], re_aliases = []\<rparr>"

theorem targets_admitted_witness:
  "\<exists>targets. authorize_addresses sample_grant (Some sample_answer) sample_policy 3 = Inr targets
    \<and> map dt_ip targets = [cps ''8.8.4.4''] \<and> (\<forall>t \<in> set targets. \<exists>a. numeric_ip (dt_ip t) = Inr a \<and> admits sample_grant a)"
proof -
  have "case authorize_addresses sample_grant (Some sample_answer) sample_policy 3 of
      Inl _ \<Rightarrow> False | Inr ts \<Rightarrow> map dt_ip ts = [cps ''8.8.4.4'']" by code_simp
  then obtain ts where ts: "authorize_addresses sample_grant (Some sample_answer) sample_policy 3 = Inr ts" "map dt_ip ts = [cps ''8.8.4.4'']"
    by (auto split: sum.splits)
  from targets_admitted [OF ts(1)] ts show ?thesis by (intro exI [of _ ts]) simp
qed

end
