(* ===== verification/ConnectorProps.thy ===== *)
theory ConnectorProps
  imports Connector ConnectivityProps
begin

text \<open>
  A connection that is reported is current, authenticated and to an address the owner granted, whatever the other tasks of the loop
  do during the awaits; and an operation dials no more often than the policy allows.
\<close>

section \<open>Selected routes\<close>

lemma find_SomeD: "find P xs = Some x \<Longrightarrow> x \<in> set xs \<and> P x"
  by (induction xs) (auto split: if_splits)

lemma select_candidates_granted:
  assumes "select_candidates rows p = Inr gs" "g \<in> set gs"
  shows "g \<in> set (po_grants p) \<and> (\<exists>c \<in> set rows. grant_key g = candidate_key c)"
proof -
  let ?f = "\<lambda>c (seen, selected). case find (\<lambda>g. grant_key g = candidate_key c) (rev (po_grants p)) of
           None \<Rightarrow> conn_fail ''ROUTE_NOT_GRANTED''
         | Some g \<Rightarrow> Inr (if candidate_key c \<in> set seen then (seen, selected) else (seen @ [candidate_key c], selected @ [g]))"
  obtain seen where run: "foldE ?f rows ([], []) = Inr (seen, gs)"
    using assms(1) by (auto simp: select_candidates_def res_simps)
  have "\<forall>g \<in> set (snd (seen, gs)). g \<in> set (po_grants p) \<and> (\<exists>c \<in> set rows. grant_key g = candidate_key c)"
    by (rule foldE_invariant [OF run]) (auto split: option.splits if_splits dest!: find_SomeD)
  then show ?thesis using assms(2) by simp
qed

section \<open>What a dial that succeeds has checked\<close>

lemma op_fence_ok: "op_fence op r = Inr u \<Longrightarrow> \<not> co_closed (rn_connector r) \<and> co_generation (rn_connector r) = op_generation op"
  by (auto simp: op_fence_def Let_def c_need_def res_simps)

lemma check_peer_ok: "check_peer pair t = Inr u \<Longrightarrow> \<exists>text a. pair = Some (text, int (dt_port t)) \<and> numeric_ip text = Inr a \<and> ip_text a = dt_ip t"
  by (cases pair; cases "numeric_ip (fst (the pair))") (auto simp: check_peer_def c_need_def)

lemma await_attempts [simp]: "rn_attempts (await env r) = rn_attempts r" "rn_tick (await env r) = Suc (rn_tick r)"
  by (simp_all add: await_def Let_def)

lemma stage_moments:
  "stage env op name dispose r = (r', Inr m) \<Longrightarrow> (\<exists>k. m = env k) \<and> (\<exists>k. rn_peer r' = mo_peer (env k))"
  by (auto simp: stage_def Let_def await_def split: sum.splits)

lemma stage_attempts: "stage env op name dispose r = (r', x) \<Longrightarrow> rn_attempts r' = rn_attempts r"
  by (auto simp: stage_def Let_def split: sum.splits)

text \<open>The facts behind a reported connection: the state it is reported in, and the observations that justify it.\<close>

definition vouched :: "(nat \<Rightarrow> moment) \<Rightarrow> operation \<Rightarrow> dial_target \<Rightarrow> run \<Rightarrow> connect_result \<Rightarrow> bool" where
  "vouched env op t r result \<longleftrightarrow> \<not> co_closed (rn_connector r) \<and> co_generation (rn_connector r) = op_generation op
     \<and> cr_generation result = op_generation op \<and> cr_attempts result = rn_attempts r
     \<and> (\<exists>i k. cr_connection_id result = Some i \<and> map_of (co_active (rn_connector r)) i = Some k)
     \<and> (\<exists>k text a. mo_peer (env k) = Some (text, int (dt_port t)) \<and> numeric_ip text = Inr a \<and> ip_text a = dt_ip t)
     \<and> (\<exists>k. mo_proof (env k) = Some (dt_peer_id t, co_scope (rn_connector r)))"

lemma dial_one_vouched:
  assumes "dial_one env op index t r = (r', Inr result)"
  shows "vouched env op t r' result"
proof -
  obtain r1 d r2 m path where s: "stage env op ''dial'' True r = (r1, Inr d)" "stage env op ''auth'' False r1 = (r2, Inr m)"
    "accept op t m r2 = Inr path" "register op index (mo_connection d) path r2 = (r', result)"
    using assms by (auto simp: dial_one_def Let_def split: prod.splits sum.splits)
  obtain j k where jk: "m = env j" "rn_peer r2 = mo_peer (env k)" using stage_moments [OF s(2)] by blast
  have a: "op_fence op r2 = Inr ()" "check_peer (rn_peer r2) t = Inr ()" "mo_proof m = Some (dt_peer_id t, co_scope (rn_connector r2))"
    using s(3) by (auto simp: accept_def c_need_def res_simps split: option.splits)
  show ?thesis using s(4) op_fence_ok [OF a(1)] check_peer_ok [OF a(2)] a(3) jk
    unfolding vouched_def register_def Let_def by (auto simp: update_conv)
qed

lemma dial_targets_vouched:
  "dial_targets env op p index ts dials reason r = (r', Done result) \<Longrightarrow> \<exists>t \<in> set ts. vouched env op t r' result"
  by (induction env op p index ts dials reason r rule: dial_targets.induct)
    (auto simp: Let_def split: sum.splits prod.splits if_splits dest: dial_one_vouched)

lemma prepare_authorized:
  "prepare env op p g n r = (r', Inr (ts, n')) \<Longrightarrow> \<exists>resolved. authorize_addresses g resolved p (op_generation op) = Inr ts"
  by (auto simp: prepare_def Let_def c_need_def res_simps split: sum.splits prod.splits if_splits)

lemma connect_routes_vouched:
  "connect_routes env op p index gs dials n reason r = (r', Done result) \<Longrightarrow>
    \<exists>g \<in> set gs. \<exists>resolved ts. authorize_addresses g resolved p (op_generation op) = Inr ts \<and> (\<exists>t \<in> set ts. vouched env op t r' result)"
proof (induction env op p index gs dials n reason r rule: connect_routes.induct)
  case (2 env op p index g gs dials n reason r)
  obtain u where f: "op_fence op r = Inr u" using 2(3) by (auto split: sum.splits)
  obtain r1 x where p: "prepare env op p g n r = (r1, x)" by fastforce
  show ?case
  proof (cases x)
    case (Inl e)
    then show ?thesis using 2(1) [OF f p [symmetric] Inl refl refl] 2(3) f p by (auto simp: Let_def split: if_splits)
  next
    case (Inr y)
    obtain ts n' where x: "x = Inr (ts, n')" using Inr by (cases y) auto
    obtain r2 fin where d: "dial_targets env op p index ts dials reason r1 = (r2, fin)" by fastforce
    show ?thesis
    proof (cases fin)
      case (Done res)
      then have "r2 = r'" "res = result" using 2(3) f p x d by auto
      then show ?thesis using dial_targets_vouched d Done prepare_authorized p x by (metis list.set_intros(1))
    next
      case (Next dials' reason')
      then show ?thesis using 2(2) [OF f p [symmetric] x refl d [symmetric] Next] 2(3) f p x d by auto
    qed (use 2(3) f p x d in auto)
  qed
qed simp

text \<open>C17. A reported connection is current and vouched for: whatever other tasks do while the operation is suspended, when it reports
  CONNECTED the connector is open and still in the generation of the call, the connection is registered under the reported identity,
  the peer address that was observed is one that a grant for one of the caller's candidates admits, and the peer proved the identity
  of that grant for the connector's scope.\<close>

theorem connected_current:
  assumes "connect env fresh now candidates purpose cancelled c = (c', result)" "cr_state result = ''CONNECTED''"
  shows "\<not> co_closed c' \<and> co_generation c' = co_generation c \<and> cr_generation result = co_generation c
    \<and> (\<exists>i k. cr_connection_id result = Some i \<and> map_of (co_active c') i = Some k)
    \<and> (\<exists>cand \<in> set candidates. \<exists>g \<in> set (po_grants (co_policy c)). grant_key g = candidate_key cand
        \<and> (\<exists>k text port a. mo_peer (env k) = Some (text, port) \<and> numeric_ip text = Inr a \<and> admits g a)
        \<and> (\<exists>k. mo_proof (env k) = Some (gr_peer_id g, co_scope c')))"
proof -
  obtain grants r1 where g: "admit c candidates purpose cancelled = Inr grants"
    and run: "connect_routes env \<lparr>op_id = fresh, op_generation = co_generation c, op_deadline = now + po_timeout (co_policy c)\<rparr> (co_policy c)
      0 grants 0 0 ''NO_ROUTE'' \<lparr>rn_connector = c\<lparr>co_operations := co_operations c @ [(fresh, False)]\<rparr>, rn_tick = 0, rn_now = now,
        rn_caller = cancelled, rn_peer = None, rn_path = None, rn_attempts = []\<rparr> = (r1, Done result)"
      (is "connect_routes env ?op _ _ _ _ _ _ _ = _")
    and c': "c' = (rn_connector r1)\<lparr>co_operations := filter (\<lambda>(j, _). j \<noteq> fresh) (co_operations (rn_connector r1))\<rparr>"
    using assms by (auto simp: connect_def Let_def local_only_def split: sum.splits prod.splits loop_end.splits)
  obtain gr resolved ts t where gr: "gr \<in> set grants" "authorize_addresses gr resolved (co_policy c) (co_generation c) = Inr ts" "t \<in> set ts"
    and v: "vouched env ?op t r1 result"
    using connect_routes_vouched [OF run] by auto
  have "select_candidates candidates (co_policy c) = Inr grants" using g by (auto simp: admit_def Let_def c_need_def res_simps)
  from select_candidates_granted [OF this gr(1)] obtain cand where cand: "gr \<in> set (po_grants (co_policy c))" "cand \<in> set candidates"
    "grant_key gr = candidate_key cand" by blast
  have peer: "dt_peer_id t = gr_peer_id gr" and adm: "\<exists>a. numeric_ip (dt_ip t) = Inr a \<and> admits gr a"
    using authorized_targets [OF gr(2)] gr(3) by auto
  from v obtain k shown a where k: "mo_peer (env k) = Some (shown, int (dt_port t))" "numeric_ip shown = Inr a" "ip_text a = dt_ip t"
    unfolding vouched_def by blast
  have "numeric_ip (dt_ip t) = Inr a" using k(3) [symmetric] numeric_ip_text [of a] numeric_ip_valid [OF k(2)] by simp
  then have "admits gr a" using adm by simp
  then have "\<exists>k shown port a. mo_peer (env k) = Some (shown, port) \<and> numeric_ip shown = Inr a \<and> admits gr a" using k by blast
  moreover have "\<exists>k. mo_proof (env k) = Some (gr_peer_id gr, co_scope c')" using v peer unfolding vouched_def c' by auto
  moreover have "\<not> co_closed c' \<and> co_generation c' = co_generation c \<and> cr_generation result = co_generation c
    \<and> (\<exists>i k. cr_connection_id result = Some i \<and> map_of (co_active c') i = Some k)"
    using v unfolding vouched_def c' by simp
  ultimately show ?thesis using cand by blast
qed

definition sample_connector :: connector where
  "sample_connector = \<lparr>co_policy = sample_policy\<lparr>po_grants := [sample_grant\<lparr>gr_endpoint := cps ''tcp://8.8.4.4:7000''\<rparr>]\<rparr>, co_scope = cps ''scope'',
     co_metered = False, co_dialer = Some [cps ''tcp''], co_resolver = False, co_auth = True, co_generation = 6, co_closed = False,
     co_operations = [], co_active = [], co_closing = [], co_lingering = [], co_cleanup_failures = 0, co_failed_resources = [], co_next_id = 1\<rparr>"

definition sample_moment :: moment where
  "sample_moment = \<lparr>mo_world = id, mo_time = 1, mo_caller = False, mo_done = True, mo_ok = True, mo_resolution = None, mo_connection = 41,
     mo_proof = Some (cps ''peer-1'', cps ''scope''), mo_peer = Some (cps ''8.8.4.4'', 7000), mo_path = Some (cps ''direct'')\<rparr>"

definition sample_candidate :: candidate where
  "sample_candidate = \<lparr>ca_endpoint = cps ''tcp://8.8.4.4:7000'', ca_peer_id = cps ''peer-1'', ca_source = cps ''manual''\<rparr>"

theorem connected_current_witness:
  "\<exists>c' result. connect (\<lambda>_. sample_moment) 1 0 [sample_candidate] ''user'' False sample_connector = (c', result)
    \<and> cr_state result = ''CONNECTED'' \<and> map_of (co_active c') 1 = Some 41 \<and> co_generation c' = co_generation sample_connector"
proof -
  obtain c' result where run: "connect (\<lambda>_. sample_moment) 1 0 [sample_candidate] ''user'' False sample_connector = (c', result)" by fastforce
  have "(case connect (\<lambda>_. sample_moment) 1 0 [sample_candidate] ''user'' False sample_connector of
      (c, r) \<Rightarrow> cr_state r = ''CONNECTED'' \<and> map_of (co_active c) 1 = Some 41)" by code_simp
  then have "cr_state result = ''CONNECTED''" "map_of (co_active c') 1 = Some 41" unfolding run by simp_all
  then show ?thesis using connected_current [OF run] run by blast
qed

section \<open>Attempts\<close>

definition dialled :: "attempt list \<Rightarrow> nat" where
  "dialled as = length (filter (\<lambda>a. at_stage a \<noteq> ''policy'') as)"

lemma retire_attempts [simp]: "rn_attempts (retire env k r) = rn_attempts r"
  by (simp add: retire_def)

lemma dial_one_attempts:
  assumes "dial_one env op index t r = (r', x)"
  shows "(\<forall>name e. x = Inl (name, e) \<longrightarrow> rn_attempts r' = rn_attempts r \<and> name \<noteq> ''policy'')
    \<and> (\<forall>result. x = Inr result \<longrightarrow> dialled (cr_attempts result) = Suc (dialled (rn_attempts r)))"
  using assms by (auto simp: dial_one_def Let_def register_def dialled_def split: prod.splits sum.splits dest!: stage_attempts)

text \<open>The number of dials that a loop's end leaves behind.\<close>

definition dials_of :: "run \<Rightarrow> loop_end \<Rightarrow> nat" where
  "dials_of r fin = (case fin of Done result \<Rightarrow> dialled (cr_attempts result) | _ \<Rightarrow> dialled (rn_attempts r))"

lemma dial_targets_budget:
  "dial_targets env op p index ts dials reason r = (r', fin) \<Longrightarrow> dialled (rn_attempts r) = dials \<Longrightarrow> int dials \<le> max 0 (po_max_attempts p) \<Longrightarrow>
    int (dials_of r' fin) \<le> max 0 (po_max_attempts p) \<and> (\<forall>d code. fin = Next d code \<longrightarrow> d = dialled (rn_attempts r'))"
proof (induction env op p index ts dials reason r rule: dial_targets.induct)
  case (2 env op p index t ts dials reason r)
  show ?case
  proof (cases "op_fence op r")
    case (Inl e) then show ?thesis using 2 by (auto simp: dials_of_def)
  next
    case (Inr u)
    show ?thesis
    proof (cases "po_max_attempts p \<le> int dials")
      case True then show ?thesis using 2 Inr by (auto simp: dials_of_def)
    next
      case room: False
      obtain r1 x where one: "dial_one env op index t r = (r1, x)" by fastforce
      note a = dial_one_attempts [OF one]
      show ?thesis
      proof (cases x)
        case (Inr result)
        then show ?thesis using 2(2,3) \<open>op_fence op r = Inr u\<close> room one a by (auto simp: dials_of_def)
      next
        case (Inl y)
        obtain name e where x: "x = Inl (name, e)" using Inl by (cases y) auto
        define r2 where "r2 = note_attempt index name (conn_code e) r1"
        have n: "dialled (rn_attempts r2) = Suc dials" using a x 2(3) by (auto simp: r2_def note_attempt_def dialled_def)
        have ih: "dial_targets env op p index ts (Suc dials) (conn_code e) (r2\<lparr>rn_connector := set_stop (op_id op) False (rn_connector r2)\<rparr>) = (r', fin)
          \<Longrightarrow> conn_code e \<notin> set TERMINAL \<Longrightarrow> co_cleanup_failures (rn_connector r2) = 0 \<Longrightarrow> co_closing (rn_connector r2) = [] \<Longrightarrow> ?thesis"
          using 2(1) [OF Inr room one [symmetric] x refl refl refl, folded r2_def] n room by simp
        show ?thesis using 2(2) Inr room one x ih n
          by (auto simp: Let_def r2_def [symmetric] dials_of_def split: if_splits)
      qed
    qed
  qed
qed (auto simp: dials_of_def)

lemma prepare_attempts: "prepare env op p g n r = (r', x) \<Longrightarrow> rn_attempts r' = rn_attempts r"
  by (auto simp: prepare_def Let_def split: sum.splits prod.splits if_splits dest: stage_attempts)

lemma connect_routes_budget:
  "connect_routes env op p index gs dials n reason r = (r', fin) \<Longrightarrow> dialled (rn_attempts r) = dials \<Longrightarrow> int dials \<le> max 0 (po_max_attempts p) \<Longrightarrow>
    int (dials_of r' fin) \<le> max 0 (po_max_attempts p)"
proof (induction env op p index gs dials n reason r rule: connect_routes.induct)
  case (2 env op p index g gs dials n reason r)
  show ?case
  proof (cases "op_fence op r")
    case (Inl e) then show ?thesis using 2 by (auto simp: dials_of_def)
  next
    case f: (Inr u)
    obtain r1 x where p: "prepare env op p g n r = (r1, x)" by fastforce
    have r1: "dialled (rn_attempts r1) = dials" using prepare_attempts [OF p] 2(4) by simp
    show ?thesis
    proof (cases x)
      case (Inl e)
      define r2 where "r2 = note_attempt index ''policy'' (conn_code e) r1"
      have "dialled (rn_attempts r2) = dials" using r1 by (simp add: r2_def note_attempt_def dialled_def)
      then show ?thesis using 2(1) [OF f p [symmetric] Inl refl refl, folded r2_def] 2(3,5) f p Inl
        by (auto simp: Let_def r2_def [symmetric] dials_of_def split: if_splits)
    next
      case (Inr y)
      obtain ts n' where x: "x = Inr (ts, n')" using Inr by (cases y) auto
      obtain r2 fin2 where d: "dial_targets env op p index ts dials reason r1 = (r2, fin2)" by fastforce
      note b = dial_targets_budget [OF d r1 2(5)]
      show ?thesis
      proof (cases fin2)
        case (Next dials' reason')
        then have "dialled (rn_attempts r2) = dials'" "int dials' \<le> max 0 (po_max_attempts p)" using b by (auto simp: dials_of_def)
        then show ?thesis using 2(2) [OF f p [symmetric] x refl d [symmetric] Next] 2(3) f p x d Next by simp
      qed (use 2(3) f p x d b in \<open>auto simp: dials_of_def\<close>)
    qed
  qed
qed (auto simp: dials_of_def)

text \<open>The attempt budget holds: one call of connect records at most the policy's number of dials, over all candidates and
  whatever the ports and the other tasks do.\<close>

theorem attempts_bounded:
  "int (dialled (cr_attempts (snd (connect env fresh now candidates purpose cancelled c)))) \<le> max 0 (po_max_attempts (co_policy c))"
proof (cases "admit c candidates purpose cancelled")
  case (Inl e) then show ?thesis by (simp add: connect_def local_only_def dialled_def)
next
  case (Inr grants)
  obtain r fin where run: "connect_routes env \<lparr>op_id = fresh, op_generation = co_generation c, op_deadline = now + po_timeout (co_policy c)\<rparr> (co_policy c)
      0 grants 0 0 ''NO_ROUTE'' \<lparr>rn_connector = c\<lparr>co_operations := co_operations c @ [(fresh, False)]\<rparr>, rn_tick = 0, rn_now = now,
        rn_caller = cancelled, rn_peer = None, rn_path = None, rn_attempts = []\<rparr> = (r, fin)" by fastforce
  have "int (dials_of r fin) \<le> max 0 (po_max_attempts (co_policy c))"
    by (rule connect_routes_budget [OF run]) (simp_all add: dialled_def)
  then show ?thesis using Inr run by (cases fin) (auto simp: connect_def dials_of_def local_only_def)
qed

end
