(* ===== verification/RecordLifecycle.thy ===== *)
theory RecordLifecycle
  imports Sha256 Machines "HOL-Library.List_Lexorder" "HOL-Library.Char_ord"
begin

text \<open>
  The management record lifecycle (\<^verbatim>\<open>experiments/management-record-lifecycle/par_record_lifecycle/contracts.py\<close> and
  \<^verbatim>\<open>model.py\<close>): the bounded inventory with its reference graph, the dry-run plan, and the event-replayed model that closes,
  archives and compacts generations. JSON objects with fixed keys are records, so the key and type checks of the code hold by
  typing; the digests are SHA-256 over the canonical JSON text. Reading that text back gives the value it was made from: here this is part of
  the model (\<open>copied_inventory\<close>), in \<open>Checkpoint\<close> it is shown for the reader of the bytes.
\<close>

section \<open>Canonical text\<close>

abbreviation life_fail :: "string \<Rightarrow> 'a res" where
  "life_fail code \<equiv> Inl (LifecycleError code)"

definition l_need :: "bool \<Rightarrow> string \<Rightarrow> unit res" where
  "l_need ok code = need ok (LifecycleError code)"

definition hex_digits :: "nat \<Rightarrow> string" where
  "hex_digits n = map (\<lambda>d. char_of (if d < 10 then 48 + d else 87 + d)) [n div 16, n mod 16]"

definition json_char :: "char \<Rightarrow> string" where
  "json_char c = (let n = of_char c :: nat in
     if n = 34 then [char_of (92 :: nat), char_of (34 :: nat)] else if n = 92 then [char_of (92 :: nat), char_of (92 :: nat)]
     else if n = 10 then char_of (92 :: nat) # ''n'' else if n = 13 then char_of (92 :: nat) # ''r'' else if n = 9 then char_of (92 :: nat) # ''t''
     else if n = 12 then char_of (92 :: nat) # ''f'' else if n = 8 then char_of (92 :: nat) # ''b''
     else if n < 32 \<or> 127 \<le> n then char_of (92 :: nat) # ''u00'' @ hex_digits n else [c])"

definition json_str :: "string \<Rightarrow> string" where
  "json_str s = [char_of (34 :: nat)] @ concat (map json_char s) @ [char_of (34 :: nat)]"

definition json_int :: "int \<Rightarrow> string" where
  "json_int i = (if i < 0 then ''-'' @ str_nat (nat (- i)) else str_nat (nat i))"

definition json_bool :: "bool \<Rightarrow> string" where
  "json_bool b = (if b then ''true'' else ''false'')"

fun commas :: "string list \<Rightarrow> string" where
  "commas [] = []"
| "commas [x] = x"
| "commas (x # y # xs) = x @ '','' @ commas (y # xs)"

definition json_list :: "string list \<Rightarrow> string" where
  "json_list xs = ''['' @ commas xs @ '']''"

definition json_obj :: "(string \<times> string) list \<Rightarrow> string" where
  "json_obj kvs = ''{'' @ commas (map (\<lambda>(k, v). json_str k @ '':'' @ v) kvs) @ ''}''"

definition json_opt :: "string option \<Rightarrow> string" where
  "json_opt v = (case v of None \<Rightarrow> ''null'' | Some s \<Rightarrow> json_str s)"

definition INVENTORY_BYTES :: nat where "INVENTORY_BYTES = 2097152"

text \<open>\<^verbatim>\<open>canonical\<close> of a value whose text is given, and the digest of that text.\<close>

definition canonical_text :: "string \<Rightarrow> string res" where
  "canonical_text t = bindE (l_need (length t \<le> INVENTORY_BYTES) ''CAPACITY'') (\<lambda>_. Inr t)"

definition sha_text :: "string \<Rightarrow> string" where
  "sha_text t = concat (map (\<lambda>b. hex_digits (unat b)) (sha256 (map (\<lambda>c. byte (of_char c)) t)))"

section \<open>Records and inventories\<close>

definition LIFECYCLE_PROFILE :: string where "LIFECYCLE_PROFILE = ''management-record-lifecycle-local-v1''"
definition MAX_RECORDS :: nat where "MAX_RECORDS = 512"
definition MAX_ANCHORS :: nat where "MAX_ANCHORS = 1024"
definition MAX_STORAGE :: int where "MAX_STORAGE = 134217728"

definition STATES :: "(string \<times> string list) list" where
  "STATES = [(''job'', [''QUEUED'', ''VALIDATED'', ''PREPARED'', ''EXECUTING'', ''OUTCOME_UNKNOWN'', ''RETRY_READY'', ''SUCCEEDED'', ''CANCELLED'']),
     (''control'', [''INFLIGHT'', ''ACCEPTED'', ''OUTCOME_UNKNOWN'']),
     (''submission'', [''RECEIVING'', ''READY'', ''INFLIGHT'', ''RETRY_READY'', ''REGISTERED'', ''INTENT'', ''PAYLOAD_REMOVED'', ''TOMBSTONED''])]"

definition TERMINAL_STATES :: "(string \<times> string list) list" where
  "TERMINAL_STATES = [(''job'', [''SUCCEEDED'', ''CANCELLED'']), (''control'', [''ACCEPTED'']), (''submission'', [''TOMBSTONED''])]"

record lrecord =
  lr_key :: string
  lr_kind :: string
  lr_local_id :: string
  lr_state :: string
  lr_intent_digest :: string
  lr_input_digest :: string
  lr_proof_digest :: string
  lr_refs :: "string list"
  lr_evidence_digest :: "string option"
  lr_storage_bytes :: int
  lr_reserved_bytes :: int

record anchor =
  an_key :: string
  an_proof_digest :: string

record gates =
  ga_jobs :: bool
  ga_control :: bool
  ga_submissions :: bool
  ga_archive_resolver :: bool

record inventory =
  in_source :: string
  in_keeper :: string
  in_store :: string
  in_controller :: "string option"
  in_controller_revision :: int
  in_observation :: string
  in_gates :: gates
  in_anchors :: "anchor list"
  in_records :: "lrecord list"

definition l_integer :: "int \<Rightarrow> int \<Rightarrow> int \<Rightarrow> unit res" where
  "l_integer v lo hi = l_need (lo \<le> v \<and> v \<le> hi) ''SCHEMA''"

definition hex_text :: "string \<Rightarrow> bool" where
  "hex_text s \<longleftrightarrow> length s = 64 \<and> list_all (\<lambda>c. c \<in> set ''0123456789abcdef'') s"

definition hex32 :: "string \<Rightarrow> unit res" where
  "hex32 v = l_need (hex_text v) ''SCHEMA''"

definition has_prefix :: "string \<Rightarrow> string \<Rightarrow> bool" where
  "has_prefix p s \<longleftrightarrow> take (length p) s = p"

definition ref_key :: "string \<Rightarrow> unit res" where
  "ref_key v = l_need (list_ex (\<lambda>k. has_prefix (k @ '':'') v \<and> hex_text (drop (length k + 1) v))
     [''job'', ''control'', ''submission'', ''evidence'', ''policy'']) ''SCHEMA''"

definition sorted_set :: "string list \<Rightarrow> string list" where
  "sorted_set xs = sort (remdups xs)"

definition job_refs :: "lrecord \<Rightarrow> string list" where
  "job_refs r = filter (has_prefix ''job:'') (lr_refs r)"

definition validate_record :: "lrecord \<Rightarrow> lrecord res" where
  "validate_record r =
     bindE (l_need (lr_kind r \<in> set (map fst STATES)) ''SCHEMA'') (\<lambda>_.
     bindE (allE hex32 [lr_local_id r, lr_intent_digest r, lr_input_digest r, lr_proof_digest r]) (\<lambda>_.
     bindE (l_need (lr_key r = lr_kind r @ '':'' @ lr_local_id r) ''SCHEMA'') (\<lambda>_.
     bindE (l_need (case map_of STATES (lr_kind r) of None \<Rightarrow> False | Some ss \<Rightarrow> lr_state r \<in> set ss) ''SCHEMA'') (\<lambda>_.
     bindE (l_integer (lr_storage_bytes r) 0 MAX_STORAGE) (\<lambda>_.
     bindE (l_integer (lr_reserved_bytes r) 0 MAX_STORAGE) (\<lambda>_.
     bindE (case lr_evidence_digest r of None \<Rightarrow> Inr () | Some d \<Rightarrow> hex32 d) (\<lambda>_.
     bindE (l_need (lr_kind r = ''job'' \<longrightarrow> (lr_evidence_digest r \<noteq> None) = (lr_state r = ''SUCCEEDED'')) ''SCHEMA'') (\<lambda>_.
     bindE (l_need (lr_kind r = ''control'' \<longrightarrow> lr_evidence_digest r = None) ''SCHEMA'') (\<lambda>_.
     bindE (l_need (length (lr_refs r) \<le> 16) ''SCHEMA'') (\<lambda>_.
     bindE (allE ref_key (lr_refs r)) (\<lambda>_.
     bindE (l_need (lr_refs r = sorted_set (lr_refs r)) ''SCHEMA'') (\<lambda>_.
     bindE (l_need (lr_key r \<notin> set (lr_refs r)) ''SCHEMA'') (\<lambda>_.
     bindE (l_need (lr_kind r = ''job'' \<and> lr_state r = ''SUCCEEDED'' \<longrightarrow>
       (case lr_evidence_digest r of None \<Rightarrow> False | Some d \<Rightarrow> ''evidence:'' @ d \<in> set (lr_refs r))) ''SCHEMA'') (\<lambda>_.
     bindE (l_need (lr_kind r = ''control'' \<longrightarrow> length (job_refs r) = 1) ''SCHEMA'') (\<lambda>_.
     bindE (l_need (lr_kind r = ''submission'' \<and> lr_evidence_digest r \<noteq> None \<longrightarrow> length (job_refs r) = 1) ''SCHEMA'') (\<lambda>_.
       Inr r))))))))))))))))"

section \<open>The reference graph\<close>

text \<open>The depth-first walk: \<open>path\<close> is the set \<^verbatim>\<open>visiting\<close>, which the code restores when it leaves a key; \<open>visited\<close> is the state.\<close>

function visit_ref :: "(string \<times> lrecord) list \<Rightarrow> string list \<Rightarrow> string list \<Rightarrow> string \<Rightarrow> string list \<Rightarrow> string list res" where
  "visit_ref recs anchors path key visited =
     (if key \<in> set path then life_fail ''REFERENCE_CYCLE''
      else if key \<in> set visited \<or> key \<in> set anchors then Inr visited
      else case map_of recs key of
        None \<Rightarrow> life_fail ''DANGLING_REFERENCE''
      | Some r \<Rightarrow> bindE (foldE (visit_ref recs anchors (key # path)) (lr_refs r) visited) (\<lambda>vs. Inr (key # vs)))"
  by pat_completeness auto

termination
proof (relation "measure (\<lambda>(recs, anchors, path, key, visited). card (fst ` set recs - set path))")
  fix recs :: "(string \<times> lrecord) list" and anchors path visited :: "string list" and key r x u
  assume a: "key \<notin> set path" "map_of recs key = Some r"
  have "key \<in> fst ` set recs" using map_of_SomeD [OF a(2)] by force
  then have "fst ` set recs - set (key # path) \<subset> fst ` set recs - set path" using a(1) by auto
  then show "((recs, anchors, key # path, x, u), (recs, anchors, path, key, visited)) \<in> measure (\<lambda>(recs, anchors, path, key, visited). card (fst ` set recs - set path))"
    by (simp add: psubset_card_mono)
qed simp

declare visit_ref.simps [simp del]

definition check_anchor :: "string \<Rightarrow> anchor \<Rightarrow> string list \<Rightarrow> string list res" where
  "check_anchor source a seen =
     bindE (ref_key (an_key a)) (\<lambda>_.
     bindE (hex32 (an_proof_digest a)) (\<lambda>_.
     bindE (l_need (an_key a \<notin> set seen) ''SCHEMA'') (\<lambda>_.
     bindE (l_need (source = ''LIVE_READONLY'' \<longrightarrow> has_prefix ''evidence:'' (an_key a) \<or> has_prefix ''policy:'' (an_key a)) ''SCHEMA'') (\<lambda>_.
       Inr (seen @ [an_key a])))))"

definition check_record :: "string list \<Rightarrow> lrecord \<Rightarrow> (string \<times> lrecord) list \<times> string list \<Rightarrow> ((string \<times> lrecord) list \<times> string list) res" where
  "check_record anchors r st = (case st of (recs, intents) \<Rightarrow>
     bindE (validate_record r) (\<lambda>_.
     bindE (l_need (lr_key r \<notin> set (map fst recs) \<and> lr_key r \<notin> set anchors) ''SCHEMA'') (\<lambda>_.
     bindE (l_need (lr_kind r = ''job'' \<longrightarrow> lr_intent_digest r \<notin> set intents) ''INTENT_ALIAS'') (\<lambda>_.
       Inr (recs @ [(lr_key r, r)], if lr_kind r = ''job'' then intents @ [lr_intent_digest r] else intents)))))"

definition check_submission :: "(string \<times> lrecord) list \<Rightarrow> lrecord \<Rightarrow> unit res" where
  "check_submission recs r =
     (if lr_kind r = ''submission'' \<and> lr_evidence_digest r \<noteq> None then
        (case job_refs r of
           [] \<Rightarrow> Inl ValueError
         | target # _ \<Rightarrow> (case map_of recs target of
             None \<Rightarrow> Inr ()
           | Some t \<Rightarrow> l_need (Some (lr_intent_digest t) = lr_evidence_digest r) ''REFERENCE_MISMATCH''))
      else Inr ())"

definition record_json :: "lrecord \<Rightarrow> string" where
  "record_json r = json_obj [(''evidence_digest'', json_opt (lr_evidence_digest r)), (''input_digest'', json_str (lr_input_digest r)),
     (''intent_digest'', json_str (lr_intent_digest r)), (''key'', json_str (lr_key r)), (''kind'', json_str (lr_kind r)),
     (''local_id'', json_str (lr_local_id r)), (''proof_digest'', json_str (lr_proof_digest r)), (''refs'', json_list (map json_str (lr_refs r))),
     (''reserved_bytes'', json_int (lr_reserved_bytes r)), (''state'', json_str (lr_state r)), (''storage_bytes'', json_int (lr_storage_bytes r))]"

definition inventory_json :: "inventory \<Rightarrow> string" where
  "inventory_json v = json_obj
     [(''anchors'', json_list (map (\<lambda>a. json_obj [(''key'', json_str (an_key a)), (''proof_digest'', json_str (an_proof_digest a))]) (in_anchors v))),
      (''controller'', json_opt (in_controller v)), (''controller_revision'', json_int (in_controller_revision v)),
      (''gates'', json_obj [(''archive_resolver'', json_bool (ga_archive_resolver (in_gates v))), (''control'', json_bool (ga_control (in_gates v))),
         (''jobs'', json_bool (ga_jobs (in_gates v))), (''submissions'', json_bool (ga_submissions (in_gates v)))]),
      (''keeper'', json_str (in_keeper v)), (''observation'', json_str (in_observation v)), (''profile'', json_str LIFECYCLE_PROFILE),
      (''records'', json_list (map record_json (in_records v))), (''schema'', json_int 1), (''source'', json_str (in_source v)),
      (''store'', json_str (in_store v))]"

definition open_gates :: "gates \<Rightarrow> (string \<times> bool) list" where
  "open_gates g = [(''archive_resolver'', ga_archive_resolver g), (''control'', ga_control g), (''jobs'', ga_jobs g), (''submissions'', ga_submissions g)]"

definition validate_inventory :: "inventory \<Rightarrow> inventory res" where
  "validate_inventory v =
     bindE (l_need (in_source v \<in> {''MODEL_FIXTURE'', ''LIVE_READONLY''}) ''SCHEMA'') (\<lambda>_.
     bindE (allE hex32 [in_keeper v, in_store v, in_observation v]) (\<lambda>_.
     bindE (case in_controller v of None \<Rightarrow> Inr () | Some k \<Rightarrow> hex32 k) (\<lambda>_.
     bindE (l_integer (in_controller_revision v) 1 (2 ^ 53 - 1)) (\<lambda>_.
     bindE (l_need (in_source v = ''LIVE_READONLY'' \<longrightarrow> \<not> list_ex snd (open_gates (in_gates v))) ''SCHEMA'') (\<lambda>_.
     bindE (l_need (length (in_records v) \<le> MAX_RECORDS) ''SCHEMA'') (\<lambda>_.
     bindE (l_need (length (in_anchors v) \<le> MAX_ANCHORS) ''SCHEMA'') (\<lambda>_.
     bindE (foldE (check_anchor (in_source v)) (in_anchors v) []) (\<lambda>anchors.
     bindE (l_need (anchors = sort anchors) ''SCHEMA'') (\<lambda>_.
     bindE (foldE (check_record anchors) (in_records v) ([], [])) (\<lambda>(recs, _).
     bindE (l_need (map fst recs = sort (map fst recs)) ''SCHEMA'') (\<lambda>_.
     bindE (allE (check_submission recs) (map snd recs)) (\<lambda>_.
     bindE (foldE (visit_ref recs anchors []) (map fst recs) []) (\<lambda>_.
     bindE (canonical_text (inventory_json v)) (\<lambda>_. Inr v))))))))))))))"

definition encode_inventory :: "inventory \<Rightarrow> string res" where
  "encode_inventory v = bindE (validate_inventory v) (\<lambda>w. canonical_text (inventory_json w))"

text \<open>\<^verbatim>\<open>decode_inventory(encode_inventory(v))\<close>: the checked copy of an inventory.\<close>

definition copied_inventory :: "inventory \<Rightarrow> inventory res" where
  "copied_inventory v = bindE (encode_inventory v) (\<lambda>_. validate_inventory v)"

section \<open>The dry-run plan\<close>

record lplan =
  pl_inventory_digest :: string
  pl_controller_revision :: int
  pl_record_count :: nat
  pl_keys :: "string list"
  pl_estimate :: int
  pl_archive_limit :: int
  pl_blockers :: "string list"
  pl_needed_by :: "(string \<times> string list) list"
  pl_model_ready :: bool

definition record_blockers :: "lrecord \<Rightarrow> string list" where
  "record_blockers r =
     (if (case map_of TERMINAL_STATES (lr_kind r) of None \<Rightarrow> False | Some ss \<Rightarrow> lr_state r \<in> set ss) then [] else [''NONTERMINAL:'' @ lr_key r])
     @ (if lr_reserved_bytes r \<noteq> 0 then [''RESERVATION:'' @ lr_key r] else [])"

definition needed_by :: "lrecord list \<Rightarrow> (string \<times> string list) list" where
  "needed_by rs = map (\<lambda>r. (lr_key r, map lr_key (filter (\<lambda>q. lr_key r \<in> set (lr_refs q)) rs))) rs"

definition lifecycle_plan :: "inventory \<Rightarrow> int \<Rightarrow> lplan res" where
  "lifecycle_plan v0 archive_limit =
     bindE (copied_inventory v0) (\<lambda>v.
     bindE (l_integer archive_limit 0 MAX_STORAGE) (\<lambda>_.
     let estimate = sum_list (map lr_storage_bytes (in_records v));
         blockers = map (\<lambda>(k, _). ''UNMIGRATED:'' @ k) (filter (\<lambda>(_, b). \<not> b) (open_gates (in_gates v)))
           @ (if in_controller v = None then [''CONTROLLER_UNAVAILABLE''] else [])
           @ concat (map record_blockers (in_records v))
           @ (if archive_limit < estimate then [''ARCHIVE_BUDGET''] else []) in
     bindE (encode_inventory v) (\<lambda>t.
       Inr \<lparr>pl_inventory_digest = sha_text t, pl_controller_revision = in_controller_revision v, pl_record_count = length (in_records v),
         pl_keys = map lr_key (in_records v), pl_estimate = estimate, pl_archive_limit = archive_limit, pl_blockers = sort blockers,
         pl_needed_by = needed_by (in_records v), pl_model_ready = (blockers = [] \<and> in_source v = ''MODEL_FIXTURE'')\<rparr>)))"

end
