(* ===== verification/LifecycleModel.thy ===== *)
theory LifecycleModel
  imports RecordLifecycle
begin

text \<open>
  The event-replayed lifecycle model (\<^verbatim>\<open>par_record_lifecycle/model.py\<close>): one generation at a time is open for admission, closed,
  archived and compacted. An event runs on a copy of the model and is kept only if the whole step succeeds. What the model shows:
  no record that was ever admitted is lost or changed, generations are closed in order and never reopened, and a checkpoint with
  its pin restores the model it came from.
\<close>

section \<open>State\<close>

definition MAX_EVENTS :: nat where "MAX_EVENTS = 256"
definition MAX_GENERATIONS :: int where "MAX_GENERATIONS = 64"
definition MAX_ARCHIVE_ESTIMATE :: int where "MAX_ARCHIVE_ESTIMATE = 67108864"

datatype phase = OPEN | CLOSED | ARCHIVED | COMPACTED

record pending_close =
  pe_generation :: int
  pe_records :: "lrecord list"
  pe_inventory_digest :: string
  pe_approval_revision :: int

record archive =
  ar_pending :: pending_close
  ar_digest :: string

text \<open>A plan as \<^verbatim>\<open>LifecycleModel.plan\<close> returns it.\<close>

record model_plan =
  mp_plan :: lplan
  mp_generation :: int
  mp_phase :: phase
  mp_history_digest :: string

datatype lc_event =
    Admit lrecord int int
  | Close model_plan int
  | Archive
  | Compact
  | Open int
  | Rotate string int

record lifecycle =
  lm_initial :: inventory
  lm_inventory :: inventory
  lm_events :: "lc_event list"
  lm_generation :: int
  lm_closed_through :: int
  lm_phase :: phase
  lm_archives :: "archive list"
  lm_pending :: "pending_close option"

section \<open>Texts\<close>

definition phase_name :: "phase \<Rightarrow> string" where
  "phase_name p = (case p of OPEN \<Rightarrow> ''OPEN'' | CLOSED \<Rightarrow> ''CLOSED'' | ARCHIVED \<Rightarrow> ''ARCHIVED'' | COMPACTED \<Rightarrow> ''COMPACTED'')"

definition pending_json :: "pending_close \<Rightarrow> string" where
  "pending_json p = json_obj [(''approval_revision'', json_int (pe_approval_revision p)), (''generation'', json_int (pe_generation p)),
     (''inventory_digest'', json_str (pe_inventory_digest p)), (''records'', json_list (map record_json (pe_records p)))]"

definition plan_json :: "model_plan \<Rightarrow> string" where
  "plan_json m = (let p = mp_plan m in json_obj
     [(''archive_bytes_estimate'', json_int (pl_estimate p)), (''archive_limit'', json_int (pl_archive_limit p)),
      (''blockers'', json_list (map json_str (pl_blockers p))), (''controller_revision'', json_int (pl_controller_revision p)),
      (''generation'', json_int (mp_generation m)), (''history_digest'', json_str (mp_history_digest m)),
      (''inventory_digest'', json_str (pl_inventory_digest p)), (''keys'', json_list (map json_str (pl_keys p))),
      (''model_ready'', json_bool (pl_model_ready p)),
      (''needed_by'', json_obj (map (\<lambda>(k, ks). (k, json_list (map json_str ks))) (sort_key fst (pl_needed_by p)))),
      (''phase'', json_str (phase_name (mp_phase m))), (''product_qualified'', json_bool False), (''real_deletion_allowed'', json_bool False),
      (''record_count'', json_int (int (pl_record_count p))), (''schema'', json_int 1),
      (''scope'', json_str ''LOCAL_MODEL_AND_INVENTORY_ONLY'')])"

definition event_json :: "lc_event \<Rightarrow> string" where
  "event_json e = (case e of
     Admit r g c \<Rightarrow> json_obj [(''action'', json_str ''admit''), (''controller_revision'', json_int c), (''generation'', json_int g), (''record'', record_json r)]
   | Close p c \<Rightarrow> json_obj [(''action'', json_str ''close''), (''controller_revision'', json_int c), (''plan'', plan_json p)]
   | Archive \<Rightarrow> json_obj [(''action'', json_str ''archive'')]
   | Compact \<Rightarrow> json_obj [(''action'', json_str ''compact'')]
   | Open c \<Rightarrow> json_obj [(''action'', json_str ''open''), (''controller_revision'', json_int c)]
   | Rotate p c \<Rightarrow> json_obj [(''action'', json_str ''rotate''), (''controller_revision'', json_int c), (''public'', json_str p)])"

definition history_digest :: "lifecycle \<Rightarrow> nat \<Rightarrow> string res" where
  "history_digest m n = bindE (canonical_text (json_obj [(''events'', json_list (map event_json (take n (lm_events m)))),
     (''initial'', inventory_json (lm_initial m))])) (\<lambda>t. Inr (sha_text t))"

definition checkpoint :: "lifecycle \<Rightarrow> string res" where
  "checkpoint m = canonical_text (json_obj [(''events'', json_list (map event_json (lm_events m))), (''initial'', inventory_json (lm_initial m)),
     (''profile'', json_str LIFECYCLE_PROFILE), (''schema'', json_int 1), (''scope'', json_str ''PURE_NON_DESTRUCTIVE_MODEL'')])"

section \<open>Views of the records\<close>

definition new_lifecycle :: "inventory \<Rightarrow> lifecycle res" where
  "new_lifecycle v =
     bindE (copied_inventory v) (\<lambda>i.
     bindE (l_need (in_source i = ''MODEL_FIXTURE'') ''MODEL_ONLY'') (\<lambda>_.
       Inr \<lparr>lm_initial = i, lm_inventory = i, lm_events = [], lm_generation = 1, lm_closed_through = 0, lm_phase = OPEN,
         lm_archives = [], lm_pending = None\<rparr>))"

definition archived_records :: "lifecycle \<Rightarrow> lrecord list" where
  "archived_records m = concat (map (\<lambda>a. pe_records (ar_pending a)) (lm_archives m))"

definition active_records :: "lifecycle \<Rightarrow> lrecord list" where
  "active_records m = in_records (lm_inventory m)"

definition all_records :: "lifecycle \<Rightarrow> lrecord list" where
  "all_records m = sort_key lr_key (archived_records m
     @ filter (\<lambda>r. lr_key r \<notin> lr_key ` set (archived_records m)) (active_records m))"

definition lifecycle_scope :: "lifecycle \<Rightarrow> inventory" where
  "lifecycle_scope m = (let v = lm_inventory m;
       old = filter (\<lambda>r. lr_key r \<notin> lr_key ` set (in_records v)) (all_records m);
       table = fold (\<lambda>r. AList.update (lr_key r) \<lparr>an_key = lr_key r, an_proof_digest = lr_proof_digest r\<rparr>) old
         (fold (\<lambda>a. AList.update (an_key a) a) (in_anchors v) []) in
     v\<lparr>in_anchors := sort_key an_key (map snd table)\<rparr>)"

definition plan_model :: "lifecycle \<Rightarrow> model_plan res" where
  "plan_model m =
     (let occupied = sum_list (map lr_storage_bytes (archived_records m)) in
      bindE (lifecycle_plan (lifecycle_scope m) (max 0 (MAX_ARCHIVE_ESTIMATE - occupied))) (\<lambda>p.
      bindE (history_digest m (length (lm_events m))) (\<lambda>d.
        Inr \<lparr>mp_plan = p, mp_generation = lm_generation m, mp_phase = lm_phase m, mp_history_digest = d\<rparr>)))"

section \<open>Events\<close>

definition controller_ok :: "lifecycle \<Rightarrow> int \<Rightarrow> unit res" where
  "controller_ok m revision =
     bindE (l_integer revision 1 (2 ^ 53 - 1)) (\<lambda>_.
       l_need (in_controller (lm_inventory m) \<noteq> None \<and> revision = in_controller_revision (lm_inventory m)) ''STALE_CONTROLLER'')"

definition apply_admit :: "lrecord \<Rightarrow> int \<Rightarrow> int \<Rightarrow> lifecycle \<Rightarrow> lifecycle res" where
  "apply_admit r0 generation revision m =
     bindE (l_integer generation 1 MAX_GENERATIONS) (\<lambda>_.
     bindE (controller_ok m revision) (\<lambda>_.
     bindE (l_need (lm_closed_through m < generation) ''GENERATION_CLOSED'') (\<lambda>_.
     bindE (l_need (lm_phase m = OPEN) ''PHASE'') (\<lambda>_.
     bindE (l_need (generation = lm_generation m) ''GENERATION'') (\<lambda>_.
     bindE (validate_record r0) (\<lambda>r.
     let previous = all_records m in
     bindE (if lr_kind r = ''submission'' \<and> lr_evidence_digest r \<noteq> None then
         (case job_refs r of
            [] \<Rightarrow> Inl ValueError
          | target # _ \<Rightarrow> l_need (case find (\<lambda>q. lr_key q = target) previous of
              None \<Rightarrow> False | Some q \<Rightarrow> Some (lr_intent_digest q) = lr_evidence_digest r) ''REFERENCE_MISMATCH'')
       else Inr ()) (\<lambda>_.
     bindE (l_need (lr_key r \<notin> lr_key ` set previous) ''ID_REUSE'') (\<lambda>_.
     bindE (l_need (lr_kind r = ''job'' \<longrightarrow> \<not> list_ex (\<lambda>q. lr_kind q = ''job'' \<and> lr_intent_digest q = lr_intent_digest r) previous) ''INTENT_ALIAS'') (\<lambda>_.
     let v = lm_inventory m; m1 = m\<lparr>lm_inventory := v\<lparr>in_records := sort_key lr_key (in_records v @ [r])\<rparr>\<rparr> in
     bindE (validate_inventory (lifecycle_scope m1)) (\<lambda>_. Inr m1))))))))))"

definition apply_close :: "model_plan \<Rightarrow> int \<Rightarrow> lifecycle \<Rightarrow> lifecycle res" where
  "apply_close expected revision m =
     bindE (controller_ok m revision) (\<lambda>_.
     bindE (l_need (lm_phase m = OPEN) ''PHASE'') (\<lambda>_.
     bindE (plan_model m) (\<lambda>p.
     bindE (canonical_text (plan_json expected)) (\<lambda>a.
     bindE (canonical_text (plan_json p)) (\<lambda>b.
     bindE (l_need (a = b) ''STALE_PLAN'') (\<lambda>_.
     bindE (l_need (pl_model_ready (mp_plan p)) ''BLOCKED'') (\<lambda>_.
       Inr (m\<lparr>lm_pending := Some \<lparr>pe_generation = lm_generation m, pe_records = in_records (lm_inventory m),
           pe_inventory_digest = pl_inventory_digest (mp_plan p), pe_approval_revision = revision\<rparr>,
         lm_closed_through := lm_generation m, lm_phase := CLOSED\<rparr>))))))))"

definition apply_archive :: "lifecycle \<Rightarrow> lifecycle res" where
  "apply_archive m =
     bindE (l_need (lm_phase m = CLOSED) ''PHASE'') (\<lambda>_.
     case lm_pending m of
       None \<Rightarrow> Inl TypeError
     | Some p \<Rightarrow>
         bindE (l_need (pe_records p = in_records (lm_inventory m)) ''ARCHIVE_MISMATCH'') (\<lambda>_.
         bindE (canonical_text (pending_json p)) (\<lambda>t.
           Inr (m\<lparr>lm_archives := lm_archives m @ [\<lparr>ar_pending = p, ar_digest = sha_text t\<rparr>], lm_phase := ARCHIVED\<rparr>))))"

definition apply_compact :: "lifecycle \<Rightarrow> lifecycle res" where
  "apply_compact m =
     bindE (l_need (lm_phase m = ARCHIVED) ''PHASE'') (\<lambda>_.
     if lm_archives m = [] then Inl IndexError
     else let a = last (lm_archives m) in
       bindE (canonical_text (pending_json (ar_pending a))) (\<lambda>t.
       bindE (l_need (sha_text t = ar_digest a \<and> lm_pending m = Some (ar_pending a)) ''ARCHIVE_MISMATCH'') (\<lambda>_.
       bindE (l_need (pe_records (ar_pending a) = in_records (lm_inventory m)) ''ARCHIVE_MISMATCH'') (\<lambda>_.
         Inr (m\<lparr>lm_inventory := (lm_inventory m)\<lparr>in_records := []\<rparr>, lm_phase := COMPACTED\<rparr>)))))"

definition apply_open :: "int \<Rightarrow> lifecycle \<Rightarrow> lifecycle res" where
  "apply_open revision m =
     bindE (controller_ok m revision) (\<lambda>_.
     bindE (l_need (lm_phase m = COMPACTED) ''PHASE'') (\<lambda>_.
     bindE (l_need (lm_generation m < MAX_GENERATIONS) ''CAPACITY'') (\<lambda>_.
       Inr (m\<lparr>lm_generation := lm_generation m + 1, lm_phase := OPEN, lm_pending := None\<rparr>))))"

definition apply_rotate :: "string \<Rightarrow> int \<Rightarrow> lifecycle \<Rightarrow> lifecycle res" where
  "apply_rotate public revision m =
     bindE (hex32 public) (\<lambda>_.
     bindE (l_integer revision 1 (2 ^ 53 - 1)) (\<lambda>_.
     bindE (l_need (lm_phase m = OPEN) ''PHASE'') (\<lambda>_.
     bindE (l_need (in_controller_revision (lm_inventory m) < revision) ''STALE_CONTROLLER'') (\<lambda>_.
       Inr (m\<lparr>lm_inventory := (lm_inventory m)\<lparr>in_controller := Some public, in_controller_revision := revision\<rparr>\<rparr>)))))"

definition apply_event :: "lc_event \<Rightarrow> lifecycle \<Rightarrow> lifecycle res" where
  "apply_event e m = (case e of
     Admit r g c \<Rightarrow> apply_admit r g c m
   | Close p c \<Rightarrow> apply_close p c m
   | Archive \<Rightarrow> apply_archive m
   | Compact \<Rightarrow> apply_compact m
   | Open c \<Rightarrow> apply_open c m
   | Rotate p c \<Rightarrow> apply_rotate p c m)"

text \<open>\<^verbatim>\<open>decode(canonical(event))\<close>: a copy of the event with the entries of its dictionaries in the order of their keys. Only \<^verbatim>\<open>needed_by\<close> has
  keys that are not fixed; a repeated key, which a Python dictionary cannot have, is what the reader's pairs hook refuses.\<close>

definition sorted_plan :: "model_plan \<Rightarrow> model_plan" where
  "sorted_plan m = m\<lparr>mp_plan := (mp_plan m)\<lparr>pl_needed_by := sort_key fst (pl_needed_by (mp_plan m))\<rparr>\<rparr>"

definition copied_event :: "lc_event \<Rightarrow> lc_event res" where
  "copied_event e = (case e of
     Close p c \<Rightarrow> bindE (l_need (distinct (map fst (pl_needed_by (mp_plan p)))) ''SCHEMA'') (\<lambda>_. Inr (Close (sorted_plan p) c))
   | _ \<Rightarrow> Inr e)"

definition run_event :: "lc_event \<Rightarrow> lifecycle \<Rightarrow> lifecycle res" where
  "run_event e0 m =
     bindE (l_need (length (lm_events m) < MAX_EVENTS) ''CAPACITY'') (\<lambda>_.
     bindE (canonical_text (event_json e0)) (\<lambda>_.
     bindE (copied_event e0) (\<lambda>e.
     bindE (apply_event e m) (\<lambda>trial0.
     let trial = trial0\<lparr>lm_events := lm_events trial0 @ [e]\<rparr> in
     bindE (checkpoint trial) (\<lambda>_. Inr trial)))))"

definition resolve :: "lifecycle \<Rightarrow> string \<Rightarrow> lrecord res" where
  "resolve m key =
     bindE (ref_key key) (\<lambda>_.
     case find (\<lambda>r. lr_key r = key) (all_records m) of None \<Rightarrow> life_fail ''NOT_FOUND'' | Some r \<Rightarrow> Inr r)"

section \<open>Pins\<close>

record lpin =
  pi_keeper :: string
  pi_store :: string
  pi_sequence :: nat
  pi_prefix_digest :: string
  pi_generation :: int
  pi_closed_through :: int
  pi_controller_revision :: int

definition lifecycle_pin :: "lifecycle \<Rightarrow> lpin res" where
  "lifecycle_pin m = bindE (history_digest m (length (lm_events m))) (\<lambda>d.
     Inr \<lparr>pi_keeper = in_keeper (lm_initial m), pi_store = in_store (lm_initial m), pi_sequence = length (lm_events m),
       pi_prefix_digest = d, pi_generation = lm_generation m, pi_closed_through = lm_closed_through m,
       pi_controller_revision = in_controller_revision (lm_inventory m)\<rparr>)"

definition check_pin :: "lpin \<Rightarrow> unit res" where
  "check_pin p =
     bindE (allE hex32 [pi_keeper p, pi_store p, pi_prefix_digest p]) (\<lambda>_.
     bindE (l_need (pi_sequence p \<le> MAX_EVENTS) ''SCHEMA'') (\<lambda>_.
     bindE (l_integer (pi_generation p) 1 MAX_GENERATIONS) (\<lambda>_.
     bindE (l_integer (pi_closed_through p) 0 MAX_GENERATIONS) (\<lambda>_.
       l_integer (pi_controller_revision p) 1 (2 ^ 53 - 1)))))"

definition pinned :: "lpin \<Rightarrow> lifecycle \<Rightarrow> unit res" where
  "pinned p m = bindE (lifecycle_pin m) (\<lambda>q. l_need (q = p) ''PIN_MISMATCH'')"

end
