(* ===== verification/LifecycleProps.thy ===== *)
theory LifecycleProps
  imports LifecycleModel "HOL-Library.Multiset" "HOL-Library.Code_Target_Nat"
begin

text \<open>
  What the lifecycle guarantees: an accepted inventory has a closed, acyclic reference graph; no reachable state has lost or changed a
  record; a closed generation stays closed; and running the log again gives the state it belongs to.
\<close>

section \<open>The reference graph\<close>

text \<open>A list of keys in which every key's references come later in the list or are anchors.\<close>

fun settled :: "(string \<times> lrecord) list \<Rightarrow> string list \<Rightarrow> string list \<Rightarrow> bool" where
  "settled recs anchors [] = True"
| "settled recs anchors (k # ks) = ((\<exists>r. map_of recs k = Some r \<and> set (lr_refs r) \<subseteq> set ks \<union> set anchors) \<and> k \<notin> set ks \<and> settled recs anchors ks)"

lemma visit_settled:
  "visit_ref recs anchors path key visited = Inr vs \<Longrightarrow> settled recs anchors visited \<Longrightarrow>
    settled recs anchors vs \<and> set visited \<subseteq> set vs \<and> key \<in> set vs \<union> set anchors \<and> (\<forall>k \<in> set path. k \<in> set vs \<longrightarrow> k \<in> set visited)"
proof (induction recs anchors path key visited arbitrary: vs rule: visit_ref.induct)
  case (1 recs anchors path key visited)
  note step = 1(2) [unfolded visit_ref.simps [of recs anchors path key visited]]
  show ?case
  proof (cases "key \<in> set path \<or> key \<in> set visited \<or> key \<in> set anchors")
    case True then show ?thesis using step 1(3) by (auto split: if_splits)
  next
    case False
    then obtain r us where r: "map_of recs key = Some r" and us: "foldE (visit_ref recs anchors (key # path)) (lr_refs r) visited = Inr us"
      and vs: "vs = key # us" using step by (auto simp: res_simps split: option.splits)
    have loop: "settled recs anchors ws \<and> set ws0 \<subseteq> set ws \<and> set refs \<subseteq> set ws \<union> set anchors
        \<and> (\<forall>k \<in> set (key # path). k \<in> set ws \<longrightarrow> k \<in> set ws0)"
      if "foldE (visit_ref recs anchors (key # path)) refs ws0 = Inr ws" "settled recs anchors ws0" "set refs \<subseteq> set (lr_refs r)" for refs ws0 ws
      using that
    proof (induction refs arbitrary: ws0)
      case (Cons x refs)
      then obtain w1 where w1: "visit_ref recs anchors (key # path) x ws0 = Inr w1"
        "foldE (visit_ref recs anchors (key # path)) refs w1 = Inr ws" by (auto simp: res_simps)
      have "settled recs anchors w1 \<and> set ws0 \<subseteq> set w1 \<and> x \<in> set w1 \<union> set anchors
          \<and> (\<forall>k \<in> set (key # path). k \<in> set w1 \<longrightarrow> k \<in> set ws0)"
        using "1.IH" [OF _ _ r _ w1(1)] False Cons(3,4) by auto
      then show ?case using Cons(1) [OF w1(2)] Cons(4) by auto
    qed simp
    from loop [OF us 1(3)] have l: "settled recs anchors us" "set visited \<subseteq> set us" "set (lr_refs r) \<subseteq> set us \<union> set anchors"
      "\<forall>k \<in> set (key # path). k \<in> set us \<longrightarrow> k \<in> set visited" by auto
    have "key \<notin> set us" using l(4) False by auto
    then show ?thesis using l r vs False by auto
  qed
qed

lemma settled_refs: "settled recs anchors ks \<Longrightarrow> k \<in> set ks \<Longrightarrow> map_of recs k = Some r \<Longrightarrow> set (lr_refs r) \<subseteq> set ks \<union> set anchors"
  by (induction ks) auto

lemma settled_rank:
  assumes "settled recs anchors ks"
  shows "\<exists>f :: string \<Rightarrow> nat. \<forall>k \<in> set ks. \<forall>r. map_of recs k = Some r \<longrightarrow> (\<forall>ref \<in> set (lr_refs r). ref \<in> set anchors \<or> f ref < f k)"
  using assms
proof (induction ks)
  case (Cons x ks)
  then obtain f where f: "\<forall>k \<in> set ks. \<forall>r. map_of recs k = Some r \<longrightarrow> (\<forall>ref \<in> set (lr_refs r). ref \<in> set anchors \<or> (f ref :: nat) < f k)" by auto
  define g where "g = f(x := Suc (Max (insert 0 (f ` set ks))))"
  have x: "x \<notin> set ks" "settled recs anchors ks" using Cons(2) by auto
  have top: "f ref < g x" if "ref \<in> set ks" for ref using that by (auto simp: g_def less_Suc_eq_le)
  have "ref \<in> set anchors \<or> g ref < g k" if k: "k \<in> set (x # ks)" "map_of recs k = Some r" "ref \<in> set (lr_refs r)" for k r ref
  proof (cases "k = x")
    case True
    then have "ref \<in> set ks \<union> set anchors" using Cons(2) k by auto
    then show ?thesis using top x True by (auto simp: g_def)
  next
    case False
    then have "ref \<in> set ks \<union> set anchors" using settled_refs [OF x(2) _ k(2)] k by auto
    then show ?thesis using f k False x by (auto simp: g_def)
  qed
  then show ?case by blast
qed simp

definition ref_edges :: "lrecord list \<Rightarrow> (string \<times> string) set" where
  "ref_edges rs = {(lr_key r, ref) | r ref. r \<in> set rs \<and> ref \<in> set (lr_refs r)}"

lemma validate_record_same: "validate_record r = Inr w \<Longrightarrow> w = r"
  by (simp add: validate_record_def res_simps)

lemma check_records_keys:
  "foldE (check_record anchors) rs st = Inr st' \<Longrightarrow> distinct (map fst (fst st)) \<Longrightarrow>
    fst st' = fst st @ map (\<lambda>r. (lr_key r, r)) rs \<and> distinct (map fst (fst st')) \<and> (\<forall>r \<in> set rs. validate_record r = Inr r \<and> lr_key r \<notin> set anchors)"
proof (induction rs arbitrary: st)
  case (Cons r rs)
  then obtain st1 where st1: "check_record anchors r st = Inr st1" "foldE (check_record anchors) rs st1 = Inr st'" by (auto simp: res_simps)
  have v: "fst st1 = fst st @ [(lr_key r, r)]" "lr_key r \<notin> set (map fst (fst st))" "lr_key r \<notin> set anchors" "\<exists>w. validate_record r = Inr w"
    using st1(1) by (auto simp: check_record_def l_need_def res_simps split: prod.splits)
  have "validate_record r = Inr r" using v(4) validate_record_same by blast
  moreover have "distinct (map fst (fst st1))" using v(1,2) Cons(3) by simp
  note ih = Cons(1) [OF st1(2) this]
  have "distinct (map fst (fst st'))" using ih by blast
  ultimately show ?case using ih v(1,3) by simp
qed simp

lemma check_anchors_keys: "foldE (check_anchor source) as seen = Inr ks \<Longrightarrow> ks = seen @ map an_key as"
proof (induction as arbitrary: seen)
  case (Cons a as)
  then obtain s1 where s1: "check_anchor source a seen = Inr s1" "foldE (check_anchor source) as s1 = Inr ks" by (auto simp: res_simps)
  have "s1 = seen @ [an_key a]" using s1(1) by (auto simp: check_anchor_def res_simps)
  then show ?case using Cons(1) [OF s1(2)] by simp
qed simp

text \<open>What an accepted inventory satisfies.\<close>

lemma validate_inventory_facts:
  assumes "validate_inventory v = Inr w"
  shows "w = v" "distinct (map lr_key (in_records v))" "\<forall>r \<in> set (in_records v). validate_record r = Inr r"
    "lr_key ` set (in_records v) \<inter> an_key ` set (in_anchors v) = {}"
    "\<exists>vs. settled (map (\<lambda>r. (lr_key r, r)) (in_records v)) (map an_key (in_anchors v)) vs
        \<and> lr_key ` set (in_records v) \<subseteq> set vs \<union> an_key ` set (in_anchors v)"
proof -
  obtain anchors st vs where a: "foldE (check_anchor (in_source v)) (in_anchors v) [] = Inr anchors"
    and st: "foldE (check_record anchors) (in_records v) ([], []) = Inr st"
    and walk: "foldE (visit_ref (fst st) anchors []) (map fst (fst st)) [] = Inr vs" and w: "w = v"
    using assms by (auto simp: validate_inventory_def res_simps l_need_def)
  show "w = v" by (rule w)
  have k: "fst st = map (\<lambda>r. (lr_key r, r)) (in_records v)" "distinct (map fst (fst st))"
    "\<forall>r \<in> set (in_records v). validate_record r = Inr r \<and> lr_key r \<notin> set anchors"
    using check_records_keys [OF st] by auto
  have anchors: "anchors = map an_key (in_anchors v)" using check_anchors_keys [OF a] by simp
  show "distinct (map lr_key (in_records v))" using k(1,2) by (simp add: comp_def)
  show "\<forall>r \<in> set (in_records v). validate_record r = Inr r" using k(3) by blast
  show "lr_key ` set (in_records v) \<inter> an_key ` set (in_anchors v) = {}" using k(3) anchors by auto
  have loop: "settled recs anchors us \<and> set us0 \<subseteq> set us \<and> set ks \<subseteq> set us \<union> set anchors"
    if "foldE (visit_ref recs anchors []) ks us0 = Inr us" "settled recs anchors us0" for recs ks us0 us
    using that
  proof (induction ks arbitrary: us0)
    case (Cons k ks)
    then obtain u1 where u1: "visit_ref recs anchors [] k us0 = Inr u1" "foldE (visit_ref recs anchors []) ks u1 = Inr us" by (auto simp: res_simps)
    then show ?case using visit_settled [OF u1(1) Cons(3)] Cons(1) [OF u1(2)] by auto
  qed simp
  from loop [OF walk] show "\<exists>vs. settled (map (\<lambda>r. (lr_key r, r)) (in_records v)) (map an_key (in_anchors v)) vs
        \<and> lr_key ` set (in_records v) \<subseteq> set vs \<union> an_key ` set (in_anchors v)"
    unfolding k(1) anchors by (intro exI [of _ vs]) (auto simp: image_image)
qed

text \<open>C20. An inventory that is accepted has a closed and acyclic reference graph: every reference of a record is another record of the
  inventory or one of its anchors, and no record is reached from itself.\<close>

theorem references_acyclic:
  assumes "validate_inventory v = Inr w"
  shows "w = v \<and> distinct (map lr_key (in_records v)) \<and> acyclic (ref_edges (in_records v))
    \<and> (\<forall>r \<in> set (in_records v). set (lr_refs r) \<subseteq> lr_key ` set (in_records v) \<union> an_key ` set (in_anchors v))"
proof -
  note f = validate_inventory_facts [OF assms]
  let ?recs = "map (\<lambda>r. (lr_key r, r)) (in_records v)" and ?as = "map an_key (in_anchors v)"
  obtain vs where vs: "settled ?recs ?as vs" "lr_key ` set (in_records v) \<subseteq> set vs \<union> an_key ` set (in_anchors v)" using f(5) by blast
  have rec: "map_of ?recs (lr_key r) = Some r" if "r \<in> set (in_records v)" for r
    using that f(2) by (intro map_of_is_SomeI) (auto simp: comp_def)
  have in_vs: "lr_key r \<in> set vs" if "r \<in> set (in_records v)" for r using vs(2) f(4) that by blast
  have vs_recs: "set vs \<subseteq> lr_key ` set (in_records v)"
  proof
    fix k assume "k \<in> set vs"
    then have "map_of ?recs k \<noteq> None" using vs(1) by (induction vs) auto
    then show "k \<in> lr_key ` set (in_records v)" by (auto simp: map_of_eq_None_iff image_image)
  qed
  have refs: "set (lr_refs r) \<subseteq> lr_key ` set (in_records v) \<union> an_key ` set (in_anchors v)" if "r \<in> set (in_records v)" for r
    using settled_refs [OF vs(1) in_vs [OF that] rec [OF that]] vs_recs by auto
  obtain g where g: "\<forall>k \<in> set vs. \<forall>r. map_of ?recs k = Some r \<longrightarrow> (\<forall>ref \<in> set (lr_refs r). ref \<in> set ?as \<or> (g ref :: nat) < g k)"
    using settled_rank [OF vs(1)] by blast
  define h where "h k = (if k \<in> set ?as then 0 else Suc (g k))" for k
  have "(ref_edges (in_records v))\<inverse> \<subseteq> measure h"
  proof (clarsimp simp: ref_edges_def)
    fix r ref assume r: "r \<in> set (in_records v)" "ref \<in> set (lr_refs r)"
    have "lr_key r \<notin> set ?as" using f(4) r(1) by auto
    moreover have "ref \<in> set ?as \<or> g ref < g (lr_key r)" using g in_vs [OF r(1)] rec [OF r(1)] r(2) by blast
    ultimately show "h ref < h (lr_key r)" by (auto simp: h_def)
  qed
  then have "acyclic (ref_edges (in_records v))" using wf_acyclic [OF wf_subset [OF wf_measure]] acyclic_converse by metis
  then show ?thesis using f(1,2) refs by blast
qed

section \<open>Reachable states\<close>

definition life_step :: "lifecycle \<Rightarrow> lifecycle \<Rightarrow> bool" where
  "life_step m m' \<longleftrightarrow> (\<exists>e. run_event e m = Inr m')"

lemma run_event_cases:
  assumes "run_event e m = Inr m'"
  obtains e' t where "copied_event e = Inr e'" "apply_event e' m = Inr t" "m' = t\<lparr>lm_events := lm_events t @ [e']\<rparr>"
    "length (lm_events m) < MAX_EVENTS"
  using assms by (auto simp: run_event_def Let_def res_simps l_need_def)

lemma set_all_records: "set (all_records m) = set (archived_records m) \<union> {r \<in> set (active_records m). lr_key r \<notin> lr_key ` set (archived_records m)}"
  by (auto simp: all_records_def)

lemma keys_all_records: "lr_key ` set (all_records m) = lr_key ` set (archived_records m) \<union> lr_key ` set (active_records m)"
  by (auto simp: set_all_records)

text \<open>The invariant: unique and valid records, archived and active keys apart while a generation is open or closed, nothing active after
  compaction, and the fence just below the open generation.\<close>

definition records_ok :: "lifecycle \<Rightarrow> bool" where
  "records_ok m \<longleftrightarrow> distinct (map lr_key (archived_records m)) \<and> distinct (map lr_key (active_records m))
     \<and> (lm_phase m \<in> {OPEN, CLOSED} \<longrightarrow> lr_key ` set (archived_records m) \<inter> lr_key ` set (active_records m) = {})
     \<and> (lm_phase m = COMPACTED \<longrightarrow> active_records m = [])
     \<and> (\<forall>r \<in> set (archived_records m) \<union> set (active_records m). validate_record r = Inr r)"

definition fence_ok :: "lifecycle \<Rightarrow> bool" where
  "fence_ok m \<longleftrightarrow> lm_closed_through m = (if lm_phase m = OPEN then lm_generation m - 1 else lm_generation m)
     \<and> 1 \<le> lm_generation m \<and> lm_generation m \<le> MAX_GENERATIONS
     \<and> 1 \<le> in_controller_revision (lm_inventory m) \<and> in_controller_revision (lm_inventory m) \<le> 2 ^ 53 - 1
     \<and> length (lm_events m) \<le> MAX_EVENTS \<and> hex_text (in_keeper (lm_initial m)) \<and> hex_text (in_store (lm_initial m))"

lemma new_lifecycle_ok:
  assumes "new_lifecycle v = Inr m"
  shows "records_ok m \<and> fence_ok m \<and> lm_initial m = v \<and> lm_events m = []"
proof -
  have v: "validate_inventory v = Inr v" and m: "m = \<lparr>lm_initial = v, lm_inventory = v, lm_events = [], lm_generation = 1, lm_closed_through = 0,
      lm_phase = OPEN, lm_archives = [], lm_pending = None\<rparr>"
    using assms validate_inventory_facts(1) by (auto simp: new_lifecycle_def copied_inventory_def encode_inventory_def res_simps)
  have "records_ok m" using validate_inventory_facts(2,3) [OF v] by (simp add: records_ok_def m archived_records_def active_records_def)
  moreover have "fence_ok m"
    using v by (auto simp: fence_ok_def m validate_inventory_def l_integer_def l_need_def hex32_def res_simps MAX_GENERATIONS_def)
  ultimately show ?thesis by (simp add: m)
qed

text \<open>What each event does to the records.\<close>

lemma apply_admit_effect:
  assumes "apply_admit r g c m = Inr t"
  shows "lm_archives t = lm_archives m" "set (active_records t) = insert r (set (active_records m))"
    "distinct (map lr_key (active_records t)) = distinct (map lr_key (r # active_records m))" "lr_key r \<notin> lr_key ` set (all_records m)"
    "validate_record r = Inr r" "lm_phase m = OPEN" "lm_phase t = OPEN" "g = lm_generation m" "lm_closed_through m < g"
    "t = m\<lparr>lm_inventory := (lm_inventory m)\<lparr>in_records := sort_key lr_key (in_records (lm_inventory m) @ [r])\<rparr>\<rparr>"
proof -
  have r: "validate_record r = Inr r" using assms validate_record_same by (auto simp: apply_admit_def res_simps)
  then show "validate_record r = Inr r" .
  show t: "t = m\<lparr>lm_inventory := (lm_inventory m)\<lparr>in_records := sort_key lr_key (in_records (lm_inventory m) @ [r])\<rparr>\<rparr>"
    "lr_key r \<notin> lr_key ` set (all_records m)" "lm_phase m = OPEN" "g = lm_generation m" "lm_closed_through m < g"
    using assms r by (auto simp: apply_admit_def Let_def l_need_def res_simps)
  then show "lm_archives t = lm_archives m" "set (active_records t) = insert r (set (active_records m))" "lm_phase t = OPEN"
    by (simp_all add: active_records_def)
  have "mset (map lr_key (active_records t)) = mset (map lr_key (r # active_records m))" by (simp add: t(1) active_records_def)
  then show "distinct (map lr_key (active_records t)) = distinct (map lr_key (r # active_records m))" by (rule mset_eq_imp_distinct_iff)
qed

lemma apply_archive_effect:
  assumes "apply_archive m = Inr t"
  shows "archived_records t = archived_records m @ active_records m" "active_records t = active_records m" "lm_phase m = CLOSED" "lm_phase t = ARCHIVED"
  using assms by (auto simp: apply_archive_def res_simps l_need_def archived_records_def active_records_def split: option.splits)

lemma apply_compact_effect:
  assumes "apply_compact m = Inr t"
  shows "archived_records t = archived_records m" "active_records t = []" "lm_phase t = COMPACTED"
    "set (active_records m) \<subseteq> set (archived_records m)"
proof -
  have c: "lm_archives m \<noteq> []" "pe_records (ar_pending (last (lm_archives m))) = active_records m"
    "t = m\<lparr>lm_inventory := (lm_inventory m)\<lparr>in_records := []\<rparr>, lm_phase := COMPACTED\<rparr>"
    using assms by (auto simp: apply_compact_def Let_def res_simps l_need_def active_records_def split: if_splits)
  show "archived_records t = archived_records m" "active_records t = []" "lm_phase t = COMPACTED"
    by (simp_all add: c(3) archived_records_def active_records_def)
  have "set (pe_records (ar_pending (last (lm_archives m)))) \<subseteq> set (archived_records m)"
    using last_in_set [OF c(1)] by (auto simp: archived_records_def)
  then show "set (active_records m) \<subseteq> set (archived_records m)" by (simp add: c(2))
qed

lemma apply_rest_effect:
  "apply_close p c m = Inr t \<Longrightarrow> archived_records t = archived_records m \<and> active_records t = active_records m \<and> lm_phase m = OPEN \<and> lm_phase t = CLOSED"
  "apply_open c m = Inr t \<Longrightarrow> archived_records t = archived_records m \<and> active_records t = active_records m \<and> lm_phase m = COMPACTED \<and> lm_phase t = OPEN"
  "apply_rotate k c m = Inr t \<Longrightarrow> archived_records t = archived_records m \<and> active_records t = active_records m \<and> lm_phase m = OPEN \<and> lm_phase t = OPEN"
  by (auto simp: apply_close_def apply_open_def apply_rotate_def res_simps l_need_def archived_records_def active_records_def)

lemma admit_keeps:
  assumes "apply_admit r g c m = Inr t" "records_ok m"
  shows "records_ok t \<and> set (all_records m) \<subseteq> set (all_records t)"
proof -
  note e = apply_admit_effect [OF assms(1)]
  have a: "archived_records t = archived_records m" by (simp add: archived_records_def e(1))
  have k: "lr_key r \<notin> lr_key ` set (archived_records m)" "lr_key r \<notin> lr_key ` set (active_records m)" using e(4) keys_all_records [of m] by auto
  have "records_ok t" using assms(2) e(2,3,5-7) k unfolding records_ok_def a by auto
  then show ?thesis using e(2) k unfolding set_all_records a by auto
qed

lemma archive_keeps:
  assumes "apply_archive m = Inr t" "records_ok m"
  shows "records_ok t \<and> set (all_records m) \<subseteq> set (all_records t)"
proof -
  note e = apply_archive_effect [OF assms(1)]
  have "records_ok t" using assms(2) unfolding records_ok_def e by auto
  then show ?thesis unfolding set_all_records e by auto
qed

lemma compact_keeps:
  assumes "apply_compact m = Inr t" "records_ok m"
  shows "records_ok t \<and> set (all_records m) \<subseteq> set (all_records t)"
proof -
  note e = apply_compact_effect [OF assms(1)]
  have "records_ok t" using assms(2) unfolding records_ok_def e by auto
  then show ?thesis using e(4) unfolding set_all_records e(1,2) by auto
qed

lemma other_keeps:
  "apply_close p c m = Inr t \<Longrightarrow> records_ok m \<Longrightarrow> records_ok t \<and> set (all_records m) \<subseteq> set (all_records t)"
  "apply_open c m = Inr t \<Longrightarrow> records_ok m \<Longrightarrow> records_ok t \<and> set (all_records m) \<subseteq> set (all_records t)"
  "apply_rotate k c m = Inr t \<Longrightarrow> records_ok m \<Longrightarrow> records_ok t \<and> set (all_records m) \<subseteq> set (all_records t)"
  using apply_rest_effect by (simp_all add: records_ok_def set_all_records)

text \<open>What each event does to the fence; no event touches the initial inventory or the log.\<close>

definition fence_step :: "lifecycle \<Rightarrow> lifecycle \<Rightarrow> bool" where
  "fence_step m t \<longleftrightarrow> lm_initial t = lm_initial m \<and> lm_events t = lm_events m \<and> (fence_ok m \<longrightarrow> fence_ok t \<and> lm_closed_through m \<le> lm_closed_through t)"

lemma admit_fence: "apply_admit r g c m = Inr t \<Longrightarrow> fence_step m t"
  using apply_admit_effect(10) [of r g c m t] by (simp add: fence_step_def fence_ok_def)

lemma close_fence: "apply_close p c m = Inr t \<Longrightarrow> fence_step m t"
  by (auto simp: apply_close_def res_simps l_need_def fence_step_def fence_ok_def)

lemma archive_fence: "apply_archive m = Inr t \<Longrightarrow> fence_step m t"
  by (auto simp: apply_archive_def res_simps l_need_def fence_step_def fence_ok_def split: option.splits)

lemma compact_fence: "apply_compact m = Inr t \<Longrightarrow> fence_step m t"
  by (auto simp: apply_compact_def Let_def res_simps l_need_def fence_step_def fence_ok_def split: if_splits)

lemma open_fence: "apply_open c m = Inr t \<Longrightarrow> fence_step m t"
  by (auto simp: apply_open_def res_simps l_need_def fence_step_def fence_ok_def)

lemma rotate_fence: "apply_rotate k c m = Inr t \<Longrightarrow> fence_step m t"
  by (auto simp: apply_rotate_def res_simps l_need_def l_integer_def fence_step_def fence_ok_def)

lemma apply_fence: "apply_event e m = Inr t \<Longrightarrow> fence_step m t"
  by (cases e) (simp_all add: apply_event_def admit_fence close_fence archive_fence compact_fence open_fence rotate_fence)

lemma logged_fence: "fence_ok t \<Longrightarrow> length (lm_events t) < MAX_EVENTS \<Longrightarrow> fence_ok (t\<lparr>lm_events := lm_events t @ [e]\<rparr>)"
  by (simp add: fence_ok_def)

lemma apply_records: "apply_event e m = Inr t \<Longrightarrow> records_ok m \<Longrightarrow> records_ok t \<and> set (all_records m) \<subseteq> set (all_records t)"
  by (cases e) (simp_all add: apply_event_def admit_keeps archive_keeps compact_keeps other_keeps)

definition life_ok :: "lifecycle \<Rightarrow> bool" where
  "life_ok m \<longleftrightarrow> records_ok m \<and> fence_ok m"

lemma logged_records: "records_ok (t\<lparr>lm_events := es\<rparr>) = records_ok t" "set (all_records (t\<lparr>lm_events := es\<rparr>)) = set (all_records t)"
  by (simp_all add: records_ok_def set_all_records archived_records_def active_records_def)

lemma step_ok:
  assumes "life_step m m'" "life_ok m"
  shows "life_ok m' \<and> set (all_records m) \<subseteq> set (all_records m') \<and> lm_closed_through m \<le> lm_closed_through m'"
proof -
  obtain e where "run_event e m = Inr m'" using assms(1) by (auto simp: life_step_def)
  then obtain e' t where t: "apply_event e' m = Inr t" "m' = t\<lparr>lm_events := lm_events t @ [e']\<rparr>" "length (lm_events m) < MAX_EVENTS"
    by (rule run_event_cases)
  have f: "fence_step m t" by (rule apply_fence [OF t(1)])
  then have "fence_ok m'" using assms(2) t(3) logged_fence [of t e'] by (simp add: life_ok_def fence_step_def t(2))
  then show ?thesis using apply_records [OF t(1)] assms(2) f by (simp add: life_ok_def t(2) logged_records fence_step_def)
qed

interpretation life: keeps life_step life_ok
  by unfold_locales (use step_ok in blast)

lemma steps_grow: "life_step\<^sup>*\<^sup>* m m' \<Longrightarrow> life_ok m \<Longrightarrow> set (all_records m) \<subseteq> set (all_records m') \<and> lm_closed_through m \<le> lm_closed_through m'"
proof (induction rule: rtranclp_induct)
  case (step y z)
  have "life_ok y" by (rule life.reachable_keeps [OF step(1) step(4)])
  then show ?case using step step_ok [OF step(2)] by fastforce
qed simp

section \<open>No record is lost\<close>

lemma all_distinct: "records_ok m \<Longrightarrow> distinct (map lr_key (all_records m))"
proof -
  assume ok: "records_ok m"
  let ?xs = "archived_records m @ filter (\<lambda>r. lr_key r \<notin> lr_key ` set (archived_records m)) (active_records m)"
  have "distinct (map lr_key ?xs)" using ok by (auto simp: records_ok_def distinct_map_filter) (metis imageI)+
  moreover have "mset (map lr_key (all_records m)) = mset (map lr_key ?xs)" by (simp add: all_records_def)
  ultimately show ?thesis using mset_eq_imp_distinct_iff by blast
qed

lemma valid_key: "validate_record r = Inr r \<Longrightarrow> ref_key (lr_key r) = Inr ()"
proof -
  assume v: "validate_record r = Inr r"
  have k: "lr_kind r \<in> set (map fst STATES)" "hex_text (lr_local_id r)" "lr_key r = (lr_kind r @ '':'') @ lr_local_id r"
    using v by (simp_all add: validate_record_def res_simps l_need_def hex32_def)
  have "lr_kind r \<in> set [''job'', ''control'', ''submission'', ''evidence'', ''policy'']" using k(1) by (auto simp: STATES_def)
  moreover have "has_prefix (lr_kind r @ '':'') (lr_key r)" unfolding k(3) has_prefix_def by simp
  moreover have "drop (length (lr_kind r) + 1) (lr_key r) = lr_local_id r" unfolding k(3) by simp
  ultimately show ?thesis using k(2) unfolding ref_key_def list_ex_iff l_need_def need_eq_Inr by metis
qed

lemma find_key: "distinct (map f xs) \<Longrightarrow> x \<in> set xs \<Longrightarrow> find (\<lambda>y. f y = f x) xs = Some x"
  by (induction xs) auto

lemma resolve_present: "life_ok m \<Longrightarrow> r \<in> set (all_records m) \<Longrightarrow> resolve m (lr_key r) = Inr r"
proof -
  assume ok: "life_ok m" and r: "r \<in> set (all_records m)"
  then have "validate_record r = Inr r" by (auto simp: life_ok_def records_ok_def set_all_records)
  then show ?thesis using valid_key find_key [OF all_distinct r] ok by (simp add: resolve_def life_ok_def)
qed

text \<open>C19. No record is lost: a record that any reachable state knows, active or archived, is known unchanged to every later state, and
  resolving its key there returns exactly it; archiving and compaction only change where it is kept.\<close>

theorem records_kept:
  assumes "new_lifecycle v = Inr m0" "life_step\<^sup>*\<^sup>* m0 m" "life_step\<^sup>*\<^sup>* m m'" "r \<in> set (all_records m)"
  shows "r \<in> set (all_records m') \<and> resolve m' (lr_key r) = Inr r"
proof -
  have "life_ok m0" using new_lifecycle_ok [OF assms(1)] by (simp add: life_ok_def)
  then have "life_ok m" by (rule life.reachable_keeps [OF assms(2)])
  then have "r \<in> set (all_records m')" "life_ok m'" using steps_grow [OF assms(3)] life.reachable_keeps [OF assms(3)] assms(4) by auto
  then show ?thesis using resolve_present by blast
qed

text \<open>A closed generation stays closed: once the fence of a reachable state covers a generation, no later state accepts a record
  for it.\<close>

theorem closed_stays_closed:
  assumes "new_lifecycle v = Inr m0" "life_step\<^sup>*\<^sup>* m0 m" "life_step\<^sup>*\<^sup>* m m'" "g \<le> lm_closed_through m"
  shows "run_event (Admit r g c) m' \<noteq> Inr m'' \<and> lm_closed_through m' \<ge> lm_closed_through m"
proof -
  have "life_ok m0" using new_lifecycle_ok [OF assms(1)] by (simp add: life_ok_def)
  then have "life_ok m" by (rule life.reachable_keeps [OF assms(2)])
  then have grow: "lm_closed_through m \<le> lm_closed_through m'" using steps_grow [OF assms(3)] by blast
  then have "\<not> lm_closed_through m' < g" using assms(4) by simp
  then show ?thesis using grow by (auto simp: run_event_def copied_event_def apply_event_def dest!: apply_admit_effect(9) simp: res_simps)
qed

section \<open>The log\<close>

text \<open>The log holds copies, and running a copy is running the event it was copied from.\<close>

lemma sort_key_twice: "sort_key f (sort_key f xs) = sort_key f xs"
  by (rule sort_key_id_if_sorted) simp

lemma plan_json_sorted [simp]: "plan_json (sorted_plan p) = plan_json p"
  by (simp add: plan_json_def sorted_plan_def Let_def sort_key_twice)

lemma distinct_sort_keys: "distinct (map f (sort_key g xs)) = distinct (map f xs)"
  by (rule mset_eq_imp_distinct_iff) simp

lemma copied_twice: "copied_event e = Inr e' \<Longrightarrow> copied_event e' = Inr e' \<and> event_json e' = event_json e"
  by (cases e) (auto simp: copied_event_def l_need_def res_simps event_json_def sorted_plan_def sort_key_twice distinct_sort_keys
      plan_json_sorted [unfolded sorted_plan_def])

lemma run_copied:
  assumes "run_event e m = Inr m'" "copied_event e = Inr e'"
  shows "run_event e' m = Inr m'"
  using assms copied_twice [OF assms(2)] by (simp add: run_event_def)

lemma steps_replayed:
  assumes "life_step\<^sup>*\<^sup>* m0 m" "lm_events m0 = []"
  shows "foldE run_event (lm_events m) m0 = Inr m \<and> lm_initial m = lm_initial m0 \<and> (\<forall>e \<in> set (lm_events m). copied_event e = Inr e)"
  using assms(1)
proof (induction rule: rtranclp_induct)
  case (step y z)
  then obtain e where e: "run_event e y = Inr z" by (auto simp: life_step_def)
  then obtain e' t where t: "copied_event e = Inr e'" "apply_event e' y = Inr t" "z = t\<lparr>lm_events := lm_events t @ [e']\<rparr>" by (rule run_event_cases)
  then have "lm_events z = lm_events y @ [e']" "lm_initial z = lm_initial y" using apply_fence [OF t(2)] by (simp_all add: fence_step_def)
  then show ?case using step run_copied [OF e t(1)] copied_twice [OF t(1)] by (simp add: foldE_append)
qed (simp add: assms(2))

lemma hex_digits_text: "n < 256 \<Longrightarrow> length (hex_digits n) = 2 \<and> list_all (\<lambda>c. c \<in> set ''0123456789abcdef'') (hex_digits n)"
proof -
  assume n: "n < 256"
  have "char_of (if d < 10 then 48 + d else 87 + d) \<in> set ''0123456789abcdef''" if "d < 16" for d :: nat
  proof -
    have "\<forall>d \<in> set [0..<16]. char_of (if d < 10 then 48 + d else 87 + d :: nat) \<in> set ''0123456789abcdef''" by code_simp
    then show ?thesis using that by auto
  qed
  then show ?thesis using n by (simp add: hex_digits_def)
qed

lemma sha_text_hex: "hex_text (sha_text t)"
proof -
  have "length (concat (map (\<lambda>b. hex_digits (unat b)) bs)) = 2 * length bs
      \<and> list_all (\<lambda>c. c \<in> set ''0123456789abcdef'') (concat (map (\<lambda>b. hex_digits (unat b)) bs))" for bs :: bytes
    using hex_digits_text [OF unat_byte_lt] by (induction bs) auto
  then show ?thesis using length_sha256 by (simp add: hex_text_def sha_text_def)
qed

lemma pin_checked:
  assumes "life_ok m" "lifecycle_pin m = Inr p"
  shows "check_pin p = Inr ()" "pinned p m = Inr ()" "pi_sequence p = length (lm_events m)"
proof -
  obtain d t where d: "history_digest m (length (lm_events m)) = Inr d" "d = sha_text t"
    and p: "p = \<lparr>pi_keeper = in_keeper (lm_initial m), pi_store = in_store (lm_initial m), pi_sequence = length (lm_events m),
       pi_prefix_digest = d, pi_generation = lm_generation m, pi_closed_through = lm_closed_through m,
       pi_controller_revision = in_controller_revision (lm_inventory m)\<rparr>"
    using assms(2) by (auto simp: lifecycle_pin_def history_digest_def res_simps)
  show "check_pin p = Inr ()" using assms(1) d(2) sha_text_hex [of t]
    by (auto simp: check_pin_def p hex32_def l_need_def l_integer_def fence_ok_def life_ok_def)
  show "pinned p m = Inr ()" using assms(2) by (simp add: pinned_def l_need_def)
  show "pi_sequence p = length (lm_events m)" by (simp add: p)
qed

section \<open>A sample run\<close>

definition sample_record :: lrecord where
  "sample_record = \<lparr>lr_key = ''job:'' @ replicate 64 (CHR ''a''), lr_kind = ''job'', lr_local_id = replicate 64 (CHR ''a''), lr_state = ''QUEUED'',
     lr_intent_digest = replicate 64 (CHR ''b''), lr_input_digest = replicate 64 (CHR ''c''), lr_proof_digest = replicate 64 (CHR ''d''),
     lr_refs = [''policy:'' @ replicate 64 (CHR ''e'')], lr_evidence_digest = None, lr_storage_bytes = 10, lr_reserved_bytes = 0\<rparr>"

definition sample_inventory :: inventory where
  "sample_inventory = \<lparr>in_source = ''MODEL_FIXTURE'', in_keeper = replicate 64 (CHR ''1''), in_store = replicate 64 (CHR ''2''),
     in_controller = Some (replicate 64 (CHR ''3'')), in_controller_revision = 1, in_observation = replicate 64 (CHR ''4''),
     in_gates = \<lparr>ga_jobs = True, ga_control = True, ga_submissions = True, ga_archive_resolver = True\<rparr>,
     in_anchors = [\<lparr>an_key = ''policy:'' @ replicate 64 (CHR ''e''), an_proof_digest = replicate 64 (CHR ''f'')\<rparr>], in_records = [sample_record]\<rparr>"

definition sample_start :: lifecycle where
  "sample_start = \<lparr>lm_initial = sample_inventory, lm_inventory = sample_inventory, lm_events = [], lm_generation = 1, lm_closed_through = 0,
     lm_phase = OPEN, lm_archives = [], lm_pending = None\<rparr>"

definition sample_rotated :: lifecycle where
  "sample_rotated = sample_start\<lparr>lm_inventory := sample_inventory\<lparr>in_controller := Some (replicate 64 (CHR ''5'')), in_controller_revision := 2\<rparr>,
     lm_events := [Rotate (replicate 64 (CHR ''5'')) 2]\<rparr>"

lemma sample_valid: "validate_inventory sample_inventory = Inr sample_inventory"
  by code_simp

lemma valid_text: "validate_inventory v = Inr w \<Longrightarrow> \<exists>t. canonical_text (inventory_json v) = Inr t"
  by (auto simp: validate_inventory_def res_simps)

lemma sample_started: "new_lifecycle sample_inventory = Inr sample_start"
proof -
  have "in_source sample_inventory = ''MODEL_FIXTURE''" by (simp add: sample_inventory_def)
  then show ?thesis using sample_valid valid_text [OF sample_valid]
    by (auto simp: new_lifecycle_def copied_inventory_def encode_inventory_def sample_start_def l_need_def)
qed

lemma sample_step: "life_step\<^sup>*\<^sup>* sample_start sample_rotated"
proof -
  have "case run_event (Rotate (replicate 64 (CHR ''5'')) 2) sample_start of Inl _ \<Rightarrow> False | Inr m \<Rightarrow> True" by code_simp
  then obtain m where m: "run_event (Rotate (replicate 64 (CHR ''5'')) 2) sample_start = Inr m" by (auto split: sum.splits)
  then have "m = sample_rotated"
    by (auto simp: run_event_def copied_event_def apply_event_def apply_rotate_def Let_def res_simps sample_rotated_def sample_start_def)
  then show ?thesis using m by (intro r_into_rtranclp) (auto simp: life_step_def)
qed

theorem references_acyclic_witness: "acyclic (ref_edges (in_records sample_inventory)) \<and> in_records sample_inventory = [sample_record]"
  using references_acyclic [OF sample_valid] by (simp add: sample_inventory_def)

theorem records_kept_witness: "resolve sample_rotated (lr_key sample_record) = Inr sample_record"
proof -
  have "sample_record \<in> set (all_records sample_start)"
    by (simp add: set_all_records archived_records_def active_records_def sample_start_def sample_inventory_def)
  then show ?thesis using records_kept [OF sample_started _ sample_step] by blast
qed

theorem closed_stays_closed_witness: "\<nexists>m''. run_event (Admit sample_record 0 1) sample_rotated = Inr m''"
  using closed_stays_closed [OF sample_started _ sample_step, of 0] by (simp add: sample_start_def)

end
