(* ===== verification/Contracts.thy ===== *)
theory Contracts
  imports AuthFlows
begin

text \<open>
  What the local contract modules share. \<^verbatim>\<open>par_recovery/contract.py\<close>, \<^verbatim>\<open>par_keeper/contract.py\<close>,
  \<^verbatim>\<open>par_keeper_service/protocol.py\<close>, \<^verbatim>\<open>par_keeper_upload/protocol.py\<close>, \<^verbatim>\<open>par_keeper_upload_retire/contract.py\<close>
  and \<^verbatim>\<open>par_upload_window/contract.py\<close> each declare the same small checks (\<^verbatim>\<open>fixed\<close>, \<^verbatim>\<open>integer\<close>, \<^verbatim>\<open>keys\<close>) and the
  same envelope \<^verbatim>\<open>{0: body bytes, 1: signature}\<close>, each with its own error class, limit and domain prefix. The definitions
  here take those three as arguments; every module instantiates them under its own names.

  The lemmas are about the envelope: what was signed splits into the same body and verifies, and what splits is the exact
  encoding of its two fields.
\<close>

section \<open>Checks\<close>

text \<open>\<^verbatim>\<open>except Exception: raise e\<close>\<close>

definition any_to :: "exn \<Rightarrow> 'a res \<Rightarrow> 'a res" where
  "any_to e m = (case m of Inl _ \<Rightarrow> Inl e | Inr x \<Rightarrow> Inr x)"

lemma any_to_Inr [simp]: "any_to e m = Inr x \<longleftrightarrow> m = Inr x"
  by (simp add: any_to_def split: sum.splits)

lemma any_to_of_Inr [simp]: "any_to e (Inr x) = Inr x"
  by (simp add: any_to_def)

lemma any_to_raises: "P e \<Longrightarrow> raises P (any_to e m)"
  by (auto simp: raises_def any_to_def split: sum.splits)

lemma case_list_Inr: "(case v of PList xs \<Rightarrow> f xs | _ \<Rightarrow> Inl e) = Inr y \<longleftrightarrow> (\<exists>xs. v = PList xs \<and> f xs = Inr y)"
  by (cases v) simp_all

definition bytes_sized :: "exn \<Rightarrow> pyval \<Rightarrow> nat \<Rightarrow> unit res" where
  "bytes_sized e v k = need (case v of PBytes b \<Rightarrow> length b = k | _ \<Rightarrow> False) e"

definition int_in :: "exn \<Rightarrow> pyval \<Rightarrow> int \<Rightarrow> int \<Rightarrow> unit res" where
  "int_in e v lo hi = need (case v of PInt i \<Rightarrow> lo \<le> i \<and> i \<le> hi | _ \<Rightarrow> False) e"

definition int_keys :: "exn \<Rightarrow> pyval \<Rightarrow> int list \<Rightarrow> unit res" where
  "int_keys e v ks = need (case v of
      PDict kvs \<Rightarrow> list_all (is_int \<circ> fst) kvs \<and> set (map (int_of \<circ> fst) kvs) = set ks
    | _ \<Rightarrow> False) e"

lemma sized_eq [simp]: "bytes_sized e v k = Inr u \<longleftrightarrow> (\<exists>b. v = PBytes b \<and> length b = k)"
  by (cases v) (simp_all add: bytes_sized_def)

lemma int_in_eq [simp]: "int_in e v lo hi = Inr u \<longleftrightarrow> (\<exists>i. v = PInt i \<and> lo \<le> i \<and> i \<le> hi)"
  by (cases v) (simp_all add: int_in_def)

lemma int_keys_mk [simp]: "int_keys e (mk_dict kvs) ks = need (set (map fst kvs) = set ks) e"
  by (simp add: int_keys_def mk_dict_def comp_def case_prod_beta list_all_iff is_int_def image_image)

lemma item_at_mk [simp]:
  "item_at (mk_dict kvs) k = (case map_of kvs k of None \<Rightarrow> Inl KeyError | Some x \<Rightarrow> Inr x)"
  by (simp add: item_at_def mk_dict_def)

text \<open>\<^verbatim>\<open>range(n)\<close> as dictionary keys, and \<^verbatim>\<open>for k in ks: fixed(v[k])\<close>.\<close>

definition key_range :: "nat \<Rightarrow> int list" where
  "key_range m = map int [0..<m]"

definition each_sized :: "exn \<Rightarrow> pyval \<Rightarrow> int list \<Rightarrow> unit res" where
  "each_sized e v ks = allE (\<lambda>k. bindE (item_at v k) (\<lambda>x. bytes_sized e x 32)) ks"

definition each_int :: "exn \<Rightarrow> pyval \<Rightarrow> int list \<Rightarrow> int \<Rightarrow> int \<Rightarrow> unit res" where
  "each_int e v ks lo hi = allE (\<lambda>k. bindE (item_at v k) (\<lambda>x. int_in e x lo hi)) ks"

text \<open>\<^verbatim>\<open>v[k] != c\<close> for a field and a constant of the module.\<close>

definition field_is :: "exn \<Rightarrow> pyval \<Rightarrow> int \<Rightarrow> pyval \<Rightarrow> unit res" where
  "field_is e v k c = bindE (item_at v k) (\<lambda>x. need (x = c) e)"

definition field_in :: "exn \<Rightarrow> pyval \<Rightarrow> int \<Rightarrow> string list \<Rightarrow> unit res" where
  "field_in e v k names = bindE (item_at v k) (\<lambda>x.
     need (case x of PStr s \<Rightarrow> s \<in> set (map cps names) | _ \<Rightarrow> False) e)"

section \<open>Ordered names\<close>

text \<open>Python compares strings by code point.\<close>

fun str_less :: "pystr \<Rightarrow> pystr \<Rightarrow> bool" where
  "str_less [] [] = False"
| "str_less [] (b # bs) = True"
| "str_less (a # as) [] = False"
| "str_less (a # as) (b # bs) = (a < b \<or> (a = b \<and> str_less as bs))"

primrec insort_str :: "pystr \<Rightarrow> pystr list \<Rightarrow> pystr list" where
  "insort_str x [] = [x]"
| "insort_str x (y # ys) = (if str_less y x then y # insort_str x ys else x # y # ys)"

definition sort_str :: "pystr list \<Rightarrow> pystr list" where
  "sort_str xs = foldr insort_str xs []"

lemma set_insort_str [simp]: "set (insort_str x xs) = insert x (set xs)"
  by (induction xs) auto

lemma set_sort_str [simp]: "set (sort_str xs) = set xs"
  by (induction xs) (simp_all add: sort_str_def)

definition sorted_names :: "pystr list \<Rightarrow> bool" where
  "sorted_names xs \<longleftrightarrow> xs = sort_str (remdups xs)"

definition sorted_ids :: "bytes list \<Rightarrow> bool" where
  "sorted_ids xs \<longleftrightarrow> xs = sort_bytes (\<lambda>x. x) (remdups xs)"

section \<open>Envelopes\<close>

definition env_dump :: "exn \<Rightarrow> int \<Rightarrow> pyval \<Rightarrow> bytes res" where
  "env_dump e mb v = any_to e (encode v mb MAX_NODES)"

definition env_load :: "exn \<Rightarrow> exn \<Rightarrow> int \<Rightarrow> pyval \<Rightarrow> pyval res" where
  "env_load el es mb v = (case v of
     PBytes raw \<Rightarrow>
       bindE (need (1 \<le> length raw \<and> int (length raw) \<le> mb) el) (\<lambda>_.
         any_to es (bindE (decode raw mb MAX_NODES) (\<lambda>x.
           bindE (encode x mb MAX_NODES) (\<lambda>again.
           bindE (need (again = raw) ValueError) (\<lambda>_. Inr x)))))
   | _ \<Rightarrow> Inl es)"

definition env_signed :: "exn \<Rightarrow> int \<Rightarrow> string \<Rightarrow> sodium \<Rightarrow> bytes \<Rightarrow> string \<Rightarrow> pyval \<Rightarrow> bytes res" where
  "env_signed e mb prefix n seed label body =
     bindE (env_dump e mb body) (\<lambda>b.
     bindE (c_domain (cps (prefix @ label)) [PBytes b]) (\<lambda>msg.
     bindE (p_sign n seed msg) (\<lambda>sig.
       env_dump e mb (mk_dict [(0, PBytes b), (1, PBytes sig)]))))"

definition env_split :: "exn \<Rightarrow> exn \<Rightarrow> int \<Rightarrow> pyval \<Rightarrow> (pyval \<times> pyval) res" where
  "env_split el es mb v =
     bindE (env_load el es mb v) (\<lambda>outer.
     bindE (int_keys es outer [0, 1]) (\<lambda>_.
     bindE (bindE (item_at outer 1) (\<lambda>s. bytes_sized es s 64)) (\<lambda>_.
     bindE (bindE (item_at outer 0) (env_load el es mb)) (\<lambda>body.
       Inr (body, outer)))))"

text \<open>\<^verbatim>\<open>provider.verify(public, domain(label, [o[0]]), o[1])\<close> with every failure turned into one code.\<close>

definition env_verify :: "exn \<Rightarrow> string \<Rightarrow> sodium \<Rightarrow> pyval \<Rightarrow> pyval \<Rightarrow> string \<Rightarrow> unit res" where
  "env_verify e prefix n public outer label =
     any_to e (bindE (item_at outer 0) (\<lambda>o0.
       bindE (c_domain (cps (prefix @ label)) [o0]) (\<lambda>msg.
       bindE (bytes_at outer 1) (\<lambda>sig.
       bindE (as_bytes public) (\<lambda>pk. p_verify n pk msg sig)))))"

lemma env_dump_Inr [simp]: "env_dump e mb v = Inr b \<longleftrightarrow> encode v mb MAX_NODES = Inr b"
  by (simp add: env_dump_def)

lemma env_load_Inr:
  "env_load el es mb v = Inr x \<longleftrightarrow> (\<exists>raw. v = PBytes raw \<and> decode raw mb MAX_NODES = Inr x)"
proof (cases v)
  case (PBytes raw)
  have "1 \<le> length raw \<and> int (length raw) \<le> mb \<and> encode x mb MAX_NODES = Inr raw"
    if "decode raw mb MAX_NODES = Inr x"
    using that length_cbor_pos [of x] by (auto simp: decode_iff encode_iff canonical_encodable)
  with PBytes show ?thesis by (auto simp: env_load_def res_simps)
qed (simp_all add: env_load_def)

text \<open>An envelope that splits is the encoding of its two fields; the body is what its first field encodes.\<close>

lemma env_split_Inr:
  "env_split el es mb v = Inr (body, outer) \<longleftrightarrow> (\<exists>raw b sig. v = PBytes raw \<and> length sig = 64
     \<and> outer = mk_dict [(0, PBytes b), (1, PBytes sig)] \<and> decode raw mb MAX_NODES = Inr outer
     \<and> decode b mb MAX_NODES = Inr body)" (is "?l \<longleftrightarrow> ?r")
proof
  assume ?l
  then obtain raw b sig where raw: "v = PBytes raw" "decode raw mb MAX_NODES = Inr outer"
    and k: "int_keys es outer [0, 1] = Inr ()" and s: "item_at outer 1 = Inr (PBytes sig)" "length sig = 64"
    and b: "item_at outer 0 = Inr (PBytes b)" "decode b mb MAX_NODES = Inr body"
    by (auto simp: env_split_def res_simps env_load_Inr)
  obtain kvs where o: "outer = PDict kvs" and ks: "list_all (is_int \<circ> fst) kvs" "set (map (int_of \<circ> fst) kvs) = {0, 1}"
    using k by (cases outer) (auto simp: int_keys_def)
  have sorted: "sorted_wrt (<) (map (int_of \<circ> fst) kvs)" using raw(2) o by (simp add: decode_iff)
  then have "map (int_of \<circ> fst) kvs = [0, 1]"
    using ks(2) strict_sorted_equal [OF sorted, of "[0, 1]"] by simp
  then obtain x y where kvs: "kvs = [x, y]" "int_of (fst x) = 0" "int_of (fst y) = 1"
    by (auto simp: map_eq_Cons_conv)
  then have "x = (PInt 0, snd x)" "y = (PInt 1, snd y)"
    using ks(1) by (auto simp: is_int_conv prod_eq_iff)
  then have "outer = mk_dict [(0, snd x), (1, snd y)]" using o kvs(1) by (simp add: mk_dict_def)
  then show ?r using raw s b by auto
next
  assume ?r
  then show ?l by (auto simp: env_split_def env_load_Inr res_simps)
qed

lemma env_verify_Inr:
  "env_verify e prefix n public (mk_dict [(0, PBytes b), (1, PBytes sig)]) label = Inr u \<longleftrightarrow>
     (\<exists>pk msg. public = PBytes pk \<and> c_domain (cps (prefix @ label)) [PBytes b] = Inr msg \<and> p_verify n pk msg sig = Inr ())"
  by (auto simp: env_verify_def res_simps)

text \<open>What was signed under a seed opens under the seed's public key, with the body that was signed.\<close>

lemma env_roundtrip:
  assumes "sodium_ok n" "p_sign_public n seed = Inr pk" "env_signed e mb prefix n seed label body = Inr raw"
    and "wf_py body" "canon body = body"
  obtains outer where "env_split el es mb (PBytes raw) = Inr (body, outer)"
    "env_verify ev prefix n (PBytes pk) outer label = Inr ()"
proof -
  obtain b msg sig where b: "encode body mb MAX_NODES = Inr b" and msg: "c_domain (cps (prefix @ label)) [PBytes b] = Inr msg"
    and sig: "p_sign n seed msg = Inr sig" and raw: "encode (mk_dict [(0, PBytes b), (1, PBytes sig)]) mb MAX_NODES = Inr raw"
    using assms(3) by (auto simp: env_signed_def res_simps)
  let ?o = "mk_dict [(0, PBytes b), (1, PBytes sig)]"
  note v = p_sign_ok [OF assms(1,2) sig]
  have "canon ?o = ?o" "wf_py ?o" by (simp_all add: mk_dict_def)
  then have "decode raw mb MAX_NODES = Inr ?o" by (rule decode_encode_canon [OF raw])
  moreover have "decode b mb MAX_NODES = Inr body" by (rule decode_encode_canon [OF b assms(5,4)])
  ultimately have "env_split el es mb (PBytes raw) = Inr (body, ?o)"
    using v by (auto simp: env_split_Inr)
  moreover have "env_verify ev prefix n (PBytes pk) ?o label = Inr ()" using v msg by (simp add: env_verify_Inr)
  ultimately show thesis by (rule that)
qed

end
