(* ===== verification/Json.thy ===== *)
theory Json
  imports Contracts Machines
begin

text \<open>
  The canonical JSON of \<^verbatim>\<open>product/wp04/contracts.py\<close>: \<^verbatim>\<open>json.dumps(value, ensure_ascii=False, sort_keys=True,
  separators=(',', ':'), allow_nan=False)\<close> as UTF-8, over values without bytes and with strings as dictionary keys, and the
  reader \<^verbatim>\<open>decode_json\<close> of \<^verbatim>\<open>par_application_intent/journal.py\<close>, which parses a text and accepts it only when the value prints as
  the same bytes.

  The parser is \<^verbatim>\<open>json.loads\<close> on UTF-8 text: white space between the tokens, and what becomes of the pairs of an object given by a hook
  (a plain dictionary, in which the last of two equal keys wins, or the \<^verbatim>\<open>object_pairs_hook\<close> of a caller). Floating-point numbers are not
  modelled (a text with a float is refused here as it is read, and by every schema of the code after it is read).
  Printing and reading are inverse to each other (\<open>decode_canonical\<close>), up to the order of the keys, which printing sorts
  (\<open>jcanon\<close>).
\<close>

section \<open>Printing\<close>

definition jhex_digit :: "nat \<Rightarrow> nat" where
  "jhex_digit n = (if n < 10 then 48 + n else 87 + n)"

definition unjhex :: "nat \<Rightarrow> nat option" where
  "unjhex c =
     (if 48 \<le> c \<and> c \<le> 57 then Some (c - 48)
      else if 97 \<le> c \<and> c \<le> 102 then Some (c - 87)
      else if 65 \<le> c \<and> c \<le> 70 then Some (c - 55)
      else None)"

text \<open>\<^verbatim>\<open>json.encoder.ESCAPE_DCT\<close>: quote, backslash, the short escapes and the other control characters.\<close>

definition json_escape :: "nat \<Rightarrow> pystr" where
  "json_escape c =
     (if c = 34 \<or> c = 92 then [92, c]
      else if c = 10 then [92, 110]
      else if c = 13 then [92, 114]
      else if c = 9 then [92, 116]
      else if c = 12 then [92, 102]
      else if c = 8 then [92, 98]
      else if c < 32 then [92, 117, 48, 48, jhex_digit (c div 16), jhex_digit (c mod 16)]
      else [c])"

definition str_text :: "pystr \<Rightarrow> pystr" where
  "str_text s = 34 # concat (map json_escape s) @ [34]"

definition int_text :: "int \<Rightarrow> pystr" where
  "int_text i = (if i < 0 then 45 # cps (str_nat (nat (- i))) else cps (str_nat (nat i)))"

text \<open>The items of a list or a dictionary, separated by commas and closed by a bracket.\<close>

fun jclose :: "nat \<Rightarrow> pystr list \<Rightarrow> pystr" where
  "jclose e [] = [e]"
| "jclose e [t] = t @ [e]"
| "jclose e (t # ts) = t @ 44 # jclose e ts"

text \<open>\<^verbatim>\<open>sort_keys=True\<close>\<close>

primrec insort_item :: "pystr \<times> 'a \<Rightarrow> (pystr \<times> 'a) list \<Rightarrow> (pystr \<times> 'a) list" where
  "insort_item x [] = [x]"
| "insort_item x (y # ys) = (if str_less (fst y) (fst x) then y # insort_item x ys else x # y # ys)"

definition sort_items :: "(pystr \<times> 'a) list \<Rightarrow> (pystr \<times> 'a) list" where
  "sort_items xs = foldr insort_item xs []"

definition str_key :: "pyval \<Rightarrow> pystr option" where
  "str_key k = (case k of PStr s \<Rightarrow> Some s | _ \<Rightarrow> None)"

definition pair_text :: "pystr \<times> pystr \<Rightarrow> pystr" where
  "pair_text p = str_text (fst p) @ 58 # snd p"

fun json_text :: "pyval \<Rightarrow> pystr option" where
  "json_text PNone = Some (cps ''null'')"
| "json_text (PBool b) = Some (cps (if b then ''true'' else ''false''))"
| "json_text (PInt i) = Some (int_text i)"
| "json_text (PStr s) = Some (str_text s)"
| "json_text (PList vs) = map_option (\<lambda>ts. 91 # jclose 93 ts) (those (map json_text vs))"
| "json_text (PDict kvs) = map_option (\<lambda>ps. 123 # jclose 125 (map pair_text (sort_items ps)))
     (those (map (\<lambda>kv. case str_key (fst kv) of None \<Rightarrow> None | Some k \<Rightarrow> map_option (Pair k) (json_text (snd kv))) kvs))"
| "json_text (PBytes b) = None"
| "json_text (POther n) = None"

definition json_canonical :: "pyval \<Rightarrow> bytes res" where
  "json_canonical v = (case Option.bind (json_text v) utf8_encode of
     None \<Rightarrow> Inl (SharedChangeError ''INVALID_INPUT'')
   | Some raw \<Rightarrow> Inr raw)"

section \<open>Reading\<close>

definition unescape :: "nat \<Rightarrow> nat option" where
  "unescape c = map_of [(34, 34), (92, 92), (47, 47), (98, 8), (102, 12), (110, 10), (114, 13), (116, 9)] c"

primrec jhex_value :: "nat list \<Rightarrow> nat \<Rightarrow> nat option" where
  "jhex_value [] acc = Some acc"
| "jhex_value (c # cs) acc = (case unjhex c of None \<Rightarrow> None | Some d \<Rightarrow> jhex_value cs (16 * acc + d))"

text \<open>A string after its opening quote.\<close>

fun jstring :: "pystr \<Rightarrow> (pystr \<times> pystr) option" where
  "jstring [] = None"
| "jstring (c # cs) =
     (if c = 34 then Some ([], cs)
      else if c = 92 then (case cs of
          [] \<Rightarrow> None
        | e # r \<Rightarrow>
            if e = 117 then (case jhex_value (take 4 r) 0 of
                None \<Rightarrow> None
              | Some x \<Rightarrow> if length r < 4 then None else map_option (apfst (Cons x)) (jstring (drop 4 r)))
            else (case unescape e of None \<Rightarrow> None | Some x \<Rightarrow> map_option (apfst (Cons x)) (jstring r)))
      else if c < 32 then None
      else map_option (apfst (Cons c)) (jstring cs))"

declare jstring.simps(2) [simp del]

definition jdigit :: "nat \<Rightarrow> bool" where
  "jdigit c \<longleftrightarrow> 48 \<le> c \<and> c \<le> 57"

definition digits_value :: "pystr \<Rightarrow> nat" where
  "digits_value ds = foldl (\<lambda>n c. 10 * n + (c - 48)) 0 ds"

text \<open>A natural number: \<^verbatim>\<open>0|[1-9]\d*\<close>.\<close>

definition jnat :: "pystr \<Rightarrow> (nat \<times> pystr) option" where
  "jnat s = (case s of
     [] \<Rightarrow> None
   | c # r \<Rightarrow> if c = 48 then Some (0, r)
       else if jdigit c then Some (digits_value (takeWhile jdigit s), dropWhile jdigit s) else None)"

definition jnumber :: "pystr \<Rightarrow> (pyval \<times> pystr) option" where
  "jnumber s = (case s of
     [] \<Rightarrow> None
   | c # r \<Rightarrow> if c = 45 then map_option (apfst (\<lambda>n. PInt (- int n))) (jnat r)
       else map_option (apfst (\<lambda>n. PInt (int n))) (jnat s))"

definition jword :: "string \<Rightarrow> pyval \<Rightarrow> pystr \<Rightarrow> (pyval \<times> pystr) option" where
  "jword w v s = (if take (length w) s = cps w then Some (v, drop (length w) s) else None)"

text \<open>A dictionary of the pairs read: a repeated key keeps its first place and its last value.\<close>

definition dict_of :: "(pystr \<times> pyval) list \<Rightarrow> pyval" where
  "dict_of ps = PDict (foldl (\<lambda>d p. AList.update (PStr (fst p)) (snd p) d) [] ps)"

definition skip_ws :: "pystr \<Rightarrow> pystr" where
  "skip_ws s = dropWhile (\<lambda>c. c \<in> {32, 9, 10, 13}) s"

text \<open>What becomes of the pairs of an object; None where the hook raises.\<close>

type_synonym pairs_hook = "(pystr \<times> pyval) list \<Rightarrow> pyval option"

text \<open>Values, the items of a list and the items of a dictionary; the fuel is the length of the text.\<close>

fun jvalue :: "pairs_hook \<Rightarrow> nat \<Rightarrow> pystr \<Rightarrow> (pyval \<times> pystr) option"
  and jelems :: "pairs_hook \<Rightarrow> nat \<Rightarrow> pystr \<Rightarrow> (pyval list \<times> pystr) option"
  and jpairs :: "pairs_hook \<Rightarrow> nat \<Rightarrow> pystr \<Rightarrow> ((pystr \<times> pyval) list \<times> pystr) option" where
  "jvalue h 0 s = None"
| "jvalue h (Suc n) s = (case s of
     [] \<Rightarrow> None
   | c # cs \<Rightarrow>
       if c = 34 then map_option (apfst PStr) (jstring cs)
       else if c = 91 then (let r = skip_ws cs in
         if take 1 r = [93] then Some (PList [], drop 1 r) else map_option (apfst PList) (jelems h n r))
       else if c = 123 then (let r = skip_ws cs in
         if take 1 r = [125] then map_option (\<lambda>v. (v, drop 1 r)) (h [])
         else (case jpairs h n r of None \<Rightarrow> None | Some (ps, r') \<Rightarrow> map_option (\<lambda>v. (v, r')) (h ps)))
       else if c = 110 then jword ''null'' PNone s
       else if c = 116 then jword ''true'' (PBool True) s
       else if c = 102 then jword ''false'' (PBool False) s
       else jnumber s)"
| "jelems h 0 s = None"
| "jelems h (Suc n) s = (case jvalue h n s of
     None \<Rightarrow> None
   | Some (v, r0) \<Rightarrow> let r = skip_ws r0 in
       if take 1 r = [93] then Some ([v], drop 1 r)
       else if take 1 r = [44] then map_option (apfst (Cons v)) (jelems h n (skip_ws (drop 1 r)))
       else None)"
| "jpairs h 0 s = None"
| "jpairs h (Suc n) s = (if take 1 s \<noteq> [34] then None else (case jstring (drop 1 s) of
     None \<Rightarrow> None
   | Some (k, r0) \<Rightarrow> let r = skip_ws r0 in
       if take 1 r \<noteq> [58] then None else (case jvalue h n (skip_ws (drop 1 r)) of
         None \<Rightarrow> None
       | Some (v, r1) \<Rightarrow> let r' = skip_ws r1 in
           if take 1 r' = [125] then Some ([(k, v)], drop 1 r')
           else if take 1 r' = [44] then map_option (apfst (Cons (k, v))) (jpairs h n (skip_ws (drop 1 r')))
           else None)))"

definition loads_with :: "pairs_hook \<Rightarrow> bytes \<Rightarrow> pyval option" where
  "loads_with h raw = (case utf8_decode raw of
     None \<Rightarrow> None
   | Some s \<Rightarrow> (case jvalue h (length s) (skip_ws s) of Some (v, r) \<Rightarrow> if skip_ws r = [] then Some v else None | None \<Rightarrow> None))"

definition json_loads :: "bytes \<Rightarrow> pyval option" where
  "json_loads raw = loads_with (\<lambda>ps. Some (dict_of ps)) raw"

text \<open>\<^verbatim>\<open>decode_json\<close>, with the code of the caller.\<close>

definition decode_json :: "exn \<Rightarrow> bytes \<Rightarrow> pyval res" where
  "decode_json e raw = (case json_loads raw of
     None \<Rightarrow> Inl e
   | Some v \<Rightarrow> any_to e (bindE (json_canonical v) (\<lambda>again. bindE (need (again = raw) e) (\<lambda>_. Inr v))))"

section \<open>Reading what was printed\<close>

text \<open>The order of the keys after \<^verbatim>\<open>sort_keys\<close>, in every dictionary of a value.\<close>

definition key_str :: "pyval \<Rightarrow> pystr" where
  "key_str k = (case k of PStr s \<Rightarrow> s | _ \<Rightarrow> [])"

definition str_dict :: "(pystr \<times> pyval) list \<Rightarrow> pyval" where
  "str_dict ps = PDict (map (\<lambda>p. (PStr (fst p), snd p)) ps)"

fun jcanon :: "pyval \<Rightarrow> pyval" where
  "jcanon (PList vs) = PList (map jcanon vs)"
| "jcanon (PDict kvs) = str_dict (sort_items (map (\<lambda>kv. (key_str (fst kv), jcanon (snd kv))) kvs))"
| "jcanon v = v"

lemma those_eq_Some: "those xs = Some ys \<longleftrightarrow> list_all2 (\<lambda>x y. x = Some y) xs ys"
  by (induction xs arbitrary: ys) (auto split: option.splits simp: list_all2_Cons1)

lemma unhex_hex [simp]: "d < 16 \<Longrightarrow> unjhex (jhex_digit d) = Some d"
  by (simp add: unjhex_def jhex_digit_def)

lemma hex_escape:
  "c < 32 \<Longrightarrow> jhex_value [48, 48, jhex_digit (c div 16), jhex_digit (c mod 16)] 0 = Some c"
  by (simp add: unjhex_def [of 48])

lemma take_drop_4: "take 4 (a # b # c # d # r) = [a, b, c, d]" "drop 4 (a # b # c # d # r) = r"
  by (simp_all add: numeral_eq_Suc)

lemma jstring_escape: "jstring (json_escape c @ r) = map_option (apfst (Cons c)) (jstring r)"
proof (cases "c < 32 \<and> c \<notin> {8, 9, 10, 12, 13}")
  case True
  then have "json_escape c = [92, 117, 48, 48, jhex_digit (c div 16), jhex_digit (c mod 16)]" by (auto simp: json_escape_def)
  then show ?thesis
    using True hex_escape [of c] by (simp only: append.simps) (simp add: jstring.simps(2) take_drop_4 del: jhex_value.simps)
next
  case False
  then show ?thesis by (auto simp: json_escape_def jstring.simps(2) unescape_def)
qed

lemma jstring_text: "jstring (concat (map json_escape s) @ 34 # r) = Some (s, r)"
  by (induction s) (simp_all add: jstring_escape jstring.simps(2))

text \<open>Decimal numbers.\<close>

lemma digits_value_snoc [simp]: "digits_value (ds @ [d]) = 10 * digits_value ds + (d - 48)"
  by (simp add: digits_value_def)

lemma cps_append [simp]: "cps (s @ t) = cps s @ cps t"
  by (simp add: cps_def)

lemma cps_digit: "d < 10 \<Longrightarrow> cps [char_of (48 + d)] = [48 + d]"
  by (simp add: cps_def)

lemma digit_char: "d < 10 \<Longrightarrow> jdigit (48 + d)"
  by (simp add: jdigit_def)

lemma str_nat_digits: "list_all jdigit (cps (str_nat n)) \<and> digits_value (cps (str_nat n)) = n
    \<and> cps (str_nat n) \<noteq> [] \<and> (0 < n \<longrightarrow> hd (cps (str_nat n)) \<noteq> 48)"
proof (induction n rule: str_nat.induct)
  case (1 n)
  show ?case
  proof (cases "n < 10")
    case True
    then show ?thesis by (subst (1 2 3 4) str_nat.simps) (simp add: cps_digit digit_char digits_value_def)
  next
    case False
    then have "0 < n div 10" by simp
    with 1 False show ?thesis
      by (subst (1 2 3 4) str_nat.simps) (simp add: cps_digit digit_char)
  qed
qed

definition boundary :: "pystr \<Rightarrow> bool" where
  "boundary r \<longleftrightarrow> takeWhile jdigit r = []"

lemma jnat_text: "boundary r \<Longrightarrow> jnat (cps (str_nat n) @ r) = Some (n, r)"
proof (cases "n = 0")
  case True
  then show ?thesis by (subst str_nat.simps) (simp add: cps_digit [of 0, simplified] jnat_def)
next
  case False
  assume r: "boundary r"
  obtain c cs where c: "cps (str_nat n) = c # cs" "c \<noteq> 48" "jdigit c" "list_all jdigit cs"
    using str_nat_digits [of n] False by (cases "cps (str_nat n)") auto
  have "dropWhile jdigit r = r" using r by (cases r) (auto simp: boundary_def split: if_splits)
  moreover have "takeWhile jdigit (cps (str_nat n) @ r) = cps (str_nat n)"
    "dropWhile jdigit (cps (str_nat n) @ r) = dropWhile jdigit r"
    using str_nat_digits [of n] r by (simp_all add: list_all_iff boundary_def)
  ultimately show ?thesis
    using c str_nat_digits [of n] by (simp add: jnat_def)
qed

lemma jnumber_text: "boundary r \<Longrightarrow> jnumber (int_text i @ r) = Some (PInt i, r)"
proof (cases "i < 0")
  case False
  assume r: "boundary r"
  obtain c cs where c: "cps (str_nat (nat i)) = c # cs" "jdigit c"
    using str_nat_digits [of "nat i"] by (cases "cps (str_nat (nat i))") auto
  then have "c \<noteq> 45" by (auto simp: jdigit_def)
  then show ?thesis using False c jnat_text [OF r, of "nat i"] by (simp add: jnumber_def int_text_def)
qed (simp add: jnumber_def int_text_def jnat_text)

text \<open>White space is skipped only where there is some.\<close>

lemma skip_ws_Nil [simp]: "skip_ws [] = []"
  by (simp add: skip_ws_def)

lemma skip_ws_Cons [simp]: "c \<notin> {32, 9, 10, 13} \<Longrightarrow> skip_ws (c # r) = c # r"
  by (simp add: skip_ws_def)

text \<open>A text that reads as a value, whatever follows it and whatever the hook does with repeated keys; and a text that reads as a key.\<close>

definition hook_ok :: "pairs_hook \<Rightarrow> bool" where
  "hook_ok h \<longleftrightarrow> (\<forall>ps. distinct (map fst ps) \<longrightarrow> h ps = Some (str_dict ps))"

definition reads :: "pystr \<Rightarrow> pyval \<Rightarrow> bool" where
  "reads t v \<longleftrightarrow> t \<noteq> [] \<and> hd t \<notin> {93, 125, 32, 9, 10, 13}
     \<and> (\<forall>h n r. hook_ok h \<longrightarrow> boundary r \<longrightarrow> length t \<le> n \<longrightarrow> jvalue h n (t @ r) = Some (v, r))"

definition reads_key :: "pystr \<Rightarrow> pystr \<Rightarrow> bool" where
  "reads_key t k \<longleftrightarrow> t \<noteq> [] \<and> hd t = 34 \<and> (\<forall>r. jstring (tl t @ r) = Some (k, r))"

definition member_text :: "pystr \<times> pystr \<Rightarrow> pystr" where
  "member_text p = fst p @ 58 # snd p"

lemma readsD: "reads t v \<Longrightarrow> hook_ok h \<Longrightarrow> boundary r \<Longrightarrow> length t \<le> n \<Longrightarrow> jvalue h n (t @ r) = Some (v, r)"
  by (simp add: reads_def)

lemma skip_reads: "reads t v \<Longrightarrow> skip_ws (t @ r) = t @ r"
  by (cases t) (auto simp: reads_def)

lemma str_text_key: "reads_key (str_text k) k"
  using jstring_text [of k] by (simp add: reads_key_def str_text_def)

lemma boundary_marks [simp]: "boundary (44 # r)" "boundary (93 # r)" "boundary (125 # r)" "boundary []"
  by (simp_all add: boundary_def jdigit_def)

lemma skip_jclose: "ts \<noteq> [] \<Longrightarrow> hd ts \<noteq> [] \<Longrightarrow> hd (hd ts) \<notin> {32, 9, 10, 13} \<Longrightarrow> skip_ws (jclose e ts @ r) = jclose e ts @ r"
  by (cases "(e, ts)" rule: jclose.cases) (auto simp: neq_Nil_conv)

lemma jelems_reads:
  assumes "hook_ok h" "list_all2 reads ts vs" "ts \<noteq> []" "length (jclose 93 ts) \<le> n"
  shows "jelems h n (jclose 93 ts @ r) = Some (vs, r)"
  using assms(2-4)
proof (induction ts arbitrary: vs n)
  case (Cons t ts)
  obtain v ws m where vs: "vs = v # ws" "reads t v" "list_all2 reads ts ws" and n: "n = Suc m"
    using Cons.prems by (cases n) (auto simp: list_all2_Cons1 neq_Nil_conv, (cases ts; simp)+)
  note first = readsD [OF vs(2) assms(1)]
  show ?case
  proof (cases ts)
    case Nil
    then show ?thesis using vs n Cons.prems(3) first [of "93 # r" m] by simp
  next
    case (Cons u us)
    have "length t \<le> m" "length (jclose 93 ts) \<le> m" using Cons n Cons.prems(3) by simp_all
    moreover have "skip_ws (jclose 93 ts @ r) = jclose 93 ts @ r"
      using vs(3) Cons by (intro skip_jclose) (auto simp: list_all2_Cons1 reads_def)
    ultimately show ?thesis
      using Cons vs n first [of "44 # jclose 93 ts @ r" m] Cons.IH [OF vs(3)] by simp
  qed
qed simp

lemma jpairs_reads:
  assumes "hook_ok h" "list_all2 (\<lambda>p q. reads_key (fst p) (fst q) \<and> reads (snd p) (snd q)) ps qs" "ps \<noteq> []"
    and "length (jclose 125 (map member_text ps)) \<le> n"
  shows "jpairs h n (jclose 125 (map member_text ps) @ r) = Some (qs, r)"
  using assms(2-4)
proof (induction ps arbitrary: qs n)
  case (Cons p ps)
  obtain kt t where p: "p = (34 # kt, t)"
    using Cons.prems by (cases p; cases "fst p") (auto simp: list_all2_Cons1 reads_key_def)
  obtain k v ws m where qs: "qs = (k, v) # ws" "reads t v" "list_all2 (\<lambda>p q. reads_key (fst p) (fst q) \<and> reads (snd p) (snd q)) ps ws"
    and n: "n = Suc m" and key: "\<And>r. jstring (kt @ r) = Some (k, r)"
    using Cons.prems p by (cases n) (auto simp: list_all2_Cons1 member_text_def reads_key_def, (cases ps; simp)+)
  note first = readsD [OF qs(2) assms(1)] and skip = skip_reads [OF qs(2)]
  show ?case
  proof (cases ps)
    case Nil
    then show ?thesis using qs n p Cons.prems(3) first [of "125 # r" m] key skip by (simp add: member_text_def)
  next
    case (Cons u us)
    have "length t \<le> m" "length (jclose 125 (map member_text ps)) \<le> m"
      using Cons n p Cons.prems(3) by (simp_all add: member_text_def [of "(34 # kt, t)"])
    moreover have "skip_ws (jclose 125 (map member_text ps) @ r) = jclose 125 (map member_text ps) @ r"
      using qs(3) Cons by (intro skip_jclose) (auto simp: list_all2_Cons1 reads_key_def member_text_def)
    ultimately show ?thesis
      using Cons qs n p key skip first [of "44 # jclose 125 (map member_text ps) @ r" m] Cons.IH [OF qs(3)]
      by (simp add: member_text_def [of "(34 # kt, t)"])
  qed
qed simp

lemma str_less_irrefl [simp]: "\<not> str_less s s"
  by (induction s) auto

text \<open>Sorting keeps the items, and follows any relation between two lists with the same keys.\<close>

lemma set_insort_item [simp]: "set (insort_item x xs) = insert x (set xs)"
  by (induction xs) auto

lemma set_sort_items [simp]: "set (sort_items xs) = set xs"
  by (induction xs) (simp_all add: sort_items_def)

lemma distinct_insort_item: "distinct (map fst (insort_item x xs)) \<longleftrightarrow> fst x \<notin> fst ` set xs \<and> distinct (map fst xs)"
  by (induction xs) auto

lemma distinct_sort_items [simp]: "distinct (map fst (sort_items xs)) \<longleftrightarrow> distinct (map fst xs)"
proof (induction xs)
  case (Cons x xs)
  have "sort_items (x # xs) = insort_item x (sort_items xs)" by (simp add: sort_items_def)
  with Cons show ?case by (simp only: distinct_insort_item) simp
qed (simp add: sort_items_def)

lemma insort_items_rel:
  assumes "fst x = fst y \<and> R (snd x) (snd y)" "list_all2 (\<lambda>p q. fst p = fst q \<and> R (snd p) (snd q)) xs ys"
  shows "list_all2 (\<lambda>p q. fst p = fst q \<and> R (snd p) (snd q)) (insort_item x xs) (insort_item y ys)"
  using assms(2,1) by (induction rule: list_all2_induct) auto

lemma sort_items_rel:
  "list_all2 (\<lambda>p q. fst p = fst q \<and> R (snd p) (snd q)) xs ys \<Longrightarrow>
   list_all2 (\<lambda>p q. fst p = fst q \<and> R (snd p) (snd q)) (sort_items xs) (sort_items ys)"
  by (induction rule: list_all2_induct) (simp_all add: sort_items_def insort_items_rel)

lemma dict_of_distinct: "distinct (map fst ps) \<Longrightarrow> dict_of ps = str_dict ps"
proof (induction ps rule: rev_induct)
  case (snoc p ps)
  have "map_of (map (\<lambda>p. (PStr (fst p), snd p)) ps) (PStr (fst p)) = None"
    using snoc.prems by (simp add: map_of_eq_None_iff image_image) blast
  then show ?case
    using snoc by (simp add: dict_of_def str_dict_def update_fresh)
qed (simp add: dict_of_def str_dict_def)

lemma dict_of_hook: "hook_ok (\<lambda>ps. Some (dict_of ps))"
  by (simp add: hook_ok_def dict_of_distinct)

lemma key_reads: "reads_key t s \<Longrightarrow> reads t (PStr s)"
proof -
  assume t: "reads_key t s"
  have "jvalue h n (t @ r) = Some (PStr s, r)" if "length t \<le> n" for h n r
    using that t by (cases n; cases t) (simp_all add: reads_key_def)
  then show ?thesis using t by (auto simp: reads_def reads_key_def)
qed

lemma str_text_reads: "reads (str_text s) (PStr s)"
  by (rule key_reads [OF str_text_key])

lemma int_text_reads: "reads (int_text i) (PInt i)"
proof -
  have hd: "int_text i \<noteq> [] \<and> (hd (int_text i) = 45 \<or> jdigit (hd (int_text i)))"
    using str_nat_digits [of "nat i"] by (auto simp: int_text_def list_all_iff)
  have "jvalue h n (int_text i @ r) = Some (PInt i, r)" if "boundary r" "length (int_text i) \<le> n" for h n r
    using that(2) hd jnumber_text [OF that(1), of i] by (cases n; cases "int_text i") (auto simp: jdigit_def)
  then show ?thesis using hd by (auto simp: reads_def jdigit_def)
qed

lemma word_reads:
  assumes "w \<in> {(''null'', PNone), (''true'', PBool True), (''false'', PBool False)}"
  shows "reads (cps (fst w)) (snd w)"
proof -
  have "jvalue h n (cps (fst w) @ r) = Some (snd w, r)" if "length (cps (fst w)) \<le> n" for h n r
    using assms that by (cases n) (auto simp: cps_def jword_def)
  then show ?thesis using assms by (auto simp: reads_def cps_def)
qed

lemma hd_jclose: "ts \<noteq> [] \<Longrightarrow> hd ts \<noteq> [] \<Longrightarrow> take 1 (jclose e ts @ r) = [hd (hd ts)]"
  by (cases "(e, ts)" rule: jclose.cases) (auto simp: neq_Nil_conv)

lemma list_reads:
  assumes "list_all2 reads ts vs"
  shows "reads (91 # jclose 93 ts) (PList vs)"
proof -
  have "jvalue h n ((91 # jclose 93 ts) @ r) = Some (PList vs, r)" if h: "hook_ok h" "length (91 # jclose 93 ts) \<le> n" for h n r
  proof (cases "ts = []")
    case False
    then have first: "reads (hd ts) (hd vs)" using assms by (cases ts) (auto simp: list_all2_Cons1)
    then have "skip_ws (jclose 93 ts @ r) = jclose 93 ts @ r" using False by (intro skip_jclose) (auto simp: reads_def)
    then show ?thesis
      using False h jelems_reads [OF h(1) assms False, of _ r] hd_jclose [OF False, of 93 r] first
      by (cases n) (auto simp: reads_def Let_def)
  qed (use assms h in \<open>cases n; simp\<close>)
  then show ?thesis by (simp add: reads_def)
qed

lemma dict_reads:
  assumes "list_all2 (\<lambda>p q. reads_key (fst p) (fst q) \<and> reads (snd p) (snd q)) ps qs" "distinct (map fst qs)"
  shows "reads (123 # jclose 125 (map member_text ps)) (str_dict qs)"
proof -
  have "jvalue h n ((123 # jclose 125 (map member_text ps)) @ r) = Some (str_dict qs, r)"
    if h: "hook_ok h" "length (123 # jclose 125 (map member_text ps)) \<le> n" for h n r
  proof (cases "ps = []")
    case False
    then have first: "hd (map member_text ps) \<noteq> [] \<and> hd (hd (map member_text ps)) = 34"
      using assms(1) by (cases ps) (auto simp: list_all2_Cons1 reads_key_def member_text_def)
    have "skip_ws (jclose 125 (map member_text ps) @ r) = jclose 125 (map member_text ps) @ r"
      using False first by (intro skip_jclose) auto
    moreover have "take 1 (jclose 125 (map member_text ps) @ r) = [34]"
      using False first hd_jclose [of "map member_text ps" 125 r] by simp
    ultimately show ?thesis
      using h assms(2) jpairs_reads [OF h(1) assms(1) False, of _ r] by (cases n) (auto simp: hook_ok_def)
  qed (use assms h in \<open>cases n; simp add: hook_ok_def\<close>)
  then show ?thesis by (simp add: reads_def)
qed

lemma pair_texts: "map pair_text ps = map member_text (map (apfst str_text) ps)"
  by (simp add: pair_text_def member_text_def)

text \<open>What a value prints as reads as that value, with the keys of its dictionaries sorted.\<close>

lemma json_text_reads: "json_text v = Some t \<Longrightarrow> wf_py v \<Longrightarrow> reads t (jcanon v)"
proof (induction v arbitrary: t rule: json_text.induct)
  case (5 vs)
  then obtain ts where t: "t = 91 # jclose 93 ts" and ts: "list_all2 (\<lambda>v t. json_text v = Some t) vs ts"
    by (auto simp: those_eq_Some list_all2_map1)
  have "list_all2 reads ts (map jcanon vs)"
    using ts "5.IH" "5.prems"(2) by (auto simp: list_all2_conv_all_nth list_all_length)
  then show ?case using t list_reads by simp
next
  case (6 kvs)
  let ?f = "\<lambda>kv. case str_key (fst kv) of None \<Rightarrow> None | Some k \<Rightarrow> map_option (Pair k) (json_text (snd kv))"
  let ?c = "\<lambda>kv. (key_str (fst kv), jcanon (snd kv))"
  obtain ps where t: "t = 123 # jclose 125 (map pair_text (sort_items ps))" and ps: "list_all2 (\<lambda>kv p. ?f kv = Some p) kvs ps"
    using "6.prems" by (auto simp: those_eq_Some list_all2_map1)
  have key: "fst kv = PStr (fst p) \<and> json_text (snd kv) = Some (snd p)" if "?f kv = Some p" for kv p
    using that by (cases "fst kv") (auto simp: str_key_def)
  have "fst p = fst (?c kv) \<and> reads (snd p) (snd (?c kv))" if "kv \<in> set kvs" "?f kv = Some p" for kv p
    using key [OF that(2)] "6.IH" [OF that(1)] "6.prems"(2) that
    by (auto simp: key_str_def list_all_iff str_key_def)
  then have rel: "list_all2 (\<lambda>p q. fst p = fst q \<and> reads (snd p) (snd q)) ps (map ?c kvs)"
    using ps by (auto simp: list_all2_conv_all_nth)
  have "fst (kvs ! i) = PStr (fst (ps ! i))" if "i < length ps" for i
    using key [of "kvs ! i" "ps ! i"] ps that by (simp add: list_all2_conv_all_nth)
  then have "map fst kvs = map (PStr \<circ> fst) ps"
    using ps by (auto simp: list_all2_conv_all_nth intro!: nth_equalityI)
  then have "distinct (map (PStr \<circ> fst) ps)" using "6.prems"(2) by simp
  then have "distinct (map fst ps)" by (auto simp: distinct_map inj_on_def)
  moreover have "map fst ps = map fst (map ?c kvs)" using rel by (auto simp: list_all2_conv_all_nth intro!: nth_equalityI)
  ultimately have "distinct (map fst (map ?c kvs))" by simp
  then show ?case
    using t dict_reads [of "map (apfst str_text) (sort_items ps)"] sort_items_rel [OF rel]
    by (simp add: pair_texts list_all2_map1 str_text_key list_all2_mono)
qed (auto simp: str_text_reads int_text_reads intro: word_reads [of "(''null'', PNone)", simplified]
      word_reads [of "(''true'', PBool True)", simplified] word_reads [of "(''false'', PBool False)", simplified])

lemma loads_reads:
  assumes "reads t v" "utf8_encode t = Some raw" "hook_ok h"
  shows "loads_with h raw = Some v"
  using readsD [OF assms(1,3), of "[]" "length t"] skip_reads [OF assms(1), of "[]"] utf8_decode_encode [OF assms(2)]
  by (simp add: loads_with_def)

theorem decode_canonical:
  assumes "json_canonical v = Inr raw" "wf_py v" "jcanon v = v"
  shows "decode_json e raw = Inr v"
proof -
  obtain t where t: "json_text v = Some t" "utf8_encode t = Some raw"
    using assms(1) by (auto simp: json_canonical_def bind_eq_Some_conv split: option.splits)
  have "reads t v" using json_text_reads [OF t(1) assms(2)] assms(3) by simp
  then have "json_loads raw = Some v" using loads_reads [OF _ t(2) dict_of_hook] by (simp add: json_loads_def)
  then show ?thesis using assms(1) by (simp add: decode_json_def)
qed

text \<open>What is read is the canonical text of its value, so no two texts read as one value.\<close>

lemma decode_json_Inr: "decode_json e raw = Inr v \<Longrightarrow> json_canonical v = Inr raw"
  by (auto simp: decode_json_def res_simps split: option.splits)

end
