(* ===== verification/Checkpoint.thy ===== *)
theory Checkpoint
  imports LifecycleProps Json
begin

text \<open>
  Reading a checkpoint of the record lifecycle back: \<^verbatim>\<open>decode\<close> of \<^verbatim>\<open>par_record_lifecycle/contracts.py\<close> and \<^verbatim>\<open>LifecycleModel.restore\<close>. The raw bytes
  are parsed as JSON (a repeated key is refused), the keys, schema, profile and scope of the checkpoint are tested, the initial inventory
  and every event are read from their dictionaries, and the events are run again with the expected pin.

  The bytes are UTF-8 (\<^verbatim>\<open>json.loads\<close> would also detect UTF-16 and UTF-32), and numbers are integers. A dictionary that is not an inventory is refused
  as SCHEMA before its well-formed parts are examined; an event that is not well-formed runs the tests that come before the one that refuses
  it, except for the size of its text.
\<close>

section \<open>Values\<close>

definition lc_pairs :: pairs_hook where
  "lc_pairs ps = (if distinct (map fst ps) then Some (str_dict ps) else None)"

definition lc_decode :: "bytes \<Rightarrow> pyval res" where
  "lc_decode raw =
     bindE (l_need (length raw \<le> INVENTORY_BYTES) ''CAPACITY'') (\<lambda>_.
     case loads_with lc_pairs raw of None \<Rightarrow> life_fail ''SCHEMA'' | Some v \<Rightarrow> Inr v)"

definition lc_keys :: "pyval \<Rightarrow> string list \<Rightarrow> bool" where
  "lc_keys v names = (case v of PDict kvs \<Rightarrow> set (map fst kvs) = set (map (\<lambda>k. PStr (cps k)) names) | _ \<Rightarrow> False)"

definition field :: "pyval \<Rightarrow> string \<Rightarrow> pyval option" where
  "field v k = (case v of PDict kvs \<Rightarrow> map_of kvs (PStr (cps k)) | _ \<Rightarrow> None)"

text \<open>A string of the model is a Python string of characters below 256; every other string fails the pattern or the comparison the
  code applies to the field.\<close>

definition as_str :: "pyval \<Rightarrow> string option" where
  "as_str v = (case v of PStr s \<Rightarrow> if list_all (\<lambda>c. c < 256) s then Some (map char_of s) else None | _ \<Rightarrow> None)"

definition as_int :: "pyval \<Rightarrow> int option" where
  "as_int v = (case v of PInt i \<Rightarrow> Some i | _ \<Rightarrow> None)"

definition as_bool :: "pyval \<Rightarrow> bool option" where
  "as_bool v = (case v of PBool b \<Rightarrow> Some b | _ \<Rightarrow> None)"

definition as_opt :: "pyval \<Rightarrow> string option option" where
  "as_opt v = (if v = PNone then Some None else map_option Some (as_str v))"

definition as_list :: "(pyval \<Rightarrow> 'a option) \<Rightarrow> pyval \<Rightarrow> 'a list option" where
  "as_list f v = (case v of PList vs \<Rightarrow> those (map f vs) | _ \<Rightarrow> None)"

definition as_table :: "(pyval \<Rightarrow> 'a option) \<Rightarrow> pyval \<Rightarrow> (string \<times> 'a) list option" where
  "as_table f v = (case v of
     PDict kvs \<Rightarrow> those (map (\<lambda>kv. Option.bind (as_str (fst kv)) (\<lambda>k. map_option (Pair k) (f (snd kv)))) kvs)
   | _ \<Rightarrow> None)"

definition at :: "(pyval \<Rightarrow> 'a option) \<Rightarrow> pyval \<Rightarrow> string \<Rightarrow> 'a option" where
  "at f v k = Option.bind (field v k) f"

section \<open>Records, inventories, plans and events\<close>

definition RECORD_KEYS :: "string list" where
  "RECORD_KEYS = [''evidence_digest'', ''input_digest'', ''intent_digest'', ''key'', ''kind'', ''local_id'', ''proof_digest'', ''refs'',
     ''reserved_bytes'', ''state'', ''storage_bytes'']"

definition read_record :: "pyval \<Rightarrow> lrecord option" where
  "read_record v = (if \<not> lc_keys v RECORD_KEYS then None else
     Option.bind (at as_opt v ''evidence_digest'') (\<lambda>evidence.
     Option.bind (at as_str v ''input_digest'') (\<lambda>input.
     Option.bind (at as_str v ''intent_digest'') (\<lambda>intent.
     Option.bind (at as_str v ''key'') (\<lambda>key.
     Option.bind (at as_str v ''kind'') (\<lambda>kind.
     Option.bind (at as_str v ''local_id'') (\<lambda>local_id.
     Option.bind (at as_str v ''proof_digest'') (\<lambda>proof_digest.
     Option.bind (at (as_list as_str) v ''refs'') (\<lambda>refs.
     Option.bind (at as_int v ''reserved_bytes'') (\<lambda>reserved.
     Option.bind (at as_str v ''state'') (\<lambda>state.
     Option.bind (at as_int v ''storage_bytes'') (\<lambda>storage.
       Some \<lparr>lr_key = key, lr_kind = kind, lr_local_id = local_id, lr_state = state, lr_intent_digest = intent, lr_input_digest = input,
         lr_proof_digest = proof_digest, lr_refs = refs, lr_evidence_digest = evidence, lr_storage_bytes = storage,
         lr_reserved_bytes = reserved\<rparr>))))))))))))"

definition read_anchor :: "pyval \<Rightarrow> anchor option" where
  "read_anchor v = (if \<not> lc_keys v [''key'', ''proof_digest''] then None else
     Option.bind (at as_str v ''key'') (\<lambda>key.
     Option.bind (at as_str v ''proof_digest'') (\<lambda>d. Some \<lparr>an_key = key, an_proof_digest = d\<rparr>)))"

definition read_gates :: "pyval \<Rightarrow> gates option" where
  "read_gates v = (if \<not> lc_keys v [''archive_resolver'', ''control'', ''jobs'', ''submissions''] then None else
     Option.bind (at as_bool v ''archive_resolver'') (\<lambda>archive.
     Option.bind (at as_bool v ''control'') (\<lambda>control.
     Option.bind (at as_bool v ''jobs'') (\<lambda>jobs.
     Option.bind (at as_bool v ''submissions'') (\<lambda>submissions.
       Some \<lparr>ga_jobs = jobs, ga_control = control, ga_submissions = submissions, ga_archive_resolver = archive\<rparr>)))))"

definition INVENTORY_KEYS :: "string list" where
  "INVENTORY_KEYS = [''anchors'', ''controller'', ''controller_revision'', ''gates'', ''keeper'', ''observation'', ''profile'', ''records'',
     ''schema'', ''source'', ''store'']"

definition read_inventory :: "pyval \<Rightarrow> inventory option" where
  "read_inventory v = (if \<not> lc_keys v INVENTORY_KEYS \<or> field v ''schema'' \<noteq> Some (PInt 1)
       \<or> field v ''profile'' \<noteq> Some (PStr (cps LIFECYCLE_PROFILE)) then None else
     Option.bind (at (as_list read_anchor) v ''anchors'') (\<lambda>anchors.
     Option.bind (at as_opt v ''controller'') (\<lambda>controller.
     Option.bind (at as_int v ''controller_revision'') (\<lambda>revision.
     Option.bind (at read_gates v ''gates'') (\<lambda>gates.
     Option.bind (at as_str v ''keeper'') (\<lambda>keeper.
     Option.bind (at as_str v ''observation'') (\<lambda>observation.
     Option.bind (at (as_list read_record) v ''records'') (\<lambda>records.
     Option.bind (at as_str v ''source'') (\<lambda>source.
     Option.bind (at as_str v ''store'') (\<lambda>store.
       Some \<lparr>in_source = source, in_keeper = keeper, in_store = store, in_controller = controller, in_controller_revision = revision,
         in_observation = observation, in_gates = gates, in_anchors = anchors, in_records = records\<rparr>))))))))))"

definition phase_of :: "string \<Rightarrow> phase option" where
  "phase_of s = map_of [(''OPEN'', OPEN), (''CLOSED'', CLOSED), (''ARCHIVED'', ARCHIVED), (''COMPACTED'', COMPACTED)] s"

definition as_count :: "pyval \<Rightarrow> nat option" where
  "as_count v = Option.bind (as_int v) (\<lambda>i. if i < 0 then None else Some (nat i))"

definition PLAN_KEYS :: "string list" where
  "PLAN_KEYS = [''archive_bytes_estimate'', ''archive_limit'', ''blockers'', ''controller_revision'', ''generation'', ''history_digest'',
     ''inventory_digest'', ''keys'', ''model_ready'', ''needed_by'', ''phase'', ''product_qualified'', ''real_deletion_allowed'', ''record_count'',
     ''schema'', ''scope'']"

text \<open>A dictionary that prints as a plan of the model does; every other one has a different text than the current plan.\<close>

definition read_plan :: "pyval \<Rightarrow> model_plan option" where
  "read_plan v = (if \<not> lc_keys v PLAN_KEYS \<or> field v ''schema'' \<noteq> Some (PInt 1)
       \<or> field v ''scope'' \<noteq> Some (PStr (cps ''LOCAL_MODEL_AND_INVENTORY_ONLY''))
       \<or> field v ''product_qualified'' \<noteq> Some (PBool False) \<or> field v ''real_deletion_allowed'' \<noteq> Some (PBool False) then None else
     Option.bind (at as_int v ''archive_bytes_estimate'') (\<lambda>estimate.
     Option.bind (at as_int v ''archive_limit'') (\<lambda>limit.
     Option.bind (at (as_list as_str) v ''blockers'') (\<lambda>blockers.
     Option.bind (at as_int v ''controller_revision'') (\<lambda>revision.
     Option.bind (at as_int v ''generation'') (\<lambda>generation.
     Option.bind (at as_str v ''history_digest'') (\<lambda>history.
     Option.bind (at as_str v ''inventory_digest'') (\<lambda>inventory.
     Option.bind (at (as_list as_str) v ''keys'') (\<lambda>keys.
     Option.bind (at as_bool v ''model_ready'') (\<lambda>ready.
     Option.bind (at (as_table (as_list as_str)) v ''needed_by'') (\<lambda>needed.
     Option.bind (at (\<lambda>x. Option.bind (as_str x) phase_of) v ''phase'') (\<lambda>phase.
     Option.bind (at as_count v ''record_count'') (\<lambda>count.
       Some \<lparr>mp_plan = \<lparr>pl_inventory_digest = inventory, pl_controller_revision = revision, pl_record_count = count, pl_keys = keys,
           pl_estimate = estimate, pl_archive_limit = limit, pl_blockers = blockers, pl_needed_by = needed, pl_model_ready = ready\<rparr>,
         mp_generation = generation, mp_phase = phase, mp_history_digest = history\<rparr>)))))))))))))"

definition ADMIT_KEYS :: "string list" where "ADMIT_KEYS = [''action'', ''controller_revision'', ''generation'', ''record'']"
definition CLOSE_KEYS :: "string list" where "CLOSE_KEYS = [''action'', ''controller_revision'', ''plan'']"
definition ROTATE_KEYS :: "string list" where "ROTATE_KEYS = [''action'', ''controller_revision'', ''public'']"

definition read_lc_event :: "pyval \<Rightarrow> lc_event option" where
  "read_lc_event v = Option.bind (at as_str v ''action'') (\<lambda>action.
     if action = ''admit'' \<and> lc_keys v ADMIT_KEYS then
       Option.bind (at read_record v ''record'') (\<lambda>r. Option.bind (at as_int v ''generation'') (\<lambda>g.
       Option.bind (at as_int v ''controller_revision'') (\<lambda>c. Some (Admit r g c))))
     else if action = ''close'' \<and> lc_keys v CLOSE_KEYS then
       Option.bind (at read_plan v ''plan'') (\<lambda>p. Option.bind (at as_int v ''controller_revision'') (\<lambda>c. Some (Close p c)))
     else if action = ''archive'' \<and> lc_keys v [''action''] then Some Archive
     else if action = ''compact'' \<and> lc_keys v [''action''] then Some Compact
     else if action = ''open'' \<and> lc_keys v [''action'', ''controller_revision''] then
       Option.bind (at as_int v ''controller_revision'') (\<lambda>c. Some (Open c))
     else if action = ''rotate'' \<and> lc_keys v ROTATE_KEYS then
       Option.bind (at as_str v ''public'') (\<lambda>p. Option.bind (at as_int v ''controller_revision'') (\<lambda>c. Some (Rotate p c)))
     else None)"

text \<open>The error of \<^verbatim>\<open>_apply\<close> for a value that is not a well-formed event: the tests of an admission before its record is validated, and those of a
  closure before its plan is compared, come first.\<close>

definition refused_event :: "pyval \<Rightarrow> lifecycle \<Rightarrow> lifecycle res" where
  "refused_event v m = (case (at as_str v ''action'', at as_int v ''generation'', at as_int v ''controller_revision'') of
     (Some action, Some g, Some c) \<Rightarrow>
       if action = ''admit'' \<and> lc_keys v ADMIT_KEYS then
         bindE (l_integer g 1 MAX_GENERATIONS) (\<lambda>_.
         bindE (controller_ok m c) (\<lambda>_.
         bindE (l_need (lm_closed_through m < g) ''GENERATION_CLOSED'') (\<lambda>_.
         bindE (l_need (lm_phase m = OPEN) ''PHASE'') (\<lambda>_.
         bindE (l_need (g = lm_generation m) ''GENERATION'') (\<lambda>_. life_fail ''SCHEMA'')))))
       else life_fail ''SCHEMA''
   | (Some action, None, Some c) \<Rightarrow>
       if action = ''close'' \<and> lc_keys v CLOSE_KEYS then
         bindE (controller_ok m c) (\<lambda>_.
         bindE (l_need (lm_phase m = OPEN) ''PHASE'') (\<lambda>_.
         bindE (plan_model m) (\<lambda>_. life_fail ''STALE_PLAN'')))
       else life_fail ''SCHEMA''
   | _ \<Rightarrow> life_fail ''SCHEMA'')"

definition run_value :: "pyval \<Rightarrow> lifecycle \<Rightarrow> lifecycle res" where
  "run_value v m =
     bindE (l_need (length (lm_events m) < MAX_EVENTS) ''CAPACITY'') (\<lambda>_.
     case read_lc_event v of None \<Rightarrow> refused_event v m | Some e \<Rightarrow> run_event e m)"

section \<open>Restoration\<close>

definition read_checkpoint :: "pyval \<Rightarrow> (pyval \<times> pyval list) res" where
  "read_checkpoint d =
     bindE (l_need (lc_keys d [''events'', ''initial'', ''profile'', ''schema'', ''scope'']) ''SCHEMA'') (\<lambda>_.
     bindE (l_need (field d ''schema'' = Some (PInt 1)) ''SCHEMA'') (\<lambda>_.
     bindE (l_need (field d ''profile'' = Some (PStr (cps LIFECYCLE_PROFILE)) \<and> field d ''scope'' = Some (PStr (cps ''PURE_NON_DESTRUCTIVE_MODEL''))) ''SCHEMA'') (\<lambda>_.
     case (field d ''initial'', field d ''events'') of
       (Some i, Some (PList es)) \<Rightarrow> bindE (l_need (length es \<le> MAX_EVENTS) ''SCHEMA'') (\<lambda>_. Inr (i, es))
     | _ \<Rightarrow> life_fail ''SCHEMA'')))"

fun replay :: "lpin \<Rightarrow> nat \<Rightarrow> pyval list \<Rightarrow> lifecycle \<Rightarrow> lifecycle res" where
  "replay p n [] m = Inr m"
| "replay p n (e # es) m =
     bindE (run_value e m) (\<lambda>m1.
     bindE (if Suc n = pi_sequence p then pinned p m1 else Inr ()) (\<lambda>_. replay p (Suc n) es m1))"

definition restore :: "bytes \<Rightarrow> lpin option \<Rightarrow> lifecycle res" where
  "restore raw expected = (case expected of
     None \<Rightarrow> life_fail ''PIN_REQUIRED''
   | Some p \<Rightarrow>
       bindE (check_pin p) (\<lambda>_.
       bindE (lc_decode raw) (\<lambda>d.
       bindE (read_checkpoint d) (\<lambda>(initial, events).
       bindE (l_need (pi_sequence p \<le> length events) ''PIN_MISMATCH'') (\<lambda>_.
       bindE (case read_inventory initial of None \<Rightarrow> life_fail ''SCHEMA'' | Some v \<Rightarrow> new_lifecycle v) (\<lambda>m.
       bindE (if pi_sequence p = 0 then pinned p m else Inr ()) (\<lambda>_. replay p 0 events m)))))))"

section \<open>Texts and the values they read as\<close>

text \<open>The printed texts of the lifecycle are ASCII, and read as the values below.\<close>

definition prints :: "string \<Rightarrow> pyval \<Rightarrow> bool" where
  "prints t v \<longleftrightarrow> list_all (\<lambda>c. (of_char c :: nat) < 128) t \<and> reads (cps t) v"

definition obj :: "(string \<times> pyval) list \<Rightarrow> pyval" where
  "obj kvs = str_dict (map (apfst cps) kvs)"

lemma cps_hex_digits: "n < 256 \<Longrightarrow> cps (hex_digits n) = [jhex_digit (n div 16), jhex_digit (n mod 16)]"
  by (simp add: cps_def hex_digits_def jhex_digit_def)

lemma hex_escape_256: "c < 256 \<Longrightarrow> jhex_value [48, 48, jhex_digit (c div 16), jhex_digit (c mod 16)] 0 = Some c"
  by (simp add: unjhex_def [of 48])

lemma cps_json_char: "cps (json_char c) = (if (of_char c :: nat) < 127 then json_escape (of_char c)
    else [92, 117, 48, 48, jhex_digit (of_char c div 16), jhex_digit (of_char c mod 16)])"
proof -
  have "(of_char c :: nat) < 256" by simp
  note hex = cps_hex_digits [OF this]
  have "of_char c = (n :: nat) \<longleftrightarrow> c = char_of n" if "n < 256" for n
    using that by (metis char_of_char of_char_of of_char_mod_256 mod_less)
  show ?thesis using hex by (auto simp: json_char_def json_escape_def Let_def cps_def)
qed

lemma jstring_json_char: "jstring (cps (json_char c) @ r) = map_option (apfst (Cons (of_char c))) (jstring r)"
proof (cases "(of_char c :: nat) < 127")
  case True
  then show ?thesis by (simp add: cps_json_char jstring_escape)
next
  case False
  have "(of_char c :: nat) < 256" by simp
  note hex = hex_escape_256 [OF this]
  show ?thesis
    using False hex by (simp only: cps_json_char if_False append.simps) (simp add: jstring.simps(2) take_drop_4 del: jhex_value.simps)
qed

lemma json_str_key: "reads_key (cps (json_str s)) (cps s)"
proof -
  have "jstring (cps (concat (map json_char s)) @ 34 # r) = Some (cps s, r)" for r
    by (induction s) (simp_all add: jstring_json_char jstring.simps(2) cps_def [of "[]"], simp add: cps_def)
  then show ?thesis by (simp add: reads_key_def json_str_def) (simp add: cps_def)
qed

lemma ascii_json_char: "list_all (\<lambda>c. (of_char c :: nat) < 128) (json_char c)"
proof -
  have n: "(of_char c :: nat) < 256" by simp
  have "(of_char c :: nat) div 16 < 16" using div_less_iff_less_mult [of 16 "of_char c :: nat" 16] n by simp
  then have "list_all (\<lambda>c. (of_char c :: nat) < 128) (hex_digits (of_char c))"
    using less_trans [OF mod_less_divisor [of 16 "of_char c :: nat"], of 41] by (simp add: hex_digits_def)
  then show ?thesis by (simp add: json_char_def Let_def)
qed

lemma ascii_json_str: "list_all (\<lambda>c. (of_char c :: nat) < 128) (json_str s)"
  using ascii_json_char by (induction s) (simp_all add: json_str_def)

lemma prints_str [intro]: "prints (json_str s) (PStr (cps s))"
  by (simp add: prints_def ascii_json_str key_reads [OF json_str_key])

lemma prints_int [intro]: "prints (json_int i) (PInt i)"
proof -
  have "cps (json_int i) = int_text i" by (simp add: json_int_def int_text_def) (simp add: cps_def)
  moreover have "list_all (\<lambda>c. (of_char c :: nat) < 128) (str_nat n)" for n
    using str_nat_digits [of n] by (auto simp: list_all_iff cps_def jdigit_def)
  ultimately show ?thesis using int_text_reads [of i] by (simp add: prints_def json_int_def)
qed

lemma prints_bool [intro]: "prints (json_bool b) (PBool b)"
  using word_reads [of "(''true'', PBool True)"] word_reads [of "(''false'', PBool False)"]
  by (simp add: prints_def json_bool_def)

lemma prints_opt [intro]: "prints (json_opt v) (case v of None \<Rightarrow> PNone | Some s \<Rightarrow> PStr (cps s))"
  using word_reads [of "(''null'', PNone)"] prints_str by (auto simp: json_opt_def prints_def split: option.splits)

lemma ascii_commas: "list_all (list_all P) ts \<Longrightarrow> P (CHR '','') \<Longrightarrow> list_all P (commas ts)"
  by (induction ts rule: commas.induct) auto

lemma cps_commas: "cps (commas ts) @ [e] = jclose e (map cps ts)"
proof (induction ts rule: commas.induct)
  case (3 x y xs)
  then show ?case by (simp add: cps_def)
qed (simp_all add: cps_def)

lemma prints_list [intro]: "list_all2 prints ts vs \<Longrightarrow> prints (json_list ts) (PList vs)"
proof -
  assume p: "list_all2 prints ts vs"
  have "cps (json_list ts) = 91 # jclose 93 (map cps ts)"
    using cps_commas [of ts 93] by (simp add: json_list_def) (simp add: cps_def)
  moreover have "list_all2 reads (map cps ts) vs"
    using p by (auto simp: list_all2_map1 prints_def elim: list_all2_mono)
  moreover have "list_all (list_all (\<lambda>c. (of_char c :: nat) < 128)) ts"
    using p by (auto simp: prints_def list_all2_conv_all_nth list_all_length)
  ultimately show ?thesis using list_reads by (simp add: prints_def json_list_def ascii_commas)
qed

lemma prints_obj:
  assumes "list_all2 (\<lambda>p q. fst p = fst q \<and> prints (snd p) (snd q)) kts kvs" "distinct (map fst kvs)"
  shows "prints (json_obj kts) (obj kvs)"
proof -
  let ?t = "\<lambda>(k, v). json_str k @ '':'' @ v" and ?m = "\<lambda>p. (cps (json_str (fst p)), cps (snd p))"
  have "cps (?t p) = member_text (?m p)" for p by (cases p) (simp add: member_text_def cps_def)
  then have "map cps (map ?t kts) = map member_text (map ?m kts)" by simp
  then have whole: "cps (json_obj kts) = 123 # jclose 125 (map member_text (map ?m kts))"
    using cps_commas [of "map ?t kts" 125] by (simp only: json_obj_def cps_append append.assoc) (simp add: cps_def [of "[_]"])
  have "list_all2 (\<lambda>p q. reads_key (fst p) (fst q) \<and> reads (snd p) (snd q)) (map ?m kts) (map (apfst cps) kvs)"
    unfolding list_all2_map1 list_all2_map2 by (rule list_all2_mono [OF assms(1)]) (auto simp: prints_def json_str_key)
  moreover have "distinct (map fst (map (apfst cps) kvs))"
    using assms(2) by (simp add: comp_def distinct_map inj_on_def) 
  ultimately have "reads (cps (json_obj kts)) (obj kvs)"
    unfolding whole obj_def by (rule dict_reads)
  moreover have "list_all (list_all (\<lambda>c. (of_char c :: nat) < 128)) (map ?t kts)"
    using assms(1) by (induction rule: list_all2_induct) (auto simp: prints_def ascii_json_str)
  ultimately show ?thesis by (simp add: prints_def json_obj_def ascii_commas)
qed

lemma prints_obj_Nil: "list_all2 (\<lambda>p q. fst p = fst q \<and> prints (snd p) (snd q)) [] []"
  by simp

lemma prints_obj_Cons:
  "prints t v \<Longrightarrow> list_all2 (\<lambda>p q. fst p = fst q \<and> prints (snd p) (snd q)) kts kvs \<Longrightarrow>
   list_all2 (\<lambda>p q. fst p = fst q \<and> prints (snd p) (snd q)) ((k, t) # kts) ((k, v) # kvs)"
  by simp

lemmas prints_members = prints_obj_Nil prints_obj_Cons

lemma prints_strs [intro]: "prints (json_list (map json_str ss)) (PList (map (\<lambda>s. PStr (cps s)) ss))"
  by (rule prints_list) (simp add: list_all2_map1 list_all2_map2 list_all2_same prints_str)

text \<open>The bytes of a text, and reading them.\<close>

definition text_bytes :: "string \<Rightarrow> bytes" where
  "text_bytes t = map (\<lambda>c. byte (of_char c)) t"

lemma utf8_text: "list_all (\<lambda>c. (of_char c :: nat) < 128) t \<Longrightarrow> utf8_encode (cps t) = Some (text_bytes t)"
  by (induction t) (simp_all add: cps_def text_bytes_def utf8_cp_def)

lemma lc_pairs_hook: "hook_ok lc_pairs"
  by (simp add: hook_ok_def lc_pairs_def)

lemma decode_prints:
  assumes "canonical_text t = Inr u" "prints t v"
  shows "lc_decode (text_bytes t) = Inr v"
proof -
  have "length t \<le> INVENTORY_BYTES" using assms(1) by (auto simp: canonical_text_def l_need_def res_simps)
  moreover have "loads_with lc_pairs (text_bytes t) = Some v"
    using loads_reads [OF _ utf8_text lc_pairs_hook] assms(2) by (simp add: prints_def)
  ultimately show ?thesis by (simp add: lc_decode_def l_need_def) (simp add: text_bytes_def)
qed

text \<open>The values of the lifecycle's data: what \<^verbatim>\<open>decode\<close> gives for their texts.\<close>

abbreviation str_value :: "string \<Rightarrow> pyval" where
  "str_value s \<equiv> PStr (cps s)"

definition opt_value :: "string option \<Rightarrow> pyval" where
  "opt_value v = (case v of None \<Rightarrow> PNone | Some s \<Rightarrow> str_value s)"

definition record_value :: "lrecord \<Rightarrow> pyval" where
  "record_value r = obj [(''evidence_digest'', opt_value (lr_evidence_digest r)), (''input_digest'', str_value (lr_input_digest r)),
     (''intent_digest'', str_value (lr_intent_digest r)), (''key'', str_value (lr_key r)), (''kind'', str_value (lr_kind r)),
     (''local_id'', str_value (lr_local_id r)), (''proof_digest'', str_value (lr_proof_digest r)), (''refs'', PList (map str_value (lr_refs r))),
     (''reserved_bytes'', PInt (lr_reserved_bytes r)), (''state'', str_value (lr_state r)), (''storage_bytes'', PInt (lr_storage_bytes r))]"

definition anchor_value :: "anchor \<Rightarrow> pyval" where
  "anchor_value a = obj [(''key'', str_value (an_key a)), (''proof_digest'', str_value (an_proof_digest a))]"

definition gates_value :: "gates \<Rightarrow> pyval" where
  "gates_value g = obj [(''archive_resolver'', PBool (ga_archive_resolver g)), (''control'', PBool (ga_control g)),
     (''jobs'', PBool (ga_jobs g)), (''submissions'', PBool (ga_submissions g))]"

definition inventory_value :: "inventory \<Rightarrow> pyval" where
  "inventory_value v = obj
     [(''anchors'', PList (map anchor_value (in_anchors v))), (''controller'', opt_value (in_controller v)),
      (''controller_revision'', PInt (in_controller_revision v)), (''gates'', gates_value (in_gates v)), (''keeper'', str_value (in_keeper v)),
      (''observation'', str_value (in_observation v)), (''profile'', str_value LIFECYCLE_PROFILE), (''records'', PList (map record_value (in_records v))),
      (''schema'', PInt 1), (''source'', str_value (in_source v)), (''store'', str_value (in_store v))]"

definition plan_value :: "model_plan \<Rightarrow> pyval" where
  "plan_value m = (let p = mp_plan m in obj
     [(''archive_bytes_estimate'', PInt (pl_estimate p)), (''archive_limit'', PInt (pl_archive_limit p)),
      (''blockers'', PList (map str_value (pl_blockers p))), (''controller_revision'', PInt (pl_controller_revision p)),
      (''generation'', PInt (mp_generation m)), (''history_digest'', str_value (mp_history_digest m)),
      (''inventory_digest'', str_value (pl_inventory_digest p)), (''keys'', PList (map str_value (pl_keys p))),
      (''model_ready'', PBool (pl_model_ready p)),
      (''needed_by'', obj (map (\<lambda>kv. (fst kv, PList (map str_value (snd kv)))) (sort_key fst (pl_needed_by p)))),
      (''phase'', str_value (phase_name (mp_phase m))), (''product_qualified'', PBool False), (''real_deletion_allowed'', PBool False),
      (''record_count'', PInt (int (pl_record_count p))), (''schema'', PInt 1),
      (''scope'', str_value ''LOCAL_MODEL_AND_INVENTORY_ONLY'')])"

definition event_value_of :: "lc_event \<Rightarrow> pyval" where
  "event_value_of e = (case e of
     Admit r g c \<Rightarrow> obj [(''action'', str_value ''admit''), (''controller_revision'', PInt c), (''generation'', PInt g), (''record'', record_value r)]
   | Close p c \<Rightarrow> obj [(''action'', str_value ''close''), (''controller_revision'', PInt c), (''plan'', plan_value p)]
   | Archive \<Rightarrow> obj [(''action'', str_value ''archive'')]
   | Compact \<Rightarrow> obj [(''action'', str_value ''compact'')]
   | Open c \<Rightarrow> obj [(''action'', str_value ''open''), (''controller_revision'', PInt c)]
   | Rotate p c \<Rightarrow> obj [(''action'', str_value ''rotate''), (''controller_revision'', PInt c), (''public'', str_value p)])"

definition checkpoint_value :: "lifecycle \<Rightarrow> pyval" where
  "checkpoint_value m = obj [(''events'', PList (map event_value_of (lm_events m))), (''initial'', inventory_value (lm_initial m)),
     (''profile'', str_value LIFECYCLE_PROFILE), (''schema'', PInt 1), (''scope'', str_value ''PURE_NON_DESTRUCTIVE_MODEL'')]"

lemma prints_opt_value: "prints (json_opt v) (opt_value v)"
  unfolding opt_value_def by (rule prints_opt)

lemma prints_map: "(\<And>x. x \<in> set xs \<Longrightarrow> prints (f x) (g x)) \<Longrightarrow> prints (json_list (map f xs)) (PList (map g xs))"
  by (rule prints_list) (simp add: list_all2_map1 list_all2_map2 list_all2_same)

lemmas prints_rules = prints_members prints_str prints_int prints_bool prints_opt_value prints_strs prints_map

lemma prints_record: "prints (record_json r) (record_value r)"
  unfolding record_json_def record_value_def by (intro prints_obj prints_rules) simp

lemma prints_anchor: "prints (json_obj [(''key'', json_str (an_key a)), (''proof_digest'', json_str (an_proof_digest a))]) (anchor_value a)"
  unfolding anchor_value_def by (intro prints_obj prints_rules) simp

lemma prints_gates: "prints (json_obj [(''archive_resolver'', json_bool (ga_archive_resolver g)), (''control'', json_bool (ga_control g)),
    (''jobs'', json_bool (ga_jobs g)), (''submissions'', json_bool (ga_submissions g))]) (gates_value g)"
  unfolding gates_value_def by (intro prints_obj prints_rules) simp

lemma prints_inventory: "prints (inventory_json v) (inventory_value v)"
  unfolding inventory_json_def inventory_value_def
  by (rule prints_obj, intro prints_rules prints_anchor prints_gates prints_record) simp

lemma prints_needed:
  assumes "distinct (map fst kvs)"
  shows "prints (json_obj (map (\<lambda>(k, ks). (k, json_list (map json_str ks))) kvs))
    (obj (map (\<lambda>kv. (fst kv, PList (map str_value (snd kv)))) kvs))"
  using assms prints_strs
  by (intro prints_obj) (auto simp: list_all2_map1 list_all2_map2 list_all2_same comp_def)

lemma prints_plan: "distinct (map fst (pl_needed_by (mp_plan p))) \<Longrightarrow> prints (plan_json p) (plan_value p)"
  unfolding plan_json_def plan_value_def Let_def
  by (rule prints_obj, intro prints_rules prints_needed) (simp_all add: distinct_sort_keys)

lemma prints_event: "copied_event e = Inr e \<Longrightarrow> prints (event_json e) (event_value_of e)"
proof (cases e)
  case (Close p c)
  assume "copied_event e = Inr e"
  then have "distinct (map fst (pl_needed_by (mp_plan p)))" using Close by (simp add: copied_event_def l_need_def res_simps)
  then show ?thesis unfolding Close event_json_def event_value_of_def lc_event.case
    by (intro prints_obj prints_rules prints_plan) simp_all
qed (auto simp: event_json_def event_value_of_def intro!: prints_obj prints_rules prints_record simp del: list_all2_Cons list_all2_Nil)

lemma prints_checkpoint:
  assumes "checkpoint m = Inr t" "\<forall>e \<in> set (lm_events m). copied_event e = Inr e"
  shows "lc_decode (text_bytes t) = Inr (checkpoint_value m)"
proof -
  let ?t = "json_obj [(''events'', json_list (map event_json (lm_events m))), (''initial'', inventory_json (lm_initial m)),
     (''profile'', json_str LIFECYCLE_PROFILE), (''schema'', json_int 1), (''scope'', json_str ''PURE_NON_DESTRUCTIVE_MODEL'')]"
  have "prints ?t (checkpoint_value m)" unfolding checkpoint_value_def
    by (rule prints_obj, intro prints_rules prints_inventory prints_event) (use assms(2) in simp_all)
  moreover have "canonical_text ?t = Inr t" "t = ?t" using assms(1) by (auto simp: checkpoint_def canonical_text_def res_simps)
  ultimately show ?thesis using decode_prints by metis
qed

section \<open>Reading the values back\<close>

lemma field_obj [simp]: "field (obj kvs) k = map_of kvs k"
  by (induction kvs) (auto simp: field_def obj_def str_dict_def)

lemma keys_obj [simp]: "lc_keys (obj kvs) names \<longleftrightarrow> set (map fst kvs) = set names"
proof -
  have "lc_keys (obj kvs) names \<longleftrightarrow> str_value ` fst ` set kvs = str_value ` set names"
    by (simp add: lc_keys_def obj_def str_dict_def image_image)
  moreover have "inj str_value" by (simp add: inj_def)
  ultimately show ?thesis by (simp only: inj_image_eq_iff set_map)
qed

lemma as_str_value [simp]: "as_str (str_value s) = Some s"
  by (simp add: as_str_def cps_def list_all_iff comp_def)

lemma as_opt_value [simp]: "as_opt (opt_value v) = Some v"
  by (simp add: as_opt_def opt_value_def split: option.splits)

lemma as_basic [simp]: "as_int (PInt i) = Some i" "as_bool (PBool b) = Some b" "as_count (PInt (int n)) = Some n"
  by (simp_all add: as_int_def as_bool_def as_count_def)

lemma as_list_value: "(\<And>x. x \<in> set xs \<Longrightarrow> f (g x) = Some x) \<Longrightarrow> as_list f (PList (map g xs)) = Some xs"
  unfolding as_list_def pyval.case by (induction xs) auto

lemma as_strs_value [simp]: "as_list as_str (PList (map str_value ss)) = Some ss"
  by (rule as_list_value) simp

lemma as_table_value [simp]: "as_table (as_list as_str) (obj (map (\<lambda>kv. (fst kv, PList (map str_value (snd kv)))) kvs)) = Some kvs"
  unfolding as_table_def obj_def str_dict_def pyval.case by (induction kvs) auto

lemma phase_of_name [simp]: "phase_of (phase_name p) = Some p"
  by (cases p) (simp_all add: phase_of_def phase_name_def)

lemma read_record_value [simp]: "read_record (record_value r) = Some r"
  by (simp add: read_record_def record_value_def RECORD_KEYS_def at_def)

lemma read_anchor_value [simp]: "read_anchor (anchor_value a) = Some a"
  by (simp add: read_anchor_def anchor_value_def at_def)

lemma read_gates_value [simp]: "read_gates (gates_value g) = Some g"
  by (simp add: read_gates_def gates_value_def at_def)

lemma read_inventory_value [simp]: "read_inventory (inventory_value v) = Some v"
  by (simp add: read_inventory_def inventory_value_def INVENTORY_KEYS_def at_def as_list_value)

lemma read_plan_value: "sorted_plan p = p \<Longrightarrow> read_plan (plan_value p) = Some p"
proof -
  assume "sorted_plan p = p"
  then have "pl_needed_by (mp_plan (sorted_plan p)) = pl_needed_by (mp_plan p)" by simp
  then have "sort_key fst (pl_needed_by (mp_plan p)) = pl_needed_by (mp_plan p)" by (simp add: sorted_plan_def)
  then show ?thesis by (simp add: read_plan_def plan_value_def PLAN_KEYS_def at_def Let_def)
qed

lemma read_event_value:
  assumes "copied_event e = Inr e"
  shows "read_lc_event (event_value_of e) = Some e"
proof (cases e)
  case (Close p c)
  then have "sorted_plan p = p" using assms by (simp add: copied_event_def l_need_def res_simps)
  then show ?thesis by (simp add: Close read_lc_event_def event_value_of_def CLOSE_KEYS_def at_def read_plan_value)
qed (simp_all add: read_lc_event_def event_value_of_def ADMIT_KEYS_def ROTATE_KEYS_def at_def)

lemma run_value_event: "copied_event e = Inr e \<Longrightarrow> run_value (event_value_of e) m = run_event e m"
  by (simp add: run_value_def read_event_value run_event_def) (simp add: bindE_def split: sum.splits)

lemma read_checkpoint_value:
  "length (lm_events m) \<le> MAX_EVENTS \<Longrightarrow>
   read_checkpoint (checkpoint_value m) = Inr (inventory_value (lm_initial m), map event_value_of (lm_events m))"
  by (simp add: read_checkpoint_def checkpoint_value_def l_need_def)

text \<open>The copies that the model takes are what \<^verbatim>\<open>decode(canonical(...))\<close> gives.\<close>

lemma inventory_copied: "encode_inventory v = Inr t \<Longrightarrow> \<exists>d. lc_decode (text_bytes t) = Inr d \<and> read_inventory d = Some v"
proof -
  assume "encode_inventory v = Inr t"
  then have "canonical_text (inventory_json v) = Inr t" "t = inventory_json v"
    using validate_inventory_facts(1) by (auto simp: encode_inventory_def canonical_text_def res_simps)
  then show ?thesis using decode_prints prints_inventory read_inventory_value by metis
qed

lemma event_copied:
  assumes "copied_event e = Inr e'" "canonical_text (event_json e) = Inr t"
  shows "\<exists>d. lc_decode (text_bytes t) = Inr d \<and> read_lc_event d = Some e'"
proof -
  have "t = event_json e" using assms(2) by (auto simp: canonical_text_def res_simps)
  then show ?thesis
    using assms(2) decode_prints prints_event read_event_value copied_twice [OF assms(1)] by metis
qed

lemma replay_fold:
  assumes "foldE run_event es m = Inr m'" "\<forall>e \<in> set es. copied_event e = Inr e" "n + length es = pi_sequence p"
    and "es = [] \<or> pinned p m' = Inr ()"
  shows "replay p n (map event_value_of es) m = Inr m'"
  using assms
proof (induction es arbitrary: n m)
  case (Cons e es)
  then obtain m1 where m1: "run_event e m = Inr m1" "foldE run_event es m1 = Inr m'" by (auto simp: res_simps)
  have "replay p (Suc n) (map event_value_of es) m1 = Inr m'" using Cons.IH [OF m1(2)] Cons.prems(2-4) by auto
  moreover have "pinned p m1 = Inr ()" if "Suc n = pi_sequence p" using Cons.prems(3,4) m1(2) that by (cases es) auto
  ultimately show ?case using m1(1) Cons.prems(2) by (simp add: run_value_event)
qed simp

section \<open>Round trip and rollback\<close>

text \<open>What is run from a value is an event, so a restored model is a reachable one.\<close>

lemma refused_never: "refused_event v m \<noteq> Inr m'"
  by (auto simp: refused_event_def res_simps split: option.splits)

lemma run_value_step: "run_value v m = Inr m' \<Longrightarrow> life_step m m'"
  by (auto simp: run_value_def res_simps refused_never life_step_def split: option.splits)

lemma replay_steps: "replay p n es m = Inr m' \<Longrightarrow> life_step\<^sup>*\<^sup>* m m'"
proof (induction es arbitrary: n m)
  case (Cons e es)
  then obtain m1 where "run_value e m = Inr m1" "replay p (Suc n) es m1 = Inr m'" by (auto simp: res_simps)
  then show ?case using Cons.IH run_value_step by (blast intro: converse_rtranclp_into_rtranclp)
qed simp

lemma replay_pinned:
  assumes "replay p n es m = Inr m'" "n < pi_sequence p" "pi_sequence p \<le> n + length es"
  shows "\<exists>m1. life_step\<^sup>*\<^sup>* m m1 \<and> pinned p m1 = Inr () \<and> life_step\<^sup>*\<^sup>* m1 m'"
  using assms
proof (induction es arbitrary: n m)
  case (Cons e es)
  then obtain m1 where m1: "run_value e m = Inr m1" "replay p (Suc n) es m1 = Inr m'"
    and pin: "Suc n = pi_sequence p \<Longrightarrow> pinned p m1 = Inr ()"
    by (auto simp: res_simps split: if_splits)
  show ?case
  proof (cases "Suc n = pi_sequence p")
    case True
    then show ?thesis using pin run_value_step [OF m1(1)] replay_steps [OF m1(2)] by blast
  next
    case False
    then show ?thesis using Cons.IH [OF m1(2)] Cons.prems run_value_step [OF m1(1)]
      by (auto intro: converse_rtranclp_into_rtranclp)
  qed
qed simp

lemma restored_pinned:
  assumes "restore raw (Some p) = Inr m'"
  shows "\<exists>v m0 m1. new_lifecycle v = Inr m0 \<and> life_step\<^sup>*\<^sup>* m0 m1 \<and> lifecycle_pin m1 = Inr p \<and> life_step\<^sup>*\<^sup>* m1 m'"
proof -
  obtain v m0 es where m0: "new_lifecycle v = Inr m0" and len: "pi_sequence p \<le> length es"
    and zero: "pi_sequence p = 0 \<Longrightarrow> pinned p m0 = Inr ()" and re: "replay p 0 es m0 = Inr m'"
    using assms by (auto simp: restore_def res_simps l_need_def split: option.splits if_splits)
  have "\<exists>m1. life_step\<^sup>*\<^sup>* m0 m1 \<and> pinned p m1 = Inr () \<and> life_step\<^sup>*\<^sup>* m1 m'"
  proof (cases "pi_sequence p = 0")
    case True
    then show ?thesis using zero replay_steps [OF re] by blast
  next
    case False
    then show ?thesis using replay_pinned [OF re] len by simp
  qed
  then show ?thesis using m0 by (auto simp: pinned_def l_need_def res_simps)
qed

text \<open>C21. A checkpoint restores its state, and no other bytes restore behind its pin. Take the checkpoint and the pin of a reachable
  state: the bytes of the checkpoint, read back as JSON, tested and replayed event by event, restore exactly that state. And any bytes at
  all that are restored under that pin give a state that is reached from a state with exactly that pin: the number of events, the
  digest of the initial inventory and of these events, the generation, the fence and the controller revision.\<close>

theorem restore_checkpoint:
  assumes "new_lifecycle v = Inr m0" "life_step\<^sup>*\<^sup>* m0 m" "checkpoint m = Inr t" "lifecycle_pin m = Inr p"
  shows "restore (text_bytes t) (Some p) = Inr m
    \<and> (restore raw (Some p) = Inr m' \<longrightarrow>
        (\<exists>v' m0' m1. new_lifecycle v' = Inr m0' \<and> life_step\<^sup>*\<^sup>* m0' m1 \<and> lifecycle_pin m1 = Inr p \<and> life_step\<^sup>*\<^sup>* m1 m'))"
proof -
  note start = new_lifecycle_ok [OF assms(1)]
  have re: "foldE run_event (lm_events m) m0 = Inr m" "lm_initial m = v" "\<forall>e \<in> set (lm_events m). copied_event e = Inr e"
    using steps_replayed [OF assms(2)] start by auto
  have ok: "life_ok m" using life.reachable_keeps [OF assms(2)] start by (simp add: life_ok_def)
  note pin = pin_checked [OF ok assms(4)]
  have len: "length (lm_events m) \<le> MAX_EVENTS" using ok by (simp add: life_ok_def fence_ok_def)
  have "replay p 0 (map event_value_of (lm_events m)) m0 = Inr m"
    using pin by (intro replay_fold [OF re(1,3)]) simp_all
  moreover have "pinned p m0 = Inr ()" if "pi_sequence p = 0" using pin re(1) that by simp
  ultimately have "restore (text_bytes t) (Some p) = Inr m"
    using assms(1) prints_checkpoint [OF assms(3) re(3)] read_checkpoint_value [OF len] pin re(2)
    by (simp add: restore_def l_need_def)
  then show ?thesis using restored_pinned by blast
qed

theorem restore_checkpoint_witness:
  "\<exists>t p. checkpoint sample_rotated = Inr t \<and> lifecycle_pin sample_rotated = Inr p
    \<and> restore (text_bytes t) (Some p) = Inr sample_rotated"
proof -
  have "case canonical_text (json_obj [(''events'', json_list (map event_json (take (length (lm_events sample_rotated)) (lm_events sample_rotated)))),
     (''initial'', inventory_json (lm_initial sample_rotated))]) of Inl _ \<Rightarrow> False | Inr t \<Rightarrow> True" by code_simp
  then obtain p where p: "lifecycle_pin sample_rotated = Inr p"
    by (auto simp: lifecycle_pin_def history_digest_def split: sum.splits)
  have "case checkpoint sample_rotated of Inl _ \<Rightarrow> False | Inr t \<Rightarrow> True" by code_simp
  then obtain t where t: "checkpoint sample_rotated = Inr t" by (auto split: sum.splits)
  then show ?thesis using restore_checkpoint [OF sample_started sample_step t p] p by blast
qed

end
