(* ===== verification/Keeper.thy ===== *)
theory Keeper
  imports Contracts
begin

text \<open>
  The signed recovery index of \<^verbatim>\<open>par_recovery/contract.py\<close> (prefix \<open>rc_\<close>) and the keeper's capability, call and receipt
  contract of \<^verbatim>\<open>par_keeper/contract.py\<close> (prefix \<open>kc_\<close>).

  \<open>pin\<close> and \<open>k_authority\<close> are the two frozen dataclasses. Their fields are Python values, because the code builds them
  from decoded lists and checks the types afterwards; the roots of a pin are a tuple.
\<close>

section \<open>Recovery index\<close>

record pin =
  pin_app :: pyval
  pin_space :: pyval
  pin_head :: pyval
  pin_sequence :: pyval
  pin_epoch :: pyval
  pin_recipient :: pyval
  pin_certificate :: pyval
  pin_roots :: "pyval list"
  pin_index :: pyval

abbreviation rc_error :: exn where "rc_error \<equiv> RecoveryError ''INDEX_SCHEMA''"

definition MAX_INDEX :: nat where "MAX_INDEX = 524288"
definition MAX_OBJECT :: nat where "MAX_OBJECT = 900000"
definition RC_MAX_BYTES :: int where "RC_MAX_BYTES = 32 * 1024 * 1024"
definition MAX_OBJECTS :: nat where "MAX_OBJECTS = 1024"
definition MAX_ENVELOPES :: nat where "MAX_ENVELOPES = 64"

definition KINDS :: "string list" where
  "KINDS = [''replay'', ''certificate'', ''grant'', ''package'', ''seed-manifest'', ''seed'', ''envelope'', ''attachment'', ''block'']"

definition rc_fixed :: "pyval \<Rightarrow> nat \<Rightarrow> unit res" where
  "rc_fixed = bytes_sized rc_error"

definition rc_integer :: "pyval \<Rightarrow> int \<Rightarrow> int \<Rightarrow> unit res" where
  "rc_integer = int_in rc_error"

definition rc_keys :: "pyval \<Rightarrow> int list \<Rightarrow> unit res" where
  "rc_keys = int_keys rc_error"

definition rc_bounded :: "pyval \<Rightarrow> nat \<Rightarrow> unit res" where
  "rc_bounded v limit = need (case v of PBytes raw \<Rightarrow> 1 \<le> length raw \<and> length raw \<le> limit | _ \<Rightarrow> False)
     (RecoveryError ''OBJECT_LIMIT'')"

definition rc_dumps :: "pyval \<Rightarrow> nat \<Rightarrow> bytes res" where
  "rc_dumps v limit = encode v (int limit) MAX_NODES"

definition rc_loads :: "pyval \<Rightarrow> nat \<Rightarrow> pyval res" where
  "rc_loads v limit =
     any_to rc_error (bindE (rc_bounded v limit) (\<lambda>_.
       bindE (as_bytes v) (\<lambda>raw.
       bindE (decode raw (int limit) MAX_NODES) (\<lambda>x.
       bindE (rc_dumps x limit) (\<lambda>again.
       bindE (need (again = raw) rc_error) (\<lambda>_. Inr x))))))"

definition rc_object_id :: "pystr \<Rightarrow> pyval \<Rightarrow> bytes res" where
  "rc_object_id kind raw =
     bindE (need (kind \<in> set (map cps KINDS)) rc_error) (\<lambda>_.
     bindE (rc_bounded raw MAX_OBJECT) (\<lambda>_. hashed ''recovery-local/object'' [PStr kind, raw]))"

definition rc_index_id :: "pyval \<Rightarrow> bytes res" where
  "rc_index_id raw = bindE (rc_bounded raw MAX_INDEX) (\<lambda>_. hashed ''recovery-local/index'' [raw])"

definition rc_sign_index :: "sodium \<Rightarrow> bytes \<Rightarrow> pyval \<Rightarrow> bytes res" where
  "rc_sign_index n seed body =
     bindE (rc_dumps body MAX_INDEX) (\<lambda>raw.
     bindE (c_domain (cps ''recovery-local/index-sign'') [PBytes raw]) (\<lambda>msg.
     bindE (p_sign n seed msg) (\<lambda>sig.
       rc_dumps (mk_dict [(0, PBytes raw), (1, PBytes sig)]) MAX_INDEX)))"

definition rc_ordered_ids :: "pyval \<Rightarrow> nat \<Rightarrow> bool \<Rightarrow> unit res" where
  "rc_ordered_ids v maximum nonempty = (case v of
     PList xs \<Rightarrow>
       bindE (need (length xs \<le> maximum \<and> \<not> (nonempty \<and> xs = [])) rc_error) (\<lambda>_.
       bindE (allE (\<lambda>x. rc_fixed x 32) xs) (\<lambda>_.
       bindE (mapE as_bytes xs) (\<lambda>ids. need (sorted_ids ids) rc_error)))
   | _ \<Rightarrow> Inl rc_error)"

text \<open>One envelope entry of the index: its identifier.\<close>

definition rc_envelope :: "pyval \<Rightarrow> bytes res" where
  "rc_envelope e =
     bindE (rc_keys e (key_range 5)) (\<lambda>_.
     bindE (each_sized rc_error e [0, 1, 2]) (\<lambda>_.
     bindE (bytes_at e 0) (\<lambda>eid.
     bindE (item_at e 3) (\<lambda>e3.
     bindE (if e3 = PNone then Inr () else rc_fixed e3 32) (\<lambda>_.
     bindE (item_at e 4) (\<lambda>e4. case e4 of
       PList is' \<Rightarrow>
         bindE (need (length is' \<le> 128) rc_error) (\<lambda>_.
         bindE (allE (\<lambda>i. rc_fixed i 32) is') (\<lambda>_.
         bindE (need (distinct is' \<and> \<not> (e3 = PNone \<and> is' \<noteq> [])) rc_error) (\<lambda>_. Inr eid)))
     | _ \<Rightarrow> Inl rc_error))))))"

text \<open>One object descriptor: its identifier and size.\<close>

definition rc_descriptor :: "pyval \<Rightarrow> (bytes \<times> int) res" where
  "rc_descriptor d = (case d of
     PList xs \<Rightarrow>
       bindE (need (length xs = 3) rc_error) (\<lambda>_.
       bindE (rc_fixed (xs ! 0) 32) (\<lambda>_.
       bindE (rc_integer (xs ! 2) 1 (int MAX_OBJECT)) (\<lambda>_.
       bindE (need (case xs ! 1 of PStr s \<Rightarrow> s \<in> set (map cps KINDS) | _ \<Rightarrow> False) rc_error) (\<lambda>_.
       bindE (as_bytes (xs ! 0)) (\<lambda>i. Inr (i, int_of (xs ! 2)))))))
   | _ \<Rightarrow> Inl rc_error)"

definition rc_list :: "pyval \<Rightarrow> nat \<Rightarrow> pyval list res" where
  "rc_list v maximum = (case v of
     PList xs \<Rightarrow> bindE (need (1 \<le> length xs \<and> length xs \<le> maximum) rc_error) (\<lambda>_. Inr xs)
   | _ \<Rightarrow> Inl rc_error)"

definition rc_structure :: "pyval \<Rightarrow> (pyval \<times> pyval) res" where
  "rc_structure raw =
     bindE (rc_loads raw MAX_INDEX) (\<lambda>o'.
     bindE (rc_keys o' [0, 1]) (\<lambda>_.
     bindE (item_at o' 0) (\<lambda>o0. bindE (rc_bounded o0 MAX_INDEX) (\<lambda>_.
     bindE (bindE (item_at o' 1) (\<lambda>s. rc_fixed s 64)) (\<lambda>_.
     bindE (rc_loads o0 MAX_INDEX) (\<lambda>v.
     bindE (rc_keys v (key_range 16)) (\<lambda>_.
     bindE (bindE (item_at v 0) (\<lambda>x. rc_integer x 1 1)) (\<lambda>_.
     bindE (field_is rc_error v 1 (PStr (cps ''recovery-closure-local''))) (\<lambda>_.
     bindE (bindE (item_at v 2) check_app_id) (\<lambda>_.
     bindE (each_sized rc_error v [3, 4, 7, 8, 10, 11, 12, 13]) (\<lambda>_.
     bindE (each_int rc_error v [5, 6] 1 (2 ^ 64 - 1)) (\<lambda>_.
     bindE (item_at v 9) (\<lambda>v9. bindE (rc_ordered_ids v9 MAX_ENVELOPES True) (\<lambda>_.
     bindE (bindE (item_at v 14) (\<lambda>x. rc_list x MAX_ENVELOPES)) (\<lambda>es.
     bindE (mapE rc_envelope es) (\<lambda>ids.
     bindE (bindE (list_of v9) (mapE as_bytes)) (\<lambda>roots.
     bindE (need (sorted_ids ids \<and> set roots \<subseteq> set ids) rc_error) (\<lambda>_.
     bindE (bindE (item_at v 15) (\<lambda>x. rc_list x MAX_OBJECTS)) (\<lambda>ds.
     bindE (mapE rc_descriptor ds) (\<lambda>rows.
     bindE (need (sorted_ids (map fst rows) \<and> sum_list (map snd rows) \<le> RC_MAX_BYTES) rc_error) (\<lambda>_.
       Inr (v, o'))))))))))))))))))))))"

text \<open>\<^verbatim>\<open>except E: raise; except Exception: raise E('INDEX_SCHEMA')\<close>\<close>

definition recovery_to :: "'a res \<Rightarrow> 'a res" where
  "recovery_to m = (case m of Inl (RecoveryError c) \<Rightarrow> m | Inl _ \<Rightarrow> Inl rc_error | Inr x \<Rightarrow> m)"

definition inspect_index :: "pyval \<Rightarrow> pin \<Rightarrow> (pyval \<times> pyval) res" where
  "inspect_index raw p =
     bindE (recovery_to (rc_structure raw)) (\<lambda>(v, o').
     bindE (need (is_int (pin_sequence p) \<and> is_int (pin_epoch p)) (RecoveryError ''PIN_MISMATCH'')) (\<lambda>_.
     bindE (mapE (item_at v) [2, 3, 4, 5, 6, 7, 8]) (\<lambda>vs.
     bindE (bindE (item_at v 9) list_of) (\<lambda>roots.
     bindE (rc_index_id raw) (\<lambda>iid.
     bindE (need (vs = [pin_app p, pin_space p, pin_head p, pin_sequence p, pin_epoch p, pin_recipient p, pin_certificate p]
         \<and> roots = pin_roots p \<and> PBytes iid = pin_index p) (RecoveryError ''PIN_MISMATCH'')) (\<lambda>_.
       Inr (v, o')))))))"

section \<open>Keeper contract: checks and authority\<close>

record k_authority =
  ka_app :: pyval
  ka_space :: pyval
  ka_head :: pyval
  ka_sequence :: pyval
  ka_epoch :: pyval
  ka_issuer :: pyval

abbreviation kc_error :: exn where "kc_error \<equiv> KeeperError ''CONTRACT_SCHEMA''"

definition KC_PROFILE :: pyval where "KC_PROFILE = PStr (cps ''keeper-retention-local'')"
definition KC_METHODS :: "string list" where
  "KC_METHODS = [''reserve'', ''put'', ''seal'', ''get'', ''receipt'', ''status'', ''challenge'', ''renew'', ''release'']"
definition MAX_SECONDS :: int where "MAX_SECONDS = 86400"
definition MAX_CONTRACT :: int where "MAX_CONTRACT = 16384"
definition I64 :: int where "I64 = 2 ^ 63 - 1"

definition kc_fixed :: "pyval \<Rightarrow> nat \<Rightarrow> unit res" where
  "kc_fixed = bytes_sized kc_error"

definition kc_integer :: "pyval \<Rightarrow> int \<Rightarrow> int \<Rightarrow> unit res" where
  "kc_integer = int_in kc_error"

definition kc_keys :: "pyval \<Rightarrow> int list \<Rightarrow> unit res" where
  "kc_keys = int_keys kc_error"

definition kc_dump :: "pyval \<Rightarrow> bytes res" where
  "kc_dump = env_dump kc_error MAX_CONTRACT"

definition kc_load :: "pyval \<Rightarrow> pyval res" where
  "kc_load = env_load kc_error kc_error MAX_CONTRACT"

definition authority_body :: "k_authority \<Rightarrow> pyval res" where
  "authority_body a =
     bindE (any_to kc_error (check_app_id (ka_app a))) (\<lambda>_.
     bindE (allE (\<lambda>v. kc_fixed v 32) [ka_space a, ka_head a, ka_issuer a]) (\<lambda>_.
     bindE (allE (\<lambda>v. kc_integer v 1 I64) [ka_sequence a, ka_epoch a]) (\<lambda>_.
       Inr (PList [ka_app a, ka_space a, ka_head a, ka_sequence a, ka_epoch a, ka_issuer a]))))"

definition authority_from :: "pyval \<Rightarrow> k_authority res" where
  "authority_from v = (case v of
     PList [a0, a1, a2, a3, a4, a5] \<Rightarrow>
       (let a = \<lparr>ka_app = a0, ka_space = a1, ka_head = a2, ka_sequence = a3, ka_epoch = a4, ka_issuer = a5\<rparr> in
        bindE (authority_body a) (\<lambda>_. Inr a))
   | _ \<Rightarrow> Inl kc_error)"

definition kc_signed :: "sodium \<Rightarrow> bytes \<Rightarrow> string \<Rightarrow> pyval \<Rightarrow> bytes res" where
  "kc_signed = env_signed kc_error MAX_CONTRACT ''keeper-local/''"

definition kc_split :: "pyval \<Rightarrow> (pyval \<times> pyval) res" where
  "kc_split = env_split kc_error kc_error MAX_CONTRACT"

section \<open>Capabilities\<close>

definition capability_id :: "pyval \<Rightarrow> bytes res" where
  "capability_id raw = hashed ''keeper-local/capability-id'' [raw]"

definition kc_method :: "pyval \<Rightarrow> pystr res" where
  "kc_method m = (case m of PStr s \<Rightarrow> if s \<in> set (map cps KC_METHODS) then Inr s else Inl kc_error | _ \<Rightarrow> Inl kc_error)"

definition capability_shape :: "pyval \<Rightarrow> unit res" where
  "capability_shape v =
     bindE (kc_keys v (key_range 9)) (\<lambda>_.
     bindE (bindE (item_at v 0) (\<lambda>x. kc_integer x 1 1)) (\<lambda>_.
     bindE (field_is kc_error v 1 KC_PROFILE) (\<lambda>_.
     bindE (bindE (item_at v 2) authority_from) (\<lambda>_.
     bindE (each_sized kc_error v [3, 4, 5, 8]) (\<lambda>_.
     bindE (bindE (item_at v 6) (\<lambda>ms. case ms of
         PList xs \<Rightarrow>
           bindE (need (xs \<noteq> []) kc_error) (\<lambda>_.
           bindE (mapE kc_method xs) (\<lambda>names. need (sorted_names names) kc_error))
       | _ \<Rightarrow> Inl kc_error)) (\<lambda>_.
     bindE (item_at v 7) (\<lambda>x. kc_integer x 1 MAX_SECONDS)))))))"

text \<open>\<^verbatim>\<open>methods\<close> is a tuple or list of strings.\<close>

definition issue_capability ::
  "sodium \<Rightarrow> bytes \<Rightarrow> k_authority \<Rightarrow> pyval \<Rightarrow> pyval \<Rightarrow> pyval \<Rightarrow> pyval list \<Rightarrow> pyval \<Rightarrow> pyval \<Rightarrow> bytes res" where
  "issue_capability n issuer_seed authority keeper subject index methods maximum_seconds nonce =
     bindE (any_to kc_error (mapE str_of methods)) (\<lambda>names.
     bindE (need (distinct names) kc_error) (\<lambda>_.
     bindE (authority_body authority) (\<lambda>body.
     let v = mk_dict [(0, PInt 1), (1, KC_PROFILE), (2, body), (3, keeper), (4, subject), (5, index),
       (6, PList (map PStr (sort_str names))), (7, maximum_seconds), (8, nonce)] in
     bindE (capability_shape v) (\<lambda>_.
     bindE (p_sign_public n issuer_seed) (\<lambda>pk.
     bindE (need (PBytes pk = ka_issuer authority) (KeeperError ''CAPABILITY_AUTH'')) (\<lambda>_.
       kc_signed n issuer_seed ''capability-sign'' v))))))"

definition verify_capability :: "sodium \<Rightarrow> k_authority \<Rightarrow> pyval \<Rightarrow> pyval \<Rightarrow> pyval res" where
  "verify_capability n authority keeper raw =
     bindE (authority_body authority) (\<lambda>body.
     bindE (kc_fixed keeper 32) (\<lambda>_.
     bindE (kc_split raw) (\<lambda>(v, o').
     bindE (capability_shape v) (\<lambda>_.
     bindE (env_verify (KeeperError ''CAPABILITY_AUTH'') ''keeper-local/'' n (ka_issuer authority) o' ''capability-sign'') (\<lambda>_.
     bindE (item_at v 2) (\<lambda>v2. bindE (item_at v 3) (\<lambda>v3.
     bindE (need (v2 = body \<and> v3 = keeper) (KeeperError ''CAPABILITY_SCOPE'')) (\<lambda>_.
       Inr v))))))))"

section \<open>Calls\<close>

definition payload_id :: "pyval \<Rightarrow> pyval \<Rightarrow> bytes res" where
  "payload_id action payload = bindE (kc_dump payload) (\<lambda>b. hashed ''keeper-local/request-payload'' [action, PBytes b])"

definition call_shape :: "pyval \<Rightarrow> unit res" where
  "call_shape v =
     bindE (kc_keys v (key_range 9)) (\<lambda>_.
     bindE (bindE (item_at v 0) (\<lambda>x. kc_integer x 1 1)) (\<lambda>_.
     bindE (field_is kc_error v 1 KC_PROFILE) (\<lambda>_.
     bindE (field_in kc_error v 5 KC_METHODS) (\<lambda>_.
     bindE (each_sized kc_error v [2, 3, 4, 7, 8]) (\<lambda>_.
     bindE (item_at v 5) (\<lambda>v5. bindE (item_at v 6) (\<lambda>v6.
       if v5 = PStr (cps ''reserve'') then need (v6 = PNone) kc_error else kc_fixed v6 32)))))))"

definition make_call :: "sodium \<Rightarrow> bytes \<Rightarrow> pyval \<Rightarrow> pyval \<Rightarrow> pyval \<Rightarrow> pyval \<Rightarrow> pyval \<Rightarrow> bytes res" where
  "make_call n subject_seed capability action lease_id operation_id payload =
     bindE (kc_split capability) (\<lambda>(cap, _).
     bindE (capability_shape cap) (\<lambda>_.
     bindE (p_sign_public n subject_seed) (\<lambda>pub.
     bindE (item_at cap 4) (\<lambda>cap4.
     bindE (need (PBytes pub = cap4) (KeeperError ''REQUEST_AUTH'')) (\<lambda>_.
     bindE (item_at cap 3) (\<lambda>cap3.
     bindE (capability_id capability) (\<lambda>cid.
     bindE (payload_id action payload) (\<lambda>pid.
     let v = mk_dict [(0, PInt 1), (1, KC_PROFILE), (2, cap3), (3, PBytes cid), (4, PBytes pub), (5, action), (6, lease_id),
       (7, operation_id), (8, PBytes pid)] in
     bindE (call_shape v) (\<lambda>_. kc_signed n subject_seed ''request-sign'' v)))))))))"

definition verify_call ::
  "sodium \<Rightarrow> k_authority \<Rightarrow> pyval \<Rightarrow> pyval \<Rightarrow> pyval \<Rightarrow> pyval \<Rightarrow> pyval \<Rightarrow> pyval \<Rightarrow> pyval res" where
  "verify_call n authority keeper capability raw action lease_id payload =
     bindE (verify_capability n authority keeper capability) (\<lambda>cap.
     bindE (kc_split raw) (\<lambda>(v, o').
     bindE (call_shape v) (\<lambda>_.
     bindE (item_at cap 4) (\<lambda>cap4.
     bindE (env_verify (KeeperError ''REQUEST_AUTH'') ''keeper-local/'' n cap4 o' ''request-sign'') (\<lambda>_.
     bindE (mapE (item_at v) [2, 3, 4, 5, 6, 8]) (\<lambda>vs.
     bindE (capability_id capability) (\<lambda>cid.
     bindE (payload_id action payload) (\<lambda>pid.
     bindE (need (vs = [keeper, PBytes cid, cap4, action, lease_id, PBytes pid]) (KeeperError ''REQUEST_SCOPE'')) (\<lambda>_.
     bindE (bindE (item_at cap 6) list_of) (\<lambda>methods.
     bindE (need (action \<in> set methods) (KeeperError ''METHOD_DENIED'')) (\<lambda>_.
       Inr v)))))))))))"

section \<open>Payloads and receipts\<close>

definition pin_values :: "pin \<Rightarrow> pyval" where
  "pin_values p = PList [pin_app p, pin_space p, pin_head p, pin_sequence p, pin_epoch p, pin_recipient p, pin_certificate p,
     PList (pin_roots p), pin_index p]"

definition pin_from :: "pyval \<Rightarrow> pin res" where
  "pin_from v = (case v of
     PList [a, s, h, q, e, r, c, PList roots, i] \<Rightarrow>
       Inr \<lparr>pin_app = a, pin_space = s, pin_head = h, pin_sequence = q, pin_epoch = e, pin_recipient = r,
         pin_certificate = c, pin_roots = roots, pin_index = i\<rparr>
   | _ \<Rightarrow> Inl kc_error)"

definition reserve_payload :: "pyval \<Rightarrow> pin \<Rightarrow> pyval \<Rightarrow> pyval res" where
  "reserve_payload index p seconds =
     bindE (kc_integer seconds 1 MAX_SECONDS) (\<lambda>_.
     bindE (any_to (KeeperError ''INDEX_INVALID'') (inspect_index index p)) (\<lambda>_.
     bindE (rc_index_id index) (\<lambda>iid.
     bindE (hashed ''keeper-local/pin'' [pin_values p]) (\<lambda>pid.
       Inr (PList [PBytes iid, PBytes pid, seconds])))))"

definition put_payload :: "pyval \<Rightarrow> pyval \<Rightarrow> pyval res" where
  "put_payload oid raw =
     bindE (kc_fixed oid 32) (\<lambda>_. case raw of
       PBytes b \<Rightarrow> if 1 \<le> length b \<and> length b \<le> MAX_OBJECT then Inr (PList [oid, PInt (int (length b)), PBytes (sha256 b)])
         else Inl (KeeperError ''OBJECT_LIMIT'')
     | _ \<Rightarrow> Inl (KeeperError ''OBJECT_LIMIT''))"

definition kc_inventory :: "pyval \<Rightarrow> pin \<Rightarrow> (pyval list \<times> bytes \<times> int) res" where
  "kc_inventory index p =
     bindE (any_to (KeeperError ''INDEX_INVALID'') (inspect_index index p)) (\<lambda>(v, _).
     bindE (bindE (item_at v 15) list_of) (\<lambda>ds.
     bindE (encode (PList ds) 524288 MAX_NODES) (\<lambda>raw.
     bindE (hashed ''keeper-local/inventory'' [PBytes raw]) (\<lambda>iid.
     bindE (mapE (\<lambda>d. int_at d 2) ds) (\<lambda>sizes. Inr (ds, iid, sum_list sizes))))))"

definition bytes_len :: "pyval \<Rightarrow> int" where
  "bytes_len v = (case v of PBytes b \<Rightarrow> int (length b) | _ \<Rightarrow> 0)"

definition receipt_body ::
  "pyval \<Rightarrow> pin \<Rightarrow> pyval \<Rightarrow> pyval \<Rightarrow> k_authority \<Rightarrow> pyval \<Rightarrow> pyval \<Rightarrow> pyval \<Rightarrow> pyval \<Rightarrow> pyval \<times> int \<Rightarrow> int \<Rightarrow> pyval res" where
  "receipt_body index p keeper lease_id authority capability call origin_nonce generation tick seconds =
     bindE (kc_inventory index p) (\<lambda>(ds, iid, bytes_total).
     bindE (kc_split call) (\<lambda>(req, _).
     bindE (authority_body authority) (\<lambda>body.
     bindE (item_at req 7) (\<lambda>op.
     bindE (capability_id capability) (\<lambda>cid.
       Inr (mk_dict [(0, PInt 1), (1, KC_PROFILE), (2, keeper), (3, lease_id), (4, pin_app p), (5, pin_space p), (6, pin_head p),
         (7, pin_sequence p), (8, pin_epoch p), (9, pin_index p), (10, PBytes iid), (11, PInt (int (length ds))),
         (12, PInt bytes_total), (13, PInt (bytes_total + bytes_len index)), (14, body), (15, origin_nonce), (16, op),
         (17, generation), (18, fst tick), (19, PInt (snd tick)), (20, PInt (snd tick + seconds * 10 ^ 9)),
         (21, PInt seconds), (22, PStr (cps ''OPAQUE_BYTES_RETAINED'')), (23, PBool False), (24, PBytes cid)]))))))"

definition receipt_shape :: "pyval \<Rightarrow> unit res" where
  "receipt_shape v =
     bindE (kc_keys v (key_range 25)) (\<lambda>_.
     bindE (bindE (item_at v 0) (\<lambda>x. kc_integer x 1 1)) (\<lambda>_.
     bindE (field_is kc_error v 1 KC_PROFILE) (\<lambda>_.
     bindE (field_is kc_error v 22 (PStr (cps ''OPAQUE_BYTES_RETAINED''))) (\<lambda>_.
     bindE (field_is kc_error v 23 (PBool False)) (\<lambda>_.
     bindE (each_sized kc_error v [2, 3, 5, 6, 9, 10, 15, 16, 18, 24]) (\<lambda>_.
     bindE (bindE (item_at v 4) (\<lambda>x. any_to kc_error (check_app_id x))) (\<lambda>_.
     bindE (each_int kc_error v [7, 8, 11, 12, 13, 17] 1 I64) (\<lambda>_.
     bindE (each_int kc_error v [19, 20] 0 I64) (\<lambda>_.
     bindE (bindE (item_at v 21) (\<lambda>x. kc_integer x 1 MAX_SECONDS)) (\<lambda>_.
     bindE (int_at v 20) (\<lambda>stop. bindE (int_at v 19) (\<lambda>start. bindE (int_at v 21) (\<lambda>seconds.
     bindE (need (stop = start + seconds * 10 ^ 9) kc_error) (\<lambda>_.
     bindE (bindE (item_at v 14) authority_from) (\<lambda>_. Inr ())))))))))))))))"

definition check_receipt :: "sodium \<Rightarrow> pyval \<Rightarrow> pyval \<Rightarrow> pyval \<Rightarrow> pin \<Rightarrow> pyval \<Rightarrow> pyval res" where
  "check_receipt n raw keeper index p lease_id =
     bindE (kc_split raw) (\<lambda>(v, o').
     bindE (receipt_shape v) (\<lambda>_.
     bindE (env_verify (KeeperError ''RECEIPT_SIGNATURE'') ''keeper-local/'' n keeper o' ''receipt-sign'') (\<lambda>_.
     bindE (kc_inventory index p) (\<lambda>(ds, iid, bytes_total).
     bindE (mapE (item_at v) [2, 3, 4, 5, 6, 7, 8, 9, 10, 11, 12, 13]) (\<lambda>vs.
     bindE (need (vs = [keeper, lease_id, pin_app p, pin_space p, pin_head p, pin_sequence p, pin_epoch p, pin_index p,
         PBytes iid, PInt (int (length ds)), PInt bytes_total, PInt (bytes_total + bytes_len index)])
       (KeeperError ''RECEIPT_SCOPE'')) (\<lambda>_.
       Inr v))))))"

definition verify_receipt ::
  "sodium \<Rightarrow> pyval \<Rightarrow> pyval \<Rightarrow> pyval \<Rightarrow> pin \<Rightarrow> pyval \<Rightarrow> k_authority \<Rightarrow> pyval \<Rightarrow> pyval \<Rightarrow> pyval res" where
  "verify_receipt n raw keeper index p lease_id authority operation_id grant_id =
     bindE (check_receipt n raw keeper index p lease_id) (\<lambda>v.
     bindE (mapE (item_at v) [14, 16, 24]) (\<lambda>vs.
     bindE (authority_body authority) (\<lambda>body.
     bindE (need (vs = [body, operation_id, grant_id]) (KeeperError ''RECEIPT_SCOPE'')) (\<lambda>_.
       Inr v))))"

end
