(* ===== verification/Upload.thy ===== *)
theory Upload
  imports Keeper
begin

text \<open>
  The two request protocols in front of the keeper: the read service of \<^verbatim>\<open>par_keeper_service/protocol.py\<close> (prefix \<open>sp_\<close>)
  and the upload service of \<^verbatim>\<open>par_keeper_upload/protocol.py\<close> (prefix \<open>up_\<close>). A server opens a connection with a signed
  hello that carries a challenge; a request names the digest of that hello and is signed by the capability's subject; a
  response names the digests of hello and request.
\<close>

section \<open>Service protocol\<close>

abbreviation sp_error :: exn where "sp_error \<equiv> ServiceError ''PROTOCOL_SCHEMA''"

definition SP_PROFILE :: pyval where "SP_PROFILE = PStr (cps ''keeper-service-local-v1'')"
definition MAX_HELLO :: int where "MAX_HELLO = 4096"
definition UP_MAX_REQUEST :: int where "UP_MAX_REQUEST = 65536"
definition MAX_RESPONSE :: int where "MAX_RESPONSE = 1048576"
definition SP_METHODS :: "string list" where "SP_METHODS = [''get'', ''status'', ''receipt'', ''challenge'']"
definition REMOTE_ERRORS :: "string list" where
  "REMOTE_ERRORS = [''REQUEST_REJECTED'', ''UNAVAILABLE'', ''DATA_INVALID'', ''STALE_AUTHORITY'', ''INTERNAL'', ''BUSY'']"

definition sp_fixed :: "pyval \<Rightarrow> nat \<Rightarrow> unit res" where
  "sp_fixed = bytes_sized sp_error"

definition sp_integer :: "pyval \<Rightarrow> int \<Rightarrow> int \<Rightarrow> unit res" where
  "sp_integer = int_in sp_error"

definition sp_keys :: "pyval \<Rightarrow> int list \<Rightarrow> unit res" where
  "sp_keys = int_keys sp_error"

definition sp_dump :: "pyval \<Rightarrow> int \<Rightarrow> bytes res" where
  "sp_dump v maximum = env_dump sp_error maximum v"

definition sp_load :: "pyval \<Rightarrow> int \<Rightarrow> pyval res" where
  "sp_load raw maximum = env_load (ServiceError ''FRAME_LIMIT'') sp_error maximum raw"

definition sp_sign :: "sodium \<Rightarrow> bytes \<Rightarrow> string \<Rightarrow> pyval \<Rightarrow> int \<Rightarrow> bytes res" where
  "sp_sign n seed label body maximum = env_signed sp_error maximum ''keeper-service-local/'' n seed label body"

definition sp_split :: "pyval \<Rightarrow> int \<Rightarrow> (pyval \<times> pyval) res" where
  "sp_split raw maximum = env_split (ServiceError ''FRAME_LIMIT'') sp_error maximum raw"

definition sp_verify :: "sodium \<Rightarrow> pyval \<Rightarrow> pyval \<Rightarrow> string \<Rightarrow> string \<Rightarrow> unit res" where
  "sp_verify n public o' label code =
     bindE (sp_fixed public 32) (\<lambda>_. env_verify (ServiceError code) ''keeper-service-local/'' n public o' label)"

definition sp_digest :: "pyval \<Rightarrow> bytes res" where
  "sp_digest raw = (case raw of PBytes _ \<Rightarrow> hashed ''keeper-service-local/bytes'' [raw] | _ \<Rightarrow> Inl sp_error)"

definition sp_version :: "pyval \<Rightarrow> unit res" where
  "sp_version b =
     bindE (bindE (item_at b 0) (\<lambda>x. sp_integer x 1 1)) (\<lambda>_. field_is sp_error b 1 SP_PROFILE)"

definition greeting :: "pyval \<Rightarrow> bytes \<Rightarrow> pyval \<Rightarrow> pyval \<Rightarrow> pyval \<Rightarrow> pyval" where
  "greeting profile pk boot challenge deadline_ms =
     mk_dict [(0, PInt 1), (1, profile), (2, PBytes pk), (3, boot), (4, challenge), (5, deadline_ms),
       (6, PInt UP_MAX_REQUEST), (7, PInt MAX_RESPONSE)]"

definition sp_make_hello :: "sodium \<Rightarrow> bytes \<Rightarrow> pyval \<Rightarrow> pyval \<Rightarrow> pyval \<Rightarrow> bytes res" where
  "sp_make_hello n seed boot challenge deadline_ms =
     bindE (allE (\<lambda>v. sp_fixed v 32) [PBytes seed, boot, challenge]) (\<lambda>_.
     bindE (sp_integer deadline_ms 50 30000) (\<lambda>_.
     bindE (p_sign_public n seed) (\<lambda>pk.
       sp_sign n seed ''hello-sign'' (greeting SP_PROFILE pk boot challenge deadline_ms) MAX_HELLO)))"

definition hello_fields :: "pyval \<Rightarrow> unit res" where
  "hello_fields b =
     bindE (each_sized sp_error b [2, 3, 4]) (\<lambda>_.
     bindE (bindE (item_at b 5) (\<lambda>x. sp_integer x 50 30000)) (\<lambda>_.
     bindE (bindE (item_at b 6) (\<lambda>x. sp_integer x UP_MAX_REQUEST UP_MAX_REQUEST)) (\<lambda>_.
     bindE (item_at b 7) (\<lambda>x. sp_integer x MAX_RESPONSE MAX_RESPONSE))))"

definition sp_check_hello :: "sodium \<Rightarrow> pyval \<Rightarrow> pyval \<Rightarrow> pyval res" where
  "sp_check_hello n public raw =
     bindE (sp_split raw MAX_HELLO) (\<lambda>(b, o').
     bindE (sp_keys b (key_range 8)) (\<lambda>_.
     bindE (sp_version b) (\<lambda>_.
     bindE (hello_fields b) (\<lambda>_.
     bindE (sp_verify n public o' ''hello-sign'' ''HELLO_AUTH'') (\<lambda>_.
     bindE (field_is (ServiceError ''HELLO_AUTH'') b 2 public) (\<lambda>_. Inr b))))))"

record sp_request =
  rq_action :: pyval
  rq_lease :: pyval
  rq_payload :: pyval
  rq_capability :: pyval
  rq_call :: pyval
  rq_subject :: pyval

definition sp_request_shape :: "pyval \<Rightarrow> pyval res" where
  "sp_request_shape b =
     bindE (sp_keys b (key_range 8)) (\<lambda>_.
     bindE (sp_version b) (\<lambda>_.
     bindE (each_sized sp_error b [2, 6]) (\<lambda>_.
     bindE (field_in (ServiceError ''METHOD_DENIED'') b 5 SP_METHODS) (\<lambda>_.
     bindE (mapE (item_at b) [3, 4, 5, 6, 7]) (\<lambda>bs. case bs of [b3, b4, b5, b6, b7] \<Rightarrow>
     bindE (if b5 = PStr (cps ''get'') \<or> b5 = PStr (cps ''challenge'') then sp_fixed b7 32
            else need (b7 = PNone) sp_error) (\<lambda>_.
     bindE (any_to sp_error (
       bindE (kc_split b3) (\<lambda>(cap, _). bindE (capability_shape cap) (\<lambda>_.
       bindE (kc_split b4) (\<lambda>(call, _). bindE (call_shape call) (\<lambda>_. Inr (cap, call))))))) (\<lambda>(cap, call).
     bindE (item_at cap 4) (\<lambda>cap4. bindE (mapE (item_at call) [4, 5, 6]) (\<lambda>cs.
     bindE (need (cs = [cap4, b5, b6]) (ServiceError ''REQUEST_SCOPE'')) (\<lambda>_.
       Inr cap))))) | _ \<Rightarrow> Inl sp_error)))))"

definition sp_make_request ::
  "sodium \<Rightarrow> bytes \<Rightarrow> pyval \<Rightarrow> pyval \<Rightarrow> pyval \<Rightarrow> pyval \<Rightarrow> pyval \<Rightarrow> pyval \<Rightarrow> bytes res" where
  "sp_make_request n seed hello capability call action lease payload =
     bindE (sp_digest hello) (\<lambda>d.
     let body = mk_dict [(0, PInt 1), (1, SP_PROFILE), (2, PBytes d), (3, capability), (4, call), (5, action), (6, lease), (7, payload)] in
     bindE (sp_request_shape body) (\<lambda>cap.
     bindE (p_sign_public n seed) (\<lambda>pk.
     bindE (field_is (ServiceError ''REQUEST_AUTH'') cap 4 (PBytes pk)) (\<lambda>_.
     bindE (bindE (item_at cap 3) (\<lambda>k. sp_check_hello n k hello)) (\<lambda>_.
       sp_sign n seed ''request-sign'' body UP_MAX_REQUEST)))))"

definition sp_check_request :: "sodium \<Rightarrow> pyval \<Rightarrow> pyval \<Rightarrow> pyval \<Rightarrow> sp_request res" where
  "sp_check_request n public hello raw =
     bindE (sp_check_hello n public hello) (\<lambda>_.
     bindE (sp_split raw UP_MAX_REQUEST) (\<lambda>(b, o').
     bindE (sp_request_shape b) (\<lambda>cap.
     bindE (item_at cap 4) (\<lambda>cap4.
     bindE (sp_verify n cap4 o' ''request-sign'' ''REQUEST_AUTH'') (\<lambda>_.
     bindE (sp_digest hello) (\<lambda>d.
     bindE (field_is (ServiceError ''REQUEST_SCOPE'') b 2 (PBytes d)) (\<lambda>_.
     bindE (field_is (ServiceError ''REQUEST_SCOPE'') cap 3 public) (\<lambda>_.
     bindE (item_at b 5) (\<lambda>b5. bindE (item_at b 6) (\<lambda>b6. bindE (item_at b 7) (\<lambda>b7.
     bindE (item_at b 3) (\<lambda>b3. bindE (item_at b 4) (\<lambda>b4.
       Inr \<lparr>rq_action = b5, rq_lease = b6, rq_payload = b7, rq_capability = b3, rq_call = b4, rq_subject = cap4\<rparr>)))))))))))))"

definition error_name :: "string list \<Rightarrow> pyval \<Rightarrow> bool" where
  "error_name names v = (case v of PStr s \<Rightarrow> s \<in> set (map cps names) | _ \<Rightarrow> False)"

definition response_body :: "pyval \<Rightarrow> bytes \<Rightarrow> bytes \<Rightarrow> bool \<Rightarrow> pyval \<Rightarrow> pyval" where
  "response_body profile h r ok v =
     mk_dict [(0, PInt 1), (1, profile), (2, PBytes h), (3, PBytes r), (4, PBool ok), (5, v), (6, PBool False)]"

definition sp_make_response :: "sodium \<Rightarrow> bytes \<Rightarrow> pyval \<Rightarrow> pyval \<Rightarrow> bool \<Rightarrow> pyval \<Rightarrow> bytes res" where
  "sp_make_response n seed hello request ok v =
     bindE (need (ok \<or> error_name REMOTE_ERRORS v) sp_error) (\<lambda>_.
     bindE (sp_digest hello) (\<lambda>h. bindE (sp_digest request) (\<lambda>r.
       sp_sign n seed ''response-sign'' (response_body SP_PROFILE h r ok v) MAX_RESPONSE)))"

text \<open>What a checked response body gives: its value, or the remote error it reports.\<close>

definition response_value :: "string list \<Rightarrow> pyval \<Rightarrow> pyval res" where
  "response_value names b =
     bindE (item_at b 4) (\<lambda>ok. bindE (item_at b 5) (\<lambda>v.
       if ok = PBool True then Inr v
       else case v of
         PStr s \<Rightarrow> if s \<in> set (map cps names) then Inl (ServiceError (''REMOTE_'' @ map char_of s)) else Inl sp_error
       | _ \<Rightarrow> Inl sp_error))"

definition response_flags :: "pyval \<Rightarrow> unit res" where
  "response_flags b =
     bindE (item_at b 4) (\<lambda>ok. bindE (item_at b 6) (\<lambda>more'.
       need ((case ok of PBool _ \<Rightarrow> True | _ \<Rightarrow> False) \<and> more' = PBool False) sp_error))"

definition sp_check_response :: "sodium \<Rightarrow> pyval \<Rightarrow> pyval \<Rightarrow> pyval \<Rightarrow> pyval \<Rightarrow> pyval res" where
  "sp_check_response n public hello request raw =
     bindE (sp_split raw MAX_RESPONSE) (\<lambda>(b, o').
     bindE (sp_keys b (key_range 7)) (\<lambda>_.
     bindE (sp_version b) (\<lambda>_.
     bindE (each_sized sp_error b [2, 3]) (\<lambda>_.
     bindE (response_flags b) (\<lambda>_.
     bindE (sp_verify n public o' ''response-sign'' ''RESPONSE_AUTH'') (\<lambda>_.
     bindE (sp_digest hello) (\<lambda>h. bindE (sp_digest request) (\<lambda>r.
     bindE (field_is (ServiceError ''RESPONSE_SCOPE'') b 2 (PBytes h)) (\<lambda>_.
     bindE (field_is (ServiceError ''RESPONSE_SCOPE'') b 3 (PBytes r)) (\<lambda>_.
       response_value REMOTE_ERRORS b))))))))))"

section \<open>Upload protocol\<close>

definition UP_PROFILE :: pyval where "UP_PROFILE = PStr (cps ''keeper-upload-local-v1'')"
definition UP_METHODS :: "string list" where
  "UP_METHODS = [''begin'', ''chunk'', ''progress'', ''reserve'', ''put'', ''seal'']"
definition CHUNK :: nat where "CHUNK = 32768"
definition UP_ERRORS :: "string list" where
  "UP_ERRORS = [''REJECTED'', ''UNAVAILABLE'', ''DATA_INVALID'', ''STALE_AUTHORITY'', ''BUSY'', ''CAPACITY'',
     ''OUTCOME_UNKNOWN'', ''INTERNAL'']"

definition up_digest :: "pyval \<Rightarrow> bytes res" where
  "up_digest raw = (case raw of PBytes _ \<Rightarrow> hashed ''keeper-upload-local/bytes'' [raw] | _ \<Rightarrow> Inl sp_error)"

definition up_signed :: "sodium \<Rightarrow> bytes \<Rightarrow> string \<Rightarrow> pyval \<Rightarrow> int \<Rightarrow> bytes res" where
  "up_signed n seed label body maximum = env_signed sp_error maximum ''keeper-upload-local/'' n seed label body"

definition up_split :: "pyval \<Rightarrow> int \<Rightarrow> (pyval \<times> pyval) res" where
  "up_split raw maximum = env_split (ServiceError ''FRAME_LIMIT'') sp_error maximum raw"

definition up_verify :: "sodium \<Rightarrow> pyval \<Rightarrow> pyval \<Rightarrow> string \<Rightarrow> unit res" where
  "up_verify n public o' label =
     bindE (sp_fixed public 32) (\<lambda>_. env_verify (ServiceError ''SIGNATURE'') ''keeper-upload-local/'' n public o' label)"

definition up_version :: "pyval \<Rightarrow> unit res" where
  "up_version b =
     bindE (bindE (item_at b 0) (\<lambda>x. sp_integer x 1 1)) (\<lambda>_. field_is sp_error b 1 UP_PROFILE)"

definition up_make_hello :: "sodium \<Rightarrow> bytes \<Rightarrow> pyval \<Rightarrow> pyval \<Rightarrow> pyval \<Rightarrow> bytes res" where
  "up_make_hello n seed boot challenge deadline_ms =
     bindE (allE (\<lambda>v. sp_fixed v 32) [PBytes seed, boot, challenge]) (\<lambda>_.
     bindE (sp_integer deadline_ms 50 30000) (\<lambda>_.
     bindE (p_sign_public n seed) (\<lambda>pk.
       up_signed n seed ''hello'' (greeting UP_PROFILE pk boot challenge deadline_ms) MAX_HELLO)))"

definition up_check_hello :: "sodium \<Rightarrow> pyval \<Rightarrow> pyval \<Rightarrow> pyval res" where
  "up_check_hello n public raw =
     bindE (up_split raw MAX_HELLO) (\<lambda>(b, o').
     bindE (sp_keys b (key_range 8)) (\<lambda>_.
     bindE (up_version b) (\<lambda>_.
     bindE (hello_fields b) (\<lambda>_.
     bindE (up_verify n public o' ''hello'') (\<lambda>_.
     bindE (field_is (ServiceError ''REQUEST_SCOPE'') b 2 public) (\<lambda>_. Inr b))))))"

text \<open>The part of a command that depends on its action: the capability's index \<open>cap5\<close>, the call, the lease and the payload.\<close>

definition up_begin :: "pyval \<Rightarrow> pyval \<Rightarrow> pyval \<Rightarrow> pyval \<Rightarrow> unit res" where
  "up_begin cap5 call lease payload = (case payload of
     PList [kind, oid, sz, sha] \<Rightarrow>
       bindE (need (kind = PStr (cps ''index'') \<or> kind = PStr (cps ''object'')) sp_error) (\<lambda>_.
       bindE (sp_fixed oid 32) (\<lambda>_.
       bindE (sp_fixed sha 32) (\<lambda>_.
       bindE (sp_integer sz 1 (int (if kind = PStr (cps ''index'') then MAX_INDEX else MAX_OBJECT))) (\<lambda>_.
         if kind = PStr (cps ''index'')
         then need (lease = PNone \<and> call = PNone \<and> oid = cap5) (ServiceError ''REQUEST_SCOPE'')
         else need (lease \<noteq> PNone \<and> call \<noteq> PNone) (ServiceError ''REQUEST_SCOPE'')))))
   | _ \<Rightarrow> Inl sp_error)"

definition up_chunk :: "pyval \<Rightarrow> pyval \<Rightarrow> unit res" where
  "up_chunk call payload =
     bindE (need (call = PNone) sp_error) (\<lambda>_. case payload of
       PList [tok, off, data] \<Rightarrow>
         bindE (sp_fixed tok 32) (\<lambda>_.
         bindE (sp_integer off 0 (int (max MAX_INDEX MAX_OBJECT))) (\<lambda>_.
           need (case data of PBytes b \<Rightarrow> 1 \<le> length b \<and> length b \<le> CHUNK | _ \<Rightarrow> False) (ServiceError ''FRAME_LIMIT'')))
     | _ \<Rightarrow> Inl sp_error)"

definition up_reserve :: "pyval \<Rightarrow> pyval \<Rightarrow> pyval \<Rightarrow> unit res" where
  "up_reserve call lease payload =
     bindE (need (lease = PNone \<and> call \<noteq> PNone) sp_error) (\<lambda>_. case payload of
       PList [tok, p, seconds] \<Rightarrow>
         bindE (sp_fixed tok 32) (\<lambda>_.
         bindE (sp_integer seconds 1 86400) (\<lambda>_.
         bindE (any_to sp_error (pin_from p)) (\<lambda>_. Inr ())))
     | _ \<Rightarrow> Inl sp_error)"

definition up_action :: "pyval \<Rightarrow> pyval \<Rightarrow> pyval \<Rightarrow> pyval \<Rightarrow> pyval \<Rightarrow> unit res" where
  "up_action action cap5 call lease payload =
     (if action = PStr (cps ''begin'') then up_begin cap5 call lease payload
      else if action = PStr (cps ''chunk'') then up_chunk call payload
      else if action = PStr (cps ''progress'') then bindE (need (call = PNone) sp_error) (\<lambda>_. sp_fixed payload 32)
      else if action = PStr (cps ''reserve'') then up_reserve call lease payload
      else if action = PStr (cps ''put'') then
        bindE (sp_fixed lease 32) (\<lambda>_. bindE (sp_fixed payload 32) (\<lambda>_. need (call \<noteq> PNone) sp_error))
      else bindE (sp_fixed lease 32) (\<lambda>_. need (call \<noteq> PNone \<and> payload = PNone) sp_error))"

definition up_shape :: "pyval \<Rightarrow> pyval res" where
  "up_shape b =
     bindE (sp_keys b (key_range 8)) (\<lambda>_.
     bindE (up_version b) (\<lambda>_.
     bindE (each_sized sp_error b [3]) (\<lambda>_.
     bindE (field_in (ServiceError ''METHOD_DENIED'') b 2 UP_METHODS) (\<lambda>_.
     bindE (bindE (item_at b 4) (\<lambda>b4. any_to sp_error (
       bindE (kc_split b4) (\<lambda>(cap, _). bindE (capability_shape cap) (\<lambda>_. Inr cap))))) (\<lambda>cap.
     bindE (mapE (item_at b) [2, 5, 6, 7]) (\<lambda>bs. case bs of [action, b5, b6, payload] \<Rightarrow>
     bindE (mapE (item_at cap) [3, 4, 5]) (\<lambda>cs. case cs of [cap3, cap4, cap5] \<Rightarrow>
     bindE (if b6 = PNone then Inr () else sp_fixed b6 32) (\<lambda>_.
     bindE (if b5 = PNone then Inr () else
       bindE (any_to sp_error (bindE (kc_split b5) (\<lambda>(c, _). bindE (call_shape c) (\<lambda>_. Inr c)))) (\<lambda>c.
       bindE (mapE (item_at c) [2, 4, 6]) (\<lambda>xs.
         need (xs = [cap3, cap4, b6]) (ServiceError ''REQUEST_SCOPE'')))) (\<lambda>_.
     bindE (up_action action cap5 b5 b6 payload) (\<lambda>_. Inr cap)))
     | _ \<Rightarrow> Inl sp_error) | _ \<Rightarrow> Inl sp_error))))))"

definition make_command ::
  "sodium \<Rightarrow> bytes \<Rightarrow> pyval \<Rightarrow> pyval \<Rightarrow> pyval \<Rightarrow> pyval \<Rightarrow> pyval \<Rightarrow> pyval \<Rightarrow> bytes res" where
  "make_command n seed capability action operation call lease payload =
     (let b = mk_dict [(0, PInt 1), (1, UP_PROFILE), (2, action), (3, operation), (4, capability), (5, call), (6, lease), (7, payload)] in
     bindE (up_shape b) (\<lambda>cap.
     bindE (p_sign_public n seed) (\<lambda>pk.
     bindE (field_is (ServiceError ''REQUEST_AUTH'') cap 4 (PBytes pk)) (\<lambda>_.
       up_signed n seed ''command'' b UP_MAX_REQUEST))))"

definition check_command :: "sodium \<Rightarrow> pyval \<Rightarrow> pyval res" where
  "check_command n raw =
     bindE (up_split raw UP_MAX_REQUEST) (\<lambda>(b, o').
     bindE (up_shape b) (\<lambda>cap.
     bindE (item_at cap 4) (\<lambda>cap4.
     bindE (up_verify n cap4 o' ''command'') (\<lambda>_. Inr b))))"

definition up_make_request :: "sodium \<Rightarrow> bytes \<Rightarrow> pyval \<Rightarrow> pyval \<Rightarrow> bytes res" where
  "up_make_request n seed hello command =
     bindE (check_command n command) (\<lambda>b.
     bindE (bindE (item_at b 4) kc_split) (\<lambda>(cap, _).
     bindE (bindE (item_at cap 3) (\<lambda>k. up_check_hello n k hello)) (\<lambda>_.
     bindE (p_sign_public n seed) (\<lambda>pk.
     bindE (field_is (ServiceError ''REQUEST_AUTH'') cap 4 (PBytes pk)) (\<lambda>_.
     bindE (up_digest hello) (\<lambda>d.
       up_signed n seed ''request'' (mk_dict [(0, PInt 1), (1, UP_PROFILE), (2, PBytes d), (3, command)]) UP_MAX_REQUEST))))))"

definition up_check_request :: "sodium \<Rightarrow> pyval \<Rightarrow> pyval \<Rightarrow> pyval \<Rightarrow> pyval res" where
  "up_check_request n public hello raw =
     bindE (up_check_hello n public hello) (\<lambda>_.
     bindE (up_split raw UP_MAX_REQUEST) (\<lambda>(b, o').
     bindE (sp_keys b (key_range 4)) (\<lambda>_.
     bindE (up_version b) (\<lambda>_.
     bindE (each_sized sp_error b [2]) (\<lambda>_.
     bindE (item_at b 3) (\<lambda>command.
     bindE (check_command n command) (\<lambda>c.
     bindE (bindE (item_at c 4) kc_split) (\<lambda>(cap, _).
     bindE (bindE (item_at cap 4) (\<lambda>pk. up_verify n pk o' ''request'')) (\<lambda>_.
     bindE (up_digest hello) (\<lambda>d.
     bindE (field_is (ServiceError ''REQUEST_SCOPE'') b 2 (PBytes d)) (\<lambda>_.
     bindE (field_is (ServiceError ''REQUEST_SCOPE'') cap 3 public) (\<lambda>_.
       Inr command))))))))))))"

definition up_make_response :: "sodium \<Rightarrow> bytes \<Rightarrow> pyval \<Rightarrow> pyval \<Rightarrow> bool \<Rightarrow> pyval \<Rightarrow> bytes res" where
  "up_make_response n seed hello request ok v =
     bindE (need (ok \<or> error_name UP_ERRORS v) sp_error) (\<lambda>_.
     bindE (up_digest hello) (\<lambda>h. bindE (up_digest request) (\<lambda>r.
       up_signed n seed ''response'' (response_body UP_PROFILE h r ok v) MAX_RESPONSE)))"

definition up_check_response :: "sodium \<Rightarrow> pyval \<Rightarrow> pyval \<Rightarrow> pyval \<Rightarrow> pyval \<Rightarrow> pyval res" where
  "up_check_response n public hello request raw =
     bindE (up_split raw MAX_RESPONSE) (\<lambda>(b, o').
     bindE (sp_keys b (key_range 7)) (\<lambda>_.
     bindE (up_version b) (\<lambda>_.
     bindE (each_sized sp_error b [2, 3]) (\<lambda>_.
     bindE (response_flags b) (\<lambda>_.
     bindE (up_verify n public o' ''response'') (\<lambda>_.
     bindE (up_digest hello) (\<lambda>h. bindE (up_digest request) (\<lambda>r.
     bindE (field_is (ServiceError ''RESPONSE_SCOPE'') b 2 (PBytes h)) (\<lambda>_.
     bindE (field_is (ServiceError ''RESPONSE_SCOPE'') b 3 (PBytes r)) (\<lambda>_.
       response_value UP_ERRORS b))))))))))"

definition token_for :: "sodium \<Rightarrow> pyval \<Rightarrow> bytes res" where
  "token_for n command =
     bindE (check_command n command) (\<lambda>b.
     bindE (bindE (item_at b 4) kc_split) (\<lambda>(cap, _).
     bindE (field_is sp_error b 2 (PStr (cps ''begin''))) (\<lambda>_.
     bindE (item_at cap 3) (\<lambda>k. bindE (item_at cap 4) (\<lambda>s. bindE (item_at b 3) (\<lambda>op.
       hashed ''keeper-upload-local/stage'' [k, s, op]))))))"

definition progress_shape :: "pyval \<Rightarrow> pyval res" where
  "progress_shape v =
     bindE (sp_keys v (key_range 6)) (\<lambda>_.
     bindE (each_sized sp_error v [0]) (\<lambda>_.
     bindE (bindE (item_at v 1) (\<lambda>x. sp_integer x 0 (int (max MAX_INDEX MAX_OBJECT)))) (\<lambda>_.
     bindE (bindE (item_at v 2) (\<lambda>x. sp_integer x 1 (int (max MAX_INDEX MAX_OBJECT)))) (\<lambda>_.
     bindE (each_sized sp_error v [3]) (\<lambda>_.
     bindE (int_at v 1) (\<lambda>done'. bindE (int_at v 2) (\<lambda>sz. bindE (item_at v 4) (\<lambda>v4. bindE (item_at v 5) (\<lambda>v5.
     bindE (need (done' \<le> sz \<and> (case v4 of PBool _ \<Rightarrow> True | _ \<Rightarrow> False) \<and> v5 = PBool False) (ServiceError ''RESPONSE_TYPE'')) (\<lambda>_.
     bindE (need (v4 = PBool True \<longrightarrow> done' = sz) (ServiceError ''RESPONSE_TYPE'')) (\<lambda>_.
       Inr v)))))))))))"

end
