(* ===== verification/Window.thy ===== *)
theory Window
  imports Upload
begin

text \<open>
  Retirement of staged uploads, \<^verbatim>\<open>par_keeper_upload_retire/contract.py\<close> (prefix \<open>ru_\<close>), and the signed replay windows over
  uploads, \<^verbatim>\<open>par_upload_window/contract.py\<close> (prefix \<open>uw_\<close>), with the archive format that closes a window: a framed,
  signed manifest followed by the bytes of the files it lists.
\<close>

section \<open>Retirement grants\<close>

definition RU_PROFILE :: pyval where "RU_PROFILE = PStr (cps ''keeper-upload-retire-local-v1'')"
definition RU_MAX_BYTES :: int where "RU_MAX_BYTES = 131072"
definition MAX_REBINDS :: nat where "MAX_REBINDS = 8"

definition ru_dump :: "pyval \<Rightarrow> bytes res" where
  "ru_dump v = sp_dump v RU_MAX_BYTES"

definition ru_load :: "pyval \<Rightarrow> pyval res" where
  "ru_load raw = sp_load raw RU_MAX_BYTES"

definition ru_digest :: "pyval \<Rightarrow> bytes res" where
  "ru_digest v =
     bindE (need (case v of PBytes raw \<Rightarrow> raw \<noteq> [] \<and> int (length raw) \<le> RU_MAX_BYTES | _ \<Rightarrow> False) (ServiceError ''RETIREMENT_SCHEMA'')) (\<lambda>_.
       hashed ''keeper-upload-retire-local/bytes'' [v])"

definition ru_signed :: "sodium \<Rightarrow> bytes \<Rightarrow> string \<Rightarrow> pyval \<Rightarrow> bytes res" where
  "ru_signed n seed label body = env_signed sp_error RU_MAX_BYTES ''keeper-upload-retire-local/'' n seed label body"

definition ru_verified :: "sodium \<Rightarrow> pyval \<Rightarrow> string \<Rightarrow> pyval \<Rightarrow> pyval res" where
  "ru_verified n raw label public =
     bindE (ru_load raw) (\<lambda>outer.
     bindE (sp_keys outer [0, 1]) (\<lambda>_.
     bindE (bindE (item_at outer 1) (\<lambda>s. sp_fixed s 64)) (\<lambda>_.
     bindE (sp_fixed public 32) (\<lambda>_.
     bindE (env_verify (ServiceError ''RETIREMENT_SIGNATURE'') ''keeper-upload-retire-local/'' n public outer label) (\<lambda>_.
       bindE (item_at outer 0) ru_load)))))"

definition ru_version :: "pyval \<Rightarrow> unit res" where
  "ru_version b =
     bindE (bindE (item_at b 0) (\<lambda>x. sp_integer x 1 1)) (\<lambda>_. field_is (ServiceError ''RETIREMENT_SCHEMA'') b 1 RU_PROFILE)"

text \<open>\<^verbatim>\<open>except E: raise; except Exception: raise E(code)\<close> for the service's error class.\<close>

definition service_to :: "string \<Rightarrow> 'a res \<Rightarrow> 'a res" where
  "service_to code m = (case m of Inl (ServiceError c) \<Rightarrow> m | Inl _ \<Rightarrow> Inl (ServiceError code) | Inr x \<Rightarrow> m)"

lemma service_to_Inr [simp]: "service_to c m = Inr x \<longleftrightarrow> m = Inr x"
  by (auto simp: service_to_def split: sum.splits exn.splits)

definition ru_origin :: "sodium \<Rightarrow> pyval \<Rightarrow> (pyval \<times> pyval) res" where
  "ru_origin n raw =
     service_to ''RETIREMENT_ORIGIN'' (
       bindE (check_command n raw) (\<lambda>body.
       bindE (field_is (ServiceError ''RETIREMENT_ORIGIN'') body 2 (PStr (cps ''begin''))) (\<lambda>_.
       bindE (item_at body 4) (\<lambda>b4.
       bindE (kc_split b4) (\<lambda>(cap, _).
       bindE (bindE (item_at cap 2) authority_from) (\<lambda>old.
       bindE (item_at cap 3) (\<lambda>keeper.
       bindE (verify_capability n old keeper b4) (\<lambda>_.
         Inr (body, cap)))))))))"

definition authority_order :: "pyval \<Rightarrow> pyval \<Rightarrow> unit res" where
  "authority_order old new =
     bindE (list_of old) (\<lambda>os. bindE (list_of new) (\<lambda>ns.
     bindE (int_at new 3) (\<lambda>n3. bindE (int_at old 3) (\<lambda>o3. bindE (int_at new 4) (\<lambda>n4. bindE (int_at old 4) (\<lambda>o4.
       need (take 2 ns = take 2 os \<and> o3 \<le> n3 \<and> o4 \<le> n4 \<and> (n3 = o3 \<longrightarrow> new = old)) (ServiceError ''RETIREMENT_AUTHORITY_ORDER'')))))))"

definition grant_shape :: "pyval \<Rightarrow> unit res" where
  "grant_shape body =
     bindE (sp_keys body (key_range 9)) (\<lambda>_.
     bindE (ru_version body) (\<lambda>_.
     bindE (bindE (item_at body 2) (\<lambda>a. any_to (ServiceError ''RETIREMENT_SCHEMA'') (authority_from a))) (\<lambda>_.
     bindE (each_sized sp_error body [3, 4, 5, 6, 7]) (\<lambda>_.
       field_is (ServiceError ''RETIREMENT_SCHEMA'') body 8 (PStr (cps ''RETIRE_STAGING_ONLY''))))))"

definition ru_grant :: "sodium \<Rightarrow> pyval \<Rightarrow> pyval res" where
  "ru_grant n raw =
     bindE (ru_load raw) (\<lambda>outer.
     bindE (sp_keys outer [0, 1]) (\<lambda>_.
     bindE (bindE (item_at outer 0) ru_load) (\<lambda>body.
     bindE (grant_shape body) (\<lambda>_.
     bindE (bindE (item_at body 2) authority_from) (\<lambda>a.
       ru_verified n raw ''grant'' (ka_issuer a))))))"

definition issue_grant :: "sodium \<Rightarrow> bytes \<Rightarrow> k_authority \<Rightarrow> pyval \<Rightarrow> pyval \<Rightarrow> pyval \<Rightarrow> bytes res" where
  "issue_grant n issuer_seed authority keeper start nonce =
     bindE (ru_origin n start) (\<lambda>(body, cap).
     bindE (authority_body authority) (\<lambda>current.
     bindE (bindE (item_at cap 2) (\<lambda>old. authority_order old current)) (\<lambda>_.
     bindE (sp_fixed keeper 32) (\<lambda>_.
     bindE (sp_fixed nonce 32) (\<lambda>_.
     bindE (item_at cap 3) (\<lambda>cap3.
     bindE (need (keeper = cap3) (ServiceError ''RETIREMENT_GRANT_AUTH'')) (\<lambda>_.
     bindE (p_sign_public n issuer_seed) (\<lambda>pk.
     bindE (need (PBytes pk = ka_issuer authority) (ServiceError ''RETIREMENT_GRANT_AUTH'')) (\<lambda>_.
     bindE (item_at cap 4) (\<lambda>cap4.
     bindE (token_for n start) (\<lambda>tok.
     bindE (ru_digest start) (\<lambda>d.
     let g = mk_dict [(0, PInt 1), (1, RU_PROFILE), (2, current), (3, keeper), (4, cap4), (5, PBytes tok), (6, PBytes d),
       (7, nonce), (8, PStr (cps ''RETIRE_STAGING_ONLY''))] in
     bindE (grant_shape g) (\<lambda>_. ru_signed n issuer_seed ''grant'' g)))))))))))))"

definition ru_make_request :: "sodium \<Rightarrow> bytes \<Rightarrow> pyval \<Rightarrow> pyval \<Rightarrow> bytes res" where
  "ru_make_request n subject_seed g operation =
     bindE (ru_grant n g) (\<lambda>body.
     bindE (sp_fixed operation 32) (\<lambda>_.
     bindE (p_sign_public n subject_seed) (\<lambda>pk.
     bindE (field_is (ServiceError ''RETIREMENT_SUBJECT'') body 4 (PBytes pk)) (\<lambda>_.
       ru_signed n subject_seed ''request''
         (mk_dict [(0, PInt 1), (1, RU_PROFILE), (2, g), (3, operation), (4, PBool True)])))))"

definition inspect_request :: "sodium \<Rightarrow> pyval \<Rightarrow> (pyval \<times> pyval \<times> pyval) res" where
  "inspect_request n raw =
     bindE (ru_load raw) (\<lambda>outer.
     bindE (sp_keys outer [0, 1]) (\<lambda>_.
     bindE (bindE (item_at outer 0) ru_load) (\<lambda>request.
     bindE (sp_keys request (key_range 5)) (\<lambda>_.
     bindE (ru_version request) (\<lambda>_.
     bindE (each_sized sp_error request [3]) (\<lambda>_.
     bindE (field_is (ServiceError ''RETIREMENT_ACK_REQUIRED'') request 4 (PBool True)) (\<lambda>_.
     bindE (bindE (item_at request 2) (ru_grant n)) (\<lambda>g.
     bindE (bindE (item_at g 4) (ru_verified n raw ''request'')) (\<lambda>_.
       Inr (request, outer, g))))))))))"

definition ru_check_request ::
  "sodium \<Rightarrow> pyval \<Rightarrow> pyval \<Rightarrow> pyval \<Rightarrow> k_authority option \<Rightarrow> (pyval \<times> pyval \<times> pyval) res" where
  "ru_check_request n raw start keeper authority =
     bindE (inspect_request n raw) (\<lambda>(request, outer, g).
     bindE (ru_origin n start) (\<lambda>(body, cap).
     bindE (sp_fixed keeper 32) (\<lambda>_.
     bindE (mapE (item_at g) [3, 4, 5, 6]) (\<lambda>gs.
     bindE (item_at cap 4) (\<lambda>cap4.
     bindE (token_for n start) (\<lambda>tok.
     bindE (ru_digest start) (\<lambda>d.
     bindE (item_at cap 3) (\<lambda>cap3.
     bindE (need (gs = [keeper, cap4, PBytes tok, PBytes d] \<and> keeper = cap3) (ServiceError ''RETIREMENT_SCOPE'')) (\<lambda>_.
     bindE (item_at cap 2) (\<lambda>cap2. bindE (item_at g 2) (\<lambda>g2.
     bindE (authority_order cap2 g2) (\<lambda>_.
     bindE (case authority of None \<Rightarrow> Inr ()
       | Some a \<Rightarrow> bindE (authority_body a) (\<lambda>b. need (g2 = b) (ServiceError ''STALE_AUTHORITY''))) (\<lambda>_.
       Inr (request, outer, g))))))))))))))"

definition request_id :: "sodium \<Rightarrow> pyval \<Rightarrow> bytes res" where
  "request_id n raw =
     bindE (inspect_request n raw) (\<lambda>(request, _, g).
     bindE (item_at g 3) (\<lambda>g3. bindE (item_at g 4) (\<lambda>g4. bindE (item_at request 3) (\<lambda>r3.
       hashed ''keeper-upload-retire-local/operation'' [g3, g4, r3]))))"

section \<open>Replay windows\<close>

definition UW_PROFILE :: pyval where "UW_PROFILE = PStr (cps ''upload-replay-window-local-v1'')"
definition MAX_WINDOWS :: int where "MAX_WINDOWS = 64"
definition MAX_ARCHIVE :: nat where "MAX_ARCHIVE = 16 * 1024 * 1024"
definition MAX_CONTROL :: int where "MAX_CONTROL = 262144"

definition uw_dump :: "pyval \<Rightarrow> int \<Rightarrow> bytes res" where "uw_dump v maximum = sp_dump v maximum"
definition uw_load :: "pyval \<Rightarrow> int \<Rightarrow> pyval res" where "uw_load b maximum = sp_load b maximum"

definition uw_digest :: "pyval \<Rightarrow> bytes res" where
  "uw_digest v = (case v of
     PBytes b \<Rightarrow> if b = [] \<or> MAX_ARCHIVE < length b then Inl (ServiceError ''WINDOW_SCHEMA'')
       else hashed ''upload-replay-window-local/bytes'' [PInt (int (length b)), PBytes (sha256 b)]
   | _ \<Rightarrow> Inl (ServiceError ''WINDOW_SCHEMA''))"

definition uw_signed :: "sodium \<Rightarrow> bytes \<Rightarrow> string \<Rightarrow> pyval \<Rightarrow> int \<Rightarrow> bytes res" where
  "uw_signed n seed label body maximum = env_signed sp_error maximum ''upload-replay-window-local/'' n seed label body"

definition uw_unpack :: "pyval \<Rightarrow> int \<Rightarrow> (pyval \<times> pyval) res" where
  "uw_unpack raw maximum =
     bindE (uw_load raw maximum) (\<lambda>outer.
     bindE (sp_keys outer [0, 1]) (\<lambda>_.
     bindE (bindE (item_at outer 1) (\<lambda>s. sp_fixed s 64)) (\<lambda>_.
     bindE (item_at outer 0) (\<lambda>o0.
     bindE (need (is_bytes o0) (ServiceError ''WINDOW_SCHEMA'')) (\<lambda>_.
     bindE (uw_load o0 maximum) (\<lambda>body. Inr (body, outer)))))))"

definition uw_verified :: "sodium \<Rightarrow> pyval \<Rightarrow> string \<Rightarrow> pyval \<Rightarrow> int \<Rightarrow> pyval res" where
  "uw_verified n raw label public maximum =
     bindE (uw_unpack raw maximum) (\<lambda>(b, o').
     bindE (sp_fixed public 32) (\<lambda>_.
     bindE (env_verify (ServiceError ''WINDOW_SIGNATURE'') ''upload-replay-window-local/'' n public o' label) (\<lambda>_.
       Inr b)))"

definition uw_version :: "pyval \<Rightarrow> unit res" where
  "uw_version b =
     bindE (bindE (item_at b 0) (\<lambda>x. sp_integer x 1 1)) (\<lambda>_. field_is (ServiceError ''WINDOW_SCHEMA'') b 1 UW_PROFILE)"

definition check_window :: "sodium \<Rightarrow> pyval \<Rightarrow> pyval res" where
  "check_window n raw =
     bindE (uw_unpack raw MAX_CONTROL) (\<lambda>(b, _).
     bindE (sp_keys b (key_range 8)) (\<lambda>_.
     bindE (uw_version b) (\<lambda>_.
     bindE (bindE (item_at b 2) (\<lambda>x. any_to (ServiceError ''WINDOW_SCHEMA'') (authority_from x))) (\<lambda>a.
     bindE (each_sized sp_error b [3, 4, 6]) (\<lambda>_.
     bindE (item_at b 5) (\<lambda>b5. bindE (sp_integer b5 1 MAX_WINDOWS) (\<lambda>_.
     bindE (item_at b 7) (\<lambda>b7.
     bindE (if b5 = PInt 1 then need (b7 = PNone) (ServiceError ''WINDOW_ORDER'') else sp_fixed b7 32) (\<lambda>_.
     bindE (uw_verified n raw ''open'' (ka_issuer a) MAX_CONTROL) (\<lambda>_. Inr b))))))))))"

definition make_window ::
  "sodium \<Rightarrow> bytes \<Rightarrow> k_authority \<Rightarrow> pyval \<Rightarrow> pyval \<Rightarrow> pyval \<Rightarrow> pyval \<Rightarrow> pyval \<Rightarrow> bytes res" where
  "make_window n seed authority keeper store sequence nonce previous =
     bindE (p_sign_public n seed) (\<lambda>pk.
     bindE (need (PBytes pk = ka_issuer authority) (ServiceError ''WINDOW_ISSUER'')) (\<lambda>_.
     bindE (authority_body authority) (\<lambda>a.
     bindE (uw_signed n seed ''open'' (mk_dict [(0, PInt 1), (1, UW_PROFILE), (2, a), (3, keeper), (4, store), (5, sequence),
       (6, nonce), (7, previous)]) MAX_CONTROL) (\<lambda>raw.
     bindE (check_window n (PBytes raw)) (\<lambda>_. Inr raw)))))"

text \<open>Subject, keeper and authority of an inner command.\<close>

definition uw_subject :: "sodium \<Rightarrow> pyval \<Rightarrow> pyval \<Rightarrow> (pyval \<times> pyval \<times> pyval) res" where
  "uw_subject n kind inner =
     (if kind = PStr (cps ''execute'') then
        bindE (check_command n inner) (\<lambda>b.
        bindE (bindE (item_at b 4) kc_split) (\<lambda>(cap, _).
        bindE (item_at b 2) (\<lambda>b2.
        bindE (if b2 = PStr (cps ''begin'') then bindE (ru_origin n inner) (\<lambda>_. Inr ()) else Inr ()) (\<lambda>_.
        bindE (item_at cap 4) (\<lambda>s. bindE (item_at cap 3) (\<lambda>k. bindE (item_at cap 2) (\<lambda>a. Inr (s, k, a))))))))
      else if kind = PStr (cps ''retire'') \<or> kind = PStr (cps ''rebind'') then
        bindE (inspect_request n inner) (\<lambda>(_, _, g).
        bindE (item_at g 4) (\<lambda>s. bindE (item_at g 3) (\<lambda>k. bindE (item_at g 2) (\<lambda>a. Inr (s, k, a)))))
      else Inl (ServiceError ''WINDOW_METHOD''))"

definition uw_check_command :: "sodium \<Rightarrow> pyval \<Rightarrow> pyval \<Rightarrow> pyval res" where
  "uw_check_command n window raw =
     bindE (check_window n window) (\<lambda>w.
     bindE (uw_unpack raw MAX_CONTROL) (\<lambda>(b, _).
     bindE (sp_keys b (key_range 6)) (\<lambda>_.
     bindE (uw_version b) (\<lambda>_.
     bindE (each_sized sp_error b [2, 5]) (\<lambda>_.
     bindE (item_at b 3) (\<lambda>b3.
     bindE (need (case b3 of PStr _ \<Rightarrow> True | _ \<Rightarrow> False) (ServiceError ''WINDOW_SCHEMA'')) (\<lambda>_.
     bindE (item_at b 4) (\<lambda>b4.
     bindE (uw_subject n b3 b4) (\<lambda>(subject, keeper, authority).
     bindE (uw_digest window) (\<lambda>d.
     bindE (item_at b 2) (\<lambda>b2. bindE (item_at b 5) (\<lambda>b5. bindE (item_at w 3) (\<lambda>w3.
     bindE (list_of authority) (\<lambda>as. bindE (bindE (item_at w 2) list_of) (\<lambda>ws.
     bindE (need (b2 = PBytes d \<and> b5 = subject \<and> keeper = w3 \<and> take 2 as = take 2 ws) (ServiceError ''WINDOW_SCOPE'')) (\<lambda>_.
     bindE (uw_verified n raw ''command'' subject MAX_CONTROL) (\<lambda>_. Inr b)))))))))))))))))"

definition wrap_command :: "sodium \<Rightarrow> bytes \<Rightarrow> pyval \<Rightarrow> pyval \<Rightarrow> pyval \<Rightarrow> bytes res" where
  "wrap_command n seed window kind inner =
     bindE (check_window n window) (\<lambda>w.
     bindE (uw_subject n kind inner) (\<lambda>(subject, _, _).
     bindE (p_sign_public n seed) (\<lambda>pk.
     bindE (need (PBytes pk = subject) (ServiceError ''WINDOW_SUBJECT'')) (\<lambda>_.
     bindE (uw_digest window) (\<lambda>d.
     bindE (uw_signed n seed ''command'' (mk_dict [(0, PInt 1), (1, UW_PROFILE), (2, PBytes d), (3, kind), (4, inner), (5, subject)])
       MAX_CONTROL) (\<lambda>raw.
     bindE (uw_check_command n window (PBytes raw)) (\<lambda>_. Inr raw)))))))"

definition check_close :: "sodium \<Rightarrow> pyval \<Rightarrow> pyval \<Rightarrow> pyval \<Rightarrow> pyval res" where
  "check_close n window raw archive_hash =
     bindE (check_window n window) (\<lambda>w.
     bindE (uw_unpack raw MAX_CONTROL) (\<lambda>(b, _).
     bindE (sp_keys b (key_range 8)) (\<lambda>_.
     bindE (uw_version b) (\<lambda>_.
     bindE (item_at b 2) (\<lambda>b2. bindE (any_to (ServiceError ''WINDOW_SCHEMA'') (authority_from b2)) (\<lambda>a.
     bindE (each_sized sp_error b [3, 4, 6, 7]) (\<lambda>_.
     bindE (bindE (item_at b 5) (\<lambda>x. sp_integer x 1 MAX_WINDOWS)) (\<lambda>_.
     bindE (bindE (item_at w 2) (\<lambda>w2. authority_order w2 b2)) (\<lambda>_.
     bindE (uw_digest window) (\<lambda>d.
     bindE (mapE (item_at b) [3, 4, 5]) (\<lambda>bs. bindE (item_at w 4) (\<lambda>w4. bindE (item_at w 5) (\<lambda>w5.
     bindE (need (bs = [PBytes d, w4, w5]) (ServiceError ''WINDOW_SCOPE'')) (\<lambda>_.
     bindE (item_at b 6) (\<lambda>b6.
     bindE (need (archive_hash = PNone \<or> b6 = archive_hash) (ServiceError ''ARCHIVE_CHANGED'')) (\<lambda>_.
     bindE (uw_verified n raw ''close'' (ka_issuer a) MAX_CONTROL) (\<lambda>_. Inr b)))))))))))))))))"

section \<open>Archives\<close>

definition archive_magic :: bytes where
  "archive_magic = map byte (cps ''PARWA1'' @ [0])"

definition hex_char :: "nat \<Rightarrow> bool" where
  "hex_char c \<longleftrightarrow> (48 \<le> c \<and> c \<le> 57) \<or> (97 \<le> c \<and> c \<le> 102)"

definition hex_value :: "nat \<Rightarrow> nat" where
  "hex_value c = (if c \<le> 57 then c - 48 else c - 87)"

fun fromhex :: "pystr \<Rightarrow> bytes" where
  "fromhex (a # b # cs) = byte (16 * hex_value a + hex_value b) # fromhex cs"
| "fromhex _ = []"

text \<open>\<^verbatim>\<open>(live/[0-9a-f]{64}\.(cbor|retirement)|bindings/[0-9a-f]{64}\.bound)\<close>: token and extension.\<close>

definition archive_name :: "pystr \<Rightarrow> (pystr \<times> string) option" where
  "archive_name s =
     (let parts = (\<lambda>dir. drop (length dir) s);
          tok = (\<lambda>dir. take 64 (parts dir)); rest = (\<lambda>dir. drop 64 (parts dir));
          ok = (\<lambda>dir ext. take (length dir) s = cps dir \<and> length (tok dir) = 64 \<and> list_all hex_char (tok dir) \<and> rest dir = cps (''.'' @ ext)) in
      if ok ''live/'' ''cbor'' then Some (tok ''live/'', ''cbor'')
      else if ok ''live/'' ''retirement'' then Some (tok ''live/'', ''retirement'')
      else if ok ''bindings/'' ''bound'' then Some (tok ''bindings/'', ''bound'')
      else None)"

abbreviation archive_error :: "string \<Rightarrow> 'a res" where "archive_error c \<equiv> Inl (ServiceError c)"

text \<open>The framing loop: one manifest row takes the next bytes of the archive.\<close>

type_synonym archive_file = "pyval list \<times> bytes"

definition take_file :: "bytes \<Rightarrow> pyval \<Rightarrow> nat \<times> archive_file list \<Rightarrow> (nat \<times> archive_file list) res" where
  "take_file raw e st = (case e of
     PList row \<Rightarrow>
       if length row \<noteq> 5 then archive_error ''ARCHIVE_SCHEMA''
       else bindE (sp_integer (row ! 1) 1 MAX_CONTROL) (\<lambda>_.
         let sz = nat (int_of (row ! 1)); offset = fst st in
         if offset + sz > length raw then archive_error ''ARCHIVE_SCHEMA''
         else Inr (offset + sz, snd st @ [(row, take sz (drop offset raw))]))
   | _ \<Rightarrow> archive_error ''ARCHIVE_SCHEMA'')"

type_synonym archive_groups = "(pystr \<times> (string \<times> bytes) list) list"

definition group_add :: "archive_groups \<Rightarrow> pystr \<Rightarrow> string \<Rightarrow> bytes \<Rightarrow> archive_groups" where
  "group_add gs tok ext data = (case map_of gs tok of
     None \<Rightarrow> gs @ [(tok, [(ext, data)])]
   | Some fs \<Rightarrow> map (\<lambda>(t, f). if t = tok then (t, f @ [(ext, data)]) else (t, f)) gs)"

definition take_entry :: "archive_file \<Rightarrow> archive_groups \<times> pystr list \<Rightarrow> (archive_groups \<times> pystr list) res" where
  "take_entry f st = (case f of (row, data) \<Rightarrow> case row of
     [name, sz, sha, dev, ino] \<Rightarrow> (case name of
       PStr s \<Rightarrow> (case archive_name s of
         None \<Rightarrow> archive_error ''ARCHIVE_PATH''
       | Some (tok, ext) \<Rightarrow>
           bindE (sp_integer sz 1 MAX_CONTROL) (\<lambda>_.
           bindE (sp_fixed sha 32) (\<lambda>_.
           bindE (sp_integer dev 0 (2 ^ 64 - 1)) (\<lambda>_.
           bindE (sp_integer ino 0 (2 ^ 64 - 1)) (\<lambda>_.
           bindE (need (PInt (int (length data)) = sz \<and> PBytes (sha256 data) = sha) (ServiceError ''ARCHIVE_HASH'')) (\<lambda>_.
           bindE (need (case map_of (fst st) tok of Some fs \<Rightarrow> ext \<notin> fst ` set fs | None \<Rightarrow> True)
             (ServiceError ''ARCHIVE_DUPLICATE'')) (\<lambda>_.
             Inr (group_add (fst st) tok ext data, snd st @ [s]))))))))
     | _ \<Rightarrow> archive_error ''ARCHIVE_PATH'')
   | _ \<Rightarrow> archive_error ''ARCHIVE_SCHEMA'')"

text \<open>A committed stage: its final command finishes the origin it started from.\<close>

definition check_committed :: "sodium \<Rightarrow> bytes \<Rightarrow> pyval \<Rightarrow> pyval \<Rightarrow> (string \<times> bytes) list \<Rightarrow> unit res" where
  "check_committed n t origin m files =
     bindE (need (set (map fst files) = {''bound'', ''cbor''}) (ServiceError ''ARCHIVE_SET'')) (\<lambda>_.
     bindE (bindE (item_at m 6) (check_command n)) (\<lambda>f.
     bindE (each_sized sp_error m [7]) (\<lambda>_.
     bindE (bindE (item_at origin 7) list_of) (\<lambda>payload.
     bindE (mapE (item_at m) [3, 4]) (\<lambda>ms.
     bindE (need (ms = [payload ! 2, payload ! 3]) (ServiceError ''ARCHIVE_TERMINAL'')) (\<lambda>_.
     let reserve = (payload ! 0 = PStr (cps ''index''));
         action = (if reserve then PStr (cps ''reserve'') else PStr (cps ''put'')) in
     bindE (mapE (item_at f) [2, 4, 6]) (\<lambda>fs.
     bindE (mapE (item_at origin) [4, 6]) (\<lambda>os.
     bindE (need (fs = action # os) (ServiceError ''ARCHIVE_TERMINAL'')) (\<lambda>_.
     bindE (item_at f 7) (\<lambda>f7.
     bindE (if reserve then item_at f7 0 else Inr f7) (\<lambda>tok.
     bindE (need (tok = PBytes t) (ServiceError ''ARCHIVE_TERMINAL'')) (\<lambda>_.
       if reserve then Inr ()
       else bindE (item_at m 7) (\<lambda>m7. bindE (item_at f 5) (\<lambda>f5. bindE (item_at origin 5) (\<lambda>o5.
         need (m7 = payload ! 1 \<and> f5 = o5) (ServiceError ''ARCHIVE_TERMINAL''))))))))))))))))"

text \<open>One retirement request of a journal: a fresh request identifier, and an authority strictly after the last one.\<close>

definition take_rebind ::
  "sodium \<Rightarrow> pyval \<Rightarrow> pyval \<Rightarrow> pyval \<Rightarrow> pyval option \<times> bytes list \<Rightarrow> (pyval option \<times> bytes list) res" where
  "take_rebind n start keeper q st =
     bindE (ru_check_request n q start keeper None) (\<lambda>(_, _, g).
     bindE (request_id n q) (\<lambda>rid.
     bindE (need (rid \<notin> set (snd st)) (ServiceError ''ARCHIVE_TERMINAL'')) (\<lambda>_.
     bindE (item_at g 2) (\<lambda>g2.
     bindE (case fst st of None \<Rightarrow> Inr ()
       | Some previous \<Rightarrow>
           bindE (authority_order previous g2) (\<lambda>_.
           bindE (int_at g2 3) (\<lambda>g3. bindE (int_at previous 3) (\<lambda>p3.
             need (p3 < g3) (ServiceError ''ARCHIVE_TERMINAL''))))) (\<lambda>_.
       Inr (Some g2, rid # snd st))))))"

text \<open>A retired stage: its journal lists the authorised requests and carries the keeper's receipt.\<close>

definition check_retired :: "sodium \<Rightarrow> pyval \<Rightarrow> bytes \<Rightarrow> pyval \<Rightarrow> pyval \<Rightarrow> (string \<times> bytes) list \<Rightarrow> unit res" where
  "check_retired n keeper t origin m files =
     bindE (mapE (item_at m) [6, 7]) (\<lambda>ends.
     bindE (need (set (map fst files) = {''bound'', ''cbor'', ''retirement''} \<and> ends = [PNone, PNone]) (ServiceError ''ARCHIVE_TERMINAL'')) (\<lambda>_.
     bindE (ru_verified n (PBytes (the (map_of files ''retirement''))) ''journal'' keeper) (\<lambda>j.
     bindE (sp_keys j (key_range 10)) (\<lambda>_.
     bindE (ru_version j) (\<lambda>_.
     bindE (mapE (item_at j) [2, 3, 4, 6, 8]) (\<lambda>js.
     bindE (ru_digest (PBytes (the (map_of files ''cbor'')))) (\<lambda>d.
     bindE (bindE (item_at origin 7) (\<lambda>p. item_at p 2)) (\<lambda>sz.
     bindE (need (js = [keeper, PBytes t, PBytes d, PStr (cps ''TOMBSTONED''), sz]) (ServiceError ''ARCHIVE_TERMINAL'')) (\<lambda>_.
     bindE (item_at j 5) (\<lambda>j5. case j5 of PList qs \<Rightarrow>
       bindE (need (1 \<le> length qs \<and> length qs \<le> MAX_REBINDS) (ServiceError ''ARCHIVE_TERMINAL'')) (\<lambda>_.
       bindE (item_at m 2) (\<lambda>m2.
       bindE (foldE (take_rebind n m2 keeper) qs (None, [])) (\<lambda>_.
       bindE (mapE (item_at m) [3, 4]) (\<lambda>ms.
       bindE (item_at j 7) (\<lambda>j7. case j7 of PList cs \<Rightarrow>
         bindE (need (length cs = 4 \<and> drop 2 cs = ms) (ServiceError ''ARCHIVE_TERMINAL'')) (\<lambda>_.
         bindE (allE (\<lambda>v. sp_integer v 0 (2 ^ 64 - 1)) (take 3 cs)) (\<lambda>_.
         bindE (bindE (item_at j 9) (\<lambda>r. ru_verified n r ''receipt'' keeper)) (\<lambda>body.
         bindE (ru_digest (last qs)) (\<lambda>lastd.
         bindE (item_at j 8) (\<lambda>j8.
         bindE (ru_dump body) (\<lambda>b1.
         bindE (ru_dump (mk_dict [(0, PInt 1), (1, RU_PROFILE), (2, keeper), (3, PBytes t), (4, PBytes lastd), (5, j8), (6, cs ! 2),
           (7, PStr (cps ''TOMBSTONED'')), (8, PBool False), (9, PBool False), (10, PBool False)])) (\<lambda>b2.
           need (b1 = b2) (ServiceError ''ARCHIVE_TERMINAL''))))))))
       | _ \<Rightarrow> archive_error ''ARCHIVE_TERMINAL'')))))
     | _ \<Rightarrow> archive_error ''ARCHIVE_TERMINAL''))))))))))"

definition check_group :: "sodium \<Rightarrow> pyval \<Rightarrow> pyval \<Rightarrow> pystr \<times> (string \<times> bytes) list \<Rightarrow> unit res" where
  "check_group n window keeper g = (case g of (tok, files) \<Rightarrow>
     (case (map_of files ''bound'', map_of files ''cbor'') of
       (Some bound_raw, Some cbor_raw) \<Rightarrow>
         bindE (uw_check_command n window (PBytes bound_raw)) (\<lambda>bound.
         bindE (field_is (ServiceError ''ARCHIVE_SET'') bound 3 (PStr (cps ''execute''))) (\<lambda>_.
         bindE (item_at bound 4) (\<lambda>inner.
         bindE (ru_origin n inner) (\<lambda>(origin, cap).
         let t = fromhex tok in
         bindE (uw_load (PBytes cbor_raw) MAX_CONTROL) (\<lambda>m.
         bindE (sp_keys m (key_range 8)) (\<lambda>_.
         bindE (bindE (item_at m 0) (\<lambda>x. sp_integer x 1 1)) (\<lambda>_.
         bindE (field_is (ServiceError ''ARCHIVE_ORIGIN'') origin 2 (PStr (cps ''begin''))) (\<lambda>_.
         bindE (mapE (item_at m) [1, 2]) (\<lambda>ms.
         bindE (need (ms = [PBytes t, inner]) (ServiceError ''ARCHIVE_ORIGIN'')) (\<lambda>_.
         bindE (token_for n inner) (\<lambda>tok'.
         bindE (need (tok' = t) (ServiceError ''ARCHIVE_ORIGIN'')) (\<lambda>_.
         bindE (bindE (item_at origin 7) (\<lambda>p. int_at p 2)) (\<lambda>sz.
         bindE (bindE (item_at m 3) (\<lambda>x. sp_integer x 0 sz)) (\<lambda>_.
         bindE (each_sized sp_error m [4]) (\<lambda>_.
         bindE (item_at m 5) (\<lambda>state.
           if state = PStr (cps ''committed'') then check_committed n t origin m files
           else if state = PStr (cps ''active'') then check_retired n keeper t origin m files
           else archive_error ''ARCHIVE_TERMINAL''))))))))))))))))
     | _ \<Rightarrow> archive_error ''ARCHIVE_SET''))"

text \<open>The manifest of an archive and the files behind it.\<close>

definition archive_frame :: "sodium \<Rightarrow> pyval \<Rightarrow> bytes \<Rightarrow> (pyval \<times> archive_file list) res" where
  "archive_frame n keeper raw =
     bindE (need (11 \<le> length raw \<and> length raw \<le> MAX_ARCHIVE \<and> take 7 raw = archive_magic) (ServiceError ''ARCHIVE_SCHEMA'')) (\<lambda>_.
     let k = from_bytes (take 4 (drop 7 raw)) in
     bindE (need (1 \<le> k \<and> k \<le> 900000 \<and> 11 + k \<le> length raw) (ServiceError ''ARCHIVE_SCHEMA'')) (\<lambda>_.
     bindE (uw_verified n (PBytes (take k (drop 11 raw))) ''archive'' keeper 900000) (\<lambda>b.
     bindE (sp_keys b (key_range 7)) (\<lambda>_.
     bindE (uw_version b) (\<lambda>_.
     bindE (bindE (item_at b 4) (\<lambda>x. sp_integer x 1 MAX_WINDOWS)) (\<lambda>_.
     bindE (item_at b 5) (\<lambda>b5. case b5 of PList rows \<Rightarrow>
       bindE (need (length rows \<le> 3072) (ServiceError ''ARCHIVE_SCHEMA'')) (\<lambda>_.
       bindE (foldE (take_file raw) rows (11 + k, [])) (\<lambda>(offset, files).
       bindE (need (offset = length raw) (ServiceError ''ARCHIVE_SCHEMA'')) (\<lambda>_. Inr (b, files))))
     | _ \<Rightarrow> archive_error ''ARCHIVE_SCHEMA'')))))))"

text \<open>The result carries the manifest, whose field 5 the code replaces by the rows with their bytes: the second component.\<close>

definition check_archive :: "sodium \<Rightarrow> bytes \<Rightarrow> pyval \<Rightarrow> (pyval \<times> archive_file list) res" where
  "check_archive n raw window =
     bindE (check_window n window) (\<lambda>w.
     bindE (item_at w 3) (\<lambda>keeper.
     bindE (archive_frame n keeper raw) (\<lambda>(b, files).
     bindE (uw_digest window) (\<lambda>d.
     bindE (mapE (item_at b) [2, 3, 4]) (\<lambda>bs. bindE (item_at w 4) (\<lambda>w4. bindE (item_at w 5) (\<lambda>w5.
     bindE (need (bs = [PBytes d, w4, w5]) (ServiceError ''WINDOW_SCOPE'')) (\<lambda>_.
     bindE (item_at b 6) (\<lambda>b6. bindE (sp_integer b6 0 1024) (\<lambda>_.
     bindE (foldE take_entry files ([], [])) (\<lambda>(groups, names).
     bindE (need (sorted_names names \<and> PInt (int (length groups)) = b6) (ServiceError ''ARCHIVE_SET'')) (\<lambda>_.
     bindE (allE (check_group n window keeper) groups) (\<lambda>_.
       Inr (b, files))))))))))))))"

definition approve_close :: "sodium \<Rightarrow> bytes \<Rightarrow> k_authority \<Rightarrow> pyval \<Rightarrow> bytes \<Rightarrow> pyval \<Rightarrow> bytes res" where
  "approve_close n seed authority window archive operation =
     bindE (check_window n window) (\<lambda>w.
     bindE (check_archive n archive window) (\<lambda>_.
     bindE (p_sign_public n seed) (\<lambda>pk.
     bindE (need (PBytes pk = ka_issuer authority) (ServiceError ''WINDOW_ISSUER'')) (\<lambda>_.
     bindE (authority_body authority) (\<lambda>a.
     bindE (uw_digest window) (\<lambda>d.
     bindE (item_at w 4) (\<lambda>w4. bindE (item_at w 5) (\<lambda>w5.
     bindE (uw_digest (PBytes archive)) (\<lambda>ad.
     bindE (uw_signed n seed ''close'' (mk_dict [(0, PInt 1), (1, UW_PROFILE), (2, a), (3, PBytes d), (4, w4), (5, w5),
       (6, PBytes ad), (7, operation)]) MAX_CONTROL) (\<lambda>raw.
     bindE (check_close n window (PBytes raw) PNone) (\<lambda>_. Inr raw)))))))))))"

text \<open>\<^verbatim>\<open>body[5]\<close> lists rows of five manifest fields and the file's bytes; the manifest fields 0 to 4 are \<open>front\<close> and field 6 is \<open>groups\<close>.\<close>

definition sign_archive :: "sodium \<Rightarrow> bytes \<Rightarrow> (int \<times> pyval) list \<Rightarrow> archive_file list \<Rightarrow> pyval \<Rightarrow> bytes res" where
  "sign_archive n seed front files groups =
     bindE (uw_signed n seed ''archive'' (mk_dict (front @ [(5, PList (map (\<lambda>f. PList (fst f)) files)), (6, groups)])) 900000) (\<lambda>header.
     let raw = archive_magic @ to_bytes 4 (length header) @ header @ concat (map snd files) in
     bindE (need (length raw \<le> MAX_ARCHIVE) (ServiceError ''ARCHIVE_CAPACITY'')) (\<lambda>_. Inr raw))"

end
