(* ===== verification/KeeperSamples.thy ===== *)
theory KeeperSamples
  imports Window
begin

text \<open>
  A concrete run of the keeper's contracts under the sample provider \<open>test_sodium\<close>: an authority, a capability, a call,
  a server's hello and an upload command. The witnesses of the keeper's properties use them.
\<close>

lemma sample_public: "length s = 32 \<Longrightarrow> p_sign_public test_sodium s = Inr s"
  by (simp add: p_sign_public_def fixed_def test_sodium_def)

lemma env_signed_sample:
  assumes b: "encode body mb MAX_NODES = Inr b" "length b \<le> 60000" "int (length b) + 100 \<le> mb" and mb: "mb \<le> MAX_BYTES"
    and l: "label_pattern (cps (prefix @ label))" "length (prefix @ label) \<le> 64" "list_all (\<lambda>c. c < 128) (cps (prefix @ label))"
    and seed: "length seed = 32"
  shows "\<exists>raw. env_signed e mb prefix test_sodium seed label body = Inr raw \<and> length raw \<le> length b + 100"
proof -
  obtain msg where msg: "c_domain (cps (prefix @ label)) [PBytes b] = Inr msg" "length msg \<le> 100000"
    using c_domain_sample [of "prefix @ label" "[PBytes b]"] l b(2) nhead_bound [of 2 "length b"] by force
  have sig: "p_sign test_sodium seed msg = Inr (seed @ replicate 32 0)"
    using msg(2) seed by (simp add: p_sign_def fixed_def bounded_def MAX_INPUT_def test_sodium_def)
  let ?o = "mk_dict [(0, PBytes b), (1, PBytes (seed @ replicate 32 0))]"
  have len: "length (cbor (canon ?o)) \<le> length b + 100" using nhead_bound [of 2 "length b"] seed
    by (simp add: mk_dict_def nhead_def [of 5] nhead_def [of 0] nhead_def [of 2 64])
  have "encode ?o mb MAX_NODES = Inr (cbor (canon ?o))"
    using b len mb seed by (simp add: encode_iff mk_dict_def budget_ok_def MAX_BYTES_def MAX_NODES_def MAX_DEPTH_def U64_def)
  then show ?thesis using b(1) msg(1) sig len by (simp add: env_signed_def env_dump_def)
qed

text \<open>A sample envelope with what its reader sees.\<close>

lemma env_sample:
  assumes b: "\<exists>b. encode body mb MAX_NODES = Inr b \<and> length b \<le> k" and k: "k \<le> 60000" "int k + 100 \<le> mb" "mb \<le> MAX_BYTES"
    and l: "label_pattern (cps (prefix @ label)) \<and> length (prefix @ label) \<le> 64 \<and> list_all (\<lambda>c. c < 128) (cps (prefix @ label))"
    and seed: "length seed = 32" and flat: "wf_py body" "canon body = body"
  shows "\<exists>raw outer. env_signed e mb prefix test_sodium seed label body = Inr raw \<and> length raw \<le> k + 100
    \<and> env_split el es mb (PBytes raw) = Inr (body, outer) \<and> env_verify ev prefix test_sodium (PBytes seed) outer label = Inr ()"
proof -
  obtain b where b: "encode body mb MAX_NODES = Inr b" "length b \<le> k" using b by blast
  have "length b \<le> 60000" "int (length b) + 100 \<le> mb" using b(2) k by simp_all
  then obtain raw where raw: "env_signed e mb prefix test_sodium seed label body = Inr raw" "length raw \<le> length b + 100"
    using env_signed_sample [OF b(1) _ _ k(3) conjunct1 [OF l] conjunct1 [OF conjunct2 [OF l]] conjunct2 [OF conjunct2 [OF l]] seed, of e] by blast
  have "length raw \<le> k + 100" using raw(2) b(2) by simp
  moreover obtain outer where "env_split el es mb (PBytes raw) = Inr (body, outer)"
      "env_verify ev prefix test_sodium (PBytes seed) outer label = Inr ()"
    using env_roundtrip [OF test_sodium_ok sample_public [OF seed] raw(1) flat] by blast
  ultimately show ?thesis using raw(1) by blast
qed

definition sample_issuer :: bytes where "sample_issuer = replicate 32 7"
definition sample_keeper :: bytes where "sample_keeper = replicate 32 3"

definition keeper_authority :: k_authority where
  "keeper_authority = \<lparr>ka_app = PStr (cps ''a.b''), ka_space = PBytes (replicate 32 1), ka_head = PBytes (replicate 32 2),
     ka_sequence = PInt 1, ka_epoch = PInt 1, ka_issuer = PBytes sample_issuer\<rparr>"

definition keeper_authority_body :: pyval where
  "keeper_authority_body = PList [PStr (cps ''a.b''), PBytes (replicate 32 1), PBytes (replicate 32 2), PInt 1, PInt 1, PBytes sample_issuer]"

lemma keeper_authority_ok: "authority_body keeper_authority = Inr keeper_authority_body"
  by (simp add: authority_body_def keeper_authority_def keeper_authority_body_def check_app_id_def lower_app_ok_def cps_def
      lower_label_def lower_digit_def kc_fixed_def kc_integer_def bytes_sized_def int_in_def I64_def sample_issuer_def)

definition sample_capability :: pyval where
  "sample_capability = mk_dict [(0, PInt 1), (1, KC_PROFILE), (2, keeper_authority_body), (3, PBytes sample_keeper),
     (4, PBytes sample_issuer), (5, PBytes (replicate 32 5)), (6, PList [PStr (cps ''get''), PStr (cps ''put'')]), (7, PInt 60),
     (8, PBytes (replicate 32 6))]"

lemma sample_simps [simp]: "length sample_issuer = 32" "length sample_keeper = 32" "ka_issuer keeper_authority = PBytes sample_issuer"
  by (simp_all add: sample_issuer_def sample_keeper_def keeper_authority_def)

lemmas sample_defs = keeper_authority_body_def sample_issuer_def sample_keeper_def

lemma sample_capability_encode: "\<exists>b. encode sample_capability MAX_CONTRACT MAX_NODES = Inr b \<and> length b \<le> 500"
  by (simp add: sample_capability_def sample_defs KC_PROFILE_def MAX_CONTRACT_def encode_iff mk_dict_def budget_ok_def
      MAX_BYTES_def MAX_NODES_def MAX_DEPTH_def U64_def)
    (simp add: nhead_def cps_def utf8_cp_def)


lemma sample_authority_from: "authority_from keeper_authority_body = Inr keeper_authority"
  using keeper_authority_ok by (simp add: authority_from_def keeper_authority_body_def keeper_authority_def)

lemma sample_capability_shape: "capability_shape sample_capability = Inr ()"
  using sample_authority_from
  by (simp add: capability_shape_def sample_capability_def kc_keys_def key_range_def upt_rec kc_integer_def int_in_def field_is_def
      each_sized_def bytes_sized_def sample_defs(2,3) kc_method_def KC_METHODS_def sorted_names_def sort_str_def cps_def MAX_SECONDS_def)

lemma sample_label:
  "list_all (\<lambda>l. label_pattern (cps l) \<and> length l \<le> 64 \<and> list_all (\<lambda>c. c < 128) (cps l))
     [''keeper-local/capability-sign'', ''keeper-local/request-sign'', ''keeper-local/capability-id'', ''keeper-local/request-payload'',
      ''keeper-upload-local/hello'', ''keeper-upload-local/command'', ''keeper-upload-local/request'', ''keeper-upload-local/bytes'',
      ''keeper-upload-local/stage'', ''keeper-upload-retire-local/grant'', ''keeper-upload-retire-local/request'',
      ''keeper-upload-retire-local/bytes'', ''keeper-upload-retire-local/operation'', ''upload-replay-window-local/open'',
      ''upload-replay-window-local/archive'', ''upload-replay-window-local/bytes'']"
  by (simp add: label_pattern_def lower_digit_def cps_def)

lemma hashed_sample:
  assumes "label_pattern (cps l) \<and> length l \<le> 64 \<and> list_all (\<lambda>c. c < 128) (cps l)"
    and "list_all (\<lambda>p. (\<exists>b. p = PBytes b) \<or> p = PInt 0 \<or> p = PInt 1 \<or> p = PStr (cps ''a.b'')) parts"
    and "length (concat (map cbor parts)) \<le> 80000"
  shows "\<exists>h. hashed l parts = Inr h \<and> length h = 32"
  using c_domain_sample [of l parts] assms by (auto simp: hashed_def)

lemma sample_capability_flat: "wf_py sample_capability" "canon sample_capability = sample_capability"
  by (simp_all add: sample_capability_def keeper_authority_body_def KC_PROFILE_def mk_dict_def)

lemma sample_issue: "\<exists>cap o'. issue_capability test_sodium sample_issuer keeper_authority (PBytes sample_keeper) (PBytes sample_issuer)
    (PBytes (replicate 32 5)) [PStr (cps ''put''), PStr (cps ''get'')] (PInt 60) (PBytes (replicate 32 6)) = Inr cap \<and> length cap \<le> 600
  \<and> kc_split (PBytes cap) = Inr (sample_capability, o')
  \<and> env_verify (KeeperError ''CAPABILITY_AUTH'') ''keeper-local/'' test_sodium (PBytes sample_issuer) o' ''capability-sign'' = Inr ()"
proof -
  have "\<exists>raw o'. kc_signed test_sodium sample_issuer ''capability-sign'' sample_capability = Inr raw \<and> length raw \<le> 500 + 100
    \<and> kc_split (PBytes raw) = Inr (sample_capability, o')
    \<and> env_verify (KeeperError ''CAPABILITY_AUTH'') ''keeper-local/'' test_sodium (PBytes sample_issuer) o' ''capability-sign'' = Inr ()"
    unfolding kc_signed_def kc_split_def
    by (rule env_sample [OF sample_capability_encode _ _ _ _ _ sample_capability_flat])
      (use sample_label in \<open>simp_all add: MAX_CONTRACT_def MAX_BYTES_def\<close>)
  moreover have "sort_str [cps ''put'', cps ''get''] = [cps ''get'', cps ''put'']" by (simp add: sort_str_def cps_def)
  ultimately show ?thesis using sample_capability_shape keeper_authority_ok
    by (auto simp add: issue_capability_def Let_def str_of_def sample_public simp flip: sample_capability_def)
qed

definition sample_call :: "bytes \<Rightarrow> bytes \<Rightarrow> pyval" where
  "sample_call cid pid = mk_dict [(0, PInt 1), (1, KC_PROFILE), (2, PBytes sample_keeper), (3, PBytes cid), (4, PBytes sample_issuer),
     (5, PStr (cps ''get'')), (6, PBytes (replicate 32 8)), (7, PBytes (replicate 32 9)), (8, PBytes pid)]"

lemma sample_call_facts:
  assumes "length cid = 32" "length pid = 32"
  shows "\<exists>b. encode (sample_call cid pid) MAX_CONTRACT MAX_NODES = Inr b \<and> length b \<le> 500" and "call_shape (sample_call cid pid) = Inr ()"
    and "wf_py (sample_call cid pid)" "canon (sample_call cid pid) = sample_call cid pid"
proof -
  show "\<exists>b. encode (sample_call cid pid) MAX_CONTRACT MAX_NODES = Inr b \<and> length b \<le> 500"
    using assms by (simp add: sample_call_def sample_defs KC_PROFILE_def MAX_CONTRACT_def encode_iff mk_dict_def budget_ok_def
      MAX_BYTES_def MAX_NODES_def MAX_DEPTH_def U64_def)
    (simp add: nhead_def cps_def utf8_cp_def)
  show "call_shape (sample_call cid pid) = Inr ()"
    using assms by (simp add: call_shape_def sample_call_def kc_keys_def key_range_def upt_rec kc_integer_def int_in_def field_is_def field_in_def
      each_sized_def bytes_sized_def sample_defs(2,3) KC_METHODS_def kc_fixed_def cps_def)
  show "wf_py (sample_call cid pid)" "canon (sample_call cid pid) = sample_call cid pid"
    by (simp_all add: sample_call_def KC_PROFILE_def mk_dict_def)
qed

lemma hashed_payload_sample: "\<exists>h. payload_id (PStr (cps ''get'')) PNone = Inr h \<and> length h = 32"
proof -
  have "kc_dump PNone = Inr [246]"
    by (simp add: kc_dump_def env_dump_def encode_iff budget_ok_def MAX_CONTRACT_def MAX_BYTES_def MAX_NODES_def MAX_DEPTH_def)
  moreover have "\<exists>d. c_domain (cps ''keeper-local/request-payload'') [PStr (cps ''get''), PBytes [246]] = Inr d \<and>
      length d \<le> 200 + length (concat (map cbor [PStr (cps ''get''), PBytes [246]]))"
    by (rule c_domain_Inr [where lb = "map byte (cps ''keeper-local/request-payload'')"])
      (simp_all add: label_pattern_def lower_digit_def cps_def utf8_cp_def U64_def nhead_def)
  ultimately show ?thesis by (auto simp: payload_id_def hashed_def)
qed

lemma sample_make_call:
  assumes "length cap \<le> 600" "kc_split (PBytes cap) = Inr (sample_capability, o')"
  shows "\<exists>call. make_call test_sodium sample_issuer (PBytes cap) (PStr (cps ''get'')) (PBytes (replicate 32 8)) (PBytes (replicate 32 9)) PNone = Inr call"
proof -
  obtain cid where cid: "capability_id (PBytes cap) = Inr cid" "length cid = 32"
    using hashed_sample [of "''keeper-local/capability-id''" "[PBytes cap]"] sample_label assms(1) nhead_bound [of 2 "length cap"]
    by (force simp: capability_id_def)
  obtain pid where pid: "payload_id (PStr (cps ''get'')) PNone = Inr pid" "length pid = 32" using hashed_payload_sample by blast
  note f = sample_call_facts [OF cid(2) pid(2)]
  have "\<exists>call outer. kc_signed test_sodium sample_issuer ''request-sign'' (sample_call cid pid) = Inr call \<and> length call \<le> 500 + 100
    \<and> kc_split (PBytes call) = Inr (sample_call cid pid, outer)
    \<and> env_verify (KeeperError ''REQUEST_AUTH'') ''keeper-local/'' test_sodium (PBytes sample_issuer) outer ''request-sign'' = Inr ()"
    unfolding kc_signed_def kc_split_def
    by (rule env_sample [OF f(1) _ _ _ _ _ f(3,4)]) (use sample_label in \<open>simp_all add: MAX_CONTRACT_def MAX_BYTES_def\<close>)
  then obtain call where "kc_signed test_sodium sample_issuer ''request-sign'' (sample_call cid pid) = Inr call" by blast
  moreover have "item_at sample_capability 4 = Inr (PBytes sample_issuer)" "item_at sample_capability 3 = Inr (PBytes sample_keeper)"
    by (simp_all add: sample_capability_def)
  ultimately show ?thesis using assms(2) sample_capability_shape cid(1) pid(1) f(2)
    by (simp add: make_call_def sample_public Let_def flip: sample_call_def)
qed

section \<open>Uploads\<close>

text \<open>The simplifier's view of the checks on a literal.\<close>

lemmas check_simps = sp_keys_def key_range_def upt_rec sp_integer_def int_in_def field_is_def field_in_def each_sized_def bytes_sized_def sp_fixed_def

lemmas encode_simps = encode_iff mk_dict_def budget_ok_def MAX_BYTES_def MAX_NODES_def MAX_DEPTH_def U64_def

definition sample_hello :: pyval where
  "sample_hello = greeting UP_PROFILE sample_keeper (PBytes (replicate 32 1)) (PBytes (replicate 32 2)) (PInt 1000)"

lemma sample_hello_ok: "\<exists>hello. up_make_hello test_sodium sample_keeper (PBytes (replicate 32 1)) (PBytes (replicate 32 2)) (PInt 1000) = Inr hello
    \<and> length hello \<le> 400 \<and> up_check_hello test_sodium (PBytes sample_keeper) (PBytes hello) = Inr sample_hello"
proof -
  have e: "\<exists>b. encode sample_hello MAX_HELLO MAX_NODES = Inr b \<and> length b \<le> 300"
    by (simp add: sample_hello_def greeting_def sample_keeper_def UP_PROFILE_def MAX_HELLO_def UP_MAX_REQUEST_def MAX_RESPONSE_def encode_simps)
      (simp add: nhead_def cps_def utf8_cp_def)
  have flat: "wf_py sample_hello" "canon sample_hello = sample_hello"
    by (simp_all add: sample_hello_def greeting_def UP_PROFILE_def mk_dict_def)
  have "\<exists>hello outer. up_signed test_sodium sample_keeper ''hello'' sample_hello MAX_HELLO = Inr hello \<and> length hello \<le> 300 + 100
    \<and> up_split (PBytes hello) MAX_HELLO = Inr (sample_hello, outer)
    \<and> env_verify (ServiceError ''SIGNATURE'') ''keeper-upload-local/'' test_sodium (PBytes sample_keeper) outer ''hello'' = Inr ()"
    unfolding up_signed_def up_split_def
    by (rule env_sample [OF e _ _ _ _ _ flat]) (use sample_label in \<open>simp_all add: MAX_HELLO_def MAX_BYTES_def\<close>)
  moreover have "sp_keys sample_hello (key_range 8) = Inr ()" "up_version sample_hello = Inr ()" "hello_fields sample_hello = Inr ()"
      "field_is (ServiceError ''REQUEST_SCOPE'') sample_hello 2 (PBytes sample_keeper) = Inr ()"
    by (simp_all add: sample_hello_def greeting_def up_version_def hello_fields_def check_simps sample_keeper_def)
  ultimately show ?thesis
    by (auto simp: up_make_hello_def up_check_hello_def up_verify_def sp_fixed_def sp_integer_def bytes_sized_def int_in_def sample_public
        simp flip: sample_hello_def)
qed

definition sample_begin :: "bytes \<Rightarrow> pyval" where
  "sample_begin cap = mk_dict [(0, PInt 1), (1, UP_PROFILE), (2, PStr (cps ''begin'')), (3, PBytes (replicate 32 4)), (4, PBytes cap), (5, PNone),
     (6, PNone), (7, PList [PStr (cps ''index''), PBytes (replicate 32 5), PInt 10, PBytes (replicate 32 10)])]"

abbreviation sample_make_begin :: "bytes \<Rightarrow> bytes res" where
  "sample_make_begin cap \<equiv> make_command test_sodium sample_issuer (PBytes cap) (PStr (cps ''begin'')) (PBytes (replicate 32 4)) PNone PNone
     (PList [PStr (cps ''index''), PBytes (replicate 32 5), PInt 10, PBytes (replicate 32 10)])"

lemma sample_begin_shape:
  assumes "kc_split (PBytes cap) = Inr (sample_capability, o')"
  shows "up_shape (sample_begin cap) = Inr sample_capability"
proof -
  have i: "item_at sample_capability 3 = Inr (PBytes sample_keeper)" "item_at sample_capability 4 = Inr (PBytes sample_issuer)"
    "item_at sample_capability 5 = Inr (PBytes (replicate 32 5))"
    by (simp_all add: sample_capability_def)
  have "up_action (PStr (cps ''begin'')) (PBytes (replicate 32 5)) PNone PNone
      (PList [PStr (cps ''index''), PBytes (replicate 32 5), PInt 10, PBytes (replicate 32 10)]) = Inr ()"
    by (simp add: up_action_def up_begin_def sp_fixed_def sp_integer_def bytes_sized_def int_in_def MAX_INDEX_def)
  then show ?thesis using assms i sample_capability_shape
    by (simp add: up_shape_def sample_begin_def up_version_def check_simps UP_METHODS_def)
qed

lemma sample_begin_ok:
  assumes "length cap \<le> 600" "kc_split (PBytes cap) = Inr (sample_capability, o')"
  shows "\<exists>cmd. sample_make_begin cap = Inr cmd \<and> length cmd \<le> 1100 \<and> check_command test_sodium (PBytes cmd) = Inr (sample_begin cap)"
proof -
  have e: "\<exists>b. encode (sample_begin cap) UP_MAX_REQUEST MAX_NODES = Inr b \<and> length b \<le> 1000"
    using assms(1) nhead_bound [of 2 "length cap"]
    by (simp add: sample_begin_def UP_PROFILE_def UP_MAX_REQUEST_def encode_simps nhead_def [of _ 32] nhead_def [of 0] nhead_def [of 3] nhead_def [of 5]
        nhead_def [of 4] cps_def utf8_cp_def)
  have flat: "wf_py (sample_begin cap)" "canon (sample_begin cap) = sample_begin cap"
    by (simp_all add: sample_begin_def UP_PROFILE_def mk_dict_def)
  have "\<exists>cmd outer. up_signed test_sodium sample_issuer ''command'' (sample_begin cap) UP_MAX_REQUEST = Inr cmd \<and> length cmd \<le> 1000 + 100
    \<and> up_split (PBytes cmd) UP_MAX_REQUEST = Inr (sample_begin cap, outer)
    \<and> env_verify (ServiceError ''SIGNATURE'') ''keeper-upload-local/'' test_sodium (PBytes sample_issuer) outer ''command'' = Inr ()"
    unfolding up_signed_def up_split_def
    by (rule env_sample [OF e _ _ _ _ _ flat]) (use sample_label in \<open>simp_all add: UP_MAX_REQUEST_def MAX_BYTES_def\<close>)
  moreover have "item_at sample_capability 4 = Inr (PBytes sample_issuer)" by (simp add: sample_capability_def)
  ultimately show ?thesis using sample_begin_shape [OF assms(2)]
    by (auto simp: make_command_def check_command_def up_verify_def sp_fixed_def bytes_sized_def field_is_def Let_def sample_public
        simp flip: sample_begin_def)
qed

lemma sample_request_ok:
  assumes cap: "kc_split (PBytes cap) = Inr (sample_capability, o')" and cmd: "length cmd \<le> 1100" "check_command test_sodium (PBytes cmd) = Inr (sample_begin cap)"
    and hello: "length hello \<le> 400" "up_check_hello test_sodium (PBytes sample_keeper) (PBytes hello) = Inr sample_hello"
  shows "\<exists>req. up_make_request test_sodium sample_issuer (PBytes hello) (PBytes cmd) = Inr req
    \<and> up_check_request test_sodium (PBytes sample_keeper) (PBytes hello) (PBytes req) = Inr (PBytes cmd)"
proof -
  obtain d where d: "up_digest (PBytes hello) = Inr d" "length d = 32"
    using hashed_sample [of "''keeper-upload-local/bytes''" "[PBytes hello]"] sample_label hello(1) nhead_bound [of 2 "length hello"]
    by (force simp: up_digest_def)
  let ?b = "mk_dict [(0, PInt 1), (1, UP_PROFILE), (2, PBytes d), (3, PBytes cmd)]"
  have e: "\<exists>b. encode ?b UP_MAX_REQUEST MAX_NODES = Inr b \<and> length b \<le> 1300"
    using cmd(1) d(2) nhead_bound [of 2 "length cmd"]
    by (simp add: UP_PROFILE_def UP_MAX_REQUEST_def encode_simps nhead_def [of _ 32] nhead_def [of 0] nhead_def [of 3] nhead_def [of 5] cps_def utf8_cp_def)
  have flat: "wf_py ?b" "canon ?b = ?b" by (simp_all add: UP_PROFILE_def mk_dict_def)
  have "\<exists>req outer. up_signed test_sodium sample_issuer ''request'' ?b UP_MAX_REQUEST = Inr req \<and> length req \<le> 1300 + 100
    \<and> up_split (PBytes req) UP_MAX_REQUEST = Inr (?b, outer)
    \<and> env_verify (ServiceError ''SIGNATURE'') ''keeper-upload-local/'' test_sodium (PBytes sample_issuer) outer ''request'' = Inr ()"
    unfolding up_signed_def up_split_def
    by (rule env_sample [OF e _ _ _ _ _ flat]) (use sample_label in \<open>simp_all add: UP_MAX_REQUEST_def MAX_BYTES_def\<close>)
  moreover have "item_at sample_capability 3 = Inr (PBytes sample_keeper)" "item_at sample_capability 4 = Inr (PBytes sample_issuer)"
    "item_at (sample_begin cap) 4 = Inr (PBytes cap)" by (simp_all add: sample_capability_def sample_begin_def)
  ultimately show ?thesis using cap cmd(2) hello(2) d
    by (auto simp: up_make_request_def up_check_request_def up_version_def up_verify_def sp_fixed_def bytes_sized_def field_is_def sample_public
        sp_keys_def key_range_def upt_rec sp_integer_def int_in_def each_sized_def)
qed

section \<open>Retirement\<close>

text \<open>What a loaded and verified retirement envelope is, for an envelope that was signed with the sample seed.\<close>

lemma ru_sample:
  assumes "\<exists>b. encode body RU_MAX_BYTES MAX_NODES = Inr b \<and> length b \<le> k" "k \<le> 60000" "wf_py body" "canon body = body" "length seed = 32"
    and "label_pattern (cps (''keeper-upload-retire-local/'' @ label)) \<and> length (''keeper-upload-retire-local/'' @ label) \<le> 64
      \<and> list_all (\<lambda>c. c < 128) (cps (''keeper-upload-retire-local/'' @ label))"
  shows "\<exists>raw b sig. ru_signed test_sodium seed label body = Inr raw \<and> length raw \<le> k + 100
    \<and> ru_load (PBytes raw) = Inr (mk_dict [(0, PBytes b), (1, PBytes sig)]) \<and> ru_load (PBytes b) = Inr body
    \<and> ru_verified test_sodium (PBytes raw) label (PBytes seed) = Inr body"
proof -
  have "\<exists>raw outer. ru_signed test_sodium seed label body = Inr raw \<and> length raw \<le> k + 100
    \<and> env_split (ServiceError ''FRAME_LIMIT'') sp_error RU_MAX_BYTES (PBytes raw) = Inr (body, outer)
    \<and> env_verify (ServiceError ''RETIREMENT_SIGNATURE'') ''keeper-upload-retire-local/'' test_sodium (PBytes seed) outer label = Inr ()"
    unfolding ru_signed_def
    by (rule env_sample [OF assms(1) assms(2) _ _ assms(6) assms(5,3,4)]) (use assms(2) in \<open>simp_all add: RU_MAX_BYTES_def MAX_BYTES_def\<close>)
  then obtain raw outer where raw: "ru_signed test_sodium seed label body = Inr raw" "length raw \<le> k + 100"
    "env_split (ServiceError ''FRAME_LIMIT'') sp_error RU_MAX_BYTES (PBytes raw) = Inr (body, outer)"
    "env_verify (ServiceError ''RETIREMENT_SIGNATURE'') ''keeper-upload-retire-local/'' test_sodium (PBytes seed) outer label = Inr ()" by blast
  then obtain b sig where o: "outer = mk_dict [(0, PBytes b), (1, PBytes sig)]" "length sig = 64"
    "decode raw RU_MAX_BYTES MAX_NODES = Inr outer" "decode b RU_MAX_BYTES MAX_NODES = Inr body" by (auto simp: env_split_Inr)
  then have l: "ru_load (PBytes raw) = Inr outer" "ru_load (PBytes b) = Inr body" by (simp_all add: ru_load_def sp_load_def env_load_Inr)
  then have "ru_verified test_sodium (PBytes raw) label (PBytes seed) = Inr body"
    using raw(4) o(1,2) assms(5) by (simp add: ru_verified_def sp_keys_def sp_fixed_def bytes_sized_def)
  then show ?thesis using raw(1,2) l o(1) by blast
qed

definition keeper_grant :: "bytes \<Rightarrow> bytes \<Rightarrow> pyval" where
  "keeper_grant tok d = mk_dict [(0, PInt 1), (1, RU_PROFILE), (2, keeper_authority_body), (3, PBytes sample_keeper), (4, PBytes sample_issuer),
     (5, PBytes tok), (6, PBytes d), (7, PBytes (replicate 32 11)), (8, PStr (cps ''RETIRE_STAGING_ONLY''))]"

lemma keeper_grant_facts:
  assumes "length tok = 32" "length d = 32"
  shows "\<exists>b. encode (keeper_grant tok d) RU_MAX_BYTES MAX_NODES = Inr b \<and> length b \<le> 500" and "grant_shape (keeper_grant tok d) = Inr ()"
    and "wf_py (keeper_grant tok d)" "canon (keeper_grant tok d) = keeper_grant tok d"
proof -
  show "\<exists>b. encode (keeper_grant tok d) RU_MAX_BYTES MAX_NODES = Inr b \<and> length b \<le> 500"
    using assms by (simp add: keeper_grant_def sample_defs RU_PROFILE_def RU_MAX_BYTES_def encode_simps) (simp add: nhead_def cps_def utf8_cp_def)
  have "authority_from keeper_authority_body = Inr keeper_authority"
    using keeper_authority_ok by (simp add: authority_from_def keeper_authority_body_def keeper_authority_def)
  then show "grant_shape (keeper_grant tok d) = Inr ()"
    using assms by (simp add: grant_shape_def keeper_grant_def ru_version_def check_simps)
  show "wf_py (keeper_grant tok d)" "canon (keeper_grant tok d) = keeper_grant tok d"
    by (simp_all add: keeper_grant_def RU_PROFILE_def keeper_authority_body_def mk_dict_def)
qed

lemma sample_origin:
  assumes "kc_split (PBytes cap) = Inr (sample_capability, o')"
    and "env_verify (KeeperError ''CAPABILITY_AUTH'') ''keeper-local/'' test_sodium (PBytes sample_issuer) o' ''capability-sign'' = Inr ()"
    and "check_command test_sodium (PBytes cmd) = Inr (sample_begin cap)"
  shows "ru_origin test_sodium (PBytes cmd) = Inr (sample_begin cap, sample_capability)"
proof -
  have i: "item_at sample_capability 2 = Inr keeper_authority_body" "item_at sample_capability 3 = Inr (PBytes sample_keeper)"
    "item_at (sample_begin cap) 4 = Inr (PBytes cap)" "item_at (sample_begin cap) 2 = Inr (PStr (cps ''begin''))"
    by (simp_all add: sample_capability_def sample_begin_def)
  have "authority_from keeper_authority_body = Inr keeper_authority"
    using keeper_authority_ok by (simp add: authority_from_def keeper_authority_body_def keeper_authority_def)
  moreover have "verify_capability test_sodium keeper_authority (PBytes sample_keeper) (PBytes cap) = Inr sample_capability"
    using assms(1,2) i sample_capability_shape keeper_authority_ok by (simp add: verify_capability_def kc_fixed_def bytes_sized_def)
  ultimately show ?thesis using assms(1,3) i by (simp add: ru_origin_def field_is_def)
qed

lemma sample_retirement:
  assumes cap: "kc_split (PBytes cap) = Inr (sample_capability, o')"
      "env_verify (KeeperError ''CAPABILITY_AUTH'') ''keeper-local/'' test_sodium (PBytes sample_issuer) o' ''capability-sign'' = Inr ()"
    and cmd: "length cmd \<le> 1100" "check_command test_sodium (PBytes cmd) = Inr (sample_begin cap)" "cmd \<noteq> []"
  shows "\<exists>g req st. issue_grant test_sodium sample_issuer keeper_authority (PBytes sample_keeper) (PBytes cmd) (PBytes (replicate 32 11)) = Inr g
    \<and> ru_make_request test_sodium sample_issuer (PBytes g) (PBytes (replicate 32 12)) = Inr req
    \<and> take_rebind test_sodium (PBytes cmd) (PBytes sample_keeper) (PBytes req) (None, []) = Inr st"
proof -
  note og = sample_origin [OF cap cmd(2)]
  have i: "item_at sample_capability 2 = Inr keeper_authority_body" "item_at sample_capability 3 = Inr (PBytes sample_keeper)"
    "item_at sample_capability 4 = Inr (PBytes sample_issuer)" "item_at (sample_begin cap) 4 = Inr (PBytes cap)"
    "item_at (sample_begin cap) 2 = Inr (PStr (cps ''begin''))" "item_at (sample_begin cap) 3 = Inr (PBytes (replicate 32 4))"
    by (simp_all add: sample_capability_def sample_begin_def)
  have ord: "authority_order keeper_authority_body keeper_authority_body = Inr ()"
    by (simp add: authority_order_def keeper_authority_body_def list_of_def item_at_def as_int_def)
  have af: "authority_from keeper_authority_body = Inr keeper_authority"
    using keeper_authority_ok by (simp add: authority_from_def keeper_authority_body_def keeper_authority_def)
  obtain tok where tok: "token_for test_sodium (PBytes cmd) = Inr tok" "length tok = 32"
    using hashed_sample [of "''keeper-upload-local/stage''" "[PBytes sample_keeper, PBytes sample_issuer, PBytes (replicate 32 4)]"] sample_label cap(1) cmd(2) i
    by (force simp: token_for_def field_is_def nhead_def)
  have "\<exists>d. hashed ''keeper-upload-retire-local/bytes'' [PBytes cmd] = Inr d \<and> length d = 32"
    by (rule hashed_sample) (use sample_label cmd(1) nhead_bound [of 2 "length cmd"] in simp_all)
  then obtain d where d: "ru_digest (PBytes cmd) = Inr d" "length d = 32"
    using cmd(1,3) by (auto simp: ru_digest_def RU_MAX_BYTES_def)
  note gf = keeper_grant_facts [OF tok(2) d(2)]
  obtain g b sig where g: "ru_signed test_sodium sample_issuer ''grant'' (keeper_grant tok d) = Inr g" "length g \<le> 600"
    "ru_load (PBytes g) = Inr (mk_dict [(0, PBytes b), (1, PBytes sig)])" "ru_load (PBytes b) = Inr (keeper_grant tok d)"
    "ru_verified test_sodium (PBytes g) ''grant'' (PBytes sample_issuer) = Inr (keeper_grant tok d)"
    using ru_sample [OF gf(1) _ gf(3,4), of sample_issuer "''grant''"] sample_label by auto
  have issue: "issue_grant test_sodium sample_issuer keeper_authority (PBytes sample_keeper) (PBytes cmd) (PBytes (replicate 32 11)) = Inr g"
    using og i ord tok(1) d(1) gf(2) g(1) keeper_authority_ok
    by (simp add: issue_grant_def Let_def sp_fixed_def bytes_sized_def sample_public flip: keeper_grant_def)
  have gi: "item_at (keeper_grant tok d) 2 = Inr keeper_authority_body" "item_at (keeper_grant tok d) 3 = Inr (PBytes sample_keeper)"
    "item_at (keeper_grant tok d) 4 = Inr (PBytes sample_issuer)" "item_at (keeper_grant tok d) 5 = Inr (PBytes tok)"
    "item_at (keeper_grant tok d) 6 = Inr (PBytes d)" by (simp_all add: keeper_grant_def)
  have grant: "ru_grant test_sodium (PBytes g) = Inr (keeper_grant tok d)"
    using g(3,4,5) gf(2) gi af by (simp add: ru_grant_def sp_keys_def)
  let ?r = "mk_dict [(0, PInt 1), (1, RU_PROFILE), (2, PBytes g), (3, PBytes (replicate 32 12)), (4, PBool True)]"
  have e: "\<exists>b. encode ?r RU_MAX_BYTES MAX_NODES = Inr b \<and> length b \<le> 800"
    using g(2) nhead_bound [of 2 "length g"]
    by (simp add: RU_PROFILE_def RU_MAX_BYTES_def encode_simps nhead_def [of _ 32] nhead_def [of 0] nhead_def [of 3] nhead_def [of 5] cps_def utf8_cp_def)
  have flat: "wf_py ?r" "canon ?r = ?r" by (simp_all add: RU_PROFILE_def mk_dict_def)
  obtain req rb rsig where r: "ru_signed test_sodium sample_issuer ''request'' ?r = Inr req"
    "ru_load (PBytes req) = Inr (mk_dict [(0, PBytes rb), (1, PBytes rsig)])" "ru_load (PBytes rb) = Inr ?r"
    "ru_verified test_sodium (PBytes req) ''request'' (PBytes sample_issuer) = Inr ?r"
    using ru_sample [OF e _ flat, of sample_issuer "''request''"] sample_label by auto
  have make: "ru_make_request test_sodium sample_issuer (PBytes g) (PBytes (replicate 32 12)) = Inr req"
    using grant gi r(1) by (simp add: ru_make_request_def sp_fixed_def bytes_sized_def field_is_def sample_public)
  have ins: "inspect_request test_sodium (PBytes req) = Inr (?r, mk_dict [(0, PBytes rb), (1, PBytes rsig)], keeper_grant tok d)"
    using r(2,3,4) grant gi by (simp add: inspect_request_def ru_version_def check_simps)
  have check: "ru_check_request test_sodium (PBytes req) (PBytes cmd) (PBytes sample_keeper) None
      = Inr (?r, mk_dict [(0, PBytes rb), (1, PBytes rsig)], keeper_grant tok d)"
    using ins og i gi tok(1) d(1) ord by (simp add: ru_check_request_def sp_fixed_def bytes_sized_def)
  obtain rid where rid: "request_id test_sodium (PBytes req) = Inr rid"
    using hashed_sample [of "''keeper-upload-retire-local/operation''" "[PBytes sample_keeper, PBytes sample_issuer, PBytes (replicate 32 12)]"] sample_label ins gi
    by (force simp: request_id_def nhead_def)
  show ?thesis using issue make check rid gi by (simp add: take_rebind_def)
qed

end
