(* ===== verification/KeeperProps.thy ===== *)
theory KeeperProps
  imports KeeperSamples
begin

text \<open>
  What the contract modules around the keeper establish: capabilities and calls that were made verify, an accepted message
  carries exactly the scope it was checked for, a request answers one challenge, the authority never moves backwards
  along a retirement, and an archive is exactly its manifest and its files.
\<close>

section \<open>Shapes\<close>

lemmas shape_simps = each_sized_def each_int_def field_is_def field_in_def kc_fixed_def kc_integer_def kc_keys_def
  sp_fixed_def sp_integer_def sp_keys_def res_simps

text \<open>A decoded dictionary with exactly the keys of a range is the literal of its fields in order.\<close>

lemma int_keys_literal:
  assumes "canonical v" "int_keys e v (key_range m) = Inr u"
  shows "\<exists>xs. length xs = m \<and> v = mk_dict (zip (key_range m) xs)"
proof -
  obtain kvs where v: "v = PDict kvs" and ks: "list_all (is_int \<circ> fst) kvs" "set (map (int_of \<circ> fst) kvs) = set (key_range m)"
    using assms(2) by (cases v) (auto simp: int_keys_def)
  have sorted: "sorted_wrt (<) (map (int_of \<circ> fst) kvs)" using assms(1) v by simp
  moreover have "sorted_wrt (<) (key_range m)" by (simp add: key_range_def sorted_wrt_map)
  ultimately have eq: "map (int_of \<circ> fst) kvs = key_range m" using ks(2) by (metis strict_sorted_equal)
  have len: "length kvs = m" using arg_cong [OF eq, of length] by (simp add: key_range_def)
  have "kvs = map (\<lambda>(k, v). (PInt k, v)) (zip (map (int_of \<circ> fst) kvs) (map snd kvs))"
    using ks(1) by (induction kvs) (auto simp: is_int_conv)
  then show ?thesis using v eq len by (intro exI [of _ "map snd kvs"]) (simp add: mk_dict_def)
qed

lemma mk_dict_eq [simp]: "mk_dict xs = mk_dict ys \<longleftrightarrow> xs = ys"
proof -
  have "inj (\<lambda>(k, v :: pyval). (PInt k, v))" by (auto simp: inj_def)
  then show ?thesis by (simp add: mk_dict_def inj_map_eq_map)
qed

lemma list_of_Inr [simp]: "list_of v = Inr xs \<longleftrightarrow> v = PList xs"
  by (cases v) (simp_all add: list_of_def)

lemma key_range_numeral: "key_range 9 = [0, 1, 2, 3, 4, 5, 6, 7, 8]" "key_range 8 = [0, 1, 2, 3, 4, 5, 6, 7]"
  "key_range 4 = [0, 1, 2, 3]" "key_range 7 = [0, 1, 2, 3, 4, 5, 6]"
  by (simp_all add: key_range_def upt_rec)

lemma authority_body_Inr:
  "authority_body a = Inr b \<longleftrightarrow> (\<exists>app s h i q e. a = \<lparr>ka_app = PStr app, ka_space = PBytes s, ka_head = PBytes h, ka_sequence = PInt q,
       ka_epoch = PInt e, ka_issuer = PBytes i\<rparr> \<and> lower_app_ok app \<and> length s = 32 \<and> length h = 32 \<and> length i = 32
     \<and> 1 \<le> q \<and> q \<le> I64 \<and> 1 \<le> e \<and> e \<le> I64 \<and> b = PList [PStr app, PBytes s, PBytes h, PInt q, PInt e, PBytes i])"
  by (cases a) (auto simp: authority_body_def shape_simps check_app_id_def split: pyval.splits)

lemma authority_from_Inr:
  "authority_from v = Inr a \<longleftrightarrow> authority_body a = Inr v"
  by (cases a) (auto simp: authority_from_def authority_body_Inr res_simps Let_def split: pyval.splits list.splits)

lemma kc_method_Inr: "kc_method m = Inr s \<longleftrightarrow> m = PStr s \<and> s \<in> set (map cps KC_METHODS)"
  by (cases m) (auto simp: kc_method_def)

lemma mapE_method: "mapE kc_method xs = Inr names \<longleftrightarrow> xs = map PStr names \<and> set names \<subseteq> set (map cps KC_METHODS)"
proof (induction xs arbitrary: names)
  case (Cons x xs)
  then show ?case by (cases names) (auto simp: res_simps kc_method_Inr list_all2_Cons1)
qed (auto simp: res_simps)

text \<open>The fields of a capability that passes the shape check.\<close>

lemma capability_fields:
  "capability_shape (mk_dict [(0, x0), (1, x1), (2, x2), (3, x3), (4, x4), (5, x5), (6, x6), (7, x7), (8, x8)]) = Inr u \<longleftrightarrow>
     x0 = PInt 1 \<and> x1 = KC_PROFILE \<and> (\<exists>a. authority_body a = Inr x2)
   \<and> (\<forall>x \<in> {x3, x4, x5, x8}. \<exists>b. x = PBytes b \<and> length b = 32)
   \<and> (\<exists>names. x6 = PList (map PStr names) \<and> names \<noteq> [] \<and> set names \<subseteq> set (map cps KC_METHODS) \<and> sorted_names names)
   \<and> (\<exists>i. x7 = PInt i \<and> 1 \<le> i \<and> i \<le> MAX_SECONDS)"
  by (cases x6) (auto simp: capability_shape_def shape_simps key_range_numeral authority_from_Inr mapE_method
    simp del: mapE_eq_Inr)

lemma call_fields:
  "call_shape (mk_dict [(0, x0), (1, x1), (2, x2), (3, x3), (4, x4), (5, x5), (6, x6), (7, x7), (8, x8)]) = Inr u \<longleftrightarrow>
     x0 = PInt 1 \<and> x1 = KC_PROFILE \<and> (\<exists>s \<in> set (map cps KC_METHODS). x5 = PStr s)
   \<and> (\<forall>x \<in> {x2, x3, x4, x7, x8}. \<exists>b. x = PBytes b \<and> length b = 32)
   \<and> (if x5 = PStr (cps ''reserve'') then x6 = PNone else \<exists>b. x6 = PBytes b \<and> length b = 32)"
  by (cases x5) (auto simp: call_shape_def shape_simps key_range_numeral)

section \<open>Capabilities and calls\<close>

text \<open>What the issuer signs is accepted under the issuer's authority, with the fields it was issued for.\<close>

lemma mapE_str: "mapE str_of xs = Inr names \<longleftrightarrow> xs = map PStr names"
proof (induction xs arbitrary: names)
  case (Cons x xs)
  then show ?case by (cases names) (auto simp: res_simps str_of_def list_all2_Cons1 split: pyval.splits)
qed (auto simp: res_simps)

lemma capability_flat:
  assumes "capability_shape (mk_dict [(0, x0), (1, x1), (2, x2), (3, x3), (4, x4), (5, x5), (6, x6), (7, x7), (8, x8)]) = Inr ()"
    (is "capability_shape ?v = _")
  shows "canon ?v = ?v" "wf_py ?v"
  using assms [unfolded capability_fields] by (auto simp: authority_body_Inr mk_dict_def KC_PROFILE_def comp_def list_all_iff)

lemma issued_capability:
  assumes "sodium_ok n" "issue_capability n seed a keeper subject index methods seconds nonce = Inr cap"
  obtains names body o' v where "methods = map PStr names" "authority_body a = Inr body" "capability_shape v = Inr ()"
    "v = mk_dict [(0, PInt 1), (1, KC_PROFILE), (2, body), (3, keeper), (4, subject), (5, index),
       (6, PList (map PStr (sort_str names))), (7, seconds), (8, nonce)]"
    "kc_split (PBytes cap) = Inr (v, o')" "verify_capability n a keeper (PBytes cap) = Inr v"
proof -
  let ?w = "\<lambda>body names. mk_dict [(0, PInt 1), (1, KC_PROFILE), (2, body), (3, keeper), (4, subject), (5, index),
       (6, PList (map PStr (sort_str names))), (7, seconds), (8, nonce)]"
  obtain names body pk where m: "methods = map PStr names" and body: "authority_body a = Inr body"
    and shape: "capability_shape (?w body names) = Inr ()" and pk: "p_sign_public n seed = Inr pk" "ka_issuer a = PBytes pk"
    and s: "kc_signed n seed ''capability-sign'' (?w body names) = Inr cap"
    using assms(2) by (auto simp: issue_capability_def bindE_eq_Inr Let_def mapE_str)
  obtain o' where o: "kc_split (PBytes cap) = Inr (?w body names, o')"
    "env_verify (KeeperError ''CAPABILITY_AUTH'') ''keeper-local/'' n (PBytes pk) o' ''capability-sign'' = Inr ()"
    using env_roundtrip [OF assms(1) pk(1) s [unfolded kc_signed_def] capability_flat(2,1) [OF shape]] unfolding kc_split_def by blast
  moreover have "kc_fixed keeper 32 = Inr ()" using shape by (simp add: capability_fields kc_fixed_def)
  ultimately have "verify_capability n a keeper (PBytes cap) = Inr (?w body names)"
    using body shape pk(2) by (simp add: verify_capability_def)
  then show thesis using m body shape o(1) that by blast
qed

text \<open>A call made with an issued capability is accepted, and carries the operation it was made for.\<close>

lemma made_call_verifies:
  assumes "sodium_ok n" "issue_capability n issuer_seed a keeper subject index methods seconds nonce = Inr cap"
    and "make_call n subject_seed (PBytes cap) action lease operation payload = Inr call" and "action \<in> set methods"
  shows "\<exists>v. verify_call n a keeper (PBytes cap) (PBytes call) action lease payload = Inr v \<and> item_at v 7 = Inr operation"
proof -
  obtain names body o' v where m: "methods = map PStr names" and shape: "capability_shape v = Inr ()"
    and v: "v = mk_dict [(0, PInt 1), (1, KC_PROFILE), (2, body), (3, keeper), (4, subject), (5, index),
       (6, PList (map PStr (sort_str names))), (7, seconds), (8, nonce)]"
    and split: "kc_split (PBytes cap) = Inr (v, o')" and ver: "verify_capability n a keeper (PBytes cap) = Inr v"
    using assms(1,2) by (rule issued_capability)
  let ?w = "\<lambda>cid pub pid. mk_dict [(0, PInt 1), (1, KC_PROFILE), (2, keeper), (3, PBytes cid), (4, PBytes pub), (5, action), (6, lease),
       (7, operation), (8, PBytes pid)]"
  obtain cid pub pid where pub: "p_sign_public n subject_seed = Inr pub" "subject = PBytes pub"
    and ids: "capability_id (PBytes cap) = Inr cid" "payload_id action payload = Inr pid"
    and cs: "call_shape (?w cid pub pid) = Inr ()" and s: "kc_signed n subject_seed ''request-sign'' (?w cid pub pid) = Inr call"
    using assms(3) split v by (auto simp: make_call_def bindE_eq_Inr Let_def)
  have flat: "wf_py (?w cid pub pid)" "canon (?w cid pub pid) = ?w cid pub pid"
    using cs [unfolded call_fields] by (auto simp: mk_dict_def KC_PROFILE_def split: if_splits)
  obtain o2 where "kc_split (PBytes call) = Inr (?w cid pub pid, o2)"
    "env_verify (KeeperError ''REQUEST_AUTH'') ''keeper-local/'' n (PBytes pub) o2 ''request-sign'' = Inr ()"
    using env_roundtrip [OF assms(1) pub(1) s [unfolded kc_signed_def] flat] unfolding kc_split_def by blast
  then have "verify_call n a keeper (PBytes cap) (PBytes call) action lease payload = Inr (?w cid pub pid)"
    using ver cs ids pub v m assms(4) by (simp add: verify_call_def list_of_def image_iff)
  then show ?thesis by simp
qed

text \<open>C22. A call that a subject makes with a capability issued to it is accepted by the keeper under the issuing authority,
  for the same action, lease and payload, when the action is among the methods of the capability.\<close>

theorem call_accepted:
  assumes "sodium_ok n" "issue_capability n issuer_seed a keeper subject index methods seconds nonce = Inr cap"
    and "make_call n subject_seed (PBytes cap) action lease operation payload = Inr call" and "action \<in> set methods"
  shows "\<exists>v. verify_call n a keeper (PBytes cap) (PBytes call) action lease payload = Inr v \<and> item_at v 7 = Inr operation"
  using made_call_verifies [OF assms] .

theorem call_accepted_witness:
  "\<exists>cap call v. issue_capability test_sodium sample_issuer keeper_authority (PBytes sample_keeper) (PBytes sample_issuer)
      (PBytes (replicate 32 5)) [PStr (cps ''put''), PStr (cps ''get'')] (PInt 60) (PBytes (replicate 32 6)) = Inr cap
    \<and> make_call test_sodium sample_issuer (PBytes cap) (PStr (cps ''get'')) (PBytes (replicate 32 8)) (PBytes (replicate 32 9)) PNone = Inr call
    \<and> verify_call test_sodium keeper_authority (PBytes sample_keeper) (PBytes cap) (PBytes call) (PStr (cps ''get'')) (PBytes (replicate 32 8)) PNone = Inr v"
proof -
  obtain cap o' where cap: "issue_capability test_sodium sample_issuer keeper_authority (PBytes sample_keeper) (PBytes sample_issuer)
      (PBytes (replicate 32 5)) [PStr (cps ''put''), PStr (cps ''get'')] (PInt 60) (PBytes (replicate 32 6)) = Inr cap"
    "length cap \<le> 600" "kc_split (PBytes cap) = Inr (sample_capability, o')" using sample_issue by blast
  obtain call where call: "make_call test_sodium sample_issuer (PBytes cap) (PStr (cps ''get'')) (PBytes (replicate 32 8)) (PBytes (replicate 32 9)) PNone = Inr call"
    using sample_make_call [OF cap(2,3)] by blast
  with call_accepted [OF test_sodium_ok cap(1) call] cap(1) show ?thesis by auto
qed

lemma sample_call_verified:
  "\<exists>cap call v. verify_call test_sodium keeper_authority (PBytes sample_keeper) (PBytes cap) (PBytes call) (PStr (cps ''get'')) (PBytes (replicate 32 8)) PNone = Inr v"
proof -
  obtain cap o' where cap: "issue_capability test_sodium sample_issuer keeper_authority (PBytes sample_keeper) (PBytes sample_issuer)
      (PBytes (replicate 32 5)) [PStr (cps ''put''), PStr (cps ''get'')] (PInt 60) (PBytes (replicate 32 6)) = Inr cap"
    "length cap \<le> 600" "kc_split (PBytes cap) = Inr (sample_capability, o')" using sample_issue by blast
  obtain call where call: "make_call test_sodium sample_issuer (PBytes cap) (PStr (cps ''get'')) (PBytes (replicate 32 8)) (PBytes (replicate 32 9)) PNone = Inr call"
    using sample_make_call [OF cap(2,3)] by blast
  show ?thesis using made_call_verifies [OF test_sodium_ok cap(1) call] by auto
qed

lemma kc_split_canonical: "kc_split raw = Inr (v, o') \<Longrightarrow> canonical v"
  by (auto simp: kc_split_def env_split_Inr decode_iff)

lemma verify_capability_Inr:
  "verify_capability n a keeper raw = Inr v \<longleftrightarrow> (\<exists>body o'. authority_body a = Inr body \<and> kc_split raw = Inr (v, o')
     \<and> capability_shape v = Inr () \<and> (\<exists>k. keeper = PBytes k \<and> length k = 32)
     \<and> env_verify (KeeperError ''CAPABILITY_AUTH'') ''keeper-local/'' n (ka_issuer a) o' ''capability-sign'' = Inr ()
     \<and> item_at v 2 = Inr body \<and> item_at v 3 = Inr keeper)"
  by (auto simp: verify_capability_def bindE_eq_Inr kc_fixed_def)

text \<open>C25. An accepted capability is a record of nine typed fields: version, profile, the accepting authority, the keeper that
  accepted it, subject, index, the ascending non-empty list of known methods, a duration within a day and a nonce.\<close>

theorem capability_typed:
  assumes "verify_capability n a keeper raw = Inr v"
  shows "\<exists>body subject index names seconds nonce.
      v = mk_dict [(0, PInt 1), (1, KC_PROFILE), (2, body), (3, keeper), (4, PBytes subject), (5, PBytes index),
        (6, PList (map PStr names)), (7, PInt seconds), (8, PBytes nonce)]
    \<and> authority_body a = Inr body \<and> length subject = 32 \<and> length index = 32 \<and> length nonce = 32
    \<and> names \<noteq> [] \<and> set names \<subseteq> set (map cps KC_METHODS) \<and> sorted_names names \<and> 1 \<le> seconds \<and> seconds \<le> 86400"
proof -
  obtain body o' where body: "authority_body a = Inr body" and split: "kc_split raw = Inr (v, o')"
    and shape: "capability_shape v = Inr ()" and items: "item_at v 2 = Inr body" "item_at v 3 = Inr keeper"
    using assms by (auto simp: verify_capability_Inr)
  have "kc_keys v (key_range 9) = Inr ()" using shape by (auto simp: capability_shape_def bindE_eq_Inr)
  then obtain xs where xs: "length xs = 9" "v = mk_dict (zip (key_range 9) xs)"
    using int_keys_literal [OF kc_split_canonical [OF split]] by (auto simp: kc_keys_def)
  obtain x0 x1 x2 x3 x4 x5 x6 x7 x8 where "xs = [x0, x1, x2, x3, x4, x5, x6, x7, x8]"
    using xs(1) by (auto simp: numeral_eq_Suc length_Suc_conv)
  with xs(2) have v: "v = mk_dict [(0, x0), (1, x1), (2, x2), (3, x3), (4, x4), (5, x5), (6, x6), (7, x7), (8, x8)]"
    by (simp add: key_range_numeral)
  with shape items body show ?thesis by (auto simp: capability_fields MAX_SECONDS_def)
qed

theorem capability_typed_witness:
  "\<exists>cap v. verify_capability test_sodium keeper_authority (PBytes sample_keeper) (PBytes cap) = Inr v
    \<and> (\<exists>body subject index names seconds nonce. v = mk_dict [(0, PInt 1), (1, KC_PROFILE), (2, body), (3, PBytes sample_keeper), (4, PBytes subject),
        (5, PBytes index), (6, PList (map PStr names)), (7, PInt seconds), (8, PBytes nonce)])"
proof -
  obtain cap where cap: "issue_capability test_sodium sample_issuer keeper_authority (PBytes sample_keeper) (PBytes sample_issuer)
      (PBytes (replicate 32 5)) [PStr (cps ''put''), PStr (cps ''get'')] (PInt 60) (PBytes (replicate 32 6)) = Inr cap"
    using sample_issue by blast
  obtain v where v: "verify_capability test_sodium keeper_authority (PBytes sample_keeper) (PBytes cap) = Inr v"
    using issued_capability [OF test_sodium_ok cap] by blast
  from capability_typed [OF v] v show ?thesis by blast
qed

lemma env_split_nonempty: "env_split el es mb (PBytes raw) = Inr x \<Longrightarrow> raw \<noteq> []"
  using length_cbor_pos by (cases x) (force simp: env_split_Inr decode_iff)

text \<open>\<open>signed_by n mb label pk raw body\<close>: the bytes are an envelope whose signature by \<open>pk\<close> covers the encoding of \<open>body\<close>
  under the domain label.\<close>

definition signed_by :: "sodium \<Rightarrow> int \<Rightarrow> string \<Rightarrow> pyval \<Rightarrow> pyval \<Rightarrow> pyval \<Rightarrow> bool" where
  "signed_by n mb label public raw body \<longleftrightarrow> (\<exists>r b sig pk msg. raw = PBytes r \<and> public = PBytes pk
     \<and> decode r mb MAX_NODES = Inr (mk_dict [(0, PBytes b), (1, PBytes sig)]) \<and> decode b mb MAX_NODES = Inr body
     \<and> c_domain (cps label) [PBytes b] = Inr msg \<and> p_verify n pk msg sig = Inr ())"

lemma env_signed_by:
  "env_split el es mb raw = Inr (body, o') \<Longrightarrow> env_verify ev prefix n public o' label = Inr u \<Longrightarrow> signed_by n mb (prefix @ label) public raw body"
  by (auto simp: signed_by_def env_split_Inr env_verify_Inr)

text \<open>C23. An accepted call carries two valid signatures: the authority's issuer signed the capability, and the subject that the
  capability names signed the call; the action is one that the capability allows.\<close>

theorem call_authentic:
  assumes "verify_call n a keeper cap raw action lease payload = Inr v"
  shows "\<exists>c subject methods. signed_by n MAX_CONTRACT ''keeper-local/capability-sign'' (ka_issuer a) cap c
    \<and> item_at c 4 = Inr subject \<and> item_at c 6 = Inr (PList methods) \<and> action \<in> set methods
    \<and> signed_by n MAX_CONTRACT ''keeper-local/request-sign'' subject raw v"
proof -
  obtain c o1 o2 subject where c: "kc_split cap = Inr (c, o1)" "kc_split raw = Inr (v, o2)" "item_at c 4 = Inr subject"
    and e: "env_verify (KeeperError ''CAPABILITY_AUTH'') ''keeper-local/'' n (ka_issuer a) o1 ''capability-sign'' = Inr ()"
      "env_verify (KeeperError ''REQUEST_AUTH'') ''keeper-local/'' n subject o2 ''request-sign'' = Inr ()"
    and m: "\<exists>ms. item_at c 6 = Inr (PList ms) \<and> action \<in> set ms"
    using assms by (auto simp: verify_call_def verify_capability_Inr bindE_eq_Inr)
  have "signed_by n MAX_CONTRACT ''keeper-local/capability-sign'' (ka_issuer a) cap c"
    using env_signed_by [OF c(1) [unfolded kc_split_def] e(1)] by simp
  moreover have "signed_by n MAX_CONTRACT ''keeper-local/request-sign'' subject raw v"
    using env_signed_by [OF c(2) [unfolded kc_split_def] e(2)] by simp
  ultimately show ?thesis using c(3) m by blast
qed

theorem call_authentic_witness:
  "\<exists>cap call v c subject. verify_call test_sodium keeper_authority (PBytes sample_keeper) (PBytes cap) (PBytes call) (PStr (cps ''get'')) (PBytes (replicate 32 8)) PNone = Inr v
    \<and> signed_by test_sodium MAX_CONTRACT ''keeper-local/capability-sign'' (PBytes sample_issuer) (PBytes cap) c
    \<and> signed_by test_sodium MAX_CONTRACT ''keeper-local/request-sign'' subject (PBytes call) v"
  using sample_call_verified call_authentic [of test_sodium keeper_authority "PBytes sample_keeper"] by fastforce

text \<open>A signed call stands for one request only: if the same bytes are accepted twice, then for the same keeper, action and
  lease, under capabilities with the same identifier and for payloads with the same identifier.\<close>

theorem call_binding:
  assumes "verify_call n a keeper cap raw action lease payload = Inr v"
    and "verify_call n' a' keeper' cap' raw action' lease' payload' = Inr v'"
  shows "v = v' \<and> keeper = keeper' \<and> action = action' \<and> lease = lease' \<and> capability_id cap = capability_id cap'
    \<and> payload_id action payload = payload_id action' payload'"
  using assms by (auto simp: verify_call_def bindE_eq_Inr)

theorem call_binding_witness:
  "\<exists>cap call v. verify_call test_sodium keeper_authority (PBytes sample_keeper) (PBytes cap) (PBytes call) (PStr (cps ''get'')) (PBytes (replicate 32 8)) PNone = Inr v
    \<and> (\<nexists>v'. verify_call test_sodium keeper_authority (PBytes sample_keeper) (PBytes cap) (PBytes call) (PStr (cps ''put'')) (PBytes (replicate 32 8)) PNone = Inr v')"
proof -
  obtain cap call v where v: "verify_call test_sodium keeper_authority (PBytes sample_keeper) (PBytes cap) (PBytes call) (PStr (cps ''get'')) (PBytes (replicate 32 8)) PNone = Inr v"
    using sample_call_verified by blast
  have "verify_call test_sodium keeper_authority (PBytes sample_keeper) (PBytes cap) (PBytes call) (PStr (cps ''put'')) (PBytes (replicate 32 8)) PNone \<noteq> Inr v'" for v'
    using call_binding [OF v, of test_sodium keeper_authority "PBytes sample_keeper" "PBytes cap" "PStr (cps ''put'')"] by auto
  with v show ?thesis by blast
qed

section \<open>Challenges\<close>

text \<open>A signed upload request answers one challenge: the same bytes are accepted only under hellos with the same digest, for
  the same keeper, and they always carry the same command, signed by the subject of its capability.\<close>

theorem request_challenge:
  assumes "up_check_request n public hello raw = Inr command" and "up_check_request n' public' hello' raw = Inr command'"
  shows "up_digest hello = up_digest hello' \<and> public = public' \<and> command = command'
    \<and> (\<exists>b c cap o' subject. check_command n command = Inr c \<and> bindE (item_at c 4) kc_split = Inr (cap, o') \<and> item_at cap 4 = Inr subject
        \<and> signed_by n UP_MAX_REQUEST ''keeper-upload-local/request'' subject raw b \<and> item_at b 3 = Inr command)"
proof -
  have *: "\<exists>b o' c cap o2 subject d. up_split raw UP_MAX_REQUEST = Inr (b, o') \<and> item_at b 3 = Inr command \<and> check_command n command = Inr c
      \<and> bindE (item_at c 4) kc_split = Inr (cap, o2) \<and> item_at cap 4 = Inr subject \<and> up_verify n subject o' ''request'' = Inr ()
      \<and> up_digest hello = Inr d \<and> item_at b 2 = Inr (PBytes d) \<and> item_at cap 3 = Inr public"
    if "up_check_request n public hello raw = Inr command" for n public hello command
    using that by (auto simp: up_check_request_def bindE_eq_Inr field_is_def)
  obtain b o' c cap o2 subject d where x: "up_split raw UP_MAX_REQUEST = Inr (b, o')" "item_at b 3 = Inr command" "check_command n command = Inr c"
      "bindE (item_at c 4) kc_split = Inr (cap, o2)" "item_at cap 4 = Inr subject" "up_verify n subject o' ''request'' = Inr ()"
      "up_digest hello = Inr d" "item_at b 2 = Inr (PBytes d)" "item_at cap 3 = Inr public"
    using * [OF assms(1)] by blast
  obtain b' o'' c' cap' o3 d' where y: "up_split raw UP_MAX_REQUEST = Inr (b', o'')" "item_at b' 3 = Inr command'" "check_command n' command' = Inr c'"
      "bindE (item_at c' 4) kc_split = Inr (cap', o3)" "up_digest hello' = Inr d'" "item_at b' 2 = Inr (PBytes d')" "item_at cap' 3 = Inr public'"
    using * [OF assms(2)] by blast
  have same: "command = command'" "d = d'" using x y by simp_all
  then have "c = c'" using x(3) y(3) by (auto simp: check_command_def bindE_eq_Inr)
  then have "public = public'" using x y by simp
  moreover have e: "env_verify (ServiceError ''SIGNATURE'') ''keeper-upload-local/'' n subject o' ''request'' = Inr ()"
    using x(6) by (auto simp: up_verify_def bindE_eq_Inr)
  have "signed_by n UP_MAX_REQUEST ''keeper-upload-local/request'' subject raw b"
    using env_signed_by [OF x(1) [unfolded up_split_def] e] by simp
  ultimately show ?thesis using same x y by auto
qed

theorem request_challenge_witness:
  "\<exists>hello req cmd. up_check_request test_sodium (PBytes sample_keeper) (PBytes hello) (PBytes req) = Inr (PBytes cmd)
    \<and> (\<forall>hello' public' command'. up_check_request test_sodium public' hello' (PBytes req) = Inr command' \<longrightarrow> up_digest hello' = up_digest (PBytes hello))"
proof -
  obtain cap o' where cap: "length cap \<le> 600" "kc_split (PBytes cap) = Inr (sample_capability, o')" using sample_issue by blast
  obtain cmd where cmd: "length cmd \<le> 1100" "check_command test_sodium (PBytes cmd) = Inr (sample_begin cap)" using sample_begin_ok [OF cap] by blast
  obtain hello where hello: "length hello \<le> 400" "up_check_hello test_sodium (PBytes sample_keeper) (PBytes hello) = Inr sample_hello"
    using sample_hello_ok by blast
  obtain req where req: "up_check_request test_sodium (PBytes sample_keeper) (PBytes hello) (PBytes req) = Inr (PBytes cmd)"
    using sample_request_ok [OF cap(2) cmd hello] by blast
  have "up_digest hello' = up_digest (PBytes hello)"
    if "up_check_request test_sodium public' hello' (PBytes req) = Inr command'" for hello' public' command'
    using conjunct1 [OF request_challenge [OF that req]] .
  with req show ?thesis by blast
qed

section \<open>Authority order\<close>

text \<open>On well-formed authority bodies the order check is a partial order on what it compares: reflexive and transitive.\<close>

lemma authority_order_Inr:
  "authority_order (PList [a0, a1, a2, PInt q, PInt e, a5]) (PList [b0, b1, b2, PInt q', PInt e', b5]) = Inr u \<longleftrightarrow>
     b0 = a0 \<and> b1 = a1 \<and> q \<le> q' \<and> e \<le> e' \<and> (q' = q \<longrightarrow> b2 = a2 \<and> e' = e \<and> b5 = a5)"
  by (auto simp: authority_order_def item_at_def list_of_def as_int_def)

definition authority_value :: "pyval \<Rightarrow> bool" where
  "authority_value v \<longleftrightarrow> (\<exists>a. authority_body a = Inr v)"

definition authority_seq :: "pyval \<Rightarrow> int" where
  "authority_seq v = (case v of PList [_, _, _, PInt q, _, _] \<Rightarrow> q | _ \<Rightarrow> 0)"

lemma authority_order_trans:
  assumes "authority_value x" "authority_value y" "authority_value z"
    and "authority_order x y = Inr ()" "authority_order y z = Inr ()"
  shows "authority_order x z = Inr ()"
  using assms by (auto simp: authority_value_def authority_body_Inr authority_order_Inr)

text \<open>The authority a verified grant names is well formed, and so is the one of an accepted retirement request.\<close>

lemma grant_authority: "ru_grant n raw = Inr g \<Longrightarrow> \<exists>a. item_at g 2 = Inr a \<and> authority_value a"
  by (auto simp: ru_grant_def ru_verified_def grant_shape_def bindE_eq_Inr authority_from_Inr authority_value_def)

lemma request_authority: "ru_check_request n q start keeper au = Inr (r, o', g) \<Longrightarrow> \<exists>a. item_at g 2 = Inr a \<and> authority_value a"
  using grant_authority by (fastforce simp: ru_check_request_def inspect_request_def bindE_eq_Inr)

definition rebind_after :: "pyval \<Rightarrow> pyval \<Rightarrow> bool" where
  "rebind_after x y \<longleftrightarrow> authority_order x y = Inr () \<and> authority_seq x < authority_seq y"

lemma authority_seq_item: "authority_value a \<Longrightarrow> int_at a 3 = Inr q \<longleftrightarrow> q = authority_seq a"
  by (auto simp: authority_value_def authority_body_Inr authority_seq_def item_at_def as_int_def)

lemma take_rebind_step:
  assumes "take_rebind n start keeper q (previous, seen) = Inr (next', seen')" and "\<forall>p. previous = Some p \<longrightarrow> authority_value p"
  obtains r o' g a rid where "ru_check_request n q start keeper None = Inr (r, o', g)" "item_at g 2 = Inr a" "authority_value a"
    "next' = Some a" "seen' = rid # seen" "rid \<notin> set seen" "\<forall>p. previous = Some p \<longrightarrow> rebind_after p a"
proof -
  obtain r o' g rid a where c: "ru_check_request n q start keeper None = Inr (r, o', g)" "item_at g 2 = Inr a"
    "next' = Some a" "seen' = rid # seen" "rid \<notin> set seen"
    and o: "\<And>p. previous = Some p \<Longrightarrow> authority_order p a = Inr () \<and> (\<exists>x y. int_at a 3 = Inr x \<and> int_at p 3 = Inr y \<and> y < x)"
    using assms(1) by (cases previous) (auto simp: take_rebind_def bindE_eq_Inr)
  obtain a' where "item_at g 2 = Inr a'" "authority_value a'" using request_authority [OF c(1)] by blast
  then have a: "authority_value a" using c(2) by simp
  have "rebind_after p a" if "previous = Some p" for p
    using o [OF that] authority_seq_item [OF a] authority_seq_item [of p] assms(2) that by (auto simp: rebind_after_def)
  then show thesis using that c a by blast
qed

text \<open>The state of the loop after a list of requests: their authorities ascend, and their identifiers are distinct.\<close>

lemma rebinds_loop:
  "foldE (take_rebind n start keeper) qs (None, []) = Inr (latest, seen) \<Longrightarrow>
     \<exists>as. list_all2 (\<lambda>q a. \<exists>r o' g. ru_check_request n q start keeper None = Inr (r, o', g) \<and> item_at g 2 = Inr a) qs as
       \<and> (\<forall>a \<in> set as. authority_value a) \<and> sorted_wrt rebind_after as \<and> latest = (if as = [] then None else Some (last as))
       \<and> distinct seen \<and> length seen = length qs"
proof (induction qs arbitrary: latest seen rule: rev_induct)
  case Nil
  then show ?case by simp
next
  case (snoc q qs)
  then obtain mid seen0 where m: "foldE (take_rebind n start keeper) qs (None, []) = Inr (mid, seen0)"
    and step: "take_rebind n start keeper q (mid, seen0) = Inr (latest, seen)"
    by (fastforce simp: foldE_append bindE_eq_Inr)
  from snoc.IH [OF m] obtain as where as: "list_all2 (\<lambda>q a. \<exists>r o' g. ru_check_request n q start keeper None = Inr (r, o', g) \<and> item_at g 2 = Inr a) qs as"
    "\<forall>a \<in> set as. authority_value a" "sorted_wrt rebind_after as" "mid = (if as = [] then None else Some (last as))"
    "distinct seen0" "length seen0 = length qs" by blast
  have "\<forall>p. mid = Some p \<longrightarrow> authority_value p" using as(2,4) by (auto split: if_splits)
  from step this obtain r o' g a rid where a: "ru_check_request n q start keeper None = Inr (r, o', g)" "item_at g 2 = Inr a" "authority_value a"
    "latest = Some a" "seen = rid # seen0" "rid \<notin> set seen0" "\<forall>p. mid = Some p \<longrightarrow> rebind_after p a" by (rule take_rebind_step)
  have "rebind_after x a" if x: "x \<in> set as" for x
  proof -
    have l: "rebind_after (last as) a" "as \<noteq> []" using a(7) as(4) x by (auto split: if_splits)
    have "x = last as \<or> rebind_after x (last as)" using as(3) x l(2)
      by (induction as) (auto split: if_splits)
    then show ?thesis using l authority_order_trans [of x "last as" a] as(2) a(3) x by (auto simp: rebind_after_def)
  qed
  then have "sorted_wrt rebind_after (as @ [a])" using as(3) by (simp add: sorted_wrt_append)
  then show ?case using as a by (intro exI [of _ "as @ [a]"]) (auto simp: list_all2_appendI)
qed

text \<open>C24. Along the retirement journal of an archived upload, the authorities of the accepted requests move strictly forward: a
  later request has a higher control sequence, the same application and space, and no lower epoch; and no request is counted twice.\<close>

theorem rebinds_ascend:
  assumes "foldE (take_rebind n start keeper) qs (None, []) = Inr (latest, seen)"
  shows "\<exists>as. list_all2 (\<lambda>q a. \<exists>r o' g. ru_check_request n q start keeper None = Inr (r, o', g) \<and> item_at g 2 = Inr a) qs as
    \<and> sorted_wrt (\<lambda>x y. authority_order x y = Inr () \<and> authority_seq x < authority_seq y) as \<and> distinct seen \<and> length seen = length qs"
  using rebinds_loop [OF assms] unfolding rebind_after_def by blast

theorem rebinds_ascend_witness:
  "\<exists>cmd req latest seen a. foldE (take_rebind test_sodium (PBytes cmd) (PBytes sample_keeper)) [PBytes req] (None, []) = Inr (latest, seen)
    \<and> (\<exists>r o' g. ru_check_request test_sodium (PBytes req) (PBytes cmd) (PBytes sample_keeper) None = Inr (r, o', g) \<and> item_at g 2 = Inr a)
    \<and> length seen = 1"
proof -
  obtain cap o' where cap: "length cap \<le> 600" "kc_split (PBytes cap) = Inr (sample_capability, o')"
    "env_verify (KeeperError ''CAPABILITY_AUTH'') ''keeper-local/'' test_sodium (PBytes sample_issuer) o' ''capability-sign'' = Inr ()"
    using sample_issue by blast
  obtain cmd where cmd: "length cmd \<le> 1100" "check_command test_sodium (PBytes cmd) = Inr (sample_begin cap)" using sample_begin_ok [OF cap(1,2)] by blast
  then have "cmd \<noteq> []" by (auto simp: check_command_def up_split_def bindE_eq_Inr dest: env_split_nonempty)
  then obtain req st where "take_rebind test_sodium (PBytes cmd) (PBytes sample_keeper) (PBytes req) (None, []) = Inr st"
    using sample_retirement [OF cap(2,3) cmd] by blast
  then have f: "foldE (take_rebind test_sodium (PBytes cmd) (PBytes sample_keeper)) [PBytes req] (None, []) = Inr (fst st, snd st)" by simp
  from rebinds_ascend [OF f] have "\<exists>a. (\<exists>r o' g. ru_check_request test_sodium (PBytes req) (PBytes cmd) (PBytes sample_keeper) None = Inr (r, o', g)
      \<and> item_at g 2 = Inr a) \<and> length (snd st) = 1" by (auto simp: list_all2_Cons1)
  with f show ?thesis by blast
qed

section \<open>Archives\<close>

definition file_row :: "archive_file \<Rightarrow> bool" where
  "file_row f \<longleftrightarrow> length (fst f) = 5 \<and> fst f ! 1 = PInt (int (length (snd f))) \<and> 1 \<le> length (snd f) \<and> int (length (snd f)) \<le> MAX_CONTROL"

lemma take_file_Inr:
  "take_file raw e (off, fs) = Inr st \<longleftrightarrow> (\<exists>row data. e = PList row \<and> file_row (row, data) \<and> off + length data \<le> length raw
     \<and> data = take (length data) (drop off raw) \<and> st = (off + length data, fs @ [(row, data)]))"
proof (cases e)
  case (PList row)
  show ?thesis
  proof
    assume "take_file raw e (off, fs) = Inr st"
    then obtain i where i: "length row = 5" "row ! 1 = PInt i" "1 \<le> i" "i \<le> MAX_CONTROL" "off + nat i \<le> length raw"
      "st = (off + nat i, fs @ [(row, take (nat i) (drop off raw))])"
      using PList by (auto simp: take_file_def sp_integer_def bindE_eq_Inr Let_def split: if_splits)
    then have "length (take (nat i) (drop off raw)) = nat i" by simp
    with i PList show "\<exists>row data. e = PList row \<and> file_row (row, data) \<and> off + length data \<le> length raw
     \<and> data = take (length data) (drop off raw) \<and> st = (off + length data, fs @ [(row, data)])"
      by (intro exI [of _ row] exI [of _ "take (nat i) (drop off raw)"]) (auto simp: file_row_def)
  next
    assume "\<exists>row data. e = PList row \<and> file_row (row, data) \<and> off + length data \<le> length raw
     \<and> data = take (length data) (drop off raw) \<and> st = (off + length data, fs @ [(row, data)])"
    then show "take_file raw e (off, fs) = Inr st"
      using PList by (auto simp: take_file_def sp_integer_def int_in_def file_row_def)
  qed
qed (simp_all add: take_file_def)

text \<open>The framing loop cuts the tail of the archive into the files of its manifest, in order and without gap.\<close>

lemma take_files_Inr:
  assumes "off \<le> length raw"
  shows "foldE (take_file raw) rows (off, fs) = Inr (off', fs') \<longleftrightarrow> (\<exists>new. fs' = fs @ new \<and> rows = map (PList \<circ> fst) new
     \<and> list_all file_row new \<and> off' = off + length (concat (map snd new)) \<and> off' \<le> length raw
     \<and> take (off' - off) (drop off raw) = concat (map snd new))"
  using assms
proof (induction rows arbitrary: off fs)
  case Nil
  then show ?case by auto
next
  case (Cons e rows)
  have "foldE (take_file raw) (e # rows) (off, fs) = Inr (off', fs') \<longleftrightarrow> (\<exists>row data. e = PList row \<and> file_row (row, data) \<and> off + length data \<le> length raw
     \<and> data = take (length data) (drop off raw) \<and> foldE (take_file raw) rows (off + length data, fs @ [(row, data)]) = Inr (off', fs'))"
    by (auto simp: bindE_eq_Inr take_file_Inr)
  also have "\<dots> \<longleftrightarrow> (\<exists>row data. e = PList row \<and> file_row (row, data) \<and> off + length data \<le> length raw
     \<and> data = take (length data) (drop off raw) \<and> (\<exists>new. fs' = fs @ [(row, data)] @ new \<and> rows = map (PList \<circ> fst) new \<and> list_all file_row new
     \<and> off' = off + length data + length (concat (map snd new)) \<and> off' \<le> length raw
     \<and> take (off' - (off + length data)) (drop (off + length data) raw) = concat (map snd new)))"
    by (simp add: Cons.IH comp_def cong: conj_cong)
  also have "\<dots> \<longleftrightarrow> (\<exists>new. fs' = fs @ new \<and> e # rows = map (PList \<circ> fst) new \<and> list_all file_row new
     \<and> off' = off + length (concat (map snd new)) \<and> off' \<le> length raw \<and> take (off' - off) (drop off raw) = concat (map snd new))" (is "?l \<longleftrightarrow> ?r")
  proof
    assume ?l
    then obtain row data new where x: "e = PList row" "file_row (row, data)" "data = take (length data) (drop off raw)" "fs' = fs @ (row, data) # new"
      "rows = map (PList \<circ> fst) new" "list_all file_row new" "off' = off + length data + length (concat (map snd new))" "off' \<le> length raw"
      "take (off' - (off + length data)) (drop (off + length data) raw) = concat (map snd new)" by auto
    have "take (off' - off) (drop off raw) = take (length data) (drop off raw) @ take (off' - (off + length data)) (drop (length data) (drop off raw))"
      using x(7) by (simp add: take_add)
    then have "take (off' - off) (drop off raw) = data @ concat (map snd new)" using x(3,9) by (simp add: add.commute)
    then show ?r using x by (intro exI [of _ "(row, data) # new"]) auto
  next
    assume ?r
    then obtain row data new where x: "e = PList row" "rows = map (PList \<circ> fst) new" "fs' = fs @ (row, data) # new" "file_row (row, data)" "list_all file_row new"
      "off' = off + length data + length (concat (map snd new))" "off' \<le> length raw" "take (off' - off) (drop off raw) = data @ concat (map snd new)"
      by (fastforce simp: Cons_eq_map_conv)
    have d: "take (length data) (drop off raw) = data"
      using arg_cong [OF x(8), of "take (length data)"] x(6) by (simp add: min_def)
    have "take (off' - off - length data) (drop (length data) (drop off raw)) = concat (map snd new)"
      using arg_cong [OF x(8), of "drop (length data)"] by (simp add: drop_take)
    then have "take (off' - (off + length data)) (drop (off + length data) raw) = concat (map snd new)"
      by (simp add: add.commute)
    with d have "data = take (length data) (drop off raw)" "take (off' - (off + length data)) (drop (off + length data) raw) = concat (map snd new)"
      by simp_all
    then show ?l using x by auto
  qed
  finally show ?case .
qed

lemma archive_frame_layout:
  assumes "archive_frame n keeper raw = Inr (b, files)"
  shows "\<exists>header. raw = archive_magic @ to_bytes 4 (length header) @ header @ concat (map snd files)
    \<and> uw_verified n (PBytes header) ''archive'' keeper 900000 = Inr b \<and> list_all file_row files
    \<and> item_at b 5 = Inr (PList (map (PList \<circ> fst) files))"
proof -
  let ?k = "from_bytes (take 4 (drop 7 raw))"
  obtain rows where r: "11 \<le> length raw" "take 7 raw = archive_magic" "11 + ?k \<le> length raw"
    "uw_verified n (PBytes (take ?k (drop 11 raw))) ''archive'' keeper 900000 = Inr b" "item_at b 5 = Inr (PList rows)"
    "foldE (take_file raw) rows (11 + ?k, []) = Inr (length raw, files)"
    using assms by (auto simp: archive_frame_def bindE_eq_Inr Let_def case_list_Inr)
  obtain new where new: "files = [] @ new" "rows = map (PList \<circ> fst) new" "list_all file_row new"
    "take (length raw - (11 + ?k)) (drop (11 + ?k) raw) = concat (map snd new)"
    using iffD1 [OF take_files_Inr [OF r(3)] r(6)] by blast
  have "take (length raw - (11 + ?k)) (drop (11 + ?k) raw) = drop (11 + ?k) raw" by (rule take_all) simp
  with new have f: "rows = map (PList \<circ> fst) files" "list_all file_row files" "drop (11 + ?k) raw = concat (map snd files)"
    by (simp_all only: append_Nil)
  have "take ?k (drop 11 raw) @ drop (11 + ?k) raw = drop 11 raw"
    using append_take_drop_id [of ?k "drop 11 raw"] by (simp add: add.commute)
  moreover have "take 4 (drop 7 raw) @ drop 11 raw = drop 7 raw" using append_take_drop_id [of 4 "drop 7 raw"] by simp
  ultimately have "raw = take 7 raw @ take 4 (drop 7 raw) @ take ?k (drop 11 raw) @ drop (11 + ?k) raw"
    by (simp only: append_take_drop_id)
  moreover have "to_bytes 4 (length (take ?k (drop 11 raw))) = take 4 (drop 7 raw)"
    using r(1,3) by (simp add: to_from_bytes)
  ultimately show ?thesis using r(2,4,5) f by (intro exI [of _ "take ?k (drop 11 raw)"] conjI) (simp_all only: f)
qed

lemma take_entry_step:
  "take_entry f st = Inr st' \<Longrightarrow> \<exists>s. fst f ! 0 = PStr s \<and> archive_name s \<noteq> None \<and> fst f ! 2 = PBytes (sha256 (snd f)) \<and> snd st' = snd st @ [s]"
  by (cases f) (auto simp: take_entry_def bindE_eq_Inr split: list.split_asm pyval.split_asm option.split_asm)

lemma take_entries_names:
  "foldE take_entry files (gs, ns) = Inr (gs', ns') \<Longrightarrow> \<exists>names. ns' = ns @ names \<and> list_all2 (\<lambda>f s. fst f ! 0 = PStr s \<and> archive_name s \<noteq> None
     \<and> fst f ! 2 = PBytes (sha256 (snd f))) files names"
proof (induction files arbitrary: gs ns)
  case (Cons f files)
  then obtain s gs1 where s: "fst f ! 0 = PStr s" "archive_name s \<noteq> None" "fst f ! 2 = PBytes (sha256 (snd f))"
    "foldE take_entry files (gs1, ns @ [s]) = Inr (gs', ns')"
    using take_entry_step [of f "(gs, ns)"] by (fastforce simp: bindE_eq_Inr)
  from Cons.IH [OF s(4)] obtain names where "ns' = (ns @ [s]) @ names" "list_all2 (\<lambda>f s. fst f ! 0 = PStr s \<and> archive_name s \<noteq> None
     \<and> fst f ! 2 = PBytes (sha256 (snd f))) files names" by blast
  then show ?case using s by (intro exI [of _ "s # names"]) simp
qed simp

text \<open>An accepted archive is exactly its signed header followed by its files: the magic, the length of the header, the header
  that the keeper signed, and the bytes of the files in the order of the manifest. Every file has the size and the SHA-256 digest
  its row names, and the names are ascending without repetition.\<close>

theorem archive_layout:
  assumes "check_archive n raw window = Inr (b, files)"
  shows "\<exists>header keeper names. raw = archive_magic @ to_bytes 4 (length header) @ header @ concat (map snd files)
    \<and> uw_verified n (PBytes header) ''archive'' keeper 900000 = Inr b
    \<and> list_all2 (\<lambda>f s. fst f ! 0 = PStr s \<and> fst f ! 1 = PInt (int (length (snd f))) \<and> fst f ! 2 = PBytes (sha256 (snd f))) files names
    \<and> sorted_names names"
proof -
  obtain w keeper gs names where c: "check_window n window = Inr w" "item_at w 3 = Inr keeper" "archive_frame n keeper raw = Inr (b, files)"
    "foldE take_entry files ([], []) = Inr (gs, names)" "sorted_names names"
    using assms by (auto simp: check_archive_def bindE_eq_Inr)
  obtain header where h: "raw = archive_magic @ to_bytes 4 (length header) @ header @ concat (map snd files)"
    "uw_verified n (PBytes header) ''archive'' keeper 900000 = Inr b" "list_all file_row files"
    using archive_frame_layout [OF c(3)] by blast
  have "list_all2 (\<lambda>f s. fst f ! 0 = PStr s \<and> archive_name s \<noteq> None \<and> fst f ! 2 = PBytes (sha256 (snd f))) files names"
    using take_entries_names [OF c(4)] by simp
  then have "list_all2 (\<lambda>f s. fst f ! 0 = PStr s \<and> fst f ! 1 = PInt (int (length (snd f))) \<and> fst f ! 2 = PBytes (sha256 (snd f))) files names"
    using h(3) by (auto simp: list_all2_conv_all_nth list_all_length file_row_def)
  then show ?thesis using h c(5) by blast
qed

lemma uw_unpack_split: "env_split (ServiceError ''FRAME_LIMIT'') sp_error mb raw = Inr (body, outer) \<Longrightarrow> uw_unpack raw mb = Inr (body, outer)"
  by (auto simp: env_split_Inr uw_unpack_def uw_load_def sp_load_def env_load_Inr sp_keys_def sp_fixed_def is_bytes_def bindE_eq_Inr)

lemma archive_frame_intro:
  assumes "raw = archive_magic @ to_bytes 4 (length header) @ header @ concat (map snd files)" "length raw \<le> MAX_ARCHIVE"
    and "1 \<le> length header" "length header \<le> 900000" "list_all file_row files" "length files \<le> 3072"
    and b: "uw_verified n (PBytes header) ''archive'' keeper 900000 = Inr b" "sp_keys b (key_range 7) = Inr ()" "uw_version b = Inr ()"
      "item_at b 4 = Inr seqv" "sp_integer seqv 1 MAX_WINDOWS = Inr ()" "item_at b 5 = Inr (PList (map (PList \<circ> fst) files))"
  shows "archive_frame n keeper raw = Inr (b, files)"
proof -
  let ?tail = "concat (map snd files)" and ?h = "length header"
  have m: "length archive_magic = 7" by (simp add: archive_magic_def cps_def)
  have len: "length raw = 11 + ?h + length ?tail" using assms(1) m by simp
  have k: "from_bytes (take 4 (drop 7 raw)) = ?h" using assms(1,4) m by (simp add: from_to_bytes)
  have d: "drop 11 raw = header @ ?tail" using assms(1) m by simp
  then have "drop (11 + ?h) raw = ?tail" by (metis append_eq_conv_conj drop_drop add.commute)
  then have "foldE (take_file raw) (map (PList \<circ> fst) files) (11 + ?h, []) = Inr (length raw, files)"
    using len assms(5) by (subst take_files_Inr) (simp_all add: exI [of _ files])
  moreover have "take 7 raw = archive_magic" "take ?h (drop 11 raw) = header" using assms(1) m d by simp_all
  ultimately show ?thesis using assms(2,3,4,6) len k b by (simp add: archive_frame_def)
qed

lemma archive_frame_signed:
  assumes "sodium_ok n" "p_sign_public n seed = Inr pk"
    and "sign_archive n seed [(0, PInt 1), (1, UW_PROFILE), (2, PBytes w), (3, PBytes store), (4, PInt sequence)] files (PInt groups) = Inr raw"
    and "1 \<le> sequence" "sequence \<le> 64" "list_all file_row files" "length files \<le> 3072"
    and "list_all (\<lambda>f. list_all (\<lambda>x. wf_py x \<and> canon x = x) (fst f)) files"
  shows "archive_frame n (PBytes pk) raw = Inr (mk_dict [(0, PInt 1), (1, UW_PROFILE), (2, PBytes w), (3, PBytes store), (4, PInt sequence),
    (5, PList (map (\<lambda>f. PList (fst f)) files)), (6, PInt groups)], files)"
proof -
  let ?b = "mk_dict [(0, PInt 1), (1, UW_PROFILE), (2, PBytes w), (3, PBytes store), (4, PInt sequence),
    (5, PList (map (\<lambda>f. PList (fst f)) files)), (6, PInt groups)]"
  obtain header where h: "env_signed sp_error 900000 ''upload-replay-window-local/'' n seed ''archive'' ?b = Inr header"
    and raw: "raw = archive_magic @ to_bytes 4 (length header) @ header @ concat (map snd files)" "length raw \<le> MAX_ARCHIVE"
    using assms(3) by (auto simp: sign_archive_def uw_signed_def bindE_eq_Inr Let_def)
  have pk: "length pk = 32" using assms(1,2) by (auto simp: p_sign_public_def sodium_ok_def bindE_eq_Inr split: option.splits)
  have flat: "wf_py ?b" "canon ?b = ?b"
    using assms(8) by (auto simp: mk_dict_def UW_PROFILE_def list_all_iff intro!: map_idI)
  obtain outer where o: "env_split (ServiceError ''FRAME_LIMIT'') sp_error 900000 (PBytes header) = Inr (?b, outer)"
    "env_verify (ServiceError ''WINDOW_SIGNATURE'') ''upload-replay-window-local/'' n (PBytes pk) outer ''archive'' = Inr ()"
    using env_roundtrip [OF assms(1,2) h flat] by blast
  then have "1 \<le> length header" "length header \<le> 900000"
    using length_cbor_pos [of outer] by (auto simp: env_split_Inr decode_iff)
  moreover have "uw_verified n (PBytes header) ''archive'' (PBytes pk) 900000 = Inr ?b"
    using uw_unpack_split [OF o(1)] o(2) pk by (simp add: uw_verified_def sp_fixed_def bytes_sized_def)
  ultimately show ?thesis using assms(4,5)
    by (intro archive_frame_intro [OF raw _ _ assms(6,7), where seqv = "PInt sequence"])
      (simp_all add: uw_version_def sp_keys_def key_range_numeral sp_integer_def int_in_def field_is_def MAX_WINDOWS_def comp_def)
qed

text \<open>A signed archive reads back: the frame of what \<^verbatim>\<open>sign_archive\<close> wrote is the manifest that was signed and the files with
  their bytes, when the rows name the sizes of the files.\<close>

theorem archive_roundtrip:
  assumes "sodium_ok n" "p_sign_public n seed = Inr pk"
    and "sign_archive n seed [(0, PInt 1), (1, UW_PROFILE), (2, PBytes w), (3, PBytes store), (4, PInt sequence)] files (PInt groups) = Inr raw"
    and "1 \<le> sequence" "sequence \<le> 64" "list_all file_row files" "length files \<le> 3072"
    and "list_all (\<lambda>f. list_all (\<lambda>x. wf_py x \<and> canon x = x) (fst f)) files"
  shows "archive_frame n (PBytes pk) raw = Inr (mk_dict [(0, PInt 1), (1, UW_PROFILE), (2, PBytes w), (3, PBytes store), (4, PInt sequence),
    (5, PList (map (\<lambda>f. PList (fst f)) files)), (6, PInt groups)], files)"
  using assms by (rule archive_frame_signed)

text \<open>A sample window, an archive of it without any stage, and an archive frame with one file.\<close>

definition sample_window :: pyval where
  "sample_window = mk_dict [(0, PInt 1), (1, UW_PROFILE), (2, keeper_authority_body), (3, PBytes sample_keeper), (4, PBytes (replicate 32 1)), (5, PInt 1),
     (6, PBytes (replicate 32 2)), (7, PNone)]"

lemma sample_window_ok: "\<exists>raw. length raw \<le> 500 \<and> raw \<noteq> [] \<and> check_window test_sodium (PBytes raw) = Inr sample_window"
proof -
  have e: "\<exists>b. encode sample_window MAX_CONTROL MAX_NODES = Inr b \<and> length b \<le> 400"
    by (simp add: sample_window_def sample_defs UW_PROFILE_def MAX_CONTROL_def encode_simps) (simp add: nhead_def cps_def utf8_cp_def)
  have flat: "wf_py sample_window" "canon sample_window = sample_window"
    by (simp_all add: sample_window_def keeper_authority_body_def UW_PROFILE_def mk_dict_def)
  have "\<exists>raw outer. env_signed sp_error MAX_CONTROL ''upload-replay-window-local/'' test_sodium sample_issuer ''open'' sample_window = Inr raw \<and> length raw \<le> 400 + 100
    \<and> env_split (ServiceError ''FRAME_LIMIT'') sp_error MAX_CONTROL (PBytes raw) = Inr (sample_window, outer)
    \<and> env_verify (ServiceError ''WINDOW_SIGNATURE'') ''upload-replay-window-local/'' test_sodium (PBytes sample_issuer) outer ''open'' = Inr ()"
    by (rule env_sample [OF e _ _ _ _ _ flat]) (use sample_label in \<open>simp_all add: MAX_CONTROL_def MAX_BYTES_def\<close>)
  then obtain raw outer where raw: "length raw \<le> 500" "env_split (ServiceError ''FRAME_LIMIT'') sp_error MAX_CONTROL (PBytes raw) = Inr (sample_window, outer)"
    "env_verify (ServiceError ''WINDOW_SIGNATURE'') ''upload-replay-window-local/'' test_sodium (PBytes sample_issuer) outer ''open'' = Inr ()" by auto
  have "authority_from keeper_authority_body = Inr keeper_authority" using keeper_authority_ok by (simp add: authority_from_Inr)
  moreover have "uw_verified test_sodium (PBytes raw) ''open'' (PBytes sample_issuer) MAX_CONTROL = Inr sample_window"
    using uw_unpack_split [OF raw(2)] raw(3) by (simp add: uw_verified_def sp_fixed_def bytes_sized_def)
  ultimately have "check_window test_sodium (PBytes raw) = Inr sample_window"
    using uw_unpack_split [OF raw(2)] by (simp add: check_window_def sample_window_def uw_version_def check_simps MAX_WINDOWS_def)
  then show ?thesis using raw(1) env_split_nonempty [OF raw(2)] by blast
qed

lemma window_digest_sample:
  assumes "w \<noteq> []" "length w \<le> 500"
  shows "\<exists>d. uw_digest (PBytes w) = Inr d \<and> length d = 32"
proof -
  have "\<exists>d. c_domain (cps ''upload-replay-window-local/bytes'') [PInt (int (length w)), PBytes (sha256 w)] = Inr d \<and>
      length d \<le> 200 + length (concat (map cbor [PInt (int (length w)), PBytes (sha256 w)]))"
    by (rule c_domain_Inr [where lb = "map byte (cps ''upload-replay-window-local/bytes'')"])
      (use assms(2) nhead_bound [of 0 "length w"] in \<open>simp_all add: label_pattern_def lower_digit_def cps_def utf8_cp_def U64_def nhead_def [of 2]\<close>)
  then show ?thesis using assms by (auto simp: uw_digest_def hashed_def MAX_ARCHIVE_def)
qed

lemma sample_sign_archive:
  assumes "length d = 32" "\<exists>b. encode (mk_dict [(0, PInt 1), (1, UW_PROFILE), (2, PBytes d), (3, PBytes (replicate 32 1)), (4, PInt 1),
      (5, PList (map (\<lambda>f. PList (fst f)) files)), (6, PInt g)]) 900000 MAX_NODES = Inr b \<and> length b \<le> 1000"
    and "wf_py (PList (map (\<lambda>f. PList (fst f)) files))" "canon (PList (map (\<lambda>f. PList (fst f)) files)) = PList (map (\<lambda>f. PList (fst f)) files)"
    and "length (concat (map snd files)) \<le> 1000"
  shows "\<exists>raw. sign_archive test_sodium sample_keeper [(0, PInt 1), (1, UW_PROFILE), (2, PBytes d), (3, PBytes (replicate 32 1)), (4, PInt 1)] files (PInt g) = Inr raw"
proof -
  let ?b = "mk_dict [(0, PInt 1), (1, UW_PROFILE), (2, PBytes d), (3, PBytes (replicate 32 1)), (4, PInt 1),
      (5, PList (map (\<lambda>f. PList (fst f)) files)), (6, PInt g)]"
  have "wf_py ?b" "canon ?b = ?b" using assms(3,4) by (simp_all add: mk_dict_def UW_PROFILE_def)
  then have "\<exists>h outer. env_signed sp_error 900000 ''upload-replay-window-local/'' test_sodium sample_keeper ''archive'' ?b = Inr h \<and> length h \<le> 1000 + 100
    \<and> env_split sp_error sp_error 900000 (PBytes h) = Inr (?b, outer)
    \<and> env_verify sp_error ''upload-replay-window-local/'' test_sodium (PBytes sample_keeper) outer ''archive'' = Inr ()"
    by (intro env_sample [OF assms(2)]) (use sample_label in \<open>simp_all add: MAX_BYTES_def\<close>)
  then show ?thesis using assms(5) by (auto simp: sign_archive_def uw_signed_def Let_def archive_magic_def MAX_ARCHIVE_def cps_def)
qed

definition sample_file :: archive_file where
  "sample_file = ([PStr (cps ''x''), PInt 3, PBytes (replicate 32 0), PInt 0, PInt 0], [1, 2, 3])"

theorem archive_roundtrip_witness:
  "\<exists>raw b. sign_archive test_sodium sample_keeper [(0, PInt 1), (1, UW_PROFILE), (2, PBytes (replicate 32 4)), (3, PBytes (replicate 32 1)), (4, PInt 1)] [sample_file] (PInt 1) = Inr raw
    \<and> archive_frame test_sodium (PBytes sample_keeper) raw = Inr (b, [sample_file])"
proof -
  have "\<exists>raw. sign_archive test_sodium sample_keeper [(0, PInt 1), (1, UW_PROFILE), (2, PBytes (replicate 32 4)), (3, PBytes (replicate 32 1)), (4, PInt 1)] [sample_file] (PInt 1) = Inr raw"
    by (rule sample_sign_archive; simp add: sample_file_def UW_PROFILE_def encode_simps; simp add: nhead_def cps_def utf8_cp_def)
  then obtain raw where raw: "sign_archive test_sodium sample_keeper [(0, PInt 1), (1, UW_PROFILE), (2, PBytes (replicate 32 4)), (3, PBytes (replicate 32 1)), (4, PInt 1)] [sample_file] (PInt 1) = Inr raw" ..
  have "file_row sample_file" by (simp add: file_row_def sample_file_def MAX_CONTROL_def)
  then have "archive_frame test_sodium (PBytes sample_keeper) raw = Inr (mk_dict [(0, PInt 1), (1, UW_PROFILE), (2, PBytes (replicate 32 4)),
      (3, PBytes (replicate 32 1)), (4, PInt 1), (5, PList (map (\<lambda>f. PList (fst f)) [sample_file])), (6, PInt 1)], [sample_file])"
    by (intro archive_roundtrip [OF test_sodium_ok sample_public raw]) (simp_all add: sample_file_def)
  with raw show ?thesis by blast
qed

theorem archive_layout_witness:
  "\<exists>raw window b header. check_archive test_sodium raw window = Inr (b, []) \<and> raw = archive_magic @ to_bytes 4 (length header) @ header"
proof -
  obtain w where w: "length w \<le> 500" "w \<noteq> []" "check_window test_sodium (PBytes w) = Inr sample_window" using sample_window_ok by blast
  obtain d where d: "uw_digest (PBytes w) = Inr d" "length d = 32" using window_digest_sample [OF w(2,1)] by blast
  have "\<exists>raw. sign_archive test_sodium sample_keeper [(0, PInt 1), (1, UW_PROFILE), (2, PBytes d), (3, PBytes (replicate 32 1)), (4, PInt 1)] [] (PInt 0) = Inr raw"
    by (rule sample_sign_archive; use d(2) in \<open>simp add: UW_PROFILE_def encode_simps\<close>; use d(2) in \<open>simp add: nhead_def cps_def utf8_cp_def\<close>)
  then obtain raw where raw: "sign_archive test_sodium sample_keeper [(0, PInt 1), (1, UW_PROFILE), (2, PBytes d), (3, PBytes (replicate 32 1)), (4, PInt 1)] [] (PInt 0) = Inr raw" ..
  let ?b = "mk_dict [(0, PInt 1), (1, UW_PROFILE), (2, PBytes d), (3, PBytes (replicate 32 1)), (4, PInt 1), (5, PList []), (6, PInt 0)]"
  have "archive_frame test_sodium (PBytes sample_keeper) raw = Inr (?b, [])"
    using archive_frame_signed [OF test_sodium_ok sample_public raw] by simp
  then have c: "check_archive test_sodium raw (PBytes w) = Inr (?b, [])"
    using w(3) d by (simp add: check_archive_def sample_window_def sp_integer_def int_in_def sorted_names_def sort_str_def)
  from archive_layout [OF c] c show ?thesis by auto
qed

end
