(* ===== verification/WindowHost.thy ===== *)
theory WindowHost
  imports Window
begin

text \<open>
  The generation-bound upload protocol in front of a replay window, \<^verbatim>\<open>par_window_host/protocol.py\<close> (prefix \<open>wh_\<close>): a hello
  that names the window and its phase, a request that carries a wrapped data command, and the response.
\<close>

definition WH_PROFILE :: pyval where "WH_PROFILE = PStr (cps ''upload-window-host-local-v1'')"
definition WH_ERRORS :: "string list" where "WH_ERRORS = UP_ERRORS @ [''STALE_WINDOW'']"
definition WH_PHASES :: "string list" where "WH_PHASES = [''OPEN'', ''CLOSED'', ''CLEANED'']"

definition wh_digest :: "pyval \<Rightarrow> bytes res" where
  "wh_digest raw = (case raw of PBytes _ \<Rightarrow> hashed ''upload-window-host-local/bytes'' [raw] | _ \<Rightarrow> Inl sp_error)"

definition wh_signed :: "sodium \<Rightarrow> bytes \<Rightarrow> string \<Rightarrow> pyval \<Rightarrow> int \<Rightarrow> bytes res" where
  "wh_signed n seed label body maximum = env_signed sp_error maximum ''upload-window-host-local/'' n seed label body"

text \<open>\<^verbatim>\<open>_split\<close> tests the type of the body before loading it; \<^verbatim>\<open>load\<close> refuses a body that is not bytes with the same error.\<close>

definition wh_split :: "pyval \<Rightarrow> int \<Rightarrow> (pyval \<times> pyval) res" where
  "wh_split raw maximum = env_split (ServiceError ''FRAME_LIMIT'') sp_error maximum raw"

definition wh_verify :: "sodium \<Rightarrow> pyval \<Rightarrow> pyval \<Rightarrow> string \<Rightarrow> unit res" where
  "wh_verify n public o' label =
     bindE (sp_fixed public 32) (\<lambda>_. env_verify (ServiceError ''SIGNATURE'') ''upload-window-host-local/'' n public o' label)"

definition wh_version :: "pyval \<Rightarrow> unit res" where
  "wh_version b =
     bindE (bindE (item_at b 0) (\<lambda>x. sp_integer x 1 1)) (\<lambda>_. field_is sp_error b 1 WH_PROFILE)"

definition wh_make_hello :: "sodium \<Rightarrow> bytes \<Rightarrow> pyval \<Rightarrow> pyval \<Rightarrow> pyval \<Rightarrow> pyval \<Rightarrow> pyval \<Rightarrow> pyval \<Rightarrow> bytes res" where
  "wh_make_hello n seed store window phase boot challenge deadline_ms =
     bindE (allE (\<lambda>v. sp_fixed v 32) [PBytes seed, store, boot, challenge]) (\<lambda>_.
     bindE (sp_integer deadline_ms 50 30000) (\<lambda>_.
     bindE (check_window n window) (\<lambda>g.
     bindE (p_sign_public n seed) (\<lambda>pk.
     bindE (item_at g 3) (\<lambda>g3. bindE (item_at g 4) (\<lambda>g4.
     bindE (need (g3 = PBytes pk \<and> g4 = store) (ServiceError ''WINDOW_SCOPE'')) (\<lambda>_.
     bindE (need (error_name WH_PHASES phase) sp_error) (\<lambda>_.
     bindE (uw_digest window) (\<lambda>d. bindE (item_at g 5) (\<lambda>g5.
       wh_signed n seed ''hello'' (mk_dict [(0, PInt 1), (1, WH_PROFILE), (2, PBytes pk), (3, boot), (4, challenge), (5, deadline_ms),
         (6, PInt UP_MAX_REQUEST), (7, PInt MAX_RESPONSE), (8, store), (9, PBytes d), (10, g5), (11, phase)]) MAX_HELLO))))))))))"

definition wh_check_hello :: "sodium \<Rightarrow> pyval \<Rightarrow> pyval \<Rightarrow> pyval \<Rightarrow> pyval \<Rightarrow> pyval res" where
  "wh_check_hello n public store window raw =
     bindE (sp_fixed public 32) (\<lambda>_.
     bindE (sp_fixed store 32) (\<lambda>_.
     bindE (check_window n window) (\<lambda>g.
     bindE (wh_split raw MAX_HELLO) (\<lambda>(b, o').
     bindE (sp_keys b (key_range 12)) (\<lambda>_.
     bindE (wh_version b) (\<lambda>_.
     bindE (each_sized sp_error b [2, 3, 4, 8, 9]) (\<lambda>_.
     bindE (bindE (item_at b 5) (\<lambda>x. sp_integer x 50 30000)) (\<lambda>_.
     bindE (bindE (item_at b 6) (\<lambda>x. sp_integer x UP_MAX_REQUEST UP_MAX_REQUEST)) (\<lambda>_.
     bindE (bindE (item_at b 7) (\<lambda>x. sp_integer x MAX_RESPONSE MAX_RESPONSE)) (\<lambda>_.
     bindE (bindE (item_at b 10) (\<lambda>x. sp_integer x 1 MAX_WINDOWS)) (\<lambda>_.
     bindE (field_in sp_error b 11 WH_PHASES) (\<lambda>_.
     bindE (wh_verify n public o' ''hello'') (\<lambda>_.
     bindE (uw_digest window) (\<lambda>d.
     bindE (mapE (item_at g) [3, 4, 5]) (\<lambda>gs. bindE (mapE (item_at b) [2, 8, 9, 10]) (\<lambda>bs.
     bindE (need (take 2 gs = [public, store] \<and> bs = [public, store, PBytes d] @ drop 2 gs) (ServiceError ''WINDOW_SCOPE'')) (\<lambda>_.
       Inr b)))))))))))))))))"

definition data_command :: "sodium \<Rightarrow> pyval \<Rightarrow> pyval \<Rightarrow> (pyval \<times> pyval) res" where
  "data_command n window raw =
     bindE (need (case raw of PBytes r \<Rightarrow> int (length r) \<le> UP_MAX_REQUEST | _ \<Rightarrow> False) (ServiceError ''FRAME_LIMIT'')) (\<lambda>_.
     bindE (uw_check_command n window raw) (\<lambda>outer.
     bindE (field_is (ServiceError ''METHOD_DENIED'') outer 3 (PStr (cps ''execute''))) (\<lambda>_.
     bindE (bindE (item_at outer 4) (check_command n)) (\<lambda>inner.
     bindE (field_in (ServiceError ''METHOD_DENIED'') inner 2 UP_METHODS) (\<lambda>_.
       Inr (outer, inner))))))"

definition wh_make_request :: "sodium \<Rightarrow> bytes \<Rightarrow> pyval \<Rightarrow> pyval \<Rightarrow> pyval \<Rightarrow> bytes res" where
  "wh_make_request n seed hello window command =
     bindE (data_command n window command) (\<lambda>(outer, inner).
     bindE (bindE (item_at inner 4) kc_split) (\<lambda>(cap, _).
     bindE (check_window n window) (\<lambda>g.
     bindE (item_at cap 3) (\<lambda>cap3. bindE (item_at g 4) (\<lambda>g4.
     bindE (wh_check_hello n cap3 g4 window hello) (\<lambda>b.
     bindE (field_is (ServiceError ''WINDOW_CLOSED'') b 11 (PStr (cps ''OPEN''))) (\<lambda>_.
     bindE (p_sign_public n seed) (\<lambda>pk.
     bindE (field_is (ServiceError ''REQUEST_AUTH'') outer 5 (PBytes pk)) (\<lambda>_.
     bindE (wh_digest hello) (\<lambda>d.
       wh_signed n seed ''request'' (mk_dict [(0, PInt 1), (1, WH_PROFILE), (2, PBytes d), (3, command)]) UP_MAX_REQUEST))))))))))"

definition wh_check_request :: "sodium \<Rightarrow> pyval \<Rightarrow> pyval \<Rightarrow> pyval \<Rightarrow> pyval \<Rightarrow> pyval \<Rightarrow> pyval res" where
  "wh_check_request n public store window hello raw =
     bindE (wh_check_hello n public store window hello) (\<lambda>h.
     bindE (field_is (ServiceError ''WINDOW_CLOSED'') h 11 (PStr (cps ''OPEN''))) (\<lambda>_.
     bindE (wh_split raw UP_MAX_REQUEST) (\<lambda>(b, o').
     bindE (sp_keys b (key_range 4)) (\<lambda>_.
     bindE (wh_version b) (\<lambda>_.
     bindE (each_sized sp_error b [2]) (\<lambda>_.
     bindE (item_at b 3) (\<lambda>command.
     bindE (data_command n window command) (\<lambda>(outer, inner).
     bindE (bindE (item_at inner 4) kc_split) (\<lambda>(cap, _).
     bindE (bindE (item_at outer 5) (\<lambda>pk. wh_verify n pk o' ''request'')) (\<lambda>_.
     bindE (wh_digest hello) (\<lambda>d.
     bindE (field_is (ServiceError ''REQUEST_SCOPE'') b 2 (PBytes d)) (\<lambda>_.
     bindE (field_is (ServiceError ''REQUEST_SCOPE'') cap 3 public) (\<lambda>_.
       Inr command)))))))))))))"

definition wh_make_response :: "sodium \<Rightarrow> bytes \<Rightarrow> pyval \<Rightarrow> pyval \<Rightarrow> bool \<Rightarrow> pyval \<Rightarrow> bytes res" where
  "wh_make_response n seed hello request ok v =
     bindE (need (ok \<or> error_name WH_ERRORS v) sp_error) (\<lambda>_.
     bindE (wh_digest hello) (\<lambda>h. bindE (wh_digest request) (\<lambda>r.
       wh_signed n seed ''response'' (response_body WH_PROFILE h r ok v) MAX_RESPONSE)))"

definition wh_check_response :: "sodium \<Rightarrow> pyval \<Rightarrow> pyval \<Rightarrow> pyval \<Rightarrow> pyval \<Rightarrow> pyval res" where
  "wh_check_response n public hello request raw =
     bindE (wh_split raw MAX_RESPONSE) (\<lambda>(b, o').
     bindE (sp_keys b (key_range 7)) (\<lambda>_.
     bindE (wh_version b) (\<lambda>_.
     bindE (each_sized sp_error b [2, 3]) (\<lambda>_.
     bindE (response_flags b) (\<lambda>_.
     bindE (wh_verify n public o' ''response'') (\<lambda>_.
     bindE (wh_digest hello) (\<lambda>h. bindE (wh_digest request) (\<lambda>r.
     bindE (field_is (ServiceError ''RESPONSE_SCOPE'') b 2 (PBytes h)) (\<lambda>_.
     bindE (field_is (ServiceError ''RESPONSE_SCOPE'') b 3 (PBytes r)) (\<lambda>_.
       response_value WH_ERRORS b))))))))))"

end
