(* ===== verification/WindowHostProps.thy ===== *)
theory WindowHostProps
  imports WindowHost KeeperSamples
begin

text \<open>What a client of the window host can conclude from a response.\<close>

lemma response_value_Inr: "response_value names b = Inr v \<Longrightarrow> item_at b 5 = Inr v"
  by (auto simp: response_value_def bindE_eq_Inr split: if_splits pyval.splits)

lemma response_split:
  assumes "wh_check_response n public hello request raw = Inr v"
  shows "\<exists>b o' h r. wh_split raw MAX_RESPONSE = Inr (b, o') \<and> wh_digest hello = Inr h \<and> wh_digest request = Inr r
    \<and> item_at b 2 = Inr (PBytes h) \<and> item_at b 3 = Inr (PBytes r) \<and> item_at b 5 = Inr v"
  using assms by (auto simp: wh_check_response_def bindE_eq_Inr field_is_def dest: response_value_Inr)

lemma digest_length: "wh_digest x = Inr h \<Longrightarrow> length h = 32"
  by (auto simp: wh_digest_def hashed_def bindE_eq_Inr split: pyval.splits)

lemma made_response:
  assumes "sodium_ok n" "p_sign_public n seed = Inr pk" "wh_make_response n seed hello request ok v = Inr raw" "wf_py v" "canon v = v"
  shows "\<exists>h r o'. wh_digest hello = Inr h \<and> wh_digest request = Inr r \<and> (ok \<or> error_name WH_ERRORS v)
    \<and> wh_split (PBytes raw) MAX_RESPONSE = Inr (response_body WH_PROFILE h r ok v, o') \<and> wh_verify n (PBytes pk) o' ''response'' = Inr ()"
proof -
  obtain h r where hr: "wh_digest hello = Inr h" "wh_digest request = Inr r" "ok \<or> error_name WH_ERRORS v"
    and s: "env_signed sp_error MAX_RESPONSE ''upload-window-host-local/'' n seed ''response'' (response_body WH_PROFILE h r ok v) = Inr raw"
    using assms(3) by (auto simp: wh_make_response_def wh_signed_def bindE_eq_Inr)
  have f: "wf_py (response_body WH_PROFILE h r ok v)" "canon (response_body WH_PROFILE h r ok v) = response_body WH_PROFILE h r ok v"
    using assms(4,5) by (simp_all add: response_body_def mk_dict_def WH_PROFILE_def)
  have "length pk = 32" using assms(1,2) by (auto simp: sodium_ok_def p_sign_public_def bindE_eq_Inr split: option.splits)
  then show ?thesis using env_roundtrip [OF assms(1,2) s f, of "ServiceError ''FRAME_LIMIT''" sp_error "ServiceError ''SIGNATURE''"] hr
    by (auto simp: wh_split_def wh_verify_def sp_fixed_def bytes_sized_def)
qed

text \<open>A response answers its request. What the host signed for a hello and a request is accepted by the client that has them, with
  the value or, for a failure, with the named remote error; and nobody accepts it for a hello or a request with another digest.
\<close>

theorem window_response:
  assumes "sodium_ok n" "p_sign_public n seed = Inr pk" "wh_make_response n seed hello request ok v = Inr raw" "wf_py v" "canon v = v"
  shows "wh_check_response n (PBytes pk) hello request (PBytes raw)
      = (if ok then Inr v else case v of PStr s \<Rightarrow> Inl (ServiceError (''REMOTE_'' @ map char_of s)) | _ \<Rightarrow> Inl sp_error)
    \<and> (\<forall>n' public' hello' request' v'. wh_check_response n' public' hello' request' (PBytes raw) = Inr v'
        \<longrightarrow> wh_digest hello' = wh_digest hello \<and> wh_digest request' = wh_digest request \<and> v' = v)"
proof -
  obtain h r o' where m: "wh_digest hello = Inr h" "wh_digest request = Inr r" "ok \<or> error_name WH_ERRORS v"
      "wh_split (PBytes raw) MAX_RESPONSE = Inr (response_body WH_PROFILE h r ok v, o')" "wh_verify n (PBytes pk) o' ''response'' = Inr ()"
    using made_response [OF assms] by blast
  note l = digest_length [OF m(1)] digest_length [OF m(2)]
  have b: "sp_keys (response_body WH_PROFILE h r ok v) (key_range 7) = Inr ()" "wh_version (response_body WH_PROFILE h r ok v) = Inr ()"
      "each_sized sp_error (response_body WH_PROFILE h r ok v) [2, 3] = Inr ()" "response_flags (response_body WH_PROFILE h r ok v) = Inr ()"
    using l by (simp_all add: response_body_def sp_keys_def key_range_def upt_rec wh_version_def sp_integer_def int_in_def field_is_def each_sized_def
        bytes_sized_def response_flags_def)
  have "wh_check_response n (PBytes pk) hello request (PBytes raw) = response_value WH_ERRORS (response_body WH_PROFILE h r ok v)"
    using m b by (simp add: wh_check_response_def) (simp add: response_body_def field_is_def)
  moreover have "response_value WH_ERRORS (response_body WH_PROFILE h r ok v)
      = (if ok then Inr v else case v of PStr s \<Rightarrow> Inl (ServiceError (''REMOTE_'' @ map char_of s)) | _ \<Rightarrow> Inl sp_error)"
    using m(3) by (cases v) (auto simp: response_value_def response_body_def error_name_def)
  moreover have "wh_digest hello' = Inr h \<and> wh_digest request' = Inr r \<and> v' = v"
    if "wh_check_response n' public' hello' request' (PBytes raw) = Inr v'" for n' public' hello' request' v'
    using response_split [OF that] m(4) by (auto simp: response_body_def)
  ultimately show ?thesis using m(1,2) by auto
qed

theorem window_response_witness:
  "\<exists>raw. wh_make_response test_sodium sample_keeper (PBytes [1]) (PBytes [2]) False (PStr (cps ''STALE_WINDOW'')) = Inr raw
    \<and> wh_check_response test_sodium (PBytes sample_keeper) (PBytes [1]) (PBytes [2]) (PBytes raw) = Inl (ServiceError ''REMOTE_STALE_WINDOW'')"
proof -
  have l: "label_pattern (cps (''upload-window-host-local/'' @ x)) \<and> length (''upload-window-host-local/'' @ x) \<le> 64
      \<and> list_all (\<lambda>c. c < 128) (cps (''upload-window-host-local/'' @ x))" if "x = ''response'' \<or> x = ''bytes''" for x
    using that by (auto simp: label_pattern_def lower_digit_def cps_def)
  have dig: "\<exists>h. wh_digest (PBytes [k]) = Inr h \<and> length h = 32" for k
    using hashed_sample [of "''upload-window-host-local/bytes''" "[PBytes [k]]"] l [of "''bytes''"] by (simp add: wh_digest_def nhead_def)
  obtain h r where hr: "wh_digest (PBytes [1]) = Inr h" "length h = 32" "wh_digest (PBytes [2]) = Inr r" "length r = 32"
    using dig by blast
  let ?b = "response_body WH_PROFILE h r False (PStr (cps ''STALE_WINDOW''))"
  have e: "\<exists>b. encode ?b MAX_RESPONSE MAX_NODES = Inr b \<and> length b \<le> 300" using hr(2,4)
    by (simp add: response_body_def WH_PROFILE_def MAX_RESPONSE_def encode_simps) (simp add: nhead_def cps_def utf8_cp_def)
  have f: "wf_py ?b" "canon ?b = ?b" by (simp_all add: response_body_def mk_dict_def WH_PROFILE_def)
  have "\<exists>raw. env_signed sp_error MAX_RESPONSE ''upload-window-host-local/'' test_sodium sample_keeper ''response'' ?b = Inr raw"
    using env_sample [OF e _ _ _ l [OF disjI1 [OF refl]] _ f, of sample_keeper sp_error sp_error sp_error sp_error] by (auto simp: MAX_RESPONSE_def MAX_BYTES_def)
  then obtain raw where raw: "wh_make_response test_sodium sample_keeper (PBytes [1]) (PBytes [2]) False (PStr (cps ''STALE_WINDOW'')) = Inr raw"
    using hr(1,3) by (auto simp: wh_make_response_def wh_signed_def error_name_def WH_ERRORS_def)
  have c: "map char_of (cps s) = s" for s by (induction s) (simp_all add: cps_def)
  from window_response [OF test_sodium_ok sample_public raw] raw show ?thesis by (auto simp: c)
qed

end
