(* ===== verification/Jobs.thy ===== *)
theory Jobs
  imports Window
begin

text \<open>
  Management jobs: the signed journal record of \<^verbatim>\<open>par_management_jobs/contract.py\<close> (prefix \<open>mj_\<close>), the file journal of
  \<^verbatim>\<open>journal.py\<close> and the owner's operations of \<^verbatim>\<open>jobs.py\<close>.

  The journal is a map from job identifiers to the bytes of their files. What the file system does with one atomic write is
  an argument, \<open>write_outcome\<close>: it may be refused before anything happens, fail with the old file in place, fail with the new
  file in place, or succeed; a failure poisons the journal until it is reopened. The backend (the replay gateway) is a record
  of functions over a gateway state \<open>'g\<close>: \<^verbatim>\<open>validate\<close> and \<^verbatim>\<open>probe\<close> only read it, \<^verbatim>\<open>apply\<close> may change it and may fail after a change.
  \<open>jb_effects\<close> records the dispatches of \<^verbatim>\<open>apply\<close>; the code has no such field, it is there to state what the journal protects.
  The owner thread, the busy flag (an operation runs to its end here) and file permissions are not modelled.
\<close>

section \<open>Journal records\<close>

abbreviation mj_error :: exn where "mj_error \<equiv> ServiceError ''JOB_SCHEMA''"

definition MJ_PROFILE :: pyval where "MJ_PROFILE = PStr (cps ''host-management-jobs-local-v1'')"
definition MJ_ACTIONS :: "string list" where "MJ_ACTIONS = [''retire'', ''close'', ''compact'', ''open'']"
definition CANCELLABLE :: "string list" where "CANCELLABLE = [''QUEUED'', ''VALIDATED'', ''PREPARED'']"
definition MAX_HEADER :: nat where "MAX_HEADER = 524288"
definition MJ_MAX_FILE :: nat where "MJ_MAX_FILE = MAX_HEADER + MAX_ARCHIVE + 12"
definition MAX_JOBS :: nat where "MAX_JOBS = 32"
definition MJ_MAX_EVENTS :: nat where "MJ_MAX_EVENTS = 32"
definition job_magic :: bytes where "job_magic = map byte (cps ''PARJOB1'' @ [0])"

text \<open>\<^verbatim>\<open>EDGES\<close>\<close>

definition job_edges :: "pystr option \<Rightarrow> string list" where
  "job_edges s =
     (if s = None then [''QUEUED'']
      else if s = Some (cps ''QUEUED'') then [''VALIDATED'', ''CANCELLED'']
      else if s = Some (cps ''VALIDATED'') then [''PREPARED'', ''CANCELLED'']
      else if s = Some (cps ''PREPARED'') then [''EXECUTING'', ''CANCELLED'']
      else if s = Some (cps ''EXECUTING'') then [''OUTCOME_UNKNOWN'', ''RETRY_READY'', ''SUCCEEDED'']
      else if s = Some (cps ''OUTCOME_UNKNOWN'') then [''RETRY_READY'', ''SUCCEEDED'']
      else if s = Some (cps ''RETRY_READY'') then [''EXECUTING'', ''SUCCEEDED'']
      else [])"

definition mj_fixed :: "pyval \<Rightarrow> unit res" where
  "mj_fixed x = bytes_sized mj_error x 32"

definition mj_integer :: "pyval \<Rightarrow> int \<Rightarrow> int \<Rightarrow> unit res" where
  "mj_integer = int_in mj_error"

definition mj_keys :: "pyval \<Rightarrow> int list \<Rightarrow> unit res" where
  "mj_keys = int_keys mj_error"

definition mj_dump :: "pyval \<Rightarrow> bytes res" where
  "mj_dump x = sp_dump x (int MAX_HEADER)"

definition mj_load :: "pyval \<Rightarrow> pyval res" where
  "mj_load x = sp_load x (int MAX_HEADER)"

definition bytes_between :: "pyval \<Rightarrow> nat \<Rightarrow> nat \<Rightarrow> bool" where
  "bytes_between v lo hi = (case v of PBytes b \<Rightarrow> lo \<le> length b \<and> length b \<le> hi | _ \<Rightarrow> False)"

definition job_arguments :: "pyval \<Rightarrow> pyval \<Rightarrow> pyval \<Rightarrow> pyval \<Rightarrow> unit res" where
  "job_arguments jid action command archive =
     bindE (mj_fixed jid) (\<lambda>_.
     bindE (need (error_name MJ_ACTIONS action) (ServiceError ''JOB_METHOD'')) (\<lambda>_.
       if action = PStr (cps ''compact'') then need (command = PNone \<and> archive = PNone) mj_error
       else bindE (need (bytes_between command 1 262144) mj_error) (\<lambda>_.
         if action = PStr (cps ''close'') then need (bytes_between archive 1 MAX_ARCHIVE) mj_error
         else need (archive = PNone) mj_error)))"

lemma str_of_Inr [simp]: "str_of v = Inr s \<longleftrightarrow> v = PStr s"
  by (cases v) (simp_all add: str_of_def)

text \<open>One event of the history, at its position and after the state before it.\<close>

definition check_event :: "nat \<times> pyval \<Rightarrow> pystr option \<Rightarrow> pystr option res" where
  "check_event ie before = (case ie of (i, e) \<Rightarrow>
     bindE (mj_keys e (key_range 4)) (\<lambda>_.
     bindE (bindE (item_at e 0) (\<lambda>x. mj_integer x (int i) (int i))) (\<lambda>_.
     bindE (item_at e 1) (\<lambda>e1. bindE (item_at e 2) (\<lambda>e2. bindE (item_at e 3) (\<lambda>e3.
     bindE (need (error_name (job_edges before) e1) (ServiceError ''JOB_TRANSITION'')) (\<lambda>_.
     bindE (if e1 = PStr (cps ''SUCCEEDED'')
            then bindE (need (bytes_between e2 1 262144) mj_error) (\<lambda>_. mj_fixed e3)
            else need (e2 = PNone \<and> e3 = PNone) mj_error) (\<lambda>_.
     bindE (str_of e1) (\<lambda>s. Inr (Some s))))))))))"

definition check_history :: "pyval list \<Rightarrow> pystr option res" where
  "check_history hist = foldE check_event (enumerate 0 hist) None"

text \<open>The pinned target of a job: pin, phase and window.\<close>

definition check_target :: "pyval \<Rightarrow> pyval \<Rightarrow> pyval \<Rightarrow> pyval \<Rightarrow> unit res" where
  "check_target b3 b10 b11 b12 =
     bindE (mj_keys b10 (key_range 4)) (\<lambda>_.
     bindE (item_at b10 0) (\<lambda>p0. bindE (item_at b10 1) (\<lambda>p1. bindE (item_at b10 2) (\<lambda>p2. bindE (item_at b10 3) (\<lambda>p3.
     bindE (mj_fixed p0) (\<lambda>_.
     bindE (mj_integer p1 0 64) (\<lambda>_.
     bindE (need (p0 = b3 \<and> error_name [''EMPTY'', ''OPEN'', ''CLOSED'', ''CLEANED''] b11) mj_error) (\<lambda>_.
       if p1 = PInt 0 then need (b12 = PNone \<and> p2 = PNone \<and> p3 = PNone) mj_error
       else bindE (mj_fixed p2) (\<lambda>_. bindE (if p3 = PNone then Inr () else mj_fixed p3) (\<lambda>_. need (is_bytes b12) mj_error))))))))))"

definition job_shape :: "pyval \<Rightarrow> bytes \<Rightarrow> unit res" where
  "job_shape b archive =
     bindE (mj_keys b (key_range 14)) (\<lambda>_.
     bindE (bindE (item_at b 0) (\<lambda>x. mj_integer x 1 1)) (\<lambda>_.
     bindE (field_is mj_error b 1 MJ_PROFILE) (\<lambda>_.
     bindE (allE (\<lambda>k. bindE (item_at b k) mj_fixed) [2, 3, 4]) (\<lambda>_.
     bindE (item_at b 4) (\<lambda>b4. bindE (item_at b 5) (\<lambda>b5. bindE (item_at b 6) (\<lambda>b6.
     bindE (job_arguments b4 b5 b6 (if b5 = PStr (cps ''close'') then PBytes archive else PNone)) (\<lambda>_.
     bindE (need (b5 = PStr (cps ''close'') \<or> archive = []) mj_error) (\<lambda>_.
     bindE (item_at b 8) (\<lambda>b8. bindE (mj_integer b8 0 (int MAX_ARCHIVE)) (\<lambda>_.
     bindE (item_at b 7) (\<lambda>b7.
     bindE (need ((b7, b8) = (if archive = [] then (PNone, PInt 0) else (PBytes (sha256 archive), PInt (int (length archive))))) mj_error) (\<lambda>_.
     bindE (bindE (item_at b 9) authority_from) (\<lambda>_.
     bindE (item_at b 3) (\<lambda>b3. bindE (item_at b 10) (\<lambda>b10. bindE (item_at b 11) (\<lambda>b11. bindE (item_at b 12) (\<lambda>b12.
     bindE (check_target b3 b10 b11 b12) (\<lambda>_.
     bindE (item_at b 13) (\<lambda>b13. case b13 of
       PList hist \<Rightarrow>
         bindE (need (1 \<le> length hist \<and> length hist \<le> MJ_MAX_EVENTS) mj_error) (\<lambda>_.
         bindE (check_history hist) (\<lambda>_. Inr ()))
     | _ \<Rightarrow> Inl mj_error))))))))))))))))))))"

definition mj_pack :: "sodium \<Rightarrow> bytes \<Rightarrow> pyval \<Rightarrow> bytes \<Rightarrow> bytes res" where
  "mj_pack n seed b archive =
     bindE (job_shape b archive) (\<lambda>_.
     bindE (mj_dump b) (\<lambda>raw.
     bindE (c_domain (cps ''management-jobs-local/journal'') [PBytes raw]) (\<lambda>msg.
     bindE (p_sign n seed msg) (\<lambda>sig.
     bindE (mj_dump (mk_dict [(0, PBytes raw), (1, PBytes sig)])) (\<lambda>hd.
       Inr (job_magic @ to_bytes 4 (length hd) @ hd @ archive))))))"

definition mj_unpack :: "sodium \<Rightarrow> bytes \<Rightarrow> bytes \<Rightarrow> (pyval \<times> bytes) res" where
  "mj_unpack n public raw =
     bindE (mj_fixed (PBytes public)) (\<lambda>_.
     bindE (need (13 \<le> length raw \<and> length raw \<le> MJ_MAX_FILE \<and> take 8 raw = job_magic) mj_error) (\<lambda>_.
     let k = from_bytes (take 4 (drop 8 raw)) in
     bindE (need (1 \<le> k \<and> k \<le> MAX_HEADER) mj_error) (\<lambda>_.
     bindE (need (12 + k \<le> length raw) mj_error) (\<lambda>_.
     bindE (mj_load (PBytes (take k (drop 12 raw)))) (\<lambda>hd.
     bindE (mj_keys hd [0, 1]) (\<lambda>_.
     bindE (item_at hd 0) (\<lambda>h0. bindE (item_at hd 1) (\<lambda>h1.
     bindE (need (is_bytes h0 \<and> bytes_between h1 64 64) mj_error) (\<lambda>_.
     bindE (env_verify (ServiceError ''JOB_SIGNATURE'') ''management-jobs-local/'' n (PBytes public) hd ''journal'') (\<lambda>_.
     bindE (mj_load h0) (\<lambda>b.
     let archive = drop (12 + k) raw in
     bindE (job_shape b archive) (\<lambda>_.
     bindE (field_is (ServiceError ''JOB_SCOPE'') b 2 (PBytes public)) (\<lambda>_.
       Inr (b, archive))))))))))))))"

definition archive_fields :: "pyval \<Rightarrow> pyval list" where
  "archive_fields archive = (case archive of
     PBytes a \<Rightarrow> if a = [] then [PNone, PInt 0] else [PBytes (sha256 a), PInt (int (length a))]
   | _ \<Rightarrow> [PNone, PInt 0])"

definition input_equal :: "pyval \<Rightarrow> pyval \<Rightarrow> pyval \<Rightarrow> pyval \<Rightarrow> bool res" where
  "input_equal b action command archive =
     bindE (mapE (item_at b) [5, 6, 7, 8]) (\<lambda>xs. Inr (xs = [action, command] @ archive_fields archive))"

definition job_intent :: "pyval \<Rightarrow> bytes res" where
  "job_intent b =
     bindE (mapE (item_at b) [2, 3, 5, 6, 7, 8, 10, 11, 12]) (\<lambda>xs.
     bindE (mj_dump (PList xs)) (\<lambda>r. Inr (sha256 r)))"

text \<open>Reading a record that passed \<open>job_shape\<close>: \<^verbatim>\<open>b[13]\<close>, \<^verbatim>\<open>event[1]\<close> and \<^verbatim>\<open>b[13][-1][1]\<close>.\<close>

definition job_events :: "pyval \<Rightarrow> pyval list" where
  "job_events b = (case item_at b 13 of Inr (PList xs) \<Rightarrow> xs | _ \<Rightarrow> [])"

definition event_state :: "pyval \<Rightarrow> pystr" where
  "event_state e = (case item_at e 1 of Inr (PStr s) \<Rightarrow> s | _ \<Rightarrow> [])"

definition job_state :: "pyval \<Rightarrow> pystr" where
  "job_state b = (case job_events b of [] \<Rightarrow> [] | es \<Rightarrow> event_state (last es))"

section \<open>Journal\<close>

datatype write_outcome = Written | Refused | LostBefore exn | LostAfter exn

datatype probe = Pending | Applied bytes bytes

record 'g job_backend =
  be_public :: bytes
  be_seed :: bytes
  be_store :: bytes
  be_context :: "'g \<Rightarrow> (pyval \<times> pyval \<times> pyval \<times> pyval) res"
  be_validate :: "'g \<Rightarrow> pyval \<Rightarrow> bytes \<Rightarrow> unit res"
  be_apply :: "'g \<Rightarrow> pyval \<Rightarrow> bytes \<Rightarrow> 'g \<times> unit res"
  be_probe :: "'g \<Rightarrow> pyval \<Rightarrow> bytes \<Rightarrow> probe res"

record 'g jobs =
  jb_files :: "(bytes \<times> bytes) list"
  jb_seen :: "(bytes \<times> bytes) list"
  jb_poison :: bool
  jb_closed :: bool
  jb_max_jobs :: nat
  jb_max_bytes :: nat
  jb_gateway :: 'g
  jb_effects :: "bytes list"

text \<open>Calls that may raise after they changed the state: sequencing, and a loop.\<close>

definition bindS :: "'s \<times> 'a res \<Rightarrow> ('a \<Rightarrow> 's \<Rightarrow> 's \<times> 'b res) \<Rightarrow> 's \<times> 'b res" where
  "bindS m f = (case m of (s, Inl e) \<Rightarrow> (s, Inl e) | (s, Inr x) \<Rightarrow> f x s)"

lemma bindS_value: "bindS (s, Inr x) f = f x s" "bindS (s, Inl e) f = (s, Inl e)"
  by (simp_all add: bindS_def)

lemma bindS_Inr: "bindS m f = (t, Inr y) \<longleftrightarrow> (\<exists>s x. m = (s, Inr x) \<and> f x s = (t, Inr y))"
  by (auto simp: bindS_def split: prod.splits sum.splits)

primrec mapS :: "('a \<Rightarrow> 's \<Rightarrow> 's \<times> 'b res) \<Rightarrow> 'a list \<Rightarrow> 's \<Rightarrow> 's \<times> 'b list res" where
  "mapS f [] s = (s, Inr [])"
| "mapS f (x # xs) s = bindS (f x s) (\<lambda>y s. bindS (mapS f xs s) (\<lambda>ys s. (s, Inr (y # ys))))"

text \<open>Setting one key of a finite map kept as a list.\<close>

definition put_key :: "bytes \<Rightarrow> 'v \<Rightarrow> (bytes \<times> 'v) list \<Rightarrow> (bytes \<times> 'v) list" where
  "put_key k v xs = (if k \<in> fst ` set xs then map (\<lambda>(k', v'). (k', if k' = k then v else v')) xs else xs @ [(k, v)])"

definition jn_guard :: "'g jobs \<Rightarrow> unit res" where
  "jn_guard j =
     bindE (need (\<not> jb_closed j) (ServiceError ''CLOSED'')) (\<lambda>_. need (\<not> jb_poison j) (ServiceError ''RECOVERY_REQUIRED''))"

definition jn_atomic :: "bytes \<Rightarrow> bytes \<Rightarrow> write_outcome \<Rightarrow> 'g jobs \<Rightarrow> 'g jobs \<times> unit res" where
  "jn_atomic jid raw w j = (case w of
     Written \<Rightarrow> (j\<lparr>jb_files := put_key jid raw (jb_files j)\<rparr>, Inr ())
   | Refused \<Rightarrow> (j, Inl (ServiceError ''JOB_TEMP_CAPACITY''))
   | LostBefore e \<Rightarrow> (j\<lparr>jb_poison := True\<rparr>, Inl e)
   | LostAfter e \<Rightarrow> (j\<lparr>jb_files := put_key jid raw (jb_files j), jb_poison := True\<rparr>, Inl e))"

text \<open>\<^verbatim>\<open>self.seen[jid] = sha(raw)\<close>\<close>

definition note_seen :: "bytes \<Rightarrow> bytes \<Rightarrow> 'g jobs \<Rightarrow> 'g jobs" where
  "note_seen i raw j = j\<lparr>jb_seen := put_key i (sha256 raw) (jb_seen j)\<rparr>"

text \<open>What \<^verbatim>\<open>read\<close> checks, and \<^verbatim>\<open>read\<close> itself, which notes the digest of what it returned.\<close>

definition jn_inspect :: "sodium \<Rightarrow> 'g job_backend \<Rightarrow> bytes \<Rightarrow> 'g jobs \<Rightarrow> (pyval \<times> bytes \<times> bytes) res" where
  "jn_inspect n be i j =
     bindE (mj_fixed (PBytes i)) (\<lambda>_.
     case map_of (jb_files j) i of
       None \<Rightarrow> Inl (ServiceError ''JOB_NOT_FOUND'')
     | Some raw \<Rightarrow>
         bindE (mj_unpack n (be_public be) raw) (\<lambda>(b, a).
         bindE (mapE (item_at b) [3, 4]) (\<lambda>xs.
         bindE (need (xs = [PBytes (be_store be), PBytes i]) (ServiceError ''JOB_SCOPE'')) (\<lambda>_.
         bindE (need (case map_of (jb_seen j) i of None \<Rightarrow> True | Some h \<Rightarrow> h = sha256 raw) (ServiceError ''JOB_JOURNAL_CHANGED'')) (\<lambda>_.
           Inr (b, a, raw))))))"

definition jn_read :: "sodium \<Rightarrow> 'g job_backend \<Rightarrow> bytes \<Rightarrow> 'g jobs \<Rightarrow> 'g jobs \<times> (pyval \<times> bytes \<times> bytes) res" where
  "jn_read n be i j = (case jn_inspect n be i j of
     Inl e \<Rightarrow> (j, Inl e)
   | Inr (b, a, raw) \<Rightarrow> (note_seen i raw j, Inr (b, a, raw)))"

text \<open>All records, in the order of the file names.\<close>

definition jn_rows :: "sodium \<Rightarrow> 'g job_backend \<Rightarrow> 'g jobs \<Rightarrow> 'g jobs \<times> (pyval \<times> bytes \<times> bytes) list res" where
  "jn_rows n be j = mapS (jn_read n be) (map fst (sort_bytes fst (jb_files j))) j"

definition jn_audit :: "sodium \<Rightarrow> 'g job_backend \<Rightarrow> 'g jobs \<Rightarrow> 'g jobs \<times> unit res" where
  "jn_audit n be j =
     bindS (j, jn_guard j) (\<lambda>_ j.
     bindS (jn_rows n be j) (\<lambda>rows j. (j,
       bindE (need (fst ` set (jb_seen j) \<subseteq> fst ` set (jb_files j)) (ServiceError ''JOB_JOURNAL_CHANGED'')) (\<lambda>_.
         need (length rows \<le> jb_max_jobs j \<and> sum_list (map (\<lambda>(_, _, raw). length raw) rows) \<le> jb_max_bytes j) (ServiceError ''JOB_CAPACITY'')))))"

definition jn_persist :: "sodium \<Rightarrow> bytes \<Rightarrow> pyval \<Rightarrow> bytes \<Rightarrow> write_outcome \<Rightarrow> 'g jobs \<Rightarrow> 'g jobs \<times> unit res" where
  "jn_persist n seed b archive w j =
     (case bindE (mj_pack n seed b archive) (\<lambda>raw. bindE (bytes_at b 4) (\<lambda>i.
        bindE (need (length raw \<le> MJ_MAX_FILE) (ServiceError ''JOB_CAPACITY'')) (\<lambda>_. Inr (i, raw)))) of
       Inl e \<Rightarrow> (j, Inl e)
     | Inr (i, raw) \<Rightarrow> (case jn_atomic i raw w j of
         (j', Inl e) \<Rightarrow> (j', Inl e)
       | (j', Inr _) \<Rightarrow> (note_seen i raw j', Inr ())))"

definition set_item :: "pyval \<Rightarrow> int \<Rightarrow> pyval \<Rightarrow> pyval" where
  "set_item d k v = (case d of PDict kvs \<Rightarrow> PDict (map (\<lambda>(k', v'). (k', if k' = PInt k then v else v')) kvs) | _ \<Rightarrow> d)"

text \<open>A copy of the record with one more event.\<close>

definition next_record :: "pyval \<Rightarrow> string \<Rightarrow> pyval \<Rightarrow> pyval \<Rightarrow> pyval res" where
  "next_record b state result witness =
     bindE (mj_dump b) (\<lambda>r. bindE (mj_load (PBytes r)) (\<lambda>u.
     bindE (bindE (item_at u 13) list_of) (\<lambda>es.
       Inr (set_item u 13 (PList (es @ [mk_dict [(0, PInt (int (length es))), (1, PStr (cps state)), (2, result), (3, witness)]]))))))"

definition jn_transition ::
  "sodium \<Rightarrow> bytes \<Rightarrow> pyval \<Rightarrow> bytes \<Rightarrow> string \<Rightarrow> pyval \<Rightarrow> pyval \<Rightarrow> write_outcome \<Rightarrow> 'g jobs \<Rightarrow> 'g jobs \<times> pyval res" where
  "jn_transition n seed b archive state result witness w j =
     (case bindE (next_record b state result witness) (\<lambda>u. bindE (job_shape u archive) (\<lambda>_. Inr u)) of
       Inl e \<Rightarrow> (j, Inl e)
     | Inr u \<Rightarrow> (case jn_persist n seed u archive w j of
         (j', Inl e) \<Rightarrow> (j', Inl e)
       | (j', Inr _) \<Rightarrow> (j', Inr u)))"

section \<open>Operations\<close>

record job_status =
  js_job :: bytes
  js_action :: pyval
  js_state :: pystr
  js_journal_state :: pystr
  js_revision :: nat
  js_input :: bytes
  js_target :: pyval
  js_cancellable :: bool
  js_may_have_effect :: bool
  js_reconcile :: bool
  js_retry :: bool
  js_verified :: bool
  js_result :: "bytes option"
  js_waiting :: bool

text \<open>A probe that shows the recorded result of a job that succeeded.\<close>

definition confirms :: "probe \<Rightarrow> pyval \<Rightarrow> bool" where
  "confirms p e = (case p of Applied r w \<Rightarrow> item_at e 2 = Inr (PBytes r) \<and> item_at e 3 = Inr (PBytes w) | Pending \<Rightarrow> False)"

definition job_view :: "'g job_backend \<Rightarrow> 'g jobs \<Rightarrow> pyval \<Rightarrow> bytes \<Rightarrow> bool \<Rightarrow> job_status res" where
  "job_view be j b a waiting =
     (let e = last (job_events b); state = event_state e in
      bindE (if state = cps ''SUCCEEDED''
             then bindE (be_probe be (jb_gateway j) b a) (\<lambda>p. bindE (need (confirms p e) (ServiceError ''JOB_RESULT_MISMATCH'')) (\<lambda>_. Inr True))
             else Inr False) (\<lambda>verified.
      bindE (bytes_at b 4) (\<lambda>i. bindE (item_at b 5) (\<lambda>action. bindE (job_intent b) (\<lambda>digest. bindE (bindE (item_at b 10) (\<lambda>p. item_at p 1)) (\<lambda>sequence.
      bindE (if verified then bindE (bytes_at e 2) (\<lambda>r. Inr (Some (sha256 r))) else Inr None) (\<lambda>result.
        Inr \<lparr>js_job = i, js_action = action, js_state = (if state = cps ''EXECUTING'' then cps ''OUTCOME_UNKNOWN'' else state), js_journal_state = state,
          js_revision = length (job_events b) - 1, js_input = digest, js_target = sequence,
          js_cancellable = (state \<in> set (map cps CANCELLABLE)),
          js_may_have_effect = (\<exists>x \<in> set (job_events b). event_state x = cps ''EXECUTING''),
          js_reconcile = (state \<in> {cps ''EXECUTING'', cps ''OUTCOME_UNKNOWN''}), js_retry = (state = cps ''RETRY_READY''),
          js_verified = verified, js_result = result, js_waiting = waiting\<rparr>)))))))"

text \<open>
  What one call meets outside the journal: the answers of the activity callback together with the backend's active flag, the two
  events around a dispatch (an observer may raise), and the outcomes of the writes it makes.
\<close>

record job_env =
  en_idle :: "bool res"
  en_idle_again :: "bool res"
  en_before :: "unit res"
  en_after :: "unit res"
  en_write :: write_outcome
  en_write_result :: write_outcome
  en_write_unknown :: write_outcome

definition with_status :: "'g job_backend \<Rightarrow> pyval \<Rightarrow> bytes \<Rightarrow> 'g jobs \<Rightarrow> 'g jobs \<times> job_status res" where
  "with_status be b a j = (j, job_view be j b a False)"

definition transition :: "sodium \<Rightarrow> 'g job_backend \<Rightarrow> pyval \<Rightarrow> bytes \<Rightarrow> string \<Rightarrow> write_outcome \<Rightarrow> 'g jobs \<Rightarrow> 'g jobs \<times> pyval res" where
  "transition n be b a state w j = jn_transition n (be_seed be) b a state PNone PNone w j"

definition succeed :: "sodium \<Rightarrow> 'g job_backend \<Rightarrow> pyval \<Rightarrow> bytes \<Rightarrow> probe \<Rightarrow> write_outcome \<Rightarrow> 'g jobs \<Rightarrow> 'g jobs \<times> pyval res" where
  "succeed n be b a p w j = (case p of
     Applied r wit \<Rightarrow> jn_transition n (be_seed be) b a ''SUCCEEDED'' (PBytes r) (PBytes wit) w j
   | Pending \<Rightarrow> (j, Inl (ServiceError ''JOB_EFFECT_UNCONFIRMED'')))"

text \<open>The dispatch of a job whose record says \<^verbatim>\<open>EXECUTING\<close>: the body of the \<^verbatim>\<open>try\<close> in \<^verbatim>\<open>_execute\<close>.\<close>

definition run_apply :: "'g job_backend \<Rightarrow> bytes \<Rightarrow> pyval \<Rightarrow> bytes \<Rightarrow> 'g jobs \<Rightarrow> 'g jobs \<times> unit res" where
  "run_apply be i b a j = (case be_apply be (jb_gateway j) b a of
     (g, r) \<Rightarrow> (j\<lparr>jb_gateway := g, jb_effects := i # jb_effects j\<rparr>, r))"

definition dispatch_job :: "sodium \<Rightarrow> 'g job_backend \<Rightarrow> job_env \<Rightarrow> bytes \<Rightarrow> pyval \<Rightarrow> bytes \<Rightarrow> 'g jobs \<Rightarrow> 'g jobs \<times> pyval res" where
  "dispatch_job n be env i b a j =
     bindS (j, en_before env) (\<lambda>_ j.
     bindS (j, bindE (en_idle_again env) (\<lambda>idle. need idle (ServiceError ''JOB_ACTIVITY_CHANGED''))) (\<lambda>_ j.
     bindS (j, be_validate be (jb_gateway j) b a) (\<lambda>_ j.
     bindS (run_apply be i b a j) (\<lambda>_ j.
     bindS (j, en_after env) (\<lambda>_ j.
     bindS (j, be_probe be (jb_gateway j) b a) (\<lambda>p j.
       succeed n be b a p (en_write_result env) j))))))"

definition execute_job :: "sodium \<Rightarrow> 'g job_backend \<Rightarrow> job_env \<Rightarrow> bytes \<Rightarrow> pyval \<Rightarrow> bytes \<Rightarrow> 'g jobs \<Rightarrow> 'g jobs \<times> job_status res" where
  "execute_job n be env i b a j =
     bindS (j, need (length (job_events b) \<le> MJ_MAX_EVENTS - 3) (ServiceError ''JOB_HISTORY_LIMIT'')) (\<lambda>_ j.
     bindS (j, en_idle env) (\<lambda>idle j.
       if \<not> idle then (j, job_view be j b a True)
       else
         bindS (j, be_validate be (jb_gateway j) b a) (\<lambda>_ j.
         bindS (transition n be b a ''EXECUTING'' (en_write env) j) (\<lambda>b j.
         bindS (case dispatch_job n be env i b a j of
             (j', Inr b') \<Rightarrow> (j', Inr b')
           | (j', Inl e) \<Rightarrow> if jb_poison j' then (j', Inl (ServiceError ''JOB_JOURNAL_UNCERTAIN''))
               else transition n be b a ''OUTCOME_UNKNOWN'' (en_write_unknown env) j') (\<lambda>b j.
           with_status be b a j)))))"

text \<open>Every operation audits the journal first and then reads the job.\<close>

definition with_job :: "sodium \<Rightarrow> 'g job_backend \<Rightarrow> bytes \<Rightarrow> (pyval \<Rightarrow> bytes \<Rightarrow> 'g jobs \<Rightarrow> 'g jobs \<times> 'r res) \<Rightarrow> 'g jobs \<Rightarrow> 'g jobs \<times> 'r res" where
  "with_job n be i f j = bindS (jn_audit n be j) (\<lambda>_ j. bindS (jn_read n be i j) (\<lambda>(b, a, _) j. f b a j))"

definition poll_job :: "sodium \<Rightarrow> 'g job_backend \<Rightarrow> bytes \<Rightarrow> 'g jobs \<Rightarrow> 'g jobs \<times> job_status res" where
  "poll_job n be i = with_job n be i (with_status be)"

definition list_jobs :: "sodium \<Rightarrow> 'g job_backend \<Rightarrow> 'g jobs \<Rightarrow> 'g jobs \<times> job_status list res" where
  "list_jobs n be j =
     bindS (jn_audit n be j) (\<lambda>_ j. mapS (\<lambda>i j. bindS (jn_read n be i j) (\<lambda>(b, a, _) j. with_status be b a j))
       (map fst (sort_bytes fst (jb_files j))) j)"

definition cancel_job :: "sodium \<Rightarrow> 'g job_backend \<Rightarrow> bytes \<Rightarrow> job_env \<Rightarrow> 'g jobs \<Rightarrow> 'g jobs \<times> job_status res" where
  "cancel_job n be i env = with_job n be i (\<lambda>b a j.
     if job_state b = cps ''CANCELLED'' then with_status be b a j
     else if job_state b \<notin> set (map cps CANCELLABLE) then (j, Inl (ServiceError ''CANCEL_TOO_LATE''))
     else bindS (transition n be b a ''CANCELLED'' (en_write env) j) (\<lambda>b j. with_status be b a j))"

definition step_job :: "sodium \<Rightarrow> 'g job_backend \<Rightarrow> bytes \<Rightarrow> job_env \<Rightarrow> 'g jobs \<Rightarrow> 'g jobs \<times> job_status res" where
  "step_job n be i env = with_job n be i (\<lambda>b a j.
     let state = job_state b in
     if state = cps ''SUCCEEDED'' then with_status be b a j
     else if state = cps ''CANCELLED'' then (j, Inl (ServiceError ''JOB_CANCELLED''))
     else if state \<in> {cps ''EXECUTING'', cps ''OUTCOME_UNKNOWN''} then (j, Inl (ServiceError ''RECONCILE_REQUIRED''))
     else if state = cps ''RETRY_READY'' then (j, Inl (ServiceError ''EXPLICIT_RETRY_REQUIRED''))
     else bindS (j, be_validate be (jb_gateway j) b a) (\<lambda>_ j.
       if state = cps ''QUEUED'' then bindS (transition n be b a ''VALIDATED'' (en_write env) j) (\<lambda>b j. with_status be b a j)
       else if state = cps ''VALIDATED'' then bindS (transition n be b a ''PREPARED'' (en_write env) j) (\<lambda>b j. with_status be b a j)
       else if state = cps ''PREPARED'' then execute_job n be env i b a j
       else with_status be b a j))"

definition reconcile_job :: "sodium \<Rightarrow> 'g job_backend \<Rightarrow> bytes \<Rightarrow> job_env \<Rightarrow> 'g jobs \<Rightarrow> 'g jobs \<times> job_status res" where
  "reconcile_job n be i env = with_job n be i (\<lambda>b a j.
     let state = job_state b in
     if state = cps ''SUCCEEDED'' then with_status be b a j
     else if state \<notin> {cps ''EXECUTING'', cps ''OUTCOME_UNKNOWN'', cps ''RETRY_READY''} then (j, Inl (ServiceError ''NOT_RECONCILABLE''))
     else bindS (j, be_probe be (jb_gateway j) b a) (\<lambda>p j.
       if p \<noteq> Pending then bindS (succeed n be b a p (en_write env) j) (\<lambda>b j. with_status be b a j)
       else if state \<noteq> cps ''RETRY_READY'' then
         bindS (j, need (length (job_events b) \<le> MJ_MAX_EVENTS - 2) (ServiceError ''JOB_HISTORY_LIMIT'')) (\<lambda>_ j.
         bindS (j, be_validate be (jb_gateway j) b a) (\<lambda>_ j.
         bindS (transition n be b a ''RETRY_READY'' (en_write env) j) (\<lambda>b j. with_status be b a j)))
       else with_status be b a j))"

definition retry_job :: "sodium \<Rightarrow> 'g job_backend \<Rightarrow> bytes \<Rightarrow> job_env \<Rightarrow> 'g jobs \<Rightarrow> 'g jobs \<times> job_status res" where
  "retry_job n be i env = with_job n be i (\<lambda>b a j.
     if job_state b \<noteq> cps ''RETRY_READY'' then (j, Inl (ServiceError ''RECONCILE_REQUIRED''))
     else bindS (j, be_probe be (jb_gateway j) b a) (\<lambda>p j.
       if p \<noteq> Pending then bindS (succeed n be b a p (en_write env) j) (\<lambda>b j. with_status be b a j)
       else bindS (j, be_validate be (jb_gateway j) b a) (\<lambda>_ j. execute_job n be env i b a j)))"

definition job_result :: "sodium \<Rightarrow> 'g job_backend \<Rightarrow> bytes \<Rightarrow> 'g jobs \<Rightarrow> 'g jobs \<times> bytes res" where
  "job_result n be i = with_job n be i (\<lambda>b a j.
     (j, bindE (job_view be j b a False) (\<lambda>v.
       bindE (need (js_verified v) (ServiceError ''RESULT_NOT_VERIFIED'')) (\<lambda>_. bytes_at (last (job_events b)) 2))))"

text \<open>\<^verbatim>\<open>len(x or b'')\<close>\<close>

definition or_len :: "pyval \<Rightarrow> nat" where
  "or_len v = (case v of PBytes b \<Rightarrow> length b | _ \<Rightarrow> 0)"

definition or_bytes :: "pyval \<Rightarrow> bytes" where
  "or_bytes v = (case v of PBytes b \<Rightarrow> b | _ \<Rightarrow> [])"

definition new_record :: "'g job_backend \<Rightarrow> bytes \<Rightarrow> pyval \<Rightarrow> pyval \<Rightarrow> pyval \<Rightarrow> pyval \<times> pyval \<times> pyval \<times> pyval \<Rightarrow> pyval" where
  "new_record be i action command archive ctx = (case ctx of (authority, pin', phase', window) \<Rightarrow>
     mk_dict [(0, PInt 1), (1, MJ_PROFILE), (2, PBytes (be_public be)), (3, PBytes (be_store be)), (4, PBytes i), (5, action), (6, command),
       (7, archive_fields archive ! 0), (8, archive_fields archive ! 1), (9, authority), (10, pin'), (11, phase'), (12, window),
       (13, PList [mk_dict [(0, PInt 0), (1, PStr (cps ''QUEUED'')), (2, PNone), (3, PNone)]])])"

definition submit_job :: "sodium \<Rightarrow> 'g job_backend \<Rightarrow> bytes \<Rightarrow> pyval \<Rightarrow> pyval \<Rightarrow> pyval \<Rightarrow> job_env \<Rightarrow> 'g jobs \<Rightarrow> 'g jobs \<times> job_status res" where
  "submit_job n be i action command archive env j =
     bindS (j, job_arguments (PBytes i) action command archive) (\<lambda>_ j.
     bindS (jn_audit n be j) (\<lambda>_ j.
       if i \<in> fst ` set (jb_files j) then
         bindS (jn_read n be i j) (\<lambda>(b, a, _) j.
         bindS (j, bindE (input_equal b action command archive) (\<lambda>same. need same (ServiceError ''JOB_CONFLICT''))) (\<lambda>_ j.
           with_status be b a j))
       else
         bindS (jn_rows n be j) (\<lambda>rows j.
         bindS (j, need (length rows < jb_max_jobs j
             \<and> sum_list (map (\<lambda>(_, _, raw). length raw + 262144) rows) + (or_len command + or_len archive + 262144) \<le> jb_max_bytes j)
             (ServiceError ''JOB_CAPACITY'')) (\<lambda>_ j.
         bindS (j, be_context be (jb_gateway j)) (\<lambda>ctx j.
         let b = new_record be i action command archive ctx in
         bindS (j, bindE (mapE (\<lambda>(r, _, _). bindE (job_intent r) (\<lambda>x. bindE (job_intent b) (\<lambda>y. Inr (x = y)))) rows) (\<lambda>same.
             need (True \<notin> set same) (ServiceError ''JOB_ALIAS''))) (\<lambda>_ j.
         bindS (j, be_validate be (jb_gateway j) b (or_bytes archive)) (\<lambda>_ j.
         bindS (jn_persist n (be_seed be) b (or_bytes archive) (en_write env) j) (\<lambda>_ j.
           with_status be b (or_bytes archive) j))))))))"

section \<open>Pins\<close>

definition pin_row :: "pyval \<Rightarrow> pyval res" where
  "pin_row b = bindE (item_at b 4) (\<lambda>i. bindE (mj_dump b) (\<lambda>r.
     Inr (PList [i, PInt (int (length (job_events b)) - 1), PBytes (sha256 r)])))"

definition jobs_pin :: "sodium \<Rightarrow> 'g job_backend \<Rightarrow> 'g jobs \<Rightarrow> 'g jobs \<times> pyval res" where
  "jobs_pin n be j =
     bindS (jn_audit n be j) (\<lambda>_ j.
     bindS (mapS (\<lambda>i j. bindS (jn_read n be i j) (\<lambda>(b, _, _) j. (j, pin_row b))) (map fst (sort_bytes fst (jb_files j))) j) (\<lambda>rows j.
       (j, Inr (mk_dict [(0, MJ_PROFILE), (1, PBytes (be_public be)), (2, PBytes (be_store be)), (3, PList rows)]))))"

text \<open>One row of a pin: the record, cut back to the pinned revision, has the pinned digest.\<close>

definition row_matches :: "pyval \<Rightarrow> int \<Rightarrow> pyval \<Rightarrow> unit res" where
  "row_matches b rv expected =
     bindE (need (rv < int (length (job_events b))) ValueError) (\<lambda>_.
     bindE (mj_dump b) (\<lambda>r. bindE (mj_load (PBytes r)) (\<lambda>u.
     bindE (mj_dump (set_item u 13 (PList (take (nat (rv + 1)) (job_events u))))) (\<lambda>r'.
       need (PBytes (sha256 r') = expected) ValueError))))"

definition check_row :: "sodium \<Rightarrow> 'g job_backend \<Rightarrow> pyval \<Rightarrow> 'g jobs \<Rightarrow> 'g jobs \<times> bytes res" where
  "check_row n be item j =
     bindS (j, case item of
         PList [jid, rv, expected] \<Rightarrow>
           bindE (mj_fixed jid) (\<lambda>_. bindE (mj_fixed expected) (\<lambda>_. bindE (mj_integer rv 0 (int MJ_MAX_EVENTS - 1)) (\<lambda>_.
           bindE (as_bytes jid) (\<lambda>i. Inr (i, int_of rv, expected)))))
       | _ \<Rightarrow> Inl ValueError) (\<lambda>(i, rv, expected) j.
     bindS (jn_read n be i j) (\<lambda>(b, _, _) j.
     bindS (j, row_matches b rv expected) (\<lambda>_ j. (j, Inr i))))"

definition verify_pin :: "sodium \<Rightarrow> 'g job_backend \<Rightarrow> pyval \<Rightarrow> 'g jobs \<Rightarrow> 'g jobs \<times> unit res" where
  "verify_pin n be pin' j =
     bindS (jn_audit n be j) (\<lambda>_ j.
       case bindS (j, bindE (mj_keys pin' (key_range 4)) (\<lambda>_.
              bindE (mapE (item_at pin') [0, 1, 2]) (\<lambda>xs.
              bindE (need (xs = [MJ_PROFILE, PBytes (be_public be), PBytes (be_store be)]) ValueError) (\<lambda>_.
              bindE (bindE (item_at pin' 3) list_of) (\<lambda>rows.
              bindE (need (length rows \<le> MAX_JOBS) ValueError) (\<lambda>_. Inr rows)))))) (\<lambda>rows j.
            bindS (mapS (check_row n be) rows j) (\<lambda>ids j. (j, need (sorted_ids ids) ValueError))) of
         (j, Inl _) \<Rightarrow> (j, Inl (ServiceError ''JOB_PIN''))
       | (j, Inr _) \<Rightarrow> (j, Inr ()))"

text \<open>A fresh journal, and opening it again on the same files.\<close>

definition new_jobs :: "nat \<Rightarrow> nat \<Rightarrow> 'g \<Rightarrow> 'g jobs" where
  "new_jobs max_jobs max_bytes g = \<lparr>jb_files = [], jb_seen = [], jb_poison = False, jb_closed = False, jb_max_jobs = max_jobs, jb_max_bytes = max_bytes,
     jb_gateway = g, jb_effects = []\<rparr>"

definition reopen_jobs :: "'g jobs \<Rightarrow> 'g jobs" where
  "reopen_jobs j = j\<lparr>jb_seen := [], jb_poison := False, jb_closed := False\<rparr>"

definition close_jobs :: "'g jobs \<Rightarrow> 'g jobs" where
  "close_jobs j = j\<lparr>jb_closed := True\<rparr>"

end
