(* ===== verification/Scheduler.thy ===== *)
theory Scheduler
  imports Jobs
begin

text \<open>
  The owner's scheduler over management jobs, \<^verbatim>\<open>par_job_scheduler/owner_loop.py\<close> (prefix \<open>sc_\<close>), and the measured activity of the two
  servers it pauses, \<^verbatim>\<open>activity.py\<close>.

  A server is its listening descriptor, the descriptors its selector watches (the events, and the connection attached to each: \<open>None\<close> for the
  listener) and the phase of every connection; a connection and its socket are identified with their descriptor. What happens outside is
  an argument of each call (\<open>sched_env\<close>): the observations of the provider in the order of the call, the clock, whether the sockets are
  still in place, what polling a server does to it and to the reader pins, and the environment of the one job operation. The job operation
  sees the activity that is measured here. The owner thread, the busy flag, timing statistics, the stack of opened resources and
  the invalidation of the verification provider's cache before an effect are not modelled.
\<close>

section \<open>Activity\<close>

definition EVENT_READ :: nat where "EVENT_READ = 1"
definition EVENT_WRITE :: nat where "EVENT_WRITE = 2"

record server =
  sv_closed :: bool
  sv_accepting :: bool
  sv_listener :: int
  sv_selector :: "(int \<times> nat \<times> int option) list"
  sv_connections :: "(int \<times> string) list"

definition sv_owner :: "server \<Rightarrow> unit res" where
  "sv_owner s = need (\<not> sv_closed s) (ServiceError ''CLOSED'')"

definition pause_accepting :: "server \<Rightarrow> server res" where
  "pause_accepting s =
     bindE (sv_owner s) (\<lambda>_.
       if \<not> sv_accepting s then Inr s
       else case map_of (sv_selector s) (sv_listener s) of
         None \<Rightarrow> Inl KeyError
       | Some (_, attached) \<Rightarrow>
           bindE (need (attached = None) (ServiceError ''ACTIVITY_MISMATCH'')) (\<lambda>_.
             Inr (s\<lparr>sv_selector := filter (\<lambda>(fd, _). fd \<noteq> sv_listener s) (sv_selector s), sv_accepting := False\<rparr>)))"

definition resume_accepting :: "bool \<Rightarrow> server \<Rightarrow> server res" where
  "resume_accepting in_place s =
     bindE (sv_owner s) (\<lambda>_.
       if sv_accepting s then Inr s
       else bindE (need in_place (ServiceError ''ENDPOINT_CHANGED'')) (\<lambda>_.
         bindE (need (sv_listener s \<notin> fst ` set (sv_selector s)) KeyError) (\<lambda>_.
           Inr (s\<lparr>sv_selector := sv_selector s @ [(sv_listener s, EVENT_READ, None)], sv_accepting := True\<rparr>))))"

definition check_connection :: "server \<Rightarrow> int \<times> string \<Rightarrow> nat \<times> nat \<Rightarrow> (nat \<times> nat) res" where
  "check_connection s c acc = (case c of (fd, ph) \<Rightarrow> (case map_of (sv_selector s) fd of
     None \<Rightarrow> Inl KeyError
   | Some (events, attached) \<Rightarrow>
       bindE (need (0 \<le> fd \<and> attached = Some fd) (ServiceError ''ACTIVITY_MISMATCH'')) (\<lambda>_.
       bindE (need (ph \<in> {''hello'', ''request'', ''response''}) (ServiceError ''ACTIVITY_MISMATCH'')) (\<lambda>_.
       bindE (need (events = (if ph = ''request'' then EVENT_READ else EVENT_WRITE)) (ServiceError ''ACTIVITY_MISMATCH'')) (\<lambda>_.
         Inr (fst acc + (if ph = ''response'' then 1 else 0), snd acc + (if ph = ''request'' then 1 else 0)))))))"

text \<open>One server of \<^verbatim>\<open>snapshot\<close>: the connections, and the counts of responses and requests carried on.\<close>

definition measure_server :: "server \<Rightarrow> nat \<times> nat \<Rightarrow> (nat \<times> nat \<times> nat) res" where
  "measure_server s acc =
     bindE (sv_owner s) (\<lambda>_.
     bindE (need (fst ` set (sv_selector s) = fst ` set (sv_connections s) \<union> (if sv_accepting s then {sv_listener s} else {}))
       (ServiceError ''ACTIVITY_MISMATCH'')) (\<lambda>_.
     bindE (need (sv_accepting s \<longrightarrow> map_of (sv_selector s) (sv_listener s) = Some (EVENT_READ, None)) (ServiceError ''ACTIVITY_MISMATCH'')) (\<lambda>_.
     bindE (foldE (check_connection s) (sv_connections s) acc) (\<lambda>(sending, receiving).
       Inr (length (sv_connections s), sending, receiving)))))"

record activity =
  ac_read :: nat
  ac_upload :: nat
  ac_pins :: nat
  ac_sending :: nat
  ac_receiving :: nat
  ac_read_accepting :: bool
  ac_upload_accepting :: bool

definition ac_connections :: "activity \<Rightarrow> nat" where "ac_connections a = ac_read a + ac_upload a"

section \<open>The scheduler\<close>

record 'g sched =
  sc_jobs :: "'g jobs"
  sc_read :: server
  sc_upload :: server
  sc_pins :: nat
  sc_keeper_closed :: bool
  sc_closed :: bool
  sc_selected :: "bytes option"
  sc_retry :: bool
  sc_fault :: "string option"
  sc_deadline :: "int option"
  sc_drain :: int
  sc_turn :: nat
  sc_effect_steps :: nat
  sc_waiting :: "string option"

record sched_env =
  se_observe :: "nat \<Rightarrow> unit res"
  se_now :: int
  se_read_in_place :: bool
  se_upload_in_place :: bool
  se_poll_read :: "server \<times> nat \<Rightarrow> (server \<times> nat) \<times> unit res"
  se_poll_upload :: "server \<times> nat \<Rightarrow> (server \<times> nat) \<times> unit res"
  se_job :: job_env

definition activity_snapshot :: "'g sched \<Rightarrow> activity res" where
  "activity_snapshot h =
     bindE (need (\<not> sc_keeper_closed h) (ServiceError ''CLOSED'')) (\<lambda>_.
     bindE (measure_server (sc_read h) (0, 0)) (\<lambda>(r, acc).
     bindE (measure_server (sc_upload h) acc) (\<lambda>(u, sending, receiving).
       Inr \<lparr>ac_read = r, ac_upload = u, ac_pins = sc_pins h, ac_sending = sending, ac_receiving = receiving,
         ac_read_accepting = sv_accepting (sc_read h), ac_upload_accepting = sv_accepting (sc_upload h)\<rparr>)))"

definition activity_for_job :: "'g sched \<Rightarrow> nat res" where
  "activity_for_job h =
     bindE (activity_snapshot h) (\<lambda>a.
     bindE (need (\<not> ac_read_accepting a \<and> \<not> ac_upload_accepting a) (ServiceError ''ADMISSION_NOT_PAUSED'')) (\<lambda>_. Inr (ac_connections a)))"

text \<open>\<^verbatim>\<open>_idle\<close> of the job owner: the measured connections, at most 65536, and the pins of the keeper.\<close>

definition measured_idle :: "'g sched \<Rightarrow> bool res" where
  "measured_idle h =
     bindE (activity_for_job h) (\<lambda>k. bindE (need (k \<le> 65536) (ServiceError ''JOB_ACTIVITY'')) (\<lambda>_. Inr (k = 0 \<and> sc_pins h = 0)))"

definition job_env_of :: "sched_env \<Rightarrow> 'g sched \<Rightarrow> job_env" where
  "job_env_of env h = (se_job env)\<lparr>en_idle := measured_idle h, en_idle_again := measured_idle h\<rparr>"

definition sc_guard :: "'g sched \<Rightarrow> unit res" where
  "sc_guard h = need (\<not> sc_closed h) (ServiceError ''CLOSED'')"

text \<open>\<^verbatim>\<open>getattr(exc,'code','SCHEDULER_ERROR')\<close>\<close>

definition exn_code :: "exn \<Rightarrow> string" where
  "exn_code e = (case e of WireError c _ \<Rightarrow> c | CryptoError c \<Rightarrow> c | AuthError c \<Rightarrow> c | StoreError c \<Rightarrow> c | RecoveryError c \<Rightarrow> c
     | KeeperError c \<Rightarrow> c | ServiceError c \<Rightarrow> c | FileError c \<Rightarrow> c | _ \<Rightarrow> ''SCHEDULER_ERROR'')"

definition on_jobs :: "('g jobs \<Rightarrow> 'g jobs \<times> 'r res) \<Rightarrow> 'g sched \<Rightarrow> 'g sched \<times> 'r res" where
  "on_jobs f h = (case f (sc_jobs h) of (j, r) \<Rightarrow> (h\<lparr>sc_jobs := j\<rparr>, r))"

definition on_read :: "(server \<Rightarrow> server res) \<Rightarrow> 'g sched \<Rightarrow> 'g sched \<times> unit res" where
  "on_read f h = (case f (sc_read h) of Inl e \<Rightarrow> (h, Inl e) | Inr s \<Rightarrow> (h\<lparr>sc_read := s\<rparr>, Inr ()))"

definition on_upload :: "(server \<Rightarrow> server res) \<Rightarrow> 'g sched \<Rightarrow> 'g sched \<times> unit res" where
  "on_upload f h = (case f (sc_upload h) of Inl e \<Rightarrow> (h, Inl e) | Inr s \<Rightarrow> (h\<lparr>sc_upload := s\<rparr>, Inr ()))"

definition sc_pause :: "'g sched \<Rightarrow> 'g sched \<times> unit res" where
  "sc_pause h = bindS (on_read pause_accepting h) (\<lambda>_. on_upload pause_accepting)"

definition sc_hold :: "string \<Rightarrow> 'g sched \<Rightarrow> 'g sched \<times> unit res" where
  "sc_hold code h = sc_pause (h\<lparr>sc_fault := Some code\<rparr>)"

text \<open>\<^verbatim>\<open>except Exception as exc: self._hold(code); raise\<close>\<close>

definition or_hold :: "'g sched \<times> 'r res \<Rightarrow> 'g sched \<times> 'r res" where
  "or_hold m = (case m of (h, Inr x) \<Rightarrow> (h, Inr x) | (h, Inl e) \<Rightarrow> bindS (sc_hold (exn_code e) h) (\<lambda>_ h. (h, Inl e)))"

definition sc_resume :: "sched_env \<Rightarrow> nat \<Rightarrow> 'g sched \<Rightarrow> 'g sched \<times> unit res" where
  "sc_resume env k h = or_hold (
     bindS (h, bindE (activity_snapshot h) (\<lambda>_. se_observe env k)) (\<lambda>_ h.
     bindS (on_read (resume_accepting (se_read_in_place env)) h) (\<lambda>_.
       on_upload (resume_accepting (se_upload_in_place env)))))"

definition UNRESOLVED :: "string list" where "UNRESOLVED = [''OUTCOME_UNKNOWN'', ''RETRY_READY'']"
definition TERMINAL :: "string list" where "TERMINAL = [''SUCCEEDED'', ''CANCELLED'']"

definition sc_unresolved :: "sodium \<Rightarrow> 'g job_backend \<Rightarrow> 'g sched \<Rightarrow> 'g sched \<times> bytes list res" where
  "sc_unresolved n be h =
     bindS (on_jobs (list_jobs n be) h) (\<lambda>rows h.
       (h, Inr (map js_job (filter (\<lambda>r. js_state r \<in> set (map cps UNRESOLVED)) rows))))"

record diagnostics =
  dg_mode :: string
  dg_selected :: "bytes option"
  dg_activity :: activity
  dg_fault :: "string option"
  dg_waiting :: "string option"
  dg_effect_steps :: nat

definition sc_diagnostics :: "'g sched \<Rightarrow> 'g sched \<times> diagnostics res" where
  "sc_diagnostics h = (h,
     bindE (sc_guard h) (\<lambda>_. bindE (activity_snapshot h) (\<lambda>a.
       Inr \<lparr>dg_mode = (if sc_fault h \<noteq> None then ''REVIEW_REQUIRED'' else if sc_selected h \<noteq> None then ''DRAINING'' else ''SERVING''),
         dg_selected = sc_selected h, dg_activity = a, dg_fault = sc_fault h, dg_waiting = sc_waiting h, dg_effect_steps = sc_effect_steps h\<rparr>)))"

definition sc_submit :: "sodium \<Rightarrow> 'g job_backend \<Rightarrow> sched_env \<Rightarrow> bytes \<Rightarrow> pyval \<Rightarrow> pyval \<Rightarrow> pyval \<Rightarrow> 'g sched \<Rightarrow> 'g sched \<times> job_status res" where
  "sc_submit n be env i action command archive h =
     bindS (h, sc_guard h) (\<lambda>_. on_jobs (submit_job n be i action command archive (se_job env)))"

definition sc_schedule :: "sodium \<Rightarrow> 'g job_backend \<Rightarrow> sched_env \<Rightarrow> bytes \<Rightarrow> bool \<Rightarrow> 'g sched \<Rightarrow> 'g sched \<times> diagnostics res" where
  "sc_schedule n be env i retry h =
     bindS (h, bindE (sc_guard h) (\<lambda>_. bindE (mj_fixed (PBytes i)) (\<lambda>_. need (sc_selected h = None) (ServiceError ''SCHEDULER_BUSY'')))) (\<lambda>_ h.
     bindS (on_jobs (poll_job n be i) h) (\<lambda>st h.
     bindS (sc_unresolved n be h) (\<lambda>ids h.
     bindS (h, bindE (need (filter (\<lambda>x. x \<noteq> i) ids = []) (ServiceError ''RECONCILE_REQUIRED'')) (\<lambda>_.
         bindE (need (js_state st \<notin> set (map cps TERMINAL)) (ServiceError ''JOB_TERMINAL'')) (\<lambda>_.
         bindE (need (js_state st \<noteq> cps ''OUTCOME_UNKNOWN'') (ServiceError ''RECONCILE_REQUIRED'')) (\<lambda>_.
         bindE (need (retry = (js_state st = cps ''RETRY_READY'')) (ServiceError ''EXPLICIT_RETRY_REQUIRED'')) (\<lambda>_.
         bindE (need (sc_fault h \<in> {None, Some ''RECONCILE_REQUIRED''}) (ServiceError ''SCHEDULER_REOPEN_REQUIRED'')) (\<lambda>_.
         bindE (se_observe env 0) (\<lambda>_.
         bindE (activity_snapshot h) (\<lambda>_. Inr ())))))))) (\<lambda>_ h.
     bindS (sc_pause h) (\<lambda>_ h.
       sc_diagnostics (h\<lparr>sc_selected := Some i, sc_retry := retry, sc_deadline := Some (se_now env + sc_drain h), sc_fault := None\<rparr>))))))"

definition sc_cancel :: "sodium \<Rightarrow> 'g job_backend \<Rightarrow> sched_env \<Rightarrow> bytes \<Rightarrow> 'g sched \<Rightarrow> 'g sched \<times> job_status res" where
  "sc_cancel n be env i h =
     bindS (h, sc_guard h) (\<lambda>_ h.
     bindS (on_jobs (cancel_job n be i (se_job env)) h) (\<lambda>result h.
     let h = (if sc_selected h = Some i then h\<lparr>sc_selected := None, sc_deadline := None, sc_retry := False, sc_fault := None\<rparr> else h) in
       if sc_selected h \<noteq> None then (h, Inr result)
       else bindS (sc_unresolved n be h) (\<lambda>ids h.
         if ids \<noteq> [] then (h, Inr result) else bindS (sc_resume env 0 h) (\<lambda>_ h. (h, Inr result)))))"

definition sc_reconcile :: "sodium \<Rightarrow> 'g job_backend \<Rightarrow> sched_env \<Rightarrow> bytes \<Rightarrow> 'g sched \<Rightarrow> 'g sched \<times> job_status res" where
  "sc_reconcile n be env i h =
     bindS (h, sc_guard h) (\<lambda>_ h.
     bindS (on_jobs (poll_job n be i) h) (\<lambda>st h.
     bindS (h, need (js_state st \<in> set (map cps (UNRESOLVED @ [''SUCCEEDED'']))) (ServiceError ''NOT_RECONCILABLE'')) (\<lambda>_ h.
     bindS (sc_pause h) (\<lambda>_ h.
     bindS (or_hold (bindS (h, se_observe env 0) (\<lambda>_. on_jobs (reconcile_job n be i (se_job env))))) (\<lambda>result h.
     let h = (if js_state result = cps ''SUCCEEDED'' \<and> sc_selected h = Some i then h\<lparr>sc_selected := None, sc_deadline := None\<rparr> else h) in
       if sc_selected h \<noteq> None then (h\<lparr>sc_fault := Some ''RECONCILE_REQUIRED''\<rparr>, Inr result)
       else bindS (sc_unresolved n be h) (\<lambda>ids h.
         if ids \<noteq> [] then (h\<lparr>sc_fault := Some ''RECONCILE_REQUIRED''\<rparr>, Inr result)
         else bindS (sc_resume env 1 (h\<lparr>sc_fault := None\<rparr>)) (\<lambda>_ h. (h, Inr result))))))))"

definition sc_arm_retry :: "sodium \<Rightarrow> 'g job_backend \<Rightarrow> sched_env \<Rightarrow> bytes \<Rightarrow> 'g sched \<Rightarrow> 'g sched \<times> diagnostics res" where
  "sc_arm_retry n be env i h =
     bindS (h, bindE (sc_guard h) (\<lambda>_. need (sc_selected h \<in> {None, Some i}) (ServiceError ''SCHEDULER_BUSY''))) (\<lambda>_ h.
     bindS (on_jobs (poll_job n be i) h) (\<lambda>st h.
     bindS (h, need (js_state st = cps ''RETRY_READY'') (ServiceError ''RECONCILE_REQUIRED'')) (\<lambda>_ h.
       sc_schedule n be env i True (h\<lparr>sc_selected := None, sc_fault := Some ''RECONCILE_REQUIRED''\<rparr>))))"

section \<open>One tick\<close>

definition poll_server :: "bool \<Rightarrow> sched_env \<Rightarrow> 'g sched \<Rightarrow> 'g sched \<times> unit res" where
  "poll_server first env h =
     (if first then (case se_poll_read env (sc_read h, sc_pins h) of ((s, p), r) \<Rightarrow> (h\<lparr>sc_read := s, sc_pins := p\<rparr>, r))
      else (case se_poll_upload env (sc_upload h, sc_pins h) of ((s, p), r) \<Rightarrow> (h\<lparr>sc_upload := s, sc_pins := p\<rparr>, r)))"

definition sc_finish :: "sched_env \<Rightarrow> nat \<Rightarrow> 'g sched \<Rightarrow> 'g sched \<times> unit res" where
  "sc_finish env k h = sc_resume env k (h\<lparr>sc_selected := None, sc_deadline := None, sc_fault := None, sc_waiting := None\<rparr>)"

text \<open>Both servers are polled once, in alternating order.\<close>

definition tick_poll :: "sched_env \<Rightarrow> 'g sched \<Rightarrow> 'g sched \<times> unit res" where
  "tick_poll env h =
     bindS (h, bindE (activity_snapshot h) (\<lambda>_. se_observe env 0)) (\<lambda>_ h.
     let first = (sc_turn h mod 2 = 0); h = h\<lparr>sc_turn := sc_turn h + 1\<rparr> in
     bindS (h, se_observe env 1) (\<lambda>_ h.
     bindS (poll_server first env h) (\<lambda>_ h.
     bindS (h, se_observe env 2) (\<lambda>_ h.
     bindS (poll_server (\<not> first) env h) (\<lambda>_ h.
       (h, bindE (activity_snapshot h) (\<lambda>_. se_observe env 3)))))))"

text \<open>The one stage of the selected job, with the \<^verbatim>\<open>finally\<close> block after it.\<close>

definition tick_stage :: "sodium \<Rightarrow> 'g job_backend \<Rightarrow> sched_env \<Rightarrow> bytes \<Rightarrow> bool \<Rightarrow> 'g sched \<Rightarrow> 'g sched \<times> job_status res" where
  "tick_stage n be env i effect h =
     (case on_jobs (if sc_retry h then retry_job n be i (job_env_of env h) else step_job n be i (job_env_of env h)) h of
        (h, r) \<Rightarrow>
          let h = (if effect then h\<lparr>sc_effect_steps := sc_effect_steps h + 1\<rparr> else h) in
          (h, bindE (se_observe env 5) (\<lambda>_. r)))"

definition tick_job :: "sodium \<Rightarrow> 'g job_backend \<Rightarrow> sched_env \<Rightarrow> 'g sched \<Rightarrow> 'g sched \<times> unit res" where
  "tick_job n be env h = (case sc_selected h of
     None \<Rightarrow> (h, Inr ())
   | Some i \<Rightarrow>
       if sc_fault h \<noteq> None then (h, Inr ())
       else bindS (on_jobs (poll_job n be i) h) (\<lambda>st h.
         if js_state st \<in> set (map cps TERMINAL) then sc_finish env 4 h
         else if js_state st \<in> set (map cps UNRESOLVED) \<and> \<not> sc_retry h then sc_hold ''RECONCILE_REQUIRED'' h
         else bindS (h, activity_snapshot h) (\<lambda>a h.
           case sc_deadline h of None \<Rightarrow> (h, Inl TypeError) | Some d \<Rightarrow>
           if d \<le> se_now env then sc_hold ''DRAIN_TIMEOUT'' h
           else
             let effect = (js_state st \<in> {cps ''PREPARED'', cps ''RETRY_READY''}) in
             if effect \<and> (ac_connections a \<noteq> 0 \<or> ac_pins a \<noteq> 0) then (h\<lparr>sc_waiting := Some ''ACTIVE_TRANSFERS''\<rparr>, Inr ())
             else
               bindS (h\<lparr>sc_waiting := None\<rparr>, se_observe env 4) (\<lambda>_ h.
               bindS (tick_stage n be env i effect h) (\<lambda>result h.
               let h = h\<lparr>sc_retry := False\<rparr> in
                 if js_state result \<in> set (map cps TERMINAL) then sc_finish env 6 h
                 else if js_state result \<in> set (map cps UNRESOLVED) then sc_hold ''RECONCILE_REQUIRED'' h
                 else (h, Inr ()))))))"

definition sc_tick :: "sodium \<Rightarrow> 'g job_backend \<Rightarrow> sched_env \<Rightarrow> 'g sched \<Rightarrow> 'g sched \<times> diagnostics res" where
  "sc_tick n be env h =
     bindS (h, sc_guard h) (\<lambda>_ h.
     bindS (or_hold (bindS (tick_poll env h) (\<lambda>_. tick_job n be env))) (\<lambda>_.
       sc_diagnostics))"

definition sc_close :: "'g sched \<Rightarrow> 'g sched" where
  "sc_close h = (if sc_closed h then h else
     h\<lparr>sc_closed := True, sc_jobs := close_jobs (sc_jobs h), sc_read := (sc_read h)\<lparr>sv_closed := True\<rparr>, sc_upload := (sc_upload h)\<lparr>sv_closed := True\<rparr>\<rparr>)"

end
