(* ===== verification/JobsProps.thy ===== *)
theory JobsProps
  imports Jobs KeeperProps
begin

text \<open>
  Management jobs as a state machine. The abstract state is the history of every job and the list of dispatched effects; its
  steps are the edges of the contract and the dispatch, which appends the \<^verbatim>\<open>EXECUTING\<close> marker together with the effect. Every
  operation of the owner, with any outcome of its writes, moves along these steps; what holds along them holds for the code.
\<close>

section \<open>Journal files\<close>

lemma map_of_put_key [simp]: "map_of (put_key k v xs) = (map_of xs)(k \<mapsto> v)"
proof (rule ext)
  fix i
  let ?f = "\<lambda>(k', v'). (k', if k' = k then v else v')"
  have "map_of (map ?f ys) k = map_option (\<lambda>_. v) (map_of ys k)" for ys by (induction ys) auto
  moreover have "map_of (map ?f ys) i = map_of ys i" if "i \<noteq> k" for ys using that by (induction ys) auto
  moreover have "map_of xs k = None \<longleftrightarrow> k \<notin> fst ` set xs" by (simp add: map_of_eq_None_iff)
  ultimately show "map_of (put_key k v xs) i = ((map_of xs)(k \<mapsto> v)) i"
    by (cases "i = k"; cases "map_of xs k") (auto simp: put_key_def map_add_def split: option.splits)
qed

lemma job_magic_length [simp]: "length job_magic = 8"
  by (simp add: job_magic_def cps_def)

lemma mj_dump_Inr [simp]: "mj_dump v = Inr r \<longleftrightarrow> encode v (int MAX_HEADER) MAX_NODES = Inr r"
  by (simp add: mj_dump_def sp_dump_def)

lemma mj_load_Inr: "mj_load v = Inr x \<longleftrightarrow> (\<exists>raw. v = PBytes raw \<and> decode raw (int MAX_HEADER) MAX_NODES = Inr x)"
  by (simp add: mj_load_def sp_load_def env_load_Inr)

lemma header_limit: "int MAX_HEADER \<le> MAX_BYTES"
  by (simp add: MAX_HEADER_def MAX_BYTES_def)

text \<open>A packed record unpacks to itself.\<close>

lemma job_file_roundtrip:
  assumes "sodium_ok n" "p_sign_public n seed = Inr pk" "mj_pack n seed b a = Inr raw" "length raw \<le> MJ_MAX_FILE"
    and "item_at b 2 = Inr (PBytes pk)" "wf_py b" "canon b = b"
  shows "mj_unpack n pk raw = Inr (b, a)"
proof -
  obtain r msg sig hd where r: "encode b (int MAX_HEADER) MAX_NODES = Inr r" and msg: "c_domain (cps ''management-jobs-local/journal'') [PBytes r] = Inr msg"
    and sig: "p_sign n seed msg = Inr sig" and hd: "encode (mk_dict [(0, PBytes r), (1, PBytes sig)]) (int MAX_HEADER) MAX_NODES = Inr hd"
    and shape: "job_shape b a = Inr ()" and raw: "raw = job_magic @ to_bytes 4 (length hd) @ hd @ a"
    using assms(3) by (auto simp: mj_pack_def bindE_eq_Inr)
  let ?o = "mk_dict [(0, PBytes r), (1, PBytes sig)]"
  note v = p_sign_ok [OF assms(1,2) sig]
  have "canon ?o = ?o" "wf_py ?o" by (simp_all add: mk_dict_def)
  then have dh: "decode hd (int MAX_HEADER) MAX_NODES = Inr ?o" by (rule decode_encode_canon [OF hd])
  have db: "decode r (int MAX_HEADER) MAX_NODES = Inr b" by (rule decode_encode_canon [OF r assms(7,6)])
  have len: "1 \<le> length hd" "length hd \<le> MAX_HEADER"
    using dh length_cbor_pos [of ?o] by (auto simp: decode_iff)
  have k: "from_bytes (take 4 (drop 8 raw)) = length hd" using len by (simp add: raw from_to_bytes MAX_HEADER_def)
  have parts: "take (length hd) (drop 12 raw) = hd" "drop (12 + length hd) raw = a" "length raw = 12 + length hd + length a" "take 8 raw = job_magic"
    by (simp_all add: raw)
  have ver: "env_verify (ServiceError ''JOB_SIGNATURE'') ''management-jobs-local/'' n (PBytes pk) ?o ''journal'' = Inr ()"
    using v msg by (simp add: env_verify_Inr)
  show ?thesis
    using len k parts v assms(4,5) dh db ver shape
    by (simp add: mj_unpack_def mj_fixed_def bytes_sized_def Let_def mj_load_Inr [THEN iffD2] mj_keys_def is_bytes_def bytes_between_def field_is_def)
qed

lemma unpack_facts:
  assumes "mj_unpack n pk raw = Inr (b, a)"
  shows "job_shape b a = Inr ()" "canonical b" "item_at b 2 = Inr (PBytes pk)" "length pk = 32"
  using assms by (auto simp: mj_unpack_def bindE_eq_Inr Let_def mj_load_Inr decode_iff field_is_def mj_fixed_def)

section \<open>Histories\<close>

primrec path :: "pystr option \<Rightarrow> pystr list \<Rightarrow> bool" where
  "path s [] = True"
| "path s (x # xs) = (x \<in> set (map cps (job_edges s)) \<and> path (Some x) xs)"

lemma path_snoc: "path s (xs @ [x]) \<longleftrightarrow> path s xs \<and> x \<in> set (map cps (job_edges (if xs = [] then s else Some (last xs))))"
  by (induction xs arbitrary: s) auto

lemma check_event_Inr:
  "check_event (i, e) s = Inr t \<Longrightarrow> t = Some (event_state e) \<and> event_state e \<in> set (map cps (job_edges s))"
  by (auto simp: check_event_def bindE_eq_Inr error_name_def event_state_def)

lemma check_events_path: "foldE check_event (enumerate i hist) s = Inr t \<Longrightarrow> path s (map event_state hist)"
  by (induction hist arbitrary: i s) (auto simp: bindE_eq_Inr dest!: check_event_Inr)

lemma shape_history:
  assumes "job_shape b a = Inr u"
  shows "\<exists>hist. item_at b 13 = Inr (PList hist) \<and> job_events b = hist \<and> hist \<noteq> [] \<and> path None (map event_state hist)"
proof -
  obtain hist where "item_at b 13 = Inr (PList hist)" "1 \<le> length hist" "\<exists>t. check_history hist = Inr t"
    using assms by (auto simp: job_shape_def bindE_eq_Inr case_list_Inr)
  then show ?thesis using check_events_path by (fastforce simp: job_events_def check_history_def)
qed

text \<open>The state of every job by name, and what each state has behind it.\<close>

definition executions :: "pystr list \<Rightarrow> nat" where
  "executions xs = count_list xs (cps ''EXECUTING'')"

lemma edge_cases:
  assumes "x \<in> set (map cps (job_edges s))"
  shows "(x = cps ''CANCELLED'' \<longrightarrow> s \<in> {Some (cps ''QUEUED''), Some (cps ''VALIDATED''), Some (cps ''PREPARED'')})
    \<and> (x = cps ''EXECUTING'' \<longrightarrow> s \<in> {Some (cps ''PREPARED''), Some (cps ''RETRY_READY'')})
    \<and> (x \<in> {cps ''QUEUED'', cps ''VALIDATED'', cps ''PREPARED''} \<longrightarrow> s \<in> {None, Some (cps ''QUEUED''), Some (cps ''VALIDATED'')})
    \<and> s \<noteq> Some (cps ''CANCELLED'')"
  using assms by (auto simp: job_edges_def split: if_splits)

text \<open>Before the first dispatch a history has no \<^verbatim>\<open>EXECUTING\<close> marker; a cancelled job never had one; and every further dispatch
  comes after an explicit reconciliation.\<close>

lemma path_executions:
  assumes "path None xs" "xs \<noteq> []"
  shows "(last xs \<in> {cps ''QUEUED'', cps ''VALIDATED'', cps ''PREPARED'', cps ''CANCELLED''} \<longrightarrow> executions xs = 0)
    \<and> executions xs \<le> 1 + count_list xs (cps ''RETRY_READY'')
    \<and> (last xs = cps ''RETRY_READY'' \<longrightarrow> executions xs \<le> count_list xs (cps ''RETRY_READY''))"
  using assms
proof (induction xs rule: rev_induct)
  case (snoc x xs)
  show ?case
  proof (cases "xs = []")
    case True
    with snoc.prems show ?thesis by (simp add: job_edges_def executions_def)
  next
    case False
    with snoc.prems have p: "path None xs" "x \<in> set (map cps (job_edges (Some (last xs))))" by (simp_all add: path_snoc)
    note ih = snoc.IH [OF p(1) False]
    from edge_cases [OF p(2)] ih show ?thesis by (auto simp: executions_def)
  qed
qed simp

section \<open>Transitions\<close>

lemma set_item_get:
  assumes "b = PDict kvs" "item_at b m = Inr x"
  shows "item_at (set_item b m v) k = (if k = m then Inr v else item_at b k)"
proof -
  have eq: "map_of (map (\<lambda>(k', v'). (k', if k' = PInt m then v else v')) kvs) (PInt k)
      = (if k = m then map_option (\<lambda>_. v) (map_of kvs (PInt k)) else map_of kvs (PInt k))"
    by (induction kvs) auto
  then show ?thesis using assms by (auto simp: item_at_def set_item_def dict_get_def split: option.splits)
qed

lemma set_item_flat:
  assumes "canonical (PDict kvs)" "wf_py v" "canon v = v"
  shows "wf_py (set_item (PDict kvs) k v)" "canon (set_item (PDict kvs) k v) = set_item (PDict kvs) k v"
proof -
  let ?f = "\<lambda>(k', v'). (k', if k' = PInt k then v else v')"
  have keys: "map fst (map ?f kvs) = map fst kvs" "map (int_of \<circ> fst) (map ?f kvs) = map (int_of \<circ> fst) kvs"
    by (auto simp: case_prod_beta comp_def)
  have wf: "wf_py (PDict kvs)" using assms(1) by (rule canonical_wf)
  have vals: "wf_py (snd kv) \<and> canon (snd kv) = snd kv" if "kv \<in> set kvs" for kv
    using assms(1) that by (auto simp: list_all_iff)
  have fs: "wf_py (snd kv) \<and> canon (snd kv) = snd kv" if "kv \<in> set (map ?f kvs)" for kv
    using that vals assms(2,3) by (auto split: if_splits)
  have "distinct (map fst (map ?f kvs))" unfolding keys(1) using wf by simp
  moreover have "\<forall>kv \<in> set (map ?f kvs). wf_py (fst kv) \<and> wf_py (snd kv)" using wf assms(2) by (auto simp: list_all_iff)
  ultimately show "wf_py (set_item (PDict kvs) k v)" by (simp add: set_item_def list_all_iff del: map_map set_map)
  have "map (\<lambda>kv. (fst kv, canon (snd kv))) (map ?f kvs) = map ?f kvs"
    using fs by (intro map_idI) (metis prod.collapse)
  moreover have "sorted (map (int_of \<circ> fst) (map ?f kvs))"
    unfolding keys(2) using assms(1) by (auto intro: strict_sorted_imp_sorted)
  then have "sort_key (\<lambda>kv. int_of (fst kv)) (map ?f kvs) = map ?f kvs"
    by (intro sort_key_id_if_sorted) (simp add: comp_def)
  ultimately show "canon (set_item (PDict kvs) k v) = set_item (PDict kvs) k v"
    by (simp only: set_item_def pyval.case canon.simps)
qed

lemma shape_dict: "job_shape b a = Inr u \<Longrightarrow> \<exists>kvs. b = PDict kvs"
  by (cases b) (auto simp: job_shape_def bindE_eq_Inr mj_keys_def int_keys_def)

text \<open>The copy that \<^verbatim>\<open>transition\<close> extends: one more event, every other field as it was.\<close>

lemma next_record_Inr:
  assumes "next_record b state result witness = Inr u" "canonical b" "job_shape b a = Inr ()"
    and "wf_py result" "canon result = result" "wf_py witness" "canon witness = witness"
  shows "\<exists>e. job_events u = job_events b @ [e] \<and> event_state e = cps state" "\<forall>k. k \<noteq> 13 \<longrightarrow> item_at u k = item_at b k"
    "wf_py u" "canon u = u"
proof -
  obtain es where es: "item_at b 13 = Inr (PList es)" "job_events b = es" using shape_history [OF assms(3)] by blast
  obtain kvs where kvs: "b = PDict kvs" using shape_dict [OF assms(3)] by blast
  let ?e = "mk_dict [(0, PInt (int (length es))), (1, PStr (cps state)), (2, result), (3, witness)]"
  obtain r where r: "encode b (int MAX_HEADER) MAX_NODES = Inr r" using assms(1) by (auto simp: next_record_def bindE_eq_Inr)
  have "mj_load (PBytes r) = Inr b"
    using decode_encode_canon [OF r canonical_canon [OF assms(2)] canonical_wf [OF assms(2)]] by (simp add: mj_load_Inr)
  then have u: "u = set_item b 13 (PList (es @ [?e]))" using assms(1) r es(1) by (auto simp: next_record_def bindE_eq_Inr)
  have get: "item_at u k = (if k = 13 then Inr (PList (es @ [?e])) else item_at b k)" for k
    unfolding u by (rule set_item_get [OF kvs es(1)])
  then show "\<exists>e. job_events u = job_events b @ [e] \<and> event_state e = cps state" using es(2)
    by (intro exI [of _ ?e]) (simp add: job_events_def event_state_def)
  show "\<forall>k. k \<noteq> 13 \<longrightarrow> item_at u k = item_at b k" using get by simp
  have "\<forall>x \<in> set es. wf_py x \<and> canon x = x"
  proof -
    have "canonical (PList es)" using assms(2) es(1) unfolding kvs
      by (auto simp: item_at_def dict_get_def list_all_iff split: option.splits dest!: map_of_SomeD)
    then show ?thesis by (simp add: list_all_iff)
  qed
  moreover have "wf_py ?e" "canon ?e = ?e" using assms(4-7) by (simp_all add: mk_dict_def)
  ultimately have "wf_py (PList (es @ [?e]))" "canon (PList (es @ [?e])) = PList (es @ [?e])"
    by (auto simp: list_all_iff intro: map_idI)
  from set_item_flat [OF assms(2) [unfolded kvs] this, of 13] show "wf_py u" "canon u = u" unfolding u kvs by blast+
qed

section \<open>The abstract machine\<close>

text \<open>The history of each job, empty for a job that was never submitted, and the dispatched effects.\<close>

type_synonym job_world = "(bytes \<Rightarrow> pystr list) \<times> bytes list"

inductive job_move :: "job_world \<Rightarrow> job_world \<Rightarrow> bool" where
  queue: "h i = [] \<Longrightarrow> job_move (h, e) (h(i := [cps ''QUEUED'']), e)"
| advance: "h i \<noteq> [] \<Longrightarrow> s \<in> set (map cps (job_edges (Some (last (h i))))) \<Longrightarrow> job_move (h, e) (h(i := h i @ [s]), e)"
| dispatch: "h i \<noteq> [] \<Longrightarrow> last (h i) \<in> {cps ''PREPARED'', cps ''RETRY_READY''} \<Longrightarrow> job_move (h, e) (h(i := h i @ [cps ''EXECUTING'']), i # e)"

abbreviation job_moves :: "job_world \<Rightarrow> job_world \<Rightarrow> bool" where
  "job_moves \<equiv> job_move\<^sup>*\<^sup>*"

definition world_ok :: "job_world \<Rightarrow> bool" where
  "world_ok w \<longleftrightarrow> (\<forall>i. path None (fst w i) \<and> count_list (snd w) i \<le> executions (fst w i))"

lemma job_move_ok: "job_move w w' \<Longrightarrow> world_ok w \<Longrightarrow> world_ok w'"
proof (induction rule: job_move.induct)
  case (queue h i e)
  then have "count_list e i = 0" by (simp add: world_ok_def executions_def) (metis count_list.simps(1) le_zero_eq)
  with queue show ?case by (auto simp: world_ok_def job_edges_def executions_def)
next
  case (advance h i s e)
  then show ?case by (auto simp: world_ok_def path_snoc executions_def trans_le_add1)
next
  case (dispatch h i e)
  then have "cps ''EXECUTING'' \<in> set (map cps (job_edges (Some (last (h i)))))" by (auto simp: job_edges_def)
  with dispatch show ?case by (auto simp: world_ok_def path_snoc executions_def trans_le_add1)
qed

lemma job_moves_ok: "job_moves w w' \<Longrightarrow> world_ok w \<Longrightarrow> world_ok w'"
  by (induction rule: rtranclp_induct) (auto intro: job_move_ok)

lemma job_move_prefix: "job_move w w' \<Longrightarrow> \<exists>xs. fst w' i = fst w i @ xs"
  by (induction rule: job_move.induct) auto

lemma job_moves_prefix: "job_moves w w' \<Longrightarrow> \<exists>xs. fst w' i = fst w i @ xs"
proof (induction rule: rtranclp_induct)
  case (step y z)
  then show ?case using job_move_prefix [OF step(2), of i] by fastforce
qed simp

section \<open>What a journal holds\<close>

definition content :: "sodium \<Rightarrow> 'g job_backend \<Rightarrow> 'g jobs \<Rightarrow> bytes \<Rightarrow> (pyval \<times> bytes) option" where
  "content n be j i = (case map_of (jb_files j) i of None \<Rightarrow> None
     | Some raw \<Rightarrow> (case mj_unpack n (be_public be) raw of Inl _ \<Rightarrow> None | Inr ba \<Rightarrow> Some ba))"

definition world :: "sodium \<Rightarrow> 'g job_backend \<Rightarrow> 'g jobs \<Rightarrow> job_world" where
  "world n be j = (\<lambda>i. case content n be j i of None \<Rightarrow> [] | Some (b, _) \<Rightarrow> map event_state (job_events b), jb_effects j)"

text \<open>Every file is a readable record of the job it is named after.\<close>

definition jobs_ok :: "sodium \<Rightarrow> 'g job_backend \<Rightarrow> 'g jobs \<Rightarrow> bool" where
  "jobs_ok n be j \<longleftrightarrow> (\<forall>i \<in> fst ` set (jb_files j). \<exists>b a. content n be j i = Some (b, a) \<and> item_at b 4 = Inr (PBytes i))"

text \<open>What is relied on: the signing library, the keeper's own key pair, and that the context of the gateway is made of encodable
  values (dictionaries in key order).\<close>

definition flat :: "pyval \<Rightarrow> bool" where
  "flat v \<longleftrightarrow> wf_py v \<and> canon v = v"

definition backend_ok :: "sodium \<Rightarrow> 'g job_backend \<Rightarrow> bool" where
  "backend_ok n be \<longleftrightarrow> sodium_ok n \<and> p_sign_public n (be_seed be) = Inr (be_public be)
     \<and> (\<forall>g authority pin' phase' window. be_context be g = Inr (authority, pin', phase', window)
          \<longrightarrow> flat authority \<and> flat pin' \<and> flat phase' \<and> flat window)"

lemma content_facts:
  assumes "content n be j i = Some (b, a)"
  shows "job_shape b a = Inr ()" "canonical b" "item_at b 2 = Inr (PBytes (be_public be))"
  using assms unpack_facts by (auto simp: content_def split: option.splits sum.splits)

lemma content_files: "jb_files j' = jb_files j \<Longrightarrow> content n be j' = content n be j"
  by (simp add: content_def fun_eq_iff)

text \<open>A new version of a record that passed all checks is what the journal holds afterwards, unless the write was lost.\<close>

lemma persist_content:
  assumes be: "backend_ok n be" and ok: "jobs_ok n be j" and b: "item_at b 4 = Inr (PBytes i)" "item_at b 2 = Inr (PBytes (be_public be))" "wf_py b" "canon b = b"
    and p: "jn_persist n (be_seed be) b a w j = (j', r)"
  shows "jb_effects j' = jb_effects j \<and> jb_gateway j' = jb_gateway j \<and> jobs_ok n be j'
    \<and> (content n be j' = content n be j \<or> content n be j' = (content n be j)(i \<mapsto> (b, a)) \<and> job_shape b a = Inr ())
    \<and> (r = Inr () \<longrightarrow> content n be j' i = Some (b, a))"
proof (cases "\<exists>raw. mj_pack n (be_seed be) b a = Inr raw \<and> length raw \<le> MJ_MAX_FILE")
  case True
  then obtain raw where raw: "mj_pack n (be_seed be) b a = Inr raw" "length raw \<le> MJ_MAX_FILE" by blast
  have shape: "job_shape b a = Inr ()" using raw(1) by (auto simp: mj_pack_def bindE_eq_Inr)
  have un: "mj_unpack n (be_public be) raw = Inr (b, a)"
    using be job_file_roundtrip [OF _ _ raw b(2,3,4)] by (simp add: backend_ok_def)
  have put: "content n be (k\<lparr>jb_files := put_key i raw (jb_files j)\<rparr>) = (content n be j)(i \<mapsto> (b, a))" for k
    by (simp add: content_def fun_eq_iff un)
  have files: "fst ` set (put_key i raw (jb_files j)) = insert i (fst ` set (jb_files j))"
    by (auto simp: put_key_def image_iff split: prod.splits) force+
  have okp: "jobs_ok n be (k\<lparr>jb_files := put_key i raw (jb_files j)\<rparr>)" for k
    using ok b(1) by (auto simp: jobs_ok_def put files)
  have okf: "jobs_ok n be k = jobs_ok n be j" if "jb_files k = jb_files j" for k
    using content_files [OF that, of n be] that by (simp add: jobs_ok_def)
  have same: "content n be k = content n be j" if "jb_files k = jb_files j" for k using content_files [OF that] .
  have persist: "jn_persist n (be_seed be) b a w j = (case jn_atomic i raw w j of (j', Inl e) \<Rightarrow> (j', Inl e) | (j', Inr _) \<Rightarrow> (note_seen i raw j', Inr ()))"
    using raw b(1) by (simp add: jn_persist_def)
  show ?thesis
  proof (cases w)
    case Written
    let ?k = "j\<lparr>jb_files := put_key i raw (jb_files j)\<rparr>"
    have k: "j' = note_seen i raw ?k" using p persist Written by (simp add: jn_atomic_def)
    then have f: "jb_files j' = jb_files ?k" by (simp add: note_seen_def)
    have "jobs_ok n be j'" using okp [of j] f content_files [OF f, of n be] by (simp add: jobs_ok_def)
    moreover have "content n be j' = (content n be j)(i \<mapsto> (b, a))" using content_files [OF f, of n be] put [of j] by simp
    ultimately show ?thesis using k shape by (simp add: note_seen_def)
  next
    case (LostAfter e)
    have k: "j' = j\<lparr>jb_files := put_key i raw (jb_files j), jb_poison := True\<rparr>" "r = Inl e" using p persist LostAfter by (auto simp: jn_atomic_def)
    then have f: "jb_files j' = jb_files (j\<lparr>jb_files := put_key i raw (jb_files j)\<rparr>)" by simp
    have "jobs_ok n be j'" using okp [of j] f content_files [OF f, of n be] by (simp add: jobs_ok_def)
    moreover have "content n be j' = (content n be j)(i \<mapsto> (b, a))" using content_files [OF f, of n be] put [of j] by simp
    ultimately show ?thesis using k shape by simp
  next
    case Refused
    then have "j' = j" "\<exists>e. r = Inl e" using p persist by (auto simp: jn_atomic_def)
    then show ?thesis using ok by auto
  next
    case (LostBefore e)
    then have k: "j' = j\<lparr>jb_poison := True\<rparr>" "r = Inl e" using p persist by (auto simp: jn_atomic_def)
    then have f: "jb_files j' = jb_files j" by simp
    then show ?thesis using k(2) ok okf [OF f] same [OF f] by (simp add: k(1))
  qed
next
  case False
  then have "j' = j \<and> (\<exists>e. r = Inl e)"
    using p b(1) by (cases "mj_pack n (be_seed be) b a") (auto simp: jn_persist_def need_def split: if_splits)
  then show ?thesis using ok by auto
qed

section \<open>Operations as moves\<close>

text \<open>Reading changes nothing that counts.\<close>

definition same_world :: "'g jobs \<Rightarrow> 'g jobs \<Rightarrow> bool" where
  "same_world j j' \<longleftrightarrow> jb_files j' = jb_files j \<and> jb_effects j' = jb_effects j \<and> jb_gateway j' = jb_gateway j"

lemma same_world_refl [simp]: "same_world j j"
  by (simp add: same_world_def)

lemma same_world_trans: "same_world j j' \<Longrightarrow> same_world j' j'' \<Longrightarrow> same_world j j''"
  by (simp add: same_world_def)

lemma same_world_content: "same_world j j' \<Longrightarrow> content n be j' = content n be j"
  by (rule content_files) (simp add: same_world_def)

lemma same_world_eq: "same_world j j' \<Longrightarrow> world n be j' = world n be j \<and> jobs_ok n be j' = jobs_ok n be j"
  by (simp add: world_def jobs_ok_def same_world_content) (simp add: same_world_def)

lemma read_same: "same_world j (fst (jn_read n be i j))"
  by (auto simp: jn_read_def note_seen_def same_world_def split: sum.splits)

lemma read_content:
  assumes "jn_read n be i j = (j', Inr (b, a, raw))"
  shows "content n be j' i = Some (b, a)" "item_at b 4 = Inr (PBytes i)" "same_world j j'"
proof -
  have r: "jn_inspect n be i j = Inr (b, a, raw)" using assms by (auto simp: jn_read_def split: sum.splits)
  show s: "same_world j j'" using read_same [of j n be i] assms by simp
  show "content n be j' i = Some (b, a)" unfolding same_world_content [OF s]
    using r by (auto simp: jn_inspect_def bindE_eq_Inr content_def split: option.splits)
  show "item_at b 4 = Inr (PBytes i)" using r by (auto simp: jn_inspect_def bindE_eq_Inr split: option.splits)
qed

lemma fst_bindS_same:
  assumes "same_world j (fst m)" "\<And>x j'. m = (j', Inr x) \<Longrightarrow> same_world j (fst (f x j'))"
  shows "same_world j (fst (bindS m f))"
  using assms by (cases m) (auto simp: bindS_def split: sum.splits)

lemma mapS_same:
  assumes "\<And>x j. same_world j (fst (f x j))"
  shows "same_world j (fst (mapS f xs j))"
proof (induction xs arbitrary: j)
  case (Cons x xs)
  show ?case unfolding mapS.simps
  proof (rule fst_bindS_same [OF assms])
    fix y j' assume y: "f x j = (j', Inr y)"
    have "same_world j' (fst (bindS (mapS f xs j') (\<lambda>ys s. (s, Inr (y # ys)))))"
      by (rule fst_bindS_same [OF Cons.IH]) (use Cons.IH [of j'] in \<open>simp\<close>)
    then show "same_world j (fst (bindS (mapS f xs j') (\<lambda>ys s. (s, Inr (y # ys)))))"
      using assms [of j x] y same_world_trans by fastforce
  qed
qed simp

lemma rows_same: "same_world j (fst (jn_rows n be j))"
  unfolding jn_rows_def by (rule mapS_same) (rule read_same)

lemma audit_same: "same_world j (fst (jn_audit n be j))"
  unfolding jn_audit_def
proof (rule fst_bindS_same)
  fix x j' assume "(j, jn_guard j) = (j', Inr x)"
  then show "same_world j (fst (bindS (jn_rows n be j') (\<lambda>rows j. (j,
       bindE (need (fst ` set (jb_seen j) \<subseteq> fst ` set (jb_files j)) (ServiceError ''JOB_JOURNAL_CHANGED'')) (\<lambda>_.
         need (length rows \<le> jb_max_jobs j \<and> sum_list (map (\<lambda>(_, _, raw). length raw) rows) \<le> jb_max_bytes j) (ServiceError ''JOB_CAPACITY''))))))"
    using rows_same [of j n be] by (intro fst_bindS_same) simp_all
qed simp

text \<open>One transition: the file keeps its record, or gets one more state along an edge.\<close>

lemma transition_moves:
  assumes be: "backend_ok n be" "jobs_ok n be j" and b: "content n be j i = Some (b, a)" "item_at b 4 = Inr (PBytes i)"
    and flat: "wf_py result" "canon result = result" "wf_py witness" "canon witness = witness"
    and t: "jn_transition n (be_seed be) b a state result witness w j = (j', r)"
  defines "h \<equiv> fst (world n be j)"
  shows "jobs_ok n be j' \<and> jb_effects j' = jb_effects j \<and> jb_gateway j' = jb_gateway j
    \<and> (world n be j' = world n be j \<or> h i \<noteq> [] \<and> cps state \<in> set (map cps (job_edges (Some (last (h i)))))
         \<and> world n be j' = (h(i := h i @ [cps state]), jb_effects j))
    \<and> (\<forall>u. r = Inr u \<longrightarrow> content n be j' i = Some (u, a) \<and> item_at u 4 = Inr (PBytes i) \<and> h i \<noteq> []
         \<and> cps state \<in> set (map cps (job_edges (Some (last (h i))))) \<and> world n be j' = (h(i := h i @ [cps state]), jb_effects j))"
proof (cases "\<exists>u. next_record b state result witness = Inr u \<and> job_shape u a = Inr ()")
  case True
  then obtain u where u: "next_record b state result witness = Inr u" "job_shape u a = Inr ()" by blast
  note f = content_facts [OF b(1)]
  note nr = next_record_Inr [OF u(1) f(2,1) flat]
  have hi: "h i = map event_state (job_events b)" by (simp add: h_def world_def b(1))
  obtain e where e: "job_events u = job_events b @ [e]" "event_state e = cps state" using nr(1) by blast
  have ne: "h i \<noteq> []" using shape_history [OF f(1)] hi by auto
  have "path None (map event_state (job_events u))" using shape_history [OF u(2)] by auto
  then have edge: "cps state \<in> set (map cps (job_edges (Some (last (h i)))))" using e ne by (simp add: path_snoc hi)
  have i4: "item_at u 4 = Inr (PBytes i)" "item_at u 2 = Inr (PBytes (be_public be))" using nr(2) b(2) f(3) by simp_all
  obtain j2 r2 where p: "jn_persist n (be_seed be) u a w j = (j2, r2)" by fastforce
  have j2: "j' = j2" "r = (case r2 of Inl e \<Rightarrow> Inl e | Inr _ \<Rightarrow> Inr u)" using t u p by (auto simp: jn_transition_def split: sum.splits)
  note pc = persist_content [OF be i4 nr(3,4) p]
  have w: "world n be j' = (h(i := h i @ [cps state]), jb_effects j)" if "content n be j' = (content n be j)(i \<mapsto> (u, a))"
    using that pc e hi unfolding j2(1) by (auto simp: world_def h_def fun_eq_iff)
  have "content n be j' = content n be j \<Longrightarrow> world n be j' = world n be j" using pc j2(1) by (simp add: world_def)
  moreover have "content n be j' = (content n be j)(i \<mapsto> (u, a))" if "r2 = Inr ()"
    using pc that unfolding j2(1) by (metis fun_upd_triv)
  ultimately show ?thesis using pc j2 w ne edge i4 by (auto split: sum.splits)
next
  case False
  then have "j' = j \<and> (\<exists>e. r = Inl e)" using t by (auto simp: jn_transition_def bindE_def split: sum.splits)
  then show ?thesis using be by auto
qed

text \<open>A call that keeps the journal readable and moves along the abstract steps.\<close>

definition moved :: "sodium \<Rightarrow> 'g job_backend \<Rightarrow> 'g jobs \<Rightarrow> 'g jobs \<Rightarrow> bool" where
  "moved n be j j' \<longleftrightarrow> jobs_ok n be j' \<and> job_moves (world n be j) (world n be j')"

lemma moved_same: "jobs_ok n be j \<Longrightarrow> same_world j j' \<Longrightarrow> moved n be j j'"
  using same_world_eq [of j j' n be] by (simp add: moved_def)

lemma moved_trans: "moved n be j j' \<Longrightarrow> moved n be j' j'' \<Longrightarrow> moved n be j j''"
  by (auto simp: moved_def)

lemma moved_ok: "moved n be j j' \<Longrightarrow> jobs_ok n be j'"
  by (simp add: moved_def)

lemma fst_bindS_pure [simp]: "fst (bindS (j, r) f) = (case r of Inl _ \<Rightarrow> j | Inr x \<Rightarrow> fst (f x j))"
  by (simp add: bindS_def split: sum.splits)

lemma fst_bindS_status [simp]: "fst (bindS m (\<lambda>b. with_status be b a)) = fst m"
  by (cases m) (simp add: bindS_def with_status_def split: sum.splits)

lemma fst_with_status [simp]: "fst (with_status be b a j) = j"
  by (simp add: with_status_def)

text \<open>A job as an operation has it in hand: the record in the journal.\<close>

definition holds :: "sodium \<Rightarrow> 'g job_backend \<Rightarrow> bytes \<Rightarrow> pyval \<Rightarrow> bytes \<Rightarrow> 'g jobs \<Rightarrow> bool" where
  "holds n be i b a j \<longleftrightarrow> jobs_ok n be j \<and> content n be j i = Some (b, a) \<and> item_at b 4 = Inr (PBytes i)"

lemma moved_held: "holds n be i b a j \<Longrightarrow> moved n be j j"
  by (rule moved_same) (simp_all add: holds_def)

lemma holds_history:
  assumes "holds n be i b a j"
  shows "fst (world n be j) i = map event_state (job_events b)" "job_events b \<noteq> []" "last (fst (world n be j) i) = job_state b"
proof -
  have c: "content n be j i = Some (b, a)" using assms by (simp add: holds_def)
  show h: "fst (world n be j) i = map event_state (job_events b)" by (simp add: world_def c)
  show ne: "job_events b \<noteq> []" using shape_history [OF content_facts(1) [OF c]] by auto
  show "last (fst (world n be j) i) = job_state b" using ne by (simp add: h job_state_def last_map split: list.splits)
qed

lemma transition_held:
  assumes "backend_ok n be" "holds n be i b a j" and "wf_py result" "canon result = result" "wf_py witness" "canon witness = witness"
    and "jn_transition n (be_seed be) b a state result witness w j = (j', r)"
  shows "moved n be j j'" "jb_effects j' = jb_effects j"
    and "r = Inr u \<Longrightarrow> holds n be i u a j' \<and> cps state \<in> set (map cps (job_edges (Some (job_state b))))
      \<and> fst (world n be j') = (fst (world n be j)) (i := fst (world n be j) i @ [cps state])"
proof -
  note m = transition_moves [OF assms(1) _ _ _ assms(3-7), of i]
  have h: "jobs_ok n be j" "content n be j i = Some (b, a)" "item_at b 4 = Inr (PBytes i)" using assms(2) by (simp_all add: holds_def)
  note m = m [OF h] and l = holds_history [OF assms(2)]
  have adv: "job_moves (world n be j) ((fst (world n be j)) (i := fst (world n be j) i @ [cps state]), jb_effects j)"
    if "cps state \<in> set (map cps (job_edges (Some (last (fst (world n be j) i)))))" "fst (world n be j) i \<noteq> []"
    using advance [where h = "fst (world n be j)", OF that(2,1), of "jb_effects j"] by (simp add: world_def r_into_rtranclp)
  show "moved n be j j'" using m adv by (auto simp: moved_def)
  show "jb_effects j' = jb_effects j" using m by blast
  show "r = Inr u \<Longrightarrow> holds n be i u a j' \<and> cps state \<in> set (map cps (job_edges (Some (job_state b))))
      \<and> fst (world n be j') = (fst (world n be j)) (i := fst (world n be j) i @ [cps state])"
    using m l by (simp add: holds_def)
qed

lemma transition_moved:
  assumes "backend_ok n be" "holds n be i b a j"
  shows "moved n be j (fst (transition n be b a state w j))"
  using transition_held(1) [OF assms, of PNone PNone state w] by (cases "transition n be b a state w j") (simp add: transition_def)

lemma succeed_moved:
  assumes "backend_ok n be" "holds n be i b a j"
  shows "moved n be j (fst (succeed n be b a p w j)) \<and> jb_effects (fst (succeed n be b a p w j)) = jb_effects j"
proof (cases p)
  case Pending
  then show ?thesis using moved_held [OF assms(2)] by (simp add: succeed_def)
next
  case (Applied x y)
  then show ?thesis using transition_held(1,2) [OF assms, of "PBytes x" "PBytes y" "''SUCCEEDED''" w]
    by (cases "succeed n be b a p w j") (simp add: succeed_def)
qed

text \<open>A transition that raised without poisoning the journal wrote nothing.\<close>

lemma transition_refused:
  assumes "jn_transition n seed b a state result witness w j = (j', Inl e)" "\<not> jb_poison j'"
  shows "j' = j"
  using assms by (auto simp: jn_transition_def jn_persist_def jn_atomic_def split: sum.splits prod.splits write_outcome.splits)

section \<open>Dispatch\<close>

lemma dispatch_cases:
  assumes "dispatch_job n be env i b a j = (j', r)"
  shows "j' = j \<and> (\<exists>e. r = Inl e) \<or> j' = fst (run_apply be i b a j) \<and> (\<exists>e. r = Inl e)
    \<or> (\<exists>p. succeed n be b a p (en_write_result env) (fst (run_apply be i b a j)) = (j', r))"
  using assms by (auto simp: dispatch_job_def bindS_def split: sum.splits prod.splits)

lemma run_apply_files:
  "jb_files (fst (run_apply be i b a j)) = jb_files j" "jb_effects (fst (run_apply be i b a j)) = i # jb_effects j"
  by (simp_all add: run_apply_def split: prod.splits)

lemma run_apply_holds: "holds n be k u c (fst (run_apply be i b a j)) = holds n be k u c j"
  "jobs_ok n be (fst (run_apply be i b a j)) = jobs_ok n be j"
  "world n be (fst (run_apply be i b a j)) = (fst (world n be j), i # jb_effects j)"
  using content_files [OF run_apply_files(1), of n be be i b a j]
  by (simp_all add: holds_def jobs_ok_def world_def run_apply_files)

text \<open>The dispatch leaves the world as it was, or adds the effect and moves on; where it raised and the journal is intact, the
  record is still the one with the marker.\<close>

lemma dispatch_moved:
  assumes "backend_ok n be" "holds n be i b a j" "dispatch_job n be env i b a j = (j', r)"
  shows "jobs_ok n be j'" "j' = j \<or> job_moves (fst (world n be j), i # jb_effects j) (world n be j')"
    and "\<exists>e. r = Inl e \<Longrightarrow> \<not> jb_poison j' \<Longrightarrow> holds n be i b a j'"
proof -
  let ?k = "fst (run_apply be i b a j)"
  have k: "holds n be i b a ?k" using assms(2) by (simp add: run_apply_holds)
  have ok: "jobs_ok n be j" using assms(2) by (simp add: holds_def)
  consider "j' = j" "\<exists>e. r = Inl e" | "j' = ?k" "\<exists>e. r = Inl e" | p where "succeed n be b a p (en_write_result env) ?k = (j', r)"
    using dispatch_cases [OF assms(3)] by blast
  then have "jobs_ok n be j' \<and> (j' = j \<or> job_moves (fst (world n be j), i # jb_effects j) (world n be j'))
    \<and> ((\<exists>e. r = Inl e) \<longrightarrow> \<not> jb_poison j' \<longrightarrow> holds n be i b a j')"
  proof cases
    case 3
    have m: "moved n be ?k j'" using succeed_moved [OF assms(1) k, of p "en_write_result env"] 3 by simp
    have "holds n be i b a j'" if "\<exists>e. r = Inl e" "\<not> jb_poison j'"
    proof (cases p)
      case Pending
      then show ?thesis using 3 k by (simp add: succeed_def)
    next
      case (Applied x y)
      then have "j' = ?k" using 3 that transition_refused [of n "be_seed be" b a "''SUCCEEDED''"] by (auto simp: succeed_def)
      then show ?thesis using k by simp
    qed
    then show ?thesis using m by (simp add: moved_def run_apply_holds)
  qed (use assms(2) k ok in \<open>auto simp: run_apply_holds\<close>)
  then show "jobs_ok n be j'" "j' = j \<or> job_moves (fst (world n be j), i # jb_effects j) (world n be j')"
    "\<exists>e. r = Inl e \<Longrightarrow> \<not> jb_poison j' \<Longrightarrow> holds n be i b a j'" by blast+
qed

lemma execute_moved:
  assumes "backend_ok n be" "holds n be i b a j"
  shows "moved n be j (fst (execute_job n be env i b a j))"
proof -
  let ?w = "world n be j"
  note self = moved_held [OF assms(2)]
  obtain j1 r1 where t: "transition n be b a ''EXECUTING'' (en_write env) j = (j1, r1)" by fastforce
  note tr = transition_held [OF assms, of PNone PNone "''EXECUTING''" "en_write env" j1 r1]
  have m1: "moved n be j j1" "jb_effects j1 = jb_effects j" using tr(1,2) t by (simp_all add: transition_def)
  have run: "moved n be j (fst (case dispatch_job n be env i u a j1 of (j', Inr b') \<Rightarrow> (j', Inr b')
      | (j', Inl e) \<Rightarrow> if jb_poison j' then (j', Inl (ServiceError ''JOB_JOURNAL_UNCERTAIN''))
          else transition n be u a ''OUTCOME_UNKNOWN'' (en_write_unknown env) j'))" if r1: "r1 = Inr u" for u
  proof -
    have u: "holds n be i u a j1" "cps ''EXECUTING'' \<in> set (map cps (job_edges (Some (job_state b))))"
      "fst (world n be j1) = (fst ?w)(i := fst ?w i @ [cps ''EXECUTING''])"
      using tr(3) t r1 by (simp_all add: transition_def)
    have l: "fst ?w i \<noteq> []" "last (fst ?w i) \<in> {cps ''PREPARED'', cps ''RETRY_READY''}"
      using holds_history [OF assms(2)] edge_cases [OF u(2)] by simp_all
    have d: "job_move ?w (fst (world n be j1), i # jb_effects j1)"
      using dispatch [where h = "fst ?w", OF l, of "jb_effects j"] m1(2) u(3) by (simp add: world_def)
    obtain j2 r2 where j2: "dispatch_job n be env i u a j1 = (j2, r2)" by fastforce
    note dm = dispatch_moved [OF assms(1) u(1) j2]
    have m2: "moved n be j j2" using dm(1,2) m1(1) d by (auto simp: moved_def intro: converse_rtranclp_into_rtranclp)
    show ?thesis
    proof (cases "\<exists>e. r2 = Inl e \<and> \<not> jb_poison j2")
      case True
      then have "holds n be i u a j2" using dm(3) by blast
      from moved_trans [OF m2 transition_moved [OF assms(1) this]] show ?thesis using True j2 by auto
    qed (use m2 j2 in \<open>auto split: sum.splits\<close>)
  qed
  show ?thesis
    using self m1(1) run t by (auto simp: execute_job_def bindS_def split: sum.splits prod.splits)
qed

section \<open>The operations\<close>

lemma with_job_moved:
  assumes "jobs_ok n be j" and "\<And>b a j. holds n be i b a j \<Longrightarrow> moved n be j (fst (f b a j))"
  shows "moved n be j (fst (with_job n be i f j))"
proof -
  obtain j1 r1 where a: "jn_audit n be j = (j1, r1)" by fastforce
  obtain j2 r2 where r: "jn_read n be i j1 = (j2, r2)" by fastforce
  have s: "same_world j j1" "same_world j1 j2" using audit_same [of j n be] read_same [of j1 n be i] a r by simp_all
  have m: "moved n be j j1" "moved n be j j2" using moved_same [OF assms(1)] s same_world_trans by blast+
  have "moved n be j (fst (f b c j2))" if "r2 = Inr (b, c, raw)" for b c raw
    using read_content [of n be i j1 j2 b c raw] r that m(2) assms(2) [of b c j2] moved_trans
    by (fastforce simp: holds_def dest: moved_ok)
  then show ?thesis using m by (auto simp: with_job_def bindS_def a r split: sum.splits)
qed

lemma poll_moved: "jobs_ok n be j \<Longrightarrow> moved n be j (fst (poll_job n be i j))"
  unfolding poll_job_def by (rule with_job_moved) (auto intro: moved_held)

lemma result_moved: "jobs_ok n be j \<Longrightarrow> moved n be j (fst (job_result n be i j))"
  unfolding job_result_def by (rule with_job_moved) (auto intro: moved_held)

lemma cancel_moved: "backend_ok n be \<Longrightarrow> jobs_ok n be j \<Longrightarrow> moved n be j (fst (cancel_job n be i env j))"
  unfolding cancel_job_def by (rule with_job_moved) (auto intro: moved_held transition_moved)

lemma step_moved: "backend_ok n be \<Longrightarrow> jobs_ok n be j \<Longrightarrow> moved n be j (fst (step_job n be i env j))"
  unfolding step_job_def by (rule with_job_moved) (auto simp: Let_def intro: moved_held transition_moved execute_moved split: sum.splits)

lemma reconcile_moved: "backend_ok n be \<Longrightarrow> jobs_ok n be j \<Longrightarrow> moved n be j (fst (reconcile_job n be i env j))"
  unfolding reconcile_job_def
  by (rule with_job_moved) (auto simp: Let_def intro: moved_held transition_moved succeed_moved [THEN conjunct1] split: sum.splits)

lemma retry_moved: "backend_ok n be \<Longrightarrow> jobs_ok n be j \<Longrightarrow> moved n be j (fst (retry_job n be i env j))"
  unfolding retry_job_def
  by (rule with_job_moved) (auto intro: moved_held execute_moved succeed_moved [THEN conjunct1] split: sum.splits)

text \<open>Listing and pinning only read.\<close>

lemma bind_same:
  assumes "same_world j (fst m)" "\<And>x j. same_world j (fst (f x j))"
  shows "same_world j (fst (bindS m f))"
  using assms by (cases m) (auto simp: bindS_def intro: same_world_trans split: sum.splits)

lemma pair_same: "(\<And>b a raw. same_world j (fst (f b a raw j))) \<Longrightarrow> same_world j (fst ((case x of (b, a, raw) \<Rightarrow> f b a raw) j))"
  by (simp split: prod.splits)

lemmas same_rules = bind_same audit_same read_same rows_same mapS_same pair_same

lemma list_same: "same_world j (fst (list_jobs n be j))"
  unfolding list_jobs_def by (intro same_rules) simp

lemma pin_same: "same_world j (fst (jobs_pin n be j))"
  unfolding jobs_pin_def by (intro same_rules) simp_all

lemma check_row_same: "same_world j (fst (check_row n be item j))"
  unfolding check_row_def by (intro bind_same) (auto intro!: same_rules split: sum.splits)

lemma fst_case_res: "fst (case x of (j, Inl e) \<Rightarrow> (j, f e) | (j, Inr y) \<Rightarrow> (j, g y)) = fst x"
  by (cases x) (simp split: sum.splits)

lemma verify_pin_same: "same_world j (fst (verify_pin n be pin' j))"
  unfolding verify_pin_def by (intro bind_same audit_same) (unfold fst_case_res, intro bind_same mapS_same check_row_same, simp_all)

lemma same_world_switch: "same_world j (reopen_jobs j)" "same_world j (close_jobs j)"
  by (simp_all add: same_world_def reopen_jobs_def close_jobs_def)

lemma read_moved:
  assumes "jobs_ok n be j"
  shows "moved n be j (fst (list_jobs n be j))" "moved n be j (fst (jobs_pin n be j))" "moved n be j (fst (verify_pin n be pin' j))"
    "moved n be j (reopen_jobs j)" "moved n be j (close_jobs j)"
  by (auto intro: moved_same [OF assms] list_same pin_same verify_pin_same same_world_switch)

text \<open>A submission writes the first state of a job that has no file.\<close>

lemma bytes_between_cases: "bytes_between v lo hi \<Longrightarrow> \<exists>x. v = PBytes x"
  by (cases v) (simp_all add: bytes_between_def)

lemma arguments_flat:
  assumes "job_arguments (PBytes i) action command archive = Inr u"
  shows "flat action" "flat command"
proof -
  have "error_name MJ_ACTIONS action" "command = PNone \<or> bytes_between command 1 262144"
    using assms by (auto simp: job_arguments_def bindE_eq_Inr split: if_splits)
  then show "flat action" "flat command" by (cases action; auto simp: flat_def error_name_def dest!: bytes_between_cases)+
qed

lemma new_record_facts:
  assumes "flat action" "flat command" "flat authority" "flat pin'" "flat phase'" "flat window"
    and b_def: "b = new_record be i action command archive (authority, pin', phase', window)"
  shows "wf_py b" "canon b = b" "item_at b 4 = Inr (PBytes i)" "item_at b 2 = Inr (PBytes (be_public be))"
    "map event_state (job_events b) = [cps ''QUEUED'']"
proof -
  have f: "flat (archive_fields archive ! 0)" "flat (archive_fields archive ! 1)"
    by (auto simp: archive_fields_def flat_def split: pyval.splits)
  show "wf_py b" using assms(1-6) f by (simp add: b_def new_record_def mk_dict_def flat_def MJ_PROFILE_def)
  show "canon b = b" using assms(1-6) f by (simp add: b_def new_record_def mk_dict_def flat_def MJ_PROFILE_def)
  show "item_at b 4 = Inr (PBytes i)" "item_at b 2 = Inr (PBytes (be_public be))" by (simp_all add: b_def new_record_def)
  show "map event_state (job_events b) = [cps ''QUEUED'']" by (simp add: b_def new_record_def job_events_def event_state_def)
qed

lemma queue_moved:
  assumes be: "backend_ok n be" and ok: "jobs_ok n be j" and i: "i \<notin> fst ` set (jb_files j)"
    and args: "job_arguments (PBytes i) action command archive = Inr u" and ctx: "be_context be g = Inr ctx"
  shows "moved n be j (fst (jn_persist n (be_seed be) (new_record be i action command archive ctx) a w j))"
proof -
  obtain authority pin' phase' window where c: "ctx = (authority, pin', phase', window)" by (cases ctx)
  let ?b = "new_record be i action command archive ctx"
  have "flat authority" "flat pin'" "flat phase'" "flat window" using be ctx c by (auto simp: backend_ok_def)
  note r = new_record_facts [OF arguments_flat [OF args] this, of ?b be i archive, unfolded c, OF refl, folded c]
  obtain j' x where p: "jn_persist n (be_seed be) ?b a w j = (j', x)" by fastforce
  note pc = persist_content [OF be ok r(3,4,1,2) p]
  have none: "content n be j i = None" using i by (simp add: content_def map_of_eq_None_iff [THEN iffD2])
  have "job_moves (world n be j) (world n be j')"
  proof (cases "content n be j' = content n be j")
    case True
    then show ?thesis using pc by (simp add: world_def)
  next
    case False
    then have "content n be j' = (content n be j)(i \<mapsto> (?b, a))" using pc by blast
    then have "world n be j' = ((fst (world n be j))(i := [cps ''QUEUED'']), jb_effects j)" using pc r(5) by (auto simp: world_def fun_eq_iff)
    then show ?thesis using queue [of "fst (world n be j)" i "jb_effects j"] none by (simp add: world_def r_into_rtranclp)
  qed
  then show ?thesis using pc p by (simp add: moved_def)
qed

lemma bind_moved:
  assumes "moved n be j (fst m)" "\<And>x j'. m = (j', Inr x) \<Longrightarrow> moved n be j (fst (f x j'))"
  shows "moved n be j (fst (bindS m f))"
  using assms by (cases m) (auto simp: bindS_def split: sum.splits)

lemma submit_moved:
  assumes be: "backend_ok n be" and ok: "jobs_ok n be j"
  shows "moved n be j (fst (submit_job n be i action command archive env j))"
proof -
  note self = moved_same [OF ok same_world_refl]
  have again: "same_world j (fst (bindS (jn_read n be i j) (\<lambda>(b, a, _) j.
      bindS (j, bindE (input_equal b action command archive) (\<lambda>same. need same (ServiceError ''JOB_CONFLICT''))) (\<lambda>_ j. with_status be b a j))))" for j
    by (intro same_rules) (auto split: sum.splits)
  have fresh: "moved n be j (fst (jn_persist n (be_seed be) (new_record be i action command archive ctx) a w j'))"
    if "same_world j j'" "i \<notin> fst ` set (jb_files j')" "job_arguments (PBytes i) action command archive = Inr u" "be_context be g = Inr ctx" for j' u g ctx a w
    using queue_moved [OF be _ that(2-4)] same_world_eq [OF that(1), of n be] ok moved_trans [OF moved_same [OF ok that(1)]] by blast
  have fresh': "moved n be j k" if "jn_persist n (be_seed be) (new_record be i action command archive ctx) a w j' = (k, x)"
    "same_world j j'" "i \<notin> fst ` set (jb_files j')" "job_arguments (PBytes i) action command archive = Inr u" "be_context be g = Inr ctx" for k x j' u g ctx a w
    using fresh [OF that(2-5), of a w] that(1) by simp
  obtain j1 r1 where a: "jn_audit n be j = (j1, r1)" by fastforce
  obtain j2 r2 where rr: "jn_rows n be j1 = (j2, r2)" by fastforce
  have s: "same_world j j1" "same_world j1 j2" using audit_same [of j n be] rows_same [of j1 n be] a rr by simp_all
  then have s2: "same_world j j2" "jb_files j2 = jb_files j1" by (auto intro: same_world_trans simp: same_world_def)
  note m = moved_same [OF ok s(1)] moved_same [OF ok s2(1)] moved_same [OF ok same_world_trans [OF s(1) again]]
  show ?thesis unfolding submit_job_def
    by (intro bind_moved) (use self m s2 fresh fresh' in \<open>auto simp: a rr Let_def intro!: bind_moved split: sum.splits if_splits\<close>)
qed

section \<open>Any sequence of calls\<close>

text \<open>The calls of an owner, and \<open>Elsewhere\<close>: somebody else uses the gateway between two calls.\<close>

datatype 'g job_call = Submit bytes pyval pyval pyval job_env | Poll bytes | ListJobs | Cancel bytes job_env | Step bytes job_env
  | Reconcile bytes job_env | Retry bytes job_env | Result bytes | Pin | VerifyPin pyval | Reopen | Close | Elsewhere 'g

primrec job_call_step :: "sodium \<Rightarrow> 'g job_backend \<Rightarrow> 'g job_call \<Rightarrow> 'g jobs \<Rightarrow> 'g jobs" where
  "job_call_step n be (Submit i action command archive env) j = fst (submit_job n be i action command archive env j)"
| "job_call_step n be (Poll i) j = fst (poll_job n be i j)"
| "job_call_step n be ListJobs j = fst (list_jobs n be j)"
| "job_call_step n be (Cancel i env) j = fst (cancel_job n be i env j)"
| "job_call_step n be (Step i env) j = fst (step_job n be i env j)"
| "job_call_step n be (Reconcile i env) j = fst (reconcile_job n be i env j)"
| "job_call_step n be (Retry i env) j = fst (retry_job n be i env j)"
| "job_call_step n be (Result i) j = fst (job_result n be i j)"
| "job_call_step n be Pin j = fst (jobs_pin n be j)"
| "job_call_step n be (VerifyPin p) j = fst (verify_pin n be p j)"
| "job_call_step n be Reopen j = reopen_jobs j"
| "job_call_step n be Close j = close_jobs j"
| "job_call_step n be (Elsewhere g) j = j\<lparr>jb_gateway := g\<rparr>"

definition run_calls :: "sodium \<Rightarrow> 'g job_backend \<Rightarrow> 'g job_call list \<Rightarrow> 'g jobs \<Rightarrow> 'g jobs" where
  "run_calls n be = fold (job_call_step n be)"

lemma elsewhere_moved: "jobs_ok n be j \<Longrightarrow> moved n be j (j\<lparr>jb_gateway := g\<rparr>)"
  using content_files [of "j\<lparr>jb_gateway := g\<rparr>" j n be] by (simp add: moved_def jobs_ok_def world_def)

lemma call_moved: "backend_ok n be \<Longrightarrow> jobs_ok n be j \<Longrightarrow> moved n be j (job_call_step n be c j)"
  by (cases c) (simp_all add: submit_moved poll_moved read_moved cancel_moved step_moved reconcile_moved retry_moved result_moved elsewhere_moved)

lemma run_moved:
  assumes "backend_ok n be"
  shows "jobs_ok n be j \<Longrightarrow> moved n be j (run_calls n be cs j)"
proof (induction cs arbitrary: j)
  case Nil
  then show ?case by (simp add: run_calls_def moved_same)
next
  case (Cons c cs)
  note m = call_moved [OF assms Cons.prems, of c]
  from moved_trans [OF m Cons.IH [OF moved_ok [OF m]]] show ?case by (simp add: run_calls_def)
qed

lemma new_jobs_start: "jobs_ok n be (new_jobs max_jobs max_bytes g)" "world n be (new_jobs max_jobs max_bytes g) = (\<lambda>_. [], [])"
  by (simp_all add: jobs_ok_def new_jobs_def world_def content_def)

lemma run_world_ok:
  assumes "backend_ok n be"
  shows "world_ok (world n be (run_calls n be cs (new_jobs max_jobs max_bytes g)))"
proof -
  have "job_moves (\<lambda>_. [], []) (world n be (run_calls n be cs (new_jobs max_jobs max_bytes g)))"
    using run_moved [OF assms new_jobs_start(1), of max_jobs max_bytes g cs] new_jobs_start(2) [of n be max_jobs max_bytes g] by (simp add: moved_def)
  then show ?thesis by (rule job_moves_ok) (simp add: world_ok_def)
qed

lemma final_move:
  assumes "job_move w w'" "fst w i \<noteq> []" "last (fst w i) \<in> {cps ''CANCELLED'', cps ''SUCCEEDED''}"
  shows "fst w' i = fst w i \<and> count_list (snd w') i = count_list (snd w) i"
  using assms by (induction rule: job_move.induct) (auto simp: job_edges_def split: if_splits)

lemma final_moves:
  assumes "job_moves w w'" "fst w i \<noteq> []" "last (fst w i) \<in> {cps ''CANCELLED'', cps ''SUCCEEDED''}"
  shows "fst w' i = fst w i \<and> count_list (snd w') i = count_list (snd w) i"
  using assms by (induction rule: rtranclp_induct) (auto dest!: final_move [of _ _ i])

section \<open>Theorems\<close>

text \<open>A gateway that counts what was applied to it.\<close>

definition counting_backend :: "nat job_backend" where
  "counting_backend = \<lparr>be_public = sample_keeper, be_seed = sample_keeper, be_store = replicate 32 4,
     be_context = (\<lambda>_. Inr (keeper_authority_body, mk_dict [(0, PBytes (replicate 32 4)), (1, PInt 0), (2, PNone), (3, PNone)],
       PStr (cps ''EMPTY''), PNone)),
     be_validate = (\<lambda>_ _ _. Inr ()), be_apply = (\<lambda>g _ _. (Suc g, Inr ())),
     be_probe = (\<lambda>g _ _. Inr (if g = 0 then Pending else Applied [1] (replicate 32 0)))\<rparr>"

lemma counting_backend_ok: "backend_ok test_sodium counting_backend"
  by (simp add: backend_ok_def counting_backend_def test_sodium_ok sample_public flat_def mk_dict_def keeper_authority_body_def)

definition calm :: job_env where
  "calm = \<lparr>en_idle = Inr True, en_idle_again = Inr True, en_before = Inr (), en_after = Inr (), en_write = Written,
     en_write_result = LostAfter ValueError, en_write_unknown = Written\<rparr>"

definition sample_calls :: "nat job_call list" where
  "sample_calls = (let i = replicate 32 5 in [Submit i (PStr (cps ''open'')) (PBytes [1]) PNone calm, Step i calm, Step i calm, Step i calm, Reopen, Reconcile i calm])"

text \<open>C35. Refinement of management jobs. Started on a readable journal, any sequence of calls of the owner (submissions, steps, cancellations,
  reconciliations, retries, reads, closing and reopening, with any outcome of every write, any answer of the backend and any use
  of the gateway in between) leaves a readable journal, and the change of the histories and of the dispatched effects is a
  sequence of abstract steps: a first state for a new job, one edge of the table, or the \<^verbatim>\<open>EXECUTING\<close> marker together with one effect.
\<close>

theorem jobs_refine:
  assumes "backend_ok n be" "jobs_ok n be j"
  shows "jobs_ok n be (run_calls n be cs j) \<and> job_moves (world n be j) (world n be (run_calls n be cs j))"
  using run_moved [OF assms] by (simp add: moved_def)

theorem jobs_refine_witness:
  "job_moves (\<lambda>_. [], []) (world test_sodium counting_backend (run_calls test_sodium counting_backend sample_calls (new_jobs 4 2097152 0)))"
  using jobs_refine [OF counting_backend_ok new_jobs_start(1), of sample_calls 4 2097152 0] by (simp add: new_jobs_start)

text \<open>C36. No effect without its marker. In every state reachable from an empty journal, a job was dispatched at most as often as its
  history has \<^verbatim>\<open>EXECUTING\<close> markers, which are at most one more than its \<^verbatim>\<open>RETRY_READY\<close> entries, so that a second dispatch follows an
  explicit reconciliation; and a job without a file, or one that is queued, validated, prepared or cancelled, was never dispatched.
\<close>

theorem job_effects:
  assumes "backend_ok n be" and "world n be (run_calls n be cs (new_jobs max_jobs max_bytes g)) = (h, effects)"
  shows "count_list effects i \<le> executions (h i) \<and> executions (h i) \<le> 1 + count_list (h i) (cps ''RETRY_READY'')
    \<and> (h i = [] \<or> last (h i) \<in> {cps ''QUEUED'', cps ''VALIDATED'', cps ''PREPARED'', cps ''CANCELLED''} \<longrightarrow> i \<notin> set effects)"
proof -
  have w: "path None (h i)" and c: "count_list effects i \<le> executions (h i)"
    using run_world_ok [OF assms(1), of cs max_jobs max_bytes g] assms(2) by (auto simp: world_ok_def)
  have "executions (h i) \<le> 1 + count_list (h i) (cps ''RETRY_READY'')"
    using path_executions [OF w] by (cases "h i = []") (auto simp: executions_def)
  moreover have "i \<notin> set effects" if "h i = [] \<or> last (h i) \<in> {cps ''QUEUED'', cps ''VALIDATED'', cps ''PREPARED'', cps ''CANCELLED''}"
    using path_executions [OF w] that c by (cases "h i = []") (auto simp: executions_def simp flip: count_list_0_iff)
  ultimately show ?thesis using c by blast
qed

theorem job_effects_witness:
  "\<exists>h effects. world test_sodium counting_backend (run_calls test_sodium counting_backend sample_calls (new_jobs 4 2097152 0)) = (h, effects)
     \<and> count_list effects (replicate 32 5) \<le> executions (h (replicate 32 5))"
proof -
  obtain h effects where w: "world test_sodium counting_backend (run_calls test_sodium counting_backend sample_calls (new_jobs 4 2097152 0)) = (h, effects)"
    by fastforce
  with job_effects [OF counting_backend_ok w] show ?thesis by blast
qed

text \<open>C37. Histories only grow. Whatever is called, the history of a job afterwards extends the history before, and once it ends in
  \<^verbatim>\<open>CANCELLED\<close> or \<^verbatim>\<open>SUCCEEDED\<close> neither the history nor the number of its dispatches ever changes.
\<close>

theorem histories_grow:
  assumes "backend_ok n be" "jobs_ok n be j"
    and w_def: "w = world n be j" and w'_def: "w' = world n be (run_calls n be cs j)"
  shows "(\<exists>xs. fst w' i = fst w i @ xs)
    \<and> (fst w i \<noteq> [] \<and> last (fst w i) \<in> {cps ''CANCELLED'', cps ''SUCCEEDED''} \<longrightarrow> fst w' i = fst w i \<and> count_list (snd w') i = count_list (snd w) i)"
proof -
  have m: "job_moves w w'" using run_moved [OF assms(1,2), of cs] by (simp add: moved_def w_def w'_def)
  show ?thesis using job_moves_prefix [OF m, of i] final_moves [OF m, of i] by blast
qed

text \<open>A journal with one cancelled job.\<close>

definition cancelled_record :: pyval where
  "cancelled_record = mk_dict [(0, PInt 1), (1, MJ_PROFILE), (2, PBytes sample_keeper), (3, PBytes (replicate 32 4)), (4, PBytes (replicate 32 5)),
     (5, PStr (cps ''open'')), (6, PBytes [1]), (7, PNone), (8, PInt 0), (9, keeper_authority_body),
     (10, mk_dict [(0, PBytes (replicate 32 4)), (1, PInt 0), (2, PNone), (3, PNone)]), (11, PStr (cps ''EMPTY'')), (12, PNone),
     (13, PList [mk_dict [(0, PInt 0), (1, PStr (cps ''QUEUED'')), (2, PNone), (3, PNone)],
       mk_dict [(0, PInt 1), (1, PStr (cps ''CANCELLED'')), (2, PNone), (3, PNone)]])]"

lemma cancelled_flat: "wf_py cancelled_record" "canon cancelled_record = cancelled_record"
  by (simp_all add: cancelled_record_def mk_dict_def MJ_PROFILE_def keeper_authority_body_def)

lemma cancelled_shape: "job_shape cancelled_record [] = Inr ()"
proof -
  have a: "job_arguments (PBytes (replicate 32 5)) (PStr (cps ''open'')) (PBytes [1]) PNone = Inr ()"
    by (simp add: job_arguments_def mj_fixed_def bytes_sized_def error_name_def MJ_ACTIONS_def bytes_between_def cps_def)
  have t: "check_target (PBytes (replicate 32 4)) (mk_dict [(0, PBytes (replicate 32 4)), (1, PInt 0), (2, PNone), (3, PNone)]) (PStr (cps ''EMPTY'')) PNone = Inr ()"
    by (simp add: check_target_def mj_keys_def key_range_def upt_rec mj_fixed_def bytes_sized_def mj_integer_def int_in_def error_name_def)
  have h: "\<exists>s. check_history [mk_dict [(0, PInt 0), (1, PStr (cps ''QUEUED'')), (2, PNone), (3, PNone)],
       mk_dict [(0, PInt 1), (1, PStr (cps ''CANCELLED'')), (2, PNone), (3, PNone)]] = Inr s"
    by (simp add: check_history_def check_event_def mj_keys_def key_range_def upt_rec mj_integer_def int_in_def error_name_def job_edges_def str_of_def)
  then show ?thesis using a t sample_authority_from
    by (auto simp add: job_shape_def cancelled_record_def mj_keys_def key_range_def upt_rec mj_integer_def int_in_def field_is_def mj_fixed_def bytes_sized_def
        MAX_ARCHIVE_def MJ_MAX_EVENTS_def)
qed

lemma cancelled_encode: "\<exists>b. encode cancelled_record (int MAX_HEADER) MAX_NODES = Inr b \<and> length b \<le> 1000"
  by (simp add: cancelled_record_def MJ_PROFILE_def sample_defs MAX_HEADER_def encode_simps) (simp add: nhead_def cps_def utf8_cp_def)

lemma cancelled_pack: "\<exists>raw. mj_pack test_sodium sample_keeper cancelled_record [] = Inr raw \<and> length raw \<le> MJ_MAX_FILE"
proof -
  have l: "label_pattern (cps (''management-jobs-local/'' @ ''journal'')) \<and> length (''management-jobs-local/'' @ ''journal'') \<le> 64
      \<and> list_all (\<lambda>c. c < 128) (cps (''management-jobs-local/'' @ ''journal''))"
    by (simp add: label_pattern_def lower_digit_def cps_def)
  obtain hd where hd: "env_signed mj_error (int MAX_HEADER) ''management-jobs-local/'' test_sodium sample_keeper ''journal'' cancelled_record = Inr hd"
      "length hd \<le> 1000 + 100"
    using env_sample [OF cancelled_encode _ _ _ l _ cancelled_flat, of sample_keeper mj_error mj_error mj_error mj_error] by (auto simp: MAX_HEADER_def MAX_BYTES_def)
  then show ?thesis using cancelled_shape
    by (auto simp: mj_pack_def env_signed_def env_dump_def bindE_eq_Inr MJ_MAX_FILE_def MAX_HEADER_def)
qed

lemma cancelled_journal:
  "\<exists>j. jobs_ok test_sodium counting_backend j
     \<and> world test_sodium counting_backend j = ((\<lambda>_. [])(replicate 32 5 := [cps ''QUEUED'', cps ''CANCELLED'']), [])"
proof -
  obtain raw where raw: "mj_pack test_sodium sample_keeper cancelled_record [] = Inr raw" "length raw \<le> MJ_MAX_FILE" using cancelled_pack by blast
  let ?j = "(new_jobs 4 2097152 0)\<lparr>jb_files := [(replicate 32 5, raw)]\<rparr>"
  have "mj_unpack test_sodium (be_public counting_backend) raw = Inr (cancelled_record, [])"
    using job_file_roundtrip [OF test_sodium_ok sample_public raw _ cancelled_flat] by (simp add: counting_backend_def cancelled_record_def)
  then have c: "content test_sodium counting_backend ?j = [replicate 32 5 \<mapsto> (cancelled_record, [])]"
    by (auto simp: content_def fun_eq_iff)
  have "jobs_ok test_sodium counting_backend ?j" by (simp add: jobs_ok_def c) (simp add: cancelled_record_def)
  moreover have "map event_state (job_events cancelled_record) = [cps ''QUEUED'', cps ''CANCELLED'']"
    by (simp add: cancelled_record_def job_events_def event_state_def)
  then have "world test_sodium counting_backend ?j = ((\<lambda>_. [])(replicate 32 5 := [cps ''QUEUED'', cps ''CANCELLED'']), [])"
    by (auto simp: world_def c fun_eq_iff) (simp add: new_jobs_def)
  ultimately show ?thesis by blast
qed

theorem histories_grow_witness:
  "\<exists>j. jobs_ok test_sodium counting_backend j \<and> fst (world test_sodium counting_backend j) (replicate 32 5) = [cps ''QUEUED'', cps ''CANCELLED'']
     \<and> fst (world test_sodium counting_backend (run_calls test_sodium counting_backend sample_calls j)) (replicate 32 5) = [cps ''QUEUED'', cps ''CANCELLED'']
     \<and> count_list (jb_effects (run_calls test_sodium counting_backend sample_calls j)) (replicate 32 5) = 0"
proof -
  obtain j where j: "jobs_ok test_sodium counting_backend j"
      "world test_sodium counting_backend j = ((\<lambda>_. [])(replicate 32 5 := [cps ''QUEUED'', cps ''CANCELLED'']), [])"
    using cancelled_journal by blast
  have "snd (world test_sodium counting_backend k) = jb_effects k" for k :: "nat jobs" by (simp add: world_def)
  with histories_grow [OF counting_backend_ok j(1) refl refl, of sample_calls "replicate 32 5"] j show ?thesis
    by (intro exI [of _ j]) (simp flip: fun_upd_def)
qed

end
