(* ===== verification/SchedulerProps.thy ===== *)
theory SchedulerProps
  imports Scheduler JobsProps
begin

text \<open>
  The scheduler and the jobs together: a management effect is dispatched by a tick only for the selected job, and only while neither server
  accepts connections, none is open and no reader holds a pin.
\<close>

section \<open>Effects of job operations\<close>

lemma transition_effects [simp]: "jb_effects (fst (jn_transition n seed b a state result witness w j)) = jb_effects j"
  by (auto simp: jn_transition_def jn_persist_def jn_atomic_def note_seen_def split: sum.splits prod.splits write_outcome.splits)

lemma succeed_effects [simp]: "jb_effects (fst (succeed n be b a p w j)) = jb_effects j"
  by (simp add: succeed_def split: probe.splits)

text \<open>A call added one effect, and the activity was idle both times it was asked for.\<close>

definition dispatched :: "job_env \<Rightarrow> bytes \<Rightarrow> 'g jobs \<Rightarrow> 'g jobs \<Rightarrow> bool" where
  "dispatched env i j j' \<longleftrightarrow> jb_effects j' = jb_effects j
     \<or> jb_effects j' = i # jb_effects j \<and> en_idle env = Inr True \<and> en_idle_again env = Inr True"

lemma dispatched_same: "jb_effects j' = jb_effects j \<Longrightarrow> dispatched env i j j'"
  by (simp add: dispatched_def)

lemma dispatched_from: "dispatched env i j1 j' \<Longrightarrow> jb_effects j1 = jb_effects j \<Longrightarrow> dispatched env i j j'"
  by (simp add: dispatched_def)

lemma dispatch_effects:
  assumes "en_idle env = Inr True"
  shows "dispatched env i j (fst (dispatch_job n be env i b a j))"
proof (cases "en_idle_again env = Inr True")
  case True
  obtain j' r where d: "dispatch_job n be env i b a j = (j', r)" by fastforce
  from dispatch_cases [OF d] consider "j' = j" | "j' = fst (run_apply be i b a j)"
    | p where "succeed n be b a p (en_write_result env) (fst (run_apply be i b a j)) = (j', r)" by blast
  then show ?thesis
  proof cases
    case (3 p)
    then have "jb_effects j' = jb_effects (fst (run_apply be i b a j))" using succeed_effects by (metis fst_conv)
    then show ?thesis using d True assms by (simp add: dispatched_def run_apply_files)
  qed (use d True assms in \<open>simp_all add: dispatched_def run_apply_files\<close>)
next
  case False
  then have "fst (dispatch_job n be env i b a j) = j"
    by (auto simp: dispatch_job_def bindE_def need_def split: sum.splits)
  then show ?thesis by (simp add: dispatched_def)
qed

lemma execute_effects: "dispatched env i j (fst (execute_job n be env i b a j))"
proof (cases "en_idle env = Inr True")
  case True
  obtain j1 r1 where t: "transition n be b a ''EXECUTING'' (en_write env) j = (j1, r1)" by fastforce
  have e1: "jb_effects j1 = jb_effects j" using transition_effects t by (metis fst_conv transition_def)
  have run: "dispatched env i j (fst (case dispatch_job n be env i u a j1 of (j', Inr b') \<Rightarrow> (j', Inr b')
      | (j', Inl e) \<Rightarrow> if jb_poison j' then (j', Inl (ServiceError ''JOB_JOURNAL_UNCERTAIN''))
          else transition n be u a ''OUTCOME_UNKNOWN'' (en_write_unknown env) j'))" for u
    using dispatch_effects [OF True, of i j1 n be u a] e1 by (auto simp: dispatched_def transition_def split: prod.splits sum.splits)
  show ?thesis using e1 run by (auto simp: execute_job_def t True intro: dispatched_same split: sum.splits)
next
  case False
  then show ?thesis by (auto simp: execute_job_def intro: dispatched_same split: sum.splits)
qed

lemma with_job_cases:
  "\<exists>j'. jb_effects j' = jb_effects j \<and> (fst (with_job n be i f j) = j' \<or> (\<exists>b a. fst (with_job n be i f j) = fst (f b a j')))"
proof -
  obtain j1 r1 where a: "jn_audit n be j = (j1, r1)" by fastforce
  obtain j2 r2 where r: "jn_read n be i j1 = (j2, r2)" by fastforce
  have s: "jb_effects j1 = jb_effects j" "jb_effects j2 = jb_effects j"
    using audit_same [of j n be] read_same [of j1 n be i] a r by (simp_all add: same_world_def)
  consider e where "r1 = Inl e" | "r1 = Inr ()" "\<exists>e. r2 = Inl e" | b c raw where "r1 = Inr ()" "r2 = Inr (b, c, raw)"
    by (cases r1; cases r2) auto
  then show ?thesis using s by cases (auto simp: with_job_def bindS_def a r)
qed

lemma with_job_effects:
  assumes "\<And>b a j. dispatched env i j (fst (f b a j))"
  shows "dispatched env i j (fst (with_job n be i f j))"
  using with_job_cases [of j n be i f] by (auto intro: dispatched_same dispatched_from [OF assms])

lemma step_effects: "dispatched env i j (fst (step_job n be i env j))"
  unfolding step_job_def
  by (rule with_job_effects) (auto simp: Let_def transition_def intro: dispatched_same execute_effects split: sum.splits)

lemma retry_effects: "dispatched env i j (fst (retry_job n be i env j))"
  unfolding retry_job_def
  by (rule with_job_effects) (auto intro: dispatched_same execute_effects split: sum.splits)

lemma poll_effects [simp]: "jb_effects (fst (poll_job n be i j)) = jb_effects j"
  using with_job_cases [of j n be i "with_status be"] by (auto simp: poll_job_def)

section \<open>Measured activity\<close>

definition quiet :: "'g sched \<Rightarrow> bool" where
  "quiet h \<longleftrightarrow> \<not> sv_accepting (sc_read h) \<and> \<not> sv_accepting (sc_upload h) \<and> sv_connections (sc_read h) = [] \<and> sv_connections (sc_upload h) = []
     \<and> sc_pins h = 0"

lemma measured_idle_quiet: "measured_idle h = Inr True \<Longrightarrow> quiet h"
  by (auto simp: measured_idle_def activity_for_job_def activity_snapshot_def measure_server_def ac_connections_def quiet_def bindE_eq_Inr)

text \<open>Pausing, resuming and reporting leave the jobs alone.\<close>

lemma fst_bindS: "fst (bindS m f) = (case m of (s, Inl e) \<Rightarrow> s | (s, Inr x) \<Rightarrow> fst (f x s))"
  by (simp add: bindS_def split: prod.splits sum.splits)

lemma keeps_jobs [simp]:
  "sc_jobs (fst (on_read f h)) = sc_jobs h" "sc_jobs (fst (on_upload f h)) = sc_jobs h" "sc_jobs (fst (sc_diagnostics h)) = sc_jobs h"
  "sc_jobs (fst (poll_server first env h)) = sc_jobs h"
  by (simp_all add: on_read_def on_upload_def sc_diagnostics_def poll_server_def split: sum.splits prod.splits)

lemma bind_keeps_jobs:
  assumes "sc_jobs (fst m) = j" "\<And>x h. sc_jobs h = j \<Longrightarrow> sc_jobs (fst (f x h)) = j"
  shows "sc_jobs (fst (bindS m f)) = j"
  using assms by (cases m) (auto simp: bindS_def split: sum.splits)

lemma pause_keeps_jobs [simp]: "sc_jobs (fst (sc_pause h)) = sc_jobs h"
  unfolding sc_pause_def by (rule bind_keeps_jobs) simp_all

lemma hold_keeps_jobs [simp]: "sc_jobs (fst (sc_hold c h)) = sc_jobs h"
  by (simp add: sc_hold_def)

lemma or_hold_keeps_jobs [simp]: "sc_jobs (fst (or_hold m)) = sc_jobs (fst m)"
proof (cases m)
  case (Pair h r)
  show ?thesis
  proof (cases r)
    case (Inl e)
    have "sc_jobs (fst (bindS (sc_hold (exn_code e) h) (\<lambda>_ h. (h, Inl e)))) = sc_jobs h" by (rule bind_keeps_jobs) simp_all
    then show ?thesis by (simp add: or_hold_def Pair Inl)
  qed (simp add: or_hold_def Pair)
qed

lemma resume_keeps_jobs [simp]: "sc_jobs (fst (sc_resume env k h)) = sc_jobs h"
  unfolding sc_resume_def or_hold_keeps_jobs by (intro bind_keeps_jobs) simp_all

lemma finish_keeps_jobs [simp]: "sc_jobs (fst (sc_finish env k h)) = sc_jobs h"
  by (simp add: sc_finish_def)

lemma tick_poll_keeps: "sc_jobs (fst (tick_poll env h)) = sc_jobs h"
  unfolding tick_poll_def Let_def by (intro bind_keeps_jobs) simp_all

section \<open>A tick\<close>

lemma stage_effects:
  "jb_effects (sc_jobs (fst (tick_stage n be env i e h))) = jb_effects (sc_jobs h)
   \<or> jb_effects (sc_jobs (fst (tick_stage n be env i e h))) = i # jb_effects (sc_jobs h) \<and> quiet h"
proof -
  let ?f = "if sc_retry h then retry_job n be i (job_env_of env h) else step_job n be i (job_env_of env h)"
  have d: "dispatched (job_env_of env h) i (sc_jobs h) (fst (?f (sc_jobs h)))" using step_effects retry_effects by auto
  have "sc_jobs (fst (tick_stage n be env i e h)) = fst (?f (sc_jobs h))"
    by (auto simp: tick_stage_def on_jobs_def Let_def split: prod.splits)
  then show ?thesis using d by (auto simp: dispatched_def job_env_of_def dest: measured_idle_quiet)
qed

lemma bind_cases:
  obtains s e where "m = (s, Inl e)" "fst (bindS m f) = s" | s x where "m = (s, Inr x)" "fst (bindS m f) = fst (f x s)"
  by (cases m; cases "snd m") (auto simp: bindS_def)

lemma tick_job_effects:
  "jb_effects (sc_jobs (fst (tick_job n be env h))) = jb_effects (sc_jobs h)
   \<or> (\<exists>i. sc_selected h = Some i \<and> sc_fault h = None \<and> jb_effects (sc_jobs (fst (tick_job n be env h))) = i # jb_effects (sc_jobs h) \<and> quiet h)"
proof (cases "sc_selected h")
  case (Some i)
  let ?E = "\<lambda>x :: 'a sched. jb_effects (sc_jobs x)"
  obtain j r where p: "poll_job n be i (sc_jobs h) = (j, r)" by fastforce
  let ?h = "h\<lparr>sc_jobs := j\<rparr>"
  have e: "?E ?h = ?E h" using poll_effects [of n be i "sc_jobs h"] p by simp
  have q: "quiet (?h\<lparr>sc_waiting := w\<rparr>) = quiet h" for w by (simp add: quiet_def)
  have stage: "?E (fst (bindS (tick_stage n be env i eff k) f)) = ?E k \<or> ?E (fst (bindS (tick_stage n be env i eff k) f)) = i # ?E k \<and> quiet k"
    if "\<And>x h. sc_jobs (fst (f x h)) = sc_jobs h" for eff k and f :: "job_status \<Rightarrow> 'a sched \<Rightarrow> 'a sched \<times> unit res"
    by (rule bind_cases [of "tick_stage n be env i eff k" f]) (use stage_effects [of n be env i eff k] that in auto)
  show ?thesis
    using e Some stage [of _ _ "?h\<lparr>sc_waiting := None\<rparr>"] q
    by (auto simp: tick_job_def on_jobs_def p Let_def split: sum.splits option.splits)
qed (simp add: tick_job_def)

text \<open>C40. Management effects are isolated. One tick of the scheduler dispatches at most one effect; when it does, it is for the selected job,
  no fault is pending, and after the servers were polled in that tick neither of them accepts connections, no connection is open and no reader
  holds a pin.\<close>

theorem tick_isolated:
  "jb_effects (sc_jobs (fst (sc_tick n be env h))) = jb_effects (sc_jobs h)
   \<or> (\<exists>h' i. tick_poll env h = (h', Inr ()) \<and> sc_selected h' = Some i \<and> sc_fault h' = None
        \<and> jb_effects (sc_jobs (fst (sc_tick n be env h))) = i # jb_effects (sc_jobs h)
        \<and> sv_accepting (sc_read h') = False \<and> sv_accepting (sc_upload h') = False
        \<and> sv_connections (sc_read h') = [] \<and> sv_connections (sc_upload h') = [] \<and> sc_pins h' = 0)"
proof (cases "sc_closed h")
  case True
  then show ?thesis by (simp add: sc_tick_def sc_guard_def)
next
  case False
  let ?m = "bindS (tick_poll env h) (\<lambda>_. tick_job n be env)"
  have "sc_jobs (fst (sc_tick n be env h)) = sc_jobs (fst (bindS (or_hold ?m) (\<lambda>_. sc_diagnostics)))" using False by (simp add: sc_tick_def sc_guard_def)
  also have "\<dots> = sc_jobs (fst ?m)" by (rule bind_keeps_jobs) simp_all
  finally have tick: "sc_jobs (fst (sc_tick n be env h)) = sc_jobs (fst ?m)" .
  obtain h' r where p: "tick_poll env h = (h', r)" by fastforce
  have e: "sc_jobs h' = sc_jobs h" using tick_poll_keeps [of env h] p by simp
  show ?thesis
  proof (cases r)
    case (Inl x)
    then show ?thesis using tick e p by simp
  next
    case (Inr x)
    then have "sc_jobs (fst (sc_tick n be env h)) = sc_jobs (fst (tick_job n be env h'))" using tick p by simp
    then show ?thesis using tick_job_effects [of n be env h'] e p Inr by (auto simp: quiet_def)
  qed
qed

end
