(* ===== verification/Intents.thy ===== *)
theory Intents
  imports Jobs Json
begin

text \<open>
  Durable application intents, \<^verbatim>\<open>product/wp09/par_application_intent\<close> (prefix \<open>ai_\<close>): the immutable intent and the receipt it is
  matched with (\<^verbatim>\<open>model.py\<close>), the append-only intention journal (\<^verbatim>\<open>journal.py\<close>), the owner's pin store (\<^verbatim>\<open>anchors.py\<close>) and the
  coordinator that dispatches an intent once (\<^verbatim>\<open>coordinator.py\<close>).

  The journal directory is the bytes of its metadata file and of its event files in sequence, and two flags for the names found
  in it. What the file system does with one append is an argument, \<open>append_outcome\<close>: it succeeds, fails leaving no file or the
  first bytes of the event, or fails after everything is stored. A pin store is a port of two functions over a state of its own,
  \<^verbatim>\<open>load\<close> and \<^verbatim>\<open>advance\<close>; \<open>local_pins\<close> is the POSIX one, whose state also holds the outcomes of its next writes. Of the
  application and its controller the coordinator uses what \<open>app_port\<close> lists; a check that a call makes several times is a
  function of how often it was made. Process, thread, lease and directory identity, permissions, \<^verbatim>\<open>fsync\<close> on opening and the busy
  flag (a call runs to its end here) are not modelled; a tuple is a list.
\<close>

section \<open>Checks of the exchange module\<close>

abbreviation ex_error :: exn where "ex_error \<equiv> ExchangeError ''INVALID_REQUEST''"

definition AI_MAX_BYTES :: int where "AI_MAX_BYTES = 65536"
definition AI_PROFILE :: pystr where "AI_PROFILE = cps ''par-application-intent-local-0050''"

definition name_char :: "nat \<Rightarrow> bool" where
  "name_char c \<longleftrightarrow> 97 \<le> c \<and> c \<le> 122 \<or> 48 \<le> c \<and> c \<le> 57"

text \<open>\<^verbatim>\<open>[a-z0-9][a-z0-9.-]{0,127}\<close>\<close>

definition scope_name :: "pyval \<Rightarrow> bool" where
  "scope_name v = (case v of
     PStr (c # cs) \<Rightarrow> name_char c \<and> length cs \<le> 127 \<and> list_all (\<lambda>x. name_char x \<or> x = 46 \<or> x = 45) cs
   | _ \<Rightarrow> False)"

definition ex_scope_check :: "pyval list \<Rightarrow> unit res" where
  "ex_scope_check scope =
     bindE (need (length scope = 6) ex_error) (\<lambda>_.
     bindE (need (scope_name (scope ! 0)) ex_error) (\<lambda>_.
     bindE (allE (\<lambda>i. bytes_sized ex_error (scope ! i) 32) [1, 2, 4, 5]) (\<lambda>_.
       int_in ex_error (scope ! 3) 1 (2 ^ 64 - 1))))"

definition ex_pack :: "pyval \<Rightarrow> int \<Rightarrow> bytes res" where
  "ex_pack v limit = env_dump ex_error limit v"

definition ex_unpack :: "bytes \<Rightarrow> int \<Rightarrow> pyval res" where
  "ex_unpack raw limit =
     bindE (need (1 \<le> length raw \<and> int (length raw) \<le> limit) ex_error) (\<lambda>_. any_to ex_error (decode raw limit MAX_NODES))"

definition ex_keys :: "pyval \<Rightarrow> int list \<Rightarrow> unit res" where
  "ex_keys = int_keys ex_error"

section \<open>Hexadecimal\<close>

text \<open>\<^verbatim>\<open>bytes.hex()\<close> and \<^verbatim>\<open>bytes.fromhex\<close>, which skips white space between bytes.\<close>

definition hexed :: "bytes \<Rightarrow> pystr" where
  "hexed bs = concat (map (\<lambda>b. [jhex_digit (unat b div 16), jhex_digit (unat b mod 16)]) bs)"

fun unhexed :: "pystr \<Rightarrow> bytes option" where
  "unhexed [] = Some []"
| "unhexed [c] = (if c \<in> {9, 10, 11, 12, 13, 32} then Some [] else None)"
| "unhexed (c # d # cs) =
     (if c \<in> {9, 10, 11, 12, 13, 32} then unhexed (d # cs)
      else (case (unjhex c, unjhex d) of
          (Some x, Some y) \<Rightarrow> map_option (Cons (byte (16 * x + y))) (unhexed cs)
        | _ \<Rightarrow> None))"

definition sha_hex :: "bytes \<Rightarrow> pystr" where
  "sha_hex raw = hexed (sha256 raw)"

definition hex_string :: "pyval \<Rightarrow> nat \<Rightarrow> bool" where
  "hex_string v n = (case v of PStr s \<Rightarrow> length s = n \<and> list_all hex_char s | _ \<Rightarrow> False)"

section \<open>Intents\<close>

text \<open>\<^verbatim>\<open>except FetchError: raise; except Exception: raise e\<close>\<close>

definition fetch_to :: "exn \<Rightarrow> 'a res \<Rightarrow> 'a res" where
  "fetch_to e m = (case m of
     Inl x \<Rightarrow> Inl (case x of FetchError c \<Rightarrow> FetchError c | _ \<Rightarrow> e)
   | Inr x \<Rightarrow> Inr x)"

definition ai_fixed :: "pyval \<Rightarrow> nat \<Rightarrow> bytes res" where
  "ai_fixed v n = bindE (bytes_sized (FetchError ''INTENT_INPUT'') v n) (\<lambda>_. as_bytes v)"

definition binding_shape :: "pyval \<Rightarrow> unit res" where
  "binding_shape v = (case v of
     PList [PList sc, store, inbox, cert] \<Rightarrow>
       bindE (need (length sc = 5) (FetchError ''JOURNAL_BINDING'')) (\<lambda>_.
       bindE (ex_scope_check (sc @ [PBytes (replicate 32 0)])) (\<lambda>_.
       bindE (ai_fixed store 16) (\<lambda>_.
       bindE (need (hex_string inbox 32) (FetchError ''JOURNAL_BINDING'')) (\<lambda>_.
       bindE (ai_fixed cert 32) (\<lambda>_. Inr ())))))
   | _ \<Rightarrow> Inl (FetchError ''JOURNAL_BINDING''))"

definition check_binding :: "bytes \<Rightarrow> bytes res" where
  "check_binding raw = any_to (FetchError ''JOURNAL_BINDING'')
     (bindE (ex_unpack raw AI_MAX_BYTES) (\<lambda>v.
      bindE (binding_shape v) (\<lambda>_.
      bindE (ex_pack v AI_MAX_BYTES) (\<lambda>again.
      bindE (need (again = raw) (FetchError ''JOURNAL_BINDING'')) (\<lambda>_. Inr raw)))))"

record intent =
  it_scope :: "pyval list"
  it_store :: bytes
  it_inbox :: pystr
  it_cert :: bytes
  it_operation :: bytes
  it_revision :: int
  it_targets :: "bytes list"
  it_authority :: bytes
  it_input :: bytes
  it_connection :: int

definition targets_owned :: "pyval \<Rightarrow> bytes list res" where
  "targets_owned v = (case v of
     PList ts \<Rightarrow>
       bindE (need (1 \<le> length ts \<and> length ts \<le> 64) (FetchError ''TARGETS_INVALID'')) (\<lambda>_.
       bindE (mapE (\<lambda>t. bindE (bytes_sized (FetchError ''TARGETS_INVALID'') t 32) (\<lambda>_. as_bytes t)) ts) (\<lambda>bs.
       bindE (need (distinct bs) (FetchError ''TARGETS_INVALID'')) (\<lambda>_. Inr (sort_bytes (\<lambda>b. b) bs))))
   | _ \<Rightarrow> Inl (FetchError ''TARGETS_INVALID''))"

text \<open>\<^verbatim>\<open>ApplicationIntent(...)\<close> with \<^verbatim>\<open>__post_init__\<close>: the ten arguments in the order of the fields.\<close>

definition application_intent :: "pyval list \<Rightarrow> intent res" where
  "application_intent xs =
     bindE (need (length xs = 10) TypeError) (\<lambda>_. fetch_to (FetchError ''INTENT_INPUT'')
       (bindE (case xs ! 0 of PList sc \<Rightarrow> Inr sc | _ \<Rightarrow> Inl (FetchError ''INTENT_INPUT'')) (\<lambda>sc.
        bindE (ex_scope_check sc) (\<lambda>_.
        bindE (ai_fixed (xs ! 1) 16) (\<lambda>store. bindE (ai_fixed (xs ! 3) 32) (\<lambda>cert. bindE (ai_fixed (xs ! 4) 16) (\<lambda>op.
        bindE (ai_fixed (xs ! 7) 32) (\<lambda>auth. bindE (ai_fixed (xs ! 8) 32) (\<lambda>inp.
        bindE (need (hex_string (xs ! 2) 32) (FetchError ''INTENT_INPUT'')) (\<lambda>_. bindE (str_of (xs ! 2)) (\<lambda>inbox.
        bindE (int_in (FetchError ''INVALID_REVISION'') (xs ! 5) 0 63) (\<lambda>_.
        bindE (int_in (FetchError ''INTENT_INPUT'') (xs ! 9) 0 (2 ^ 64 - 1)) (\<lambda>_.
        bindE (targets_owned (xs ! 6)) (\<lambda>ts.
          Inr \<lparr>it_scope = sc, it_store = store, it_inbox = inbox, it_cert = cert, it_operation = op, it_revision = int_of (xs ! 5),
            it_targets = ts, it_authority = auth, it_input = inp, it_connection = int_of (xs ! 9)\<rparr>))))))))))))))"

definition intent_binding :: "intent \<Rightarrow> bytes res" where
  "intent_binding i =
     bindE (ex_pack (PList [PList (take 5 (it_scope i)), PBytes (it_store i), PStr (it_inbox i), PBytes (it_cert i)]) AI_MAX_BYTES)
       check_binding"

definition intent_values :: "intent \<Rightarrow> pyval" where
  "intent_values i = mk_dict [(0, PInt 1), (1, PStr AI_PROFILE), (2, PList (it_scope i)), (3, PBytes (it_store i)),
     (4, PStr (it_inbox i)), (5, PBytes (it_cert i)), (6, PBytes (it_operation i)), (7, PInt (it_revision i)),
     (8, PList (map PBytes (it_targets i))), (9, PBytes (it_authority i)), (10, PBytes (it_input i)), (11, PInt (it_connection i))]"

definition intent_bytes :: "intent \<Rightarrow> bytes res" where
  "intent_bytes i = ex_pack (intent_values i) AI_MAX_BYTES"

definition intent_digest :: "intent \<Rightarrow> pystr res" where
  "intent_digest i = bindE (intent_bytes i) (\<lambda>raw. Inr (sha_hex raw))"

definition intent_from :: "bytes \<Rightarrow> intent res" where
  "intent_from raw = fetch_to (FetchError ''INTENT_ENCODING'')
     (bindE (ex_unpack raw AI_MAX_BYTES) (\<lambda>v.
      bindE (ex_keys v (key_range 12)) (\<lambda>_.
      bindE (mapE (item_at v) [0, 1]) (\<lambda>hs.
      bindE (need (hs = [PInt 1, PStr AI_PROFILE]) (FetchError ''INTENT_ENCODING'')) (\<lambda>_.
      bindE (mapE (item_at v) [2, 3, 4, 5, 6, 7, 8, 9, 10, 11]) (\<lambda>xs.
      bindE (application_intent xs) (\<lambda>i.
      bindE (intent_bytes i) (\<lambda>again.
      bindE (need (again = raw) (FetchError ''INTENT_ENCODING'')) (\<lambda>_. Inr i)))))))))"

section \<open>Receipts\<close>

text \<open>Dictionaries with string keys: \<^verbatim>\<open>row[name]\<close>, \<^verbatim>\<open>row.get(name)\<close> and \<^verbatim>\<open>type(row) is dict and set(row) == names\<close>.\<close>

definition sget :: "pyval \<Rightarrow> string \<Rightarrow> pyval option" where
  "sget v k = (case v of PDict kvs \<Rightarrow> map_of kvs (PStr (cps k)) | _ \<Rightarrow> None)"

definition sitem :: "pyval \<Rightarrow> string \<Rightarrow> pyval res" where
  "sitem v k = (case sget v k of None \<Rightarrow> Inl KeyError | Some x \<Rightarrow> Inr x)"

definition has_keys :: "pyval \<Rightarrow> string list \<Rightarrow> bool" where
  "has_keys v ks = (case v of PDict kvs \<Rightarrow> set (map fst kvs) = set (map (\<lambda>k. PStr (cps k)) ks) | _ \<Rightarrow> False)"

definition hex_list :: "pyval \<Rightarrow> bool" where
  "hex_list v = (case v of
     PList xs \<Rightarrow> 1 \<le> length xs \<and> length xs \<le> 128 \<and> list_all (\<lambda>x. hex_string x 64) xs \<and> distinct xs
   | _ \<Rightarrow> False)"

definition is_bool :: "pyval \<Rightarrow> bool" where
  "is_bool v = (case v of PBool _ \<Rightarrow> True | _ \<Rightarrow> False)"

definition RECEIPT_KEYS :: "string list" where
  "RECEIPT_KEYS = [''profile'', ''operationId'', ''revision'', ''heads'', ''inputIds'', ''eventDigest'', ''candidatePersisted'',
     ''innerValidated'', ''applied'', ''replicated'', ''phase'', ''productQualified'']"

definition ai_check_receipt :: "intent \<Rightarrow> pyval \<Rightarrow> unit res" where
  "ai_check_receipt i row =
     (let schema = FetchError ''RECEIPT_SCHEMA''; binding = FetchError ''RECEIPT_BINDING'' in
      bindE (need (has_keys row RECEIPT_KEYS) schema) (\<lambda>_.
      bindE (mapE (sitem row) RECEIPT_KEYS) (\<lambda>xs. case xs of
        [profile, op, rv, heads, inputs, ev, persisted, validated, appl, replicated, ph, qualified] \<Rightarrow>
          bindE (need (profile = PStr (cps ''par-document-apply-local-0035'') \<and> op = PStr (hexed (it_operation i))) binding) (\<lambda>_.
          bindE (need (rv = PInt (it_revision i + 1)) binding) (\<lambda>_.
          bindE (need (hex_list heads \<and> hex_list inputs) schema) (\<lambda>_.
          bindE (list_of inputs) (\<lambda>ids.
          bindE (need (set (map (PStr \<circ> hexed) (it_targets i)) \<subseteq> set ids) binding) (\<lambda>_.
          bindE (need (hex_string ev 64) schema) (\<lambda>_.
          bindE (need (list_all is_bool [persisted, validated, appl, replicated, qualified]) schema) (\<lambda>_.
          bindE (need (persisted = PBool True \<and> replicated = PBool False \<and> qualified = PBool False) schema) (\<lambda>_.
            need (appl = validated \<and> ph = PStr (cps (if appl = PBool True then ''CORE_VALIDATED_LOCAL_APPLY'' else ''CANDIDATE_ONLY''))) schema))))))))
      | _ \<Rightarrow> Inl schema)))"

section \<open>Journal states\<close>

datatype intent_phase = Ph_Empty | Ph_Prepared | Ph_Dispatched | Ph_Observed | Ph_Retired | Ph_Abandoned

record intent_state =
  is_phase :: intent_phase
  is_intent :: "intent option"
  is_receipt :: "pyval option"
  is_used :: "(pystr \<times> pystr) list"

abbreviation ai_corrupt :: exn where "ai_corrupt \<equiv> FetchError ''JOURNAL_CORRUPT''"

definition empty_state :: intent_state where
  "empty_state = \<lparr>is_phase = Ph_Empty, is_intent = None, is_receipt = None, is_used = []\<rparr>"

text \<open>\<^verbatim>\<open>_transition\<close>, kind by kind.\<close>

definition payload_intent :: "pyval \<Rightarrow> intent res" where
  "payload_intent payload = any_to ai_corrupt
     (bindE (bindE (sitem payload ''intent'') str_of) (\<lambda>s. case unhexed s of None \<Rightarrow> Inl ValueError | Some raw \<Rightarrow> intent_from raw))"

definition enter_prepared :: "intent_state \<Rightarrow> pyval \<Rightarrow> bytes \<Rightarrow> intent_state res" where
  "enter_prepared st payload binding =
     bindE (need (has_keys payload [''kind'', ''intent'']) ai_corrupt) (\<lambda>_.
     bindE (payload_intent payload) (\<lambda>i.
     bindE (intent_binding i) (\<lambda>b.
     bindE (need (b = binding) (FetchError ''JOURNAL_BINDING'')) (\<lambda>_.
     bindE (need (is_phase st \<in> {Ph_Empty, Ph_Retired, Ph_Abandoned}) (FetchError ''ACTIVE_INTENT'')) (\<lambda>_.
     bindE (need (map_of (is_used st) (hexed (it_operation i)) = None) (FetchError ''OPERATION_RETIRED'')) (\<lambda>_.
     bindE (need (length (is_used st) < 64) (FetchError ''JOURNAL_BUDGET'')) (\<lambda>_.
     bindE (intent_digest i) (\<lambda>d.
       Inr \<lparr>is_phase = Ph_Prepared, is_intent = Some i, is_receipt = None, is_used = is_used st @ [(hexed (it_operation i), d)]\<rparr>))))))))"

definition enter_observed :: "intent_state \<Rightarrow> intent \<Rightarrow> pyval \<Rightarrow> intent_state res" where
  "enter_observed st i payload =
     bindE (need (has_keys payload [''kind'', ''intentDigest'', ''receipt'']) ai_corrupt) (\<lambda>_.
     bindE (need (is_phase st \<in> {Ph_Dispatched, Ph_Observed}) (FetchError ''INQUIRY_REQUIRED'')) (\<lambda>_.
     bindE (sitem payload ''receipt'') (\<lambda>row.
     bindE (ai_check_receipt i row) (\<lambda>_.
     bindE (case is_receipt st of
         None \<Rightarrow> Inr ()
       | Some old \<Rightarrow> bindE (json_canonical old) (\<lambda>x. bindE (json_canonical row) (\<lambda>y. need (x = y) (FetchError ''RECEIPT_CONFLICT'')))) (\<lambda>_.
       Inr (st\<lparr>is_phase := Ph_Observed, is_receipt := Some row\<rparr>))))))"

definition intent_transition :: "intent_state \<Rightarrow> pyval \<Rightarrow> bytes \<Rightarrow> intent_state res" where
  "intent_transition st payload binding = (case sget payload ''kind'' of
     None \<Rightarrow> Inl ai_corrupt
   | Some kind \<Rightarrow>
       if kind = PStr (cps ''PREPARE'') then enter_prepared st payload binding
       else (case is_intent st of
         None \<Rightarrow> Inl (FetchError ''INTENT_PIN'')
       | Some i \<Rightarrow>
           bindE (intent_digest i) (\<lambda>d.
           bindE (need (sget payload ''intentDigest'' = Some (PStr d)) (FetchError ''INTENT_PIN'')) (\<lambda>_.
             if kind = PStr (cps ''OBSERVE'') then enter_observed st i payload
             else bindE (need (has_keys payload [''kind'', ''intentDigest'']) ai_corrupt) (\<lambda>_.
               if kind = PStr (cps ''DISPATCH'') then
                 bindE (need (is_phase st = Ph_Prepared) (FetchError ''INQUIRY_REQUIRED'')) (\<lambda>_. Inr (st\<lparr>is_phase := Ph_Dispatched\<rparr>))
               else if kind = PStr (cps ''RETIRE'') then
                 bindE (need (is_phase st = Ph_Observed) (FetchError ''RECEIPT_REQUIRED'')) (\<lambda>_. Inr (st\<lparr>is_phase := Ph_Retired\<rparr>))
               else if kind = PStr (cps ''ABANDON'') then
                 bindE (need (is_phase st = Ph_Prepared) (FetchError ''INQUIRY_REQUIRED'')) (\<lambda>_. Inr (st\<lparr>is_phase := Ph_Abandoned\<rparr>))
               else Inl ai_corrupt)))))"

section \<open>Directories and pins\<close>

record journal_pin =
  jp_meta :: pystr
  jp_sequence :: nat
  jp_event :: pystr

text \<open>\<^verbatim>\<open>JournalPin(...)\<close> with \<^verbatim>\<open>__post_init__\<close>.\<close>

definition journal_pin_of :: "pyval \<Rightarrow> pyval \<Rightarrow> pyval \<Rightarrow> journal_pin res" where
  "journal_pin_of meta sequence event =
     (let e = FetchError ''JOURNAL_PIN'' in
      bindE (need (hex_string meta 64 \<and> hex_string event 64) e) (\<lambda>_.
      bindE (int_in e sequence 0 256) (\<lambda>_.
      bindE (need (sequence \<noteq> PInt 0 \<or> event = meta) e) (\<lambda>_.
        Inr \<lparr>jp_meta = key_str meta, jp_sequence = nat (int_of sequence), jp_event = key_str event\<rparr>))))"

text \<open>The directory: whether the names in it and in \<^verbatim>\<open>events\<close> are the expected ones, and the bytes of its files.\<close>

record intent_dir =
  dr_root_ok :: bool
  dr_meta :: bytes
  dr_names_ok :: bool
  dr_events :: "bytes list"

definition AI_MAX_EVENTS :: nat where "AI_MAX_EVENTS = 256"

definition ib_read_file :: "bytes \<Rightarrow> int \<Rightarrow> bytes res" where
  "ib_read_file raw limit = bindE (need (0 < length raw \<and> int (length raw) \<le> limit) (InboxError ''INBOX_CORRUPT'')) (\<lambda>_. Inr raw)"

definition check_meta :: "bytes \<Rightarrow> journal_pin \<Rightarrow> bytes \<Rightarrow> unit res" where
  "check_meta binding expected content =
     bindE (ib_read_file content AI_MAX_BYTES) (\<lambda>raw.
     bindE (decode_json ai_corrupt raw) (\<lambda>meta.
     bindE (need (sha_hex raw = jp_meta expected) (FetchError ''JOURNAL_PIN'')) (\<lambda>_.
     bindE (need (has_keys meta [''profile'', ''generation'', ''binding''] \<and> sget meta ''profile'' = Some (PStr AI_PROFILE)) ai_corrupt) (\<lambda>_.
     bindE (sitem meta ''generation'') (\<lambda>g. bindE (need (hex_string g 32) ai_corrupt) (\<lambda>_.
       need (sget meta ''binding'' = Some (PStr (hexed binding))) (FetchError ''JOURNAL_BINDING'')))))))"

text \<open>One event file: its place in the sequence, the digest it continues and the payload it carries.\<close>

definition read_event :: "nat \<Rightarrow> pystr \<Rightarrow> bytes \<Rightarrow> pyval res" where
  "read_event sequence before content =
     bindE (ib_read_file content AI_MAX_BYTES) (\<lambda>raw.
     bindE (decode_json ai_corrupt raw) (\<lambda>ev.
     bindE (need (has_keys ev [''profile'', ''sequence'', ''previous'', ''payload'']) ai_corrupt) (\<lambda>_.
     bindE (need (sget ev ''profile'' = Some (PStr AI_PROFILE) \<and> sget ev ''sequence'' = Some (PInt (int sequence))
       \<and> sget ev ''previous'' = Some (PStr before)) ai_corrupt) (\<lambda>_. sitem ev ''payload''))))"

definition replay_event :: "bytes \<Rightarrow> journal_pin \<Rightarrow> nat \<times> bytes \<Rightarrow> intent_state \<times> pystr \<Rightarrow> (intent_state \<times> pystr) res" where
  "replay_event binding expected f s = (case (f, s) of ((sequence, content), (st, before)) \<Rightarrow>
     bindE (read_event sequence before content) (\<lambda>payload.
     bindE (intent_transition st payload binding) (\<lambda>st'.
     bindE (need (sequence \<noteq> jp_sequence expected \<or> sha_hex content = jp_event expected) (FetchError ''JOURNAL_PIN'')) (\<lambda>_.
       Inr (st', sha_hex content)))))"

definition ai_reload :: "bytes \<Rightarrow> journal_pin \<Rightarrow> intent_dir \<Rightarrow> (intent_state \<times> journal_pin) res" where
  "ai_reload binding expected d =
     bindE (need (dr_root_ok d) ai_corrupt) (\<lambda>_.
     bindE (check_meta binding expected (dr_meta d)) (\<lambda>_.
     let n = length (dr_events d) in
     bindE (need (n \<le> AI_MAX_EVENTS) (FetchError ''JOURNAL_BUDGET'')) (\<lambda>_.
     bindE (need (dr_names_ok d) ai_corrupt) (\<lambda>_.
     bindE (need (jp_sequence expected \<le> n) (FetchError ''JOURNAL_PIN'')) (\<lambda>_.
     bindE (foldE (replay_event binding expected) (enumerate 1 (dr_events d)) (empty_state, sha_hex (dr_meta d))) (\<lambda>(st, before).
       Inr (st, \<lparr>jp_meta = sha_hex (dr_meta d), jp_sequence = n, jp_event = before\<rparr>)))))))"

section \<open>Pin stores\<close>

text \<open>The owner's port \<^verbatim>\<open>PinStore\<close>, over a state of its own.\<close>

record 'p pin_port =
  pp_binding :: "'p \<Rightarrow> bytes"
  pp_load :: "'p \<Rightarrow> journal_pin res"
  pp_advance :: "journal_pin \<Rightarrow> journal_pin \<Rightarrow> 'p \<Rightarrow> 'p \<times> unit res"

text \<open>What the file system does with one replacement of the pin file.\<close>

datatype pin_outcome = Pin_Saved | Pin_Pending "nat option" | Pin_Unsynced

record local_pins =
  lp_binding :: bytes
  lp_file :: bytes
  lp_pending :: "bytes option"
  lp_known :: journal_pin
  lp_closed :: bool
  lp_poisoned :: bool
  lp_fate :: "pin_outcome list"

definition PIN_PROFILE :: pystr where "PIN_PROFILE = cps ''par-intent-pin-posix-0051''"

definition pin_encode :: "bytes \<Rightarrow> journal_pin \<Rightarrow> bytes res" where
  "pin_encode binding pin = json_canonical (str_dict
     [(cps ''binding'', PStr (hexed binding)),
      (cps ''pin'', str_dict [(cps ''eventDigest'', PStr (jp_event pin)), (cps ''metadataDigest'', PStr (jp_meta pin)),
         (cps ''sequence'', PInt (int (jp_sequence pin)))]),
      (cps ''profile'', PStr PIN_PROFILE)])"

definition lp_guard :: "local_pins \<Rightarrow> unit res" where
  "lp_guard s =
     bindE (need (\<not> lp_closed s) (FetchError ''PIN_STORE_CLOSED'')) (\<lambda>_.
     bindE (need (\<not> lp_poisoned s) (FetchError ''PIN_STORE_POISONED'')) (\<lambda>_.
       need (lp_pending s = None) (FetchError ''PIN_STORE_UNCERTAIN'')))"

definition lp_read :: "bytes \<Rightarrow> bytes \<Rightarrow> journal_pin res" where
  "lp_read binding content =
     bindE (ib_read_file content 4096) (\<lambda>raw. let e = FetchError ''PIN_STORE_CORRUPT'' in
     fetch_to e (bindE (case json_loads raw of None \<Rightarrow> Inl ValueError | Some v \<Rightarrow> Inr v) (\<lambda>v.
       bindE (need (has_keys v [''profile'', ''binding'', ''pin''] \<and> sget v ''profile'' = Some (PStr PIN_PROFILE)) e) (\<lambda>_.
       bindE (need (sget v ''binding'' = Some (PStr (hexed binding))) (FetchError ''PIN_STORE_BINDING'')) (\<lambda>_.
       bindE (sitem v ''pin'') (\<lambda>p.
       bindE (need (has_keys p [''metadataDigest'', ''sequence'', ''eventDigest'']) e) (\<lambda>_.
       bindE (mapE (sitem p) [''metadataDigest'', ''sequence'', ''eventDigest'']) (\<lambda>xs.
       bindE (journal_pin_of (xs ! 0) (xs ! 1) (xs ! 2)) (\<lambda>pin.
       bindE (pin_encode binding pin) (\<lambda>again.
       bindE (need (raw = again) e) (\<lambda>_. Inr pin)))))))))))"

definition lp_load :: "local_pins \<Rightarrow> journal_pin res" where
  "lp_load s =
     bindE (lp_guard s) (\<lambda>_.
     bindE (lp_read (lp_binding s) (lp_file s)) (\<lambda>pin.
     bindE (need (pin = lp_known s) (FetchError ''PIN_STORE_CONFLICT'')) (\<lambda>_. Inr pin)))"

text \<open>\<^verbatim>\<open>advance\<close>: the checks, then the replacement of the file by way of \<^verbatim>\<open>pending.json\<close>.\<close>

definition lp_decide :: "journal_pin \<Rightarrow> journal_pin \<Rightarrow> local_pins \<Rightarrow> bytes option res" where
  "lp_decide expected new s =
     bindE (lp_load s) (\<lambda>cur.
     bindE (need (cur = expected) (FetchError ''PIN_STORE_CONFLICT'')) (\<lambda>_.
     bindE (need (jp_meta new = jp_meta cur) (FetchError ''PIN_STORE_BINDING'')) (\<lambda>_.
     bindE (need (jp_sequence cur \<le> jp_sequence new) (FetchError ''PIN_STORE_REGRESSION'')) (\<lambda>_.
       if jp_sequence new = jp_sequence cur then bindE (need (new = cur) (FetchError ''PIN_STORE_CONFLICT'')) (\<lambda>_. Inr None)
       else bindE (pin_encode (lp_binding s) new) (\<lambda>raw. Inr (Some raw))))))"

definition lp_replace :: "journal_pin \<Rightarrow> bytes \<Rightarrow> local_pins \<Rightarrow> local_pins \<times> unit res" where
  "lp_replace new raw s =
     (let s' = s\<lparr>lp_fate := tl (lp_fate s)\<rparr>; uncertain = Inl (FetchError ''PIN_STORE_UNCERTAIN'') in
      case lp_fate s of
        Pin_Pending k # _ \<Rightarrow> (s'\<lparr>lp_pending := map_option (\<lambda>n. take n raw) k, lp_poisoned := True\<rparr>, uncertain)
      | Pin_Unsynced # _ \<Rightarrow> (s'\<lparr>lp_file := raw, lp_poisoned := True\<rparr>, uncertain)
      | _ \<Rightarrow> (s'\<lparr>lp_file := raw, lp_known := new\<rparr>, Inr ()))"

definition lp_advance :: "journal_pin \<Rightarrow> journal_pin \<Rightarrow> local_pins \<Rightarrow> local_pins \<times> unit res" where
  "lp_advance expected new s = (case lp_decide expected new s of
     Inl e \<Rightarrow> (s, Inl e)
   | Inr None \<Rightarrow> (s, Inr ())
   | Inr (Some raw) \<Rightarrow> lp_replace new raw s)"

definition lp_close :: "local_pins \<Rightarrow> local_pins" where
  "lp_close s = s\<lparr>lp_closed := True\<rparr>"

text \<open>The limit of \<^verbatim>\<open>save_new\<close>.\<close>

definition save_new :: "bytes \<Rightarrow> bytes res" where
  "save_new raw = bindE (need (0 < length raw \<and> length raw \<le> 65536) (FetchError ''METADATA_LIMIT'')) (\<lambda>_. Inr raw)"

text \<open>\<^verbatim>\<open>open\<close> on the files of the directory, and \<^verbatim>\<open>create\<close>.\<close>

definition lp_open :: "bytes \<Rightarrow> bytes \<Rightarrow> bytes option \<Rightarrow> pin_outcome list \<Rightarrow> local_pins res" where
  "lp_open binding file stray fate =
     bindE (check_binding binding) (\<lambda>b.
     bindE (need (stray = None) (FetchError ''PIN_STORE_UNCERTAIN'')) (\<lambda>_.
     bindE (lp_read b file) (\<lambda>pin.
       Inr \<lparr>lp_binding = b, lp_file = file, lp_pending = None, lp_known = pin, lp_closed = False, lp_poisoned = False, lp_fate = fate\<rparr>)))"

definition lp_create :: "bytes \<Rightarrow> journal_pin \<Rightarrow> pin_outcome list \<Rightarrow> local_pins res" where
  "lp_create binding pin fate =
     bindE (check_binding binding) (\<lambda>b. bindE (bindE (pin_encode b pin) save_new) (\<lambda>raw. lp_open binding raw None fate))"

definition local_port :: "local_pins pin_port" where
  "local_port = \<lparr>pp_binding = lp_binding, pp_load = lp_load, pp_advance = lp_advance\<rparr>"

section \<open>Journal\<close>

record 'p intent_journal =
  ij_dir :: intent_dir
  ij_binding :: bytes
  ij_state :: intent_state
  ij_pin :: journal_pin
  ij_closed :: bool
  ij_poisoned :: bool
  ij_anchor :: "'p option"
  ij_anchor_pin :: journal_pin

text \<open>
  One append: it succeeds, fails leaving no file or a file with the first bytes of the event, or fails when the event is stored
  and the anchor follows it (an observer that raises at the end).
\<close>

datatype append_outcome = Appended | Append_Lost "nat option" | Reply_Lost

definition ij_guard :: "'p intent_journal \<Rightarrow> unit res" where
  "ij_guard j =
     bindE (need (\<not> ij_closed j) (FetchError ''JOURNAL_CLOSED'')) (\<lambda>_. need (\<not> ij_poisoned j) (FetchError ''JOURNAL_POISONED''))"

definition poison :: "'p intent_journal \<Rightarrow> 'p intent_journal" where
  "poison j = j\<lparr>ij_poisoned := True\<rparr>"

definition sync_anchor :: "'p pin_port \<Rightarrow> 'p intent_journal \<Rightarrow> 'p intent_journal \<times> unit res" where
  "sync_anchor pp j = (case ij_anchor j of
     None \<Rightarrow> (j, Inr ())
   | Some a \<Rightarrow>
       (case bindE (need (pp_binding pp a = ij_binding j) (FetchError ''PIN_STORE_BINDING'')) (\<lambda>_.
          bindE (pp_load pp a) (\<lambda>held. need (held = ij_anchor_pin j) (FetchError ''PIN_STORE_CONFLICT''))) of
         Inl e \<Rightarrow> (j, Inl e)
       | Inr _ \<Rightarrow>
           if ij_pin j = ij_anchor_pin j then (j, Inr ())
           else (case pp_advance pp (ij_anchor_pin j) (ij_pin j) a of
             (a', Inl e) \<Rightarrow> (j\<lparr>ij_anchor := Some a'\<rparr>, Inl e)
           | (a', Inr _) \<Rightarrow> (case bindE (pp_load pp a') (\<lambda>held. need (held = ij_pin j) (FetchError ''PIN_STORE_CONFLICT'')) of
               Inl e \<Rightarrow> (j\<lparr>ij_anchor := Some a'\<rparr>, Inl e)
             | Inr _ \<Rightarrow> (j\<lparr>ij_anchor := Some a', ij_anchor_pin := ij_pin j\<rparr>, Inr ())))))"

text \<open>Any failure inside \<^verbatim>\<open>audit\<close> poisons the handle.\<close>

definition ij_audit :: "'p pin_port \<Rightarrow> 'p intent_journal \<Rightarrow> 'p intent_journal \<times> unit res" where
  "ij_audit pp j = (case bindE (ij_guard j) (\<lambda>_. ai_reload (ij_binding j) (ij_pin j) (ij_dir j)) of
     Inl e \<Rightarrow> (poison j, Inl e)
   | Inr (st, pin) \<Rightarrow> (case sync_anchor pp (j\<lparr>ij_state := st, ij_pin := pin\<rparr>) of
       (j', Inl e) \<Rightarrow> (poison j', Inl e)
     | (j', Inr _) \<Rightarrow> (j', Inr ())))"

record intent_status =
  ist_phase :: intent_phase
  ist_digest :: "pystr option"
  ist_operation :: "pystr option"
  ist_receipt :: "pyval option"
  ist_sequence :: nat

definition state_status :: "'p intent_journal \<Rightarrow> intent_status res" where
  "state_status j = (let s = ij_state j in
     bindE (case is_intent s of None \<Rightarrow> Inr None | Some i \<Rightarrow> bindE (intent_digest i) (\<lambda>d. Inr (Some d))) (\<lambda>d.
       Inr \<lparr>ist_phase = is_phase s, ist_digest = d, ist_operation = map_option (\<lambda>i. hexed (it_operation i)) (is_intent s),
         ist_receipt = is_receipt s, ist_sequence = jp_sequence (ij_pin j)\<rparr>))"

definition ij_status :: "'p pin_port \<Rightarrow> 'p intent_journal \<Rightarrow> 'p intent_journal \<times> intent_status res" where
  "ij_status pp j = bindS (ij_audit pp j) (\<lambda>_ j. (j, state_status j))"

definition ij_current :: "'p pin_port \<Rightarrow> 'p intent_journal \<Rightarrow> 'p intent_journal \<times> intent option res" where
  "ij_current pp j = bindS (ij_audit pp j) (\<lambda>_ j. (j, Inr (is_intent (ij_state j))))"

definition event_values :: "nat \<Rightarrow> pystr \<Rightarrow> pyval \<Rightarrow> pyval" where
  "event_values sequence before payload = str_dict
     [(cps ''payload'', payload), (cps ''previous'', PStr before), (cps ''profile'', PStr AI_PROFILE), (cps ''sequence'', PInt (int sequence))]"

text \<open>The event that \<^verbatim>\<open>_append\<close> would write, with the state it leads to.\<close>

definition next_event :: "pyval \<Rightarrow> 'p intent_journal \<Rightarrow> (intent_state \<times> bytes) res" where
  "next_event payload j =
     bindE (need (jp_sequence (ij_pin j) < AI_MAX_EVENTS) (FetchError ''JOURNAL_BUDGET'')) (\<lambda>_.
     bindE (intent_transition (ij_state j) payload (ij_binding j)) (\<lambda>st.
     bindE (json_canonical (event_values (jp_sequence (ij_pin j) + 1) (jp_event (ij_pin j)) payload)) (\<lambda>raw.
     bindE (need (0 < length raw \<and> int (length raw) \<le> AI_MAX_BYTES) (FetchError ''JOURNAL_BUDGET'')) (\<lambda>_. Inr (st, raw)))))"

definition add_event :: "bytes \<Rightarrow> 'p intent_journal \<Rightarrow> 'p intent_journal" where
  "add_event raw j = j\<lparr>ij_dir := (ij_dir j)\<lparr>dr_events := dr_events (ij_dir j) @ [raw]\<rparr>\<rparr>"

definition with_event :: "intent_state \<Rightarrow> bytes \<Rightarrow> 'p intent_journal \<Rightarrow> 'p intent_journal" where
  "with_event st raw j = (add_event raw j)\<lparr>ij_state := st,
     ij_pin := \<lparr>jp_meta = jp_meta (ij_pin j), jp_sequence = jp_sequence (ij_pin j) + 1, jp_event = sha_hex raw\<rparr>\<rparr>"

definition write_event ::
  "'p pin_port \<Rightarrow> intent_state \<Rightarrow> bytes \<Rightarrow> append_outcome \<Rightarrow> 'p intent_journal \<Rightarrow> 'p intent_journal \<times> unit res" where
  "write_event pp st raw w j =
     (let unknown = Inl (FetchError ''PERSISTENCE_UNKNOWN'') in case w of
        Append_Lost None \<Rightarrow> (poison j, unknown)
      | Append_Lost (Some k) \<Rightarrow> (poison (add_event (take k raw) j), unknown)
      | _ \<Rightarrow>
          (case sync_anchor pp (with_event st raw j) of
            (j', Inl e) \<Rightarrow> (poison j', unknown)
          | (j', Inr _) \<Rightarrow> if w = Reply_Lost then (poison j', unknown) else (j', Inr ())))"

definition ij_append :: "'p pin_port \<Rightarrow> pyval \<Rightarrow> append_outcome \<Rightarrow> 'p intent_journal \<Rightarrow> 'p intent_journal \<times> intent_status res" where
  "ij_append pp payload w j =
     bindS (ij_audit pp j) (\<lambda>_ j.
     bindS (j, next_event payload j) (\<lambda>(st, raw) j.
     bindS (write_event pp st raw w j) (\<lambda>_ j. ij_status pp j)))"

definition kind_payload :: "string \<Rightarrow> pyval \<Rightarrow> pyval" where
  "kind_payload kind digest = str_dict [(cps ''intentDigest'', digest), (cps ''kind'', PStr (cps kind))]"

definition ij_prepare :: "'p pin_port \<Rightarrow> intent \<Rightarrow> append_outcome \<Rightarrow> 'p intent_journal \<Rightarrow> 'p intent_journal \<times> intent_status res" where
  "ij_prepare pp i w j =
     bindS (ij_audit pp j) (\<lambda>_ j.
     bindS (j, bindE (intent_binding i) (\<lambda>b. need (b = ij_binding j) (FetchError ''JOURNAL_BINDING''))) (\<lambda>_ j.
     case map_of (is_used (ij_state j)) (hexed (it_operation i)) of
       Some old \<Rightarrow>
         bindS (j, bindE (intent_digest i) (\<lambda>d.
             bindE (need (old = d) (FetchError ''OPERATION_ID_CONFLICT'')) (\<lambda>_.
               need (is_intent (ij_state j) = Some i \<and> is_phase (ij_state j) \<notin> {Ph_Retired, Ph_Abandoned}) (FetchError ''OPERATION_RETIRED''))))
           (\<lambda>_ j. ij_status pp j)
     | None \<Rightarrow>
         bindS (j, intent_bytes i) (\<lambda>raw j.
           ij_append pp (str_dict [(cps ''intent'', PStr (hexed raw)), (cps ''kind'', PStr (cps ''PREPARE''))]) w j)))"

definition ij_dispatch :: "'p pin_port \<Rightarrow> pystr \<Rightarrow> append_outcome \<Rightarrow> 'p intent_journal \<Rightarrow> 'p intent_journal \<times> intent_status res" where
  "ij_dispatch pp digest w j = ij_append pp (kind_payload ''DISPATCH'' (PStr digest)) w j"

definition ij_observe ::
  "'p pin_port \<Rightarrow> pystr \<Rightarrow> pyval \<Rightarrow> append_outcome \<Rightarrow> 'p intent_journal \<Rightarrow> 'p intent_journal \<times> intent_status res" where
  "ij_observe pp digest row w j =
     bindS (ij_audit pp j) (\<lambda>_ j.
     bindS (j, case is_intent (ij_state j) of
         None \<Rightarrow> Inl (FetchError ''INTENT_PIN'')
       | Some i \<Rightarrow> bindE (intent_digest i) (\<lambda>d. bindE (need (digest = d) (FetchError ''INTENT_PIN'')) (\<lambda>_. ai_check_receipt i row))) (\<lambda>_ j.
     if is_phase (ij_state j) = Ph_Observed then
       bindS (j, bindE (json_canonical row) (\<lambda>x. bindE (case is_receipt (ij_state j) of None \<Rightarrow> Inl TypeError | Some old \<Rightarrow> json_canonical old) (\<lambda>y.
           need (x = y) (FetchError ''RECEIPT_CONFLICT''))))
         (\<lambda>_ j. ij_status pp j)
     else ij_append pp (str_dict [(cps ''intentDigest'', PStr digest), (cps ''kind'', PStr (cps ''OBSERVE'')), (cps ''receipt'', row)]) w j))"

definition ij_retire :: "'p pin_port \<Rightarrow> pystr \<Rightarrow> append_outcome \<Rightarrow> 'p intent_journal \<Rightarrow> 'p intent_journal \<times> intent_status res" where
  "ij_retire pp digest w j = ij_append pp (kind_payload ''RETIRE'' (PStr digest)) w j"

definition ij_abandon :: "'p pin_port \<Rightarrow> pystr \<Rightarrow> append_outcome \<Rightarrow> 'p intent_journal \<Rightarrow> 'p intent_journal \<times> intent_status res" where
  "ij_abandon pp digest w j = ij_append pp (kind_payload ''ABANDON'' (PStr digest)) w j"

definition ij_close :: "'p intent_journal \<Rightarrow> 'p intent_journal" where
  "ij_close j = j\<lparr>ij_closed := True\<rparr>"

text \<open>Opening a directory against a pin, with an anchor, and creating one.\<close>

definition ij_open :: "bytes \<Rightarrow> journal_pin \<Rightarrow> intent_dir \<Rightarrow> 'p intent_journal res" where
  "ij_open binding expected d =
     bindE (check_binding binding) (\<lambda>b.
     bindE (ai_reload b expected d) (\<lambda>(st, pin).
       Inr \<lparr>ij_dir = d, ij_binding = b, ij_state = st, ij_pin = pin, ij_closed = False, ij_poisoned = False,
         ij_anchor = None, ij_anchor_pin = pin\<rparr>))"

text \<open>\<^verbatim>\<open>open_anchored\<close>: the anchor as the call leaves it, and the journal when it succeeds.\<close>

definition ij_open_anchored :: "'p pin_port \<Rightarrow> bytes \<Rightarrow> 'p \<Rightarrow> intent_dir \<Rightarrow> 'p \<times> 'p intent_journal res" where
  "ij_open_anchored pp binding a d =
     (case bindE (check_binding binding) (\<lambda>b.
        bindE (need (pp_binding pp a = b) (FetchError ''PIN_STORE_BINDING'')) (\<lambda>_.
        bindE (pp_load pp a) (\<lambda>expected.
        bindE (ij_open b expected d) (\<lambda>j. Inr (j\<lparr>ij_anchor := Some a, ij_anchor_pin := expected\<rparr>))))) of
       Inl e \<Rightarrow> (a, Inl e)
     | Inr j \<Rightarrow> (case sync_anchor pp j of
         (j', Inl e) \<Rightarrow> (the (ij_anchor j'), Inl e)
       | (j', Inr _) \<Rightarrow> (the (ij_anchor j'), Inr j')))"

definition new_dir :: "bytes \<Rightarrow> bytes \<Rightarrow> intent_dir res" where
  "new_dir generation binding =
     bindE (check_binding binding) (\<lambda>b.
     bindE (json_canonical (str_dict [(cps ''binding'', PStr (hexed b)), (cps ''generation'', PStr (hexed generation)), (cps ''profile'', PStr AI_PROFILE)])) (\<lambda>meta.
     bindE (save_new meta) (\<lambda>_.
       Inr \<lparr>dr_root_ok = True, dr_meta = meta, dr_names_ok = True, dr_events = []\<rparr>)))"

definition ij_create :: "bytes \<Rightarrow> bytes \<Rightarrow> 'p intent_journal res" where
  "ij_create generation binding =
     bindE (new_dir generation binding) (\<lambda>d.
       ij_open binding \<lparr>jp_meta = sha_hex (dr_meta d), jp_sequence = 0, jp_event = sha_hex (dr_meta d)\<rparr> d)"

section \<open>Coordinator\<close>

text \<open>
  What the coordinator uses of the application and its controller. The second argument of \<open>ap_authority\<close> and \<open>ap_inputs\<close>
  counts how often the call asked before.
\<close>

record 'a app_port =
  ap_binding :: "'a \<Rightarrow> bytes res"
  ap_command :: "'a \<Rightarrow> unit res"
  ap_arguments :: "'a \<Rightarrow> pyval \<Rightarrow> pyval \<Rightarrow> unit res"
  ap_authority :: "'a \<Rightarrow> nat \<Rightarrow> bytes res"
  ap_audit :: "'a \<Rightarrow> unit res"
  ap_inputs :: "'a \<Rightarrow> nat \<Rightarrow> bytes res"
  ap_scope :: "'a \<Rightarrow> pyval"
  ap_store :: "'a \<Rightarrow> pyval"
  ap_inbox :: "'a \<Rightarrow> pyval"
  ap_cert :: "'a \<Rightarrow> bytes"
  ap_targets :: "'a \<Rightarrow> bytes list"
  ap_generation :: "'a \<Rightarrow> int"
  ap_frontier :: "'a \<Rightarrow> int res"
  ap_engine :: "'a \<Rightarrow> unit res"
  ap_inquire :: "'a \<Rightarrow> bytes \<Rightarrow> bytes list \<Rightarrow> int \<Rightarrow> pyval option res"
  ap_apply :: "'a \<Rightarrow> bytes \<Rightarrow> bytes list \<Rightarrow> int \<Rightarrow> 'a \<times> pyval res"

text \<open>\<open>da_applied\<close> lists the intents handed to \<^verbatim>\<open>apply\<close>; the code has no such field.\<close>

record ('p, 'a) durable =
  da_journal :: "'p intent_journal"
  da_app :: 'a
  da_applied :: "intent list"

text \<open>The checks for cancellation and deadline in one call, whether its arguments are in range, and the outcomes of its appends.\<close>

record call_env =
  ce_arguments :: "unit res"
  ce_cancel :: "nat \<Rightarrow> unit res"
  ce_write :: append_outcome
  ce_write' :: append_outcome

record intent_result =
  ir_status :: intent_status
  ir_state :: string
  ir_reason :: "string option"
  ir_inquiry :: bool

definition intent_phase_name :: "intent_phase \<Rightarrow> string" where
  "intent_phase_name p = (case p of
     Ph_Empty \<Rightarrow> ''EMPTY'' | Ph_Prepared \<Rightarrow> ''PREPARED'' | Ph_Dispatched \<Rightarrow> ''DISPATCHED'' | Ph_Observed \<Rightarrow> ''OBSERVED''
   | Ph_Retired \<Rightarrow> ''RETIRED'' | Ph_Abandoned \<Rightarrow> ''ABANDONED'')"

text \<open>\<^verbatim>\<open>error_code\<close>: the code of an exception that has one of the form \<^verbatim>\<open>[A-Z_]{1,80}\<close>.\<close>

definition coded :: "exn \<Rightarrow> string option" where
  "coded e = (case e of
     WireError c _ \<Rightarrow> Some c | CryptoError c \<Rightarrow> Some c | AuthError c \<Rightarrow> Some c | StoreError c \<Rightarrow> Some c
   | RecoveryError c \<Rightarrow> Some c | ConnectivityError c \<Rightarrow> Some c | FileError c \<Rightarrow> Some c | EventError c \<Rightarrow> Some c
   | KeeperError c \<Rightarrow> Some c | FetchError c \<Rightarrow> Some c | ExchangeError c \<Rightarrow> Some c | InboxError c \<Rightarrow> Some c
   | SubscriptionError c \<Rightarrow> Some c | ContractError c \<Rightarrow> Some c | SharedChangeError c \<Rightarrow> Some c | LifecycleError c \<Rightarrow> Some c
   | ServiceError c \<Rightarrow> Some c | _ \<Rightarrow> None)"

definition error_code :: "exn \<Rightarrow> string" where
  "error_code e = (case coded e of
     Some c \<Rightarrow> if 1 \<le> length c \<and> length c \<le> 80 \<and> list_all (\<lambda>x. 65 \<le> x \<and> x \<le> 90 \<or> x = 95) (cps c) then c else ''FETCH_FAILED''
   | None \<Rightarrow> ''FETCH_FAILED'')"

definition on_journal ::
  "('p intent_journal \<Rightarrow> 'p intent_journal \<times> 'b res) \<Rightarrow> ('p, 'a) durable \<Rightarrow> ('p, 'a) durable \<times> 'b res" where
  "on_journal f d = (case f (da_journal d) of (j, r) \<Rightarrow> (d\<lparr>da_journal := j\<rparr>, r))"

text \<open>\<^verbatim>\<open>_enter\<close> of \<^verbatim>\<open>DurableApplication\<close> and, with the flag set, of \<^verbatim>\<open>AnchoredApplication\<close>.\<close>

definition da_enter :: "bool \<Rightarrow> 'p pin_port \<Rightarrow> 'a app_port \<Rightarrow> ('p, 'a) durable \<Rightarrow> ('p, 'a) durable \<times> unit res" where
  "da_enter anchored pp ap d =
     bindS (d, if anchored then bindE (ij_guard (da_journal d)) (\<lambda>_. need (ij_anchor (da_journal d) \<noteq> None) (FetchError ''PIN_STORE_REQUIRED''))
               else Inr ()) (\<lambda>_ d.
     bindS (d, bindE (ap_binding ap (da_app d)) (\<lambda>b. need (ij_binding (da_journal d) = b) (FetchError ''JOURNAL_BINDING''))) (\<lambda>_ d.
       on_journal (ij_audit pp) d))"

definition da_current :: "'p pin_port \<Rightarrow> 'a app_port \<Rightarrow> pystr \<Rightarrow> ('p, 'a) durable \<Rightarrow> ('p, 'a) durable \<times> intent res" where
  "da_current pp ap digest d =
     bindS (on_journal (ij_current pp) d) (\<lambda>i d. (d, case i of
       None \<Rightarrow> Inl (FetchError ''INTENT_PIN'')
     | Some i \<Rightarrow>
         bindE (intent_digest i) (\<lambda>dg. bindE (need (dg = digest) (FetchError ''INTENT_PIN'')) (\<lambda>_.
         bindE (need (it_targets i = ap_targets ap (da_app d)) (FetchError ''APPLICATION_TARGETS'')) (\<lambda>_. Inr i)))))"

definition da_result :: "'p pin_port \<Rightarrow> string option \<Rightarrow> string option \<Rightarrow> ('p, 'a) durable \<Rightarrow> ('p, 'a) durable \<times> intent_result res" where
  "da_result pp state reason d =
     bindS (on_journal (ij_status pp) d) (\<lambda>s d. (d, Inr
       \<lparr>ir_status = s, ir_state = (case state of None \<Rightarrow> intent_phase_name (ist_phase s) | Some x \<Rightarrow> x), ir_reason = reason,
         ir_inquiry = (ist_phase s \<in> {Ph_Dispatched, Ph_Observed})\<rparr>))"

definition da_authority :: "'a app_port \<Rightarrow> nat \<Rightarrow> ('p, 'a) durable \<Rightarrow> bytes res" where
  "da_authority ap k d = ap_authority ap (da_app d) k"

text \<open>\<^verbatim>\<open>prepare\<close>: the intent of the present view of the application.\<close>

definition view_intent :: "'a app_port \<Rightarrow> pyval \<Rightarrow> pyval \<Rightarrow> ('p, 'a) durable \<Rightarrow> intent res" where
  "view_intent ap op rv d = (let a = da_app d in
     bindE (ap_arguments ap a op rv) (\<lambda>_.
     bindE (ap_command ap a) (\<lambda>_.
     bindE (da_authority ap 0 d) (\<lambda>row.
     bindE (ap_audit ap a) (\<lambda>_.
     bindE (ap_inputs ap a 0) (\<lambda>pool.
       application_intent [ap_scope ap a, ap_store ap a, ap_inbox ap a, PBytes (sha256 (ap_cert ap a)), op, rv,
         PList (map PBytes (ap_targets ap a)), PBytes row, PBytes pool, PInt (ap_generation ap a)]))))))"

definition unclaimed :: "'a app_port \<Rightarrow> intent \<Rightarrow> ('p, 'a) durable \<Rightarrow> unit res" where
  "unclaimed ap i d = (let a = da_app d in
     bindE (ap_inquire ap a (it_operation i) (ap_targets ap a) (it_revision i)) (\<lambda>row.
     bindE (need (row = None) (FetchError ''OPERATION_ALREADY_COMMITTED'')) (\<lambda>_.
     bindE (ap_frontier ap a) (\<lambda>f. bindE (need (f = it_revision i) (FetchError ''STALE_FRONTIER'')) (\<lambda>_.
     bindE (da_authority ap 1 d) (\<lambda>row. need (row = it_authority i) (FetchError ''OWNER_STATE_CHANGED'')))))))"

definition da_prepare ::
  "bool \<Rightarrow> 'p pin_port \<Rightarrow> 'a app_port \<Rightarrow> pyval \<Rightarrow> pyval \<Rightarrow> call_env \<Rightarrow> ('p, 'a) durable \<Rightarrow> ('p, 'a) durable \<times> intent_result res" where
  "da_prepare anchored pp ap op rv en d =
     bindS (da_enter anchored pp ap d) (\<lambda>_ d.
     bindS (d, view_intent ap op rv d) (\<lambda>i d.
     bindS (on_journal (ij_current pp) d) (\<lambda>act d.
     bindS (if act = None then (d, Inr False)
            else bindS (on_journal (ij_status pp) d) (\<lambda>s d. (d, Inr (ist_phase s \<notin> {Ph_Retired, Ph_Abandoned})))) (\<lambda>busy d.
     bindS (d, if busy then Inr () else unclaimed ap i d) (\<lambda>_ d.
     bindS (on_journal (ij_prepare pp i (ce_write en)) d) (\<lambda>_ d. da_result pp None None d))))))"

text \<open>\<^verbatim>\<open>execute\<close>: its checks, the block before the dispatch is recorded, the block after it and the handler of both.\<close>

definition unchanged :: "'a app_port \<Rightarrow> nat \<Rightarrow> intent \<Rightarrow> ('p, 'a) durable \<Rightarrow> unit res" where
  "unchanged ap k i d =
     bindE (da_authority ap k d) (\<lambda>row.
     bindE (need (row = it_authority i) (FetchError ''OWNER_STATE_CHANGED'')) (\<lambda>_.
     bindE (ap_inputs ap (da_app d) k) (\<lambda>pool. need (pool = it_input i) (FetchError ''INPUTS_CHANGED''))))"

definition executable :: "'p pin_port \<Rightarrow> 'a app_port \<Rightarrow> intent \<Rightarrow> call_env \<Rightarrow> ('p, 'a) durable \<Rightarrow> ('p, 'a) durable \<times> unit res" where
  "executable pp ap i en d =
     bindS (on_journal (ij_status pp) d) (\<lambda>s d. (d,
       bindE (need (ist_phase s = Ph_Prepared) (FetchError ''INQUIRY_REQUIRED'')) (\<lambda>_.
       bindE (ce_arguments en) (\<lambda>_.
       bindE (ap_command ap (da_app d)) (\<lambda>_.
       bindE (need (ap_generation ap (da_app d) = it_connection i) (FetchError ''STALE_GENERATION'')) (\<lambda>_.
         unchanged ap 0 i d))))))"

definition before_dispatch ::
  "'p pin_port \<Rightarrow> 'a app_port \<Rightarrow> pystr \<Rightarrow> call_env \<Rightarrow> ('p, 'a) durable \<Rightarrow> ('p, 'a) durable \<times> unit res" where
  "before_dispatch pp ap digest en d =
     bindS (d, bindE (ce_cancel en 0) (\<lambda>_. ap_engine ap (da_app d))) (\<lambda>_ d.
     bindS (on_journal (ij_dispatch pp digest (ce_write en)) d) (\<lambda>_ d. (d, Inr ())))"

definition call_apply :: "'a app_port \<Rightarrow> intent \<Rightarrow> ('p, 'a) durable \<Rightarrow> ('p, 'a) durable \<times> pyval res" where
  "call_apply ap i d = (case ap_apply ap (da_app d) (it_operation i) (it_targets i) (it_revision i) of
     (a, r) \<Rightarrow> (d\<lparr>da_app := a, da_applied := da_applied d @ [i]\<rparr>, r))"

definition after_dispatch ::
  "'p pin_port \<Rightarrow> 'a app_port \<Rightarrow> intent \<Rightarrow> pystr \<Rightarrow> call_env \<Rightarrow> ('p, 'a) durable \<Rightarrow> ('p, 'a) durable \<times> intent_result res" where
  "after_dispatch pp ap i digest en d =
     bindS (d, bindE (ce_cancel en 1) (\<lambda>_. unchanged ap 1 i d)) (\<lambda>_ d.
     bindS (call_apply ap i d) (\<lambda>row d.
     bindS (d, bindE (ce_cancel en 2) (\<lambda>_. bindE (da_authority ap 2 d) (\<lambda>_. ai_check_receipt i row))) (\<lambda>_ d.
     bindS (on_journal (ij_observe pp digest row (ce_write' en)) d) (\<lambda>_ d.
     bindS (d, bindE (ce_cancel en 3) (\<lambda>_. da_authority ap 3 d)) (\<lambda>_ d.
       da_result pp (Some ''OBSERVED_APPLICATION_RECORD'') None d)))))"

definition CORE_CODES :: "string list" where
  "CORE_CODES = [''CORE_UNAVAILABLE'', ''CORE_NOT_REAL'', ''CORE_RUNTIME_CHANGED'', ''CORE_IDENTITY_CHANGED'', ''CORE_TIMEOUT'']"

text \<open>\<^verbatim>\<open>except\<close>: a poisoned journal cannot give a status, so the error goes to the caller.\<close>

definition rescue ::
  "'p pin_port \<Rightarrow> (string \<Rightarrow> string) \<Rightarrow> ('p, 'a) durable \<times> intent_result res \<Rightarrow> ('p, 'a) durable \<times> intent_result res" where
  "rescue pp state m = (case m of
     (d, Inl e) \<Rightarrow> if ij_poisoned (da_journal d) then (d, Inl e) else da_result pp (Some (state (error_code e))) (Some (error_code e)) d
   | (d, Inr x) \<Rightarrow> (d, Inr x))"

definition rejected :: "string \<Rightarrow> string" where
  "rejected code = (if code \<in> set CORE_CODES then ''CORE_BLOCKED'' else if code = ''CANCELLED'' then ''CANCELLED'' else ''REJECTED'')"

definition da_execute ::
  "bool \<Rightarrow> 'p pin_port \<Rightarrow> 'a app_port \<Rightarrow> pystr \<Rightarrow> call_env \<Rightarrow> ('p, 'a) durable \<Rightarrow> ('p, 'a) durable \<times> intent_result res" where
  "da_execute anchored pp ap digest en d =
     bindS (da_enter anchored pp ap d) (\<lambda>_ d.
     bindS (da_current pp ap digest d) (\<lambda>i d.
     bindS (executable pp ap i en d) (\<lambda>_ d. case before_dispatch pp ap digest en d of
       (d, Inl e) \<Rightarrow> rescue pp rejected (d, Inl e)
     | (d, Inr _) \<Rightarrow> rescue pp (\<lambda>_. ''OUTCOME_UNKNOWN'') (after_dispatch pp ap i digest en d))))"

definition inquiry ::
  "'p pin_port \<Rightarrow> 'a app_port \<Rightarrow> intent \<Rightarrow> pystr \<Rightarrow> call_env \<Rightarrow> ('p, 'a) durable \<Rightarrow> ('p, 'a) durable \<times> intent_result res" where
  "inquiry pp ap i digest en d =
     bindS (d, bindE (da_authority ap 0 d) (\<lambda>_. bindE (ap_inquire ap (da_app d) (it_operation i) (it_targets i) (it_revision i)) (\<lambda>row.
       bindE (da_authority ap 1 d) (\<lambda>_. Inr row)))) (\<lambda>row d. case row of
       None \<Rightarrow>
         bindS (on_journal (ij_status pp) d) (\<lambda>s d.
         bindS (d, need (ist_receipt s = None) (FetchError ''RECEIPT_CONFLICT'')) (\<lambda>_ d.
           da_result pp (Some ''NOT_OBSERVED'') None d))
     | Some row \<Rightarrow>
         bindS (d, ai_check_receipt i row) (\<lambda>_ d.
         bindS (on_journal (ij_status pp) d) (\<lambda>s d.
         bindS (d, need (ist_phase s \<in> {Ph_Dispatched, Ph_Observed, Ph_Retired}) (FetchError ''UNEXPECTED_APPLICATION_RECORD'')) (\<lambda>_ d.
         bindS (if ist_phase s \<noteq> Ph_Retired
                then bindS (on_journal (ij_observe pp digest row (ce_write en)) d) (\<lambda>_ d. (d, Inr ()))
                else (d, bindE (json_canonical row) (\<lambda>x.
                  bindE (case ist_receipt s of None \<Rightarrow> Inl TypeError | Some old \<Rightarrow> json_canonical old) (\<lambda>y.
                    need (x = y) (FetchError ''RECEIPT_CONFLICT''))))) (\<lambda>_ d.
         bindS (d, da_authority ap 2 d) (\<lambda>_ d.
           da_result pp (Some ''OBSERVED_APPLICATION_RECORD'') None d))))))"

definition da_inquire ::
  "bool \<Rightarrow> 'p pin_port \<Rightarrow> 'a app_port \<Rightarrow> pystr \<Rightarrow> call_env \<Rightarrow> ('p, 'a) durable \<Rightarrow> ('p, 'a) durable \<times> intent_result res" where
  "da_inquire anchored pp ap digest en d =
     bindS (da_enter anchored pp ap d) (\<lambda>_ d.
     bindS (da_current pp ap digest d) (\<lambda>i d. rescue pp (\<lambda>_. ''INQUIRY_FAILED'') (inquiry pp ap i digest en d)))"

definition da_retire ::
  "bool \<Rightarrow> 'p pin_port \<Rightarrow> 'a app_port \<Rightarrow> pystr \<Rightarrow> call_env \<Rightarrow> ('p, 'a) durable \<Rightarrow> ('p, 'a) durable \<times> intent_result res" where
  "da_retire anchored pp ap digest en d =
     bindS (da_enter anchored pp ap d) (\<lambda>_ d.
     bindS (da_current pp ap digest d) (\<lambda>_ d.
     bindS (on_journal (ij_status pp) d) (\<lambda>s d.
     bindS (d, need (ist_phase s = Ph_Observed) (FetchError ''RECEIPT_REQUIRED'')) (\<lambda>_ d.
     bindS (da_inquire anchored pp ap digest en d) (\<lambda>v d.
     bindS (d, bindE (need (ir_state v = ''OBSERVED_APPLICATION_RECORD'') (FetchError ''RECEIPT_REQUIRED'')) (\<lambda>_. da_authority ap 3 d)) (\<lambda>_ d.
     bindS (on_journal (ij_retire pp digest (ce_write' en)) d) (\<lambda>_ d. da_result pp None None d)))))))"

definition da_abandon ::
  "bool \<Rightarrow> 'p pin_port \<Rightarrow> 'a app_port \<Rightarrow> pystr \<Rightarrow> call_env \<Rightarrow> ('p, 'a) durable \<Rightarrow> ('p, 'a) durable \<times> intent_result res" where
  "da_abandon anchored pp ap digest en d =
     bindS (da_enter anchored pp ap d) (\<lambda>_ d.
     bindS (da_current pp ap digest d) (\<lambda>_ d.
     bindS (d, da_authority ap 0 d) (\<lambda>_ d.
     bindS (on_journal (ij_abandon pp digest (ce_write en)) d) (\<lambda>_ d. da_result pp None None d))))"

end
