(* ===== verification/ControlWire.thy ===== *)
theory ControlWire
  imports Scheduler Intents
begin

text \<open>
  The control protocol of \<^verbatim>\<open>par_job_control/protocol.py\<close> (prefix \<open>jc_\<close>): a hello that names the controller in force and the revision of
  the policy, an intent that a controller signs once and may send again on another connection, the request that carries it on one
  connection, and the response with a view of the job and the host. A view is a dictionary with strings as keys, sent as canonical JSON;
  its strings are ASCII, so \<^verbatim>\<open>ensure_ascii\<close> makes no difference and \<open>json_canonical\<close> prints it.
\<close>

section \<open>Envelopes\<close>

definition JC_PROFILE :: pyval where "JC_PROFILE = PStr (cps ''host-job-control-local-v1'')"
definition JC_MAX_REQUEST :: int where "JC_MAX_REQUEST = 16384"
definition JC_MAX_RESPONSE :: int where "JC_MAX_RESPONSE = 65536"
definition MAX_INTENT :: int where "MAX_INTENT = 2048"
definition MAX_REVISION :: int where "MAX_REVISION = 2 ^ 53 - 1"
definition JC_MUTATIONS :: "string list" where "JC_MUTATIONS = [''select'', ''cancel'', ''reconcile'', ''retry'']"
definition JC_ACTIONS :: "string list" where "JC_ACTIONS = ''status'' # JC_MUTATIONS"
definition JC_ERRORS :: "string list" where
  "JC_ERRORS = [''REJECTED'', ''INTERNAL'', ''CONTROL_UNCERTAIN'', ''STALE_CONTROLLER'', ''CAPACITY'']"

definition jc_digest :: "pyval \<Rightarrow> bytes res" where
  "jc_digest raw = hashed ''host-job-control/bytes'' [raw]"

definition jc_sign :: "sodium \<Rightarrow> bytes \<Rightarrow> string \<Rightarrow> pyval \<Rightarrow> int \<Rightarrow> bytes res" where
  "jc_sign n seed label body limit = env_signed sp_error limit ''host-job-control/'' n seed label body"

definition jc_split :: "pyval \<Rightarrow> int \<Rightarrow> (pyval \<times> pyval) res" where
  "jc_split raw limit = env_split (ServiceError ''FRAME_LIMIT'') sp_error limit raw"

definition jc_verify :: "sodium \<Rightarrow> pyval \<Rightarrow> pyval \<Rightarrow> string \<Rightarrow> unit res" where
  "jc_verify n public o' label =
     bindE (sp_fixed public 32) (\<lambda>_. env_verify (ServiceError ''CONTROL_SIGNATURE'') ''host-job-control/'' n public o' label)"

definition jc_version :: "pyval \<Rightarrow> unit res" where
  "jc_version b =
     bindE (bindE (item_at b 0) (\<lambda>x. sp_integer x 1 1)) (\<lambda>_. field_is (ServiceError ''CONTROL_PROFILE'') b 1 JC_PROFILE)"

section \<open>Hello\<close>

definition hello_shape :: "pyval \<Rightarrow> unit res" where
  "hello_shape b =
     bindE (sp_keys b (key_range 11)) (\<lambda>_.
     bindE (jc_version b) (\<lambda>_.
     bindE (each_sized sp_error b [2, 3, 4, 5]) (\<lambda>_.
     bindE (bindE (item_at b 6) (\<lambda>x. if x = PNone then Inr () else sp_fixed x 32)) (\<lambda>_.
     bindE (bindE (item_at b 7) (\<lambda>x. sp_integer x 1 MAX_REVISION)) (\<lambda>_.
     bindE (bindE (item_at b 8) (\<lambda>x. sp_integer x 50 30000)) (\<lambda>_.
     bindE (bindE (item_at b 9) (\<lambda>x. sp_integer x JC_MAX_REQUEST JC_MAX_REQUEST)) (\<lambda>_.
       bindE (item_at b 10) (\<lambda>x. sp_integer x JC_MAX_RESPONSE JC_MAX_RESPONSE))))))))"

definition jc_make_hello :: "sodium \<Rightarrow> bytes \<Rightarrow> pyval \<Rightarrow> pyval \<Rightarrow> pyval \<Rightarrow> pyval \<Rightarrow> pyval \<Rightarrow> pyval \<Rightarrow> bytes res" where
  "jc_make_hello n seed store controller revision boot challenge deadline_ms =
     bindE (p_sign_public n seed) (\<lambda>pk.
     let b = mk_dict [(0, PInt 1), (1, JC_PROFILE), (2, PBytes pk), (3, store), (4, boot), (5, challenge), (6, controller), (7, revision),
       (8, deadline_ms), (9, PInt JC_MAX_REQUEST), (10, PInt JC_MAX_RESPONSE)] in
     bindE (hello_shape b) (\<lambda>_. jc_sign n seed ''hello'' b MAX_HELLO))"

definition jc_check_hello :: "sodium \<Rightarrow> pyval \<Rightarrow> pyval \<Rightarrow> pyval \<Rightarrow> pyval \<Rightarrow> pyval \<Rightarrow> pyval res" where
  "jc_check_hello n keeper store controller revision raw =
     bindE (allE (\<lambda>v. sp_fixed v 32) [keeper, store, controller]) (\<lambda>_.
     bindE (sp_integer revision 1 MAX_REVISION) (\<lambda>_.
     bindE (jc_split raw MAX_HELLO) (\<lambda>(b, o').
     bindE (hello_shape b) (\<lambda>_.
     bindE (jc_verify n keeper o' ''hello'') (\<lambda>_.
     bindE (mapE (item_at b) [2, 3, 6, 7]) (\<lambda>xs.
     bindE (need (xs = [keeper, store, controller, revision]) (ServiceError ''CONTROL_PEER'')) (\<lambda>_.
       Inr b)))))))"

section \<open>Intents\<close>

record control_intent =
  ci_action :: pystr
  ci_job :: "bytes option"
  ci_operation :: bytes
  ci_controller :: bytes
  ci_revision :: int
  ci_raw :: bytes

definition intent_shape :: "pyval \<Rightarrow> unit res" where
  "intent_shape b =
     bindE (sp_keys b (key_range 9)) (\<lambda>_.
     bindE (jc_version b) (\<lambda>_.
     bindE (each_sized sp_error b [2, 3, 4, 6]) (\<lambda>_.
     bindE (bindE (item_at b 5) (\<lambda>x. sp_integer x 1 MAX_REVISION)) (\<lambda>_.
     bindE (field_in (ServiceError ''CONTROL_METHOD'') b 7 JC_ACTIONS) (\<lambda>_.
     bindE (item_at b 8) (\<lambda>job.
       if job = PNone then field_is (ServiceError ''CONTROL_JOB'') b 7 (PStr (cps ''status''))
       else sp_fixed job 32))))))"

definition intent_body :: "pyval \<Rightarrow> pyval \<Rightarrow> pyval \<Rightarrow> pyval \<Rightarrow> pyval \<Rightarrow> pyval \<Rightarrow> pyval \<Rightarrow> pyval" where
  "intent_body keeper store controller revision operation action job =
     mk_dict [(0, PInt 1), (1, JC_PROFILE), (2, keeper), (3, store), (4, controller), (5, revision), (6, operation), (7, action), (8, job)]"

definition jc_make_intent :: "sodium \<Rightarrow> bytes \<Rightarrow> pyval \<Rightarrow> pyval \<Rightarrow> pyval \<Rightarrow> pyval \<Rightarrow> pyval \<Rightarrow> pyval \<Rightarrow> bytes res" where
  "jc_make_intent n seed keeper store revision operation action job =
     bindE (p_sign_public n seed) (\<lambda>pk.
     let b = intent_body keeper store (PBytes pk) revision operation action job in
     bindE (intent_shape b) (\<lambda>_. jc_sign n seed ''intent'' b MAX_INTENT))"

text \<open>The dataclass of a body that has the shape.\<close>

definition intent_of :: "pyval \<Rightarrow> bytes \<Rightarrow> control_intent res" where
  "intent_of b raw =
     bindE (bindE (item_at b 7) str_of) (\<lambda>action.
     bindE (item_at b 8) (\<lambda>job.
     bindE (bytes_at b 6) (\<lambda>operation. bindE (bytes_at b 4) (\<lambda>controller. bindE (item_at b 5) (\<lambda>revision.
       Inr \<lparr>ci_action = action, ci_job = (case job of PBytes j \<Rightarrow> Some j | _ \<Rightarrow> None), ci_operation = operation,
         ci_controller = controller, ci_revision = int_of revision, ci_raw = raw\<rparr>)))))"

definition inspect_intent :: "sodium \<Rightarrow> pyval \<Rightarrow> (pyval \<times> control_intent) res" where
  "inspect_intent n raw =
     bindE (jc_split raw MAX_INTENT) (\<lambda>(b, o').
     bindE (intent_shape b) (\<lambda>_.
     bindE (bindE (item_at b 4) (\<lambda>pk. jc_verify n pk o' ''intent'')) (\<lambda>_.
     bindE (bindE (as_bytes raw) (intent_of b)) (\<lambda>i.
       Inr (b, i)))))"

definition jc_check_intent :: "sodium \<Rightarrow> pyval \<Rightarrow> pyval \<Rightarrow> pyval \<Rightarrow> pyval \<Rightarrow> pyval \<Rightarrow> control_intent res" where
  "jc_check_intent n keeper store controller revision raw =
     bindE (allE (\<lambda>v. sp_fixed v 32) [keeper, store, controller]) (\<lambda>_.
     bindE (sp_integer revision 1 MAX_REVISION) (\<lambda>_.
     bindE (inspect_intent n raw) (\<lambda>(b, i).
     bindE (mapE (item_at b) [2, 3, 4, 5]) (\<lambda>xs.
     bindE (need (xs = [keeper, store, controller, revision]) (ServiceError ''STALE_CONTROLLER'')) (\<lambda>_.
       Inr i)))))"

section \<open>Requests\<close>

definition jc_make_request :: "sodium \<Rightarrow> bytes \<Rightarrow> pyval \<Rightarrow> pyval \<Rightarrow> bytes res" where
  "jc_make_request n seed hello intent =
     bindE (inspect_intent n intent) (\<lambda>(b, i).
     bindE (p_sign_public n seed) (\<lambda>pk.
     bindE (need (pk = ci_controller i) (ServiceError ''CONTROL_SIGNATURE'')) (\<lambda>_.
     bindE (item_at b 2) (\<lambda>b2. bindE (item_at b 3) (\<lambda>b3.
     bindE (jc_check_hello n b2 b3 (PBytes (ci_controller i)) (PInt (ci_revision i)) hello) (\<lambda>_.
     bindE (jc_digest hello) (\<lambda>d.
       jc_sign n seed ''request'' (mk_dict [(0, PInt 1), (1, JC_PROFILE), (2, PBytes d), (3, intent)]) JC_MAX_REQUEST)))))))"

definition jc_check_request :: "sodium \<Rightarrow> pyval \<Rightarrow> pyval \<Rightarrow> pyval \<Rightarrow> pyval \<Rightarrow> pyval \<Rightarrow> pyval \<Rightarrow> control_intent res" where
  "jc_check_request n keeper store controller revision hello raw =
     bindE (jc_check_hello n keeper store controller revision hello) (\<lambda>_.
     bindE (jc_split raw JC_MAX_REQUEST) (\<lambda>(b, o').
     bindE (sp_keys b (key_range 4)) (\<lambda>_.
     bindE (jc_version b) (\<lambda>_.
     bindE (each_sized sp_error b [2]) (\<lambda>_.
     bindE (jc_digest hello) (\<lambda>d.
     bindE (field_is (ServiceError ''CONTROL_CONNECTION'') b 2 (PBytes d)) (\<lambda>_.
     bindE (bindE (item_at b 3) (jc_check_intent n keeper store controller revision)) (\<lambda>i.
     bindE (jc_verify n controller o' ''request'') (\<lambda>_.
       Inr i)))))))))"

section \<open>Views\<close>

abbreviation view_error :: exn where "view_error \<equiv> ServiceError ''CONTROL_VIEW''"

definition JOB_STATES :: "string list" where
  "JOB_STATES = [''QUEUED'', ''VALIDATED'', ''PREPARED'', ''OUTCOME_UNKNOWN'', ''RETRY_READY'', ''SUCCEEDED'', ''CANCELLED'']"

definition view_keys :: "string list" where
  "view_keys = [''operation_id'', ''action'', ''job_id'', ''outcome'', ''error'', ''duplicate'', ''job'', ''host'', ''jobs_pin'', ''control_pin'',
     ''policy_revision'', ''product_qualified'']"

definition host_keys :: "string list" where
  "host_keys = [''mode'', ''selected_job'', ''connections'', ''reader_pins'', ''read_accepting'', ''upload_accepting'', ''fault'', ''effect_steps'',
     ''native_storage_preemption'']"

definition job_keys :: "string list" where
  "job_keys = [''job_id'', ''action'', ''state'', ''journal_state'', ''revision'', ''input_digest'', ''target_sequence'', ''cancellable'',
     ''may_have_effect'', ''requires_reconciliation'', ''explicit_retry_required'', ''result_verified'', ''result_digest'', ''waiting_reason'',
     ''progress_total'', ''product_qualified'']"

text \<open>\<^verbatim>\<open>v[k]\<close> for a string, the tests of one value, and the two regular expressions of the module.\<close>

definition str_at :: "pyval \<Rightarrow> string \<Rightarrow> pyval res" where
  "str_at v k = (case sget v k of None \<Rightarrow> Inl KeyError | Some x \<Rightarrow> Inr x)"

definition hx :: "pyval \<Rightarrow> unit res" where
  "hx v = need (hex_string v 64) view_error"

definition fault_name :: "pyval \<Rightarrow> bool" where
  "fault_name v = (case v of
     PStr s \<Rightarrow> 1 \<le> length s \<and> length s \<le> 64 \<and> list_all (\<lambda>c. 65 \<le> c \<and> c \<le> 90 \<or> c = 95) s
   | _ \<Rightarrow> False)"

definition pin_text :: "pyval \<Rightarrow> bool" where
  "pin_text v = (case v of PStr s \<Rightarrow> length s \<le> 40000 \<and> even (length s) \<and> s \<noteq> [] \<and> list_all hex_char s | _ \<Rightarrow> False)"

definition or_none :: "(pyval \<Rightarrow> bool) \<Rightarrow> pyval \<Rightarrow> bool" where
  "or_none p v \<longleftrightarrow> v = PNone \<or> p v"

definition field_ok :: "pyval \<Rightarrow> string \<Rightarrow> (pyval \<Rightarrow> bool) \<Rightarrow> unit res" where
  "field_ok v k p = bindE (str_at v k) (\<lambda>x. need (p x) view_error)"

definition field_int :: "pyval \<Rightarrow> int \<Rightarrow> string \<Rightarrow> unit res" where
  "field_int v lo k = bindE (str_at v k) (\<lambda>x. sp_integer x lo MAX_REVISION)"

text \<open>\<^verbatim>\<open>v[k] != (c)\<close> where the field was tested to be a boolean.\<close>

definition field_flag :: "pyval \<Rightarrow> string \<Rightarrow> bool \<Rightarrow> unit res" where
  "field_flag v k c = field_ok v k (\<lambda>x. x = PBool c)"

definition host_shape :: "pyval \<Rightarrow> unit res" where
  "host_shape host =
     bindE (need (has_keys host host_keys) view_error) (\<lambda>_.
     bindE (field_ok host ''mode'' (error_name [''SERVING'', ''DRAINING'', ''REVIEW_REQUIRED''])) (\<lambda>_.
     bindE (field_ok host ''selected_job'' (or_none (\<lambda>x. hex_string x 64))) (\<lambda>_.
     bindE (allE (field_int host 0) [''connections'', ''reader_pins'', ''effect_steps'']) (\<lambda>_.
     bindE (allE (\<lambda>k. field_ok host k is_bool) [''read_accepting'', ''upload_accepting'']) (\<lambda>_.
     bindE (field_ok host ''native_storage_preemption'' (\<lambda>x. x = PBool False)) (\<lambda>_.
       field_ok host ''fault'' (or_none fault_name)))))))"

definition job_shape_view :: "pyval \<Rightarrow> pyval \<Rightarrow> unit res" where
  "job_shape_view job_id j =
     bindE (need (has_keys j job_keys) view_error) (\<lambda>_.
     bindE (field_ok j ''job_id'' (\<lambda>x. x = job_id)) (\<lambda>_.
     bindE (field_ok j ''state'' (error_name JOB_STATES)) (\<lambda>_.
     bindE (field_ok j ''journal_state'' (error_name (JOB_STATES @ [''EXECUTING'']))) (\<lambda>_.
     bindE (field_ok j ''action'' (error_name MJ_ACTIONS)) (\<lambda>_.
     bindE (allE (field_int j 0) [''revision'', ''target_sequence'']) (\<lambda>_.
     bindE (bindE (str_at j ''input_digest'') hx) (\<lambda>_.
     bindE (field_ok j ''result_digest'' (or_none (\<lambda>x. hex_string x 64))) (\<lambda>_.
     bindE (allE (\<lambda>k. field_ok j k is_bool)
       [''cancellable'', ''may_have_effect'', ''requires_reconciliation'', ''explicit_retry_required'', ''result_verified'']) (\<lambda>_.
     bindE (field_ok j ''product_qualified'' (\<lambda>x. x = PBool False)) (\<lambda>_.
     bindE (field_ok j ''progress_total'' (\<lambda>x. x = PNone)) (\<lambda>_.
     bindE (field_ok j ''waiting_reason'' (or_none (\<lambda>x. x = PStr (cps ''ACTIVE_TRANSFERS'')))) (\<lambda>_.
     bindE (str_at j ''state'') (\<lambda>state. bindE (str_at j ''journal_state'') (\<lambda>journal. bindE (str_at j ''result_digest'') (\<lambda>result.
     bindE (field_flag j ''result_verified'' (state = PStr (cps ''SUCCEEDED''))) (\<lambda>_.
     bindE (field_flag j ''result_verified'' (result \<noteq> PNone)) (\<lambda>_.
     bindE (field_flag j ''cancellable'' (error_name CANCELLABLE state)) (\<lambda>_.
     bindE (need (state = (if journal = PStr (cps ''EXECUTING'') then PStr (cps ''OUTCOME_UNKNOWN'') else journal)) view_error) (\<lambda>_.
     bindE (field_flag j ''requires_reconciliation'' (error_name [''EXECUTING'', ''OUTCOME_UNKNOWN''] journal)) (\<lambda>_.
       field_flag j ''explicit_retry_required'' (state = PStr (cps ''RETRY_READY''))))))))))))))))))))))"

definition view_shape :: "pyval \<Rightarrow> unit res" where
  "view_shape v =
     bindE (need (has_keys v view_keys) view_error) (\<lambda>_.
     bindE (bindE (str_at v ''operation_id'') hx) (\<lambda>_.
     bindE (field_ok v ''job_id'' (or_none (\<lambda>x. hex_string x 64))) (\<lambda>_.
     bindE (field_ok v ''action'' (error_name JC_ACTIONS)) (\<lambda>_.
     bindE (field_ok v ''outcome'' (error_name [''STATUS'', ''ACCEPTED'', ''REJECTED'', ''OUTCOME_UNKNOWN''])) (\<lambda>_.
     bindE (field_ok v ''duplicate'' is_bool) (\<lambda>_.
     bindE (field_ok v ''product_qualified'' (\<lambda>x. x = PBool False)) (\<lambda>_.
     bindE (field_ok v ''error'' (or_none fault_name)) (\<lambda>_.
     bindE (str_at v ''outcome'') (\<lambda>outcome. bindE (str_at v ''error'') (\<lambda>error.
     bindE (need ((outcome = PStr (cps ''REJECTED'')) = (error \<noteq> PNone)) view_error) (\<lambda>_.
     bindE (field_int v 1 ''policy_revision'') (\<lambda>_.
     bindE (allE (\<lambda>k. field_ok v k pin_text) [''jobs_pin'', ''control_pin'']) (\<lambda>_.
     bindE (bindE (str_at v ''host'') host_shape) (\<lambda>_.
     bindE (str_at v ''job'') (\<lambda>j. bindE (str_at v ''job_id'') (\<lambda>job_id. bindE (str_at v ''action'') (\<lambda>action.
       if job_id = PNone then need (j = PNone \<and> action = PStr (cps ''status'')) view_error
       else job_shape_view job_id j)))))))))))))))))"

section \<open>Responses\<close>

definition view_bytes :: "pyval \<Rightarrow> bytes res" where
  "view_bytes v = any_to view_error (json_canonical v)"

definition jc_make_response :: "sodium \<Rightarrow> bytes \<Rightarrow> pyval \<Rightarrow> pyval \<Rightarrow> bool \<Rightarrow> pyval \<Rightarrow> bytes res" where
  "jc_make_response n seed hello request ok v =
     bindE (if ok then bindE (view_shape v) (\<lambda>_. bindE (view_bytes v) (\<lambda>raw. Inr (PBytes raw)))
            else bindE (need (error_name JC_ERRORS v) view_error) (\<lambda>_. Inr v)) (\<lambda>x.
     bindE (jc_digest hello) (\<lambda>h. bindE (jc_digest request) (\<lambda>r.
       jc_sign n seed ''response'' (response_body JC_PROFILE h r ok x) JC_MAX_RESPONSE)))"

text \<open>The value of a response that reports success: a view in its canonical text, for the intent of the request.\<close>

definition response_view :: "sodium \<Rightarrow> pyval \<Rightarrow> pyval \<Rightarrow> pyval res" where
  "response_view n request x =
     bindE (case x of PBytes raw \<Rightarrow> (case json_loads raw of None \<Rightarrow> Inl view_error | Some v \<Rightarrow> Inr v) | _ \<Rightarrow> Inl view_error) (\<lambda>v.
     bindE (view_shape v) (\<lambda>_.
     bindE (view_bytes v) (\<lambda>again.
     bindE (need (PBytes again = x) view_error) (\<lambda>_.
     bindE (jc_split request JC_MAX_REQUEST) (\<lambda>(r, _).
     bindE (bindE (item_at r 3) (inspect_intent n)) (\<lambda>(_, i).
     bindE (mapE (str_at v) [''operation_id'', ''action'', ''job_id'', ''policy_revision'']) (\<lambda>xs.
     bindE (need (xs = [PStr (hexed (ci_operation i)), PStr (ci_action i),
         (case ci_job i of None \<Rightarrow> PNone | Some j \<Rightarrow> PStr (hexed j)), PInt (ci_revision i)]) (ServiceError ''CONTROL_RESPONSE'')) (\<lambda>_.
       Inr v))))))))"

definition jc_check_response :: "sodium \<Rightarrow> pyval \<Rightarrow> pyval \<Rightarrow> pyval \<Rightarrow> pyval \<Rightarrow> pyval res" where
  "jc_check_response n keeper hello request raw =
     bindE (jc_split raw JC_MAX_RESPONSE) (\<lambda>(b, o').
     bindE (sp_keys b (key_range 7)) (\<lambda>_.
     bindE (jc_version b) (\<lambda>_.
     bindE (jc_verify n keeper o' ''response'') (\<lambda>_.
     bindE (jc_digest hello) (\<lambda>h. bindE (jc_digest request) (\<lambda>r.
     bindE (mapE (item_at b) [2, 3, 4, 5, 6]) (\<lambda>xs.
     bindE (need (is_bool (xs ! 2) \<and> xs ! 4 = PBool False \<and> take 2 xs = [PBytes h, PBytes r]) (ServiceError ''CONTROL_RESPONSE'')) (\<lambda>_.
       if xs ! 2 = PBool False then
         (case xs ! 3 of
            PStr s \<Rightarrow> if s \<in> set (map cps JC_ERRORS) then Inl (ServiceError (''REMOTE_'' @ map char_of s)) else Inl view_error
          | _ \<Rightarrow> Inl view_error)
       else response_view n request (xs ! 3)))))))))"

end
