(* ===== verification/Control.thy ===== *)
theory Control
  imports ControlWire
begin

text \<open>
  The durable control ledger of \<^verbatim>\<open>par_job_control/journal.py\<close> (prefix \<open>cn_\<close>), the controller of \<^verbatim>\<open>controller.py\<close> over the scheduled host,
  and the handling of one request by \<^verbatim>\<open>server.py\<close>.

  The ledger is the policy file and one file per operation. As in the job journal, the outcome of an atomic write is an argument
  (\<open>write_outcome\<close>; \<open>Refused\<close> stands for the capacity of left-over temporary files). \<open>cn_policy_raw\<close> and \<open>cn_seen\<close> are what the process
  remembers of the files. The observer is called before and after the dispatch: it may do nothing, raise, or change the policy
  (\<open>callback\<close>). \<open>cn_sent\<close> records the dispatched intents; the code has no such field, it is there to state what the ledger protects.
  The owner thread, the busy flag, paths, locks, permissions and foreign file names are not modelled.
\<close>

section \<open>Ledger\<close>

definition CONTROL_LIMIT :: int where "CONTROL_LIMIT = 8192"
definition MAX_OPERATIONS :: nat where "MAX_OPERATIONS = 128"
definition MAX_POLICIES :: nat where "MAX_POLICIES = 32"

record 'g ledger =
  cn_host :: "'g sched"
  cn_policy_file :: "bytes option"
  cn_files :: "(bytes \<times> bytes) list"
  cn_policy_raw :: "bytes option"
  cn_seen :: "(bytes \<times> bytes) list"
  cn_poison :: bool
  cn_closed :: bool
  cn_max :: nat
  cn_sent :: "(bytes \<times> bytes) list"

datatype control_file = PolicyFile | OperationFile bytes

definition cn_guard :: "'g ledger \<Rightarrow> unit res" where
  "cn_guard c =
     bindE (need (\<not> cn_closed c) (ServiceError ''CLOSED'')) (\<lambda>_.
     bindE (need (\<not> cn_poison c) (ServiceError ''CONTROL_JOURNAL_UNCERTAIN'')) (\<lambda>_.
       need (\<not> sc_closed (cn_host c)) (ServiceError ''CONTROL_OWNER'')))"

definition cn_put :: "control_file \<Rightarrow> bytes \<Rightarrow> 'g ledger \<Rightarrow> 'g ledger" where
  "cn_put f raw c = (case f of
     PolicyFile \<Rightarrow> c\<lparr>cn_policy_file := Some raw\<rparr>
   | OperationFile i \<Rightarrow> c\<lparr>cn_files := put_key i raw (cn_files c)\<rparr>)"

definition cn_atomic :: "control_file \<Rightarrow> bytes \<Rightarrow> write_outcome \<Rightarrow> 'g ledger \<Rightarrow> 'g ledger \<times> unit res" where
  "cn_atomic f raw w c =
     bindS (c, bindE (cn_guard c) (\<lambda>_. need (int (length raw) \<le> CONTROL_LIMIT) (ServiceError ''CONTROL_CAPACITY''))) (\<lambda>_ c.
       case w of
         Written \<Rightarrow> (cn_put f raw c, Inr ())
       | Refused \<Rightarrow> (c, Inl (ServiceError ''CONTROL_CAPACITY''))
       | LostBefore _ \<Rightarrow> (c\<lparr>cn_poison := True\<rparr>, Inl (ServiceError ''CONTROL_JOURNAL_UNCERTAIN''))
       | LostAfter _ \<Rightarrow> ((cn_put f raw c)\<lparr>cn_poison := True\<rparr>, Inl (ServiceError ''CONTROL_JOURNAL_UNCERTAIN'')))"

text \<open>\<^verbatim>\<open>read_file(path, LIMIT)\<close> of a file that may be missing.\<close>

definition cn_load :: "bytes option \<Rightarrow> bytes res" where
  "cn_load f = (case f of
     None \<Rightarrow> Inl OSError
   | Some raw \<Rightarrow> bindE (need (0 < length raw \<and> int (length raw) \<le> CONTROL_LIMIT) (RecoveryError ''OBJECT_HASH'')) (\<lambda>_. Inr raw))"

section \<open>Policy\<close>

definition policy_body :: "'g job_backend \<Rightarrow> nat \<Rightarrow> pyval list \<Rightarrow> pyval" where
  "policy_body be max_operations es =
     mk_dict [(0, PInt 1), (1, JC_PROFILE), (2, PBytes (be_public be)), (3, PBytes (be_store be)), (4, PInt (int max_operations)), (5, PList es)]"

definition save_policy :: "sodium \<Rightarrow> 'g job_backend \<Rightarrow> pyval list \<Rightarrow> write_outcome \<Rightarrow> 'g ledger \<Rightarrow> 'g ledger \<times> unit res" where
  "save_policy n be es w c =
     bindS (c, jc_sign n (be_seed be) ''policy'' (policy_body be (cn_max c) es) CONTROL_LIMIT) (\<lambda>raw c.
     bindS (cn_atomic PolicyFile raw w c) (\<lambda>_ c. (c\<lparr>cn_policy_raw := Some raw\<rparr>, Inr ())))"

text \<open>One entry of the policy, after the revision before it.\<close>

definition check_entry :: "pyval \<Rightarrow> int \<Rightarrow> int res" where
  "check_entry e before = (case e of
     PList [r, p] \<Rightarrow>
       bindE (sp_integer r (before + 1) MAX_REVISION) (\<lambda>_.
       bindE (if p = PNone then Inr () else sp_fixed p 32) (\<lambda>_. Inr (int_of r)))
   | _ \<Rightarrow> Inl (ServiceError ''CONTROL_POLICY''))"

text \<open>The body of a policy file that passes the checks gives its entries; \<^verbatim>\<open>True == 1\<close> in the comparison of the limit.\<close>

definition policy_entries :: "sodium \<Rightarrow> 'g job_backend \<Rightarrow> nat \<Rightarrow> bytes \<Rightarrow> pyval list res" where
  "policy_entries n be max_operations raw =
     bindE (jc_split (PBytes raw) CONTROL_LIMIT) (\<lambda>(b, o').
     bindE (sp_keys b (key_range 6)) (\<lambda>_.
     bindE (jc_version b) (\<lambda>_.
     bindE (jc_verify n (PBytes (be_public be)) o' ''policy'') (\<lambda>_.
     bindE (mapE (item_at b) [2, 3, 4, 5]) (\<lambda>xs.
     bindE (need (take 2 xs = [PBytes (be_public be), PBytes (be_store be)]
         \<and> (xs ! 2 = PInt (int max_operations) \<or> max_operations = 1 \<and> xs ! 2 = PBool True)) (ServiceError ''CONTROL_POLICY'')) (\<lambda>_.
     bindE (sp_integer (xs ! 2) 1 (int MAX_OPERATIONS)) (\<lambda>_.
     case xs ! 3 of
       PList es \<Rightarrow>
         bindE (need (1 \<le> length es \<and> length es \<le> MAX_POLICIES) (ServiceError ''CONTROL_POLICY'')) (\<lambda>_.
         bindE (foldE check_entry es 0) (\<lambda>_. Inr es))
     | _ \<Rightarrow> Inl (ServiceError ''CONTROL_POLICY''))))))))"

definition cn_policy :: "sodium \<Rightarrow> 'g job_backend \<Rightarrow> 'g ledger \<Rightarrow> pyval list res" where
  "cn_policy n be c =
     bindE (cn_guard c) (\<lambda>_.
     bindE (cn_load (cn_policy_file c)) (\<lambda>raw.
     bindE (need (cn_policy_raw c = Some raw) (ServiceError ''CONTROL_POLICY_CHANGED'')) (\<lambda>_.
       policy_entries n be (cn_max c) raw)))"

text \<open>\<^verbatim>\<open>b[5][-1]\<close>, as the controller returns it: the public key, or none, and the revision.\<close>

definition last_entry :: "pyval list \<Rightarrow> (pyval \<times> pyval) res" where
  "last_entry es = (case last es of PList [r, p] \<Rightarrow> Inr (p, r) | _ \<Rightarrow> Inl (ServiceError ''CONTROL_POLICY''))"

section \<open>Operation records\<close>

definition record_body :: "'g job_backend \<Rightarrow> bytes \<Rightarrow> string \<Rightarrow> pyval" where
  "record_body be raw state =
     mk_dict [(0, PInt 1), (1, JC_PROFILE), (2, PBytes (be_public be)), (3, PBytes (be_store be)), (4, PBytes raw), (5, PStr (cps state)), (6, PNone)]"

definition cn_inspect :: "sodium \<Rightarrow> 'g job_backend \<Rightarrow> bytes \<Rightarrow> 'g ledger \<Rightarrow> (pyval \<times> bytes) res" where
  "cn_inspect n be oid c =
     bindE (cn_guard c) (\<lambda>_.
     bindE (sp_fixed (PBytes oid) 32) (\<lambda>_.
     bindE (cn_load (map_of (cn_files c) oid)) (\<lambda>raw.
     bindE (case map_of (cn_seen c) oid of
         None \<Rightarrow> Inr ()
       | Some d \<Rightarrow> bindE (jc_digest (PBytes raw)) (\<lambda>d'. need (d = d') (ServiceError ''CONTROL_JOURNAL_CHANGED''))) (\<lambda>_.
     bindE (jc_split (PBytes raw) CONTROL_LIMIT) (\<lambda>(b, o').
     bindE (sp_keys b (key_range 7)) (\<lambda>_.
     bindE (jc_version b) (\<lambda>_.
     bindE (jc_verify n (PBytes (be_public be)) o' ''record'') (\<lambda>_.
     bindE (bindE (item_at b 4) (inspect_intent n)) (\<lambda>(ib, i).
     bindE (mapE (item_at b) [2, 3]) (\<lambda>xs. bindE (mapE (item_at ib) [2, 3]) (\<lambda>ys.
     bindE (need (xs = [PBytes (be_public be), PBytes (be_store be)] \<and> ys = xs \<and> ci_operation i = oid) (ServiceError ''CONTROL_RECORD'')) (\<lambda>_.
     bindE (mapE (item_at b) [5, 6]) (\<lambda>zs.
     bindE (need (ci_action i \<in> set (map cps JC_MUTATIONS) \<and> error_name [''INFLIGHT'', ''ACCEPTED'', ''OUTCOME_UNKNOWN''] (zs ! 0) \<and> zs ! 1 = PNone)
       (ServiceError ''CONTROL_RECORD'')) (\<lambda>_.
     bindE (cn_policy n be c) (\<lambda>es.
     bindE (need (PList [PInt (ci_revision i), PBytes (ci_controller i)] \<in> set es) (ServiceError ''CONTROL_RECORD'')) (\<lambda>_.
       Inr (b, raw)))))))))))))))))"

definition cn_note :: "bytes \<Rightarrow> bytes \<Rightarrow> 'g ledger \<Rightarrow> 'g ledger \<times> unit res" where
  "cn_note oid raw c = bindS (c, jc_digest (PBytes raw)) (\<lambda>d c. (c\<lparr>cn_seen := put_key oid d (cn_seen c)\<rparr>, Inr ()))"

definition cn_read :: "sodium \<Rightarrow> 'g job_backend \<Rightarrow> bytes \<Rightarrow> 'g ledger \<Rightarrow> 'g ledger \<times> (pyval \<times> bytes) res" where
  "cn_read n be oid c =
     bindS (c, cn_inspect n be oid c) (\<lambda>(b, raw) c. bindS (cn_note oid raw c) (\<lambda>_ c. (c, Inr (b, raw))))"

definition cn_audit :: "sodium \<Rightarrow> 'g job_backend \<Rightarrow> 'g ledger \<Rightarrow> 'g ledger \<times> bytes list res" where
  "cn_audit n be c =
     bindS (c, cn_policy n be c) (\<lambda>_ c.
     bindS (mapS (cn_read n be) (map fst (cn_files c)) c) (\<lambda>_ c. (c,
       bindE (need (fst ` set (cn_seen c) \<subseteq> fst ` set (cn_files c)) (ServiceError ''CONTROL_JOURNAL_CHANGED'')) (\<lambda>_.
       bindE (need (length (cn_files c) \<le> cn_max c) (ServiceError ''CONTROL_CAPACITY'')) (\<lambda>_. Inr (map fst (cn_files c)))))))"

definition cn_persist :: "sodium \<Rightarrow> 'g job_backend \<Rightarrow> pyval \<Rightarrow> write_outcome \<Rightarrow> 'g ledger \<Rightarrow> 'g ledger \<times> unit res" where
  "cn_persist n be b w c =
     bindS (c, bindE (bindE (item_at b 4) (inspect_intent n)) (\<lambda>(_, i).
         bindE (jc_sign n (be_seed be) ''record'' b CONTROL_LIMIT) (\<lambda>raw. Inr (ci_operation i, raw)))) (\<lambda>(oid, raw) c.
     bindS (cn_atomic (OperationFile oid) raw w c) (\<lambda>_. cn_note oid raw))"

definition cn_lookup :: "sodium \<Rightarrow> 'g job_backend \<Rightarrow> control_intent \<Rightarrow> 'g ledger \<Rightarrow> 'g ledger \<times> pyval option res" where
  "cn_lookup n be i c =
     bindS (cn_audit n be c) (\<lambda>_ c.
       if map_of (cn_files c) (ci_operation i) = None then (c, Inr None)
       else bindS (cn_read n be (ci_operation i) c) (\<lambda>(b, _) c. (c,
         bindE (field_is (ServiceError ''CONTROL_CONFLICT'') b 4 (PBytes (ci_raw i))) (\<lambda>_.
         bindE (item_at b 5) (\<lambda>state.
           Inr (Some (if state = PStr (cps ''INFLIGHT'') then PStr (cps ''OUTCOME_UNKNOWN'') else state)))))))"

definition cn_start :: "sodium \<Rightarrow> 'g job_backend \<Rightarrow> control_intent \<Rightarrow> write_outcome \<Rightarrow> 'g ledger \<Rightarrow> 'g ledger \<times> unit res" where
  "cn_start n be i w c =
     bindS (cn_audit n be c) (\<lambda>ids c.
     bindS (c, bindE (need (ci_operation i \<notin> set ids) (ServiceError ''CONTROL_CONFLICT'')) (\<lambda>_.
         need (length ids < cn_max c) (ServiceError ''CONTROL_CAPACITY''))) (\<lambda>_.
       cn_persist n be (record_body be (ci_raw i) ''INFLIGHT'') w))"

definition cn_finish :: "sodium \<Rightarrow> 'g job_backend \<Rightarrow> control_intent \<Rightarrow> string \<Rightarrow> write_outcome \<Rightarrow> 'g ledger \<Rightarrow> 'g ledger \<times> unit res" where
  "cn_finish n be i state w c =
     bindS (cn_read n be (ci_operation i) c) (\<lambda>(b, _) c.
     bindS (c, bindE (mapE (item_at b) [4, 5]) (\<lambda>xs.
         need (xs = [PBytes (ci_raw i), PStr (cps ''INFLIGHT'')] \<and> state \<in> {''ACCEPTED'', ''OUTCOME_UNKNOWN''}) (ServiceError ''CONTROL_RECORD''))) (\<lambda>_.
       cn_persist n be (set_item b 5 (PStr (cps state))) w))"

definition cn_rotate :: "sodium \<Rightarrow> 'g job_backend \<Rightarrow> pyval \<Rightarrow> pyval \<Rightarrow> write_outcome \<Rightarrow> 'g ledger \<Rightarrow> 'g ledger \<times> unit res" where
  "cn_rotate n be public revision w c =
     bindS (cn_audit n be c) (\<lambda>_ c.
     bindS (c, bindE (cn_policy n be c) (\<lambda>es.
         bindE (last_entry es) (\<lambda>(_, r).
         bindE (sp_integer revision (int_of r + 1) MAX_REVISION) (\<lambda>_.
         bindE (if public = PNone then Inr () else sp_fixed public 32) (\<lambda>_.
         bindE (need (length es < MAX_POLICIES) (ServiceError ''CONTROL_CAPACITY'')) (\<lambda>_. Inr es)))))) (\<lambda>es.
       save_policy n be (es @ [PList [revision, public]]) w))"

section \<open>Pins\<close>

definition control_row :: "bytes \<Rightarrow> pyval \<Rightarrow> bytes \<Rightarrow> pyval res" where
  "control_row oid b raw =
     bindE (bindE (item_at b 4) jc_digest) (\<lambda>d.
     bindE (item_at b 5) (\<lambda>state.
     bindE (if state = PStr (cps ''INFLIGHT'') then Inr PNone else bindE (jc_digest (PBytes raw)) (\<lambda>x. Inr (PBytes x))) (\<lambda>x.
       Inr (PList [PBytes oid, PBytes d, x]))))"

definition cn_pin :: "sodium \<Rightarrow> 'g job_backend \<Rightarrow> 'g ledger \<Rightarrow> 'g ledger \<times> pyval res" where
  "cn_pin n be c =
     bindS (cn_audit n be c) (\<lambda>ids c.
     bindS (mapS (\<lambda>oid c. bindS (cn_read n be oid c) (\<lambda>(b, raw) c. (c, control_row oid b raw))) (sort_bytes (\<lambda>x. x) ids) c) (\<lambda>rows c.
     bindS (c, cn_policy n be c) (\<lambda>es c.
       (c, Inr (mk_dict [(0, JC_PROFILE), (1, PBytes (be_public be)), (2, PBytes (be_store be)), (3, PList es), (4, PList rows)])))))"

definition check_control_row :: "sodium \<Rightarrow> 'g job_backend \<Rightarrow> pyval \<Rightarrow> 'g ledger \<Rightarrow> 'g ledger \<times> bytes res" where
  "check_control_row n be item c =
     bindS (c, case item of
         PList [oid, intent, expected] \<Rightarrow>
           bindE (sp_fixed oid 32) (\<lambda>_. bindE (sp_fixed intent 32) (\<lambda>_. bindE (as_bytes oid) (\<lambda>o'. Inr (o', intent, expected))))
       | _ \<Rightarrow> Inl ValueError) (\<lambda>(oid, intent, expected) c.
     bindS (cn_read n be oid c) (\<lambda>(b, raw) c.
     bindS (c, bindE (bindE (item_at b 4) jc_digest) (\<lambda>d.
         bindE (need (PBytes d = intent) ValueError) (\<lambda>_.
         if expected = PNone then Inr ()
         else bindE (sp_fixed expected 32) (\<lambda>_. bindE (jc_digest (PBytes raw)) (\<lambda>x. need (PBytes x = expected) ValueError))))) (\<lambda>_ c.
       (c, Inr oid))))"

definition pinned_rows :: "sodium \<Rightarrow> 'g job_backend \<Rightarrow> pyval \<Rightarrow> 'g ledger \<Rightarrow> pyval list res" where
  "pinned_rows n be pin' c =
     bindE (sp_keys pin' (key_range 5)) (\<lambda>_.
     bindE (mapE (item_at pin') [0, 1, 2, 3, 4]) (\<lambda>xs.
     bindE (need (take 3 xs = [JC_PROFILE, PBytes (be_public be), PBytes (be_store be)]) ValueError) (\<lambda>_.
     bindE (cn_policy n be c) (\<lambda>es.
     bindE (allE (\<lambda>v. sp_fixed v 32) [xs ! 1, xs ! 2]) (\<lambda>_.
     bindE (list_of (xs ! 3)) (\<lambda>ps.
     bindE (need (ps \<noteq> []) ValueError) (\<lambda>_.
     bindE (sp_dump (PList (take (length ps) es)) CONTROL_LIMIT) (\<lambda>x. bindE (sp_dump (PList ps) CONTROL_LIMIT) (\<lambda>y.
     bindE (need (x = y) ValueError) (\<lambda>_.
     bindE (list_of (xs ! 4)) (\<lambda>rows.
     bindE (need (length rows \<le> cn_max c) ValueError) (\<lambda>_. Inr rows))))))))))))"

definition cn_verify_pin :: "sodium \<Rightarrow> 'g job_backend \<Rightarrow> pyval \<Rightarrow> 'g ledger \<Rightarrow> 'g ledger \<times> unit res" where
  "cn_verify_pin n be pin' c =
     (case bindS (cn_audit n be c) (\<lambda>_ c.
             bindS (c, pinned_rows n be pin' c) (\<lambda>rows c.
             bindS (mapS (check_control_row n be) rows c) (\<lambda>ids c. (c, need (sorted_ids ids) ValueError)))) of
        (c, Inl _) \<Rightarrow> (c, Inl (ServiceError ''CONTROL_PIN''))
      | (c, Inr _) \<Rightarrow> (c, Inr ()))"

section \<open>Opening\<close>

definition cn_close :: "'g ledger \<Rightarrow> 'g ledger" where
  "cn_close c = c\<lparr>cn_closed := True\<rparr>"

text \<open>A ledger on the files that are there; an exception closes it.\<close>

definition open_control ::
  "sodium \<Rightarrow> 'g job_backend \<Rightarrow> pyval \<Rightarrow> pyval \<Rightarrow> nat \<Rightarrow> pyval option \<Rightarrow> write_outcome \<Rightarrow> 'g ledger \<Rightarrow> 'g ledger \<times> unit res" where
  "open_control n be controller revision max_operations expected w c =
     bindS (c, bindE (sc_guard (cn_host c)) (\<lambda>_.
         bindE (sp_fixed controller 32) (\<lambda>_.
         bindE (sp_integer revision 1 MAX_REVISION) (\<lambda>_.
           sp_integer (PInt (int max_operations)) 1 (int MAX_OPERATIONS))))) (\<lambda>_ c.
     case bindS (c\<lparr>cn_policy_raw := None, cn_seen := [], cn_poison := False, cn_closed := False, cn_max := max_operations\<rparr>, Inr ()) (\<lambda>_ c.
         bindS (case cn_policy_file c of
             Some _ \<Rightarrow> (case cn_load (cn_policy_file c) of Inl e \<Rightarrow> (c, Inl e) | Inr raw \<Rightarrow> (c\<lparr>cn_policy_raw := Some raw\<rparr>, Inr ()))
           | None \<Rightarrow> bindS (c, need (cn_files c = []) (ServiceError ''CONTROL_LAYOUT'')) (\<lambda>_. save_policy n be [PList [revision, controller]] w)) (\<lambda>_ c.
         bindS (c, bindE (cn_policy n be c) (\<lambda>es. need (last es = PList [revision, controller]) (ServiceError ''CONTROL_POLICY''))) (\<lambda>_ c.
         bindS (cn_audit n be c) (\<lambda>_ c.
           case expected of None \<Rightarrow> (c, Inr ()) | Some p \<Rightarrow> cn_verify_pin n be p c)))) of
       (c, Inl e) \<Rightarrow> (cn_close c, Inl e)
     | (c, Inr _) \<Rightarrow> (c, Inr ()))"

section \<open>Controller\<close>

definition on_host :: "('g sched \<Rightarrow> 'g sched \<times> 'r res) \<Rightarrow> 'g ledger \<Rightarrow> 'g ledger \<times> 'r res" where
  "on_host f c = (case f (cn_host c) of (h, r) \<Rightarrow> (c\<lparr>cn_host := h\<rparr>, r))"

definition control_policy :: "sodium \<Rightarrow> 'g job_backend \<Rightarrow> 'g ledger \<Rightarrow> (pyval \<times> pyval) res" where
  "control_policy n be c = bindE (sc_guard (cn_host c)) (\<lambda>_. bindE (cn_policy n be c) last_entry)"

definition replace_controller :: "sodium \<Rightarrow> 'g job_backend \<Rightarrow> pyval \<Rightarrow> pyval \<Rightarrow> write_outcome \<Rightarrow> 'g ledger \<Rightarrow> 'g ledger \<times> unit res" where
  "replace_controller n be public revision w c = bindS (c, sc_guard (cn_host c)) (\<lambda>_. cn_rotate n be public revision w)"

definition opt_hex :: "bytes option \<Rightarrow> pyval" where
  "opt_hex b = (case b of None \<Rightarrow> PNone | Some x \<Rightarrow> PStr (hexed x))"

definition opt_str :: "string option \<Rightarrow> pyval" where
  "opt_str s = (case s of None \<Rightarrow> PNone | Some x \<Rightarrow> PStr (cps x))"

definition text_dict :: "(string \<times> pyval) list \<Rightarrow> pyval" where
  "text_dict kvs = PDict (map (\<lambda>(k, v). (PStr (cps k), v)) kvs)"

text \<open>The dictionary of \<^verbatim>\<open>_status\<close> of the job owner.\<close>

definition status_dict :: "job_status \<Rightarrow> pyval" where
  "status_dict s = text_dict
     [(''job_id'', PStr (hexed (js_job s))), (''action'', js_action s), (''state'', PStr (js_state s)), (''journal_state'', PStr (js_journal_state s)),
      (''revision'', PInt (int (js_revision s))), (''input_digest'', PStr (hexed (js_input s))), (''target_sequence'', js_target s),
      (''cancellable'', PBool (js_cancellable s)), (''may_have_effect'', PBool (js_may_have_effect s)),
      (''requires_reconciliation'', PBool (js_reconcile s)), (''explicit_retry_required'', PBool (js_retry s)),
      (''result_verified'', PBool (js_verified s)), (''result_digest'', opt_hex (js_result s)),
      (''waiting_reason'', if js_waiting s then PStr (cps ''ACTIVE_TRANSFERS'') else PNone), (''progress_total'', PNone),
      (''product_qualified'', PBool False)]"

definition host_dict :: "diagnostics \<Rightarrow> pyval" where
  "host_dict d = (let a = dg_activity d in text_dict
     [(''mode'', PStr (cps (dg_mode d))), (''selected_job'', opt_hex (dg_selected d)), (''fault'', opt_str (dg_fault d)),
      (''effect_steps'', PInt (int (dg_effect_steps d))), (''native_storage_preemption'', PBool False),
      (''connections'', PInt (int (ac_connections a))), (''reader_pins'', PInt (int (ac_pins a))),
      (''read_accepting'', PBool (ac_read_accepting a)), (''upload_accepting'', PBool (ac_upload_accepting a))])"

definition poll_dict :: "sodium \<Rightarrow> 'g job_backend \<Rightarrow> bytes option \<Rightarrow> 'g ledger \<Rightarrow> 'g ledger \<times> pyval res" where
  "poll_dict n be j c = (case j of
     None \<Rightarrow> (c, Inr PNone)
   | Some i \<Rightarrow> bindS (on_host (on_jobs (poll_job n be i)) c) (\<lambda>s c. (c, Inr (status_dict s))))"

definition control_view ::
  "sodium \<Rightarrow> 'g job_backend \<Rightarrow> control_intent \<Rightarrow> pyval \<Rightarrow> bool \<Rightarrow> 'g ledger \<Rightarrow> 'g ledger \<times> pyval res" where
  "control_view n be i outcome duplicate c =
     bindS (on_host sc_diagnostics c) (\<lambda>d c.
     bindS (poll_dict n be (ci_job i) c) (\<lambda>job c.
     bindS (on_host (on_jobs (jobs_pin n be)) c) (\<lambda>jp c.
     bindS (c, sp_dump jp 32768) (\<lambda>jraw c.
     bindS (cn_pin n be c) (\<lambda>cp c.
     bindS (c, sp_dump cp 20000) (\<lambda>craw c.
     let v = text_dict
       [(''operation_id'', PStr (hexed (ci_operation i))), (''action'', PStr (ci_action i)), (''job_id'', opt_hex (ci_job i)), (''outcome'', outcome),
        (''error'', PNone), (''duplicate'', PBool duplicate), (''job'', job), (''host'', host_dict d), (''jobs_pin'', PStr (hexed jraw)),
        (''control_pin'', PStr (hexed craw)), (''policy_revision'', PInt (ci_revision i)), (''product_qualified'', PBool False)] in
     (c, bindE (view_shape v) (\<lambda>_. Inr v))))))))"

text \<open>What an observer does when it is called, and what one command meets outside.\<close>

datatype callback = Quiet | Raises exn | Rotates pyval pyval write_outcome

record control_env =
  ce_write :: write_outcome
  ce_result :: write_outcome
  ce_before :: callback
  ce_after :: callback
  ce_sched :: sched_env

definition emit :: "sodium \<Rightarrow> 'g job_backend \<Rightarrow> callback \<Rightarrow> 'g ledger \<Rightarrow> 'g ledger \<times> unit res" where
  "emit n be cb c = (case cb of
     Quiet \<Rightarrow> (c, Inr ())
   | Raises e \<Rightarrow> (c, Inl e)
   | Rotates public revision w \<Rightarrow> cn_rotate n be public revision w c)"

definition allowed_states :: "pystr \<Rightarrow> string list" where
  "allowed_states action =
     (if action = cps ''select'' then [''QUEUED'', ''VALIDATED'', ''PREPARED'']
      else if action = cps ''cancel'' then [''QUEUED'', ''VALIDATED'', ''PREPARED'', ''CANCELLED'']
      else if action = cps ''reconcile'' then [''OUTCOME_UNKNOWN'', ''RETRY_READY'', ''SUCCEEDED'']
      else if action = cps ''retry'' then [''RETRY_READY''] else [])"

definition dropS :: "'s \<times> 'a res \<Rightarrow> 's \<times> unit res" where
  "dropS m = bindS m (\<lambda>_ s. (s, Inr ()))"

definition host_action :: "sodium \<Rightarrow> 'g job_backend \<Rightarrow> sched_env \<Rightarrow> pystr \<Rightarrow> bytes \<Rightarrow> 'g sched \<Rightarrow> 'g sched \<times> unit res" where
  "host_action n be env action j h =
     (if action = cps ''select'' then dropS (sc_schedule n be env j False h)
      else if action = cps ''cancel'' then dropS (sc_cancel n be env j h)
      else if action = cps ''reconcile'' then dropS (sc_reconcile n be env j h)
      else if action = cps ''retry'' then dropS (sc_arm_retry n be env j h)
      else (h, Inl (ServiceError ''CONTROL_METHOD'')))"

text \<open>The inner \<^verbatim>\<open>try\<close>: the call of the host and the event after it.\<close>

definition control_dispatch ::
  "sodium \<Rightarrow> 'g job_backend \<Rightarrow> control_env \<Rightarrow> control_intent \<Rightarrow> bytes \<Rightarrow> 'g ledger \<Rightarrow> 'g ledger \<times> unit res" where
  "control_dispatch n be env i j c =
     bindS (on_host (host_action n be (ce_sched env) (ci_action i) j) (c\<lparr>cn_sent := (ci_operation i, ci_raw i) # cn_sent c\<rparr>)) (\<lambda>_.
       emit n be (ce_after env))"

definition policy_still :: "sodium \<Rightarrow> 'g job_backend \<Rightarrow> control_intent \<Rightarrow> 'g ledger \<Rightarrow> unit res" where
  "policy_still n be i c =
     bindE (control_policy n be c) (\<lambda>p. need (p = (PBytes (ci_controller i), PInt (ci_revision i))) (ServiceError ''STALE_CONTROLLER''))"

definition control_started ::
  "sodium \<Rightarrow> 'g job_backend \<Rightarrow> control_env \<Rightarrow> control_intent \<Rightarrow> bytes \<Rightarrow> 'g ledger \<Rightarrow> 'g ledger \<times> pyval res" where
  "control_started n be env i j c =
     bindS (emit n be (ce_before env) c) (\<lambda>_ c.
     bindS (c, policy_still n be i c) (\<lambda>_ c.
     case control_dispatch n be env i j c of (c, r) \<Rightarrow>
     let outcome = (case r of Inl _ \<Rightarrow> ''OUTCOME_UNKNOWN'' | Inr _ \<Rightarrow> ''ACCEPTED'') in
     bindS (cn_finish n be i outcome (ce_result env) c) (\<lambda>_ c.
     bindS (c, policy_still n be i c) (\<lambda>_.
       control_view n be i (PStr (cps outcome)) False))))"

text \<open>The \<^verbatim>\<open>try\<close> around a command: once it has started, any exception leaves the outcome unknown.\<close>

definition control_run ::
  "sodium \<Rightarrow> 'g job_backend \<Rightarrow> control_env \<Rightarrow> control_intent \<Rightarrow> bytes \<Rightarrow> 'g ledger \<Rightarrow> 'g ledger \<times> pyval res" where
  "control_run n be env i j c =
     bindS (cn_start n be i (ce_write env) c) (\<lambda>_ c.
       case control_started n be env i j c of
         (c, Inl _) \<Rightarrow> (c, Inl (ServiceError ''CONTROL_OUTCOME_UNKNOWN''))
       | (c, Inr v) \<Rightarrow> (c, Inr v))"

text \<open>A command that has no record yet: the state of its job is asked for before anything is written.\<close>

definition control_fresh ::
  "sodium \<Rightarrow> 'g job_backend \<Rightarrow> control_env \<Rightarrow> control_intent \<Rightarrow> 'g ledger \<Rightarrow> 'g ledger \<times> pyval res" where
  "control_fresh n be env i c = (case ci_job i of
     None \<Rightarrow> (c, Inl mj_error)
   | Some j \<Rightarrow>
       bindS (on_host (on_jobs (poll_job n be j)) c) (\<lambda>st c.
       bindS (c, need (js_state st \<in> set (map cps (allowed_states (ci_action i)))) (ServiceError ''CONTROL_JOB_STATE'')) (\<lambda>_.
         control_run n be env i j)))"

definition execute :: "sodium \<Rightarrow> 'g job_backend \<Rightarrow> control_env \<Rightarrow> bytes \<Rightarrow> 'g ledger \<Rightarrow> 'g ledger \<times> pyval res" where
  "execute n be env raw c =
     bindS (c, bindE (control_policy n be c) (\<lambda>(public, revision).
         bindE (need (public \<noteq> PNone) (ServiceError ''STALE_CONTROLLER'')) (\<lambda>_.
           jc_check_intent n (PBytes (be_public be)) (PBytes (be_store be)) public revision (PBytes raw)))) (\<lambda>i c.
     bindS (cn_audit n be c) (\<lambda>_ c.
       if ci_action i = cps ''status'' then control_view n be i (PStr (cps ''STATUS'')) False c
       else bindS (cn_lookup n be i c) (\<lambda>previous c.
         case previous of
           Some outcome \<Rightarrow> control_view n be i outcome True c
         | None \<Rightarrow> control_fresh n be env i c)))"

section \<open>Server\<close>

text \<open>The answer to an exception of a request, and whether the host is put on hold.\<close>

definition control_answer :: "bool \<Rightarrow> exn \<Rightarrow> string \<times> bool" where
  "control_answer uncertain e =
     (if uncertain then (''CONTROL_UNCERTAIN'', True)
      else if exn_code e = ''CONTROL_OUTCOME_UNKNOWN'' then (''CONTROL_UNCERTAIN'', False)
      else if exn_code e = ''CONTROL_CAPACITY'' then (''CAPACITY'', False)
      else if take 15 (exn_code e) = ''CONTROL_JOURNAL'' then (''CONTROL_UNCERTAIN'', True)
      else if exn_code e = ''STALE_CONTROLLER'' then (''STALE_CONTROLLER'', False)
      else (''REJECTED'', False))"

text \<open>A complete request on a connection whose hello was made for a controller and a revision.\<close>

definition serve_request ::
  "sodium \<Rightarrow> 'g job_backend \<Rightarrow> control_env \<Rightarrow> pyval \<times> pyval \<Rightarrow> bytes \<Rightarrow> bytes \<Rightarrow> 'g ledger \<Rightarrow> 'g ledger \<times> bytes res" where
  "serve_request n be env guard hello request c =
     (case bindS (c, bindE (control_policy n be c) (\<lambda>(public, revision).
             bindE (need (public \<noteq> PNone \<and> (public, revision) = guard) (ServiceError ''STALE_CONTROLLER'')) (\<lambda>_.
               jc_check_request n (PBytes (be_public be)) (PBytes (be_store be)) public revision (PBytes hello) (PBytes request)))) (\<lambda>i.
             execute n be env (ci_raw i)) of
        (c, Inr v) \<Rightarrow> (c, jc_make_response n (be_seed be) (PBytes hello) (PBytes request) True v)
      | (c, Inl e) \<Rightarrow> (case control_answer (cn_poison c) e of (code, hold) \<Rightarrow>
          bindS (if hold then on_host (sc_hold ''CONTROL_REOPEN_REQUIRED'') c else (c, Inr ())) (\<lambda>_ c.
            (c, jc_make_response n (be_seed be) (PBytes hello) (PBytes request) False (PStr (cps code))))))"

section \<open>Steps\<close>

text \<open>
  What can happen to a ledger: a command or a request, a change of the controller, a pin that is checked, closing, opening it again
  (also after a crash), and anything the host does on its own.
\<close>

inductive control_step :: "sodium \<Rightarrow> 'g job_backend \<Rightarrow> 'g ledger \<Rightarrow> 'g ledger \<Rightarrow> bool" for n be where
  Execute: "execute n be env raw c = (c', r) \<Longrightarrow> control_step n be c c'"
| Serve: "serve_request n be env guard hello request c = (c', r) \<Longrightarrow> control_step n be c c'"
| Replace: "replace_controller n be public revision w c = (c', r) \<Longrightarrow> control_step n be c c'"
| VerifyPin: "cn_verify_pin n be pin' c = (c', r) \<Longrightarrow> control_step n be c c'"
| Close: "control_step n be c (cn_close c)"
| Open: "open_control n be controller revision m expected w c = (c', r) \<Longrightarrow> control_step n be c c'"
| Host: "control_step n be c (c\<lparr>cn_host := h\<rparr>)"

text \<open>An empty directory.\<close>

definition new_control :: "'g sched \<Rightarrow> 'g ledger" where
  "new_control h = \<lparr>cn_host = h, cn_policy_file = None, cn_files = [], cn_policy_raw = None, cn_seen = [], cn_poison = False, cn_closed = True,
     cn_max = 0, cn_sent = []\<rparr>"

end
