(* ===== verification/ControlLedger.thy ===== *)
theory ControlLedger
  imports Control SchedulerProps
begin

text \<open>
  The ledger of control operations: which calls leave its files alone, what a record that was written says when it is read again, and how
  a command can come to be sent. \<open>frame\<close> is the contract that the frame arguments share, a preorder that a sequence of calls stays
  within; it is used with the files, the records, the host and its jobs. \<open>once\<close> is the invariant of every step.
\<close>

section \<open>Frames of state-passing calls\<close>

declare bindS_value [simp]

text \<open>A preorder on states that a sequence of calls stays within when each of them does.\<close>

locale frame =
  fixes R :: "'s \<Rightarrow> 's \<Rightarrow> bool"
  assumes frame_refl: "R s s" and frame_trans: "R s t \<Longrightarrow> R t u \<Longrightarrow> R s u"
begin

lemma frame_bind:
  assumes "R s (fst m)" "\<And>x t. R t (fst (f x t))"
  shows "R s (fst (bindS m f))"
proof (cases m)
  case (Pair t r)
  then show ?thesis using assms frame_trans by (cases r) (auto simp: bindS_def)
qed

lemma frame_pure: "R s (fst (s, r))"
  by (simp add: frame_refl)

lemma frame_pair: "(\<And>x y. R s (fst (f x y s))) \<Longrightarrow> R s (fst ((case p of (x, y) \<Rightarrow> f x y) s))"
  by (cases p) simp

lemma frame_if: "R s (fst m) \<Longrightarrow> R s (fst m') \<Longrightarrow> R s (fst (if b then m else m'))"
  by simp

lemma frame_mapS: "(\<And>x t. R t (fst (f x t))) \<Longrightarrow> R s (fst (mapS f xs s))"
proof (induction xs arbitrary: s)
  case (Cons x xs)
  then show ?case unfolding mapS.simps by (intro frame_bind frame_pure) auto
qed (simp add: frame_refl)

end

text \<open>What is on disk and what was sent, and the host.\<close>

definition same_files :: "'g ledger \<Rightarrow> 'g ledger \<Rightarrow> bool" where
  "same_files c c' \<longleftrightarrow> cn_files c' = cn_files c \<and> cn_policy_file c' = cn_policy_file c \<and> cn_policy_raw c' = cn_policy_raw c
     \<and> cn_sent c' = cn_sent c \<and> cn_max c' = cn_max c \<and> cn_poison c' = cn_poison c \<and> cn_closed c' = cn_closed c"

definition same_host :: "'g ledger \<Rightarrow> 'g ledger \<Rightarrow> bool" where
  "same_host c c' \<longleftrightarrow> cn_host c' = cn_host c"

interpretation ff: frame same_files
  by unfold_locales (simp_all add: same_files_def)

interpretation hf: frame same_host
  by unfold_locales (simp_all add: same_host_def)

lemmas ff_rules = ff.frame_bind ff.frame_pure ff.frame_pair ff.frame_if ff.frame_mapS
lemmas hf_rules = hf.frame_bind hf.frame_pure hf.frame_pair hf.frame_if hf.frame_mapS

lemma note_same: "same_files c (fst (cn_note oid raw c))" "same_host c (fst (cn_note oid raw c))"
  by (simp_all add: cn_note_def bindS_def same_files_def same_host_def split: sum.splits)

lemma cn_read_same: "same_files c (fst (cn_read n be oid c))" "same_host c (fst (cn_read n be oid c))"
  unfolding cn_read_def by (intro ff_rules note_same) (intro hf_rules note_same)

lemma cn_audit_same: "same_files c (fst (cn_audit n be c))" "same_host c (fst (cn_audit n be c))"
  unfolding cn_audit_def by (intro ff_rules cn_read_same) (intro hf_rules cn_read_same)

lemma cn_lookup_same: "same_files c (fst (cn_lookup n be i c))" "same_host c (fst (cn_lookup n be i c))"
  unfolding cn_lookup_def by (intro ff_rules cn_audit_same cn_read_same) (intro hf_rules cn_audit_same cn_read_same)

lemma cn_pin_same: "same_files c (fst (cn_pin n be c))"
  unfolding cn_pin_def by (intro ff_rules cn_read_same cn_audit_same)

lemma check_control_row_same: "same_files c (fst (check_control_row n be item c))"
  unfolding check_control_row_def by (intro ff_rules cn_read_same)

lemma cn_verify_pin_same: "same_files c (fst (cn_verify_pin n be pin' c))"
  unfolding cn_verify_pin_def fst_case_res by (intro ff_rules cn_audit_same check_control_row_same)

lemma on_host_same: "same_files c (fst (on_host f c))"
  by (simp add: on_host_def same_files_def split: prod.splits)

lemma control_view_same: "same_files c (fst (control_view n be i outcome duplicate c))"
proof -
  have "same_files c (fst (poll_dict n be j c))" for j and c :: "'a ledger"
    by (cases j) (auto simp: poll_dict_def ff.frame_refl intro!: ff_rules on_host_same)
  then show ?thesis unfolding control_view_def Let_def by (intro ff_rules on_host_same cn_pin_same)
qed

section \<open>Records\<close>

text \<open>A file that records an intent.\<close>

definition kept :: "bytes \<Rightarrow> bytes \<Rightarrow> bool" where
  "kept f raw \<longleftrightarrow> (\<exists>b o'. jc_split (PBytes f) CONTROL_LIMIT = Inr (b, o') \<and> item_at b 4 = Inr (PBytes raw))"

lemma jc_sign_split:
  assumes "jc_sign n seed label body limit = Inr raw" "wf_py body" "canon body = body"
  shows "\<exists>o'. jc_split (PBytes raw) limit = Inr (body, o')"
proof -
  obtain b sig where b: "encode body limit MAX_NODES = Inr b" and sig: "length sig = 64"
    and raw: "encode (mk_dict [(0, PBytes b), (1, PBytes sig)]) limit MAX_NODES = Inr raw"
    using assms(1) by (auto simp: jc_sign_def env_signed_def res_simps p_sign_def split: option.splits if_splits)
  let ?o = "mk_dict [(0, PBytes b), (1, PBytes sig)]"
  have "canon ?o = ?o" "wf_py ?o" by (simp_all add: mk_dict_def)
  then have "decode raw limit MAX_NODES = Inr ?o" by (rule decode_encode_canon [OF raw])
  moreover have "decode b limit MAX_NODES = Inr body" by (rule decode_encode_canon [OF b assms(3,2)])
  ultimately show ?thesis using sig by (auto simp: jc_split_def env_split_Inr)
qed

lemma record_body_flat: "wf_py (record_body be raw state)" "canon (record_body be raw state) = record_body be raw state"
  by (simp_all add: record_body_def mk_dict_def JC_PROFILE_def)

text \<open>What was written stays recorded, and nothing was sent.\<close>

definition carries :: "'g ledger \<Rightarrow> 'g ledger \<Rightarrow> bool" where
  "carries c c' \<longleftrightarrow> cn_sent c' = cn_sent c
     \<and> (\<forall>oid f raw. map_of (cn_files c) oid = Some f \<and> kept f raw \<longrightarrow> (\<exists>f'. map_of (cn_files c') oid = Some f' \<and> kept f' raw))"

interpretation cf: frame carries
proof unfold_locales
  show "carries s u" if "carries s t" "carries t u" for s t u :: "'a ledger"
    using that unfolding carries_def by metis
qed (simp add: carries_def)

lemmas cf_rules = cf.frame_bind cf.frame_pure cf.frame_pair cf.frame_if cf.frame_mapS

lemma same_carries: "same_files c c' \<Longrightarrow> carries c c'"
  by (auto simp: same_files_def carries_def)

lemma files_carries: "cn_files c' = cn_files c \<Longrightarrow> cn_sent c' = cn_sent c \<Longrightarrow> carries c c'"
  by (auto simp: carries_def)

lemma atomic_policy_files [simp]:
  "cn_files (fst (cn_atomic PolicyFile raw w c)) = cn_files c" "cn_sent (fst (cn_atomic f raw w c)) = cn_sent c"
  by (auto simp: cn_atomic_def cn_put_def bindS_def split: sum.splits write_outcome.splits control_file.splits)

text \<open>A write of one operation keeps the records when the new file records what the old one did.\<close>

lemma atomic_carries:
  assumes "\<And>f intent. map_of (cn_files c) oid = Some f \<Longrightarrow> kept f intent \<Longrightarrow> kept raw intent"
  shows "carries c (fst (cn_atomic (OperationFile oid) raw w c))"
  using assms by (auto simp: cn_atomic_def cn_put_def bindS_def carries_def split: sum.splits write_outcome.splits)

lemma sp_keys_dict: "sp_keys b ks = Inr u \<Longrightarrow> \<exists>kvs. b = PDict kvs"
  by (cases b) (simp_all add: sp_keys_def int_keys_def)

lemma cn_inspect_facts:
  assumes "cn_inspect n be oid c = Inr (b, raw)"
  shows "map_of (cn_files c) oid = Some raw" "\<exists>o'. jc_split (PBytes raw) CONTROL_LIMIT = Inr (b, o')"
    "\<exists>x ib i. item_at b 4 = Inr x \<and> inspect_intent n x = Inr (ib, i) \<and> ci_operation i = oid" "\<exists>kvs. b = PDict kvs"
  using assms by (auto simp: cn_inspect_def bindE_eq_Inr cn_load_def dest: sp_keys_dict split: option.splits)

lemma jc_split_canonical: "jc_split x limit = Inr (b, o') \<Longrightarrow> canonical b"
  by (auto simp: jc_split_def env_split_Inr decode_iff)

text \<open>Writing a record for an operation: the file is there when the call returns, and older records are carried on.\<close>

lemma persist_facts:
  assumes "item_at b 4 = Inr (PBytes intent)" "inspect_intent n (PBytes intent) = Inr (ib, i)" "wf_py b" "canon b = b"
    and "\<And>f x. map_of (cn_files c) (ci_operation i) = Some f \<Longrightarrow> kept f x \<Longrightarrow> x = intent"
  shows "carries c (fst (cn_persist n be b w c))"
    and "snd (cn_persist n be b w c) = Inr () \<Longrightarrow>
      \<exists>f o'. map_of (cn_files (fst (cn_persist n be b w c))) (ci_operation i) = Some f \<and> jc_split (PBytes f) CONTROL_LIMIT = Inr (b, o')"
proof -
  have k: "\<exists>o'. jc_split (PBytes raw) CONTROL_LIMIT = Inr (b, o')" if "jc_sign n (be_seed be) ''record'' b CONTROL_LIMIT = Inr raw" for raw
    using jc_sign_split [OF that assms(3,4)] .
  have kept: "kept raw intent" if "jc_sign n (be_seed be) ''record'' b CONTROL_LIMIT = Inr raw" for raw
    using k [OF that] assms(1) by (auto simp: kept_def)
  have "carries c (fst (bindS (cn_atomic (OperationFile (ci_operation i)) raw w c) (\<lambda>_. cn_note (ci_operation i) raw)))"
    if "jc_sign n (be_seed be) ''record'' b CONTROL_LIMIT = Inr raw" for raw
    by (intro cf.frame_bind same_carries [OF note_same(1)] atomic_carries) (use assms(5) kept [OF that] in blast)
  then show "carries c (fst (cn_persist n be b w c))"
    using assms(1,2) by (auto simp: cn_persist_def cf.frame_refl bindE_eq_Inr split: sum.splits)
  show "\<exists>f o'. map_of (cn_files (fst (cn_persist n be b w c))) (ci_operation i) = Some f \<and> jc_split (PBytes f) CONTROL_LIMIT = Inr (b, o')"
    if "snd (cn_persist n be b w c) = Inr ()"
    using that k assms(1,2)
    by (auto simp: cn_persist_def cn_atomic_def cn_note_def cn_put_def bindS_def bindE_def need_def split: sum.splits write_outcome.splits if_splits)
qed

lemma cn_audit_ids: "snd (cn_audit n be c) = Inr ids \<Longrightarrow> ids = map fst (cn_files (fst (cn_audit n be c)))"
  by (auto simp: cn_audit_def bindS_def bindE_eq_Inr split: sum.splits prod.splits)

lemma start_facts:
  assumes "inspect_intent n (PBytes (ci_raw i)) = Inr (ib, i)" "cn_start n be i w c = (c', r)"
  shows "carries c c'"
    and "r = Inr () \<Longrightarrow> map_of (cn_files c) (ci_operation i) = None
      \<and> (\<exists>f o'. map_of (cn_files c') (ci_operation i) = Some f \<and> jc_split (PBytes f) CONTROL_LIMIT = Inr (record_body be (ci_raw i) ''INFLIGHT'', o'))"
proof -
  obtain c0 r0 where a: "cn_audit n be c = (c0, r0)" by fastforce
  have s: "same_files c c0" using cn_audit_same(1) [of c n be] a by simp
  have ids: "map_of (cn_files c0) (ci_operation i) = None" if "r0 = Inr ids" "ci_operation i \<notin> set ids" for ids
    using cn_audit_ids [of n be c ids] a that by (simp add: map_of_eq_None_iff)
  have it: "item_at (record_body be (ci_raw i) ''INFLIGHT'') 4 = Inr (PBytes (ci_raw i))" by (simp add: record_body_def)
  note p = persist_facts [OF it assms(1) record_body_flat]
  consider "c' = c0" "\<exists>e. r = Inl e" | "cn_persist n be (record_body be (ci_raw i) ''INFLIGHT'') w c0 = (c', r)"
      "map_of (cn_files c0) (ci_operation i) = None"
    using assms(2) a ids by (auto simp: cn_start_def bindS_def bindE_def need_def split: sum.splits if_splits)
  then show "carries c c'"
  proof cases
    case 2
    then have "carries c0 c'" using p(1) [of c0 be w] by simp
    then show ?thesis using s cf.frame_trans same_carries by blast
  qed (use s same_carries in blast)
  show "map_of (cn_files c) (ci_operation i) = None
      \<and> (\<exists>f o'. map_of (cn_files c') (ci_operation i) = Some f \<and> jc_split (PBytes f) CONTROL_LIMIT = Inr (record_body be (ci_raw i) ''INFLIGHT'', o'))"
    if "r = Inr ()"
    using assms(2) a ids that p(2) [of c0 be w] s
    by (auto simp: cn_start_def bindS_def bindE_def need_def same_files_def split: sum.splits if_splits)
qed

lemma finish_carries: "carries c (fst (cn_finish n be i state w c))"
proof -
  have rewrite: "carries c0 (fst (cn_persist n be (set_item b 5 (PStr (cps state))) w c0))"
    if c0: "same_files c c0" and b: "cn_inspect n be oid c = Inr (b, raw)" and "item_at b 5 = Inr x" for c0 b raw oid x
  proof -
    obtain kvs where kvs: "b = PDict kvs" using cn_inspect_facts(4) [OF b] by blast
    obtain o' where sp: "jc_split (PBytes raw) CONTROL_LIMIT = Inr (b, o')" using cn_inspect_facts(2) [OF b] by blast
    obtain y ib i where i: "item_at b 4 = Inr y" "inspect_intent n y = Inr (ib, i)" "ci_operation i = oid" using cn_inspect_facts(3) [OF b] by blast
    obtain intent where y: "y = PBytes intent" using i(2) by (cases y) (auto simp: inspect_intent_def jc_split_def env_split_Inr bindE_eq_Inr)
    have can: "canonical (PDict kvs)" using jc_split_canonical [OF sp] kvs by simp
    have get: "item_at (set_item b 5 (PStr (cps state))) 4 = Inr (PBytes intent)"
      using set_item_get [OF kvs that(3)] i(1) y by simp
    have old: "v = intent" if "map_of (cn_files c0) (ci_operation i) = Some f" "kept f v" for f v
      using that cn_inspect_facts(1) [OF b] c0 i sp y by (auto simp: same_files_def kept_def)
    show ?thesis by (rule persist_facts(1) [OF get _ _ _ old]) (use i y set_item_flat [OF can] kvs in auto)
  qed
  have saved: "carries c (fst (bindS (c0, bindE (mapE (item_at b) [4, 5]) (\<lambda>xs.
        need (xs = [PBytes (ci_raw i), PStr (cps ''INFLIGHT'')] \<and> state \<in> {''ACCEPTED'', ''OUTCOME_UNKNOWN''}) (ServiceError ''CONTROL_RECORD''))) (\<lambda>_.
      cn_persist n be (set_item b 5 (PStr (cps state))) w)))"
    if "same_files c c0" "cn_inspect n be (ci_operation i) c = Inr (b, raw)" for c0 b raw
    using same_carries [OF that(1)] cf.frame_trans [OF same_carries [OF that(1)] rewrite [OF that]] by (auto simp: bindS_def bindE_eq_Inr split: sum.splits)
  obtain r where "cn_inspect n be (ci_operation i) c = r" by blast
  then show ?thesis
  proof (cases r)
    case (Inr p)
    obtain b raw where p: "p = (b, raw)" by (cases p)
    obtain c0 r0 where c0: "cn_note (ci_operation i) raw c = (c0, r0)" by fastforce
    have "same_files c c0" using note_same(1) [of c "ci_operation i" raw] c0 by simp
    then show ?thesis using saved [of c0 b raw] same_carries [of c c0] c0 p Inr \<open>cn_inspect n be (ci_operation i) c = r\<close>
      by (cases r0) (simp_all add: cn_finish_def cn_read_def)
  qed (simp add: cn_finish_def cn_read_def cf.frame_refl)
qed

section \<open>Commands\<close>

definition same_records :: "'g ledger \<Rightarrow> 'g ledger \<Rightarrow> bool" where
  "same_records c c' \<longleftrightarrow> cn_files c' = cn_files c \<and> cn_sent c' = cn_sent c"

interpretation rf: frame same_records
  by unfold_locales (simp_all add: same_records_def)

lemmas rf_rules = rf.frame_bind rf.frame_pure rf.frame_pair rf.frame_if rf.frame_mapS

lemma same_files_records: "same_files c c' \<Longrightarrow> same_records c c'"
  by (simp add: same_files_def same_records_def)

lemma save_policy_records: "same_records c (fst (save_policy n be es w c))"
  unfolding save_policy_def by (intro rf.frame_bind rf.frame_pure) (simp_all add: same_records_def)

lemma cn_rotate_records: "same_records c (fst (cn_rotate n be public revision w c))"
  unfolding cn_rotate_def by (intro rf.frame_bind rf.frame_pure same_files_records [OF cn_audit_same(1)] save_policy_records)

lemma emit_records: "same_records c (fst (emit n be cb c))"
  by (cases cb) (simp_all add: emit_def rf.frame_refl cn_rotate_records)

lemma open_control_records: "same_records c (fst (open_control n be controller revision m expected w c))"
proof -
  have closing: "same_records c (fst (case x of (c, Inl e) \<Rightarrow> (cn_close c, Inl e) | (c, Inr _) \<Rightarrow> (c, Inr ())))"
    if "same_records c (fst x)" for x :: "'a ledger \<times> unit res" and c
    using that by (auto simp: same_records_def cn_close_def split: prod.splits sum.splits)
  have first: "same_records c (fst (case cn_policy_file c of
      Some _ \<Rightarrow> (case cn_load (cn_policy_file c) of Inl e \<Rightarrow> (c, Inl e) | Inr raw \<Rightarrow> (c\<lparr>cn_policy_raw := Some raw\<rparr>, Inr ()))
    | None \<Rightarrow> bindS (c, need (cn_files c = []) (ServiceError ''CONTROL_LAYOUT'')) (\<lambda>_. save_policy n be es w)))" for c :: "'a ledger" and es
    by (auto simp: rf.frame_refl intro!: rf_rules save_policy_records split: option.splits sum.splits) (simp_all add: same_records_def)
  have pinned: "same_records c (fst (case expected of None \<Rightarrow> (c, Inr ()) | Some p \<Rightarrow> cn_verify_pin n be p c))" for c :: "'a ledger"
    by (cases expected) (simp_all add: rf.frame_refl same_files_records [OF cn_verify_pin_same])
  show ?thesis unfolding open_control_def
    by (intro rf.frame_bind rf.frame_pure closing first pinned same_files_records [OF cn_audit_same(1)]) (simp add: same_records_def)
qed

lemma check_intent_facts:
  assumes "jc_check_intent n keeper store controller revision (PBytes raw) = Inr i"
  shows "ci_raw i = raw \<and> (\<exists>ib. inspect_intent n (PBytes raw) = Inr (ib, i))
    \<and> controller = PBytes (ci_controller i) \<and> revision = PInt (ci_revision i)"
  using assms by (auto simp: jc_check_intent_def inspect_intent_def intent_of_def bindE_eq_Inr int_of_def sp_integer_def)

text \<open>A command whose record is started and whose policy is still in force is sent; what comes after keeps the records.\<close>

lemma started_sends:
  assumes "emit n be (ce_before env) c1 = (c2, Inr ())" "policy_still n be i c2 = Inr ()"
  shows "carries (c2\<lparr>cn_sent := (ci_operation i, ci_raw i) # cn_sent c2\<rparr>) (fst (control_started n be env i j c1))"
proof -
  have dispatch: "carries (c2\<lparr>cn_sent := (ci_operation i, ci_raw i) # cn_sent c2\<rparr>) (fst (control_dispatch n be env i j c2))"
    unfolding control_dispatch_def
    by (intro cf.frame_bind same_carries [OF on_host_same]) (metis emit_records same_records_def files_carries)
  have rest: "carries d (fst (bindS (cn_finish n be i outcome w d) (\<lambda>_ c. bindS (c, policy_still n be i c) (\<lambda>_. control_view n be i v False))))"
    for d outcome w v
    by (intro cf.frame_bind cf.frame_pure finish_carries same_carries [OF control_view_same])
  show ?thesis using assms dispatch cf.frame_trans [OF _ rest] by (auto simp: control_started_def Let_def split: prod.splits)
qed

text \<open>A command that started: nothing was sent, or the intent was sent from a state in which the policy still named its controller.\<close>

lemma control_run_cases:
  assumes "inspect_intent n (PBytes (ci_raw i)) = Inr (ib, i)"
  shows "carries c (fst (control_run n be env i j c))
    \<or> (\<exists>c1 c2. cn_start n be i (ce_write env) c = (c1, Inr ()) \<and> emit n be (ce_before env) c1 = (c2, Inr ()) \<and> policy_still n be i c2 = Inr ()
        \<and> carries (c2\<lparr>cn_sent := (ci_operation i, ci_raw i) # cn_sent c2\<rparr>) (fst (control_run n be env i j c)))"
proof -
  obtain c1 r1 where s: "cn_start n be i (ce_write env) c = (c1, r1)" by fastforce
  obtain c2 r2 where e: "emit n be (ce_before env) c1 = (c2, r2)" by fastforce
  have c1: "carries c c1" by (rule start_facts(1) [OF assms s])
  have c2: "carries c1 c2" using emit_records [of c1 n be "ce_before env"] e by (simp add: same_records_def files_carries)
  have started': "carries c1 (fst (control_started n be env i j c1))" if "\<not> (r2 = Inr () \<and> policy_still n be i c2 = Inr ())"
    using that c2 by (cases r2; cases "policy_still n be i c2") (simp_all add: control_started_def e)
  show ?thesis
  proof (cases r1)
    case (Inl x)
    then show ?thesis using c1 by (simp add: control_run_def s)
  next
    case (Inr u)
    have run: "fst (control_run n be env i j c) = fst (control_started n be env i j c1)"
      by (simp add: control_run_def s Inr split: prod.splits sum.splits)
    show ?thesis
    proof (cases "r2 = Inr () \<and> policy_still n be i c2 = Inr ()")
      case True
      then show ?thesis using started_sends [of n be env c1 c2 i j] s Inr e unfolding run by auto
    next
      case False
      then show ?thesis using cf.frame_trans [OF c1 started'] unfolding run by blast
    qed
  qed
qed

text \<open>The dispatch of one command: its job is in a state that allows it, its record is started, and the policy is asked once more.\<close>

definition dispatched_from ::
  "sodium \<Rightarrow> 'g job_backend \<Rightarrow> control_env \<Rightarrow> control_intent \<Rightarrow> 'g ledger \<Rightarrow> 'g ledger \<Rightarrow> 'g ledger \<Rightarrow> bool" where
  "dispatched_from n be env i c c2 c' \<longleftrightarrow> (\<exists>j st c0 c1.
     ci_job i = Some j \<and> snd (poll_job n be j (sc_jobs (cn_host c))) = Inr st \<and> js_state st \<in> set (map cps (allowed_states (ci_action i)))
     \<and> same_files c c0 \<and> cn_start n be i (ce_write env) c0 = (c1, Inr ()) \<and> emit n be (ce_before env) c1 = (c2, Inr ())
     \<and> policy_still n be i c2 = Inr () \<and> carries (c2\<lparr>cn_sent := (ci_operation i, ci_raw i) # cn_sent c2\<rparr>) c')"

lemma control_fresh_cases:
  assumes "inspect_intent n (PBytes (ci_raw i)) = Inr (ib, i)"
  shows "carries c (fst (control_fresh n be env i c)) \<or> (\<exists>c2. dispatched_from n be env i c c2 (fst (control_fresh n be env i c)))"
proof (cases "ci_job i")
  case (Some j)
  obtain jb r where p: "poll_job n be j (sc_jobs (cn_host c)) = (jb, r)" by fastforce
  let ?c0 = "c\<lparr>cn_host := (cn_host c)\<lparr>sc_jobs := jb\<rparr>\<rparr>"
  have same: "same_files c ?c0" by (simp add: same_files_def)
  show ?thesis
  proof (cases "\<exists>st. r = Inr st \<and> js_state st \<in> set (map cps (allowed_states (ci_action i)))")
    case True
    then obtain st where st: "r = Inr st" "js_state st \<in> set (map cps (allowed_states (ci_action i)))" by blast
    then have run: "control_fresh n be env i c = control_run n be env i j ?c0"
      by (simp add: control_fresh_def Some on_host_def on_jobs_def p)
    show ?thesis unfolding run dispatched_from_def
      using control_run_cases [OF assms, of ?c0 be env j] cf.frame_trans [OF same_carries [OF same]] p st Some same by auto
  next
    case False
    then show ?thesis using same_carries [OF same]
      by (cases r) (auto simp: control_fresh_def Some on_host_def on_jobs_def p need_def)
  qed
qed (simp add: control_fresh_def cf.frame_refl)

lemma dispatched_from_same:
  assumes "same_files c c0" "same_host c c0" "dispatched_from n be env i c0 c2 c'"
  shows "dispatched_from n be env i c c2 c'"
  using assms(2,3) ff.frame_trans [OF assms(1)] unfolding dispatched_from_def same_host_def by metis

lemma execute_cases:
  assumes "execute n be env raw c = (c', r)"
  shows "carries c c' \<or> (\<exists>i c2. control_policy n be c = Inr (PBytes (ci_controller i), PInt (ci_revision i))
    \<and> jc_check_intent n (PBytes (be_public be)) (PBytes (be_store be)) (PBytes (ci_controller i)) (PInt (ci_revision i)) (PBytes raw) = Inr i
    \<and> ci_action i \<noteq> cps ''status'' \<and> dispatched_from n be env i c c2 c')"
proof (cases "\<exists>public revision i. control_policy n be c = Inr (public, revision) \<and> public \<noteq> PNone
    \<and> jc_check_intent n (PBytes (be_public be)) (PBytes (be_store be)) public revision (PBytes raw) = Inr i")
  case True
  then obtain public revision i where pol: "control_policy n be c = Inr (public, revision)" "public \<noteq> PNone"
    and chk: "jc_check_intent n (PBytes (be_public be)) (PBytes (be_store be)) public revision (PBytes raw) = Inr i" by blast
  obtain ib where f: "ci_raw i = raw" "inspect_intent n (PBytes raw) = Inr (ib, i)" "public = PBytes (ci_controller i)" "revision = PInt (ci_revision i)"
    using check_intent_facts [OF chk] by blast
  obtain c0 r0 where a: "cn_audit n be c = (c0, r0)" by fastforce
  obtain c1 r1 where l: "cn_lookup n be i c0 = (c1, r1)" by fastforce
  have s0: "same_files c c0" "same_host c c0" using cn_audit_same [of c n be] a by simp_all
  have s1: "same_files c c1" "same_host c c1"
    using cn_lookup_same [of c0 n be i] l s0 ff.frame_trans [OF s0(1), of c1] hf.frame_trans [OF s0(2), of c1] by simp_all
  have view: "carries c (fst (control_view n be i v d x))" if "same_files c x" for v d x
    using same_carries [OF that] cf.frame_trans same_carries [OF control_view_same] by blast
  have fresh: "carries c (fst (control_fresh n be env i c1)) \<or> (\<exists>c2. dispatched_from n be env i c c2 (fst (control_fresh n be env i c1)))"
    using control_fresh_cases [of n i ib c1 be env] f dispatched_from_same [OF s1] cf.frame_trans [OF same_carries [OF s1(1)]] by blast
  have c': "c' = fst (execute n be env raw c)" using assms by simp
  have "carries c c' \<or> ci_action i \<noteq> cps ''status'' \<and> (\<exists>c2. dispatched_from n be env i c c2 c')"
    using s0 s1 view fresh pol chk
    by (auto simp: c' execute_def a l same_carries split: sum.splits option.splits)
  then show ?thesis using pol chk f by auto
next
  case False
  then have "fst (execute n be env raw c) = c"
    by (auto simp: execute_def bindE_def need_def split: sum.splits)
  then show ?thesis using assms by (simp add: cf.frame_refl)
qed

section \<open>At most once\<close>

text \<open>Every intent that was sent is recorded under its operation, and no operation was sent twice.\<close>

definition once :: "'g ledger \<Rightarrow> bool" where
  "once c \<longleftrightarrow> distinct (map fst (cn_sent c)) \<and> (\<forall>(oid, raw) \<in> set (cn_sent c). \<exists>f. map_of (cn_files c) oid = Some f \<and> kept f raw)"

lemma carries_once: "carries c c' \<Longrightarrow> once c \<Longrightarrow> once c'"
  by (fastforce simp: carries_def once_def)

lemma dispatched_facts:
  assumes "dispatched_from n be env i c c2 c'" "inspect_intent n (PBytes (ci_raw i)) = Inr (ib, i)"
  shows "carries c c2 \<and> carries (c2\<lparr>cn_sent := (ci_operation i, ci_raw i) # cn_sent c2\<rparr>) c' \<and> map_of (cn_files c) (ci_operation i) = None
    \<and> (\<exists>f o'. map_of (cn_files c2) (ci_operation i) = Some f \<and> jc_split (PBytes f) CONTROL_LIMIT = Inr (record_body be (ci_raw i) ''INFLIGHT'', o'))"
proof -
  obtain c0 c1 where c0: "same_files c c0" "cn_start n be i (ce_write env) c0 = (c1, Inr ())" "emit n be (ce_before env) c1 = (c2, Inr ())"
    and c': "carries (c2\<lparr>cn_sent := (ci_operation i, ci_raw i) # cn_sent c2\<rparr>) c'"
    using assms(1) unfolding dispatched_from_def by blast
  note st = start_facts [OF assms(2) c0(2)]
  have r: "same_records c1 c2" using emit_records [of c1 n be "ce_before env"] c0(3) by simp
  then have "carries c c2" using cf.frame_trans [OF same_carries [OF c0(1)] cf.frame_trans [OF st(1)]] by (simp add: same_records_def files_carries)
  moreover have "map_of (cn_files c) (ci_operation i) = None" using st(2) c0(1) by (simp add: same_files_def)
  ultimately show ?thesis using c' st(2) r by (auto simp: same_records_def)
qed

lemma dispatched_once:
  assumes "dispatched_from n be env i c c2 c'" "inspect_intent n (PBytes (ci_raw i)) = Inr (ib, i)" "once c"
  shows "once c'"
proof -
  note d = dispatched_facts [OF assms(1,2)]
  have o2: "once c2" and sent: "cn_sent c2 = cn_sent c" using d carries_once assms(3) by (auto simp: carries_def)
  obtain f o' where f: "map_of (cn_files c2) (ci_operation i) = Some f" "jc_split (PBytes f) CONTROL_LIMIT = Inr (record_body be (ci_raw i) ''INFLIGHT'', o')"
    using d by blast
  have "ci_operation i \<notin> fst ` set (cn_sent c)" using assms(3) d by (fastforce simp: once_def)
  moreover have "kept f (ci_raw i)" using f(2) by (simp add: kept_def record_body_def)
  ultimately have "once (c2\<lparr>cn_sent := (ci_operation i, ci_raw i) # cn_sent c2\<rparr>)" using o2 sent f(1) by (auto simp: once_def)
  then show ?thesis using carries_once d by blast
qed

lemma command_once: "once c \<Longrightarrow> once (fst (execute n be env raw c))"
proof -
  assume o: "once c"
  obtain c' r where e: "execute n be env raw c = (c', r)" by fastforce
  from execute_cases [OF e] show ?thesis
  proof (elim disjE exE conjE)
    fix i c2
    assume "jc_check_intent n (PBytes (be_public be)) (PBytes (be_store be)) (PBytes (ci_controller i)) (PInt (ci_revision i)) (PBytes raw) = Inr i"
      and d: "dispatched_from n be env i c c2 c'"
    then obtain ib where "inspect_intent n (PBytes (ci_raw i)) = Inr (ib, i)" using check_intent_facts by blast
    then show ?thesis using dispatched_once [OF d _ o] e by simp
  qed (use o e carries_once in auto)
qed

lemma serve_once: "once c \<Longrightarrow> once (fst (serve_request n be env guard hello request c))"
proof -
  assume o: "once c"
  let ?m = "bindS (c, bindE (control_policy n be c) (\<lambda>(public, revision).
     bindE (need (public \<noteq> PNone \<and> (public, revision) = guard) (ServiceError ''STALE_CONTROLLER'')) (\<lambda>_.
       jc_check_request n (PBytes (be_public be)) (PBytes (be_store be)) public revision (PBytes hello) (PBytes request)))) (\<lambda>i. execute n be env (ci_raw i))"
  have m: "once (fst ?m)" using o command_once by (auto split: sum.splits)
  have hold: "once (fst (bindS (on_host g d) (\<lambda>_ c. (c, v))))" if "once d" for d and v :: "bytes res" and g :: "'a sched \<Rightarrow> 'a sched \<times> unit res"
    by (rule carries_once [OF _ that]) (intro cf.frame_bind cf.frame_pure same_carries [OF on_host_same])
  show ?thesis unfolding serve_request_def using m by (auto intro!: hold split: prod.splits sum.splits)
qed

lemma records_once: "same_records c c' \<Longrightarrow> once c \<Longrightarrow> once c'"
  by (simp add: same_records_def once_def)

lemma step_once:
  assumes "once c" "control_step n be c c'"
  shows "once c'"
  using assms(2)
proof cases
  case (Execute env raw r)
  then show ?thesis using command_once [OF assms(1)] by (metis fst_conv)
next
  case (Serve env guard hello request r)
  then show ?thesis using serve_once [OF assms(1)] by (metis fst_conv)
next
  case (Replace public revision w r)
  have "same_records c (fst (replace_controller n be public revision w c))"
    unfolding replace_controller_def by (intro rf.frame_bind rf.frame_pure cn_rotate_records)
  then show ?thesis using Replace records_once [OF _ assms(1)] by simp
next
  case (VerifyPin pin' r)
  then show ?thesis using records_once [OF same_files_records [OF cn_verify_pin_same] assms(1)] by (metis fst_conv)
next
  case (Open controller revision m expected w r)
  then show ?thesis using records_once [OF open_control_records assms(1)] by (metis fst_conv)
qed (use assms(1) in \<open>simp_all add: once_def cn_close_def\<close>)

interpretation ledger: keeps "control_step n be" once
  by unfold_locales (rule step_once)

text \<open>The jobs of the host, up to what their journal remembers of its files.\<close>

definition same_jobs :: "'g ledger \<Rightarrow> 'g ledger \<Rightarrow> bool" where
  "same_jobs c c' \<longleftrightarrow> same_world (sc_jobs (cn_host c)) (sc_jobs (cn_host c'))"

interpretation jf: frame same_jobs
  by unfold_locales (auto simp: same_jobs_def intro: same_world_trans)

lemma same_host_jobs: "same_host c c' \<Longrightarrow> same_jobs c c'"
  by (simp add: same_host_def same_jobs_def)

lemma poll_same: "same_world j (fst (poll_job n be i j))"
  unfolding poll_job_def with_job_def by (intro same_rules) simp

lemma on_jobs_same: "(\<And>j. same_world j (fst (f j))) \<Longrightarrow> same_jobs c (fst (on_host (on_jobs f) c))"
  by (auto simp: same_jobs_def on_host_def on_jobs_def split: prod.splits) (metis fst_conv)

lemma cn_pin_host: "same_host c (fst (cn_pin n be c))"
  unfolding cn_pin_def by (intro hf_rules cn_read_same cn_audit_same)

lemma control_view_jobs: "same_jobs c (fst (control_view n be i outcome duplicate c))"
proof -
  have "same_jobs c (fst (poll_dict n be j c))" for j and c :: "'a ledger"
    by (cases j) (auto simp: poll_dict_def jf.frame_refl intro!: jf.frame_bind jf.frame_pure on_jobs_same poll_same)
  moreover have "same_jobs c (fst (on_host sc_diagnostics c))" for c :: "'a ledger"
    by (simp add: on_host_def sc_diagnostics_def same_jobs_def split: prod.splits)
  ultimately show ?thesis unfolding control_view_def Let_def
    by (intro jf.frame_bind jf.frame_pure on_jobs_same pin_same same_host_jobs [OF cn_pin_host])
qed

lemma control_view_value:
  assumes "control_view n be i outcome duplicate c = (c', Inr v)"
  shows "str_at v ''duplicate'' = Inr (PBool duplicate) \<and> str_at v ''outcome'' = Inr outcome"
  using assms by (auto simp: control_view_def Let_def bindS_Inr bindE_eq_Inr str_at_def sget_def text_dict_def cps_def)

lemma lookup_found:
  assumes "cn_lookup n be i c = (c', Inr previous)" "map_of (cn_files c) (ci_operation i) = Some f"
  shows "\<exists>b o' s. jc_split (PBytes f) CONTROL_LIMIT = Inr (b, o') \<and> item_at b 4 = Inr (PBytes (ci_raw i)) \<and> item_at b 5 = Inr s
    \<and> previous = Some (if s = PStr (cps ''INFLIGHT'') then PStr (cps ''OUTCOME_UNKNOWN'') else s)"
proof -
  obtain c0 ids where a: "cn_audit n be c = (c0, Inr ids)" using assms(1) by (auto simp: cn_lookup_def bindS_Inr)
  then have m: "map_of (cn_files c0) (ci_operation i) = Some f" using cn_audit_same(1) [of c n be] assms(2) by (simp add: same_files_def)
  obtain b raw where b: "cn_inspect n be (ci_operation i) c0 = Inr (b, raw)" and rest: "item_at b 4 = Inr (PBytes (ci_raw i))"
      "\<exists>s. item_at b 5 = Inr s \<and> previous = Some (if s = PStr (cps ''INFLIGHT'') then PStr (cps ''OUTCOME_UNKNOWN'') else s)"
    using assms(1) a m by (auto simp: cn_lookup_def cn_read_def bindS_Inr bindE_eq_Inr field_is_def split: prod.splits)
  show ?thesis using cn_inspect_facts(1,2) [OF b] m rest by auto
qed

section \<open>Replaced controllers\<close>

lemma policy_entries_split:
  assumes "policy_entries n be m raw = Inr es"
  shows "\<exists>b o'. jc_split (PBytes raw) CONTROL_LIMIT = Inr (b, o') \<and> item_at b 5 = Inr (PList es)"
proof -
  obtain b o' x2 x3 x4 x where b: "jc_split (PBytes raw) CONTROL_LIMIT = Inr (b, o')" "mapE (item_at b) [2, 3, 4, 5] = Inr [x2, x3, x4, x]"
    and x: "(case x of PList es \<Rightarrow> bindE (need (1 \<le> length es \<and> length es \<le> MAX_POLICIES) (ServiceError ''CONTROL_POLICY'')) (\<lambda>_.
         bindE (foldE check_entry es 0) (\<lambda>_. Inr es)) | _ \<Rightarrow> Inl (ServiceError ''CONTROL_POLICY'')) = Inr es"
    using assms by (auto simp: policy_entries_def bindE_eq_Inr)
  have "x = PList es" using x by (cases x) (auto simp: bindE_eq_Inr)
  then show ?thesis using b by (auto simp: bindE_eq_Inr)
qed

lemma canonical_item:
  assumes "canonical b" "item_at b k = Inr v"
  shows "canonical v"
proof (cases b)
  case (PDict kvs)
  then have "(PInt k, v) \<in> set kvs" using assms(2) by (auto simp: item_at_def dict_get_def dest: map_of_SomeD split: option.splits)
  then show ?thesis using assms(1) PDict by (force simp: list_all_iff)
next
  case (PList xs)
  then show ?thesis using assms by (force simp: item_at_def Let_def list_all_iff split: if_splits)
qed (use assms in \<open>simp_all add: item_at_def\<close>)

lemma policy_flat:
  assumes "policy_entries n be m raw = Inr es" "wf_py x" "canon x = x"
  shows "wf_py (policy_body be k (es @ [x]))" "canon (policy_body be k (es @ [x])) = policy_body be k (es @ [x])"
proof -
  obtain b o' where b: "jc_split (PBytes raw) CONTROL_LIMIT = Inr (b, o')" "item_at b 5 = Inr (PList es)"
    using policy_entries_split [OF assms(1)] by blast
  have c: "canonical (PList es)" using jc_split_canonical [OF b(1)] b(2) by (rule canonical_item)
  have "wf_py (PList es)" "map canon es = es" using canonical_wf [OF c] canonical_canon [OF c] by simp_all
  then show "wf_py (policy_body be k (es @ [x]))" "canon (policy_body be k (es @ [x])) = policy_body be k (es @ [x])"
    using assms(2,3) by (simp_all add: policy_body_def mk_dict_def JC_PROFILE_def)
qed

text \<open>A change of the controller that returned is what the policy says.\<close>

lemma replaced_policy:
  assumes "replace_controller n be public revision w c = (c', Inr ())" "control_policy n be c' = Inr p"
  shows "p = (public, revision)"
proof -
  obtain c0 es where es: "cn_policy n be c0 = Inr es" and x: "wf_py (PList [revision, public])" "canon (PList [revision, public]) = PList [revision, public]"
    and save: "save_policy n be (es @ [PList [revision, public]]) w c0 = (c', Inr ())"
    using assms(1)
    by (auto simp: replace_controller_def cn_rotate_def bindS_Inr bindE_eq_Inr sp_integer_def sp_fixed_def split: if_splits)
  obtain raw0 where "policy_entries n be (cn_max c0) raw0 = Inr es" using es by (auto simp: cn_policy_def bindE_eq_Inr)
  note flat = policy_flat [OF this x, of "cn_max c0"]
  obtain raw where raw: "jc_sign n (be_seed be) ''policy'' (policy_body be (cn_max c0) (es @ [PList [revision, public]])) CONTROL_LIMIT = Inr raw"
    and "cn_policy_file c' = Some raw"
    using save by (cases w) (auto simp: save_policy_def bindS_Inr cn_atomic_def cn_put_def)
  moreover obtain o' where "jc_split (PBytes raw) CONTROL_LIMIT = Inr (policy_body be (cn_max c0) (es @ [PList [revision, public]]), o')"
    using jc_sign_split [OF raw] flat by blast
  moreover obtain es' raw' where es': "cn_load (cn_policy_file c') = Inr raw'" "policy_entries n be (cn_max c') raw' = Inr es'" "last_entry es' = Inr p"
    using assms(2) by (auto simp: control_policy_def cn_policy_def bindE_eq_Inr)
  ultimately have "es' = es @ [PList [revision, public]]"
    using policy_entries_split [OF es'(2)] by (auto simp: cn_load_def bindE_eq_Inr policy_body_def)
  then show ?thesis using es'(3) by (simp add: last_entry_def)
qed

end
