(* ===== verification/ControlProps.thy ===== *)
theory ControlProps
  imports ControlLedger
begin

text \<open>
  What the control ledger guarantees: an operation is dispatched to the host at most once, also across crashes and restarts, only for an
  intent of the controller in force and only after its record is on disk; a repeated intent is answered from the record; a replaced
  controller is out; and a request that a client makes is the one the server checks.
\<close>

section \<open>Commands\<close>

text \<open>C30. An operation is dispatched at most once. From an empty directory, over any sequence of commands, requests, changes of the controller,
  closings and openings (with any outcome of every write, any crash and any activity of the host), no operation identifier is sent to the
  host twice, and for every intent that was sent the ledger has a file under its operation that records exactly this intent.\<close>

theorem control_once:
  assumes "(control_step n be)\<^sup>*\<^sup>* (new_control h) c"
  shows "distinct (map fst (cn_sent c))
    \<and> (\<forall>(oid, raw) \<in> set (cn_sent c). \<exists>f b o'. map_of (cn_files c) oid = Some f
        \<and> jc_split (PBytes f) CONTROL_LIMIT = Inr (b, o') \<and> item_at b 4 = Inr (PBytes raw))"
  using ledger.reachable_keeps [OF assms] by (simp add: once_def kept_def new_control_def)

text \<open>C31. A dispatch is authorized and recorded first. When a command is sent to the host, it is an intent signed by the controller that the
  policy names, for an operation the ledger did not have, on a job whose state allows the action; before it is sent, its record is on
  disk as in flight, and the policy, asked again after the observer was called, still names this controller and revision.\<close>

theorem dispatch_authorized:
  assumes "execute n be env raw c = (c', r)" "cn_sent c' \<noteq> cn_sent c"
  shows "\<exists>i j st c0 c1 c2 f o'. control_policy n be c = Inr (PBytes (ci_controller i), PInt (ci_revision i))
    \<and> jc_check_intent n (PBytes (be_public be)) (PBytes (be_store be)) (PBytes (ci_controller i)) (PInt (ci_revision i)) (PBytes raw) = Inr i
    \<and> ci_job i = Some j \<and> snd (poll_job n be j (sc_jobs (cn_host c))) = Inr st \<and> js_state st \<in> set (map cps (allowed_states (ci_action i)))
    \<and> map_of (cn_files c) (ci_operation i) = None
    \<and> cn_files c0 = cn_files c \<and> cn_start n be i (ce_write env) c0 = (c1, Inr ()) \<and> emit n be (ce_before env) c1 = (c2, Inr ()) \<and> map_of (cn_files c2) (ci_operation i) = Some f
    \<and> jc_split (PBytes f) CONTROL_LIMIT = Inr (record_body be raw ''INFLIGHT'', o')
    \<and> control_policy n be c2 = Inr (PBytes (ci_controller i), PInt (ci_revision i))
    \<and> cn_sent c' = (ci_operation i, raw) # cn_sent c"
proof -
  obtain i c2 where i: "control_policy n be c = Inr (PBytes (ci_controller i), PInt (ci_revision i))"
      "jc_check_intent n (PBytes (be_public be)) (PBytes (be_store be)) (PBytes (ci_controller i)) (PInt (ci_revision i)) (PBytes raw) = Inr i"
    and d: "dispatched_from n be env i c c2 c'"
    using execute_cases [OF assms(1)] assms(2) by (auto simp: carries_def)
  obtain ib where ib: "inspect_intent n (PBytes (ci_raw i)) = Inr (ib, i)" "ci_raw i = raw" using check_intent_facts [OF i(2)] by blast
  note f = dispatched_facts [OF d ib(1)]
  have "control_policy n be c2 = Inr (PBytes (ci_controller i), PInt (ci_revision i))"
    using d by (auto simp: dispatched_from_def policy_still_def bindE_eq_Inr)
  moreover have "cn_sent c' = (ci_operation i, raw) # cn_sent c" using f ib(2) by (simp add: carries_def)
  ultimately show ?thesis using i d f ib(2) unfolding dispatched_from_def same_files_def by blast
qed

text \<open>C32. A repeated command is answered from its record. When the ledger has a file for the operation of an intent, executing the intent
  writes nothing, sends nothing and changes no job, whatever the record says; and if it gives a view, then the file records this very
  intent, the view is marked as a duplicate, and its outcome is the recorded one, unknown for a command left in flight.\<close>

theorem repeat_answered:
  assumes "control_policy n be c = Inr (public, revision)"
    and "jc_check_intent n (PBytes (be_public be)) (PBytes (be_store be)) public revision (PBytes raw) = Inr i"
    and "ci_action i \<noteq> cps ''status''" "map_of (cn_files c) (ci_operation i) = Some f" "execute n be env raw c = (c', r)"
  shows "cn_files c' = cn_files c \<and> cn_sent c' = cn_sent c \<and> jb_files (sc_jobs (cn_host c')) = jb_files (sc_jobs (cn_host c))
    \<and> jb_effects (sc_jobs (cn_host c')) = jb_effects (sc_jobs (cn_host c)) \<and> jb_gateway (sc_jobs (cn_host c')) = jb_gateway (sc_jobs (cn_host c))
    \<and> (\<forall>v. r = Inr v \<longrightarrow> str_at v ''duplicate'' = Inr (PBool True)
        \<and> (\<exists>b o' s. jc_split (PBytes f) CONTROL_LIMIT = Inr (b, o') \<and> item_at b 4 = Inr (PBytes raw) \<and> item_at b 5 = Inr s
             \<and> str_at v ''outcome'' = Inr (if s = PStr (cps ''INFLIGHT'') then PStr (cps ''OUTCOME_UNKNOWN'') else s)))"
proof -
  have pub: "public \<noteq> PNone" "ci_raw i = raw" using check_intent_facts [OF assms(2)] by auto
  obtain c0 r0 where a: "cn_audit n be c = (c0, r0)" by fastforce
  obtain c1 r1 where l: "cn_lookup n be i c0 = (c1, r1)" by fastforce
  have s0: "same_files c c0" "same_host c c0" using cn_audit_same [of c n be] a by simp_all
  have s1: "same_files c c1" "same_host c c1"
    using cn_lookup_same [of c0 n be i] l s0 ff.frame_trans [OF s0(1), of c1] hf.frame_trans [OF s0(2), of c1] by simp_all
  have m: "map_of (cn_files c0) (ci_operation i) = Some f" using s0(1) assms(4) by (simp add: same_files_def)
  consider e where "(c', r) = (c0, Inl e)" | e where "(c', r) = (c1, Inl e)"
    | outcome where "r1 = Inr (Some outcome)" "control_view n be i outcome True c1 = (c', r)"
    using assms pub lookup_found [of n be i c0 c1 _ f] m
    by (cases r0; cases r1) (auto simp: execute_def a l split: option.splits)
  then show ?thesis
  proof cases
    case (3 outcome)
    have "same_files c1 c'" "same_jobs c1 c'"
      using control_view_same [of c1 n be i outcome True] control_view_jobs [of c1 n be i outcome True] 3(2) by simp_all
    moreover have "same_jobs c c1" by (rule same_host_jobs [OF s1(2)])
    moreover note lookup_found [of n be i c0 c1 "Some outcome" f]
    ultimately show ?thesis using s1 3 l m pub(2) control_view_value [of n be i outcome True c1 c']
      by (auto simp: same_files_def same_jobs_def same_world_def)
  qed (use s0 s1 in \<open>auto simp: same_files_def same_host_def\<close>)
qed

text \<open>C33. A replaced controller is out at once. After a change of the controller has returned, a command signed by any other controller, or for
  any other revision of the policy, is refused and changes nothing; when the new entry names nobody, every command is.\<close>

theorem replaced_refused:
  assumes "replace_controller n be public revision w c = (c', Inr ())" "inspect_intent n (PBytes raw) = Inr (ib, i)"
    and "(public, revision) \<noteq> (PBytes (ci_controller i), PInt (ci_revision i))"
  shows "\<exists>e. execute n be env raw c' = (c', Inl e)"
proof (cases "control_policy n be c'")
  case (Inl e)
  then show ?thesis by (simp add: execute_def)
next
  case (Inr p)
  then have p: "p = (public, revision)" by (rule replaced_policy [OF assms(1)])
  have "\<nexists>i'. jc_check_intent n (PBytes (be_public be)) (PBytes (be_store be)) public revision (PBytes raw) = Inr i'"
    using check_intent_facts assms(2,3) by fastforce
  then obtain e where "jc_check_intent n (PBytes (be_public be)) (PBytes (be_store be)) public revision (PBytes raw) = Inl e"
    by (cases "jc_check_intent n (PBytes (be_public be)) (PBytes (be_store be)) public revision (PBytes raw)") auto
  then show ?thesis using Inr p by (cases "public = PNone") (simp_all add: execute_def)
qed

section \<open>Requests\<close>

text \<open>C34. A request carries its intent on its own connection. What a controller makes for a hello and an intent is accepted by the host that
  sent the hello, with exactly this intent; and nobody accepts it for a hello with another digest or takes another intent out of it.\<close>

theorem control_request:
  assumes "sodium_ok n" "jc_make_request n seed (PBytes hello) (PBytes intent) = Inr raw"
  shows "\<exists>b i keeper store. inspect_intent n (PBytes intent) = Inr (b, i) \<and> mapE (item_at b) [2, 3] = Inr [keeper, store]
    \<and> p_sign_public n seed = Inr (ci_controller i)
    \<and> jc_check_request n keeper store (PBytes (ci_controller i)) (PInt (ci_revision i)) (PBytes hello) (PBytes raw) = Inr i
    \<and> (\<forall>n' keeper' store' controller' revision' hello' i'.
        jc_check_request n' keeper' store' controller' revision' hello' (PBytes raw) = Inr i'
        \<longrightarrow> jc_digest hello' = jc_digest (PBytes hello) \<and> ci_raw i' = intent \<and> ci_operation i' = ci_operation i)"
proof -
  obtain b i keeper store d where i: "inspect_intent n (PBytes intent) = Inr (b, i)" "item_at b 2 = Inr keeper" "item_at b 3 = Inr store"
    and pk: "p_sign_public n seed = Inr (ci_controller i)" and d: "jc_digest (PBytes hello) = Inr d"
    and hello: "\<exists>h. jc_check_hello n keeper store (PBytes (ci_controller i)) (PInt (ci_revision i)) (PBytes hello) = Inr h"
    and s: "jc_sign n seed ''request'' (mk_dict [(0, PInt 1), (1, JC_PROFILE), (2, PBytes d), (3, PBytes intent)]) JC_MAX_REQUEST = Inr raw"
    using assms(2) by (auto simp: jc_make_request_def bindE_eq_Inr)
  let ?b = "mk_dict [(0, PInt 1), (1, JC_PROFILE), (2, PBytes d), (3, PBytes intent)]"
  have flat: "wf_py ?b" "canon ?b = ?b" by (simp_all add: mk_dict_def JC_PROFILE_def)
  have len: "length d = 32" "length (ci_controller i) = 32"
    using d pk assms(1) by (auto simp: jc_digest_def hashed_def sodium_ok_def p_sign_public_def bindE_eq_Inr split: option.splits)
  obtain o' where o': "jc_split (PBytes raw) JC_MAX_REQUEST = Inr (?b, o')" "jc_verify n (PBytes (ci_controller i)) o' ''request'' = Inr ()"
    using env_roundtrip [OF assms(1) pk s [unfolded jc_sign_def] flat, of "ServiceError ''FRAME_LIMIT''" sp_error "ServiceError ''CONTROL_SIGNATURE''"] len(2)
    by (auto simp: jc_split_def jc_verify_def sp_fixed_def bytes_sized_def)
  have fields: "item_at b 4 = Inr (PBytes (ci_controller i))" "item_at b 5 = Inr (PInt (ci_revision i))"
    using i(1) by (auto simp: inspect_intent_def intent_shape_def intent_of_def bindE_eq_Inr sp_integer_def int_of_def)
  have chk: "jc_check_intent n keeper store (PBytes (ci_controller i)) (PInt (ci_revision i)) (PBytes intent) = Inr i"
    using hello i fields by (auto simp: jc_check_hello_def jc_check_intent_def bindE_eq_Inr)
  have body: "sp_keys ?b (key_range 4) = Inr ()" "jc_version ?b = Inr ()" "each_sized sp_error ?b [2] = Inr ()"
    using len(1) by (simp_all add: check_simps jc_version_def)
  have accepted: "jc_check_request n keeper store (PBytes (ci_controller i)) (PInt (ci_revision i)) (PBytes hello) (PBytes raw) = Inr i"
    using hello o' body d chk by (auto simp: jc_check_request_def field_is_def)
  have bound: "jc_digest hello' = jc_digest (PBytes hello) \<and> ci_raw i' = intent \<and> ci_operation i' = ci_operation i"
    if "jc_check_request n' keeper' store' controller' revision' hello' (PBytes raw) = Inr i'" for n' keeper' store' controller' revision' hello' i'
  proof -
    have "jc_digest hello' = Inr d" and c: "jc_check_intent n' keeper' store' controller' revision' (PBytes intent) = Inr i'"
      using that o'(1) by (auto simp: jc_check_request_def field_is_def bindE_eq_Inr)
    moreover obtain ib where "inspect_intent n' (PBytes intent) = Inr (ib, i')" "ci_raw i' = intent" using check_intent_facts [OF c] by blast
    ultimately show ?thesis using i(1) d by (auto simp: inspect_intent_def intent_of_def bindE_eq_Inr)
  qed
  have "mapE (item_at b) [2, 3] = Inr [keeper, store]" using i by simp
  then show ?thesis using i(1) pk accepted bound by blast
qed

section \<open>A ledger with one command\<close>

lemma jc_sample:
  assumes "\<exists>b. encode body limit MAX_NODES = Inr b \<and> length b \<le> k" "k \<le> 60000" "int k + 100 \<le> limit" "limit \<le> MAX_BYTES"
    and "label \<in> {''hello'', ''intent'', ''request'', ''policy'', ''record''}" "length seed = 32" "wf_py body" "canon body = body"
  shows "\<exists>raw o'. jc_sign test_sodium seed label body limit = Inr raw \<and> length raw \<le> k + 100 \<and> raw \<noteq> []
    \<and> jc_split (PBytes raw) limit = Inr (body, o') \<and> jc_verify test_sodium (PBytes seed) o' label = Inr ()"
proof -
  have l: "label_pattern (cps (''host-job-control/'' @ label)) \<and> length (''host-job-control/'' @ label) \<le> 64
      \<and> list_all (\<lambda>c. c < 128) (cps (''host-job-control/'' @ label))"
    using assms(5) by (auto simp: label_pattern_def lower_digit_def cps_def)
  obtain raw o' where raw: "env_signed sp_error limit ''host-job-control/'' test_sodium seed label body = Inr raw" "length raw \<le> k + 100"
      "env_split (ServiceError ''FRAME_LIMIT'') sp_error limit (PBytes raw) = Inr (body, o')"
      "env_verify (ServiceError ''CONTROL_SIGNATURE'') ''host-job-control/'' test_sodium (PBytes seed) o' label = Inr ()"
    using env_sample [OF assms(1-4) l assms(6-8)] by blast
  moreover have "raw \<noteq> []" using env_split_nonempty [OF raw(3)] .
  ultimately show ?thesis using assms(6) by (auto simp: jc_sign_def jc_split_def jc_verify_def sp_fixed_def bytes_sized_def)
qed

lemma jc_digest_sample: "length raw \<le> 70000 \<Longrightarrow> \<exists>h. jc_digest (PBytes raw) = Inr h \<and> length h = 32"
  using hashed_sample [of "''host-job-control/bytes''" "[PBytes raw]"]
  by (simp add: jc_digest_def nhead_def label_pattern_def lower_digit_def cps_def)

abbreviation sample_store :: bytes where "sample_store \<equiv> replicate 32 4"
abbreviation sample_job :: bytes where "sample_job \<equiv> replicate 32 5"
abbreviation sample_operation :: bytes where "sample_operation \<equiv> replicate 32 6"

definition sample_command :: pyval where
  "sample_command = intent_body (PBytes sample_keeper) (PBytes sample_store) (PBytes sample_issuer) (PInt 1) (PBytes sample_operation)
     (PStr (cps ''cancel'')) (PBytes sample_job)"

definition sample_ci :: "bytes \<Rightarrow> control_intent" where
  "sample_ci raw = \<lparr>ci_action = cps ''cancel'', ci_job = Some sample_job, ci_operation = sample_operation, ci_controller = sample_issuer,
     ci_revision = 1, ci_raw = raw\<rparr>"

lemma sample_command_ok:
  "\<exists>raw. jc_make_intent test_sodium sample_issuer (PBytes sample_keeper) (PBytes sample_store) (PInt 1) (PBytes sample_operation)
      (PStr (cps ''cancel'')) (PBytes sample_job) = Inr raw
    \<and> length raw \<le> 500 \<and> inspect_intent test_sodium (PBytes raw) = Inr (sample_command, sample_ci raw)"
proof -
  have e: "\<exists>b. encode sample_command MAX_INTENT MAX_NODES = Inr b \<and> length b \<le> 400"
    by (simp add: sample_command_def intent_body_def JC_PROFILE_def MAX_INTENT_def sample_defs encode_simps) (simp add: nhead_def cps_def utf8_cp_def)
  have flat: "wf_py sample_command" "canon sample_command = sample_command"
    by (simp_all add: sample_command_def intent_body_def JC_PROFILE_def mk_dict_def)
  have shape: "intent_shape sample_command = Inr ()"
    by (simp add: sample_command_def intent_body_def intent_shape_def jc_version_def check_simps sample_defs MAX_REVISION_def JC_ACTIONS_def JC_MUTATIONS_def)
  obtain raw o' where "jc_sign test_sodium sample_issuer ''intent'' sample_command MAX_INTENT = Inr raw" "length raw \<le> 400 + 100"
      "jc_split (PBytes raw) MAX_INTENT = Inr (sample_command, o')" "jc_verify test_sodium (PBytes sample_issuer) o' ''intent'' = Inr ()"
    using jc_sample [OF e _ _ _ _ _ flat, of "''intent''" sample_issuer] by (auto simp: MAX_INTENT_def MAX_BYTES_def)
  moreover have "item_at sample_command 4 = Inr (PBytes sample_issuer)" "intent_of sample_command raw = Inr (sample_ci raw)" for raw
    by (simp_all add: sample_command_def intent_body_def intent_of_def sample_ci_def str_of_def as_bytes_def int_of_def)
  ultimately show ?thesis using shape
    by (auto simp: jc_make_intent_def inspect_intent_def sample_public as_bytes_def simp flip: sample_command_def)
qed

lemma sample_backend [simp]: "be_public counting_backend = sample_keeper" "be_seed counting_backend = sample_keeper" "be_store counting_backend = sample_store"
  by (simp_all add: counting_backend_def)

lemma sample_command_check:
  assumes "inspect_intent test_sodium (PBytes raw) = Inr (sample_command, sample_ci raw)"
  shows "jc_check_intent test_sodium (PBytes sample_keeper) (PBytes sample_store) (PBytes sample_issuer) (PInt 1) (PBytes raw) = Inr (sample_ci raw)"
  using assms by (simp add: jc_check_intent_def check_simps sample_defs MAX_REVISION_def) (simp add: sample_command_def intent_body_def sample_defs)

definition sample_entries :: "pyval list" where
  "sample_entries = [PList [PInt 1, PBytes sample_issuer]]"

lemma policy_sample:
  assumes "es \<in> {sample_entries, sample_entries @ [PList [PInt 2, PNone]]}"
  shows "\<exists>raw. jc_sign test_sodium sample_keeper ''policy'' (policy_body counting_backend 4 es) CONTROL_LIMIT = Inr raw \<and> length raw \<le> 500 \<and> raw \<noteq> []
    \<and> policy_entries test_sodium counting_backend 4 raw = Inr es"
proof -
  let ?b = "policy_body counting_backend 4 es"
  have e: "\<exists>b. encode ?b CONTROL_LIMIT MAX_NODES = Inr b \<and> length b \<le> 400"
    using assms by (auto simp: policy_body_def sample_entries_def JC_PROFILE_def CONTROL_LIMIT_def sample_defs encode_simps nhead_def cps_def utf8_cp_def)
  have flat: "wf_py ?b" "canon ?b = ?b"
    using assms by (auto simp: policy_body_def sample_entries_def JC_PROFILE_def mk_dict_def)
  have fold: "\<exists>x. foldE check_entry es 0 = Inr x" "1 \<le> length es" "length es \<le> MAX_POLICIES"
    using assms by (auto simp: sample_entries_def check_entry_def check_simps sample_defs MAX_REVISION_def MAX_POLICIES_def int_of_def)
  obtain raw o' where "jc_sign test_sodium sample_keeper ''policy'' ?b CONTROL_LIMIT = Inr raw" "length raw \<le> 400 + 100" "raw \<noteq> []"
      "jc_split (PBytes raw) CONTROL_LIMIT = Inr (?b, o')" "jc_verify test_sodium (PBytes sample_keeper) o' ''policy'' = Inr ()"
    using jc_sample [OF e _ _ _ _ _ flat, of "''policy''" sample_keeper] by (auto simp: CONTROL_LIMIT_def MAX_BYTES_def)
  moreover have "sp_keys ?b (key_range 6) = Inr ()" "jc_version ?b = Inr ()" "sp_integer (PInt 4) 1 (int MAX_OPERATIONS) = Inr ()"
    by (simp_all add: policy_body_def jc_version_def check_simps MAX_OPERATIONS_def)
  ultimately show ?thesis using fold by (auto simp: policy_entries_def) (auto simp: policy_body_def)
qed

definition still_server :: server where
  "still_server = \<lparr>sv_closed = False, sv_accepting = False, sv_listener = 3, sv_selector = [], sv_connections = []\<rparr>"

text \<open>A host whose journal has one cancelled job, and a ledger on it.\<close>

definition sample_jobs :: "bytes \<Rightarrow> nat jobs" where
  "sample_jobs job = (new_jobs 4 33554432 0)\<lparr>jb_files := [(sample_job, job)]\<rparr>"

definition sample_host :: "bytes \<Rightarrow> nat sched" where
  "sample_host job = \<lparr>sc_jobs = sample_jobs job, sc_read = still_server, sc_upload = still_server, sc_pins = 0, sc_keeper_closed = False, sc_closed = False,
     sc_selected = None, sc_retry = False, sc_fault = None, sc_deadline = None, sc_drain = 10, sc_turn = 0, sc_effect_steps = 0, sc_waiting = None\<rparr>"

definition sample_ledger :: "bytes \<Rightarrow> bytes \<Rightarrow> (bytes \<times> bytes) list \<Rightarrow> nat ledger" where
  "sample_ledger job policy' files = \<lparr>cn_host = sample_host job, cn_policy_file = Some policy', cn_files = files, cn_policy_raw = Some policy', cn_seen = [],
     cn_poison = False, cn_closed = False, cn_max = 4, cn_sent = []\<rparr>"

definition sample_env :: control_env where
  "sample_env = \<lparr>ce_write = Written, ce_result = Written, ce_before = Quiet, ce_after = Quiet,
     ce_sched = \<lparr>se_observe = (\<lambda>_. Inr ()), se_now = 0, se_read_in_place = True, se_upload_in_place = True,
       se_poll_read = (\<lambda>x. (x, Inr ())), se_poll_upload = (\<lambda>x. (x, Inr ())), se_job = calm\<rparr>\<rparr>"

lemma cn_policy_sample:
  assumes "policy_entries test_sodium counting_backend 4 raw = Inr es" "length raw \<le> 500" "raw \<noteq> []"
    and "cn_policy_file c = Some raw" "cn_policy_raw c = Some raw" "cn_max c = 4" "\<not> cn_closed c" "\<not> cn_poison c" "\<not> sc_closed (cn_host c)"
  shows "cn_policy test_sodium counting_backend c = Inr es"
  using assms by (simp add: cn_policy_def cn_guard_def cn_load_def CONTROL_LIMIT_def)

lemma sample_poll:
  assumes "mj_pack test_sodium sample_keeper cancelled_record [] = Inr job" "length job \<le> MJ_MAX_FILE"
  shows "\<exists>j st. poll_job test_sodium counting_backend sample_job (sample_jobs job) = (j, Inr st) \<and> js_state st = cps ''CANCELLED''"
proof -
  let ?be = counting_backend
  let ?j = "sample_jobs job" let ?j' = "note_seen sample_job job ?j"
  have u: "mj_unpack test_sodium sample_keeper job = Inr (cancelled_record, [])"
    using job_file_roundtrip [OF test_sodium_ok sample_public assms(1,2) _ cancelled_flat] by (simp add: cancelled_record_def)
  have b: "mapE (item_at cancelled_record) [3, 4] = Inr [PBytes sample_store, PBytes sample_job]" by (simp add: cancelled_record_def)
  have i: "jn_inspect test_sodium ?be sample_job j = Inr (cancelled_record, [], job)" if "j = ?j \<or> j = ?j'" for j
    using that u b by (auto simp: jn_inspect_def sample_jobs_def note_seen_def put_key_def new_jobs_def mj_fixed_def bytes_sized_def)
  have r: "jn_read test_sodium ?be sample_job ?j = (?j', Inr (cancelled_record, [], job))"
    "\<exists>k. jn_read test_sodium ?be sample_job ?j' = (k, Inr (cancelled_record, [], job))"
    using i [of ?j] i [of ?j'] by (simp_all add: jn_read_def)
  have "sort_bytes fst (jb_files ?j) = [(sample_job, job)]" by (simp add: sample_jobs_def sort_bytes_def)
  then have a: "jn_audit test_sodium ?be ?j = (?j', Inr ())"
    using r(1) assms(2)
    by (simp add: jn_audit_def jn_rows_def jn_guard_def)
      (simp add: sample_jobs_def note_seen_def put_key_def new_jobs_def MJ_MAX_FILE_def MAX_HEADER_def MAX_ARCHIVE_def)
  obtain k where k: "jn_read test_sodium ?be sample_job ?j' = (k, Inr (cancelled_record, [], job))" using r(2) by blast
  have e: "last (job_events cancelled_record) = mk_dict [(0, PInt 1), (1, PStr (cps ''CANCELLED'')), (2, PNone), (3, PNone)]"
      "event_state (mk_dict [(0, PInt 1), (1, PStr (cps ''CANCELLED'')), (2, PNone), (3, PNone)]) = cps ''CANCELLED''"
    by (simp_all add: cancelled_record_def job_events_def event_state_def)
  let ?xs = "[PBytes sample_keeper, PBytes sample_store, PStr (cps ''open''), PBytes [1], PNone, PInt 0,
     mk_dict [(0, PBytes sample_store), (1, PInt 0), (2, PNone), (3, PNone)], PStr (cps ''EMPTY''), PNone]"
  have xs: "mapE (item_at cancelled_record) [2, 3, 5, 6, 7, 8, 10, 11, 12] = Inr ?xs" by (simp add: cancelled_record_def)
  have "\<exists>r. encode (PList ?xs) (int MAX_HEADER) MAX_NODES = Inr r"
    by (simp add: MAX_HEADER_def sample_defs encode_simps) (simp add: nhead_def cps_def utf8_cp_def)
  then obtain r where "mj_dump (PList ?xs) = Inr r" by auto
  then have d: "\<exists>x. job_intent cancelled_record = Inr x" unfolding job_intent_def xs by (auto simp: bindE_eq_Inr)
  have f: "\<exists>x. item_at cancelled_record 5 = Inr x" "item_at cancelled_record 4 = Inr (PBytes sample_job)"
      "\<exists>x. bindE (item_at cancelled_record 10) (\<lambda>p. item_at p 1) = Inr x"
    by (simp_all add: cancelled_record_def)
  have "\<exists>st. job_view ?be k cancelled_record [] False = Inr st \<and> js_state st = cps ''CANCELLED''"
    using d f by (auto simp: job_view_def Let_def e as_bytes_def)
  then show ?thesis using a k by (auto simp: poll_job_def with_job_def with_status_def)
qed

lemma record_sample:
  assumes "length raw \<le> 500"
  shows "\<exists>f. jc_sign test_sodium sample_keeper ''record'' (record_body counting_backend raw ''INFLIGHT'') CONTROL_LIMIT = Inr f \<and> length f \<le> 900"
proof -
  let ?b = "record_body counting_backend raw ''INFLIGHT''"
  have e: "\<exists>b. encode ?b CONTROL_LIMIT MAX_NODES = Inr b \<and> length b \<le> 800"
    using assms by (simp add: record_body_def JC_PROFILE_def CONTROL_LIMIT_def sample_defs encode_simps) (simp add: nhead_def cps_def utf8_cp_def)
  show ?thesis using jc_sample [OF e _ _ _ _ _ record_body_flat, of "''record''" sample_keeper] by (auto simp: CONTROL_LIMIT_def MAX_BYTES_def)
qed

text \<open>The command is sent from a ledger without records.\<close>

lemma sample_sent:
  assumes intent: "inspect_intent test_sodium (PBytes raw) = Inr (sample_command, sample_ci raw)" "length raw \<le> 500"
    and policy: "policy_entries test_sodium counting_backend 4 p = Inr sample_entries" "length p \<le> 500" "p \<noteq> []"
    and job: "mj_pack test_sodium sample_keeper cancelled_record [] = Inr job" "length job \<le> MJ_MAX_FILE"
  shows "cn_sent (fst (execute test_sodium counting_backend sample_env raw (sample_ledger job p []))) = [(sample_operation, raw)]"
proof -
  let ?be = counting_backend
  let ?c = "sample_ledger job p []"
  obtain j st where st: "poll_job test_sodium ?be sample_job (sample_jobs job) = (j, Inr st)" "js_state st = cps ''CANCELLED''"
    using sample_poll [OF job] by blast
  let ?asked = "?c\<lparr>cn_host := (sample_host job)\<lparr>sc_jobs := j\<rparr>\<rparr>"
  have pol: "cn_policy test_sodium ?be ?c = Inr sample_entries" "cn_policy test_sodium ?be ?asked = Inr sample_entries"
    by (rule cn_policy_sample [OF policy]; simp add: sample_ledger_def sample_host_def)+
  have cp: "control_policy test_sodium ?be ?c = Inr (PBytes sample_issuer, PInt 1)"
    using pol by (simp add: control_policy_def sc_guard_def sample_ledger_def sample_host_def last_entry_def sample_entries_def)
  have audit: "cn_audit test_sodium ?be c = (c, Inr [])" if "cn_policy test_sodium ?be c = Inr es" "cn_files c = []" "cn_seen c = []" for c es
    using that by (simp add: cn_audit_def)
  obtain f where f: "jc_sign test_sodium sample_keeper ''record'' (record_body ?be raw ''INFLIGHT'') CONTROL_LIMIT = Inr f" "length f \<le> 900"
    using record_sample [OF intent(2)] by blast
  obtain d where d: "jc_digest (PBytes f) = Inr d" using jc_digest_sample [of f] f(2) by auto
  let ?begun = "?asked\<lparr>cn_files := [(sample_operation, f)], cn_seen := [(sample_operation, d)]\<rparr>"
  have start: "cn_start test_sodium ?be (sample_ci raw) Written ?asked = (?begun, Inr ())"
    using audit [OF pol(2)] f d intent
    by (simp add: cn_start_def cn_persist_def cn_atomic_def cn_note_def cn_put_def put_key_def cn_guard_def sample_ledger_def sample_host_def sample_ci_def
        record_body_def CONTROL_LIMIT_def)
  have "cn_policy test_sodium ?be ?begun = Inr sample_entries"
    by (rule cn_policy_sample [OF policy]; simp add: sample_ledger_def sample_host_def)
  then have still: "policy_still test_sodium ?be (sample_ci raw) ?begun = Inr ()"
    by (simp add: policy_still_def control_policy_def sc_guard_def sample_ledger_def sample_host_def last_entry_def sample_entries_def sample_ci_def)
  have look: "cn_lookup test_sodium ?be (sample_ci raw) ?c = (?c, Inr None)"
    using audit [OF pol(1)] by (simp add: cn_lookup_def sample_ledger_def)
  have polled: "on_host (on_jobs (poll_job test_sodium ?be sample_job)) ?c = (?asked, Inr st)"
    using st(1) by (simp add: on_host_def on_jobs_def sample_ledger_def sample_host_def)
  have fresh: "control_fresh test_sodium ?be sample_env (sample_ci raw) ?c = control_run test_sodium ?be sample_env (sample_ci raw) sample_job ?asked"
    using polled st(2) by (simp add: control_fresh_def sample_ci_def allowed_states_def)
  have "execute test_sodium ?be sample_env raw ?c = control_fresh test_sodium ?be sample_env (sample_ci raw) ?c"
    using cp sample_command_check [OF intent(1)] audit [OF pol(1)] look
    by (simp add: execute_def) (simp add: sample_ci_def sample_ledger_def cps_def)
  then have run: "fst (execute test_sodium ?be sample_env raw ?c) = fst (control_started test_sodium ?be sample_env (sample_ci raw) sample_job ?begun)"
    using fresh start by (simp add: control_run_def sample_env_def split: prod.splits sum.splits)
  have "emit test_sodium ?be (ce_before sample_env) ?begun = (?begun, Inr ())" by (simp add: emit_def sample_env_def)
  from started_sends [OF this still, of sample_job] run show ?thesis by (simp add: carries_def sample_ledger_def sample_ci_def)
qed

lemma sample_open:
  assumes "jc_sign test_sodium sample_keeper ''policy'' (policy_body counting_backend 4 sample_entries) CONTROL_LIMIT = Inr p"
    and "policy_entries test_sodium counting_backend 4 p = Inr sample_entries" "length p \<le> 500" "p \<noteq> []"
  shows "open_control test_sodium counting_backend (PBytes sample_issuer) (PInt 1) 4 None Written (new_control (sample_host job))
    = (sample_ledger job p [], Inr ())"
proof -
  let ?empty = "(new_control (sample_host job))\<lparr>cn_closed := False, cn_max := 4\<rparr>"
  have save: "save_policy test_sodium counting_backend [PList [PInt 1, PBytes sample_issuer]] Written ?empty = (sample_ledger job p [], Inr ())"
    using assms(1,3) by (simp add: save_policy_def cn_atomic_def cn_put_def cn_guard_def new_control_def sample_ledger_def sample_host_def sample_entries_def CONTROL_LIMIT_def)
  have pol: "cn_policy test_sodium counting_backend (sample_ledger job p []) = Inr sample_entries"
    by (rule cn_policy_sample [OF assms(2-4)]; simp add: sample_ledger_def sample_host_def)
  then have "cn_audit test_sodium counting_backend (sample_ledger job p []) = (sample_ledger job p [], Inr [])"
    by (simp add: cn_audit_def) (simp add: sample_ledger_def)
  then show ?thesis using save pol
    by (simp add: open_control_def check_simps sample_defs MAX_REVISION_def MAX_OPERATIONS_def)
      (simp add: new_control_def sc_guard_def sample_host_def sample_entries_def sample_defs)
qed

lemma sample_files:
  obtains raw p job where "inspect_intent test_sodium (PBytes raw) = Inr (sample_command, sample_ci raw)" "length raw \<le> 500"
    "jc_sign test_sodium sample_keeper ''policy'' (policy_body counting_backend 4 sample_entries) CONTROL_LIMIT = Inr p"
    "policy_entries test_sodium counting_backend 4 p = Inr sample_entries" "length p \<le> 500" "p \<noteq> []"
    "mj_pack test_sodium sample_keeper cancelled_record [] = Inr job" "length job \<le> MJ_MAX_FILE"
proof -
  obtain job where "mj_pack test_sodium sample_keeper cancelled_record [] = Inr job" "length job \<le> MJ_MAX_FILE" using cancelled_pack by blast
  then show thesis using sample_command_ok policy_sample [of sample_entries] that by blast
qed

theorem control_once_witness:
  "\<exists>job c raw. (control_step test_sodium counting_backend)\<^sup>*\<^sup>* (new_control (sample_host job)) c \<and> cn_sent c = [(sample_operation, raw)]
    \<and> (\<exists>f b o'. map_of (cn_files c) sample_operation = Some f \<and> jc_split (PBytes f) CONTROL_LIMIT = Inr (b, o') \<and> item_at b 4 = Inr (PBytes raw))"
proof -
  obtain raw p job where s: "inspect_intent test_sodium (PBytes raw) = Inr (sample_command, sample_ci raw)" "length raw \<le> 500"
      "policy_entries test_sodium counting_backend 4 p = Inr sample_entries" "length p \<le> 500" "p \<noteq> []"
      "mj_pack test_sodium sample_keeper cancelled_record [] = Inr job" "length job \<le> MJ_MAX_FILE"
    and p: "jc_sign test_sodium sample_keeper ''policy'' (policy_body counting_backend 4 sample_entries) CONTROL_LIMIT = Inr p"
    using sample_files by blast
  let ?c = "fst (execute test_sodium counting_backend sample_env raw (sample_ledger job p []))"
  have opened: "control_step test_sodium counting_backend (new_control (sample_host job)) (sample_ledger job p [])"
    by (rule control_step.Open) (rule sample_open [OF p s(3-5)])
  have executed: "control_step test_sodium counting_backend (sample_ledger job p []) ?c"
    by (rule control_step.Execute) (rule prod.collapse [symmetric])
  have r: "(control_step test_sodium counting_backend)\<^sup>*\<^sup>* (new_control (sample_host job)) ?c"
    by (rule rtranclp.rtrancl_into_rtrancl [OF r_into_rtranclp [of "control_step test_sodium counting_backend", OF opened] executed])
  have sent: "cn_sent ?c = [(sample_operation, raw)]" by (rule sample_sent [OF s])
  from control_once [OF r] sent have "\<exists>f b o'. map_of (cn_files ?c) sample_operation = Some f \<and> jc_split (PBytes f) CONTROL_LIMIT = Inr (b, o')
    \<and> item_at b 4 = Inr (PBytes raw)" by simp
  then show ?thesis using r sent by blast
qed

theorem dispatch_authorized_witness:
  "\<exists>job p raw i. cn_sent (fst (execute test_sodium counting_backend sample_env raw (sample_ledger job p []))) = [(sample_operation, raw)]
    \<and> jc_check_intent test_sodium (PBytes sample_keeper) (PBytes sample_store) (PBytes (ci_controller i)) (PInt (ci_revision i)) (PBytes raw) = Inr i"
proof -
  obtain raw p job where s: "inspect_intent test_sodium (PBytes raw) = Inr (sample_command, sample_ci raw)" "length raw \<le> 500"
      "policy_entries test_sodium counting_backend 4 p = Inr sample_entries" "length p \<le> 500" "p \<noteq> []"
      "mj_pack test_sodium sample_keeper cancelled_record [] = Inr job" "length job \<le> MJ_MAX_FILE"
    using sample_files by blast
  obtain c r where e: "execute test_sodium counting_backend sample_env raw (sample_ledger job p []) = (c, r)" by fastforce
  have sent: "cn_sent c = [(sample_operation, raw)]" using sample_sent [OF s] e by simp
  have "cn_sent c \<noteq> cn_sent (sample_ledger job p [])" using sent by (simp add: sample_ledger_def)
  from dispatch_authorized [OF e this] obtain i where
      "jc_check_intent test_sodium (PBytes sample_keeper) (PBytes sample_store) (PBytes (ci_controller i)) (PInt (ci_revision i)) (PBytes raw) = Inr i" by auto
  then show ?thesis using sample_sent [OF s] by blast
qed

theorem repeat_answered_witness:
  "\<exists>job p raw f. cn_sent (fst (execute test_sodium counting_backend sample_env raw (sample_ledger job p [(sample_operation, f)]))) = []
    \<and> cn_files (fst (execute test_sodium counting_backend sample_env raw (sample_ledger job p [(sample_operation, f)]))) = [(sample_operation, f)]"
proof -
  obtain raw p and job :: bytes where s: "inspect_intent test_sodium (PBytes raw) = Inr (sample_command, sample_ci raw)" "length raw \<le> 500"
      "policy_entries test_sodium counting_backend 4 p = Inr sample_entries" "length p \<le> 500" "p \<noteq> []"
    using sample_files by blast
  obtain f where f: "jc_sign test_sodium sample_keeper ''record'' (record_body counting_backend raw ''INFLIGHT'') CONTROL_LIMIT = Inr f"
    using record_sample [OF s(2)] by blast
  let ?c = "sample_ledger job p [(sample_operation, f)]"
  have "cn_policy test_sodium counting_backend ?c = Inr sample_entries"
    by (rule cn_policy_sample [OF s(3-5)]; simp add: sample_ledger_def sample_host_def)
  then have pol: "control_policy test_sodium counting_backend ?c = Inr (PBytes sample_issuer, PInt 1)"
    by (simp add: control_policy_def sc_guard_def sample_ledger_def sample_host_def last_entry_def sample_entries_def)
  obtain c r where e: "execute test_sodium counting_backend sample_env raw ?c = (c, r)" by fastforce
  have "ci_action (sample_ci raw) \<noteq> cps ''status''" "map_of (cn_files ?c) (ci_operation (sample_ci raw)) = Some f"
    by (simp_all add: sample_ci_def cps_def sample_ledger_def)
  from repeat_answered [OF pol _ this e] sample_command_check [OF s(1)]
  have "cn_sent c = []" "cn_files c = [(sample_operation, f)]" by (simp_all add: sample_ledger_def)
  then have "cn_sent (fst (execute test_sodium counting_backend sample_env raw ?c)) = []
    \<and> cn_files (fst (execute test_sodium counting_backend sample_env raw ?c)) = [(sample_operation, f)]" using e by simp
  then show ?thesis by blast
qed

theorem replaced_refused_witness:
  "\<exists>job p raw c' e. replace_controller test_sodium counting_backend PNone (PInt 2) Written (sample_ledger job p []) = (c', Inr ())
    \<and> execute test_sodium counting_backend sample_env raw c' = (c', Inl e)"
proof -
  obtain raw p and job :: bytes where s: "inspect_intent test_sodium (PBytes raw) = Inr (sample_command, sample_ci raw)"
      "policy_entries test_sodium counting_backend 4 p = Inr sample_entries" "length p \<le> 500" "p \<noteq> []"
    using sample_files by blast
  let ?c = "sample_ledger job p []"
  have pol: "cn_policy test_sodium counting_backend ?c = Inr sample_entries"
    by (rule cn_policy_sample [OF s(2-4)]; simp add: sample_ledger_def sample_host_def)
  then have audit: "cn_audit test_sodium counting_backend ?c = (?c, Inr [])"
    by (simp add: cn_audit_def) (simp add: sample_ledger_def)
  obtain q where q: "jc_sign test_sodium sample_keeper ''policy'' (policy_body counting_backend 4 (sample_entries @ [PList [PInt 2, PNone]])) CONTROL_LIMIT = Inr q"
      "length q \<le> 500"
    using policy_sample [of "sample_entries @ [PList [PInt 2, PNone]]"] by auto
  have "\<exists>c'. save_policy test_sodium counting_backend (sample_entries @ [PList [PInt 2, PNone]]) Written ?c = (c', Inr ())"
    using q by (simp add: save_policy_def cn_atomic_def cn_put_def cn_guard_def sample_ledger_def sample_host_def CONTROL_LIMIT_def)
  then obtain c' where c': "save_policy test_sodium counting_backend (sample_entries @ [PList [PInt 2, PNone]]) Written ?c = (c', Inr ())" by blast
  have last: "last_entry sample_entries = Inr (PBytes sample_issuer, PInt 1)" "length sample_entries < MAX_POLICIES" "sc_guard (cn_host ?c) = Inr ()"
    by (simp_all add: last_entry_def sample_entries_def MAX_POLICIES_def sc_guard_def sample_ledger_def sample_host_def)
  have r: "replace_controller test_sodium counting_backend PNone (PInt 2) Written ?c = (c', Inr ())"
    using pol audit c' last by (simp add: replace_controller_def cn_rotate_def check_simps MAX_REVISION_def int_of_def)
  from replaced_refused [OF r s(1), of sample_env] obtain e where "execute test_sodium counting_backend sample_env raw c' = (c', Inl e)" by auto
  then show ?thesis using r by blast
qed

definition control_hello :: pyval where
  "control_hello = mk_dict [(0, PInt 1), (1, JC_PROFILE), (2, PBytes sample_keeper), (3, PBytes sample_store), (4, PBytes (replicate 32 1)),
     (5, PBytes (replicate 32 2)), (6, PBytes sample_issuer), (7, PInt 1), (8, PInt 1000), (9, PInt JC_MAX_REQUEST), (10, PInt JC_MAX_RESPONSE)]"

lemma control_hello_ok:
  "\<exists>hello. length hello \<le> 500
    \<and> jc_check_hello test_sodium (PBytes sample_keeper) (PBytes sample_store) (PBytes sample_issuer) (PInt 1) (PBytes hello) = Inr control_hello"
proof -
  have e: "\<exists>b. encode control_hello MAX_HELLO MAX_NODES = Inr b \<and> length b \<le> 400"
    by (simp add: control_hello_def JC_PROFILE_def JC_MAX_REQUEST_def JC_MAX_RESPONSE_def MAX_HELLO_def sample_defs encode_simps)
      (simp add: nhead_def cps_def utf8_cp_def)
  have flat: "wf_py control_hello" "canon control_hello = control_hello"
    by (simp_all add: control_hello_def JC_PROFILE_def mk_dict_def)
  have shape: "hello_shape control_hello = Inr ()"
    by (simp add: control_hello_def hello_shape_def jc_version_def check_simps sample_defs MAX_REVISION_def)
  obtain hello o' where "length hello \<le> 400 + 100" "jc_split (PBytes hello) MAX_HELLO = Inr (control_hello, o')"
      "jc_verify test_sodium (PBytes sample_keeper) o' ''hello'' = Inr ()"
    using jc_sample [OF e _ _ _ _ _ flat, of "''hello''" sample_keeper] by (auto simp: MAX_HELLO_def MAX_BYTES_def)
  moreover have "mapE (item_at control_hello) [2, 3, 6, 7] = Inr [PBytes sample_keeper, PBytes sample_store, PBytes sample_issuer, PInt 1]"
    by (simp add: control_hello_def)
  ultimately have "jc_check_hello test_sodium (PBytes sample_keeper) (PBytes sample_store) (PBytes sample_issuer) (PInt 1) (PBytes hello) = Inr control_hello"
    using shape by (simp add: jc_check_hello_def check_simps MAX_REVISION_def)
  then show ?thesis using \<open>length hello \<le> 400 + 100\<close> by (intro exI [of _ hello]) simp
qed

theorem control_request_witness:
  "\<exists>hello intent raw. jc_make_request test_sodium sample_issuer (PBytes hello) (PBytes intent) = Inr raw
    \<and> jc_check_request test_sodium (PBytes sample_keeper) (PBytes sample_store) (PBytes sample_issuer) (PInt 1) (PBytes hello) (PBytes raw)
      = Inr (sample_ci intent)"
proof -
  obtain intent where i: "inspect_intent test_sodium (PBytes intent) = Inr (sample_command, sample_ci intent)" "length intent \<le> 500"
    using sample_command_ok by blast
  obtain hello where h: "length hello \<le> 500"
      "jc_check_hello test_sodium (PBytes sample_keeper) (PBytes sample_store) (PBytes sample_issuer) (PInt 1) (PBytes hello) = Inr control_hello"
    using control_hello_ok by blast
  obtain d where d: "jc_digest (PBytes hello) = Inr d" "length d = 32" using jc_digest_sample [of hello] h(1) by auto
  let ?b = "mk_dict [(0, PInt 1), (1, JC_PROFILE), (2, PBytes d), (3, PBytes intent)]"
  have e: "\<exists>b. encode ?b JC_MAX_REQUEST MAX_NODES = Inr b \<and> length b \<le> 700"
    using i(2) d(2) by (simp add: JC_PROFILE_def JC_MAX_REQUEST_def encode_simps) (simp add: nhead_def cps_def utf8_cp_def)
  have flat: "wf_py ?b" "canon ?b = ?b" by (simp_all add: mk_dict_def JC_PROFILE_def)
  obtain raw where "jc_sign test_sodium sample_issuer ''request'' ?b JC_MAX_REQUEST = Inr raw"
    using jc_sample [OF e _ _ _ _ _ flat, of "''request''" sample_issuer] by (auto simp: JC_MAX_REQUEST_def MAX_BYTES_def)
  moreover have f: "item_at sample_command 2 = Inr (PBytes sample_keeper)" "item_at sample_command 3 = Inr (PBytes sample_store)"
    by (simp_all add: sample_command_def intent_body_def)
  ultimately have m: "jc_make_request test_sodium sample_issuer (PBytes hello) (PBytes intent) = Inr raw"
    using i(1) h(2) d(1) by (simp add: jc_make_request_def sample_public) (simp add: sample_ci_def)
  from control_request [OF test_sodium_ok m] i(1) f
  have "jc_check_request test_sodium (PBytes sample_keeper) (PBytes sample_store) (PBytes sample_issuer) (PInt 1) (PBytes hello) (PBytes raw)
      = Inr (sample_ci intent)" by (auto simp: sample_ci_def)
  then show ?thesis using m by blast
qed

end
