(* ===== verification/Files.thy ===== *)
theory Files
  imports Contracts
begin

text \<open>
  Whole files as sealed blocks. \<^verbatim>\<open>par_blob_store/model.py\<close> (prefix \<open>bs_\<close>): attachments, their inspection one by one and as a batch,
  and the signed attachment manifest. \<^verbatim>\<open>par_file/manifest.py\<close> (prefix \<open>fm_\<close>): the manifest of a file, its validation, encoding and
  opening. \<^verbatim>\<open>par_file/reader.py\<close>: reading a file back, chunk by chunk. Of \<^verbatim>\<open>par_file/writer.py\<close> the part that fixes the format: the
  header of a chunk and the manifest that is written.

  The store behind a reader is an argument: the list of bindings of an envelope, and a function from locators to stored blocks.
  An error of a class that \<^verbatim>\<open>par_file\<close> does not declare becomes \<^verbatim>\<open>FILE_MANIFEST_INVALID\<close> (\<open>file_to\<close>).
\<close>

section \<open>Attachments\<close>

definition BLOCK_MAX :: nat where "BLOCK_MAX = 262144 + 4096"
definition MAX_ATTACHMENTS :: nat where "MAX_ATTACHMENTS = 128"
definition MAX_BATCH_BYTES :: nat where "MAX_BATCH_BYTES = 8 * 1024 * 1024"
definition BS_MAX_MANIFEST :: int where "BS_MAX_MANIFEST = 131072"
definition BLOB_KIND :: pyval where "BLOB_KIND = PInt 3"

record attachment =
  at_typed_id :: bytes
  at_header :: bytes
  at_sealed :: bytes

record block_binding =
  bb_typed_id :: bytes
  bb_locator :: bytes
  bb_app :: pyval
  bb_space :: pyval
  bb_epoch :: pyval
  bb_object :: pyval
  bb_kind :: pyval
  bb_index :: pyval
  bb_generation :: pyval
  bb_plain_size :: int
  bb_sealed_size :: nat
  bb_header :: bytes

definition descriptor :: "block_binding \<Rightarrow> pyval" where
  "descriptor b = PList [PBytes (bb_typed_id b), PBytes (bb_header b)]"

definition slot :: "block_binding \<Rightarrow> pyval list" where
  "slot b = [bb_object b, bb_kind b, bb_index b, bb_generation b]"

abbreviation blob_fail :: "string \<Rightarrow> exn" where "blob_fail c \<equiv> StoreError c"

definition inspect_attachment :: "attachment \<Rightarrow> block_binding res" where
  "inspect_attachment a =
     bindE (need (length (at_typed_id a) = 32) (blob_fail ''BLOB_INPUT'')) (\<lambda>_.
     bindE (need (1 \<le> length (at_sealed a) \<and> length (at_sealed a) \<le> BLOCK_MAX \<and> 1 \<le> length (at_header a) \<and> length (at_header a) \<le> 4096)
       (blob_fail ''BLOB_LIMIT'')) (\<lambda>_.
     bindE (block_id (at_sealed a)) (\<lambda>bid.
     bindE (need (bid = at_typed_id a) (blob_fail ''BLOCK_ID_MISMATCH'')) (\<lambda>_.
     bindE (obj_parse ''sealed-block'' (at_sealed a) BLOCK_MAX) (\<lambda>outer.
     bindE (obj_parse ''block-header'' (at_header a) 4096) (\<lambda>h.
     bindE (block_header h) (\<lambda>hb.
     bindE (item_at outer 0) (\<lambda>o0.
     bindE (need (hb = at_header a \<and> o0 = PBytes (at_header a)) (blob_fail ''BLOCK_HEADER_MISMATCH'')) (\<lambda>_.
     bindE (mapE (item_at h) [0, 1, 2, 3, 4, 5, 6]) (\<lambda>hs.
     bindE (need (hs ! 4 = BLOB_KIND) (blob_fail ''BLOCK_KIND'')) (\<lambda>_.
     bindE (bindE (item_at outer 2) as_bytes) (\<lambda>ct. bindE (int_at h 7) (\<lambda>sz.
     bindE (need (int (length ct) = sz + 16) (blob_fail ''BLOCK_LENGTH'')) (\<lambda>_.
       Inr \<lparr>bb_typed_id = at_typed_id a, bb_locator = sha256 (at_sealed a), bb_app = hs ! 0, bb_space = hs ! 1, bb_epoch = hs ! 2,
         bb_object = hs ! 3, bb_kind = hs ! 4, bb_index = hs ! 5, bb_generation = hs ! 6, bb_plain_size = sz,
         bb_sealed_size = length (at_sealed a), bb_header = at_header a\<rparr>))))))))))))))"

definition verify_attachment :: "sodium \<Rightarrow> bytes \<Rightarrow> attachment \<Rightarrow> pyval \<Rightarrow> pyval \<Rightarrow> pyval \<Rightarrow> block_binding res" where
  "verify_attachment n secret a app spc epoch =
     bindE (inspect_attachment a) (\<lambda>b.
     bindE (need ((bb_app b, bb_space b, bb_epoch b) = (app, spc, epoch)) (blob_fail ''BLOCK_CONTEXT_MISMATCH'')) (\<lambda>_.
     bindE (decode (at_header a) MAX_BYTES MAX_NODES) (\<lambda>h.
     bindE (open_block n secret h (at_sealed a)) (\<lambda>_. Inr b))))"

text \<open>One step of \<^verbatim>\<open>inspect_batch\<close>: the bindings so far carry the running size, the identifiers and the slots.\<close>

definition batch_step ::
  "(sodium \<times> bytes) option \<Rightarrow> pyval \<Rightarrow> attachment \<Rightarrow> block_binding list \<Rightarrow> block_binding list res" where
  "batch_step prov header a out =
     bindE (inspect_attachment a) (\<lambda>b.
     bindE (need (sum_list (map bb_sealed_size out) + bb_sealed_size b \<le> MAX_BATCH_BYTES) (blob_fail ''BLOB_LIMIT'')) (\<lambda>_.
     bindE (need (bb_typed_id b \<notin> set (map bb_typed_id out) \<and> slot b \<notin> set (map slot out)) (blob_fail ''DUPLICATE_ATTACHMENT'')) (\<lambda>_.
     bindE (mapE (item_at header) [0, 1, 2]) (\<lambda>hs.
     bindE (need ([bb_app b, bb_space b, bb_epoch b] = hs) (blob_fail ''BLOCK_CONTEXT_MISMATCH'')) (\<lambda>_.
     bindE (case prov of None \<Rightarrow> Inr () | Some (n, secret) \<Rightarrow> bindE (verify_attachment n secret a (hs ! 0) (hs ! 1) (hs ! 2)) (\<lambda>_. Inr ())) (\<lambda>_.
       Inr (out @ [b])))))))"

definition inspect_batch :: "attachment list \<Rightarrow> pyval \<Rightarrow> (sodium \<times> bytes) option \<Rightarrow> block_binding list res" where
  "inspect_batch as header prov =
     bindE (need (length as \<le> MAX_ATTACHMENTS) (blob_fail ''BLOB_LIMIT'')) (\<lambda>_.
       foldE (batch_step prov header) as [])"

record prepared =
  pc_envelope :: bytes
  pc_space :: bytes
  pc_epoch :: int
  pc_object :: bytes
  pc_blocks :: "bytes list"

definition pc_envelope_id :: "prepared \<Rightarrow> bytes res" where
  "pc_envelope_id p = bindE (encode (PList [PStr (cps ''PAR''), PInt 1, PStr (cps ''envelope-id''), PList [PBytes (pc_envelope p)]]) 1048576 MAX_NODES)
     (\<lambda>b. Inr (sha256 b))"

text \<open>\<^verbatim>\<open>decode(decode(p.envelope)[0])\<close>\<close>

definition envelope_header :: "prepared \<Rightarrow> pyval res" where
  "envelope_header p =
     bindE (decode (pc_envelope p) MAX_BYTES MAX_NODES) (\<lambda>o'.
     bindE (bindE (item_at o' 0) as_bytes) (\<lambda>hb. decode hb MAX_BYTES MAX_NODES))"

definition from_prepared :: "prepared \<Rightarrow> (pyval \<times> attachment list \<times> block_binding list) res" where
  "from_prepared p =
     bindE (envelope_header p) (\<lambda>header.
     bindE (change_header header) (\<lambda>_.
     bindE (mapE (\<lambda>raw. bindE (obj_parse ''sealed-block'' raw BLOCK_MAX) (\<lambda>o'.
         bindE (block_id raw) (\<lambda>i. bindE (bindE (item_at o' 0) as_bytes) (\<lambda>h.
           Inr \<lparr>at_typed_id = i, at_header = h, at_sealed = raw\<rparr>)))) (pc_blocks p)) (\<lambda>as.
     bindE (inspect_batch as header None) (\<lambda>bs. Inr (header, as, bs)))))"

definition manifest_body :: "prepared \<Rightarrow> block_binding list \<Rightarrow> bytes res" where
  "manifest_body p bs =
     bindE (envelope_header p) (\<lambda>header.
     bindE (item_at header 0) (\<lambda>app. bindE (pc_envelope_id p) (\<lambda>eid.
       encode (mk_dict [(0, PInt 1), (1, app), (2, PBytes (pc_space p)), (3, PInt (pc_epoch p)), (4, PBytes (pc_object p)), (5, PBytes eid),
         (6, PList (map descriptor bs))]) BS_MAX_MANIFEST MAX_NODES)))"

definition sign_manifest :: "sodium \<Rightarrow> bytes \<Rightarrow> prepared \<Rightarrow> block_binding list \<Rightarrow> bytes res" where
  "sign_manifest n seed p bs =
     bindE (manifest_body p bs) (\<lambda>body.
     bindE (c_domain (cps ''blob-store-local/attachment-sign'') [PBytes body]) (\<lambda>msg.
     bindE (p_sign n seed msg) (\<lambda>sig.
       encode (mk_dict [(0, PBytes body), (1, PBytes sig)]) BS_MAX_MANIFEST MAX_NODES)))"

definition verify_manifest :: "sodium \<Rightarrow> bytes \<Rightarrow> prepared \<Rightarrow> block_binding list \<Rightarrow> bytes \<Rightarrow> unit res" where
  "verify_manifest n public p bs raw =
     bindE (need (1 \<le> length raw \<and> int (length raw) \<le> BS_MAX_MANIFEST) (blob_fail ''ATTACHMENT_MANIFEST'')) (\<lambda>_.
     bindE (any_to (blob_fail ''ATTACHMENT_MANIFEST'')
       (bindE (decode raw BS_MAX_MANIFEST MAX_NODES) (\<lambda>o'.
        bindE (int_keys ValueError o' [0, 1]) (\<lambda>_.
        bindE (item_at o' 0) (\<lambda>o0. bindE (manifest_body p bs) (\<lambda>body.
        bindE (need (o0 = PBytes body) ValueError) (\<lambda>_. Inr o'))))))) (\<lambda>o'.
     bindE (item_at o' 0) (\<lambda>o0. bindE (c_domain (cps ''blob-store-local/attachment-sign'') [o0]) (\<lambda>msg.
     bindE (item_at o' 1) (\<lambda>o1. case o1 of PBytes sig \<Rightarrow> p_verify n public msg sig | _ \<Rightarrow> crypto_fail ''INVALID_INPUT'')))))"

section \<open>File manifests\<close>

definition CHUNK_BYTES :: nat where "CHUNK_BYTES = 262144"
definition MAX_FILE_BYTES :: nat where "MAX_FILE_BYTES = 7 * 1024 * 1024"
definition FM_MAX_MANIFEST :: nat where "FM_MAX_MANIFEST = 32768"

abbreviation fm_invalid :: exn where "fm_invalid \<equiv> FileError ''FILE_MANIFEST_INVALID''"

text \<open>\<^verbatim>\<open>except E: raise\<close> followed by \<^verbatim>\<open>except Exception: raise E('FILE_MANIFEST_INVALID')\<close>\<close>

definition file_to :: "'a res \<Rightarrow> 'a res" where
  "file_to m = (case m of Inl (FileError c) \<Rightarrow> Inl (FileError c) | Inl _ \<Rightarrow> Inl fm_invalid | Inr x \<Rightarrow> Inr x)"

definition manifest_object :: "bytes \<Rightarrow> bytes res" where
  "manifest_object file_id =
     bindE (need (length file_id = 32) fm_invalid) (\<lambda>_. hashed ''file-local/manifest-object'' [PBytes file_id])"

text \<open>\<^verbatim>\<open>[a-z0-9!#$&^_.+-]\<close>\<close>

definition mime_char :: "nat \<Rightarrow> bool" where
  "mime_char c \<longleftrightarrow> lower_digit c \<or> c \<in> set (cps ''!#$&^_.+-'')"

definition mime_ok :: "pystr \<Rightarrow> bool" where
  "mime_ok s \<longleftrightarrow> length s \<le> 127 \<and> (let a = takeWhile mime_char s; r = dropWhile mime_char s in
     a \<noteq> [] \<and> r \<noteq> [] \<and> hd r = 47 \<and> tl r \<noteq> [] \<and> list_all mime_char (tl r))"

definition name_ok :: "pystr \<Rightarrow> bool" where
  "name_ok s \<longleftrightarrow> s \<noteq> [] \<and> s \<noteq> cps ''.'' \<and> s \<noteq> cps ''..'' \<and> list_all (\<lambda>c. 32 \<le> c \<and> c \<noteq> 127 \<and> c \<noteq> 47 \<and> c \<noteq> 92) s
     \<and> (case utf8_encode s of None \<Rightarrow> False | Some b \<Rightarrow> length b \<le> 255)"

definition metadata :: "pyval \<Rightarrow> pyval \<Rightarrow> unit res" where
  "metadata name mime = need ((case name of PStr s \<Rightarrow> name_ok s | _ \<Rightarrow> False) \<and> (case mime of PStr s \<Rightarrow> mime_ok s | _ \<Rightarrow> False))
     (FileError ''FILE_METADATA_INVALID'')"

definition chunk_count :: "nat \<Rightarrow> nat" where
  "chunk_count sz = (sz + CHUNK_BYTES - 1) div CHUNK_BYTES"

definition chunk_length :: "nat \<Rightarrow> nat \<Rightarrow> nat" where
  "chunk_length sz i = min CHUNK_BYTES (sz - i * CHUNK_BYTES)"

text \<open>The header of chunk \<open>i\<close>, the same in the validation of a manifest and in the writer.\<close>

definition chunk_header :: "pyval \<Rightarrow> pyval \<Rightarrow> pyval \<Rightarrow> pyval \<Rightarrow> pyval \<Rightarrow> nat \<Rightarrow> nat \<Rightarrow> pyval" where
  "chunk_header app spc epoch file_id generation i len' =
     mk_dict [(0, app), (1, spc), (2, epoch), (3, file_id), (4, PInt 3), (5, PInt (int i)), (6, generation), (7, PInt (int len'))]"

definition check_pair :: "pyval list \<Rightarrow> nat \<times> pyval \<Rightarrow> bytes list \<Rightarrow> bytes list res" where
  "check_pair vs ip ids = (case ip of (i, pair) \<Rightarrow> (case pair of
     PList [PBytes tid, PBytes hb] \<Rightarrow>
       bindE (need (length tid = 32 \<and> length hb \<le> 4096) (FileError ''FILE_CHUNK_SET'')) (\<lambda>_.
       bindE (need (tid \<notin> set ids) (FileError ''FILE_CHUNK_SET'')) (\<lambda>_.
       bindE (obj_parse ''block-header'' hb 4096) (\<lambda>h.
       bindE (block_header h) (\<lambda>hb'.
       bindE (need (hb' = hb \<and> h = chunk_header (vs ! 0) (vs ! 1) (vs ! 2) (vs ! 3) (vs ! 4) i (chunk_length (nat (int_of (vs ! 5))) i))
         (FileError ''FILE_CHUNK_CONTEXT'')) (\<lambda>_.
         Inr (tid # ids))))))
   | _ \<Rightarrow> Inl (FileError ''FILE_CHUNK_SET'')))"

definition fm_validate :: "pyval \<Rightarrow> unit res" where
  "fm_validate v =
     bindE (int_keys fm_invalid v (key_range 13)) (\<lambda>_.
     bindE (bindE (item_at v 0) (\<lambda>x. int_in fm_invalid x 1 1)) (\<lambda>_.
     bindE (field_is fm_invalid v 1 (PStr (cps ''file-manifest-local''))) (\<lambda>_.
     bindE (bindE (item_at v 2) check_app_id) (\<lambda>_.
     bindE (each_sized fm_invalid v [3, 5, 9]) (\<lambda>_.
     bindE (each_int fm_invalid v [4, 6, 7, 8] 0 U64) (\<lambda>_.
     bindE (mapE (item_at v) [2, 3, 4, 5, 6, 7]) (\<lambda>vs.
     bindE (item_at v 8) (\<lambda>v8.
     bindE (need (int_of (vs ! 5) \<le> int MAX_FILE_BYTES \<and> v8 = PInt (int CHUNK_BYTES)) (FileError ''FILE_LIMIT'')) (\<lambda>_.
     bindE (bindE (item_at v 10) (\<lambda>name. bindE (item_at v 11) (metadata name))) (\<lambda>_.
     bindE (item_at v 12) (\<lambda>v12. case v12 of
       PList pairs \<Rightarrow>
         bindE (need (length pairs = chunk_count (nat (int_of (vs ! 5)))) (FileError ''FILE_CHUNK_SET'')) (\<lambda>_.
         bindE (item_at v 9) (\<lambda>v9.
         bindE (need (pairs = [] \<longrightarrow> v9 = PBytes (sha256 [])) (FileError ''FILE_HASH_MISMATCH'')) (\<lambda>_.
         bindE (foldE (check_pair vs) (enumerate 0 pairs) []) (\<lambda>_. Inr ()))))
     | _ \<Rightarrow> Inl (FileError ''FILE_CHUNK_SET''))))))))))))"

definition fm_dumps :: "pyval \<Rightarrow> bytes res" where
  "fm_dumps v = file_to (bindE (fm_validate v) (\<lambda>_. encode v (int FM_MAX_MANIFEST) MAX_NODES))"

definition fm_loads :: "bytes \<Rightarrow> pyval res" where
  "fm_loads raw = file_to (
     bindE (need (1 \<le> length raw \<and> length raw \<le> FM_MAX_MANIFEST) (FileError ''FILE_LIMIT'')) (\<lambda>_.
     bindE (decode raw (int FM_MAX_MANIFEST) MAX_NODES) (\<lambda>v.
     bindE (fm_validate v) (\<lambda>_.
     bindE (fm_dumps v) (\<lambda>raw'.
     bindE (need (raw' = raw) fm_invalid) (\<lambda>_. Inr v))))))"

definition root_header :: "pyval \<Rightarrow> nat \<Rightarrow> pyval res" where
  "root_header v plain_size =
     bindE (mapE (item_at v) [2, 3, 4, 6]) (\<lambda>vs.
     bindE (bytes_at v 5) (\<lambda>fid. bindE (manifest_object fid) (\<lambda>oid.
       Inr (chunk_header (vs ! 0) (vs ! 1) (vs ! 2) (PBytes oid) (vs ! 3) 0 plain_size))))"

definition open_manifest :: "sodium \<Rightarrow> bytes \<Rightarrow> attachment \<Rightarrow> pyval \<Rightarrow> pyval \<Rightarrow> pyval \<Rightarrow> pyval res" where
  "open_manifest n secret a app spc epoch = file_to (
     bindE (inspect_attachment a) (\<lambda>b.
     bindE (need ((bb_app b, bb_space b, bb_epoch b) = (app, spc, epoch) \<and> bb_plain_size b \<le> int FM_MAX_MANIFEST)
       (FileError ''FILE_CONTEXT_MISMATCH'')) (\<lambda>_.
     bindE (decode (bb_header b) MAX_BYTES MAX_NODES) (\<lambda>h.
     bindE (open_block n secret h (at_sealed a)) (\<lambda>raw.
     bindE (fm_loads raw) (\<lambda>v.
     bindE (mapE (item_at v) [2, 3, 4]) (\<lambda>vs.
     bindE (bindE (root_header v (length raw)) block_header) (\<lambda>hb.
     bindE (need (vs = [app, spc, epoch] \<and> bb_header b = hb) (FileError ''FILE_CONTEXT_MISMATCH'')) (\<lambda>_.
       Inr v)))))))))"

definition check_bindings :: "pyval \<Rightarrow> block_binding list \<Rightarrow> unit res" where
  "check_bindings v bs = bindE (item_at v 12) (\<lambda>v12. need (v12 = PList (map descriptor bs)) (FileError ''FILE_CHUNK_SET''))"

section \<open>Reading\<close>

record file_info =
  fi_file_id :: pyval
  fi_name :: pyval
  fi_media_type :: pyval
  fi_size :: nat
  fi_sha256 :: bytes
  fi_chunks :: nat

definition prepare_file ::
  "sodium \<Rightarrow> bytes \<Rightarrow> block_binding list \<Rightarrow> (bytes \<Rightarrow> bytes res) \<Rightarrow> (pyval \<times> block_binding list) res" where
  "prepare_file n secret bs read_block = (case bs of
     [] \<Rightarrow> Inl (FileError ''FILE_MANIFEST_MISSING'')
   | first # rest \<Rightarrow>
       bindE (read_block (bb_locator first)) (\<lambda>raw.
       bindE (open_manifest n secret \<lparr>at_typed_id = bb_typed_id first, at_header = bb_header first, at_sealed = raw\<rparr>
         (bb_app first) (bb_space first) (bb_epoch first)) (\<lambda>v.
       bindE (check_bindings v rest) (\<lambda>_. Inr (v, rest)))))"

text \<open>One chunk of \<^verbatim>\<open>_consume\<close>: what was written before it is the running state.\<close>

definition read_chunk :: "sodium \<Rightarrow> bytes \<Rightarrow> (bytes \<Rightarrow> bytes res) \<Rightarrow> block_binding \<Rightarrow> bytes \<Rightarrow> bytes res" where
  "read_chunk n secret read_block b written =
     bindE (read_block (bb_locator b)) (\<lambda>raw.
     bindE (block_id raw) (\<lambda>bid.
     bindE (need (bid = bb_typed_id b) (FileError ''FILE_CHUNK_SET'')) (\<lambda>_.
     bindE (decode (bb_header b) MAX_BYTES MAX_NODES) (\<lambda>h.
     bindE (open_block n secret h raw) (\<lambda>data. Inr (written @ data))))))"

text \<open>The result is what was written to the output and the description of the file.\<close>

definition consume_file ::
  "sodium \<Rightarrow> bytes \<Rightarrow> (bytes \<Rightarrow> bytes res) \<Rightarrow> pyval \<Rightarrow> block_binding list \<Rightarrow> (bytes \<times> file_info) res" where
  "consume_file n secret read_block v bs =
     bindE (foldE (read_chunk n secret read_block) bs []) (\<lambda>data.
     bindE (mapE (item_at v) [7, 9, 5, 10, 11]) (\<lambda>vs.
     bindE (need (vs ! 0 = PInt (int (length data)) \<and> vs ! 1 = PBytes (sha256 data)) (FileError ''FILE_HASH_MISMATCH'')) (\<lambda>_.
       Inr (data, \<lparr>fi_file_id = vs ! 2, fi_name = vs ! 3, fi_media_type = vs ! 4, fi_size = length data, fi_sha256 = sha256 data,
         fi_chunks = length bs\<rparr>))))"

definition inspect_file :: "sodium \<Rightarrow> bytes \<Rightarrow> block_binding list \<Rightarrow> (bytes \<Rightarrow> bytes res) \<Rightarrow> file_info res" where
  "inspect_file n secret bs read_block =
     bindE (prepare_file n secret bs read_block) (\<lambda>(v, rest).
     bindE (consume_file n secret read_block v rest) (\<lambda>(_, info). Inr info))"

section \<open>Writing\<close>

text \<open>\<^verbatim>\<open>data=f.read(length)\<close> for every chunk of a file held in memory.\<close>

definition file_chunk :: "bytes \<Rightarrow> nat \<Rightarrow> bytes" where
  "file_chunk data i = take (chunk_length (length data) i) (drop (i * CHUNK_BYTES) data)"

definition file_manifest :: "pyval \<Rightarrow> pyval \<Rightarrow> pyval \<Rightarrow> pyval \<Rightarrow> pyval \<Rightarrow> bytes \<Rightarrow> pyval \<Rightarrow> pyval \<Rightarrow> (bytes \<times> bytes) list \<Rightarrow> pyval" where
  "file_manifest app spc epoch file_id generation data name mime pairs =
     mk_dict [(0, PInt 1), (1, PStr (cps ''file-manifest-local'')), (2, app), (3, spc), (4, epoch), (5, file_id), (6, generation),
       (7, PInt (int (length data))), (8, PInt (int CHUNK_BYTES)), (9, PBytes (sha256 data)), (10, name), (11, mime),
       (12, PList (map (\<lambda>(i, h). PList [PBytes i, PBytes h]) pairs))]"

text \<open>The sealed chunk and its attachment.\<close>

definition seal_chunk :: "sodium \<Rightarrow> bytes \<Rightarrow> pyval \<Rightarrow> bytes \<Rightarrow> bytes \<Rightarrow> attachment res" where
  "seal_chunk n secret h plain nonce =
     bindE (seal_block n secret h plain nonce) (\<lambda>raw.
     bindE (block_id raw) (\<lambda>i. bindE (block_header h) (\<lambda>hb.
       Inr \<lparr>at_typed_id = i, at_header = hb, at_sealed = raw\<rparr>)))"

end
