(* ===== verification/FilesProps.thy ===== *)
theory FilesProps
  imports Files AuthSamples
begin

text \<open>
  A file that was cut into chunks, sealed and described by a manifest reads back as the same bytes; and whatever the reader accepts
  has, chunk by chunk, the contents that the manifest names, in its order, with its size and digest.
\<close>

section \<open>Sealed blocks\<close>

lemma block_header_bound: "\<exists>b. cbor_bound default_rules 12 (NRef ''block-header'') = Some b \<and> b \<le> 4096"
  by (simp add: cbor_bound_numeral rule_lookup primitive_def omax_def oadd_def)

lemma block_header_ok:
  assumes "wf_py v" "block_header v = Inr hb"
  shows "block_header (canon v) = Inr hb" "decode hb MAX_BYTES MAX_NODES = Inr (canon v)" "1 \<le> length hb" "length hb \<le> 4096"
    "obj_parse ''block-header'' hb 4096 = Inr (canon v)"
proof -
  have conf: "conforms default_rules (NRef ''block-header'') v" and enc: "encode v MAX_BYTES MAX_NODES = Inr hb"
    using assms(2) by (auto simp: block_header_def res_simps checked_iff plain_rules)
  note e = encode_canon [OF assms(1) enc]
  have conf': "conforms default_rules (NRef ''block-header'') (canon v)" by (rule conforms_canon [OF conf e(3)])
  obtain app where f: "item_at v 0 = Inr (PStr app)" using block_header_fields [OF conf] by (auto simp: conforms_types)
  have c: "item_at (canon v) 0 = Inr (PStr app)" using item_at_canon [OF e(3) f] by simp
  show "block_header (canon v) = Inr hb" using assms(2) f c e(1) conf' by (simp add: block_header_def checked_iff plain_rules res_simps)
  show d: "decode hb MAX_BYTES MAX_NODES = Inr (canon v)" by (rule e(2))
  obtain b where b: "cbor_bound default_rules 12 (NRef ''block-header'') = Some b" "b \<le> 4096" using block_header_bound by blast
  have "length (cbor (canon v)) \<le> b" by (rule cbor_bound_sound [OF conf' _ b(1)]) (use e(3) in simp)
  then show len: "length hb \<le> 4096" using d b(2) by (simp add: decode_iff)
  show "1 \<le> length hb" using d length_cbor_pos by (simp add: decode_iff)
  have "decode hb 4096 MAX_NODES = Inr (canon v)" by (rule decode_limit [OF d]) (use len in \<open>simp_all add: MAX_BYTES_def\<close>)
  then show "obj_parse ''block-header'' hb 4096 = Inr (canon v)" using len conf' by (simp add: obj_parse_iff plain_rules)
qed

lemma block_conforms:
  assumes "1 \<le> length hb" "length hb \<le> 4096" "length nonce = 24" "16 \<le> length ct" "length ct \<le> 262160"
  shows "conforms default_rules (NRef ''sealed-block'') (mk_dict [(0, PBytes hb), (1, PBytes nonce), (2, PBytes ct)])"
  using assms
  by (subst conforms_rule [OF _ rule_sealed_block])
    (auto simp: primitive_def mk_dict_def conforms_map map_shape_def key_field_def field_of_def is_int_def dict_get_def
      conforms_types split: if_splits)

lemma block_parse:
  assumes "encode (mk_dict [(0, PBytes hb), (1, PBytes nonce), (2, PBytes ct)]) MAX_BYTES MAX_NODES = Inr raw"
    and "1 \<le> length hb" "length hb \<le> 4096" "length nonce = 24" "16 \<le> length ct" "length ct \<le> 262160"
  shows "length raw \<le> 270336" "obj_parse ''sealed-block'' raw 270336 = Inr (mk_dict [(0, PBytes hb), (1, PBytes nonce), (2, PBytes ct)])"
proof -
  let ?o = "mk_dict [(0, PBytes hb), (1, PBytes nonce), (2, PBytes ct)]"
  have c: "canon ?o = ?o" "wf_py ?o" by (simp_all add: mk_dict_def)
  note d = decode_encode_canon [OF assms(1) c]
  have "length raw = length (cbor ?o)" using d by (simp add: decode_iff)
  also have "\<dots> \<le> 270336"
    using assms(3-6) nhead_bound [of 2 "length hb"] nhead_bound [of 2 "length ct"]
    by (simp add: mk_dict_def nhead_def [of _ 24] nhead_def [of 0] nhead_def [of 5])
  finally show raw: "length raw \<le> 270336" .
  then have "decode raw 270336 MAX_NODES = Inr ?o" by (intro decode_limit [OF d]) (simp_all add: MAX_BYTES_def)
  then show "obj_parse ''sealed-block'' raw 270336 = Inr ?o" using raw block_conforms [OF assms(2-6)] by (simp add: obj_parse_iff plain_rules)
qed

text \<open>A block opens under the header it was sealed for.\<close>

lemma open_seal_block:
  assumes "sodium_ok n" "wf_py header" "seal_block n secret header payload nonce = Inr raw"
  shows "open_block n secret header raw = Inr payload" "item_at (canon header) 7 = Inr (PInt (int (length payload)))"
proof -
  obtain hb where hb: "block_header header = Inr hb" using assms(3) by (auto simp: seal_block_def res_simps)
  note h = block_header_ok [OF assms(2) hb]
  obtain key aad ct where sz: "item_at (canon header) 7 = Inr (PInt (int (length payload)))" "length payload \<le> 262144" "length nonce = 24"
    and key: "change_key secret (canon header) True = Inr key" and aad: "c_domain (cps ''block-aad'') [PBytes hb] = Inr aad"
    and ct: "p_seal n key nonce aad payload = Inr ct"
    and raw: "encode (mk_dict [(0, PBytes hb), (1, PBytes nonce), (2, PBytes ct)]) MAX_BYTES MAX_NODES = Inr raw"
    using assms(3) hb h(2) by (auto simp: seal_block_def res_simps bounded_def fixed_def)
  have o: "length ct = length payload + 16" "p_open n key nonce aad ct = Inr payload"
    using p_seal_ok [OF assms(1) ct] sz(2) by (simp_all add: MAX_INPUT_def)
  show "open_block n secret header raw = Inr payload"
    using block_parse [OF raw h(3,4) sz(3)] hb h key aad o sz by (simp add: open_block_def as_bytes_def)
  show "item_at (canon header) 7 = Inr (PInt (int (length payload)))" by (rule sz(1))
qed

text \<open>What opens has the length its header names.\<close>

lemma open_block_length:
  assumes "open_block n secret header raw = Inr d" "canonical header" "item_at header 7 = Inr (PInt (int m))"
  shows "length d = m"
proof -
  obtain hb where hb: "block_header header = Inr hb" using assms(1) by (auto simp: open_block_def res_simps)
  have c: "wf_py header" "canon header = header" using assms(2) by (simp_all add: canonical_wf canonical_canon)
  note h = block_header_ok [OF c(1) hb]
  obtain b0 h' sz where x: "obj_parse ''block-header'' b0 4096 = Inr h'" "b0 = hb" "item_at h' 7 = Inr sz" "int (length d) = int_of sz"
    using assms(1) hb by (auto simp: open_block_def res_simps)
  then show ?thesis using h(5) c(2) assms(3) by simp
qed

section \<open>Chunks\<close>

lemma concat_chunks: "concat (map (\<lambda>i. take k (drop (i * k) xs)) [0..<m]) = take (m * k) xs"
proof (induction m)
  case (Suc m)
  have "take (Suc m * k) xs = take (m * k) xs @ take k (drop (m * k) xs)" by (metis add.commute mult_Suc take_add)
  with Suc show ?case by simp
qed simp

lemma file_chunk_eq: "file_chunk data i = take CHUNK_BYTES (drop (i * CHUNK_BYTES) data)"
  by (simp add: file_chunk_def chunk_length_def min_def)

lemma chunk_count_covers: "sz \<le> chunk_count sz * CHUNK_BYTES"
proof -
  have "sz + 262144 - 1 < ((sz + 262144 - 1) div 262144 + 1) * 262144" using dividend_less_div_times [of 262144 "sz + 262144 - 1"] by simp
  then show ?thesis by (simp add: chunk_count_def CHUNK_BYTES_def)
qed

lemma file_chunks: "concat (map (file_chunk data) [0..<chunk_count (length data)]) = data"
  using concat_chunks [of CHUNK_BYTES data "chunk_count (length data)"] chunk_count_covers [of "length data"] by (simp add: file_chunk_eq [abs_def])

lemma file_chunk_length: "length (file_chunk data i) = chunk_length (length data) i"
  by (simp add: file_chunk_def chunk_length_def)

section \<open>Reading\<close>

definition chunk_opens :: "sodium \<Rightarrow> bytes \<Rightarrow> (bytes \<Rightarrow> bytes res) \<Rightarrow> block_binding \<Rightarrow> bytes \<Rightarrow> bool" where
  "chunk_opens n secret read_block b d \<longleftrightarrow> (\<exists>raw h. read_block (bb_locator b) = Inr raw \<and> block_id raw = Inr (bb_typed_id b)
     \<and> decode (bb_header b) MAX_BYTES MAX_NODES = Inr h \<and> open_block n secret h raw = Inr d)"

lemma read_chunk_Inr: "read_chunk n secret read_block b w = Inr w' \<longleftrightarrow> (\<exists>d. w' = w @ d \<and> chunk_opens n secret read_block b d)"
  by (auto simp: read_chunk_def bindE_eq_Inr chunk_opens_def)

lemma read_chunks_Inr:
  "foldE (read_chunk n secret read_block) bs w = Inr w' \<longleftrightarrow> (\<exists>ds. w' = w @ concat ds \<and> list_all2 (chunk_opens n secret read_block) bs ds)"
proof (induction bs arbitrary: w)
  case (Cons b bs)
  show ?case
  proof
    assume "foldE (read_chunk n secret read_block) (b # bs) w = Inr w'"
    then obtain d where d: "chunk_opens n secret read_block b d" "foldE (read_chunk n secret read_block) bs (w @ d) = Inr w'"
      by (auto simp: bindE_eq_Inr read_chunk_Inr)
    then obtain ds where "w' = (w @ d) @ concat ds" "list_all2 (chunk_opens n secret read_block) bs ds" using Cons.IH by blast
    with d(1) show "\<exists>ds. w' = w @ concat ds \<and> list_all2 (chunk_opens n secret read_block) (b # bs) ds" by (intro exI [of _ "d # ds"]) simp
  next
    assume "\<exists>ds. w' = w @ concat ds \<and> list_all2 (chunk_opens n secret read_block) (b # bs) ds"
    then obtain d ds where "w' = (w @ d) @ concat ds" "chunk_opens n secret read_block b d" "list_all2 (chunk_opens n secret read_block) bs ds"
      by (auto simp: list_all2_Cons1)
    then show "foldE (read_chunk n secret read_block) (b # bs) w = Inr w'" using Cons.IH [of "w @ d"] by (auto simp: bindE_eq_Inr read_chunk_Inr)
  qed
qed auto

text \<open>The pairs of a valid manifest name distinct blocks under the headers of their positions.\<close>

abbreviation pair_header :: "pyval list \<Rightarrow> nat \<Rightarrow> pyval" where
  "pair_header vs i \<equiv> chunk_header (vs ! 0) (vs ! 1) (vs ! 2) (vs ! 3) (vs ! 4) i (chunk_length (nat (int_of (vs ! 5))) i)"

lemma check_pair_Inr:
  "check_pair vs (i, pair) ids = Inr ids' \<longleftrightarrow> (\<exists>tid hb. pair = PList [PBytes tid, PBytes hb] \<and> length tid = 32 \<and> tid \<notin> set ids
     \<and> length hb \<le> 4096 \<and> obj_parse ''block-header'' hb 4096 = Inr (pair_header vs i) \<and> block_header (pair_header vs i) = Inr hb \<and> ids' = tid # ids)"
  (is "?l \<longleftrightarrow> ?r")
proof
  assume ?l
  then show ?r by (cases "\<exists>tid hb. pair = PList [PBytes tid, PBytes hb]")
    (auto simp: check_pair_def bindE_eq_Inr split: pyval.splits list.splits)
qed (auto simp: check_pair_def bindE_eq_Inr)

lemma check_pairs_Inr:
  assumes "foldE (check_pair vs) (enumerate k pairs) ids = Inr ids'" "i < length pairs"
  shows "\<exists>tid hb. pairs ! i = PList [PBytes tid, PBytes hb] \<and> obj_parse ''block-header'' hb 4096 = Inr (pair_header vs (k + i))"
  using assms
proof (induction pairs arbitrary: k ids i)
  case (Cons x xs)
  show ?case
  proof (cases i)
    case 0
    then show ?thesis using Cons.prems by (auto simp: bindE_eq_Inr check_pair_Inr)
  next
    case (Suc j)
    then show ?thesis using Cons.prems Cons.IH [of "Suc k" _ j] by (fastforce simp: bindE_eq_Inr)
  qed
qed simp

lemma file_to_Inr [simp]: "file_to m = Inr x \<longleftrightarrow> m = Inr x"
  by (auto simp: file_to_def split: sum.splits exn.splits)

lemma validate_pairs:
  assumes "fm_validate v = Inr u"
  shows "\<exists>vs pairs sz. mapE (item_at v) [2, 3, 4, 5, 6, 7] = Inr vs \<and> vs ! 5 = PInt (int sz) \<and> item_at v 12 = Inr (PList pairs)
    \<and> length pairs = chunk_count sz \<and> (\<exists>ids. foldE (check_pair vs) (enumerate 0 pairs) [] = Inr ids)"
proof -
  obtain vs pairs where x: "mapE (item_at v) [2, 3, 4, 5, 6, 7] = Inr vs" "item_at v 12 = Inr (PList pairs)"
      "length pairs = chunk_count (nat (int_of (vs ! 5)))" "\<exists>ids. foldE (check_pair vs) (enumerate 0 pairs) [] = Inr ids"
      "each_int fm_invalid v [4, 6, 7, 8] 0 U64 = Inr ()"
    using assms by (auto simp: fm_validate_def bindE_eq_Inr case_list_Inr)
  obtain q where q: "item_at v 7 = Inr (PInt q)" "0 \<le> q" using x(5) by (auto simp: each_int_def bindE_eq_Inr)
  have "vs ! 5 = PInt q" using x(1) q(1) by (auto simp: bindE_eq_Inr)
  then show ?thesis using x q(2) by (intro exI [of _ vs] exI [of _ pairs] exI [of _ "nat q"]) simp
qed

text \<open>C39. What is read is what the manifest names. When the reader accepts a file, its bytes are the chunks in order; there are as many
  as the size of the manifest needs, each one was opened, from a stored block with the identifier of its binding, under the header of
  exactly that position of that file and has exactly the length of that position, and the whole has the size and the digest of the manifest.\<close>

theorem file_exact:
  assumes "fm_validate v = Inr ()" "check_bindings v bs = Inr ()" "consume_file n secret read_block v bs = Inr (data, info)"
    and vs: "mapE (item_at v) [2, 3, 4, 5, 6, 7] = Inr vs"
  shows "item_at v 7 = Inr (PInt (int (length data))) \<and> item_at v 9 = Inr (PBytes (sha256 data))
    \<and> (\<exists>ds. data = concat ds \<and> length ds = chunk_count (length data) \<and> length bs = length ds
        \<and> (\<forall>i < length ds. \<exists>raw. read_block (bb_locator (bs ! i)) = Inr raw \<and> block_id raw = Inr (bb_typed_id (bs ! i))
            \<and> open_block n secret (chunk_header (vs ! 0) (vs ! 1) (vs ! 2) (vs ! 3) (vs ! 4) i (length (ds ! i))) raw = Inr (ds ! i)
            \<and> length (ds ! i) = chunk_length (length data) i))"
proof -
  have c: "item_at v 7 = Inr (PInt (int (length data)))" "item_at v 9 = Inr (PBytes (sha256 data))"
    and "\<exists>ds. data = concat ds \<and> list_all2 (chunk_opens n secret read_block) bs ds"
    using assms(3) by (auto simp: consume_file_def bindE_eq_Inr read_chunks_Inr)
  then obtain ds where ds: "data = concat ds" "list_all2 (chunk_opens n secret read_block) bs ds" by blast
  obtain pairs sz where v: "vs ! 5 = PInt (int sz)" "item_at v 12 = Inr (PList pairs)" "length pairs = chunk_count sz"
      "\<exists>ids. foldE (check_pair vs) (enumerate 0 pairs) [] = Inr ids"
    using validate_pairs [OF assms(1)] vs by auto
  have "vs ! 5 = PInt (int (length data))" using vs c(1) by (auto simp: bindE_eq_Inr)
  then have sz: "sz = length data" using v(1) by simp
  have pairs: "pairs = map descriptor bs" using assms(2) v(2) by (auto simp: check_bindings_def)
  have len: "length bs = length ds" using list_all2_lengthD [OF ds(2)] .
  have "\<exists>raw. read_block (bb_locator (bs ! i)) = Inr raw \<and> block_id raw = Inr (bb_typed_id (bs ! i))
      \<and> open_block n secret (chunk_header (vs ! 0) (vs ! 1) (vs ! 2) (vs ! 3) (vs ! 4) i (length (ds ! i))) raw = Inr (ds ! i)
      \<and> length (ds ! i) = chunk_length (length data) i" if i: "i < length ds" for i
  proof -
    let ?h = "pair_header vs i"
    obtain raw h where o: "read_block (bb_locator (bs ! i)) = Inr raw" "block_id raw = Inr (bb_typed_id (bs ! i))"
        "decode (bb_header (bs ! i)) MAX_BYTES MAX_NODES = Inr h" "open_block n secret h raw = Inr (ds ! i)"
      using list_all2_nthD2 [OF ds(2) i] by (auto simp: chunk_opens_def)
    have "obj_parse ''block-header'' (bb_header (bs ! i)) 4096 = Inr ?h"
      using v(4) check_pairs_Inr [of vs 0 pairs "[]" _ i] i len by (auto simp: pairs descriptor_def)
    then have d: "decode (bb_header (bs ! i)) 4096 MAX_NODES = Inr ?h" by (simp add: obj_parse_iff plain_rules)
    have "decode (bb_header (bs ! i)) MAX_BYTES MAX_NODES = Inr ?h"
      by (rule decode_limit [OF d]) (use d in \<open>auto simp: decode_iff MAX_BYTES_def\<close>)
    then have h: "h = ?h" using o(3) by simp
    have "canonical ?h" using d by (simp add: decode_iff)
    then have "length (ds ! i) = chunk_length sz i" using open_block_length [OF o(4) [unfolded h]] v(1) by (simp add: chunk_header_def)
    then show ?thesis using o h v(1) sz by simp
  qed
  then show ?thesis using c ds(1) len v(3) pairs sz by auto
qed

section \<open>Attachments\<close>

text \<open>A batch that passes is within the limits, has no block and no slot twice, and belongs to the context of its header.\<close>

definition batch_ok :: "pyval \<Rightarrow> block_binding list \<Rightarrow> bool" where
  "batch_ok header bs \<longleftrightarrow> distinct (map bb_typed_id bs) \<and> distinct (map slot bs) \<and> sum_list (map bb_sealed_size bs) \<le> MAX_BATCH_BYTES
     \<and> (\<forall>b \<in> set bs. mapE (item_at header) [0, 1, 2] = Inr [bb_app b, bb_space b, bb_epoch b])"

lemma batch_step_ok: "batch_step prov header a out = Inr out' \<Longrightarrow> batch_ok header out \<Longrightarrow> batch_ok header out' \<and> length out' = Suc (length out)"
  by (auto simp: batch_step_def bindE_eq_Inr batch_ok_def)

lemma inspect_batch_ok:
  assumes "inspect_batch as header prov = Inr bs"
  shows "batch_ok header bs" "length bs = length as" "length as \<le> MAX_ATTACHMENTS"
proof -
  have f: "foldE (batch_step prov header) as [] = Inr bs" "length as \<le> MAX_ATTACHMENTS" using assms by (auto simp: inspect_batch_def bindE_eq_Inr)
  have "batch_ok header out' \<and> length out' = length out + length xs" if "foldE (batch_step prov header) xs out = Inr out'" "batch_ok header out" for xs out out'
    using that by (induction xs arbitrary: out) (auto simp: bindE_eq_Inr dest: batch_step_ok)
  from this [OF f(1)] show "batch_ok header bs" "length bs = length as" by (auto simp: batch_ok_def)
  show "length as \<le> MAX_ATTACHMENTS" by (rule f(2))
qed

text \<open>A signed attachment manifest verifies for the same commit and the same bindings.\<close>

lemma verify_signed_manifest:
  assumes "sodium_ok n" "p_sign_public n seed = Inr pk" "sign_manifest n seed p bs = Inr raw"
  shows "verify_manifest n pk p bs raw = Inr ()"
proof -
  obtain body msg sig where b: "manifest_body p bs = Inr body" "c_domain (cps ''blob-store-local/attachment-sign'') [PBytes body] = Inr msg"
      "p_sign n seed msg = Inr sig" "encode (mk_dict [(0, PBytes body), (1, PBytes sig)]) BS_MAX_MANIFEST MAX_NODES = Inr raw"
    using assms(3) by (auto simp: sign_manifest_def bindE_eq_Inr)
  let ?o = "mk_dict [(0, PBytes body), (1, PBytes sig)]"
  have "canon ?o = ?o" "wf_py ?o" by (simp_all add: mk_dict_def)
  then have d: "decode raw BS_MAX_MANIFEST MAX_NODES = Inr ?o" by (rule decode_encode_canon [OF b(4)])
  have "1 \<le> length raw" "int (length raw) \<le> BS_MAX_MANIFEST" using d length_cbor_pos [of ?o] by (auto simp: decode_iff)
  then show ?thesis using d b(1,2) p_sign_ok [OF assms(1,2) b(3)] by (simp add: verify_manifest_def)
qed

section \<open>Round trip\<close>

lemma seal_chunk_opens:
  assumes "sodium_ok n" "wf_py h" "canon h = h" "seal_chunk n secret h plain nonce = Inr a"
    and "bb_typed_id b = at_typed_id a" "bb_header b = at_header a" "read_block (bb_locator b) = Inr (at_sealed a)"
  shows "chunk_opens n secret read_block b plain"
proof -
  obtain raw hb where s: "seal_block n secret h plain nonce = Inr raw" "block_id raw = Inr (at_typed_id a)" "block_header h = Inr hb"
      "at_header a = hb" "at_sealed a = raw"
    using assms(4) by (auto simp: seal_chunk_def bindE_eq_Inr)
  have "decode hb MAX_BYTES MAX_NODES = Inr h" using block_header_ok(2) [OF assms(2) s(3)] assms(3) by simp
  then show ?thesis using s assms(5-7) open_seal_block(1) [OF assms(1,2) s(1)] by (auto simp: chunk_opens_def)
qed

lemma validate_metadata: "fm_validate v = Inr u \<Longrightarrow> \<exists>s t. item_at v 10 = Inr (PStr s) \<and> item_at v 11 = Inr (PStr t)"
  by (auto simp: fm_validate_def bindE_eq_Inr metadata_def split: pyval.splits)

lemma loads_dumps:
  assumes "fm_dumps v = Inr plain" "wf_py v" "canon v = v"
  shows "fm_loads plain = Inr v"
proof -
  have e: "fm_validate v = Inr ()" "encode v (int FM_MAX_MANIFEST) MAX_NODES = Inr plain" using assms(1) by (auto simp: fm_dumps_def bindE_eq_Inr)
  have d: "decode plain (int FM_MAX_MANIFEST) MAX_NODES = Inr v" by (rule decode_encode_canon [OF e(2) assms(3,2)])
  have "1 \<le> length plain" "length plain \<le> FM_MAX_MANIFEST" using d length_cbor_pos [of v] by (auto simp: decode_iff)
  then show ?thesis using d e(1) assms(1) by (simp add: fm_loads_def)
qed

lemma file_manifest_flat:
  assumes "fm_validate (file_manifest (PStr app) (PBytes spc) (PInt epoch) (PBytes fid) (PInt gen) data name mime pairs) = Inr u"
  shows "wf_py (file_manifest (PStr app) (PBytes spc) (PInt epoch) (PBytes fid) (PInt gen) data name mime pairs)"
    "canon (file_manifest (PStr app) (PBytes spc) (PInt epoch) (PBytes fid) (PInt gen) data name mime pairs)
      = file_manifest (PStr app) (PBytes spc) (PInt epoch) (PBytes fid) (PInt gen) data name mime pairs"
proof -
  obtain s t where "name = PStr s" "mime = PStr t" using validate_metadata [OF assms] by (auto simp: file_manifest_def)
  moreover have "wf_py (PList (map (\<lambda>(i, h). PList [PBytes i, PBytes h]) pairs))"
    "canon (PList (map (\<lambda>(i, h). PList [PBytes i, PBytes h]) pairs)) = PList (map (\<lambda>(i, h). PList [PBytes i, PBytes h]) pairs)"
    by (auto simp: list_all_iff)
  ultimately show "wf_py (file_manifest (PStr app) (PBytes spc) (PInt epoch) (PBytes fid) (PInt gen) data name mime pairs)"
    "canon (file_manifest (PStr app) (PBytes spc) (PInt epoch) (PBytes fid) (PInt gen) data name mime pairs)
      = file_manifest (PStr app) (PBytes spc) (PInt epoch) (PBytes fid) (PInt gen) data name mime pairs"
    by (simp_all add: file_manifest_def mk_dict_def del: map_map)
qed

text \<open>C38. A file reads back. Cut a file into chunks, seal each one under the header of its position, and write the manifest: then the manifest
  loads again, a store that has the sealed blocks passes the check against it, and reading gives the bytes of the file.\<close>

theorem file_roundtrip:
  assumes n: "sodium_ok n"
    and atts: "mapE (\<lambda>i. seal_chunk n secret (chunk_header (PStr app) (PBytes spc) (PInt epoch) (PBytes fid) (PInt gen) i (chunk_length (length data) i))
        (file_chunk data i) (nonce i)) [0..<chunk_count (length data)] = Inr atts"
    and v: "v = file_manifest (PStr app) (PBytes spc) (PInt epoch) (PBytes fid) (PInt gen) data name mime (map (\<lambda>a. (at_typed_id a, at_header a)) atts)"
    and plain: "fm_dumps v = Inr plain"
    and bs: "list_all2 (\<lambda>a b. bb_typed_id b = at_typed_id a \<and> bb_header b = at_header a \<and> read_block (bb_locator b) = Inr (at_sealed a)) atts bs"
  shows "fm_loads plain = Inr v \<and> check_bindings v bs = Inr () \<and> (\<exists>info. consume_file n secret read_block v bs = Inr (data, info))"
proof -
  let ?h = "\<lambda>i. chunk_header (PStr app) (PBytes spc) (PInt epoch) (PBytes fid) (PInt gen) i (chunk_length (length data) i)"
  have h: "wf_py (?h i)" "canon (?h i) = ?h i" for i by (simp_all add: chunk_header_def mk_dict_def)
  have val: "fm_validate v = Inr ()" using plain by (auto simp: fm_dumps_def bindE_eq_Inr)
  have "map descriptor bs = map (\<lambda>a. PList [PBytes (at_typed_id a), PBytes (at_header a)]) atts"
    using bs by (induction rule: list_all2_induct) (simp_all add: descriptor_def)
  then have chk: "check_bindings v bs = Inr ()" by (simp add: check_bindings_def v file_manifest_def comp_def)
  have sealed: "list_all2 (\<lambda>i a. seal_chunk n secret (?h i) (file_chunk data i) (nonce i) = Inr a) [0..<chunk_count (length data)] atts"
    using atts by (simp add: mapE_eq_Inr)
  have "list_all2 (chunk_opens n secret read_block) bs (map (file_chunk data) [0..<chunk_count (length data)])"
  proof (rule list_all2_all_nthI)
    show len: "length bs = length (map (file_chunk data) [0..<chunk_count (length data)])"
      using list_all2_lengthD [OF bs] list_all2_lengthD [OF sealed] by simp
    fix i assume i: "i < length bs"
    note b = list_all2_nthD2 [OF bs i] and s = list_all2_nthD [OF sealed, of i]
    show "chunk_opens n secret read_block (bs ! i) (map (file_chunk data) [0..<chunk_count (length data)] ! i)"
      using seal_chunk_opens [OF n h, of secret i "file_chunk data i" "nonce i" "atts ! i" "bs ! i" read_block] b s i len by simp
  qed
  then have "foldE (read_chunk n secret read_block) bs [] = Inr data"
    unfolding read_chunks_Inr using file_chunks [of data] by (intro exI conjI) simp_all
  then have "\<exists>info. consume_file n secret read_block v bs = Inr (data, info)" by (simp add: consume_file_def v file_manifest_def)
  then show ?thesis using loads_dumps [OF plain] file_manifest_flat val chk v by simp
qed

section \<open>A sample file\<close>

definition sample_chunk :: pyval where
  "sample_chunk = chunk_header (PStr (cps ''a.b'')) (PBytes (replicate 32 1)) (PInt 1) (PBytes (replicate 32 2)) (PInt 0) 0 3"

lemma sample_chunk_flat: "wf_py sample_chunk" "canon sample_chunk = sample_chunk"
  by (simp_all add: sample_chunk_def chunk_header_def mk_dict_def)

lemma sample_chunk_conforms: "conforms default_rules (NRef ''block-header'') sample_chunk"
  by (subst conforms_rule [OF _ rule_block_header])
    (auto simp: primitive_def sample_chunk_def chunk_header_def mk_dict_def conforms_map map_shape_def key_field_def field_of_def is_int_def
      dict_get_def conforms_types conforms_union_ex U64_def cps_def utf8_cp_def split: if_splits)

lemma sample_chunk_header: "\<exists>hb. block_header sample_chunk = Inr hb \<and> length hb < 1000"
proof -
  have "\<exists>hb. encode sample_chunk MAX_BYTES MAX_NODES = Inr hb \<and> length hb < 1000"
    by (simp add: sample_chunk_def chunk_header_def encode_iff mk_dict_def budget_ok_def MAX_BYTES_def MAX_NODES_def MAX_DEPTH_def U64_def)
      (simp add: nhead_def cps_def utf8_cp_def)
  moreover have "lower_app_ok (cps ''a.b'')" by (simp add: lower_app_ok_def cps_def lower_label_def lower_digit_def)
  moreover have "item_at sample_chunk 0 = Inr (PStr (cps ''a.b''))" by (simp add: sample_chunk_def chunk_header_def)
  moreover have "checked ''block-header'' sample_chunk = Inr sample_chunk" using sample_chunk_conforms by (simp add: checked_iff plain_rules)
  ultimately show ?thesis by (simp add: block_header_def check_app_id_def)
qed

lemma sample_chunk_key: "\<exists>key. change_key (replicate 32 8) sample_chunk True = Inr key \<and> length key = 32"
proof -
  obtain d where d: "c_domain (cps ''epoch-salt'') [PStr (cps ''a.b''), PBytes (replicate 32 1), PInt 1] = Inr d"
    using c_domain_sample [of "''epoch-salt''" "[PStr (cps ''a.b''), PBytes (replicate 32 1), PInt 1]"]
    by (force simp: label_pattern_def lower_digit_def cps_def nhead_def utf8_cp_def)
  obtain i where i: "c_domain (cps ''object-key'') [PInt 3, PBytes (replicate 32 2), PInt 0] = Inr i" "length i \<le> 100000"
    using c_domain_Inr [of "cps ''object-key''" "map byte (cps ''object-key'')" "[PInt 3, PBytes (replicate 32 2), PInt 0]"]
    by (force simp: label_pattern_def lower_digit_def cps_def nhead_def utf8_cp_def U64_def)
  have "key_app_pattern (cps ''a.b'')" by (simp add: key_app_pattern_def cps_def lower_digit_def)
  then show ?thesis using d i
    by (simp add: change_key_def object_key_def sample_chunk_def chunk_header_def as_bytes_def fixed_def is_u64_def hashed_def
        hkdf_extract_def hkdf_expand_def bounded_def MAX_INPUT_def)
qed

lemma sample_chunk_sealed: "\<exists>a. seal_chunk test_sodium (replicate 32 8) sample_chunk [1, 2, 3] (replicate 24 0) = Inr a
    \<and> length (at_typed_id a) = 32 \<and> block_header sample_chunk = Inr (at_header a) \<and> length (at_header a) < 1000"
proof -
  obtain hb where hb: "block_header sample_chunk = Inr hb" "length hb < 1000" using sample_chunk_header by blast
  note h = block_header_ok [OF sample_chunk_flat(1) hb(1), unfolded sample_chunk_flat(2)]
  obtain key where key: "change_key (replicate 32 8) sample_chunk True = Inr key" "length key = 32" using sample_chunk_key by blast
  obtain aad where aad: "c_domain (cps ''block-aad'') [PBytes hb] = Inr aad" "length aad \<le> 100000"
    using c_domain_sample [of "''block-aad''" "[PBytes hb]"] hb(2) nhead_bound [of 2 "length hb"]
    by (force simp: label_pattern_def lower_digit_def cps_def)
  let ?ct = "[1, 2, 3] @ replicate 16 (0 :: byte)" and ?nonce = "replicate 24 (0 :: byte)"
  have sealed: "p_seal test_sodium key ?nonce aad [1, 2, 3] = Inr ?ct"
    using key(2) aad(2) by (simp add: p_seal_def crypt_def fixed_def bounded_def MAX_INPUT_def test_sodium_def)
  let ?o = "mk_dict [(0, PBytes hb), (1, PBytes ?nonce), (2, PBytes ?ct)]"
  have raw: "encode ?o MAX_BYTES MAX_NODES = Inr (cbor ?o)" "1 \<le> length (cbor ?o)" "length (cbor ?o) \<le> 2000"
    using hb(2) nhead_bound [of 2 "length hb"]
    by (simp_all add: encode_iff mk_dict_def budget_ok_def MAX_BYTES_def MAX_NODES_def MAX_DEPTH_def U64_def nhead_def)
  have "item_at sample_chunk 7 = Inr (PInt 3)" by (simp add: sample_chunk_def chunk_header_def)
  then have s: "seal_block test_sodium (replicate 32 8) sample_chunk [1, 2, 3] ?nonce = Inr (cbor ?o)"
    using hb(1) h(2) key(1) aad(1) sealed raw(1) by (simp add: seal_block_def bounded_def fixed_def)
  obtain d where d: "c_domain (cps ''block-id'') [PBytes (cbor ?o)] = Inr d"
    using c_domain_sample [of "''block-id''" "[PBytes (cbor ?o)]"] raw(3) nhead_bound [of 2 "length (cbor ?o)"]
    by (force simp: label_pattern_def lower_digit_def cps_def)
  have "block_id (cbor ?o) = Inr (sha256 d)" using d raw(2,3) by (simp add: block_id_def object_id_def bounded_def hashed_def)
  then show ?thesis using s hb by (simp add: seal_chunk_def)
qed

definition sample_manifest :: "attachment \<Rightarrow> pyval" where
  "sample_manifest a = file_manifest (PStr (cps ''a.b'')) (PBytes (replicate 32 1)) (PInt 1) (PBytes (replicate 32 2)) (PInt 0) [1, 2, 3]
     (PStr (cps ''x'')) (PStr (cps ''a/b'')) [(at_typed_id a, at_header a)]"

lemma sample_sizes: "chunk_count 3 = 1" "chunk_length 3 0 = 3" "file_chunk [1, 2, 3] 0 = [1, 2, 3]"
  by (simp_all add: chunk_count_def chunk_length_def file_chunk_def CHUNK_BYTES_def)

lemma sample_manifest_valid:
  assumes "length (at_typed_id a) = 32" "block_header sample_chunk = Inr (at_header a)"
  shows "fm_validate (sample_manifest a) = Inr ()"
proof -
  note h = block_header_ok [OF sample_chunk_flat(1) assms(2), unfolded sample_chunk_flat(2)]
  have meta: "metadata (PStr (cps ''x'')) (PStr (cps ''a/b'')) = Inr ()"
    by (simp add: metadata_def name_ok_def mime_ok_def mime_char_def lower_digit_def cps_def utf8_cp_def)
  have app: "check_app_id (PStr (cps ''a.b'')) = Inr ()" by (simp add: check_app_id_def lower_app_ok_def cps_def lower_label_def lower_digit_def)
  have pair: "check_pair [PStr (cps ''a.b''), PBytes (replicate 32 1), PInt 1, PBytes (replicate 32 2), PInt 0, PInt 3]
      (0, PList [PBytes (at_typed_id a), PBytes (at_header a)]) [] = Inr [at_typed_id a]"
    using assms h sample_sizes(2) by (simp add: check_pair_Inr flip: sample_chunk_def)
  show ?thesis using pair meta app sample_sizes(1)
    by (simp add: fm_validate_def sample_manifest_def file_manifest_def key_range_def upt_rec field_is_def each_sized_def each_int_def U64_def
        MAX_FILE_BYTES_def CHUNK_BYTES_def int_in_def bytes_sized_def)
qed

lemma sample_manifest_dumps:
  assumes "length (at_typed_id a) = 32" "block_header sample_chunk = Inr (at_header a)" "length (at_header a) < 1000"
  shows "\<exists>plain. fm_dumps (sample_manifest a) = Inr plain"
proof -
  have "\<exists>plain. encode (sample_manifest a) (int FM_MAX_MANIFEST) MAX_NODES = Inr plain"
    using assms(1,3) nhead_bound [of 2 "length (at_header a)"]
    by (simp add: sample_manifest_def file_manifest_def CHUNK_BYTES_def FM_MAX_MANIFEST_def encode_iff mk_dict_def budget_ok_def MAX_BYTES_def MAX_NODES_def
        MAX_DEPTH_def U64_def) (simp add: nhead_def cps_def utf8_cp_def)
  then show ?thesis using sample_manifest_valid [OF assms(1,2)] by (auto simp: fm_dumps_def)
qed

definition sample_binding :: "attachment \<Rightarrow> block_binding" where
  "sample_binding a = \<lparr>bb_typed_id = at_typed_id a, bb_locator = [9], bb_app = PNone, bb_space = PNone, bb_epoch = PNone, bb_object = PNone,
     bb_kind = PNone, bb_index = PNone, bb_generation = PNone, bb_plain_size = 3, bb_sealed_size = 0, bb_header = at_header a\<rparr>"

theorem file_roundtrip_witness:
  "\<exists>a plain info. fm_dumps (sample_manifest a) = Inr plain \<and> fm_loads plain = Inr (sample_manifest a)
    \<and> consume_file test_sodium (replicate 32 8) (\<lambda>_. Inr (at_sealed a)) (sample_manifest a) [sample_binding a] = Inr ([1, 2, 3], info)"
proof -
  obtain a where a: "seal_chunk test_sodium (replicate 32 8) sample_chunk [1, 2, 3] (replicate 24 0) = Inr a"
      "length (at_typed_id a) = 32" "block_header sample_chunk = Inr (at_header a)" "length (at_header a) < 1000"
    using sample_chunk_sealed by blast
  obtain plain where plain: "fm_dumps (sample_manifest a) = Inr plain" using sample_manifest_dumps [OF a(2-4)] by blast
  have l: "length [1, 2, 3 :: byte] = 3" by simp
  have "mapE (\<lambda>i. seal_chunk test_sodium (replicate 32 8) (chunk_header (PStr (cps ''a.b'')) (PBytes (replicate 32 1)) (PInt 1)
        (PBytes (replicate 32 2)) (PInt 0) i (chunk_length (length [1, 2, 3 :: byte]) i)) (file_chunk [1, 2, 3] i) (replicate 24 0))
      [0..<chunk_count (length [1, 2, 3 :: byte])] = Inr [a]"
    unfolding l sample_sizes(1) using a(1) sample_sizes(2,3) by (simp add: sample_chunk_def)
  from file_roundtrip [OF test_sodium_ok this _ plain, of "PStr (cps ''x'')" "PStr (cps ''a/b'')" "\<lambda>_. Inr (at_sealed a)" "[sample_binding a]"] plain
  show ?thesis by (auto simp: sample_manifest_def sample_binding_def)
qed

theorem file_exact_witness:
  "\<exists>a info ds. consume_file test_sodium (replicate 32 8) (\<lambda>_. Inr (at_sealed a)) (sample_manifest a) [sample_binding a] = Inr ([1, 2, 3], info)
    \<and> [1, 2, 3] = (concat ds :: bytes) \<and> length ds = 1"
proof -
  obtain a where a: "seal_chunk test_sodium (replicate 32 8) sample_chunk [1, 2, 3] (replicate 24 0) = Inr a"
      "length (at_typed_id a) = 32" "block_header sample_chunk = Inr (at_header a)" "length (at_header a) < 1000"
    using sample_chunk_sealed by blast
  have "chunk_opens test_sodium (replicate 32 8) (\<lambda>_. Inr (at_sealed a)) (sample_binding a) [1, 2, 3]"
    by (rule seal_chunk_opens [OF test_sodium_ok sample_chunk_flat a(1)]) (simp_all add: sample_binding_def)
  then have "foldE (read_chunk test_sodium (replicate 32 8) (\<lambda>_. Inr (at_sealed a))) [sample_binding a] [] = Inr [1, 2, 3]"
    unfolding read_chunks_Inr by (intro exI [of _ "[[1, 2, 3]]"]) simp
  then obtain info where c: "consume_file test_sodium (replicate 32 8) (\<lambda>_. Inr (at_sealed a)) (sample_manifest a) [sample_binding a] = Inr ([1, 2, 3], info)"
    by (simp add: consume_file_def sample_manifest_def file_manifest_def)
  have chk: "check_bindings (sample_manifest a) [sample_binding a] = Inr ()"
    by (simp add: check_bindings_def sample_manifest_def file_manifest_def descriptor_def sample_binding_def)
  have "\<exists>vs. mapE (item_at (sample_manifest a)) [2, 3, 4, 5, 6, 7] = Inr vs" by (simp add: sample_manifest_def file_manifest_def)
  then obtain vs where "mapE (item_at (sample_manifest a)) [2, 3, 4, 5, 6, 7] = Inr vs" by blast
  from file_exact [OF sample_manifest_valid [OF a(2,3)] chk c this]
  have "\<exists>ds. [1, 2, 3] = (concat ds :: bytes) \<and> length ds = chunk_count (length [1, 2, 3 :: byte])" by blast
  moreover have "length [1, 2, 3 :: byte] = 3" by simp
  ultimately show ?thesis using c sample_sizes(1) by metis
qed

end
