(* ===== verification/IntentJournal.thy ===== *)
theory IntentJournal
  imports Intents
begin

text \<open>
  Lemmas about the intention journal. A journal directory determines its state (\<open>replays\<close>), every call only appends to it
  (\<open>extends\<close>), and an operation that was dispatched stays used (\<open>spent\<close>); the calls of the coordinator keep \<open>once\<close>: the operations
  handed to the application are different and recorded. The events form a chain of digests, so that a directory which opens
  against the pin of another one extends it (\<open>reload_extends\<close>). \<open>pin_contract\<close> is what the journal relies on in a pin store, with
  the POSIX store as its instance.
\<close>

section \<open>Results and states\<close>

lemma fetch_to_Inr [simp]: "fetch_to e m = Inr x \<longleftrightarrow> m = Inr x"
  by (simp add: fetch_to_def split: sum.splits)

declare bindS_Inr [res_simps]

lemma bindS_run: "fst (bindS m f) = (case snd m of Inl _ \<Rightarrow> fst m | Inr x \<Rightarrow> fst (f x (fst m)))"
  by (simp add: bindS_def split: prod.splits sum.splits)

section \<open>Transitions\<close>

text \<open>The five moves of the state machine.\<close>

lemma transition_cases:
  assumes "intent_transition st payload b = Inr st'"
  obtains (prepare) i d where "is_phase st \<in> {Ph_Empty, Ph_Retired, Ph_Abandoned}" "map_of (is_used st) (hexed (it_operation i)) = None"
      "st' = \<lparr>is_phase = Ph_Prepared, is_intent = Some i, is_receipt = None, is_used = is_used st @ [(hexed (it_operation i), d)]\<rparr>"
  | (observe) row where "is_phase st \<in> {Ph_Dispatched, Ph_Observed}" "st' = st\<lparr>is_phase := Ph_Observed, is_receipt := Some row\<rparr>"
  | (dispatch) i where "is_intent st = Some i" "is_phase st = Ph_Prepared" "st' = st\<lparr>is_phase := Ph_Dispatched\<rparr>"
  | (retire) "is_phase st = Ph_Observed" "st' = st\<lparr>is_phase := Ph_Retired\<rparr>"
  | (abandon) "is_phase st = Ph_Prepared" "st' = st\<lparr>is_phase := Ph_Abandoned\<rparr>"
proof -
  obtain kind where k: "sget payload ''kind'' = Some kind"
    using assms by (cases "sget payload ''kind''") (simp_all add: intent_transition_def)
  show thesis
  proof (cases "kind = PStr (cps ''PREPARE'')")
    case True
    then have "enter_prepared st payload b = Inr st'" using assms k by (simp add: intent_transition_def)
    then show thesis using prepare by (auto simp: enter_prepared_def res_simps)
  next
    case False
    then obtain i where i: "is_intent st = Some i"
      using assms k by (cases "is_intent st") (simp_all add: intent_transition_def)
    show thesis
      using assms k False i observe dispatch retire abandon
      by (simp add: intent_transition_def enter_observed_def res_simps split: if_splits) metis+
  qed
qed

text \<open>The operation a transition dispatches.\<close>

definition newly :: "intent_state \<Rightarrow> intent_state \<Rightarrow> bytes list" where
  "newly st st' = (if is_phase st' = Ph_Dispatched \<and> is_phase st \<noteq> Ph_Dispatched then [it_operation (the (is_intent st'))] else [])"

text \<open>Operations dispatched so far are used, each once; a prepared intent is not among them.\<close>

definition spent :: "intent_state \<Rightarrow> bytes list \<Rightarrow> bool" where
  "spent st ops \<longleftrightarrow> distinct ops \<and> hexed ` set ops \<subseteq> fst ` set (is_used st)
     \<and> (\<forall>i. is_intent st = Some i \<longrightarrow> hexed (it_operation i) \<in> fst ` set (is_used st))
     \<and> (is_phase st = Ph_Prepared \<longrightarrow> (\<exists>i. is_intent st = Some i \<and> it_operation i \<notin> set ops))"

lemma spent_empty: "spent empty_state []"
  by (simp add: spent_def empty_state_def)

lemma spent_transition:
  assumes "intent_transition st payload b = Inr st'" "spent st ops"
  shows "spent st' (ops @ newly st st')"
  using assms(1)
proof (cases rule: transition_cases)
  case (prepare i d)
  then have "hexed (it_operation i) \<notin> fst ` set (is_used st)" by (simp add: map_of_eq_None_iff)
  then have "it_operation i \<notin> set ops" using assms(2) by (auto simp: spent_def)
  with prepare assms(2) show ?thesis by (auto simp: spent_def newly_def)
qed (use assms(2) in \<open>auto simp: spent_def newly_def\<close>)

section \<open>Replaying a directory\<close>

text \<open>A pin that demands nothing of the events: they are numbered from one.\<close>

definition free_pin :: journal_pin where
  "free_pin = \<lparr>jp_meta = [], jp_sequence = 0, jp_event = []\<rparr>"

abbreviation replay :: "bytes \<Rightarrow> nat \<Rightarrow> bytes list \<Rightarrow> intent_state \<times> pystr \<Rightarrow> (intent_state \<times> pystr) res" where
  "replay b k evs \<equiv> foldE (replay_event b free_pin) (enumerate k evs)"

definition replays :: "bytes \<Rightarrow> intent_dir \<Rightarrow> intent_state \<Rightarrow> pystr \<Rightarrow> bool" where
  "replays b d st h \<longleftrightarrow> replay b 1 (dr_events d) (empty_state, sha_hex (dr_meta d)) = Inr (st, h)"

lemma replay_event_Inr:
  "replay_event b e (k, raw) (st, h) = Inr (st', h') \<longleftrightarrow> (\<exists>payload. read_event k h raw = Inr payload
     \<and> intent_transition st payload b = Inr st' \<and> (k \<noteq> jp_sequence e \<or> sha_hex raw = jp_event e) \<and> h' = sha_hex raw)"
  by (auto simp: replay_event_def res_simps)

lemma replay_event_free:
  "0 < k \<Longrightarrow> replay_event b e (k, raw) s = Inr s' \<Longrightarrow> replay_event b free_pin (k, raw) s = Inr s'"
  by (cases s; cases s') (auto simp: replay_event_Inr free_pin_def)

lemma replay_free:
  "0 < k \<Longrightarrow> foldE (replay_event b e) (enumerate k evs) s = Inr s' \<Longrightarrow> replay b k evs s = Inr s'"
proof (induction evs arbitrary: k s)
  case (Cons raw evs)
  then obtain t where "replay_event b e (k, raw) s = Inr t" "foldE (replay_event b e) (enumerate (Suc k) evs) t = Inr s'"
    by (auto simp: res_simps)
  then show ?case using replay_event_free [OF Cons.prems(1)] Cons.IH [of "Suc k" t] by simp
qed simp

lemma replay_snoc:
  "replay b k (evs @ [raw]) s = Inr s' \<longleftrightarrow>
     (\<exists>t. replay b k evs s = Inr t \<and> replay_event b free_pin (k + length evs, raw) t = Inr s')"
  by (cases s') (auto simp: enumerate_append_eq foldE_append res_simps)

text \<open>The operations that the events of a directory dispatch, up to the first event that does not replay.\<close>

fun dispatches :: "bytes \<Rightarrow> nat \<Rightarrow> bytes list \<Rightarrow> intent_state \<times> pystr \<Rightarrow> bytes list" where
  "dispatches b k [] s = []"
| "dispatches b k (raw # evs) s = (case replay_event b free_pin (k, raw) s of
     Inl _ \<Rightarrow> []
   | Inr t \<Rightarrow> newly (fst s) (fst t) @ dispatches b (Suc k) evs t)"

definition dispatched :: "bytes \<Rightarrow> intent_dir \<Rightarrow> bytes list" where
  "dispatched b d = dispatches b 1 (dr_events d) (empty_state, sha_hex (dr_meta d))"

lemma dispatches_append:
  "dispatches b k (evs @ fs) s = dispatches b k evs s
     @ (case replay b k evs s of Inl _ \<Rightarrow> [] | Inr t \<Rightarrow> dispatches b (k + length evs) fs t)"
proof (induction evs arbitrary: k s)
  case (Cons raw evs)
  then show ?case by (cases "replay_event b free_pin (k, raw) s") (auto split: sum.splits)
qed simp

lemma replay_spent:
  assumes "replay b k evs s = Inr t" "spent (fst s) ops"
  shows "spent (fst t) (ops @ dispatches b k evs s)"
  using assms
proof (induction evs arbitrary: k s ops)
  case (Cons raw evs)
  then obtain u where u: "replay_event b free_pin (k, raw) s = Inr u" "replay b (Suc k) evs u = Inr t"
    by (auto simp: res_simps)
  obtain payload where "intent_transition (fst s) payload b = Inr (fst u)"
    using u(1) by (cases s; cases u) (auto simp: replay_event_Inr)
  then show ?case using Cons.IH [OF u(2) spent_transition [OF _ Cons.prems(2)]] u(1) by simp
qed simp

lemma replays_spent: "replays b d st h \<Longrightarrow> spent st (dispatched b d)"
  using replay_spent [of b 1 _ "(empty_state, _)" "(st, h)" "[]"] spent_empty by (simp add: replays_def dispatched_def)

lemma reload_replays:
  assumes "ai_reload b e d = Inr (st, pin)"
  shows "replays b d st (jp_event pin)" and "jp_meta pin = sha_hex (dr_meta d)" and "jp_sequence pin = length (dr_events d)"
    and "jp_meta e = sha_hex (dr_meta d)" and "dr_root_ok d" and "dr_names_ok d"
  using assms replay_free [of 1 b e "dr_events d"]
  by (auto simp: ai_reload_def replays_def check_meta_def ib_read_file_def res_simps Let_def)

section \<open>Growth\<close>

text \<open>A handle whose directory extends another's, under the same binding.\<close>

definition extends :: "'p intent_journal \<Rightarrow> 'p intent_journal \<Rightarrow> bool" where
  "extends j j' \<longleftrightarrow> ij_binding j' = ij_binding j \<and> dr_meta (ij_dir j') = dr_meta (ij_dir j)
     \<and> (\<exists>more. dr_events (ij_dir j') = dr_events (ij_dir j) @ more)"

lemma extends_refl [simp]: "extends j j"
  by (simp add: extends_def)

lemma extends_trans: "extends j k \<Longrightarrow> extends k l \<Longrightarrow> extends j l"
  by (auto simp: extends_def)

lemma extends_same: "ij_binding j' = ij_binding j \<Longrightarrow> ij_dir j' = ij_dir j \<Longrightarrow> extends j j'"
  by (simp add: extends_def)

lemma extends_dispatched:
  assumes "extends j j'"
  shows "set (dispatched (ij_binding j) (ij_dir j)) \<subseteq> set (dispatched (ij_binding j') (ij_dir j'))"
  using assms by (auto simp: extends_def dispatched_def dispatches_append)

lemma poison_sel [simp]:
  "ij_dir (poison j) = ij_dir j" "ij_binding (poison j) = ij_binding j" "ij_poisoned (poison j)"
  by (simp_all add: poison_def)

lemma sync_keeps:
  assumes "sync_anchor pp j = (j', r)"
  shows "ij_dir j' = ij_dir j" "ij_binding j' = ij_binding j" "ij_state j' = ij_state j" "ij_pin j' = ij_pin j"
  using assms by (auto simp: sync_anchor_def split: option.splits sum.splits prod.splits if_splits)

lemma audit_keeps:
  assumes "ij_audit pp j = (j', r)"
  shows "ij_dir j' = ij_dir j" "ij_binding j' = ij_binding j"
  using assms by (auto simp: ij_audit_def split: sum.splits prod.splits dest: sync_keeps)

lemma audit_state:
  assumes "ij_audit pp j = (j', Inr u)"
  shows "replays (ij_binding j') (ij_dir j') (ij_state j') (jp_event (ij_pin j'))" and "jp_meta (ij_pin j') = sha_hex (dr_meta (ij_dir j'))"
    and "jp_sequence (ij_pin j') = length (dr_events (ij_dir j'))"
proof -
  obtain st pin where m: "ai_reload (ij_binding j) (ij_pin j) (ij_dir j) = Inr (st, pin)"
      "sync_anchor pp (j\<lparr>ij_state := st, ij_pin := pin\<rparr>) = (j', Inr ())"
    using assms by (auto simp: ij_audit_def res_simps split: sum.splits prod.splits)
  note k = sync_keeps [OF m(2)]
  show "replays (ij_binding j') (ij_dir j') (ij_state j') (jp_event (ij_pin j'))"
    and "jp_meta (ij_pin j') = sha_hex (dr_meta (ij_dir j'))" and "jp_sequence (ij_pin j') = length (dr_events (ij_dir j'))"
    using reload_replays [OF m(1)] k by simp_all
qed

lemma replays_unique: "replays b d st h \<Longrightarrow> replays b d st' h' \<Longrightarrow> st' = st \<and> h' = h"
  by (simp add: replays_def)

text \<open>Calls built with \<open>bindS\<close> extend the directory when their parts do.\<close>

lemma extends_bindS:
  assumes "extends j (fst m)" "\<And>x k. extends k (fst (f x k))"
  shows "extends j (fst (bindS m f))"
  using assms extends_trans by (simp add: bindS_run split: sum.splits) blast

lemma audit_extends: "extends j (fst (ij_audit pp j))"
  using audit_keeps [of pp j] by (cases "ij_audit pp j") (simp add: extends_same)

lemma status_extends: "extends j (fst (ij_status pp j))"
  unfolding ij_status_def by (intro extends_bindS audit_extends) simp

lemma current_extends: "extends j (fst (ij_current pp j))"
  unfolding ij_current_def by (intro extends_bindS audit_extends) simp

lemma add_event_extends: "extends j (add_event raw j)"
  by (auto simp: extends_def add_event_def)

lemma write_event_extends: "extends j (fst (write_event pp st raw w j))"
proof -
  have lost: "extends j (poison (add_event raw' j))" for raw'
    by (rule extends_trans [OF add_event_extends [of j raw']]) (simp add: extends_same)
  obtain j' r where s: "sync_anchor pp (with_event st raw j) = (j', r)" by (cases "sync_anchor pp (with_event st raw j)")
  have "extends j j'" "extends j (poison j')"
    using sync_keeps [OF s] by (auto simp: extends_def with_event_def add_event_def)
  with s lost show ?thesis
    by (auto simp: write_event_def Let_def extends_same split: append_outcome.splits option.splits sum.splits)
qed

lemma append_extends: "extends j (fst (ij_append pp payload w j))"
  unfolding ij_append_def
  by (intro extends_bindS audit_extends) (auto simp: bindS_run split: sum.splits intro!: extends_bindS write_event_extends status_extends)

lemma prepare_extends: "extends j (fst (ij_prepare pp i w j))"
  unfolding ij_prepare_def
  by (intro extends_bindS audit_extends)
    (auto simp: bindS_run split: sum.splits option.splits intro!: status_extends append_extends)

lemma observe_extends: "extends j (fst (ij_observe pp dg row w j))"
  unfolding ij_observe_def
  by (intro extends_bindS audit_extends) (auto simp: bindS_run split: sum.splits intro!: status_extends append_extends)

lemmas journal_extends = audit_extends status_extends current_extends prepare_extends observe_extends append_extends

section \<open>Recording a dispatch\<close>

lemma sget_str_dict: "sget (str_dict ps) k = map_of ps (cps k)"
  by (induction ps) (auto simp: sget_def str_dict_def)

lemma has_keys_str_dict: "has_keys (str_dict ps) ks \<longleftrightarrow> fst ` set ps = cps ` set ks"
proof -
  have "(\<lambda>p. PStr (fst p)) ` set ps = (\<lambda>k. PStr (cps k)) ` set ks \<longleftrightarrow> PStr ` fst ` set ps = PStr ` cps ` set ks"
    by (simp add: image_image)
  also have "\<dots> \<longleftrightarrow> fst ` set ps = cps ` set ks" by (rule inj_image_eq_iff) (simp add: inj_def)
  finally show ?thesis by (simp add: has_keys_def str_dict_def image_image)
qed

lemma kind_payload_canon [simp]: "jcanon (kind_payload k (PStr s)) = kind_payload k (PStr s)" "wf_py (kind_payload k (PStr s))"
  by (simp_all add: kind_payload_def str_dict_def sort_items_def key_str_def cps_def)

lemma event_values_canon:
  assumes "jcanon payload = payload" "wf_py payload"
  shows "jcanon (event_values k h payload) = event_values k h payload" and "wf_py (event_values k h payload)"
  using assms by (simp_all add: event_values_def str_dict_def sort_items_def key_str_def cps_def)

text \<open>An event that was written reads back as its payload.\<close>

lemma read_written_event:
  assumes "json_canonical (event_values k h payload) = Inr raw" "0 < length raw" "int (length raw) \<le> AI_MAX_BYTES"
    and "jcanon payload = payload" "wf_py payload"
  shows "read_event k h raw = Inr payload"
  using decode_canonical [OF assms(1) event_values_canon(2) [OF assms(4,5)] event_values_canon(1) [OF assms(4,5)]] assms(2,3)
  by (simp add: read_event_def ib_read_file_def has_keys_str_dict sget_str_dict sitem_def event_values_def res_simps insert_commute)

lemma write_event_Inr:
  "write_event pp st raw w j = (j', Inr u) \<Longrightarrow> sync_anchor pp (with_event st raw j) = (j', Inr ())"
  by (cases w; cases "sync_anchor pp (with_event st raw j)"; cases "snd (sync_anchor pp (with_event st raw j))")
    (auto simp: write_event_def Let_def split: option.splits)

lemma append_Inr:
  assumes "ij_append pp payload w j = (j', Inr s)" "jcanon payload = payload" "wf_py payload"
  obtains st h raw st' where "replays (ij_binding j) (ij_dir j) st h" "intent_transition st payload (ij_binding j) = Inr st'"
    "ij_dir j' = (ij_dir j)\<lparr>dr_events := dr_events (ij_dir j) @ [raw]\<rparr>" "ij_binding j' = ij_binding j"
    "replay_event (ij_binding j) free_pin (Suc (length (dr_events (ij_dir j))), raw) (st, h) = Inr (st', sha_hex raw)"
proof -
  obtain j1 st' raw j2 where a: "ij_audit pp j = (j1, Inr ())" and n: "next_event payload j1 = Inr (st', raw)"
    and w: "write_event pp st' raw w j1 = (j2, Inr ())" and t: "ij_status pp j2 = (j', Inr s)"
    using assms(1) by (auto simp: ij_append_def res_simps)
  have j2: "ij_dir j2 = (ij_dir j1)\<lparr>dr_events := dr_events (ij_dir j1) @ [raw]\<rparr>" "ij_binding j2 = ij_binding j1"
    using sync_keeps(1,2) [OF write_event_Inr [OF w]] by (simp_all add: with_event_def add_event_def)
  have j': "ij_dir j' = ij_dir j2" "ij_binding j' = ij_binding j2"
    using t audit_keeps [of pp j2] by (auto simp: ij_status_def res_simps)
  note k = audit_keeps [OF a] and st = audit_state [OF a]
  from n have e: "intent_transition (ij_state j1) payload (ij_binding j1) = Inr st'"
    "json_canonical (event_values (Suc (length (dr_events (ij_dir j)))) (jp_event (ij_pin j1)) payload) = Inr raw"
    "0 < length raw" "int (length raw) \<le> AI_MAX_BYTES"
    using st(3) k by (auto simp: next_event_def res_simps)
  have "read_event (Suc (length (dr_events (ij_dir j)))) (jp_event (ij_pin j1)) raw = Inr payload"
    by (rule read_written_event [OF e(2-4) assms(2,3)])
  then show thesis
    using that [of "ij_state j1" "jp_event (ij_pin j1)" st' raw] st(1) e(1) k j' j2 by (simp add: replay_event_Inr free_pin_def)
qed

lemma transition_dispatch:
  assumes "intent_transition st (kind_payload ''DISPATCH'' (PStr dg)) b = Inr st'"
  obtains i where "is_intent st = Some i" "intent_digest i = Inr dg" "is_phase st = Ph_Prepared" "st' = st\<lparr>is_phase := Ph_Dispatched\<rparr>"
  using assms
  by (auto simp: intent_transition_def kind_payload_def sget_str_dict res_simps split: option.splits if_splits)

text \<open>
  A dispatch that returns found the intent with that digest prepared, and its operation, which the directory did not dispatch
  before, is dispatched now.
\<close>

lemma dispatch_Inr:
  assumes "ij_dispatch pp dg w j = (j', Inr s)" "replays (ij_binding j) (ij_dir j) st h" "is_intent st = Some i"
  shows "it_operation i \<notin> set (dispatched (ij_binding j) (ij_dir j))" and "extends j j'"
    and "it_operation i \<in> set (dispatched (ij_binding j') (ij_dir j'))"
proof -
  obtain st1 h1 raw st' where r: "replays (ij_binding j) (ij_dir j) st1 h1"
    and t: "intent_transition st1 (kind_payload ''DISPATCH'' (PStr dg)) (ij_binding j) = Inr st'"
    and d: "ij_dir j' = (ij_dir j)\<lparr>dr_events := dr_events (ij_dir j) @ [raw]\<rparr>" "ij_binding j' = ij_binding j"
    and e: "replay_event (ij_binding j) free_pin (Suc (length (dr_events (ij_dir j))), raw) (st1, h1) = Inr (st', sha_hex raw)"
    using assms(1) unfolding ij_dispatch_def by (rule append_Inr) simp_all
  have st1: "st1 = st" "h1 = h" using replays_unique [OF assms(2) r] by simp_all
  obtain i' where i': "is_intent st = Some i'" "is_phase st = Ph_Prepared" "st' = st\<lparr>is_phase := Ph_Dispatched\<rparr>"
    using transition_dispatch [OF t] st1 by metis
  show "extends j j'" using d by (simp add: extends_def)
  show "it_operation i \<notin> set (dispatched (ij_binding j) (ij_dir j))"
    using replays_spent [OF assms(2)] i' assms(3) by (auto simp: spent_def)
  have "newly st st' = [it_operation i]" using i' assms(3) by (simp add: newly_def)
  then show "it_operation i \<in> set (dispatched (ij_binding j') (ij_dir j'))"
    using d e assms(2) by (simp add: dispatched_def dispatches_append replays_def st1)
qed

section \<open>The coordinator\<close>

text \<open>A call that hands nothing to the application: the directory grows, the list of applied intents stays.\<close>

definition quiet :: "('p, 'a) durable \<Rightarrow> ('p, 'a) durable \<Rightarrow> bool" where
  "quiet d d' \<longleftrightarrow> extends (da_journal d) (da_journal d') \<and> da_applied d' = da_applied d"

lemma quiet_refl [simp]: "quiet d d"
  by (simp add: quiet_def)

lemma quiet_trans: "quiet d e \<Longrightarrow> quiet e f \<Longrightarrow> quiet d f"
  by (auto simp: quiet_def intro: extends_trans)

named_theorems quiet_rules \<open>calls that apply nothing\<close>

lemma quiet_bindS [quiet_rules]:
  assumes "quiet d (fst m)" "\<And>x e. quiet e (fst (f x e))"
  shows "quiet d (fst (bindS m f))"
  using assms quiet_trans by (simp add: bindS_run split: sum.splits) blast

lemma quiet_pure [quiet_rules]: "(\<And>x. r = Inr x \<Longrightarrow> quiet d (fst (f x d))) \<Longrightarrow> quiet d (fst (bindS (d, r) f))"
  by (simp add: bindS_run split: sum.splits)

lemma quiet_journal:
  assumes "\<And>j. extends j (fst (f j))"
  shows "quiet d (fst (on_journal f d))"
  using assms [of "da_journal d"] by (cases "f (da_journal d)") (simp add: on_journal_def quiet_def)

lemmas quiet_journals [quiet_rules] = journal_extends [THEN quiet_journal]

lemma quiet_dispatch [quiet_rules]: "quiet d (fst (on_journal (ij_dispatch pp dg w) d))"
  "quiet d (fst (on_journal (ij_retire pp dg w) d))" "quiet d (fst (on_journal (ij_abandon pp dg w) d))"
  by (simp_all add: quiet_journal ij_dispatch_def ij_retire_def ij_abandon_def append_extends)

lemma quiet_result [quiet_rules]: "quiet d (fst (da_result pp x y d))"
  unfolding da_result_def by (intro quiet_rules) simp

lemma quiet_enter [quiet_rules]: "quiet d (fst (da_enter anc pp ap d))"
  unfolding da_enter_def by (intro quiet_rules)

lemma quiet_current [quiet_rules]: "quiet d (fst (da_current pp ap dg d))"
  unfolding da_current_def by (intro quiet_rules) simp

lemma quiet_rescue [quiet_rules]: "quiet d (fst m) \<Longrightarrow> quiet d (fst (rescue pp f m))"
  using quiet_trans quiet_result by (cases m) (fastforce simp: rescue_def split: sum.splits)

lemma quiet_executable [quiet_rules]: "quiet d (fst (executable pp ap i en d))"
  unfolding executable_def by (intro quiet_rules) simp

lemma quiet_before [quiet_rules]: "quiet d (fst (before_dispatch pp ap dg en d))"
  unfolding before_dispatch_def by (intro quiet_rules) simp

lemma quiet_prepare: "quiet d (fst (da_prepare anc pp ap op rv en d))"
  unfolding da_prepare_def by (intro quiet_rules) (auto intro!: quiet_rules)

lemma quiet_inquiry [quiet_rules]: "quiet d (fst (inquiry pp ap i dg en d))"
  unfolding inquiry_def by (rule quiet_pure) (auto split: option.splits intro!: quiet_rules)

lemma quiet_inquire [quiet_rules]: "quiet d (fst (da_inquire anc pp ap dg en d))"
  unfolding da_inquire_def by (intro quiet_rules)

lemma quiet_retire: "quiet d (fst (da_retire anc pp ap dg en d))"
  unfolding da_retire_def by (intro quiet_rules)

lemma quiet_abandon: "quiet d (fst (da_abandon anc pp ap dg en d))"
  unfolding da_abandon_def by (intro quiet_rules)

text \<open>After the dispatch is recorded, the application is called at most once, with the intent that was dispatched.\<close>

definition applies :: "intent \<Rightarrow> ('p, 'a) durable \<Rightarrow> ('p, 'a) durable \<Rightarrow> bool" where
  "applies i d d' \<longleftrightarrow> extends (da_journal d) (da_journal d') \<and> da_applied d' \<in> {da_applied d, da_applied d @ [i]}"

lemma quiet_applies: "quiet d d' \<Longrightarrow> applies i d d'"
  by (simp add: quiet_def applies_def)

lemma applies_quiet: "applies i d e \<Longrightarrow> quiet e f \<Longrightarrow> applies i d f"
  by (auto simp: quiet_def applies_def intro: extends_trans)

lemma applies_rescue: "applies i d (fst m) \<Longrightarrow> applies i d (fst (rescue pp f m))"
  using applies_quiet quiet_result by (cases m) (fastforce simp: rescue_def split: sum.splits)

lemma after_dispatch_applies: "applies i d (fst (after_dispatch pp ap i dg en d))"
proof (cases "bindE (ce_cancel en 1) (\<lambda>_. unchanged ap 1 i d)")
  case (Inr u)
  have a: "applies i d (fst (call_apply ap i d))" by (simp add: applies_def call_apply_def split: prod.splits)
  let ?rest = "\<lambda>row d. bindS (d, bindE (ce_cancel en 2) (\<lambda>_. bindE (da_authority ap 2 d) (\<lambda>_. ai_check_receipt i row))) (\<lambda>_ d.
     bindS (on_journal (ij_observe pp dg row (ce_write' en)) d) (\<lambda>_ d.
     bindS (d, bindE (ce_cancel en 3) (\<lambda>_. da_authority ap 3 d)) (\<lambda>_ d.
       da_result pp (Some ''OBSERVED_APPLICATION_RECORD'') None d)))"
  have q: "quiet e (fst (?rest row e))" for row e by (intro quiet_rules)
  have "fst (after_dispatch pp ap i dg en d) = fst (bindS (call_apply ap i d) ?rest)"
    using Inr by (simp add: after_dispatch_def bindS_run [of "(d, _)"])
  also have "applies i d \<dots>" using a applies_quiet [OF a q] by (simp add: bindS_run [of "call_apply ap i d"] split: sum.splits)
  finally show ?thesis .
qed (simp add: after_dispatch_def bindS_run quiet_applies)

text \<open>The operations applied so far are different, and every one of them is recorded as dispatched.\<close>

definition once :: "('p, 'a) durable \<Rightarrow> bool" where
  "once d \<longleftrightarrow> distinct (map it_operation (da_applied d))
     \<and> set (map it_operation (da_applied d)) \<subseteq> set (dispatched (ij_binding (da_journal d)) (ij_dir (da_journal d)))"

lemma once_quiet: "quiet d d' \<Longrightarrow> once d \<Longrightarrow> once d'"
  using extends_dispatched by (fastforce simp: quiet_def once_def)

lemma current_Inr:
  assumes "da_current pp ap dg d = (e, Inr i)"
  obtains st h where "replays (ij_binding (da_journal e)) (ij_dir (da_journal e)) st h" "is_intent st = Some i"
proof -
  obtain j r where j: "ij_current pp (da_journal d) = (j, r)" by (cases "ij_current pp (da_journal d)")
  have c: "ij_current pp (da_journal d) = (j, Inr (Some i))" "da_journal e = j"
    using assms j by (cases r; auto simp: da_current_def on_journal_def bindS_def res_simps split: option.splits)+
  then have a: "ij_audit pp (da_journal d) = (j, Inr ())" "is_intent (ij_state j) = Some i"
    by (auto simp: ij_current_def res_simps)
  show thesis using that audit_state(1) [OF a(1)] a(2) c(2) by metis
qed

lemma executable_keeps:
  assumes "executable pp ap i en d = (e, r)"
  shows "ij_dir (da_journal e) = ij_dir (da_journal d)" "ij_binding (da_journal e) = ij_binding (da_journal d)"
proof -
  obtain j q where a: "ij_audit pp (da_journal d) = (j, q)" by (cases "ij_audit pp (da_journal d)")
  have "da_journal e = j"
    using assms a by (auto simp: executable_def on_journal_def ij_status_def bindS_def split: sum.splits prod.splits)
  then show "ij_dir (da_journal e) = ij_dir (da_journal d)" "ij_binding (da_journal e) = ij_binding (da_journal d)"
    using audit_keeps [OF a] by simp_all
qed

lemma once_applies:
  fixes d :: "('a, 'b) durable" and e f :: "('a, 'b) durable"
  assumes "once d" "extends (da_journal d) (da_journal e)" "da_applied e = da_applied d" "applies i e f"
    and "it_operation i \<notin> set (dispatched (ij_binding (da_journal d)) (ij_dir (da_journal d)))"
    and "it_operation i \<in> set (dispatched (ij_binding (da_journal e)) (ij_dir (da_journal e)))"
  shows "once f"
proof -
  define ops where "ops g = set (dispatched (ij_binding (da_journal g)) (ij_dir (da_journal g)))" for g :: "('a, 'b) durable"
  have f: "extends (da_journal e) (da_journal f)" "da_applied f \<in> {da_applied d, da_applied d @ [i]}"
    using assms(3,4) by (auto simp: applies_def)
  have sub: "ops d \<subseteq> ops e" "ops e \<subseteq> ops f"
    using extends_dispatched [OF assms(2)] extends_dispatched [OF f(1)] by (simp_all add: ops_def)
  have o: "distinct (map it_operation (da_applied d))" "it_operation ` set (da_applied d) \<subseteq> ops d"
    using assms(1) by (simp_all add: once_def ops_def)
  have i: "it_operation i \<notin> ops d" "it_operation i \<in> ops f" using assms(5,6) sub by (auto simp: ops_def)
  show ?thesis using f(2) o sub i unfolding once_def ops_def [symmetric] by (elim insertE) auto
qed

lemma execute_once:
  assumes "once d"
  shows "once (fst (da_execute anc pp ap dg en d))"
proof -
  let ?body = "\<lambda>i d. case before_dispatch pp ap dg en d of (d, Inl e) \<Rightarrow> rescue pp rejected (d, Inl e)
     | (d, Inr _) \<Rightarrow> rescue pp (\<lambda>_. ''OUTCOME_UNKNOWN'') (after_dispatch pp ap i dg en d)"
  have body: "once (fst (?body i e3))" if c: "da_current pp ap dg e1 = (e2, Inr i)" and x: "executable pp ap i en e2 = (e3, Inr u)"
    and o: "once e3" for e1 e2 e3 i u
  proof (cases "before_dispatch pp ap dg en e3")
    case (Pair e4 r)
    have q: "quiet e3 e4" using quiet_before [of e3 pp ap dg en] Pair by simp
    show ?thesis
    proof (cases r)
      case (Inl e)
      have "quiet e3 (fst (rescue pp rejected (e4, Inl e)))" by (rule quiet_rescue) (simp add: q)
      then show ?thesis using Pair Inl once_quiet [OF _ o] by simp
    next
      case (Inr v)
      obtain st h where st: "replays (ij_binding (da_journal e3)) (ij_dir (da_journal e3)) st h" "is_intent st = Some i"
        using current_Inr [OF c] executable_keeps [OF x] by metis
      obtain s where d: "ij_dispatch pp dg (ce_write en) (da_journal e3) = (da_journal e4, Inr s)"
        using Pair Inr by (auto simp: before_dispatch_def on_journal_def res_simps split: prod.splits)
      have "once (fst (rescue pp (\<lambda>_. ''OUTCOME_UNKNOWN'') (after_dispatch pp ap i dg en e4)))"
        using once_applies [OF o dispatch_Inr(2) [OF d st] _ applies_rescue [OF after_dispatch_applies] dispatch_Inr(1,3) [OF d st]]
          q by (simp add: quiet_def)
      then show ?thesis using Pair Inr by simp
    qed
  qed
  obtain e1 r1 where e1: "da_enter anc pp ap d = (e1, r1)" by (cases "da_enter anc pp ap d")
  obtain e2 r2 where e2: "da_current pp ap dg e1 = (e2, r2)" by (cases "da_current pp ap dg e1")
  have o: "once e1" "once e2"
    using once_quiet [OF _ assms] quiet_enter [of d anc pp ap] quiet_current [of e1 pp ap dg] e1 e2 quiet_trans by (metis fst_conv)+
  show ?thesis
  proof (cases "\<exists>i u1 u3 e3. r1 = Inr u1 \<and> r2 = Inr i \<and> executable pp ap i en e2 = (e3, Inr u3)")
    case True
    then obtain i u1 u3 e3 where r: "r1 = Inr u1" "r2 = Inr i" "executable pp ap i en e2 = (e3, Inr u3)" by blast
    have "once e3" using once_quiet [OF _ o(2)] quiet_executable [of e2 pp ap i en] r(3) by simp
    then have "once (fst (?body i e3))" using body [OF _ r(3)] e2 r(2) by simp
    then show ?thesis using e1 e2 r by (simp add: da_execute_def bindS_def)
  next
    case False
    have "once e3" if "executable pp ap i en e2 = (e3, Inl e)" for i e3 e
      using once_quiet [OF _ o(2)] quiet_executable [of e2 pp ap i en] that by simp
    then show ?thesis
      using False o e1 e2 by (auto simp: da_execute_def bindS_def split: sum.splits prod.splits)
  qed
qed

text \<open>
  One thing that happens to a coordinator: a call with any arguments and any outcome of its writes, closing the journal, opening
  the directory again against any pin or any anchor, and a change of the application that the coordinator does not make.
\<close>

inductive intent_step :: "'p pin_port \<Rightarrow> 'a app_port \<Rightarrow> ('p, 'a) durable \<Rightarrow> ('p, 'a) durable \<Rightarrow> bool" for pp ap where
  prepare: "intent_step pp ap d (fst (da_prepare anc pp ap op rv en d))"
| execute: "intent_step pp ap d (fst (da_execute anc pp ap dg en d))"
| inquire: "intent_step pp ap d (fst (da_inquire anc pp ap dg en d))"
| retire: "intent_step pp ap d (fst (da_retire anc pp ap dg en d))"
| abandon: "intent_step pp ap d (fst (da_abandon anc pp ap dg en d))"
| close: "intent_step pp ap d (d\<lparr>da_journal := ij_close (da_journal d)\<rparr>)"
| reopen: "ij_open (ij_binding (da_journal d)) pin (ij_dir (da_journal d)) = Inr j \<Longrightarrow> intent_step pp ap d (d\<lparr>da_journal := j\<rparr>)"
| anchored: "ij_open_anchored pp (ij_binding (da_journal d)) a (ij_dir (da_journal d)) = (a', Inr j) \<Longrightarrow>
    intent_step pp ap d (d\<lparr>da_journal := j\<rparr>)"
| environment: "intent_step pp ap d (d\<lparr>da_app := a\<rparr>)"

lemma check_binding_Inr: "check_binding raw = Inr b \<Longrightarrow> b = raw"
  by (auto simp: check_binding_def res_simps)

lemma open_dir: "ij_open b pin d = Inr j \<Longrightarrow> ij_dir j = d \<and> ij_binding j = b"
  by (auto simp: ij_open_def res_simps dest: check_binding_Inr)

lemma open_anchored_Inr:
  assumes "ij_open_anchored pp b a d = (a', Inr j)"
  obtains pin k where "pp_binding pp a = b" "pp_load pp a = Inr pin" "ij_open b pin d = Inr k"
    "sync_anchor pp (k\<lparr>ij_anchor := Some a, ij_anchor_pin := pin\<rparr>) = (j, Inr ())"
  using assms
  by (auto simp: ij_open_anchored_def res_simps split: sum.split_asm prod.split_asm dest!: check_binding_Inr)

lemma once_step: "intent_step pp ap d d' \<Longrightarrow> once d \<Longrightarrow> once d'"
proof (induction rule: intent_step.induct)
  case (prepare d anc op rv en)
  then show ?case by (rule once_quiet [OF quiet_prepare])
next
  case (execute d anc dg en)
  then show ?case by (rule execute_once)
next
  case (inquire d anc dg en)
  then show ?case by (rule once_quiet [OF quiet_inquire])
next
  case (retire d anc dg en)
  then show ?case by (rule once_quiet [OF quiet_retire])
next
  case (abandon d anc dg en)
  then show ?case by (rule once_quiet [OF quiet_abandon])
next
  case (reopen d pin j)
  then show ?case using open_dir [OF reopen(1)] by (simp add: once_def)
next
  case (anchored d a a' j)
  obtain pin k where k: "ij_open (ij_binding (da_journal d)) pin (ij_dir (da_journal d)) = Inr k"
      "sync_anchor pp (k\<lparr>ij_anchor := Some a, ij_anchor_pin := pin\<rparr>) = (j, Inr ())"
    using open_anchored_Inr [OF anchored(1)] by metis
  then show ?case using open_dir [OF k(1)] sync_keeps(1,2) [OF k(2)] anchored(2) by (simp add: once_def)
qed (simp_all add: once_def ij_close_def)

interpretation coordinator: keeps "intent_step pp ap" once for pp ap
  by unfold_locales (rule once_step)

section \<open>Digest chains\<close>

lemma unhexed_hexed: "unhexed (hexed bs) = Some bs"
proof (induction bs)
  case (Cons b bs)
  have d: "unat b div 16 < 16" "unat b mod 16 < 16"
    using unat_byte_lt [of b] by (simp_all add: less_mult_imp_div_less)
  then have "jhex_digit (unat b div 16) \<notin> {9, 10, 11, 12, 13, 32}" by (auto simp: jhex_digit_def)
  moreover have "byte (16 * (unat b div 16) + unat b mod 16) = b" by simp
  ultimately show ?case using Cons d by (simp add: hexed_def del: mult_div_mod_eq)
qed (simp add: hexed_def)

lemma hexed_inject [simp]: "hexed a = hexed b \<longleftrightarrow> a = b"
  using unhexed_hexed option.inject by metis

lemma sha_hex_inject [simp]: "sha_hex x = sha_hex y \<longleftrightarrow> sha256 x = sha256 y"
  by (simp add: sha_hex_def)

text \<open>Two files, one of each directory, that are different and have the same digest.\<close>

definition collides :: "intent_dir \<Rightarrow> intent_dir \<Rightarrow> bool" where
  "collides d e \<longleftrightarrow> (\<exists>x \<in> set (dr_meta d # dr_events d). \<exists>y \<in> set (dr_meta e # dr_events e). x \<noteq> y \<and> sha256 x = sha256 y)"

lemma read_event_before: "read_event k h raw = Inr p \<Longrightarrow> read_event k h' raw = Inr p' \<Longrightarrow> h = h'"
  by (auto simp: read_event_def ib_read_file_def res_simps)

text \<open>Chains of the same length that end in the same digest are the same chain.\<close>

lemma replay_chain:
  assumes "replay b k xs (s, m) = Inr (t, h)" "replay b k ys (s', m') = Inr (t', h)" "length xs = length ys"
  shows "xs = ys \<and> m = m' \<or> (\<exists>x \<in> set xs. \<exists>y \<in> set ys. x \<noteq> y \<and> sha256 x = sha256 y)"
  using assms
proof (induction xs arbitrary: ys t t' h rule: rev_induct)
  case (snoc x xs)
  obtain y zs where ys: "ys = zs @ [y]" "length xs = length zs" using snoc.prems(3) by (cases ys rule: rev_cases) auto
  obtain u g where u: "replay b k xs (s, m) = Inr (u, g)" "replay_event b free_pin (k + length xs, x) (u, g) = Inr (t, h)"
    using snoc.prems(1) by (auto simp: replay_snoc)
  obtain u' g' where u': "replay b k zs (s', m') = Inr (u', g')" "replay_event b free_pin (k + length xs, y) (u', g') = Inr (t', h)"
    using snoc.prems(2) ys by (auto simp: replay_snoc)
  show ?case
  proof (cases "x = y")
    case True
    then have "g = g'" using u(2) u'(2) read_event_before by (auto simp: replay_event_Inr)
    then show ?thesis using snoc.IH [OF u(1), of zs u'] u'(1) ys True by auto
  next
    case False
    moreover have "sha_hex x = h" "sha_hex y = h" using u(2) u'(2) by (auto simp only: replay_event_Inr)
    then have "sha256 x = sha256 y" using sha_hex_inject by metis
    ultimately show ?thesis using ys by auto
  qed
qed simp

lemma pinned_prefix:
  assumes "foldE (replay_event b e) (enumerate k evs) s = Inr s'" "0 < k" "k \<le> jp_sequence e" "jp_sequence e < k + length evs"
  shows "\<exists>t. replay b k (take (Suc (jp_sequence e) - k) evs) s = Inr (t, jp_event e)"
  using assms
proof (induction evs arbitrary: k s)
  case (Cons raw evs)
  obtain u where u: "replay_event b e (k, raw) s = Inr u" "foldE (replay_event b e) (enumerate (Suc k) evs) u = Inr s'"
    using Cons.prems(1) by (auto simp: res_simps)
  note f = replay_event_free [OF Cons.prems(2) u(1)]
  show ?case
  proof (cases "k = jp_sequence e")
    case True
    have "snd u = jp_event e" using u(1) True by (cases s; cases u) (auto simp: replay_event_Inr)
    then show ?thesis using True f by (cases u) (simp add: Suc_diff_le)
  next
    case False
    then have "Suc (jp_sequence e) - k = Suc (Suc (jp_sequence e) - Suc k)" using Cons.prems(3) by simp
    then show ?thesis using Cons.IH [OF u(2)] Cons.prems False f by simp
  qed
qed simp

text \<open>A directory that opens against the pin of another one extends it.\<close>

lemma reload_extends:
  assumes "replays b d st (jp_event pin)" "jp_meta pin = sha_hex (dr_meta d)" "jp_sequence pin = length (dr_events d)"
    and "ai_reload b pin e = Inr r"
  shows "dr_meta e = dr_meta d \<and> (\<exists>more. dr_events e = dr_events d @ more) \<or> collides d e"
proof -
  obtain st' pin' where r: "ai_reload b pin e = Inr (st', pin')" using assms(4) by (cases r) auto
  let ?n = "length (dr_events d)"
  have meta: "sha256 (dr_meta d) = sha256 (dr_meta e)" using reload_replays(4) [OF r] assms(2) by simp
  have n: "?n \<le> length (dr_events e)" using r assms(3) by (auto simp: ai_reload_def res_simps Let_def)
  have fold: "foldE (replay_event b pin) (enumerate 1 (dr_events e)) (empty_state, sha_hex (dr_meta e)) = Inr (st', jp_event pin')"
    using r by (auto simp: ai_reload_def res_simps Let_def)
  have "\<exists>t. replay b 1 (take ?n (dr_events e)) (empty_state, sha_hex (dr_meta e)) = Inr (t, jp_event pin)"
  proof (cases "?n = 0")
    case True
    have "sha_hex (dr_meta e) = sha_hex (dr_meta d)" using meta by simp
    also have "\<dots> = jp_event pin" using assms(1) True by (simp add: replays_def)
    finally have "sha_hex (dr_meta e) = jp_event pin" .
    then show ?thesis using True by simp
  next
    case False
    then have "1 \<le> jp_sequence pin" "jp_sequence pin < 1 + length (dr_events e)" using n assms(3) by (simp_all add: Suc_le_eq)
    then show ?thesis using pinned_prefix [OF fold] assms(3) by simp
  qed
  then obtain t where t: "replay b 1 (take ?n (dr_events e)) (empty_state, sha_hex (dr_meta e)) = Inr (t, jp_event pin)" ..
  have "dr_events d = take ?n (dr_events e) \<or> (\<exists>x \<in> set (dr_events d). \<exists>y \<in> set (take ?n (dr_events e)). x \<noteq> y \<and> sha256 x = sha256 y)"
    using replay_chain [OF assms(1) [unfolded replays_def] t] n by auto
  then consider "dr_events d = take ?n (dr_events e)" "dr_meta d = dr_meta e" | "dr_meta d \<noteq> dr_meta e"
    | x y where "x \<in> set (dr_events d)" "y \<in> set (dr_events e)" "x \<noteq> y" "sha256 x = sha256 y"
    by (blast dest: in_set_takeD)
  then show ?thesis
  proof cases
    case 1
    then have "dr_events e = dr_events d @ drop ?n (dr_events e)" using append_take_drop_id by metis
    then show ?thesis using 1(2) by auto
  qed (use meta in \<open>auto simp: collides_def\<close>)
qed

section \<open>Anchored journals\<close>

text \<open>
  What the journal relies on in a pin store: \<^verbatim>\<open>load\<close> returns what the store durably holds, and \<^verbatim>\<open>advance\<close> keeps its binding and
  moves only from the pin the caller expects. \<open>held\<close> is what a store opened later on the same files reads.
\<close>

locale pin_contract =
  fixes pp :: "'p pin_port" and held :: "'p \<Rightarrow> journal_pin res"
  assumes load_held: "pp_load pp a = Inr p \<Longrightarrow> held a = Inr p"
    and advance_binding: "pp_binding pp (fst (pp_advance pp p q a)) = pp_binding pp a"
    and advance_expected: "snd (pp_advance pp p q a) = Inr () \<Longrightarrow> pp_load pp a = Inr p"
begin

lemma sync_held:
  assumes "sync_anchor pp j = (j', Inr u)" "ij_anchor j = Some a"
  obtains a' where "ij_anchor j' = Some a'" "held a' = Inr (ij_pin j')" "pp_binding pp a' = ij_binding j'"
proof (cases "ij_pin j = ij_anchor_pin j")
  case True
  then show thesis using assms that [of a] load_held by (auto simp: sync_anchor_def res_simps split: sum.split_asm)
next
  case False
  obtain a' r where adv: "pp_advance pp (ij_anchor_pin j) (ij_pin j) a = (a', r)"
    by (cases "pp_advance pp (ij_anchor_pin j) (ij_pin j) a")
  have "pp_binding pp a' = pp_binding pp a" using advance_binding [of "ij_anchor_pin j" "ij_pin j" a] adv by simp
  then show thesis
    using False assms adv that [of a'] load_held
    by (auto simp: sync_anchor_def res_simps split: sum.split_asm)
qed

lemma audit_held:
  assumes "ij_audit pp j = (j', Inr u)" "ij_anchor j = Some a"
  obtains a' where "ij_anchor j' = Some a'" "held a' = Inr (ij_pin j')" "pp_binding pp a' = ij_binding j'"
proof -
  obtain st pin where "sync_anchor pp (j\<lparr>ij_state := st, ij_pin := pin\<rparr>) = (j', Inr ())"
    using assms(1) by (auto simp: ij_audit_def split: sum.split_asm prod.split_asm)
  then show thesis using assms(2) by (elim sync_held) (auto intro: that)
qed

lemma append_held:
  assumes "ij_append pp payload w j = (j', Inr s)" "ij_anchor j = Some a"
  obtains a' where "ij_anchor j' = Some a'" "held a' = Inr (ij_pin j')" "pp_binding pp a' = ij_binding j'"
proof -
  obtain j1 st raw j2 where a: "ij_audit pp j = (j1, Inr ())" and w: "write_event pp st raw w j1 = (j2, Inr ())"
    and t: "ij_audit pp j2 = (j', Inr ())"
    using assms(1) by (auto simp: ij_append_def ij_status_def res_simps)
  obtain a1 where "ij_anchor j1 = Some a1" using audit_held [OF a assms(2)] by metis
  then have "ij_anchor (with_event st raw j1) = Some a1" by (simp add: with_event_def add_event_def)
  then obtain a2 where "ij_anchor j2 = Some a2" using sync_held [OF write_event_Inr [OF w]] by metis
  then show thesis by (rule audit_held [OF t]) (rule that)
qed

end

definition local_held :: "local_pins \<Rightarrow> journal_pin res" where
  "local_held a = lp_read (lp_binding a) (lp_file a)"

lemma replace_binding: "lp_binding (fst (lp_replace q raw a)) = lp_binding a"
  by (simp add: lp_replace_def Let_def split: list.splits pin_outcome.splits)

interpretation local: pin_contract local_port local_held
proof unfold_locales
  fix a p q
  show "pp_load local_port a = Inr p \<Longrightarrow> local_held a = Inr p"
    by (auto simp: local_port_def lp_load_def local_held_def res_simps)
  show "pp_binding local_port (fst (pp_advance local_port p q a)) = pp_binding local_port a"
    by (simp add: local_port_def lp_advance_def replace_binding split: sum.splits option.splits)
  show "snd (pp_advance local_port p q a) = Inr () \<Longrightarrow> pp_load local_port a = Inr p"
    by (auto simp: local_port_def lp_advance_def lp_decide_def res_simps split: sum.split_asm)
qed

end
