(* ===== verification/IntentProps.thy ===== *)
theory IntentProps
  imports IntentJournal
begin

text \<open>
  What the durable application intents guarantee. No sequence of calls, failed writes, closings and reopenings hands one operation
  to the application twice (\<open>applied_once\<close>). A directory which opens against an anchored pin extends the directory the pin was
  taken from (\<open>rollback_refused\<close>). Intents and their encodings determine each other (\<open>intent_roundtrip\<close>), and a fresh journal
  whose writes succeed takes an intent to its dispatch (\<open>fresh_dispatch\<close>).
\<close>

section \<open>Intents and their encodings\<close>

definition valid_intent :: "intent \<Rightarrow> bool" where
  "valid_intent i \<longleftrightarrow> ex_scope_check (it_scope i) = Inr () \<and> length (it_store i) = 16 \<and> length (it_cert i) = 32
     \<and> length (it_operation i) = 16 \<and> length (it_authority i) = 32 \<and> length (it_input i) = 32
     \<and> length (it_inbox i) = 32 \<and> list_all hex_char (it_inbox i) \<and> 0 \<le> it_revision i \<and> it_revision i \<le> 63
     \<and> 0 \<le> it_connection i \<and> it_connection i \<le> 2 ^ 64 - 1 \<and> 1 \<le> length (it_targets i) \<and> length (it_targets i) \<le> 64
     \<and> (\<forall>t \<in> set (it_targets i). length t = 32) \<and> distinct (it_targets i) \<and> sorted_wrt bytes_le (it_targets i)"

definition intent_arguments :: "intent \<Rightarrow> pyval list" where
  "intent_arguments i = [PList (it_scope i), PBytes (it_store i), PStr (it_inbox i), PBytes (it_cert i), PBytes (it_operation i),
     PInt (it_revision i), PList (map PBytes (it_targets i)), PBytes (it_authority i), PBytes (it_input i), PInt (it_connection i)]"

lemma ai_fixed_Inr [simp]: "ai_fixed v n = Inr b \<longleftrightarrow> v = PBytes b \<and> length b = n"
  by (auto simp: ai_fixed_def as_bytes_def res_simps)

lemma targets_owned_Inr:
  "targets_owned v = Inr ts \<longleftrightarrow> (\<exists>bs. v = PList (map PBytes bs) \<and> 1 \<le> length bs \<and> length bs \<le> 64
     \<and> (\<forall>t \<in> set bs. length t = 32) \<and> distinct bs \<and> ts = sort_bytes (\<lambda>b. b) bs)"
proof -
  have "mapE (\<lambda>t. bindE (bytes_sized (FetchError ''TARGETS_INVALID'') t 32) (\<lambda>_. as_bytes t)) vs = Inr bs
    \<longleftrightarrow> vs = map PBytes bs \<and> (\<forall>t \<in> set bs. length t = 32)" for vs bs
    by (induction vs arbitrary: bs) (auto simp: res_simps as_bytes_def)
  then show ?thesis by (cases v) (auto simp: targets_owned_def res_simps)
qed

lemma distinct_insort_bytes: "distinct (insort_bytes f x xs) \<longleftrightarrow> x \<notin> set xs \<and> distinct xs"
  by (induction xs) auto

lemma distinct_sort_bytes [simp]: "distinct (sort_bytes f xs) \<longleftrightarrow> distinct xs"
proof (induction xs)
  case (Cons x xs)
  have "sort_bytes f (x # xs) = insort_bytes f x (sort_bytes f xs)" by (simp add: sort_bytes_def)
  with Cons show ?case by (simp add: distinct_insort_bytes)
qed (simp add: sort_bytes_def)

lemma made_valid:
  assumes "application_intent xs = Inr i"
  shows "valid_intent i"
proof -
  obtain ts where ts: "targets_owned (xs ! 6) = Inr ts" "it_targets i = ts" using assms by (auto simp: application_intent_def res_simps)
  then have "1 \<le> length ts \<and> length ts \<le> 64 \<and> (\<forall>t \<in> set ts. length t = 32) \<and> distinct ts"
    by (auto simp: targets_owned_Inr)
  moreover have "sorted_wrt bytes_le ts" using ts sorted_sort_bytes [of "\<lambda>b. b"] by (auto simp: targets_owned_Inr)
  ultimately show ?thesis
    using assms ts(2)
    by (auto simp: application_intent_def valid_intent_def hex_string_def int_of_def res_simps)
qed

lemma valid_made:
  assumes "valid_intent i"
  shows "application_intent (intent_arguments i) = Inr i"
proof -
  have "targets_owned (PList (map PBytes (it_targets i))) = Inr (it_targets i)"
    using assms by (auto simp: targets_owned_Inr valid_intent_def sort_bytes_sorted intro!: exI [of _ "it_targets i"])
  with assms show ?thesis
    by (simp add: application_intent_def intent_arguments_def valid_intent_def res_simps hex_string_def int_of_def
      nth_Cons' str_of_def)
qed

text \<open>A text of ASCII characters.\<close>

definition ascii_text :: "pystr \<Rightarrow> bool" where
  "ascii_text s \<longleftrightarrow> list_all (\<lambda>c. c < 128) s"

lemma utf8_ascii: "ascii_text s \<Longrightarrow> utf8_encode s = Some (map byte s)"
  by (induction s) (simp_all add: ascii_text_def utf8_cp_def)

lemma scope_name_ascii: "scope_name v \<Longrightarrow> \<exists>s. v = PStr s \<and> ascii_text s \<and> length s \<le> 128"
  by (cases v rule: pyval.exhaust; cases "key_str v")
    (auto simp: scope_name_def name_char_def ascii_text_def key_str_def list_all_iff)

lemma scope_shape:
  assumes "ex_scope_check sc = Inr ()"
  obtains s a b k c e where "sc = [PStr s, PBytes a, PBytes b, PInt k, PBytes c, PBytes e]" "ascii_text s" "length s \<le> 128"
    "length a = 32" "length b = 32" "length c = 32" "length e = 32" "1 \<le> k" "k \<le> U64"
proof -
  have n: "length sc = 6" using assms by (simp add: ex_scope_check_def res_simps)
  then have sc: "sc = [sc ! 0, sc ! 1, sc ! 2, sc ! 3, sc ! 4, sc ! 5]"
    by (simp add: list_eq_iff_nth_eq less_Suc_eq numeral_eq_Suc)
  obtain s where s: "sc ! 0 = PStr s" "ascii_text s" "length s \<le> 128"
    using assms scope_name_ascii [of "sc ! 0"] by (auto simp: ex_scope_check_def res_simps)
  obtain a b c e k where "sc ! 1 = PBytes a" "sc ! 2 = PBytes b" "sc ! 4 = PBytes c" "sc ! 5 = PBytes e" "sc ! 3 = PInt k"
      "length a = 32" "length b = 32" "length c = 32" "length e = 32" "1 \<le> k" "k \<le> U64"
    using assms by (auto simp: ex_scope_check_def U64_def res_simps)
  with s sc that show thesis by metis
qed

lemma hex_ascii: "list_all hex_char s \<Longrightarrow> ascii_text s"
  by (auto simp: ascii_text_def list_all_iff hex_char_def)

text \<open>A bound on the length of an encoding.\<close>

fun size_bound :: "pyval \<Rightarrow> nat" where
  "size_bound (PBytes b) = 9 + length b"
| "size_bound (PStr s) = 9 + 4 * length s"
| "size_bound (PList vs) = 9 + sum_list (map size_bound vs)"
| "size_bound (PDict kvs) = 9 + sum_list (map (\<lambda>kv. size_bound (fst kv) + size_bound (snd kv)) kvs)"
| "size_bound v = 9"

lemma utf8_length: "utf8_encode s = Some raw \<Longrightarrow> length raw \<le> 4 * length s"
proof (induction s arbitrary: raw)
  case (Cons c s)
  then show ?case using utf8_cp_length [of c] by (fastforce split: option.splits)
qed simp

lemma concat_length_sum:
  "(\<And>x. x \<in> set xs \<Longrightarrow> length (f x) \<le> g x) \<Longrightarrow> length (concat (map f xs)) \<le> sum_list (map g xs)"
  by (induction xs) (auto simp: add_mono)

lemma cbor_bound: "length (cbor v) \<le> size_bound v"
proof (induction v rule: cbor.induct)
  case (3 i)
  then show ?case by (simp add: nhead_bound)
next
  case (4 b)
  then show ?case by (simp add: nhead_bound)
next
  case (5 s)
  then show ?case using utf8_length [of s] nhead_bound by (auto split: option.splits intro!: add_mono)
next
  case (6 vs)
  then show ?case using nhead_bound by (auto intro!: add_mono concat_length_sum)
next
  case (7 kvs)
  then show ?case using nhead_bound by (auto intro!: add_mono concat_length_sum)
qed simp_all

text \<open>The dictionary of an intent is in canonical form and small enough to be encoded.\<close>

lemma intent_values_form:
  assumes "valid_intent i"
  shows "wf_py (intent_values i)" and "canon (intent_values i) = intent_values i" and "encodable (intent_values i)"
    and "cheight (intent_values i) \<le> 3" and "cnodes (intent_values i) \<le> 200" and "length (cbor (intent_values i)) \<le> 4000"
proof -
  obtain s a b k c e where sc: "it_scope i = [PStr s, PBytes a, PBytes b, PInt k, PBytes c, PBytes e]" "ascii_text s" "length s \<le> 128"
    "length a = 32" "length b = 32" "length c = 32" "length e = 32" "1 \<le> k" "k \<le> U64"
    using assms by (auto simp: valid_intent_def elim: scope_shape)
  have p: "AI_PROFILE = cps ''par-application-intent-local-0050''" "ascii_text AI_PROFILE"
    by (simp_all add: AI_PROFILE_def ascii_text_def cps_def)
  show "wf_py (intent_values i)" "canon (intent_values i) = intent_values i"
    using sc(1) by (simp_all add: intent_values_def mk_dict_def list_all_iff comp_def int_of_def)
  show "encodable (intent_values i)"
    using assms sc utf8_ascii [OF sc(2)] utf8_ascii [OF p(2)] utf8_ascii [OF hex_ascii, of "it_inbox i"]
    by (auto simp: intent_values_def mk_dict_def valid_intent_def list_all_iff map_key_def U64_def)
  show "cheight (intent_values i) \<le> 3"
    using sc(1) by (simp add: intent_values_def mk_dict_def foldr_max_le numeral_3_eq_3)
  have "sum_list (map (\<lambda>x. cnodes (PBytes x)) ts) = int (length ts)" for ts by (induction ts) simp_all
  then show "cnodes (intent_values i) \<le> 200"
    using assms sc(1) by (simp add: intent_values_def mk_dict_def valid_intent_def comp_def)
  have "\<forall>t \<in> set ts. length t = 32 \<Longrightarrow> sum_list (map (\<lambda>x. size_bound (PBytes x)) ts) = 41 * length ts" for ts
    by (induction ts) simp_all
  then have "size_bound (intent_values i) \<le> 4000"
    using assms sc by (simp add: intent_values_def mk_dict_def valid_intent_def comp_def AI_PROFILE_def)
  then show "length (cbor (intent_values i)) \<le> 4000" using cbor_bound order_trans by blast
qed

text \<open>Every intent has an encoding, and it is read as that intent.\<close>

lemma ex_unpack_Inr: "ex_unpack raw limit = Inr v \<longleftrightarrow> decode raw limit MAX_NODES = Inr v"
  using length_cbor_pos [of v] by (auto simp: ex_unpack_def res_simps decode_iff)

lemma intent_encodes:
  assumes "valid_intent i"
  shows "intent_bytes i = Inr (cbor (intent_values i))" and "ex_unpack (cbor (intent_values i)) AI_MAX_BYTES = Inr (intent_values i)"
proof -
  note f = intent_values_form [OF assms]
  have l: "int (length (cbor (intent_values i))) \<le> 65536" using f(6) by simp
  show "intent_bytes i = Inr (cbor (intent_values i))"
    using f l by (simp add: intent_bytes_def ex_pack_def encode_iff budget_ok_def AI_MAX_BYTES_def MAX_BYTES_def MAX_NODES_def MAX_DEPTH_def)
  then show "ex_unpack (cbor (intent_values i)) AI_MAX_BYTES = Inr (intent_values i)"
    using decode_encode_canon [OF _ f(2,1)] by (simp add: intent_bytes_def ex_pack_def ex_unpack_Inr)
qed

lemma intent_from_bytes: "valid_intent i \<Longrightarrow> intent_from (cbor (intent_values i)) = Inr i"
proof -
  assume v: "valid_intent i"
  have "mapE (item_at (intent_values i)) [0, 1] = Inr [PInt 1, PStr AI_PROFILE]"
    "mapE (item_at (intent_values i)) [2, 3, 4, 5, 6, 7, 8, 9, 10, 11] = Inr (intent_arguments i)"
    by (simp_all add: intent_values_def intent_arguments_def)
  moreover have "ex_keys (intent_values i) (key_range 12) = Inr ()"
    by (simp add: ex_keys_def intent_values_def key_range_def upt_rec numeral_eq_Suc)
  ultimately show ?thesis
    using intent_encodes [OF v] valid_made [OF v] by (simp add: intent_from_def del: mapE.simps)
qed

lemma intent_from_Inr: "intent_from raw = Inr i \<Longrightarrow> intent_bytes i = Inr raw \<and> valid_intent i"
  by (auto simp: intent_from_def res_simps intro: made_valid)

section \<open>Texts without escapes\<close>

definition clean :: "pystr \<Rightarrow> bool" where
  "clean s \<longleftrightarrow> list_all (\<lambda>c. 32 \<le> c \<and> c < 127 \<and> c \<noteq> 34 \<and> c \<noteq> 92) s"

lemma clean_text: "clean s \<Longrightarrow> str_text s = 34 # s @ [34]"
proof -
  assume "clean s"
  then have "concat (map json_escape s) = s" by (induction s) (auto simp: clean_def json_escape_def)
  then show ?thesis by (simp add: str_text_def)
qed

lemma clean_ascii: "clean s \<Longrightarrow> ascii_text s"
  by (auto simp: clean_def ascii_text_def list_all_iff)

lemma ascii_append [simp]: "ascii_text (s @ t) \<longleftrightarrow> ascii_text s \<and> ascii_text t"
  "ascii_text (c # t) \<longleftrightarrow> c < 128 \<and> ascii_text t" "ascii_text []"
  by (simp_all add: ascii_text_def)

lemma hex_clean: "list_all hex_char s \<Longrightarrow> clean s"
  by (auto simp: clean_def hex_char_def list_all_iff)

lemma hexed_chars: "list_all hex_char (hexed b)" "length (hexed b) = 2 * length b"
proof (induction b)
  case (Cons x b)
  have "unat x div 16 < 16" using unat_byte_lt [of x] by (simp add: less_mult_imp_div_less)
  moreover have "d < 16 \<Longrightarrow> hex_char (jhex_digit d)" for d by (auto simp: hex_char_def jhex_digit_def)
  ultimately show "list_all hex_char (hexed (x # b))" "length (hexed (x # b)) = 2 * length (x # b)"
    using Cons by (simp_all add: hexed_def)
qed (simp_all add: hexed_def)

lemmas hexed_clean [simp] = hex_clean [OF hexed_chars(1)]

lemma sha_hex_text [simp]: "hex_string (PStr (sha_hex raw)) 64" "clean (sha_hex raw)" "length (sha_hex raw) = 64"
  by (simp_all add: sha_hex_def hex_string_def hexed_chars)

lemma profile_clean [simp]: "clean AI_PROFILE" "length AI_PROFILE = 33" "clean PIN_PROFILE" "length PIN_PROFILE = 25"
  by (simp_all add: AI_PROFILE_def PIN_PROFILE_def clean_def cps_def)

text \<open>The canonical text of a dictionary whose keys are in order.\<close>

lemma canonical_ascii: "json_text v = Some t \<Longrightarrow> ascii_text t \<Longrightarrow> json_canonical v = Inr (map byte t)"
  by (simp add: json_canonical_def utf8_ascii)

lemma str_nat_ascii: "ascii_text (cps (str_nat n))" "length (cps (str_nat n)) \<le> Suc n"
proof -
  show "ascii_text (cps (str_nat n))"
    using str_nat_digits [of n] by (auto simp: ascii_text_def list_all_iff jdigit_def)
  show "length (cps (str_nat n)) \<le> Suc n"
  proof (induction n rule: str_nat.induct)
    case (1 n)
    then show ?case by (subst str_nat.simps) (auto intro: order_trans)
  qed
qed

lemma int_text_nat: "int_text (int n) = cps (str_nat n)"
  by (simp add: int_text_def)

lemma meta_text:
  assumes "check_binding b = Inr b" "length b \<le> 1000" "length g = 16"
  obtains d where "new_dir g b = Inr d" "dr_events d = []" "dr_root_ok d" "dr_names_ok d"
    "\<forall>p. jp_meta p = sha_hex (dr_meta d) \<longrightarrow> check_meta b p (dr_meta d) = Inr ()"
proof -
  let ?v = "str_dict [(cps ''binding'', PStr (hexed b)), (cps ''generation'', PStr (hexed g)), (cps ''profile'', PStr AI_PROFILE)]"
  obtain t where t: "json_text ?v = Some t" "ascii_text t" "0 < length t" "length t \<le> 65536"
    using assms(2,3) by (simp add: str_dict_def str_key_def sort_items_def cps_def pair_text_def clean_text clean_ascii hexed_chars)
      (simp add: str_text_def json_escape_def)
  let ?raw = "map byte t"
  have c: "json_canonical ?v = Inr ?raw" by (rule canonical_ascii [OF t(1,2)])
  have "jcanon ?v = ?v" "wf_py ?v" by (simp_all add: str_dict_def sort_items_def key_str_def cps_def)
  then have "decode_json e ?raw = Inr ?v" for e by (rule decode_canonical [OF c, rotated])
  then have m: "\<forall>p. jp_meta p = sha_hex ?raw \<longrightarrow> check_meta b p ?raw = Inr ()"
    using t(3,4) assms(3)
    by (simp add: check_meta_def ib_read_file_def AI_MAX_BYTES_def has_keys_str_dict sget_str_dict sitem_def hex_string_def hexed_chars insert_commute)
  show thesis
    using that [of "\<lparr>dr_root_ok = True, dr_meta = ?raw, dr_names_ok = True, dr_events = []\<rparr>"] m c assms(1) t(3,4)
    by (simp add: new_dir_def save_new_def)
qed

lemma event_text:
  assumes "json_text payload = Some t" "ascii_text t" "length t \<le> 60000" "clean h" "length h = 64" "k \<le> 256"
  obtains raw where "json_canonical (event_values k h payload) = Inr raw" "0 < length raw" "int (length raw) \<le> AI_MAX_BYTES"
proof -
  obtain u where u: "json_text (event_values k h payload) = Some u" "ascii_text u" "0 < length u" "length u \<le> 65536"
    using assms str_nat_ascii [of k]
    by (simp add: event_values_def str_dict_def str_key_def sort_items_def cps_def pair_text_def clean_text clean_ascii int_text_nat)
      (simp add: str_text_def json_escape_def cps_def)
  show thesis using that [of "map byte u"] canonical_ascii [OF u(1,2)] u(3,4) by (simp add: AI_MAX_BYTES_def)
qed

lemma decode_json_loads: "decode_json e raw = Inr v \<Longrightarrow> json_loads raw = Some v"
  by (auto simp: decode_json_def res_simps split: option.splits)

text \<open>A pin that was stored is read back.\<close>

definition pin_ok :: "journal_pin \<Rightarrow> bool" where
  "pin_ok q \<longleftrightarrow> hex_string (PStr (jp_meta q)) 64 \<and> hex_string (PStr (jp_event q)) 64 \<and> jp_sequence q \<le> 256
     \<and> (jp_sequence q = 0 \<longrightarrow> jp_event q = jp_meta q)"

lemma pin_stored:
  assumes "pin_ok q" "length b \<le> 1000"
  obtains raw where "pin_encode b q = Inr raw" "lp_read b raw = Inr q" "0 < length raw" "length raw \<le> 4096"
proof -
  let ?p = "str_dict [(cps ''eventDigest'', PStr (jp_event q)), (cps ''metadataDigest'', PStr (jp_meta q)), (cps ''sequence'', PInt (int (jp_sequence q)))]"
  let ?v = "str_dict [(cps ''binding'', PStr (hexed b)), (cps ''pin'', ?p), (cps ''profile'', PStr PIN_PROFILE)]"
  have h: "clean (jp_meta q)" "clean (jp_event q)" "length (jp_meta q) = 64" "length (jp_event q) = 64"
    using assms(1) by (auto simp: pin_ok_def hex_string_def intro: hex_clean)
  obtain t where t: "json_text ?v = Some t" "ascii_text t" "0 < length t" "length t \<le> 4096"
    using assms h str_nat_ascii [of "jp_sequence q"]
    by (simp add: pin_ok_def str_dict_def str_key_def sort_items_def cps_def pair_text_def clean_text clean_ascii hexed_chars int_text_nat)
      (simp add: str_text_def json_escape_def cps_def)
  let ?raw = "map byte t"
  have c: "json_canonical ?v = Inr ?raw" by (rule canonical_ascii [OF t(1,2)])
  have "jcanon ?v = ?v" "wf_py ?v" by (simp_all add: str_dict_def sort_items_def key_str_def cps_def)
  then have l: "json_loads ?raw = Some ?v" by (intro decode_json_loads [OF decode_canonical [OF c]])
  have "journal_pin_of (PStr (jp_meta q)) (PInt (int (jp_sequence q))) (PStr (jp_event q)) = Inr q"
    using assms(1) by (auto simp: journal_pin_of_def pin_ok_def key_str_def int_of_def Let_def res_simps)
  then have "lp_read b ?raw = Inr q"
    using l t(3,4) c
    by (simp add: lp_read_def ib_read_file_def has_keys_str_dict sget_str_dict sitem_def pin_encode_def Let_def insert_commute)
  then show thesis using that [of ?raw] c t(3,4) by (simp add: pin_encode_def)
qed

section \<open>Progress\<close>

text \<open>A handle that agrees with its directory and its anchor; auditing it changes nothing.\<close>

definition ready :: "'p pin_port \<Rightarrow> 'p intent_journal \<Rightarrow> bool" where
  "ready pp j \<longleftrightarrow> \<not> ij_closed j \<and> \<not> ij_poisoned j \<and> dr_root_ok (ij_dir j) \<and> dr_names_ok (ij_dir j)
     \<and> check_meta (ij_binding j) (ij_pin j) (dr_meta (ij_dir j)) = Inr () \<and> length (dr_events (ij_dir j)) \<le> AI_MAX_EVENTS
     \<and> jp_meta (ij_pin j) = sha_hex (dr_meta (ij_dir j)) \<and> jp_sequence (ij_pin j) = length (dr_events (ij_dir j))
     \<and> replays (ij_binding j) (ij_dir j) (ij_state j) (jp_event (ij_pin j))
     \<and> (\<forall>a. ij_anchor j = Some a \<longrightarrow> pp_binding pp a = ij_binding j \<and> pp_load pp a = Inr (ij_pin j) \<and> ij_anchor_pin j = ij_pin j)"

lemma fold_pinned:
  assumes "replay b k evs s = Inr (st, h)" "jp_sequence e + 1 = k + length evs" "jp_event e = h"
  shows "foldE (replay_event b e) (enumerate k evs) s = Inr (st, h)"
proof -
  have early: "foldE (replay_event b e) (enumerate k xs) s = Inr t" if "replay b k xs s = Inr t" "k + length xs \<le> jp_sequence e" for xs k s t
    using that
  proof (induction xs arbitrary: k s)
    case (Cons x xs)
    then show ?case by (cases s) (auto simp: res_simps replay_event_Inr)
  qed simp
  show ?thesis
  proof (cases evs rule: rev_cases)
    case (snoc xs x)
    obtain t where t: "replay b k xs s = Inr t" "replay_event b free_pin (k + length xs, x) t = Inr (st, h)"
      using assms(1) snoc by (auto simp: replay_snoc)
    have "replay_event b e (k + length xs, x) t = Inr (st, h)" using t(2) assms(3) by (cases t) (auto simp: replay_event_Inr)
    moreover have "k + length xs \<le> jp_sequence e" using assms(2) snoc by simp
    ultimately show ?thesis using early [OF t(1)] snoc by (simp add: enumerate_append_eq foldE_append)
  qed (use assms(1) in simp)
qed

lemma ready_reload: "ready pp j \<Longrightarrow> ai_reload (ij_binding j) (ij_pin j) (ij_dir j) = Inr (ij_state j, ij_pin j)"
  using fold_pinned [of "ij_binding j" 1 "dr_events (ij_dir j)" _ "ij_state j" "jp_event (ij_pin j)" "ij_pin j"]
  by (simp add: ready_def ai_reload_def replays_def Let_def)

lemma ready_sync: "ready pp j \<Longrightarrow> sync_anchor pp j = (j, Inr ())"
  by (cases "ij_anchor j") (auto simp: ready_def sync_anchor_def)

lemma ready_audit [simp]:
  assumes "ready pp j"
  shows "ij_audit pp j = (j, Inr ())"
proof -
  have "j\<lparr>ij_state := ij_state j, ij_pin := ij_pin j\<rparr> = j" by simp
  then show ?thesis
    using ready_reload [OF assms] ready_sync [OF assms] assms by (simp add: ij_audit_def ij_guard_def ready_def)
qed

text \<open>What an append needs of the anchor: that it takes the next pin and holds it.\<close>

definition follows :: "'p pin_port \<Rightarrow> 'p intent_journal \<Rightarrow> journal_pin \<Rightarrow> bool" where
  "follows pp j q \<longleftrightarrow> (\<forall>a. ij_anchor j = Some a \<longrightarrow> (\<exists>a'. pp_advance pp (ij_pin j) q a = (a', Inr ())
     \<and> pp_load pp a' = Inr q \<and> pp_binding pp a' = ij_binding j))"

definition next_pin :: "bytes \<Rightarrow> 'p intent_journal \<Rightarrow> journal_pin" where
  "next_pin raw j = \<lparr>jp_meta = jp_meta (ij_pin j), jp_sequence = jp_sequence (ij_pin j) + 1, jp_event = sha_hex raw\<rparr>"

lemma replays_snoc:
  assumes "replays b d st h" "read_event (Suc (length (dr_events d))) h raw = Inr payload" "intent_transition st payload b = Inr st'"
  shows "replays b (d\<lparr>dr_events := dr_events d @ [raw]\<rparr>) st' (sha_hex raw)"
proof -
  have "jp_sequence free_pin = 0" by (simp add: free_pin_def)
  then have "replay_event b free_pin (1 + length (dr_events d), raw) (st, h) = Inr (st', sha_hex raw)"
    using assms(2,3) by (simp add: replay_event_Inr)
  then have "replay b 1 (dr_events d @ [raw]) (empty_state, sha_hex (dr_meta d)) = Inr (st', sha_hex raw)"
    using assms(1) replay_snoc unfolding replays_def by blast
  then show ?thesis by (simp add: replays_def)
qed

lemma ready_append:
  assumes "ready pp j" "next_event payload j = Inr (st, raw)" "jcanon payload = payload" "wf_py payload" "follows pp j (next_pin raw j)"
  obtains j' where "ij_append pp payload Appended j = (j', state_status j')" "ready pp j'" "ij_state j' = st"
    "ij_dir j' = (ij_dir j)\<lparr>dr_events := dr_events (ij_dir j) @ [raw]\<rparr>" "ij_binding j' = ij_binding j" "ij_pin j' = next_pin raw j"
    "ij_anchor j' = None \<longleftrightarrow> ij_anchor j = None"
proof -
  note r = assms(1) [unfolded ready_def]
  let ?k = "with_event st raw j"
  have k: "ij_pin ?k = next_pin raw j" "ij_state ?k = st" "ij_anchor ?k = ij_anchor j" "ij_anchor_pin ?k = ij_anchor_pin j"
    "ij_dir ?k = (ij_dir j)\<lparr>dr_events := dr_events (ij_dir j) @ [raw]\<rparr>" "ij_binding ?k = ij_binding j"
    "ij_closed ?k = ij_closed j" "ij_poisoned ?k = ij_poisoned j"
    by (simp_all add: with_event_def add_event_def next_pin_def)
  obtain j' where s: "sync_anchor pp ?k = (j', Inr ())" and anchor: "ij_closed j' = ij_closed j" "ij_poisoned j' = ij_poisoned j"
      "\<forall>a. ij_anchor j' = Some a \<longrightarrow> pp_binding pp a = ij_binding j \<and> pp_load pp a = Inr (next_pin raw j) \<and> ij_anchor_pin j' = next_pin raw j"
      "ij_anchor j' = None \<longleftrightarrow> ij_anchor j = None"
  proof (cases "ij_anchor j")
    case None
    then show ?thesis using that [of ?k] k by (simp add: sync_anchor_def)
  next
    case (Some a)
    have "next_pin raw j \<noteq> ij_pin j" by (auto simp: next_pin_def dest: arg_cong [of _ _ jp_sequence])
    moreover obtain a' where "pp_advance pp (ij_pin j) (next_pin raw j) a = (a', Inr ())" "pp_load pp a' = Inr (next_pin raw j)"
        "pp_binding pp a' = ij_binding j"
      using assms(5) Some by (auto simp: follows_def)
    ultimately show ?thesis
      using that [of "?k\<lparr>ij_anchor := Some a', ij_anchor_pin := next_pin raw j\<rparr>"] k Some r by (simp add: sync_anchor_def)
  qed
  note s' = sync_keeps [OF s]
  have e: "jp_sequence (ij_pin j) < AI_MAX_EVENTS" "intent_transition (ij_state j) payload (ij_binding j) = Inr st"
      "read_event (Suc (length (dr_events (ij_dir j)))) (jp_event (ij_pin j)) raw = Inr payload"
    using assms(2-4) r by (auto simp: next_event_def res_simps intro: read_written_event)
  have "replays (ij_binding j) (ij_dir j') st (sha_hex raw)"
    using r e s' k replays_snoc [of "ij_binding j" "ij_dir j" "ij_state j" "jp_event (ij_pin j)" raw payload st] by simp
  then have "ready pp j'"
    using r s' k e anchor by (auto simp: ready_def next_pin_def check_meta_def ib_read_file_def)
  then show thesis
    using that [of j'] s s' k anchor assms(1,2) by (simp add: ij_append_def bindS_def write_event_def ij_status_def Let_def)
qed

text \<open>The binding of an intent.\<close>

definition binding_value :: "intent \<Rightarrow> pyval" where
  "binding_value i = PList [PList (take 5 (it_scope i)), PBytes (it_store i), PStr (it_inbox i), PBytes (it_cert i)]"

lemma binding_encodes:
  assumes "valid_intent i"
  shows "intent_binding i = Inr (cbor (binding_value i))" and "check_binding (cbor (binding_value i)) = Inr (cbor (binding_value i))"
    and "length (cbor (binding_value i)) \<le> 1000"
proof -
  let ?v = "binding_value i"
  have sc0: "ex_scope_check (it_scope i) = Inr ()" using assms by (simp add: valid_intent_def)
  then obtain s a b k c e where sc: "it_scope i = [PStr s, PBytes a, PBytes b, PInt k, PBytes c, PBytes e]" "ascii_text s" "length s \<le> 128"
    "length a = 32" "length b = 32" "length c = 32" "length e = 32" "1 \<le> k" "k \<le> U64"
    by (rule scope_shape)
  have f: "wf_py ?v" "canon ?v = ?v" "cheight ?v \<le> 3" "cnodes ?v \<le> 20" using sc(1) by (simp_all add: binding_value_def)
  have enc: "encodable ?v"
    using assms sc utf8_ascii [OF sc(2)] utf8_ascii [OF hex_ascii, of "it_inbox i"] by (simp add: binding_value_def valid_intent_def)
  have "size_bound ?v \<le> 1000" using assms sc by (simp add: binding_value_def valid_intent_def)
  then show l: "length (cbor ?v) \<le> 1000" using cbor_bound order_trans by blast
  have p: "ex_pack ?v AI_MAX_BYTES = Inr (cbor ?v)"
    using f enc l by (simp add: ex_pack_def encode_iff budget_ok_def AI_MAX_BYTES_def MAX_BYTES_def MAX_NODES_def MAX_DEPTH_def)
  then have u: "ex_unpack (cbor ?v) AI_MAX_BYTES = Inr ?v"
    using decode_encode_canon [OF _ f(2,1)] by (simp add: ex_pack_def ex_unpack_Inr)
  have "ex_scope_check (take 5 (it_scope i) @ [PBytes (replicate 32 0)]) = Inr ()"
    using sc0 sc(1) by (simp add: ex_scope_check_def res_simps)
  then have "binding_shape ?v = Inr ()"
    using assms sc(1) by (simp add: binding_shape_def binding_value_def valid_intent_def hex_string_def res_simps)
  then show c: "check_binding (cbor ?v) = Inr (cbor ?v)" using u p by (simp add: check_binding_def)
  show "intent_binding i = Inr (cbor ?v)" using p c by (simp add: intent_binding_def binding_value_def)
qed

text \<open>A created journal is ready and empty.\<close>

lemma created_ready:
  assumes "check_binding b = Inr b" "length b \<le> 1000" "length g = 16"
  obtains j :: "'p intent_journal" where "ij_create g b = Inr j" "ready pp j" "ij_state j = empty_state" "ij_binding j = b" "ij_anchor j = None"
    "dr_events (ij_dir j) = []" "pin_ok (ij_pin j)" "clean (jp_event (ij_pin j))" "length (jp_event (ij_pin j)) = 64"
proof -
  obtain d where d: "new_dir g b = Inr d" "dr_events d = []" "dr_root_ok d" "dr_names_ok d"
    "\<forall>p. jp_meta p = sha_hex (dr_meta d) \<longrightarrow> check_meta b p (dr_meta d) = Inr ()"
    by (rule meta_text [OF assms])
  let ?pin = "\<lparr>jp_meta = sha_hex (dr_meta d), jp_sequence = 0, jp_event = sha_hex (dr_meta d)\<rparr>"
  let ?j = "\<lparr>ij_dir = d, ij_binding = b, ij_state = empty_state, ij_pin = ?pin, ij_closed = False, ij_poisoned = False,
    ij_anchor = None, ij_anchor_pin = ?pin\<rparr> :: 'p intent_journal"
  have "ai_reload b ?pin d = Inr (empty_state, ?pin)" using d by (simp add: ai_reload_def Let_def)
  then have "ij_create g b = Inr ?j" using d(1) assms(1) by (simp add: ij_create_def ij_open_def)
  moreover have "ready pp ?j" using d by (simp add: ready_def replays_def)
  ultimately show thesis using that [of ?j] d(2) by (simp add: pin_ok_def)
qed

text \<open>The intent that a PREPARE event carries.\<close>

definition prepare_payload :: "intent \<Rightarrow> pyval" where
  "prepare_payload i = str_dict [(cps ''intent'', PStr (hexed (cbor (intent_values i)))), (cps ''kind'', PStr (cps ''PREPARE''))]"

definition prepared_state :: "intent \<Rightarrow> intent_state" where
  "prepared_state i = \<lparr>is_phase = Ph_Prepared, is_intent = Some i, is_receipt = None,
     is_used = [(hexed (it_operation i), sha_hex (cbor (intent_values i)))]\<rparr>"

lemma prepare_payload_form: "jcanon (prepare_payload i) = prepare_payload i" "wf_py (prepare_payload i)"
  by (simp_all add: prepare_payload_def str_dict_def sort_items_def key_str_def cps_def)

lemma prepare_event:
  assumes "valid_intent i" "ij_state j = empty_state" "ij_binding j = cbor (binding_value i)" "jp_sequence (ij_pin j) = 0"
    and "clean (jp_event (ij_pin j))" "length (jp_event (ij_pin j)) = 64"
  obtains raw where "next_event (prepare_payload i) j = Inr (prepared_state i, raw)"
proof -
  let ?raw = "cbor (intent_values i)"
  have "sitem (prepare_payload i) ''intent'' = Inr (PStr (hexed ?raw))" by (simp add: prepare_payload_def sitem_def sget_str_dict)
  then have "payload_intent (prepare_payload i) = Inr i"
    using intent_from_bytes [OF assms(1)] by (simp add: payload_intent_def str_of_def unhexed_hexed)
  then have t: "intent_transition empty_state (prepare_payload i) (cbor (binding_value i)) = Inr (prepared_state i)"
    using intent_encodes(1) [OF assms(1)] binding_encodes(1) [OF assms(1)]
    by (simp add: intent_transition_def enter_prepared_def sget_str_dict prepare_payload_def has_keys_str_dict empty_state_def
        intent_digest_def prepared_state_def insert_commute)
  have "length ?raw \<le> 4000" by (rule intent_values_form(6) [OF assms(1)])
  then obtain u where u: "json_text (prepare_payload i) = Some u" "ascii_text u" "length u \<le> 60000"
    by (simp add: prepare_payload_def str_dict_def str_key_def sort_items_def cps_def pair_text_def clean_text clean_ascii hexed_chars)
      (simp add: str_text_def json_escape_def)
  obtain raw where "json_canonical (event_values 1 (jp_event (ij_pin j)) (prepare_payload i)) = Inr raw" "0 < length raw"
      "int (length raw) \<le> AI_MAX_BYTES"
    using event_text [OF u assms(5,6), of 1] by auto
  then show thesis using that [of raw] assms t by (simp add: next_event_def AI_MAX_EVENTS_def)
qed

lemma dispatch_event:
  assumes "valid_intent i" "ij_state j = prepared_state i" "jp_sequence (ij_pin j) < 256"
    and "clean (jp_event (ij_pin j))" "length (jp_event (ij_pin j)) = 64"
  obtains raw where "next_event (kind_payload ''DISPATCH'' (PStr (sha_hex (cbor (intent_values i))))) j
    = Inr ((prepared_state i)\<lparr>is_phase := Ph_Dispatched\<rparr>, raw)"
proof -
  let ?p = "kind_payload ''DISPATCH'' (PStr (sha_hex (cbor (intent_values i))))"
  have t: "intent_transition (prepared_state i) ?p b = Inr ((prepared_state i)\<lparr>is_phase := Ph_Dispatched\<rparr>)" for b
    using intent_encodes(1) [OF assms(1)]
    by (simp add: intent_transition_def prepared_state_def kind_payload_def sget_str_dict has_keys_str_dict intent_digest_def insert_commute)
  obtain u where u: "json_text ?p = Some u" "ascii_text u" "length u \<le> 60000"
    by (simp add: kind_payload_def str_dict_def str_key_def sort_items_def cps_def pair_text_def clean_text clean_ascii)
      (simp add: str_text_def json_escape_def)
  obtain raw where "json_canonical (event_values (Suc (jp_sequence (ij_pin j))) (jp_event (ij_pin j)) ?p) = Inr raw" "0 < length raw"
      "int (length raw) \<le> AI_MAX_BYTES"
    using event_text [OF u assms(4,5), of "Suc (jp_sequence (ij_pin j))"] assms(3) by auto
  then show thesis using that [of raw] assms t by (simp add: next_event_def AI_MAX_EVENTS_def)
qed

lemma ready_prepare:
  assumes "valid_intent i" "ready pp j" "ij_state j = empty_state" "ij_binding j = cbor (binding_value i)" "dr_events (ij_dir j) = []"
    and "clean (jp_event (ij_pin j))" "length (jp_event (ij_pin j)) = 64" "\<And>raw. follows pp j (next_pin raw j)"
  obtains j' raw where "ij_prepare pp i Appended j = (j', state_status j')" "ij_append pp (prepare_payload i) Appended j = (j', state_status j')"
    "ready pp j'" "ij_state j' = prepared_state i" "ij_binding j' = ij_binding j" "ij_pin j' = next_pin raw j"
    "jp_sequence (ij_pin j') = 1" "ij_anchor j' = None \<longleftrightarrow> ij_anchor j = None"
proof -
  have n: "jp_sequence (ij_pin j) = 0" using assms(2,5) by (simp add: ready_def)
  obtain raw where e: "next_event (prepare_payload i) j = Inr (prepared_state i, raw)"
    by (rule prepare_event [OF assms(1,3,4) n assms(6,7)])
  obtain j' where j': "ij_append pp (prepare_payload i) Appended j = (j', state_status j')" "ready pp j'" "ij_state j' = prepared_state i"
    "ij_binding j' = ij_binding j" "ij_pin j' = next_pin raw j" "ij_anchor j' = None \<longleftrightarrow> ij_anchor j = None"
    by (rule ready_append [OF assms(2) e prepare_payload_form assms(8)])
  moreover have "ij_prepare pp i Appended j = ij_append pp (prepare_payload i) Appended j"
    using assms(2-4) intent_encodes(1) [OF assms(1)] binding_encodes(1) [OF assms(1)]
    by (simp add: ij_prepare_def bindS_def empty_state_def prepare_payload_def)
  ultimately show thesis using that [of j' raw] n by (simp add: next_pin_def)
qed

lemma ready_dispatch:
  assumes "valid_intent i" "ready pp j" "ij_state j = prepared_state i" "jp_sequence (ij_pin j) < 256"
    and "clean (jp_event (ij_pin j))" "length (jp_event (ij_pin j)) = 64" "\<And>raw. follows pp j (next_pin raw j)"
  obtains j' raw where "ij_dispatch pp (sha_hex (cbor (intent_values i))) Appended j = (j', state_status j')" "ready pp j'"
    "ij_state j' = (prepared_state i)\<lparr>is_phase := Ph_Dispatched\<rparr>" "ij_binding j' = ij_binding j" "ij_pin j' = next_pin raw j"
proof -
  obtain raw where e: "next_event (kind_payload ''DISPATCH'' (PStr (sha_hex (cbor (intent_values i))))) j
      = Inr ((prepared_state i)\<lparr>is_phase := Ph_Dispatched\<rparr>, raw)"
    by (rule dispatch_event [OF assms(1,3-6)])
  obtain j' where "ij_append pp (kind_payload ''DISPATCH'' (PStr (sha_hex (cbor (intent_values i))))) Appended j = (j', state_status j')"
      "ready pp j'" "ij_state j' = (prepared_state i)\<lparr>is_phase := Ph_Dispatched\<rparr>" "ij_binding j' = ij_binding j" "ij_pin j' = next_pin raw j"
    by (rule ready_append [OF assms(2) e kind_payload_canon assms(7)])
  then show thesis using that [of j' raw] by (simp add: ij_dispatch_def)
qed

lemma state_status_intent:
  assumes "valid_intent i" "is_intent (ij_state j) = Some i"
  shows "state_status j = Inr \<lparr>ist_phase = is_phase (ij_state j), ist_digest = Some (sha_hex (cbor (intent_values i))),
    ist_operation = Some (hexed (it_operation i)), ist_receipt = is_receipt (ij_state j), ist_sequence = jp_sequence (ij_pin j)\<rparr>"
  using assms intent_encodes(1) [OF assms(1)] by (simp add: state_status_def intent_digest_def Let_def)

lemma unanchored_follows: "ij_anchor j = None \<Longrightarrow> follows pp j q"
  by (simp add: follows_def)

text \<open>C28. Every intent that the constructor accepts has an encoding, of at most 4000 bytes, and these bytes are the only ones that are
  read as that intent.\<close>

theorem intent_roundtrip:
  assumes "application_intent xs = Inr i"
  shows "\<exists>raw. intent_bytes i = Inr raw \<and> length raw \<le> 4000 \<and> (\<forall>raw'. intent_from raw' = Inr i \<longleftrightarrow> raw' = raw)"
proof -
  note v = made_valid [OF assms]
  have "raw' = cbor (intent_values i)" if "intent_from raw' = Inr i" for raw'
    using intent_from_Inr [OF that] intent_encodes(1) [OF v] by simp
  then show ?thesis using intent_encodes(1) [OF v] intent_from_bytes [OF v] intent_values_form(6) [OF v] by blast
qed

text \<open>C29. When the writes succeed, an accepted intent gets to its dispatch: it has a binding, a journal can be created for that binding,
  preparing the intent returns the state PREPARED with the digest of the intent, and dispatching that digest returns DISPATCHED as
  the second event.\<close>

theorem fresh_dispatch:
  assumes "application_intent xs = Inr i" "length g = 16"
  shows "\<exists>b j dg k s l t. intent_binding i = Inr b \<and> ij_create g b = Inr j \<and> intent_digest i = Inr dg
    \<and> ij_prepare pp i Appended j = (k, Inr s) \<and> ist_phase s = Ph_Prepared \<and> ist_digest s = Some dg
    \<and> ij_dispatch pp dg Appended k = (l, Inr t) \<and> ist_phase t = Ph_Dispatched \<and> ist_sequence t = 2"
proof -
  note v = made_valid [OF assms(1)]
  let ?b = "cbor (binding_value i)" and ?dg = "sha_hex (cbor (intent_values i))"
  obtain j where j: "ij_create g ?b = Inr j" "ready pp j" "ij_state j = empty_state" "ij_binding j = ?b" "ij_anchor j = None"
    "dr_events (ij_dir j) = []" "clean (jp_event (ij_pin j))" "length (jp_event (ij_pin j)) = 64"
    by (rule created_ready [OF binding_encodes(2,3) [OF v] assms(2)])
  obtain k raw where k: "ij_prepare pp i Appended j = (k, state_status k)" "ready pp k" "ij_state k = prepared_state i"
    "ij_pin k = next_pin raw j" "jp_sequence (ij_pin k) = 1" "ij_anchor k = None"
    using ready_prepare [OF v j(2-4,6-8) unanchored_follows [OF j(5)]] j(5) by metis
  have kp: "clean (jp_event (ij_pin k))" "length (jp_event (ij_pin k)) = 64" "jp_sequence (ij_pin k) < 256"
    using k(4,5) by (simp_all add: next_pin_def)
  obtain l raw' where l: "ij_dispatch pp ?dg Appended k = (l, state_status l)" "ready pp l"
    "ij_state l = (prepared_state i)\<lparr>is_phase := Ph_Dispatched\<rparr>" "ij_pin l = next_pin raw' k"
    by (rule ready_dispatch [OF v k(2,3) kp(3,1,2) unanchored_follows [OF k(6)]])
  obtain s where s: "state_status k = Inr s" "ist_phase s = Ph_Prepared" "ist_digest s = Some ?dg"
    using state_status_intent [OF v, of k] k(3) by (simp add: prepared_state_def)
  obtain t where t: "state_status l = Inr t" "ist_phase t = Ph_Dispatched" "ist_sequence t = 2"
    using state_status_intent [OF v, of l] l(3,4) k(5) by (simp add: prepared_state_def next_pin_def)
  have "intent_digest i = Inr ?dg" using intent_encodes(1) [OF v] by (simp add: intent_digest_def)
  then show ?thesis
    using binding_encodes(1) [OF v] j(1) k(1) [unfolded s(1)] s(2,3) l(1) [unfolded t(1)] t(2,3) by blast
qed

text \<open>C26. An operation is handed to the application at most once. Start from any handle of a journal directory and let anything
  happen that a coordinator can meet: calls to prepare, execute, inquire, retire and abandon with any arguments, appends that fail
  before, in the middle of or after the event file, closing, opening the directory again with any pin or anchor, and changes of the
  application. The operations for which \<^verbatim>\<open>apply\<close> was called are then all different, and each of them is recorded as dispatched in
  the events of the directory.\<close>

theorem applied_once:
  assumes "(intent_step pp ap)\<^sup>*\<^sup>* \<lparr>da_journal = j, da_app = a, da_applied = []\<rparr> d"
  shows "distinct (map it_operation (da_applied d))
    \<and> set (map it_operation (da_applied d)) \<subseteq> set (dispatched (ij_binding (da_journal d)) (ij_dir (da_journal d)))"
  using coordinator.reachable_keeps [OF assms] by (simp add: once_def)

text \<open>C27. A directory that is older than, or different from, what the anchor has seen is not opened. After an append to an anchored
  journal has returned, let the POSIX pin store be opened again on its file and any directory be opened against it. If that succeeds,
  the directory has the same metadata and its events begin with all the events of the journal, or a file of it is different from a
  file of the journal and has the same SHA-256 digest.\<close>

theorem rollback_refused:
  assumes "ij_append local_port payload w j = (j', Inr s)" "ij_anchor j = Some a"
    and "lp_open (ij_binding j') (lp_file (the (ij_anchor j'))) None fate = Inr a'"
    and "ij_open_anchored local_port (ij_binding j') a' d = (a'', Inr k)"
  shows "dr_meta d = dr_meta (ij_dir j') \<and> (\<exists>more. dr_events d = dr_events (ij_dir j') @ more) \<or> collides (ij_dir j') d"
proof -
  obtain b where b: "ij_anchor j' = Some b" "lp_read (ij_binding j') (lp_file b) = Inr (ij_pin j')"
    using local.append_held [OF assms(1,2)] by (auto simp: local_held_def local_port_def)
  have "lp_known a' = ij_pin j'" "lp_binding a' = ij_binding j'"
    using assms(3) b by (auto simp: lp_open_def res_simps dest!: check_binding_Inr)
  then have load: "pp_load local_port a' = Inr p \<Longrightarrow> p = ij_pin j'" for p
    by (auto simp: local_port_def lp_load_def res_simps)
  obtain pin and j2 :: "local_pins intent_journal"
    where "pp_load local_port a' = Inr pin" "ij_open (ij_binding j') pin d = Inr j2"
    using open_anchored_Inr [OF assms(4)] by metis
  then obtain r where r: "ai_reload (ij_binding j') (ij_pin j') d = Inr r"
    using load by (auto simp: ij_open_def res_simps dest!: check_binding_Inr)
  obtain j2 where "ij_audit local_port j2 = (j', Inr ())"
    using assms(1) by (auto simp: ij_append_def ij_status_def res_simps)
  note st = audit_state [OF this]
  show ?thesis by (rule reload_extends [OF st r])
qed

section \<open>A sample\<close>

definition sample_intent :: intent where
  "sample_intent = \<lparr>it_scope = [PStr (cps ''app''), PBytes (replicate 32 1), PBytes (replicate 32 2), PInt 1, PBytes (replicate 32 3), PBytes (replicate 32 4)],
     it_store = replicate 16 5, it_inbox = replicate 32 97, it_cert = sha256 [], it_operation = replicate 16 6, it_revision = 0,
     it_targets = [replicate 32 7], it_authority = replicate 32 8, it_input = replicate 32 9, it_connection = 3\<rparr>"

lemma sample_intent_valid: "valid_intent sample_intent"
  by (simp add: sample_intent_def valid_intent_def ex_scope_check_def scope_name_def name_char_def cps_def hex_char_def list_all_iff
      bytes_sized_def int_in_def)

lemmas sample_made = valid_made [OF sample_intent_valid]

theorem intent_roundtrip_witness:
  "\<exists>raw. intent_bytes sample_intent = Inr raw \<and> length raw \<le> 4000 \<and> (\<forall>raw'. intent_from raw' = Inr sample_intent \<longleftrightarrow> raw' = raw)"
  by (rule intent_roundtrip [OF sample_made])

theorem fresh_dispatch_witness:
  "\<exists>b j dg k s l t. intent_binding sample_intent = Inr b \<and> ij_create (replicate 16 0) b = Inr j \<and> intent_digest sample_intent = Inr dg
    \<and> ij_prepare local_port sample_intent Appended j = (k, Inr s) \<and> ist_phase s = Ph_Prepared \<and> ist_digest s = Some dg
    \<and> ij_dispatch local_port dg Appended k = (l, Inr t) \<and> ist_phase t = Ph_Dispatched \<and> ist_sequence t = 2"
  by (rule fresh_dispatch [OF sample_made]) simp

text \<open>A pin store whose writes succeed, and an anchored journal on it.\<close>

lemma local_follows:
  assumes "ij_anchor j = Some a" "lp_load a = Inr (ij_pin j)" "lp_binding a = ij_binding j" "lp_fate a = []"
    and "pin_ok (next_pin raw j)" "length (ij_binding j) \<le> 1000"
  shows "follows local_port j (next_pin raw j)"
proof -
  obtain fl where f: "pin_encode (ij_binding j) (next_pin raw j) = Inr fl" "lp_read (ij_binding j) fl = Inr (next_pin raw j)"
    by (rule pin_stored [OF assms(5,6)])
  have "lp_guard a = Inr ()" using assms(2) by (auto simp: lp_load_def res_simps)
  then show ?thesis
    using assms f by (simp add: follows_def local_port_def lp_advance_def lp_decide_def lp_replace_def lp_load_def lp_guard_def next_pin_def res_simps)
qed

lemma open_ready:
  assumes "ready local_port j" "check_binding (ij_binding j) = Inr (ij_binding j)" "lp_binding a = ij_binding j" "lp_load a = Inr (ij_pin j)"
  shows "ij_open_anchored local_port (ij_binding j) a (ij_dir j) = (a, Inr (j\<lparr>ij_anchor := Some a, ij_anchor_pin := ij_pin j\<rparr>))"
proof -
  have s: "sync_anchor local_port (j\<lparr>ij_anchor := Some a, ij_anchor_pin := ij_pin j\<rparr>) = (j\<lparr>ij_anchor := Some a, ij_anchor_pin := ij_pin j\<rparr>, Inr ())"
    using assms(3,4) by (simp add: sync_anchor_def local_port_def)
  have "\<not> ij_closed j" "\<not> ij_poisoned j" using assms(1) by (simp_all add: ready_def)
  then have j: "\<lparr>ij_dir = ij_dir j, ij_binding = ij_binding j, ij_state = ij_state j, ij_pin = ij_pin j, ij_closed = False, ij_poisoned = False,
      ij_anchor = Some a, ij_anchor_pin = ij_pin j\<rparr> = j\<lparr>ij_anchor := Some a, ij_anchor_pin := ij_pin j\<rparr>"
    by (cases j) simp
  have p: "pp_binding local_port a = ij_binding j" "pp_load local_port a = Inr (ij_pin j)" using assms(3,4) by (simp_all add: local_port_def)
  show ?thesis
    using s j p assms(2) ready_reload [OF assms(1)] by (simp add: ij_open_anchored_def ij_open_def)
qed

lemma anchored_ready:
  assumes "ready local_port j" "lp_binding a = ij_binding j" "lp_load a = Inr (ij_pin j)"
  shows "ready local_port (j\<lparr>ij_anchor := Some a, ij_anchor_pin := ij_pin j\<rparr>)"
  using assms by (simp add: ready_def local_port_def)

lemma opened_pins:
  assumes "check_binding b = Inr b" "lp_read b fl = Inr q"
  obtains a where "lp_open b fl None [] = Inr a" "lp_binding a = b" "lp_load a = Inr q" "lp_fate a = []"
  using assms by (simp add: lp_open_def lp_load_def lp_guard_def)

theorem rollback_refused_witness:
  "\<exists>j j' s a a' a'' k. ij_append local_port (prepare_payload sample_intent) Appended j = (j', Inr s) \<and> ij_anchor j = Some a
    \<and> lp_open (ij_binding j') (lp_file (the (ij_anchor j'))) None [] = Inr a'
    \<and> ij_open_anchored local_port (ij_binding j') a' (ij_dir j') = (a'', Inr k)
    \<and> (dr_meta (ij_dir j') = dr_meta (ij_dir j') \<and> (\<exists>more. dr_events (ij_dir j') = dr_events (ij_dir j') @ more) \<or> collides (ij_dir j') (ij_dir j'))"
proof -
  let ?b = "cbor (binding_value sample_intent)"
  note b = binding_encodes(2,3) [OF sample_intent_valid]
  obtain j0 where j0: "ready local_port j0" "ij_state j0 = empty_state" "ij_binding j0 = ?b"
    "dr_events (ij_dir j0) = []" "pin_ok (ij_pin j0)" "clean (jp_event (ij_pin j0))" "length (jp_event (ij_pin j0)) = 64"
    by (rule created_ready [OF b, of "replicate 16 0" local_port]) simp_all
  obtain fl where fl: "lp_read ?b fl = Inr (ij_pin j0)" by (rule pin_stored [OF j0(5) b(2)])
  obtain a where a: "lp_binding a = ?b" "lp_load a = Inr (ij_pin j0)" "lp_fate a = []" by (rule opened_pins [OF b(1) fl])
  let ?j = "j0\<lparr>ij_anchor := Some a, ij_anchor_pin := ij_pin j0\<rparr>"
  have r: "ready local_port ?j" using anchored_ready [OF j0(1)] a j0(3) by simp
  have "pin_ok (next_pin raw ?j)" for raw using j0(4,5) j0(1) by (simp add: pin_ok_def next_pin_def ready_def)
  then have fo: "follows local_port ?j (next_pin raw ?j)" for raw using local_follows [of ?j a raw] a b(2) j0(3) by simp
  have f: "ij_state ?j = empty_state" "ij_binding ?j = ?b" "dr_events (ij_dir ?j) = []" "clean (jp_event (ij_pin ?j))"
      "length (jp_event (ij_pin ?j)) = 64"
    using j0(2-7) by simp_all
  obtain j' where j': "ij_append local_port (prepare_payload sample_intent) Appended ?j = (j', state_status j')" "ready local_port j'"
      "ij_state j' = prepared_state sample_intent" "ij_binding j' = ?b"
    using ready_prepare [OF sample_intent_valid r f fo] f(2) by metis
  obtain s where s: "state_status j' = Inr s" using state_status_intent [OF sample_intent_valid, of j'] j'(3) by (simp add: prepared_state_def)
  note ap = j'(1) [unfolded s]
  obtain c where c: "ij_anchor j' = Some c" "lp_read ?b (lp_file c) = Inr (ij_pin j')"
    using local.append_held [OF ap, of a] j'(4) by (auto simp: local_held_def local_port_def)
  obtain a' where a': "lp_open ?b (lp_file c) None [] = Inr a'" "lp_binding a' = ?b" "lp_load a' = Inr (ij_pin j')"
    by (rule opened_pins [OF b(1) c(2)])
  have o: "ij_open_anchored local_port ?b a' (ij_dir j') = (a', Inr (j'\<lparr>ij_anchor := Some a', ij_anchor_pin := ij_pin j'\<rparr>))"
    using open_ready [OF j'(2)] b(1) a'(2,3) j'(4) by simp
  have h: "ij_anchor ?j = Some a" "lp_open (ij_binding j') (lp_file (the (ij_anchor j'))) None [] = Inr a'"
    "ij_open_anchored local_port (ij_binding j') a' (ij_dir j') = (a', Inr (j'\<lparr>ij_anchor := Some a', ij_anchor_pin := ij_pin j'\<rparr>))"
    using a'(1) c(1) j'(4) o by simp_all
  show ?thesis using rollback_refused [OF ap h] ap h by blast
qed

text \<open>An application that times out when it is asked to apply, and a run that asks it once.\<close>

definition sample_app :: "unit app_port" where
  "sample_app = \<lparr>ap_binding = \<lambda>_. intent_binding sample_intent, ap_command = \<lambda>_. Inr (), ap_arguments = \<lambda>_ _ _. Inr (),
     ap_authority = \<lambda>_ _. Inr (replicate 32 8), ap_audit = \<lambda>_. Inr (), ap_inputs = \<lambda>_ _. Inr (replicate 32 9),
     ap_scope = \<lambda>_. PList (it_scope sample_intent), ap_store = \<lambda>_. PBytes (replicate 16 5), ap_inbox = \<lambda>_. PStr (replicate 32 97),
     ap_cert = \<lambda>_. [], ap_targets = \<lambda>_. [replicate 32 7], ap_generation = \<lambda>_. 3, ap_frontier = \<lambda>_. Inr 0, ap_engine = \<lambda>_. Inr (),
     ap_inquire = \<lambda>_ _ _ _. Inr None, ap_apply = \<lambda>a _ _ _. (a, Inl (FetchError ''CORE_TIMEOUT''))\<rparr>"

definition sample_env :: call_env where
  "sample_env = \<lparr>ce_arguments = Inr (), ce_cancel = \<lambda>_. Inr (), ce_write = Appended, ce_write' = Appended\<rparr>"

lemma ready_calls:
  assumes "ready pp (da_journal d)"
  shows "on_journal (ij_audit pp) d = (d, Inr ())" and "on_journal (ij_status pp) d = (d, state_status (da_journal d))"
    and "on_journal (ij_current pp) d = (d, Inr (is_intent (ij_state (da_journal d))))"
  using assms by (simp_all add: on_journal_def ij_status_def ij_current_def bindS_def)

abbreviation sample_digest :: pystr where
  "sample_digest \<equiv> sha_hex (cbor (intent_values sample_intent))"

lemma sample_fields:
  "it_targets sample_intent = [replicate 32 7]" "it_authority sample_intent = replicate 32 8" "it_input sample_intent = replicate 32 9"
  "it_connection sample_intent = 3" "intent_digest sample_intent = Inr sample_digest"
  using intent_encodes(1) [OF sample_intent_valid] by (simp_all add: sample_intent_def intent_digest_def)

lemma sample_unchanged: "unchanged sample_app m sample_intent d = Inr ()"
  by (simp add: unchanged_def da_authority_def sample_app_def sample_fields)

lemma sample_enter:
  assumes "ready local_port (da_journal d)" "ij_binding (da_journal d) = cbor (binding_value sample_intent)"
  shows "da_enter False local_port sample_app d = (d, Inr ())"
  using ready_calls(1) [OF assms(1)] binding_encodes(1) [OF sample_intent_valid] assms(2) by (simp add: da_enter_def bindS_def sample_app_def)

lemma sample_execute:
  assumes "ready local_port k" "ij_state k = prepared_state sample_intent" "ij_binding k = cbor (binding_value sample_intent)"
    and "ij_dispatch local_port sample_digest Appended k = (l, Inr t)"
  shows "da_applied (fst (da_execute False local_port sample_app sample_digest sample_env \<lparr>da_journal = k, da_app = (), da_applied = []\<rparr>))
    = [sample_intent]"
proof -
  let ?d = "\<lparr>da_journal = k, da_app = (), da_applied = []\<rparr>" and ?e = "\<lparr>da_journal = l, da_app = (), da_applied = []\<rparr>"
  have r: "ready local_port (da_journal ?d)" using assms(1) by simp
  have ki: "is_intent (ij_state (da_journal ?d)) = Some sample_intent" using assms(2) by (simp add: prepared_state_def)
  have cur: "da_current local_port sample_app sample_digest ?d = (?d, Inr sample_intent)"
    using ready_calls(3) [OF r] ki sample_fields by (simp add: da_current_def bindS_def sample_app_def)
  obtain s where s: "state_status k = Inr s" "ist_phase s = Ph_Prepared"
    using state_status_intent [OF sample_intent_valid, of k] assms(2) by (simp add: prepared_state_def)
  have exe: "executable local_port sample_app sample_intent sample_env ?d = (?d, Inr ())"
    using ready_calls(2) [OF r] s by (simp add: executable_def bindS_def sample_env_def sample_unchanged sample_fields
        sample_app_def [THEN arg_cong [of _ _ ap_command]] sample_app_def [THEN arg_cong [of _ _ ap_generation]])
  have bef: "before_dispatch local_port sample_app sample_digest sample_env ?d = (?e, Inr ())"
    using assms(4) by (simp add: before_dispatch_def bindS_def on_journal_def sample_env_def sample_app_def)
  have "da_applied (fst (after_dispatch local_port sample_app sample_intent sample_digest sample_env ?e)) = [sample_intent]"
    by (simp add: after_dispatch_def bindS_def call_apply_def sample_unchanged sample_env_def sample_app_def [THEN arg_cong [of _ _ ap_apply]])
  moreover have "quiet (fst m) (fst (rescue local_port f m))" for f and m :: "(local_pins, unit) durable \<times> intent_result res"
    by (rule quiet_rescue) simp
  ultimately show ?thesis
    using sample_enter [of ?d] assms(1,3) cur exe bef by (simp add: da_execute_def bindS_def quiet_def)
qed

lemma sample_prepare:
  assumes "ready local_port j" "ij_state j = empty_state" "ij_binding j = cbor (binding_value sample_intent)"
    and "ij_prepare local_port sample_intent Appended j = (k, state_status k)" "ready local_port k" "ij_state k = prepared_state sample_intent"
  shows "fst (da_prepare False local_port sample_app (PBytes (replicate 16 6)) (PInt 0) sample_env \<lparr>da_journal = j, da_app = (), da_applied = []\<rparr>)
    = \<lparr>da_journal = k, da_app = (), da_applied = []\<rparr>"
proof -
  let ?d = "\<lparr>da_journal = j, da_app = (), da_applied = []\<rparr>" and ?e = "\<lparr>da_journal = k, da_app = (), da_applied = []\<rparr>"
  have r: "ready local_port (da_journal ?d)" and r': "ready local_port (da_journal ?e)" using assms(1,5) by simp_all
  have vi: "view_intent sample_app (PBytes (replicate 16 6)) (PInt 0) ?d = Inr sample_intent"
    using sample_made by (simp add: view_intent_def sample_app_def da_authority_def intent_arguments_def sample_intent_def)
  obtain s where s: "state_status k = Inr s" using state_status_intent [OF sample_intent_valid, of k] assms(6) by (simp add: prepared_state_def)
  show ?thesis
    using sample_enter [OF r] assms(2-4) vi ready_calls [OF r] ready_calls [OF r'] s
    by (simp add: da_prepare_def bindS_def empty_state_def unclaimed_def sample_app_def da_authority_def on_journal_def [of "ij_prepare _ _ _"]
        sample_env_def da_result_def sample_intent_def Let_def)
qed

lemma sample_run:
  obtains j d where "(intent_step local_port sample_app)\<^sup>*\<^sup>* \<lparr>da_journal = j, da_app = (), da_applied = []\<rparr> d" "da_applied d = [sample_intent]"
proof -
  note v = sample_intent_valid
  obtain j :: "local_pins intent_journal" where j: "ready local_port j" "ij_state j = empty_state" "ij_binding j = cbor (binding_value sample_intent)"
    "ij_anchor j = None" "dr_events (ij_dir j) = []" "clean (jp_event (ij_pin j))" "length (jp_event (ij_pin j)) = 64"
    by (rule created_ready [OF binding_encodes(2,3) [OF v], of "replicate 16 0" local_port]) simp_all
  obtain k raw where k: "ij_prepare local_port sample_intent Appended j = (k, state_status k)" "ready local_port k"
    "ij_state k = prepared_state sample_intent" "ij_binding k = ij_binding j" "ij_pin k = next_pin raw j" "jp_sequence (ij_pin k) = 1" "ij_anchor k = None"
    using ready_prepare [OF v j(1-3,5-7) unanchored_follows [OF j(4)]] j(4) by metis
  have kp: "clean (jp_event (ij_pin k))" "length (jp_event (ij_pin k)) = 64" "jp_sequence (ij_pin k) < 256"
    using k(5,6) by (simp_all add: next_pin_def)
  obtain l where l: "ij_dispatch local_port sample_digest Appended k = (l, state_status l)"
    "ij_state l = (prepared_state sample_intent)\<lparr>is_phase := Ph_Dispatched\<rparr>"
    by (rule ready_dispatch [OF v k(2,3) kp(3,1,2) unanchored_follows [OF k(7)]])
  obtain t where t: "state_status l = Inr t" using state_status_intent [OF v, of l] l(2) by (simp add: prepared_state_def)
  let ?d = "\<lparr>da_journal = j, da_app = (), da_applied = []\<rparr>" and ?e = "\<lparr>da_journal = k, da_app = (), da_applied = []\<rparr>"
  have "intent_step local_port sample_app ?d ?e" using sample_prepare [OF j(1-3) k(1-3)] intent_step.prepare by metis
  then have "(intent_step local_port sample_app)\<^sup>*\<^sup>* ?d (fst (da_execute False local_port sample_app sample_digest sample_env ?e))"
    using intent_step.execute by (meson converse_rtranclp_into_rtranclp r_into_rtranclp)
  then show thesis using that sample_execute [OF k(2,3) _ l(1) [unfolded t]] k(4) j(3) by simp
qed

theorem applied_once_witness:
  "\<exists>j d. (intent_step local_port sample_app)\<^sup>*\<^sup>* \<lparr>da_journal = j, da_app = (), da_applied = []\<rparr> d \<and> da_applied d = [sample_intent]
    \<and> distinct (map it_operation (da_applied d))
    \<and> set (map it_operation (da_applied d)) \<subseteq> set (dispatched (ij_binding (da_journal d)) (ij_dir (da_journal d)))"
proof -
  obtain j d where r: "(intent_step local_port sample_app)\<^sup>*\<^sup>* \<lparr>da_journal = j, da_app = (), da_applied = []\<rparr> d" "da_applied d = [sample_intent]"
    by (rule sample_run)
  show ?thesis using r applied_once [OF r(1)] by blast
qed

end
