(* ===== verification/Spec2Isabelle.thy ===== *)
theory Spec2Isabelle
  imports Framing Paging AuthProps Subscriptions HostProps ConnectorProps Checkpoint KeeperProps WindowHostProps SchedulerProps ControlProps FilesProps IntentProps
begin

text \<open>
  \<^bold>\<open>Peer application runtime: verified core.\<close>

  The repository holds a runtime for peer applications: a deterministic wire format, typed cryptographic objects, a space
  authority, a keeper that retains and serves objects for others, uploads with replay windows, management jobs over them, whole files as
  sealed blocks, durable application intents, connection policy, subscriptions and an event host. This development models the parts that decide, as functions
  over explicit state; what they call outside (the native crypto library, the file system, sockets, clocks, the backend of a job) is an
  argument, with what is relied on as a named predicate.

  \<^bold>\<open>How the code is represented.\<close> A Python value is a \<open>pyval\<close> (\<open>PyValue\<close>): none, bool, int, bytes, str as code points, list, dict as
  an association list in insertion order. A call that may raise is a \<open>'a res\<close> = \<open>exn + 'a\<close>; \<open>bindE\<close> sequences, \<open>need\<close> is a guard that
  raises, \<open>any_to\<close>, \<open>wire_to\<close>, \<open>crypto\<close>, \<open>file_to\<close> are the \<^verbatim>\<open>except\<close> clauses that translate errors (\<open>Prelude\<close>, \<open>Contracts\<close>). An object with
  state is a record; a method returns the record after the call together with its result, also when it raised, so that what an
  exception leaves behind is part of the model (\<open>bindS\<close> in \<open>Jobs\<close> sequences such calls). Definitions keep the names of the code; where two
  modules use one name, a prefix tells them apart (listed with each theory).

  \<^bold>\<open>Wire format\<close>, \<^verbatim>\<open>experiments/g0-wire/par_wire\<close>. \<open>Codec\<close> is \<^verbatim>\<open>codec.py\<close>, \<open>Schema\<close> and \<open>Frames\<close> are \<^verbatim>\<open>schema.py\<close> with the rule table and the
  message registry as constants, \<open>Framing\<close> is \<^verbatim>\<open>framing.py\<close>, \<open>Negotiation\<close> \<^verbatim>\<open>negotiation.py\<close>, \<open>Paging\<close> \<^verbatim>\<open>paging.py\<close>. \<open>CodecRoundtrip\<close> shows that
  encoder and decoder are inverse within their byte, node and depth budgets, that only canonical bytes decode, that only a
  \<^verbatim>\<open>WireError\<close> of twelve codes is raised and that truncated input is refused as such; the loops over elements are treated in locales that are interpreted on the code's own workers. \<open>FrameRules\<close> shows
  that the interpreter accepts exactly the frames of a declarative specification. The incremental reader agrees with
  the one-shot decoder on the whole stream for any chunking within the deadline and the batch size, delivers every such stream of frames and fails
  closed; two transcripts with one session identifier or one signed digest come from the same frames, up to a collision of the hash; the replay window never accepts a digest twice within its
  time-to-live; a completed inventory walk has the rows of its pages once each.

  \<^bold>\<open>Cryptographic objects\<close>, \<^verbatim>\<open>experiments/g0-crypto/par_crypto\<close>. \<open>Sha256\<close> and \<open>Provider\<close> are the hash, key derivation, HPKE and the provider
  adapter; the native library is the argument \<open>sodium\<close> and \<open>sodium_ok\<close> states what it promises (signatures verify, decryption
  inverts encryption, key exchange commutes, sizes), with the instance \<open>test_sodium\<close> for the witnesses. \<open>Objects\<close> is \<^verbatim>\<open>objects.py\<close>; \<open>Sealing\<close> and
  \<open>SignedObjects\<close> show that what is sealed or signed is opened or verified by the code that reads it.

  \<^bold>\<open>Space authority\<close>, \<^verbatim>\<open>experiments/space-auth/par_auth\<close>. \<open>Membership\<close>, \<open>Authority\<close> and \<open>AuthFlows\<close> are \<^verbatim>\<open>common.py\<close>, \<^verbatim>\<open>membership.py\<close>, \<^verbatim>\<open>chain.py\<close>,
  \<^verbatim>\<open>activation.py\<close>, \<^verbatim>\<open>receiver.py\<close>, \<^verbatim>\<open>admission.py\<close> and \<^verbatim>\<open>replay.py\<close>. \<open>AuthProps\<close>: a permit is accepted only while nothing it was decided on has changed, a recorded
  fork freezes the state, and an observed entry extends the one chain. \<open>Machines\<close> has the contracts these rest on (an invariant, a latch, a
  version fence) as locales.

  \<^bold>\<open>Subscriptions, event host, connections\<close>, \<^verbatim>\<open>product/wp10\<close>, \<^verbatim>\<open>product/wp09/par_connectivity\<close>. \<open>Subscriptions\<close>: delivered revisions increase and shown
  presence is fresh. \<open>EventHost\<close> and \<open>HostProps\<close>: counters and slots of the mailbox in every reachable state, every waiter is answered,
  closing settles everything. \<open>IpText\<close>, \<open>Connectivity\<close> and \<open>Connector\<close>: only addresses that a grant admits are dialled, and a
  reported connection is current and vouched for, whatever other tasks do between two steps of a call.

  \<^bold>\<open>Record lifecycle\<close>, \<^verbatim>\<open>experiments/management-record-lifecycle\<close>. \<open>RecordLifecycle\<close> is the contract, \<open>LifecycleModel\<close> the event-replayed model,
  \<open>Checkpoint\<close> the reading of JSON bytes and restoration; no record is lost by archiving and compaction, closed generations stay closed, the bytes of
  a checkpoint restore to the state they were taken from, and nothing restores behind a pin.

  \<^bold>\<open>Keeper, uploads and windows\<close>. \<open>Contracts\<close> has the checks and the signed envelope that six contract modules share; \<open>Keeper\<close> is
  \<^verbatim>\<open>par_recovery/contract.py\<close> (\<open>rc_\<close>) and \<^verbatim>\<open>par_keeper/contract.py\<close> (\<open>kc_\<close>), \<open>Upload\<close> the read service (\<open>sp_\<close>) and the upload protocol (\<open>up_\<close>),
  \<open>Window\<close> retirement (\<open>ru_\<close>) and replay windows with their archives (\<open>uw_\<close>), \<open>WindowHost\<close> the host in front of a window (\<open>wh_\<close>).
  \<open>KeeperProps\<close> and \<open>WindowHostProps\<close>: made calls are accepted and accepted calls are authentic and bound to one keeper, action, lease and
  payload; requests answer one challenge; archives are exactly their signed header and files; authorities only move forward.

  \<^bold>\<open>Management jobs and their scheduler\<close>, \<^verbatim>\<open>experiments/host-management-jobs\<close>, \<^verbatim>\<open>experiments/host-job-scheduler\<close>. \<open>Jobs\<close> (\<open>mj_\<close>, \<open>jn_\<close>) is the signed journal
  record, the journal with every outcome a write can have, and the owner's operations; the gateway behind them is a record of functions
  (\<open>job_backend\<close>). \<open>JobsProps\<close> gives an abstract machine of histories and effects and shows that every operation refines it: no effect without
  its \<^verbatim>\<open>EXECUTING\<close> marker, histories only grow, a finished job is final. \<open>Scheduler\<close> (\<open>sc_\<close>) composes the jobs with two servers; \<open>SchedulerProps\<close>: an
  effect is dispatched only while both are paused and idle.

  \<^bold>\<open>Job control\<close>, \<^verbatim>\<open>experiments/host-job-control\<close>. \<open>ControlWire\<close> (\<open>jc_\<close>) is the protocol: hello, stable intent, request, and the response with its view.
  \<open>Control\<close> (\<open>cn_\<close>) is the durable ledger of commands and its controller policy, the controller over the scheduler, and the handling of
  one request; the outcome of every write and what an observer does around the dispatch are arguments. \<open>ControlLedger\<close> has the lemmas, with
  the locale \<open>frame\<close> for what a sequence of calls leaves alone. \<open>ControlProps\<close>: no operation is dispatched twice, across crashes and restarts;
  a dispatch is authorized, recorded first and rechecked; a repeated intent is answered from its record; a replaced controller is out;
  a request is bound to its connection and its intent.

  \<^bold>\<open>Whole files\<close>, \<^verbatim>\<open>experiments/blob-store/par_blob_store/model.py\<close>, \<^verbatim>\<open>experiments/blob-manifest/par_file\<close>. \<open>Files\<close> and \<open>FilesProps\<close>: a file that is cut into
  sealed chunks reads back, and what is read is, chunk by chunk, what its manifest names.

  \<^bold>\<open>Application intents\<close>, \<^verbatim>\<open>product/wp09/par_application_intent\<close>. \<open>Json\<close> is the canonical JSON of \<^verbatim>\<open>product/wp04/contracts.py\<close> with the JSON reader, inverse to
  each other. \<open>Intents\<close> (\<open>ai_\<close>, \<open>ij_\<close>, \<open>lp_\<close>, \<open>da_\<close>) is the intent with its receipt, the append-only journal, the pin store that anchors it and the
  coordinator; the document application behind it is a record of functions (\<open>app_port\<close>) and every outcome of a write is an argument.
  \<open>IntentJournal\<close> has the lemmas: a directory determines its state, calls only append to it, its events are a chain of digests; the contract
  of a pin store is the locale \<open>pin_contract\<close>, interpreted on the POSIX store. \<open>IntentProps\<close>: no operation is handed to the application twice, an
  older or different directory does not open against a stored pin, intents and their encodings determine each other, and a fresh
  journal gets every accepted intent to its dispatch.

  \<^bold>\<open>Bounds.\<close> Loops are structural recursions or folds. The decoder and the schema interpreter carry a depth that the code carries
  too (\<open>MAX_DEPTH\<close>, 128 levels of rules); the feed loop recurses on the bytes that are left; the walk over references terminates by a measure
  on the records not yet visited. The JSON parser has the length of the text as
  fuel, which \<open>decode_canonical\<close> shows to be enough for everything that is printed. Where a result is claimed, the function is total.

  \<^bold>\<open>Not modelled.\<close> Stores on disk and in SQLite (\<^verbatim>\<open>par_store\<close>, \<^verbatim>\<open>par_auth_store\<close>, \<^verbatim>\<open>par_blob_store\<close> except its model, the keeper's store, spools and
  garbage collection), socket servers and clients, subprocess harnesses and release tools are file system, database and socket code: what
  they decide is in the contracts above, what they do is input and output. Owner threads and busy flags are checked in the code at every entry;
  here a call runs to its end, except in \<open>Connector\<close>, where other tasks may act between its steps. Rounding of float clock readings, file
  permissions and paths, and the TypeScript, JavaScript, Swift and Rust parts are left out. The migration engine (\<^verbatim>\<open>product/wp14\<close>), the exchange
  and document parts of \<^verbatim>\<open>product/wp04\<close> and the fetch owners and secure transport of \<^verbatim>\<open>product/wp09\<close> work on open files, SQLite stores and live
  sockets throughout and are not modelled.
\<close>

end
